(* ===== verification/Prelude.thy ===== *)
theory Prelude
  imports Main "HOL-Library.Word"
begin

text \<open>
  Shared vocabulary of the development.

  \<^item> \<open>wchar\<close> is the 16-bit \<open>wchar_t\<close> of the Windows targets, \<open>wstring\<close> a \<open>std::wstring\<close>; \<open>lit\<close>
    turns an ASCII literal into a wide string.
  \<^item> identifiers (\<open>DocumentId\<close>, \<open>DockPanelId\<close>, ...) and revision counters are 64-bit words; the
    identifier 0 is the reserved "none" of the code.  Sizes of containers are \<open>nat\<close>.
  \<^item> \<open>find_index\<close>, \<open>erase_at\<close>, \<open>insert_at\<close>, \<open>move_item\<close> and \<open>update_at\<close> are \<open>std::find_if\<close>,
    \<open>vector::erase\<close>, \<open>vector::insert\<close>, the erase/insert pair of the \<open>Move\<close> operations, and an
    assignment through an index.
  \<^item> the locale \<open>machine\<close> is the contract of a component whose operations keep an invariant, and
    \<open>revisioned\<close> extends it by the contract of a model with a revision counter: clients that
    snapshot the counter can detect every change made in between.
\<close>

unbundle bit_operations_syntax

type_synonym wchar = "16 word"
type_synonym wstring = "wchar list"
type_synonym u8 = "8 word"
type_synonym u32 = "32 word"
type_synonym u64 = "64 word"

definition lit :: "string \<Rightarrow> wstring" where
  "lit s = map of_char s"

named_theorems vector_simps \<open>facts on the vector operations\<close>
named_theorems preserves \<open>operations that keep the invariant of their component\<close>

lemma lit_Nil [simp]: "lit [] = []"
  by (simp add: lit_def)

lemma lit_Cons [simp]: "lit (c # cs) = of_char c # lit cs"
  by (simp add: lit_def)

lemma length_lit [simp]: "length (lit s) = length s"
  by (simp add: lit_def)

section \<open>Vector operations\<close>

fun find_index :: "('a \<Rightarrow> bool) \<Rightarrow> 'a list \<Rightarrow> nat option" where
  "find_index P [] = None"
| "find_index P (x # xs) = (if P x then Some 0 else map_option Suc (find_index P xs))"

definition erase_at :: "nat \<Rightarrow> 'a list \<Rightarrow> 'a list" where
  "erase_at i xs = take i xs @ drop (Suc i) xs"

definition insert_at :: "nat \<Rightarrow> 'a \<Rightarrow> 'a list \<Rightarrow> 'a list" where
  "insert_at i x xs = take i xs @ x # drop i xs"

definition update_at :: "nat \<Rightarrow> ('a \<Rightarrow> 'a) \<Rightarrow> 'a list \<Rightarrow> 'a list" where
  "update_at i f xs = xs[i := f (xs ! i)]"

definition move_item :: "nat \<Rightarrow> nat \<Rightarrow> 'a list \<Rightarrow> 'a list" where
  "move_item i j xs = insert_at j (xs ! i) (erase_at i xs)"

lemma find_index_Some [vector_simps]:
  "find_index P xs = Some i \<longleftrightarrow> i < length xs \<and> P (xs ! i) \<and> (\<forall>j < i. \<not> P (xs ! j))"
proof (induction xs arbitrary: i)
  case Nil
  then show ?case by simp
next
  case (Cons x xs)
  then show ?case by (cases i) (auto simp: less_Suc_eq_0_disj)
qed

lemma find_index_None [vector_simps]: "find_index P xs = None \<longleftrightarrow> (\<forall>x \<in> set xs. \<not> P x)"
  by (induction xs) auto

lemma find_indexD:
  "find_index P xs = Some i \<Longrightarrow> i < length xs"
  "find_index P xs = Some i \<Longrightarrow> P (xs ! i)"
  by (simp_all add: find_index_Some)

lemma find_index_map: "find_index P (map f xs) = find_index (P \<circ> f) xs"
  by (induction xs) auto

lemma length_erase_at [simp]: "i < length xs \<Longrightarrow> length (erase_at i xs) = length xs - 1"
  by (simp add: erase_at_def)

lemma length_insert_at [simp]: "length (insert_at i x xs) = Suc (length xs)"
  by (simp add: insert_at_def)

lemma length_update_at [simp]: "length (update_at i f xs) = length xs"
  by (simp add: update_at_def)

lemma set_insert_at [simp]: "set (insert_at i x xs) = insert x (set xs)"
proof -
  have "set (take i xs) \<union> set (drop i xs) = set xs"
    by (metis append_take_drop_id set_append)
  then show ?thesis by (auto simp: insert_at_def)
qed

lemma insert_at_nth [simp]: "i \<le> length xs \<Longrightarrow> insert_at i x xs ! i = x"
  by (simp add: insert_at_def nth_append min_def)

lemma map_insert_at: "map f (insert_at i x xs) = insert_at i (f x) (map f xs)"
  by (simp add: insert_at_def take_map drop_map)

lemma map_erase_at: "map f (erase_at i xs) = erase_at i (map f xs)"
  by (simp add: erase_at_def take_map drop_map)

lemma set_erase_at_subset: "set (erase_at i xs) \<subseteq> set xs"
  by (auto simp: erase_at_def dest: in_set_takeD in_set_dropD)

lemma distinct_insert_at [simp]: "distinct (insert_at i x xs) \<longleftrightarrow> x \<notin> set xs \<and> distinct xs"
proof -
  have "distinct (insert_at i x xs) \<longleftrightarrow> card (set (insert_at i x xs)) = length (insert_at i x xs)"
    by (metis card_distinct distinct_card)
  also have "\<dots> \<longleftrightarrow> card (set (x # xs)) = length (x # xs)" by simp
  also have "\<dots> \<longleftrightarrow> distinct (x # xs)" by (metis card_distinct distinct_card)
  finally show ?thesis by simp
qed

lemma mset_split_at: "i < length xs \<Longrightarrow> xs = take i xs @ xs ! i # drop (Suc i) xs"
  by (rule id_take_nth_drop)

lemma distinct_erase_at: "distinct xs \<Longrightarrow> distinct (erase_at i xs)"
proof (cases "i < length xs")
  case True
  assume d: "distinct xs"
  have "distinct (take i xs @ xs ! i # drop (Suc i) xs)"
    using d mset_split_at [OF True] by metis
  then show ?thesis by (simp add: erase_at_def)
next
  case False
  assume "distinct xs"
  with False show ?thesis by (simp add: erase_at_def)
qed

lemma erase_at_filter:
  assumes "distinct (map f xs)" and "i < length xs"
  shows "erase_at i xs = filter (\<lambda>x. f x \<noteq> f (xs ! i)) xs"
proof -
  let ?a = "take i xs" and ?b = "drop (Suc i) xs" and ?x = "xs ! i"
  have split: "xs = ?a @ ?x # ?b" by (rule mset_split_at [OF assms(2)])
  have d: "distinct (map f (?a @ ?x # ?b))" using assms(1) split by metis
  have a: "filter (\<lambda>y. f y \<noteq> f ?x) ?a = ?a"
    using d by (auto simp: filter_id_conv rev_image_eqI)
  have b: "filter (\<lambda>y. f y \<noteq> f ?x) ?b = ?b"
    using d by (auto simp: filter_id_conv rev_image_eqI)
  have "filter (\<lambda>y. f y \<noteq> f ?x) (?a @ ?x # ?b) = ?a @ ?b" by (simp add: a b)
  then have "filter (\<lambda>y. f y \<noteq> f ?x) xs = ?a @ ?b" using split by metis
  then show ?thesis by (simp add: erase_at_def)
qed

lemma erase_insert_at [simp]: "i \<le> length xs \<Longrightarrow> erase_at i (insert_at i x xs) = xs"
  by (simp add: erase_at_def insert_at_def min_def)

lemma insert_erase_at: "i < length xs \<Longrightarrow> insert_at i (xs ! i) (erase_at i xs) = xs"
  by (simp add: erase_at_def insert_at_def min_def id_take_nth_drop [symmetric])

lemma set_move_item:
  assumes "i < length xs" and "j < length xs"
  shows "set (move_item i j xs) = set xs"
proof -
  have "set xs = insert (xs ! i) (set (erase_at i xs))"
    by (metis assms(1) insert_erase_at set_insert_at)
  then show ?thesis by (simp add: move_item_def)
qed

lemma length_move_item [simp]:
  "i < length xs \<Longrightarrow> j < length xs \<Longrightarrow> length (move_item i j xs) = length xs"
  by (simp add: move_item_def)

lemma move_item_nth [simp]: "i < length xs \<Longrightarrow> j < length xs \<Longrightarrow> move_item i j xs ! j = xs ! i"
  by (simp add: move_item_def)

lemma map_move_item: "i < length xs \<Longrightarrow> map f (move_item i j xs) = move_item i j (map f xs)"
  by (simp add: move_item_def map_insert_at map_erase_at)

lemma distinct_move_item:
  assumes "distinct xs" and "i < length xs"
  shows "distinct (move_item i j xs)"
proof -
  have "distinct (insert_at i (xs ! i) (erase_at i xs))"
    using assms by (simp add: insert_erase_at)
  then show ?thesis by (simp add: move_item_def)
qed

lemma map_update_at:
  "(\<And>x. f (g x) = f x) \<Longrightarrow> map f (update_at i g xs) = map f xs"
  by (cases "i < length xs") (simp_all add: update_at_def map_update list_update_same_conv list_update_beyond)

lemma set_update_atD:
  assumes "y \<in> set (update_at i g xs)"
  shows "y \<in> set xs \<or> (i < length xs \<and> y = g (xs ! i))"
proof (cases "i < length xs")
  case True
  with assms show ?thesis
    by (auto simp: update_at_def dest: subsetD [OF set_update_subset_insert])
next
  case False
  with assms show ?thesis by (simp add: update_at_def list_update_beyond)
qed

lemma set_filter_key_erase:
  assumes "distinct (map f xs)" and "i < length xs"
  shows "f ` set (erase_at i xs) = f ` set xs - {f (xs ! i)}"
  using assms by (auto simp: erase_at_filter)

section \<open>Keyed vectors\<close>

text \<open>
  Vectors whose elements carry an identifier and that hold each identifier at most once:
  \<open>std::ranges::find(vector, id, &T::id)\<close> finds the element.
\<close>

definition find_key :: "('a \<Rightarrow> 'k) \<Rightarrow> 'k \<Rightarrow> 'a list \<Rightarrow> 'a option" where
  "find_key f k xs = find (\<lambda>x. f x = k) xs"

lemma find_key_Some: "find_key f k xs = Some x \<Longrightarrow> x \<in> set xs \<and> f x = k"
  by (auto simp: find_key_def find_Some_iff)

lemma find_key_None: "find_key f k xs = None \<longleftrightarrow> k \<notin> f ` set xs"
  by (auto simp: find_key_def find_None_iff)

lemma find_key_absent [simp]: "k \<notin> f ` set xs \<Longrightarrow> find_key f k xs = None"
  by (simp add: find_key_None)

lemma find_key_unique:
  "distinct (map f xs) \<Longrightarrow> x \<in> set xs \<Longrightarrow> f x = k \<Longrightarrow> find_key f k xs = Some x"
  by (induction xs) (auto simp: find_key_def)

lemma find_key_append:
  "find_key f k (xs @ ys) =
    (case find_key f k xs of None \<Rightarrow> find_key f k ys | Some x \<Rightarrow> Some x)"
  by (induction xs) (auto simp: find_key_def)

lemma find_key_Nil_Cons [simp]:
  "find_key f k [] = None"
  "find_key f k (x # xs) = (if f x = k then Some x else find_key f k xs)"
  by (simp_all add: find_key_def)

lemma find_key_find_index:
  "find_key f k xs = map_option (\<lambda>i. xs ! i) (find_index (\<lambda>x. f x = k) xs)"
  by (induction xs) (auto simp: find_key_def option.map_comp comp_def)

lemma find_index_key_nth:
  assumes "distinct (map f xs)" and "i < length xs"
  shows "find_index (\<lambda>x. f x = f (xs ! i)) xs = Some i"
  using assms by (auto simp: find_index_Some distinct_conv_nth)

section \<open>Decimal numbers\<close>

text \<open>\<open>std::to_wstring\<close> of an unsigned number.\<close>

fun digits_of :: "nat \<Rightarrow> nat list" where
  "digits_of n = (if n < 10 then [n] else digits_of (n div 10) @ [n mod 10])"

declare digits_of.simps [simp del]

definition to_wstring :: "nat \<Rightarrow> wstring" where
  "to_wstring n = map (\<lambda>d. of_char CHR ''0'' + of_nat d) (digits_of n)"

section \<open>Outcomes of callbacks\<close>

text \<open>What calling application code ends in: a value, or an exception.\<close>

datatype 'a outcome = Returns 'a | Throws

section \<open>Contracts\<close>

text \<open>
  A machine is a step function whose every operation returns a result and the next state, and an
  invariant that every operation keeps.
\<close>

fun run_ops :: "('s \<Rightarrow> 'o \<Rightarrow> 'r \<times> 's) \<Rightarrow> 's \<Rightarrow> 'o list \<Rightarrow> 's" where
  "run_ops f s [] = s"
| "run_ops f s (x # xs) = run_ops f (snd (f s x)) xs"

locale machine =
  fixes step :: "'s \<Rightarrow> 'o \<Rightarrow> 'r \<times> 's"
    and inv :: "'s \<Rightarrow> bool"
  assumes step_inv: "inv s \<Longrightarrow> inv (snd (step s x))"
begin

lemma run_inv: "inv s \<Longrightarrow> inv (run_ops step s xs)"
  by (induction xs arbitrary: s) (auto simp: step_inv)

lemma run_append: "run_ops step s (xs @ ys) = run_ops step (run_ops step s xs) ys"
  by (induction xs arbitrary: s) auto

end

text \<open>
  A revisioned machine counts its changes modulo \<open>2 ^ 64\<close>: an operation either leaves what
  \<open>view\<close> shows of the state alone and keeps the counter, or it advances the counter by one or
  two.  A client that remembers the counter therefore notices every change, as long as fewer than
  \<open>2 ^ 63\<close> operations ran in between.
\<close>

locale revisioned = machine step inv
  for step :: "'s \<Rightarrow> 'o \<Rightarrow> 'r \<times> 's" and inv :: "'s \<Rightarrow> bool" +
  fixes rev_of :: "'s \<Rightarrow> u64"
    and view :: "'s \<Rightarrow> 'v"
  assumes step_rev: "inv s \<Longrightarrow>
    rev_of (snd (step s x)) = rev_of s \<and> view (snd (step s x)) = view s
    \<or> rev_of (snd (step s x)) = rev_of s + 1
    \<or> rev_of (snd (step s x)) = rev_of s + 2"
begin

lemma run_rev_bound:
  "inv s \<Longrightarrow> \<exists>n \<le> 2 * length xs. rev_of (run_ops step s xs) = rev_of s + of_nat n \<and>
     (n = 0 \<longrightarrow> view (run_ops step s xs) = view s)"
proof (induction xs arbitrary: s)
  case Nil
  then show ?case by simp
next
  case (Cons x xs)
  let ?t = "snd (step s x)"
  from Cons.prems have "inv ?t" by (rule step_inv)
  then obtain n where n: "n \<le> 2 * length xs"
    "rev_of (run_ops step ?t xs) = rev_of ?t + of_nat n"
    "n = 0 \<longrightarrow> view (run_ops step ?t xs) = view ?t"
    using Cons.IH by blast
  from step_rev [OF Cons.prems, of x] show ?case
  proof (elim disjE conjE)
    assume "rev_of ?t = rev_of s" "view ?t = view s"
    with n show ?thesis by (intro exI [of _ n]) auto
  next
    assume "rev_of ?t = rev_of s + 1"
    with n show ?thesis by (intro exI [of _ "Suc n"]) (auto simp: algebra_simps)
  next
    assume "rev_of ?t = rev_of s + 2"
    with n show ?thesis by (intro exI [of _ "Suc (Suc n)"]) (auto simp: algebra_simps)
  qed
qed

lemma same_revision_same_view:
  assumes "inv s" and "length xs < 2 ^ 63"
    and "rev_of (run_ops step s xs) = rev_of s"
  shows "view (run_ops step s xs) = view s"
proof -
  obtain n where n: "n \<le> 2 * length xs" "rev_of (run_ops step s xs) = rev_of s + of_nat n"
    "n = 0 \<longrightarrow> view (run_ops step s xs) = view s"
    using run_rev_bound [OF assms(1)] by blast
  from n(2) assms(3) have "(of_nat n :: u64) = 0" by simp
  moreover have "n < 2 ^ LENGTH(64)" using n(1) assms(2) by simp
  ultimately have "n = 0" by (metis of_nat_inverse unat_0)
  with n(3) show ?thesis by simp
qed

end

end
