(* ===== verification/Document_State.thy ===== *)
theory Document_State
  imports Prelude
begin

text \<open>
  The single-document model (\<open>src/document.cpp\<close>, \<open>include/mwfl/document.h\<close>): a path, the name
  shown while there is none, and the dirty flag.  A \<open>std::filesystem::path\<close> is its native wide
  string; \<open>path_filename\<close> is what the Windows standard library's \<open>path::filename\<close> computes from
  it (root name, root directory, last separator).
\<close>

section \<open>Windows paths\<close>

definition is_slash :: "wchar \<Rightarrow> bool" where
  "is_slash c \<longleftrightarrow> c = of_char CHR 0x5C \<or> c = of_char CHR ''/''"

definition is_drive_letter :: "wchar \<Rightarrow> bool" where
  "is_drive_letter c \<longleftrightarrow> (of_char CHR ''A'' \<le> c \<and> c \<le> of_char CHR ''Z'')
    \<or> (of_char CHR ''a'' \<le> c \<and> c \<le> of_char CHR ''z'')"

definition root_name_length :: "wstring \<Rightarrow> nat" where
  "root_name_length p =
    (if length p < 2 then 0
     else if is_drive_letter (p ! 0) \<and> p ! 1 = of_char CHR '':'' then 2
     else if \<not> is_slash (p ! 0) then 0
     else if 4 \<le> length p \<and> is_slash (p ! 3) \<and> (length p = 4 \<or> \<not> is_slash (p ! 4)) \<and>
        (is_slash (p ! 1) \<and> (p ! 2 = of_char CHR ''?'' \<or> p ! 2 = of_char CHR ''.'')
         \<or> p ! 1 = of_char CHR ''?'' \<and> p ! 2 = of_char CHR ''?'') then 3
     else if 3 \<le> length p \<and> is_slash (p ! 1) \<and> \<not> is_slash (p ! 2)
        then 3 + length (takeWhile (\<lambda>c. \<not> is_slash c) (drop 3 p))
     else 0)"

definition path_filename :: "wstring \<Rightarrow> wstring" where
  "path_filename p =
    (let relative = dropWhile is_slash (drop (root_name_length p) p)
     in rev (takeWhile (\<lambda>c. \<not> is_slash c) (rev relative)))"

section \<open>DocumentState\<close>

datatype UnsavedChangesChoice = Unsaved_save | Unsaved_discard | Unsaved_cancel

datatype DocumentTransition = Transition_proceed | Transition_save_required | Transition_cancelled

datatype document_error = Invalid_untitled_name | Invalid_opened_path | Invalid_saved_path

record DocumentState =
  ds_path :: wstring
  ds_untitled_name :: wstring
  ds_dirty :: bool

definition DocumentState_new :: "wstring \<Rightarrow> document_error + DocumentState" where
  "DocumentState_new name =
    (if name = [] then Inl Invalid_untitled_name
     else Inr \<lparr>ds_path = [], ds_untitled_name = name, ds_dirty = False\<rparr>)"

definition DocumentState_HasPath :: "DocumentState \<Rightarrow> bool" where
  "DocumentState_HasPath d \<longleftrightarrow> ds_path d \<noteq> []"

definition DocumentState_GetDisplayName :: "DocumentState \<Rightarrow> wstring" where
  "DocumentState_GetDisplayName d =
    (if DocumentState_HasPath d then path_filename (ds_path d) else ds_untitled_name d)"

definition DocumentState_ResetUntitled :: "DocumentState \<Rightarrow> DocumentState" where
  "DocumentState_ResetUntitled d = d\<lparr>ds_path := [], ds_dirty := False\<rparr>"

definition DocumentState_MarkOpened :: "wstring \<Rightarrow> DocumentState \<Rightarrow> document_error + DocumentState" where
  "DocumentState_MarkOpened path d =
    (if path = [] then Inl Invalid_opened_path
     else Inr (d\<lparr>ds_path := path, ds_dirty := False\<rparr>))"

definition DocumentState_MarkChanged :: "DocumentState \<Rightarrow> DocumentState" where
  "DocumentState_MarkChanged d = d\<lparr>ds_dirty := True\<rparr>"

definition DocumentState_MarkSaved :: "DocumentState \<Rightarrow> DocumentState" where
  "DocumentState_MarkSaved d = d\<lparr>ds_dirty := False\<rparr>"

definition DocumentState_MarkSavedAs :: "wstring \<Rightarrow> DocumentState \<Rightarrow> document_error + DocumentState" where
  "DocumentState_MarkSavedAs path d =
    (if path = [] then Inl Invalid_saved_path
     else Inr (d\<lparr>ds_path := path, ds_dirty := False\<rparr>))"

definition DocumentState_EvaluateTransition ::
  "UnsavedChangesChoice \<Rightarrow> DocumentState \<Rightarrow> DocumentTransition" where
  "DocumentState_EvaluateTransition choice d =
    (if \<not> ds_dirty d \<or> choice = Unsaved_discard then Transition_proceed
     else if choice = Unsaved_save then Transition_save_required
     else Transition_cancelled)"

section \<open>Behaviour over a whole editing history\<close>

datatype document_op =
    Op_ResetUntitled
  | Op_MarkOpened wstring
  | Op_MarkChanged
  | Op_MarkSaved
  | Op_MarkSavedAs wstring

text \<open>One call from a client: a call that throws leaves the object as it was.\<close>

fun document_step :: "DocumentState \<Rightarrow> document_op \<Rightarrow> document_error option \<times> DocumentState" where
  "document_step d Op_ResetUntitled = (None, DocumentState_ResetUntitled d)"
| "document_step d (Op_MarkOpened p) =
    (case DocumentState_MarkOpened p d of Inl e \<Rightarrow> (Some e, d) | Inr d' \<Rightarrow> (None, d'))"
| "document_step d Op_MarkChanged = (None, DocumentState_MarkChanged d)"
| "document_step d Op_MarkSaved = (None, DocumentState_MarkSaved d)"
| "document_step d (Op_MarkSavedAs p) =
    (case DocumentState_MarkSavedAs p d of Inl e \<Rightarrow> (Some e, d) | Inr d' \<Rightarrow> (None, d'))"

lemmas document_defs =
  DocumentState_ResetUntitled_def DocumentState_MarkOpened_def DocumentState_MarkChanged_def
  DocumentState_MarkSaved_def DocumentState_MarkSavedAs_def

text \<open>What the dirty flag records: whether a change came after the last successful reset.\<close>

fun changed_since_clean :: "bool \<Rightarrow> document_op list \<Rightarrow> bool" where
  "changed_since_clean b [] = b"
| "changed_since_clean b (Op_MarkChanged # xs) = changed_since_clean True xs"
| "changed_since_clean b (Op_MarkOpened p # xs) = changed_since_clean (b \<and> p = []) xs"
| "changed_since_clean b (Op_MarkSavedAs p # xs) = changed_since_clean (b \<and> p = []) xs"
| "changed_since_clean b (Op_MarkSaved # xs) = changed_since_clean False xs"
| "changed_since_clean b (Op_ResetUntitled # xs) = changed_since_clean False xs"

lemma document_step_name [simp]: "ds_untitled_name (snd (document_step d x)) = ds_untitled_name d"
  by (cases x) (auto simp: document_defs)

interpretation document_machine: machine document_step "\<lambda>d. ds_untitled_name d \<noteq> []"
  by unfold_locales simp

lemma dirty_run: "ds_dirty (run_ops document_step d xs) = changed_since_clean (ds_dirty d) xs"
proof (induction xs arbitrary: d)
  case Nil
  then show ?case by simp
next
  case (Cons x xs)
  then show ?case by (cases x) (auto simp: document_defs)
qed

section \<open>Properties\<close>

text \<open>After any sequence of calls on a document, the transition asked for before it is closed
  or replaced depends only on whether a change happened after the last successful open, save, save-as
  or reset: without one it proceeds, otherwise the user's choice decides (save first, discard and
  proceed, or cancel).  A save-as or open with an empty path does not clear the flag.\<close>

theorem transition_follows_changes:
  "DocumentState_EvaluateTransition choice (run_ops document_step d xs) =
    (if changed_since_clean (ds_dirty d) xs
     then (case choice of Unsaved_save \<Rightarrow> Transition_save_required
             | Unsaved_discard \<Rightarrow> Transition_proceed | Unsaved_cancel \<Rightarrow> Transition_cancelled)
     else Transition_proceed)"
  by (cases choice) (simp_all add: DocumentState_EvaluateTransition_def dirty_run)

end
