(* ===== verification/Text_History.thy ===== *)
theory Text_History
  imports Prelude
begin

text \<open>
  The bounded undo history (\<open>src/text_history.cpp\<close>, \<open>include/mwfl/text_history.h\<close>): a vector of
  texts, the index of the current one, the optional index of the saved one and the capacity.
  Its abstract specification is a zipper of past texts, the present text and undone texts; the
  saved mark is specified by the text it was set on.
\<close>

record TextHistory =
  th_entries :: "wstring list"
  th_current :: nat
  th_saved :: "nat option"
  th_maximum :: nat

definition TextHistory_Reset :: "wstring \<Rightarrow> bool \<Rightarrow> TextHistory \<Rightarrow> TextHistory" where
  "TextHistory_Reset text mark_saved h =
    h\<lparr>th_entries := [text], th_current := 0, th_saved := (if mark_saved then Some 0 else None)\<rparr>"

definition TextHistory_new :: "nat \<Rightarrow> TextHistory option" where
  "TextHistory_new maximum_entries =
    (if maximum_entries < 2 then None
     else Some (TextHistory_Reset [] True
       \<lparr>th_entries = [], th_current = 0, th_saved = None, th_maximum = maximum_entries\<rparr>))"

definition TextHistory_TrimToCapacity :: "TextHistory \<Rightarrow> TextHistory" where
  "TextHistory_TrimToCapacity h =
    (if length (th_entries h) \<le> th_maximum h then h
     else let remove_count = length (th_entries h) - th_maximum h
       in h\<lparr>th_entries := drop remove_count (th_entries h),
            th_current := th_current h - remove_count,
            th_saved := (case th_saved h of None \<Rightarrow> None
              | Some k \<Rightarrow> if k < remove_count then None else Some (k - remove_count))\<rparr>)"

definition TextHistory_Record :: "wstring \<Rightarrow> TextHistory \<Rightarrow> bool \<times> TextHistory" where
  "TextHistory_Record text h =
    (if text = th_entries h ! th_current h then (False, h)
     else (True, TextHistory_TrimToCapacity
       (h\<lparr>th_entries := take (th_current h + 1) (th_entries h) @ [text],
          th_saved := (case th_saved h of None \<Rightarrow> None
            | Some k \<Rightarrow> if k > th_current h then None else Some k),
          th_current := th_current h + 1\<rparr>)))"

definition TextHistory_CanUndo :: "TextHistory \<Rightarrow> bool" where
  "TextHistory_CanUndo h \<longleftrightarrow> th_current h > 0"

definition TextHistory_CanRedo :: "TextHistory \<Rightarrow> bool" where
  "TextHistory_CanRedo h \<longleftrightarrow> th_current h + 1 < length (th_entries h)"

definition TextHistory_Undo :: "TextHistory \<Rightarrow> wstring option \<times> TextHistory" where
  "TextHistory_Undo h =
    (if \<not> TextHistory_CanUndo h then (None, h)
     else let h' = h\<lparr>th_current := th_current h - 1\<rparr>
       in (Some (th_entries h' ! th_current h'), h'))"

definition TextHistory_Redo :: "TextHistory \<Rightarrow> wstring option \<times> TextHistory" where
  "TextHistory_Redo h =
    (if \<not> TextHistory_CanRedo h then (None, h)
     else let h' = h\<lparr>th_current := th_current h + 1\<rparr>
       in (Some (th_entries h' ! th_current h'), h'))"

definition TextHistory_Current :: "TextHistory \<Rightarrow> wstring" where
  "TextHistory_Current h = th_entries h ! th_current h"

definition TextHistory_MarkSaved :: "TextHistory \<Rightarrow> TextHistory" where
  "TextHistory_MarkSaved h = h\<lparr>th_saved := Some (th_current h)\<rparr>"

definition TextHistory_IsModified :: "TextHistory \<Rightarrow> bool" where
  "TextHistory_IsModified h \<longleftrightarrow> th_saved h = None \<or> th_saved h \<noteq> Some (th_current h)"

section \<open>Invariant\<close>

definition history_wf :: "TextHistory \<Rightarrow> bool" where
  "history_wf h \<longleftrightarrow> 2 \<le> th_maximum h \<and> th_current h < length (th_entries h)
    \<and> length (th_entries h) \<le> th_maximum h
    \<and> (\<forall>k. th_saved h = Some k \<longrightarrow> k < length (th_entries h))"

datatype history_op =
    Op_Reset wstring bool
  | Op_Record wstring
  | Op_Undo
  | Op_Redo
  | Op_MarkSaved

fun history_step :: "TextHistory \<Rightarrow> history_op \<Rightarrow> unit \<times> TextHistory" where
  "history_step h (Op_Reset t m) = ((), TextHistory_Reset t m h)"
| "history_step h (Op_Record t) = ((), snd (TextHistory_Record t h))"
| "history_step h Op_Undo = ((), snd (TextHistory_Undo h))"
| "history_step h Op_Redo = ((), snd (TextHistory_Redo h))"
| "history_step h Op_MarkSaved = ((), TextHistory_MarkSaved h)"

lemmas history_defs =
  TextHistory_Reset_def TextHistory_Record_def TextHistory_Undo_def TextHistory_Redo_def
  TextHistory_MarkSaved_def TextHistory_CanUndo_def TextHistory_CanRedo_def
  TextHistory_TrimToCapacity_def

lemma history_new_wf: "TextHistory_new n = Some h \<Longrightarrow> history_wf h"
  by (auto simp: TextHistory_new_def history_wf_def TextHistory_Reset_def split: if_splits)

lemma history_wf_step [preserves]: "history_wf h \<Longrightarrow> history_wf (snd (history_step h x))"
  by (cases x) (auto simp: history_defs history_wf_def Let_def split: option.splits if_splits)

interpretation history_machine: machine history_step history_wf
  by unfold_locales (rule history_wf_step)

section \<open>The zipper specification\<close>

record history_zipper =
  past :: "wstring list"
  present :: wstring
  future :: "wstring list"

definition history_abs :: "TextHistory \<Rightarrow> history_zipper" where
  "history_abs h = \<lparr>past = rev (take (th_current h) (th_entries h)),
     present = th_entries h ! th_current h,
     future = drop (Suc (th_current h)) (th_entries h)\<rparr>"

definition zipper_record :: "nat \<Rightarrow> wstring \<Rightarrow> history_zipper \<Rightarrow> history_zipper" where
  "zipper_record capacity t z =
    (if t = present z then z
     else \<lparr>past = take (capacity - 1) (present z # past z), present = t, future = []\<rparr>)"

fun zipper_undo :: "history_zipper \<Rightarrow> history_zipper" where
  "zipper_undo z = (case past z of [] \<Rightarrow> z
     | t # ts \<Rightarrow> \<lparr>past = ts, present = t, future = present z # future z\<rparr>)"

fun zipper_redo :: "history_zipper \<Rightarrow> history_zipper" where
  "zipper_redo z = (case future z of [] \<Rightarrow> z
     | t # ts \<Rightarrow> \<lparr>past = present z # past z, present = t, future = ts\<rparr>)"

lemma abs_undo:
  assumes "history_wf h"
  shows "history_abs (snd (TextHistory_Undo h)) = zipper_undo (history_abs h)"
proof (cases "th_current h")
  case 0
  then show ?thesis by (simp add: TextHistory_Undo_def TextHistory_CanUndo_def history_abs_def)
next
  case (Suc k)
  with assms show ?thesis
    by (simp add: TextHistory_Undo_def TextHistory_CanUndo_def history_abs_def history_wf_def
        take_Suc_conv_app_nth Cons_nth_drop_Suc)
qed

lemma abs_redo:
  assumes "history_wf h"
  shows "history_abs (snd (TextHistory_Redo h)) = zipper_redo (history_abs h)"
proof (cases "TextHistory_CanRedo h")
  case False
  then have "drop (Suc (th_current h)) (th_entries h) = []" by (simp add: TextHistory_CanRedo_def)
  with False show ?thesis by (simp add: TextHistory_Redo_def history_abs_def)
next
  case True
  then have l: "Suc (th_current h) < length (th_entries h)" by (simp add: TextHistory_CanRedo_def)
  with True assms show ?thesis
    by (simp add: TextHistory_Redo_def history_abs_def history_wf_def
        take_Suc_conv_app_nth Cons_nth_drop_Suc [symmetric])
qed

lemma abs_record:
  assumes "history_wf h"
  shows "history_abs (snd (TextHistory_Record t h)) = zipper_record (th_maximum h) t (history_abs h)"
proof -
  let ?c = "th_current h" and ?e = "th_entries h" and ?m = "th_maximum h"
  have wf: "2 \<le> ?m" "?c < length ?e" "length ?e \<le> ?m" using assms by (auto simp: history_wf_def)
  have tk: "take (Suc ?c) ?e = take ?c ?e @ [?e ! ?c]" using wf by (simp add: take_Suc_conv_app_nth)
  show ?thesis
  proof (cases "Suc ?c = ?m")
    case True
    then have "length ?e = Suc ?c" using wf by simp
    then obtain a b where e: "?e = a @ [b]" and la: "length a = ?c"
      by (metis length_Suc_conv_rev)
    obtain x a' where c: "a = x # a'" using True wf la by (cases a) auto
    have cap: "?m - Suc 0 = length a" using True la by simp
    have d: "rev (drop (Suc 0) a) = take (length a - Suc 0) (rev a)"
      by (simp add: rev_drop)
    show ?thesis using True cap d
      by (cases "t = b") (auto simp: TextHistory_Record_def TextHistory_TrimToCapacity_def
          history_abs_def zipper_record_def e la [symmetric] c Let_def nth_append)
  next
    case False
    then show ?thesis using wf
      by (auto simp: TextHistory_Record_def TextHistory_TrimToCapacity_def history_abs_def
          zipper_record_def tk Let_def nth_append)
  qed
qed

section \<open>The saved mark\<close>

text \<open>
  \<open>saved_text\<close> follows the calls with a specification of the mark: the text that was current when
  \<open>MarkSaved\<close> was last called, or that a \<open>Reset\<close> marked.
\<close>

fun saved_text :: "wstring option \<Rightarrow> TextHistory \<Rightarrow> history_op list \<Rightarrow> wstring option" where
  "saved_text g h [] = g"
| "saved_text g h (Op_MarkSaved # xs) =
    saved_text (Some (TextHistory_Current h)) (snd (history_step h Op_MarkSaved)) xs"
| "saved_text g h (Op_Reset t m # xs) =
    saved_text (if m then Some t else None) (snd (history_step h (Op_Reset t m))) xs"
| "saved_text g h (x # xs) = saved_text g (snd (history_step h x)) xs"

definition mark_agrees :: "wstring option \<Rightarrow> TextHistory \<Rightarrow> bool" where
  "mark_agrees g h \<longleftrightarrow> (\<forall>k. th_saved h = Some k \<longrightarrow> g = Some (th_entries h ! k))"

lemma mark_agrees_move: "mark_agrees g h \<Longrightarrow> mark_agrees g (h\<lparr>th_current := i\<rparr>)"
  by (simp add: mark_agrees_def)

lemma mark_agrees_record:
  assumes "history_wf h" "mark_agrees g h"
  shows "mark_agrees g (snd (TextHistory_Record t h))"
  using assms
  by (auto simp: TextHistory_Record_def TextHistory_TrimToCapacity_def mark_agrees_def
      history_wf_def Let_def nth_append min_def split: option.splits if_splits)

lemma mark_agrees_run:
  "history_wf h \<Longrightarrow> mark_agrees g h \<Longrightarrow> mark_agrees (saved_text g h xs) (run_ops history_step h xs)"
proof (induction xs arbitrary: g h)
  case Nil
  then show ?case by simp
next
  case (Cons x xs)
  have wf: "history_wf (snd (history_step h x))" using Cons.prems(1) by (rule history_wf_step)
  show ?case
  proof (cases x)
    case (Op_Reset t m)
    then show ?thesis using Cons.IH [OF wf]
      by (auto simp: mark_agrees_def TextHistory_Reset_def)
  next
    case (Op_Record t)
    then show ?thesis using Cons.IH [OF wf] mark_agrees_record [OF Cons.prems] by simp
  next
    case Op_Undo
    then show ?thesis using Cons.IH [OF wf] Cons.prems(2) mark_agrees_move
      by (auto simp: TextHistory_Undo_def Let_def)
  next
    case Op_Redo
    then show ?thesis using Cons.IH [OF wf] Cons.prems(2) mark_agrees_move
      by (auto simp: TextHistory_Redo_def Let_def)
  next
    case Op_MarkSaved
    then show ?thesis using Cons.IH [OF wf]
      by (auto simp: mark_agrees_def TextHistory_MarkSaved_def TextHistory_Current_def)
  qed
qed

lemma unmodified_current:
  "mark_agrees g h \<Longrightarrow> \<not> TextHistory_IsModified h \<Longrightarrow> g = Some (TextHistory_Current h)"
  by (auto simp: mark_agrees_def TextHistory_IsModified_def TextHistory_Current_def)

section \<open>Properties\<close>

definition zipper_initial :: history_zipper where
  "zipper_initial = \<lparr>past = [], present = [], future = []\<rparr>"

fun zipper_step :: "nat \<Rightarrow> history_zipper \<Rightarrow> history_op \<Rightarrow> unit \<times> history_zipper" where
  "zipper_step n z (Op_Reset t m) = ((), \<lparr>past = [], present = t, future = []\<rparr>)"
| "zipper_step n z (Op_Record t) = ((), zipper_record n t z)"
| "zipper_step n z Op_Undo = ((), zipper_undo z)"
| "zipper_step n z Op_Redo = ((), zipper_redo z)"
| "zipper_step n z Op_MarkSaved = ((), z)"

lemma maximum_step [simp]: "th_maximum (snd (history_step h x)) = th_maximum h"
  by (cases x) (auto simp: history_defs Let_def)

lemma abs_step:
  "history_wf h \<Longrightarrow>
    history_abs (snd (history_step h x)) = snd (zipper_step (th_maximum h) (history_abs h) x)"
  by (cases x) (simp_all add: abs_undo abs_redo abs_record,
    simp_all add: history_abs_def TextHistory_Reset_def TextHistory_MarkSaved_def)

lemma abs_run:
  "history_wf h \<Longrightarrow>
    history_abs (run_ops history_step h xs) = run_ops (zipper_step (th_maximum h)) (history_abs h) xs"
  by (induction xs arbitrary: h) (simp_all add: history_wf_step abs_step)

lemma new_history:
  assumes "TextHistory_new n = Some h"
  shows "th_maximum h = n" "history_abs h = zipper_initial" "mark_agrees (Some []) h"
  using assms by (auto simp: TextHistory_new_def TextHistory_Reset_def history_abs_def
      zipper_initial_def mark_agrees_def split: if_splits)

text \<open>C13: The bounded undo history is a zipper of texts.  For every sequence of calls on a new
  history, its entries and index represent exactly the past, present and undone texts that the zipper
  specification computes: recording pushes the present text and drops the undone ones, keeps at most
  the capacity minus one past texts and ignores an unchanged text; undo and redo move one step and do
  nothing at the ends.\<close>

theorem history_is_zipper:
  assumes "TextHistory_new n = Some h"
  shows "history_abs (run_ops history_step h xs) = run_ops (zipper_step n) zipper_initial xs"
  using abs_run [OF history_new_wf [OF assms]] new_history [OF assms] by simp

theorem history_is_zipper_witness:
  "history_abs (run_ops history_step (the (TextHistory_new 2)) [Op_Record [1], Op_Record [2], Op_Undo])
    = \<lparr>past = [], present = [1], future = [[2]]\<rparr>"
proof -
  have "TextHistory_new 2 = Some (the (TextHistory_new 2))" by (simp add: TextHistory_new_def)
  from history_is_zipper [OF this, of "[Op_Record [1], Op_Record [2], Op_Undo]"] show ?thesis
    by (simp add: zipper_record_def zipper_initial_def)
qed

text \<open>An unmodified history shows the saved text.  After any sequence of calls on a new history,
  whenever \<open>IsModified\<close> is false the current text is the one that was current when the last
  \<open>MarkSaved\<close> (or marking \<open>Reset\<close>) ran, however far undo, redo, truncation of the redo branch and
  trimming to the capacity moved the saved index in between.\<close>

theorem unmodified_shows_saved_text:
  assumes "TextHistory_new n = Some h"
    and "\<not> TextHistory_IsModified (run_ops history_step h xs)"
  shows "saved_text (Some []) h xs = Some (TextHistory_Current (run_ops history_step h xs))"
  using unmodified_current [OF mark_agrees_run assms(2)] history_new_wf [OF assms(1)]
    new_history(3) [OF assms(1)] by simp

theorem unmodified_shows_saved_text_witness:
  "saved_text (Some []) (the (TextHistory_new 3)) [Op_Record [1], Op_MarkSaved, Op_Record [2], Op_Undo]
    = Some (TextHistory_Current (run_ops history_step (the (TextHistory_new 3))
        [Op_Record [1], Op_MarkSaved, Op_Record [2], Op_Undo]))"
  by (rule unmodified_shows_saved_text [of 3]) code_simp+

end
