(* ===== verification/Text_Search.thy ===== *)
theory Text_Search
  imports Prelude
begin

text \<open>
  Literal text search (\<open>src/text_search.cpp\<close>, \<open>include/mwfl/text_search.h\<close>).  \<open>towlower\<close> and
  \<open>iswalnum\<close> depend on the C locale of the process, so their tables are the fields of a
  \<open>wctype\<close> record that every definition takes.  Offsets are \<open>size_t\<close> values: the sum
  \<open>offset + query.size()\<close> wraps at \<open>2 ^ 64\<close>, and a read past the end of the text is \<open>None\<close>.
  Inside \<open>FindTextMatch\<close> the offset is at most the size of the text; two views that both lie in
  memory have less than \<open>2 ^ 64\<close> units together, so its own loop condition does not wrap.
\<close>

record wctype =
  towlower :: "wchar \<Rightarrow> wchar"
  iswalnum :: "wchar \<Rightarrow> bool"

record TextSearchOptions =
  match_case :: bool
  whole_word :: bool
  backwards :: bool

definition IsWordCharacter :: "wctype \<Rightarrow> wchar \<Rightarrow> bool" where
  "IsWordCharacter ct c \<longleftrightarrow> iswalnum ct c \<or> c = of_char CHR ''_''"

definition read_unit :: "wstring \<Rightarrow> nat \<Rightarrow> wchar option" where
  "read_unit str i = (if i < length str then Some (str ! i) else None)"

definition add_size :: "nat \<Rightarrow> nat \<Rightarrow> nat" where
  "add_size a b = (a + b) mod 2 ^ 64"

lemma add_size_code [code]: "add_size a b = nat ((int a + int b) mod 2 ^ 64)"
  by (simp add: add_size_def nat_mod_distrib nat_add_distrib)

definition same_unit :: "wctype \<Rightarrow> TextSearchOptions \<Rightarrow> wchar \<Rightarrow> wchar \<Rightarrow> bool" where
  "same_unit ct opts l r \<longleftrightarrow> (if match_case opts then l = r else towlower ct l = towlower ct r)"

fun match_loop :: "wctype \<Rightarrow> TextSearchOptions \<Rightarrow> wstring \<Rightarrow> nat \<Rightarrow> nat \<Rightarrow> wstring \<Rightarrow> bool option" where
  "match_loop ct opts str offset index [] = Some True"
| "match_loop ct opts str offset index (r # rs) =
    (case read_unit str (add_size offset index) of None \<Rightarrow> None
     | Some l \<Rightarrow> if same_unit ct opts l r then match_loop ct opts str offset (Suc index) rs
        else Some False)"

definition TextMatchesAt :: "wctype \<Rightarrow> wstring \<Rightarrow> wstring \<Rightarrow> nat \<Rightarrow> TextSearchOptions \<Rightarrow> bool option" where
  "TextMatchesAt ct str query offset opts =
    (if query = [] \<or> add_size offset (length query) > length str then Some False
     else case match_loop ct opts str offset 0 query of
       None \<Rightarrow> None
     | Some False \<Rightarrow> Some False
     | Some True \<Rightarrow>
        if \<not> whole_word opts then Some True
        else if offset \<noteq> 0 \<and> IsWordCharacter ct (str ! (offset - 1)) then Some False
        else if add_size offset (length query) = length str then Some True
        else Some (\<not> IsWordCharacter ct (str ! add_size offset (length query))))"

function find_forward ::
  "wctype \<Rightarrow> wstring \<Rightarrow> wstring \<Rightarrow> TextSearchOptions \<Rightarrow> nat \<Rightarrow> nat option" where
  "find_forward ct str query opts offset =
    (if offset + length query \<le> length str then
       (if TextMatchesAt ct str query offset opts = Some True then Some offset
        else find_forward ct str query opts (Suc offset))
     else None)"
  by pat_completeness auto
termination
  by (relation "measure (\<lambda>(ct, str, query, opts, offset). Suc (length str) - offset)") auto

declare find_forward.simps [simp del]

fun find_backward ::
  "wctype \<Rightarrow> wstring \<Rightarrow> wstring \<Rightarrow> TextSearchOptions \<Rightarrow> nat \<Rightarrow> nat option" where
  "find_backward ct str query opts 0 = None"
| "find_backward ct str query opts (Suc offset) =
    (if TextMatchesAt ct str query offset opts = Some True then Some offset
     else find_backward ct str query opts offset)"

definition FindTextMatch ::
  "wctype \<Rightarrow> wstring \<Rightarrow> wstring \<Rightarrow> nat \<Rightarrow> TextSearchOptions \<Rightarrow> nat option" where
  "FindTextMatch ct str query start opts =
    (if query = [] then None
     else if \<not> backwards opts then find_forward ct str query opts (min start (length str))
     else find_backward ct str query opts (min start (length str)))"

lemma least_step:
  "\<not> P o1 \<Longrightarrow> (o1 \<le> m \<and> Q m \<and> P m \<and> (\<forall>k. o1 \<le> k \<and> k < m \<longrightarrow> \<not> P k)) \<longleftrightarrow>
    (Suc o1 \<le> m \<and> Q m \<and> P m \<and> (\<forall>k. Suc o1 \<le> k \<and> k < m \<longrightarrow> \<not> P k))" for o1 :: nat
  by (metis Suc_leD Suc_leI le_neq_implies_less)

lemma find_forward_Some:
  "find_forward ct str query opts o1 = Some m \<longleftrightarrow>
    o1 \<le> m \<and> m + length query \<le> length str
    \<and> TextMatchesAt ct str query m opts = Some True
    \<and> (\<forall>k. o1 \<le> k \<and> k < m \<longrightarrow> TextMatchesAt ct str query k opts \<noteq> Some True)"
proof (induction ct str query opts o1 rule: find_forward.induct)
  case (1 ct str query opts o1)
  note unfold = find_forward.simps [of ct str query opts o1]
  show ?case
  proof (cases "o1 + length query \<le> length str")
    case False
    then show ?thesis unfolding unfold by auto
  next
    case fits: True
    show ?thesis
    proof (cases "TextMatchesAt ct str query o1 opts = Some True")
      case True
      with fits show ?thesis unfolding unfold by (auto simp: le_less)
    next
      case False
      then have "find_forward ct str query opts o1 = find_forward ct str query opts (Suc o1)"
        using fits unfold by simp
      then show ?thesis
        using "1.IH" [OF fits False]
          least_step [of "\<lambda>k. TextMatchesAt ct str query k opts = Some True" o1 m
            "\<lambda>m. m + length query \<le> length str", OF False] by simp
    qed
  qed
qed

lemma find_backward_Some:
  "find_backward ct str query opts n = Some m \<longleftrightarrow>
    m < n \<and> TextMatchesAt ct str query m opts = Some True
    \<and> (\<forall>k. m < k \<and> k < n \<longrightarrow> TextMatchesAt ct str query k opts \<noteq> Some True)"
  by (induction n) (auto simp: less_Suc_eq)

text \<open>\<open>text.replace(pos, n, replacement)\<close> and the loop of \<open>ReplaceAllText\<close>.\<close>

definition replace_text :: "nat \<Rightarrow> nat \<Rightarrow> wstring \<Rightarrow> wstring \<Rightarrow> wstring" where
  "replace_text pos n replacement str = take pos str @ replacement @ drop (pos + n) str"

lemma find_match_bounds:
  assumes "FindTextMatch ct str query start opts = Some m" "\<not> backwards opts"
  shows "min start (length str) \<le> m" "m + length query \<le> length str" "query \<noteq> []"
  using assms by (auto simp: FindTextMatch_def find_forward_Some split: if_splits)

function replace_loop ::
  "wctype \<Rightarrow> wstring \<Rightarrow> wstring \<Rightarrow> TextSearchOptions \<Rightarrow> wstring \<Rightarrow> nat \<Rightarrow> nat \<Rightarrow> nat \<times> wstring" where
  "replace_loop ct query replacement opts str offset count =
    (case FindTextMatch ct str query offset (opts\<lparr>backwards := False\<rparr>) of
       None \<Rightarrow> (count, str)
     | Some m \<Rightarrow> replace_loop ct query replacement opts
         (replace_text m (length query) replacement str) (m + length replacement) (Suc count))"
  by pat_completeness auto
termination
proof (relation "measure (\<lambda>(ct, query, replacement, opts, str, offset, count). length str - offset)",
    simp, clarsimp)
  fix ct :: wctype and query replacement str :: wstring and opts :: TextSearchOptions
    and offset m :: nat
  assume "FindTextMatch ct str query offset (opts\<lparr>backwards := False\<rparr>) = Some m"
  from find_match_bounds [OF this]
  show "length (replace_text m (length query) replacement str) - (m + length replacement)
      < length str - offset"
    by (cases query) (auto simp: replace_text_def min_def split: if_splits)
qed

declare replace_loop.simps [simp del]

definition ReplaceAllText ::
  "wctype \<Rightarrow> wstring \<Rightarrow> wstring \<Rightarrow> wstring \<Rightarrow> TextSearchOptions \<Rightarrow> nat \<times> wstring" where
  "ReplaceAllText ct str query replacement opts = replace_loop ct query replacement opts str 0 0"

section \<open>Specification\<close>

text \<open>An occurrence of the query at an offset, written without the loops of the code.\<close>

definition occurs_at :: "wctype \<Rightarrow> TextSearchOptions \<Rightarrow> wstring \<Rightarrow> wstring \<Rightarrow> nat \<Rightarrow> bool" where
  "occurs_at ct opts str query m \<longleftrightarrow>
    query \<noteq> [] \<and> m + length query \<le> length str
    \<and> list_all2 (same_unit ct opts) (take (length query) (drop m str)) query
    \<and> (whole_word opts \<longrightarrow>
        (\<forall>c. m \<noteq> 0 \<and> c = str ! (m - 1) \<longrightarrow> \<not> IsWordCharacter ct c)
        \<and> (\<forall>c. m + length query < length str \<and> c = str ! (m + length query)
             \<longrightarrow> \<not> IsWordCharacter ct c))"

lemma match_loop_in_range:
  "offset + index + length rs \<le> length str \<Longrightarrow> length str < 2 ^ 64 \<Longrightarrow>
   match_loop ct opts str offset index rs =
     Some (list_all2 (same_unit ct opts) (take (length rs) (drop (offset + index) str)) rs)"
proof (induction rs arbitrary: index)
  case Nil
  then show ?case by simp
next
  case (Cons r rs)
  then have i: "offset + index < length str" "add_size offset index = offset + index"
    by (auto simp: add_size_def)
  then have d: "drop (offset + index) str = str ! (offset + index) # drop (Suc (offset + index)) str"
    by (simp add: Cons_nth_drop_Suc)
  from Cons.IH [of "Suc index"] Cons.prems i d show ?case
    by (auto simp: read_unit_def)
qed

lemma matches_iff_occurs:
  assumes "length str < 2 ^ 64" "m + length query < 2 ^ 64"
  shows "TextMatchesAt ct str query m opts = Some (occurs_at ct opts str query m)"
proof (cases "query = [] \<or> m + length query > length str")
  case True
  then show ?thesis using assms by (auto simp: TextMatchesAt_def occurs_at_def add_size_def)
next
  case False
  then have "match_loop ct opts str m 0 query =
      Some (list_all2 (same_unit ct opts) (take (length query) (drop m str)) query)"
    using match_loop_in_range [of m 0 query str] assms by simp
  with False assms show ?thesis
    by (auto simp: TextMatchesAt_def occurs_at_def add_size_def split: bool.splits)
qed

lemma find_matches_occurs:
  assumes "length str + length query < 2 ^ 64" "m \<le> length str"
  shows "TextMatchesAt ct str query m opts = Some True \<longleftrightarrow> occurs_at ct opts str query m"
  using matches_iff_occurs [of str m query] assms by simp

lemma replace_loop_final:
  "replace_loop ct query replacement opts str offset count = (n, result) \<Longrightarrow>
    count \<le> n \<and> length result + (n - count) * length query
      = length str + (n - count) * length replacement"
proof (induction ct query replacement opts str offset count arbitrary: n result
    rule: replace_loop.induct)
  case (1 ct query replacement opts str offset count)
  show ?case
  proof (cases "FindTextMatch ct str query offset (opts\<lparr>backwards := False\<rparr>)")
    case None
    with 1 show ?thesis by (simp add: replace_loop.simps [of _ _ _ _ _ offset count])
  next
    case (Some m)
    let ?t = "replace_text m (length query) replacement str"
    have b: "m + length query \<le> length str" using find_match_bounds [OF Some] by simp
    have "replace_loop ct query replacement opts ?t (m + length replacement) (Suc count) = (n, result)"
      using "1.prems" Some by (simp add: replace_loop.simps [of _ _ _ _ _ offset count])
    then have ih: "Suc count \<le> n" "length result + (n - Suc count) * length query
        = length ?t + (n - Suc count) * length replacement"
      using "1.IH" [OF Some] by auto
    have lt: "length ?t + length query = length str + length replacement"
      using b by (simp add: replace_text_def)
    have nc: "n - count = Suc (n - Suc count)" using ih(1) by simp
    show ?thesis using ih lt unfolding nc by simp
  qed
qed

section \<open>Replacing as a recursive function\<close>

text \<open>
  Without the whole-word option, \<open>ReplaceAllText\<close> is the textbook recursion over the text: where the
  query matches a prefix, emit the replacement and go on behind the match, otherwise copy one unit.
\<close>

definition prefix_matches :: "wctype \<Rightarrow> TextSearchOptions \<Rightarrow> wstring \<Rightarrow> wstring \<Rightarrow> bool" where
  "prefix_matches ct opts query str \<longleftrightarrow>
    length query \<le> length str \<and> list_all2 (same_unit ct opts) (take (length query) str) query"

function replace_ref ::
  "wctype \<Rightarrow> TextSearchOptions \<Rightarrow> wstring \<Rightarrow> wstring \<Rightarrow> wstring \<Rightarrow> nat \<times> wstring" where
  "replace_ref ct opts query replacement str =
    (if query \<noteq> [] \<and> prefix_matches ct opts query str then
       (case replace_ref ct opts query replacement (drop (length query) str) of
          (n, r) \<Rightarrow> (Suc n, replacement @ r))
     else case str of [] \<Rightarrow> (0, [])
       | c # cs \<Rightarrow> (case replace_ref ct opts query replacement cs of (n, r) \<Rightarrow> (n, c # r)))"
  by pat_completeness auto
termination
  by (relation "measure (\<lambda>(ct, opts, query, replacement, str). length str)")
    (auto simp: prefix_matches_def neq_Nil_conv)

declare replace_ref.simps [simp del]

lemma replace_ref_none:
  "(\<And>j. j \<le> length rest \<Longrightarrow> \<not> prefix_matches ct opts query (drop j rest)) \<Longrightarrow>
    replace_ref ct opts query replacement rest = (0, rest)"
proof (induction rest)
  case Nil
  from Nil [of 0] show ?case by (simp add: replace_ref.simps)
next
  case (Cons c cs)
  have "\<not> prefix_matches ct opts query (drop j cs)" if "j \<le> length cs" for j
    using Cons.prems [of "Suc j"] that by simp
  then have "replace_ref ct opts query replacement cs = (0, cs)" by (rule Cons.IH)
  with Cons.prems [of 0] show ?case by (subst replace_ref.simps) simp
qed

lemma replace_ref_first:
  "query \<noteq> [] \<Longrightarrow> prefix_matches ct opts query (drop k rest) \<Longrightarrow>
   (\<And>j. j < k \<Longrightarrow> \<not> prefix_matches ct opts query (drop j rest)) \<Longrightarrow>
    replace_ref ct opts query replacement rest =
      (case replace_ref ct opts query replacement (drop (k + length query) rest) of
         (n, r) \<Rightarrow> (Suc n, take k rest @ replacement @ r))"
proof (induction k arbitrary: rest)
  case 0
  then show ?case by (subst replace_ref.simps) (simp split: prod.splits)
next
  case (Suc k)
  then obtain c cs where rest: "rest = c # cs"
    by (cases rest) (auto simp: prefix_matches_def)
  have "\<not> prefix_matches ct opts query (drop j cs)" if "j < k" for j
    using Suc.prems(3) [of "Suc j"] that rest by simp
  with Suc have "replace_ref ct opts query replacement cs =
      (case replace_ref ct opts query replacement (drop (k + length query) cs) of
         (n, r) \<Rightarrow> (Suc n, take k cs @ replacement @ r))" by (simp add: rest)
  moreover have "replace_ref ct opts query replacement rest =
      (case replace_ref ct opts query replacement cs of (n, r) \<Rightarrow> (n, c # r))"
    using Suc.prems(3) [of 0] rest by (subst replace_ref.simps) simp
  ultimately show ?case by (simp add: rest split: prod.splits)
qed

lemma find_text_match_Some:
  assumes "length str + length query < 2 ^ 64"
  shows "FindTextMatch ct str query start opts = Some m \<longleftrightarrow>
    occurs_at ct opts str query m \<and>
    (if backwards opts
     then m < start \<and> (\<forall>k. m < k \<and> k < start \<longrightarrow> \<not> occurs_at ct opts str query k)
     else start \<le> m \<and> (\<forall>k. start \<le> k \<and> k < m \<longrightarrow> \<not> occurs_at ct opts str query k))"
proof -
  have fits: "occurs_at ct opts str query k \<Longrightarrow> k < length str \<and> k + length query \<le> length str" for k
    by (cases query) (auto simp: occurs_at_def)
  have m: "k \<le> length str \<Longrightarrow>
      TextMatchesAt ct str query k opts = Some True \<longleftrightarrow> occurs_at ct opts str query k" for k
    using assms by (rule find_matches_occurs)
  show ?thesis
  proof (cases "query = []")
    case True
    then show ?thesis by (auto simp: FindTextMatch_def occurs_at_def)
  next
    case q: False
    show ?thesis
    proof (cases "backwards opts")
      case True
      then have "FindTextMatch ct str query start opts = Some m \<longleftrightarrow>
          m < min start (length str) \<and> occurs_at ct opts str query m \<and>
          (\<forall>k. m < k \<and> k < min start (length str) \<longrightarrow> \<not> occurs_at ct opts str query k)"
        using q by (auto simp: FindTextMatch_def find_backward_Some m)
      then show ?thesis using True fits by (metis min_less_iff_conj)
    next
      case False
      then have "FindTextMatch ct str query start opts = Some m \<longleftrightarrow>
          min start (length str) \<le> m \<and> m + length query \<le> length str \<and> occurs_at ct opts str query m \<and>
          (\<forall>k. min start (length str) \<le> k \<and> k < m \<longrightarrow> \<not> occurs_at ct opts str query k)"
        using q by (auto simp: FindTextMatch_def find_forward_Some m)
      also have "\<dots> \<longleftrightarrow> occurs_at ct opts str query m \<and> start \<le> m
          \<and> (\<forall>k. start \<le> k \<and> k < m \<longrightarrow> \<not> occurs_at ct opts str query k)"
        using fits [of m] by (cases "start \<le> length str") (auto simp: min_def)
      finally show ?thesis using False by simp
    qed
  qed
qed

lemma same_unit_direction [simp]: "same_unit ct (opts\<lparr>backwards := b\<rparr>) = same_unit ct opts"
  by (simp add: same_unit_def fun_eq_iff)

lemma occurs_append:
  "\<not> whole_word opts \<Longrightarrow> query \<noteq> [] \<Longrightarrow>
    occurs_at ct (opts\<lparr>backwards := b\<rparr>) (pre @ rest) query (length pre + j)
      \<longleftrightarrow> prefix_matches ct opts query (drop j rest)"
  by (cases query) (auto simp: occurs_at_def prefix_matches_def)

lemma replace_loop_ref:
  assumes "\<not> whole_word opts" "query \<noteq> []"
    and "length pre + length rest * Suc (length replacement) + length query < 2 ^ 64"
  shows "replace_loop ct query replacement opts (pre @ rest) (length pre) count =
    (case replace_ref ct opts query replacement rest of (n, r) \<Rightarrow> (count + n, pre @ r))"
  using assms(3)
proof (induction rest arbitrary: pre count rule: length_induct)
  case (1 rest)
  let ?fwd = "opts\<lparr>backwards := False\<rparr>"
  let ?str = "pre @ rest"
  note unfold = replace_loop.simps [of ct query replacement opts ?str "length pre" count]
  have "length rest \<le> length rest * Suc (length replacement)" by simp
  with "1.prems" have fits: "length ?str + length query < 2 ^ 64" by simp
  note occ = occurs_append [OF assms(1,2), of ct False pre rest]
  note found = find_text_match_Some [OF fits, of ct "length pre" ?fwd]
  show ?case
  proof (cases "FindTextMatch ct ?str query (length pre) ?fwd")
    case None
    have "\<not> prefix_matches ct opts query (drop j rest)" for j
    proof
      assume "prefix_matches ct opts query (drop j rest)"
      then have "\<exists>k. length pre \<le> k \<and> occurs_at ct ?fwd ?str query k" using occ by (metis le_add1)
      then obtain k where "length pre \<le> k \<and> occurs_at ct ?fwd ?str query k"
        and "\<forall>i < k. \<not> (length pre \<le> i \<and> occurs_at ct ?fwd ?str query i)"
        using exists_least_iff [of "\<lambda>k. length pre \<le> k \<and> occurs_at ct ?fwd ?str query k"] by blast
      then have "FindTextMatch ct ?str query (length pre) ?fwd = Some k" using found [of k] by auto
      with None show False by simp
    qed
    then have "replace_ref ct opts query replacement rest = (0, rest)" by (rule replace_ref_none)
    with None show ?thesis unfolding unfold by simp
  next
    case (Some m)
    then obtain j where m: "m = length pre + j" and j: "prefix_matches ct opts query (drop j rest)"
      using found [of m] occ by (auto simp: le_iff_add)
    have least: "\<not> prefix_matches ct opts query (drop i rest)" if "i < j" for i
      using found [of m] Some occ [of i] that m by auto
    let ?rest = "drop (j + length query) rest" and ?pre = "pre @ take j rest @ replacement"
    have len: "j + length query \<le> length rest" using j assms(2)
      by (cases query) (auto simp: prefix_matches_def)
    have q: "0 < length query" using assms(2) by simp
    have "length ?pre + length ?rest * Suc (length replacement)
        \<le> length pre + length rest * Suc (length replacement)"
    proof -
      obtain d where d: "length rest = d + j + length query" using len by (metis add.assoc add.commute le_iff_add)
      have "length replacement \<le> length query * Suc (length replacement)" using q by (cases query) auto
      then show ?thesis by (simp add: d algebra_simps)
    qed
    with "1.prems" have fits': "length ?pre + length ?rest * Suc (length replacement) + length query < 2 ^ 64"
      by linarith
    have "length ?rest < length rest" using len q unfolding length_drop by linarith
    from "1.IH" [rule_format, OF this fits', of "Suc count"]
    have ih: "replace_loop ct query replacement opts (?pre @ ?rest) (length ?pre) (Suc count) =
      (case replace_ref ct opts query replacement ?rest of (n, r) \<Rightarrow> (Suc count + n, ?pre @ r))" .
    have repl: "replace_text m (length query) replacement ?str = ?pre @ ?rest"
      by (simp add: replace_text_def m add.assoc)
    have off: "m + length replacement = length ?pre" using len m by simp
    have "replace_loop ct query replacement opts ?str (length pre) count =
      (case replace_ref ct opts query replacement ?rest of (n, r) \<Rightarrow> (Suc count + n, ?pre @ r))"
      unfolding unfold Some option.case repl off by (rule ih)
    then show ?thesis
      using replace_ref_first [OF assms(2) j least, of replacement] by (simp split: prod.splits)
  qed
qed

section \<open>Properties\<close>

text \<open>\<open>FindTextMatch\<close> returns the right occurrence and never misses one.  When the lengths of
  text and query do not overflow \<open>size_t\<close>, a forward search returns exactly the first occurrence at or
  after the start and a backward search exactly the last occurrence before it, where an occurrence is
  an in-range match under the case option with no word character on either side when whole words are
  asked for.\<close>

theorem find_returns_nearest_occurrence:
  assumes "length str + length query < 2 ^ 64"
  shows "FindTextMatch ct str query start opts = Some m \<longleftrightarrow>
    occurs_at ct opts str query m \<and>
    (if backwards opts
     then m < start \<and> (\<forall>k. m < k \<and> k < start \<longrightarrow> \<not> occurs_at ct opts str query k)
     else start \<le> m \<and> (\<forall>k. start \<le> k \<and> k < m \<longrightarrow> \<not> occurs_at ct opts str query k))"
  using assms by (rule find_text_match_Some)

definition ascii_wctype :: wctype where
  "ascii_wctype = \<lparr>towlower = (\<lambda>c. if 0x41 \<le> c \<and> c \<le> 0x5A then c + 0x20 else c),
     iswalnum = (\<lambda>c. 0x61 \<le> c \<and> c \<le> 0x7A \<or> 0x41 \<le> c \<and> c \<le> 0x5A)\<rparr>"

theorem find_returns_nearest_occurrence_witness:
  "occurs_at ascii_wctype \<lparr>match_case = False, whole_word = True, backwards = False\<rparr>
    (lit ''cats Cat'') (lit ''cat'') 5"
proof -
  let ?o = "\<lparr>match_case = False, whole_word = True, backwards = False\<rparr>"
  have "FindTextMatch ascii_wctype (lit ''cats Cat'') (lit ''cat'') 0 ?o = Some 5" by code_simp
  moreover have "length (lit ''cats Cat'') + length (lit ''cat'') < 2 ^ 64" by simp
  ultimately show ?thesis
    by (rule conjunct1 [OF iffD1 [OF find_returns_nearest_occurrence], rotated])
qed

text \<open>C14: \<open>ReplaceAllText\<close> replaces exactly the non-overlapping occurrences from left to right.
  Without the whole-word option it computes the recursion that emits the replacement and skips the
  match wherever the query matches at the front of the remaining text, and never looks into replaced
  text again; the count is the number of replacements.\<close>

theorem replace_all_is_recursive_replacement:
  assumes "\<not> whole_word opts" and "query \<noteq> []"
    and "length str * Suc (length replacement) + length query < 2 ^ 64"
  shows "ReplaceAllText ct str query replacement opts = replace_ref ct opts query replacement str"
  using replace_loop_ref [OF assms(1,2), of "[]" str replacement ct 0] assms(3)
  by (simp add: ReplaceAllText_def split: prod.splits)

theorem replace_all_is_recursive_replacement_witness:
  "ReplaceAllText ascii_wctype (lit ''aaa'') (lit ''a'') (lit ''aa'')
      \<lparr>match_case = True, whole_word = False, backwards = False\<rparr> = (3, lit ''aaaaaa'')"
proof -
  let ?o = "\<lparr>match_case = True, whole_word = False, backwards = False\<rparr>"
  have "replace_ref ascii_wctype ?o (lit ''a'') (lit ''aa'') (lit ''aaa'') = (3, lit ''aaaaaa'')"
    by code_simp
  moreover have "length (lit ''aaa'') * Suc (length (lit ''aa'')) + length (lit ''a'') < 2 ^ 64"
    "lit ''a'' \<noteq> []" by simp_all
  moreover have "\<not> whole_word ?o" by simp
  ultimately show ?thesis by (metis replace_all_is_recursive_replacement)
qed

end
