(* ===== verification/Tab_Workspace.thy ===== *)
theory Tab_Workspace
  imports Prelude
begin

text \<open>
  The tab model (\<open>src/tab_workspace.cpp\<close>, \<open>include/mwfl/tab_workspace.h\<close>): an ordered vector of
  tabs with stable nonzero identifiers and the optional selected identifier.  \<open>Find\<close> and
  \<open>FindMutable\<close> return pointers in the code; here they return the entry, and an assignment through
  the pointer is \<open>update_at\<close> at the found index.
\<close>

record TabEntry =
  te_id :: u64
  te_title :: wstring
  te_dirty :: bool
  te_closable :: bool

record TabWorkspaceModel =
  tw_tabs :: "TabEntry list"
  tw_selected :: "u64 option"

definition TabWorkspaceModel_empty :: TabWorkspaceModel where
  "TabWorkspaceModel_empty = \<lparr>tw_tabs = [], tw_selected = None\<rparr>"

definition TabWorkspaceModel_FindIndex :: "u64 \<Rightarrow> TabWorkspaceModel \<Rightarrow> nat option" where
  "TabWorkspaceModel_FindIndex i w =
    (if i = 0 then None else find_index (\<lambda>e. te_id e = i) (tw_tabs w))"

definition TabWorkspaceModel_Find :: "u64 \<Rightarrow> TabWorkspaceModel \<Rightarrow> TabEntry option" where
  "TabWorkspaceModel_Find i w =
    (case TabWorkspaceModel_FindIndex i w of None \<Rightarrow> None | Some k \<Rightarrow> Some (tw_tabs w ! k))"

definition TabWorkspaceModel_Add :: "TabEntry \<Rightarrow> TabWorkspaceModel \<Rightarrow> bool \<times> TabWorkspaceModel" where
  "TabWorkspaceModel_Add entry w =
    (if te_id entry = 0 \<or> te_title entry = [] \<or> TabWorkspaceModel_Find (te_id entry) w \<noteq> None
     then (False, w)
     else (True, w\<lparr>tw_tabs := tw_tabs w @ [entry],
       tw_selected := (if tw_selected w = None then Some (te_id entry) else tw_selected w)\<rparr>))"

definition TabWorkspaceModel_Remove :: "u64 \<Rightarrow> TabWorkspaceModel \<Rightarrow> bool \<times> TabWorkspaceModel" where
  "TabWorkspaceModel_Remove i w =
    (case TabWorkspaceModel_FindIndex i w of
       None \<Rightarrow> (False, w)
     | Some k \<Rightarrow>
        let removed_selection = (tw_selected w = Some i);
            tabs = erase_at k (tw_tabs w)
        in (True, w\<lparr>tw_tabs := tabs,
             tw_selected := (if removed_selection
               then (if tabs = [] then None
                     else Some (te_id (tabs ! min k (length tabs - 1))))
               else tw_selected w)\<rparr>))"

definition TabWorkspaceModel_Move ::
  "u64 \<Rightarrow> nat \<Rightarrow> TabWorkspaceModel \<Rightarrow> bool \<times> TabWorkspaceModel" where
  "TabWorkspaceModel_Move i new_index w =
    (case TabWorkspaceModel_FindIndex i w of
       None \<Rightarrow> (False, w)
     | Some old_index \<Rightarrow>
        if new_index \<ge> length (tw_tabs w) then (False, w)
        else if old_index = new_index then (True, w)
        else (True, w\<lparr>tw_tabs := move_item old_index new_index (tw_tabs w)\<rparr>))"

definition TabWorkspaceModel_Select :: "u64 \<Rightarrow> TabWorkspaceModel \<Rightarrow> bool \<times> TabWorkspaceModel" where
  "TabWorkspaceModel_Select i w =
    (if TabWorkspaceModel_Find i w = None then (False, w) else (True, w\<lparr>tw_selected := Some i\<rparr>))"

definition TabWorkspaceModel_SetTitle ::
  "u64 \<Rightarrow> wstring \<Rightarrow> TabWorkspaceModel \<Rightarrow> bool \<times> TabWorkspaceModel" where
  "TabWorkspaceModel_SetTitle i title w =
    (if title = [] then (False, w)
     else case TabWorkspaceModel_FindIndex i w of
       None \<Rightarrow> (False, w)
     | Some k \<Rightarrow> (True, w\<lparr>tw_tabs := update_at k (\<lambda>e. e\<lparr>te_title := title\<rparr>) (tw_tabs w)\<rparr>))"

definition TabWorkspaceModel_SetDirty ::
  "u64 \<Rightarrow> bool \<Rightarrow> TabWorkspaceModel \<Rightarrow> bool \<times> TabWorkspaceModel" where
  "TabWorkspaceModel_SetDirty i dirty w =
    (case TabWorkspaceModel_FindIndex i w of
       None \<Rightarrow> (False, w)
     | Some k \<Rightarrow> (True, w\<lparr>tw_tabs := update_at k (\<lambda>e. e\<lparr>te_dirty := dirty\<rparr>) (tw_tabs w)\<rparr>))"

section \<open>Invariant\<close>

definition tabs_wf :: "TabWorkspaceModel \<Rightarrow> bool" where
  "tabs_wf w \<longleftrightarrow> distinct (map te_id (tw_tabs w))
    \<and> (\<forall>e \<in> set (tw_tabs w). te_id e \<noteq> 0 \<and> te_title e \<noteq> [])
    \<and> (case tw_selected w of None \<Rightarrow> tw_tabs w = []
       | Some i \<Rightarrow> i \<in> te_id ` set (tw_tabs w))"

datatype tab_op =
    Tab_Add TabEntry
  | Tab_Remove u64
  | Tab_Move u64 nat
  | Tab_Select u64
  | Tab_SetTitle u64 wstring
  | Tab_SetDirty u64 bool

fun tab_step :: "TabWorkspaceModel \<Rightarrow> tab_op \<Rightarrow> bool \<times> TabWorkspaceModel" where
  "tab_step w (Tab_Add e) = TabWorkspaceModel_Add e w"
| "tab_step w (Tab_Remove i) = TabWorkspaceModel_Remove i w"
| "tab_step w (Tab_Move i k) = TabWorkspaceModel_Move i k w"
| "tab_step w (Tab_Select i) = TabWorkspaceModel_Select i w"
| "tab_step w (Tab_SetTitle i t) = TabWorkspaceModel_SetTitle i t w"
| "tab_step w (Tab_SetDirty i d) = TabWorkspaceModel_SetDirty i d w"

lemma tab_index:
  "TabWorkspaceModel_FindIndex i w = Some k \<Longrightarrow>
    k < length (tw_tabs w) \<and> te_id (tw_tabs w ! k) = i \<and> i \<noteq> 0"
  by (auto simp: TabWorkspaceModel_FindIndex_def find_index_Some split: if_splits)

lemma tab_find_iff:
  "TabWorkspaceModel_Find i w = None \<longleftrightarrow> i = 0 \<or> i \<notin> te_id ` set (tw_tabs w)"
proof -
  have "TabWorkspaceModel_Find i w = None \<longleftrightarrow> TabWorkspaceModel_FindIndex i w = None"
    by (simp add: TabWorkspaceModel_Find_def split: option.splits)
  then show ?thesis by (auto simp: TabWorkspaceModel_FindIndex_def find_index_None)
qed

lemma tab_find_Some:
  assumes "TabWorkspaceModel_Find i w = Some e"
  shows "e \<in> set (tw_tabs w) \<and> te_id e = i"
  using assms by (auto simp: TabWorkspaceModel_Find_def split: option.splits dest!: tab_index)

lemma tabs_wf_add [preserves]: "tabs_wf w \<Longrightarrow> tabs_wf (snd (TabWorkspaceModel_Add e w))"
  by (auto simp: TabWorkspaceModel_Add_def tabs_wf_def tab_find_iff split: option.splits)

lemma tabs_wf_remove [preserves]:
  assumes "tabs_wf w"
  shows "tabs_wf (snd (TabWorkspaceModel_Remove i w))"
proof (cases "TabWorkspaceModel_FindIndex i w")
  case None
  with assms show ?thesis by (simp add: TabWorkspaceModel_Remove_def)
next
  case (Some k)
  let ?tabs = "erase_at k (tw_tabs w)"
  have k: "k < length (tw_tabs w)" "te_id (tw_tabs w ! k) = i" using tab_index [OF Some] by auto
  have d: "distinct (map te_id (tw_tabs w))" using assms by (simp add: tabs_wf_def)
  have d': "distinct (map te_id ?tabs)"
    using d by (simp add: map_erase_at distinct_erase_at)
  have v: "\<forall>e \<in> set ?tabs. te_id e \<noteq> 0 \<and> te_title e \<noteq> []"
    using assms set_erase_at_subset [of k "tw_tabs w"] by (auto simp: tabs_wf_def)
  have ids: "te_id ` set ?tabs = te_id ` set (tw_tabs w) - {i}"
    using set_filter_key_erase [OF d k(1)] k(2) by simp
  have nth: "?tabs \<noteq> [] \<Longrightarrow> ?tabs ! min k (length ?tabs - 1) \<in> set ?tabs"
    by (rule nth_mem) (simp add: min_less_iff_disj)
  have "\<And>j. tw_selected w = Some j \<Longrightarrow> j \<noteq> i \<Longrightarrow> j \<in> te_id ` set ?tabs"
    using assms ids by (auto simp: tabs_wf_def)
  moreover have "tw_selected w = None \<Longrightarrow> False"
    using assms k by (auto simp: tabs_wf_def)
  ultimately show ?thesis using d' v nth
    by (auto simp: TabWorkspaceModel_Remove_def Some tabs_wf_def Let_def split: option.splits)
qed

lemma tabs_wf_move [preserves]:
  assumes "tabs_wf w"
  shows "tabs_wf (snd (TabWorkspaceModel_Move i n w))"
proof (cases "TabWorkspaceModel_FindIndex i w")
  case None
  with assms show ?thesis by (simp add: TabWorkspaceModel_Move_def)
next
  case (Some k)
  have k: "k < length (tw_tabs w)" using tab_index [OF Some] by auto
  have "distinct (map te_id (move_item k n (tw_tabs w)))"
    using assms k by (simp add: map_move_item distinct_move_item tabs_wf_def)
  then show ?thesis using assms k
    by (auto simp: TabWorkspaceModel_Move_def Some tabs_wf_def set_move_item split: option.splits)
qed

lemma tabs_wf_update:
  assumes "tabs_wf w" and "\<And>e. te_id (f e) = te_id e"
    and "\<And>e. te_title e \<noteq> [] \<Longrightarrow> te_title (f e) \<noteq> []"
  shows "tabs_wf (w\<lparr>tw_tabs := update_at k f (tw_tabs w)\<rparr>)"
proof -
  let ?tabs = "update_at k f (tw_tabs w)"
  have ids: "map te_id ?tabs = map te_id (tw_tabs w)" using assms(2) by (rule map_update_at)
  then have "te_id ` set ?tabs = te_id ` set (tw_tabs w)" by (metis set_map)
  moreover have "?tabs = [] \<longleftrightarrow> tw_tabs w = []" by (metis length_0_conv length_update_at)
  moreover have "\<forall>e \<in> set ?tabs. te_id e \<noteq> 0 \<and> te_title e \<noteq> []"
    using assms by (auto simp: tabs_wf_def dest!: set_update_atD)
  ultimately show ?thesis using assms(1) ids by (auto simp: tabs_wf_def split: option.splits)
qed

lemma tabs_wf_step: "tabs_wf w \<Longrightarrow> tabs_wf (snd (tab_step w x))"
proof (cases x)
  case (Tab_Select i)
  assume "tabs_wf w"
  then show ?thesis
    using Tab_Select by (cases "TabWorkspaceModel_Find i w")
      (auto simp: TabWorkspaceModel_Select_def tabs_wf_def dest!: tab_find_Some)
qed (auto simp: TabWorkspaceModel_SetTitle_def TabWorkspaceModel_SetDirty_def
    intro!: preserves tabs_wf_update split: option.splits)

interpretation tab_machine: machine tab_step tabs_wf
  by unfold_locales (rule tabs_wf_step)

lemma tabs_wf_empty: "tabs_wf TabWorkspaceModel_empty"
  by (simp add: tabs_wf_def TabWorkspaceModel_empty_def)

section \<open>Properties\<close>

text \<open>After any sequence of operations on an empty tab model (add, remove, move, select,
  retitle, mark dirty, with arbitrary arguments), the identifiers of the tabs are nonzero and distinct,
  every tab has a title, and the selected tab is one of the tabs, with a selection whenever there is
  any tab.\<close>

theorem tabs_stay_consistent:
  "let w = run_ops tab_step TabWorkspaceModel_empty xs
   in distinct (map te_id (tw_tabs w))
    \<and> list_all (\<lambda>e. te_id e \<noteq> 0 \<and> te_title e \<noteq> []) (tw_tabs w)
    \<and> (case tw_selected w of None \<Rightarrow> tw_tabs w = [] | Some i \<Rightarrow> i \<in> te_id ` set (tw_tabs w))"
  using tab_machine.run_inv [OF tabs_wf_empty, of xs] by (simp add: tabs_wf_def Let_def list_all_iff)

end
