(* ===== verification/Commands.thy ===== *)
theory Commands
  imports Prelude
begin

text \<open>
  Commands and command sets (\<open>src/command.cpp\<close>, \<open>include/mwfl/command.h\<close>).  A handler is
  application code: it is the type parameter \<open>'h\<close>, and running it is a parameter \<open>call\<close> of
  \<open>Invoke\<close> and \<open>Dispatch\<close> that maps the state of the application.  A command without handler
  (an empty \<open>std::function\<close>) has \<open>None\<close>.
\<close>

type_synonym ControlId = int

record CommandShortcut =
  cs_modifiers :: u8
  cs_key :: "16 word"

record 'h Command =
  cmd_id :: ControlId
  cmd_text :: wstring
  cmd_handler :: "'h option"
  cmd_enabled :: bool
  cmd_checked :: bool
  cmd_visible :: bool
  cmd_image_index :: "int option"
  cmd_shortcut :: "CommandShortcut option"

datatype EventResult = Propagate | Handled

definition Command_new :: "ControlId \<Rightarrow> wstring \<Rightarrow> 'h option \<Rightarrow> 'h Command" where
  "Command_new i txt h = \<lparr>cmd_id = i, cmd_text = txt, cmd_handler = h, cmd_enabled = True,
     cmd_checked = False, cmd_visible = True, cmd_image_index = None, cmd_shortcut = None\<rparr>"

definition Command_SetText :: "wstring \<Rightarrow> 'h Command \<Rightarrow> 'h Command" where
  "Command_SetText value c = c\<lparr>cmd_text := value\<rparr>"

definition Command_SetEnabled :: "bool \<Rightarrow> 'h Command \<Rightarrow> 'h Command" where
  "Command_SetEnabled value c = c\<lparr>cmd_enabled := value\<rparr>"

definition Command_SetChecked :: "bool \<Rightarrow> 'h Command \<Rightarrow> 'h Command" where
  "Command_SetChecked value c = c\<lparr>cmd_checked := value\<rparr>"

definition Command_SetVisible :: "bool \<Rightarrow> 'h Command \<Rightarrow> 'h Command" where
  "Command_SetVisible value c = c\<lparr>cmd_visible := value\<rparr>"

definition Command_SetImageIndex :: "int \<Rightarrow> 'h Command \<Rightarrow> 'h Command" where
  "Command_SetImageIndex value c = c\<lparr>cmd_image_index := Some value\<rparr>"

definition Command_ClearImageIndex :: "'h Command \<Rightarrow> 'h Command" where
  "Command_ClearImageIndex c = c\<lparr>cmd_image_index := None\<rparr>"

definition Command_SetHandler :: "'h option \<Rightarrow> 'h Command \<Rightarrow> 'h Command" where
  "Command_SetHandler value c = c\<lparr>cmd_handler := value\<rparr>"

definition Command_SetShortcut :: "CommandShortcut \<Rightarrow> 'h Command \<Rightarrow> 'h Command" where
  "Command_SetShortcut value c = c\<lparr>cmd_shortcut := Some value\<rparr>"

definition Command_ClearShortcut :: "'h Command \<Rightarrow> 'h Command" where
  "Command_ClearShortcut c = c\<lparr>cmd_shortcut := None\<rparr>"

definition Command_Invoke :: "('h \<Rightarrow> 'a \<Rightarrow> 'a) \<Rightarrow> 'h Command \<Rightarrow> 'a \<Rightarrow> 'a" where
  "Command_Invoke call c app =
    (case cmd_handler c of Some h \<Rightarrow> if cmd_enabled c then call h app else app | None \<Rightarrow> app)"

type_synonym 'h CommandSet = "'h Command list"

definition CommandSet_Find :: "ControlId \<Rightarrow> 'h CommandSet \<Rightarrow> 'h Command option" where
  "CommandSet_Find i cs = find_key cmd_id i cs"

definition CommandSet_Add :: "'h Command \<Rightarrow> 'h CommandSet \<Rightarrow> 'h CommandSet" where
  "CommandSet_Add c cs =
    (case find_index (\<lambda>x. cmd_id x = cmd_id c) cs of
       Some k \<Rightarrow> cs[k := c]
     | None \<Rightarrow> cs @ [c])"

definition CommandSet_Dispatch ::
  "('h \<Rightarrow> 'a \<Rightarrow> 'a) \<Rightarrow> ControlId \<Rightarrow> 'h CommandSet \<Rightarrow> 'a \<Rightarrow> EventResult \<times> 'a" where
  "CommandSet_Dispatch call event_id cs app =
    (case CommandSet_Find event_id cs of
       None \<Rightarrow> (Propagate, app)
     | Some c \<Rightarrow> if \<not> cmd_enabled c then (Propagate, app)
        else (Handled, Command_Invoke call c app))"

text \<open>An assignment through the pointer that \<open>Find\<close> returned.\<close>

definition CommandSet_modify :: "ControlId \<Rightarrow> ('h Command \<Rightarrow> 'h Command) \<Rightarrow> 'h CommandSet \<Rightarrow> 'h CommandSet" where
  "CommandSet_modify i f cs =
    (case find_index (\<lambda>x. cmd_id x = i) cs of None \<Rightarrow> cs | Some k \<Rightarrow> update_at k f cs)"

section \<open>The keyed-store contract\<close>

text \<open>
  What clients of a set of commands rely on: a lookup after an insertion finds what was inserted
  under that identifier and is otherwise unchanged.
\<close>

locale keyed_store =
  fixes lookup :: "'k \<Rightarrow> 'm \<Rightarrow> 'v option"
    and insert_value :: "'v \<Rightarrow> 'm \<Rightarrow> 'm"
    and key_of :: "'v \<Rightarrow> 'k"
    and invar :: "'m \<Rightarrow> bool"
  assumes lookup_insert: "invar m \<Longrightarrow>
      lookup k (insert_value v m) = (if k = key_of v then Some v else lookup k m)"
    and insert_invar: "invar m \<Longrightarrow> invar (insert_value v m)"
begin

fun insert_all :: "'v list \<Rightarrow> 'm \<Rightarrow> 'm" where
  "insert_all [] m = m"
| "insert_all (v # vs) m = insert_all vs (insert_value v m)"

lemma insert_all_invar: "invar m \<Longrightarrow> invar (insert_all vs m)"
  by (induction vs arbitrary: m) (auto simp: insert_invar)

lemma lookup_insert_all:
  "invar m \<Longrightarrow> lookup k (insert_all vs m) =
    (case find (\<lambda>v. key_of v = k) (rev vs) of Some v \<Rightarrow> Some v | None \<Rightarrow> lookup k m)"
proof (induction vs rule: rev_induct)
  case Nil
  then show ?case by simp
next
  case (snoc v vs)
  have app: "insert_all (vs @ [v]) m = insert_value v (insert_all vs m)"
    by (induction vs arbitrary: m) auto
  show ?case using snoc insert_all_invar [OF snoc.prems] by (auto simp: app lookup_insert)
qed

end

definition commands_wf :: "'h CommandSet \<Rightarrow> bool" where
  "commands_wf cs \<longleftrightarrow> distinct (map cmd_id cs)"

lemma map_id_replace:
  "find_index (\<lambda>x. cmd_id x = cmd_id c) cs = Some k \<Longrightarrow> map cmd_id (cs[k := c]) = map cmd_id cs"
  by (auto simp: find_index_Some map_update list_update_same_conv)

lemma find_after_add:
  assumes "commands_wf cs"
  shows "CommandSet_Find k (CommandSet_Add c cs) =
    (if k = cmd_id c then Some c else CommandSet_Find k cs)"
proof (cases "find_index (\<lambda>x. cmd_id x = cmd_id c) cs")
  case None
  then have "cmd_id c \<notin> cmd_id ` set cs" by (auto simp: find_index_None)
  then have n: "find_key cmd_id (cmd_id c) cs = None" by simp
  have add: "CommandSet_Add c cs = cs @ [c]" by (simp add: CommandSet_Add_def None)
  show ?thesis
    unfolding CommandSet_Find_def add find_key_append
    by (cases "k = cmd_id c"; cases "find_key cmd_id k cs") (simp_all only: n, simp_all)
next
  case (Some i)
  let ?cs = "cs[i := c]"
  have i: "i < length cs" "cmd_id (cs ! i) = cmd_id c" using find_indexD [OF Some] by auto
  have d: "distinct (map cmd_id ?cs)"
    using assms map_id_replace [OF Some] by (simp add: commands_wf_def)
  show ?thesis
  proof (cases "k = cmd_id c")
    case True
    have "find_key cmd_id k ?cs = Some c"
      using find_key_unique [OF d, of c] True i set_update_memI by fastforce
    then show ?thesis using True Some by (simp add: CommandSet_Find_def CommandSet_Add_def)
  next
    case False
    have "find_key cmd_id k ?cs = find_key cmd_id k cs"
    proof (cases "find_key cmd_id k cs")
      case None
      then have "k \<notin> set (map cmd_id cs)" by (simp add: find_key_None)
      then have "k \<notin> set (map cmd_id ?cs)" using map_id_replace [OF Some] by simp
      then show ?thesis using None by simp
    next
      case (Some x)
      then obtain j where j: "j < length cs" "cs ! j = x" "cmd_id x = k"
        by (meson find_key_Some in_set_conv_nth)
      then have "j \<noteq> i" using i False by auto
      then have "x \<in> set ?cs" using j by (metis length_list_update nth_list_update_neq nth_mem)
      then show ?thesis using Some find_key_unique [OF d] j(3) by simp
    qed
    then show ?thesis using False Some by (simp add: CommandSet_Find_def CommandSet_Add_def)
  qed
qed

lemma commands_wf_add [preserves]: "commands_wf cs \<Longrightarrow> commands_wf (CommandSet_Add c cs)"
proof (cases "find_index (\<lambda>x. cmd_id x = cmd_id c) cs")
  case None
  assume "commands_wf cs"
  moreover have "CommandSet_Add c cs = cs @ [c]" by (simp add: CommandSet_Add_def None)
  ultimately show ?thesis using None by (auto simp: commands_wf_def find_index_None)
next
  case (Some k)
  assume "commands_wf cs"
  with Some show ?thesis
    using map_id_replace [OF Some] by (simp add: CommandSet_Add_def commands_wf_def)
qed

interpretation command_store: keyed_store CommandSet_Find CommandSet_Add cmd_id commands_wf
  by unfold_locales (auto simp: find_after_add commands_wf_add)

lemma modify_Nil_Cons [simp]:
  "CommandSet_modify i f [] = []"
  "CommandSet_modify i f (c # cs) =
    (if cmd_id c = i then f c # cs else c # CommandSet_modify i f cs)"
  by (auto simp: CommandSet_modify_def update_at_def split: option.splits)

lemma find_modify:
  "(\<And>c. cmd_id (f c) = cmd_id c) \<Longrightarrow> CommandSet_Find k (CommandSet_modify i f cs) =
    (if k = i then map_option f (CommandSet_Find k cs) else CommandSet_Find k cs)"
  by (induction cs) (auto simp: CommandSet_Find_def)

lemma map_id_modify:
  "(\<And>c. cmd_id (f c) = cmd_id c) \<Longrightarrow> map cmd_id (CommandSet_modify i f cs) = map cmd_id cs"
  by (auto simp: CommandSet_modify_def map_update_at split: option.splits)

section \<open>Properties\<close>

lemma insert_all_fold: "command_store.insert_all cs m = fold CommandSet_Add cs m"
  by (induction cs arbitrary: m) auto

text \<open>Dispatching an event reaches the command registered last under its identifier.  After any
  sequence of \<open>Add\<close> calls on an empty set, \<open>Dispatch\<close> runs that command's handler and reports the
  event handled exactly when such a command exists and is enabled; otherwise the event propagates and
  the application state is unchanged.\<close>

theorem dispatch_reaches_last_added:
  "CommandSet_Dispatch call i (fold CommandSet_Add cs []) app =
    (case find (\<lambda>c. cmd_id c = i) (rev cs) of
       None \<Rightarrow> (Propagate, app)
     | Some c \<Rightarrow> if cmd_enabled c
         then (Handled, case cmd_handler c of None \<Rightarrow> app | Some h \<Rightarrow> call h app)
         else (Propagate, app))"
proof -
  have "commands_wf []" by (simp add: commands_wf_def)
  from command_store.lookup_insert_all [OF this, of i cs]
  have "CommandSet_Find i (fold CommandSet_Add cs []) = find (\<lambda>c. cmd_id c = i) (rev cs)"
    by (auto simp: insert_all_fold CommandSet_Find_def split: option.splits)
  then show ?thesis
    by (auto simp: CommandSet_Dispatch_def Command_Invoke_def split: option.splits)
qed

end
