(* ===== verification/Floating.thy ===== *)
theory Floating
  imports Complex_Main Prelude
begin

text \<open>
  IEEE 754 values.  A finite \<open>float\<close> or \<open>double\<close> is the rational number it denotes, so comparisons
  are exact; the sign of a zero is not recorded, as no modelled code observes it.  Decimal literals
  of the code that are not representable are written as the \<open>double\<close> the compiler stores.
\<close>

datatype fp = Fin rat | PosInf | NegInf | NaN

definition isfinite :: "fp \<Rightarrow> bool" where
  "isfinite x \<longleftrightarrow> (case x of Fin _ \<Rightarrow> True | _ \<Rightarrow> False)"

fun fp_less :: "fp \<Rightarrow> fp \<Rightarrow> bool" where
  "fp_less (Fin a) (Fin b) = (a < b)"
| "fp_less (Fin a) PosInf = True"
| "fp_less NegInf (Fin b) = True"
| "fp_less NegInf PosInf = True"
| "fp_less _ _ = False"

fun fp_eq :: "fp \<Rightarrow> fp \<Rightarrow> bool" where
  "fp_eq NaN _ = False"
| "fp_eq _ NaN = False"
| "fp_eq a b = (a = b)"

definition fp_leq :: "fp \<Rightarrow> fp \<Rightarrow> bool" where
  "fp_leq a b \<longleftrightarrow> fp_less a b \<or> fp_eq a b"

lemma isfinite_simps [simp]:
  "isfinite (Fin r)" "\<not> isfinite PosInf" "\<not> isfinite NegInf" "\<not> isfinite NaN"
  by (simp_all add: isfinite_def)

lemma isfiniteE: "isfinite x \<Longrightarrow> (\<And>r. x = Fin r \<Longrightarrow> P) \<Longrightarrow> P"
  by (cases x) auto

lemma fp_leq_Fin [simp]: "fp_leq (Fin a) (Fin b) \<longleftrightarrow> a \<le> b"
  by (auto simp: fp_leq_def)

text \<open>The literals \<open>0.1\<close> and \<open>0.9\<close> as binary64 values.\<close>

definition dbl_0_1 :: fp where
  "dbl_0_1 = Fin (3602879701896397 / 36028797018963968)"

definition dbl_0_9 :: fp where
  "dbl_0_9 = Fin (8106479329266893 / 9007199254740992)"

section \<open>Rounding\<close>

text \<open>
  Rounding to nearest, ties to even, of an exact rational to a binary format with \<open>precision\<close> bits,
  least exponent \<open>lowest\<close> (of the unit in the last place of subnormal numbers) and overflow
  threshold \<open>2 ^ highest\<close>.  A signed zero is not distinguished: no code modelled here divides by zero
  or reads the sign of a zero.
\<close>

definition pow2 :: "int \<Rightarrow> rat" where
  "pow2 k = (if 0 \<le> k then 2 ^ nat k else 1 / 2 ^ nat (- k))"

function int_bits :: "int \<Rightarrow> int" where
  "int_bits n = (if n \<le> 0 then 0 else 1 + int_bits (n div 2))"
  by pat_completeness auto
termination
  by (relation "measure nat") auto

declare int_bits.simps [simp del]

definition rat_exponent :: "rat \<Rightarrow> int" where
  "rat_exponent q =
    (let (n, d) = quotient_of q; e = int_bits n - int_bits d
     in if pow2 e \<le> q then e else e - 1)"

definition round_half_even :: "rat \<Rightarrow> int" where
  "round_half_even q =
    (let f = \<lfloor>q\<rfloor>; d = q - of_int f
     in if d < 1 / 2 then f else if 1 / 2 < d then f + 1 else if even f then f else f + 1)"

definition round_fp :: "int \<Rightarrow> int \<Rightarrow> int \<Rightarrow> rat \<Rightarrow> fp" where
  "round_fp precision lowest highest q =
    (if q = 0 then Fin 0
     else let k = max (rat_exponent \<bar>q\<bar> - (precision - 1)) lowest;
              r = of_int (round_half_even (q / pow2 k)) * pow2 k
       in if pow2 highest \<le> r then PosInf else if r \<le> - pow2 highest then NegInf else Fin r)"

definition dbl :: "rat \<Rightarrow> fp" where
  "dbl q = round_fp 53 (- 1074) 1024 q"

fun fp_neg :: "fp \<Rightarrow> fp" where
  "fp_neg (Fin a) = Fin (- a)"
| "fp_neg PosInf = NegInf"
| "fp_neg NegInf = PosInf"
| "fp_neg NaN = NaN"

fun fp_abs :: "fp \<Rightarrow> fp" where
  "fp_abs (Fin a) = Fin \<bar>a\<bar>"
| "fp_abs PosInf = PosInf"
| "fp_abs NegInf = PosInf"
| "fp_abs NaN = NaN"

fun dbl_add :: "fp \<Rightarrow> fp \<Rightarrow> fp" where
  "dbl_add (Fin a) (Fin b) = dbl (a + b)"
| "dbl_add NaN _ = NaN"
| "dbl_add _ NaN = NaN"
| "dbl_add PosInf NegInf = NaN"
| "dbl_add NegInf PosInf = NaN"
| "dbl_add PosInf _ = PosInf"
| "dbl_add _ PosInf = PosInf"
| "dbl_add NegInf _ = NegInf"
| "dbl_add _ NegInf = NegInf"

definition dbl_sub :: "fp \<Rightarrow> fp \<Rightarrow> fp" where
  "dbl_sub a b = dbl_add a (fp_neg b)"

definition fp_inf :: "bool \<Rightarrow> fp" where
  "fp_inf positive = (if positive then PosInf else NegInf)"

fun dbl_mul :: "fp \<Rightarrow> fp \<Rightarrow> fp" where
  "dbl_mul (Fin a) (Fin b) = dbl (a * b)"
| "dbl_mul NaN _ = NaN"
| "dbl_mul _ NaN = NaN"
| "dbl_mul (Fin a) PosInf = (if a = 0 then NaN else fp_inf (0 < a))"
| "dbl_mul (Fin a) NegInf = (if a = 0 then NaN else fp_inf (a < 0))"
| "dbl_mul PosInf (Fin b) = (if b = 0 then NaN else fp_inf (0 < b))"
| "dbl_mul NegInf (Fin b) = (if b = 0 then NaN else fp_inf (b < 0))"
| "dbl_mul PosInf PosInf = PosInf"
| "dbl_mul PosInf NegInf = NegInf"
| "dbl_mul NegInf PosInf = NegInf"
| "dbl_mul NegInf NegInf = PosInf"

text \<open>Division by a nonzero finite value.\<close>

definition dbl_div_by :: "fp \<Rightarrow> rat \<Rightarrow> fp" where
  "dbl_div_by a b = (case a of Fin x \<Rightarrow> dbl (x / b) | PosInf \<Rightarrow> fp_inf (0 < b)
     | NegInf \<Rightarrow> fp_inf (b < 0) | NaN \<Rightarrow> NaN)"

section \<open>Facts about rounding\<close>

lemma pow2_pos [simp]: "0 < pow2 k"
  by (simp add: pow2_def)

lemma pow2_nonzero [simp]: "pow2 k \<noteq> 0"
  using pow2_pos [of k] by linarith

lemma pow2_Suc: "pow2 (k + 1) = 2 * pow2 k"
proof (cases "0 \<le> k")
  case True
  then have "nat (k + 1) = Suc (nat k)" by simp
  with True show ?thesis by (simp add: pow2_def)
next
  case neg: False
  show ?thesis
  proof (cases "k = - 1")
    case True
    then show ?thesis by (simp add: pow2_def)
  next
    case False
    with neg have "nat (- k) = Suc (nat (- (k + 1)))" by simp
    with neg False show ?thesis by (simp add: pow2_def)
  qed
qed

lemma pow2_mono: "j \<le> k \<Longrightarrow> pow2 j \<le> pow2 k"
proof -
  have "pow2 j \<le> pow2 (j + int n)" for n
  proof (induction n)
    case 0
    then show ?case by simp
  next
    case (Suc n)
    have "pow2 (j + int (Suc n)) = 2 * pow2 (j + int n)"
      using pow2_Suc [of "j + int n"] by (simp add: algebra_simps)
    with Suc pow2_pos [of "j + int n"] show ?case by linarith
  qed
  moreover assume "j \<le> k"
  ultimately show ?thesis by (metis zle_iff_zadd)
qed

lemma pow2_add: "pow2 (j + int n) = pow2 j * 2 ^ n"
proof (induction n)
  case (Suc n)
  then show ?case using pow2_Suc [of "j + int n"] by (simp add: algebra_simps)
qed simp

lemma int_bits_bounds: "0 < n \<Longrightarrow> 0 < int_bits n \<and> 2 ^ nat (int_bits n - 1) \<le> n \<and> n < 2 ^ nat (int_bits n)"
proof (induction n rule: int_bits.induct)
  case (1 n)
  show ?case
  proof (cases "n = 1")
    case True
    then show ?thesis by (simp add: int_bits.simps)
  next
    case False
    with 1 have ih: "0 < int_bits (n div 2)" "2 ^ nat (int_bits (n div 2) - 1) \<le> n div 2"
      "n div 2 < 2 ^ nat (int_bits (n div 2))" by auto
    have b: "int_bits n = 1 + int_bits (n div 2)" using 1 by (subst int_bits.simps) simp
    have s: "nat (int_bits n) = Suc (nat (int_bits (n div 2)))"
      "nat (int_bits (n div 2)) = Suc (nat (int_bits (n div 2) - 1))" using b ih(1) by auto
    have n2: "2 * (n div 2) \<le> n" "n \<le> 2 * (n div 2) + 1" by auto
    have "nat (int_bits n - 1) = Suc (nat (int_bits (n div 2) - 1))" using b s(2) by simp
    then have "2 ^ nat (int_bits n - 1) \<le> n" using ih(2) n2 by simp
    moreover have "n < 2 ^ nat (int_bits n)" using ih(3) n2 unfolding s(1) power_Suc by linarith
    ultimately show ?thesis using b ih(1) by simp
  qed
qed

lemma rat_exponent_le:
  assumes "0 < q"
  shows "pow2 (rat_exponent q) \<le> q"
proof -
  obtain n d where nd: "quotient_of q = (n, d)" by fastforce
  have d: "0 < d" using quotient_of_denom_pos [OF nd] .
  have q: "q = of_int n / of_int d" using quotient_of_div [OF nd] .
  have n: "0 < n" using assms d by (simp add: q zero_less_divide_iff)
  note bn = int_bits_bounds [OF n] and bd = int_bits_bounds [OF d]
  let ?e = "int_bits n - int_bits d"
  have "pow2 (?e - 1) * 2 ^ nat (int_bits d) = 2 ^ nat (int_bits n - 1)"
  proof -
    have "?e - 1 + int (nat (int_bits d)) = int_bits n - 1" using bd by simp
    then have "pow2 (int_bits n - 1) = pow2 (?e - 1) * 2 ^ nat (int_bits d)"
      using pow2_add [of "?e - 1" "nat (int_bits d)"] by simp
    moreover have "pow2 (int_bits n - 1) = 2 ^ nat (int_bits n - 1)" using bn by (simp add: pow2_def)
    ultimately show ?thesis by simp
  qed
  also have "\<dots> \<le> (of_int n :: rat)" using bn by (metis of_int_le_iff of_int_numeral of_int_power)
  also have "\<dots> = q * of_int d" using d by (simp add: q)
  also have "\<dots> \<le> q * 2 ^ nat (int_bits d)"
    using bd assms by (intro mult_left_mono) (metis less_imp_le of_int_le_iff of_int_numeral of_int_power, simp)
  finally have "pow2 (?e - 1) \<le> q" by simp
  then show ?thesis by (simp add: rat_exponent_def nd Let_def)
qed

lemma round_half_even_close: "\<bar>of_int (round_half_even q) - q\<bar> \<le> 1 / 2"
proof -
  have "of_int \<lfloor>q\<rfloor> \<le> q" "q < of_int \<lfloor>q\<rfloor> + 1" by linarith+
  then show ?thesis by (auto simp: round_half_even_def Let_def abs_le_iff)
qed

lemma pow2_0 [simp]: "pow2 0 = 1"
  by (simp add: pow2_def)

text \<open>Values of moderate size round to finite values.\<close>

lemma dbl_finite:
  assumes "\<bar>q\<bar> \<le> 2 ^ 1000"
  shows "\<exists>r. dbl q = Fin r \<and> \<bar>r\<bar> \<le> 2 * \<bar>q\<bar> + 1"
proof (cases "q = 0")
  case True
  then show ?thesis by (simp add: dbl_def round_fp_def)
next
  case False
  define k where "k = max (rat_exponent \<bar>q\<bar> - (53 - 1)) (- 1074)"
  have nz: "pow2 k \<noteq> 0" using pow2_pos [of k] by linarith
  let ?r = "of_int (round_half_even (q / pow2 k)) * pow2 k"
  have "\<bar>of_int (round_half_even (q / pow2 k)) - q / pow2 k\<bar> * pow2 k \<le> 1 / 2 * pow2 k"
    using round_half_even_close by (intro mult_right_mono) (auto simp: less_imp_le)
  moreover have "?r - q = (of_int (round_half_even (q / pow2 k)) - q / pow2 k) * pow2 k"
    using nz by (simp add: left_diff_distrib)
  ultimately have close: "\<bar>?r - q\<bar> \<le> 1 / 2 * pow2 k"
    using abs_of_pos [OF pow2_pos [of k]] by (simp only: abs_mult)
  have "pow2 k \<le> max (pow2 (rat_exponent \<bar>q\<bar>)) (pow2 0)"
    using pow2_mono [of k "rat_exponent \<bar>q\<bar>"] pow2_mono [of k 0]
    by (cases "k \<le> 0") (auto simp: k_def max_def split: if_splits)
  also have "\<dots> \<le> max \<bar>q\<bar> 1" using rat_exponent_le [of "\<bar>q\<bar>"] False by auto
  finally have "pow2 k \<le> \<bar>q\<bar> + 1" by (simp add: max_def split: if_splits)
  with close have r: "\<bar>?r\<bar> \<le> 2 * \<bar>q\<bar> + 1" by linarith
  have "pow2 1024 = (2 ^ 24) * 2 ^ 1000" by (simp add: pow2_def flip: power_add)
  then have big: "pow2 1024 = 16777216 * 2 ^ 1000" by simp
  have "(1 :: rat) \<le> 2 ^ 1000" by simp
  then have "\<bar>?r\<bar> < pow2 1024" using r assms unfolding big by (simp only: abs_less_iff abs_le_iff) linarith
  then have "dbl q = Fin ?r" using False by (auto simp: dbl_def round_fp_def Let_def abs_less_iff k_def)
  with r show ?thesis by blast
qed

lemma pow2_less: "pow2 j < pow2 k \<Longrightarrow> j < k"
  using pow2_mono [of k j] by (cases "j < k") auto

lemma round_int: "round_half_even (of_int n) = n"
  by (simp add: round_half_even_def)

section \<open>Binary formats\<close>

lemma rat_exponent_gt:
  assumes "0 < q"
  shows "q < pow2 (rat_exponent q + 1)"
proof -
  obtain n d where nd: "quotient_of q = (n, d)" by fastforce
  have d: "0 < d" using quotient_of_denom_pos [OF nd] .
  have q: "q = of_int n / of_int d" using quotient_of_div [OF nd] .
  have n: "0 < n" using assms d by (simp add: q zero_less_divide_iff)
  note bn = int_bits_bounds [OF n] and bd = int_bits_bounds [OF d]
  let ?e = "int_bits n - int_bits d"
  have "q * 2 ^ nat (int_bits d - 1) \<le> q * of_int d"
    using bd assms by (intro mult_left_mono) (metis of_int_le_iff of_int_numeral of_int_power, simp)
  also have "\<dots> = of_int n" using d by (simp add: q)
  also have "\<dots> < 2 ^ nat (int_bits n)" using bn by (metis of_int_less_iff of_int_numeral of_int_power)
  also have "\<dots> = pow2 (?e + 1) * 2 ^ nat (int_bits d - 1)"
  proof -
    have "?e + 1 + int (nat (int_bits d - 1)) = int_bits n" using bd by simp
    then have "pow2 (int_bits n) = pow2 (?e + 1) * 2 ^ nat (int_bits d - 1)"
      using pow2_add [of "?e + 1" "nat (int_bits d - 1)"] by argo
    moreover have "pow2 (int_bits n) = 2 ^ nat (int_bits n)" using bn by (simp add: pow2_def)
    ultimately show ?thesis by simp
  qed
  finally have "q < pow2 (?e + 1)" by simp
  then show ?thesis by (auto simp: rat_exponent_def nd Let_def)
qed

lemma round_half_even_mono:
  assumes "x \<le> y"
  shows "round_half_even x \<le> round_half_even y"
proof (cases "\<lfloor>x\<rfloor> = \<lfloor>y\<rfloor>")
  case True
  with assms show ?thesis by (auto simp: round_half_even_def Let_def)
next
  case False
  with floor_mono [OF assms] have "\<lfloor>x\<rfloor> + 1 \<le> \<lfloor>y\<rfloor>" by simp
  moreover have "round_half_even x \<le> \<lfloor>x\<rfloor> + 1" "\<lfloor>y\<rfloor> \<le> round_half_even y"
    by (simp_all add: round_half_even_def Let_def)
  ultimately show ?thesis by simp
qed

lemma round_half_even_minus: "round_half_even (- q) = - round_half_even q"
proof (cases "q \<in> \<int>")
  case True
  then obtain n where "q = of_int n" by (auto elim: Ints_cases)
  then show ?thesis using round_int [of n] round_int [of "- n"] by simp
next
  case False
  then have ne: "of_int \<lfloor>q\<rfloor> \<noteq> q" by (metis Ints_of_int)
  have f: "\<lfloor>- q\<rfloor> = - \<lfloor>q\<rfloor> - 1"
  proof (rule floor_unique)
    show "of_int (- \<lfloor>q\<rfloor> - 1) \<le> - q" by simp linarith
    show "- q < of_int (- \<lfloor>q\<rfloor> - 1) + 1" using ne of_int_floor_le [of q]
      by (simp only: of_int_diff of_int_minus of_int_1)
  qed
  show ?thesis by (auto simp: round_half_even_def Let_def f)
qed

text \<open>The rounded value before the overflow test.\<close>

definition fp_exponent :: "int \<Rightarrow> int \<Rightarrow> rat \<Rightarrow> int" where
  "fp_exponent precision lowest q = max (rat_exponent \<bar>q\<bar> - (precision - 1)) lowest"

definition fp_value :: "int \<Rightarrow> int \<Rightarrow> rat \<Rightarrow> rat" where
  "fp_value precision lowest q = (if q = 0 then 0
     else of_int (round_half_even (q / pow2 (fp_exponent precision lowest q)))
       * pow2 (fp_exponent precision lowest q))"

lemma pow2_divide: "k \<le> e \<Longrightarrow> pow2 e / pow2 k = of_int (2 ^ nat (e - k))"
proof -
  assume "k \<le> e"
  then have "e = k + int (nat (e - k))" by simp
  then have "pow2 e = pow2 k * 2 ^ nat (e - k)" using pow2_add by metis
  then show ?thesis using pow2_pos [of k] by simp
qed

text \<open>What holds of rounding to every binary format.\<close>

locale binary_format =
  fixes precision lowest highest :: int and rnd :: "rat \<Rightarrow> fp"
  assumes rnd: "rnd q = round_fp precision lowest highest q"
    and precision: "1 \<le> precision" and order: "lowest + precision < highest"
begin

abbreviation (input) exponent :: "rat \<Rightarrow> int" where
  "exponent \<equiv> fp_exponent precision lowest"

abbreviation (input) val :: "rat \<Rightarrow> rat" where
  "val \<equiv> fp_value precision lowest"

lemma by_value:
  "rnd q = (if pow2 highest \<le> val q then PosInf else if val q \<le> - pow2 highest then NegInf else Fin (val q))"
proof (cases "q = 0")
  case True
  have "\<not> pow2 highest \<le> 0" using pow2_pos [of highest] by linarith
  with True show ?thesis by (simp add: fp_value_def rnd round_fp_def)
next
  case False
  then show ?thesis unfolding rnd round_fp_def Let_def fp_value_def fp_exponent_def by (simp only: if_False)
qed

lemma zero [simp]: "rnd 0 = Fin 0"
  by (simp add: rnd round_fp_def)

lemma not_nan [simp]: "rnd q \<noteq> NaN"
  by (simp add: by_value)

text \<open>Representable values round to themselves.\<close>

lemma value_exact:
  assumes "\<bar>m\<bar> < 2 ^ nat precision" "lowest \<le> e"
  shows "val (of_int m * pow2 e) = of_int m * pow2 e"
proof (cases "m = 0")
  case True
  then show ?thesis by (simp add: fp_value_def)
next
  case False
  let ?q = "of_int m * pow2 e"
  have q: "\<bar>?q\<bar> = of_int \<bar>m\<bar> * pow2 e" using abs_of_pos [OF pow2_pos [of e]] by (simp add: abs_mult)
  have pos: "0 < \<bar>?q\<bar>" using False by simp
  have "(of_int \<bar>m\<bar> :: rat) < 2 ^ nat precision"
    using assms(1) by (metis of_int_less_iff of_int_numeral of_int_power)
  then have "of_int \<bar>m\<bar> * pow2 e < 2 ^ nat precision * pow2 e" by (intro mult_strict_right_mono) auto
  also have "\<dots> = pow2 (e + precision)" using pow2_add [of e "nat precision"] precision by (simp add: mult.commute)
  finally have "pow2 (rat_exponent \<bar>?q\<bar>) < pow2 (e + precision)"
    using rat_exponent_le [OF pos] unfolding q by simp
  then have "exponent ?q \<le> e" using pow2_less assms(2) by (fastforce simp: fp_exponent_def)
  moreover define k where "k = exponent ?q"
  ultimately obtain n where n: "e = k + int n" by (metis zle_iff_zadd)
  have split: "pow2 e = pow2 k * 2 ^ n" using pow2_add n by metis
  then have "?q / pow2 k = of_int (m * 2 ^ n)" by simp
  then have "of_int (round_half_even (?q / pow2 k)) * pow2 k = ?q"
    using split by (simp only: round_int) simp
  with pos show ?thesis by (simp add: fp_value_def k_def)
qed

lemma exact:
  assumes "\<bar>m\<bar> < 2 ^ nat precision" "lowest \<le> e" "\<bar>of_int m * pow2 e\<bar> < pow2 highest"
  shows "rnd (of_int m * pow2 e) = Fin (of_int m * pow2 e)"
  using value_exact [OF assms(1,2)] assms(3) by (simp add: by_value abs_less_iff)

lemma value_minus: "val (- q) = - val q"
  by (simp add: fp_value_def fp_exponent_def round_half_even_minus)

lemma value_le_pow2:
  assumes "0 < q"
  shows "val q \<le> pow2 (max (rat_exponent q + 1) lowest)"
proof -
  let ?k = "exponent q" and ?e = "max (rat_exponent q + 1) lowest"
  have ke: "?k \<le> ?e" using assms precision by (simp add: fp_exponent_def)
  have "q \<le> pow2 ?e" using rat_exponent_gt [OF assms] pow2_mono [of "rat_exponent q + 1" ?e] by simp
  then have "q / pow2 ?k \<le> pow2 ?e / pow2 ?k" by (simp add: divide_right_mono less_imp_le)
  then have "round_half_even (q / pow2 ?k) \<le> 2 ^ nat (?e - ?k)"
    using round_half_even_mono pow2_divide [OF ke] round_int by metis
  then have "of_int (round_half_even (q / pow2 ?k)) \<le> pow2 ?e / pow2 ?k"
    unfolding pow2_divide [OF ke] by (simp only: of_int_le_iff)
  then have "of_int (round_half_even (q / pow2 ?k)) * pow2 ?k \<le> pow2 ?e / pow2 ?k * pow2 ?k"
    by (intro mult_right_mono) (auto simp: less_imp_le)
  also have "pow2 ?e / pow2 ?k * pow2 ?k = pow2 ?e" using pow2_pos [of ?k] by simp
  finally show ?thesis using assms by (simp add: fp_value_def)
qed

lemma value_ge_pow2:
  assumes "0 < q" "lowest \<le> rat_exponent q"
  shows "pow2 (rat_exponent q) \<le> val q"
proof -
  let ?k = "exponent q" and ?e = "rat_exponent q"
  have ke: "?k \<le> ?e" using assms precision by (simp add: fp_exponent_def)
  have "pow2 ?e / pow2 ?k \<le> q / pow2 ?k"
    using rat_exponent_le [OF assms(1)] by (simp add: divide_right_mono less_imp_le)
  then have "2 ^ nat (?e - ?k) \<le> round_half_even (q / pow2 ?k)"
    using round_half_even_mono pow2_divide [OF ke] round_int by metis
  then have "pow2 ?e / pow2 ?k \<le> of_int (round_half_even (q / pow2 ?k))"
    unfolding pow2_divide [OF ke] by (simp only: of_int_le_iff)
  then have "pow2 ?e / pow2 ?k * pow2 ?k \<le> of_int (round_half_even (q / pow2 ?k)) * pow2 ?k"
    by (intro mult_right_mono) (auto simp: less_imp_le)
  moreover have "pow2 ?e / pow2 ?k * pow2 ?k = pow2 ?e" using pow2_pos [of ?k] by simp
  ultimately show ?thesis using assms by (simp add: fp_value_def)
qed

lemma value_mono_pos:
  assumes "0 < x" "x \<le> y"
  shows "val x \<le> val y"
proof (cases "exponent x = exponent y")
  case True
  have "x / pow2 (exponent y) \<le> y / pow2 (exponent y)"
    using assms by (simp add: divide_right_mono less_imp_le)
  then have "(of_int (round_half_even (x / pow2 (exponent y))) :: rat)
      \<le> of_int (round_half_even (y / pow2 (exponent y)))"
    using round_half_even_mono by (simp only: of_int_le_iff)
  then show ?thesis using assms True
    by (simp add: fp_value_def mult_right_mono less_imp_le)
next
  case False
  have y: "0 < y" using assms by simp
  have "pow2 (rat_exponent x) < pow2 (rat_exponent y + 1)"
    using rat_exponent_le [OF assms(1)] rat_exponent_gt [OF y] assms(2) by linarith
  then have "rat_exponent x \<le> rat_exponent y" using pow2_less by fastforce
  with False assms precision have e: "rat_exponent x < rat_exponent y" "lowest \<le> rat_exponent y"
    by (auto simp: fp_exponent_def max_def split: if_splits)
  have "val x \<le> pow2 (max (rat_exponent x + 1) lowest)" using assms(1) by (rule value_le_pow2)
  also have "\<dots> \<le> pow2 (rat_exponent y)" using e by (intro pow2_mono) simp
  also have "\<dots> \<le> val y" using y e(2) by (rule value_ge_pow2)
  finally show ?thesis .
qed

lemma value_nonneg: "0 \<le> q \<Longrightarrow> 0 \<le> val q"
proof (cases "q = 0")
  case False
  assume "0 \<le> q"
  then have "0 \<le> round_half_even (q / pow2 (exponent q))"
    using round_half_even_mono [of 0 "q / pow2 (exponent q)"] round_int [of 0]
    by (simp add: less_imp_le)
  then show ?thesis by (simp add: fp_value_def less_imp_le)
qed (simp add: fp_value_def)

lemma value_mono:
  assumes "x \<le> y"
  shows "val x \<le> val y"
proof (cases "0 < x")
  case True
  with assms show ?thesis by (intro value_mono_pos)
next
  case x: False
  show ?thesis
  proof (cases "0 \<le> y")
    case True
    have "val x \<le> 0" using value_nonneg [of "- x"] x by (simp add: value_minus)
    with value_nonneg [OF True] show ?thesis by simp
  next
    case False
    then have "val (- y) \<le> val (- x)" using assms by (intro value_mono_pos) auto
    then show ?thesis by (simp add: value_minus)
  qed
qed

lemma mono: "x \<le> y \<Longrightarrow> fp_leq (rnd x) (rnd y)"
  using value_mono [of x y] pow2_pos [of highest]
  by (auto simp: by_value fp_leq_def)

lemma rounded_value: "rnd q = Fin r \<Longrightarrow> r = val q \<and> \<bar>r\<bar> < pow2 highest"
  by (auto simp: by_value abs_less_iff split: if_splits)

text \<open>A value between two representable ones rounds to one between them.\<close>

lemma between:
  assumes "rnd a = Fin a" "rnd b = Fin b" "a \<le> q" "q \<le> b"
  shows "\<exists>r. rnd q = Fin r \<and> a \<le> r \<and> r \<le> b"
  using mono [OF assms(3)] mono [OF assms(4)] assms(1,2) by (cases "rnd q") (auto simp: fp_leq_def)

text \<open>Rounding is idempotent.\<close>

lemma value_value: "val (val q) = val q"
proof (cases "q = 0")
  case True
  then show ?thesis by (simp add: fp_value_def)
next
  case False
  let ?k = "exponent q" and ?m = "round_half_even (q / pow2 (exponent q))"
  have v: "val q = of_int ?m * pow2 ?k" using False by (simp add: fp_value_def)
  have "\<bar>q\<bar> < pow2 (rat_exponent \<bar>q\<bar> + 1)" using rat_exponent_gt [of "\<bar>q\<bar>"] False by simp
  also have "\<dots> \<le> pow2 (?k + precision)" by (rule pow2_mono) (simp add: fp_exponent_def)
  also have "\<dots> = pow2 ?k * 2 ^ nat precision" using pow2_add [of ?k "nat precision"] precision by simp
  finally have "- (2 ^ nat precision) \<le> q / pow2 ?k" "q / pow2 ?k \<le> 2 ^ nat precision"
    by (auto simp: abs_less_iff field_simps)
  then have m: "- (2 ^ nat precision) \<le> ?m" "?m \<le> 2 ^ nat precision"
    using round_half_even_mono round_int [of "- (2 ^ nat precision)"] round_int [of "2 ^ nat precision"]
    by (metis of_int_minus of_int_numeral of_int_power)+
  show ?thesis
  proof (cases "\<bar>?m\<bar> = 2 ^ nat precision")
    case False
    with m have "\<bar>?m\<bar> < 2 ^ nat precision" by linarith
    then show ?thesis unfolding v by (intro value_exact) (simp_all add: fp_exponent_def)
  next
    case True
    have two: "(2 :: int) ^ nat precision = 2 * 2 ^ nat (precision - 1)"
      using precision by (metis Suc_nat_eq_nat_zadd1 diff_ge_0_iff_ge diff_add_cancel add.commute power_Suc)
    define m' :: int where "m' = (if 0 \<le> ?m then 2 ^ nat (precision - 1) else - (2 ^ nat (precision - 1)))"
    have m': "?m = 2 * m'" "\<bar>m'\<bar> = 2 ^ nat (precision - 1)"
      using True unfolding two m'_def by (auto simp only: abs_if split: if_splits)
    have "val q = of_int m' * pow2 (?k + 1)" by (simp add: v m'(1) pow2_Suc)
    moreover have "\<bar>m'\<bar> < 2 ^ nat precision" using m'(2) two by simp
    ultimately show ?thesis using value_exact [of m' "?k + 1"] by (simp add: fp_exponent_def)
  qed
qed

lemma idempotent:
  assumes "rnd q = Fin r"
  shows "rnd r = Fin r"
proof -
  have "val r = r" "\<bar>r\<bar> < pow2 highest" using rounded_value [OF assms] value_value [of q] by auto
  then show ?thesis unfolding by_value [of r] by (simp add: abs_less_iff)
qed

end

section \<open>The two formats\<close>

definition flt :: "rat \<Rightarrow> fp" where
  "flt q = round_fp 24 (- 149) 128 q"

interpretation binary64: binary_format 53 "- 1074" 1024 dbl
  by unfold_locales (simp_all add: dbl_def)

interpretation binary32: binary_format 24 "- 149" 128 flt
  by unfold_locales (simp_all add: flt_def)

lemmas dbl_mono = binary64.mono
lemmas dbl_exact = binary64.exact [simplified]
lemmas dbl_by_value = binary64.by_value
lemmas dbl_value_minus = binary64.value_minus

abbreviation dbl_exponent :: "rat \<Rightarrow> int" where
  "dbl_exponent \<equiv> fp_exponent 53 (- 1074)"

abbreviation dbl_value :: "rat \<Rightarrow> rat" where
  "dbl_value \<equiv> fp_value 53 (- 1074)"

lemma flt_int [simp]:
  "numeral n < (2 ^ 24 :: int) \<Longrightarrow> flt (numeral n) = Fin (numeral n)"
  "numeral n < (2 ^ 24 :: int) \<Longrightarrow> flt (- numeral n) = Fin (- numeral n)"
  "flt 0 = Fin 0" "flt 1 = Fin 1"
proof -
  have exact: "flt (of_int m) = Fin (of_int m)" if "\<bar>m\<bar> < 2 ^ 24" for m
  proof -
    have "(of_int \<bar>m\<bar> :: rat) < of_int (2 ^ 24)" using that by (simp only: of_int_less_iff)
    also have "\<dots> = pow2 24" by (simp add: pow2_def)
    also have "\<dots> \<le> pow2 128" by (rule pow2_mono) simp
    finally show ?thesis using binary32.exact [of m 0] that by simp
  qed
  show "numeral n < (2 ^ 24 :: int) \<Longrightarrow> flt (numeral n) = Fin (numeral n)"
    using exact [of "numeral n"] by simp
  show "numeral n < (2 ^ 24 :: int) \<Longrightarrow> flt (- numeral n) = Fin (- numeral n)"
    using exact [of "- numeral n"] by simp
  show "flt 0 = Fin 0" "flt 1 = Fin 1" using exact [of 0] exact [of 1] by simp_all
qed

text \<open>Arithmetic on \<open>float\<close>: infinities and NaN behave as for \<open>double\<close>, results are rounded to 24 bits.
  \<open>to_flt\<close> is the conversion of a \<open>double\<close> or of an integer.\<close>

definition to_flt :: "fp \<Rightarrow> fp" where
  "to_flt a = (case a of Fin x \<Rightarrow> flt x | _ \<Rightarrow> a)"

definition flt_add :: "fp \<Rightarrow> fp \<Rightarrow> fp" where
  "flt_add a b = (case (a, b) of (Fin x, Fin y) \<Rightarrow> flt (x + y) | _ \<Rightarrow> dbl_add a b)"

definition flt_sub :: "fp \<Rightarrow> fp \<Rightarrow> fp" where
  "flt_sub a b = flt_add a (fp_neg b)"

definition flt_mul :: "fp \<Rightarrow> fp \<Rightarrow> fp" where
  "flt_mul a b = (case (a, b) of (Fin x, Fin y) \<Rightarrow> flt (x * y) | _ \<Rightarrow> dbl_mul a b)"

text \<open>Division by a positive value or infinity.\<close>

definition flt_div_pos :: "fp \<Rightarrow> fp \<Rightarrow> fp" where
  "flt_div_pos a b =
    (case (a, b) of
       (Fin x, Fin y) \<Rightarrow> flt (x / y)
     | (Fin x, PosInf) \<Rightarrow> Fin 0
     | (_, Fin y) \<Rightarrow> dbl_div_by a y
     | _ \<Rightarrow> NaN)"

text \<open>\<open>std::max\<close>, \<open>std::min\<close> and \<open>std::clamp\<close>: the first argument unless the comparison holds.\<close>

definition fp_max :: "fp \<Rightarrow> fp \<Rightarrow> fp" where
  "fp_max a b = (if fp_less a b then b else a)"

definition fp_min :: "fp \<Rightarrow> fp \<Rightarrow> fp" where
  "fp_min a b = (if fp_less b a then b else a)"

definition fp_clamp :: "fp \<Rightarrow> fp \<Rightarrow> fp \<Rightarrow> fp" where
  "fp_clamp v lo hi = (if fp_less v lo then lo else if fp_less hi v then hi else v)"

lemma dbl_int [simp]:
  "numeral n < (2 ^ 53 :: int) \<Longrightarrow> dbl (numeral n) = Fin (numeral n)"
  "numeral n < (2 ^ 53 :: int) \<Longrightarrow> dbl (- numeral n) = Fin (- numeral n)"
  "dbl 0 = Fin 0" "dbl 1 = Fin 1"
proof -
  have big: "(of_int m :: rat) < pow2 1024" if "m < 2 ^ 53" for m
  proof -
    have "(of_int m :: rat) < of_int (2 ^ 53)" using that by (simp only: of_int_less_iff)
    also have "\<dots> = pow2 53" by (simp add: pow2_def)
    also have "\<dots> \<le> pow2 1024" by (rule pow2_mono) simp
    finally show ?thesis .
  qed
  show "numeral n < (2 ^ 53 :: int) \<Longrightarrow> dbl (numeral n) = Fin (numeral n)"
    using dbl_exact [of "numeral n" 0] big [of "numeral n"] by simp
  show "numeral n < (2 ^ 53 :: int) \<Longrightarrow> dbl (- numeral n) = Fin (- numeral n)"
    using dbl_exact [of "- numeral n" 0] big [of "numeral n"] by simp
  show "dbl 0 = Fin 0" "dbl 1 = Fin 1"
    using dbl_exact [of 0 0] dbl_exact [of 1 0] big [of 1] by simp_all
qed

text \<open>Values a \<open>float\<close> can hold, and the results of its arithmetic.\<close>

definition float_value :: "fp \<Rightarrow> bool" where
  "float_value v \<longleftrightarrow> (case v of Fin q \<Rightarrow> flt q = Fin q | _ \<Rightarrow> True)"

lemma flt_float: "float_value (flt q)"
  using binary32.idempotent by (auto simp: float_value_def split: fp.splits)

lemma flt_add_float: "float_value (flt_add a b)"
  using flt_float by (cases a; cases b) (auto simp: flt_add_def float_value_def)

lemma flt_mul_float: "float_value (flt_mul a b)"
  using flt_float by (cases a; cases b) (auto simp: flt_mul_def float_value_def fp_inf_def)

lemma flt_sub_float: "float_value (flt_sub a b)"
  by (simp add: flt_sub_def flt_add_float)

lemma least_float: "flt s = Fin s \<Longrightarrow> 0 < s \<Longrightarrow> pow2 (- 149) \<le> s"
proof -
  assume s: "flt s = Fin s" "0 < s"
  let ?e = "fp_exponent 24 (- 149) s" and ?n = "round_half_even (s / pow2 (fp_exponent 24 (- 149) s))"
  have "s = of_int ?n * pow2 ?e" using binary32.rounded_value [OF s(1)] s(2) by (simp add: fp_value_def)
  moreover from this have "0 < ?n" using s(2) pow2_pos [of ?e]
    by (metis mult_pos_pos of_int_0_less_iff zero_less_mult_pos2)
  then have "(1 :: rat) \<le> of_int ?n" by simp
  then have "1 * pow2 ?e \<le> of_int ?n * pow2 ?e" by (intro mult_right_mono) (simp_all add: less_imp_le)
  moreover have "pow2 (- 149) \<le> pow2 ?e" by (rule pow2_mono) (simp add: fp_exponent_def)
  ultimately show ?thesis by linarith
qed

lemma fp_less_irrefl [simp]: "\<not> fp_less a a"
  by (cases a) auto

lemma fp_less_trans: "fp_less a b \<Longrightarrow> fp_less b c \<Longrightarrow> fp_less a c"
  by (cases a; cases b; cases c) auto

end
