(* ===== verification/Document_Workspace.thy ===== *)
theory Document_Workspace
  imports Floating
begin

text \<open>
  The multi-document workspace model (\<open>src/document_workspace.cpp\<close>,
  \<open>include/mwfl/document_workspace.h\<close>): the open documents in order, the active identifier, the
  bounded history of recently closed documents and the revision counter, with the transfer of a
  document between two workspaces.

  \<open>SamePath\<close> compares normalised paths with \<open>CompareStringOrdinal\<close>, which maps every code unit
  through an upper-case table of the operating system; the normalisation of
  \<open>std::filesystem::path\<close> and that table are the fields of \<open>path_ops\<close>.
\<close>

record path_ops =
  normal_path :: "wstring \<Rightarrow> wstring"
  upcase :: "wchar \<Rightarrow> wchar"

definition SamePath :: "path_ops \<Rightarrow> wstring \<Rightarrow> wstring \<Rightarrow> bool" where
  "SamePath ops left right \<longleftrightarrow> left \<noteq> [] \<and> right \<noteq> []
    \<and> map (upcase ops) (normal_path ops left) = map (upcase ops) (normal_path ops right)"

record DocumentViewState =
  vs_selection_start :: u64
  vs_selection_end :: u64
  vs_first_visible_unit :: u64
  vs_zoom :: fp

definition DocumentViewState_IsValid :: "DocumentViewState \<Rightarrow> bool" where
  "DocumentViewState_IsValid v \<longleftrightarrow> vs_selection_start v \<le> vs_selection_end v
    \<and> isfinite (vs_zoom v) \<and> fp_leq dbl_0_1 (vs_zoom v) \<and> fp_leq (vs_zoom v) (Fin 10)"

record WorkspaceDocument =
  wd_id :: u64
  wd_title :: wstring
  wd_path :: wstring
  wd_dirty :: bool
  wd_can_undo :: bool
  wd_can_redo :: bool
  wd_view :: DocumentViewState

datatype DocumentWorkspaceStatus =
    Workspace_success
  | Workspace_invalid_argument
  | Workspace_duplicate_id
  | Workspace_duplicate_path
  | Workspace_not_found
  | Workspace_stale_transfer

text \<open>The status and the active document that accompanies every result.\<close>

type_synonym DocumentWorkspaceResult = "DocumentWorkspaceStatus \<times> u64 option"

record DocumentTransferPlan =
  tp_source :: u64
  tp_destination :: u64
  tp_document :: WorkspaceDocument
  tp_source_index :: nat
  tp_destination_index :: "nat option"
  tp_was_active :: bool
  tp_source_revision :: u64
  tp_destination_revision :: u64
  tp_accepted :: bool

definition DocumentTransferPlan_IsValid :: "DocumentTransferPlan \<Rightarrow> bool" where
  "DocumentTransferPlan_IsValid p \<longleftrightarrow> tp_source p \<noteq> 0 \<and> tp_destination p \<noteq> 0
    \<and> tp_source p \<noteq> tp_destination p \<and> wd_id (tp_document p) \<noteq> 0
    \<and> wd_title (tp_document p) \<noteq> [] \<and> DocumentViewState_IsValid (wd_view (tp_document p))"

record DocumentWorkspaceModel =
  dw_id :: u64
  dw_maximum_recently_closed :: nat
  dw_documents :: "WorkspaceDocument list"
  dw_recently_closed :: "WorkspaceDocument list"
  dw_active :: "u64 option"
  dw_revision :: u64

definition DocumentWorkspaceModel_new :: "u64 \<Rightarrow> nat \<Rightarrow> DocumentWorkspaceModel option" where
  "DocumentWorkspaceModel_new i maximum =
    (if i = 0 then None
     else Some \<lparr>dw_id = i, dw_maximum_recently_closed = maximum, dw_documents = [],
       dw_recently_closed = [], dw_active = None, dw_revision = 0\<rparr>)"

definition Workspace_FindIndex :: "u64 \<Rightarrow> DocumentWorkspaceModel \<Rightarrow> nat option" where
  "Workspace_FindIndex i w =
    (if i = 0 then None else find_index (\<lambda>d. wd_id d = i) (dw_documents w))"

definition Workspace_Find :: "u64 \<Rightarrow> DocumentWorkspaceModel \<Rightarrow> WorkspaceDocument option" where
  "Workspace_Find i w =
    (case Workspace_FindIndex i w of None \<Rightarrow> None | Some k \<Rightarrow> Some (dw_documents w ! k))"

definition Workspace_ContainsPath :: "path_ops \<Rightarrow> wstring \<Rightarrow> DocumentWorkspaceModel \<Rightarrow> bool" where
  "Workspace_ContainsPath ops path w \<longleftrightarrow>
    path \<noteq> [] \<and> (\<exists>item \<in> set (dw_documents w). SamePath ops (wd_path item) path)"

definition Workspace_IsValidDocument :: "WorkspaceDocument \<Rightarrow> bool" where
  "Workspace_IsValidDocument d \<longleftrightarrow>
    wd_id d \<noteq> 0 \<and> wd_title d \<noteq> [] \<and> DocumentViewState_IsValid (wd_view d)"

definition Workspace_Success :: "DocumentWorkspaceModel \<Rightarrow> DocumentWorkspaceResult \<times> DocumentWorkspaceModel" where
  "Workspace_Success w = ((Workspace_success, dw_active w), w)"

definition Workspace_Fail ::
  "DocumentWorkspaceStatus \<Rightarrow> DocumentWorkspaceModel \<Rightarrow> DocumentWorkspaceResult \<times> DocumentWorkspaceModel" where
  "Workspace_Fail status w = ((status, dw_active w), w)"

definition bump_revision :: "DocumentWorkspaceModel \<Rightarrow> DocumentWorkspaceModel" where
  "bump_revision w = w\<lparr>dw_revision := dw_revision w + 1\<rparr>"

definition Workspace_Add ::
  "path_ops \<Rightarrow> WorkspaceDocument \<Rightarrow> nat option \<Rightarrow> DocumentWorkspaceModel
    \<Rightarrow> DocumentWorkspaceResult \<times> DocumentWorkspaceModel" where
  "Workspace_Add ops d index w =
    (if \<not> Workspace_IsValidDocument d \<or> (case index of None \<Rightarrow> False | Some k \<Rightarrow> k > length (dw_documents w))
     then Workspace_Fail Workspace_invalid_argument w
     else if Workspace_Find (wd_id d) w \<noteq> None then Workspace_Fail Workspace_duplicate_id w
     else if Workspace_ContainsPath ops (wd_path d) w then Workspace_Fail Workspace_duplicate_path w
     else let insertion = (case index of None \<Rightarrow> length (dw_documents w) | Some k \<Rightarrow> k);
              documents = insert_at insertion d (dw_documents w)
       in Workspace_Success (bump_revision (w\<lparr>dw_documents := documents,
            dw_active := (if dw_active w = None then Some (wd_id (documents ! insertion))
              else dw_active w)\<rparr>)))"

definition Workspace_RememberClosed ::
  "path_ops \<Rightarrow> WorkspaceDocument \<Rightarrow> DocumentWorkspaceModel \<Rightarrow> DocumentWorkspaceModel" where
  "Workspace_RememberClosed ops d w =
    (if dw_maximum_recently_closed w = 0 then w
     else w\<lparr>dw_recently_closed := take (dw_maximum_recently_closed w)
       (d # filter (\<lambda>item. \<not> (wd_id item = wd_id d \<or> SamePath ops (wd_path item) (wd_path d)))
         (dw_recently_closed w))\<rparr>)"

definition Workspace_Close ::
  "path_ops \<Rightarrow> u64 \<Rightarrow> bool \<Rightarrow> DocumentWorkspaceModel
    \<Rightarrow> DocumentWorkspaceResult \<times> DocumentWorkspaceModel" where
  "Workspace_Close ops i remember w =
    (case Workspace_FindIndex i w of
       None \<Rightarrow> Workspace_Fail Workspace_not_found w
     | Some k \<Rightarrow>
        let w1 = (if remember then Workspace_RememberClosed ops (dw_documents w ! k) w else w);
            was_active = (dw_active w = Some i);
            documents = erase_at k (dw_documents w)
        in Workspace_Success (bump_revision (w1\<lparr>dw_documents := documents,
             dw_active := (if was_active
               then (if documents = [] then None
                     else Some (wd_id (documents ! min k (length documents - 1))))
               else dw_active w)\<rparr>)))"

text \<open>The validation loop of \<open>CloseMany\<close>: the identifiers seen so far, or the failure.\<close>

fun close_many_ids ::
  "DocumentWorkspaceModel \<Rightarrow> u64 list \<Rightarrow> u64 list \<Rightarrow> DocumentWorkspaceStatus + u64 list" where
  "close_many_ids w unique [] = Inr unique"
| "close_many_ids w unique (i # ids) =
    (if i = 0 \<or> i \<in> set unique then Inl Workspace_invalid_argument
     else if Workspace_Find i w = None then Inl Workspace_not_found
     else close_many_ids w (unique @ [i]) ids)"

text \<open>
  The two searches for the next active document: forward from the old active position, then
  backward from it.
\<close>

definition next_active_after :: "u64 list \<Rightarrow> DocumentWorkspaceModel \<Rightarrow> u64 option" where
  "next_active_after unique w =
    (case dw_active w of
       None \<Rightarrow> None
     | Some a \<Rightarrow>
        if a \<notin> set unique then Some a
        else let old_active = (case Workspace_FindIndex a w of None \<Rightarrow> 0 | Some k \<Rightarrow> k);
                 keep = (\<lambda>d. wd_id d \<notin> set unique)
          in (case find keep (drop old_active (dw_documents w)) of
                Some d \<Rightarrow> Some (wd_id d)
              | None \<Rightarrow> map_option wd_id (find keep (rev (take old_active (dw_documents w))))))"

definition Workspace_CloseMany ::
  "u64 list \<Rightarrow> DocumentWorkspaceModel \<Rightarrow> DocumentWorkspaceResult \<times> DocumentWorkspaceModel" where
  "Workspace_CloseMany ids w =
    (if ids = [] then Workspace_Fail Workspace_invalid_argument w
     else case close_many_ids w [] ids of
       Inl status \<Rightarrow> Workspace_Fail status w
     | Inr unique \<Rightarrow> Workspace_Success (bump_revision (w\<lparr>
         dw_documents := filter (\<lambda>d. wd_id d \<notin> set unique) (dw_documents w),
         dw_active := next_active_after unique w\<rparr>)))"

definition Workspace_Move ::
  "u64 \<Rightarrow> nat \<Rightarrow> DocumentWorkspaceModel \<Rightarrow> DocumentWorkspaceResult \<times> DocumentWorkspaceModel" where
  "Workspace_Move i index w =
    (case Workspace_FindIndex i w of
       None \<Rightarrow> Workspace_Fail Workspace_not_found w
     | Some current \<Rightarrow>
        if index \<ge> length (dw_documents w) then Workspace_Fail Workspace_invalid_argument w
        else if current = index then Workspace_Success w
        else Workspace_Success (bump_revision
          (w\<lparr>dw_documents := move_item current index (dw_documents w)\<rparr>)))"

definition Workspace_Activate ::
  "u64 \<Rightarrow> DocumentWorkspaceModel \<Rightarrow> DocumentWorkspaceResult \<times> DocumentWorkspaceModel" where
  "Workspace_Activate i w =
    (if Workspace_Find i w = None then Workspace_Fail Workspace_not_found w
     else if dw_active w \<noteq> Some i
       then Workspace_Success (bump_revision (w\<lparr>dw_active := Some i\<rparr>))
     else Workspace_Success w)"

definition Workspace_SetDirty ::
  "u64 \<Rightarrow> bool \<Rightarrow> DocumentWorkspaceModel \<Rightarrow> DocumentWorkspaceResult \<times> DocumentWorkspaceModel" where
  "Workspace_SetDirty i dirty w =
    (case Workspace_FindIndex i w of
       None \<Rightarrow> Workspace_Fail Workspace_not_found w
     | Some k \<Rightarrow>
        if wd_dirty (dw_documents w ! k) \<noteq> dirty
        then Workspace_Success (bump_revision (w\<lparr>dw_documents :=
          update_at k (\<lambda>d. d\<lparr>wd_dirty := dirty\<rparr>) (dw_documents w)\<rparr>))
        else Workspace_Success w)"

definition Workspace_SetUndoState ::
  "u64 \<Rightarrow> bool \<Rightarrow> bool \<Rightarrow> DocumentWorkspaceModel
    \<Rightarrow> DocumentWorkspaceResult \<times> DocumentWorkspaceModel" where
  "Workspace_SetUndoState i can_undo can_redo w =
    (case Workspace_FindIndex i w of
       None \<Rightarrow> Workspace_Fail Workspace_not_found w
     | Some k \<Rightarrow>
        if wd_can_undo (dw_documents w ! k) \<noteq> can_undo \<or> wd_can_redo (dw_documents w ! k) \<noteq> can_redo
        then Workspace_Success (bump_revision (w\<lparr>dw_documents :=
          update_at k (\<lambda>d. d\<lparr>wd_can_undo := can_undo, wd_can_redo := can_redo\<rparr>) (dw_documents w)\<rparr>))
        else Workspace_Success w)"

definition Workspace_SetViewState ::
  "u64 \<Rightarrow> DocumentViewState \<Rightarrow> DocumentWorkspaceModel
    \<Rightarrow> DocumentWorkspaceResult \<times> DocumentWorkspaceModel" where
  "Workspace_SetViewState i state w =
    (if \<not> DocumentViewState_IsValid state then Workspace_Fail Workspace_invalid_argument w
     else case Workspace_FindIndex i w of
       None \<Rightarrow> Workspace_Fail Workspace_not_found w
     | Some k \<Rightarrow> Workspace_Success (bump_revision (w\<lparr>dw_documents :=
         update_at k (\<lambda>d. d\<lparr>wd_view := state\<rparr>) (dw_documents w)\<rparr>)))"

definition Workspace_Rename ::
  "path_ops \<Rightarrow> u64 \<Rightarrow> wstring \<Rightarrow> wstring \<Rightarrow> DocumentWorkspaceModel
    \<Rightarrow> DocumentWorkspaceResult \<times> DocumentWorkspaceModel" where
  "Workspace_Rename ops i title path w =
    (if title = [] then Workspace_Fail Workspace_invalid_argument w
     else case Workspace_FindIndex i w of
       None \<Rightarrow> Workspace_Fail Workspace_not_found w
     | Some k \<Rightarrow>
        if path \<noteq> [] \<and> (\<exists>item \<in> set (dw_documents w).
            wd_id item \<noteq> i \<and> SamePath ops (wd_path item) path)
        then Workspace_Fail Workspace_duplicate_path w
        else Workspace_Success (bump_revision (w\<lparr>dw_documents :=
          update_at k (\<lambda>d. d\<lparr>wd_title := title, wd_path := path\<rparr>) (dw_documents w)\<rparr>)))"

definition Workspace_ReopenRecentlyClosed ::
  "path_ops \<Rightarrow> nat \<Rightarrow> DocumentWorkspaceModel \<Rightarrow> DocumentWorkspaceResult \<times> DocumentWorkspaceModel" where
  "Workspace_ReopenRecentlyClosed ops index w =
    (if index \<ge> length (dw_recently_closed w) then Workspace_Fail Workspace_not_found w
     else let d = (dw_recently_closed w ! index)\<lparr>wd_dirty := False\<rparr>;
              added = Workspace_Add ops d None w
       in if fst (fst added) \<noteq> Workspace_success then added
          else Workspace_Success (bump_revision ((snd added)\<lparr>
            dw_recently_closed := erase_at index (dw_recently_closed (snd added)),
            dw_active := Some (wd_id d)\<rparr>)))"

fun restore_recent ::
  "path_ops \<Rightarrow> DocumentWorkspaceModel \<Rightarrow> WorkspaceDocument list \<Rightarrow> WorkspaceDocument list
    \<Rightarrow> DocumentWorkspaceStatus + WorkspaceDocument list" where
  "restore_recent ops w restored [] = Inr restored"
| "restore_recent ops w restored (d # ds) =
    (if \<not> Workspace_IsValidDocument d \<or> Workspace_Find (wd_id d) w \<noteq> None
     then Inl Workspace_invalid_argument
     else if (wd_path d \<noteq> [] \<and> Workspace_ContainsPath ops (wd_path d) w)
        \<or> (\<exists>item \<in> set restored. wd_id item = wd_id d \<or> SamePath ops (wd_path item) (wd_path d))
     then Inl Workspace_duplicate_path
     else restore_recent ops w
       (if length restored < dw_maximum_recently_closed w then restored @ [d] else restored) ds)"

definition Workspace_RestoreRecentlyClosed ::
  "path_ops \<Rightarrow> WorkspaceDocument list \<Rightarrow> DocumentWorkspaceModel
    \<Rightarrow> DocumentWorkspaceResult \<times> DocumentWorkspaceModel" where
  "Workspace_RestoreRecentlyClosed ops documents w =
    (case restore_recent ops w [] documents of
       Inl status \<Rightarrow> Workspace_Fail status w
     | Inr restored \<Rightarrow> Workspace_Success (bump_revision (w\<lparr>dw_recently_closed := restored\<rparr>)))"

definition Workspace_ClearRecentlyClosed :: "DocumentWorkspaceModel \<Rightarrow> DocumentWorkspaceModel" where
  "Workspace_ClearRecentlyClosed w = w\<lparr>dw_recently_closed := []\<rparr>"

section \<open>Transfer between workspaces\<close>

definition Workspace_PrepareTransfer ::
  "u64 \<Rightarrow> u64 \<Rightarrow> nat option \<Rightarrow> DocumentWorkspaceModel \<Rightarrow> DocumentTransferPlan option" where
  "Workspace_PrepareTransfer i destination destination_index w =
    (case Workspace_FindIndex i w of
       None \<Rightarrow> None
     | Some source_index \<Rightarrow>
        if destination = 0 \<or> destination = dw_id w then None
        else Some \<lparr>tp_source = dw_id w, tp_destination = destination,
          tp_document = dw_documents w ! source_index, tp_source_index = source_index,
          tp_destination_index = destination_index, tp_was_active = (dw_active w = Some i),
          tp_source_revision = dw_revision w, tp_destination_revision = 0, tp_accepted = False\<rparr>)"

definition Workspace_AcceptTransfer ::
  "path_ops \<Rightarrow> DocumentTransferPlan \<Rightarrow> DocumentWorkspaceModel
    \<Rightarrow> DocumentWorkspaceResult \<times> DocumentTransferPlan \<times> DocumentWorkspaceModel" where
  "Workspace_AcceptTransfer ops p w =
    (if \<not> DocumentTransferPlan_IsValid p \<or> tp_destination p \<noteq> dw_id w \<or> tp_accepted p
     then ((Workspace_invalid_argument, dw_active w), p, w)
     else let added = Workspace_Add ops (tp_document p) (tp_destination_index p) w
       in if fst (fst added) = Workspace_success
          then (fst added, p\<lparr>tp_accepted := True,
            tp_destination_revision := dw_revision (snd added)\<rparr>, snd added)
          else (fst added, p, snd added))"

definition Workspace_CommitTransfer ::
  "path_ops \<Rightarrow> DocumentTransferPlan \<Rightarrow> DocumentWorkspaceModel
    \<Rightarrow> DocumentWorkspaceResult \<times> DocumentWorkspaceModel" where
  "Workspace_CommitTransfer ops p w =
    (if \<not> DocumentTransferPlan_IsValid p \<or> tp_source p \<noteq> dw_id w \<or> \<not> tp_accepted p
     then Workspace_Fail Workspace_invalid_argument w
     else if dw_revision w \<noteq> tp_source_revision p \<or> Workspace_Find (wd_id (tp_document p)) w = None
     then Workspace_Fail Workspace_stale_transfer w
     else Workspace_Close ops (wd_id (tp_document p)) False w)"

definition Workspace_RollbackTransfer ::
  "path_ops \<Rightarrow> DocumentTransferPlan \<Rightarrow> DocumentWorkspaceModel
    \<Rightarrow> DocumentWorkspaceResult \<times> DocumentWorkspaceModel" where
  "Workspace_RollbackTransfer ops p w =
    (if \<not> DocumentTransferPlan_IsValid p \<or> tp_destination p \<noteq> dw_id w \<or> \<not> tp_accepted p
     then Workspace_Fail Workspace_invalid_argument w
     else if dw_revision w \<noteq> tp_destination_revision p
        \<or> Workspace_Find (wd_id (tp_document p)) w = None
     then Workspace_Fail Workspace_stale_transfer w
     else Workspace_Close ops (wd_id (tp_document p)) False w)"

definition TransferDocument ::
  "path_ops \<Rightarrow> u64 \<Rightarrow> nat option \<Rightarrow> DocumentWorkspaceModel \<Rightarrow> DocumentWorkspaceModel
    \<Rightarrow> DocumentWorkspaceResult \<times> DocumentWorkspaceModel \<times> DocumentWorkspaceModel" where
  "TransferDocument ops i destination_index source destination =
    (case Workspace_PrepareTransfer i (dw_id destination) destination_index source of
       None \<Rightarrow> ((Workspace_invalid_argument, dw_active source), source, destination)
     | Some p0 \<Rightarrow>
        let (accepted, p, destination1) = Workspace_AcceptTransfer ops p0 destination
        in if fst accepted \<noteq> Workspace_success then (accepted, source, destination1)
           else let (committed, source1) = Workspace_CommitTransfer ops p source
             in if fst committed \<noteq> Workspace_success
                then (committed, source1, snd (Workspace_RollbackTransfer ops p destination1))
                else let destination2 = (if tp_was_active p
                       then snd (Workspace_Activate i destination1) else destination1)
                  in ((Workspace_success, dw_active destination2), source1, destination2))"

end
