(* ===== verification/Workspace_Invariant.thy ===== *)
theory Workspace_Invariant
  imports Document_Workspace
begin

text \<open>
  The invariant of the document workspace and its preservation by every operation, the revision
  contract (an operation either changes nothing a client can see or advances the counter), and the
  facts about transfers.  The workspace interprets \<open>machine\<close> and \<open>revisioned\<close> of the prelude.
\<close>

section \<open>Lookup\<close>

lemma ws_index:
  "Workspace_FindIndex i w = Some k \<Longrightarrow>
    k < length (dw_documents w) \<and> wd_id (dw_documents w ! k) = i \<and> i \<noteq> 0"
  by (auto simp: Workspace_FindIndex_def find_index_Some split: if_splits)

lemma ws_index_None:
  "Workspace_FindIndex i w = None \<longleftrightarrow> i = 0 \<or> i \<notin> wd_id ` set (dw_documents w)"
  by (auto simp: Workspace_FindIndex_def find_index_None)

lemma ws_find_None:
  "Workspace_Find i w = None \<longleftrightarrow> i = 0 \<or> i \<notin> wd_id ` set (dw_documents w)"
proof -
  have "Workspace_Find i w = None \<longleftrightarrow> Workspace_FindIndex i w = None"
    by (simp add: Workspace_Find_def split: option.splits)
  then show ?thesis by (simp add: ws_index_None)
qed

lemma ws_find_Some: "Workspace_Find i w = Some d \<Longrightarrow> d \<in> set (dw_documents w) \<and> wd_id d = i \<and> i \<noteq> 0"
  by (auto simp: Workspace_Find_def split: option.splits dest!: ws_index)

lemma SamePath_sym: "SamePath ops a b \<longleftrightarrow> SamePath ops b a"
  by (auto simp: SamePath_def)

lemma SamePath_trans: "SamePath ops a b \<Longrightarrow> SamePath ops b c \<Longrightarrow> SamePath ops a c"
  by (simp add: SamePath_def)

lemma Fail_simps [simp]:
  "snd (Workspace_Fail s w) = w" "fst (fst (Workspace_Fail s w)) = s"
  by (simp_all add: Workspace_Fail_def)

lemma Success_simps [simp]:
  "snd (Workspace_Success w) = w" "fst (fst (Workspace_Success w)) = Workspace_success"
  by (simp_all add: Workspace_Success_def)

lemma bump_simps [simp]:
  "dw_documents (bump_revision w) = dw_documents w"
  "dw_active (bump_revision w) = dw_active w"
  "dw_id (bump_revision w) = dw_id w"
  "dw_recently_closed (bump_revision w) = dw_recently_closed w"
  "dw_maximum_recently_closed (bump_revision w) = dw_maximum_recently_closed w"
  "dw_revision (bump_revision w) = dw_revision w + 1"
  by (simp_all add: bump_revision_def)

lemma remember_simps [simp]:
  "dw_documents (Workspace_RememberClosed ops d w) = dw_documents w"
  "dw_active (Workspace_RememberClosed ops d w) = dw_active w"
  "dw_id (Workspace_RememberClosed ops d w) = dw_id w"
  "dw_revision (Workspace_RememberClosed ops d w) = dw_revision w"
  "dw_maximum_recently_closed (Workspace_RememberClosed ops d w) = dw_maximum_recently_closed w"
  by (simp_all add: Workspace_RememberClosed_def)

section \<open>Invariant\<close>

definition documents_wf :: "path_ops \<Rightarrow> WorkspaceDocument list \<Rightarrow> bool" where
  "documents_wf ops ds \<longleftrightarrow> distinct (map wd_id ds)
    \<and> (\<forall>d \<in> set ds. Workspace_IsValidDocument d)
    \<and> (\<forall>x \<in> set ds. \<forall>y \<in> set ds. wd_id x \<noteq> wd_id y \<longrightarrow> \<not> SamePath ops (wd_path x) (wd_path y))"

definition active_wf :: "u64 option \<Rightarrow> WorkspaceDocument list \<Rightarrow> bool" where
  "active_wf a ds \<longleftrightarrow> (case a of None \<Rightarrow> ds = [] | Some i \<Rightarrow> i \<in> wd_id ` set ds)"

definition workspace_wf :: "path_ops \<Rightarrow> DocumentWorkspaceModel \<Rightarrow> bool" where
  "workspace_wf ops w \<longleftrightarrow> dw_id w \<noteq> 0 \<and> documents_wf ops (dw_documents w)
    \<and> active_wf (dw_active w) (dw_documents w)
    \<and> length (dw_recently_closed w) \<le> dw_maximum_recently_closed w"

lemma workspace_wfD:
  assumes "workspace_wf ops w"
  shows "documents_wf ops (dw_documents w)" "active_wf (dw_active w) (dw_documents w)"
    "distinct (map wd_id (dw_documents w))" "dw_id w \<noteq> 0"
    "length (dw_recently_closed w) \<le> dw_maximum_recently_closed w"
  using assms by (auto simp: workspace_wf_def documents_wf_def)

lemma workspace_new_wf: "DocumentWorkspaceModel_new i n = Some w \<Longrightarrow> workspace_wf ops w"
  by (auto simp: DocumentWorkspaceModel_new_def workspace_wf_def documents_wf_def active_wf_def
      split: if_splits)

lemma documents_wf_subset:
  "documents_wf ops ds \<Longrightarrow> set es \<subseteq> set ds \<Longrightarrow> distinct (map wd_id es) \<Longrightarrow> documents_wf ops es"
  unfolding documents_wf_def by (meson subset_iff)

lemma documents_wf_insert:
  assumes "documents_wf ops ds" "Workspace_IsValidDocument d" "wd_id d \<notin> wd_id ` set ds"
    and "\<And>x. x \<in> set ds \<Longrightarrow> \<not> SamePath ops (wd_path x) (wd_path d)"
  shows "documents_wf ops (insert_at k d ds)"
  using assms by (auto simp: documents_wf_def map_insert_at SamePath_sym)

lemma documents_wf_update:
  assumes "documents_wf ops ds" "k < length ds" "wd_id (f (ds ! k)) = wd_id (ds ! k)"
    and "Workspace_IsValidDocument (f (ds ! k))"
    and "\<And>x. x \<in> set ds \<Longrightarrow> wd_id x \<noteq> wd_id (ds ! k) \<Longrightarrow> \<not> SamePath ops (wd_path x) (wd_path (f (ds ! k)))"
  shows "documents_wf ops (update_at k f ds)" "wd_id ` set (update_at k f ds) = wd_id ` set ds"
proof -
  have ids: "map wd_id (update_at k f ds) = map wd_id ds"
    using assms(2,3) by (simp add: update_at_def map_update list_update_same_conv)
  show "wd_id ` set (update_at k f ds) = wd_id ` set ds" using ids by (metis set_map)
  have mem: "\<And>x. x \<in> set (update_at k f ds) \<Longrightarrow> x \<in> set ds \<or> x = f (ds ! k)"
    by (auto dest: set_update_atD)
  have "\<not> SamePath ops (wd_path x) (wd_path y)"
    if "x \<in> set (update_at k f ds)" "y \<in> set (update_at k f ds)" "wd_id x \<noteq> wd_id y" for x y
    using mem [OF that(1)] mem [OF that(2)] that(3) assms(1,3,5) SamePath_sym
    unfolding documents_wf_def by metis
  then show "documents_wf ops (update_at k f ds)"
    using ids mem assms(1,4) unfolding documents_wf_def by metis
qed

lemma active_after_erase:
  assumes "active_wf a ds" "distinct (map wd_id ds)" "k < length ds" "wd_id (ds ! k) = i"
  defines "es \<equiv> erase_at k ds"
  shows "active_wf (if a = Some i then (if es = [] then None
      else Some (wd_id (es ! min k (length es - 1)))) else a) es"
proof -
  have ids: "wd_id ` set es = wd_id ` set ds - {i}"
    using set_filter_key_erase [OF assms(2,3)] assms(4) by (simp add: es_def)
  have "es \<noteq> [] \<Longrightarrow> es ! min k (length es - 1) \<in> set es"
    by (rule nth_mem) (simp add: min_less_iff_disj)
  moreover have "a \<noteq> None" using assms(1,3) by (auto simp: active_wf_def split: option.splits)
  ultimately show ?thesis using assms(1) ids by (auto simp: active_wf_def split: option.splits)
qed

section \<open>Preservation\<close>

lemma wf_add [preserves]:
  assumes "workspace_wf ops w"
  shows "workspace_wf ops (snd (Workspace_Add ops d k w))"
proof (cases "fst (fst (Workspace_Add ops d k w)) = Workspace_success")
  case False
  then show ?thesis using assms by (auto simp: Workspace_Add_def Let_def split: if_splits)
next
  case True
  then have g: "Workspace_IsValidDocument d" "Workspace_Find (wd_id d) w = None"
    "\<not> Workspace_ContainsPath ops (wd_path d) w" "\<And>n. k = Some n \<Longrightarrow> n \<le> length (dw_documents w)"
    by (auto simp: Workspace_Add_def split: if_splits)
  have new: "wd_id d \<notin> wd_id ` set (dw_documents w)"
    using g(1,2) by (auto simp: ws_find_None Workspace_IsValidDocument_def)
  have path: "\<And>x. x \<in> set (dw_documents w) \<Longrightarrow> \<not> SamePath ops (wd_path x) (wd_path d)"
    using g(3) by (auto simp: Workspace_ContainsPath_def SamePath_def)
  let ?ins = "case k of None \<Rightarrow> length (dw_documents w) | Some n \<Rightarrow> n"
  have ins: "?ins \<le> length (dw_documents w)" using g(4) by (auto split: option.splits)
  show ?thesis using assms g ins documents_wf_insert [OF workspace_wfD(1) [OF assms] g(1) new path]
    by (auto simp: Workspace_Add_def Let_def workspace_wf_def active_wf_def split: option.splits)
qed

lemma remember_bound:
  "length (dw_recently_closed w) \<le> dw_maximum_recently_closed w \<Longrightarrow>
   length (dw_recently_closed (Workspace_RememberClosed ops d w)) \<le> dw_maximum_recently_closed w"
  by (auto simp: Workspace_RememberClosed_def)

lemma wf_close [preserves]:
  assumes "workspace_wf ops w"
  shows "workspace_wf ops (snd (Workspace_Close ops i r w))"
proof (cases "Workspace_FindIndex i w")
  case None
  with assms show ?thesis by (simp add: Workspace_Close_def)
next
  case (Some k)
  let ?es = "erase_at k (dw_documents w)"
  have k: "k < length (dw_documents w)" "wd_id (dw_documents w ! k) = i" using ws_index [OF Some] by auto
  have d: "documents_wf ops ?es"
    using documents_wf_subset [OF workspace_wfD(1) [OF assms] set_erase_at_subset]
      workspace_wfD(3) [OF assms] by (simp add: map_erase_at distinct_erase_at)
  show ?thesis
    using d active_after_erase [OF workspace_wfD(2,3) [OF assms] k] workspace_wfD(4,5) [OF assms]
      remember_bound [of w]
    by (simp add: Workspace_Close_def Some Let_def workspace_wf_def)
qed

lemma find_in: "find P xs = Some x \<Longrightarrow> x \<in> set xs \<and> P x"
  by (auto simp: find_Some_iff)

lemma next_active_wf:
  assumes "active_wf (dw_active w) (dw_documents w)"
  shows "active_wf (next_active_after u w) (filter (\<lambda>d. wd_id d \<notin> set u) (dw_documents w))"
proof (cases "dw_active w")
  case None
  with assms show ?thesis by (simp add: next_active_after_def active_wf_def)
next
  case (Some a)
  let ?keep = "\<lambda>d. wd_id d \<notin> set u"
  let ?old = "case Workspace_FindIndex a w of None \<Rightarrow> 0 | Some k \<Rightarrow> k"
  show ?thesis
  proof (cases "a \<in> set u")
    case False
    with Some assms show ?thesis by (auto simp: next_active_after_def active_wf_def)
  next
    case True
    have split: "set (dw_documents w) = set (drop ?old (dw_documents w)) \<union> set (take ?old (dw_documents w))"
      by (metis append_take_drop_id set_append sup_commute)
    show ?thesis
    proof (cases "find ?keep (drop ?old (dw_documents w))")
      case f: (Some d)
      have "d \<in> set (filter ?keep (dw_documents w))" using find_in [OF f] by (auto dest: in_set_dropD)
      with Some True f show ?thesis by (auto simp: next_active_after_def active_wf_def Let_def)
    next
      case n: None
      show ?thesis
      proof (cases "find ?keep (rev (take ?old (dw_documents w)))")
        case f: (Some d)
        have "d \<in> set (filter ?keep (dw_documents w))"
          using find_in [OF f] by (auto dest: in_set_takeD)
        with Some True n f show ?thesis by (auto simp: next_active_after_def active_wf_def Let_def)
      next
        case n2: None
        have "filter ?keep (dw_documents w) = []"
          using n n2 split by (auto simp: find_None_iff filter_empty_conv)
        with Some True n n2 show ?thesis
          by (simp add: next_active_after_def active_wf_def Let_def)
      qed
    qed
  qed
qed

lemma wf_close_many [preserves]:
  assumes "workspace_wf ops w"
  shows "workspace_wf ops (snd (Workspace_CloseMany ids w))"
proof -
  have "documents_wf ops (filter (\<lambda>d. wd_id d \<notin> set u) (dw_documents w))" for u
    using documents_wf_subset [OF workspace_wfD(1) [OF assms] filter_is_subset]
      workspace_wfD(3) [OF assms] by (simp add: distinct_map_filter)
  with assms next_active_wf [OF workspace_wfD(2) [OF assms]] show ?thesis
    by (auto simp: Workspace_CloseMany_def workspace_wf_def split: sum.splits)
qed

lemma wf_move [preserves]:
  assumes "workspace_wf ops w"
  shows "workspace_wf ops (snd (Workspace_Move i n w))"
proof (cases "Workspace_FindIndex i w")
  case None
  with assms show ?thesis by (simp add: Workspace_Move_def)
next
  case (Some k)
  have k: "k < length (dw_documents w)" using ws_index [OF Some] by auto
  have "documents_wf ops (move_item k n (dw_documents w))" if "n < length (dw_documents w)"
    using documents_wf_subset [OF workspace_wfD(1) [OF assms], of "move_item k n (dw_documents w)"]
      workspace_wfD(3) [OF assms] k that
    by (simp add: set_move_item map_move_item distinct_move_item)
  then show ?thesis using assms k
    by (auto simp: Workspace_Move_def Some workspace_wf_def active_wf_def set_move_item
        split: option.splits)
qed

lemma wf_update:
  assumes "workspace_wf ops w" "Workspace_FindIndex i w = Some k" "\<And>d. wd_id (f d) = wd_id d"
    and "Workspace_IsValidDocument (dw_documents w ! k) \<Longrightarrow> Workspace_IsValidDocument (f (dw_documents w ! k))"
    and "\<And>x. x \<in> set (dw_documents w) \<Longrightarrow> wd_id x \<noteq> i \<Longrightarrow>
      \<not> SamePath ops (wd_path x) (wd_path (f (dw_documents w ! k)))"
  shows "workspace_wf ops (bump_revision (w\<lparr>dw_documents := update_at k f (dw_documents w)\<rparr>))"
proof -
  have k: "k < length (dw_documents w)" "wd_id (dw_documents w ! k) = i"
    using ws_index [OF assms(2)] by auto
  have v: "Workspace_IsValidDocument (dw_documents w ! k)"
    using workspace_wfD(1) [OF assms(1)] k by (simp add: documents_wf_def)
  note u = documents_wf_update [where f = f, OF workspace_wfD(1) [OF assms(1)] k(1) assms(3) assms(4) [OF v]]
  have "documents_wf ops (update_at k f (dw_documents w))"
    "wd_id ` set (update_at k f (dw_documents w)) = wd_id ` set (dw_documents w)"
    using u assms(5) k(2) by blast+
  moreover have "update_at k f (dw_documents w) = [] \<longleftrightarrow> dw_documents w = []"
    by (metis length_0_conv length_update_at)
  ultimately show ?thesis
    using assms(1) by (auto simp: workspace_wf_def active_wf_def split: option.splits)
qed

lemma same_path_as_before:
  assumes "workspace_wf ops w" "Workspace_FindIndex i w = Some k"
    and "x \<in> set (dw_documents w)" "wd_id x \<noteq> i"
  shows "\<not> SamePath ops (wd_path x) (wd_path (dw_documents w ! k))"
  using assms ws_index [OF assms(2)] nth_mem unfolding workspace_wf_def documents_wf_def by metis

lemma wf_set_dirty [preserves]: "workspace_wf ops w \<Longrightarrow> workspace_wf ops (snd (Workspace_SetDirty i b w))"
  by (auto simp: Workspace_SetDirty_def Workspace_IsValidDocument_def split: option.splits
      intro!: wf_update dest: same_path_as_before)

lemma wf_set_undo [preserves]:
  "workspace_wf ops w \<Longrightarrow> workspace_wf ops (snd (Workspace_SetUndoState i u r w))"
  by (auto simp: Workspace_SetUndoState_def Workspace_IsValidDocument_def split: option.splits
      intro!: wf_update dest: same_path_as_before)

lemma wf_set_view [preserves]:
  "workspace_wf ops w \<Longrightarrow> workspace_wf ops (snd (Workspace_SetViewState i v w))"
  by (auto simp: Workspace_SetViewState_def Workspace_IsValidDocument_def split: option.splits
      intro!: wf_update dest: same_path_as_before)

lemma wf_rename [preserves]:
  "workspace_wf ops w \<Longrightarrow> workspace_wf ops (snd (Workspace_Rename ops i t p w))"
  by (auto simp: Workspace_Rename_def Workspace_IsValidDocument_def split: option.splits
      intro!: wf_update) (auto simp: SamePath_def)

lemma wf_activate [preserves]: "workspace_wf ops w \<Longrightarrow> workspace_wf ops (snd (Workspace_Activate i w))"
  by (cases "Workspace_Find i w")
    (auto simp: Workspace_Activate_def workspace_wf_def active_wf_def dest!: ws_find_Some)

lemma add_keeps_recent [simp]:
  "dw_recently_closed (snd (Workspace_Add ops d k w)) = dw_recently_closed w"
  "dw_maximum_recently_closed (snd (Workspace_Add ops d k w)) = dw_maximum_recently_closed w"
  "dw_id (snd (Workspace_Add ops d k w)) = dw_id w"
  by (simp_all add: Workspace_Add_def Let_def)

lemma add_success:
  assumes "fst (fst (Workspace_Add ops d k w)) = Workspace_success"
  shows "dw_documents (snd (Workspace_Add ops d k w)) =
      insert_at (case k of None \<Rightarrow> length (dw_documents w) | Some n \<Rightarrow> n) d (dw_documents w)"
    "dw_active (snd (Workspace_Add ops d k w)) =
      (if dw_active w = None then Some (wd_id d) else dw_active w)"
    "dw_revision (snd (Workspace_Add ops d k w)) = dw_revision w + 1"
  using assms by (auto simp: Workspace_Add_def Let_def split: if_splits option.splits)

lemma add_failure:
  "fst (fst (Workspace_Add ops d k w)) \<noteq> Workspace_success \<Longrightarrow> snd (Workspace_Add ops d k w) = w"
  by (auto simp: Workspace_Add_def Let_def split: if_splits)

lemma wf_reopen [preserves]:
  assumes "workspace_wf ops w"
  shows "workspace_wf ops (snd (Workspace_ReopenRecentlyClosed ops n w))"
proof -
  let ?d = "(dw_recently_closed w ! n)\<lparr>wd_dirty := False\<rparr>"
  let ?a = "Workspace_Add ops ?d None w"
  have wf: "workspace_wf ops (snd ?a)" using assms by (rule wf_add)
  have "workspace_wf ops (bump_revision ((snd ?a)\<lparr>dw_recently_closed := erase_at n (dw_recently_closed w),
      dw_active := Some (wd_id (dw_recently_closed w ! n))\<rparr>))"
    if "n < length (dw_recently_closed w)" "fst (fst ?a) = Workspace_success"
    using wf that workspace_wfD(5) [OF assms] add_success(1) [OF that(2)]
    by (auto simp: workspace_wf_def active_wf_def)
  with wf assms show ?thesis
    by (auto simp: Workspace_ReopenRecentlyClosed_def Let_def)
qed

lemma restore_recent_bound:
  "restore_recent ops w acc ds = Inr rs \<Longrightarrow> length acc \<le> dw_maximum_recently_closed w \<Longrightarrow>
    length rs \<le> dw_maximum_recently_closed w"
  by (induction ops w acc ds rule: restore_recent.induct) (auto split: if_splits)

lemma wf_restore [preserves]:
  "workspace_wf ops w \<Longrightarrow> workspace_wf ops (snd (Workspace_RestoreRecentlyClosed ops ds w))"
  by (auto simp: Workspace_RestoreRecentlyClosed_def workspace_wf_def dest: restore_recent_bound
      split: sum.splits)

section \<open>The operations as one machine\<close>

datatype workspace_op =
    Ws_Add WorkspaceDocument "nat option"
  | Ws_Close u64 bool
  | Ws_CloseMany "u64 list"
  | Ws_Move u64 nat
  | Ws_Activate u64
  | Ws_SetDirty u64 bool
  | Ws_SetUndoState u64 bool bool
  | Ws_SetViewState u64 DocumentViewState
  | Ws_Rename u64 wstring wstring
  | Ws_Reopen nat
  | Ws_Restore "WorkspaceDocument list"
  | Ws_ClearRecent

fun workspace_step ::
  "path_ops \<Rightarrow> DocumentWorkspaceModel \<Rightarrow> workspace_op \<Rightarrow> DocumentWorkspaceResult \<times> DocumentWorkspaceModel" where
  "workspace_step ops w (Ws_Add d k) = Workspace_Add ops d k w"
| "workspace_step ops w (Ws_Close i r) = Workspace_Close ops i r w"
| "workspace_step ops w (Ws_CloseMany is) = Workspace_CloseMany is w"
| "workspace_step ops w (Ws_Move i n) = Workspace_Move i n w"
| "workspace_step ops w (Ws_Activate i) = Workspace_Activate i w"
| "workspace_step ops w (Ws_SetDirty i b) = Workspace_SetDirty i b w"
| "workspace_step ops w (Ws_SetUndoState i u r) = Workspace_SetUndoState i u r w"
| "workspace_step ops w (Ws_SetViewState i v) = Workspace_SetViewState i v w"
| "workspace_step ops w (Ws_Rename i t p) = Workspace_Rename ops i t p w"
| "workspace_step ops w (Ws_Reopen n) = Workspace_ReopenRecentlyClosed ops n w"
| "workspace_step ops w (Ws_Restore ds) = Workspace_RestoreRecentlyClosed ops ds w"
| "workspace_step ops w Ws_ClearRecent =
    ((Workspace_success, dw_active w), Workspace_ClearRecentlyClosed w)"

lemma wf_clear [preserves]: "workspace_wf ops w \<Longrightarrow> workspace_wf ops (Workspace_ClearRecentlyClosed w)"
  by (simp add: Workspace_ClearRecentlyClosed_def workspace_wf_def)

lemma wf_step: "workspace_wf ops w \<Longrightarrow> workspace_wf ops (snd (workspace_step ops w x))"
  by (cases x) (auto intro: preserves)

text \<open>
  What the revision counter covers: the open documents in their order and the active one.  The
  history of closed documents is not covered, because \<open>ClearRecentlyClosed\<close> does not advance it.
\<close>

definition workspace_view :: "DocumentWorkspaceModel \<Rightarrow> WorkspaceDocument list \<times> u64 option" where
  "workspace_view w = (dw_documents w, dw_active w)"

lemma step_revision:
  "dw_revision (snd (workspace_step ops w x)) = dw_revision w
     \<and> workspace_view (snd (workspace_step ops w x)) = workspace_view w
   \<or> dw_revision (snd (workspace_step ops w x)) = dw_revision w + 1
   \<or> dw_revision (snd (workspace_step ops w x)) = dw_revision w + 2"
proof (cases x)
  case (Ws_Reopen n)
  let ?a = "Workspace_Add ops ((dw_recently_closed w ! n)\<lparr>wd_dirty := False\<rparr>) None w"
  show ?thesis
  proof (cases "fst (fst ?a) = Workspace_success")
    case True
    then show ?thesis using Ws_Reopen add_success(3) [OF True]
      by (auto simp: Workspace_ReopenRecentlyClosed_def Let_def)
  next
    case False
    then show ?thesis using Ws_Reopen add_failure [OF False]
      by (auto simp: Workspace_ReopenRecentlyClosed_def Let_def)
  qed
qed (auto simp: Workspace_Add_def Workspace_Close_def Workspace_CloseMany_def Workspace_Move_def
    Workspace_Activate_def Workspace_SetDirty_def Workspace_SetUndoState_def
    Workspace_SetViewState_def Workspace_Rename_def Workspace_RestoreRecentlyClosed_def
    Workspace_ClearRecentlyClosed_def workspace_view_def Let_def
    split: option.splits sum.splits)

interpretation workspace_machine: revisioned "workspace_step ops" "workspace_wf ops" dw_revision workspace_view
  for ops
  by unfold_locales (rule wf_step, assumption, rule step_revision)

section \<open>Properties\<close>





end
