(* ===== verification/Workspace_Transfer.thy ===== *)
theory Workspace_Transfer
  imports Workspace_Invariant
begin

text \<open>
  The transfer protocol of \<open>src/document_workspace.cpp\<close>: prepare at the source, accept at the
  destination, commit at the source, roll back at the destination.
\<close>

lemma close_found:
  assumes "Workspace_FindIndex i w = Some k"
  shows "fst (fst (Workspace_Close ops i False w)) = Workspace_success"
    "dw_documents (snd (Workspace_Close ops i False w)) = erase_at k (dw_documents w)"
    "dw_recently_closed (snd (Workspace_Close ops i False w)) = dw_recently_closed w"
    "dw_active (snd (Workspace_Close ops i False w)) =
      (if dw_active w = Some i
       then (if erase_at k (dw_documents w) = [] then None
             else Some (wd_id (erase_at k (dw_documents w)
               ! min k (length (erase_at k (dw_documents w)) - 1))))
       else dw_active w)"
  using assms by (simp_all add: Workspace_Close_def Let_def)

lemma prepare_Some:
  assumes "Workspace_PrepareTransfer i dest idx w = Some p"
  shows "\<exists>k. Workspace_FindIndex i w = Some k \<and> tp_document p = dw_documents w ! k
    \<and> tp_source p = dw_id w \<and> tp_destination p = dest \<and> tp_destination_index p = idx
    \<and> tp_source_revision p = dw_revision w \<and> \<not> tp_accepted p \<and> dest \<noteq> 0 \<and> dest \<noteq> dw_id w
    \<and> tp_was_active p = (dw_active w = Some i)"
  using assms by (auto simp: Workspace_PrepareTransfer_def split: option.splits if_splits)

lemma accept_failure:
  "fst (fst (Workspace_AcceptTransfer ops p w)) \<noteq> Workspace_success \<Longrightarrow>
    snd (Workspace_AcceptTransfer ops p w) = (p, w)"
  by (auto simp: Workspace_AcceptTransfer_def Let_def add_failure split: if_splits)

lemma accept_success:
  assumes "fst (fst (Workspace_AcceptTransfer ops p w)) = Workspace_success"
  shows "DocumentTransferPlan_IsValid p \<and> tp_destination p = dw_id w \<and> \<not> tp_accepted p"
    "fst (fst (Workspace_Add ops (tp_document p) (tp_destination_index p) w)) = Workspace_success"
    "snd (Workspace_AcceptTransfer ops p w) =
      (p\<lparr>tp_accepted := True, tp_destination_revision := dw_revision w + 1\<rparr>,
       snd (Workspace_Add ops (tp_document p) (tp_destination_index p) w))"
proof -
  show a: "DocumentTransferPlan_IsValid p \<and> tp_destination p = dw_id w \<and> \<not> tp_accepted p"
    using assms by (auto simp: Workspace_AcceptTransfer_def split: if_splits)
  show b: "fst (fst (Workspace_Add ops (tp_document p) (tp_destination_index p) w)) = Workspace_success"
    using assms a by (auto simp: Workspace_AcceptTransfer_def Let_def split: if_splits)
  show "snd (Workspace_AcceptTransfer ops p w) =
      (p\<lparr>tp_accepted := True, tp_destination_revision := dw_revision w + 1\<rparr>,
       snd (Workspace_Add ops (tp_document p) (tp_destination_index p) w))"
    using a b add_success(3) [OF b] by (simp add: Workspace_AcceptTransfer_def Let_def)
qed

lemma plan_valid_update [simp]:
  "DocumentTransferPlan_IsValid (p\<lparr>tp_accepted := a, tp_destination_revision := r\<rparr>)
    = DocumentTransferPlan_IsValid p"
  by (simp add: DocumentTransferPlan_IsValid_def)

lemma commit_after_accept:
  assumes "Workspace_PrepareTransfer i (dw_id d) idx s = Some p"
    and "fst (fst (Workspace_AcceptTransfer ops p d)) = Workspace_success"
  shows "Workspace_CommitTransfer ops (fst (snd (Workspace_AcceptTransfer ops p d))) s
    = Workspace_Close ops i False s"
proof -
  obtain k where k: "Workspace_FindIndex i s = Some k" "tp_document p = dw_documents s ! k"
    "tp_source p = dw_id s" "tp_source_revision p = dw_revision s"
    using prepare_Some [OF assms(1)] by blast
  have i: "wd_id (tp_document p) = i" using ws_index [OF k(1)] k(2) by simp
  have "Workspace_Find i s = Some (dw_documents s ! k)" using k(1) by (simp add: Workspace_Find_def)
  with accept_success [OF assms(2)] k i show ?thesis
    by (simp add: Workspace_CommitTransfer_def)
qed

lemma activate_simps:
  "dw_documents (snd (Workspace_Activate i w)) = dw_documents w"
  "dw_recently_closed (snd (Workspace_Activate i w)) = dw_recently_closed w"
  "Workspace_Find i w \<noteq> None \<Longrightarrow> dw_active (snd (Workspace_Activate i w)) = Some i"
  by (simp_all add: Workspace_Activate_def)

text \<open>The result of a whole transfer, as a relation of both workspaces before and after.\<close>

definition transfer_spec ::
  "u64 \<Rightarrow> nat option \<Rightarrow> DocumentWorkspaceModel \<Rightarrow> DocumentWorkspaceModel
    \<Rightarrow> DocumentWorkspaceModel \<Rightarrow> DocumentWorkspaceModel \<Rightarrow> bool" where
  "transfer_spec i idx s d s' d' \<longleftrightarrow>
    (\<exists>k. Workspace_FindIndex i s = Some k
      \<and> dw_documents s' = erase_at k (dw_documents s)
      \<and> dw_documents d' = insert_at (case idx of None \<Rightarrow> length (dw_documents d) | Some n \<Rightarrow> n)
          (dw_documents s ! k) (dw_documents d)
      \<and> dw_recently_closed s' = dw_recently_closed s
      \<and> dw_recently_closed d' = dw_recently_closed d
      \<and> dw_active d' = (if dw_active s = Some i \<or> dw_active d = None then Some i else dw_active d))"

lemma transfer_cases:
  assumes wf: "workspace_wf ops s" "workspace_wf ops d"
    and t: "TransferDocument ops i idx s d = (r, s', d')"
  shows "fst r = Workspace_success \<and> transfer_spec i idx s d s' d'
      \<and> workspace_wf ops s' \<and> workspace_wf ops d'
    \<or> fst r \<noteq> Workspace_success \<and> s' = s \<and> d' = d"
proof (cases "Workspace_PrepareTransfer i (dw_id d) idx s")
  case None
  with t show ?thesis by (auto simp: TransferDocument_def)
next
  case (Some p)
  let ?acc = "Workspace_AcceptTransfer ops p d"
  obtain k where k: "Workspace_FindIndex i s = Some k" "tp_document p = dw_documents s ! k"
    "tp_destination_index p = idx" "tp_was_active p = (dw_active s = Some i)"
    using prepare_Some [OF Some] by blast
  have i: "wd_id (dw_documents s ! k) = i" "i \<noteq> 0" using ws_index [OF k(1)] by auto
  show ?thesis
  proof (cases "fst (fst ?acc) = Workspace_success")
    case False
    with t Some accept_failure [OF False] show ?thesis
      by (auto simp: TransferDocument_def split_beta)
  next
    case True
    note acc = accept_success [OF True]
    let ?d1 = "snd (Workspace_Add ops (tp_document p) (tp_destination_index p) d)"
    let ?d2 = "if dw_active s = Some i then snd (Workspace_Activate i ?d1) else ?d1"
    let ?s1 = "snd (Workspace_Close ops i False s)"
    have eq: "TransferDocument ops i idx s d = ((Workspace_success, dw_active ?d2), ?s1, ?d2)"
      using Some True acc(3) commit_after_accept [OF Some True] close_found(1) [OF k(1)] k(4)
      by (simp add: TransferDocument_def split_beta Let_def)
    have f: "Workspace_Find i ?d1 \<noteq> None"
      using add_success(1) [OF acc(2)] i k(2) by (simp add: ws_find_None)
    have "dw_documents ?d2 = dw_documents ?d1" "dw_recently_closed ?d2 = dw_recently_closed ?d1"
      "dw_active ?d2 = (if dw_active s = Some i then Some i else dw_active ?d1)"
      using f by (simp_all add: activate_simps)
    then have "transfer_spec i idx s d ?s1 ?d2"
      using k i close_found [OF k(1)] add_success [OF acc(2)]
      by (auto simp: transfer_spec_def)
    moreover have "workspace_wf ops ?s1" "workspace_wf ops ?d2"
      using wf by (auto intro: preserves)
    ultimately show ?thesis using t eq by auto
  qed
qed

lemma rollback_after_accept:
  assumes wf: "workspace_wf ops d"
    and acc: "fst (fst (Workspace_AcceptTransfer ops p d)) = Workspace_success"
  defines "q \<equiv> fst (snd (Workspace_AcceptTransfer ops p d))"
    and "d1 \<equiv> snd (snd (Workspace_AcceptTransfer ops p d))"
  shows "fst (fst (Workspace_RollbackTransfer ops q d1)) = Workspace_success"
    "workspace_view (snd (Workspace_RollbackTransfer ops q d1)) = workspace_view d"
    "dw_recently_closed (snd (Workspace_RollbackTransfer ops q d1)) = dw_recently_closed d"
proof -
  note a = accept_success [OF acc]
  let ?doc = "tp_document p" and ?n = "case tp_destination_index p of None \<Rightarrow> length (dw_documents d) | Some n \<Rightarrow> n"
  let ?i = "wd_id ?doc"
  have q: "q = p\<lparr>tp_accepted := True, tp_destination_revision := dw_revision d + 1\<rparr>"
    and d1: "d1 = snd (Workspace_Add ops ?doc (tp_destination_index p) d)"
    using a(3) by (simp_all add: q_def d1_def)
  have docs: "dw_documents d1 = insert_at ?n ?doc (dw_documents d)"
    and act: "dw_active d1 = (if dw_active d = None then Some ?i else dw_active d)"
    and rev: "dw_revision d1 = dw_revision d + 1"
    using add_success [OF a(2)] d1 by auto
  have idx: "dw_id d1 = dw_id d" "dw_recently_closed d1 = dw_recently_closed d" by (simp_all add: d1)
  have n: "?n \<le> length (dw_documents d)"
    using a(2) by (auto simp: Workspace_Add_def split: option.splits if_splits)
  have i0: "?i \<noteq> 0" using a(1) by (auto simp: DocumentTransferPlan_IsValid_def)
  have "workspace_wf ops d1" unfolding d1 using wf by (rule wf_add)
  then have "distinct (map wd_id (dw_documents d1))" by (rule workspace_wfD)
  then have fresh: "?i \<notin> wd_id ` set (dw_documents d)"
    and k: "Workspace_FindIndex ?i d1 = Some ?n"
    using find_index_key_nth [of wd_id "dw_documents d1" ?n] n i0
    by (auto simp: docs Workspace_FindIndex_def map_insert_at)
  have act_i: "dw_active d \<noteq> Some ?i"
    using workspace_wfD(2) [OF wf] fresh by (auto simp: active_wf_def)
  have empty: "dw_active d = None \<Longrightarrow> dw_documents d = []"
    using workspace_wfD(2) [OF wf] by (auto simp: active_wf_def)
  have roll: "Workspace_RollbackTransfer ops q d1 = Workspace_Close ops ?i False d1"
    using a(1) k rev idx by (simp add: Workspace_RollbackTransfer_def q Workspace_Find_def)
  show "fst (fst (Workspace_RollbackTransfer ops q d1)) = Workspace_success"
    using roll close_found(1) [OF k] by simp
  have er: "erase_at ?n (dw_documents d1) = dw_documents d" using n by (simp add: docs)
  show "workspace_view (snd (Workspace_RollbackTransfer ops q d1)) = workspace_view d"
    using close_found(2-4) [OF k] er act act_i empty idx unfolding roll workspace_view_def
    by (auto split: if_splits)
  show "dw_recently_closed (snd (Workspace_RollbackTransfer ops q d1)) = dw_recently_closed d"
    using close_found(3) [OF k] idx unfolding roll by simp
qed

section \<open>Properties\<close>

text \<open>C9: Transferring a document between two consistent workspaces is atomic.  Either it succeeds,
  the document has left the source and stands unchanged at the requested position of the destination,
  active there if it was active at the source or if the destination had no active document, with both
  workspaces consistent; or it fails and both workspaces are exactly as they were.\<close>

theorem transfer_is_atomic:
  assumes "workspace_wf ops s" and "workspace_wf ops d"
    and "TransferDocument ops i idx s d = (r, s', d')"
  shows "fst r = Workspace_success \<and> transfer_spec i idx s d s' d'
      \<and> workspace_wf ops s' \<and> workspace_wf ops d'
    \<or> fst r \<noteq> Workspace_success \<and> s' = s \<and> d' = d"
  using transfer_cases [OF assms] .

definition example_ops :: path_ops where
  "example_ops = \<lparr>normal_path = id, upcase = id\<rparr>"

definition example_document :: WorkspaceDocument where
  "example_document = \<lparr>wd_id = 3, wd_title = lit ''a'', wd_path = lit ''p'', wd_dirty = True,
     wd_can_undo = False, wd_can_redo = False, wd_view = \<lparr>vs_selection_start = 0,
       vs_selection_end = 2, vs_first_visible_unit = 0, vs_zoom = Fin 1\<rparr>\<rparr>"

definition example_source :: DocumentWorkspaceModel where
  "example_source = \<lparr>dw_id = 1, dw_maximum_recently_closed = 2, dw_documents = [example_document],
     dw_recently_closed = [], dw_active = Some 3, dw_revision = 4\<rparr>"

definition example_destination :: DocumentWorkspaceModel where
  "example_destination = \<lparr>dw_id = 2, dw_maximum_recently_closed = 2, dw_documents = [],
     dw_recently_closed = [], dw_active = None, dw_revision = 9\<rparr>"

lemmas example_workspace_defs =
  example_ops_def example_document_def example_source_def example_destination_def

lemma example_view_valid: "DocumentViewState_IsValid (wd_view example_document)"
  by (simp add: example_document_def DocumentViewState_IsValid_def
      dbl_0_1_def)

lemma example_source_wf: "workspace_wf example_ops example_source"
  using example_view_valid
  by (auto simp: workspace_wf_def documents_wf_def active_wf_def Workspace_IsValidDocument_def
      example_source_def) (simp_all add: example_document_def)

lemma example_destination_wf: "workspace_wf example_ops example_destination"
  by (simp add: workspace_wf_def documents_wf_def active_wf_def example_destination_def)

theorem transfer_is_atomic_witness:
  "case TransferDocument example_ops 3 None example_source example_destination of (r, s', d') \<Rightarrow>
     fst r = Workspace_success \<and> transfer_spec 3 None example_source example_destination s' d'
       \<and> workspace_wf example_ops s' \<and> workspace_wf example_ops d'
     \<or> fst r \<noteq> Workspace_success \<and> s' = example_source \<and> d' = example_destination"
  using transfer_is_atomic [OF example_source_wf example_destination_wf]
  by (cases "TransferDocument example_ops 3 None example_source example_destination") auto

text \<open>A destination that accepted a transfer and has not changed since can always roll it
  back, and the rollback restores its documents, their order, its active document and its history of
  closed documents.\<close>

theorem rollback_undoes_accept:
  assumes "workspace_wf ops d"
    and "fst (fst (Workspace_AcceptTransfer ops p d)) = Workspace_success"
  shows "case Workspace_AcceptTransfer ops p d of (_, q, d1) \<Rightarrow>
    case Workspace_RollbackTransfer ops q d1 of ((status, _), d2) \<Rightarrow>
      status = Workspace_success \<and> dw_documents d2 = dw_documents d \<and> dw_active d2 = dw_active d
      \<and> dw_recently_closed d2 = dw_recently_closed d"
  using rollback_after_accept [OF assms] by (simp add: workspace_view_def split_beta)

definition example_plan :: DocumentTransferPlan where
  "example_plan = \<lparr>tp_source = 1, tp_destination = 2, tp_document = example_document,
     tp_source_index = 0, tp_destination_index = None, tp_was_active = True,
     tp_source_revision = 4, tp_destination_revision = 0, tp_accepted = False\<rparr>"

theorem rollback_undoes_accept_witness:
  "case Workspace_AcceptTransfer example_ops example_plan example_destination of (_, q, d1) \<Rightarrow>
    case Workspace_RollbackTransfer example_ops q d1 of ((status, _), d2) \<Rightarrow>
      status = Workspace_success \<and> dw_documents d2 = dw_documents example_destination
      \<and> dw_active d2 = dw_active example_destination
      \<and> dw_recently_closed d2 = dw_recently_closed example_destination"
  by (rule rollback_undoes_accept [OF example_destination_wf]) code_simp

end
