(* ===== verification/Document_Coordination.thy ===== *)
theory Document_Coordination
  imports Workspace_Transfer Commands
begin

text \<open>
  Coordination of commands and shutdown (\<open>src/document_coordination.cpp\<close>,
  \<open>include/mwfl/document_coordination.h\<close>): projecting the active document onto four commands,
  routing an action to the active document, and closing a workspace with one decision per dirty
  document.

  Callbacks are application code that runs with the live workspace in reach: a callback maps the
  identifier it is given and the current workspace to its outcome (a value or a thrown exception)
  and the workspace it leaves behind.
\<close>

type_synonym 'a ws_callback = "u64 \<Rightarrow> DocumentWorkspaceModel \<Rightarrow> 'a outcome \<times> DocumentWorkspaceModel"

section \<open>Command projection\<close>

record ActiveDocumentCommandIds =
  ac_save :: ControlId
  ac_close :: ControlId
  ac_undo :: ControlId
  ac_redo :: ControlId

definition ActiveDocumentCommandIds_IsValid :: "ActiveDocumentCommandIds \<Rightarrow> bool" where
  "ActiveDocumentCommandIds_IsValid ids \<longleftrightarrow>
    (let values = [ac_save ids, ac_close ids, ac_undo ids, ac_redo ids]
     in 0 \<notin> set values \<and> distinct values)"

record ActiveDocumentCommandProjection =
  ap_document :: "u64 option"
  ap_save_text :: wstring
  ap_close_text :: wstring
  ap_status_text :: wstring
  ap_can_save :: bool
  ap_can_close :: bool
  ap_can_undo :: bool
  ap_can_redo :: bool

definition empty_projection :: ActiveDocumentCommandProjection where
  "empty_projection = \<lparr>ap_document = None, ap_save_text = lit ''Save'',
     ap_close_text = lit ''Close'', ap_status_text = lit ''No active document'',
     ap_can_save = False, ap_can_close = False, ap_can_undo = False, ap_can_redo = False\<rparr>"

text \<open>The literal \<open>L" \<emdash> "\<close> with the code unit of the dash.\<close>

definition dash_separator :: wstring where
  "dash_separator = [0x20, 0x2014, 0x20]"

definition BuildActiveDocumentCommandProjection ::
  "DocumentWorkspaceModel \<Rightarrow> ActiveDocumentCommandProjection" where
  "BuildActiveDocumentCommandProjection w =
    (case dw_active w of
       None \<Rightarrow> empty_projection
     | Some a \<Rightarrow>
       (case Workspace_Find a w of
          None \<Rightarrow> empty_projection
        | Some d \<Rightarrow> \<lparr>ap_document = Some a,
            ap_save_text = lit ''Save '' @ wd_title d,
            ap_close_text = lit ''Close '' @ wd_title d,
            ap_status_text = wd_title d
              @ (if wd_dirty d then dash_separator @ lit ''modified'' else [])
              @ dash_separator @ to_wstring (length (dw_documents w)) @ lit '' document(s)'',
            ap_can_save = wd_dirty d, ap_can_close = True,
            ap_can_undo = wd_can_undo d, ap_can_redo = wd_can_redo d\<rparr>))"

datatype DocumentCommandProjectionStatus =
    Projection_success | Projection_invalid_argument | Projection_command_not_found

definition ApplyActiveDocumentCommandProjection ::
  "ActiveDocumentCommandIds \<Rightarrow> ActiveDocumentCommandProjection \<Rightarrow> 'h CommandSet
    \<Rightarrow> DocumentCommandProjectionStatus \<times> 'h CommandSet" where
  "ApplyActiveDocumentCommandProjection ids p cs =
    (if \<not> ActiveDocumentCommandIds_IsValid ids then (Projection_invalid_argument, cs)
     else if CommandSet_Find (ac_save ids) cs = None \<or> CommandSet_Find (ac_close ids) cs = None
        \<or> CommandSet_Find (ac_undo ids) cs = None \<or> CommandSet_Find (ac_redo ids) cs = None
     then (Projection_command_not_found, cs)
     else (Projection_success,
        (CommandSet_modify (ac_redo ids) (Command_SetEnabled (ap_can_redo p))
        (CommandSet_modify (ac_undo ids) (Command_SetEnabled (ap_can_undo p))
        (CommandSet_modify (ac_close ids)
          (\<lambda>c. Command_SetEnabled (ap_can_close p) (Command_SetText (ap_close_text p) c))
        (CommandSet_modify (ac_save ids)
          (\<lambda>c. Command_SetEnabled (ap_can_save p) (Command_SetText (ap_save_text p) c)) cs))))))"

section \<open>Routing\<close>

datatype ActiveDocumentRouteStatus =
    Route_success | Route_invalid_argument | Route_no_active_document
  | Route_active_document_changed | Route_callback_failure

definition RouteActiveDocument ::
  "unit ws_callback option \<Rightarrow> DocumentWorkspaceModel
    \<Rightarrow> (ActiveDocumentRouteStatus \<times> u64 option) \<times> DocumentWorkspaceModel" where
  "RouteActiveDocument handler w =
    (case handler of
       None \<Rightarrow> ((Route_invalid_argument, None), w)
     | Some h \<Rightarrow>
       (case dw_active w of
          None \<Rightarrow> ((Route_no_active_document, None), w)
        | Some a \<Rightarrow>
          (case h a w of
             (Throws, w') \<Rightarrow> ((Route_callback_failure, Some a), w')
           | (Returns _, w') \<Rightarrow>
               if dw_active w' \<noteq> Some a then ((Route_active_document_changed, Some a), w')
               else ((Route_success, Some a), w'))))"

section \<open>Coordinated close\<close>

datatype DocumentCloseChoice = Close_save | Close_discard | Close_cancel

record DocumentCloseDecision =
  cd_document :: u64
  cd_choice :: DocumentCloseChoice

datatype CoordinatedCloseStatus =
    Coordinated_ready | Coordinated_success | Coordinated_incomplete_decisions
  | Coordinated_cancelled | Coordinated_invalid_argument | Coordinated_stale_workspace
  | Coordinated_save_failed | Coordinated_callback_failure | Coordinated_commit_failure

record CoordinatedClosePlan =
  cp_status :: CoordinatedCloseStatus
  cp_workspace_revision :: u64
  cp_save_before_close :: "u64 list"
  cp_close_documents :: "u64 list"

fun decisions_ok :: "DocumentWorkspaceModel \<Rightarrow> DocumentCloseDecision list \<Rightarrow> bool" where
  "decisions_ok w [] = True"
| "decisions_ok w (d # ds) =
    ((case Workspace_Find (cd_document d) w of None \<Rightarrow> False | Some decided \<Rightarrow> wd_dirty decided)
     \<and> (\<forall>other \<in> set ds. cd_document other \<noteq> cd_document d) \<and> decisions_ok w ds)"

fun plan_documents ::
  "DocumentCloseDecision list \<Rightarrow> CoordinatedClosePlan \<Rightarrow> WorkspaceDocument list \<Rightarrow> CoordinatedClosePlan" where
  "plan_documents decisions plan [] = plan\<lparr>cp_status := Coordinated_ready\<rparr>"
| "plan_documents decisions plan (d # ds) =
    (let plan1 = plan\<lparr>cp_close_documents := cp_close_documents plan @ [wd_id d]\<rparr>
     in if \<not> wd_dirty d then plan_documents decisions plan1 ds
        else case find_key cd_document (wd_id d) decisions of
          None \<Rightarrow> plan1\<lparr>cp_status := Coordinated_incomplete_decisions\<rparr>
        | Some found \<Rightarrow>
            if cd_choice found = Close_cancel then plan1\<lparr>cp_status := Coordinated_cancelled\<rparr>
            else plan_documents decisions
              (if cd_choice found = Close_save
               then plan1\<lparr>cp_save_before_close := cp_save_before_close plan1 @ [wd_id d]\<rparr>
               else plan1) ds)"

definition BuildCoordinatedClosePlan ::
  "DocumentWorkspaceModel \<Rightarrow> DocumentCloseDecision list \<Rightarrow> CoordinatedClosePlan" where
  "BuildCoordinatedClosePlan w decisions =
    (let plan = \<lparr>cp_status = Coordinated_invalid_argument, cp_workspace_revision = dw_revision w,
           cp_save_before_close = [], cp_close_documents = []\<rparr>
     in if \<not> decisions_ok w decisions then plan
        else plan_documents decisions plan (dw_documents w))"

type_synonym CoordinatedCloseResult = "CoordinatedCloseStatus \<times> u64 option"

text \<open>
  \<open>CloseMany\<close> reports failures as values, so the \<open>catch\<close> of the commit (allocation failure) has
  no branch here.
\<close>

definition CommitCoordinatedCloseAfterSaves ::
  "CoordinatedClosePlan \<Rightarrow> DocumentWorkspaceModel \<Rightarrow> CoordinatedCloseResult \<times> DocumentWorkspaceModel" where
  "CommitCoordinatedCloseAfterSaves plan w =
    (if cp_status plan \<noteq> Coordinated_ready then ((Coordinated_invalid_argument, None), w)
     else if dw_revision w \<noteq> cp_workspace_revision plan then ((Coordinated_stale_workspace, None), w)
     else if cp_close_documents plan = [] then ((Coordinated_success, None), w)
     else let closed = Workspace_CloseMany (cp_close_documents plan) w
       in if fst (fst closed) \<noteq> Workspace_success
          then ((Coordinated_commit_failure, None), snd closed)
          else ((Coordinated_success, None), snd closed))"

fun run_saves ::
  "bool ws_callback \<Rightarrow> u64 \<Rightarrow> u64 list \<Rightarrow> DocumentWorkspaceModel
    \<Rightarrow> CoordinatedCloseResult option \<times> DocumentWorkspaceModel" where
  "run_saves save revision [] w = (None, w)"
| "run_saves save revision (i # is) w =
    (case save i w of
       (Throws, w') \<Rightarrow> (Some (Coordinated_callback_failure, Some i), w')
     | (Returns ok, w') \<Rightarrow>
         if \<not> ok then (Some (Coordinated_save_failed, Some i), w')
         else if dw_revision w' \<noteq> revision then (Some (Coordinated_stale_workspace, Some i), w')
         else run_saves save revision is w')"

definition ExecuteCoordinatedClose ::
  "bool ws_callback option \<Rightarrow> CoordinatedClosePlan \<Rightarrow> DocumentWorkspaceModel
    \<Rightarrow> CoordinatedCloseResult \<times> DocumentWorkspaceModel" where
  "ExecuteCoordinatedClose save plan w =
    (if cp_status plan \<noteq> Coordinated_ready then ((Coordinated_invalid_argument, None), w)
     else if dw_revision w \<noteq> cp_workspace_revision plan then ((Coordinated_stale_workspace, None), w)
     else if cp_close_documents plan = [] then ((Coordinated_success, None), w)
     else case save of
       None \<Rightarrow>
         if cp_save_before_close plan \<noteq> []
         then ((Coordinated_invalid_argument, Some (hd (cp_save_before_close plan))), w)
         else CommitCoordinatedCloseAfterSaves plan w
     | Some f \<Rightarrow>
         (case run_saves f (cp_workspace_revision plan) (cp_save_before_close plan) w of
            (Some failure, w') \<Rightarrow> (failure, w')
          | (None, w') \<Rightarrow> CommitCoordinatedCloseAfterSaves plan w'))"

section \<open>Facts about plans\<close>

lemma plan_documents_revision [simp]:
  "cp_workspace_revision (plan_documents ds p xs) = cp_workspace_revision p"
  by (induction ds p xs rule: plan_documents.induct) (auto simp: Let_def split: option.splits)

lemma plan_documents_ready:
  "cp_status (plan_documents ds p xs) = Coordinated_ready \<longleftrightarrow>
    (\<forall>d \<in> set xs. wd_dirty d \<longrightarrow>
      (\<exists>f. find_key cd_document (wd_id d) ds = Some f \<and> cd_choice f \<noteq> Close_cancel))"
  by (induction ds p xs rule: plan_documents.induct) (auto simp: Let_def split: option.splits)

lemma plan_documents_lists:
  "cp_status (plan_documents ds p xs) = Coordinated_ready \<Longrightarrow>
    cp_close_documents (plan_documents ds p xs) = cp_close_documents p @ map wd_id xs
    \<and> cp_save_before_close (plan_documents ds p xs) = cp_save_before_close p
      @ map wd_id (filter (\<lambda>d. wd_dirty d \<and>
          map_option cd_choice (find_key cd_document (wd_id d) ds) = Some Close_save) xs)"
proof (induction xs arbitrary: p)
  case Nil
  then show ?case by simp
next
  case (Cons d xs)
  show ?case
  proof (cases "wd_dirty d")
    case False
    with Cons show ?thesis by simp
  next
    case True
    show ?thesis
    proof (cases "find_key cd_document (wd_id d) ds")
      case None
      with True Cons.prems show ?thesis by simp
    next
      case (Some f)
      with True Cons show ?thesis by (cases "cd_choice f") simp_all
    qed
  qed
qed

lemma plan_ready:
  assumes "cp_status (BuildCoordinatedClosePlan w ds) = Coordinated_ready"
  shows "decisions_ok w ds"
    "cp_workspace_revision (BuildCoordinatedClosePlan w ds) = dw_revision w"
    "cp_close_documents (BuildCoordinatedClosePlan w ds) = map wd_id (dw_documents w)"
    "cp_save_before_close (BuildCoordinatedClosePlan w ds) =
      map wd_id (filter (\<lambda>d. wd_dirty d \<and>
        map_option cd_choice (find_key cd_document (wd_id d) ds) = Some Close_save) (dw_documents w))"
proof -
  show ok: "decisions_ok w ds"
    using assms by (auto simp: BuildCoordinatedClosePlan_def Let_def split: if_splits)
  let ?p = "\<lparr>cp_status = Coordinated_invalid_argument, cp_workspace_revision = dw_revision w,
           cp_save_before_close = [], cp_close_documents = []\<rparr>"
  have eq: "BuildCoordinatedClosePlan w ds = plan_documents ds ?p (dw_documents w)"
    using ok by (simp add: BuildCoordinatedClosePlan_def Let_def)
  show "cp_workspace_revision (BuildCoordinatedClosePlan w ds) = dw_revision w" by (simp add: eq)
  show "cp_close_documents (BuildCoordinatedClosePlan w ds) = map wd_id (dw_documents w)"
    "cp_save_before_close (BuildCoordinatedClosePlan w ds) =
      map wd_id (filter (\<lambda>d. wd_dirty d \<and>
        map_option cd_choice (find_key cd_document (wd_id d) ds) = Some Close_save) (dw_documents w))"
    using plan_documents_lists [of ds ?p "dw_documents w"] assms by (auto simp: eq)
qed

lemma close_many_ids_all:
  "distinct (unique @ ids) \<Longrightarrow> (\<And>i. i \<in> set ids \<Longrightarrow> Workspace_Find i w \<noteq> None) \<Longrightarrow>
    close_many_ids w unique ids = Inr (unique @ ids)"
proof (induction w unique ids rule: close_many_ids.induct)
  case (1 w unique)
  then show ?case by simp
next
  case (2 w unique i ids)
  have "Workspace_Find i w \<noteq> None" using "2.prems"(2) by simp
  then have "i \<noteq> 0" by (auto simp: ws_find_None)
  with 2 show ?case by auto
qed

lemma close_all:
  assumes "workspace_wf ops w" "dw_documents w \<noteq> []"
  shows "fst (fst (Workspace_CloseMany (map wd_id (dw_documents w)) w)) = Workspace_success"
    "dw_documents (snd (Workspace_CloseMany (map wd_id (dw_documents w)) w)) = []"
proof -
  have "distinct ([] @ map wd_id (dw_documents w))" using workspace_wfD(3) [OF assms(1)] by simp
  moreover have "Workspace_Find i w \<noteq> None" if "i \<in> set (map wd_id (dw_documents w))" for i
    using that workspace_wfD(1) [OF assms(1)]
    by (auto simp: ws_find_None documents_wf_def Workspace_IsValidDocument_def)
  ultimately have "close_many_ids w [] (map wd_id (dw_documents w)) = Inr (map wd_id (dw_documents w))"
    using close_many_ids_all [of "[]" "map wd_id (dw_documents w)" w] by simp
  with assms(2) show "fst (fst (Workspace_CloseMany (map wd_id (dw_documents w)) w)) = Workspace_success"
    "dw_documents (snd (Workspace_CloseMany (map wd_id (dw_documents w)) w)) = []"
    by (simp_all add: Workspace_CloseMany_def)
qed

lemma run_saves_revision:
  "run_saves save r is w = (None, w') \<Longrightarrow> is \<noteq> [] \<Longrightarrow> dw_revision w' = r"
proof (induction save r "is" w rule: run_saves.induct)
  case (2 save r i "is" w)
  then show ?case
    by (cases "is") (auto split: prod.splits outcome.splits if_splits)
qed simp

lemma run_saves_result:
  assumes "\<And>i v. dw_revision (snd (save i v)) = dw_revision v \<Longrightarrow>
      workspace_view (snd (save i v)) = workspace_view v"
  shows "run_saves save r is w = (res, w') \<Longrightarrow> dw_revision w = r \<Longrightarrow>
    (dw_revision w' = r \<longrightarrow> workspace_view w' = workspace_view w) \<and>
    (case res of None \<Rightarrow> dw_revision w' = r \<and> (\<forall>i \<in> set is. \<exists>v. fst (save i v) = Returns True)
     | Some (status, _) \<Rightarrow> status \<noteq> Coordinated_success)"
proof (induction "is" arbitrary: w)
  case Nil
  then show ?case by auto
next
  case (Cons i "is")
  obtain out v where call: "save i w = (out, v)" by (cases "save i w")
  have view: "dw_revision v = r \<Longrightarrow> workspace_view v = workspace_view w"
    using assms [of i w] call Cons.prems(2) by simp
  show ?case
  proof (cases "out = Returns True \<and> dw_revision v = r")
    case True
    then have "run_saves save r is v = (res, w')" using Cons.prems(1) call by simp
    moreover have "\<exists>u. fst (save i u) = Returns True" using call True by (metis fst_conv)
    ultimately show ?thesis using Cons.IH [of v] True view by (auto split: option.splits)
  next
    case False
    with Cons.prems(1) call view show ?thesis
      by (auto split: outcome.splits if_splits)
  qed
qed

lemma close_all_ids:
  assumes "workspace_wf ops w" "dw_documents w \<noteq> []" "dw_documents v = dw_documents w"
  shows "fst (fst (Workspace_CloseMany (map wd_id (dw_documents w)) v)) = Workspace_success"
    "dw_documents (snd (Workspace_CloseMany (map wd_id (dw_documents w)) v)) = []"
proof -
  have "Workspace_Find i v = Workspace_Find i w" for i
    by (simp add: Workspace_Find_def Workspace_FindIndex_def assms(3) split: option.split)
  then have "close_many_ids v u is = close_many_ids w u is" for u "is"
    by (induction w u "is" rule: close_many_ids.induct) auto
  then show "fst (fst (Workspace_CloseMany (map wd_id (dw_documents w)) v)) = Workspace_success"
    "dw_documents (snd (Workspace_CloseMany (map wd_id (dw_documents w)) v)) = []"
    using close_all [OF assms(1,2)] assms(2)
    by (auto simp: Workspace_CloseMany_def assms(3) split: sum.splits)
qed

section \<open>Properties\<close>

text \<open>A close plan is ready exactly when it is safe to run.  Planning succeeds if and only if
  every decision is for a distinct dirty document of the workspace and every dirty document has a
  decision other than cancel; the ready plan closes all documents in workspace order and first saves
  exactly the dirty documents whose decision is to save, in the same order.\<close>

theorem close_plan_is_exact:
  "let p = BuildCoordinatedClosePlan w ds;
       decided = (\<lambda>d. map_option cd_choice (find_key cd_document (wd_id d) ds))
   in (cp_status p = Coordinated_ready \<longleftrightarrow> decisions_ok w ds
         \<and> list_all (\<lambda>d. \<not> wd_dirty d \<or> decided d \<in> {Some Close_save, Some Close_discard})
             (dw_documents w))
    \<and> (cp_status p = Coordinated_ready \<longrightarrow>
         cp_close_documents p = map wd_id (dw_documents w)
         \<and> cp_save_before_close p =
             map wd_id (filter (\<lambda>d. wd_dirty d \<and> decided d = Some Close_save) (dw_documents w)))"
proof -
  have choice: "(\<exists>f. x = Some f \<and> cd_choice f \<noteq> Close_cancel) \<longleftrightarrow>
      map_option cd_choice x \<in> {Some Close_save, Some Close_discard}" for x
    by (cases x) (auto, metis DocumentCloseChoice.exhaust)
  have "cp_status (BuildCoordinatedClosePlan w ds) = Coordinated_ready \<longleftrightarrow> decisions_ok w ds
      \<and> list_all (\<lambda>d. \<not> wd_dirty d \<or> map_option cd_choice (find_key cd_document (wd_id d) ds)
          \<in> {Some Close_save, Some Close_discard}) (dw_documents w)"
    unfolding choice [symmetric]
    by (auto simp: BuildCoordinatedClosePlan_def Let_def plan_documents_ready list_all_iff)
  then show ?thesis using plan_ready [of w ds] by (simp add: Let_def)
qed

theorem close_plan_is_exact_witness:
  "cp_save_before_close (BuildCoordinatedClosePlan
      \<lparr>dw_id = 1, dw_maximum_recently_closed = 0, dw_documents = [], dw_recently_closed = [],
        dw_active = None, dw_revision = 3\<rparr> []) = []"
  using close_plan_is_exact [of "\<lparr>dw_id = 1, dw_maximum_recently_closed = 0, dw_documents = [],
      dw_recently_closed = [], dw_active = None, dw_revision = 3\<rparr>" "[]"]
  by (simp add: Let_def)

text \<open>C10: A coordinated close never loses a document.  Suppose the plan is a ready plan of the
  consistent workspace and the save callback, arbitrary otherwise, does not change the open documents
  without the revision counter showing it.  If the close succeeds, every document that was to be
  saved was reported saved by the callback before and no document is left open; if it fails and the
  revision is still the planned one, every document is still open, unchanged and in order.\<close>

theorem coordinated_close_loses_nothing:
  assumes "workspace_wf ops w"
    and "cp_status (BuildCoordinatedClosePlan w ds) = Coordinated_ready"
    and "\<And>i v. dw_revision (snd (save i v)) = dw_revision v \<Longrightarrow>
      workspace_view (snd (save i v)) = workspace_view v"
    and "ExecuteCoordinatedClose (Some save) (BuildCoordinatedClosePlan w ds) w = ((status, failed), w')"
  shows "if status = Coordinated_success
    then dw_documents w' = []
      \<and> (\<forall>i \<in> set (cp_save_before_close (BuildCoordinatedClosePlan w ds)). \<exists>v. fst (save i v) = Returns True)
    else dw_revision w' = dw_revision w \<longrightarrow> dw_documents w' = dw_documents w"
proof -
  let ?p = "BuildCoordinatedClosePlan w ds"
  note plan = plan_ready [OF assms(2)]
  show ?thesis
  proof (cases "dw_documents w = []")
    case True
    then show ?thesis using assms(4) plan(2-4) assms(2) by (simp add: ExecuteCoordinatedClose_def)
  next
    case False
    obtain res v where run: "run_saves save (dw_revision w) (cp_save_before_close ?p) w = (res, v)"
      by (cases "run_saves save (dw_revision w) (cp_save_before_close ?p) w")
    show ?thesis
    proof (cases res)
      case None
      have v: "workspace_view v = workspace_view w" "dw_revision v = dw_revision w"
        "\<forall>i \<in> set (cp_save_before_close ?p). \<exists>v. fst (save i v) = Returns True"
        using run_saves_result [OF assms(3) run refl] None by auto
      then have docs: "dw_documents v = dw_documents w" by (simp add: workspace_view_def)
      have "ExecuteCoordinatedClose (Some save) ?p w = CommitCoordinatedCloseAfterSaves ?p v"
        using assms(2) plan(2,3) False run None by (simp add: ExecuteCoordinatedClose_def)
      also have "\<dots> = ((Coordinated_success, None),
          snd (Workspace_CloseMany (map wd_id (dw_documents w)) v))"
        using assms(2) plan(2,3) False v(2) close_all_ids(1) [OF assms(1) False docs]
        by (simp add: CommitCoordinatedCloseAfterSaves_def Let_def)
      finally show ?thesis using assms(4) close_all_ids(2) [OF assms(1) False docs] v(3) by simp
    next
      case (Some failure)
      obtain st j where f: "failure = (st, j)" by (cases failure)
      have "ExecuteCoordinatedClose (Some save) ?p w = (failure, v)"
        using assms(2) plan(2,3) False run Some by (simp add: ExecuteCoordinatedClose_def)
      moreover have "dw_revision v = dw_revision w \<longrightarrow> dw_documents v = dw_documents w"
        "st \<noteq> Coordinated_success"
        using run_saves_result [OF assms(3) run refl] Some f by (auto simp: workspace_view_def)
      ultimately show ?thesis using assms(4) f by simp
    qed
  qed
qed

theorem coordinated_close_loses_nothing_witness:
  "dw_documents (snd (ExecuteCoordinatedClose (Some (\<lambda>i v. (Returns True, v)))
      (BuildCoordinatedClosePlan example_source [\<lparr>cd_document = 3, cd_choice = Close_save\<rparr>])
      example_source)) = []"
proof -
  let ?p = "BuildCoordinatedClosePlan example_source [\<lparr>cd_document = 3, cd_choice = Close_save\<rparr>]"
  let ?save = "(\<lambda>i v. (Returns True, v)) :: bool ws_callback"
  have "cp_status ?p = Coordinated_ready" by code_simp
  moreover have "fst (fst (ExecuteCoordinatedClose (Some ?save) ?p example_source)) = Coordinated_success"
    by code_simp
  ultimately show ?thesis
    using coordinated_close_loses_nothing [OF example_source_wf, of _ ?save]
    by (cases "ExecuteCoordinatedClose (Some ?save) ?p example_source") fastforce
qed

end
