(* ===== verification/Docking_Layout.thy ===== *)
theory Docking_Layout
  imports Floating
begin

text \<open>
  The docking layout model (\<open>src/docking_workspace.cpp\<close>, \<open>include/mwfl/docking_workspace.h\<close>):
  panels, groups, the binary split tree of each host, floating hosts and auto-hidden panels, with the
  mutations, the validator and the propose/commit transactions of \<open>DockLayoutModel\<close>.

  The identifier types wrap one 64-bit value each and are 64-bit words here.  \<open>FindById\<close> returns a
  pointer in the code; here it is \<open>find_key\<close>, and an assignment through the pointer is \<open>update_at\<close>
  at the found index.
\<close>

datatype DockPanelRole = Panel_document | Panel_tool
datatype DockGroupRole = Group_document | Group_tool
datatype DockNodeKind = Node_group | Node_split
datatype DockSplitOrientation = Split_vertical | Split_horizontal
datatype DockEdge = Edge_left | Edge_top | Edge_right | Edge_bottom

record DockPanel =
  dp_id :: u64
  dp_title :: wstring
  dp_role :: DockPanelRole
  dp_closable :: bool

record DockGroup =
  dg_id :: u64
  dg_role :: DockGroupRole
  dg_panels :: "u64 list"
  dg_active :: "u64 option"

record DockNode =
  dn_id :: u64
  dn_kind :: DockNodeKind
  dn_group :: u64
  dn_orientation :: DockSplitOrientation
  dn_first :: u64
  dn_second :: u64
  dn_ratio :: fp

record DockFloatingPlacement =
  fl_x :: fp
  fl_y :: fp
  fl_width :: fp
  fl_height :: fp
  fl_monitor_key :: wstring

record DockFloatingHost =
  fh_id :: u64
  fh_root :: u64
  fh_placement :: DockFloatingPlacement

record DockAutoHideEntry =
  ah_panel :: u64
  ah_edge :: DockEdge
  ah_order :: u64

record DockLayoutSnapshot =
  ly_main_root :: u64
  ly_panels :: "DockPanel list"
  ly_groups :: "DockGroup list"
  ly_nodes :: "DockNode list"
  ly_floating_hosts :: "DockFloatingHost list"
  ly_auto_hide :: "DockAutoHideEntry list"
  ly_active_panel :: "u64 option"

datatype DockMutationKind =
    Mutation_activate | Mutation_move_to_group | Mutation_split_to_group
  | Mutation_float_panel | Mutation_auto_hide | Mutation_close_panel

record DockMutation =
  mu_kind :: DockMutationKind
  mu_panel :: u64
  mu_target_group :: u64
  mu_target_index :: "nat option"
  mu_edge :: DockEdge
  mu_new_group :: u64
  mu_new_group_node :: u64
  mu_new_split_node :: u64
  mu_new_floating_host :: u64
  mu_floating_placement :: DockFloatingPlacement
  mu_split_ratio :: fp

datatype DockLayoutStatus =
    Layout_success | Layout_invalid_argument | Layout_duplicate_id | Layout_not_found
  | Layout_role_mismatch | Layout_invalid_graph | Layout_stale_transaction

type_synonym DockLayoutResult = "DockLayoutStatus \<times> u64 option"

record DockLayoutTransaction =
  tx_source_revision :: u64
  tx_mutation :: DockMutation
  tx_proposed :: DockLayoutSnapshot

record DockLayoutModel =
  lm_state :: DockLayoutSnapshot
  lm_revision :: u64

section \<open>Helpers\<close>

definition RoleFor :: "DockPanelRole \<Rightarrow> DockGroupRole" where
  "RoleFor role = (if role = Panel_document then Group_document else Group_tool)"

definition FindPanelIn :: "DockLayoutSnapshot \<Rightarrow> u64 \<Rightarrow> DockPanel option" where
  "FindPanelIn s i = find_key dp_id i (ly_panels s)"

definition FindGroupIn :: "DockLayoutSnapshot \<Rightarrow> u64 \<Rightarrow> DockGroup option" where
  "FindGroupIn s i = find_key dg_id i (ly_groups s)"

definition FindNodeIn :: "DockLayoutSnapshot \<Rightarrow> u64 \<Rightarrow> DockNode option" where
  "FindNodeIn s i = find_key dn_id i (ly_nodes s)"

text \<open>An assignment through the pointer that \<open>FindGroupIn\<close> returned.\<close>

definition update_group :: "u64 \<Rightarrow> (DockGroup \<Rightarrow> DockGroup) \<Rightarrow> DockLayoutSnapshot \<Rightarrow> DockLayoutSnapshot" where
  "update_group i f s = (case find_index (\<lambda>g. dg_id g = i) (ly_groups s) of None \<Rightarrow> s
     | Some k \<Rightarrow> s\<lparr>ly_groups := update_at k f (ly_groups s)\<rparr>)"

definition SelectFallback :: "DockGroup \<Rightarrow> DockGroup" where
  "SelectFallback g =
    (if (case dg_active g of None \<Rightarrow> False | Some a \<Rightarrow> a \<in> set (dg_panels g)) then g
     else g\<lparr>dg_active := (case dg_panels g of [] \<Rightarrow> None | p # _ \<Rightarrow> Some p)\<rparr>)"

definition detach_from_group :: "u64 \<Rightarrow> DockGroup \<Rightarrow> DockGroup" where
  "detach_from_group i g =
    (let panels = filter (\<lambda>p. p \<noteq> i) (dg_panels g); g' = g\<lparr>dg_panels := panels\<rparr>
     in if length panels \<noteq> length (dg_panels g) then SelectFallback g' else g')"

definition DetachPanel :: "DockLayoutSnapshot \<Rightarrow> u64 \<Rightarrow> DockLayoutSnapshot" where
  "DetachPanel s i = s\<lparr>ly_groups := map (detach_from_group i) (ly_groups s),
     ly_auto_hide := filter (\<lambda>e. ah_panel e \<noteq> i) (ly_auto_hide s)\<rparr>"

text \<open>The three searches of \<open>ReplaceNodeReference\<close>: main root, floating roots, split children.\<close>

fun replace_host_root :: "u64 \<Rightarrow> u64 \<Rightarrow> DockFloatingHost list \<Rightarrow> DockFloatingHost list option" where
  "replace_host_root old new [] = None"
| "replace_host_root old new (h # hs) =
    (if fh_root h = old then Some (h\<lparr>fh_root := new\<rparr> # hs)
     else map_option ((#) h) (replace_host_root old new hs))"

fun replace_child :: "u64 \<Rightarrow> u64 \<Rightarrow> DockNode list \<Rightarrow> DockNode list option" where
  "replace_child old new [] = None"
| "replace_child old new (n # ns) =
    (if dn_kind n = Node_split \<and> dn_first n = old then Some (n\<lparr>dn_first := new\<rparr> # ns)
     else if dn_kind n = Node_split \<and> dn_second n = old then Some (n\<lparr>dn_second := new\<rparr> # ns)
     else map_option ((#) n) (replace_child old new ns))"

definition ReplaceNodeReference :: "DockLayoutSnapshot \<Rightarrow> u64 \<Rightarrow> u64 \<Rightarrow> DockLayoutSnapshot option" where
  "ReplaceNodeReference s old new =
    (if ly_main_root s = old then Some (s\<lparr>ly_main_root := new\<rparr>)
     else case replace_host_root old new (ly_floating_hosts s) of
       Some hs \<Rightarrow> Some (s\<lparr>ly_floating_hosts := hs\<rparr>)
     | None \<Rightarrow> map_option (\<lambda>ns. s\<lparr>ly_nodes := ns\<rparr>) (replace_child old new (ly_nodes s)))"

fun first_group_panel :: "DockGroup list \<Rightarrow> u64 option" where
  "first_group_panel [] = None"
| "first_group_panel (g # gs) =
    (case dg_active g of Some a \<Rightarrow> Some a
     | None \<Rightarrow> (case dg_panels g of p # _ \<Rightarrow> Some p | [] \<Rightarrow> first_group_panel gs))"

definition FirstPlacedPanel :: "DockLayoutSnapshot \<Rightarrow> u64 option" where
  "FirstPlacedPanel s =
    (case first_group_panel (ly_groups s) of Some p \<Rightarrow> Some p
     | None \<Rightarrow> (case ly_auto_hide s of e # _ \<Rightarrow> Some (ah_panel e) | [] \<Rightarrow> None))"

definition DockFloatingPlacement_IsValid :: "DockFloatingPlacement \<Rightarrow> bool" where
  "DockFloatingPlacement_IsValid p \<longleftrightarrow> isfinite (fl_x p) \<and> isfinite (fl_y p)
    \<and> isfinite (fl_width p) \<and> isfinite (fl_height p)
    \<and> fp_leq (Fin 80) (fl_width p) \<and> fp_leq (Fin 60) (fl_height p)
    \<and> fp_leq (fl_width p) (Fin 100000) \<and> fp_leq (fl_height p) (Fin 100000)
    \<and> length (fl_monitor_key p) \<le> 256"

definition ratio_ok :: "fp \<Rightarrow> bool" where
  "ratio_ok r \<longleftrightarrow> isfinite r \<and> \<not> fp_less r dbl_0_1 \<and> \<not> fp_less dbl_0_9 r"

text \<open>The first group node that shows a group, and the node of a new split.\<close>

definition group_node_of :: "DockLayoutSnapshot \<Rightarrow> u64 \<Rightarrow> DockNode option" where
  "group_node_of s g = find (\<lambda>n. dn_kind n = Node_group \<and> dn_group n = g) (ly_nodes s)"

definition new_group_leaf :: "u64 \<Rightarrow> u64 \<Rightarrow> DockNode" where
  "new_group_leaf node group_id = \<lparr>dn_id = node, dn_kind = Node_group, dn_group = group_id,
     dn_orientation = Split_vertical, dn_first = 0, dn_second = 0, dn_ratio = Fin (1 / 2)\<rparr>"

definition new_split :: "u64 \<Rightarrow> DockEdge \<Rightarrow> u64 \<Rightarrow> u64 \<Rightarrow> fp \<Rightarrow> DockNode" where
  "new_split node edge new_node target_node ratio =
    (let new_first = (edge = Edge_left \<or> edge = Edge_top)
     in \<lparr>dn_id = node, dn_kind = Node_split, dn_group = 0,
          dn_orientation = (if edge = Edge_left \<or> edge = Edge_right
            then Split_vertical else Split_horizontal),
          dn_first = (if new_first then new_node else target_node),
          dn_second = (if new_first then target_node else new_node), dn_ratio = ratio\<rparr>)"

section \<open>Mutations\<close>

fun next_order :: "DockEdge \<Rightarrow> u64 \<Rightarrow> DockAutoHideEntry list \<Rightarrow> u64" where
  "next_order edge order [] = order"
| "next_order edge order (e # es) =
    next_order edge (if ah_edge e = edge then max order (ah_order e + 1) else order) es"

definition insert_panel :: "u64 \<Rightarrow> nat option \<Rightarrow> DockGroup \<Rightarrow> DockGroup" where
  "insert_panel i index g =
    (let target = (case index of None \<Rightarrow> length (dg_panels g) | Some k \<Rightarrow> min k (length (dg_panels g)))
     in g\<lparr>dg_panels := insert_at target i (dg_panels g), dg_active := Some i\<rparr>)"

text \<open>
  \<open>ApplyMutation\<close> works on a private copy of the snapshot, so the state that accompanies a failure
  is never read.
\<close>

definition ApplyMutation ::
  "DockLayoutSnapshot \<Rightarrow> DockMutation \<Rightarrow> DockLayoutStatus \<times> DockLayoutSnapshot" where
  "ApplyMutation s m =
    (case FindPanelIn s (mu_panel m) of
       None \<Rightarrow> (Layout_not_found, s)
     | Some panel \<Rightarrow>
       let i = dp_id panel in
       case mu_kind m of
         Mutation_activate \<Rightarrow>
           (Layout_success, s\<lparr>ly_active_panel := Some i,
             ly_groups := map (\<lambda>g. if i \<in> set (dg_panels g) then g\<lparr>dg_active := Some i\<rparr> else g)
               (ly_groups s)\<rparr>)
       | Mutation_close_panel \<Rightarrow>
           if \<not> dp_closable panel then (Layout_invalid_argument, s)
           else let s1 = DetachPanel s i;
                    s2 = s1\<lparr>ly_panels := filter (\<lambda>p. dp_id p \<noteq> i) (ly_panels s1)\<rparr>
             in (Layout_success, if ly_active_panel s2 = Some i
                  then s2\<lparr>ly_active_panel := FirstPlacedPanel s2\<rparr> else s2)
       | Mutation_auto_hide \<Rightarrow>
           if dp_role panel \<noteq> Panel_tool then (Layout_role_mismatch, s)
           else let s1 = DetachPanel s i;
                    order = next_order (mu_edge m) 0 (ly_auto_hide s1)
             in (Layout_success, s1\<lparr>ly_auto_hide := ly_auto_hide s1 @
                  [\<lparr>ah_panel = i, ah_edge = mu_edge m, ah_order = order\<rparr>], ly_active_panel := Some i\<rparr>)
       | Mutation_move_to_group \<Rightarrow>
           (case FindGroupIn s (mu_target_group m) of
              None \<Rightarrow> (Layout_not_found, s)
            | Some target \<Rightarrow>
                if dg_role target \<noteq> RoleFor (dp_role panel) then (Layout_role_mismatch, s)
                else (Layout_success, (update_group (mu_target_group m)
                  (insert_panel i (mu_target_index m)) (DetachPanel s i))\<lparr>ly_active_panel := Some i\<rparr>))
       | _ \<Rightarrow>
           if mu_new_group m = 0 \<or> mu_new_group_node m = 0
             \<or> FindGroupIn s (mu_new_group m) \<noteq> None \<or> FindNodeIn s (mu_new_group_node m) \<noteq> None
           then (Layout_duplicate_id, s)
           else let s0 = DetachPanel s i;
               s1 = s0\<lparr>ly_groups := ly_groups s0 @ [\<lparr>dg_id = mu_new_group m,
                        dg_role = RoleFor (dp_role panel), dg_panels = [i], dg_active = Some i\<rparr>],
                      ly_nodes := ly_nodes s0 @ [new_group_leaf (mu_new_group_node m) (mu_new_group m)]\<rparr>
             in if mu_kind m = Mutation_float_panel then
                  (if mu_new_floating_host m = 0
                      \<or> find_key fh_id (mu_new_floating_host m) (ly_floating_hosts s1) \<noteq> None
                      \<or> \<not> DockFloatingPlacement_IsValid (mu_floating_placement m)
                   then (Layout_duplicate_id, s1)
                   else (Layout_success, s1\<lparr>ly_floating_hosts := ly_floating_hosts s1 @
                     [\<lparr>fh_id = mu_new_floating_host m, fh_root = mu_new_group_node m,
                       fh_placement = mu_floating_placement m\<rparr>], ly_active_panel := Some i\<rparr>))
                else
                  (case FindGroupIn s1 (mu_target_group m) of
                     None \<Rightarrow> (Layout_not_found, s1)
                   | Some target \<Rightarrow>
                     if mu_new_split_node m = 0 \<or> FindNodeIn s1 (mu_new_split_node m) \<noteq> None
                       \<or> \<not> ratio_ok (mu_split_ratio m)
                     then (Layout_duplicate_id, s1)
                     else case group_node_of s1 (dg_id target) of
                       None \<Rightarrow> (Layout_invalid_graph, s1)
                     | Some target_node \<Rightarrow>
                       (case ReplaceNodeReference s1 (dn_id target_node) (mu_new_split_node m) of
                          None \<Rightarrow> (Layout_invalid_graph, s1)
                        | Some s2 \<Rightarrow> (Layout_success, s2\<lparr>ly_nodes := ly_nodes s2 @
                            [new_split (mu_new_split_node m) (mu_edge m) (mu_new_group_node m)
                              (dn_id target_node) (mu_split_ratio m)], ly_active_panel := Some i\<rparr>))))"

section \<open>The validator\<close>

fun has_duplicate :: "u64 list \<Rightarrow> bool" where
  "has_duplicate [] = False"
| "has_duplicate (x # xs) = (x = 0 \<or> x \<in> set xs \<or> has_duplicate xs)"

definition panel_index :: "DockLayoutSnapshot \<Rightarrow> u64 \<Rightarrow> nat option" where
  "panel_index s i = find_index (\<lambda>p. dp_id p = i) (ly_panels s)"

definition group_index :: "DockLayoutSnapshot \<Rightarrow> u64 \<Rightarrow> nat option" where
  "group_index s i = find_index (\<lambda>g. dg_id g = i) (ly_groups s)"

definition node_index :: "DockLayoutSnapshot \<Rightarrow> u64 \<Rightarrow> nat option" where
  "node_index s i = find_index (\<lambda>n. dn_id n = i) (ly_nodes s)"

text \<open>\<open>!index || ++uses[*index] != 1\<close>: the counters after a first use, or \<open>None\<close>.\<close>

definition count_use :: "nat option \<Rightarrow> nat list \<Rightarrow> nat list option" where
  "count_use index uses =
    (case index of None \<Rightarrow> None
     | Some k \<Rightarrow> let uses' = uses[k := uses ! k + 1] in if uses' ! k \<noteq> 1 then None else Some uses')"

fun check_group_panels ::
  "DockLayoutSnapshot \<Rightarrow> DockGroupRole \<Rightarrow> u64 list \<Rightarrow> nat list \<Rightarrow> DockLayoutStatus + nat list" where
  "check_group_panels s role [] uses = Inr uses"
| "check_group_panels s role (p # ps) uses =
    (case count_use (panel_index s p) uses of
       None \<Rightarrow> Inl Layout_invalid_graph
     | Some uses' \<Rightarrow>
        if RoleFor (dp_role (ly_panels s ! the (panel_index s p))) \<noteq> role then Inl Layout_invalid_graph
        else if p \<in> set ps then Inl Layout_duplicate_id
        else check_group_panels s role ps uses')"

fun check_groups ::
  "DockLayoutSnapshot \<Rightarrow> DockGroup list \<Rightarrow> nat list \<Rightarrow> DockLayoutStatus + nat list" where
  "check_groups s [] uses = Inr uses"
| "check_groups s (g # gs) uses =
    (case check_group_panels s (dg_role g) (dg_panels g) uses of
       Inl status \<Rightarrow> Inl status
     | Inr uses' \<Rightarrow>
        if (dg_panels g = []) \<noteq> (dg_active g = None)
          \<or> (case dg_active g of None \<Rightarrow> False | Some a \<Rightarrow> a \<notin> set (dg_panels g))
        then Inl Layout_invalid_graph
        else check_groups s gs uses')"

fun check_auto_hide :: "DockLayoutSnapshot \<Rightarrow> DockAutoHideEntry list \<Rightarrow> nat list \<Rightarrow> nat list option" where
  "check_auto_hide s [] uses = Some uses"
| "check_auto_hide s (e # es) uses =
    (case panel_index s (ah_panel e) of
       None \<Rightarrow> None
     | Some k \<Rightarrow> if dp_role (ly_panels s ! k) \<noteq> Panel_tool then None
        else (case count_use (Some k) uses of None \<Rightarrow> None | Some uses' \<Rightarrow> check_auto_hide s es uses'))"

fun check_nodes ::
  "DockLayoutSnapshot \<Rightarrow> DockNode list \<Rightarrow> nat list \<times> nat list \<Rightarrow> (nat list \<times> nat list) option" where
  "check_nodes s [] counts = Some counts"
| "check_nodes s (n # ns) (group_uses, parents) =
    (if dn_kind n = Node_group then
       (case count_use (group_index s (dn_group n)) group_uses of
          None \<Rightarrow> None
        | Some group_uses' \<Rightarrow> if dn_first n \<noteq> 0 \<or> dn_second n \<noteq> 0 then None
            else check_nodes s ns (group_uses', parents))
     else
       (case (node_index s (dn_first n), node_index s (dn_second n)) of
          (Some first, Some second) \<Rightarrow>
            if first = second \<or> dn_group n \<noteq> 0 \<or> \<not> ratio_ok (dn_ratio n) then None
            else let parents1 = parents[first := parents ! first + 1]
              in check_nodes s ns (group_uses, parents1[second := parents1 ! second + 1])
        | _ \<Rightarrow> None))"

fun collect_roots :: "DockLayoutSnapshot \<Rightarrow> DockFloatingHost list \<Rightarrow> u64 list \<Rightarrow> u64 list option" where
  "collect_roots s [] roots = Some roots"
| "collect_roots s (h # hs) roots =
    (if \<not> DockFloatingPlacement_IsValid (fh_placement h) \<or> node_index s (fh_root h) = None
       \<or> fh_root h \<in> set roots
     then None else collect_roots s hs (roots @ [fh_root h]))"

fun own_roots :: "DockLayoutSnapshot \<Rightarrow> u64 list \<Rightarrow> nat list \<Rightarrow> nat list option" where
  "own_roots s [] parents = Some parents"
| "own_roots s (r # rs) parents =
    (case node_index s r of None \<Rightarrow> None
     | Some k \<Rightarrow> own_roots s rs (parents[k := parents ! k + 1]))"

definition unvisited :: "bool list \<Rightarrow> nat" where
  "unvisited vs = length (filter Not vs)"

lemma unvisited_update: "k < length vs \<Longrightarrow> \<not> vs ! k \<Longrightarrow> Suc (unvisited (vs[k := True])) = unvisited vs"
proof (induction vs arbitrary: k)
  case Nil
  then show ?case by simp
next
  case (Cons v vs)
  then show ?case by (cases k) (auto simp: unvisited_def)
qed

text \<open>
  The depth-first walk; the head of \<open>pending\<close> is the back of the vector.  \<open>visited\<close> has one entry
  per node, so the test \<open>k \<ge> length visited\<close> only makes the recursion total.
\<close>

function visit_nodes :: "DockLayoutSnapshot \<Rightarrow> u64 list \<Rightarrow> bool list \<Rightarrow> bool list option" where
  "visit_nodes s [] visited = Some visited"
| "visit_nodes s (i # pending) visited =
    (case node_index s i of
       None \<Rightarrow> None
     | Some k \<Rightarrow>
        if k \<ge> length visited \<or> visited ! k then None
        else let node = ly_nodes s ! k
          in visit_nodes s
            (if dn_kind node = Node_split then dn_second node # dn_first node # pending else pending)
            (visited[k := True]))"
  by pat_completeness auto

termination
proof (relation "measure (\<lambda>(s, pending, visited). 2 * unvisited visited + length pending)", simp)
  fix s :: DockLayoutSnapshot and i pending visited k node
  assume "\<not> (k \<ge> length visited \<or> visited ! k)"
  then have "Suc (unvisited (visited[k := True])) = unvisited visited"
    by (intro unvisited_update) auto
  then show "((s, if dn_kind node = Node_split then dn_second node # dn_first node # pending
        else pending, visited[k := True]), s, i # pending, visited)
      \<in> measure (\<lambda>(s, pending, visited). 2 * unvisited visited + length pending)"
    by auto
qed

definition any_not_one :: "nat list \<Rightarrow> bool" where
  "any_not_one counts \<longleftrightarrow> (\<exists>c \<in> set counts. c \<noteq> 1)"

definition DockLayoutModel_Validate :: "DockLayoutSnapshot \<Rightarrow> DockLayoutStatus" where
  "DockLayoutModel_Validate s =
    (if ly_main_root s = 0 \<or> length (ly_panels s) > 4096 \<or> length (ly_groups s) > 4096
       \<or> length (ly_nodes s) > 8192 \<or> length (ly_floating_hosts s) > 1024
       \<or> length (ly_auto_hide s) > 4096
     then Layout_invalid_graph
     else if has_duplicate (map dp_id (ly_panels s)) \<or> has_duplicate (map dg_id (ly_groups s))
       \<or> has_duplicate (map dn_id (ly_nodes s)) \<or> has_duplicate (map fh_id (ly_floating_hosts s))
     then Layout_duplicate_id
     else if \<exists>p \<in> set (ly_panels s). dp_title p = [] \<or> length (dp_title p) > 4096
     then Layout_invalid_argument
     else case check_groups s (ly_groups s) (replicate (length (ly_panels s)) 0) of
       Inl status \<Rightarrow> status
     | Inr uses0 \<Rightarrow>
       (case check_auto_hide s (ly_auto_hide s) uses0 of
          None \<Rightarrow> Layout_invalid_graph
        | Some uses \<Rightarrow>
          if any_not_one uses then Layout_invalid_graph
          else if (case ly_active_panel s of None \<Rightarrow> False | Some a \<Rightarrow> panel_index s a = None)
          then Layout_invalid_graph
          else case check_nodes s (ly_nodes s)
              (replicate (length (ly_groups s)) 0, replicate (length (ly_nodes s)) 0) of
            None \<Rightarrow> Layout_invalid_graph
          | Some (group_uses, parents0) \<Rightarrow>
            if any_not_one group_uses then Layout_invalid_graph
            else case collect_roots s (ly_floating_hosts s) [ly_main_root s] of
              None \<Rightarrow> Layout_invalid_graph
            | Some roots \<Rightarrow>
              (case own_roots s roots parents0 of
                 None \<Rightarrow> Layout_invalid_graph
               | Some parents \<Rightarrow>
                 if any_not_one parents then Layout_invalid_graph
                 else case visit_nodes s (rev roots) (replicate (length (ly_nodes s)) False) of
                   None \<Rightarrow> Layout_invalid_graph
                 | Some visited \<Rightarrow>
                   if False \<in> set visited then Layout_invalid_graph else Layout_success)))"

section \<open>The model and its transactions\<close>

definition DockLayoutModel_new :: "u64 \<Rightarrow> u64 \<Rightarrow> DockGroupRole \<Rightarrow> DockLayoutModel option" where
  "DockLayoutModel_new root_group root_node root_role =
    (if root_group = 0 \<or> root_node = 0 then None
     else Some \<lparr>lm_state = \<lparr>ly_main_root = root_node, ly_panels = [],
         ly_groups = [\<lparr>dg_id = root_group, dg_role = root_role, dg_panels = [], dg_active = None\<rparr>],
         ly_nodes = [new_group_leaf root_node root_group], ly_floating_hosts = [], ly_auto_hide = [],
         ly_active_panel = None\<rparr>, lm_revision = 1\<rparr>)"

definition DockLayoutModel_Success :: "DockLayoutModel \<Rightarrow> DockLayoutResult \<times> DockLayoutModel" where
  "DockLayoutModel_Success w = ((Layout_success, ly_active_panel (lm_state w)), w)"

definition layout_fail :: "DockLayoutStatus \<Rightarrow> DockLayoutModel \<Rightarrow> DockLayoutResult \<times> DockLayoutModel" where
  "layout_fail status w = ((status, ly_active_panel (lm_state w)), w)"

definition install_state :: "DockLayoutSnapshot \<Rightarrow> DockLayoutModel \<Rightarrow> DockLayoutModel" where
  "install_state s w = w\<lparr>lm_state := s, lm_revision := lm_revision w + 1\<rparr>"

definition DockLayoutModel_AddDockedGroup ::
  "u64 \<Rightarrow> u64 \<Rightarrow> DockGroupRole \<Rightarrow> u64 \<Rightarrow> u64 \<Rightarrow> DockEdge \<Rightarrow> fp \<Rightarrow> DockLayoutModel
    \<Rightarrow> DockLayoutResult \<times> DockLayoutModel" where
  "DockLayoutModel_AddDockedGroup group_id group_node role target_group split_node edge ratio w =
    (let s = lm_state w in
     if group_id = 0 \<or> group_node = 0 \<or> split_node = 0 \<or> FindGroupIn s group_id \<noteq> None
       \<or> FindNodeIn s group_node \<noteq> None \<or> FindNodeIn s split_node \<noteq> None
     then layout_fail Layout_duplicate_id w
     else if \<not> ratio_ok ratio then layout_fail Layout_invalid_argument w
     else if FindGroupIn s target_group = None then layout_fail Layout_not_found w
     else case group_node_of s target_group of
       None \<Rightarrow> layout_fail Layout_invalid_graph w
     | Some target_node \<Rightarrow>
       let s1 = s\<lparr>ly_groups := ly_groups s @ [\<lparr>dg_id = group_id, dg_role = role, dg_panels = [],
                    dg_active = None\<rparr>],
                  ly_nodes := ly_nodes s @ [new_group_leaf group_node group_id]\<rparr>
       in case ReplaceNodeReference s1 (dn_id target_node) split_node of
            None \<Rightarrow> layout_fail Layout_invalid_graph w
          | Some s2 \<Rightarrow>
            let s3 = s2\<lparr>ly_nodes := ly_nodes s2 @
                  [new_split split_node edge group_node (dn_id target_node) ratio]\<rparr>;
                status = DockLayoutModel_Validate s3
            in if status \<noteq> Layout_success then layout_fail status w
               else DockLayoutModel_Success (install_state s3 w))"

definition DockLayoutModel_AddPanel ::
  "DockPanel \<Rightarrow> u64 \<Rightarrow> nat option \<Rightarrow> DockLayoutModel \<Rightarrow> DockLayoutResult \<times> DockLayoutModel" where
  "DockLayoutModel_AddPanel panel group_id index w =
    (let s = lm_state w in
     if dp_id panel = 0 \<or> dp_title panel = [] then layout_fail Layout_invalid_argument w
     else if FindPanelIn s (dp_id panel) \<noteq> None then layout_fail Layout_duplicate_id w
     else case FindGroupIn s group_id of
       None \<Rightarrow> layout_fail Layout_not_found w
     | Some target \<Rightarrow>
       if dg_role target \<noteq> RoleFor (dp_role panel) then layout_fail Layout_role_mismatch w
       else let s1 = s\<lparr>ly_panels := ly_panels s @ [panel]\<rparr>;
                s2 = update_group group_id (insert_panel (dp_id panel) index) s1
         in DockLayoutModel_Success (install_state (s2\<lparr>ly_active_panel := Some (dp_id panel)\<rparr>) w))"

definition DockLayoutModel_Propose ::
  "DockMutation \<Rightarrow> DockLayoutModel \<Rightarrow> DockLayoutStatus \<times> DockLayoutTransaction option" where
  "DockLayoutModel_Propose m w =
    (let (applied, proposed) = ApplyMutation (lm_state w) m;
         status = (if applied = Layout_success then DockLayoutModel_Validate proposed else applied)
     in (status, if status \<noteq> Layout_success then None
          else Some \<lparr>tx_source_revision = lm_revision w, tx_mutation = m, tx_proposed = proposed\<rparr>))"

definition DockLayoutModel_Commit ::
  "DockLayoutTransaction \<Rightarrow> DockLayoutModel \<Rightarrow> DockLayoutResult \<times> DockLayoutModel" where
  "DockLayoutModel_Commit tx w =
    (if tx_source_revision tx \<noteq> lm_revision w then layout_fail Layout_stale_transaction w
     else let status = DockLayoutModel_Validate (tx_proposed tx)
       in if status \<noteq> Layout_success then layout_fail status w
          else DockLayoutModel_Success (install_state (tx_proposed tx) w))"

definition DockLayoutModel_Replace ::
  "DockLayoutSnapshot \<Rightarrow> DockLayoutModel \<Rightarrow> DockLayoutResult \<times> DockLayoutModel" where
  "DockLayoutModel_Replace s w =
    (let status = DockLayoutModel_Validate s
     in if status \<noteq> Layout_success then layout_fail status w
        else DockLayoutModel_Success (install_state s w))"

definition DockLayoutTransaction_IsValid :: "DockLayoutTransaction \<Rightarrow> bool" where
  "DockLayoutTransaction_IsValid tx \<longleftrightarrow> tx_source_revision tx \<noteq> 0 \<and> mu_panel (tx_mutation tx) \<noteq> 0
    \<and> ly_main_root (tx_proposed tx) \<noteq> 0 \<and> DockLayoutModel_Validate (tx_proposed tx) = Layout_success"

definition DockLayoutModel_FindPanelGroup :: "u64 \<Rightarrow> DockLayoutModel \<Rightarrow> u64 option" where
  "DockLayoutModel_FindPanelGroup i w =
    map_option dg_id (find (\<lambda>g. i \<in> set (dg_panels g)) (ly_groups (lm_state w)))"

definition DockLayoutModel_IsAutoHidden :: "u64 \<Rightarrow> DockLayoutModel \<Rightarrow> bool" where
  "DockLayoutModel_IsAutoHidden i w \<longleftrightarrow> (\<exists>e \<in> set (ly_auto_hide (lm_state w)). ah_panel e = i)"

end
