(* ===== verification/Docking_Validity.thy ===== *)
theory Docking_Validity
  imports Docking_Layout "HOL-Library.Multiset"
begin

text \<open>
  What \<open>DockLayoutModel::Validate\<close> guarantees, stated without its counters and its walk: the nodes
  are exactly the nodes of a forest of binary trees whose roots are the main root and the roots of the
  floating hosts, the leaves show every group exactly once, and every panel is placed exactly once, in
  a group of its role or, as a tool, in the auto-hide lists.
\<close>

section \<open>The specification of a layout\<close>

datatype dock_tree = Dock_leaf u64 u64 | Dock_branch u64 dock_tree dock_tree

fun tree_root :: "dock_tree \<Rightarrow> u64" where
  "tree_root (Dock_leaf n g) = n"
| "tree_root (Dock_branch n l r) = n"

fun tree_nodes :: "dock_tree \<Rightarrow> u64 list" where
  "tree_nodes (Dock_leaf n g) = [n]"
| "tree_nodes (Dock_branch n l r) = n # tree_nodes l @ tree_nodes r"

fun tree_groups :: "dock_tree \<Rightarrow> u64 list" where
  "tree_groups (Dock_leaf n g) = [g]"
| "tree_groups (Dock_branch n l r) = tree_groups l @ tree_groups r"

text \<open>A tree that can be read off the node list.\<close>

fun tree_matches :: "DockNode list \<Rightarrow> dock_tree \<Rightarrow> bool" where
  "tree_matches ns (Dock_leaf n g) \<longleftrightarrow>
    (\<exists>d \<in> set ns. dn_id d = n \<and> dn_kind d = Node_group \<and> dn_group d = g)"
| "tree_matches ns (Dock_branch n l r) \<longleftrightarrow>
    (\<exists>d \<in> set ns. dn_id d = n \<and> dn_kind d = Node_split
      \<and> dn_first d = tree_root l \<and> dn_second d = tree_root r)
    \<and> tree_matches ns l \<and> tree_matches ns r"

text \<open>The same identifiers, each exactly once.\<close>

definition exactly_once :: "u64 list \<Rightarrow> u64 list \<Rightarrow> bool" where
  "exactly_once xs ids \<longleftrightarrow> distinct xs \<and> set xs = set ids"

definition placed_panels :: "DockLayoutSnapshot \<Rightarrow> u64 list" where
  "placed_panels s = concat (map dg_panels (ly_groups s)) @ map ah_panel (ly_auto_hide s)"

definition roles_match :: "DockLayoutSnapshot \<Rightarrow> bool" where
  "roles_match s \<longleftrightarrow>
    (\<forall>g \<in> set (ly_groups s). \<forall>p \<in> set (ly_panels s).
      dp_id p \<in> set (dg_panels g) \<longrightarrow> RoleFor (dp_role p) = dg_role g)
    \<and> (\<forall>e \<in> set (ly_auto_hide s). \<forall>p \<in> set (ly_panels s).
      dp_id p = ah_panel e \<longrightarrow> dp_role p = Panel_tool)"

definition selections_ok :: "DockLayoutSnapshot \<Rightarrow> bool" where
  "selections_ok s \<longleftrightarrow>
    (\<forall>g \<in> set (ly_groups s). case dg_active g of None \<Rightarrow> dg_panels g = []
       | Some a \<Rightarrow> a \<in> set (dg_panels g))
    \<and> (case ly_active_panel s of None \<Rightarrow> True | Some a \<Rightarrow> a \<in> dp_id ` set (ly_panels s))"

definition layout_forest :: "DockLayoutSnapshot \<Rightarrow> dock_tree list \<Rightarrow> bool" where
  "layout_forest s ts \<longleftrightarrow>
    map tree_root ts = ly_main_root s # map fh_root (ly_floating_hosts s)
    \<and> list_all (tree_matches (ly_nodes s)) ts
    \<and> exactly_once (concat (map tree_nodes ts)) (map dn_id (ly_nodes s))
    \<and> exactly_once (concat (map tree_groups ts)) (map dg_id (ly_groups s))"

section \<open>Counting uses\<close>

definition uses_of :: "u64 list \<Rightarrow> u64 list \<Rightarrow> nat list \<Rightarrow> bool" where
  "uses_of ids ps uses \<longleftrightarrow> length uses = length ids \<and> set ps \<subseteq> set ids \<and> distinct ps
    \<and> (\<forall>k < length ids. uses ! k = (if ids ! k \<in> set ps then 1 else 0))"

lemma uses_of_Nil: "uses_of ids [] (replicate (length ids) 0)"
  by (simp add: uses_of_def)

lemma uses_of_step:
  assumes "uses_of ids ps uses" "distinct ids"
    and "count_use (find_index (\<lambda>i. i = p) ids) uses = Some u"
  shows "uses_of ids (p # ps) u"
proof -
  obtain k where k: "find_index (\<lambda>i. i = p) ids = Some k" "u = uses[k := uses ! k + 1]" "u ! k = 1"
    using assms(3) by (auto simp: count_use_def Let_def split: option.splits if_splits)
  have p: "k < length ids" "ids ! k = p" using find_indexD [OF k(1)] by auto
  then have "uses ! k = 0" using k assms(1) by (simp add: uses_of_def)
  then have "p \<notin> set ps" using assms(1) p by (auto simp: uses_of_def split: if_splits)
  moreover have "p \<in> set ids" using p nth_mem by metis
  moreover have "u ! j = (if ids ! j \<in> set (p # ps) then 1 else 0)" if j: "j < length ids" for j
  proof (cases "j = k")
    case True
    then show ?thesis using k(3) p by simp
  next
    case False
    then have "ids ! j \<noteq> p" using j p assms(2) by (metis nth_eq_iff_index_eq)
    then show ?thesis using False j k(2) assms(1) by (auto simp: uses_of_def)
  qed
  moreover have "length u = length ids" "set ps \<subseteq> set ids" "distinct ps"
    using assms(1) k(2) by (auto simp: uses_of_def)
  ultimately show ?thesis unfolding uses_of_def by simp
qed

lemma uses_of_all:
  assumes "uses_of ids ps uses" "\<not> any_not_one uses"
  shows "exactly_once ps ids"
proof -
  have "x \<in> set ps" if "x \<in> set ids" for x
  proof -
    from that obtain k where k: "k < length ids" "ids ! k = x" by (auto simp: in_set_conv_nth)
    have "k < length uses" using assms(1) k by (simp add: uses_of_def)
    then have "uses ! k \<in> set uses" by (rule nth_mem)
    then have "uses ! k = 1" using assms(2) by (auto simp: any_not_one_def)
    moreover have "uses ! k = (if x \<in> set ps then 1 else 0)" using assms(1) k by (auto simp: uses_of_def)
    ultimately show ?thesis by (cases "x \<in> set ps") simp_all
  qed
  then have "set ids \<subseteq> set ps" by blast
  moreover have "distinct ps \<and> set ps \<subseteq> set ids"
    using assms(1) unfolding uses_of_def by blast
  ultimately show ?thesis unfolding exactly_once_def by blast
qed

lemma index_ids:
  "panel_index s i = find_index (\<lambda>x. x = i) (map dp_id (ly_panels s))"
  "group_index s i = find_index (\<lambda>x. x = i) (map dg_id (ly_groups s))"
  "node_index s i = find_index (\<lambda>x. x = i) (map dn_id (ly_nodes s))"
  by (simp_all add: panel_index_def group_index_def node_index_def find_index_map comp_def)

lemma has_duplicate_iff: "has_duplicate xs \<longleftrightarrow> 0 \<in> set xs \<or> \<not> distinct xs"
  by (induction xs) auto

lemma panel_at:
  assumes "distinct (map dp_id (ly_panels s))" "panel_index s i = Some k"
    and "p \<in> set (ly_panels s)" "dp_id p = i"
  shows "ly_panels s ! k = p"
proof -
  obtain j where j: "j < length (ly_panels s)" "ly_panels s ! j = p"
    using assms(3) by (auto simp: in_set_conv_nth)
  have "panel_index s i = Some j"
    using find_index_key_nth [OF assms(1) j(1)] j(2) assms(4) by (simp add: panel_index_def)
  with assms(2) j show ?thesis by simp
qed

lemma check_group_panels_uses:
  assumes "distinct (map dp_id (ly_panels s))"
  shows "check_group_panels s role ps uses = Inr u \<Longrightarrow> uses_of (map dp_id (ly_panels s)) acc uses \<Longrightarrow>
    uses_of (map dp_id (ly_panels s)) (rev ps @ acc) u
    \<and> (\<forall>p \<in> set (ly_panels s). dp_id p \<in> set ps \<longrightarrow> RoleFor (dp_role p) = role)"
proof (induction ps arbitrary: uses acc)
  case Nil
  then show ?case by simp
next
  case (Cons q ps)
  then obtain v where v: "count_use (panel_index s q) uses = Some v"
    "RoleFor (dp_role (ly_panels s ! the (panel_index s q))) = role"
    "check_group_panels s role ps v = Inr u"
    by (auto split: option.splits if_splits)
  obtain k where k: "panel_index s q = Some k"
    using v(1) by (auto simp: count_use_def split: option.splits)
  have "uses_of (map dp_id (ly_panels s)) (q # acc) v"
    using uses_of_step [OF Cons.prems(2) assms] v(1) by (simp add: index_ids)
  from Cons.IH [OF v(3) this] show ?case
    using panel_at [OF assms k] v(2) k by auto
qed

lemma check_groups_uses:
  assumes "distinct (map dp_id (ly_panels s))"
  shows "check_groups s gs uses = Inr u \<Longrightarrow> uses_of (map dp_id (ly_panels s)) acc uses \<Longrightarrow>
    uses_of (map dp_id (ly_panels s)) (rev (concat (map dg_panels gs)) @ acc) u
    \<and> (\<forall>g \<in> set gs. (\<forall>p \<in> set (ly_panels s). dp_id p \<in> set (dg_panels g) \<longrightarrow> RoleFor (dp_role p) = dg_role g)
      \<and> (case dg_active g of None \<Rightarrow> dg_panels g = [] | Some a \<Rightarrow> a \<in> set (dg_panels g)))"
proof (induction gs arbitrary: uses acc)
  case Nil
  then show ?case by simp
next
  case (Cons g gs)
  then obtain v where v: "check_group_panels s (dg_role g) (dg_panels g) uses = Inr v"
    and rest: "check_groups s gs v = Inr u"
    and act: "case dg_active g of None \<Rightarrow> dg_panels g = [] | Some a \<Rightarrow> a \<in> set (dg_panels g)"
    by (auto split: sum.splits if_splits option.splits)
  note g = check_group_panels_uses [OF assms v Cons.prems(2)]
  from Cons.IH [OF rest conjunct1 [OF g]] act g show ?case by auto
qed

lemma check_auto_hide_uses:
  assumes "distinct (map dp_id (ly_panels s))"
  shows "check_auto_hide s es uses = Some u \<Longrightarrow> uses_of (map dp_id (ly_panels s)) acc uses \<Longrightarrow>
    uses_of (map dp_id (ly_panels s)) (rev (map ah_panel es) @ acc) u
    \<and> (\<forall>e \<in> set es. \<forall>p \<in> set (ly_panels s). dp_id p = ah_panel e \<longrightarrow> dp_role p = Panel_tool)"
proof (induction es arbitrary: uses acc)
  case Nil
  then show ?case by simp
next
  case (Cons e es)
  then obtain k v where k: "panel_index s (ah_panel e) = Some k"
    "dp_role (ly_panels s ! k) = Panel_tool" "count_use (Some k) uses = Some v"
    "check_auto_hide s es v = Some u"
    by (auto split: option.splits if_splits)
  have "uses_of (map dp_id (ly_panels s)) (ah_panel e # acc) v"
    using uses_of_step [OF Cons.prems(2) assms] k by (simp add: index_ids)
  from Cons.IH [OF k(4) this] show ?case using panel_at [OF assms k(1)] k(2) by auto
qed

text \<open>The groups that the group nodes of a list show, in order.\<close>

definition shown_groups :: "DockNode list \<Rightarrow> u64 list" where
  "shown_groups ns = map dn_group (filter (\<lambda>n. dn_kind n = Node_group) ns)"

lemma check_nodes_uses:
  assumes "distinct (map dg_id (ly_groups s))"
  shows "check_nodes s ns (uses, parents) = Some (u, parents') \<Longrightarrow>
    uses_of (map dg_id (ly_groups s)) acc uses \<Longrightarrow>
    uses_of (map dg_id (ly_groups s)) (rev (shown_groups ns) @ acc) u"
proof (induction ns arbitrary: uses parents acc)
  case Nil
  then show ?case by (simp add: shown_groups_def)
next
  case (Cons n ns)
  show ?case
  proof (cases "dn_kind n = Node_group")
    case True
    with Cons.prems(1) obtain v where v: "count_use (group_index s (dn_group n)) uses = Some v"
      "check_nodes s ns (v, parents) = Some (u, parents')"
      by (auto split: option.splits if_splits)
    have "uses_of (map dg_id (ly_groups s)) (dn_group n # acc) v"
      using uses_of_step [OF Cons.prems(2) assms] v(1) by (simp add: index_ids)
    from Cons.IH [OF v(2) this] True show ?thesis by (simp add: shown_groups_def)
  next
    case False
    with Cons.prems(1) obtain ps where "check_nodes s ns (uses, ps) = Some (u, parents')"
      by (auto simp: Let_def split: option.splits if_splits)
    from Cons.IH [OF this Cons.prems(2)] False show ?thesis by (simp add: shown_groups_def)
  qed
qed

section \<open>The walk reads a forest\<close>

definition marked :: "DockNode list \<Rightarrow> bool list \<Rightarrow> u64 set" where
  "marked ns vs = {dn_id (ns ! k) | k. k < length ns \<and> vs ! k}"

lemma marked_update:
  assumes "distinct (map dn_id ns)" "k < length ns" "length vs = length ns"
  shows "marked ns (vs[k := True]) = insert (dn_id (ns ! k)) (marked ns vs)"
  using assms by (auto simp: marked_def nth_list_update)

lemma marked_not:
  assumes "distinct (map dn_id ns)" "k < length ns" "\<not> vs ! k"
  shows "dn_id (ns ! k) \<notin> marked ns vs"
proof
  assume "dn_id (ns ! k) \<in> marked ns vs"
  then obtain j where j: "j < length ns" "vs ! j" "dn_id (ns ! j) = dn_id (ns ! k)"
    by (auto simp: marked_def)
  then have "j = k" using assms(1,2) nth_eq_iff_index_eq [of "map dn_id ns" j k] by simp
  with j assms(3) show False by simp
qed

lemma visit_reads_forest:
  "visit_nodes s pending visited = Some final \<Longrightarrow> length visited = length (ly_nodes s) \<Longrightarrow>
    distinct (map dn_id (ly_nodes s)) \<Longrightarrow>
    length final = length (ly_nodes s) \<and>
    (\<exists>ts. map tree_root ts = pending \<and> list_all (tree_matches (ly_nodes s)) ts
      \<and> distinct (concat (map tree_nodes ts))
      \<and> set (concat (map tree_nodes ts)) \<inter> marked (ly_nodes s) visited = {}
      \<and> marked (ly_nodes s) final = marked (ly_nodes s) visited \<union> set (concat (map tree_nodes ts)))"
proof (induction s pending visited rule: visit_nodes.induct)
  case (1 s visited)
  then show ?case by (intro conjI exI [of _ "[]"]) auto
next
  case (2 s i pending visited)
  let ?ns = "ly_nodes s"
  from "2.prems"(1) obtain k where k: "node_index s i = Some k" and v: "\<not> visited ! k"
    by (auto split: option.splits if_splits)
  have kn: "k < length ?ns" "dn_id (?ns ! k) = i"
    using find_indexD [of _ ?ns k] k by (auto simp: node_index_def)
  let ?node = "?ns ! k" and ?visited = "visited[k := True]"
  let ?pending = "if dn_kind ?node = Node_split then dn_second ?node # dn_first ?node # pending else pending"
  have run: "visit_nodes s ?pending ?visited = Some final"
    using "2.prems" k v kn by (simp add: Let_def split: if_splits)
  have mark: "marked ?ns ?visited = insert i (marked ?ns visited)" "i \<notin> marked ?ns visited"
    using marked_update [OF "2.prems"(3) kn(1), of visited] marked_not [OF "2.prems"(3) kn(1) v]
      "2.prems"(2) kn(2) by auto
  from "2.IH" [OF k _ refl run] "2.prems"(2,3) v kn(1)
  obtain ts where len: "length final = length ?ns" and
    ts: "map tree_root ts = ?pending" "list_all (tree_matches ?ns) ts"
      "distinct (concat (map tree_nodes ts))"
      "set (concat (map tree_nodes ts)) \<inter> marked ?ns ?visited = {}"
      "marked ?ns final = marked ?ns ?visited \<union> set (concat (map tree_nodes ts))"
    by auto
  have mem: "?node \<in> set ?ns" using kn(1) by simp
  have "\<exists>us. map tree_root us = i # pending \<and> list_all (tree_matches ?ns) us
      \<and> distinct (concat (map tree_nodes us))
      \<and> set (concat (map tree_nodes us)) = insert i (set (concat (map tree_nodes ts)))"
  proof (cases "dn_kind ?node = Node_split")
    case True
    with ts(1) obtain r l ws where us: "ts = r # l # ws" "tree_root r = dn_second ?node"
      "tree_root l = dn_first ?node" "map tree_root ws = pending"
      by (auto simp: map_eq_Cons_conv)
    show ?thesis
      by (rule exI [of _ "Dock_branch i l r # ws"])
        (use True ts mark mem kn(2) us in auto)
  next
    case False
    then have "dn_kind ?node = Node_group" by (cases "dn_kind ?node") auto
    then show ?thesis
      by (intro exI [of _ "Dock_leaf i (dn_group ?node) # ts"])
        (use False ts mark mem kn(2) in auto)
  qed
  then obtain us where us: "map tree_root us = i # pending" "list_all (tree_matches ?ns) us"
    "distinct (concat (map tree_nodes us))"
    "set (concat (map tree_nodes us)) = insert i (set (concat (map tree_nodes ts)))" by (elim exE conjE) rule
  have "set (concat (map tree_nodes us)) \<inter> marked ?ns visited = {}"
    "marked ?ns final = marked ?ns visited \<union> set (concat (map tree_nodes us))"
    unfolding us(4) using ts(4,5) mark by auto
  with len us(1-3) show ?case by (intro conjI exI [of _ us])
qed

lemma distinct_concat_rev: "distinct (concat (rev xs)) \<longleftrightarrow> distinct (concat xs)"
  by (induction xs) auto

lemma collect_roots_Some:
  "collect_roots s hs roots = Some rs \<Longrightarrow>
    rs = roots @ map fh_root hs \<and> (\<forall>h \<in> set hs. DockFloatingPlacement_IsValid (fh_placement h))"
  by (induction s hs roots rule: collect_roots.induct) (auto split: if_splits)

text \<open>The groups of the trees are the groups that the visited nodes show.\<close>

definition node_group :: "DockNode list \<Rightarrow> u64 \<Rightarrow> u64 option" where
  "node_group ns i = (case find_key dn_id i ns of
     Some n \<Rightarrow> if dn_kind n = Node_group then Some (dn_group n) else None | None \<Rightarrow> None)"

lemma tree_groups_of_nodes:
  assumes "distinct (map dn_id ns)"
  shows "tree_matches ns t \<Longrightarrow> tree_groups t = List.map_filter (node_group ns) (tree_nodes t)"
  using find_key_unique [OF assms]
  by (induction t) (auto simp: List.map_filter_def node_group_def)

lemma forest_groups_of_nodes:
  assumes "distinct (map dn_id ns)"
  shows "list_all (tree_matches ns) ts \<Longrightarrow>
    concat (map tree_groups ts) = List.map_filter (node_group ns) (concat (map tree_nodes ts))"
  using tree_groups_of_nodes [OF assms] by (induction ts) (auto simp: List.map_filter_def)

lemma exactly_once_mset: "exactly_once xs ids \<Longrightarrow> distinct ids \<Longrightarrow> mset xs = mset ids"
  using set_eq_iff_mset_eq_distinct [of xs ids] by (simp add: exactly_once_def)

lemma mset_map_filter: "mset xs = mset ys \<Longrightarrow> mset (List.map_filter f xs) = mset (List.map_filter f ys)"
  by (simp add: List.map_filter_def)

lemma shown_groups_eq:
  assumes "distinct (map dn_id ns)"
  shows "shown_groups ns = List.map_filter (node_group ns) (map dn_id ns)"
proof -
  have "node_group ns (dn_id n) = (if dn_kind n = Node_group then Some (dn_group n) else None)"
    if "n \<in> set ns" for n
    using find_key_unique [OF assms that refl] by (simp add: node_group_def)
  then have "List.map_filter (node_group ns) (map dn_id ms) = shown_groups ms" if "set ms \<subseteq> set ns" for ms
    using that by (induction ms) (auto simp: List.map_filter_def shown_groups_def)
  then show ?thesis by simp
qed

section \<open>A validated layout\<close>

lemma valid_ids:
  assumes "DockLayoutModel_Validate s = Layout_success"
  shows "0 \<notin> set (map dp_id (ly_panels s)) \<and> distinct (map dp_id (ly_panels s))
    \<and> 0 \<notin> set (map dg_id (ly_groups s)) \<and> distinct (map dg_id (ly_groups s))
    \<and> 0 \<notin> set (map dn_id (ly_nodes s)) \<and> distinct (map dn_id (ly_nodes s))
    \<and> distinct (map fh_id (ly_floating_hosts s))"
  using assms by (auto simp: DockLayoutModel_Validate_def has_duplicate_iff split: if_splits)

lemma check_errors:
  "check_group_panels s role ps uses \<noteq> Inl Layout_success"
  "check_groups s gs uses \<noteq> Inl Layout_success"
proof -
  show a: "check_group_panels s role ps uses \<noteq> Inl Layout_success" for role ps uses
    by (induction ps arbitrary: uses) (auto split: option.splits)
  show "check_groups s gs uses \<noteq> Inl Layout_success"
    using a by (induction gs arbitrary: uses) (auto split: sum.splits)
qed

lemma valid_uses:
  assumes "DockLayoutModel_Validate s = Layout_success"
  shows "\<exists>uses0 uses. check_groups s (ly_groups s) (replicate (length (ly_panels s)) 0) = Inr uses0
      \<and> check_auto_hide s (ly_auto_hide s) uses0 = Some uses \<and> \<not> any_not_one uses
      \<and> (case ly_active_panel s of None \<Rightarrow> True | Some a \<Rightarrow> panel_index s a \<noteq> None)"
proof -
  obtain uses0 where g: "check_groups s (ly_groups s) (replicate (length (ly_panels s)) 0) = Inr uses0"
    using assms check_errors(2) [of s "ly_groups s"]
    by (cases "check_groups s (ly_groups s) (replicate (length (ly_panels s)) 0)")
      (auto simp: DockLayoutModel_Validate_def split: if_splits)
  obtain uses where a: "check_auto_hide s (ly_auto_hide s) uses0 = Some uses"
    using assms g by (cases "check_auto_hide s (ly_auto_hide s) uses0")
      (auto simp: DockLayoutModel_Validate_def split: if_splits)
  show ?thesis
    using assms g a by (auto simp: DockLayoutModel_Validate_def split: if_splits option.split)
qed

lemma valid_walk:
  assumes "DockLayoutModel_Validate s = Layout_success"
  shows "\<exists>group_uses parents visited. check_nodes s (ly_nodes s) (replicate (length (ly_groups s)) 0,
        replicate (length (ly_nodes s)) 0) = Some (group_uses, parents) \<and> \<not> any_not_one group_uses
      \<and> visit_nodes s (rev (ly_main_root s # map fh_root (ly_floating_hosts s)))
          (replicate (length (ly_nodes s)) False) = Some visited \<and> False \<notin> set visited"
proof -
  let ?check = "check_nodes s (ly_nodes s) (replicate (length (ly_groups s)) 0,
        replicate (length (ly_nodes s)) 0)"
  let ?visit = "\<lambda>roots. visit_nodes s (rev roots) (replicate (length (ly_nodes s)) False)"
  obtain uses0 uses where u: "check_groups s (ly_groups s) (replicate (length (ly_panels s)) 0) = Inr uses0"
    "check_auto_hide s (ly_auto_hide s) uses0 = Some uses"
    using valid_uses [OF assms] by blast
  obtain gu parents where c: "?check = Some (gu, parents)"
    using assms u by (cases ?check) (auto simp: DockLayoutModel_Validate_def split: if_splits)
  obtain roots where r: "collect_roots s (ly_floating_hosts s) [ly_main_root s] = Some roots"
    using assms u c by (cases "collect_roots s (ly_floating_hosts s) [ly_main_root s]")
      (auto simp: DockLayoutModel_Validate_def split: if_splits)
  obtain ps where o: "own_roots s roots parents = Some ps"
    using assms u c r by (cases "own_roots s roots parents")
      (auto simp: DockLayoutModel_Validate_def split: if_splits)
  obtain visited where v: "?visit roots = Some visited"
    using assms u c r o by (cases "?visit roots")
      (auto simp: DockLayoutModel_Validate_def split: if_splits)
  have "roots = ly_main_root s # map fh_root (ly_floating_hosts s)" using collect_roots_Some [OF r] by simp
  then show ?thesis using assms u c r o v
    by (auto simp: DockLayoutModel_Validate_def split: if_splits)
qed

lemma valid_forest:
  assumes "DockLayoutModel_Validate s = Layout_success"
  shows "\<exists>ts. layout_forest s ts"
proof -
  let ?ns = "ly_nodes s"
  have ids: "distinct (map dn_id ?ns)" "distinct (map dg_id (ly_groups s))" using valid_ids [OF assms] by auto
  obtain gu parents visited where c: "check_nodes s ?ns (replicate (length (ly_groups s)) 0,
        replicate (length ?ns) 0) = Some (gu, parents)" "\<not> any_not_one gu"
    and v: "visit_nodes s (rev (ly_main_root s # map fh_root (ly_floating_hosts s)))
          (replicate (length ?ns) False) = Some visited" "False \<notin> set visited"
    using valid_walk [OF assms] by blast
  from visit_reads_forest [OF v(1) _ ids(1)] obtain us where len: "length visited = length ?ns"
    and us: "map tree_root us = rev (ly_main_root s # map fh_root (ly_floating_hosts s))"
      "list_all (tree_matches ?ns) us" "distinct (concat (map tree_nodes us))"
      "marked ?ns visited = marked ?ns (replicate (length ?ns) False) \<union> set (concat (map tree_nodes us))"
    by auto
  have "visited ! k" if "k < length ?ns" for k
    using v(2) len that nth_mem [of k visited] by (cases "visited ! k") auto
  then have "marked ?ns visited = set (map dn_id ?ns)" by (force simp: marked_def in_set_conv_nth)
  moreover have "marked ?ns (replicate (length ?ns) False) = {}" by (auto simp: marked_def)
  ultimately have nodes: "set (concat (map tree_nodes us)) = set (map dn_id ?ns)" using us(4) by simp
  let ?ts = "rev us"
  have once: "exactly_once (concat (map tree_nodes ?ts)) (map dn_id ?ns)"
    using nodes us(3) by (simp add: exactly_once_def rev_map [symmetric] distinct_concat_rev)
  have "uses_of (map dg_id (ly_groups s)) (rev (shown_groups ?ns) @ []) gu"
    using uses_of_Nil [of "map dg_id (ly_groups s)"]
    by (intro check_nodes_uses [OF ids(2) c(1)]) simp
  then have shown: "exactly_once (rev (shown_groups ?ns)) (map dg_id (ly_groups s))"
    using uses_of_all c(2) by simp
  have match: "list_all (tree_matches ?ns) ?ts" using us(2) by (simp add: list_all_iff)
  have "mset (concat (map tree_groups ?ts)) = mset (shown_groups ?ns)"
    using forest_groups_of_nodes [OF ids(1) match] shown_groups_eq [OF ids(1)]
      mset_map_filter [OF exactly_once_mset [OF once ids(1)]] by simp
  then have "exactly_once (concat (map tree_groups ?ts)) (map dg_id (ly_groups s))"
    using shown mset_eq_setD mset_eq_imp_distinct_iff
    by (metis exactly_once_def distinct_rev set_rev)
  moreover have "map tree_root ?ts = ly_main_root s # map fh_root (ly_floating_hosts s)"
    using us(1) by (metis rev_map rev_rev_ident)
  ultimately show ?thesis using match once
    unfolding layout_forest_def by (intro exI [of _ ?ts] conjI)
qed

lemma valid_panels:
  assumes "DockLayoutModel_Validate s = Layout_success"
  shows "exactly_once (placed_panels s) (map dp_id (ly_panels s)) \<and> roles_match s \<and> selections_ok s"
proof -
  have ids: "distinct (map dp_id (ly_panels s))" using valid_ids [OF assms] by auto
  obtain uses0 uses where u: "check_groups s (ly_groups s) (replicate (length (ly_panels s)) 0) = Inr uses0"
    "check_auto_hide s (ly_auto_hide s) uses0 = Some uses" "\<not> any_not_one uses"
    "case ly_active_panel s of None \<Rightarrow> True | Some a \<Rightarrow> panel_index s a \<noteq> None"
    using valid_uses [OF assms] by blast
  have "uses_of (map dp_id (ly_panels s)) [] (replicate (length (ly_panels s)) 0)"
    using uses_of_Nil [of "map dp_id (ly_panels s)"] by simp
  note g = check_groups_uses [OF ids u(1) this]
  note a = check_auto_hide_uses [OF ids u(2) conjunct1 [OF g]]
  have "exactly_once (rev (map ah_panel (ly_auto_hide s)) @ rev (concat (map dg_panels (ly_groups s))) @ [])
      (map dp_id (ly_panels s))"
    using uses_of_all [OF conjunct1 [OF a] u(3)] .
  then have "exactly_once (placed_panels s) (map dp_id (ly_panels s))"
    by (auto simp: exactly_once_def placed_panels_def)
  moreover have "roles_match s" using conjunct2 [OF g] conjunct2 [OF a] by (auto simp: roles_match_def)
  moreover have "selections_ok s" using conjunct2 [OF g] u(4)
    by (auto simp: selections_ok_def panel_index_def find_index_None split: option.splits)
  ultimately show ?thesis by blast
qed

end
