(* ===== verification/Docking_Model.thy ===== *)
theory Docking_Model
  imports Docking_Validity
begin

text \<open>
  The docking model as a machine: the invariant that every operation keeps, the revision contract of
  the propose/commit protocol, and what a proposal does to the panels.
\<close>

section \<open>Invariant\<close>

definition layout_ok :: "DockLayoutSnapshot \<Rightarrow> bool" where
  "layout_ok s \<longleftrightarrow> ly_main_root s \<noteq> 0
    \<and> 0 \<notin> set (map dp_id (ly_panels s)) \<and> distinct (map dp_id (ly_panels s))
    \<and> distinct (map dg_id (ly_groups s)) \<and> distinct (map dn_id (ly_nodes s))
    \<and> (\<exists>ts. layout_forest s ts)
    \<and> exactly_once (placed_panels s) (map dp_id (ly_panels s)) \<and> roles_match s \<and> selections_ok s"

lemma valid_layout_ok: "DockLayoutModel_Validate s = Layout_success \<Longrightarrow> layout_ok s"
  using valid_ids [of s] valid_forest [of s] valid_panels [of s]
  by (simp add: layout_ok_def) (simp add: DockLayoutModel_Validate_def split: if_splits)

lemma exactly_once_perm: "exactly_once xs ids \<Longrightarrow> mset xs = mset ys \<Longrightarrow> exactly_once ys ids"
  unfolding exactly_once_def by (metis mset_eq_imp_distinct_iff mset_eq_setD)

lemma mset_insert_at: "mset (insert_at k x xs) = add_mset x (mset xs)"
proof -
  have "mset (take k xs) + mset (drop k xs) = mset xs" by (metis append_take_drop_id mset_append)
  then show ?thesis by (simp add: insert_at_def)
qed

lemma insert_panel_simps [simp]:
  "dg_id (insert_panel i k g) = dg_id g" "dg_role (insert_panel i k g) = dg_role g"
  "dg_active (insert_panel i k g) = Some i" "mset (dg_panels (insert_panel i k g)) = add_mset i (mset (dg_panels g))"
  "set (dg_panels (insert_panel i k g)) = insert i (set (dg_panels g))"
  by (simp_all add: insert_panel_def Let_def mset_insert_at)

lemma update_group_simps [simp]:
  "ly_panels (update_group i f s) = ly_panels s" "ly_nodes (update_group i f s) = ly_nodes s"
  "ly_main_root (update_group i f s) = ly_main_root s"
  "ly_floating_hosts (update_group i f s) = ly_floating_hosts s"
  "ly_auto_hide (update_group i f s) = ly_auto_hide s"
  "ly_active_panel (update_group i f s) = ly_active_panel s"
  by (simp_all add: update_group_def split: option.splits)

lemma update_group_ids:
  "(\<And>g. dg_id (f g) = dg_id g) \<Longrightarrow> map dg_id (ly_groups (update_group i f s)) = map dg_id (ly_groups s)"
  by (simp add: update_group_def map_update_at split: option.split)

lemma find_group_index:
  assumes "FindGroupIn s i = Some g"
  shows "\<exists>k < length (ly_groups s). ly_groups s ! k = g \<and> dg_id g = i
    \<and> (\<forall>f. ly_groups (update_group i f s) = update_at k f (ly_groups s))"
proof -
  obtain k where k: "find_index (\<lambda>x. dg_id x = i) (ly_groups s) = Some k" "ly_groups s ! k = g"
    using assms by (auto simp: FindGroupIn_def find_key_find_index)
  then show ?thesis using find_indexD [OF k(1)] by (auto simp: update_group_def)
qed

lemma concat_update_panels:
  assumes "k < length gs"
  shows "mset (concat (map dg_panels (update_at k (insert_panel i idx) gs))) =
    add_mset i (mset (concat (map dg_panels gs)))"
proof -
  have upd: "update_at k (insert_panel i idx) gs = take k gs @ insert_panel i idx (gs ! k) # drop (Suc k) gs"
    using assms by (simp add: update_at_def upd_conv_take_nth_drop)
  have "mset (concat (map dg_panels gs)) =
      mset (concat (map dg_panels (take k gs @ gs ! k # drop (Suc k) gs)))"
    using assms by (simp add: id_take_nth_drop [symmetric])
  then show ?thesis by (simp add: upd)
qed

lemma panels_of_placed:
  "g \<in> set (ly_groups s) \<Longrightarrow> p \<in> set (dg_panels g) \<Longrightarrow> p \<in> set (placed_panels s)"
  "e \<in> set (ly_auto_hide s) \<Longrightarrow> ah_panel e \<in> set (placed_panels s)"
  by (auto simp: placed_panels_def)

lemma layout_fail_state [simp]: "snd (layout_fail st w) = w"
  by (simp add: layout_fail_def)

lemma layout_success_state [simp]: "snd (DockLayoutModel_Success w) = w"
  by (simp add: DockLayoutModel_Success_def)

lemma install_simps [simp]:
  "lm_state (install_state s w) = s" "lm_revision (install_state s w) = lm_revision w + 1"
  by (simp_all add: install_state_def)

lemma add_panel_cases:
  assumes "\<And>st. DockLayoutModel_AddPanel panel gid index w = layout_fail st w \<Longrightarrow> P"
    and "\<And>g. dp_id panel \<noteq> 0 \<Longrightarrow> FindPanelIn (lm_state w) (dp_id panel) = None \<Longrightarrow>
      FindGroupIn (lm_state w) gid = Some g \<Longrightarrow> dg_role g = RoleFor (dp_role panel) \<Longrightarrow>
      DockLayoutModel_AddPanel panel gid index w = DockLayoutModel_Success (install_state
        ((update_group gid (insert_panel (dp_id panel) index)
          (lm_state w\<lparr>ly_panels := ly_panels (lm_state w) @ [panel]\<rparr>))\<lparr>ly_active_panel := Some (dp_id panel)\<rparr>) w)
      \<Longrightarrow> P"
  shows P
proof (cases "dp_id panel = 0 \<or> dp_title panel = [] \<or> FindPanelIn (lm_state w) (dp_id panel) \<noteq> None")
  case True
  then show P by (intro assms(1) [of "if dp_id panel = 0 \<or> dp_title panel = []
      then Layout_invalid_argument else Layout_duplicate_id"])
    (auto simp: DockLayoutModel_AddPanel_def)
next
  case early: False
  show P
  proof (cases "FindGroupIn (lm_state w) gid")
    case None
    with early show P by (intro assms(1)) (simp add: DockLayoutModel_AddPanel_def)
  next
    case (Some g)
    show P
    proof (cases "dg_role g = RoleFor (dp_role panel)")
      case True
      with early Some show P by (intro assms(2)) (simp_all add: DockLayoutModel_AddPanel_def Let_def)
    next
      case False
      with early Some show P by (intro assms(1)) (simp add: DockLayoutModel_AddPanel_def)
    qed
  qed
qed

lemma layout_ok_add_panel:
  assumes ok: "layout_ok (lm_state w)"
  shows "layout_ok (lm_state (snd (DockLayoutModel_AddPanel panel gid index w)))"
proof -
  let ?s = "lm_state w"
  show ?thesis
  proof (rule add_panel_cases [of panel gid index w])
    fix st assume "DockLayoutModel_AddPanel panel gid index w = layout_fail st w"
    with ok show ?thesis by simp
  next
    fix g
    assume 2: "dp_id panel \<noteq> 0" "FindPanelIn ?s (dp_id panel) = None" "FindGroupIn ?s gid = Some g"
      "dg_role g = RoleFor (dp_role panel)"
      "DockLayoutModel_AddPanel panel gid index w = DockLayoutModel_Success (install_state
        ((update_group gid (insert_panel (dp_id panel) index)
          (?s\<lparr>ly_panels := ly_panels ?s @ [panel]\<rparr>))\<lparr>ly_active_panel := Some (dp_id panel)\<rparr>) w)"
    let ?i = "dp_id panel" and ?f = "insert_panel (dp_id panel) index"
    let ?s1 = "?s\<lparr>ly_panels := ly_panels ?s @ [panel]\<rparr>"
    let ?t = "(update_group gid ?f ?s1)\<lparr>ly_active_panel := Some ?i\<rparr>"
    obtain k where k: "k < length (ly_groups ?s)" "ly_groups ?s ! k = g"
      "ly_groups (update_group gid ?f ?s1) = update_at k ?f (ly_groups ?s)"
      using find_group_index [of ?s1 gid g] 2(3) by (auto simp: FindGroupIn_def)
    have fresh: "?i \<notin> dp_id ` set (ly_panels ?s)" using 2(2) by (simp add: FindPanelIn_def find_key_None)
    have placed: "exactly_once (placed_panels ?s) (map dp_id (ly_panels ?s))"
      using ok by (simp add: layout_ok_def)
    then have unplaced: "?i \<notin> set (placed_panels ?s)" using fresh by (auto simp: exactly_once_def)
    have "exactly_once (?i # placed_panels ?s) (map dp_id (ly_panels ?t))"
      using placed unplaced by (auto simp: exactly_once_def)
    moreover have "mset (?i # placed_panels ?s) = mset (placed_panels ?t)"
      using concat_update_panels [OF k(1)] by (simp add: placed_panels_def k(3))
    ultimately have once: "exactly_once (placed_panels ?t) (map dp_id (ly_panels ?t))"
      by (rule exactly_once_perm)
    have mem: "h \<in> set (ly_groups ?s) \<or> h = ?f g" if "h \<in> set (ly_groups ?t)" for h
      using that k set_update_atD [of h k ?f "ly_groups ?s"] by auto
    have g: "g \<in> set (ly_groups ?s)" using k by auto
    have roles: "roles_match ?s" and sel: "selections_ok ?s" using ok by (auto simp: layout_ok_def)
    have new_roles: "roles_match ?t"
      unfolding roles_match_def
    proof (intro conjI ballI impI)
      fix h p assume h: "h \<in> set (ly_groups ?t)" "p \<in> set (ly_panels ?t)" "dp_id p \<in> set (dg_panels h)"
      show "RoleFor (dp_role p) = dg_role h"
        using mem [OF h(1)]
      proof
        assume "h \<in> set (ly_groups ?s)"
        then show ?thesis using h roles unplaced panels_of_placed(1) [of h ?s]
          by (auto simp: roles_match_def)
      next
        assume "h = ?f g"
        moreover have "dp_id q \<noteq> ?i" if "q \<in> set (ly_panels ?s)" for q
          using that fresh by (metis image_eqI)
        ultimately show ?thesis using h roles 2(4) g
          by (auto simp: roles_match_def)
      qed
    next
      fix e p assume "e \<in> set (ly_auto_hide ?t)" "p \<in> set (ly_panels ?t)" "dp_id p = ah_panel e"
      then show "dp_role p = Panel_tool"
        using roles unplaced panels_of_placed(2) [of e ?s] by (auto simp: roles_match_def)
    qed
    have sel_groups: "case dg_active h of None \<Rightarrow> dg_panels h = [] | Some a \<Rightarrow> a \<in> set (dg_panels h)"
      if "h \<in> set (ly_groups ?t)" for h
      using mem [OF that] sel unfolding selections_ok_def by (elim disjE) simp_all
    have "selections_ok ?t" using sel_groups by (simp add: selections_ok_def)
    moreover have "layout_forest ?t ts = layout_forest ?s ts" for ts
      using update_group_ids [of ?f gid ?s1] by (simp add: layout_forest_def)
    moreover have "map dg_id (ly_groups ?t) = map dg_id (ly_groups ?s)"
      using update_group_ids [of ?f gid ?s1] by simp
    ultimately have "layout_ok ?t" using ok once fresh 2(1) new_roles by (simp add: layout_ok_def)
    with 2(5) show ?thesis by simp
  qed
qed

lemma layout_ok_new:
  assumes "DockLayoutModel_new g n r = Some w"
  shows "layout_ok (lm_state w)"
proof -
  have "layout_forest (lm_state w) [Dock_leaf n g]"
    using assms by (auto simp: DockLayoutModel_new_def layout_forest_def exactly_once_def
        new_group_leaf_def split: if_splits)
  then show ?thesis using assms
    by (auto simp: DockLayoutModel_new_def layout_ok_def exactly_once_def placed_panels_def
        roles_match_def selections_ok_def split: if_splits)
qed

section \<open>The machine\<close>

datatype layout_op =
    Lo_AddDockedGroup u64 u64 DockGroupRole u64 u64 DockEdge fp
  | Lo_AddPanel DockPanel u64 "nat option"
  | Lo_Commit DockLayoutTransaction
  | Lo_Replace DockLayoutSnapshot

fun layout_step :: "DockLayoutModel \<Rightarrow> layout_op \<Rightarrow> DockLayoutResult \<times> DockLayoutModel" where
  "layout_step w (Lo_AddDockedGroup g n r t sp e ratio) = DockLayoutModel_AddDockedGroup g n r t sp e ratio w"
| "layout_step w (Lo_AddPanel p g k) = DockLayoutModel_AddPanel p g k w"
| "layout_step w (Lo_Commit tx) = DockLayoutModel_Commit tx w"
| "layout_step w (Lo_Replace s) = DockLayoutModel_Replace s w"

lemmas layout_op_defs =
  DockLayoutModel_AddDockedGroup_def DockLayoutModel_AddPanel_def DockLayoutModel_Commit_def
  DockLayoutModel_Replace_def DockLayoutModel_Success_def layout_fail_def install_state_def

lemma layout_ok_step: "layout_ok (lm_state w) \<Longrightarrow> layout_ok (lm_state (snd (layout_step w x)))"
proof (cases x)
  case (Lo_AddPanel p g k)
  assume "layout_ok (lm_state w)"
  then show ?thesis using Lo_AddPanel layout_ok_add_panel by simp
qed (auto simp: layout_op_defs Let_def intro: valid_layout_ok split: option.splits)

lemma layout_step_revision:
  "lm_revision (snd (layout_step w x)) = lm_revision w \<and> lm_state (snd (layout_step w x)) = lm_state w
   \<or> lm_revision (snd (layout_step w x)) = lm_revision w + 1
   \<or> lm_revision (snd (layout_step w x)) = lm_revision w + 2"
  by (cases x) (auto simp: layout_op_defs Let_def split: option.splits)

interpretation layout_machine: revisioned layout_step "\<lambda>w. layout_ok (lm_state w)" lm_revision lm_state
  by unfold_locales (rule layout_ok_step, assumption, rule layout_step_revision)

section \<open>What a mutation does\<close>

lemma detach_simps [simp]:
  "ly_panels (DetachPanel s i) = ly_panels s" "ly_nodes (DetachPanel s i) = ly_nodes s"
  "ly_main_root (DetachPanel s i) = ly_main_root s"
  "ly_floating_hosts (DetachPanel s i) = ly_floating_hosts s"
  "ly_active_panel (DetachPanel s i) = ly_active_panel s"
  by (simp_all add: DetachPanel_def)

lemma replace_reference_simps:
  assumes "ReplaceNodeReference s old new = Some t"
  shows "ly_panels t = ly_panels s" "ly_groups t = ly_groups s" "ly_auto_hide t = ly_auto_hide s"
  using assms by (auto simp: ReplaceNodeReference_def split: if_splits option.splits)

lemma find_group_detach:
  "FindGroupIn s g = Some x \<Longrightarrow> FindGroupIn (DetachPanel s i) g = Some (detach_from_group i x)"
proof -
  have id: "dg_id (detach_from_group i y) = dg_id y" for y
    by (simp add: detach_from_group_def SelectFallback_def Let_def)
  have "find_key dg_id g (map (detach_from_group i) ys) =
      map_option (detach_from_group i) (find_key dg_id g ys)" for ys
    by (induction ys) (auto simp: id)
  then show "FindGroupIn s g = Some x \<Longrightarrow> ?thesis" by (simp add: FindGroupIn_def DetachPanel_def)
qed

text \<open>Where a panel is after a mutation.\<close>

definition requested_place :: "DockMutation \<Rightarrow> DockLayoutSnapshot \<Rightarrow> DockLayoutSnapshot \<Rightarrow> bool" where
  "requested_place m s s' \<longleftrightarrow>
    (case mu_kind m of
       Mutation_activate \<Rightarrow> map dg_panels (ly_groups s') = map dg_panels (ly_groups s)
         \<and> ly_auto_hide s' = ly_auto_hide s
     | Mutation_close_panel \<Rightarrow> mu_panel m \<notin> dp_id ` set (ly_panels s')
     | Mutation_auto_hide \<Rightarrow> (\<exists>e \<in> set (ly_auto_hide s'). ah_panel e = mu_panel m \<and> ah_edge e = mu_edge m)
     | Mutation_move_to_group \<Rightarrow> (\<exists>g \<in> set (ly_groups s'). dg_id g = mu_target_group m
         \<and> mu_panel m \<in> set (dg_panels g) \<and> dg_active g = Some (mu_panel m))
     | _ \<Rightarrow> (\<exists>g \<in> set (ly_groups s'). dg_id g = mu_new_group m \<and> dg_panels g = [mu_panel m]))"

lemma apply_success:
  assumes "ApplyMutation s m = (Layout_success, s')"
  shows "ly_panels s' = (if mu_kind m = Mutation_close_panel
      then filter (\<lambda>p. dp_id p \<noteq> mu_panel m) (ly_panels s) else ly_panels s)"
    and "mu_kind m \<noteq> Mutation_close_panel \<longrightarrow> ly_active_panel s' = Some (mu_panel m)"
    and "requested_place m s s'"
proof -
  obtain p where p: "FindPanelIn s (mu_panel m) = Some p"
    using assms by (auto simp: ApplyMutation_def split: option.splits)
  then have i: "dp_id p = mu_panel m" by (auto simp: FindPanelIn_def dest: find_key_Some)
  note defs = ApplyMutation_def p option.case Let_def i
  have "ly_panels s' = (if mu_kind m = Mutation_close_panel
        then filter (\<lambda>p. dp_id p \<noteq> mu_panel m) (ly_panels s) else ly_panels s)
    \<and> (mu_kind m \<noteq> Mutation_close_panel \<longrightarrow> ly_active_panel s' = Some (mu_panel m))
    \<and> requested_place m s s'"
  proof (cases "mu_kind m")
    case Mutation_activate
    with assms show ?thesis by (auto simp: defs requested_place_def)
  next
    case Mutation_move_to_group
    with assms obtain g where g: "FindGroupIn s (mu_target_group m) = Some g"
      "s' = (update_group (mu_target_group m) (insert_panel (mu_panel m) (mu_target_index m))
        (DetachPanel s (mu_panel m)))\<lparr>ly_active_panel := Some (mu_panel m)\<rparr>"
      by (auto simp: defs split: option.splits if_splits)
    let ?f = "insert_panel (mu_panel m) (mu_target_index m)"
    from find_group_index [OF find_group_detach [OF g(1), of "mu_panel m"]] obtain k where
      k: "k < length (ly_groups (DetachPanel s (mu_panel m)))"
        "dg_id (ly_groups (DetachPanel s (mu_panel m)) ! k) = mu_target_group m"
        "ly_groups s' = update_at k ?f (ly_groups (DetachPanel s (mu_panel m)))"
      using g(2) by auto
    let ?g = "?f (ly_groups (DetachPanel s (mu_panel m)) ! k)"
    have "?g \<in> set (ly_groups s')" using k by (simp add: update_at_def set_update_memI)
    moreover have "dg_id ?g = mu_target_group m \<and> mu_panel m \<in> set (dg_panels ?g)
        \<and> dg_active ?g = Some (mu_panel m)" using k(2) by simp
    ultimately have "requested_place m s s'"
      unfolding requested_place_def Mutation_move_to_group DockMutationKind.case by (rule bexI [rotated])
    then show ?thesis using Mutation_move_to_group g(2) by simp
  next
    case Mutation_split_to_group
    with assms show ?thesis
      by (auto simp: defs requested_place_def replace_reference_simps
          split: option.splits if_splits dest: replace_reference_simps)
  next
    case Mutation_float_panel
    with assms show ?thesis by (auto simp: defs requested_place_def split: if_splits)
  next
    case Mutation_auto_hide
    with assms show ?thesis by (auto simp: defs requested_place_def split: if_splits)
  next
    case Mutation_close_panel
    with assms show ?thesis by (auto simp: defs requested_place_def split: if_splits)
  qed
  then show "ly_panels s' = (if mu_kind m = Mutation_close_panel
      then filter (\<lambda>p. dp_id p \<noteq> mu_panel m) (ly_panels s) else ly_panels s)"
    "mu_kind m \<noteq> Mutation_close_panel \<longrightarrow> ly_active_panel s' = Some (mu_panel m)"
    "requested_place m s s'" by blast+
qed

lemma propose_success:
  assumes "DockLayoutModel_Propose m w = (Layout_success, Some tx)"
  shows "ApplyMutation (lm_state w) m = (Layout_success, tx_proposed tx)
    \<and> DockLayoutModel_Validate (tx_proposed tx) = Layout_success \<and> tx_source_revision tx = lm_revision w"
  using assms by (auto simp: DockLayoutModel_Propose_def Let_def split: prod.splits if_splits)

section \<open>Properties\<close>

text \<open>C1: The validator of docking layouts is sound.  Every snapshot that \<open>Validate\<close> accepts is a
  forest: its nodes are exactly, and each once, the nodes of binary trees rooted at the main root and
  at the roots of the floating hosts, whose leaves show every group exactly once; every panel is placed
  exactly once, in a group of its own role or, for tools, in the auto-hide lists; and every nonempty
  group has an active panel of its own.  So no panel is lost, shown twice or shown in a cycle.\<close>

theorem validated_layout_is_forest:
  assumes "DockLayoutModel_Validate s = Layout_success"
  shows "(\<exists>ts. map tree_root ts = ly_main_root s # map fh_root (ly_floating_hosts s)
      \<and> list_all (tree_matches (ly_nodes s)) ts
      \<and> exactly_once (concat (map tree_nodes ts)) (map dn_id (ly_nodes s))
      \<and> exactly_once (concat (map tree_groups ts)) (map dg_id (ly_groups s)))
    \<and> exactly_once (placed_panels s) (map dp_id (ly_panels s)) \<and> roles_match s \<and> selections_ok s"
  using valid_forest [OF assms] valid_panels [OF assms] by (simp add: layout_forest_def)

text \<open>A layout with two groups side by side, used by the concrete checks.\<close>

definition example_layout :: DockLayoutSnapshot where
  "example_layout = \<lparr>ly_main_root = 3,
     ly_panels = [\<lparr>dp_id = 10, dp_title = lit ''a'', dp_role = Panel_document, dp_closable = True\<rparr>,
       \<lparr>dp_id = 11, dp_title = lit ''b'', dp_role = Panel_tool, dp_closable = True\<rparr>],
     ly_groups = [\<lparr>dg_id = 1, dg_role = Group_document, dg_panels = [10], dg_active = Some 10\<rparr>,
       \<lparr>dg_id = 2, dg_role = Group_tool, dg_panels = [11], dg_active = Some 11\<rparr>],
     ly_nodes = [new_group_leaf 1 1, new_group_leaf 2 2, new_split 3 Edge_left 2 1 (Fin (1 / 4))],
     ly_floating_hosts = [], ly_auto_hide = [], ly_active_panel = Some 10\<rparr>"

definition example_model :: DockLayoutModel where
  "example_model = \<lparr>lm_state = example_layout, lm_revision = 1\<rparr>"

definition example_mutation :: DockMutation where
  "example_mutation = \<lparr>mu_kind = Mutation_float_panel, mu_panel = 11, mu_target_group = 0,
     mu_target_index = None, mu_edge = Edge_right, mu_new_group = 4, mu_new_group_node = 5,
     mu_new_split_node = 0, mu_new_floating_host = 1,
     mu_floating_placement = \<lparr>fl_x = Fin 80, fl_y = Fin 80, fl_width = Fin 480, fl_height = Fin 360,
       fl_monitor_key = []\<rparr>, mu_split_ratio = Fin (1 / 2)\<rparr>"

lemma example_layout_valid: "DockLayoutModel_Validate example_layout = Layout_success"
  by code_simp

lemma example_model_ok: "layout_ok (lm_state example_model)"
  using valid_layout_ok [OF example_layout_valid] by (simp add: example_model_def)

theorem validated_layout_is_forest_witness:
  "exactly_once [10, 11] (map dp_id (ly_panels example_layout))"
  using validated_layout_is_forest [OF example_layout_valid]
  by (simp add: placed_panels_def example_layout_def)

text \<open>C2: Every layout a client can reach is well formed.  From a newly constructed model, any
  sequence of adding groups, adding panels, committing transactions (also stale, forged or invalid
  ones) and replacing the whole layout keeps the forest, the single placement of every panel, the
  roles and the selections.\<close>

theorem docking_stays_consistent:
  assumes "DockLayoutModel_new root_group root_node role = Some w"
  shows "layout_ok (lm_state (run_ops layout_step w xs))"
  using layout_machine.run_inv [OF layout_ok_new [OF assms]] .

theorem docking_stays_consistent_witness:
  "layout_ok (lm_state (run_ops layout_step (the (DockLayoutModel_new 1 2 Group_document))
    [Lo_AddDockedGroup 3 4 Group_tool 1 5 Edge_left (Fin (1 / 4)),
     Lo_AddPanel \<lparr>dp_id = 11, dp_title = lit ''b'', dp_role = Panel_tool, dp_closable = True\<rparr> 3 None]))"
  by (rule docking_stays_consistent [of 1 2 Group_document]) (simp add: DockLayoutModel_new_def)

text \<open>C3: Transactions on the docking model are optimistic and exact.  A proposal taken on a
  well-formed model and committed after fewer than \<open>2 ^ 63\<close> other operations is rejected as stale,
  with the model untouched, if any of them changed the revision; otherwise the layout is still the one
  the proposal was computed from, the commit succeeds, installs exactly the result of applying the
  mutation to it and advances the revision by one.\<close>

theorem commit_is_exact_or_stale:
  assumes "layout_ok (lm_state w)" and "length xs < 2 ^ 63"
    and "DockLayoutModel_Propose m w = (Layout_success, Some tx)"
  shows "let w' = run_ops layout_step w xs in
    if lm_revision w' = lm_revision w
    then ApplyMutation (lm_state w') m = (Layout_success, tx_proposed tx)
      \<and> DockLayoutModel_Commit tx w' = ((Layout_success, ly_active_panel (tx_proposed tx)),
          \<lparr>lm_state = tx_proposed tx, lm_revision = lm_revision w + 1\<rparr>)
    else DockLayoutModel_Commit tx w' = ((Layout_stale_transaction, ly_active_panel (lm_state w')), w')"
proof (cases "lm_revision (run_ops layout_step w xs) = lm_revision w")
  case True
  with layout_machine.same_revision_same_view [OF assms(1,2)] propose_success [OF assms(3)]
  show ?thesis by (simp add: Let_def DockLayoutModel_Commit_def DockLayoutModel_Success_def
        install_state_def)
next
  case False
  with propose_success [OF assms(3)] show ?thesis
    by (simp add: Let_def DockLayoutModel_Commit_def layout_fail_def)
qed

theorem commit_is_exact_or_stale_witness:
  "fst (fst (DockLayoutModel_Commit (the (snd (DockLayoutModel_Propose example_mutation example_model)))
    example_model)) = Layout_success"
proof -
  let ?p = "DockLayoutModel_Propose example_mutation example_model"
  have "fst ?p = Layout_success" by code_simp
  moreover have "snd ?p \<noteq> None" by code_simp
  ultimately have "?p = (Layout_success, Some (the (snd ?p)))" by (cases ?p) auto
  from commit_is_exact_or_stale [OF example_model_ok _ this, of "[]"] show ?thesis by (simp add: Let_def)
qed

text \<open>C4: A proposal does what was asked and loses nothing.  Whenever \<open>Propose\<close> succeeds, the proposed
  layout has the same panels except a closed one, all of them placed exactly once; the panel of the
  mutation is where the mutation wants it (in the target group and active there, alone in the new group
  of a split or floating host, on the requested auto-hide edge, or gone after a close) and, unless it
  was closed, it is the active panel.\<close>

theorem proposal_places_panel:
  assumes "DockLayoutModel_Propose m w = (Layout_success, Some tx)"
  shows "ly_panels (tx_proposed tx) = (if mu_kind m = Mutation_close_panel
      then filter (\<lambda>p. dp_id p \<noteq> mu_panel m) (ly_panels (lm_state w)) else ly_panels (lm_state w))
    \<and> exactly_once (placed_panels (tx_proposed tx)) (map dp_id (ly_panels (tx_proposed tx)))
    \<and> requested_place m (lm_state w) (tx_proposed tx)
    \<and> (mu_kind m \<noteq> Mutation_close_panel \<longrightarrow> ly_active_panel (tx_proposed tx) = Some (mu_panel m))"
  using propose_success [OF assms] apply_success [of "lm_state w" m "tx_proposed tx"]
    valid_panels [of "tx_proposed tx"] by blast

theorem proposal_places_panel_witness:
  "ly_active_panel (tx_proposed (the (snd (DockLayoutModel_Propose example_mutation example_model))))
    = Some 11"
proof -
  let ?p = "DockLayoutModel_Propose example_mutation example_model"
  have "fst ?p = Layout_success" by code_simp
  moreover have "snd ?p \<noteq> None" by code_simp
  ultimately have "?p = (Layout_success, Some (the (snd ?p)))" by (cases ?p) auto
  from proposal_places_panel [OF this] show ?thesis by (simp add: example_mutation_def)
qed

lemma long_title_invalid:
  "p \<in> set (ly_panels s) \<Longrightarrow> length (dp_title p) > 4096 \<Longrightarrow> DockLayoutModel_Validate s \<noteq> Layout_success"
  by (auto simp: DockLayoutModel_Validate_def)

lemma add_panel_success:
  assumes "fst (fst (DockLayoutModel_AddPanel p g k w)) = Layout_success"
  shows "p \<in> set (ly_panels (lm_state (snd (DockLayoutModel_AddPanel p g k w))))"
  using assms
  by (auto simp: DockLayoutModel_AddPanel_def layout_fail_def DockLayoutModel_Success_def Let_def
      split: option.splits if_splits)

text \<open>\<open>AddPanel\<close> accepts panels that the validator refuses, because it does not check the bound
  of 4096 units on titles.  After a panel with a longer title was added successfully, the current
  layout is invalid and every later proposal is refused, whatever its kind and its panel, except one
  that closes that panel.\<close>

theorem oversized_title_blocks_proposals:
  assumes "length (dp_title p) > 4096"
    and "fst (fst (DockLayoutModel_AddPanel p g k w)) = Layout_success"
    and "\<not> (mu_kind m = Mutation_close_panel \<and> mu_panel m = dp_id p)"
  shows "let w' = snd (DockLayoutModel_AddPanel p g k w) in
    DockLayoutModel_Validate (lm_state w') \<noteq> Layout_success
    \<and> snd (DockLayoutModel_Propose m w') = None"
proof -
  let ?w = "snd (DockLayoutModel_AddPanel p g k w)"
  note mem = add_panel_success [OF assms(2)]
  have "snd (DockLayoutModel_Propose m ?w) = None"
  proof (cases "ApplyMutation (lm_state ?w) m")
    case (Pair st s')
    show ?thesis
    proof (cases "st = Layout_success")
      case True
      then have "p \<in> set (ly_panels s')" using apply_success(1) [of "lm_state ?w" m s'] Pair mem assms(3)
        by auto
      then show ?thesis using long_title_invalid [of p s'] assms(1) Pair True
        by (simp add: DockLayoutModel_Propose_def)
    next
      case False
      with Pair show ?thesis by (simp add: DockLayoutModel_Propose_def)
    qed
  qed
  with long_title_invalid [OF mem assms(1)] show ?thesis by (simp add: Let_def)
qed

theorem oversized_title_blocks_proposals_witness:
  "snd (DockLayoutModel_Propose example_mutation (snd (DockLayoutModel_AddPanel
    \<lparr>dp_id = 12, dp_title = replicate 4097 0, dp_role = Panel_tool, dp_closable = False\<rparr> 2 None
    example_model))) = None"
proof -
  let ?p = "\<lparr>dp_id = 12, dp_title = replicate 4097 0, dp_role = Panel_tool, dp_closable = False\<rparr>"
  have added: "fst (fst (DockLayoutModel_AddPanel ?p 2 None example_model)) = Layout_success"
    by (simp add: DockLayoutModel_AddPanel_def example_model_def example_layout_def FindPanelIn_def
        FindGroupIn_def RoleFor_def DockLayoutModel_Success_def Let_def)
  have long: "length (dp_title ?p) > 4096" by simp
  have other: "\<not> (mu_kind example_mutation = Mutation_close_panel \<and> mu_panel example_mutation = dp_id ?p)"
    by (simp add: example_mutation_def)
  show ?thesis using oversized_title_blocks_proposals [OF long added other]
    unfolding Let_def by (rule conjunct2)
qed

end
