(* ===== verification/Docking_Drag.thy ===== *)
theory Docking_Drag
  imports Docking_Model
begin

text \<open>
  Drag transactions (\<open>src/docking_drag.cpp\<close>, \<open>include/mwfl/docking_drag.h\<close>): hit testing of drop
  targets, and the session that tracks a target, holds one proposal and commits it with native
  adoption and rollback.

  The adopt and rollback handlers are application code that may change native state \<open>'w\<close> and the
  live layout model: each maps the snapshot it is given and both states to its outcome and the states
  it leaves.  A handler that reaches back into the session itself is outside the model.
\<close>

record DockPointDip =
  pt_x :: fp
  pt_y :: fp

record DockRectDip =
  rc_x :: fp
  rc_y :: fp
  rc_width :: fp
  rc_height :: fp

definition DockRectDip_IsValid :: "DockRectDip \<Rightarrow> bool" where
  "DockRectDip_IsValid r \<longleftrightarrow> isfinite (rc_x r) \<and> isfinite (rc_y r) \<and> isfinite (rc_width r)
    \<and> isfinite (rc_height r) \<and> fp_less (Fin 0) (rc_width r) \<and> fp_less (Fin 0) (rc_height r)
    \<and> fp_leq (rc_width r) (Fin 100000) \<and> fp_leq (rc_height r) (Fin 100000)"

definition DockRectDip_Contains :: "DockPointDip \<Rightarrow> DockRectDip \<Rightarrow> bool" where
  "DockRectDip_Contains p r \<longleftrightarrow> DockRectDip_IsValid r \<and> isfinite (pt_x p) \<and> isfinite (pt_y p)
    \<and> fp_leq (rc_x r) (pt_x p) \<and> fp_leq (rc_y r) (pt_y p)
    \<and> fp_less (pt_x p) (dbl_add (rc_x r) (rc_width r))
    \<and> fp_less (pt_y p) (dbl_add (rc_y r) (rc_height r))"

datatype DockTargetKind = Target_tab_group | Target_split | Target_auto_hide | Target_floating

record DockDropTarget =
  dt_id :: u64
  dt_kind :: DockTargetKind
  dt_bounds :: DockRectDip
  dt_group :: u64
  dt_edge :: DockEdge
  dt_priority :: int
  dt_enabled :: bool

section \<open>Hit testing\<close>

definition target_eligible :: "DockPointDip \<Rightarrow> DockDropTarget \<Rightarrow> bool" where
  "target_eligible p t \<longleftrightarrow> \<not> (\<not> dt_enabled t \<or> dt_id t = 0 \<or> \<not> DockRectDip_Contains p (dt_bounds t))
    \<and> \<not> ((dt_kind t = Target_tab_group \<or> dt_kind t = Target_split) \<and> dt_group t = 0)"

definition target_area :: "DockDropTarget \<Rightarrow> fp" where
  "target_area t = dbl_mul (rc_width (dt_bounds t)) (rc_height (dt_bounds t))"

definition better_target :: "DockDropTarget \<Rightarrow> DockDropTarget \<Rightarrow> bool" where
  "better_target t b \<longleftrightarrow> dt_priority b < dt_priority t
    \<or> dt_priority t = dt_priority b \<and> fp_less (target_area t) (target_area b)
    \<or> dt_priority t = dt_priority b \<and> fp_eq (target_area t) (target_area b) \<and> dt_id t < dt_id b"

fun hit_test :: "DockPointDip \<Rightarrow> DockDropTarget option \<Rightarrow> DockDropTarget list \<Rightarrow> DockDropTarget option" where
  "hit_test p best [] = best"
| "hit_test p best (t # ts) =
    (if \<not> target_eligible p t then hit_test p best ts
     else case best of
       None \<Rightarrow> hit_test p (Some t) ts
     | Some b \<Rightarrow> hit_test p (if better_target t b then Some t else Some b) ts)"

definition HitTestDockTargets :: "DockPointDip \<Rightarrow> DockDropTarget list \<Rightarrow> DockDropTarget option" where
  "HitTestDockTargets p targets = hit_test p None targets"

section \<open>The session\<close>

datatype DockDragState = Drag_idle | Drag_tracking | Drag_proposed | Drag_committed | Drag_cancelled

datatype DockDragCancelReason =
    Cancel_explicit | Cancel_escape | Cancel_capture_lost | Cancel_source_destroyed
  | Cancel_target_destroyed | Cancel_invalid_proposal | Cancel_adoption_failed
  | Cancel_callback_failed | Cancel_stale_transaction

datatype DockDragCommitStatus =
    Drag_success | Drag_invalid_state | Drag_adoption_failed | Drag_callback_failed
  | Drag_layout_failed

record DockDragSession =
  dd_state :: DockDragState
  dd_panel :: u64
  dd_source_revision :: u64
  dd_original :: DockLayoutSnapshot
  dd_target :: "DockDropTarget option"
  dd_proposal :: "DockLayoutTransaction option"
  dd_cancel_reason :: "DockDragCancelReason option"

definition empty_layout :: DockLayoutSnapshot where
  "empty_layout = \<lparr>ly_main_root = 0, ly_panels = [], ly_groups = [], ly_nodes = [],
     ly_floating_hosts = [], ly_auto_hide = [], ly_active_panel = None\<rparr>"

definition DockDragSession_Reset :: "DockDragSession \<Rightarrow> DockDragSession" where
  "DockDragSession_Reset d = \<lparr>dd_state = Drag_idle, dd_panel = 0, dd_source_revision = 0,
     dd_original = empty_layout, dd_target = None, dd_proposal = None, dd_cancel_reason = None\<rparr>"

definition DockDragSession_new :: DockDragSession where
  "DockDragSession_new = \<lparr>dd_state = Drag_idle, dd_panel = 0, dd_source_revision = 0,
     dd_original = empty_layout, dd_target = None, dd_proposal = None, dd_cancel_reason = None\<rparr>"

definition DockDragSession_Begin ::
  "DockLayoutModel \<Rightarrow> u64 \<Rightarrow> DockDragSession \<Rightarrow> bool \<times> DockDragSession" where
  "DockDragSession_Begin model panel d =
    (if dd_state d \<noteq> Drag_idle \<or> panel = 0 \<or> FindPanelIn (lm_state model) panel = None
     then (False, d)
     else (True, d\<lparr>dd_original := lm_state model, dd_panel := panel,
       dd_source_revision := lm_revision model, dd_state := Drag_tracking\<rparr>))"

definition DockDragSession_UpdateTarget ::
  "DockPointDip \<Rightarrow> DockDropTarget list \<Rightarrow> DockDragSession \<Rightarrow> DockDropTarget option \<times> DockDragSession" where
  "DockDragSession_UpdateTarget p targets d =
    (if dd_state d \<noteq> Drag_tracking \<and> dd_state d \<noteq> Drag_proposed then (None, d)
     else let d' = d\<lparr>dd_target := HitTestDockTargets p targets, dd_proposal := None,
            dd_state := Drag_tracking\<rparr>
       in (dd_target d', d'))"

definition DockDragSession_Cancel :: "DockDragCancelReason \<Rightarrow> DockDragSession \<Rightarrow> DockDragSession" where
  "DockDragSession_Cancel reason d =
    (if dd_state d = Drag_committed \<or> dd_state d = Drag_idle then d
     else d\<lparr>dd_proposal := None, dd_target := None, dd_cancel_reason := Some reason,
       dd_state := Drag_cancelled\<rparr>)"

definition DockDragSession_SetProposal ::
  "DockLayoutTransaction \<Rightarrow> DockDragSession \<Rightarrow> bool \<times> DockDragSession" where
  "DockDragSession_SetProposal tx d =
    (if dd_state d \<noteq> Drag_tracking \<or> tx_source_revision tx \<noteq> dd_source_revision d
       \<or> mu_panel (tx_mutation tx) \<noteq> dd_panel d \<or> \<not> DockLayoutTransaction_IsValid tx
     then (False, DockDragSession_Cancel Cancel_invalid_proposal d)
     else (True, d\<lparr>dd_proposal := Some tx, dd_state := Drag_proposed\<rparr>))"

type_synonym ('a, 'w) dock_handler =
  "DockLayoutSnapshot \<Rightarrow> DockLayoutModel \<times> 'w \<Rightarrow> 'a outcome \<times> DockLayoutModel \<times> 'w"

type_synonym DockDragCommitResult = "DockDragCommitStatus \<times> DockLayoutStatus"

definition DockDragSession_Commit ::
  "(bool, 'w) dock_handler option \<Rightarrow> (unit, 'w) dock_handler option
    \<Rightarrow> DockDragSession \<times> DockLayoutModel \<times> 'w
    \<Rightarrow> DockDragCommitResult \<times> DockDragSession \<times> DockLayoutModel \<times> 'w" where
  "DockDragSession_Commit adopt rollback st =
    (case st of (d, live) \<Rightarrow>
      (case (dd_state d = Drag_proposed, dd_proposal d, adopt, rollback) of
         (True, Some proposal, Some adopt_fn, Some rollback_fn) \<Rightarrow>
           (case adopt_fn (tx_proposed proposal) live of
              (Throws, live1) \<Rightarrow>
                ((Drag_callback_failed, Layout_invalid_argument),
                 DockDragSession_Cancel Cancel_callback_failed d, snd (rollback_fn (dd_original d) live1))
            | (Returns adopted, live1) \<Rightarrow>
                if \<not> adopted then
                  (case rollback_fn (dd_original d) live1 of
                     (Throws, live2) \<Rightarrow> ((Drag_callback_failed, Layout_invalid_argument),
                        DockDragSession_Cancel Cancel_callback_failed d, live2)
                   | (Returns _, live2) \<Rightarrow> ((Drag_adoption_failed, Layout_invalid_argument),
                        DockDragSession_Cancel Cancel_adoption_failed d, live2))
                else
                  (case DockLayoutModel_Commit proposal (fst live1) of
                     ((status, _), model2) \<Rightarrow>
                       if status \<noteq> Layout_success then
                         (case rollback_fn (dd_original d) (model2, snd live1) of
                            (result, live3) \<Rightarrow>
                              ((if result = Throws then Drag_callback_failed else Drag_layout_failed, status),
                               DockDragSession_Cancel (if status = Layout_stale_transaction
                                 then Cancel_stale_transaction else Cancel_invalid_proposal) d, live3))
                       else ((Drag_success, Layout_success),
                         d\<lparr>dd_proposal := None, dd_target := None, dd_state := Drag_committed\<rparr>,
                         model2, snd live1)))
       | _ \<Rightarrow> ((Drag_invalid_state, Layout_invalid_argument), d, live)))"

section \<open>Facts on hit testing\<close>

lemma eligible_area:
  assumes "target_eligible p t"
  shows "\<exists>r. target_area t = Fin r"
proof -
  have v: "DockRectDip_IsValid (dt_bounds t)"
    using assms by (auto simp: target_eligible_def DockRectDip_Contains_def)
  then obtain w h where wh: "rc_width (dt_bounds t) = Fin w" "rc_height (dt_bounds t) = Fin h"
    "0 < w" "0 < h" "w \<le> 100000" "h \<le> 100000"
    by (cases "rc_width (dt_bounds t)"; cases "rc_height (dt_bounds t)")
      (auto simp: DockRectDip_IsValid_def)
  have "w * h \<le> 100000 * 100000" using wh by (intro mult_mono) auto
  also have "\<dots> \<le> (2 ^ 1000 :: rat)" by simp
  finally have "\<bar>w * h\<bar> \<le> 2 ^ 1000" using wh(3,4) by simp
  then show ?thesis using dbl_finite [of "w * h"] wh by (auto simp: target_area_def)
qed

lemma better_trans:
  assumes "target_area a = Fin x" "target_area b = Fin y" "target_area c = Fin z"
    and "better_target a b" "better_target b c"
  shows "better_target a c"
  using assms by (auto simp: better_target_def)

lemma hit_test_best:
  assumes "\<forall>b. best = Some b \<longrightarrow> target_eligible p b"
  shows "case hit_test p best ts of
    None \<Rightarrow> best = None \<and> (\<forall>t \<in> set ts. \<not> target_eligible p t)
  | Some r \<Rightarrow> (r \<in> set ts \<or> best = Some r) \<and> target_eligible p r
      \<and> (\<forall>t \<in> set ts. target_eligible p t \<longrightarrow> \<not> better_target t r)
      \<and> (\<forall>b. best = Some b \<longrightarrow> \<not> better_target b r)"
  using assms
proof (induction ts arbitrary: best)
  case Nil
  then show ?case by (auto simp: better_target_def split: option.split dest: eligible_area)
next
  case (Cons t ts)
  show ?case
  proof (cases "target_eligible p t")
    case False
    then show ?thesis using Cons.IH [OF Cons.prems] by (auto split: option.splits)
  next
    case el: True
    show ?thesis
    proof (cases best)
      case None
      then show ?thesis using Cons.IH [of "Some t"] el by (auto split: option.splits)
    next
      case (Some b)
      with Cons.prems have eb: "target_eligible p b" by simp
      let ?n = "if better_target t b then t else b"
      have en: "target_eligible p ?n" using el eb by simp
      have step: "hit_test p best (t # ts) = hit_test p (Some ?n) ts" using el Some by simp
      obtain x y where xy: "target_area t = Fin x" "target_area b = Fin y"
        using eligible_area [OF el] eligible_area [OF eb] by blast
      have keep: "\<not> better_target t r \<and> \<not> better_target b r"
        if r: "target_eligible p r" "\<not> better_target ?n r" for r
      proof -
        obtain z where z: "target_area r = Fin z" using eligible_area [OF r(1)] by blast
        show ?thesis using r(2) xy z
          by (cases "better_target t b") (auto simp: better_target_def)
      qed
      have "case hit_test p (Some ?n) ts of None \<Rightarrow> Some ?n = None \<and> (\<forall>t \<in> set ts. \<not> target_eligible p t)
        | Some r \<Rightarrow> (r \<in> set ts \<or> Some ?n = Some r) \<and> target_eligible p r
          \<and> (\<forall>t \<in> set ts. target_eligible p t \<longrightarrow> \<not> better_target t r)
          \<and> (\<forall>b. Some ?n = Some b \<longrightarrow> \<not> better_target b r)"
        using en by (intro Cons.IH) simp
      then show ?thesis unfolding step using keep Some
        by (cases "hit_test p (Some ?n) ts") (auto split: if_splits)
    qed
  qed
qed

section \<open>The session as a machine\<close>

definition drag_wf :: "DockDragSession \<Rightarrow> bool" where
  "drag_wf d \<longleftrightarrow> (dd_state d = Drag_proposed \<longleftrightarrow> dd_proposal d \<noteq> None)
    \<and> (case dd_proposal d of None \<Rightarrow> True | Some tx \<Rightarrow> tx_source_revision tx = dd_source_revision d
         \<and> mu_panel (tx_mutation tx) = dd_panel d
         \<and> DockLayoutModel_Validate (tx_proposed tx) = Layout_success)
    \<and> (dd_state d = Drag_cancelled \<longleftrightarrow> dd_cancel_reason d \<noteq> None)
    \<and> (dd_state d = Drag_idle \<longleftrightarrow> dd_panel d = 0)"

datatype 'w drag_op =
    Dr_Begin u64
  | Dr_UpdateTarget DockPointDip "DockDropTarget list"
  | Dr_SetProposal DockLayoutTransaction
  | Dr_Cancel DockDragCancelReason
  | Dr_Reset
  | Dr_Commit "(bool, 'w) dock_handler option" "(unit, 'w) dock_handler option"
  | Dr_Layout layout_op

text \<open>Calls on the session, interleaved with changes of the layout model by the application.\<close>

fun drag_step ::
  "DockDragSession \<times> DockLayoutModel \<times> 'w \<Rightarrow> 'w drag_op \<Rightarrow> unit \<times> DockDragSession \<times> DockLayoutModel \<times> 'w"
where
  "drag_step (d, m, w) (Dr_Begin p) = ((), snd (DockDragSession_Begin m p d), m, w)"
| "drag_step (d, m, w) (Dr_UpdateTarget p ts) = ((), snd (DockDragSession_UpdateTarget p ts d), m, w)"
| "drag_step (d, m, w) (Dr_SetProposal tx) = ((), snd (DockDragSession_SetProposal tx d), m, w)"
| "drag_step (d, m, w) (Dr_Cancel r) = ((), DockDragSession_Cancel r d, m, w)"
| "drag_step (d, m, w) Dr_Reset = ((), DockDragSession_Reset d, m, w)"
| "drag_step (d, m, w) (Dr_Commit a r) = ((), snd (DockDragSession_Commit a r (d, m, w)))"
| "drag_step (d, m, w) (Dr_Layout x) = ((), d, snd (layout_step m x), w)"

lemma drag_wf_cancel [preserves]: "drag_wf d \<Longrightarrow> drag_wf (DockDragSession_Cancel r d)"
  by (auto simp: DockDragSession_Cancel_def drag_wf_def split: option.splits)

lemma drag_wf_begin [preserves]: "drag_wf d \<Longrightarrow> drag_wf (snd (DockDragSession_Begin m p d))"
  by (auto simp: DockDragSession_Begin_def drag_wf_def split: option.splits)

lemma drag_wf_update [preserves]: "drag_wf d \<Longrightarrow> drag_wf (snd (DockDragSession_UpdateTarget p ts d))"
  by (auto simp: DockDragSession_UpdateTarget_def drag_wf_def split: option.splits)

lemma drag_wf_proposal [preserves]: "drag_wf d \<Longrightarrow> drag_wf (snd (DockDragSession_SetProposal tx d))"
  using drag_wf_cancel [of d]
  by (auto simp: DockDragSession_SetProposal_def)
    (auto simp: drag_wf_def DockLayoutTransaction_IsValid_def)

lemma drag_wf_reset [preserves]: "drag_wf (DockDragSession_Reset d)"
  by (simp add: DockDragSession_Reset_def drag_wf_def)

lemma drag_wf_committed:
  "drag_wf d \<Longrightarrow> dd_state d = Drag_proposed \<Longrightarrow>
    drag_wf (d\<lparr>dd_proposal := None, dd_target := None, dd_state := Drag_committed\<rparr>)"
  by (auto simp: drag_wf_def)

lemma commit_session:
  "fst (snd (DockDragSession_Commit a r (d, m, w))) = d
   \<or> (\<exists>x. fst (snd (DockDragSession_Commit a r (d, m, w))) = DockDragSession_Cancel x d)
   \<or> dd_state d = Drag_proposed \<and> fst (snd (DockDragSession_Commit a r (d, m, w))) =
        d\<lparr>dd_proposal := None, dd_target := None, dd_state := Drag_committed\<rparr>"
proof (cases "dd_state d = Drag_proposed \<and> dd_proposal d \<noteq> None \<and> a \<noteq> None \<and> r \<noteq> None")
  case False
  then show ?thesis
    by (cases "dd_proposal d"; cases a; cases r) (auto simp: DockDragSession_Commit_def split: bool.split)
next
  case True
  then obtain p adopt rollback where p: "dd_state d = Drag_proposed" "dd_proposal d = Some p"
    "a = Some adopt" "r = Some rollback" by auto
  obtain res m1 w1 where ad: "adopt (tx_proposed p) (m, w) = (res, m1, w1)" by (metis prod.collapse)
  obtain res2 m2 w2 where ro: "rollback (dd_original d) (m1, w1) = (res2, m2, w2)" by (metis prod.collapse)
  obtain st act mc where c: "DockLayoutModel_Commit p m1 = ((st, act), mc)" by (metis prod.collapse)
  obtain res3 m3 w3 where ro3: "rollback (dd_original d) (mc, w1) = (res3, m3, w3)" by (metis prod.collapse)
  show ?thesis
  proof (cases "res = Returns True")
    case True
    with p ad c ro3 show ?thesis by (cases "st = Layout_success") (auto simp: DockDragSession_Commit_def)
  next
    case False
    with p ad ro show ?thesis by (cases res; cases res2) (auto simp: DockDragSession_Commit_def)
  qed
qed

lemma drag_wf_commit [preserves]:
  assumes "drag_wf d"
  shows "drag_wf (fst (snd (DockDragSession_Commit a r (d, m, w))))"
  using commit_session [of a r d m w] assms drag_wf_cancel [OF assms] drag_wf_committed [OF assms]
  by (elim disjE exE conjE) simp_all

lemma drag_wf_step: "drag_wf (fst s) \<Longrightarrow> drag_wf (fst (snd (drag_step s x)))"
proof (cases s)
  case (fields d m w)
  assume "drag_wf (fst s)"
  with fields show ?thesis by (cases x) (auto intro: preserves)
qed

interpretation drag_machine: machine drag_step "\<lambda>s. drag_wf (fst s)"
  by unfold_locales (rule drag_wf_step)

section \<open>Properties\<close>

text \<open>Hit testing returns the best drop target under the pointer.  If any enabled target with a
  valid rectangle contains the point, the result is one of these, and no other one has a higher
  priority, or the same priority and a smaller area, or the same priority and area and a smaller
  identifier; otherwise there is no result.\<close>

theorem hit_test_returns_best_target:
  "case HitTestDockTargets p targets of
     None \<Rightarrow> \<not> list_ex (target_eligible p) targets
   | Some r \<Rightarrow> r \<in> set targets \<and> target_eligible p r
       \<and> list_all (\<lambda>t. \<not> (target_eligible p t \<and> better_target t r)) targets"
  using hit_test_best [of None p targets]
  by (auto simp: HitTestDockTargets_def list_ex_iff list_all_iff split: option.splits)

text \<open>C5: Committing a drag is all or nothing.  Without a proposal nothing is called and nothing
  changes.  With one, either the native adoption returned true, the layout still had the revision at
  which the drag began, the model now holds exactly the proposed layout and no rollback ran; or the
  rollback ran once, on the states the adoption left and with the layout the drag started from, and
  the session is cancelled and holds no proposal.\<close>

theorem drag_commit_is_all_or_nothing:
  assumes "drag_wf d"
    and "DockDragSession_Commit (Some adopt) (Some rollback) (d, m, w) = ((status, ls), d', m', w')"
  shows "case dd_proposal d of
     None \<Rightarrow> status = Drag_invalid_state \<and> d' = d \<and> m' = m \<and> w' = w
   | Some p \<Rightarrow> (case adopt (tx_proposed p) (m, w) of (result, m1, w1) \<Rightarrow>
       if status = Drag_success
       then result = Returns True \<and> lm_revision m1 = dd_source_revision d
         \<and> m' = install_state (tx_proposed p) m1 \<and> w' = w1 \<and> dd_state d' = Drag_committed
       else (m', w') = snd (rollback (dd_original d) (m1, w1))
         \<and> dd_state d' = Drag_cancelled \<and> dd_proposal d' = None)"
proof (cases "dd_proposal d")
  case None
  with assms show ?thesis by (auto simp: DockDragSession_Commit_def split: bool.splits)
next
  case (Some p)
  then have wf: "dd_state d = Drag_proposed" "tx_source_revision p = dd_source_revision d"
    using assms(1) by (auto simp: drag_wf_def)
  have cancel: "dd_state (DockDragSession_Cancel x d) = Drag_cancelled"
    "dd_proposal (DockDragSession_Cancel x d) = None" for x
    using wf(1) by (simp_all add: DockDragSession_Cancel_def)
  obtain res m1 w1 where a: "adopt (tx_proposed p) (m, w) = (res, m1, w1)"
    by (metis prod.collapse)
  obtain res2 m2 w2 where r: "rollback (dd_original d) (m1, w1) = (res2, m2, w2)"
    by (metis prod.collapse)
  show ?thesis
  proof (cases "res = Returns True")
    case False
    with assms(2) Some wf(1) a r cancel show ?thesis
      by (cases res; cases res2) (auto simp: DockDragSession_Commit_def)
  next
    case True
    obtain st act mc where c: "DockLayoutModel_Commit p m1 = ((st, act), mc)"
      by (metis prod.collapse)
    show ?thesis
    proof (cases "st = Layout_success")
      case ok: True
      with c have "mc = install_state (tx_proposed p) m1" "lm_revision m1 = tx_source_revision p"
        by (auto simp: DockLayoutModel_Commit_def layout_fail_def DockLayoutModel_Success_def Let_def
            split: if_splits)
      with assms(2) Some wf a True c ok show ?thesis by (auto simp: DockDragSession_Commit_def)
    next
      case False
      with c have "mc = m1"
        by (auto simp: DockLayoutModel_Commit_def layout_fail_def DockLayoutModel_Success_def Let_def
            split: if_splits)
      with assms(2) Some wf(1) a True c False r cancel show ?thesis
        by (cases res2) (auto simp: DockDragSession_Commit_def)
    qed
  qed
qed

definition example_drag :: DockDragSession where
  "example_drag = snd (DockDragSession_SetProposal
     (the (snd (DockLayoutModel_Propose example_mutation example_model)))
     (snd (DockDragSession_Begin example_model 11 DockDragSession_new)))"

theorem drag_commit_is_all_or_nothing_witness:
  "(snd (snd (DockDragSession_Commit (Some (\<lambda>s (m, n). (Returns False, m, n + 1)))
      (Some (\<lambda>s (m, n). (Returns (), m, n + (10 :: nat)))) (example_drag, example_model, 0))))
    = (example_model, 11)"
proof -
  let ?adopt = "(\<lambda>s (m, n). (Returns False, m, n + 1)) :: (bool, nat) dock_handler"
  let ?roll = "(\<lambda>s (m, n). (Returns (), m, n + 10)) :: (unit, nat) dock_handler"
  let ?r = "DockDragSession_Commit (Some ?adopt) (Some ?roll) (example_drag, example_model, 0)"
  have wf: "drag_wf example_drag"
    unfolding example_drag_def
    by (intro preserves) (simp add: DockDragSession_new_def drag_wf_def)
  have p: "dd_proposal example_drag \<noteq> None" by code_simp
  have f: "fst (fst ?r) \<noteq> Drag_success" by code_simp
  obtain st ls d m n where r: "?r = ((st, ls), d, m, n)" by (metis prod.collapse)
  then have "st \<noteq> Drag_success" using f by simp
  with drag_commit_is_all_or_nothing [OF wf r] p show ?thesis unfolding r snd_conv by auto
qed

end
