(* ===== verification/Docking_Keyboard.thy ===== *)
theory Docking_Keyboard
  imports Docking_Drag Document_Coordination
begin

text \<open>
  Keyboard docking (\<open>src/docking_keyboard.cpp\<close>, \<open>include/mwfl/docking_keyboard.h\<close>): a session over a
  private copy of the usable drop targets, moved by reading order or by direction.
\<close>

datatype DockKeyboardMove = Key_left | Key_up | Key_right | Key_down | Key_next | Key_previous

record DockKeyboardSelection =
  sel_target :: DockDropTarget
  sel_announcement :: wstring

record DockKeyboardSession =
  ks_panel :: u64
  ks_targets :: "DockDropTarget list"
  ks_selected :: "nat option"
  ks_active :: bool

definition DockKeyboardSession_new :: DockKeyboardSession where
  "DockKeyboardSession_new = \<lparr>ks_panel = 0, ks_targets = [], ks_selected = None, ks_active = False\<rparr>"

definition Usable :: "DockDropTarget \<Rightarrow> bool" where
  "Usable t = (if \<not> dt_enabled t \<or> dt_id t = 0 \<or> \<not> DockRectDip_IsValid (dt_bounds t) then False
     else (dt_kind t \<noteq> Target_tab_group \<and> dt_kind t \<noteq> Target_split) \<or> dt_group t \<noteq> 0)"

definition Center :: "DockDropTarget \<Rightarrow> DockPointDip" where
  "Center t = \<lparr>pt_x = dbl_add (rc_x (dt_bounds t)) (dbl_div_by (rc_width (dt_bounds t)) 2),
     pt_y = dbl_add (rc_y (dt_bounds t)) (dbl_div_by (rc_height (dt_bounds t)) 2)\<rparr>"

definition DescribeDockTarget :: "DockDropTarget \<Rightarrow> wstring" where
  "DescribeDockTarget t =
    (let suffix = to_wstring (unat (dt_group t)) in
     case dt_kind t of
       Target_tab_group \<Rightarrow> lit ''Tab with group '' @ suffix
     | Target_split \<Rightarrow> (case dt_edge t of
           Edge_left \<Rightarrow> lit ''Dock left of group '' | Edge_top \<Rightarrow> lit ''Dock above group ''
         | Edge_right \<Rightarrow> lit ''Dock right of group '' | Edge_bottom \<Rightarrow> lit ''Dock below group '') @ suffix
     | Target_auto_hide \<Rightarrow> lit ''Auto-hide on '' @ (case dt_edge t of
           Edge_left \<Rightarrow> lit ''left edge'' | Edge_top \<Rightarrow> lit ''top edge''
         | Edge_right \<Rightarrow> lit ''right edge'' | Edge_bottom \<Rightarrow> lit ''bottom edge'')
     | Target_floating \<Rightarrow> lit ''Float panel'')"

text \<open>The loop of \<open>Begin\<close>: the usable targets, or \<open>None\<close> on a repeated identifier.\<close>

fun accept_targets :: "DockDropTarget list \<Rightarrow> DockDropTarget list \<Rightarrow> DockDropTarget list option" where
  "accept_targets accepted [] = Some accepted"
| "accept_targets accepted (t # ts) =
    (if \<not> Usable t then accept_targets accepted ts
     else if \<exists>v \<in> set accepted. dt_id v = dt_id t then None
     else accept_targets (accepted @ [t]) ts)"

definition DockKeyboardSession_Begin ::
  "u64 \<Rightarrow> DockDropTarget list \<Rightarrow> u64 option \<Rightarrow> DockKeyboardSession \<Rightarrow> bool \<times> DockKeyboardSession" where
  "DockKeyboardSession_Begin panel targets preferred k =
    (if ks_active k \<or> panel = 0 \<or> targets = [] \<or> length targets > 4096 then (False, k)
     else case accept_targets [] targets of
       None \<Rightarrow> (False, k)
     | Some accepted \<Rightarrow>
        if accepted = [] then (False, k)
        else (True, k\<lparr>ks_targets := accepted, ks_panel := panel,
          ks_selected := Some (case preferred of None \<Rightarrow> 0
            | Some i \<Rightarrow> (case find_index (\<lambda>t. dt_id t = i) accepted of None \<Rightarrow> 0 | Some n \<Rightarrow> n)),
          ks_active := True\<rparr>))"

definition DockKeyboardSession_SelectIndex :: "nat \<Rightarrow> DockKeyboardSession \<Rightarrow> bool \<times> DockKeyboardSession" where
  "DockKeyboardSession_SelectIndex index k =
    (if \<not> ks_active k \<or> index \<ge> length (ks_targets k) then (False, k)
     else (True, k\<lparr>ks_selected := Some index\<rparr>))"

definition dbl_max :: fp where
  "dbl_max = Fin (2 ^ 1024 - 2 ^ 971)"

definition primary_distance :: "DockKeyboardMove \<Rightarrow> fp \<Rightarrow> fp \<Rightarrow> fp" where
  "primary_distance direction dx dy = (case direction of Key_left \<Rightarrow> fp_neg dx | Key_right \<Rightarrow> dx
     | Key_up \<Rightarrow> fp_neg dy | Key_down \<Rightarrow> dy | _ \<Rightarrow> Fin 0)"

definition secondary_distance :: "DockKeyboardMove \<Rightarrow> fp \<Rightarrow> fp \<Rightarrow> fp" where
  "secondary_distance direction dx dy = (case direction of Key_left \<Rightarrow> fp_abs dy | Key_right \<Rightarrow> fp_abs dy
     | Key_up \<Rightarrow> fp_abs dx | Key_down \<Rightarrow> fp_abs dx | _ \<Rightarrow> Fin 0)"

definition target_primary :: "DockKeyboardMove \<Rightarrow> DockDropTarget \<Rightarrow> DockDropTarget \<Rightarrow> fp" where
  "target_primary direction current t = primary_distance direction
     (dbl_sub (pt_x (Center t)) (pt_x (Center current))) (dbl_sub (pt_y (Center t)) (pt_y (Center current)))"

definition target_score :: "DockKeyboardMove \<Rightarrow> DockDropTarget \<Rightarrow> DockDropTarget \<Rightarrow> fp" where
  "target_score direction current t = dbl_add (dbl_mul (target_primary direction current t) (Fin 1024))
     (secondary_distance direction
       (dbl_sub (pt_x (Center t)) (pt_x (Center current))) (dbl_sub (pt_y (Center t)) (pt_y (Center current))))"

text \<open>The scoring loop; \<open>i\<close> is the index of the head of the remaining targets.\<close>

fun best_target ::
  "DockKeyboardMove \<Rightarrow> DockDropTarget list \<Rightarrow> nat \<Rightarrow> nat \<Rightarrow> DockDropTarget list
    \<Rightarrow> nat option \<times> fp \<Rightarrow> nat option" where
  "best_target direction targets selected i [] (best, best_score) = best"
| "best_target direction targets selected i (t # ts) (best, best_score) =
    (let current = targets ! selected; score = target_score direction current t in
     if i = selected \<or> fp_leq (target_primary direction current t) (Fin 0)
     then best_target direction targets selected (Suc i) ts (best, best_score)
     else if fp_less score best_score \<or> (case best of None \<Rightarrow> False
         | Some b \<Rightarrow> fp_eq score best_score \<and> dt_id t < dt_id (targets ! b))
     then best_target direction targets selected (Suc i) ts (Some i, score)
     else best_target direction targets selected (Suc i) ts (best, best_score))"

definition DockKeyboardSession_Move ::
  "DockKeyboardMove \<Rightarrow> DockKeyboardSession \<Rightarrow> bool \<times> DockKeyboardSession" where
  "DockKeyboardSession_Move direction k =
    (case ks_selected k of
       None \<Rightarrow> (False, k)
     | Some selected \<Rightarrow>
        let n = length (ks_targets k) in
        if \<not> ks_active k \<or> ks_targets k = [] then (False, k)
        else if direction = Key_next then DockKeyboardSession_SelectIndex ((selected + 1) mod n) k
        else if direction = Key_previous then DockKeyboardSession_SelectIndex ((selected + n - 1) mod n) k
        else (case best_target direction (ks_targets k) selected 0 (ks_targets k) (None, dbl_max) of
            None \<Rightarrow> (False, k)
          | Some b \<Rightarrow> DockKeyboardSession_SelectIndex b k))"

definition DockKeyboardSession_GetSelection :: "DockKeyboardSession \<Rightarrow> DockKeyboardSelection option" where
  "DockKeyboardSession_GetSelection k =
    (case ks_selected k of
       None \<Rightarrow> None
     | Some i \<Rightarrow> if \<not> ks_active k then None
        else Some \<lparr>sel_target = ks_targets k ! i,
          sel_announcement = DescribeDockTarget (ks_targets k ! i)\<rparr>)"

definition DockKeyboardSession_Accept ::
  "DockKeyboardSession \<Rightarrow> DockKeyboardSelection option \<times> DockKeyboardSession" where
  "DockKeyboardSession_Accept k =
    (case DockKeyboardSession_GetSelection k of
       None \<Rightarrow> (None, k)
     | Some s \<Rightarrow> (Some s, k\<lparr>ks_active := False\<rparr>))"

definition DockKeyboardSession_Cancel :: "DockKeyboardSession \<Rightarrow> DockKeyboardSession" where
  "DockKeyboardSession_Cancel k = k\<lparr>ks_active := False, ks_selected := None\<rparr>"

definition DockKeyboardSession_Reset :: "DockKeyboardSession \<Rightarrow> DockKeyboardSession" where
  "DockKeyboardSession_Reset k = DockKeyboardSession_new"

section \<open>Invariant\<close>

definition keyboard_wf :: "DockKeyboardSession \<Rightarrow> bool" where
  "keyboard_wf k \<longleftrightarrow> (ks_active k \<longrightarrow> ks_panel k \<noteq> 0 \<and> ks_targets k \<noteq> []
      \<and> (\<exists>i. ks_selected k = Some i \<and> i < length (ks_targets k)))
    \<and> distinct (map dt_id (ks_targets k)) \<and> list_all Usable (ks_targets k)"

datatype keyboard_op =
    Kb_Begin u64 "DockDropTarget list" "u64 option"
  | Kb_Move DockKeyboardMove
  | Kb_Accept
  | Kb_Cancel
  | Kb_Reset

fun keyboard_step :: "DockKeyboardSession \<Rightarrow> keyboard_op \<Rightarrow> bool \<times> DockKeyboardSession" where
  "keyboard_step k (Kb_Begin p ts pref) = DockKeyboardSession_Begin p ts pref k"
| "keyboard_step k (Kb_Move m) = DockKeyboardSession_Move m k"
| "keyboard_step k Kb_Accept = (case DockKeyboardSession_Accept k of (r, k') \<Rightarrow> (r \<noteq> None, k'))"
| "keyboard_step k Kb_Cancel = (True, DockKeyboardSession_Cancel k)"
| "keyboard_step k Kb_Reset = (True, DockKeyboardSession_Reset k)"

lemma accept_targets_ok:
  "accept_targets acc ts = Some r \<Longrightarrow> distinct (map dt_id acc) \<Longrightarrow> list_all Usable acc \<Longrightarrow>
    distinct (map dt_id r) \<and> list_all Usable r"
  by (induction acc ts rule: accept_targets.induct) (auto split: if_splits, (metis imageE)+)

lemma keyboard_wf_begin [preserves]:
  assumes "keyboard_wf k"
  shows "keyboard_wf (snd (DockKeyboardSession_Begin p ts pref k))"
  using assms accept_targets_ok [of "[]" ts]
  by (auto simp: DockKeyboardSession_Begin_def keyboard_wf_def split: option.splits
      dest: find_indexD(1))

lemma keyboard_wf_select [preserves]:
  "keyboard_wf k \<Longrightarrow> keyboard_wf (snd (DockKeyboardSession_SelectIndex i k))"
  by (auto simp: DockKeyboardSession_SelectIndex_def keyboard_wf_def)

lemma keyboard_wf_move [preserves]:
  "keyboard_wf k \<Longrightarrow> keyboard_wf (snd (DockKeyboardSession_Move m k))"
  by (auto simp: DockKeyboardSession_Move_def Let_def split: option.split intro: keyboard_wf_select)

lemma keyboard_wf_accept [preserves]:
  "keyboard_wf k \<Longrightarrow> keyboard_wf (snd (DockKeyboardSession_Accept k))"
  by (auto simp: DockKeyboardSession_Accept_def keyboard_wf_def split: option.split)

lemma keyboard_wf_step: "keyboard_wf k \<Longrightarrow> keyboard_wf (snd (keyboard_step k x))"
  by (cases x) (auto simp: split_beta intro: preserves,
    simp_all add: DockKeyboardSession_Cancel_def DockKeyboardSession_Reset_def keyboard_wf_def
      DockKeyboardSession_new_def)

interpretation keyboard_machine: machine keyboard_step keyboard_wf
  by unfold_locales (rule keyboard_wf_step)

section \<open>Directional moves\<close>

lemma best_target_primary:
  "best_target d ts s i us (b, sc) = Some r \<Longrightarrow> us = drop i ts \<Longrightarrow>
    b = Some r \<or> (r < length ts \<and> r \<noteq> s \<and> \<not> fp_leq (target_primary d (ts ! s) (ts ! r)) (Fin 0))"
proof (induction us arbitrary: i b sc)
  case Nil
  then show ?case by simp
next
  case (Cons u us)
  have i: "i < length ts" "ts ! i = u" "us = drop (Suc i) ts"
    using Cons.prems(2) by (metis drop_eq_Nil list.distinct(1) not_le_imp_less,
        metis Cons_nth_drop_Suc drop_eq_Nil list.distinct(1) list.inject not_le_imp_less,
        metis drop_Suc list.sel(3) tl_drop)
  show ?case
    using Cons.prems(1) Cons.IH [OF _ i(3)] i(1,2)
    by (auto simp: Let_def split: if_splits)
qed

lemma select_next_previous:
  assumes "keyboard_wf k" "ks_active k" "ks_selected k = Some i"
  shows "DockKeyboardSession_Move Key_next k = (True, k\<lparr>ks_selected := Some ((i + 1) mod length (ks_targets k))\<rparr>)"
    "DockKeyboardSession_Move Key_previous k =
      (True, k\<lparr>ks_selected := Some ((i + length (ks_targets k) - 1) mod length (ks_targets k))\<rparr>)"
  using assms by (simp_all add: DockKeyboardSession_Move_def DockKeyboardSession_SelectIndex_def
      keyboard_wf_def Let_def not_le)

lemma cycle_back:
  fixes i n :: nat
  assumes "i < n"
  shows "((i + 1) mod n + n - 1) mod n = i"
proof (cases "i + 1 = n")
  case True
  with assms show ?thesis by simp
next
  case False
  with assms show ?thesis by simp
qed

section \<open>Properties\<close>

text \<open>A keyboard docking session always has a usable selection while it is active.  After any
  sequence of begins, moves, accepts, cancels and resets, with arbitrary target lists, an active
  session has a nonempty list of usable targets with distinct identifiers, its selection is one of
  them, and accepting returns that target with its announcement and ends the session.\<close>

theorem keyboard_selection_is_usable:
  "let k = run_ops keyboard_step DockKeyboardSession_new xs in
   distinct (map dt_id (ks_targets k)) \<and>
   (if ks_active k
    then (\<exists>t \<in> set (ks_targets k). Usable t \<and> DockKeyboardSession_Accept k =
        (Some \<lparr>sel_target = t, sel_announcement = DescribeDockTarget t\<rparr>, k\<lparr>ks_active := False\<rparr>))
    else DockKeyboardSession_Accept k = (None, k))"
proof -
  let ?k = "run_ops keyboard_step DockKeyboardSession_new xs"
  have "keyboard_wf DockKeyboardSession_new" by (simp add: keyboard_wf_def DockKeyboardSession_new_def)
  then have wf: "keyboard_wf ?k" by (rule keyboard_machine.run_inv)
  show ?thesis
  proof (cases "ks_active ?k")
    case True
    with wf obtain i where "ks_selected ?k = Some i" "i < length (ks_targets ?k)"
      by (auto simp: keyboard_wf_def)
    with True wf show ?thesis
      by (auto simp: Let_def keyboard_wf_def DockKeyboardSession_Accept_def
          DockKeyboardSession_GetSelection_def list_all_iff intro!: bexI [of _ "ks_targets ?k ! i"])
  next
    case False
    with wf show ?thesis
      by (simp add: Let_def keyboard_wf_def DockKeyboardSession_Accept_def
          DockKeyboardSession_GetSelection_def split: option.split)
  qed
qed

text \<open>Keyboard moves go where they say.  In an active session, moving to the next and then to the
  previous target returns to the selected one and both always succeed; and a directional move that
  succeeds selects another target whose centre lies strictly on the asked side of the current one,
  while one that fails leaves the session as it was.\<close>

theorem keyboard_moves_are_sound:
  assumes "keyboard_wf k" and "ks_active k"
  shows "fst (DockKeyboardSession_Move Key_next k) \<and> fst (DockKeyboardSession_Move Key_previous k)
    \<and> snd (DockKeyboardSession_Move Key_previous (snd (DockKeyboardSession_Move Key_next k))) = k
    \<and> (direction \<notin> {Key_next, Key_previous} \<longrightarrow>
        (case DockKeyboardSession_Move direction k of
           (False, k') \<Rightarrow> k' = k
         | (True, k') \<Rightarrow> (\<exists>i j. ks_selected k = Some i \<and> ks_selected k' = Some j \<and> i \<noteq> j
             \<and> j < length (ks_targets k)
             \<and> \<not> fp_leq (target_primary direction (ks_targets k ! i) (ks_targets k ! j)) (Fin 0))))"
proof -
  obtain i where i: "ks_selected k = Some i" "i < length (ks_targets k)"
    using assms by (auto simp: keyboard_wf_def)
  note moves = select_next_previous [OF assms i(1)]
  let ?k = "k\<lparr>ks_selected := Some ((i + 1) mod length (ks_targets k))\<rparr>"
  have "keyboard_wf ?k" using assms i(2) by (simp add: keyboard_wf_def)
  from select_next_previous(2) [OF this] assms(2)
  have "DockKeyboardSession_Move Key_previous ?k = (True, ?k\<lparr>ks_selected := Some i\<rparr>)"
    using cycle_back [OF i(2)] by simp
  then have returns: "snd (DockKeyboardSession_Move Key_previous ?k) = k"
    using i(1) by simp
  have dir: "case DockKeyboardSession_Move direction k of
           (False, k') \<Rightarrow> k' = k
         | (True, k') \<Rightarrow> (\<exists>i j. ks_selected k = Some i \<and> ks_selected k' = Some j \<and> i \<noteq> j
             \<and> j < length (ks_targets k)
             \<and> \<not> fp_leq (target_primary direction (ks_targets k ! i) (ks_targets k ! j)) (Fin 0))"
    if d: "direction \<notin> {Key_next, Key_previous}"
  proof (cases "best_target direction (ks_targets k) i 0 (ks_targets k) (None, dbl_max)")
    case None
    with d i show ?thesis by (simp add: DockKeyboardSession_Move_def Let_def)
  next
    case (Some r)
    from best_target_primary [OF this] have r: "r < length (ks_targets k)" "r \<noteq> i"
      "\<not> fp_leq (target_primary direction (ks_targets k ! i) (ks_targets k ! r)) (Fin 0)" by auto
    have "ks_targets k \<noteq> []" using i(2) by auto
    with d i Some r assms(2) show ?thesis
      by (simp add: DockKeyboardSession_Move_def DockKeyboardSession_SelectIndex_def Let_def)
  qed
  show ?thesis using moves returns dir by simp
qed

definition example_target :: "u64 \<Rightarrow> rat \<Rightarrow> DockDropTarget" where
  "example_target i x = \<lparr>dt_id = i, dt_kind = Target_floating, dt_bounds = \<lparr>rc_x = Fin x, rc_y = Fin 0,
     rc_width = Fin 10, rc_height = Fin 10\<rparr>, dt_group = 0, dt_edge = Edge_left, dt_priority = 0,
     dt_enabled = True\<rparr>"

definition example_keyboard :: DockKeyboardSession where
  "example_keyboard = \<lparr>ks_panel = 4, ks_targets = [example_target 1 0, example_target 2 100],
     ks_selected = Some 0, ks_active = True\<rparr>"

theorem keyboard_moves_are_sound_witness:
  "\<not> fp_leq (target_primary Key_right (example_target 1 0) (example_target 2 100)) (Fin 0)"
proof -
  have wf: "keyboard_wf example_keyboard"
    by (simp add: keyboard_wf_def example_keyboard_def example_target_def Usable_def DockRectDip_IsValid_def)
  have act: "ks_active example_keyboard" by (simp add: example_keyboard_def)
  have moved: "DockKeyboardSession_Move Key_right example_keyboard =
      (True, example_keyboard\<lparr>ks_selected := Some 1\<rparr>)"
    by (simp add: DockKeyboardSession_Move_def example_keyboard_def target_primary_def target_score_def
        Center_def example_target_def primary_distance_def secondary_distance_def dbl_max_def Let_def
        DockKeyboardSession_SelectIndex_def dbl_div_by_def dbl_sub_def)
  show ?thesis using keyboard_moves_are_sound [OF wf act, of Key_right] moved
    by (simp add: example_keyboard_def)
qed

end
