(* ===== verification/Docking_Auto_Hide.thy ===== *)
theory Docking_Auto_Hide
  imports Docking_Model
begin

text \<open>
  The auto-hide controller (\<open>src/docking_auto_hide.cpp\<close>, \<open>include/mwfl/docking_auto_hide.h\<close>): a
  deterministic state machine over milliseconds.  Durations are integers; the invariant bounds every
  one of them, so 64-bit arithmetic never overflows.
\<close>

datatype DockAutoHideState =
    AH_hidden | AH_waiting_to_show | AH_showing | AH_shown | AH_waiting_to_hide | AH_hiding

datatype DockAutoHideActivation = Activate_pointer | Activate_keyboard | Activate_programmatic

record DockAutoHideOptions =
  ao_show_delay :: int
  ao_hide_delay :: int
  ao_animation :: int

record DockAutoHideSnapshot =
  as_state :: DockAutoHideState
  as_panel :: "u64 option"
  as_progress :: fp
  as_pointer_inside :: bool
  as_focus_inside :: bool

record DockAutoHideController =
  ac_options :: DockAutoHideOptions
  ac_state :: DockAutoHideSnapshot
  ac_phase :: int

definition maximum_duration :: int where
  "maximum_duration = 5000"

definition Fraction :: "int \<Rightarrow> int \<Rightarrow> fp" where
  "Fraction elapsed duration =
    (if duration \<le> 0 then Fin 1
     else fp_clamp (dbl_div_by (dbl (of_int elapsed)) (of_int duration)) (Fin 0) (Fin 1))"

definition DockAutoHideOptions_IsValid :: "DockAutoHideOptions \<Rightarrow> bool" where
  "DockAutoHideOptions_IsValid opts \<longleftrightarrow> 0 \<le> ao_show_delay opts \<and> 0 \<le> ao_hide_delay opts
    \<and> 0 \<le> ao_animation opts \<and> ao_show_delay opts \<le> maximum_duration
    \<and> ao_hide_delay opts \<le> maximum_duration \<and> ao_animation opts \<le> maximum_duration"

definition hidden_snapshot :: DockAutoHideSnapshot where
  "hidden_snapshot = \<lparr>as_state = AH_hidden, as_panel = None, as_progress = Fin 0,
     as_pointer_inside = False, as_focus_inside = False\<rparr>"

definition AutoHide_new :: "DockAutoHideOptions \<Rightarrow> DockAutoHideController option" where
  "AutoHide_new opts = (if \<not> DockAutoHideOptions_IsValid opts then None
     else Some \<lparr>ac_options = opts, ac_state = hidden_snapshot, ac_phase = 0\<rparr>)"

definition AutoHide_Reset :: "DockAutoHideController \<Rightarrow> DockAutoHideController" where
  "AutoHide_Reset c = c\<lparr>ac_state := hidden_snapshot, ac_phase := 0\<rparr>"

definition AutoHide_KeepsOpen :: "DockAutoHideController \<Rightarrow> bool" where
  "AutoHide_KeepsOpen c \<longleftrightarrow> as_pointer_inside (ac_state c) \<or> as_focus_inside (ac_state c)"

definition set_phase_state :: "DockAutoHideState \<Rightarrow> fp \<Rightarrow> int \<Rightarrow> DockAutoHideController \<Rightarrow> DockAutoHideController" where
  "set_phase_state st progress phase c =
    c\<lparr>ac_state := (ac_state c)\<lparr>as_state := st, as_progress := progress\<rparr>, ac_phase := phase\<rparr>"

definition AutoHide_RequestShow ::
  "u64 \<Rightarrow> DockAutoHideActivation \<Rightarrow> DockAutoHideController \<Rightarrow> bool \<times> DockAutoHideController" where
  "AutoHide_RequestShow panel activation c =
    (if panel = 0 then (False, c)
     else let switching = (as_panel (ac_state c) \<noteq> Some panel);
              c1 = c\<lparr>ac_state := (ac_state c)\<lparr>as_panel := Some panel\<rparr>, ac_phase := 0\<rparr>;
              st = as_state (ac_state c)
       in (True,
         if activation = Activate_keyboard \<or> activation = Activate_programmatic
         then set_phase_state AH_shown (Fin 1) 0 c1
         else if switching \<or> st = AH_hidden \<or> st = AH_hiding
         then set_phase_state (if ao_show_delay (ac_options c) = 0 then AH_showing else AH_waiting_to_show)
           (Fin 0) 0 c1
         else if st = AH_waiting_to_hide then set_phase_state AH_shown (Fin 1) 0 c1
         else c1))"

definition AutoHide_RequestHide :: "bool \<Rightarrow> DockAutoHideController \<Rightarrow> DockAutoHideController" where
  "AutoHide_RequestHide immediate c =
    (if as_state (ac_state c) = AH_hidden then c
     else if immediate then AutoHide_Reset c
     else if AutoHide_KeepsOpen c then c
     else set_phase_state (if ao_hide_delay (ac_options c) = 0 then AH_hiding else AH_waiting_to_hide)
       (as_progress (ac_state c)) 0 c)"

definition inside_changed :: "bool \<Rightarrow> DockAutoHideController \<Rightarrow> DockAutoHideController" where
  "inside_changed inside c =
    (if inside \<and> (as_state (ac_state c) = AH_waiting_to_hide \<or> as_state (ac_state c) = AH_hiding)
     then set_phase_state AH_shown (Fin 1) 0 c
     else if \<not> inside \<and> \<not> AutoHide_KeepsOpen c \<and> as_state (ac_state c) = AH_shown
     then AutoHide_RequestHide False c
     else c)"

definition AutoHide_SetPointerInside :: "bool \<Rightarrow> DockAutoHideController \<Rightarrow> DockAutoHideController" where
  "AutoHide_SetPointerInside inside c =
    inside_changed inside (c\<lparr>ac_state := (ac_state c)\<lparr>as_pointer_inside := inside\<rparr>\<rparr>)"

definition AutoHide_SetKeyboardFocusInside :: "bool \<Rightarrow> DockAutoHideController \<Rightarrow> DockAutoHideController" where
  "AutoHide_SetKeyboardFocusInside inside c =
    inside_changed inside (c\<lparr>ac_state := (ac_state c)\<lparr>as_focus_inside := inside\<rparr>\<rparr>)"

text \<open>The last two blocks of \<open>Advance\<close>: the show animation and the hide animation.\<close>

definition advance_showing :: "int \<Rightarrow> DockAutoHideController \<Rightarrow> DockAutoHideController" where
  "advance_showing phase c =
    (let progress = Fraction phase (ao_animation (ac_options c))
     in if fp_leq (Fin 1) progress then set_phase_state AH_shown progress 0 c
        else set_phase_state AH_showing progress phase c)"

definition advance_hiding :: "int \<Rightarrow> DockAutoHideController \<Rightarrow> DockAutoHideController" where
  "advance_hiding phase c =
    (let progress = dbl_sub (Fin 1) (Fraction phase (ao_animation (ac_options c)))
     in if fp_leq progress (Fin 0) then AutoHide_Reset c
        else set_phase_state AH_hiding progress phase c)"

definition AutoHide_Advance :: "int \<Rightarrow> DockAutoHideController \<Rightarrow> DockAutoHideController" where
  "AutoHide_Advance elapsed c =
    (let st = as_state (ac_state c); opts = ac_options c in
     if elapsed \<le> 0 \<or> st = AH_hidden \<or> st = AH_shown then c
     else let phase = ac_phase c + min elapsed maximum_duration in
       (case st of
          AH_waiting_to_show \<Rightarrow>
            if phase < ao_show_delay opts then c\<lparr>ac_phase := phase\<rparr>
            else advance_showing (phase - ao_show_delay opts) c
        | AH_showing \<Rightarrow> advance_showing phase c
        | AH_waiting_to_hide \<Rightarrow>
            if AutoHide_KeepsOpen c then set_phase_state AH_shown (Fin 1) 0 c
            else if phase < ao_hide_delay opts then c\<lparr>ac_phase := phase\<rparr>
            else advance_hiding (phase - ao_hide_delay opts) c
        | AH_hiding \<Rightarrow> advance_hiding phase c
        | _ \<Rightarrow> c))"

definition MakePinDockMutation :: "u64 \<Rightarrow> u64 \<Rightarrow> nat option \<Rightarrow> DockMutation" where
  "MakePinDockMutation panel destination index =
    \<lparr>mu_kind = Mutation_move_to_group, mu_panel = panel, mu_target_group = destination,
     mu_target_index = index, mu_edge = Edge_right, mu_new_group = 0, mu_new_group_node = 0,
     mu_new_split_node = 0, mu_new_floating_host = 0,
     mu_floating_placement = \<lparr>fl_x = Fin 80, fl_y = Fin 80, fl_width = Fin 480, fl_height = Fin 360,
       fl_monitor_key = []\<rparr>, mu_split_ratio = Fin (1 / 2)\<rparr>"

section \<open>Progress values\<close>

definition unit_interval :: "fp \<Rightarrow> bool" where
  "unit_interval x \<longleftrightarrow> fp_leq (Fin 0) x \<and> fp_leq x (Fin 1)"

lemma unit_interval_iff: "unit_interval x \<longleftrightarrow> (\<exists>r. x = Fin r \<and> 0 \<le> r \<and> r \<le> 1)"
  by (cases x) (auto simp: unit_interval_def fp_leq_def)

lemma dbl_unit: "0 \<le> q \<Longrightarrow> q \<le> 1 \<Longrightarrow> unit_interval (dbl q)"
  using dbl_mono [of 0 q] dbl_mono [of q 1] by (simp add: unit_interval_def)

lemma fraction_unit: "unit_interval (Fraction e d)"
proof (cases "d \<le> 0")
  case True
  then show ?thesis by (simp add: Fraction_def unit_interval_iff)
next
  case False
  let ?v = "dbl_div_by (dbl (of_int e)) (of_int d)"
  have "dbl q \<noteq> NaN" for q by (simp add: dbl_by_value)
  then have "?v \<noteq> NaN" by (simp add: dbl_div_by_def fp_inf_def split: fp.split)
  then have "unit_interval (fp_clamp ?v (Fin 0) (Fin 1))"
    by (cases ?v) (auto simp: fp_clamp_def unit_interval_iff)
  with False show ?thesis by (simp add: Fraction_def)
qed

lemma dbl_of_small_int: "0 \<le> e \<Longrightarrow> e \<le> 100000 \<Longrightarrow> dbl (of_int e) = Fin (of_int e)"
proof -
  assume "0 \<le> e" "e \<le> 100000"
  then have "(of_int e :: rat) \<le> of_int 100000" by (simp only: of_int_le_iff)
  also have "\<dots> < pow2 17" by (simp add: pow2_def)
  also have "\<dots> \<le> pow2 1024" by (rule pow2_mono) simp
  finally have "\<bar>of_int e * pow2 0\<bar> < pow2 1024" using \<open>0 \<le> e\<close> by simp
  from dbl_exact [OF _ _ this] show ?thesis using \<open>0 \<le> e\<close> \<open>e \<le> 100000\<close> by simp
qed

text \<open>An animation that ran for its duration is complete.\<close>

lemma fraction_complete:
  assumes "0 \<le> d" "d \<le> e" "e \<le> 100000"
  shows "Fraction e d = Fin 1"
proof (cases "d = 0")
  case True
  then show ?thesis by (simp add: Fraction_def)
next
  case False
  with assms have d: "0 < d" by simp
  have "(1 :: rat) \<le> of_int e / of_int d" using assms d by simp
  from dbl_mono [OF this] have "fp_leq (Fin 1) (dbl (of_int e / of_int d))" by simp
  moreover have "dbl (of_int e) = Fin (of_int e)" using assms by (intro dbl_of_small_int) auto
  ultimately show ?thesis using d
    by (cases "dbl (of_int e / of_int d)")
      (auto simp: Fraction_def fp_clamp_def dbl_div_by_def fp_leq_def)
qed

lemma one_minus_unit: "unit_interval x \<Longrightarrow> unit_interval (dbl_sub (Fin 1) x)"
  by (auto simp: unit_interval_iff [of x] dbl_sub_def intro!: dbl_unit)

section \<open>Invariant\<close>

definition auto_hide_wf :: "DockAutoHideController \<Rightarrow> bool" where
  "auto_hide_wf c \<longleftrightarrow> DockAutoHideOptions_IsValid (ac_options c)
    \<and> unit_interval (as_progress (ac_state c))
    \<and> 0 \<le> ac_phase c \<and> ac_phase c \<le> 2 * maximum_duration
    \<and> (as_state (ac_state c) = AH_hidden \<longleftrightarrow> as_panel (ac_state c) = None)
    \<and> (as_state (ac_state c) = AH_shown \<longrightarrow> as_progress (ac_state c) = Fin 1)
    \<and> (as_state (ac_state c) = AH_hidden \<longrightarrow> as_progress (ac_state c) = Fin 0)
    \<and> (case as_state (ac_state c) of
         AH_waiting_to_show \<Rightarrow> ac_phase c < ao_show_delay (ac_options c)
       | AH_waiting_to_hide \<Rightarrow> ac_phase c < ao_hide_delay (ac_options c)
       | AH_showing \<Rightarrow> ac_phase c < ao_animation (ac_options c) \<or> ac_phase c = 0
       | AH_hiding \<Rightarrow> ac_phase c < ao_animation (ac_options c) \<or> ac_phase c = 0
       | _ \<Rightarrow> True)"

datatype auto_hide_op =
    Ah_RequestShow u64 DockAutoHideActivation
  | Ah_RequestHide bool
  | Ah_SetPointerInside bool
  | Ah_SetKeyboardFocusInside bool
  | Ah_Advance int
  | Ah_Reset

fun auto_hide_step :: "DockAutoHideController \<Rightarrow> auto_hide_op \<Rightarrow> bool \<times> DockAutoHideController" where
  "auto_hide_step c (Ah_RequestShow p a) = AutoHide_RequestShow p a c"
| "auto_hide_step c (Ah_RequestHide i) = (True, AutoHide_RequestHide i c)"
| "auto_hide_step c (Ah_SetPointerInside i) = (True, AutoHide_SetPointerInside i c)"
| "auto_hide_step c (Ah_SetKeyboardFocusInside i) = (True, AutoHide_SetKeyboardFocusInside i c)"
| "auto_hide_step c (Ah_Advance e) = (True, AutoHide_Advance e c)"
| "auto_hide_step c Ah_Reset = (True, AutoHide_Reset c)"

lemmas auto_hide_wf_defs = auto_hide_wf_def DockAutoHideOptions_IsValid_def unit_interval_iff
  maximum_duration_def

lemma set_phase_state_simps [simp]:
  "ac_options (set_phase_state st p k c) = ac_options c" "ac_phase (set_phase_state st p k c) = k"
  "as_state (ac_state (set_phase_state st p k c)) = st"
  "as_progress (ac_state (set_phase_state st p k c)) = p"
  "as_panel (ac_state (set_phase_state st p k c)) = as_panel (ac_state c)"
  "as_pointer_inside (ac_state (set_phase_state st p k c)) = as_pointer_inside (ac_state c)"
  "as_focus_inside (ac_state (set_phase_state st p k c)) = as_focus_inside (ac_state c)"
  by (simp_all add: set_phase_state_def)

lemma auto_hide_reset [preserves]: "auto_hide_wf c \<Longrightarrow> auto_hide_wf (AutoHide_Reset c)"
  by (simp add: AutoHide_Reset_def auto_hide_wf_defs hidden_snapshot_def)

lemma auto_hide_shown [preserves]:
  "auto_hide_wf c \<Longrightarrow> as_panel (ac_state c) \<noteq> None \<Longrightarrow> auto_hide_wf (set_phase_state AH_shown (Fin 1) 0 c)"
  by (auto simp: auto_hide_wf_defs)

lemma auto_hide_request_hide [preserves]:
  "auto_hide_wf c \<Longrightarrow> auto_hide_wf (AutoHide_RequestHide i c)"
  using auto_hide_reset [of c]
  by (auto simp: AutoHide_RequestHide_def) (auto simp: auto_hide_wf_defs)

lemma auto_hide_request_show [preserves]:
  "auto_hide_wf c \<Longrightarrow> auto_hide_wf (snd (AutoHide_RequestShow p a c))"
  by (cases "as_state (ac_state c)") (auto simp: AutoHide_RequestShow_def Let_def auto_hide_wf_defs)

lemma auto_hide_flags:
  "auto_hide_wf (c\<lparr>ac_state := (ac_state c)\<lparr>as_pointer_inside := i\<rparr>\<rparr>) = auto_hide_wf c"
  "auto_hide_wf (c\<lparr>ac_state := (ac_state c)\<lparr>as_focus_inside := i\<rparr>\<rparr>) = auto_hide_wf c"
  by (simp_all add: auto_hide_wf_def cong: DockAutoHideState.case_cong)

lemma auto_hide_inside [preserves]: "auto_hide_wf c \<Longrightarrow> auto_hide_wf (inside_changed i c)"
proof (cases "i \<and> (as_state (ac_state c) = AH_waiting_to_hide \<or> as_state (ac_state c) = AH_hiding)")
  case True
  assume wf: "auto_hide_wf c"
  with True have "as_panel (ac_state c) \<noteq> None" by (auto simp: auto_hide_wf_def)
  with wf auto_hide_shown True show ?thesis by (simp add: inside_changed_def)
next
  case False
  assume "auto_hide_wf c"
  with False auto_hide_request_hide show ?thesis by (auto simp: inside_changed_def)
qed

lemma auto_hide_showing:
  assumes "auto_hide_wf c" "as_panel (ac_state c) \<noteq> None" "0 \<le> k" "k \<le> 2 * maximum_duration"
  shows "auto_hide_wf (advance_showing k c)"
proof (cases "fp_leq (Fin 1) (Fraction k (ao_animation (ac_options c)))")
  case True
  with fraction_unit [of k "ao_animation (ac_options c)"]
  have "Fraction k (ao_animation (ac_options c)) = Fin 1" by (auto simp: unit_interval_iff)
  with True assms show ?thesis by (auto simp: advance_showing_def Let_def auto_hide_wf_defs)
next
  case False
  have "k < ao_animation (ac_options c)"
  proof (rule ccontr)
    assume "\<not> k < ao_animation (ac_options c)"
    with assms have "Fraction k (ao_animation (ac_options c)) = Fin 1"
      by (intro fraction_complete) (auto simp: auto_hide_wf_defs)
    with False show False by simp
  qed
  moreover have "unit_interval (Fraction k (ao_animation (ac_options c)))" by (rule fraction_unit)
  ultimately show ?thesis using False assms
    by (simp add: advance_showing_def Let_def auto_hide_wf_def)
qed

lemma hiding_progress:
  assumes "0 \<le> ao_animation opts" "ao_animation opts \<le> k" "k \<le> 100000"
  shows "fp_leq (dbl_sub (Fin 1) (Fraction k (ao_animation opts))) (Fin 0)"
  using fraction_complete [OF assms] by (simp add: dbl_sub_def)

lemma auto_hide_hiding:
  assumes "auto_hide_wf c" "as_panel (ac_state c) \<noteq> None" "0 \<le> k" "k \<le> 2 * maximum_duration"
  shows "auto_hide_wf (advance_hiding k c)"
proof (cases "fp_leq (dbl_sub (Fin 1) (Fraction k (ao_animation (ac_options c)))) (Fin 0)")
  case True
  with assms auto_hide_reset show ?thesis by (simp add: advance_hiding_def Let_def)
next
  case False
  have "k < ao_animation (ac_options c)"
  proof (rule ccontr)
    assume "\<not> k < ao_animation (ac_options c)"
    with assms have "fp_leq (dbl_sub (Fin 1) (Fraction k (ao_animation (ac_options c)))) (Fin 0)"
      by (intro hiding_progress) (auto simp: auto_hide_wf_defs)
    with False show False by simp
  qed
  moreover have "unit_interval (dbl_sub (Fin 1) (Fraction k (ao_animation (ac_options c))))"
    using fraction_unit by (rule one_minus_unit)
  ultimately show ?thesis using False assms
    by (simp add: advance_hiding_def Let_def auto_hide_wf_def)
qed

lemma auto_hide_advance [preserves]:
  assumes "auto_hide_wf c"
  shows "auto_hide_wf (AutoHide_Advance e c)"
proof (cases "e \<le> 0 \<or> as_state (ac_state c) = AH_hidden \<or> as_state (ac_state c) = AH_shown")
  case True
  with assms show ?thesis by (auto simp: AutoHide_Advance_def Let_def)
next
  case False
  then have e: "0 < e" and panel: "as_panel (ac_state c) \<noteq> None"
    using assms by (auto simp: auto_hide_wf_def)
  let ?k = "ac_phase c + min e maximum_duration"
  have bounds: "0 \<le> ac_phase c" "0 < min e maximum_duration" "min e maximum_duration \<le> maximum_duration"
    using e assms by (auto simp: auto_hide_wf_defs)
  show ?thesis
  proof (cases "as_state (ac_state c)")
    case AH_waiting_to_show
    with assms have "ac_phase c < ao_show_delay (ac_options c)" "0 \<le> ao_show_delay (ac_options c)"
      "ao_show_delay (ac_options c) \<le> maximum_duration"
      by (auto simp: auto_hide_wf_def DockAutoHideOptions_IsValid_def)
    with AH_waiting_to_show False assms panel bounds show ?thesis
      by (auto simp: AutoHide_Advance_def Let_def intro!: auto_hide_showing)
        (auto simp: auto_hide_wf_def)
  next
    case AH_showing
    with assms have "ac_phase c \<le> maximum_duration"
      by (auto simp: auto_hide_wf_defs)
    with AH_showing False assms panel bounds show ?thesis
      by (auto simp: AutoHide_Advance_def Let_def intro!: auto_hide_showing)
  next
    case AH_waiting_to_hide
    with assms have "ac_phase c < ao_hide_delay (ac_options c)" "0 \<le> ao_hide_delay (ac_options c)"
      "ao_hide_delay (ac_options c) \<le> maximum_duration"
      by (auto simp: auto_hide_wf_def DockAutoHideOptions_IsValid_def)
    with AH_waiting_to_hide False assms panel bounds show ?thesis
      by (auto simp: AutoHide_Advance_def Let_def intro!: auto_hide_hiding auto_hide_shown)
        (auto simp: auto_hide_wf_def)
  next
    case AH_hiding
    with assms have "ac_phase c \<le> maximum_duration"
      by (auto simp: auto_hide_wf_defs)
    with AH_hiding False assms panel bounds show ?thesis
      by (auto simp: AutoHide_Advance_def Let_def intro!: auto_hide_hiding)
  qed (use False in auto)
qed

lemma auto_hide_wf_step: "auto_hide_wf c \<Longrightarrow> auto_hide_wf (snd (auto_hide_step c x))"
  by (cases x) (auto simp: AutoHide_SetPointerInside_def AutoHide_SetKeyboardFocusInside_def
      auto_hide_flags intro: preserves)

interpretation auto_hide_machine: machine auto_hide_step auto_hide_wf
  by unfold_locales (rule auto_hide_wf_step)

section \<open>Completion\<close>

text \<open>Milliseconds until the pending animation is complete.\<close>

definition time_left :: "DockAutoHideController \<Rightarrow> int" where
  "time_left c = (case as_state (ac_state c) of
     AH_waiting_to_show \<Rightarrow> ao_show_delay (ac_options c) - ac_phase c + ao_animation (ac_options c)
   | AH_showing \<Rightarrow> ao_animation (ac_options c) - ac_phase c
   | AH_waiting_to_hide \<Rightarrow> ao_hide_delay (ac_options c) - ac_phase c + ao_animation (ac_options c)
   | AH_hiding \<Rightarrow> ao_animation (ac_options c) - ac_phase c
   | _ \<Rightarrow> 0)"

definition hiding_phase :: "DockAutoHideController \<Rightarrow> bool" where
  "hiding_phase c \<longleftrightarrow> as_state (ac_state c) \<in> {AH_waiting_to_hide, AH_hiding} \<and> \<not> AutoHide_KeepsOpen c"

definition showing_phase :: "DockAutoHideController \<Rightarrow> bool" where
  "showing_phase c \<longleftrightarrow> as_state (ac_state c) \<in> {AH_waiting_to_show, AH_showing}"

lemma keeps_open_simps [simp]:
  "AutoHide_KeepsOpen (set_phase_state st p k c) = AutoHide_KeepsOpen c"
  "AutoHide_KeepsOpen (c\<lparr>ac_phase := k\<rparr>) = AutoHide_KeepsOpen c"
  by (simp_all add: AutoHide_KeepsOpen_def)

lemma advance_hiding_step:
  assumes "0 \<le> ao_animation (ac_options c)" "\<not> AutoHide_KeepsOpen c" "k \<le> 100000"
  shows "as_state (ac_state (advance_hiding k c)) = AH_hidden
    \<or> hiding_phase (advance_hiding k c) \<and> time_left (advance_hiding k c) = ao_animation (ac_options c) - k
      \<and> k < ao_animation (ac_options c)"
  using hiding_progress [OF assms(1) _ assms(3)] assms
  by (cases "ao_animation (ac_options c) \<le> k")
    (auto simp: advance_hiding_def Let_def AutoHide_Reset_def hidden_snapshot_def hiding_phase_def time_left_def)

lemma advance_showing_step:
  assumes "0 \<le> ao_animation (ac_options c)" "k \<le> 100000"
  shows "as_state (ac_state (advance_showing k c)) = AH_shown
    \<or> showing_phase (advance_showing k c) \<and> time_left (advance_showing k c) = ao_animation (ac_options c) - k
      \<and> k < ao_animation (ac_options c)"
  using fraction_complete [OF assms(1) _ assms(2)]
  by (cases "ao_animation (ac_options c) \<le> k")
    (auto simp: advance_showing_def Let_def showing_phase_def time_left_def)

lemma advance_hides:
  assumes "auto_hide_wf c" "hiding_phase c" "0 < e"
  shows "as_state (ac_state (AutoHide_Advance e c)) = AH_hidden
    \<or> hiding_phase (AutoHide_Advance e c) \<and> 0 < time_left (AutoHide_Advance e c)
      \<and> time_left (AutoHide_Advance e c) \<le> time_left c - min e maximum_duration"
proof -
  have a: "0 \<le> ao_animation (ac_options c)" and b: "ac_phase c \<le> 2 * maximum_duration"
    using assms(1) by (auto simp: auto_hide_wf_defs)
  have o: "\<not> AutoHide_KeepsOpen c" using assms(2) by (simp add: hiding_phase_def)
  let ?k = "ac_phase c + min e maximum_duration"
  consider (wait) "as_state (ac_state c) = AH_waiting_to_hide" | (hide) "as_state (ac_state c) = AH_hiding"
    using assms(2) by (auto simp: hiding_phase_def)
  then show ?thesis
  proof cases
    case wait
    show ?thesis
    proof (cases "?k < ao_hide_delay (ac_options c)")
      case True
      then have "AutoHide_Advance e c = c\<lparr>ac_phase := ?k\<rparr>"
        using wait o assms(3) by (simp add: AutoHide_Advance_def Let_def)
      then show ?thesis using True a o wait by (simp add: hiding_phase_def time_left_def)
    next
      case False
      then have "AutoHide_Advance e c = advance_hiding (?k - ao_hide_delay (ac_options c)) c"
        using wait o assms(3) by (simp add: AutoHide_Advance_def Let_def)
      moreover have "0 \<le> ao_hide_delay (ac_options c)" using assms(1) by (simp add: auto_hide_wf_defs)
      then have "?k - ao_hide_delay (ac_options c) \<le> 100000"
        using b by (simp add: maximum_duration_def)
      ultimately show ?thesis using advance_hiding_step [OF a o] wait by (fastforce simp: time_left_def)
    qed
  next
    case hide
    then have "AutoHide_Advance e c = advance_hiding ?k c"
      using assms(3) by (simp add: AutoHide_Advance_def Let_def)
    moreover have "?k \<le> 100000" using b by (simp add: maximum_duration_def)
    ultimately show ?thesis using advance_hiding_step [OF a o] hide by (fastforce simp: time_left_def)
  qed
qed

lemma advance_shows:
  assumes "auto_hide_wf c" "showing_phase c" "0 < e"
  shows "as_state (ac_state (AutoHide_Advance e c)) = AH_shown
    \<or> showing_phase (AutoHide_Advance e c) \<and> 0 < time_left (AutoHide_Advance e c)
      \<and> time_left (AutoHide_Advance e c) \<le> time_left c - min e maximum_duration"
proof -
  have a: "0 \<le> ao_animation (ac_options c)" and b: "ac_phase c \<le> 2 * maximum_duration"
    using assms(1) by (auto simp: auto_hide_wf_defs)
  let ?k = "ac_phase c + min e maximum_duration"
  consider (wait) "as_state (ac_state c) = AH_waiting_to_show" | (display) "as_state (ac_state c) = AH_showing"
    using assms(2) by (auto simp: showing_phase_def)
  then show ?thesis
  proof cases
    case wait
    show ?thesis
    proof (cases "?k < ao_show_delay (ac_options c)")
      case True
      then have "AutoHide_Advance e c = c\<lparr>ac_phase := ?k\<rparr>"
        using wait assms(3) by (simp add: AutoHide_Advance_def Let_def)
      then show ?thesis using True a wait by (simp add: showing_phase_def time_left_def)
    next
      case False
      then have "AutoHide_Advance e c = advance_showing (?k - ao_show_delay (ac_options c)) c"
        using wait assms(3) by (simp add: AutoHide_Advance_def Let_def)
      moreover have "0 \<le> ao_show_delay (ac_options c)" using assms(1) by (simp add: auto_hide_wf_defs)
      then have "?k - ao_show_delay (ac_options c) \<le> 100000"
        using b by (simp add: maximum_duration_def)
      ultimately show ?thesis using advance_showing_step [OF a] wait by (fastforce simp: time_left_def)
    qed
  next
    case display
    then have "AutoHide_Advance e c = advance_showing ?k c"
      using assms(3) by (simp add: AutoHide_Advance_def Let_def)
    moreover have "?k \<le> 100000" using b by (simp add: maximum_duration_def)
    ultimately show ?thesis using advance_showing_step [OF a] display by (fastforce simp: time_left_def)
  qed
qed

lemma advance_settled:
  "as_state (ac_state c) \<in> {AH_hidden, AH_shown} \<Longrightarrow> fold AutoHide_Advance es c = c"
  by (induction es) (auto simp: AutoHide_Advance_def Let_def)

lemma advance_completes:
  assumes step: "\<And>c e. auto_hide_wf c \<Longrightarrow> phase c \<Longrightarrow> 0 < e \<Longrightarrow>
      as_state (ac_state (AutoHide_Advance e c)) = final
      \<or> phase (AutoHide_Advance e c) \<and> 0 < time_left (AutoHide_Advance e c)
        \<and> time_left (AutoHide_Advance e c) \<le> time_left c - min e maximum_duration"
    and final: "final \<in> {AH_hidden, AH_shown}"
  shows "auto_hide_wf c \<Longrightarrow> phase c \<Longrightarrow> es \<noteq> [] \<Longrightarrow> list_all ((<) 0) es \<Longrightarrow>
    time_left c \<le> sum_list (map (min maximum_duration) es) \<Longrightarrow>
    as_state (ac_state (fold AutoHide_Advance es c)) = final"
proof (induction es arbitrary: c)
  case Nil
  then show ?case by simp
next
  case (Cons e es)
  have e: "0 < e" using Cons.prems(4) by simp
  have wf: "auto_hide_wf (AutoHide_Advance e c)" using Cons.prems(1) by (rule auto_hide_advance)
  from step [OF Cons.prems(1,2) e] show ?case
  proof
    assume "as_state (ac_state (AutoHide_Advance e c)) = final"
    then show ?thesis using advance_settled final by simp
  next
    assume h: "phase (AutoHide_Advance e c) \<and> 0 < time_left (AutoHide_Advance e c)
        \<and> time_left (AutoHide_Advance e c) \<le> time_left c - min e maximum_duration"
    then have "0 < sum_list (map (min maximum_duration) es)"
      "time_left (AutoHide_Advance e c) \<le> sum_list (map (min maximum_duration) es)"
      using Cons.prems(5) min.commute [of e maximum_duration] by simp_all
    then show ?thesis using Cons.IH [OF wf] h Cons.prems(4) by (cases "es = []") auto
  qed
qed

section \<open>Properties\<close>

text \<open>The auto-hide controller stays within its bounds.  From valid options, whatever show, hide,
  pointer, focus and timer events arrive with whatever elapsed times, the progress stays between 0 and
  1 in floating-point arithmetic too, it is exactly 1 while shown and 0 while hidden, a panel is
  remembered exactly while the strip is not hidden, and the phase counter stays between 0 and 10000
  milliseconds, so it cannot overflow.\<close>

theorem auto_hide_stays_bounded:
  assumes "AutoHide_new opts = Some c"
  shows "let c' = run_ops auto_hide_step c xs in
    fp_leq (Fin 0) (as_progress (ac_state c')) \<and> fp_leq (as_progress (ac_state c')) (Fin 1)
    \<and> 0 \<le> ac_phase c' \<and> ac_phase c' \<le> 10000
    \<and> (as_state (ac_state c') = AH_hidden \<longleftrightarrow> as_panel (ac_state c') = None)
    \<and> (as_state (ac_state c') = AH_shown \<longrightarrow> as_progress (ac_state c') = Fin 1)
    \<and> (as_state (ac_state c') = AH_hidden \<longrightarrow> as_progress (ac_state c') = Fin 0)"
proof -
  have "auto_hide_wf c" using assms
    by (auto simp: AutoHide_new_def auto_hide_wf_def hidden_snapshot_def unit_interval_iff
        maximum_duration_def split: if_splits)
  from auto_hide_machine.run_inv [OF this, of xs] show ?thesis
    by (simp add: Let_def auto_hide_wf_def unit_interval_def maximum_duration_def)
qed

theorem auto_hide_stays_bounded_witness:
  "ac_phase (run_ops auto_hide_step (the (AutoHide_new \<lparr>ao_show_delay = 250, ao_hide_delay = 500,
      ao_animation = 120\<rparr>)) [Ah_RequestShow 3 Activate_pointer, Ah_Advance 100000]) \<le> 10000"
proof -
  let ?o = "\<lparr>ao_show_delay = 250, ao_hide_delay = 500, ao_animation = 120\<rparr>"
  have "AutoHide_new ?o = Some (the (AutoHide_new ?o))"
    by (simp add: AutoHide_new_def DockAutoHideOptions_IsValid_def maximum_duration_def)
  from auto_hide_stays_bounded [OF this] show ?thesis unfolding Let_def by blast
qed

text \<open>C11: A pending show or hide always completes.  Once a hide is pending and neither the pointer nor
  the focus keeps the panel open, timer ticks of positive length, each counted with at most five
  seconds, that add up to the hide delay plus the animation leave the strip hidden; a pending show
  likewise ends shown after the show delay plus the animation.\<close>

theorem auto_hide_completes:
  assumes "auto_hide_wf c" and "es \<noteq> []" and "list_all ((<) 0) es"
  shows "(hiding_phase c \<and> ao_hide_delay (ac_options c) + ao_animation (ac_options c)
        \<le> sum_list (map (min maximum_duration) es)
      \<longrightarrow> as_state (ac_state (fold AutoHide_Advance es c)) = AH_hidden)
    \<and> (showing_phase c \<and> ao_show_delay (ac_options c) + ao_animation (ac_options c)
        \<le> sum_list (map (min maximum_duration) es)
      \<longrightarrow> as_state (ac_state (fold AutoHide_Advance es c)) = AH_shown)"
proof -
  have left: "hiding_phase c \<Longrightarrow> time_left c \<le> ao_hide_delay (ac_options c) + ao_animation (ac_options c)"
    "showing_phase c \<Longrightarrow> time_left c \<le> ao_show_delay (ac_options c) + ao_animation (ac_options c)"
    using assms(1) by (auto simp: hiding_phase_def showing_phase_def time_left_def auto_hide_wf_defs)
  show ?thesis
    using advance_completes [of hiding_phase AH_hidden c es, OF advance_hides _ assms(1) _ assms(2,3)]
      advance_completes [of showing_phase AH_shown c es, OF advance_shows _ assms(1) _ assms(2,3)] left
    by fastforce
qed

definition example_auto_hide :: DockAutoHideController where
  "example_auto_hide = \<lparr>ac_options = \<lparr>ao_show_delay = 250, ao_hide_delay = 500, ao_animation = 120\<rparr>,
     ac_state = \<lparr>as_state = AH_waiting_to_hide, as_panel = Some 3, as_progress = Fin 1,
       as_pointer_inside = False, as_focus_inside = False\<rparr>, ac_phase = 0\<rparr>"

theorem auto_hide_completes_witness:
  "as_state (ac_state (fold AutoHide_Advance [600, 100] example_auto_hide)) = AH_hidden"
proof -
  have "auto_hide_wf example_auto_hide"
    by (simp add: example_auto_hide_def auto_hide_wf_defs)
  from auto_hide_completes [OF this, of "[600, 100]"] show ?thesis
    by (simp add: hiding_phase_def AutoHide_KeepsOpen_def example_auto_hide_def maximum_duration_def)
qed

end
