(* ===== verification/Docking_Monitor.thy ===== *)
theory Docking_Monitor
  imports Docking_Auto_Hide Docking_Keyboard
begin

text \<open>
  Recovery of floating placements on the monitors at hand (\<open>src/docking_monitor.cpp\<close>,
  \<open>include/mwfl/docking_monitor.h\<close>).
\<close>

record DockMonitorWorkArea =
  mw_key :: wstring
  mw_x :: fp
  mw_y :: fp
  mw_width :: fp
  mw_height :: fp
  mw_dpi :: u32
  mw_primary :: bool

datatype DockPlacementRecoveryStatus =
    Recovery_unchanged | Recovery_clamped | Recovery_moved_to_available_monitor
  | Recovery_no_monitors | Recovery_invalid_argument

definition DockMonitorWorkArea_IsValid :: "DockMonitorWorkArea \<Rightarrow> bool" where
  "DockMonitorWorkArea_IsValid m \<longleftrightarrow> mw_key m \<noteq> [] \<and> length (mw_key m) \<le> 256
    \<and> isfinite (mw_x m) \<and> isfinite (mw_y m) \<and> isfinite (mw_width m) \<and> isfinite (mw_height m)
    \<and> fp_leq (Fin 80) (mw_width m) \<and> fp_leq (Fin 60) (mw_height m)
    \<and> fp_leq (mw_width m) (Fin 100000) \<and> fp_leq (mw_height m) (Fin 100000)
    \<and> 48 \<le> mw_dpi m \<and> mw_dpi m \<le> 960"

definition SamePlacement :: "DockFloatingPlacement \<Rightarrow> DockFloatingPlacement \<Rightarrow> bool" where
  "SamePlacement l r \<longleftrightarrow> fp_eq (fl_x l) (fl_x r) \<and> fp_eq (fl_y l) (fl_y r)
    \<and> fp_eq (fl_width l) (fl_width r) \<and> fp_eq (fl_height l) (fl_height r)
    \<and> fl_monitor_key l = fl_monitor_key r"

definition DistanceSquared :: "fp \<Rightarrow> fp \<Rightarrow> DockMonitorWorkArea \<Rightarrow> fp" where
  "DistanceSquared x y m =
    (let center_x = dbl_add (mw_x m) (dbl_div_by (mw_width m) 2);
         center_y = dbl_add (mw_y m) (dbl_div_by (mw_height m) 2);
         dx = dbl_sub x center_x; dy = dbl_sub y center_y
     in dbl_add (dbl_mul dx dx) (dbl_mul dy dy))"

fun nearest_monitor ::
  "fp \<Rightarrow> fp \<Rightarrow> DockMonitorWorkArea option \<times> fp \<Rightarrow> DockMonitorWorkArea list \<Rightarrow> DockMonitorWorkArea option"
where
  "nearest_monitor x y (target, nearest) [] = target"
| "nearest_monitor x y (target, nearest) (m # ms) =
    (let distance = DistanceSquared x y m in
     if fp_less distance nearest \<or> (case target of None \<Rightarrow> False
         | Some t \<Rightarrow> fp_eq distance nearest \<and> mw_primary m \<and> \<not> mw_primary t)
     then nearest_monitor x y (Some m, distance) ms
     else nearest_monitor x y (target, nearest) ms)"

definition default_placement :: DockFloatingPlacement where
  "default_placement = \<lparr>fl_x = Fin 80, fl_y = Fin 80, fl_width = Fin 480, fl_height = Fin 360,
     fl_monitor_key = []\<rparr>"

text \<open>The upper bounds of the two position clamps.\<close>

definition position_limit :: "fp \<Rightarrow> fp \<Rightarrow> fp \<Rightarrow> fp" where
  "position_limit start extent used = dbl_sub (dbl_add start extent) used"

definition place_on_monitor :: "DockMonitorWorkArea \<Rightarrow> DockFloatingPlacement \<Rightarrow> DockFloatingPlacement" where
  "place_on_monitor m saved =
    (let width = fp_clamp (fl_width saved) (Fin 80) (mw_width m);
         height = fp_clamp (fl_height saved) (Fin 60) (mw_height m)
     in \<lparr>fl_x = fp_clamp (fl_x saved) (mw_x m) (position_limit (mw_x m) (mw_width m) width),
         fl_y = fp_clamp (fl_y saved) (mw_y m) (position_limit (mw_y m) (mw_height m) height),
         fl_width = width, fl_height = height, fl_monitor_key = mw_key m\<rparr>)"

definition RecoverDockFloatingPlacement ::
  "DockFloatingPlacement \<Rightarrow> DockMonitorWorkArea list \<Rightarrow> DockPlacementRecoveryStatus \<times> DockFloatingPlacement" where
  "RecoverDockFloatingPlacement saved monitors =
    (if \<not> DockFloatingPlacement_IsValid saved then (Recovery_invalid_argument, default_placement)
     else if monitors = [] then (Recovery_no_monitors, default_placement)
     else if \<exists>m \<in> set monitors. \<not> DockMonitorWorkArea_IsValid m
     then (Recovery_invalid_argument, default_placement)
     else let named = find (\<lambda>m. mw_key m = fl_monitor_key saved) monitors;
              target = (case named of Some m \<Rightarrow> Some m
                | None \<Rightarrow> nearest_monitor (dbl_add (fl_x saved) (dbl_div_by (fl_width saved) 2))
                    (dbl_add (fl_y saved) (dbl_div_by (fl_height saved) 2)) (None, dbl_max) monitors)
       in case target of
            None \<Rightarrow> (Recovery_no_monitors, default_placement)
          | Some m \<Rightarrow>
              let recovered = place_on_monitor m saved in
              (if named = None then Recovery_moved_to_available_monitor
               else if SamePlacement saved recovered then Recovery_unchanged else Recovery_clamped,
               recovered))"

section \<open>Bounded arithmetic\<close>

definition bounded_by :: "rat \<Rightarrow> fp \<Rightarrow> bool" where
  "bounded_by b x \<longleftrightarrow> (\<exists>r. x = Fin r \<and> \<bar>r\<bar> \<le> b)"

lemma bounded_by_dbl: "\<bar>q\<bar> \<le> b \<Longrightarrow> b \<le> 2 ^ 1000 \<Longrightarrow> bounded_by (2 * b + 1) (dbl q)"
  using dbl_finite [of q] by (fastforce simp: bounded_by_def)

lemma bounded_by_add:
  assumes "bounded_by a x" "bounded_by b y" "a + b \<le> 2 ^ 1000"
  shows "bounded_by (2 * (a + b) + 1) (dbl_add x y)"
proof -
  obtain r s where "x = Fin r" "y = Fin s" "\<bar>r\<bar> \<le> a" "\<bar>s\<bar> \<le> b" using assms by (auto simp: bounded_by_def)
  then show ?thesis using bounded_by_dbl [of "r + s" "a + b"] assms(3) by simp
qed

lemma bounded_by_sub:
  assumes "bounded_by a x" "bounded_by b y" "a + b \<le> 2 ^ 1000"
  shows "bounded_by (2 * (a + b) + 1) (dbl_sub x y)"
proof -
  have "bounded_by b (fp_neg y)" using assms(2) by (auto simp: bounded_by_def)
  then show ?thesis using bounded_by_add [OF assms(1) _ assms(3)] by (simp add: dbl_sub_def)
qed

lemma bounded_by_square:
  assumes "bounded_by a x" "a * a \<le> 2 ^ 1000"
  shows "bounded_by (2 * (a * a) + 1) (dbl_mul x x)"
proof -
  obtain r where r: "x = Fin r" "\<bar>r\<bar> \<le> a" using assms by (auto simp: bounded_by_def)
  have "\<bar>r * r\<bar> \<le> a * a" unfolding abs_mult using r(2) by (intro mult_mono) auto
  then show ?thesis using bounded_by_dbl [of "r * r" "a * a"] assms(2) r by simp
qed

lemma bounded_by_half: "bounded_by b x \<Longrightarrow> b \<le> 2 ^ 1000 \<Longrightarrow> bounded_by (b + 1) (dbl_div_by x 2)"
  using bounded_by_dbl [of "_ / 2" "b / 2"] by (auto simp: bounded_by_def dbl_div_by_def)

lemma bounded_by_mono: "bounded_by a x \<Longrightarrow> a \<le> b \<Longrightarrow> bounded_by b x"
  by (auto simp: bounded_by_def)

lemma centre_within:
  assumes "bounded_by (2 ^ 40) x" "bounded_by 100000 w"
  shows "bounded_by (2 ^ 42) (dbl_add x (dbl_div_by w 2))"
proof -
  have half: "bounded_by 100001 (dbl_div_by w 2)" using bounded_by_half [OF assms(2)] by simp
  show ?thesis by (rule bounded_by_mono [OF bounded_by_add [OF assms(1) half]]) simp_all
qed

lemma distance_less_max:
  assumes "bounded_by (2 ^ 42) x" "bounded_by (2 ^ 42) y" "bounded_by (2 ^ 40) (mw_x m)" "bounded_by (2 ^ 40) (mw_y m)"
    and "bounded_by 100000 (mw_width m)" "bounded_by 100000 (mw_height m)"
  shows "fp_less (DistanceSquared x y m) dbl_max"
proof -
  have sq: "bounded_by (2 ^ 94) (dbl_mul (dbl_sub u (dbl_add v (dbl_div_by w 2))) (dbl_sub u (dbl_add v (dbl_div_by w 2))))"
    if "bounded_by (2 ^ 42) u" "bounded_by (2 ^ 40) v" "bounded_by 100000 w" for u v w
  proof -
    have diff: "bounded_by (2 ^ 45) (dbl_sub u (dbl_add v (dbl_div_by w 2)))"
      by (rule bounded_by_mono [OF bounded_by_sub [OF that(1) centre_within [OF that(2,3)]]]) simp_all
    show ?thesis by (rule bounded_by_mono [OF bounded_by_square [OF diff]]) simp_all
  qed
  have "bounded_by (2 ^ 100) (DistanceSquared x y m)"
    unfolding DistanceSquared_def Let_def
    by (rule bounded_by_mono [OF bounded_by_add [OF sq [OF assms(1,3,5)] sq [OF assms(2,4,6)]]]) simp_all
  then obtain r where r: "DistanceSquared x y m = Fin r" "\<bar>r\<bar> \<le> 2 ^ 100" by (auto simp: bounded_by_def)
  have "(2 ^ 100 :: rat) < 2 ^ 1024 - 2 ^ 971" by simp
  with r show ?thesis by (simp add: dbl_max_def)
qed

lemma nearest_member:
  "nearest_monitor x y (t, d) ms = Some m \<Longrightarrow> t = Some m \<or> m \<in> set ms"
  by (induction ms arbitrary: t d) (auto simp: Let_def split: if_splits)

lemma nearest_stays: "nearest_monitor x y (Some t, d) ms \<noteq> None"
  by (induction ms arbitrary: t d) (auto simp: Let_def)

section \<open>Containment along one axis\<close>

definition whole :: "fp \<Rightarrow> bool" where
  "whole x \<longleftrightarrow> (\<exists>n :: int. x = Fin (of_int n) \<and> \<bar>n\<bar> \<le> 2 ^ 40)"

lemma dbl_whole: "\<bar>n\<bar> \<le> 2 ^ 42 \<Longrightarrow> dbl (of_int n) = Fin (of_int n)"
proof -
  assume n: "\<bar>n\<bar> \<le> 2 ^ 42"
  then have "(of_int \<bar>n\<bar> :: rat) \<le> of_int (2 ^ 42)" by (simp only: of_int_le_iff)
  also have "\<dots> = pow2 42" by (simp add: pow2_def)
  also have "\<dots> < pow2 43" using pow2_Suc [of 42] pow2_pos [of 42] by simp
  also have "\<dots> \<le> pow2 1024" by (rule pow2_mono) simp
  finally have "\<bar>of_int n * pow2 0\<bar> < pow2 1024" by simp
  from dbl_exact [OF _ _ this] n show ?thesis by simp
qed

lemma clamp_whole:
  assumes "0 \<le> lo" "lo \<le> b" "\<bar>c\<bar> \<le> 2 ^ 40"
  shows "fp_clamp (Fin (of_int c)) (Fin (of_int lo)) (Fin (of_int b)) = Fin (of_int (max lo (min c b)))"
  using assms by (auto simp: fp_clamp_def max_def min_def)

lemma axis_contained:
  assumes "\<bar>a\<bar> \<le> 2 ^ 40" "0 \<le> lo" "lo \<le> b" "b \<le> 100000" "\<bar>c\<bar> \<le> 2 ^ 40" "isfinite x"
  defines "w \<equiv> max lo (min c b)"
  shows "\<exists>r. fp_clamp x (Fin (of_int a)) (position_limit (Fin (of_int a)) (Fin (of_int b)) (Fin (of_int w)))
      = Fin r \<and> of_int a \<le> r \<and> r + of_int w \<le> of_int a + of_int b"
proof -
  have w: "lo \<le> w" "w \<le> b" using assms by (auto simp: w_def)
  have "dbl (of_int a + of_int b) = Fin (of_int (a + b))"
    using dbl_whole [of "a + b"] assms by simp
  moreover have "dbl (of_int (a + b) + - of_int w) = Fin (of_int (a + b - w))"
    using dbl_whole [of "a + b - w"] assms w by simp
  ultimately have lim: "position_limit (Fin (of_int a)) (Fin (of_int b)) (Fin (of_int w))
      = Fin (of_int (a + b - w))"
    by (simp add: position_limit_def dbl_sub_def)
  have le: "(of_int a :: rat) \<le> of_int (a + b - w)" using w by (simp only: of_int_le_iff)
  obtain q where q: "x = Fin q" using assms(6) by (rule isfiniteE)
  show ?thesis unfolding lim q
    using le by (auto simp: fp_clamp_def)
qed

section \<open>Properties\<close>

text \<open>A placement lies in the work area of a monitor.\<close>

definition placed_on :: "DockMonitorWorkArea \<Rightarrow> DockFloatingPlacement \<Rightarrow> bool" where
  "placed_on m p \<longleftrightarrow> (\<exists>mx my mw mh x y w h.
     mw_x m = Fin mx \<and> mw_y m = Fin my \<and> mw_width m = Fin mw \<and> mw_height m = Fin mh
     \<and> fl_x p = Fin x \<and> fl_y p = Fin y \<and> fl_width p = Fin w \<and> fl_height p = Fin h
     \<and> mx \<le> x \<and> x + w \<le> mx + mw \<and> my \<le> y \<and> y + h \<le> my + mh
     \<and> 80 \<le> w \<and> 60 \<le> h \<and> fl_monitor_key p = mw_key m)"

lemma place_contained:
  assumes "whole (mw_x m)" "whole (mw_y m)" "whole (mw_width m)" "whole (mw_height m)"
    and "whole (fl_width p)" "whole (fl_height p)"
    and "DockMonitorWorkArea_IsValid m" "DockFloatingPlacement_IsValid p"
  shows "placed_on m (place_on_monitor m p)"
proof -
  obtain a b c d e f :: int where v: "mw_x m = Fin (of_int a)" "mw_y m = Fin (of_int b)"
    "mw_width m = Fin (of_int c)" "mw_height m = Fin (of_int d)"
    "fl_width p = Fin (of_int e)" "fl_height p = Fin (of_int f)"
    "\<bar>a\<bar> \<le> 2 ^ 40" "\<bar>b\<bar> \<le> 2 ^ 40" "\<bar>e\<bar> \<le> 2 ^ 40" "\<bar>f\<bar> \<le> 2 ^ 40"
    using assms(1-6) unfolding whole_def by blast
  have cd: "80 \<le> c" "c \<le> 100000" "60 \<le> d" "d \<le> 100000"
    using assms(7) v(3,4) by (simp_all add: DockMonitorWorkArea_IsValid_def)
  have fin: "isfinite (fl_x p)" "isfinite (fl_y p)"
    using assms(8) by (simp_all add: DockFloatingPlacement_IsValid_def)
  have w: "fp_clamp (Fin (of_int e)) (Fin 80) (Fin (of_int c)) = Fin (of_int (max 80 (min e c)))"
    using clamp_whole [of 80 c e] v(9) cd by simp
  have h: "fp_clamp (Fin (of_int f)) (Fin 60) (Fin (of_int d)) = Fin (of_int (max 60 (min f d)))"
    using clamp_whole [of 60 d f] v(10) cd by simp
  obtain x where x: "fp_clamp (fl_x p) (Fin (of_int a)) (position_limit (Fin (of_int a)) (Fin (of_int c))
      (Fin (of_int (max 80 (min e c))))) = Fin x" "of_int a \<le> x"
    "x + of_int (max 80 (min e c)) \<le> of_int a + of_int c"
    using axis_contained [OF v(7) _ cd(1,2) v(9) fin(1)] by auto
  obtain y where y: "fp_clamp (fl_y p) (Fin (of_int b)) (position_limit (Fin (of_int b)) (Fin (of_int d))
      (Fin (of_int (max 60 (min f d))))) = Fin y" "of_int b \<le> y"
    "y + of_int (max 60 (min f d)) \<le> of_int b + of_int d"
    using axis_contained [OF v(8) _ cd(3,4) v(10) fin(2)] by auto
  have "(80 :: rat) \<le> of_int (max 80 (min e c))" "(60 :: rat) \<le> of_int (max 60 (min f d))" by simp_all
  with x y show ?thesis unfolding placed_on_def place_on_monitor_def Let_def v w h by simp
qed

text \<open>C12: A recovered floating window is completely on a monitor.  For a valid saved placement not
  further than \<open>2 ^ 40\<close> away and valid monitors, with whole sizes and monitor origins, recovery
  succeeds and places the window inside the work area of one of the monitors, at least 80 by 60 DIPs
  large: on the monitor it was saved for if that is still there, and the status says whether the window
  had to move to another monitor.\<close>

theorem recovery_places_on_monitor:
  assumes "DockFloatingPlacement_IsValid saved" and "ms \<noteq> []" and "list_all DockMonitorWorkArea_IsValid ms"
    and "list_all (\<lambda>m. whole (mw_x m) \<and> whole (mw_y m) \<and> whole (mw_width m) \<and> whole (mw_height m)) ms"
    and "whole (fl_width saved) \<and> whole (fl_height saved)"
    and "bounded_by (2 ^ 40) (fl_x saved) \<and> bounded_by (2 ^ 40) (fl_y saved)"
  shows "case RecoverDockFloatingPlacement saved ms of (status, p) \<Rightarrow>
    (\<exists>m \<in> set ms. placed_on m p
      \<and> (fl_monitor_key saved \<in> mw_key ` set ms \<longrightarrow> mw_key m = fl_monitor_key saved))
    \<and> (status = Recovery_moved_to_available_monitor \<longleftrightarrow> fl_monitor_key saved \<notin> mw_key ` set ms)
    \<and> status \<in> {Recovery_unchanged, Recovery_clamped, Recovery_moved_to_available_monitor}"
proof -
  let ?named = "find (\<lambda>m. mw_key m = fl_monitor_key saved) ms"
  let ?near = "nearest_monitor (dbl_add (fl_x saved) (dbl_div_by (fl_width saved) 2))
    (dbl_add (fl_y saved) (dbl_div_by (fl_height saved) 2)) (None, dbl_max) ms"
  have valid: "\<not> (\<exists>m \<in> set ms. \<not> DockMonitorWorkArea_IsValid m)" using assms(3) by (simp add: list_all_iff)
  have on: "placed_on m (place_on_monitor m saved)" if "m \<in> set ms" for m
    using that assms by (intro place_contained) (auto simp: list_all_iff)
  note simps = RecoverDockFloatingPlacement_def assms(1,2) valid Let_def
  show ?thesis
  proof (cases ?named)
    case (Some m)
    then have m: "m \<in> set ms" "mw_key m = fl_monitor_key saved" by (auto simp: find_Some_iff)
    then have "fl_monitor_key saved \<in> mw_key ` set ms" by (metis image_eqI)
    with Some m on show ?thesis using assms(1,2) valid by (auto simp: RecoverDockFloatingPlacement_def Let_def)
  next
    case None
    then have none: "fl_monitor_key saved \<notin> mw_key ` set ms" by (auto simp: find_None_iff)
    obtain m0 rest where ms: "ms = m0 # rest" using assms(2) by (cases ms) auto
    have size: "bounded_by 100000 (mw_width m0)" "bounded_by 100000 (mw_height m0)"
      using assms(3) ms by (auto simp: bounded_by_def DockMonitorWorkArea_IsValid_def elim!: isfiniteE)
    have sized: "bounded_by 100000 (fl_width saved)" "bounded_by 100000 (fl_height saved)"
      using assms(1) by (auto simp: bounded_by_def DockFloatingPlacement_IsValid_def elim!: isfiniteE)
    have pos: "bounded_by (2 ^ 40) (mw_x m0)" "bounded_by (2 ^ 40) (mw_y m0)"
    proof -
      have "(of_int \<bar>n\<bar> :: rat) \<le> of_int (2 ^ 40)" if "\<bar>n\<bar> \<le> 2 ^ 40" for n
        using that by (simp only: of_int_le_iff)
      then show "bounded_by (2 ^ 40) (mw_x m0)" "bounded_by (2 ^ 40) (mw_y m0)"
        using assms(4) ms by (auto simp: whole_def bounded_by_def)
    qed
    have "fp_less (DistanceSquared (dbl_add (fl_x saved) (dbl_div_by (fl_width saved) 2))
        (dbl_add (fl_y saved) (dbl_div_by (fl_height saved) 2)) m0) dbl_max"
      using assms(6) sized size pos by (intro distance_less_max centre_within) auto
    then have "?near \<noteq> None" unfolding ms by (simp add: Let_def nearest_stays)
    then obtain m where m: "?near = Some m" by blast
    then have "m \<in> set ms" using nearest_member by fastforce
    with None none m on show ?thesis using assms(1,2) valid
      by (auto simp: RecoverDockFloatingPlacement_def Let_def)
  qed
qed

definition example_monitor :: DockMonitorWorkArea where
  "example_monitor = \<lparr>mw_key = lit ''m'', mw_x = Fin 0, mw_y = Fin 0, mw_width = Fin 1920,
     mw_height = Fin 1080, mw_dpi = 96, mw_primary = True\<rparr>"

definition example_placement :: DockFloatingPlacement where
  "example_placement = \<lparr>fl_x = Fin 5000, fl_y = Fin (- 300), fl_width = Fin 480, fl_height = Fin 2000,
     fl_monitor_key = lit ''gone''\<rparr>"

theorem recovery_places_on_monitor_witness:
  "placed_on example_monitor (snd (RecoverDockFloatingPlacement example_placement [example_monitor]))"
proof -
  have whole: "whole (Fin (of_int n))" if "\<bar>n\<bar> \<le> 2 ^ 40" for n using that by (auto simp: whole_def)
  have w: "whole (Fin 0)" "whole (Fin 1920)" "whole (Fin 1080)" "whole (Fin 480)" "whole (Fin 2000)"
    using whole [of 0] whole [of 1920] whole [of 1080] whole [of 480] whole [of 2000] by simp_all
  have "case RecoverDockFloatingPlacement example_placement [example_monitor] of (status, p) \<Rightarrow>
    (\<exists>m \<in> set [example_monitor]. placed_on m p
      \<and> (fl_monitor_key example_placement \<in> mw_key ` set [example_monitor]
        \<longrightarrow> mw_key m = fl_monitor_key example_placement))
    \<and> (status = Recovery_moved_to_available_monitor \<longleftrightarrow>
        fl_monitor_key example_placement \<notin> mw_key ` set [example_monitor])
    \<and> status \<in> {Recovery_unchanged, Recovery_clamped, Recovery_moved_to_available_monitor}"
    by (rule recovery_places_on_monitor)
      (simp_all add: DockFloatingPlacement_IsValid_def DockMonitorWorkArea_IsValid_def example_monitor_def
        example_placement_def w bounded_by_def)
  then show ?thesis by (simp add: split_beta)
qed

end
