(* ===== verification/Text_File.thy ===== *)
theory Text_File
  imports Prelude
begin

text \<open>
  Text files (\<open>src/text_file.cpp\<close>, \<open>include/mwfl/text_file.h\<close>): the four encodings, reading with
  a stable stamp, and the write through a temporary sibling that replaces the destination.

  The Windows calls are the parameter \<open>file_api\<close>: functions of the state \<open>'w\<close> of the system, with
  \<open>api_last_error\<close> for \<open>GetLastError\<close>.  An open file is a handle of type \<open>'h\<close>; the destructors of
  \<open>FileHandle\<close> are the explicit calls of \<open>api_close\<close>.
\<close>

datatype TextEncoding = Encoding_utf8 | Encoding_utf8_bom | Encoding_utf16_le | Encoding_utf16_be

datatype TextFileStatus =
    File_success | File_not_found | File_access_denied | File_invalid_encoding | File_changed | File_io_error

record FileStamp =
  fs_size :: u64
  fs_last_write_time :: u64
  fs_file_id :: u64
  fs_volume_serial :: u32

record TextFile =
  tf_text :: wstring
  tf_encoding :: TextEncoding
  tf_stamp :: FileStamp

text \<open>\<open>BY_HANDLE_FILE_INFORMATION\<close>: the fields the code reads.\<close>

record FileInformation =
  fi_size_low :: u32
  fi_size_high :: u32
  fi_time_low :: u32
  fi_time_high :: u32
  fi_index_low :: u32
  fi_index_high :: u32
  fi_volume :: u32

datatype file_mode = Open_for_reading | Open_for_checking | Create_new

record ('h, 'w) file_api =
  api_create :: "wstring \<Rightarrow> file_mode \<Rightarrow> 'w \<Rightarrow> 'h option \<times> 'w"
  api_information :: "'h \<Rightarrow> 'w \<Rightarrow> FileInformation option \<times> 'w"
  api_read :: "'h \<Rightarrow> nat \<Rightarrow> 'w \<Rightarrow> u8 list option \<times> 'w"
  api_write :: "'h \<Rightarrow> u8 list \<Rightarrow> 'w \<Rightarrow> nat option \<times> 'w"
  api_flush :: "'h \<Rightarrow> 'w \<Rightarrow> bool \<times> 'w"
  api_close :: "'h \<Rightarrow> 'w \<Rightarrow> 'w"
  api_delete :: "wstring \<Rightarrow> 'w \<Rightarrow> 'w"
  api_move :: "wstring \<Rightarrow> wstring \<Rightarrow> 'w \<Rightarrow> bool \<times> 'w"
  api_last_error :: "'w \<Rightarrow> u32"
  api_process_id :: u32
  api_utf8_decode :: "u8 list \<Rightarrow> wstring option"
  api_utf8_encode :: "wstring \<Rightarrow> u8 list option"

definition StatusFromError :: "u32 \<Rightarrow> TextFileStatus" where
  "StatusFromError e = (if e = 2 \<or> e = 3 then File_not_found
     else if e = 5 \<or> e = 32 then File_access_denied else File_io_error)"

definition ToUint64 :: "u32 \<Rightarrow> u32 \<Rightarrow> u64" where
  "ToUint64 low high = push_bit 32 (ucast high) OR ucast low"

definition QueryStamp :: "('h, 'w) file_api \<Rightarrow> 'h \<Rightarrow> 'w \<Rightarrow> (u32 + FileStamp) \<times> 'w" where
  "QueryStamp api h w =
    (case api_information api h w of
       (None, w1) \<Rightarrow> (Inl (api_last_error api w1), w1)
     | (Some i, w1) \<Rightarrow> (Inr \<lparr>fs_size = ToUint64 (fi_size_low i) (fi_size_high i),
          fs_last_write_time = ToUint64 (fi_time_low i) (fi_time_high i),
          fs_file_id = ToUint64 (fi_index_low i) (fi_index_high i),
          fs_volume_serial = fi_volume i\<rparr>, w1))"

section \<open>Encodings\<close>

definition is_high_surrogate :: "wchar \<Rightarrow> bool" where
  "is_high_surrogate c \<longleftrightarrow> 0xD800 \<le> c \<and> c \<le> 0xDBFF"

definition is_low_surrogate :: "wchar \<Rightarrow> bool" where
  "is_low_surrogate c \<longleftrightarrow> 0xDC00 \<le> c \<and> c \<le> 0xDFFF"

fun IsValidUtf16 :: "wstring \<Rightarrow> bool" where
  "IsValidUtf16 [] = True"
| "IsValidUtf16 (c # cs) =
    (if is_high_surrogate c then (case cs of [] \<Rightarrow> False | d # ds \<Rightarrow> is_low_surrogate d \<and> IsValidUtf16 ds)
     else \<not> is_low_surrogate c \<and> IsValidUtf16 cs)"

definition maximum_int :: nat where
  "maximum_int = 2 ^ 31 - 1"

definition DecodeUtf8 :: "('h, 'w) file_api \<Rightarrow> u8 list \<Rightarrow> wstring option" where
  "DecodeUtf8 api bytes = (if maximum_int < length bytes then None
     else if bytes = [] then Some [] else api_utf8_decode api bytes)"

fun join_bytes :: "bool \<Rightarrow> u8 list \<Rightarrow> wstring" where
  "join_bytes big (x # y # rest) =
    (if big then push_bit 8 (ucast x) OR ucast y else ucast x OR push_bit 8 (ucast y)) # join_bytes big rest"
| "join_bytes big _ = []"

definition DecodeUtf16 :: "bool \<Rightarrow> u8 list \<Rightarrow> wstring option" where
  "DecodeUtf16 big bytes = (if odd (length bytes) then None
     else let out = join_bytes big bytes in if IsValidUtf16 out then Some out else None)"

definition split_unit :: "bool \<Rightarrow> wchar \<Rightarrow> u8 list" where
  "split_unit big c = (if big then [ucast (drop_bit 8 c), ucast (c AND 0xFF)]
     else [ucast (c AND 0xFF), ucast (drop_bit 8 c)])"

definition Encode :: "('h, 'w) file_api \<Rightarrow> wstring \<Rightarrow> TextEncoding \<Rightarrow> u8 list option" where
  "Encode api s encoding =
    (if \<not> IsValidUtf16 s then None
     else if encoding = Encoding_utf8 \<or> encoding = Encoding_utf8_bom then
       if maximum_int < length s then None
       else map_option (\<lambda>b. (if encoding = Encoding_utf8_bom then [0xEF, 0xBB, 0xBF] else []) @ b)
         (if s = [] then Some [] else api_utf8_encode api s)
     else let big = (encoding = Encoding_utf16_be)
       in Some ((if big then [0xFE, 0xFF] else [0xFF, 0xFE]) @ concat (map (split_unit big) s)))"

text \<open>The choice of the decoder by the first bytes.\<close>

definition decode_file :: "('h, 'w) file_api \<Rightarrow> u8 list \<Rightarrow> TextEncoding \<times> wstring option" where
  "decode_file api bytes =
    (if take 2 bytes = [0xFF, 0xFE] then (Encoding_utf16_le, DecodeUtf16 False (drop 2 bytes))
     else if take 2 bytes = [0xFE, 0xFF] then (Encoding_utf16_be, DecodeUtf16 True (drop 2 bytes))
     else if take 3 bytes = [0xEF, 0xBB, 0xBF] then (Encoding_utf8_bom, DecodeUtf8 api (drop 3 bytes))
     else (Encoding_utf8, DecodeUtf8 api bytes))"

section \<open>Reading and writing all bytes\<close>

definition maximum_dword :: nat where
  "maximum_dword = 2 ^ 32 - 1"

lemma maximum_dword_pos [simp]: "0 < maximum_dword"
  by (simp add: maximum_dword_def)

function ReadAll :: "('h, 'w) file_api \<Rightarrow> 'h \<Rightarrow> nat \<Rightarrow> u8 list \<Rightarrow> 'w \<Rightarrow> (u32 + u8 list) \<times> 'w" where
  "ReadAll api h n acc w =
    (if n = 0 then (Inr acc, w)
     else case api_read api h (min n maximum_dword) w of
       (chunk, w1) \<Rightarrow>
         let got = (case chunk of None \<Rightarrow> [] | Some c \<Rightarrow> take (min n maximum_dword) c);
             e = api_last_error api w1
         in if got = [] then (Inl (if e = 0 then 38 else e), w1)
            else ReadAll api h (n - length got) (acc @ got) w1)"
  by pat_completeness auto
termination
  by (relation "measure (\<lambda>(api, h, n, acc, w). n)") auto

declare ReadAll.simps [simp del]

function WriteAll :: "('h, 'w) file_api \<Rightarrow> 'h \<Rightarrow> u8 list \<Rightarrow> 'w \<Rightarrow> u32 option \<times> 'w" where
  "WriteAll api h bytes w =
    (if bytes = [] then (None, w)
     else case api_write api h (take maximum_dword bytes) w of
       (None, w1) \<Rightarrow> (Some (api_last_error api w1), w1)
     | (Some n, w1) \<Rightarrow> if n = 0 then (Some (api_last_error api w1), w1)
         else WriteAll api h (drop n bytes) w1)"
  by pat_completeness auto
termination
  by (relation "measure (\<lambda>(api, h, bytes, w). length bytes)") (auto simp: neq_Nil_conv)

declare WriteAll.simps [simp del]

text \<open>The name of the temporary file, from the process identifier and the static counter.\<close>

definition TemporarySibling :: "('h, 'w) file_api \<Rightarrow> u32 \<Rightarrow> wstring \<Rightarrow> wstring" where
  "TemporarySibling api sequence path = path @ lit ''.mwfl-tmp-'' @ to_wstring (unat (api_process_id api))
     @ lit ''-'' @ to_wstring (unat sequence)"

section \<open>Files\<close>

type_synonym TextFileReadResult = "TextFileStatus \<times> u32 \<times> TextFile option"
type_synonym TextFileWriteResult = "TextFileStatus \<times> u32 \<times> FileStamp option"

definition io_failure :: "u32 \<Rightarrow> TextFileStatus \<times> u32 \<times> 'a option" where
  "io_failure e = (StatusFromError e, e, None)"

text \<open>What follows a successful opening; the caller closes the handle.\<close>

definition read_open_file :: "('h, 'w) file_api \<Rightarrow> 'h \<Rightarrow> 'w \<Rightarrow> TextFileReadResult \<times> 'w" where
  "read_open_file api h w =
    (case QueryStamp api h w of
       (Inl e, w1) \<Rightarrow> (io_failure e, w1)
     | (Inr before, w1) \<Rightarrow>
       (case ReadAll api h (unat (fs_size before)) [] w1 of
          (Inl e, w2) \<Rightarrow> (io_failure e, w2)
        | (Inr bytes, w2) \<Rightarrow>
          (case QueryStamp api h w2 of
             (Inl e, w3) \<Rightarrow> (io_failure e, w3)
           | (Inr after, w3) \<Rightarrow>
               if before \<noteq> after then ((File_changed, 0, None), w3)
               else (case decode_file api bytes of
                  (_, None) \<Rightarrow> ((File_invalid_encoding, 1113, None), w3)
                | (encoding, Some s) \<Rightarrow> ((File_success, 0,
                    Some \<lparr>tf_text = s, tf_encoding = encoding, tf_stamp = after\<rparr>), w3)))))"

definition ReadTextFile :: "('h, 'w) file_api \<Rightarrow> wstring \<Rightarrow> 'w \<Rightarrow> TextFileReadResult \<times> 'w" where
  "ReadTextFile api path w =
    (case api_create api path Open_for_reading w of
       (None, w1) \<Rightarrow> (io_failure (api_last_error api w1), w1)
     | (Some h, w1) \<Rightarrow> (case read_open_file api h w1 of (r, w2) \<Rightarrow> (r, api_close api h w2)))"

text \<open>The stamp of the file at a path, with the error when there is none.\<close>

definition open_stamp :: "('h, 'w) file_api \<Rightarrow> wstring \<Rightarrow> 'w \<Rightarrow> (bool \<times> u32 + FileStamp) \<times> 'w" where
  "open_stamp api path w =
    (case api_create api path Open_for_checking w of
       (None, w1) \<Rightarrow> (Inl (False, api_last_error api w1), w1)
     | (Some h, w1) \<Rightarrow> (case QueryStamp api h w1 of
         (Inl e, w2) \<Rightarrow> (Inl (True, e), api_close api h w2)
       | (Inr s, w2) \<Rightarrow> (Inr s, api_close api h w2)))"

definition check_expected ::
  "('h, 'w) file_api \<Rightarrow> wstring \<Rightarrow> FileStamp \<Rightarrow> 'w \<Rightarrow> TextFileWriteResult option \<times> 'w" where
  "check_expected api path expected w =
    (case open_stamp api path w of
       (Inl (opened, e), w1) \<Rightarrow>
         (Some (if \<not> opened \<and> e = 2 then File_changed else StatusFromError e, e, None), w1)
     | (Inr actual, w1) \<Rightarrow> (if actual \<noteq> expected then Some (File_changed, 0, None) else None, w1))"

text \<open>Writing and flushing the temporary file; it is deleted again on failure.\<close>

definition write_temporary ::
  "('h, 'w) file_api \<Rightarrow> wstring \<Rightarrow> u8 list \<Rightarrow> 'w \<Rightarrow> TextFileWriteResult option \<times> 'w" where
  "write_temporary api temporary bytes w =
    (case api_create api temporary Create_new w of
       (None, w1) \<Rightarrow> (Some (io_failure (api_last_error api w1)), w1)
     | (Some h, w1) \<Rightarrow>
       (case WriteAll api h bytes w1 of
          (Some e, w2) \<Rightarrow>
            let e' = (if e = 0 then api_last_error api w2 else e)
            in (Some (io_failure e'), api_delete api temporary (api_close api h w2))
        | (None, w2) \<Rightarrow>
          (case api_flush api h w2 of
             (False, w3) \<Rightarrow> (Some (io_failure (api_last_error api w3)),
               api_delete api temporary (api_close api h w3))
           | (True, w3) \<Rightarrow> (None, api_close api h w3))))"

text \<open>The second look at the destination, and its replacement.\<close>

definition recheck_expected ::
  "('h, 'w) file_api \<Rightarrow> wstring \<Rightarrow> wstring \<Rightarrow> FileStamp option \<Rightarrow> 'w \<Rightarrow> TextFileWriteResult option \<times> 'w" where
  "recheck_expected api temporary path expected w =
    (case expected of None \<Rightarrow> (None, w)
     | Some x \<Rightarrow> (case open_stamp api path w of
         (Inl (_, e), w1) \<Rightarrow> (Some (File_changed, e, None), api_delete api temporary w1)
       | (Inr actual, w1) \<Rightarrow> if actual \<noteq> x then (Some (File_changed, 0, None), api_delete api temporary w1)
           else (None, w1)))"

definition replace_destination ::
  "('h, 'w) file_api \<Rightarrow> wstring \<Rightarrow> wstring \<Rightarrow> 'w \<Rightarrow> TextFileWriteResult \<times> 'w" where
  "replace_destination api temporary path w =
    (case api_move api temporary path w of
       (False, w1) \<Rightarrow> (io_failure (api_last_error api w1), api_delete api temporary w1)
     | (True, w1) \<Rightarrow> (case open_stamp api path w1 of
         (Inl (_, e), w2) \<Rightarrow> (io_failure e, w2)
       | (Inr s, w2) \<Rightarrow> ((File_success, 0, Some s), w2)))"

definition WriteTextFileAtomic ::
  "('h, 'w) file_api \<Rightarrow> wstring \<Rightarrow> wstring \<Rightarrow> TextEncoding \<Rightarrow> FileStamp option \<Rightarrow> u32 \<times> 'w
    \<Rightarrow> TextFileWriteResult \<times> u32 \<times> 'w" where
  "WriteTextFileAtomic api path s encoding expected st =
    (case st of (sequence, w) \<Rightarrow>
      if path = [] then ((File_io_error, 123, None), sequence, w)
      else case (case expected of None \<Rightarrow> (None, w) | Some x \<Rightarrow> check_expected api path x w) of
        (Some failure, w1) \<Rightarrow> (failure, sequence, w1)
      | (None, w1) \<Rightarrow>
        (case Encode api s encoding of
           None \<Rightarrow> ((File_invalid_encoding, 1113, None), sequence, w1)
         | Some bytes \<Rightarrow>
           let temporary = TemporarySibling api sequence path in
           (case write_temporary api temporary bytes w1 of
              (Some failure, w2) \<Rightarrow> (failure, sequence + 1, w2)
            | (None, w2) \<Rightarrow>
              (case recheck_expected api temporary path expected w2 of
                 (Some failure, w3) \<Rightarrow> (failure, sequence + 1, w3)
               | (None, w3) \<Rightarrow>
                 (case replace_destination api temporary path w3 of
                    (r, w4) \<Rightarrow> (r, sequence + 1, w4))))))"

section \<open>Facts on the encodings\<close>

lemma split_unit_length [simp]: "length (split_unit big c) = 2"
  by (simp add: split_unit_def)

lemma length_split_units: "length (concat (map (split_unit big) s)) = 2 * length s"
  by (induction s) auto

lemma unit_of_bytes:
  fixes c :: wchar
  shows "push_bit 8 (ucast (ucast (drop_bit 8 c) :: u8)) OR ucast (ucast (c AND 0xFF) :: u8) = c"
    "ucast (ucast (c AND 0xFF) :: u8) OR push_bit 8 (ucast (ucast (drop_bit 8 c) :: u8)) = c"
proof -
  have m: "(0xFF :: wchar) = mask 8" by (simp add: mask_eq_exp_minus_1)
  show "push_bit 8 (ucast (ucast (drop_bit 8 c) :: u8)) OR ucast (ucast (c AND 0xFF) :: u8) = c"
    unfolding m
    by (rule bit_word_eqI, simp only: bit_or_iff bit_push_bit_iff bit_and_iff bit_mask_iff bit_unsigned_iff
      bit_drop_bit_eq comp_def) auto
  then show "ucast (ucast (c AND 0xFF) :: u8) OR push_bit 8 (ucast (ucast (drop_bit 8 c) :: u8)) = c"
    by (simp add: or.commute)
qed

lemma join_split_units [simp]: "join_bytes big (concat (map (split_unit big) s)) = s"
  by (induction s) (auto simp: split_unit_def unit_of_bytes)

lemma utf16_decoded: "IsValidUtf16 s \<Longrightarrow> DecodeUtf16 big (concat (map (split_unit big) s)) = Some s"
  by (simp add: DecodeUtf16_def length_split_units Let_def)

text \<open>What the code relies on of the UTF-8 conversions of Windows: decoding inverts encoding, the
  bytes \<open>FE\<close> and \<open>FF\<close> do not occur at the front, a leading byte order mark is the encoded unit
  \<open>FEFF\<close>, and the size is an \<open>int\<close>.\<close>

definition utf8_ok :: "('h, 'w) file_api \<Rightarrow> bool" where
  "utf8_ok api \<longleftrightarrow> (\<forall>s b. api_utf8_encode api s = Some b \<longrightarrow>
     api_utf8_decode api b = Some s \<and> b \<noteq> [] \<and> length b \<le> maximum_int
     \<and> hd b \<noteq> 0xFE \<and> hd b \<noteq> 0xFF \<and> (take 3 b = [0xEF, 0xBB, 0xBF] \<longrightarrow> hd s = 0xFEFF))"

section \<open>What the calls do to the files\<close>

text \<open>
  The documented effect of the Windows calls on the contents of the files: only the calls below
  change a file, each as written, and a handle created for writing keeps referring to its file.
\<close>

definition files_ok ::
  "('h, 'w) file_api \<Rightarrow> ('w \<Rightarrow> wstring \<Rightarrow> u8 list option) \<Rightarrow> ('h \<Rightarrow> wstring) \<Rightarrow> bool" where
  "files_ok api contents path_of \<longleftrightarrow>
    (\<forall>p mode w. case api_create api p mode w of
        (None, w') \<Rightarrow> contents w' = contents w
      | (Some h, w') \<Rightarrow> path_of h = p
          \<and> contents w' = (if mode = Create_new then (contents w)(p := Some []) else contents w))
    \<and> (\<forall>h w. contents (snd (api_information api h w)) = contents w)
    \<and> (\<forall>h w. contents (snd (api_flush api h w)) = contents w)
    \<and> (\<forall>h w. contents (api_close api h w) = contents w)
    \<and> (\<forall>h b w. case api_write api h b w of
        (None, w') \<Rightarrow> (\<forall>q. q \<noteq> path_of h \<longrightarrow> contents w' q = contents w q)
      | (Some n, w') \<Rightarrow> n \<le> length b
          \<and> contents w' = (contents w)(path_of h := map_option (\<lambda>old. old @ take n b) (contents w (path_of h))))
    \<and> (\<forall>p q w. q \<noteq> p \<longrightarrow> contents (api_delete api p w) q = contents w q)
    \<and> (\<forall>p q w. case api_move api p q w of
        (done, w') \<Rightarrow> contents w' = (if done then (contents w)(q := contents w p, p := None) else contents w))"

lemma create_contents:
  assumes "files_ok api contents path_of" "api_create api p mode w = (r, w')"
  shows "r = None \<Longrightarrow> contents w' = contents w"
    "r = Some h \<Longrightarrow> path_of h = p"
    "r = Some h \<Longrightarrow> contents w' = (if mode = Create_new then (contents w)(p := Some []) else contents w)"
  using assms unfolding files_ok_def by (fastforce split: option.splits prod.splits)+

lemma quiet_contents [simp]:
  assumes "files_ok api contents path_of"
  shows "contents (snd (api_information api h w)) = contents w" "contents (snd (api_flush api h w)) = contents w"
    "contents (api_close api h w) = contents w" "q \<noteq> p \<Longrightarrow> contents (api_delete api p w) q = contents w q"
  using assms unfolding files_ok_def by blast+

lemma stamp_contents:
  assumes "files_ok api contents path_of" "QueryStamp api h w = (r, w')"
  shows "contents w' = contents w"
  using quiet_contents(1) [OF assms(1), of h w] assms(2)
  by (auto simp: QueryStamp_def split: prod.splits option.splits)

lemma open_stamp_contents:
  assumes "files_ok api contents path_of" "open_stamp api path w = (r, w')"
  shows "contents w' = contents w"
proof -
  obtain h w1 where c: "api_create api path Open_for_checking w = (h, w1)" by fastforce
  then have "contents w1 = contents w"
    using create_contents(1,3) [OF assms(1) c] by (cases h) auto
  with assms(2) c show ?thesis
    by (auto simp: open_stamp_def quiet_contents(3) [OF assms(1)] split: option.splits prod.splits sum.splits
        dest: stamp_contents [OF assms(1)])
qed

lemma write_contents:
  assumes "files_ok api contents path_of" "api_write api h b w = (n, w')"
  shows "case n of None \<Rightarrow> \<forall>q. q \<noteq> path_of h \<longrightarrow> contents w' q = contents w q
    | Some k \<Rightarrow> k \<le> length b
        \<and> contents w' = (contents w)(path_of h := map_option (\<lambda>old. old @ take k b) (contents w (path_of h)))"
proof -
  have "\<forall>h b w. case api_write api h b w of
        (None, w') \<Rightarrow> (\<forall>q. q \<noteq> path_of h \<longrightarrow> contents w' q = contents w q)
      | (Some n, w') \<Rightarrow> n \<le> length b
          \<and> contents w' = (contents w)(path_of h := map_option (\<lambda>old. old @ take n b) (contents w (path_of h)))"
    using assms(1) unfolding files_ok_def by (elim conjE)
  from this [THEN spec, of h, THEN spec, of b, THEN spec, of w] assms(2) show ?thesis by (cases n) auto
qed

lemma write_all_contents:
  assumes "files_ok api contents path_of" "WriteAll api h bytes w = (r, w')"
  shows "(\<forall>q. q \<noteq> path_of h \<longrightarrow> contents w' q = contents w q)
    \<and> (r = None \<longrightarrow> contents w' (path_of h) = map_option (\<lambda>old. old @ bytes) (contents w (path_of h)))"
  using assms(2)
proof (induction "length bytes" arbitrary: bytes w rule: less_induct)
  case less
  show ?case
  proof (cases "bytes = []")
    case True
    with less.prems show ?thesis by (subst (asm) WriteAll.simps) (auto simp: option.map_ident)
  next
    case False
    obtain n w1 where a: "api_write api h (take maximum_dword bytes) w = (n, w1)" by fastforce
    show ?thesis
    proof (cases n)
      case None
      with write_contents [OF assms(1) a] have "\<forall>q. q \<noteq> path_of h \<longrightarrow> contents w1 q = contents w q" by simp
      with less.prems False a None show ?thesis by (subst (asm) WriteAll.simps) auto
    next
      case (Some k)
      with write_contents [OF assms(1) a] have w1: "k \<le> length (take maximum_dword bytes)"
        "contents w1 = (contents w)(path_of h := map_option (\<lambda>old. old @ take k (take maximum_dword bytes))
          (contents w (path_of h)))"
        by simp_all
      show ?thesis
      proof (cases "k = 0")
        case True
        with less.prems False a Some w1 show ?thesis by (subst (asm) WriteAll.simps) auto
      next
        case k: False
        with less.prems False a Some have "WriteAll api h (drop k bytes) w1 = (r, w')"
          by (subst (asm) WriteAll.simps) auto
        from less.hyps [OF _ this] k False w1(1)
        have IH: "\<forall>q. q \<noteq> path_of h \<longrightarrow> contents w' q = contents w1 q"
          "r = None \<longrightarrow> contents w' (path_of h) = map_option (\<lambda>old. old @ drop k bytes) (contents w1 (path_of h))"
          by (simp_all add: neq_Nil_conv)
        have "take k (take maximum_dword bytes) = take k bytes" using w1(1) by (simp add: min_def split: if_splits)
        then show ?thesis using IH w1(2) by (auto simp: option.map_comp comp_def)
      qed
    qed
  qed
qed

lemma failed [simp]: "fst (io_failure e) \<noteq> File_success" "io_failure e \<noteq> (File_success, x)"
  by (simp_all add: io_failure_def StatusFromError_def)

lemma write_temporary_contents:
  assumes "files_ok api contents path_of" "write_temporary api temporary bytes w = (r, w')"
  shows "(\<forall>q. q \<noteq> temporary \<longrightarrow> contents w' q = contents w q)
    \<and> (r = None \<longrightarrow> contents w' temporary = Some bytes) \<and> (\<forall>f. r = Some f \<longrightarrow> fst f \<noteq> File_success)"
proof -
  note quiet = quiet_contents [OF assms(1)]
  obtain c w1 where c: "api_create api temporary Create_new w = (c, w1)" by fastforce
  show ?thesis
  proof (cases c)
    case None
    then show ?thesis using assms(2) c create_contents(1) [OF assms(1) c]
      by (auto simp: write_temporary_def)
  next
    case (Some h)
    then have h: "path_of h = temporary" "contents w1 = (contents w)(temporary := Some [])"
      using create_contents(2,3) [OF assms(1) c] by auto
    obtain e w2 where e: "WriteAll api h bytes w1 = (e, w2)" by fastforce
    note w2 = write_all_contents [OF assms(1) e]
    show ?thesis
    proof (cases e)
      case (Some x)
      then show ?thesis using assms(2) c \<open>c = Some h\<close> e w2 h
        by (auto simp: write_temporary_def quiet Let_def)
    next
      case None
      obtain ok w3 where f: "api_flush api h w2 = (ok, w3)" by fastforce
      have "contents w3 = contents w2" using quiet(2) [of h w2] f by simp
      then show ?thesis using assms(2) c \<open>c = Some h\<close> e w2 h f None
        by (cases ok) (auto simp: write_temporary_def quiet)
    qed
  qed
qed

lemma recheck_contents:
  assumes "files_ok api contents path_of" "recheck_expected api temporary path expected w = (r, w')"
  shows "(\<forall>q. q \<noteq> temporary \<longrightarrow> contents w' q = contents w q)
    \<and> (r = None \<longrightarrow> contents w' = contents w) \<and> (\<forall>f. r = Some f \<longrightarrow> fst f \<noteq> File_success)"
  using assms(2) quiet_contents(4) [OF assms(1)]
  by (auto simp: recheck_expected_def split: option.splits prod.splits sum.splits if_splits
      dest!: open_stamp_contents [OF assms(1)])

lemma replace_contents:
  assumes "files_ok api contents path_of" "replace_destination api temporary path w = (r, w')" "temporary \<noteq> path"
  shows "(\<forall>q. q \<noteq> temporary \<and> q \<noteq> path \<longrightarrow> contents w' q = contents w q)
    \<and> (contents w' path = contents w path \<and> fst r \<noteq> File_success \<or> contents w' path = contents w temporary)"
proof -
  obtain m w1 where m: "api_move api temporary path w = (m, w1)" by fastforce
  have "\<forall>p q w. case api_move api p q w of
      (done, w') \<Rightarrow> contents w' = (if done then (contents w)(q := contents w p, p := None) else contents w)"
    using assms(1) unfolding files_ok_def by (elim conjE)
  from this [THEN spec, of temporary, THEN spec, of path, THEN spec, of w] m
  have w1: "contents w1 = (if m then (contents w)(path := contents w temporary, temporary := None) else contents w)"
    by simp
  show ?thesis
  proof (cases m)
    case False
    with assms(2,3) m w1 quiet_contents(4) [OF assms(1)] show ?thesis
      by (auto simp: replace_destination_def)
  next
    case True
    with assms(2,3) m w1 show ?thesis
      by (auto simp: replace_destination_def split: option.splits prod.splits sum.splits
          dest!: open_stamp_contents [OF assms(1)])
  qed
qed

lemma check_expected_contents:
  assumes "files_ok api contents path_of" "check_expected api path x w = (r, w')"
  shows "contents w' = contents w \<and> (\<forall>f. r = Some f \<longrightarrow> fst f \<noteq> File_success)"
  using assms(2)
  by (auto simp: check_expected_def StatusFromError_def split: prod.splits sum.splits if_splits
      dest!: open_stamp_contents [OF assms(1)])

lemma temporary_differs: "TemporarySibling api n path \<noteq> path"
  by (simp add: TemporarySibling_def)

section \<open>Properties\<close>

lemma encode_decode:
  assumes "utf8_ok api" and "Encode api s encoding = Some bytes"
    and "\<not> (encoding = Encoding_utf8 \<and> take 1 s = [0xFEFF])"
  shows "decode_file api bytes = (encoding, Some s)"
proof (cases encoding)
  case Encoding_utf8
  show ?thesis
  proof (cases s)
    case Nil
    with Encoding_utf8 assms(2) show ?thesis
      by (auto simp: Encode_def decode_file_def DecodeUtf8_def split: if_splits)
  next
    case (Cons c cs)
    with Encoding_utf8 assms have "api_utf8_encode api s = Some bytes" by (auto simp: Encode_def split: if_splits)
    with assms(1) have b: "api_utf8_decode api bytes = Some s" "bytes \<noteq> []" "length bytes \<le> maximum_int"
      "hd bytes \<noteq> 0xFE" "hd bytes \<noteq> 0xFF" "take 3 bytes = [0xEF, 0xBB, 0xBF] \<longrightarrow> hd s = 0xFEFF"
      unfolding utf8_ok_def by blast+
    obtain x xs where "bytes = x # xs" using b(2) by (cases bytes) auto
    with b Cons Encoding_utf8 assms(3) show ?thesis by (auto simp: decode_file_def DecodeUtf8_def)
  qed
next
  case Encoding_utf8_bom
  have ok: "api_utf8_decode api b = Some s \<and> length b \<le> maximum_int \<and> b \<noteq> []" if "api_utf8_encode api s = Some b" for b
    using assms(1) that unfolding utf8_ok_def by blast
  obtain b where b: "bytes = [0xEF, 0xBB, 0xBF] @ b" "b = [] \<and> s = [] \<or> s \<noteq> [] \<and> api_utf8_encode api s = Some b"
    using assms(2) Encoding_utf8_bom by (cases "s = []") (auto simp: Encode_def split: if_splits)
  have "decode_file api bytes = (Encoding_utf8_bom, DecodeUtf8 api b)"
    unfolding b(1) by (simp add: decode_file_def)
  moreover have "DecodeUtf8 api b = Some s"
  proof (cases "s = []")
    case True
    with b(2) show ?thesis by (simp add: DecodeUtf8_def)
  next
    case False
    with b(2) have "api_utf8_encode api s = Some b" by blast
    from ok [OF this] show ?thesis by (simp add: DecodeUtf8_def not_less)
  qed
  ultimately show ?thesis using Encoding_utf8_bom by simp
next
  case Encoding_utf16_le
  have "IsValidUtf16 s" "bytes = [0xFF, 0xFE] @ concat (map (split_unit False) s)"
    using assms(2) Encoding_utf16_le by (simp_all add: Encode_def Let_def split: if_splits)
  then show ?thesis using Encoding_utf16_le utf16_decoded [of s False] by (simp add: decode_file_def)
next
  case Encoding_utf16_be
  have "IsValidUtf16 s" "bytes = [0xFE, 0xFF] @ concat (map (split_unit True) s)"
    using assms(2) Encoding_utf16_be by (simp_all add: Encode_def Let_def split: if_splits)
  then show ?thesis using Encoding_utf16_be utf16_decoded [of s True] by (simp add: decode_file_def)
qed

text \<open>Encoded text is decoded again, in the same encoding.  For every text that \<open>Encode\<close> accepts,
  the detection by the first bytes picks the encoding that was written, and decoding returns the same
  text; the one exception, text that starts with a byte order mark of its own and is written as plain
  UTF-8, is excluded.\<close>

theorem encoded_text_is_decoded:
  assumes "utf8_ok api" and "Encode api s encoding = Some bytes"
    and "\<not> (encoding = Encoding_utf8 \<and> take 1 s = [0xFEFF])"
  shows "decode_file api bytes = (encoding, Some s)"
  by (rule encode_decode [OF assms])

text \<open>A file system with ASCII files, as a concrete instance of the Windows calls.\<close>

definition memory_api :: "(wstring, wstring \<Rightarrow> u8 list option) file_api" where
  "memory_api = \<lparr>
     api_create = (\<lambda>p mode w. if mode = Create_new
       then if w p = None then (Some p, w(p := Some [])) else (None, w)
       else if w p = None then (None, w) else (Some p, w)),
     api_information = (\<lambda>h w. (Some \<lparr>fi_size_low = of_nat (length (the (w h))), fi_size_high = 0, fi_time_low = 0,
       fi_time_high = 0, fi_index_low = 0, fi_index_high = 0, fi_volume = 0\<rparr>, w)),
     api_read = (\<lambda>h n w. (Some (take n (the (w h))), w)),
     api_write = (\<lambda>h b w. (Some (length b), w(h := map_option (\<lambda>old. old @ b) (w h)))),
     api_flush = (\<lambda>h w. (True, w)), api_close = (\<lambda>h w. w), api_delete = (\<lambda>p w. w(p := None)),
     api_move = (\<lambda>p q w. (True, w(q := w p, p := None))), api_last_error = (\<lambda>w. 2), api_process_id = 7,
     api_utf8_decode = (\<lambda>b. Some (map ucast b)),
     api_utf8_encode = (\<lambda>s. if s = [] \<or> maximum_int < length s \<or> (\<exists>c \<in> set s. 0x80 \<le> c) then None
       else Some (map ucast s))\<rparr>"

lemma ascii_unit: "\<not> 0x80 \<le> (c :: wchar) \<Longrightarrow> ucast (ucast c :: u8) = c \<and> (ucast c :: u8) < 0x80"
  by (simp add: word_le_nat_alt word_less_nat_alt unsigned_ucast_eq take_bit_nat_eq_self
      unsigned_take_bit_eq word_unat_eq_iff not_le)

lemma memory_utf8_ok: "utf8_ok memory_api"
proof -
  have "map (\<lambda>c. ucast (ucast c :: u8)) s = s" if "\<forall>c \<in> set s. \<not> (0x80 :: wchar) \<le> c" for s
    using that by (induction s) (auto simp: ascii_unit)
  moreover have "hd (map ucast s :: u8 list) < 0x80" if "s \<noteq> []" "\<forall>c \<in> set s. \<not> (0x80 :: wchar) \<le> c" for s
    using that ascii_unit by (cases s) auto
  ultimately have ok: "map (\<lambda>c. ucast (ucast c :: u8)) s = s \<and> hd (map ucast s :: u8 list) < 0x80"
    if "s \<noteq> []" "\<forall>c \<in> set s. \<not> (0x80 :: wchar) \<le> c" for s
    using that by blast
  show ?thesis unfolding utf8_ok_def
  proof (intro allI impI)
    fix s b
    assume "api_utf8_encode memory_api s = Some b"
    then have s: "s \<noteq> []" "\<forall>c \<in> set s. \<not> 0x80 \<le> c" "length s \<le> maximum_int" "b = map ucast s"
      by (auto simp: memory_api_def split: if_splits)
    have "api_utf8_decode memory_api b = Some (map (\<lambda>c. ucast (ucast c :: u8)) s)"
      by (simp add: memory_api_def s(4) comp_def)
    moreover have "hd b \<noteq> 0xFE" "hd b \<noteq> 0xFF" "hd b \<noteq> 0xEF" using ok [OF s(1,2)] unfolding s(4) by auto
    moreover have "take 3 b \<noteq> [0xEF, 0xBB, 0xBF]" using \<open>hd b \<noteq> 0xEF\<close> by (cases b) auto
    ultimately show "api_utf8_decode memory_api b = Some s \<and> b \<noteq> [] \<and> length b \<le> maximum_int
        \<and> hd b \<noteq> 0xFE \<and> hd b \<noteq> 0xFF \<and> (take 3 b = [0xEF, 0xBB, 0xBF] \<longrightarrow> hd s = 0xFEFF)"
      using ok [OF s(1,2)] s by simp
  qed
qed

theorem encoded_text_is_decoded_witness:
  "decode_file memory_api [0xFE, 0xFF, 0, 0x41] = (Encoding_utf16_be, Some (lit ''A''))"
proof -
  have "Encode memory_api (lit ''A'') Encoding_utf16_be = Some [0xFE, 0xFF, 0, 0x41]" by code_simp
  from encoded_text_is_decoded [OF memory_utf8_ok this] show ?thesis by simp
qed

lemma write_atomic:
  assumes "files_ok api contents path_of"
    and "WriteTextFileAtomic api path s encoding expected (n, w) = ((status, e, stamp), n', w')"
  shows "(contents w' path = contents w path \<and> status \<noteq> File_success
      \<or> Encode api s encoding \<noteq> None \<and> contents w' path = Encode api s encoding)
    \<and> (\<forall>q. q \<noteq> path \<and> q \<noteq> TemporarySibling api n path \<longrightarrow> contents w' q = contents w q)"
proof (cases "path = []")
  case True
  with assms(2) show ?thesis by (simp add: WriteTextFileAtomic_def)
next
  case path: False
  let ?t = "TemporarySibling api n path"
  obtain r1 w1 where c1: "(case expected of None \<Rightarrow> (None, w) | Some x \<Rightarrow> check_expected api path x w) = (r1, w1)"
    by fastforce
  have w1: "contents w1 = contents w" "\<forall>f. r1 = Some f \<longrightarrow> fst f \<noteq> File_success"
    using c1 check_expected_contents [OF assms(1)] by (cases expected; fastforce)+
  show ?thesis
  proof (cases "r1 = None \<and> Encode api s encoding \<noteq> None")
    case False
    with assms(2) path c1 w1 show ?thesis by (auto simp: WriteTextFileAtomic_def split: option.splits)
  next
    case True
    then obtain bytes where bytes: "r1 = None" "Encode api s encoding = Some bytes" by blast
    obtain r2 w2 where c2: "write_temporary api ?t bytes w1 = (r2, w2)" by fastforce
    obtain r3 w3 where c3: "recheck_expected api ?t path expected w2 = (r3, w3)" by fastforce
    obtain r4 w4 where c4: "replace_destination api ?t path w3 = (r4, w4)" by fastforce
    note p2 = write_temporary_contents [OF assms(1) c2] and p3 = recheck_contents [OF assms(1) c3]
      and p4 = replace_contents [OF assms(1) c4 temporary_differs]
    have result: "((status, e, stamp), n', w') = (case r2 of Some f \<Rightarrow> (f, n + 1, w2)
        | None \<Rightarrow> (case r3 of Some f \<Rightarrow> (f, n + 1, w3) | None \<Rightarrow> (r4, n + 1, w4)))"
      using assms(2) path c1 bytes c2 c3 c4
      by (simp add: WriteTextFileAtomic_def Let_def split: option.splits)
    show ?thesis
      using result p2 p3 p4 w1 bytes temporary_differs [of api n path]
      by (cases r2; cases r3) auto
  qed
qed

text \<open>C18: Saving is all or nothing.  Whatever call of Windows fails and whichever stamp is expected, after
  \<open>WriteTextFileAtomic\<close> the destination holds either exactly what it held before or exactly the encoded
  text, never a part of it; the latter is certain when success is reported; and no file other than the
  destination and the temporary sibling is touched.\<close>

theorem saving_is_all_or_nothing:
  assumes "files_ok api contents path_of"
    and "WriteTextFileAtomic api path s encoding expected (n, w) = ((status, e, stamp), n', w')"
  shows "(contents w' path = contents w path \<and> status \<noteq> File_success
      \<or> Encode api s encoding \<noteq> None \<and> contents w' path = Encode api s encoding)
    \<and> (\<forall>q. q \<noteq> path \<and> q \<noteq> TemporarySibling api n path \<longrightarrow> contents w' q = contents w q)"
  by (rule write_atomic [OF assms])

lemma memory_files_ok: "files_ok memory_api (\<lambda>w. w) (\<lambda>h. h)"
  by (auto simp: files_ok_def memory_api_def split: option.split)

theorem saving_is_all_or_nothing_witness:
  "snd (snd (WriteTextFileAtomic memory_api (lit ''f'') (lit ''hi'') Encoding_utf8 None
     (0, \<lambda>p. if p = lit ''f'' then Some [1, 2, 3] else None))) (lit ''f'')
   \<in> {Some [1, 2, 3], Some [0x68, 0x69]}"
proof -
  let ?w = "(\<lambda>p. if p = lit ''f'' then Some [1, 2, 3 :: u8] else None)"
  let ?r = "WriteTextFileAtomic memory_api (lit ''f'') (lit ''hi'') Encoding_utf8 None (0, ?w)"
  have encoded: "Encode memory_api (lit ''hi'') Encoding_utf8 = Some [0x68, 0x69]"
    by (simp add: Encode_def memory_api_def is_high_surrogate_def is_low_surrogate_def maximum_int_def)
  obtain status e stamp n' w' where r: "?r = ((status, e, stamp), n', w')" by (metis prod.exhaust)
  have old: "?w (lit ''f'') = Some [1, 2, 3]" by (rule if_P) (rule refl)
  have "w' (lit ''f'') = ?w (lit ''f'') \<or> w' (lit ''f'') = Some [0x68, 0x69]"
    using saving_is_all_or_nothing [OF memory_files_ok r] unfolding encoded by blast
  then show ?thesis unfolding r old snd_conv by blast
qed

end
