(* ===== verification/Wide_Stream.thy ===== *)
theory Wide_Stream
  imports Floating "HOL-Library.Monad_Syntax"
begin

text \<open>
  The part of \<open>std::wistringstream\<close> and \<open>std::wostringstream\<close> that the session formats use.

  A reader takes the characters not yet extracted and returns the value read with the rest, or
  \<open>None\<close> when the stream enters its fail state.  The end-of-file flag needs no component of its own:
  after successful extractions \<open>stream >> std::ws\<close> leaves it set exactly when only white space was
  left, and every later extraction fails on the empty rest.  White space is that of the classic
  locale, numbers are decimal and ungrouped.
\<close>

type_synonym 'a reader = "wstring \<Rightarrow> ('a \<times> wstring) option"

definition is_wspace :: "wchar \<Rightarrow> bool" where
  "is_wspace c \<longleftrightarrow> c = 0x20 \<or> 0x09 \<le> c \<and> c \<le> 0x0D"

definition is_wdigit :: "wchar \<Rightarrow> bool" where
  "is_wdigit c \<longleftrightarrow> 0x30 \<le> c \<and> c \<le> 0x39"

definition skip_ws :: "wstring \<Rightarrow> wstring" where
  "skip_ws s = dropWhile is_wspace s"

definition at_end :: "wstring \<Rightarrow> bool" where
  "at_end s \<longleftrightarrow> skip_ws s = []"

section \<open>Extraction\<close>

definition digit_value :: "wchar \<Rightarrow> nat" where
  "digit_value c = unat c - 48"

definition decimal_value :: "wstring \<Rightarrow> nat" where
  "decimal_value s = foldl (\<lambda>n c. 10 * n + digit_value c) 0 s"

definition read_sign :: "wstring \<Rightarrow> bool \<times> wstring" where
  "read_sign s = (case s of [] \<Rightarrow> (False, [])
     | c # cs \<Rightarrow> if c = 0x2D then (True, cs) else if c = 0x2B then (False, cs) else (False, s))"

text \<open>The sign and the magnitude of an integer.\<close>

definition read_magnitude :: "(bool \<times> nat) reader" where
  "read_magnitude s =
    (case read_sign (skip_ws s) of (negative, t) \<Rightarrow>
       let ds = takeWhile is_wdigit t in
       if ds = [] then None else Some ((negative, decimal_value ds), dropWhile is_wdigit t))"

text \<open>Unsigned integers of any width; a minus sign negates in the width, as \<open>strtoull\<close> does.\<close>

definition read_unsigned :: "('w :: len) word reader" where
  "read_unsigned s = do {
     (m, rest) \<leftarrow> read_magnitude s;
     case m of (negative, n) \<Rightarrow>
       if 2 ^ LENGTH('w) \<le> n then None
       else Some (if negative then - of_nat n else of_nat n, rest) }"

definition read_size :: "nat reader" where
  "read_size s = map_option (\<lambda>(w :: u64, rest). (unat w, rest)) (read_unsigned s)"

text \<open>A \<open>bool\<close> without \<open>boolalpha\<close> is the integer 0 or 1.\<close>

definition read_bool :: "bool reader" where
  "read_bool s = do {
     (m, rest) \<leftarrow> read_magnitude s;
     case m of (negative, n) \<Rightarrow>
       if n = 0 then Some (False, rest) else if n = 1 \<and> \<not> negative then Some (True, rest) else None }"

definition read_char :: "wchar reader" where
  "read_char s = (case skip_ws s of [] \<Rightarrow> None | c # cs \<Rightarrow> Some (c, cs))"

definition read_string :: "wstring reader" where
  "read_string s = (case skip_ws s of [] \<Rightarrow> None
     | t \<Rightarrow> Some (takeWhile (\<lambda>c. \<not> is_wspace c) t, dropWhile (\<lambda>c. \<not> is_wspace c) t))"

text \<open>\<open>std::quoted\<close> with the delimiter \<open>"\<close> and the escape character \<open>\\<close>.\<close>

fun scan_quoted :: "wstring reader" where
  "scan_quoted [] = None"
| "scan_quoted (c # cs) =
    (if c = 0x22 then Some ([], cs)
     else if c = 0x5C then
       (case cs of [] \<Rightarrow> None | d # ds \<Rightarrow> map_option (\<lambda>(t, rest). (d # t, rest)) (scan_quoted ds))
     else map_option (\<lambda>(t, rest). (c # t, rest)) (scan_quoted cs))"

definition read_quoted :: "wstring reader" where
  "read_quoted s = (case skip_ws s of [] \<Rightarrow> None
     | c # cs \<Rightarrow> if c = 0x22 then scan_quoted cs else read_string (c # cs))"

text \<open>\<open>std::getline\<close>: unformatted, the newline is extracted and dropped.\<close>

definition get_line :: "wstring reader" where
  "get_line s = (if s = [] then None
     else Some (takeWhile (\<lambda>c. c \<noteq> 0x0A) s, drop 1 (dropWhile (\<lambda>c. c \<noteq> 0x0A) s)))"

section \<open>Insertion\<close>

definition write_unsigned :: "('w :: len) word \<Rightarrow> wstring" where
  "write_unsigned w = to_wstring (unat w)"

definition write_bool :: "bool \<Rightarrow> wstring" where
  "write_bool b = to_wstring (if b then 1 else 0)"

fun escape_quoted :: "wstring \<Rightarrow> wstring" where
  "escape_quoted [] = []"
| "escape_quoted (c # cs) = (if c = 0x22 \<or> c = 0x5C then [0x5C, c] else [c]) @ escape_quoted cs"

definition write_quoted :: "wstring \<Rightarrow> wstring" where
  "write_quoted s = [0x22] @ escape_quoted s @ [0x22]"

section \<open>What was written is read back\<close>

named_theorems stream_simps \<open>reading back what was written\<close>

text \<open>The next character ends a token: nothing is left, or white space.\<close>

definition token_end :: "wstring \<Rightarrow> bool" where
  "token_end s \<longleftrightarrow> (case s of [] \<Rightarrow> True | c # _ \<Rightarrow> is_wspace c)"

lemma token_end_simps [simp]: "token_end []" "token_end (c # cs) \<longleftrightarrow> is_wspace c"
  by (simp_all add: token_end_def)

lemma is_wspace_simps [simp]: "is_wspace 0x20" "is_wspace 0x0A" "\<not> is_wspace 0x22" "\<not> is_wspace 0x5C"
  by (simp_all add: is_wspace_def)

lemma digit_not_space: "is_wdigit c \<Longrightarrow> \<not> is_wspace c"
  unfolding is_wdigit_def is_wspace_def by (auto simp: word_le_nat_alt)

lemma digit_not_sign: "is_wdigit c \<Longrightarrow> c \<noteq> 0x2D \<and> c \<noteq> 0x2B"
  unfolding is_wdigit_def by (auto simp: word_le_nat_alt)

lemma space_not_digit: "is_wspace c \<Longrightarrow> \<not> is_wdigit c"
  using digit_not_space by blast

lemma digits_of_digits: "d \<in> set (digits_of n) \<Longrightarrow> d < 10"
proof (induction n rule: digits_of.induct)
  case (1 n)
  have step: "digits_of n = (if n < 10 then [n] else digits_of (n div 10) @ [n mod 10])"
    by (rule digits_of.simps)
  show ?case
  proof (cases "n < 10")
    case True
    with 1(2) step show ?thesis by simp
  next
    case False
    with 1(2) step have "d \<in> set (digits_of (n div 10)) \<or> d = n mod 10" by auto
    then show ?thesis using 1(1) [OF False] by auto
  qed
qed

lemma digits_of_nonempty [simp]: "digits_of n \<noteq> []"
  by (subst digits_of.simps) simp

lemma digit_char: "d < 10 \<Longrightarrow> is_wdigit (0x30 + of_nat d) \<and> digit_value (0x30 + of_nat d) = d"
proof -
  assume d: "d < 10"
  have "(0x30 + of_nat d :: wchar) = of_nat (48 + d)" by simp
  then have "unat (0x30 + of_nat d :: wchar) = 48 + d"
    using d by (simp only: unsigned_of_nat) (simp add: take_bit_nat_eq_self)
  then show ?thesis using d by (simp add: is_wdigit_def digit_value_def word_le_nat_alt)
qed

lemma to_wstring_code: "to_wstring n = map (\<lambda>d. 0x30 + of_nat d) (digits_of n)"
  by (simp add: to_wstring_def)

lemma to_wstring_digits: "c \<in> set (to_wstring n) \<Longrightarrow> is_wdigit c"
  by (auto simp: to_wstring_code dest: digits_of_digits digit_char)

lemma to_wstring_nonempty [simp]: "to_wstring n \<noteq> []"
  by (simp add: to_wstring_code)

lemma decimal_value_append:
  "decimal_value (xs @ ys) = decimal_value xs * 10 ^ length ys + decimal_value ys"
proof -
  have "foldl (\<lambda>n c. 10 * n + digit_value c) a ys
      = a * 10 ^ length ys + foldl (\<lambda>n c. 10 * n + digit_value c) 0 ys" for a
  proof (induction ys rule: rev_induct)
    case Nil
    then show ?case by simp
  next
    case (snoc y ys)
    then show ?case by (simp add: distrib_left)
  qed
  then show ?thesis unfolding decimal_value_def foldl_append by blast
qed

lemma decimal_value_to_wstring [simp]: "decimal_value (to_wstring n) = n"
proof (induction n rule: digits_of.induct)
  case (1 n)
  show ?case
  proof (cases "n < 10")
    case True
    then show ?thesis by (simp add: to_wstring_code digits_of.simps [of n] decimal_value_def digit_char)
  next
    case False
    have "to_wstring n = to_wstring (n div 10) @ [0x30 + of_nat (n mod 10)]"
      using False by (simp add: to_wstring_code digits_of.simps [of n])
    then show ?thesis using 1 [OF False]
      by (simp add: decimal_value_append) (simp add: decimal_value_def digit_char)
  qed
qed

lemma skip_ws_space [simp]: "is_wspace c \<Longrightarrow> skip_ws (c # s) = skip_ws s"
  by (simp add: skip_ws_def)

lemma skip_ws_stop: "\<not> is_wspace c \<Longrightarrow> skip_ws (c # s) = c # s"
  by (simp add: skip_ws_def)

lemma skip_ws_token:
  assumes "t \<noteq> []" "\<forall>c \<in> set t. \<not> is_wspace c"
  shows "skip_ws (t @ s) = t @ s"
  using assms by (cases t) (auto simp: skip_ws_def)

lemma token_span:
  assumes "\<forall>c \<in> set t. P c" "\<And>c. is_wspace c \<Longrightarrow> \<not> P c" "token_end s"
  shows "takeWhile P (t @ s) = t" "dropWhile P (t @ s) = s"
proof -
  have "takeWhile P s = []" "dropWhile P s = s" using assms(2,3) by (cases s; simp)+
  then show "takeWhile P (t @ s) = t" "dropWhile P (t @ s) = s" using assms(1) by auto
qed

lemma read_magnitude_written [stream_simps]:
  assumes "token_end s"
  shows "read_magnitude (to_wstring n @ s) = Some ((False, n), s)"
proof -
  have ds: "\<forall>c \<in> set (to_wstring n). is_wdigit c" by (simp add: to_wstring_digits)
  then have "skip_ws (to_wstring n @ s) = to_wstring n @ s"
    by (intro skip_ws_token) (auto simp: digit_not_space)
  moreover have "read_sign (to_wstring n @ s) = (False, to_wstring n @ s)"
    using ds by (cases "to_wstring n") (auto simp: read_sign_def dest: digit_not_sign)
  ultimately show ?thesis
    using token_span [OF ds _ assms] by (simp add: read_magnitude_def space_not_digit)
qed

lemma read_unsigned_written [stream_simps]:
  "token_end s \<Longrightarrow> read_unsigned (write_unsigned w @ s) = Some (w, s)"
  using unsigned_less [of w, where ?'a = nat]
  by (simp add: read_unsigned_def write_unsigned_def read_magnitude_written not_le del: unsigned_less)

lemma read_size_written [stream_simps]:
  "token_end s \<Longrightarrow> n < 2 ^ 64 \<Longrightarrow> read_size (to_wstring n @ s) = Some (n, s)"
  by (simp add: read_size_def read_unsigned_def read_magnitude_written unsigned_of_nat take_bit_nat_eq_self)

lemma read_bool_written [stream_simps]:
  "token_end s \<Longrightarrow> read_bool (write_bool b @ s) = Some (b, s)"
  by (simp add: read_bool_def write_bool_def read_magnitude_written)

lemma read_string_written:
  assumes "t \<noteq> []" "\<forall>c \<in> set t. \<not> is_wspace c" "token_end s"
  shows "read_string (t @ s) = Some (t, s)"
proof -
  have span: "takeWhile (\<lambda>c. \<not> is_wspace c) (t @ s) = t" "dropWhile (\<lambda>c. \<not> is_wspace c) (t @ s) = s"
    using token_span [of t "\<lambda>c. \<not> is_wspace c" s] assms(2,3) by auto
  obtain c cs where "t @ s = c # cs" using assms(1) by (cases t) auto
  then show ?thesis using span skip_ws_token [OF assms(1,2), of s] by (simp add: read_string_def)
qed

lemma scan_escaped [stream_simps]: "scan_quoted (escape_quoted t @ 0x22 # s) = Some (t, s)"
  by (induction t) auto

lemma read_quoted_written [stream_simps]: "read_quoted (write_quoted t @ s) = Some (t, s)"
  by (simp add: read_quoted_def write_quoted_def skip_ws_stop scan_escaped)

text \<open>A reader of formatted input skips the separator in front of its field.\<close>

lemma read_separated [stream_simps]:
  "read_unsigned (0x20 # s) = read_unsigned s"
  "read_size (0x20 # s) = read_size s"
  "read_bool (0x20 # s) = read_bool s"
  "read_quoted (0x20 # s) = read_quoted s"
  "read_string (0x20 # s) = read_string s"
  "read_char (0x20 # s) = read_char s"
  by (simp_all add: read_unsigned_def read_size_def read_bool_def read_quoted_def read_string_def
      read_char_def read_magnitude_def)

lemma get_line_written [stream_simps]:
  "0x0A \<notin> set l \<Longrightarrow> get_line (l @ 0x0A # s) = Some (l, s)"
proof -
  assume "0x0A \<notin> set l"
  then have "\<forall>c \<in> set l. c \<noteq> 0x0A" by auto
  then have "takeWhile (\<lambda>c. c \<noteq> 0x0A) (l @ 0x0A # s) = l" "dropWhile (\<lambda>c. c \<noteq> 0x0A) (l @ 0x0A # s) = 0x0A # s"
    by auto
  then show ?thesis by (simp add: get_line_def)
qed

lemma get_line_shorter: "get_line s = Some (l, r) \<Longrightarrow> length r < length s"
proof -
  assume "get_line s = Some (l, r)"
  then have s: "s \<noteq> []" "r = drop 1 (dropWhile (\<lambda>c. c \<noteq> 0x0A) s)" by (auto simp: get_line_def split: if_splits)
  have "length (dropWhile (\<lambda>c. c \<noteq> 0x0A) s) \<le> length s" by (rule length_dropWhile_le)
  with s show ?thesis by (cases s) auto
qed

lemma no_newline_digits [simp]: "0x0A \<notin> set (to_wstring n)"
  using to_wstring_digits [of "0x0A" n] by (auto simp: is_wdigit_def)

lemma no_newline_unsigned [simp]: "0x0A \<notin> set (write_unsigned w)" "0x0A \<notin> set (write_bool b)"
  by (simp_all add: write_unsigned_def write_bool_def)

lemma set_escape_quoted: "set (escape_quoted t) \<subseteq> set t \<union> {0x5C}"
  by (induction t) auto

lemma no_newline_quoted [simp]: "0x0A \<notin> set (write_quoted t) \<longleftrightarrow> 0x0A \<notin> set t"
proof -
  have "0x0A \<in> set (escape_quoted t) \<longleftrightarrow> 0x0A \<in> set t" by (induction t) auto
  then show ?thesis by (auto simp: write_quoted_def)
qed

end
