(* ===== verification/Wide_Double.thy ===== *)
theory Wide_Double
  imports Wide_Stream
begin

text \<open>
  Inserting and extracting a \<open>double\<close> with \<open>std::setprecision(17)\<close> and default formatting, which is
  \<open>printf\<close>'s \<open>%.17g\<close> and \<open>strtod\<close>: 17 significant decimal digits, correctly rounded, fixed notation
  for decimal exponents from -4 to 16 and exponent notation otherwise.  Extraction rounds the decimal
  number to the nearest binary64 value and fails on overflow.
\<close>

definition pow10 :: "int \<Rightarrow> rat" where
  "pow10 k = (if 0 \<le> k then 10 ^ nat k else 1 / 10 ^ nat (- k))"

definition dec_length :: "int \<Rightarrow> int" where
  "dec_length n = int (length (digits_of (nat n)))"

text \<open>The decimal exponent of a positive number: \<open>10 ^ e \<le> q < 10 ^ (e + 1)\<close>.\<close>

definition dec_exponent :: "rat \<Rightarrow> int" where
  "dec_exponent q =
    (let (n, d) = quotient_of q; e = dec_length n - dec_length d
     in if pow10 e \<le> q then e else e - 1)"

text \<open>The 17 digits nearest to a positive number, with the exponent of the first digit.\<close>

definition dec_digits :: "rat \<Rightarrow> int \<times> int" where
  "dec_digits q =
    (let e = dec_exponent q; n = round_half_even (q / pow10 (e - 16))
     in if n = 10 ^ 17 then (e + 1, 10 ^ 16) else (e, n))"

definition strip_zeros :: "wstring \<Rightarrow> wstring" where
  "strip_zeros ds = rev (dropWhile (\<lambda>c. c = 0x30) (rev ds))"

definition with_point :: "wstring \<Rightarrow> wstring" where
  "with_point ds = (if ds = [] then [] else 0x2E # ds)"

definition write_exponent :: "int \<Rightarrow> wstring" where
  "write_exponent e = [0x65, if e < 0 then 0x2D else 0x2B]
    @ (if \<bar>e\<bar> < 10 then [0x30] else []) @ to_wstring (nat \<bar>e\<bar>)"

definition write_positive :: "rat \<Rightarrow> wstring" where
  "write_positive q =
    (case dec_digits q of (e, n) \<Rightarrow>
      let ds = to_wstring (nat n) in
      if e < - 4 \<or> 17 \<le> e then take 1 ds @ with_point (strip_zeros (drop 1 ds)) @ write_exponent e
      else if e < 0 then 0x30 # with_point (replicate (nat (- e) - 1) 0x30 @ strip_zeros ds)
      else take (nat e + 1) ds @ with_point (strip_zeros (drop (nat e + 1) ds)))"

fun write_double :: "fp \<Rightarrow> wstring" where
  "write_double (Fin q) = (if q = 0 then [0x30] else if q < 0 then 0x2D # write_positive (- q)
     else write_positive q)"
| "write_double PosInf = lit ''inf''"
| "write_double NegInf = lit ''-inf''"
| "write_double NaN = lit ''nan''"

definition read_exponent :: "int reader" where
  "read_exponent s = (case s of [] \<Rightarrow> Some (0, [])
     | c # cs \<Rightarrow>
         if c = 0x65 \<or> c = 0x45 then
           (case read_sign cs of (negative, t) \<Rightarrow>
              let ds = takeWhile is_wdigit t; x = int (decimal_value ds) in
              if ds = [] then None else Some (if negative then - x else x, dropWhile is_wdigit t))
         else Some (0, s))"

definition read_fraction :: "wstring \<Rightarrow> wstring \<times> wstring" where
  "read_fraction s = (case s of [] \<Rightarrow> ([], [])
     | c # cs \<Rightarrow> if c = 0x2E then (takeWhile is_wdigit cs, dropWhile is_wdigit cs) else ([], s))"

definition decimal_rat :: "wstring \<Rightarrow> wstring \<Rightarrow> int \<Rightarrow> rat" where
  "decimal_rat a b x = of_nat (decimal_value (a @ b)) * pow10 (x - int (length b))"

definition read_double :: "fp reader" where
  "read_double s =
    (case read_sign (skip_ws s) of (negative, t) \<Rightarrow>
       let a = takeWhile is_wdigit t in
       case read_fraction (dropWhile is_wdigit t) of (b, u) \<Rightarrow>
         if a = [] \<and> b = [] then None
         else do {
           (x, rest) \<leftarrow> read_exponent u;
           let v = decimal_rat a b x;
           case dbl (if negative then - v else v) of Fin r \<Rightarrow> Some (Fin r, rest) | _ \<Rightarrow> None })"

section \<open>Powers of ten and decimal exponents\<close>

lemma pow10_pos [simp]: "0 < pow10 k"
  by (simp add: pow10_def)

lemma pow10_Suc: "pow10 (k + 1) = 10 * pow10 k"
proof (cases "0 \<le> k")
  case True
  then show ?thesis by (simp add: pow10_def nat_add_distrib)
next
  case False
  then have "nat (- k) = Suc (nat (- (k + 1)))" by simp
  with False show ?thesis by (cases "k = - 1") (auto simp: pow10_def)
qed

lemma pow10_add: "pow10 (k + int n) = pow10 k * 10 ^ n"
proof (induction n)
  case (Suc n)
  have "k + int (Suc n) = k + int n + 1" by simp
  then show ?case unfolding \<open>k + int (Suc n) = k + int n + 1\<close> pow10_Suc Suc by simp
qed simp

lemma pow10_nat: "pow10 (int n) = 10 ^ n"
  by (simp add: pow10_def)

lemma length_digits_of: "0 < n \<Longrightarrow> 10 ^ (length (digits_of n) - 1) \<le> n \<and> n < 10 ^ length (digits_of n)"
proof (induction n rule: digits_of.induct)
  case (1 n)
  have step: "digits_of n = (if n < 10 then [n] else digits_of (n div 10) @ [n mod 10])"
    by (rule digits_of.simps)
  show ?case
  proof (cases "n < 10")
    case True
    with step 1(2) show ?thesis by simp
  next
    case False
    then have "0 < n div 10" by simp
    from 1(1) [OF False this] have IH: "10 ^ (length (digits_of (n div 10)) - 1) \<le> n div 10"
      "n div 10 < 10 ^ length (digits_of (n div 10))" by auto
    have l: "length (digits_of n) = Suc (length (digits_of (n div 10)))" using step False by simp
    obtain k where k: "length (digits_of (n div 10)) = Suc k"
      by (cases "digits_of (n div 10)") auto
    have "10 ^ Suc k \<le> n" using IH(1) k by (simp; linarith?)
    moreover have "n < 10 ^ Suc (Suc k)" using IH(2) k by (simp; linarith?)
    ultimately show ?thesis unfolding l k by simp
  qed
qed

lemma dec_length_bounds:
  assumes "0 < n"
  shows "1 \<le> dec_length n" "10 ^ nat (dec_length n - 1) \<le> n" "n < 10 ^ nat (dec_length n)"
proof -
  let ?l = "length (digits_of (nat n))"
  have "nat n > 0" using assms by simp
  from length_digits_of [OF this] have "10 ^ (?l - 1) \<le> nat n" "nat n < 10 ^ ?l" by auto
  then have "int (10 ^ (?l - 1)) \<le> n" "n < int (10 ^ ?l)" using assms by linarith+
  moreover have "nat (dec_length n - 1) = ?l - 1" "nat (dec_length n) = ?l" by (simp_all add: dec_length_def)
  moreover have "1 \<le> ?l" by (cases "digits_of (nat n)") auto
  ultimately show "1 \<le> dec_length n" "10 ^ nat (dec_length n - 1) \<le> n" "n < 10 ^ nat (dec_length n)"
    by (simp_all add: dec_length_def)
qed

lemma pow10_int: "0 \<le> k \<Longrightarrow> pow10 k = of_int (10 ^ nat k)"
  by (simp add: pow10_def)

lemma dec_length_rat:
  assumes "0 < n"
  shows "pow10 (dec_length n - 1) \<le> of_int n" "of_int n < pow10 (dec_length n)"
  using dec_length_bounds [OF assms] by (simp_all only: pow10_int of_int_le_iff of_int_less_iff)

lemma dec_exponent_bounds:
  assumes "0 < q"
  shows "pow10 (dec_exponent q) \<le> q" "q < pow10 (dec_exponent q + 1)"
proof -
  obtain n d where nd: "quotient_of q = (n, d)" by fastforce
  have d: "0 < d" using quotient_of_denom_pos [OF nd] .
  have q: "q = of_int n / of_int d" using quotient_of_div [OF nd] .
  have n: "0 < n" using assms d by (simp add: q zero_less_divide_iff)
  let ?a = "dec_length n" and ?b = "dec_length d"
  note bn = dec_length_bounds [OF n] and bd = dec_length_bounds [OF d]
  have rn: "pow10 (?a - 1) \<le> of_int n" "of_int n < pow10 ?a"
    and rd: "pow10 (?b - 1) \<le> of_int d" "of_int d < pow10 ?b"
    using dec_length_rat [OF n] dec_length_rat [OF d] by blast+
  let ?e = "?a - ?b"
  have shift: "pow10 (k + ?b) = pow10 k * pow10 ?b" for k
    using pow10_add [of k "nat ?b"] bd(1) by (simp add: pow10_def)
  have shift': "pow10 (k + (?b - 1)) = pow10 k * pow10 (?b - 1)" for k
    using pow10_add [of k "nat (?b - 1)"] bd(1) by (simp add: pow10_def)
  have "pow10 (?e - 1) * of_int d \<le> pow10 (?e - 1) * pow10 ?b"
    using rd by (intro mult_left_mono) (auto simp: less_imp_le)
  also have "\<dots> = pow10 (?a - 1)" by (simp flip: shift)
  also have "\<dots> \<le> q * of_int d" using rn d by (simp add: q)
  finally have lower: "pow10 (?e - 1) \<le> q" using d by simp
  have "q * of_int d < pow10 ?a" using rn d by (simp add: q)
  also have "\<dots> = pow10 (?e + 1) * pow10 (?b - 1)" by (simp flip: shift')
  also have "\<dots> \<le> pow10 (?e + 1) * of_int d"
    using rd by (intro mult_left_mono) (auto simp: less_imp_le)
  finally have upper: "q < pow10 (?e + 1)" using d by simp
  show "pow10 (dec_exponent q) \<le> q" "q < pow10 (dec_exponent q + 1)"
    using lower upper by (auto simp: dec_exponent_def nd Let_def)
qed

section \<open>Seventeen digits identify a binary64 value\<close>

lemma round_half_even_near: "\<bar>x - of_int m\<bar> < 1 / 2 \<Longrightarrow> round_half_even x = m"
proof -
  assume "\<bar>x - of_int m\<bar> < 1 / 2"
  moreover have "\<bar>of_int (round_half_even x) - x\<bar> \<le> 1 / 2" by (rule round_half_even_close)
  ultimately have "\<bar>of_int (round_half_even x - m) :: rat\<bar> < 1" by (simp only: of_int_diff; linarith?)
  then have "(of_int \<bar>round_half_even x - m\<bar> :: rat) < of_int 1" by (simp only: of_int_abs of_int_1)
  then show ?thesis by (simp only: of_int_less_iff; linarith?)
qed

lemma pow2_shift: "0 \<le> n \<Longrightarrow> pow2 (k + n) = pow2 k * 2 ^ nat n"
  using pow2_add [of k "nat n"] by simp

lemma relative_error:
  "20000000000000000 * a \<le> q \<Longrightarrow> q < 9007199254740992 * P \<Longrightarrow> P \<le> k \<Longrightarrow> 0 < P \<Longrightarrow> a < k / (2 :: rat)"
  by linarith

lemma relative_error':
  "20000000000000000 * a \<le> q \<Longrightarrow> q \<le> v + a \<Longrightarrow> v < 9007199254740992 * k \<Longrightarrow> 0 < k \<Longrightarrow> a < k / (2 :: rat)"
  by linarith

lemma near_same_double:
  assumes q: "0 < q" "dbl q = Fin q" and v: "0 < v" and err: "\<bar>v - q\<bar> \<le> q / (2 * 10 ^ 16)"
  shows "dbl v = Fin q"
proof -
  define E where "E = rat_exponent q"
  define F where "F = rat_exponent v"
  define k where "k = dbl_exponent q"
  define l where "l = dbl_exponent v"
  have kE: "k = max (E - 52) (- 1074)" using q(1) by (simp add: k_def fp_exponent_def E_def)
  have lF: "l = max (F - 52) (- 1074)" using v by (simp add: l_def fp_exponent_def F_def)
  have pos: "0 < pow2 j" for j by (rule pow2_pos)
  have err': "20000000000000000 * \<bar>v - q\<bar> \<le> q" using err by (simp add: field_simps)
  have bounds: "pow2 E \<le> q" "q < pow2 (E + 1)" "pow2 F \<le> v" "v < pow2 (F + 1)"
    using rat_exponent_le [OF q(1)] rat_exponent_gt [OF q(1)] rat_exponent_le [OF v]
      rat_exponent_gt [OF v] by (simp_all add: E_def F_def)
  define m where "m = round_half_even (q / pow2 k)"
  have val: "dbl_value q = q" using q(2) by (auto simp: dbl_by_value split: if_splits)
  then have qm: "q = of_int m * pow2 k" using q(1) by (simp add: fp_value_def m_def k_def)
  have m: "1 \<le> m"
  proof -
    have "0 < of_int m * pow2 k" using q(1) qm by simp
    then have "(0 :: rat) < of_int m" using pos [of k] by (simp add: zero_less_mult_iff)
    then show ?thesis by simp
  qed
  have "1 * pow2 k \<le> of_int m * pow2 k" using m pos [of k] by (intro mult_right_mono) (simp_all add: less_imp_le)
  then have "pow2 k < pow2 (E + 1)" using bounds(2) unfolding qm by linarith
  then have kE1: "k \<le> E" using pow2_less by fastforce
  have e52: "pow2 (j + 53) = 9007199254740992 * pow2 j" for j using pow2_shift [of 53 j] by simp
  have scale: "pow2 (E + 1) = 9007199254740992 * pow2 (E - 52)" using e52 [of "E - 52"] by (simp add: add.commute)
  have step: "pow2 (E - 52) \<le> pow2 k" using kE by (intro pow2_mono) simp
  then have small: "\<bar>v - q\<bar> < pow2 k / 2" using relative_error [OF err' _ step pos] bounds(2) scale by simp
  have FE: "F \<le> E"
  proof (rule ccontr)
    assume "\<not> F \<le> E"
    then have "pow2 (E + 1) \<le> pow2 F" by (intro pow2_mono) simp
    with bounds have far: "pow2 (E + 1) \<le> v" by simp
    have up: "pow2 (E + 1) = pow2 k * 2 ^ nat (E + 1 - k)" using pow2_shift [of "E + 1 - k" k] kE1 by simp
    have "of_int m * pow2 k < of_int (2 ^ nat (E + 1 - k)) * pow2 k" using bounds(2) qm up by (simp add: mult.commute)
    then have "(of_int m :: rat) < of_int (2 ^ nat (E + 1 - k))" using pos [of k] by (metis mult_less_cancel_right_pos)
    then have "m + 1 \<le> 2 ^ nat (E + 1 - k)" by (simp only: of_int_less_iff; simp?)
    then have "(of_int (m + 1) :: rat) \<le> of_int (2 ^ nat (E + 1 - k))" by (simp only: of_int_le_iff)
    then have "of_int (m + 1) * pow2 k \<le> of_int (2 ^ nat (E + 1 - k)) * pow2 k"
      using pos [of k] by (intro mult_right_mono) (simp_all add: less_imp_le)
    then have "q + pow2 k \<le> pow2 (E + 1)" using qm up by (simp add: algebra_simps)
    with far small pos [of k] show False by linarith
  qed
  then have lk: "l \<le> k" using kE lF by simp
  have "v < 9007199254740992 * pow2 (F - 52)" using bounds(4) e52 [of "F - 52"] by (simp add: add.commute)
  also have "pow2 (F - 52) \<le> pow2 l" using lF by (intro pow2_mono) simp
  finally have "v < 9007199254740992 * pow2 l" by simp
  moreover have "q \<le> v + \<bar>v - q\<bar>" by simp
  ultimately have close: "\<bar>v - q\<bar> < pow2 l / 2" using relative_error' [OF err'] pos [of l] by blast
  define c where "c = m * 2 ^ nat (k - l)"
  have qc: "q = of_int c * pow2 l"
    using qm pow2_shift [of "k - l" l] lk by (simp add: c_def)
  have "\<bar>v / pow2 l - of_int c\<bar> = \<bar>v - q\<bar> / pow2 l"
  proof -
    have "v / pow2 l - of_int c = (v - q) / pow2 l" using pos [of l] qc by (simp add: field_simps)
    then show ?thesis by (simp add: abs_divide abs_of_pos [OF pos [of l]])
  qed
  also have "\<dots> < 1 / 2" using close pos [of l] by (simp add: field_simps)
  finally have "round_half_even (v / pow2 l) = c" by (rule round_half_even_near)
  then have "dbl_value v = q" using v qc by (simp add: fp_value_def l_def)
  moreover have "\<not> pow2 1024 \<le> q" "\<not> q \<le> - pow2 1024"
    using q(2) val by (auto simp: dbl_by_value split: if_splits)
  ultimately show ?thesis by (simp add: dbl_by_value)
qed

lemma dec_digits_ok:
  assumes "0 < q" "dec_digits q = (e, n)"
  shows "10 ^ 16 \<le> n" "n < 10 ^ 17" "\<bar>of_int n * pow10 (e - 16) - q\<bar> \<le> q / (2 * 10 ^ 16)"
proof -
  define d where "d = dec_exponent q"
  define p where "p = pow10 (d - 16)"
  define k where "k = round_half_even (q / p)"
  have p: "0 < p" by (simp add: p_def)
  have "pow10 (d - 16 + int 16) = p * 10 ^ 16" "pow10 (d - 16 + int 17) = p * 10 ^ 17"
    unfolding pow10_add p_def by simp_all
  then have b: "p * 10 ^ 16 \<le> q" "q < p * 10 ^ 17"
    using dec_exponent_bounds [OF assms(1)] by (simp_all add: d_def add.commute)
  have "of_int (10 ^ 16) \<le> q / p" "q / p \<le> of_int (10 ^ 17)" using b p by (simp_all add: field_simps)
  then have k: "10 ^ 16 \<le> k" "k \<le> 10 ^ 17"
    using round_half_even_mono round_int unfolding k_def by metis+
  have "\<bar>of_int k - q / p\<bar> * p \<le> 1 / 2 * p"
    unfolding k_def using round_half_even_close p by (intro mult_right_mono) simp_all
  moreover have "of_int k * p - q = (of_int k - q / p) * p" using p by (simp add: field_simps)
  ultimately have "\<bar>of_int k * p - q\<bar> \<le> p / 2" by (simp add: abs_mult abs_of_pos [OF p])
  also have "\<dots> \<le> q / (2 * 10 ^ 16)" using b(1) by (simp add: field_simps)
  finally have close: "\<bar>of_int k * p - q\<bar> \<le> q / (2 * 10 ^ 16)" .
  have "(e, n) = (if k = 10 ^ 17 then (d + 1, 10 ^ 16) else (d, k))"
    unfolding assms(2) [symmetric] dec_digits_def Let_def d_def k_def p_def ..
  moreover have "pow10 (d + 1 - 16) = 10 * p" using pow10_Suc [of "d - 16"] by (simp add: p_def algebra_simps)
  ultimately show "10 ^ 16 \<le> n" "n < 10 ^ 17" "\<bar>of_int n * pow10 (e - 16) - q\<bar> \<le> q / (2 * 10 ^ 16)"
    using k close by (auto simp: p_def split: if_splits)
qed

lemma length_seventeen:
  assumes "10 ^ 16 \<le> n" "n < 10 ^ 17"
  shows "length (to_wstring n) = 17"
proof -
  have n: "0 < n" using assms(1) by (auto intro: order.strict_trans2 [rotated])
  let ?l = "length (digits_of n)"
  have "(10 :: nat) ^ (?l - 1) < 10 ^ 17" "(10 :: nat) ^ 16 < 10 ^ ?l"
    using length_digits_of [OF n] assms by linarith+
  then have "?l - 1 < 17" "16 < ?l"
    using power_less_imp_less_exp [of "10 :: nat" "?l - 1" 17] power_less_imp_less_exp [of "10 :: nat" 16 ?l]
    by simp_all
  then show ?thesis by (simp add: to_wstring_code)
qed

section \<open>Reading back the digits\<close>

lemma strip_zeros_append: "\<exists>k. ds = strip_zeros ds @ replicate k 0x30"
proof -
  let ?p = "\<lambda>c :: wchar. c = 0x30"
  have "rev ds = takeWhile ?p (rev ds) @ dropWhile ?p (rev ds)" by simp
  then have "ds = strip_zeros ds @ rev (takeWhile ?p (rev ds))"
    unfolding strip_zeros_def by (metis rev_append rev_rev_ident)
  moreover have "takeWhile ?p xs = replicate (length (takeWhile ?p xs)) 0x30" for xs
    by (induction xs) auto
  ultimately show ?thesis by (metis rev_replicate)
qed

lemma decimal_value_zeros [simp]: "decimal_value (replicate k 0x30) = 0"
proof (induction k)
  case (Suc k)
  have "decimal_value (replicate k 0x30 @ [0x30]) = 0"
    unfolding decimal_value_append Suc by (simp add: decimal_value_def digit_value_def)
  then show ?case by (simp add: replicate_append_same)
qed (simp add: decimal_value_def)

lemma decimal_rat_strip: "decimal_rat a (strip_zeros b) x = decimal_rat a b x"
proof -
  obtain k where b: "b = strip_zeros b @ replicate k 0x30" using strip_zeros_append by blast
  let ?s = "strip_zeros b"
  have "decimal_value (a @ b) = decimal_value (a @ ?s) * 10 ^ k"
    by (subst b) (simp add: decimal_value_append [of "a @ ?s" "replicate k 0x30", simplified])
  moreover have "length b = length ?s + k" by (subst b) simp
  moreover have "pow10 (x - int (length ?s)) = pow10 (x - int (length ?s) - int k) * 10 ^ k"
    using pow10_add [of "x - int (length ?s) - int k" k] by simp
  ultimately show ?thesis by (simp add: decimal_rat_def algebra_simps)
qed

lemma strip_zeros_digits: "c \<in> set (strip_zeros ds) \<Longrightarrow> c \<in> set ds"
  using set_dropWhileD by (fastforce simp: strip_zeros_def)

text \<open>What can follow the digits: the end of the token, or an exponent.\<close>

definition digits_end :: "wstring \<Rightarrow> bool" where
  "digits_end s \<longleftrightarrow> (case s of [] \<Rightarrow> True | c # _ \<Rightarrow> \<not> is_wdigit c \<and> c \<noteq> 0x2E)"

lemma digits_end_simps [simp]:
  "digits_end []" "digits_end (0x65 # s)" "token_end s \<Longrightarrow> digits_end s"
proof -
  show "token_end s \<Longrightarrow> digits_end s"
    by (cases s) (auto simp: digits_end_def space_not_digit, simp add: is_wspace_def)
qed (simp_all add: digits_end_def is_wdigit_def)

lemma digits_span:
  assumes "\<forall>c \<in> set ds. is_wdigit c" "digits_end s"
  shows "takeWhile is_wdigit (ds @ s) = ds" "dropWhile is_wdigit (ds @ s) = s"
proof -
  have "takeWhile is_wdigit s = []" "dropWhile is_wdigit s = s"
    using assms(2) by (cases s; simp add: digits_end_def)+
  then show "takeWhile is_wdigit (ds @ s) = ds" "dropWhile is_wdigit (ds @ s) = s" using assms(1) by auto
qed

lemma read_exponent_written:
  assumes "token_end s"
  shows "read_exponent (write_exponent x @ s) = Some (x, s)" "read_exponent s = Some (0, s)"
proof -
  define ds where "ds = (if \<bar>x\<bar> < 10 then [0x30] else []) @ to_wstring (nat \<bar>x\<bar>)"
  have z: "is_wdigit 0x30" by (simp add: is_wdigit_def)
  have ds: "\<forall>c \<in> set ds. is_wdigit c" using z by (auto simp: ds_def to_wstring_digits)
  have v: "decimal_value ds = nat \<bar>x\<bar>"
    unfolding ds_def using decimal_value_zeros [of 1] decimal_value_zeros [of 0] by (simp only: decimal_value_append) simp
  have w: "write_exponent x @ s = 0x65 # (if x < 0 then 0x2D else 0x2B) # (ds @ s)"
    by (simp add: write_exponent_def ds_def)
  have "ds \<noteq> []" by (simp add: ds_def)
  then show "read_exponent (write_exponent x @ s) = Some (x, s)"
    unfolding w using digits_span [OF ds digits_end_simps(3) [OF assms]] v
    by (simp add: read_exponent_def read_sign_def Let_def)
  show "read_exponent s = Some (0, s)"
    using assms by (cases s) (auto simp: read_exponent_def is_wspace_def)
qed

lemma read_fraction_written:
  assumes "\<forall>c \<in> set b. is_wdigit c" "digits_end s"
  shows "read_fraction (with_point b @ s) = (b, s)"
proof (cases "b = []")
  case True
  with assms(2) show ?thesis by (cases s) (auto simp: read_fraction_def with_point_def digits_end_def)
next
  case False
  with digits_span [OF assms] show ?thesis by (simp add: read_fraction_def with_point_def)
qed

lemma digits_end_point: "digits_end s \<Longrightarrow> takeWhile is_wdigit (with_point b @ s) = [] \<and>
    dropWhile is_wdigit (with_point b @ s) = with_point b @ s"
  by (cases s) (auto simp: with_point_def digits_end_def is_wdigit_def)

lemma read_double_text:
  assumes a: "\<forall>c \<in> set a. is_wdigit c" "a \<noteq> []" and b: "\<forall>c \<in> set b. is_wdigit c" and u: "digits_end u"
    and x: "read_exponent u = Some (x, s)"
  shows "read_double (a @ with_point b @ u) =
      (case dbl (decimal_rat a b x) of Fin r \<Rightarrow> Some (Fin r, s) | _ \<Rightarrow> None)"
    and "read_double (0x2D # a @ with_point b @ u) =
      (case dbl (- decimal_rat a b x) of Fin r \<Rightarrow> Some (Fin r, s) | _ \<Rightarrow> None)"
proof -
  let ?t = "with_point b @ u"
  have span: "takeWhile is_wdigit (a @ ?t) = a" "dropWhile is_wdigit (a @ ?t) = ?t"
    using a(1) digits_end_point [OF u, of b] by auto
  have "skip_ws (a @ ?t) = a @ ?t"
    using a digit_not_space by (intro skip_ws_token) auto
  moreover have "read_sign (a @ ?t) = (False, a @ ?t)"
    using a by (cases a) (auto simp: read_sign_def dest: digit_not_sign)
  ultimately show "read_double (a @ ?t) =
      (case dbl (decimal_rat a b x) of Fin r \<Rightarrow> Some (Fin r, s) | _ \<Rightarrow> None)"
    using span read_fraction_written [OF b u] a(2) x by (simp add: read_double_def Let_def)
  have "skip_ws (0x2D # a @ ?t) = 0x2D # a @ ?t" by (simp add: skip_ws_stop is_wspace_def)
  then show "read_double (0x2D # a @ ?t) =
      (case dbl (- decimal_rat a b x) of Fin r \<Rightarrow> Some (Fin r, s) | _ \<Rightarrow> None)"
    using span read_fraction_written [OF b u] a(2) x by (simp add: read_double_def read_sign_def Let_def)
qed

text \<open>The three layouts of a positive number denote its 17 digits.\<close>

lemma write_positive_text:
  assumes "0 < q" "token_end s" "dec_digits q = (e, n)"
  shows "\<exists>a b u x. write_positive q @ s = a @ with_point b @ u \<and> a \<noteq> [] \<and> (\<forall>c \<in> set a. is_wdigit c)
    \<and> (\<forall>c \<in> set b. is_wdigit c) \<and> digits_end u \<and> read_exponent u = Some (x, s)
    \<and> decimal_rat a b x = of_int n * pow10 (e - 16)"
proof -
  define ds where "ds = to_wstring (nat n)"
  have n: "10 ^ 16 \<le> nat n" "nat n < 10 ^ 17" "0 \<le> n"
    using dec_digits_ok [OF assms(1,3)] by (simp_all add: nat_less_iff le_nat_iff)
  have len: "length ds = 17" using length_seventeen [OF n(1,2)] by (simp add: ds_def)
  have dig: "\<forall>c \<in> set ds. is_wdigit c" by (simp add: ds_def to_wstring_digits)
  have val: "of_nat (decimal_value ds) = (of_int n :: rat)" using n(3) by (simp add: ds_def)
  have split: "decimal_rat (take k ds) (strip_zeros (drop k ds)) x = of_int n * pow10 (x - (17 - int k))"
    if "k \<le> 17" for k x
    unfolding decimal_rat_strip using val len that by (simp add: decimal_rat_def of_nat_diff)
  have dk: "\<forall>c \<in> set (take k ds). is_wdigit c" "\<forall>c \<in> set (strip_zeros (drop k ds)). is_wdigit c" for k
    using dig strip_zeros_digits by (auto dest: in_set_takeD in_set_dropD)
  have W: "write_positive q = (if e < - 4 \<or> 17 \<le> e
      then take 1 ds @ with_point (strip_zeros (drop 1 ds)) @ write_exponent e
      else if e < 0 then 0x30 # with_point (replicate (nat (- e) - 1) 0x30 @ strip_zeros ds)
      else take (nat e + 1) ds @ with_point (strip_zeros (drop (nat e + 1) ds)))"
    by (simp add: write_positive_def assms(3) ds_def Let_def)
  consider "e < - 4 \<or> 17 \<le> e" | "- 4 \<le> e" "e < 0" | "0 \<le> e" "e < 17" by linarith
  then show ?thesis
  proof cases
    case 1
    have "digits_end (write_exponent e @ s)" by (simp add: write_exponent_def)
    moreover have "write_positive q @ s
        = take 1 ds @ with_point (strip_zeros (drop 1 ds)) @ (write_exponent e @ s)" using W 1 by simp
    ultimately show ?thesis
      using read_exponent_written(1) [OF assms(2), of e] split [of 1 e] dk [of 1] len
      by (intro exI [of _ "take 1 ds"] exI [of _ "strip_zeros (drop 1 ds)"]
          exI [of _ "write_exponent e @ s"] exI [of _ e]) auto
  next
    case 2
    let ?z = "replicate (nat (- e) - 1) (0x30 :: wchar)"
    have z: "is_wdigit 0x30" by (simp add: is_wdigit_def)
    have z0: "decimal_value (0x30 # ?z) = 0" using decimal_value_zeros [of "Suc (nat (- e) - 1)"] by simp
    have "decimal_rat [0x30] (?z @ strip_zeros ds) 0
        = decimal_rat [] (strip_zeros ds) (e + 1)"
      using 2 decimal_value_append [of "0x30 # ?z" "strip_zeros ds"] unfolding z0
      by (simp add: decimal_rat_def of_nat_diff algebra_simps)
    also have "\<dots> = of_int n * pow10 (e - 16)"
      unfolding decimal_rat_strip using val len by (simp add: decimal_rat_def algebra_simps)
    finally show ?thesis
      using W 2 read_exponent_written(2) [OF assms(2)] assms(2) z dk(2) [of 0]
      by (intro exI [of _ "[0x30]"] exI [of _ "?z @ strip_zeros ds"] exI [of _ s] exI [of _ 0]) auto
  next
    case 3
    then have "nat e + 1 \<le> 17" by simp
    with 3 show ?thesis
      using W split [of "nat e + 1" 0] read_exponent_written(2) [OF assms(2)] assms(2) dk [of "nat e + 1"] len
      by (intro exI [of _ "take (nat e + 1) ds"] exI [of _ "strip_zeros (drop (nat e + 1) ds)"]
          exI [of _ s] exI [of _ 0]) auto
  qed
qed

lemma read_double_written [stream_simps]:
  assumes "dbl q = Fin q" "token_end s"
  shows "read_double (write_double (Fin q) @ s) = Some (Fin q, s)"
proof -
  have positive: "read_double (write_positive r @ s) = Some (Fin r, s)
      \<and> read_double (0x2D # write_positive r @ s) = Some (Fin (- r), s)"
    if r: "0 < r" "dbl r = Fin r" for r
  proof -
    obtain e n where en: "dec_digits r = (e, n)" by fastforce
    note ok = dec_digits_ok [OF r(1) en]
    have pos: "0 < of_int n * pow10 (e - 16)" using ok(1) by (simp add: zero_less_mult_iff)
    have near: "dbl (of_int n * pow10 (e - 16)) = Fin r" by (rule near_same_double [OF r pos ok(3)])
    then have minus: "dbl (- (of_int n * pow10 (e - 16))) = Fin (- r)"
      by (auto simp: dbl_by_value dbl_value_minus split: if_splits)
    obtain a b u x where t: "write_positive r @ s = a @ with_point b @ u" "a \<noteq> []"
      "\<forall>c \<in> set a. is_wdigit c" "\<forall>c \<in> set b. is_wdigit c" "digits_end u"
      "read_exponent u = Some (x, s)" "decimal_rat a b x = of_int n * pow10 (e - 16)"
      using write_positive_text [OF r(1) assms(2) en] by blast
    show ?thesis
      using read_double_text [OF t(3,2,4,5,6)] near minus unfolding t(1,7) by simp
  qed
  consider "q = 0" | "q < 0" | "0 < q" by linarith
  then show ?thesis
  proof cases
    case 1
    have "decimal_rat [0x30] [] 0 = 0" using decimal_value_zeros [of 1] by (simp add: decimal_rat_def)
    with 1 read_double_text(1) [of "[0x30]" "[]" s 0 s] assms(2) read_exponent_written(2) [OF assms(2)]
    show ?thesis by (simp add: with_point_def is_wdigit_def)
  next
    case 2
    have "dbl (- q) = Fin (- q)"
      using assms(1) by (auto simp: dbl_by_value dbl_value_minus split: if_splits)
    with 2 positive [of "- q"] show ?thesis by simp
  next
    case 3
    with positive [OF 3 assms(1)] show ?thesis by simp
  qed
qed

lemma read_double_separated [stream_simps]: "read_double (0x20 # s) = read_double s"
  by (simp add: read_double_def)

lemma no_newline_double [simp]: "0x0A \<notin> set (write_double x)"
proof -
  have pt: "0x0A \<notin> set (with_point ds) \<longleftrightarrow> 0x0A \<notin> set ds" for ds by (simp add: with_point_def)
  have ex: "0x0A \<notin> set (write_exponent e)" for e by (simp add: write_exponent_def)
  have st: "0x0A \<notin> set ds \<Longrightarrow> 0x0A \<notin> set (strip_zeros ds)" for ds using strip_zeros_digits by blast
  have td: "0x0A \<notin> set (take k (to_wstring n))" "0x0A \<notin> set (drop k (to_wstring n))" for k n
    using no_newline_digits [of n] by (meson in_set_takeD in_set_dropD)+
  have "0x0A \<notin> set (write_positive q)" for q
    using pt ex st td by (auto simp: write_positive_def Let_def split: prod.split)
  then show ?thesis by (cases x rule: write_double.cases) auto
qed

text \<open>Seventeen digits bring a \<open>double\<close> back.  Every finite binary64 value that is inserted into a
  stream with \<open>std::setprecision(17)\<close>, in fixed or in exponent notation, is extracted again as exactly
  the same value, whatever token follows it.\<close>

theorem double_text_round_trip:
  assumes "dbl q = Fin q"
  shows "read_double (0x20 # write_double (Fin q) @ 0x20 # s) = Some (Fin q, 0x20 # s)
    \<and> read_double (write_double (Fin q)) = Some (Fin q, [])"
  using read_double_written [OF assms, of "0x20 # s"] read_double_written [OF assms, of "[]"]
  by (simp add: read_double_separated)

theorem double_text_round_trip_witness:
  "read_double (write_double (Fin (1 / 2))) = Some (Fin (1 / 2), [])"
proof -
  have "\<bar>of_int 1 * pow2 (- 1)\<bar> < pow2 1024"
    using pow2_mono [of 0 1024] by (simp add: pow2_def)
  then have "dbl (1 / 2) = Fin (1 / 2)" using dbl_exact [of 1 "- 1"] by (simp add: pow2_def)
  from double_text_round_trip [OF this] show ?thesis by blast
qed

end
