(* ===== verification/Session_Lines.thy ===== *)
theory Session_Lines
  imports Text_File Wide_Double
begin

text \<open>
  What the two session formats share (\<open>src/document_session.cpp\<close>, \<open>src/docking_session.cpp\<close>): the
  UTF-8 size of a text, records on lines of their own, extension lines that are skipped, and the
  check of what follows the last record.
\<close>

definition Utf8Size :: "('h, 'w) file_api \<Rightarrow> wstring \<Rightarrow> nat option" where
  "Utf8Size api s = (if maximum_int < length s then None
     else if s = [] then Some 0 else map_option length (api_utf8_encode api s))"

abbreviation field :: "wstring \<Rightarrow> wstring" where
  "field s \<equiv> 0x20 # s"

text \<open>Lines that start with \<open>X \<close> are extensions and are skipped.\<close>

definition extension_line :: "wstring \<Rightarrow> bool" where
  "extension_line l \<longleftrightarrow> take 2 l = [0x58, 0x20]"

function ReadRecordLine :: "wstring reader" where
  "ReadRecordLine s = (case get_line s of None \<Rightarrow> None
     | Some (l, rest) \<Rightarrow> if extension_line l then ReadRecordLine rest else Some (l, rest))"
  by pat_completeness auto
termination
  by (relation "measure length") (auto dest: get_line_shorter)

declare ReadRecordLine.simps [simp del]

text \<open>Behind the records only empty lines and extensions may follow.\<close>

function trailer_ok :: "wstring \<Rightarrow> bool" where
  "trailer_ok s = (case get_line s of None \<Rightarrow> True
     | Some (l, rest) \<Rightarrow> (l = [] \<or> extension_line l) \<and> trailer_ok rest)"
  by pat_completeness auto
termination
  by (relation "measure length") (auto dest: get_line_shorter)

declare trailer_ok.simps [simp del]

section \<open>Facts\<close>

lemma read_record_written [stream_simps]:
  "0x0A \<notin> set l \<Longrightarrow> \<not> extension_line l \<Longrightarrow> ReadRecordLine (l @ 0x0A # s) = Some (l, s)"
  by (subst ReadRecordLine.simps) (simp add: stream_simps)

lemma at_end_Nil [simp]: "at_end []"
  by (simp add: at_end_def skip_ws_def)

end
