(* ===== verification/Document_Session.thy ===== *)
theory Document_Session
  imports Document_Workspace Session_Lines
begin

text \<open>
  The text format of document sessions (\<open>src/document_session.cpp\<close>,
  \<open>include/mwfl/document_session.h\<close>): writing, the line-oriented parser with its limits and
  statuses, and the files.
\<close>

record SessionDocument =
  sd_metadata :: WorkspaceDocument
  sd_stamp :: "FileStamp option"

record WorkspaceSession =
  ss_workspace :: u64
  ss_active :: "u64 option"
  ss_documents :: "SessionDocument list"
  ss_recently_closed :: "SessionDocument list"

record DocumentSession =
  se_schema_version :: u32
  se_workspaces :: "WorkspaceSession list"

record DocumentSessionLimits =
  dl_maximum_bytes :: nat
  dl_maximum_workspaces :: nat
  dl_maximum_documents :: nat
  dl_maximum_string_units :: nat

datatype DocumentSessionStatus =
    Session_success | Session_not_found | Session_unsupported_version | Session_malformed
  | Session_oversized | Session_duplicate_identity | Session_io_error

definition document_session_schema_version :: u32 where
  "document_session_schema_version = 1"

definition session_magic :: wstring where
  "session_magic = lit ''MWFL_DOCUMENT_SESSION''"

section \<open>Writing\<close>

definition CaptureWorkspaceSession :: "DocumentWorkspaceModel \<Rightarrow> WorkspaceSession" where
  "CaptureWorkspaceSession w = \<lparr>ss_workspace = dw_id w, ss_active = dw_active w,
     ss_documents = map (\<lambda>d. \<lparr>sd_metadata = d, sd_stamp = None\<rparr>) (dw_documents w),
     ss_recently_closed = map (\<lambda>d. \<lparr>sd_metadata = d, sd_stamp = None\<rparr>) (dw_recently_closed w)\<rparr>"

definition write_stamp :: "FileStamp option \<Rightarrow> wstring" where
  "write_stamp stamp = (case stamp of None \<Rightarrow> []
     | Some s \<Rightarrow> field (write_unsigned (fs_size s)) @ field (write_unsigned (fs_last_write_time s))
         @ field (write_unsigned (fs_file_id s)) @ field (write_unsigned (fs_volume_serial s)))"

definition document_fields :: "SessionDocument \<Rightarrow> wstring" where
  "document_fields v =
    (let d = sd_metadata v; view = wd_view d in
     write_unsigned (wd_id d) @ field (write_quoted (wd_title d)) @ field (write_quoted (wd_path d))
     @ field (write_bool (wd_dirty d)) @ field (write_bool (wd_can_undo d)) @ field (write_bool (wd_can_redo d))
     @ field (write_unsigned (vs_selection_start view)) @ field (write_unsigned (vs_selection_end view))
     @ field (write_unsigned (vs_first_visible_unit view)) @ field (write_double (vs_zoom view))
     @ field (write_bool (sd_stamp v \<noteq> None)) @ write_stamp (sd_stamp v))"

definition WriteDocument :: "wchar \<Rightarrow> SessionDocument \<Rightarrow> wstring" where
  "WriteDocument tag v = tag # field (document_fields v) @ [0x0A]"

definition write_workspace :: "WorkspaceSession \<Rightarrow> wstring" where
  "write_workspace w = lit ''W'' @ field (write_unsigned (ss_workspace w))
     @ field (write_unsigned (case ss_active w of None \<Rightarrow> 0 | Some a \<Rightarrow> a))
     @ field (to_wstring (length (ss_documents w))) @ field (to_wstring (length (ss_recently_closed w))) @ [0x0A]
     @ concat (map (WriteDocument 0x44) (ss_documents w))
     @ concat (map (WriteDocument 0x52) (ss_recently_closed w)) @ [0x45, 0x0A]"

definition SerializeDocumentSession :: "DocumentSession \<Rightarrow> wstring" where
  "SerializeDocumentSession s = session_magic @ field (write_unsigned (se_schema_version s))
     @ field (to_wstring (length (se_workspaces s))) @ [0x0A]
     @ concat (map write_workspace (se_workspaces s))"

section \<open>Parsing\<close>

definition read_stamp :: "FileStamp reader" where
  "read_stamp s = do {
     (a, s) \<leftarrow> read_unsigned s; (b, s) \<leftarrow> read_unsigned s; (c, s) \<leftarrow> read_unsigned s; (d, s) \<leftarrow> read_unsigned s;
     Some (\<lparr>fs_size = a, fs_last_write_time = b, fs_file_id = c, fs_volume_serial = d\<rparr>, s) }"

definition read_document_fields :: "SessionDocument reader" where
  "read_document_fields s = do {
     (i, s) \<leftarrow> read_unsigned s; (title, s) \<leftarrow> read_quoted s; (path, s) \<leftarrow> read_quoted s;
     (dirty, s) \<leftarrow> read_bool s; (undo, s) \<leftarrow> read_bool s; (redo, s) \<leftarrow> read_bool s;
     (first, s) \<leftarrow> read_unsigned s; (last_unit, s) \<leftarrow> read_unsigned s; (top, s) \<leftarrow> read_unsigned s;
     (zoom, s) \<leftarrow> read_double s; (stamped, s) \<leftarrow> read_bool s;
     (stamp, s) \<leftarrow> (if stamped then map_option (\<lambda>(x, s). (Some x, s)) (read_stamp s) else Some (None, s));
     Some (\<lparr>sd_metadata = \<lparr>wd_id = i, wd_title = title, wd_path = path, wd_dirty = dirty, wd_can_undo = undo,
        wd_can_redo = redo, wd_view = \<lparr>vs_selection_start = first, vs_selection_end = last_unit,
        vs_first_visible_unit = top, vs_zoom = zoom\<rparr>\<rparr>, sd_stamp = stamp\<rparr>, s) }"

definition document_valid :: "DocumentSessionLimits \<Rightarrow> WorkspaceDocument \<Rightarrow> bool" where
  "document_valid limits d \<longleftrightarrow> wd_id d \<noteq> 0 \<and> wd_title d \<noteq> [] \<and> DocumentViewState_IsValid (wd_view d)
     \<and> length (wd_title d) \<le> dl_maximum_string_units limits
     \<and> length (wd_path d) \<le> dl_maximum_string_units limits"

definition ReadDocument :: "DocumentSessionLimits \<Rightarrow> wstring \<Rightarrow> SessionDocument option" where
  "ReadDocument limits line = (case read_document_fields line of None \<Rightarrow> None
     | Some (v, rest) \<Rightarrow> if at_end rest \<and> document_valid limits (sd_metadata v) then Some v else None)"

definition session_ids :: "SessionDocument list \<Rightarrow> u64 list" where
  "session_ids vs = map (\<lambda>v. wd_id (sd_metadata v)) vs"

definition HasId :: "WorkspaceSession \<Rightarrow> u64 \<Rightarrow> bool" where
  "HasId w i \<longleftrightarrow> i \<in> set (session_ids (ss_documents w)) \<or> i \<in> set (session_ids (ss_recently_closed w))"

definition append_entry :: "wchar \<Rightarrow> SessionDocument \<Rightarrow> WorkspaceSession \<Rightarrow> WorkspaceSession" where
  "append_entry tag v w = (if tag = 0x44 then w\<lparr>ss_documents := ss_documents w @ [v]\<rparr>
     else w\<lparr>ss_recently_closed := ss_recently_closed w @ [v]\<rparr>)"

text \<open>The records of one workspace; the list holds the expected tags.\<close>

fun read_entries :: "DocumentSessionLimits \<Rightarrow> wchar list \<Rightarrow> WorkspaceSession \<Rightarrow> wstring
    \<Rightarrow> DocumentSessionStatus + WorkspaceSession \<times> wstring" where
  "read_entries limits [] w s = Inr (w, s)"
| "read_entries limits (t # ts) w s =
    (case ReadRecordLine s of None \<Rightarrow> Inl Session_malformed
     | Some (line, rest) \<Rightarrow>
       if take 2 line \<noteq> [t, 0x20] then Inl Session_malformed
       else (case ReadDocument limits (drop 2 line) of None \<Rightarrow> Inl Session_malformed
         | Some v \<Rightarrow> if HasId w (wd_id (sd_metadata v)) then Inl Session_duplicate_identity
             else read_entries limits ts (append_entry t v w) rest))"

definition read_workspace_line :: "wstring \<Rightarrow> (u64 \<times> u64 \<times> nat \<times> nat) option" where
  "read_workspace_line line = do {
     (tag, s) \<leftarrow> read_char line; (i, s) \<leftarrow> read_unsigned s; (active, s) \<leftarrow> read_unsigned s;
     (documents, s) \<leftarrow> read_size s; (recent, s) \<leftarrow> read_size s;
     if tag = 0x57 \<and> i \<noteq> 0 \<and> at_end s then Some (i, active, documents, recent) else None }"

definition read_workspace :: "DocumentSessionLimits \<Rightarrow> wstring
    \<Rightarrow> DocumentSessionStatus + WorkspaceSession \<times> wstring" where
  "read_workspace limits s =
    (case Option.bind (ReadRecordLine s) (\<lambda>(line, rest).
        map_option (\<lambda>x. (x, rest)) (read_workspace_line line)) of
       None \<Rightarrow> Inl Session_malformed
     | Some ((i, active, documents, recent), rest) \<Rightarrow>
       if dl_maximum_documents limits < documents + recent then Inl Session_oversized
       else let w = \<lparr>ss_workspace = i, ss_active = if active = 0 then None else Some active,
                     ss_documents = [], ss_recently_closed = []\<rparr>
       in (case read_entries limits (replicate documents 0x44 @ replicate recent 0x52) w rest of
          Inl e \<Rightarrow> Inl e
        | Inr (w', rest') \<Rightarrow>
          if (case ss_active w' of None \<Rightarrow> False | Some a \<Rightarrow> a \<notin> set (session_ids (ss_documents w')))
          then Inl Session_malformed
          else (case ReadRecordLine rest' of None \<Rightarrow> Inl Session_malformed
            | Some (line, rest'') \<Rightarrow> if line \<noteq> [0x45] then Inl Session_malformed else Inr (w', rest''))))"

fun read_workspaces :: "DocumentSessionLimits \<Rightarrow> nat \<Rightarrow> WorkspaceSession list \<Rightarrow> wstring
    \<Rightarrow> DocumentSessionStatus + WorkspaceSession list \<times> wstring" where
  "read_workspaces limits 0 ws s = Inr (ws, s)"
| "read_workspaces limits (Suc n) ws s =
    (case read_workspace limits s of Inl e \<Rightarrow> Inl e
     | Inr (w, rest) \<Rightarrow>
       if ss_workspace w \<in> set (map ss_workspace ws) then Inl Session_duplicate_identity
       else read_workspaces limits n (ws @ [w]) rest)"

definition read_header :: "wstring \<Rightarrow> (u32 \<times> nat) option" where
  "read_header line = do {
     (magic, s) \<leftarrow> read_string line; (version, s) \<leftarrow> read_unsigned s; (count, s) \<leftarrow> read_size s;
     if magic = session_magic \<and> at_end s then Some (version, count) else None }"

type_synonym DocumentSessionResult = "DocumentSessionStatus \<times> DocumentSession option"

definition ParseDocumentSession ::
  "('h, 'w) file_api \<Rightarrow> wstring \<Rightarrow> DocumentSessionLimits \<Rightarrow> DocumentSessionResult" where
  "ParseDocumentSession api s limits =
    (case Utf8Size api s of None \<Rightarrow> (Session_malformed, None)
     | Some bytes \<Rightarrow>
       if dl_maximum_bytes limits < bytes then (Session_oversized, None)
       else case Option.bind (get_line s) (\<lambda>(line, rest). map_option (\<lambda>x. (x, rest)) (read_header line)) of
         None \<Rightarrow> (Session_malformed, None)
       | Some ((version, count), rest) \<Rightarrow>
         if document_session_schema_version < version then (Session_unsupported_version, None)
         else if dl_maximum_workspaces limits < count then (Session_oversized, None)
         else (case read_workspaces limits count [] rest of
           Inl e \<Rightarrow> (e, None)
         | Inr (ws, rest') \<Rightarrow> if \<not> trailer_ok rest' then (Session_malformed, None)
             else (Session_success,
               Some \<lparr>se_schema_version = document_session_schema_version, se_workspaces = ws\<rparr>)))"

section \<open>Files\<close>

definition LoadDocumentSession ::
  "('h, 'w) file_api \<Rightarrow> wstring \<Rightarrow> DocumentSessionLimits \<Rightarrow> 'w \<Rightarrow> (DocumentSessionResult \<times> u32) \<times> 'w" where
  "LoadDocumentSession api path limits w =
    (case ReadTextFile api path w of
       ((status, e, None), w1) \<Rightarrow>
         (((if status = File_not_found then Session_not_found else Session_io_error, None), e), w1)
     | ((status, e, Some f), w1) \<Rightarrow>
         if status \<noteq> File_success then
           (((if status = File_not_found then Session_not_found else Session_io_error, None), e), w1)
         else if dl_maximum_bytes limits < unat (fs_size (tf_stamp f)) then (((Session_oversized, None), 0), w1)
         else ((ParseDocumentSession api (tf_text f) limits, 0), w1))"

definition SaveDocumentSessionAtomic ::
  "('h, 'w) file_api \<Rightarrow> wstring \<Rightarrow> DocumentSession \<Rightarrow> DocumentSessionLimits \<Rightarrow> u32 \<times> 'w
    \<Rightarrow> DocumentSessionStatus \<times> u32 \<times> 'w" where
  "SaveDocumentSessionAtomic api path session limits st =
    (let serialized = SerializeDocumentSession session in
     case Utf8Size api serialized of None \<Rightarrow> (Session_malformed, st)
     | Some bytes \<Rightarrow>
       if dl_maximum_bytes limits < bytes then (Session_oversized, st)
       else case ParseDocumentSession api serialized limits of (checked, parsed) \<Rightarrow>
         if checked \<noteq> Session_success \<or> parsed = None then (checked, st)
         else case WriteTextFileAtomic api path serialized Encoding_utf8 None st of
           ((status, _, _), st') \<Rightarrow>
             (if status = File_success then Session_success else Session_io_error, st'))"

end
