(* ===== verification/Document_Session_Round_Trip.thy ===== *)
theory Document_Session_Round_Trip
  imports Document_Session
begin

text \<open>
  Every session that satisfies the limits is read back from what was written, and whatever text is
  parsed, a successful result is a well-formed session.
\<close>

section \<open>Sessions that can be written\<close>

definition entry_ok :: "DocumentSessionLimits \<Rightarrow> SessionDocument \<Rightarrow> bool" where
  "entry_ok limits v \<longleftrightarrow> document_valid limits (sd_metadata v)"

definition entry_writable :: "SessionDocument \<Rightarrow> bool" where
  "entry_writable v \<longleftrightarrow> 0x0A \<notin> set (wd_title (sd_metadata v)) \<and> 0x0A \<notin> set (wd_path (sd_metadata v))
     \<and> (\<exists>q. vs_zoom (wd_view (sd_metadata v)) = Fin q \<and> dbl q = Fin q)"

definition workspace_session_ok :: "DocumentSessionLimits \<Rightarrow> WorkspaceSession \<Rightarrow> bool" where
  "workspace_session_ok limits w \<longleftrightarrow> ss_workspace w \<noteq> 0
     \<and> length (ss_documents w) + length (ss_recently_closed w) \<le> dl_maximum_documents limits
     \<and> list_all (entry_ok limits) (ss_documents w @ ss_recently_closed w)
     \<and> distinct (session_ids (ss_documents w @ ss_recently_closed w))
     \<and> (\<forall>a. ss_active w = Some a \<longrightarrow> a \<in> set (session_ids (ss_documents w)))"

definition session_ok :: "DocumentSessionLimits \<Rightarrow> DocumentSession \<Rightarrow> bool" where
  "session_ok limits s \<longleftrightarrow> length (se_workspaces s) \<le> dl_maximum_workspaces limits
     \<and> list_all (workspace_session_ok limits) (se_workspaces s)
     \<and> distinct (map ss_workspace (se_workspaces s))"

definition session_writable :: "DocumentSession \<Rightarrow> bool" where
  "session_writable s \<longleftrightarrow> se_schema_version s \<le> document_session_schema_version
     \<and> length (se_workspaces s) < 2 ^ 64
     \<and> list_all (\<lambda>w. length (ss_documents w) < 2 ^ 64 \<and> length (ss_recently_closed w) < 2 ^ 64
         \<and> list_all entry_writable (ss_documents w @ ss_recently_closed w)) (se_workspaces s)"

section \<open>Reading back\<close>

lemma read_stamp_written:
  "token_end s \<Longrightarrow> read_stamp (write_stamp (Some x) @ s) = Some (x, s)"
  by (simp add: read_stamp_def write_stamp_def stream_simps)

lemma write_stamp_end: "token_end s \<Longrightarrow> token_end (write_stamp x @ s)"
  by (simp add: write_stamp_def split: option.split)

lemma read_document_written:
  assumes "entry_writable v" "token_end s"
  shows "read_document_fields (document_fields v @ s) = Some (v, s)"
proof -
  obtain q where q: "vs_zoom (wd_view (sd_metadata v)) = Fin q" "dbl q = Fin q"
    using assms(1) by (auto simp: entry_writable_def)
  obtain d st where v: "v = \<lparr>sd_metadata = d, sd_stamp = st\<rparr>" by (cases v)
  have stamp: "read_stamp (write_stamp st @ s) = Some (the st, s)" if "st \<noteq> None"
    using read_stamp_written [OF assms(2), of "the st"] that by simp
  have none: "write_stamp None = []" by (simp add: write_stamp_def)
  show ?thesis
    using q stamp assms(2) write_stamp_end [OF assms(2), of st]
    unfolding v read_document_fields_def document_fields_def Let_def
    by (cases st) (simp_all add: stream_simps none del: write_double.simps)
qed

lemma no_newline_stamp [simp]: "0x0A \<notin> set (write_stamp x)"
  by (simp add: write_stamp_def split: option.split)

lemma no_newline_document: "entry_writable v \<Longrightarrow> 0x0A \<notin> set (document_fields v)"
  by (simp add: document_fields_def entry_writable_def Let_def)

lemma read_entry_written:
  assumes "entry_writable v" "entry_ok limits v" "t \<noteq> 0x58" "t \<noteq> 0x0A" "\<not> HasId w (wd_id (sd_metadata v))"
  shows "read_entries limits (t # ts) w (WriteDocument t v @ s) = read_entries limits ts (append_entry t v w) s"
proof -
  let ?l = "t # field (document_fields v)"
  have "ReadRecordLine (?l @ 0x0A # s) = Some (?l, s)"
    using assms by (intro read_record_written) (auto simp: extension_line_def no_newline_document)
  moreover have "ReadDocument limits (document_fields v) = Some v"
    using read_document_written [OF assms(1), of "[]"] assms(2)
    by (simp add: ReadDocument_def at_end_def skip_ws_def entry_ok_def)
  ultimately show ?thesis
    using assms(5) by (simp add: WriteDocument_def)
qed

lemma session_ids_simps [simp]:
  "session_ids [] = []" "session_ids (v # vs) = wd_id (sd_metadata v) # session_ids vs"
  "session_ids (xs @ ys) = session_ids xs @ session_ids ys"
  by (simp_all add: session_ids_def)

lemma append_entry_simps [simp]:
  "ss_documents (append_entry 0x44 v w) = ss_documents w @ [v]"
  "ss_recently_closed (append_entry 0x44 v w) = ss_recently_closed w"
  "ss_documents (append_entry 0x52 v w) = ss_documents w"
  "ss_recently_closed (append_entry 0x52 v w) = ss_recently_closed w @ [v]"
  "ss_workspace (append_entry t v w) = ss_workspace w" "ss_active (append_entry t v w) = ss_active w"
  by (simp_all add: append_entry_def)

lemma append_entry_update:
  "(append_entry 0x44 v w)\<lparr>ss_documents := ds\<rparr> = w\<lparr>ss_documents := ds\<rparr>"
  "(append_entry 0x52 v w)\<lparr>ss_recently_closed := ds\<rparr> = w\<lparr>ss_recently_closed := ds\<rparr>"
  by (simp_all add: append_entry_def)

lemma read_documents_written:
  assumes "list_all entry_writable ds" "list_all (entry_ok limits) ds"
    and "distinct (session_ids (ss_documents w @ ss_recently_closed w @ ds))"
  shows "read_entries limits (replicate (length ds) 0x44 @ ts) w (concat (map (WriteDocument 0x44) ds) @ s)
    = read_entries limits ts (w\<lparr>ss_documents := ss_documents w @ ds\<rparr>) s"
  using assms
proof (induction ds arbitrary: w)
  case (Cons v ds)
  have "\<not> HasId w (wd_id (sd_metadata v))" using Cons.prems(3) by (auto simp: HasId_def)
  then show ?case
    using Cons.prems Cons.IH [of "append_entry 0x44 v w"]
    by (simp add: read_entry_written append_entry_update del: read_entries.simps(2))
qed simp

lemma read_recent_written:
  assumes "list_all entry_writable ds" "list_all (entry_ok limits) ds"
    and "distinct (session_ids (ss_documents w @ ss_recently_closed w @ ds))"
  shows "read_entries limits (replicate (length ds) 0x52) w (concat (map (WriteDocument 0x52) ds) @ s)
    = Inr (w\<lparr>ss_recently_closed := ss_recently_closed w @ ds\<rparr>, s)"
  using assms
proof (induction ds arbitrary: w)
  case (Cons v ds)
  have "\<not> HasId w (wd_id (sd_metadata v))" using Cons.prems(3) by (auto simp: HasId_def)
  then show ?case
    using Cons.prems Cons.IH [of "append_entry 0x52 v w"]
    by (simp add: read_entry_written append_entry_update del: read_entries.simps(2))
qed simp

lemma read_workspace_line_written:
  assumes "i \<noteq> 0" "m < 2 ^ 64" "n < 2 ^ 64"
  shows "read_workspace_line (0x57 # field (write_unsigned i) @ field (write_unsigned a)
     @ field (to_wstring m) @ field (to_wstring n)) = Some (i, a, m, n)"
proof -
  have "read_char (0x57 # r) = Some (0x57, r)" for r
    by (simp add: read_char_def skip_ws_stop is_wspace_def)
  moreover have "read_size (to_wstring n) = Some (n, [])"
    using read_size_written [of "[]" n] assms(3) by simp
  ultimately show ?thesis using assms by (simp add: read_workspace_line_def stream_simps)
qed

lemma read_workspace_written:
  assumes "workspace_session_ok limits w" "list_all entry_writable (ss_documents w @ ss_recently_closed w)"
    and "length (ss_documents w) < 2 ^ 64" "length (ss_recently_closed w) < 2 ^ 64"
  shows "read_workspace limits (write_workspace w @ s) = Inr (w, s)"
proof -
  let ?active = "case ss_active w of None \<Rightarrow> 0 | Some a \<Rightarrow> a"
  let ?line = "0x57 # field (write_unsigned (ss_workspace w)) @ field (write_unsigned ?active)
     @ field (to_wstring (length (ss_documents w))) @ field (to_wstring (length (ss_recently_closed w)))"
  let ?entries = "concat (map (WriteDocument 0x44) (ss_documents w))
     @ concat (map (WriteDocument 0x52) (ss_recently_closed w)) @ [0x45] @ 0x0A # s"
  have ok: "ss_workspace w \<noteq> 0" "list_all (entry_ok limits) (ss_documents w)"
    "list_all (entry_ok limits) (ss_recently_closed w)"
    "distinct (session_ids (ss_documents w @ ss_recently_closed w))"
    "length (ss_documents w) + length (ss_recently_closed w) \<le> dl_maximum_documents limits"
    and active: "\<And>a. ss_active w = Some a \<Longrightarrow> a \<in> set (session_ids (ss_documents w))"
    using assms(1) by (simp_all add: workspace_session_ok_def)
  have nonzero: "a \<noteq> 0" if "ss_active w = Some a" for a
    using active [OF that] ok(2)
    by (auto simp: session_ids_def list_all_iff entry_ok_def document_valid_def)
  have whole: "write_workspace w @ s = ?line @ 0x0A # ?entries" by (simp add: write_workspace_def)
  have line: "ReadRecordLine (write_workspace w @ s) = Some (?line, ?entries)"
    unfolding whole by (intro read_record_written) (simp_all add: extension_line_def)
  have head: "read_workspace_line ?line = Some (ss_workspace w, ?active,
      length (ss_documents w), length (ss_recently_closed w))"
    using ok(1) assms(3,4) by (rule read_workspace_line_written)
  let ?w0 = "\<lparr>ss_workspace = ss_workspace w, ss_active = if ?active = 0 then None else Some ?active,
      ss_documents = [], ss_recently_closed = []\<rparr>"
  have act: "(if ?active = 0 then None else Some ?active) = ss_active w"
    using nonzero by (cases "ss_active w") auto
  have entries: "read_entries limits (replicate (length (ss_documents w)) 0x44
      @ replicate (length (ss_recently_closed w)) 0x52) ?w0 ?entries = Inr (w, [0x45] @ 0x0A # s)"
    using read_documents_written [of "ss_documents w" limits ?w0] read_recent_written [of "ss_recently_closed w" limits]
      assms(2) ok unfolding act by simp
  have close: "ReadRecordLine ([0x45] @ 0x0A # s) = Some ([0x45], s)"
    by (rule read_record_written) (simp_all add: extension_line_def)
  show ?thesis
    unfolding read_workspace_def line
    using head entries close ok(5) active by (auto simp: Let_def split: option.splits)
qed

lemma read_workspaces_written:
  assumes "list_all (workspace_session_ok limits) vs"
    and "list_all (\<lambda>w. length (ss_documents w) < 2 ^ 64 \<and> length (ss_recently_closed w) < 2 ^ 64
         \<and> list_all entry_writable (ss_documents w @ ss_recently_closed w)) vs"
    and "distinct (map ss_workspace (ws @ vs))"
  shows "read_workspaces limits (length vs) ws (concat (map write_workspace vs) @ s) = Inr (ws @ vs, s)"
  using assms
proof (induction vs arbitrary: ws)
  case (Cons v vs)
  then show ?case using Cons.IH [of "ws @ [v]"] by (simp add: read_workspace_written)
qed simp

lemma read_header_written:
  assumes "n < 2 ^ 64"
  shows "read_header (session_magic @ field (write_unsigned v) @ field (to_wstring n)) = Some (v, n)"
proof -
  have "\<forall>c \<in> set session_magic. \<not> is_wspace c" "session_magic \<noteq> []"
    by (simp_all add: session_magic_def is_wspace_def)
  then have "read_string (session_magic @ field r) = Some (session_magic, field r)" for r
    by (intro read_string_written) simp_all
  moreover have "read_size (to_wstring n) = Some (n, [])" using read_size_written [of "[]" n] assms by simp
  ultimately show ?thesis by (simp add: read_header_def stream_simps)
qed

lemma parse_written:
  assumes "session_ok limits s" "session_writable s"
    and "Utf8Size api (SerializeDocumentSession s) = Some n" "n \<le> dl_maximum_bytes limits"
  shows "ParseDocumentSession api (SerializeDocumentSession s) limits
    = (Session_success, Some (s\<lparr>se_schema_version := document_session_schema_version\<rparr>))"
proof -
  let ?head = "session_magic @ field (write_unsigned (se_schema_version s))
     @ field (to_wstring (length (se_workspaces s)))"
  let ?rest = "concat (map write_workspace (se_workspaces s))"
  have whole: "SerializeDocumentSession s = ?head @ 0x0A # ?rest" by (simp add: SerializeDocumentSession_def)
  have "0x0A \<notin> set session_magic" by (simp add: session_magic_def)
  then have line: "get_line (SerializeDocumentSession s) = Some (?head, ?rest)"
    unfolding whole by (intro get_line_written) simp
  have "read_workspaces limits (length (se_workspaces s)) [] ?rest = Inr (se_workspaces s, [])"
    using read_workspaces_written [of limits "se_workspaces s" "[]" "[]"] assms(1,2)
    by (simp add: session_ok_def session_writable_def)
  moreover have "trailer_ok []" by (subst trailer_ok.simps) (simp add: get_line_def)
  moreover have "read_header ?head = Some (se_schema_version s, length (se_workspaces s))"
    using assms(2) by (intro read_header_written) (simp add: session_writable_def)
  moreover have "\<not> document_session_schema_version < se_schema_version s"
    "length (se_workspaces s) \<le> dl_maximum_workspaces limits"
    using assms(1,2) by (simp_all add: session_ok_def session_writable_def not_less)
  ultimately show ?thesis
    using line assms(3,4) by (simp add: ParseDocumentSession_def)
qed

section \<open>What the parser accepts\<close>

definition entries_ok :: "DocumentSessionLimits \<Rightarrow> WorkspaceSession \<Rightarrow> bool" where
  "entries_ok limits w \<longleftrightarrow> list_all (entry_ok limits) (ss_documents w @ ss_recently_closed w)
     \<and> distinct (session_ids (ss_documents w @ ss_recently_closed w))"

lemma entries_ok_append:
  assumes "entries_ok limits w" "entry_ok limits v" "\<not> HasId w (wd_id (sd_metadata v))"
  shows "entries_ok limits (append_entry t v w)"
  using assms by (auto simp: entries_ok_def HasId_def append_entry_def)

lemma append_entry_size:
  "length (ss_documents (append_entry t v w)) + length (ss_recently_closed (append_entry t v w))
    = Suc (length (ss_documents w) + length (ss_recently_closed w))"
  by (simp add: append_entry_def)

lemma read_entries_valid:
  assumes "read_entries limits ts w s = Inr (w', rest)" "entries_ok limits w"
  shows "entries_ok limits w' \<and> ss_workspace w' = ss_workspace w
    \<and> length (ss_documents w') + length (ss_recently_closed w')
      = length (ss_documents w) + length (ss_recently_closed w) + length ts"
  using assms
proof (induction limits ts w s rule: read_entries.induct)
  case (2 limits t ts w s)
  from 2(2) obtain line r v where step: "ReadRecordLine s = Some (line, r)" "take 2 line = [t, 0x20]"
    "ReadDocument limits (drop 2 line) = Some v" "\<not> HasId w (wd_id (sd_metadata v))"
    "read_entries limits ts (append_entry t v w) r = Inr (w', rest)"
    by (auto split: option.splits if_splits)
  have v: "entry_ok limits v"
    using step(3) by (auto simp: ReadDocument_def entry_ok_def split: option.splits if_splits)
  from 2(1) [OF step(1) refl _ step(3,4,5) entries_ok_append [OF 2(3) v step(4)]] step(2)
  show ?case by (simp add: append_entry_size)
qed simp

lemma read_workspace_valid:
  assumes "read_workspace limits s = Inr (w, rest)"
  shows "workspace_session_ok limits w"
proof -
  obtain line r i a m n where 1: "ReadRecordLine s = Some (line, r)" "read_workspace_line line = Some (i, a, m, n)"
    using assms by (auto simp: read_workspace_def bind_eq_Some_conv split: option.splits)
  let ?w0 = "\<lparr>ss_workspace = i, ss_active = if a = 0 then None else Some a, ss_documents = [],
      ss_recently_closed = []\<rparr>"
  have head: "m + n \<le> dl_maximum_documents limits" "i \<noteq> 0"
    using assms 1 by (auto simp: read_workspace_def read_workspace_line_def bind_eq_Some_conv split: if_splits)
  obtain r' where body: "read_entries limits (replicate m 0x44 @ replicate n 0x52) ?w0 r = Inr (w, r')"
    and active: "\<forall>x. ss_active w = Some x \<longrightarrow> x \<in> set (session_ids (ss_documents w))"
    using assms 1 head(1)
    by (cases "read_entries limits (replicate m 0x44 @ replicate n 0x52) ?w0 r")
      (auto simp: read_workspace_def Let_def split: option.splits if_splits prod.splits)
  from read_entries_valid [OF body] head active show ?thesis
    by (auto simp: workspace_session_ok_def entries_ok_def)
qed

lemma read_workspaces_valid:
  assumes "read_workspaces limits n ws s = Inr (vs, rest)"
    and "list_all (workspace_session_ok limits) ws" "distinct (map ss_workspace ws)"
  shows "list_all (workspace_session_ok limits) vs \<and> distinct (map ss_workspace vs)
    \<and> length vs = length ws + n"
  using assms
proof (induction n arbitrary: ws s)
  case (Suc n)
  from Suc.prems(1) obtain w r where step: "read_workspace limits s = Inr (w, r)"
    "ss_workspace w \<notin> set (map ss_workspace ws)" "read_workspaces limits n (ws @ [w]) r = Inr (vs, rest)"
    by (auto split: sum.splits if_splits)
  from Suc.IH [OF step(3)] Suc.prems(2,3) step(2) read_workspace_valid [OF step(1)] show ?case by simp
qed simp

lemma read_errors [simp]:
  "read_entries limits ts w s \<noteq> Inl Session_success" "read_workspace limits s \<noteq> Inl Session_success"
  "read_workspaces limits n ws s \<noteq> Inl Session_success"
proof -
  show entries: "read_entries limits ts w s \<noteq> Inl Session_success" for ts w s
    by (induction limits ts w s rule: read_entries.induct) (auto split: option.splits)
  show workspace: "read_workspace limits s \<noteq> Inl Session_success" for s
    using entries by (auto simp: read_workspace_def Let_def split: option.splits sum.splits prod.splits)
  show "read_workspaces limits n ws s \<noteq> Inl Session_success"
    using workspace by (induction n arbitrary: ws s) (auto split: sum.splits)
qed

lemma parse_failed: "fst (ParseDocumentSession api s limits) \<noteq> Session_success
    \<Longrightarrow> snd (ParseDocumentSession api s limits) = None"
  by (auto simp: ParseDocumentSession_def split: option.splits sum.splits if_splits prod.splits)

lemma parse_valid:
  assumes "ParseDocumentSession api s limits = (Session_success, r)"
  shows "\<exists>x. r = Some x \<and> session_ok limits x \<and> se_schema_version x = document_session_schema_version"
proof -
  from assms obtain n ws s' rest where ws: "read_workspaces limits n [] s' = Inr (ws, rest)"
    "n \<le> dl_maximum_workspaces limits"
    "r = Some \<lparr>se_schema_version = document_session_schema_version, se_workspaces = ws\<rparr>"
    by (auto simp: ParseDocumentSession_def split: option.splits sum.splits if_splits prod.splits)
  from read_workspaces_valid [OF ws(1)] ws(2,3) show ?thesis by (simp add: session_ok_def)
qed

section \<open>Properties\<close>

text \<open>A small session, used by the concrete checks.\<close>

definition example_session :: DocumentSession where
  "example_session = \<lparr>se_schema_version = 1, se_workspaces = [\<lparr>ss_workspace = 5, ss_active = Some 7,
     ss_documents = [\<lparr>sd_metadata = \<lparr>wd_id = 7, wd_title = lit ''a b'' @ [0x22], wd_path = [], wd_dirty = True,
       wd_can_undo = False, wd_can_redo = False, wd_view = \<lparr>vs_selection_start = 2, vs_selection_end = 3,
       vs_first_visible_unit = 0, vs_zoom = Fin 1\<rparr>\<rparr>, sd_stamp = None\<rparr>], ss_recently_closed = []\<rparr>]\<rparr>"

definition example_limits :: DocumentSessionLimits where
  "example_limits = \<lparr>dl_maximum_bytes = 1000, dl_maximum_workspaces = 2, dl_maximum_documents = 4,
     dl_maximum_string_units = 16\<rparr>"

lemma write_one: "write_double (Fin 1) = [0x31]"
proof -
  have "to_wstring 10000000000000000 = [0x31, 0x30, 0x30, 0x30, 0x30, 0x30, 0x30, 0x30, 0x30, 0x30, 0x30, 0x30, 0x30, 0x30, 0x30, 0x30, 0x30]"
    by (simp add: to_wstring_code digits_of.simps)
  moreover have "dec_digits 1 = (0, 10 ^ 16)"
    using round_int [of "10 ^ 16"]
    by (simp add: dec_digits_def dec_exponent_def dec_length_def pow10_def digits_of.simps)
  ultimately show ?thesis by (simp add: write_positive_def strip_zeros_def with_point_def)
qed

lemma example_text:
  "(\<forall>c \<in> set (SerializeDocumentSession example_session). \<not> 0x80 \<le> c)
    \<and> length (SerializeDocumentSession example_session) \<le> 100"
  by (simp add: SerializeDocumentSession_def example_session_def write_workspace_def WriteDocument_def
      document_fields_def Let_def write_stamp_def write_quoted_def write_one write_unsigned_def write_bool_def
      to_wstring_code digits_of.simps session_magic_def del: write_double.simps)

text \<open>C15: A session that fits is read back unchanged.  For every session within the limits whose titles
  and paths hold no line break and whose zoom factors are binary64 values, parsing what
  \<open>SerializeDocumentSession\<close> wrote succeeds and returns the session itself, with quotes, backslashes,
  blanks and 17-digit numbers intact; only the schema version is normalised to the current one.\<close>

theorem document_session_round_trip:
  assumes "session_ok limits s" "session_writable s"
    and "Utf8Size api (SerializeDocumentSession s) = Some n" "n \<le> dl_maximum_bytes limits"
  shows "ParseDocumentSession api (SerializeDocumentSession s) limits
    = (Session_success, Some (s\<lparr>se_schema_version := document_session_schema_version\<rparr>))"
  by (rule parse_written [OF assms])

theorem document_session_round_trip_witness:
  "ParseDocumentSession memory_api (SerializeDocumentSession example_session) example_limits
    = (Session_success, Some example_session)"
proof -
  have ok: "session_ok example_limits example_session"
    by (simp add: session_ok_def workspace_session_ok_def entry_ok_def document_valid_def example_session_def
        example_limits_def DocumentViewState_IsValid_def dbl_0_1_def)
  have writable: "session_writable example_session"
    by (simp add: session_writable_def entry_writable_def example_session_def document_session_schema_version_def)
  let ?n = "length (SerializeDocumentSession example_session)"
  have "SerializeDocumentSession example_session \<noteq> []" by (simp add: SerializeDocumentSession_def session_magic_def)
  then have size: "Utf8Size memory_api (SerializeDocumentSession example_session) = Some ?n"
    using example_text by (auto simp: Utf8Size_def memory_api_def maximum_int_def)
  have "?n \<le> dl_maximum_bytes example_limits" using example_text by (simp add: example_limits_def)
  from document_session_round_trip [OF ok writable size this] show ?thesis
    by (simp add: example_session_def document_session_schema_version_def)
qed

text \<open>The parser accepts only well-formed sessions.  Whatever text is parsed, success comes with a
  session in which all limits hold, workspace identifiers are nonzero and distinct, the documents and
  recently closed documents of a workspace have distinct nonzero identifiers, titles and valid view
  states, and the active document is one of the open ones; every other status comes without a
  session.\<close>

theorem parsed_session_is_valid:
  "if fst (ParseDocumentSession api s limits) = Session_success
   then \<exists>x. snd (ParseDocumentSession api s limits) = Some x \<and> session_ok limits x
   else snd (ParseDocumentSession api s limits) = None"
  using parse_valid [of api s limits "snd (ParseDocumentSession api s limits)"] parse_failed [of api s limits]
  by (cases "ParseDocumentSession api s limits") auto

text \<open>C16: A saved session can be loaded.  When \<open>SaveDocumentSessionAtomic\<close> reports success, the file
  holds UTF-8 text that decodes to the serialised session, the parser accepts this text with the same
  limits, and it yields a well-formed session; when it fails, the file holds what it held before or
  the complete serialised session.\<close>

theorem saved_session_can_be_loaded:
  assumes "files_ok api contents path_of" and "utf8_ok api"
    and "SaveDocumentSessionAtomic api path s limits (n, w) = (status, n', w')"
  shows "if status = Session_success
    then \<exists>bytes x. contents w' path = Some bytes
      \<and> decode_file api bytes = (Encoding_utf8, Some (SerializeDocumentSession s))
      \<and> ParseDocumentSession api (SerializeDocumentSession s) limits = (Session_success, Some x)
      \<and> session_ok limits x
    else contents w' path = contents w path
      \<or> contents w' path = Encode api (SerializeDocumentSession s) Encoding_utf8"
proof -
  let ?t = "SerializeDocumentSession s"
  have head: "take 1 ?t \<noteq> [0xFEFF]" by (simp add: SerializeDocumentSession_def session_magic_def)
  obtain checked parsed where p: "ParseDocumentSession api ?t limits = (checked, parsed)" by fastforce
  obtain st e stamp m w1 where wr: "WriteTextFileAtomic api path ?t Encoding_utf8 None (n, w) = ((st, e, stamp), m, w1)"
    by (metis prod.exhaust)
  note atomic = write_atomic [OF assms(1) wr]
  show ?thesis
  proof (cases "checked = Session_success \<and> parsed \<noteq> None \<and> Utf8Size api ?t \<noteq> None
      \<and> the (Utf8Size api ?t) \<le> dl_maximum_bytes limits")
    case False
    then have "w' = w \<and> status \<noteq> Session_success"
      using assms(3) p parse_valid [of api ?t limits parsed]
      by (auto simp: SaveDocumentSessionAtomic_def Let_def split: option.splits if_splits)
    then show ?thesis by simp
  next
    case True
    then have r: "status = (if st = File_success then Session_success else Session_io_error)" "w' = w1"
      using assms(3) p wr by (auto simp: SaveDocumentSessionAtomic_def Let_def split: option.splits if_splits)
    obtain x where x: "parsed = Some x" "session_ok limits x" using parse_valid [of api ?t limits parsed] p True by auto
    show ?thesis
    proof (cases "st = File_success")
      case ok: True
      then obtain bytes where b: "Encode api ?t Encoding_utf8 = Some bytes" "contents w1 path = Some bytes"
        using atomic by auto
      have "decode_file api bytes = (Encoding_utf8, Some ?t)" using encode_decode [OF assms(2) b(1)] head by simp
      with ok r b x p True show ?thesis by auto
    next
      case False
      with r atomic show ?thesis by auto
    qed
  qed
qed

theorem saved_session_can_be_loaded_witness:
  "case SaveDocumentSessionAtomic memory_api (lit ''f'') example_session example_limits (0, \<lambda>p. None) of
     (status, n, w) \<Rightarrow> status = Session_success \<longrightarrow> w (lit ''f'') \<noteq> None"
proof -
  obtain status n' w' where r: "SaveDocumentSessionAtomic memory_api (lit ''f'') example_session example_limits
      (0, \<lambda>p. None) = (status, n', w')" by (metis prod.exhaust)
  from saved_session_can_be_loaded [OF memory_files_ok memory_utf8_ok r] show ?thesis unfolding r by auto
qed

end
