(* ===== verification/Document_Session_Restore.thy ===== *)
theory Document_Session_Restore
  imports Document_Session Workspace_Invariant
begin

text \<open>
  Restoring a workspace from a session (\<open>RestoreWorkspaceSession\<close> in \<open>src/document_session.cpp\<close>).
  The application's callbacks are functions of the entry and of the live workspace.
\<close>

datatype SessionDocumentDisposition =
    Disposition_restore | Disposition_missing | Disposition_changed | Disposition_untrusted
  | Disposition_rejected

type_synonym 'a session_callback =
  "SessionDocument \<Rightarrow> DocumentWorkspaceModel \<Rightarrow> 'a outcome \<times> DocumentWorkspaceModel"

record SessionRestoreIssue =
  si_document :: u64
  si_disposition :: SessionDocumentDisposition
  si_recently_closed :: bool

datatype SessionRestoreStatus =
    Restore_success | Restore_partial_success | Restore_invalid_argument | Restore_target_not_empty

record SessionRestoreResult =
  sr_status :: SessionRestoreStatus
  sr_restored_documents :: nat
  sr_restored_recently_closed :: nat
  sr_issues :: "SessionRestoreIssue list"
  sr_error :: bool

definition empty_restore_result :: SessionRestoreResult where
  "empty_restore_result = \<lparr>sr_status = Restore_invalid_argument, sr_restored_documents = 0,
     sr_restored_recently_closed = 0, sr_issues = [], sr_error = False\<rparr>"

text \<open>The two callbacks of one entry, with exceptions contained.\<close>

definition run_callbacks ::
  "SessionDocumentDisposition session_callback \<Rightarrow> bool session_callback \<Rightarrow> SessionDocument \<Rightarrow> bool
    \<Rightarrow> DocumentWorkspaceModel \<Rightarrow> SessionDocumentDisposition \<times> bool \<times> DocumentWorkspaceModel" where
  "run_callbacks validate restore item closing t =
    (case validate item t of
       (Throws, t1) \<Rightarrow> (Disposition_rejected, True, t1)
     | (Returns d, t1) \<Rightarrow>
         if d = Disposition_restore \<and> \<not> closing then
           (case restore item t1 of
              (Throws, t2) \<Rightarrow> (Disposition_rejected, True, t2)
            | (Returns ok, t2) \<Rightarrow> (if ok then d else Disposition_rejected, False, t2))
         else (d, False, t1))"

definition assess ::
  "SessionDocumentDisposition session_callback \<Rightarrow> bool session_callback \<Rightarrow> SessionDocument \<Rightarrow> bool
    \<Rightarrow> SessionRestoreResult \<times> DocumentWorkspaceModel
    \<Rightarrow> bool \<times> SessionRestoreResult \<times> DocumentWorkspaceModel" where
  "assess validate restore item closing st =
    (case st of (r, t) \<Rightarrow>
     case run_callbacks validate restore item closing t of (d, thrown, t') \<Rightarrow>
       let d' = (if dw_revision t' \<noteq> dw_revision t then Disposition_rejected else d);
           r' = r\<lparr>sr_error := sr_error r \<or> thrown\<rparr>
       in if d' \<noteq> Disposition_restore
          then (False, r'\<lparr>sr_issues := sr_issues r' @ [\<lparr>si_document = wd_id (sd_metadata item),
             si_disposition = d', si_recently_closed = closing\<rparr>]\<rparr>, t')
          else (True, r', t'))"

fun restore_documents ::
  "path_ops \<Rightarrow> SessionDocumentDisposition session_callback \<Rightarrow> bool session_callback \<Rightarrow> SessionDocument list
    \<Rightarrow> SessionRestoreResult \<times> DocumentWorkspaceModel \<Rightarrow> SessionRestoreResult \<times> DocumentWorkspaceModel" where
  "restore_documents ops validate restore [] st = st"
| "restore_documents ops validate restore (item # items) st =
    (case assess validate restore item False st of
       (False, st1) \<Rightarrow> restore_documents ops validate restore items st1
     | (True, (r, t)) \<Rightarrow>
       (case Workspace_Add ops (sd_metadata item) None t of
          ((status, _), t') \<Rightarrow>
            restore_documents ops validate restore items
              (if status \<noteq> Workspace_success
               then r\<lparr>sr_issues := sr_issues r @ [\<lparr>si_document = wd_id (sd_metadata item),
                 si_disposition = Disposition_rejected, si_recently_closed = False\<rparr>]\<rparr>
               else r\<lparr>sr_restored_documents := sr_restored_documents r + 1\<rparr>, t')))"

fun assess_recent ::
  "SessionDocumentDisposition session_callback \<Rightarrow> bool session_callback \<Rightarrow> SessionDocument list
    \<Rightarrow> WorkspaceDocument list \<Rightarrow> SessionRestoreResult \<times> DocumentWorkspaceModel
    \<Rightarrow> WorkspaceDocument list \<times> SessionRestoreResult \<times> DocumentWorkspaceModel" where
  "assess_recent validate restore [] recent st = (recent, st)"
| "assess_recent validate restore (item # items) recent st =
    (case assess validate restore item True st of
       (ok, st1) \<Rightarrow> assess_recent validate restore items
         (if ok then recent @ [sd_metadata item] else recent) st1)"

text \<open>The dry run on an empty workspace: every entry must be addable.\<close>

fun probe_documents :: "path_ops \<Rightarrow> SessionDocument list \<Rightarrow> DocumentWorkspaceModel \<Rightarrow> DocumentWorkspaceModel option" where
  "probe_documents ops [] t = Some t"
| "probe_documents ops (item # items) t =
    (case Workspace_Add ops (sd_metadata item) None t of
       ((status, _), t') \<Rightarrow> if status \<noteq> Workspace_success then None else probe_documents ops items t')"

definition probe_session :: "path_ops \<Rightarrow> WorkspaceSession \<Rightarrow> bool" where
  "probe_session ops session =
    (case Option.bind (DocumentWorkspaceModel_new (ss_workspace session) (length (ss_recently_closed session)))
        (probe_documents ops (ss_documents session)) of
       None \<Rightarrow> False
     | Some probe \<Rightarrow> fst (fst (Workspace_RestoreRecentlyClosed ops
         (map sd_metadata (ss_recently_closed session)) probe)) = Workspace_success)"

text \<open>The active document is activated if it was restored.\<close>

definition restore_active :: "WorkspaceSession \<Rightarrow> DocumentWorkspaceModel \<Rightarrow> DocumentWorkspaceModel" where
  "restore_active session t =
    (case ss_active session of None \<Rightarrow> t
     | Some a \<Rightarrow> if Workspace_Find a t \<noteq> None then snd (Workspace_Activate a t) else t)"

definition restore_history ::
  "path_ops \<Rightarrow> WorkspaceDocument list \<Rightarrow> SessionRestoreResult \<times> DocumentWorkspaceModel
    \<Rightarrow> SessionRestoreResult \<times> DocumentWorkspaceModel" where
  "restore_history ops recent st =
    (case st of (r, t) \<Rightarrow>
      if recent = [] then (r, t)
      else case Workspace_RestoreRecentlyClosed ops recent t of
        ((status, _), t') \<Rightarrow>
          if status = Workspace_success then (r\<lparr>sr_restored_recently_closed := length recent\<rparr>, t')
          else (r\<lparr>sr_issues := sr_issues r @ map (\<lambda>d. \<lparr>si_document = wd_id d,
            si_disposition = Disposition_rejected, si_recently_closed = True\<rparr>) recent\<rparr>, t'))"

definition RestoreWorkspaceSession ::
  "path_ops \<Rightarrow> WorkspaceSession \<Rightarrow> SessionDocumentDisposition session_callback option
    \<Rightarrow> bool session_callback option \<Rightarrow> DocumentWorkspaceModel
    \<Rightarrow> SessionRestoreResult \<times> DocumentWorkspaceModel" where
  "RestoreWorkspaceSession ops session validate restore target =
    (case (validate, restore) of
       (Some v, Some f) \<Rightarrow>
         if ss_workspace session = 0 \<or> ss_workspace session \<noteq> dw_id target
         then (empty_restore_result, target)
         else if dw_documents target \<noteq> [] \<or> dw_recently_closed target \<noteq> []
         then (empty_restore_result\<lparr>sr_status := Restore_target_not_empty\<rparr>, target)
         else if \<not> probe_session ops session then (empty_restore_result, target)
         else (case restore_documents ops v f (ss_documents session) (empty_restore_result, target) of
           (r1, t1) \<Rightarrow>
           (case assess_recent v f (ss_recently_closed session) [] (r1, restore_active session t1) of
              (recent, st2) \<Rightarrow>
              (case restore_history ops recent st2 of
                 (r3, t3) \<Rightarrow> (r3\<lparr>sr_status := if sr_issues r3 = [] then Restore_success
                   else Restore_partial_success\<rparr>, t3))))
     | _ \<Rightarrow> (empty_restore_result, target))"

section \<open>Adding the documents\<close>

lemma add_ok:
  "documents_wf ops (dw_documents w @ [d]) \<Longrightarrow> fst (fst (Workspace_Add ops d None w)) = Workspace_success"
proof -
  assume wf: "documents_wf ops (dw_documents w @ [d])"
  then have new: "wd_id d \<notin> wd_id ` set (dw_documents w)" by (simp add: documents_wf_def)
  with wf have "\<forall>x \<in> set (dw_documents w). \<not> SamePath ops (wd_path x) (wd_path d)"
    unfolding documents_wf_def by (metis UnI1 UnI2 image_eqI list.set_intros(1) set_append)
  with wf new show ?thesis
    by (auto simp: Workspace_Add_def documents_wf_def ws_find_None Workspace_ContainsPath_def Let_def)
qed

lemma add_wf_documents:
  assumes "fst (fst (Workspace_Add ops d None w)) = Workspace_success" "documents_wf ops (dw_documents w)"
  shows "documents_wf ops (dw_documents w @ [d])"
proof -
  have "Workspace_IsValidDocument d" "Workspace_Find (wd_id d) w = None"
    "\<not> Workspace_ContainsPath ops (wd_path d) w"
    using assms(1) by (auto simp: Workspace_Add_def split: if_splits)
  moreover have "SamePath ops p q \<Longrightarrow> q \<noteq> []" for p q by (simp add: SamePath_def)
  ultimately show ?thesis
    using documents_wf_insert [OF assms(2), of d "length (dw_documents w)"]
    by (auto simp: insert_at_def ws_find_None Workspace_ContainsPath_def Workspace_IsValidDocument_def)
qed

lemma probe_documents_wf:
  assumes "probe_documents ops items t = Some t'" "documents_wf ops (dw_documents t)"
  shows "documents_wf ops (dw_documents t @ map sd_metadata items)
    \<and> dw_documents t' = dw_documents t @ map sd_metadata items
    \<and> dw_maximum_recently_closed t' = dw_maximum_recently_closed t"
  using assms
proof (induction items arbitrary: t)
  case (Cons item items)
  let ?a = "Workspace_Add ops (sd_metadata item) None t"
  have ok: "fst (fst ?a) = Workspace_success" "probe_documents ops items (snd ?a) = Some t'"
    using Cons.prems(1) by (auto split: prod.splits if_splits)
  have docs: "dw_documents (snd ?a) = dw_documents t @ [sd_metadata item]"
    using add_success(1) [OF ok(1)] by (simp add: insert_at_def)
  from Cons.IH [OF ok(2)] add_wf_documents [OF ok(1) Cons.prems(2)] show ?case by (simp add: docs)
qed simp

section \<open>Entries that were never changed by their callbacks\<close>

text \<open>Callbacks that decide from the entry alone and leave the workspace alone.\<close>

abbreviation pure_callback :: "(SessionDocument \<Rightarrow> 'a outcome) \<Rightarrow> 'a session_callback" where
  "pure_callback f \<equiv> \<lambda>item t. (f item, t)"

definition verdict ::
  "(SessionDocument \<Rightarrow> SessionDocumentDisposition outcome) \<Rightarrow> (SessionDocument \<Rightarrow> bool outcome) \<Rightarrow> bool
    \<Rightarrow> SessionDocument \<Rightarrow> SessionDocumentDisposition" where
  "verdict v f closing x = (case v x of Throws \<Rightarrow> Disposition_rejected
     | Returns d \<Rightarrow> if d = Disposition_restore \<and> \<not> closing \<and> f x \<noteq> Returns True
         then Disposition_rejected else d)"

abbreviation accepted where
  "accepted v f closing x \<equiv> verdict v f closing x = Disposition_restore"

definition issue_of where
  "issue_of v f closing x = \<lparr>si_document = wd_id (sd_metadata x), si_disposition = verdict v f closing x,
     si_recently_closed = closing\<rparr>"

lemma assess_pure:
  "\<exists>e. assess (pure_callback v) (pure_callback f) x closing (r, t) =
    (accepted v f closing x,
     (if accepted v f closing x then r else r\<lparr>sr_issues := sr_issues r @ [issue_of v f closing x]\<rparr>)\<lparr>sr_error := e\<rparr>, t)"
  by (rule exI [of _ "sr_error r \<or> fst (snd (run_callbacks (pure_callback v) (pure_callback f) x closing t))"])
    (auto simp: assess_def run_callbacks_def verdict_def issue_of_def Let_def split: outcome.splits)

lemma restore_documents_exact:
  assumes "documents_wf ops (dw_documents t @ map sd_metadata (filter (accepted v f False) items))"
    and "restore_documents ops (pure_callback v) (pure_callback f) items (r, t) = (r', t')"
  shows "dw_documents t' = dw_documents t @ map sd_metadata (filter (accepted v f False) items)
    \<and> dw_recently_closed t' = dw_recently_closed t
    \<and> dw_maximum_recently_closed t' = dw_maximum_recently_closed t \<and> dw_id t' = dw_id t
    \<and> sr_issues r' = sr_issues r @ map (issue_of v f False) (filter (\<lambda>x. \<not> accepted v f False x) items)
    \<and> sr_restored_documents r' = sr_restored_documents r + length (filter (accepted v f False) items)
    \<and> sr_restored_recently_closed r' = sr_restored_recently_closed r"
  using assms
proof (induction items arbitrary: r t)
  case (Cons x items)
  obtain e where a: "assess (pure_callback v) (pure_callback f) x False (r, t) =
    (accepted v f False x,
     (if accepted v f False x then r else r\<lparr>sr_issues := sr_issues r @ [issue_of v f False x]\<rparr>)\<lparr>sr_error := e\<rparr>, t)"
    using assess_pure by blast
  show ?case
  proof (cases "accepted v f False x")
    case False
    with Cons.prems Cons.IH [of t "(r\<lparr>sr_issues := sr_issues r @ [issue_of v f False x]\<rparr>)\<lparr>sr_error := e\<rparr>"] a
    show ?thesis by simp
  next
    case True
    let ?a = "Workspace_Add ops (sd_metadata x) None t"
    have "documents_wf ops (dw_documents t @ [sd_metadata x])"
      using Cons.prems(1) True by (auto intro!: documents_wf_subset [OF Cons.prems(1)] simp: documents_wf_def)
    then have ok: "fst (fst ?a) = Workspace_success" by (rule add_ok)
    then have docs: "dw_documents (snd ?a) = dw_documents t @ [sd_metadata x]"
      using add_success(1) [OF ok] by (simp add: insert_at_def)
    obtain active where res: "?a = ((Workspace_success, active), snd ?a)" using ok by (cases ?a) auto
    have step: "restore_documents ops (pure_callback v) (pure_callback f) items
        ((r\<lparr>sr_error := e\<rparr>)\<lparr>sr_restored_documents := sr_restored_documents r + 1\<rparr>, snd ?a) = (r', t')"
      using Cons.prems(2) a True by (simp, subst (asm) res, simp)
    show ?thesis
      using Cons.IH [OF _ step] Cons.prems(1) True docs add_keeps_recent [of ops "sd_metadata x" None t] by simp
  qed
qed simp

lemma assess_recent_exact:
  assumes "assess_recent (pure_callback v) (pure_callback f) items recent (r, t) = (recent', r', t')"
  shows "recent' = recent @ map sd_metadata (filter (accepted v f True) items) \<and> t' = t
    \<and> sr_issues r' = sr_issues r @ map (issue_of v f True) (filter (\<lambda>x. \<not> accepted v f True x) items)
    \<and> sr_restored_documents r' = sr_restored_documents r
    \<and> sr_restored_recently_closed r' = sr_restored_recently_closed r"
  using assms
proof (induction items arbitrary: recent r)
  case (Cons x items)
  obtain e where a: "assess (pure_callback v) (pure_callback f) x True (r, t) =
    (accepted v f True x,
     (if accepted v f True x then r else r\<lparr>sr_issues := sr_issues r @ [issue_of v f True x]\<rparr>)\<lparr>sr_error := e\<rparr>, t)"
    using assess_pure by blast
  show ?case
  proof (cases "accepted v f True x")
    case True
    with Cons.prems a Cons.IH [of "recent @ [sd_metadata x]" "r\<lparr>sr_error := e\<rparr>"] show ?thesis by simp
  next
    case False
    with Cons.prems a Cons.IH [of recent "(r\<lparr>sr_issues := sr_issues r @ [issue_of v f True x]\<rparr>)\<lparr>sr_error := e\<rparr>"]
    show ?thesis by simp
  qed
qed simp

section \<open>The history\<close>

definition recent_ok :: "path_ops \<Rightarrow> WorkspaceDocument list \<Rightarrow> WorkspaceDocument list \<Rightarrow> bool" where
  "recent_ok ops docs ds \<longleftrightarrow>
    (\<forall>d \<in> set ds. Workspace_IsValidDocument d \<and> wd_id d \<notin> wd_id ` set docs
       \<and> (\<forall>x \<in> set docs. \<not> SamePath ops (wd_path x) (wd_path d)))
    \<and> sorted_wrt (\<lambda>x y. wd_id x \<noteq> wd_id y \<and> \<not> SamePath ops (wd_path x) (wd_path y)) ds"

lemma restore_recent_complete:
  assumes "restore_recent ops w acc ds = Inr rs" "length acc + length ds \<le> dw_maximum_recently_closed w"
    and "recent_ok ops (dw_documents w) acc"
  shows "recent_ok ops (dw_documents w) (acc @ ds)"
  using assms
proof (induction ds arbitrary: acc)
  case (Cons d ds)
  have p: "SamePath ops p q \<Longrightarrow> q \<noteq> []" for p q by (simp add: SamePath_def)
  have step: "Workspace_IsValidDocument d" "Workspace_Find (wd_id d) w = None"
    "\<not> (wd_path d \<noteq> [] \<and> Workspace_ContainsPath ops (wd_path d) w)"
    "\<forall>item \<in> set acc. wd_id item \<noteq> wd_id d \<and> \<not> SamePath ops (wd_path item) (wd_path d)"
    "restore_recent ops w (acc @ [d]) ds = Inr rs"
    using Cons.prems(1,2) by (auto split: if_splits)
  have "recent_ok ops (dw_documents w) (acc @ [d])"
    using Cons.prems(3) step p
    by (auto simp: recent_ok_def sorted_wrt_append ws_find_None Workspace_ContainsPath_def
        Workspace_IsValidDocument_def)
  from Cons.IH [OF step(5) _ this] Cons.prems(2) show ?case by simp
qed simp

lemma restore_recent_ok:
  assumes "recent_ok ops (dw_documents w) (acc @ ds)" "length acc \<le> dw_maximum_recently_closed w"
  shows "restore_recent ops w acc ds = Inr (take (dw_maximum_recently_closed w) (acc @ ds))"
  using assms
proof (induction ds arbitrary: acc)
  case (Cons d ds)
  have "Workspace_IsValidDocument d" "Workspace_Find (wd_id d) w = None"
    "\<not> (wd_path d \<noteq> [] \<and> Workspace_ContainsPath ops (wd_path d) w)"
    "\<not> (\<exists>item \<in> set acc. wd_id item = wd_id d \<or> SamePath ops (wd_path item) (wd_path d))"
    using Cons.prems(1)
    by (auto simp: recent_ok_def sorted_wrt_append ws_find_None Workspace_ContainsPath_def)
  then have step: "restore_recent ops w acc (d # ds) = restore_recent ops w
      (if length acc < dw_maximum_recently_closed w then acc @ [d] else acc) ds" by auto
  show ?case
  proof (cases "length acc < dw_maximum_recently_closed w")
    case True
    with Cons.IH [of "acc @ [d]"] Cons.prems step show ?thesis by simp
  next
    case False
    have "recent_ok ops (dw_documents w) (acc @ ds)"
      using Cons.prems(1) by (auto simp: recent_ok_def sorted_wrt_append)
    with Cons.IH [of acc] Cons.prems(2) step False show ?thesis by simp
  qed
qed simp

lemma recent_ok_subset:
  assumes "recent_ok ops docs (map sd_metadata ds)" "set docs' \<subseteq> set docs"
  shows "recent_ok ops docs' (map sd_metadata (filter P ds))"
proof -
  have "sorted_wrt R (map sd_metadata ds) \<Longrightarrow> sorted_wrt R (map sd_metadata (filter P ds))" for R
    by (induction ds) auto
  with assms show ?thesis by (auto simp: recent_ok_def)
qed

lemma probe_session_ok:
  assumes "probe_session ops session"
  shows "documents_wf ops (map sd_metadata (ss_documents session))
    \<and> recent_ok ops (map sd_metadata (ss_documents session)) (map sd_metadata (ss_recently_closed session))"
proof -
  obtain t p where t: "DocumentWorkspaceModel_new (ss_workspace session) (length (ss_recently_closed session)) = Some t"
    "probe_documents ops (ss_documents session) t = Some p"
    "fst (fst (Workspace_RestoreRecentlyClosed ops (map sd_metadata (ss_recently_closed session)) p)) = Workspace_success"
    using assms by (auto simp: probe_session_def bind_eq_Some_conv split: option.splits)
  have new: "dw_documents t = []" "dw_maximum_recently_closed t = length (ss_recently_closed session)"
    using t(1) by (auto simp: DocumentWorkspaceModel_new_def split: if_splits)
  have p: "documents_wf ops (map sd_metadata (ss_documents session))"
    "dw_documents p = map sd_metadata (ss_documents session)"
    "dw_maximum_recently_closed p = length (ss_recently_closed session)"
    using probe_documents_wf [OF t(2)] new by (simp_all add: documents_wf_def)
  have failed: "restore_recent ops w acc ds \<noteq> Inl Workspace_success" for w acc ds
    by (induction ops w acc ds rule: restore_recent.induct) auto
  obtain rs where "restore_recent ops p [] (map sd_metadata (ss_recently_closed session)) = Inr rs"
    using t(3) failed by (auto simp: Workspace_RestoreRecentlyClosed_def split: sum.splits)
  from restore_recent_complete [OF this] p show ?thesis by (simp add: recent_ok_def)
qed

lemma restore_active_simps [simp]:
  "dw_documents (restore_active session t) = dw_documents t"
  "dw_recently_closed (restore_active session t) = dw_recently_closed t"
  "dw_maximum_recently_closed (restore_active session t) = dw_maximum_recently_closed t"
  by (simp_all add: restore_active_def Workspace_Activate_def bump_revision_def split: option.split)

lemma documents_wf_filter:
  "documents_wf ops (map sd_metadata ds) \<Longrightarrow> documents_wf ops (map sd_metadata (filter P ds))"
  by (auto simp: documents_wf_def comp_def distinct_map_filter)

text \<open>Restoring a session is exact.  When the callbacks decide from the entry and leave the workspace
  alone, a restore that is not refused adds precisely the accepted documents in the order of the
  session and precisely the accepted recently closed entries, up to the capacity of the target; every
  other entry is reported once, with its own disposition, and nothing else is; the status is success
  exactly when every entry was accepted.  A refused restore changes nothing.\<close>

theorem restore_is_exact:
  assumes "RestoreWorkspaceSession ops session (Some (pure_callback v)) (Some (pure_callback f)) t = (r, t')"
  shows "case sr_status r of
      Restore_invalid_argument \<Rightarrow> t' = t
    | Restore_target_not_empty \<Rightarrow> t' = t \<and> (dw_documents t \<noteq> [] \<or> dw_recently_closed t \<noteq> [])
    | status \<Rightarrow>
        dw_documents t' = map sd_metadata (filter (accepted v f False) (ss_documents session))
      \<and> dw_recently_closed t' = take (dw_maximum_recently_closed t)
          (map sd_metadata (filter (accepted v f True) (ss_recently_closed session)))
      \<and> sr_issues r = map (issue_of v f False) (filter (\<lambda>x. \<not> accepted v f False x) (ss_documents session))
          @ map (issue_of v f True) (filter (\<lambda>x. \<not> accepted v f True x) (ss_recently_closed session))
      \<and> sr_restored_documents r = length (dw_documents t')
      \<and> (status = Restore_success \<longleftrightarrow> sr_issues r = [])"
proof (cases "ss_workspace session = 0 \<or> ss_workspace session \<noteq> dw_id t \<or> dw_documents t \<noteq> []
    \<or> dw_recently_closed t \<noteq> [] \<or> \<not> probe_session ops session")
  case True
  with assms show ?thesis
    by (auto simp: RestoreWorkspaceSession_def empty_restore_result_def split: if_splits prod.splits)
next
  case False
  then have t: "ss_workspace session \<noteq> 0" "ss_workspace session = dw_id t" "dw_documents t = []"
    "dw_recently_closed t = []" "probe_session ops session" by auto
  let ?D = "map sd_metadata (filter (accepted v f False) (ss_documents session))"
  let ?R = "map sd_metadata (filter (accepted v f True) (ss_recently_closed session))"
  note ok = probe_session_ok [OF t(5)]
  obtain r1 t1 where 1: "restore_documents ops (pure_callback v) (pure_callback f) (ss_documents session)
      (empty_restore_result, t) = (r1, t1)" by fastforce
  have d1: "dw_documents t1 = ?D" "dw_recently_closed t1 = []"
      "dw_maximum_recently_closed t1 = dw_maximum_recently_closed t"
      "sr_issues r1 = map (issue_of v f False) (filter (\<lambda>x. \<not> accepted v f False x) (ss_documents session))"
      "sr_restored_documents r1 = length ?D"
    using restore_documents_exact [OF _ 1] ok t
    by (simp_all add: documents_wf_filter empty_restore_result_def)
  obtain recent r2 t2 where 2: "assess_recent (pure_callback v) (pure_callback f) (ss_recently_closed session) []
      (r1, restore_active session t1) = (recent, r2, t2)" by (metis prod.exhaust)
  from assess_recent_exact [OF 2] have d2: "recent = ?R" "t2 = restore_active session t1"
    "sr_issues r2 = sr_issues r1
      @ map (issue_of v f True) (filter (\<lambda>x. \<not> accepted v f True x) (ss_recently_closed session))"
    "sr_restored_documents r2 = length ?D" using d1 by simp_all
  have "recent_ok ops (dw_documents t2) ?R"
    unfolding d2(2) restore_active_simps d1(1) using ok by (intro recent_ok_subset) auto
  then have hist: "restore_recent ops t2 [] ?R = Inr (take (dw_maximum_recently_closed t) ?R)"
    using restore_recent_ok [of ops t2 "[]" ?R] d2(2) d1(3) by simp
  obtain r3 t3 where 3: "restore_history ops recent (r2, t2) = (r3, t3)" by fastforce
  then have d3: "dw_documents t3 = ?D" "dw_recently_closed t3 = take (dw_maximum_recently_closed t) ?R"
    "sr_issues r3 = sr_issues r2" "sr_restored_documents r3 = length ?D"
    using hist d1 d2
    by (auto simp: restore_history_def Workspace_RestoreRecentlyClosed_def Workspace_Success_def bump_revision_def
        split: if_splits)
  have "r = r3\<lparr>sr_status := if sr_issues r3 = [] then Restore_success else Restore_partial_success\<rparr>" "t' = t3"
    using assms t 1 2 3 by (simp_all add: RestoreWorkspaceSession_def)
  then show ?thesis using d1(4) d2(3) d3 by auto
qed

theorem restore_is_exact_witness:
  "sr_issues (fst (RestoreWorkspaceSession \<lparr>normal_path = (\<lambda>x. x), upcase = (\<lambda>x. x)\<rparr>
     \<lparr>ss_workspace = 5, ss_active = None, ss_documents = [], ss_recently_closed = []\<rparr>
     (Some (pure_callback (\<lambda>x. Throws))) (Some (pure_callback (\<lambda>x. Throws)))
     (the (DocumentWorkspaceModel_new 5 3)))) = []"
proof -
  let ?ops = "\<lparr>normal_path = (\<lambda>x. x), upcase = (\<lambda>x. x)\<rparr>"
  let ?s = "\<lparr>ss_workspace = 5, ss_active = None, ss_documents = [], ss_recently_closed = []\<rparr>"
  let ?r = "RestoreWorkspaceSession ?ops ?s (Some (pure_callback (\<lambda>x. Throws))) (Some (pure_callback (\<lambda>x. Throws)))
     (the (DocumentWorkspaceModel_new 5 3))"
  have status: "sr_status (fst ?r) = Restore_success" by code_simp
  have "?r = (fst ?r, snd ?r)" by simp
  from restore_is_exact [OF this] status show ?thesis by simp
qed

end
