(* ===== verification/Docking_Session.thy ===== *)
theory Docking_Session
  imports Session_Lines Docking_Validity
begin

text \<open>
  The text format of docking layouts (\<open>src/docking_session.cpp\<close>, \<open>include/mwfl/docking_session.h\<close>):
  counted sections of records, the parser with its limits, and the files.
\<close>

record DockingSessionLimits =
  kl_maximum_bytes :: nat
  kl_maximum_panels :: nat
  kl_maximum_groups :: nat
  kl_maximum_nodes :: nat
  kl_maximum_floating_hosts :: nat
  kl_maximum_auto_hide :: nat
  kl_maximum_string_units :: nat

datatype DockingSessionStatus =
    Docking_success | Docking_not_found | Docking_unsupported_version | Docking_malformed
  | Docking_oversized | Docking_duplicate_identity | Docking_invalid_graph | Docking_io_error

definition docking_session_schema_version :: u32 where
  "docking_session_schema_version = 1"

definition docking_magic :: wstring where
  "docking_magic = lit ''MWFL_DOCK_LAYOUT''"

definition GraphStatus :: "DockLayoutStatus \<Rightarrow> DockingSessionStatus" where
  "GraphStatus status = (case status of Layout_success \<Rightarrow> Docking_success
     | Layout_duplicate_id \<Rightarrow> Docking_duplicate_identity | _ \<Rightarrow> Docking_invalid_graph)"

text \<open>The numbers of the enumerators.\<close>

definition panel_role_code :: "DockPanelRole \<Rightarrow> u32" where
  "panel_role_code r = (case r of Panel_document \<Rightarrow> 0 | Panel_tool \<Rightarrow> 1)"

definition group_role_code :: "DockGroupRole \<Rightarrow> u32" where
  "group_role_code r = (case r of Group_document \<Rightarrow> 0 | Group_tool \<Rightarrow> 1)"

definition node_kind_code :: "DockNodeKind \<Rightarrow> u32" where
  "node_kind_code k = (case k of Node_group \<Rightarrow> 0 | Node_split \<Rightarrow> 1)"

definition orientation_code :: "DockSplitOrientation \<Rightarrow> u32" where
  "orientation_code x = (case x of Split_vertical \<Rightarrow> 0 | Split_horizontal \<Rightarrow> 1)"

definition edge_code :: "DockEdge \<Rightarrow> u32" where
  "edge_code e = (case e of Edge_left \<Rightarrow> 0 | Edge_top \<Rightarrow> 1 | Edge_right \<Rightarrow> 2 | Edge_bottom \<Rightarrow> 3)"

section \<open>Writing\<close>

definition id_or_zero :: "u64 option \<Rightarrow> u64" where
  "id_or_zero i = (case i of None \<Rightarrow> 0 | Some a \<Rightarrow> a)"

definition write_panel :: "DockPanel \<Rightarrow> wstring" where
  "write_panel p = lit ''P'' @ field (write_unsigned (dp_id p)) @ field (write_unsigned (panel_role_code (dp_role p)))
     @ field (write_bool (dp_closable p)) @ field (write_quoted (dp_title p))"

definition write_ids :: "u64 list \<Rightarrow> wstring" where
  "write_ids is = concat (map (\<lambda>i. field (write_unsigned i)) is)"

definition write_group :: "DockGroup \<Rightarrow> wstring" where
  "write_group g = lit ''G'' @ field (write_unsigned (dg_id g)) @ field (write_unsigned (group_role_code (dg_role g)))
     @ field (write_unsigned (id_or_zero (dg_active g))) @ field (to_wstring (length (dg_panels g)))
     @ write_ids (dg_panels g)"

definition write_node :: "DockNode \<Rightarrow> wstring" where
  "write_node n = lit ''N'' @ field (write_unsigned (dn_id n)) @ field (write_unsigned (node_kind_code (dn_kind n)))
     @ field (write_unsigned (dn_group n)) @ field (write_unsigned (orientation_code (dn_orientation n)))
     @ field (write_unsigned (dn_first n)) @ field (write_unsigned (dn_second n)) @ field (write_double (dn_ratio n))"

definition write_floating :: "DockFloatingHost \<Rightarrow> wstring" where
  "write_floating h = (let p = fh_placement h in
     lit ''F'' @ field (write_unsigned (fh_id h)) @ field (write_unsigned (fh_root h))
     @ field (write_double (fl_x p)) @ field (write_double (fl_y p)) @ field (write_double (fl_width p))
     @ field (write_double (fl_height p)) @ field (write_quoted (fl_monitor_key p)))"

definition write_auto_hide :: "DockAutoHideEntry \<Rightarrow> wstring" where
  "write_auto_hide e = lit ''A'' @ field (write_unsigned (ah_panel e)) @ field (write_unsigned (edge_code (ah_edge e)))
     @ field (write_unsigned (ah_order e))"

text \<open>A section: its tag with the amount, and one line for each record.\<close>

definition write_section :: "string \<Rightarrow> ('a \<Rightarrow> wstring) \<Rightarrow> 'a list \<Rightarrow> wstring" where
  "write_section tag wr xs = lit tag @ field (to_wstring (length xs)) @ [0x0A]
     @ concat (map (\<lambda>x. wr x @ [0x0A]) xs)"

definition SerializeDockingSession :: "DockLayoutSnapshot \<Rightarrow> wstring" where
  "SerializeDockingSession s = docking_magic @ field (write_unsigned docking_session_schema_version) @ [0x0A]
     @ lit ''R'' @ field (write_unsigned (ly_main_root s)) @ field (write_unsigned (id_or_zero (ly_active_panel s)))
     @ [0x0A]
     @ write_section ''PC'' write_panel (ly_panels s) @ write_section ''GC'' write_group (ly_groups s)
     @ write_section ''NC'' write_node (ly_nodes s) @ write_section ''FC'' write_floating (ly_floating_hosts s)
     @ write_section ''AC'' write_auto_hide (ly_auto_hide s) @ [0x45, 0x0A]"

section \<open>Parsing\<close>

definition read_tag :: "char \<Rightarrow> wstring \<Rightarrow> wstring option" where
  "read_tag t line = (case read_char line of None \<Rightarrow> None | Some (c, s) \<Rightarrow> if c = of_char t then Some s else None)"

definition finish :: "'a \<Rightarrow> wstring \<Rightarrow> 'a option" where
  "finish x s = (if at_end s then Some x else None)"

definition read_panel :: "DockingSessionLimits \<Rightarrow> wstring \<Rightarrow> DockPanel option" where
  "read_panel limits line = do {
     s \<leftarrow> read_tag CHR ''P'' line; (i, s) \<leftarrow> read_unsigned s; (role :: u32, s) \<leftarrow> read_unsigned s;
     (closable, s) \<leftarrow> read_bool s; (title, s) \<leftarrow> read_quoted s;
     if 1 < role \<or> kl_maximum_string_units limits < length title then None
     else finish \<lparr>dp_id = i, dp_title = title, dp_role = if role = 0 then Panel_document else Panel_tool,
       dp_closable = closable\<rparr> s }"

fun read_ids :: "nat \<Rightarrow> u64 list reader" where
  "read_ids 0 s = Some ([], s)"
| "read_ids (Suc n) s = do { (i, s) \<leftarrow> read_unsigned s; (is, s) \<leftarrow> read_ids n s; Some (i # is, s) }"

definition read_group :: "DockingSessionLimits \<Rightarrow> wstring \<Rightarrow> DockGroup option" where
  "read_group limits line = do {
     s \<leftarrow> read_tag CHR ''G'' line; (i, s) \<leftarrow> read_unsigned s; (role :: u32, s) \<leftarrow> read_unsigned s;
     (active, s) \<leftarrow> read_unsigned s; (amount, s) \<leftarrow> read_size s;
     if 1 < role \<or> kl_maximum_panels limits < amount then None
     else do { (panels, s) \<leftarrow> read_ids amount s;
       finish \<lparr>dg_id = i, dg_role = if role = 0 then Group_document else Group_tool, dg_panels = panels,
         dg_active = if active = 0 then None else Some active\<rparr> s } }"

definition read_node :: "wstring \<Rightarrow> DockNode option" where
  "read_node line = do {
     s \<leftarrow> read_tag CHR ''N'' line; (i, s) \<leftarrow> read_unsigned s; (kind :: u32, s) \<leftarrow> read_unsigned s;
     (owner, s) \<leftarrow> read_unsigned s; (orientation :: u32, s) \<leftarrow> read_unsigned s; (first, s) \<leftarrow> read_unsigned s;
     (second, s) \<leftarrow> read_unsigned s; (ratio, s) \<leftarrow> read_double s;
     if 1 < kind \<or> 1 < orientation then None
     else finish \<lparr>dn_id = i, dn_kind = if kind = 0 then Node_group else Node_split, dn_group = owner,
       dn_orientation = if orientation = 0 then Split_vertical else Split_horizontal, dn_first = first,
       dn_second = second, dn_ratio = ratio\<rparr> s }"

definition read_floating :: "DockingSessionLimits \<Rightarrow> wstring \<Rightarrow> DockFloatingHost option" where
  "read_floating limits line = do {
     s \<leftarrow> read_tag CHR ''F'' line; (i, s) \<leftarrow> read_unsigned s; (host_root, s) \<leftarrow> read_unsigned s;
     (x, s) \<leftarrow> read_double s; (y, s) \<leftarrow> read_double s; (width, s) \<leftarrow> read_double s; (height, s) \<leftarrow> read_double s;
     (key, s) \<leftarrow> read_quoted s;
     if kl_maximum_string_units limits < length key then None
     else finish \<lparr>fh_id = i, fh_root = host_root, fh_placement = \<lparr>fl_x = x, fl_y = y, fl_width = width,
       fl_height = height, fl_monitor_key = key\<rparr>\<rparr> s }"

definition edge_of_code :: "u32 \<Rightarrow> DockEdge" where
  "edge_of_code c = (if c = 0 then Edge_left else if c = 1 then Edge_top else if c = 2 then Edge_right
     else Edge_bottom)"

definition read_auto_hide :: "wstring \<Rightarrow> DockAutoHideEntry option" where
  "read_auto_hide line = do {
     s \<leftarrow> read_tag CHR ''A'' line; (panel, s) \<leftarrow> read_unsigned s; (edge :: u32, s) \<leftarrow> read_unsigned s;
     (order, s) \<leftarrow> read_unsigned s;
     if 3 < edge then None
     else finish \<lparr>ah_panel = panel, ah_edge = edge_of_code edge, ah_order = order\<rparr> s }"

definition read_count :: "string \<Rightarrow> nat \<Rightarrow> wstring \<Rightarrow> DockingSessionStatus + nat \<times> wstring" where
  "read_count expected maximum s =
    (case ReadRecordLine s of None \<Rightarrow> Inl Docking_malformed
     | Some (line, rest) \<Rightarrow>
       (case do { (tag, t) \<leftarrow> read_string line; (amount, t) \<leftarrow> read_size t;
           if tag = lit expected then finish amount t else None } of
          None \<Rightarrow> Inl Docking_malformed
        | Some amount \<Rightarrow> if maximum < amount then Inl Docking_oversized else Inr (amount, rest)))"

fun read_records :: "(wstring \<Rightarrow> 'a option) \<Rightarrow> nat \<Rightarrow> wstring \<Rightarrow> ('a list \<times> wstring) option" where
  "read_records rd 0 s = Some ([], s)"
| "read_records rd (Suc n) s = do {
     (line, s) \<leftarrow> ReadRecordLine s; x \<leftarrow> rd line; (xs, s) \<leftarrow> read_records rd n s; Some (x # xs, s) }"

definition read_section ::
  "string \<Rightarrow> nat \<Rightarrow> (wstring \<Rightarrow> 'a option) \<Rightarrow> wstring \<Rightarrow> DockingSessionStatus + 'a list \<times> wstring" where
  "read_section expected maximum rd s =
    (case read_count expected maximum s of Inl e \<Rightarrow> Inl e
     | Inr (amount, rest) \<Rightarrow> (case read_records rd amount rest of None \<Rightarrow> Inl Docking_malformed
         | Some x \<Rightarrow> Inr x))"

definition read_dock_header :: "wstring \<Rightarrow> u32 option" where
  "read_dock_header line = do {
     (magic, s) \<leftarrow> read_string line; (version, s) \<leftarrow> read_unsigned s;
     if magic = docking_magic then finish version s else None }"

definition read_root :: "wstring \<Rightarrow> (u64 \<times> u64) option" where
  "read_root line = do {
     s \<leftarrow> read_tag CHR ''R'' line; (host_root, s) \<leftarrow> read_unsigned s; (active, s) \<leftarrow> read_unsigned s;
     finish (host_root, active) s }"

definition read_layout :: "DockingSessionLimits \<Rightarrow> wstring \<Rightarrow> DockingSessionStatus + DockLayoutSnapshot" where
  "read_layout limits s =
    (case do { (line, rest) \<leftarrow> ReadRecordLine s; r \<leftarrow> read_root line; Some (r, rest) } of
       None \<Rightarrow> Inl Docking_malformed
     | Some ((host_root, active), s0) \<Rightarrow>
    (case read_section ''PC'' (kl_maximum_panels limits) (read_panel limits) s0 of Inl e \<Rightarrow> Inl e
     | Inr (panels, s1) \<Rightarrow>
    (case read_section ''GC'' (kl_maximum_groups limits) (read_group limits) s1 of Inl e \<Rightarrow> Inl e
     | Inr (groups, s2) \<Rightarrow>
    (case read_section ''NC'' (kl_maximum_nodes limits) read_node s2 of Inl e \<Rightarrow> Inl e
     | Inr (nodes, s3) \<Rightarrow>
    (case read_section ''FC'' (kl_maximum_floating_hosts limits) (read_floating limits) s3 of Inl e \<Rightarrow> Inl e
     | Inr (hosts, s4) \<Rightarrow>
    (case read_section ''AC'' (kl_maximum_auto_hide limits) read_auto_hide s4 of Inl e \<Rightarrow> Inl e
     | Inr (hidden, s5) \<Rightarrow>
    (case ReadRecordLine s5 of None \<Rightarrow> Inl Docking_malformed
     | Some (line, s6) \<Rightarrow> if line \<noteq> [0x45] \<or> \<not> trailer_ok s6 then Inl Docking_malformed
         else Inr \<lparr>ly_main_root = host_root, ly_panels = panels, ly_groups = groups, ly_nodes = nodes,
           ly_floating_hosts = hosts, ly_auto_hide = hidden,
           ly_active_panel = if active = 0 then None else Some active\<rparr>)))))))"

type_synonym DockingSessionResult = "DockingSessionStatus \<times> DockLayoutSnapshot option"

definition ParseDockingSession ::
  "('h, 'w) file_api \<Rightarrow> wstring \<Rightarrow> DockingSessionLimits \<Rightarrow> DockingSessionResult" where
  "ParseDockingSession api s limits =
    (case Utf8Size api s of None \<Rightarrow> (Docking_malformed, None)
     | Some bytes \<Rightarrow>
       if kl_maximum_bytes limits < bytes then (Docking_oversized, None)
       else case do { (line, rest) \<leftarrow> get_line s; v \<leftarrow> read_dock_header line; Some (v, rest) } of
         None \<Rightarrow> (Docking_malformed, None)
       | Some (version, rest) \<Rightarrow>
         if docking_session_schema_version < version then (Docking_unsupported_version, None)
         else (case read_layout limits rest of Inl e \<Rightarrow> (e, None)
           | Inr layout \<Rightarrow> let graph = DockLayoutModel_Validate layout in
               if graph \<noteq> Layout_success then (GraphStatus graph, None)
               else (Docking_success, Some layout)))"

section \<open>Files\<close>

definition LoadDockingSession ::
  "('h, 'w) file_api \<Rightarrow> wstring \<Rightarrow> DockingSessionLimits \<Rightarrow> 'w \<Rightarrow> (DockingSessionResult \<times> u32) \<times> 'w" where
  "LoadDockingSession api path limits w =
    (case ReadTextFile api path w of
       ((status, e, v), w1) \<Rightarrow>
       if status \<noteq> File_success then
         (((if status = File_not_found then Docking_not_found else Docking_io_error, None), e), w1)
       else (case v of None \<Rightarrow> (((Docking_io_error, None), e), w1)
         | Some f \<Rightarrow>
           if kl_maximum_bytes limits < unat (fs_size (tf_stamp f)) then (((Docking_oversized, None), 0), w1)
           else ((ParseDockingSession api (tf_text f) limits, 0), w1)))"

definition SaveDockingSessionAtomic ::
  "('h, 'w) file_api \<Rightarrow> wstring \<Rightarrow> DockLayoutSnapshot \<Rightarrow> DockingSessionLimits \<Rightarrow> u32 \<times> 'w
    \<Rightarrow> DockingSessionStatus \<times> u32 \<times> 'w" where
  "SaveDockingSessionAtomic api path snapshot limits st =
    (let graph = DockLayoutModel_Validate snapshot; serialized = SerializeDockingSession snapshot in
     if graph \<noteq> Layout_success then (GraphStatus graph, st)
     else case Utf8Size api serialized of None \<Rightarrow> (Docking_malformed, st)
     | Some bytes \<Rightarrow>
       if kl_maximum_bytes limits < bytes then (Docking_oversized, st)
       else case ParseDockingSession api serialized limits of (checked, parsed) \<Rightarrow>
         if checked \<noteq> Docking_success \<or> parsed = None then (checked, st)
         else case WriteTextFileAtomic api path serialized Encoding_utf8 None st of
           ((status, _, _), st') \<Rightarrow>
             (if status = File_success then Docking_success else Docking_io_error, st'))"

end
