(* ===== verification/Docking_Session_Round_Trip.thy ===== *)
theory Docking_Session_Round_Trip
  imports Docking_Session Docking_Model
begin

text \<open>
  Every valid layout within the limits is read back from what was written, and every layout the
  parser accepts is well formed.
\<close>

definition double_value :: "fp \<Rightarrow> bool" where
  "double_value x \<longleftrightarrow> (\<exists>q. x = Fin q \<and> dbl q = Fin q)"

text \<open>Layouts the text format can represent.\<close>

definition layout_writable :: "DockLayoutSnapshot \<Rightarrow> bool" where
  "layout_writable s \<longleftrightarrow> ly_active_panel s \<noteq> Some 0
     \<and> list_all (\<lambda>p. 0x0A \<notin> set (dp_title p)) (ly_panels s)
     \<and> list_all (\<lambda>g. dg_active g \<noteq> Some 0 \<and> length (dg_panels g) < 2 ^ 64) (ly_groups s)
     \<and> list_all (\<lambda>n. double_value (dn_ratio n)) (ly_nodes s)
     \<and> list_all (\<lambda>h. case fh_placement h of p \<Rightarrow> double_value (fl_x p) \<and> double_value (fl_y p)
          \<and> double_value (fl_width p) \<and> double_value (fl_height p) \<and> 0x0A \<notin> set (fl_monitor_key p))
        (ly_floating_hosts s)"

definition layout_fits :: "DockingSessionLimits \<Rightarrow> DockLayoutSnapshot \<Rightarrow> bool" where
  "layout_fits limits s \<longleftrightarrow> length (ly_panels s) \<le> kl_maximum_panels limits
     \<and> length (ly_groups s) \<le> kl_maximum_groups limits \<and> length (ly_nodes s) \<le> kl_maximum_nodes limits
     \<and> length (ly_floating_hosts s) \<le> kl_maximum_floating_hosts limits
     \<and> length (ly_auto_hide s) \<le> kl_maximum_auto_hide limits
     \<and> list_all (\<lambda>p. length (dp_title p) \<le> kl_maximum_string_units limits) (ly_panels s)
     \<and> list_all (\<lambda>g. length (dg_panels g) \<le> kl_maximum_panels limits) (ly_groups s)
     \<and> list_all (\<lambda>h. length (fl_monitor_key (fh_placement h)) \<le> kl_maximum_string_units limits)
        (ly_floating_hosts s)"

section \<open>Records\<close>

lemma read_tag_written [stream_simps]:
  "read_tag CHR ''P'' (0x50 # s) = Some s" "read_tag CHR ''G'' (0x47 # s) = Some s"
  "read_tag CHR ''N'' (0x4E # s) = Some s" "read_tag CHR ''F'' (0x46 # s) = Some s"
  "read_tag CHR ''A'' (0x41 # s) = Some s" "read_tag CHR ''R'' (0x52 # s) = Some s"
  by (simp_all add: read_tag_def read_char_def skip_ws_def is_wspace_def)

lemma finish_Nil [simp]: "finish x [] = Some x"
  by (simp add: finish_def)

lemma read_unsigned_last [stream_simps]: "read_unsigned (write_unsigned w) = Some (w, [])"
  using read_unsigned_written [of "[]" w] by simp

lemma read_quoted_last [stream_simps]: "read_quoted (write_quoted t) = Some (t, [])"
  using read_quoted_written [of t "[]"] by simp

lemma read_double_value [stream_simps]:
  "double_value x \<Longrightarrow> token_end s \<Longrightarrow> read_double (write_double x @ s) = Some (x, s)"
  "double_value x \<Longrightarrow> read_double (write_double x) = Some (x, [])"
  using read_double_written [of "case x of Fin q \<Rightarrow> q | _ \<Rightarrow> 0" "[]"]
    read_double_written [of "case x of Fin q \<Rightarrow> q | _ \<Rightarrow> 0" s]
  by (auto simp: double_value_def simp del: write_double.simps)

lemma codes [simp]:
  "panel_role_code r \<le> 1" "(if panel_role_code r = 0 then Panel_document else Panel_tool) = r"
  "group_role_code g \<le> 1" "(if group_role_code g = 0 then Group_document else Group_tool) = g"
  "node_kind_code k \<le> 1" "(if node_kind_code k = 0 then Node_group else Node_split) = k"
  "orientation_code x \<le> 1" "(if orientation_code x = 0 then Split_vertical else Split_horizontal) = x"
  "edge_code e \<le> 3" "edge_of_code (edge_code e) = e"
  by (simp_all add: panel_role_code_def group_role_code_def node_kind_code_def orientation_code_def
      edge_code_def edge_of_code_def split: DockPanelRole.split DockGroupRole.split DockNodeKind.split
      DockSplitOrientation.split DockEdge.split)

lemma id_or_zero_back [simp]: "i \<noteq> Some 0 \<Longrightarrow> (if id_or_zero i = 0 then None else Some (id_or_zero i)) = i"
  by (cases i) (auto simp: id_or_zero_def)

lemma read_panel_written:
  "length (dp_title p) \<le> kl_maximum_string_units limits \<Longrightarrow> read_panel limits (write_panel p) = Some p"
  by (simp add: read_panel_def write_panel_def stream_simps not_less)

lemma read_ids_written: "read_ids (length is) (write_ids is) = Some (is, [])"
proof (induction "is")
  case (Cons i js)
  have "token_end (write_ids js)" by (simp add: write_ids_def token_end_def split: list.split) (cases js; simp)
  with Cons show ?case by (simp add: write_ids_def stream_simps)
qed (simp add: write_ids_def)

lemma read_group_written:
  assumes "dg_active g \<noteq> Some 0" "length (dg_panels g) < 2 ^ 64" "length (dg_panels g) \<le> kl_maximum_panels limits"
  shows "read_group limits (write_group g) = Some g"
proof -
  have "token_end (write_ids (dg_panels g))" by (cases "dg_panels g") (simp_all add: write_ids_def)
  with assms show ?thesis
    by (simp add: read_group_def write_group_def stream_simps not_less read_ids_written)
qed

lemma read_node_written: "double_value (dn_ratio n) \<Longrightarrow> read_node (write_node n) = Some n"
  by (simp add: read_node_def write_node_def stream_simps not_less)

lemma read_floating_written:
  assumes "case fh_placement h of p \<Rightarrow> double_value (fl_x p) \<and> double_value (fl_y p)
      \<and> double_value (fl_width p) \<and> double_value (fl_height p)"
    and "length (fl_monitor_key (fh_placement h)) \<le> kl_maximum_string_units limits"
  shows "read_floating limits (write_floating h) = Some h"
  using assms by (simp add: read_floating_def write_floating_def Let_def stream_simps not_less)

lemma read_auto_hide_written: "read_auto_hide (write_auto_hide e) = Some e"
  by (simp add: read_auto_hide_def write_auto_hide_def stream_simps not_less)

section \<open>Sections\<close>

lemma no_newline_ids [simp]: "0x0A \<notin> set (write_ids js)"
  by (induction js) (auto simp: write_ids_def)

lemma no_newline_records:
  "0x0A \<notin> set (write_group g)" "0x0A \<notin> set (write_node n)" "0x0A \<notin> set (write_auto_hide e)"
  "0x0A \<notin> set (dp_title p) \<Longrightarrow> 0x0A \<notin> set (write_panel p)"
  "0x0A \<notin> set (fl_monitor_key (fh_placement h)) \<Longrightarrow> 0x0A \<notin> set (write_floating h)"
  by (simp_all add: write_group_def write_node_def write_auto_hide_def write_panel_def write_floating_def Let_def)

lemma no_extension_records:
  "\<not> extension_line (write_group g)" "\<not> extension_line (write_node n)" "\<not> extension_line (write_auto_hide e)"
  "\<not> extension_line (write_panel p)" "\<not> extension_line (write_floating h)"
  by (simp_all add: write_group_def write_node_def write_auto_hide_def write_panel_def write_floating_def Let_def
      extension_line_def)

lemma read_records_written:
  assumes "\<forall>x \<in> set xs. rd (wr x) = Some x \<and> 0x0A \<notin> set (wr x) \<and> \<not> extension_line (wr x)"
  shows "read_records rd (length xs) (concat (map (\<lambda>x. wr x @ [0x0A]) xs) @ s) = Some (xs, s)"
  using assms by (induction xs) (simp_all add: read_record_written)

lemma read_section_written:
  assumes "\<forall>x \<in> set xs. rd (wr x) = Some x \<and> 0x0A \<notin> set (wr x) \<and> \<not> extension_line (wr x)"
    and "length xs < 2 ^ 64" "length xs \<le> maximum"
    and tag: "lit tag \<noteq> []" "\<forall>c \<in> set (lit tag). \<not> is_wspace c" "hd (lit tag) \<noteq> 0x58"
  shows "read_section tag maximum rd (write_section tag wr xs @ s) = Inr (xs, s)"
proof -
  let ?line = "lit tag @ field (to_wstring (length xs))"
  let ?rest = "concat (map (\<lambda>x. wr x @ [0x0A]) xs) @ s"
  have whole: "write_section tag wr xs @ s = ?line @ 0x0A # ?rest" by (simp add: write_section_def)
  have "0x0A \<notin> set (lit tag)" using tag(2) by auto
  moreover have "\<not> extension_line ?line" using tag(1,3) by (cases "lit tag") (auto simp: extension_line_def)
  ultimately have "ReadRecordLine (write_section tag wr xs @ s) = Some (?line, ?rest)"
    unfolding whole by (intro read_record_written) simp_all
  moreover have "read_string ?line = Some (lit tag, field (to_wstring (length xs)))"
    using tag by (intro read_string_written) simp_all
  moreover have "read_size (to_wstring (length xs)) = Some (length xs, [])"
    using read_size_written [of "[]" "length xs"] assms(2) by simp
  ultimately show ?thesis
    using assms(3) read_records_written [of xs rd wr s, OF assms(1)]
    by (simp add: read_section_def read_count_def stream_simps)
qed

section \<open>Layouts\<close>

lemma read_layout_written:
  assumes "layout_writable s" "layout_fits limits s" "DockLayoutModel_Validate s = Layout_success"
  shows "\<exists>rest. SerializeDockingSession s
      = docking_magic @ field (write_unsigned docking_session_schema_version) @ 0x0A # rest
    \<and> read_layout limits rest = Inr s"
proof -
  let ?root = "0x52 # field (write_unsigned (ly_main_root s)) @ field (write_unsigned (id_or_zero (ly_active_panel s)))"
  let ?A = "write_section ''AC'' write_auto_hide (ly_auto_hide s) @ [0x45] @ [0x0A]"
  let ?F = "write_section ''FC'' write_floating (ly_floating_hosts s) @ ?A"
  let ?N = "write_section ''NC'' write_node (ly_nodes s) @ ?F"
  let ?G = "write_section ''GC'' write_group (ly_groups s) @ ?N"
  let ?P = "write_section ''PC'' write_panel (ly_panels s) @ ?G"
  have small: "length (ly_panels s) < 2 ^ 64" "length (ly_groups s) < 2 ^ 64" "length (ly_nodes s) < 2 ^ 64"
    "length (ly_floating_hosts s) < 2 ^ 64" "length (ly_auto_hide s) < 2 ^ 64"
    using assms(3) by (auto simp: DockLayoutModel_Validate_def split: if_splits)
  note ok = assms(1,2) [unfolded layout_writable_def layout_fits_def list_all_iff]
  have root: "ReadRecordLine (?root @ 0x0A # ?P) = Some (?root, ?P)"
    by (rule read_record_written) (simp_all add: extension_line_def)
  have root': "read_root ?root = Some (ly_main_root s, id_or_zero (ly_active_panel s))"
    by (simp add: read_root_def stream_simps)
  have P: "read_section ''PC'' (kl_maximum_panels limits) (read_panel limits) ?P = Inr (ly_panels s, ?G)"
    using ok small(1)
    by (intro read_section_written) (auto simp: read_panel_written no_newline_records no_extension_records is_wspace_def)
  have G: "read_section ''GC'' (kl_maximum_groups limits) (read_group limits) ?G = Inr (ly_groups s, ?N)"
    using ok small(2)
    by (intro read_section_written) (auto simp: read_group_written no_newline_records no_extension_records is_wspace_def)
  have N: "read_section ''NC'' (kl_maximum_nodes limits) read_node ?N = Inr (ly_nodes s, ?F)"
    using ok small(3)
    by (intro read_section_written) (auto simp: read_node_written no_newline_records no_extension_records is_wspace_def)
  have F: "read_section ''FC'' (kl_maximum_floating_hosts limits) (read_floating limits) ?F = Inr (ly_floating_hosts s, ?A)"
    using ok small(4)
    by (intro read_section_written)
      (auto simp: read_floating_written no_newline_records no_extension_records is_wspace_def)
  have A: "read_section ''AC'' (kl_maximum_auto_hide limits) read_auto_hide ?A = Inr (ly_auto_hide s, [0x45] @ [0x0A])"
    using ok small(5)
    by (intro read_section_written)
      (auto simp: read_auto_hide_written no_newline_records no_extension_records is_wspace_def)
  have close: "ReadRecordLine ([0x45] @ [0x0A]) = Some ([0x45], [])"
    by (rule read_record_written) (simp_all add: extension_line_def)
  have active: "(if id_or_zero (ly_active_panel s) = 0 then None else Some (id_or_zero (ly_active_panel s)))
      = ly_active_panel s"
    using ok by (intro id_or_zero_back) simp
  have "trailer_ok []" by (subst trailer_ok.simps) (simp add: get_line_def)
  then have "read_layout limits (?root @ 0x0A # ?P) = Inr s"
    unfolding read_layout_def root
    by (simp only: root' P G N F A close active option.case sum.case split_conv bind.bind_lunit
        Let_def if_False simp_thms) simp
  then show ?thesis by (intro exI [of _ "?root @ 0x0A # ?P"]) (simp add: SerializeDockingSession_def)
qed

lemma parse_layout_written:
  assumes "DockLayoutModel_Validate s = Layout_success" "layout_fits limits s" "layout_writable s"
    and "Utf8Size api (SerializeDockingSession s) = Some n" "n \<le> kl_maximum_bytes limits"
  shows "ParseDockingSession api (SerializeDockingSession s) limits = (Docking_success, Some s)"
proof -
  let ?head = "docking_magic @ field (write_unsigned docking_session_schema_version)"
  obtain rest where rest: "SerializeDockingSession s = ?head @ 0x0A # rest" "read_layout limits rest = Inr s"
    using read_layout_written [OF assms(3,2,1)] by auto
  have "0x0A \<notin> set docking_magic" by (simp add: docking_magic_def)
  then have line: "get_line (SerializeDockingSession s) = Some (?head, rest)"
    unfolding rest(1) by (intro get_line_written) simp
  have "\<forall>c \<in> set docking_magic. \<not> is_wspace c" "docking_magic \<noteq> []"
    by (simp_all add: docking_magic_def is_wspace_def)
  then have "read_string ?head = Some (docking_magic, field (write_unsigned docking_session_schema_version))"
    by (intro read_string_written) simp_all
  then have "read_dock_header ?head = Some docking_session_schema_version"
    by (simp add: read_dock_header_def stream_simps)
  then show ?thesis using line rest(2) assms(1,4,5) by (simp add: ParseDockingSession_def)
qed

section \<open>Properties\<close>

text \<open>C17: A layout that fits is read back unchanged.  For every layout that \<open>Validate\<close> accepts, that keeps
  the limits, whose strings hold no line break and whose ratios and coordinates are binary64 values,
  parsing what \<open>SerializeDockingSession\<close> wrote succeeds and returns exactly this layout: every panel,
  group, node, floating host and auto-hide entry in its place.\<close>

theorem docking_session_round_trip:
  assumes "DockLayoutModel_Validate s = Layout_success" "layout_fits limits s" "layout_writable s"
    and "Utf8Size api (SerializeDockingSession s) = Some n" "n \<le> kl_maximum_bytes limits"
  shows "ParseDockingSession api (SerializeDockingSession s) limits = (Docking_success, Some s)"
  by (rule parse_layout_written [OF assms])

text \<open>A layout with one panel, used by the concrete check.\<close>

definition single_layout :: DockLayoutSnapshot where
  "single_layout = \<lparr>ly_main_root = 3,
     ly_panels = [\<lparr>dp_id = 10, dp_title = lit ''a b'', dp_role = Panel_document, dp_closable = True\<rparr>],
     ly_groups = [\<lparr>dg_id = 1, dg_role = Group_document, dg_panels = [10], dg_active = Some 10\<rparr>],
     ly_nodes = [\<lparr>dn_id = 3, dn_kind = Node_group, dn_group = 1, dn_orientation = Split_vertical, dn_first = 0,
       dn_second = 0, dn_ratio = Fin (1 / 2)\<rparr>],
     ly_floating_hosts = [], ly_auto_hide = [], ly_active_panel = Some 10\<rparr>"

lemma single_layout_valid: "DockLayoutModel_Validate single_layout = Layout_success"
  by code_simp

definition example_dock_limits :: DockingSessionLimits where
  "example_dock_limits = \<lparr>kl_maximum_bytes = 1000, kl_maximum_panels = 8, kl_maximum_groups = 8,
     kl_maximum_nodes = 8, kl_maximum_floating_hosts = 8, kl_maximum_auto_hide = 8, kl_maximum_string_units = 8\<rparr>"

lemma write_half: "write_double (Fin (1 / 2)) = [0x30, 0x2E, 0x35]"
proof -
  have "to_wstring 50000000000000000 = [0x35, 0x30, 0x30, 0x30, 0x30, 0x30, 0x30, 0x30, 0x30, 0x30, 0x30, 0x30, 0x30, 0x30, 0x30, 0x30, 0x30]"
    by (simp add: to_wstring_code digits_of.simps)
  moreover have "quotient_of (1 / 2) = (1, 2)" by code_simp
  then have "dec_exponent (1 / 2) = - 1"
    by (simp add: dec_exponent_def dec_length_def pow10_def digits_of.simps)
  then have "dec_digits (1 / 2) = (- 1, 50000000000000000)"
    using round_int [of "50000000000000000"] by (simp add: dec_digits_def pow10_def)
  ultimately show ?thesis by (simp add: write_positive_def strip_zeros_def with_point_def)
qed

lemma single_layout_text:
  "(\<forall>c \<in> set (SerializeDockingSession single_layout). \<not> 0x80 \<le> c)
    \<and> length (SerializeDockingSession single_layout) \<le> 300"
  by (simp add: SerializeDockingSession_def single_layout_def write_section_def write_panel_def write_group_def
      write_node_def write_ids_def id_or_zero_def panel_role_code_def group_role_code_def node_kind_code_def
      orientation_code_def write_quoted_def write_half write_unsigned_def write_bool_def docking_magic_def
      docking_session_schema_version_def to_wstring_code digits_of.simps del: write_double.simps)

theorem docking_session_round_trip_witness:
  "ParseDockingSession memory_api (SerializeDockingSession single_layout) example_dock_limits
    = (Docking_success, Some single_layout)"
proof -
  have half: "dbl (1 / 2) = Fin (1 / 2)"
    using dbl_exact [of 1 "- 1"] pow2_mono [of 0 1024] by (simp add: pow2_def)
  have fits: "layout_fits example_dock_limits single_layout"
    by (simp add: layout_fits_def single_layout_def example_dock_limits_def)
  have writable: "layout_writable single_layout"
    using half by (auto simp: layout_writable_def single_layout_def double_value_def intro!: exI [of _ "1 / 2"])
  let ?n = "length (SerializeDockingSession single_layout)"
  have "SerializeDockingSession single_layout \<noteq> []" by (simp add: SerializeDockingSession_def docking_magic_def)
  then have size: "Utf8Size memory_api (SerializeDockingSession single_layout) = Some ?n"
    using single_layout_text by (auto simp: Utf8Size_def memory_api_def maximum_int_def)
  have "?n \<le> kl_maximum_bytes example_dock_limits" using single_layout_text by (simp add: example_dock_limits_def)
  from docking_session_round_trip [OF single_layout_valid fits writable size this] show ?thesis .
qed

text \<open>Loading cannot bring a broken layout into the program.  Whatever text is parsed, success comes
  with a layout that \<open>Validate\<close> accepts, so its nodes form one forest below the main and floating
  roots, every group and every panel is placed exactly once, the roles match and the selections exist;
  every other status comes without a layout.\<close>

theorem parsed_layout_is_forest:
  "case ParseDockingSession api s limits of (status, r) \<Rightarrow>
     if status = Docking_success
     then \<exists>x. r = Some x \<and> DockLayoutModel_Validate x = Layout_success \<and> layout_ok x
     else r = None"
proof -
  have failed: "read_layout limits t \<noteq> Inl Docking_success" for t
    unfolding read_layout_def
    by (auto simp: read_section_def read_count_def split: option.splits sum.splits prod.splits if_splits)
  have graph: "GraphStatus g = Docking_success \<longleftrightarrow> g = Layout_success" for g
    by (cases g) (simp_all add: GraphStatus_def)
  show ?thesis
    using valid_layout_ok
    by (auto simp: ParseDockingSession_def Let_def graph failed split: option.splits sum.splits)
qed

end
