(* ===== verification/Checked_Int.thy ===== *)
theory Checked_Int
  imports Prelude "HOL-Library.Monad_Syntax"
begin

text \<open>
  Signed machine arithmetic.  Overflow of a signed addition, subtraction, negation or product is
  undefined in C++: the exact result goes through \<open>i64\<close> or \<open>i32\<close>, and \<open>None\<close> stands for the
  undefined behaviour.  A theorem that an operation returns \<open>Some\<close> therefore shows that no
  overflow happens in it.
\<close>

definition in_i64 :: "int \<Rightarrow> bool" where
  "in_i64 n \<longleftrightarrow> - (2 ^ 63) \<le> n \<and> n < 2 ^ 63"

definition in_i32 :: "int \<Rightarrow> bool" where
  "in_i32 n \<longleftrightarrow> - (2 ^ 31) \<le> n \<and> n < 2 ^ 31"

definition i64 :: "int \<Rightarrow> int option" where
  "i64 n = (if in_i64 n then Some n else None)"

definition i32 :: "int \<Rightarrow> int option" where
  "i32 n = (if in_i32 n then Some n else None)"

lemma i64_Some [simp]: "in_i64 n \<Longrightarrow> i64 n = Some n"
  by (simp add: i64_def)

lemma i32_Some [simp]: "in_i32 n \<Longrightarrow> i32 n = Some n"
  by (simp add: i32_def)

lemma i64_None: "i64 n = None \<longleftrightarrow> \<not> in_i64 n"
  by (simp add: i64_def)

lemma i64_eq_Some: "i64 n = Some m \<longleftrightarrow> in_i64 n \<and> m = n"
  by (auto simp: i64_def)

lemma i32_eq_Some: "i32 n = Some m \<longleftrightarrow> in_i32 n \<and> m = n"
  by (auto simp: i32_def)

lemma in_i64_between: "in_i64 b \<Longrightarrow> 0 \<le> a \<Longrightarrow> a \<le> b \<Longrightarrow> in_i64 a"
  by (simp add: in_i64_def)

text \<open>\<open>static_cast<ptrdiff_t>\<close> of a \<open>size_t\<close> that is at most \<open>2 ^ 63 - 1\<close> keeps its value.\<close>

lemma sint_small: "unat (w :: u64) < 2 ^ 63 \<Longrightarrow> sint w = int (unat w)"
proof -
  assume small: "unat w < 2 ^ 63"
  have "int (unat w) < 2 ^ 63" using small by (metis of_nat_less_iff of_nat_numeral of_nat_power)
  then have "signed_take_bit 63 (int (unat w)) = int (unat w)"
    by (intro signed_take_bit_int_eq_self) (rule order_trans [of _ 0], simp_all)
  then show ?thesis by (simp add: sint_uint flip: uint_nat)
qed

end
