(* ===== verification/Printing.thy ===== *)
theory Printing
  imports Checked_Int Floating
begin

text \<open>
  The device-independent half of printing (\<open>printing.h\<close>, \<open>printing.cpp\<close>): page geometry in
  micrometres, pagination, page ranges and the preview model.  Offsets are \<open>int64_t\<close> and go through
  \<open>i64\<close>; page counts of the preview are \<open>size_t\<close> words, as \<open>MoveBy\<close> casts them to \<open>ptrdiff_t\<close>.
\<close>

section \<open>Page geometry\<close>

record PrintExtentMicrons =
  extent_width :: int
  extent_height :: int

record PrintMarginsMicrons =
  margin_left :: int
  margin_top :: int
  margin_right :: int
  margin_bottom :: int

record PrintLayout =
  layout_paper :: PrintExtentMicrons
  layout_margins :: PrintMarginsMicrons

definition PrintExtent_IsValid :: "PrintExtentMicrons \<Rightarrow> bool" where
  "PrintExtent_IsValid e \<longleftrightarrow> 0 < extent_width e \<and> 0 < extent_height e"

definition PrintMargins_IsValid :: "PrintMarginsMicrons \<Rightarrow> bool" where
  "PrintMargins_IsValid m \<longleftrightarrow>
    0 \<le> margin_left m \<and> 0 \<le> margin_top m \<and> 0 \<le> margin_right m \<and> 0 \<le> margin_bottom m"

definition PrintLayout_IsValid :: "PrintLayout \<Rightarrow> bool option" where
  "PrintLayout_IsValid l =
    (let p = layout_paper l; m = layout_margins l
     in if \<not> PrintExtent_IsValid p \<or> \<not> PrintMargins_IsValid m then Some False
        else do {
          across \<leftarrow> i64 (margin_left m + margin_right m);
          if \<not> across < extent_width p then Some False
          else do {
            down \<leftarrow> i64 (margin_top m + margin_bottom m);
            Some (down < extent_height p)
          }
        })"

definition PrintLayout_ContentExtent :: "PrintLayout \<Rightarrow> PrintExtentMicrons option" where
  "PrintLayout_ContentExtent l = do {
    valid \<leftarrow> PrintLayout_IsValid l;
    if valid then do {
      let p = layout_paper l;
      let m = layout_margins l;
      a \<leftarrow> i64 (extent_width p - margin_left m);
      w \<leftarrow> i64 (a - margin_right m);
      b \<leftarrow> i64 (extent_height p - margin_top m);
      h \<leftarrow> i64 (b - margin_bottom m);
      Some \<lparr>extent_width = w, extent_height = h\<rparr>
    } else Some \<lparr>extent_width = 0, extent_height = 0\<rparr>
  }"

section \<open>Pagination\<close>

record PrintPage =
  page_id :: u64
  page_index :: nat
  content_begin :: int
  content_end :: int

definition size_max :: int where
  "size_max = 2 ^ 64 - 1"

definition page_at :: "int \<Rightarrow> int \<Rightarrow> int \<Rightarrow> PrintPage option" where
  "page_at content_length units_per_page index = do {
    start \<leftarrow> i64 (index * units_per_page);
    stop \<leftarrow> i64 (start + units_per_page);
    Some \<lparr>page_id = of_int (index + 1), page_index = nat index, content_begin = start,
      content_end = min content_length stop\<rparr>
  }"

fun paginate_from :: "int \<Rightarrow> int \<Rightarrow> nat \<Rightarrow> int \<Rightarrow> PrintPage list option" where
  "paginate_from c u 0 index = Some []"
| "paginate_from c u (Suc n) index = do {
    page \<leftarrow> page_at c u index;
    pages \<leftarrow> paginate_from c u n (index + 1);
    Some (page # pages)
  }"

definition page_count_of :: "int \<Rightarrow> int \<Rightarrow> int" where
  "page_count_of content_length units_per_page = 1 + (content_length - 1) div units_per_page"

definition PaginateContent :: "int \<Rightarrow> int \<Rightarrow> PrintPage list option" where
  "PaginateContent content_length units_per_page =
    (if content_length \<le> 0 \<or> units_per_page \<le> 0 then Some []
     else let n = page_count_of content_length units_per_page
       in if size_max < n then Some []
          else paginate_from content_length units_per_page (nat n) 0)"

record PrintPageRange =
  range_first :: nat
  range_last :: nat

definition PrintPageRange_IsValidFor :: "nat \<Rightarrow> PrintPageRange \<Rightarrow> bool" where
  "PrintPageRange_IsValidFor page_count r \<longleftrightarrow>
    0 < page_count \<and> range_first r \<le> range_last r \<and> range_last r < page_count"

section \<open>Preview\<close>

datatype PrintPreviewScaleMode = Scale_custom | Scale_fit_page | Scale_fit_width

record PrintPreviewModel =
  preview_count :: u64
  preview_selected :: u64
  preview_zoom :: fp
  preview_mode :: PrintPreviewScaleMode

definition PrintPreviewModel_new :: PrintPreviewModel where
  "PrintPreviewModel_new = \<lparr>preview_count = 0, preview_selected = 0, preview_zoom = Fin 1,
    preview_mode = Scale_fit_page\<rparr>"

definition PrintPreview_SetPageCount :: "u64 \<Rightarrow> PrintPreviewModel \<Rightarrow> PrintPreviewModel" where
  "PrintPreview_SetPageCount n m =
    (let m1 = m\<lparr>preview_count := n\<rparr>
     in if n = 0 then m1\<lparr>preview_selected := 0\<rparr>
        else if n \<le> preview_selected m1 then m1\<lparr>preview_selected := n - 1\<rparr> else m1)"

definition PrintPreview_SelectPage :: "u64 \<Rightarrow> PrintPreviewModel \<Rightarrow> bool \<times> PrintPreviewModel" where
  "PrintPreview_SelectPage index m =
    (if preview_count m \<le> index then (False, m) else (True, m\<lparr>preview_selected := index\<rparr>))"

definition move_target :: "int \<Rightarrow> int \<Rightarrow> int \<Rightarrow> int option" where
  "move_target delta current maximum = do {
    past_end \<leftarrow> (if 0 < delta
      then do { room \<leftarrow> i64 (maximum - current); Some (room < delta) } else Some False);
    if past_end then Some maximum
    else do {
      before_start \<leftarrow> (if delta < 0
        then do { room \<leftarrow> i64 (- current); Some (delta < room) } else Some False);
      if before_start then Some 0 else i64 (current + delta)
    }
  }"

definition PrintPreview_MoveBy ::
  "int \<Rightarrow> PrintPreviewModel \<Rightarrow> (bool \<times> PrintPreviewModel) option" where
  "PrintPreview_MoveBy delta m =
    (if preview_count m = 0 then Some (False, m)
     else let current = sint (preview_selected m); maximum = sint (preview_count m - 1)
       in do {
         target \<leftarrow> move_target delta current maximum;
         Some (if target = current then (False, m)
               else (True, m\<lparr>preview_selected := of_int target\<rparr>))
       })"

text \<open>The literal \<open>0.05\<close> as a binary64 value.\<close>

definition dbl_0_05 :: fp where
  "dbl_0_05 = Fin (3602879701896397 / 72057594037927936)"

definition PrintPreview_SetZoom :: "fp \<Rightarrow> PrintPreviewModel \<Rightarrow> bool \<times> PrintPreviewModel" where
  "PrintPreview_SetZoom zoom m =
    (if \<not> isfinite zoom \<or> fp_less zoom dbl_0_05 \<or> fp_less (Fin 16) zoom then (False, m)
     else (True, m\<lparr>preview_zoom := zoom, preview_mode := Scale_custom\<rparr>))"

definition PrintPreview_SetScaleMode ::
  "PrintPreviewScaleMode \<Rightarrow> PrintPreviewModel \<Rightarrow> PrintPreviewModel" where
  "PrintPreview_SetScaleMode mode m = m\<lparr>preview_mode := mode\<rparr>"

datatype preview_call =
    Call_SetPageCount u64
  | Call_SelectPage u64
  | Call_MoveBy int
  | Call_SetZoom fp
  | Call_SetScaleMode PrintPreviewScaleMode

fun preview_call_step :: "preview_call \<Rightarrow> PrintPreviewModel \<Rightarrow> PrintPreviewModel option" where
  "preview_call_step (Call_SetPageCount n) m = Some (PrintPreview_SetPageCount n m)"
| "preview_call_step (Call_SelectPage i) m = Some (snd (PrintPreview_SelectPage i m))"
| "preview_call_step (Call_MoveBy d) m = map_option snd (PrintPreview_MoveBy d m)"
| "preview_call_step (Call_SetZoom z) m = Some (snd (PrintPreview_SetZoom z m))"
| "preview_call_step (Call_SetScaleMode s) m = Some (PrintPreview_SetScaleMode s m)"

fun preview_calls :: "preview_call list \<Rightarrow> PrintPreviewModel \<Rightarrow> PrintPreviewModel option" where
  "preview_calls [] m = Some m"
| "preview_calls (x # xs) m = do { m' \<leftarrow> preview_call_step x m; preview_calls xs m' }"

section \<open>Printable area\<close>

lemma content_extent_inside:
  assumes "PrintLayout_ContentExtent l = Some e" and "PrintLayout_IsValid l = Some True"
  shows "PrintExtent_IsValid e"
    and "extent_width e + margin_left (layout_margins l) + margin_right (layout_margins l)
      = extent_width (layout_paper l)"
    and "extent_height e + margin_top (layout_margins l) + margin_bottom (layout_margins l)
      = extent_height (layout_paper l)"
  using assms
  by (auto simp: PrintLayout_ContentExtent_def PrintLayout_IsValid_def PrintExtent_IsValid_def
      Let_def bind_eq_Some_conv i64_eq_Some split: if_splits)

section \<open>Pages partition the content\<close>

definition plain_page :: "int \<Rightarrow> int \<Rightarrow> nat \<Rightarrow> PrintPage" where
  "plain_page c u i = \<lparr>page_id = of_nat (Suc i), page_index = i, content_begin = int i * u,
    content_end = min c (int (Suc i) * u)\<rparr>"

lemma page_at_plain:
  assumes "0 < u" and "int (Suc i) * u < 2 ^ 63"
  shows "page_at c u (int i) = Some (plain_page c u i)"
proof -
  have "0 \<le> int i * u" "int i * u + u = int (Suc i) * u"
    using assms(1) by (simp_all add: algebra_simps)
  with assms have "in_i64 (int i * u)" "in_i64 (int i * u + u)"
    unfolding in_i64_def by linarith+
  then show ?thesis by (simp add: page_at_def plain_page_def algebra_simps)
qed

lemma paginate_from_plain:
  assumes "0 < u"
  shows "int (i + n) * u < 2 ^ 63 \<Longrightarrow>
    paginate_from c u n (int i) = Some (map (plain_page c u) [i ..< i + n])"
proof (induction n arbitrary: i)
  case 0
  then show ?case by simp
next
  case (Suc n)
  have "int (Suc i) * u \<le> int (i + Suc n) * u"
    using assms by (intro mult_right_mono) auto
  with Suc.prems have "page_at c u (int i) = Some (plain_page c u i)"
    by (intro page_at_plain [OF assms]) linarith
  moreover have "paginate_from c u n (int (Suc i)) = Some (map (plain_page c u) [Suc i ..< Suc i + n])"
    using Suc.prems by (intro Suc.IH) simp
  moreover have "[i ..< i + Suc n] = i # [Suc i ..< Suc i + n]"
    by (simp only: add_Suc add_Suc_right) (simp add: upt_conv_Cons del: upt_Suc)
  ultimately show ?case by (simp add: add.commute del: upt_Suc)
qed

lemma paginate_from_overflow:
  assumes "0 < u"
  shows "0 < n \<Longrightarrow> 2 ^ 63 \<le> int (i + n) * u \<Longrightarrow> paginate_from c u n (int i) = None"
proof (induction n arbitrary: i)
  case 0
  then show ?case by simp
next
  case (Suc n)
  show ?case
  proof (cases "page_at c u (int i)")
    case None
    then show ?thesis by simp
  next
    case (Some p)
    then have "int (Suc i) * u < 2 ^ 63"
      by (auto simp: page_at_def bind_eq_Some_conv i64_eq_Some in_i64_def algebra_simps)
    with Suc.prems(2) have "n \<noteq> 0" by (metis add_Suc_right not_le add_0_right)
    then have "paginate_from c u n (int (Suc i)) = None"
      using Suc.prems(2) by (intro Suc.IH) simp_all
    then show ?thesis by (simp add: Some add.commute)
  qed
qed

lemma page_count_bounds:
  assumes "0 < c" and "0 < u"
  shows "0 < page_count_of c u" and "(page_count_of c u - 1) * u < c" and "c \<le> page_count_of c u * u"
    and "page_count_of c u \<le> c"
proof -
  let ?q = "(c - 1) div u"
  have "?q * u + (c - 1) mod u = c - 1" by simp
  then have q: "?q * u \<le> c - 1" "c - 1 < ?q * u + u"
    using pos_mod_bound [OF assms(2), of "c - 1"] pos_mod_sign [OF assms(2), of "c - 1"]
    by linarith+
  have "0 \<le> ?q" using assms by (simp add: pos_imp_zdiv_nonneg_iff)
  moreover have "?q \<le> c - 1" using assms zdiv_mono2 [of "c - 1" 1 u] by simp
  ultimately show "0 < page_count_of c u" "(page_count_of c u - 1) * u < c"
    "c \<le> page_count_of c u * u" "page_count_of c u \<le> c"
    using q by (simp_all add: page_count_of_def algebra_simps)
qed

lemma paginate_defined:
  assumes "0 < c" and "0 < u" and "c < 2 ^ 63" and "page_count_of c u * u < 2 ^ 63"
  shows "PaginateContent c u = Some (map (plain_page c u) [0 ..< nat (page_count_of c u)])"
proof -
  have n: "0 < page_count_of c u" "page_count_of c u \<le> c"
    using page_count_bounds [OF assms(1,2)] by simp_all
  then have "page_count_of c u \<le> size_max" using assms(3) by (simp add: size_max_def)
  with assms n paginate_from_plain [OF assms(2), of 0 "nat (page_count_of c u)" c]
  show ?thesis by (simp add: PaginateContent_def Let_def)
qed

lemma paginate_undefined:
  assumes "0 < c" and "0 < u" and "c < 2 ^ 63" and "2 ^ 63 \<le> page_count_of c u * u"
  shows "PaginateContent c u = None"
proof -
  have n: "0 < page_count_of c u" "page_count_of c u \<le> c"
    using page_count_bounds [OF assms(1,2)] by simp_all
  then have "page_count_of c u \<le> size_max" using assms(3) by (simp add: size_max_def)
  with assms n paginate_from_overflow [OF assms(2), of "nat (page_count_of c u)" 0 c]
  show ?thesis by (simp add: PaginateContent_def Let_def)
qed

lemma pages_cover:
  assumes "0 < u"
  shows "0 < n \<Longrightarrow> int (n - 1) * u < c \<Longrightarrow>
    concat (map (\<lambda>i. [int i * u .. min c (int (Suc i) * u) - 1]) [0 ..< n])
      = [0 .. min c (int n * u) - 1]"
proof (induction n)
  case 0
  then show ?case by simp
next
  case (Suc n)
  show ?case
  proof (cases n)
    case 0
    then show ?thesis by simp
  next
    case (Suc m)
    have le: "int m * u \<le> int n * u" using assms Suc by (intro mult_right_mono) auto
    have below: "int n * u < c" using Suc.prems by simp
    have "concat (map (\<lambda>i. [int i * u .. min c (int (Suc i) * u) - 1]) [0 ..< n])
      = [0 .. int n * u - 1]"
      using Suc.IH Suc le below by simp
    moreover have "[0 .. int n * u - 1] @ [int n * u .. min c (int (Suc n) * u) - 1]
      = [0 .. min c (int (Suc n) * u) - 1]"
      using assms below by (intro upto_split1 [symmetric]) (simp_all add: algebra_simps)
    ultimately show ?thesis by simp
  qed
qed

text \<open>Pagination partitions the content.  When the end of the last page is representable,
  \<open>PaginateContent\<close> returns consecutively numbered pages whose ranges, in order, list every unit of
  the content exactly once; every page but the last is full.\<close>

theorem pages_partition_content:
  assumes "0 < c" and "c < 2 ^ 63" and "0 < u" and "page_count_of c u * u < 2 ^ 63"
  shows "\<exists>pages. PaginateContent c u = Some pages \<and>
    map page_index pages = [0 ..< length pages] \<and>
    map page_id pages = map (\<lambda>i. of_nat (Suc i)) [0 ..< length pages] \<and>
    concat (map (\<lambda>p. [content_begin p .. content_end p - 1]) pages) = [0 .. c - 1] \<and>
    (\<forall>p \<in> set (butlast pages). content_end p = content_begin p + u)"
proof -
  let ?n = "nat (page_count_of c u)"
  note n = page_count_bounds [OF assms(1,3)]
  have last: "int (?n - 1) * u < c" "0 < ?n" using n by (simp_all add: nat_diff_distrib of_nat_diff)
  have full: "int (Suc i) * u \<le> c" if "i < ?n - 1" for i
  proof -
    have "int (Suc i) * u \<le> int (?n - 1) * u" using that assms(3) by (intro mult_right_mono) auto
    with last show ?thesis by linarith
  qed
  have "concat (map (\<lambda>p. [content_begin p .. content_end p - 1]) (map (plain_page c u) [0 ..< ?n]))
    = [0 .. c - 1]"
    using pages_cover [OF assms(3) last(2,1)] n by (simp add: plain_page_def comp_def min_absorb1)
  moreover have "butlast (map (plain_page c u) [0 ..< ?n]) = map (plain_page c u) [0 ..< ?n - 1]"
    by (cases "?n") (simp_all add: map_butlast [symmetric])
  ultimately show ?thesis
    using paginate_defined [OF assms(1,3,2,4)] full
    by (auto simp: plain_page_def comp_def min_absorb2 algebra_simps)
qed

theorem pages_partition_content_witness:
  "\<exists>pages. PaginateContent 250 100 = Some pages \<and>
    map page_index pages = [0 ..< length pages] \<and>
    map page_id pages = map (\<lambda>i. of_nat (Suc i)) [0 ..< length pages] \<and>
    concat (map (\<lambda>p. [content_begin p .. content_end p - 1]) pages) = [0 .. 249] \<and>
    (\<forall>p \<in> set (butlast pages). content_end p = content_begin p + 100)"
  using pages_partition_content [of 250 100] by (simp add: page_count_of_def)

text \<open>The end of the last page is computed before it is cut to the content: for representable
  arguments \<open>PaginateContent\<close> runs into signed overflow exactly when the full last page would end
  beyond \<open>INT64_MAX\<close>, even though the content itself ends before.\<close>

theorem pagination_overflows_exactly:
  assumes "in_i64 c" and "in_i64 u"
  shows "PaginateContent c u = None \<longleftrightarrow> 0 < c \<and> 0 < u \<and> 2 ^ 63 \<le> page_count_of c u * u"
  using assms paginate_defined [of c u] paginate_undefined [of c u]
  by (cases "0 < c \<and> 0 < u"; cases "2 ^ 63 \<le> page_count_of c u * u")
    (auto simp: in_i64_def PaginateContent_def not_less)

theorem pagination_overflows_exactly_witness:
  "PaginateContent (2 ^ 63 - 1) (2 ^ 63 - 2) = None"
  using pagination_overflows_exactly [of "2 ^ 63 - 1" "2 ^ 63 - 2"]
  by (simp add: in_i64_def page_count_of_def)

section \<open>The preview stays on a page\<close>

definition preview_ok :: "PrintPreviewModel \<Rightarrow> bool" where
  "preview_ok m \<longleftrightarrow> unat (preview_count m) \<le> 2 ^ 63 \<and>
    (if preview_count m = 0 then preview_selected m = 0
     else preview_selected m < preview_count m) \<and>
    (\<exists>z. preview_zoom m = Fin z \<and> 3602879701896397 / 72057594037927936 \<le> z \<and> z \<le> 16)"

lemma preview_ok_selected:
  assumes "preview_ok m" and "preview_count m \<noteq> 0"
  shows "sint (preview_selected m) = int (unat (preview_selected m))"
    and "sint (preview_count m - 1) = int (unat (preview_count m)) - 1"
    and "unat (preview_selected m) < unat (preview_count m)"
    and "unat (preview_count m) \<le> 2 ^ 63"
proof -
  show less: "unat (preview_selected m) < unat (preview_count m)"
    and le: "unat (preview_count m) \<le> 2 ^ 63"
    using assms by (simp_all add: preview_ok_def word_less_nat_alt)
  then show "sint (preview_selected m) = int (unat (preview_selected m))"
    by (intro sint_small) linarith
  have pred: "unat (preview_count m - 1) = unat (preview_count m) - 1"
    using assms(2) by (rule unat_minus_one)
  have "sint (preview_count m - 1) = int (unat (preview_count m - 1))"
    using less le pred by (intro sint_small) linarith
  with pred less show "sint (preview_count m - 1) = int (unat (preview_count m)) - 1"
    by simp
qed

lemma preview_ok_ints:
  assumes "preview_ok m" and "preview_count m \<noteq> 0"
  shows "0 \<le> int (unat (preview_selected m))"
    and "int (unat (preview_selected m)) \<le> int (unat (preview_count m)) - 1"
    and "int (unat (preview_count m)) - 1 < 2 ^ 63"
proof -
  note s = preview_ok_selected(3,4) [OF assms]
  have "int (unat (preview_count m)) \<le> int (2 ^ 63)" using s(2) by (simp only: of_nat_le_iff)
  then show "int (unat (preview_count m)) - 1 < 2 ^ 63" by simp
  have "int (unat (preview_selected m)) < int (unat (preview_count m))"
    using s(1) by (simp only: of_nat_less_iff)
  then show "int (unat (preview_selected m)) \<le> int (unat (preview_count m)) - 1" by linarith
qed (rule of_nat_0_le_iff)

lemma move_target_clamps:
  assumes "0 \<le> current" and "current \<le> maximum" and "maximum < 2 ^ 63" and "in_i64 delta"
  shows "move_target delta current maximum = Some (max 0 (min maximum (current + delta)))"
proof -
  have "in_i64 (maximum - current)" "in_i64 (- current)" "in_i64 maximum"
    using assms by (simp_all add: in_i64_def)
  moreover have "in_i64 (current + delta)" if "delta \<le> maximum - current" "- current \<le> delta"
    using that assms by (simp add: in_i64_def)
  ultimately show ?thesis using assms(1,2) by (auto simp: move_target_def)
qed

lemma MoveBy_clamps:
  assumes "preview_ok m" and "preview_count m \<noteq> 0" and "in_i64 d"
  defines "goal \<equiv> max 0 (min (int (unat (preview_count m)) - 1) (int (unat (preview_selected m)) + d))"
  shows "PrintPreview_MoveBy d m = Some (goal \<noteq> int (unat (preview_selected m)),
    m\<lparr>preview_selected := of_int goal\<rparr>)"
proof -
  note s = preview_ok_selected [OF assms(1,2)]
  have "move_target d (int (unat (preview_selected m))) (int (unat (preview_count m)) - 1) = Some goal"
    unfolding goal_def using preview_ok_ints [OF assms(1,2)] assms(3)
    by (intro move_target_clamps) linarith+
  with assms(2) s(1,2) show ?thesis by (auto simp: PrintPreview_MoveBy_def Let_def)
qed

lemma SetPageCount_ok [preserves]:
  assumes "preview_ok m" and "unat n \<le> 2 ^ 63"
  shows "preview_ok (PrintPreview_SetPageCount n m)"
proof (cases "n = 0")
  case True
  with assms show ?thesis by (simp add: preview_ok_def PrintPreview_SetPageCount_def)
next
  case False
  then have "n - 1 < n" by (metis word_less_nat_alt unat_minus_one diff_less unat_eq_0 zero_less_one
        gr0I)
  with False assms show ?thesis
    by (simp add: preview_ok_def PrintPreview_SetPageCount_def Let_def not_le)
qed

lemma SelectPage_ok [preserves]: "preview_ok m \<Longrightarrow> preview_ok (snd (PrintPreview_SelectPage i m))"
  by (auto simp: preview_ok_def PrintPreview_SelectPage_def)

lemma SetZoom_ok [preserves]: "preview_ok m \<Longrightarrow> preview_ok (snd (PrintPreview_SetZoom z m))"
  by (cases z) (auto simp: preview_ok_def PrintPreview_SetZoom_def dbl_0_05_def)

lemma MoveBy_ok [preserves]:
  assumes "preview_ok m" and "in_i64 d"
  shows "\<exists>r m'. PrintPreview_MoveBy d m = Some (r, m') \<and> preview_ok m'"
proof (cases "preview_count m = 0")
  case True
  with assms show ?thesis by (auto simp: PrintPreview_MoveBy_def)
next
  case False
  let ?g = "max 0 (min (int (unat (preview_count m)) - 1) (int (unat (preview_selected m)) + d))"
  note s = preview_ok_ints [OF assms(1) False]
  have g: "0 \<le> ?g" "?g < int (unat (preview_count m))" using s by linarith+
  then have "nat ?g < unat (preview_count m)" by linarith
  then have "unat (of_nat (nat ?g) :: u64) = nat ?g"
    by (intro of_nat_inverse [OF refl]) (rule less_trans [OF _ unsigned_less])
  then have "(of_nat (nat ?g) :: u64) < preview_count m"
    using \<open>nat ?g < unat (preview_count m)\<close> by (simp only: word_less_nat_alt)
  then have "(of_int ?g :: u64) < preview_count m" using g(1) by (simp only: of_nat_nat)
  with MoveBy_clamps [OF assms(1) False assms(2)] assms(1) False show ?thesis
    by (simp only:) (simp add: preview_ok_def)
qed

fun call_in_range :: "preview_call \<Rightarrow> bool" where
  "call_in_range (Call_SetPageCount n) = (unat n \<le> 2 ^ 63)"
| "call_in_range (Call_MoveBy d) = in_i64 d"
| "call_in_range _ = True"

lemma preview_call_ok:
  assumes "preview_ok m" and "call_in_range x"
  shows "\<exists>m'. preview_call_step x m = Some m' \<and> preview_ok m'"
proof (cases x)
  case (Call_MoveBy d)
  with assms MoveBy_ok [of m d] show ?thesis by auto
next
  case (Call_SetScaleMode s)
  with assms show ?thesis by (simp add: PrintPreview_SetScaleMode_def preview_ok_def)
qed (use assms in \<open>simp_all add: preserves\<close>)

lemma preview_calls_ok:
  "preview_ok m \<Longrightarrow> list_all call_in_range xs \<Longrightarrow>
    \<exists>m'. preview_calls xs m = Some m' \<and> preview_ok m'"
proof (induction xs arbitrary: m)
  case Nil
  then show ?case by simp
next
  case (Cons x xs)
  then obtain m1 where "preview_call_step x m = Some m1" "preview_ok m1"
    using preview_call_ok [of m x] by auto
  with Cons show ?case by simp
qed

text \<open>However the preview is driven, as long as page counts do not exceed \<open>2 ^ 63\<close>, no operation
  overflows, the selected page exists (or is 0 in an empty document) and the zoom is between 5% and
  1600%.\<close>

theorem preview_stays_on_a_page:
  "list_all call_in_range xs \<Longrightarrow>
    \<exists>m. preview_calls xs PrintPreviewModel_new = Some m \<and> preview_ok m"
  by (rule preview_calls_ok) (simp add: preview_ok_def PrintPreviewModel_new_def)

theorem preview_stays_on_a_page_witness:
  "\<exists>m. preview_calls [Call_SetPageCount 5, Call_MoveBy (- 9), Call_MoveBy 3, Call_SetPageCount 2]
     PrintPreviewModel_new = Some m \<and> preview_ok m"
  by (rule preview_stays_on_a_page) (simp add: in_i64_def)

end
