(* ===== verification/Print_Transaction.thy ===== *)
theory Print_Transaction
  imports Printing
begin

text \<open>
  \<open>PrintTransactionModel\<close> (\<open>printing.h\<close>, \<open>printing.cpp\<close>), the state machine of a print job, and the
  transition relation it implements.
\<close>

datatype PrintTransactionState =
    Print_idle | Print_document | Print_page | Print_completed | Print_aborted | Print_failed

record PrintTransactionModel =
  transaction_state :: PrintTransactionState
  completed_pages :: u64

definition PrintTransactionModel_new :: PrintTransactionModel where
  "PrintTransactionModel_new = \<lparr>transaction_state = Print_idle, completed_pages = 0\<rparr>"

definition Transaction_BeginDocument :: "PrintTransactionModel \<Rightarrow> bool \<times> PrintTransactionModel" where
  "Transaction_BeginDocument t =
    (if transaction_state t \<noteq> Print_idle then (False, t)
     else (True, t\<lparr>transaction_state := Print_document\<rparr>))"

definition Transaction_BeginPage :: "PrintTransactionModel \<Rightarrow> bool \<times> PrintTransactionModel" where
  "Transaction_BeginPage t =
    (if transaction_state t \<noteq> Print_document then (False, t)
     else (True, t\<lparr>transaction_state := Print_page\<rparr>))"

definition Transaction_EndPage :: "PrintTransactionModel \<Rightarrow> bool \<times> PrintTransactionModel" where
  "Transaction_EndPage t =
    (if transaction_state t \<noteq> Print_page then (False, t)
     else (True, t\<lparr>completed_pages := completed_pages t + 1,
       transaction_state := Print_document\<rparr>))"

definition Transaction_Complete :: "PrintTransactionModel \<Rightarrow> bool \<times> PrintTransactionModel" where
  "Transaction_Complete t =
    (if transaction_state t \<noteq> Print_document then (False, t)
     else (True, t\<lparr>transaction_state := Print_completed\<rparr>))"

definition Transaction_Abort :: "PrintTransactionModel \<Rightarrow> bool \<times> PrintTransactionModel" where
  "Transaction_Abort t =
    (if transaction_state t \<noteq> Print_document \<and> transaction_state t \<noteq> Print_page then (False, t)
     else (True, t\<lparr>transaction_state := Print_aborted\<rparr>))"

definition Transaction_Fail :: "PrintTransactionModel \<Rightarrow> PrintTransactionModel" where
  "Transaction_Fail t =
    (if transaction_state t = Print_idle \<or> transaction_state t = Print_document \<or>
        transaction_state t = Print_page
     then t\<lparr>transaction_state := Print_failed\<rparr> else t)"

lemmas transaction_defs = Transaction_BeginDocument_def Transaction_BeginPage_def
  Transaction_EndPage_def Transaction_Complete_def Transaction_Abort_def Transaction_Fail_def

datatype transaction_call =
    Tx_BeginDocument | Tx_BeginPage | Tx_EndPage | Tx_Complete | Tx_Abort | Tx_Fail

fun transaction_apply ::
  "PrintTransactionModel \<Rightarrow> transaction_call \<Rightarrow> bool \<times> PrintTransactionModel" where
  "transaction_apply t Tx_BeginDocument = Transaction_BeginDocument t"
| "transaction_apply t Tx_BeginPage = Transaction_BeginPage t"
| "transaction_apply t Tx_EndPage = Transaction_EndPage t"
| "transaction_apply t Tx_Complete = Transaction_Complete t"
| "transaction_apply t Tx_Abort = Transaction_Abort t"
| "transaction_apply t Tx_Fail = (True, Transaction_Fail t)"

section \<open>The transitions\<close>

text \<open>
  The diagram the class implements: \<open>transaction_step s x s'\<close> is the arrow of the call \<open>x\<close> from
  \<open>s\<close> to \<open>s'\<close>.  A call with no arrow is refused and leaves the state alone.
\<close>

inductive transaction_step ::
  "PrintTransactionState \<Rightarrow> transaction_call \<Rightarrow> PrintTransactionState \<Rightarrow> bool" where
  start_document: "transaction_step Print_idle Tx_BeginDocument Print_document"
| start_page: "transaction_step Print_document Tx_BeginPage Print_page"
| finish_page: "transaction_step Print_page Tx_EndPage Print_document"
| finish_document: "transaction_step Print_document Tx_Complete Print_completed"
| abort_document: "s \<in> {Print_document, Print_page} \<Longrightarrow> transaction_step s Tx_Abort Print_aborted"
| failed_document: "s \<in> {Print_idle, Print_document, Print_page} \<Longrightarrow>
    transaction_step s Tx_Fail Print_failed"

inductive_cases from_completedE [elim!]: "transaction_step Print_completed x s"
inductive_cases from_abortedE [elim!]: "transaction_step Print_aborted x s"
inductive_cases from_failedE [elim!]: "transaction_step Print_failed x s"

inductive_simps step_into_simps:
  "transaction_step s Tx_BeginDocument s'"
  "transaction_step s Tx_BeginPage s'"
  "transaction_step s Tx_EndPage s'"
  "transaction_step s Tx_Complete s'"
  "transaction_step s Tx_Abort s'"
  "transaction_step s Tx_Fail s'"

code_pred transaction_step .

lemma transaction_apply_step:
  "if \<exists>s'. transaction_step (transaction_state t) x s'
   then fst (transaction_apply t x) \<and>
     transaction_step (transaction_state t) x (transaction_state (snd (transaction_apply t x)))
   else snd (transaction_apply t x) = t"
  by (cases x) (auto simp: step_into_simps transaction_defs)

definition transaction_terminal :: "PrintTransactionState \<Rightarrow> bool" where
  "transaction_terminal s \<longleftrightarrow> s \<in> {Print_completed, Print_aborted, Print_failed}"

lemma terminal_stays: "transaction_terminal (transaction_state t) \<Longrightarrow>
    snd (transaction_apply t x) = t"
  by (cases x) (auto simp: transaction_terminal_def transaction_defs)

text \<open>What the model can have been asked to reach a state: the accepted calls.\<close>

fun accepted_calls :: "PrintTransactionModel \<Rightarrow> transaction_call list \<Rightarrow> transaction_call list" where
  "accepted_calls t [] = []"
| "accepted_calls t (x # xs) =
    (let t' = snd (transaction_apply t x)
     in if transaction_state t' = transaction_state t then accepted_calls t' xs
        else x # accepted_calls t' xs)"

abbreviation transaction_run :: "transaction_call list \<Rightarrow> PrintTransactionModel" where
  "transaction_run xs \<equiv> run_ops transaction_apply PrintTransactionModel_new xs"

lemma accepted_append:
  "accepted_calls t (xs @ ys) =
    accepted_calls t xs @ accepted_calls (run_ops transaction_apply t xs) ys"
  by (induction xs arbitrary: t) (simp_all add: Let_def)

lemma run_ops_append: "run_ops f s (xs @ ys) = run_ops f (run_ops f s xs) ys"
  by (induction xs arbitrary: s) auto

text \<open>The shape of the accepted calls in each state.\<close>

definition page_calls :: "nat \<Rightarrow> transaction_call list" where
  "page_calls n = concat (replicate n [Tx_BeginPage, Tx_EndPage])"

fun transaction_history :: "PrintTransactionState \<Rightarrow> nat \<Rightarrow> transaction_call list \<Rightarrow> bool" where
  "transaction_history Print_idle n h = (h = [] \<and> n = 0)"
| "transaction_history Print_document n h = (h = Tx_BeginDocument # page_calls n)"
| "transaction_history Print_page n h = (h = Tx_BeginDocument # page_calls n @ [Tx_BeginPage])"
| "transaction_history Print_completed n h = (h = Tx_BeginDocument # page_calls n @ [Tx_Complete])"
| "transaction_history Print_aborted n h =
    (h \<in> {Tx_BeginDocument # page_calls n @ [Tx_Abort],
          Tx_BeginDocument # page_calls n @ [Tx_BeginPage, Tx_Abort]})"
| "transaction_history Print_failed n h =
    (h = [Tx_Fail] \<and> n = 0 \<or>
     h \<in> {Tx_BeginDocument # page_calls n @ [Tx_Fail],
          Tx_BeginDocument # page_calls n @ [Tx_BeginPage, Tx_Fail]})"

lemma page_calls_Suc: "page_calls (Suc n) = page_calls n @ [Tx_BeginPage, Tx_EndPage]"
  unfolding page_calls_def replicate_Suc replicate_append_same [symmetric] by simp

lemma page_calls_0 [simp]: "page_calls 0 = []"
  by (simp add: page_calls_def)

lemma transaction_history_step:
  fixes x :: transaction_call
  assumes "transaction_history (transaction_state t) n h" and "completed_pages t = of_nat n"
  defines "t' \<equiv> snd (transaction_apply t x)"
  shows "\<exists>n'. completed_pages t' = of_nat n' \<and> transaction_history (transaction_state t') n'
    (if transaction_state t' = transaction_state t then h else h @ [x])"
proof (cases "x = Tx_EndPage \<and> transaction_state t = Print_page")
  case True
  then have "completed_pages t' = of_nat (Suc n)" "transaction_state t' = Print_document"
    using assms(2) by (simp_all add: t'_def transaction_defs add.commute)
  moreover have "h @ [x] = Tx_BeginDocument # page_calls (Suc n)"
    using True assms(1) by (simp add: page_calls_Suc)
  ultimately show ?thesis using True by (intro exI [of _ "Suc n"]) simp
next
  case False
  then have "completed_pages t' = of_nat n"
    using assms(2) by (cases x) (simp_all add: t'_def transaction_defs)
  moreover have "transaction_history (transaction_state t') n
    (if transaction_state t' = transaction_state t then h else h @ [x])"
    using False assms(1)
    by (cases x; cases "transaction_state t") (auto simp: t'_def transaction_defs)
  ultimately show ?thesis by blast
qed

text \<open>Whatever calls it receives, the print transaction accepts exactly one document, pages that
  are properly opened and closed inside it, and one ending (complete, abort or fail); the page count is
  the number of closed pages modulo \<open>2 ^ 64\<close>.\<close>

theorem transaction_accepts_one_document:
  "\<exists>n. completed_pages (transaction_run xs) = of_nat n \<and>
    transaction_history (transaction_state (transaction_run xs)) n
      (accepted_calls PrintTransactionModel_new xs)"
proof (induction xs rule: rev_induct)
  case Nil
  then show ?case by (intro exI [of _ 0]) (simp add: PrintTransactionModel_new_def)
next
  case (snoc x xs)
  then obtain n where "completed_pages (transaction_run xs) = of_nat n"
    "transaction_history (transaction_state (transaction_run xs)) n
      (accepted_calls PrintTransactionModel_new xs)" by blast
  from transaction_history_step [OF this(2,1), of x] show ?case
    by (simp add: accepted_append run_ops_append Let_def split: if_splits)
qed

end
