(* ===== verification/Windows_Errors.thy ===== *)
theory Windows_Errors
  imports Prelude
begin

text \<open>The Windows error codes the modelled code compares with or reports.\<close>

type_synonym dword = u32

definition ERROR_SUCCESS :: dword where "ERROR_SUCCESS = 0"
definition ERROR_FILE_NOT_FOUND :: dword where "ERROR_FILE_NOT_FOUND = 2"
definition ERROR_PATH_NOT_FOUND :: dword where "ERROR_PATH_NOT_FOUND = 3"
definition ERROR_ACCESS_DENIED :: dword where "ERROR_ACCESS_DENIED = 5"
definition ERROR_INVALID_HANDLE :: dword where "ERROR_INVALID_HANDLE = 6"
definition ERROR_INVALID_DATA :: dword where "ERROR_INVALID_DATA = 13"
definition ERROR_OUTOFMEMORY :: dword where "ERROR_OUTOFMEMORY = 14"
definition ERROR_NOT_SAME_DEVICE :: dword where "ERROR_NOT_SAME_DEVICE = 17"
definition ERROR_NOT_FOUND :: dword where "ERROR_NOT_FOUND = 1168"
definition ERROR_INVALID_WINDOW_HANDLE :: dword where "ERROR_INVALID_WINDOW_HANDLE = 1400"
definition ERROR_INVALID_THREAD_ID :: dword where "ERROR_INVALID_THREAD_ID = 1444"
definition ERROR_GEN_FAILURE :: dword where "ERROR_GEN_FAILURE = 31"
definition ERROR_PRINT_CANCELLED :: dword where "ERROR_PRINT_CANCELLED = 63"
definition ERROR_INVALID_PARAMETER :: dword where "ERROR_INVALID_PARAMETER = 87"
definition ERROR_BROKEN_PIPE :: dword where "ERROR_BROKEN_PIPE = 109"
definition ERROR_BUFFER_OVERFLOW :: dword where "ERROR_BUFFER_OVERFLOW = 111"
definition ERROR_INSUFFICIENT_BUFFER :: dword where "ERROR_INSUFFICIENT_BUFFER = 122"
definition ERROR_INVALID_NAME :: dword where "ERROR_INVALID_NAME = 123"
definition ERROR_BUSY :: dword where "ERROR_BUSY = 170"
definition ERROR_ALREADY_EXISTS :: dword where "ERROR_ALREADY_EXISTS = 183"
definition ERROR_PIPE_BUSY :: dword where "ERROR_PIPE_BUSY = 231"
definition ERROR_NO_DATA :: dword where "ERROR_NO_DATA = 232"
definition ERROR_PIPE_NOT_CONNECTED :: dword where "ERROR_PIPE_NOT_CONNECTED = 233"
definition ERROR_PIPE_CONNECTED :: dword where "ERROR_PIPE_CONNECTED = 535"
definition ERROR_PRODUCT_VERSION :: dword where "ERROR_PRODUCT_VERSION = 1638"
definition ERROR_OPERATION_ABORTED :: dword where "ERROR_OPERATION_ABORTED = 995"
definition ERROR_IO_PENDING :: dword where "ERROR_IO_PENDING = 997"
definition ERROR_CANCELLED :: dword where "ERROR_CANCELLED = 1223"
definition ERROR_REVISION_MISMATCH :: dword where "ERROR_REVISION_MISMATCH = 1306"
definition ERROR_DATATYPE_MISMATCH :: dword where "ERROR_DATATYPE_MISMATCH = 1629"
definition ERROR_FILE_TOO_LARGE :: dword where "ERROR_FILE_TOO_LARGE = 223"
definition ERROR_INVALID_PRINTER_NAME :: dword where "ERROR_INVALID_PRINTER_NAME = 1801"
definition ERROR_INVALID_TIME :: dword where "ERROR_INVALID_TIME = 1901"
definition ERROR_INVALID_STATE :: dword where "ERROR_INVALID_STATE = 5023"
definition RPC_S_SERVER_UNAVAILABLE :: dword where "RPC_S_SERVER_UNAVAILABLE = 1722"

lemmas win_errors = ERROR_SUCCESS_def ERROR_FILE_NOT_FOUND_def ERROR_PATH_NOT_FOUND_def ERROR_ACCESS_DENIED_def
  ERROR_INVALID_HANDLE_def ERROR_INVALID_DATA_def ERROR_OUTOFMEMORY_def
  ERROR_NOT_SAME_DEVICE_def ERROR_GEN_FAILURE_def ERROR_PRINT_CANCELLED_def
  ERROR_INVALID_PARAMETER_def ERROR_BROKEN_PIPE_def ERROR_BUFFER_OVERFLOW_def
  ERROR_INSUFFICIENT_BUFFER_def ERROR_INVALID_NAME_def ERROR_BUSY_def
  ERROR_ALREADY_EXISTS_def ERROR_PIPE_BUSY_def ERROR_NO_DATA_def ERROR_PIPE_NOT_CONNECTED_def
  ERROR_PIPE_CONNECTED_def ERROR_PRODUCT_VERSION_def ERROR_OPERATION_ABORTED_def
  ERROR_IO_PENDING_def ERROR_CANCELLED_def ERROR_REVISION_MISMATCH_def
  ERROR_DATATYPE_MISMATCH_def ERROR_FILE_TOO_LARGE_def ERROR_INVALID_PRINTER_NAME_def
  ERROR_INVALID_TIME_def ERROR_INVALID_STATE_def RPC_S_SERVER_UNAVAILABLE_def

end
