(* ===== verification/Print_Job.thy ===== *)
theory Print_Job
  imports Print_Transaction Windows_Errors
begin

text \<open>
  \<open>PrintJob\<close> and \<open>PrintPages\<close> (\<open>printing_native.h\<close>, \<open>printing_native.cpp\<close>): a transaction driven
  against a \<open>PrintBackend\<close>.  The abstract class is the record of its virtual functions over a backend
  state; \<open>HdcPrintBackend\<close> is the instance the library provides over the GDI calls, which are the
  parameter \<open>gdi_api\<close>.  Application callbacks are functions of the application's state.
\<close>

datatype PrintOperationStatus =
    Print_success | Print_cancelled | Print_no_printer | Print_invalid_settings
  | Print_unavailable | Print_native_failure | Print_render_failure | Print_render_exception

definition MapError :: "dword \<Rightarrow> PrintOperationStatus" where
  "MapError e =
    (if e = ERROR_CANCELLED \<or> e = ERROR_PRINT_CANCELLED then Print_cancelled
     else if e = ERROR_FILE_NOT_FOUND \<or> e = ERROR_INVALID_PRINTER_NAME then Print_no_printer
     else if e = ERROR_INVALID_DATA \<or> e = ERROR_INVALID_PARAMETER then Print_invalid_settings
     else if e = ERROR_INVALID_STATE then Print_invalid_settings
     else if e = ERROR_ACCESS_DENIED \<or> e = RPC_S_SERVER_UNAVAILABLE then Print_unavailable
     else Print_native_failure)"

lemma MapError_not_success [simp]: "MapError e \<noteq> Print_success"
  by (simp add: MapError_def)

section \<open>Backends\<close>

record ('b, 'h) PrintBackend =
  Backend_StartDocument :: "wstring \<Rightarrow> 'b \<Rightarrow> int \<times> 'b"
  Backend_StartPage :: "'b \<Rightarrow> int \<times> 'b"
  Backend_EndPage :: "'b \<Rightarrow> int \<times> 'b"
  Backend_EndDocument :: "'b \<Rightarrow> int \<times> 'b"
  Backend_AbortDocument :: "'b \<Rightarrow> int \<times> 'b"
  Backend_DeviceContext :: "'b \<Rightarrow> 'h"
  Backend_LastError :: "'b \<Rightarrow> dword"

record ('g, 'h) gdi_api =
  StartDocW :: "'h \<Rightarrow> wstring \<Rightarrow> 'g \<Rightarrow> int \<times> 'g"
  gdi_StartPage :: "'h \<Rightarrow> 'g \<Rightarrow> int \<times> 'g"
  gdi_EndPage :: "'h \<Rightarrow> 'g \<Rightarrow> int \<times> 'g"
  EndDoc :: "'h \<Rightarrow> 'g \<Rightarrow> int \<times> 'g"
  AbortDoc :: "'h \<Rightarrow> 'g \<Rightarrow> int \<times> 'g"
  gdi_GetLastError :: "'g \<Rightarrow> dword"

record ('g, 'h) HdcPrintBackend =
  hdc_world :: 'g
  hdc_dc :: 'h
  hdc_error :: dword

text \<open>\<open>c_str()\<close> of the owned title is what \<open>StartDocW\<close> reads: the part before the first NUL.\<close>

definition c_str :: "wstring \<Rightarrow> wstring" where
  "c_str s = takeWhile (\<lambda>c. c \<noteq> 0) s"

definition Hdc_Capture ::
  "('g, 'h) gdi_api \<Rightarrow> int \<times> 'g \<Rightarrow> ('g, 'h) HdcPrintBackend \<Rightarrow> int \<times> ('g, 'h) HdcPrintBackend" where
  "Hdc_Capture G r b =
    (let e = (if 0 < fst r then ERROR_SUCCESS else gdi_GetLastError G (snd r));
         e' = (if fst r \<le> 0 \<and> e = ERROR_SUCCESS then ERROR_GEN_FAILURE else e)
     in (fst r, b\<lparr>hdc_world := snd r, hdc_error := e'\<rparr>))"

definition hdc_backend :: "('g, 'h) gdi_api \<Rightarrow> (('g, 'h) HdcPrintBackend, 'h) PrintBackend" where
  "hdc_backend G = \<lparr>
    Backend_StartDocument = \<lambda>title b. Hdc_Capture G (StartDocW G (hdc_dc b) (c_str title) (hdc_world b)) b,
    Backend_StartPage = \<lambda>b. Hdc_Capture G (gdi_StartPage G (hdc_dc b) (hdc_world b)) b,
    Backend_EndPage = \<lambda>b. Hdc_Capture G (gdi_EndPage G (hdc_dc b) (hdc_world b)) b,
    Backend_EndDocument = \<lambda>b. Hdc_Capture G (EndDoc G (hdc_dc b) (hdc_world b)) b,
    Backend_AbortDocument = \<lambda>b. Hdc_Capture G (AbortDoc G (hdc_dc b) (hdc_world b)) b,
    Backend_DeviceContext = hdc_dc,
    Backend_LastError = hdc_error\<rparr>"

section \<open>The job\<close>

record 'b PrintJob =
  job_backend :: "'b option"
  job_transaction :: PrintTransactionModel
  job_last_error :: dword

definition PrintJob_new :: "'b option \<Rightarrow> 'b PrintJob" where
  "PrintJob_new b = \<lparr>job_backend = b, job_transaction = PrintTransactionModel_new,
    job_last_error = ERROR_SUCCESS\<rparr>"

abbreviation job_state :: "'b PrintJob \<Rightarrow> PrintTransactionState" where
  "job_state j \<equiv> transaction_state (job_transaction j)"

definition document_open :: "'b PrintJob \<Rightarrow> bool" where
  "document_open j \<longleftrightarrow> job_state j = Print_document \<or> job_state j = Print_page"

definition abort_backend :: "('b, 'h) PrintBackend \<Rightarrow> 'b PrintJob \<Rightarrow> 'b PrintJob" where
  "abort_backend B j =
    (case job_backend j of None \<Rightarrow> j
     | Some b \<Rightarrow> j\<lparr>job_backend := Some (snd (Backend_AbortDocument B b))\<rparr>)"

definition PrintJob_destroy :: "('b, 'h) PrintBackend \<Rightarrow> 'b PrintJob \<Rightarrow> 'b PrintJob" where
  "PrintJob_destroy B j =
    (if document_open j
     then let j1 = abort_backend B j
       in j1\<lparr>job_transaction := snd (Transaction_Abort (job_transaction j1))\<rparr>
     else j)"

definition PrintJob_Fail ::
  "('b, 'h) PrintBackend \<Rightarrow> dword \<Rightarrow> 'b PrintJob \<Rightarrow> PrintOperationStatus \<times> 'b PrintJob" where
  "PrintJob_Fail B error j =
    (let j1 = j\<lparr>job_last_error := (if error = ERROR_SUCCESS then ERROR_GEN_FAILURE else error)\<rparr>;
         j2 = (if document_open j1 then abort_backend B j1 else j1);
         j3 = j2\<lparr>job_transaction := Transaction_Fail (job_transaction j2)\<rparr>
     in (MapError (job_last_error j3), j3))"

text \<open>
  The four forward operations have one shape: a guard on the state, a backend call whose result is
  tested, and the transition of the transaction.
\<close>

definition guarded_call ::
  "('b, 'h) PrintBackend \<Rightarrow> ('b \<Rightarrow> int \<times> 'b) \<Rightarrow>
    (PrintTransactionModel \<Rightarrow> bool \<times> PrintTransactionModel) \<Rightarrow> 'b \<Rightarrow> 'b PrintJob \<Rightarrow>
    PrintOperationStatus \<times> 'b PrintJob" where
  "guarded_call B call transition b j =
    (case call b of (result, b') \<Rightarrow>
      let j1 = j\<lparr>job_backend := Some b'\<rparr>
      in if result \<le> 0 then PrintJob_Fail B (Backend_LastError B b') j1
         else (Print_success, j1\<lparr>job_transaction := snd (transition (job_transaction j1))\<rparr>))"

definition PrintJob_Begin ::
  "('b, 'h) PrintBackend \<Rightarrow> wstring \<Rightarrow> 'b PrintJob \<Rightarrow> PrintOperationStatus \<times> 'b PrintJob" where
  "PrintJob_Begin B title j =
    (case job_backend j of
       None \<Rightarrow> PrintJob_Fail B ERROR_INVALID_PARAMETER j
     | Some b \<Rightarrow>
         if title = [] \<or> job_state j \<noteq> Print_idle then PrintJob_Fail B ERROR_INVALID_PARAMETER j
         else guarded_call B (Backend_StartDocument B title) Transaction_BeginDocument b j)"

definition PrintJob_BeginPage ::
  "('b, 'h) PrintBackend \<Rightarrow> 'b PrintJob \<Rightarrow> PrintOperationStatus \<times> 'b PrintJob" where
  "PrintJob_BeginPage B j =
    (case job_backend j of
       None \<Rightarrow> PrintJob_Fail B ERROR_INVALID_STATE j
     | Some b \<Rightarrow>
         if job_state j \<noteq> Print_document then PrintJob_Fail B ERROR_INVALID_STATE j
         else guarded_call B (Backend_StartPage B) Transaction_BeginPage b j)"

definition PrintJob_EndPage ::
  "('b, 'h) PrintBackend \<Rightarrow> 'b PrintJob \<Rightarrow> PrintOperationStatus \<times> 'b PrintJob" where
  "PrintJob_EndPage B j =
    (case job_backend j of
       None \<Rightarrow> PrintJob_Fail B ERROR_INVALID_STATE j
     | Some b \<Rightarrow>
         if job_state j \<noteq> Print_page then PrintJob_Fail B ERROR_INVALID_STATE j
         else guarded_call B (Backend_EndPage B) Transaction_EndPage b j)"

definition PrintJob_Complete ::
  "('b, 'h) PrintBackend \<Rightarrow> 'b PrintJob \<Rightarrow> PrintOperationStatus \<times> 'b PrintJob" where
  "PrintJob_Complete B j =
    (case job_backend j of
       None \<Rightarrow> PrintJob_Fail B ERROR_INVALID_STATE j
     | Some b \<Rightarrow>
         if job_state j \<noteq> Print_document then PrintJob_Fail B ERROR_INVALID_STATE j
         else guarded_call B (Backend_EndDocument B) Transaction_Complete b j)"

definition PrintJob_Cancel ::
  "('b, 'h) PrintBackend \<Rightarrow> 'b PrintJob \<Rightarrow> PrintOperationStatus \<times> 'b PrintJob" where
  "PrintJob_Cancel B j =
    (case job_backend j of
       None \<Rightarrow> (Print_invalid_settings, j\<lparr>job_last_error := ERROR_INVALID_STATE\<rparr>)
     | Some b \<Rightarrow>
         if \<not> document_open j
         then (Print_invalid_settings, j\<lparr>job_last_error := ERROR_INVALID_STATE\<rparr>)
         else case Backend_AbortDocument B b of (native_result, b') \<Rightarrow>
           let j1 = j\<lparr>job_backend := Some b',
             job_transaction := snd (Transaction_Abort (job_transaction j))\<rparr>
           in if native_result \<le> 0
              then (MapError (Backend_LastError B b'), j1\<lparr>job_last_error := Backend_LastError B b'\<rparr>)
              else (Print_cancelled, j1\<lparr>job_last_error := ERROR_CANCELLED\<rparr>))"

definition PrintJob_DeviceContext :: "('b, 'h) PrintBackend \<Rightarrow> 'b PrintJob \<Rightarrow> 'h option" where
  "PrintJob_DeviceContext B j = map_option (Backend_DeviceContext B) (job_backend j)"

section \<open>Printing a sequence of pages\<close>

type_synonym ('h, 'a) page_renderer = "'h option \<Rightarrow> PrintPage \<Rightarrow> 'a \<Rightarrow> bool outcome \<times> 'a"
type_synonym 'a cancellation_check = "PrintPage \<Rightarrow> 'a \<Rightarrow> bool outcome \<times> 'a"

definition ask_cancel ::
  "'a cancellation_check option \<Rightarrow> PrintPage \<Rightarrow> 'a \<Rightarrow> bool outcome \<times> 'a" where
  "ask_cancel should_cancel page a =
    (case should_cancel of None \<Rightarrow> (Returns False, a) | Some f \<Rightarrow> f page a)"

fun print_each ::
  "('b, 'h) PrintBackend \<Rightarrow> ('h, 'a) page_renderer \<Rightarrow> 'a cancellation_check option \<Rightarrow>
    PrintPage list \<Rightarrow> 'b PrintJob \<Rightarrow> 'a \<Rightarrow> PrintOperationStatus \<times> 'b PrintJob \<times> 'a" where
  "print_each B renderer should_cancel [] j a =
    (case PrintJob_Complete B j of (status, j') \<Rightarrow> (status, j', a))"
| "print_each B renderer should_cancel (page # pages) j a =
    (case ask_cancel should_cancel page a of
       (Returns True, a1) \<Rightarrow> (Print_cancelled, snd (PrintJob_Cancel B j), a1)
     | (Throws, a1) \<Rightarrow> (Print_render_exception, snd (PrintJob_Cancel B j), a1)
     | (Returns False, a1) \<Rightarrow>
         (case PrintJob_BeginPage B j of (status, j1) \<Rightarrow>
           if status \<noteq> Print_success then (status, j1, a1)
           else (case renderer (PrintJob_DeviceContext B j1) page a1 of
               (Returns False, a2) \<Rightarrow> (Print_render_failure, snd (PrintJob_Cancel B j1), a2)
             | (Throws, a2) \<Rightarrow> (Print_render_exception, snd (PrintJob_Cancel B j1), a2)
             | (Returns True, a2) \<Rightarrow>
                 (case PrintJob_EndPage B j1 of (status2, j2) \<Rightarrow>
                   if status2 \<noteq> Print_success then (status2, j2, a2)
                   else print_each B renderer should_cancel pages j2 a2))))"

definition PrintPages ::
  "('b, 'h) PrintBackend \<Rightarrow> wstring \<Rightarrow> PrintPage list \<Rightarrow> ('h, 'a) page_renderer option \<Rightarrow>
    'a cancellation_check option \<Rightarrow> 'b PrintJob \<Rightarrow> 'a \<Rightarrow>
    PrintOperationStatus \<times> 'b PrintJob \<times> 'a" where
  "PrintPages B title pages renderer should_cancel j a =
    (case renderer of
       None \<Rightarrow> (Print_invalid_settings, j, a)
     | Some render \<Rightarrow>
         if pages = [] then (Print_invalid_settings, j, a)
         else case PrintJob_Begin B title j of (status, j1) \<Rightarrow>
           if status \<noteq> Print_success then (status, j1, a)
           else print_each B render should_cancel pages j1 a)"

end
