(* ===== verification/Print_Spooling.thy ===== *)
theory Print_Spooling
  imports Print_Job
begin

text \<open>
  What a print job does to its backend.  \<open>recording\<close> wraps any backend and keeps a log of the calls
  it receives with their success; \<open>spool_step\<close> is the protocol of a spooled document, as a transition
  relation.  The theorems hold for every backend and every behaviour of its calls.
\<close>

section \<open>Observing a backend\<close>

datatype spool_call =
    Spool_Start wstring | Spool_StartPage | Spool_EndPage | Spool_End | Spool_Abort

type_synonym spool_log = "(spool_call \<times> bool) list"

definition record_call ::
  "spool_call \<Rightarrow> ('b \<Rightarrow> int \<times> 'b) \<Rightarrow> 'b \<times> spool_log \<Rightarrow> int \<times> 'b \<times> spool_log" where
  "record_call c f s = (case f (fst s) of (r, b) \<Rightarrow> (r, b, snd s @ [(c, 0 < r)]))"

definition recording :: "('b, 'h) PrintBackend \<Rightarrow> ('b \<times> spool_log, 'h) PrintBackend" where
  "recording B = \<lparr>
    Backend_StartDocument = \<lambda>t. record_call (Spool_Start t) (Backend_StartDocument B t),
    Backend_StartPage = record_call Spool_StartPage (Backend_StartPage B),
    Backend_EndPage = record_call Spool_EndPage (Backend_EndPage B),
    Backend_EndDocument = record_call Spool_End (Backend_EndDocument B),
    Backend_AbortDocument = record_call Spool_Abort (Backend_AbortDocument B),
    Backend_DeviceContext = \<lambda>s. Backend_DeviceContext B (fst s),
    Backend_LastError = \<lambda>s. Backend_LastError B (fst s)\<rparr>"

section \<open>The protocol\<close>

datatype spool_phase =
    Phase_idle | Phase_document | Phase_page | Phase_broken | Phase_refused | Phase_finished
  | Phase_aborted

inductive spool_step :: "spool_phase \<Rightarrow> spool_call \<times> bool \<Rightarrow> spool_phase \<Rightarrow> bool" where
  started: "spool_step Phase_idle (Spool_Start t, True) Phase_document"
| refused: "spool_step Phase_idle (Spool_Start t, False) Phase_refused"
| page_started: "spool_step Phase_document (Spool_StartPage, True) Phase_page"
| page_refused: "spool_step Phase_document (Spool_StartPage, False) Phase_broken"
| page_ended: "spool_step Phase_page (Spool_EndPage, True) Phase_document"
| page_broken: "spool_step Phase_page (Spool_EndPage, False) Phase_broken"
| ended: "spool_step Phase_document (Spool_End, True) Phase_finished"
| end_broken: "spool_step Phase_document (Spool_End, False) Phase_broken"
| aborted: "p \<in> {Phase_document, Phase_page, Phase_broken} \<Longrightarrow>
    spool_step p (Spool_Abort, done) Phase_aborted"

inductive spool_reaches :: "spool_log \<Rightarrow> spool_phase \<Rightarrow> bool" where
  nothing_sent: "spool_reaches [] Phase_idle"
| call_sent: "spool_reaches sent p \<Longrightarrow> spool_step p e q \<Longrightarrow> spool_reaches (sent @ [e]) q"

inductive_simps spool_step_simps:
  "spool_step p (Spool_Start t, b) q"
  "spool_step p (Spool_StartPage, b) q"
  "spool_step p (Spool_EndPage, b) q"
  "spool_step p (Spool_End, b) q"
  "spool_step p (Spool_Abort, b) q"

lemma spool_reaches_shape:
  "spool_reaches sent p \<Longrightarrow>
    (case p of
       Phase_idle \<Rightarrow> sent = []
     | Phase_refused \<Rightarrow> (\<exists>t. sent = [(Spool_Start t, False)])
     | Phase_finished \<Rightarrow> sent \<noteq> [] \<and> last sent = (Spool_End, True)
     | Phase_aborted \<Rightarrow> sent \<noteq> [] \<and> fst (last sent) = Spool_Abort
     | _ \<Rightarrow> True) \<and>
    (p \<noteq> Phase_finished \<longrightarrow> (Spool_End, True) \<notin> set sent) \<and>
    (p \<noteq> Phase_aborted \<longrightarrow> Spool_Abort \<notin> fst ` set sent)"
proof (induction rule: spool_reaches.induct)
  case nothing_sent
  then show ?case by simp
next
  case (call_sent sent p e q)
  from call_sent.hyps(2) call_sent.IH show ?case
    by (cases rule: spool_step.cases) auto
qed

section \<open>Every job follows the protocol\<close>

fun phase_matches :: "spool_phase \<Rightarrow> PrintTransactionState \<Rightarrow> bool" where
  "phase_matches p Print_idle = (p = Phase_idle)"
| "phase_matches p Print_document = (p = Phase_document)"
| "phase_matches p Print_page = (p = Phase_page)"
| "phase_matches p Print_completed = (p = Phase_finished)"
| "phase_matches p Print_aborted = (p = Phase_aborted)"
| "phase_matches p Print_failed = (p \<in> {Phase_idle, Phase_refused, Phase_aborted})"

definition job_ok :: "('b \<times> spool_log) PrintJob \<Rightarrow> bool" where
  "job_ok j \<longleftrightarrow> (case job_backend j of
     None \<Rightarrow> job_state j \<in> {Print_idle, Print_failed}
   | Some s \<Rightarrow> \<exists>p. spool_reaches (snd s) p \<and> phase_matches p (job_state j))"

datatype job_call = Job_Begin wstring | Job_BeginPage | Job_EndPage | Job_Complete | Job_Cancel

fun job_apply ::
  "('b, 'h) PrintBackend \<Rightarrow> 'b PrintJob \<Rightarrow> job_call \<Rightarrow> PrintOperationStatus \<times> 'b PrintJob" where
  "job_apply B j (Job_Begin title) = PrintJob_Begin B title j"
| "job_apply B j Job_BeginPage = PrintJob_BeginPage B j"
| "job_apply B j Job_EndPage = PrintJob_EndPage B j"
| "job_apply B j Job_Complete = PrintJob_Complete B j"
| "job_apply B j Job_Cancel = PrintJob_Cancel B j"

lemmas job_defs = PrintJob_Begin_def PrintJob_BeginPage_def PrintJob_EndPage_def
  PrintJob_Complete_def guarded_call_def PrintJob_Fail_def abort_backend_def
  document_open_def transaction_defs

lemmas recording_calls = recording_def record_call_def

lemma Fail_ok:
  assumes "job_backend j = Some s" and "spool_reaches (snd s) p"
    and "phase_matches p (job_state j) \<or>
      job_state j = Print_idle \<and> p = Phase_refused \<or>
      (job_state j = Print_document \<or> job_state j = Print_page) \<and> p = Phase_broken"
  shows "job_ok (snd (PrintJob_Fail (recording B) e j))"
proof (cases "document_open j")
  case True
  with assms(3) have "p \<in> {Phase_document, Phase_page, Phase_broken}"
    by (auto simp: document_open_def)
  then have "spool_reaches (snd s @ [(Spool_Abort, d)]) Phase_aborted" for d
    using assms(2) by (blast intro: spool_reaches.intros spool_step.intros)
  with True assms(1) show ?thesis
    by (auto simp: job_ok_def PrintJob_Fail_def abort_backend_def document_open_def
        Transaction_Fail_def recording_calls split: prod.splits)
next
  case False
  with assms show ?thesis
    by (cases "job_state j") (auto simp: job_ok_def PrintJob_Fail_def document_open_def
        Transaction_Fail_def intro!: exI [of _ p])
qed

lemma Fail_without_backend:
  "job_backend j = None \<Longrightarrow> job_ok j \<Longrightarrow> job_ok (snd (PrintJob_Fail B e j))"
  by (auto simp: job_ok_def PrintJob_Fail_def document_open_def abort_backend_def
      Transaction_Fail_def)

lemma guarded_call_ok:
  assumes "job_backend j = Some s" and "spool_reaches (snd s) p"
    and "\<And>d. spool_step p (c, d) (if d then q else q')"
    and "phase_matches q (transaction_state (snd (transition (job_transaction j))))"
    and "job_state j = Print_idle \<and> q' = Phase_refused \<or>
      (job_state j = Print_document \<or> job_state j = Print_page) \<and> q' = Phase_broken"
    and call: "call = record_call c f"
  shows "job_ok (snd (guarded_call (recording B) call transition s j))"
proof -
  obtain r b where f: "f (fst s) = (r, b)" by (cases "f (fst s)")
  have next_entries: "spool_reaches (snd s @ [(c, 0 < r)]) (if 0 < r then q else q')"
    using assms(2,3) by (rule spool_reaches.call_sent)
  show ?thesis
  proof (cases "0 < r")
    case True
    with f next_entries assms(4) show ?thesis
      by (auto simp: guarded_call_def call record_call_def job_ok_def)
  next
    case False
    let ?j = "j\<lparr>job_backend := Some (b, snd s @ [(c, False)])\<rparr>"
    have "job_ok (snd (PrintJob_Fail (recording B) e ?j))" for e
      using next_entries False assms(5)
      by (intro Fail_ok [of ?j "(b, snd s @ [(c, False)])" q']) auto
    with False f show ?thesis by (simp add: guarded_call_def call record_call_def)
  qed
qed

lemma job_okE:
  assumes "job_ok j" and "job_backend j = Some s"
  obtains p where "spool_reaches (snd s) p" and "phase_matches p (job_state j)"
  using assms by (auto simp: job_ok_def)

lemma job_apply_ok: "job_ok j \<Longrightarrow> job_ok (snd (job_apply (recording B) j x))"
proof (cases "job_backend j")
  case None
  assume ok: "job_ok j"
  have "job_ok (snd (PrintJob_Cancel (recording B) j))"
    using ok None by (simp add: PrintJob_Cancel_def job_ok_def)
  with Fail_without_backend [OF None ok] None show ?thesis
    by (cases x) (simp_all add: job_defs(1-4))
next
  case (Some s)
  assume ok: "job_ok j"
  obtain p where p: "spool_reaches (snd s) p" "phase_matches p (job_state j)"
    using ok Some by (rule job_okE)
  have fail: "job_ok (snd (PrintJob_Fail (recording B) e j))" for e
    using Some p by (intro Fail_ok [of j s p]) auto
  note called = guarded_call_ok [OF Some p(1)]
  show ?thesis
  proof (cases x)
    case (Job_Begin t)
    have "job_ok (snd (guarded_call (recording B) (Backend_StartDocument (recording B) t)
        Transaction_BeginDocument s j))" if "job_state j = Print_idle"
      by (rule called [where c = "Spool_Start t" and q = Phase_document and q' = Phase_refused])
        (use that p in \<open>auto simp: transaction_defs recording_def spool_step_simps\<close>)
    with Job_Begin Some fail show ?thesis by (simp add: PrintJob_Begin_def)
  next
    case Job_BeginPage
    have "job_ok (snd (guarded_call (recording B) (Backend_StartPage (recording B))
        Transaction_BeginPage s j))" if "job_state j = Print_document"
      by (rule called [where c = Spool_StartPage and q = Phase_page and q' = Phase_broken])
        (use that p in \<open>auto simp: transaction_defs recording_def spool_step_simps\<close>)
    with Job_BeginPage Some fail show ?thesis by (simp add: PrintJob_BeginPage_def)
  next
    case Job_EndPage
    have "job_ok (snd (guarded_call (recording B) (Backend_EndPage (recording B))
        Transaction_EndPage s j))" if "job_state j = Print_page"
      by (rule called [where c = Spool_EndPage and q = Phase_document and q' = Phase_broken])
        (use that p in \<open>auto simp: transaction_defs recording_def spool_step_simps\<close>)
    with Job_EndPage Some fail show ?thesis by (simp add: PrintJob_EndPage_def)
  next
    case Job_Complete
    have "job_ok (snd (guarded_call (recording B) (Backend_EndDocument (recording B))
        Transaction_Complete s j))" if "job_state j = Print_document"
      by (rule called [where c = Spool_End and q = Phase_finished and q' = Phase_broken])
        (use that p in \<open>auto simp: transaction_defs recording_def spool_step_simps\<close>)
    with Job_Complete Some fail show ?thesis by (simp add: PrintJob_Complete_def)
  next
    case Job_Cancel
    show ?thesis
    proof (cases "document_open j")
      case True
      with p(2) have "p \<in> {Phase_document, Phase_page}" by (auto simp: document_open_def)
      then have "spool_reaches (snd s @ [(Spool_Abort, d)]) Phase_aborted" for d
        using p(1) by (blast intro: spool_reaches.intros spool_step.intros)
      with True Some Job_Cancel show ?thesis
        by (auto simp: PrintJob_Cancel_def recording_calls job_ok_def document_open_def
            Transaction_Abort_def Let_def split: prod.splits)
    next
      case False
      with Some Job_Cancel ok show ?thesis by (simp add: PrintJob_Cancel_def job_ok_def)
    qed
  qed
qed

interpretation print_job: machine "job_apply (recording B)" job_ok for B
  by unfold_locales (rule job_apply_ok)

lemma destroy_ok:
  assumes "job_ok j" and "job_backend j = Some s"
  shows "\<exists>s' p. job_backend (PrintJob_destroy (recording B) j) = Some s' \<and>
    spool_reaches (snd s') p \<and> p \<in> {Phase_idle, Phase_refused, Phase_finished, Phase_aborted}"
proof -
  obtain p where p: "spool_reaches (snd s) p" "phase_matches p (job_state j)"
    using assms by (rule job_okE)
  show ?thesis
  proof (cases "document_open j")
    case True
    with p(2) have "p \<in> {Phase_document, Phase_page}" by (auto simp: document_open_def)
    then have "spool_reaches (snd s @ [(Spool_Abort, d)]) Phase_aborted" for d
      using p(1) by (blast intro: spool_reaches.intros spool_step.intros)
    with True assms(2) show ?thesis
      by (auto simp: PrintJob_destroy_def abort_backend_def recording_calls Let_def
          split: prod.splits)
  next
    case False
    with p assms(2) show ?thesis
      by (cases "job_state j") (auto simp: PrintJob_destroy_def document_open_def)
  qed
qed

lemma new_job_ok: "job_ok (PrintJob_new (Some (b, [])))"
  by (auto simp: job_ok_def PrintJob_new_def PrintTransactionModel_new_def
      intro: spool_reaches.nothing_sent)

lemma run_backend:
  "job_backend j = Some s \<Longrightarrow> \<exists>s'. job_backend (snd (job_apply B j x)) = Some s'"
  by (cases x) (auto simp: job_defs PrintJob_Cancel_def Let_def split: prod.splits)

lemma runs_backend:
  "job_backend j = Some s \<Longrightarrow> \<exists>s'. job_backend (run_ops (job_apply B) j xs) = Some s'"
proof (induction xs arbitrary: j s)
  case Nil
  then show ?case by simp
next
  case (Cons x xs)
  from run_backend [OF Cons.prems] obtain s' where "job_backend (snd (job_apply B j x)) = Some s'" ..
  from Cons.IH [OF this] show ?case by simp
qed

text \<open>No document stays open.  For every backend and every sequence of calls on a print job,
  whatever the backend answers, the calls it has received when the job has been destroyed follow the
  spooler protocol and end outside a document: nothing was started, the start was refused, the document
  was ended, or it was aborted.\<close>

theorem job_never_leaves_document_open:
  "\<exists>b' sent p. job_backend (PrintJob_destroy (recording B)
      (run_ops (job_apply (recording B)) (PrintJob_new (Some (b, []))) xs)) = Some (b', sent) \<and>
    spool_reaches sent p \<and> p \<in> {Phase_idle, Phase_refused, Phase_finished, Phase_aborted}"
proof -
  let ?j = "run_ops (job_apply (recording B)) (PrintJob_new (Some (b, []))) xs"
  have "job_ok ?j" by (rule print_job.run_inv [OF new_job_ok])
  moreover obtain s where "job_backend ?j = Some s"
    using runs_backend [of "PrintJob_new (Some (b, []))" "(b, [])" "recording B" xs] by (auto simp: PrintJob_new_def)
  ultimately show ?thesis using destroy_ok by (metis prod.collapse)
qed

text \<open>A backend that accepts every call.\<close>

definition willing_backend :: "(unit, unit) PrintBackend" where
  "willing_backend = \<lparr>Backend_StartDocument = \<lambda>_ b. (1, b), Backend_StartPage = \<lambda>b. (1, b),
    Backend_EndPage = \<lambda>b. (1, b), Backend_EndDocument = \<lambda>b. (1, b),
    Backend_AbortDocument = \<lambda>b. (1, b), Backend_DeviceContext = \<lambda>_. (),
    Backend_LastError = \<lambda>_. 0\<rparr>"

section \<open>Printing all pages or none\<close>

definition page_sent :: "spool_log" where
  "page_sent = [(Spool_StartPage, True), (Spool_EndPage, True)]"

definition document_sent :: "wstring \<Rightarrow> nat \<Rightarrow> spool_log" where
  "document_sent title n =
    (Spool_Start title, True) # concat (replicate n page_sent) @ [(Spool_End, True)]"

text \<open>The pages that reach the renderer.\<close>

definition watched ::
  "('h, 'a) page_renderer \<Rightarrow> ('h, 'a \<times> PrintPage list) page_renderer" where
  "watched render dc page a =
    (case render dc page (fst a) of (result, a') \<Rightarrow> (result, a', snd a @ [page]))"

definition unwatched :: "'a cancellation_check \<Rightarrow> ('a \<times> PrintPage list) cancellation_check" where
  "unwatched check page a = (case check page (fst a) of (result, a') \<Rightarrow> (result, a', snd a))"

lemma guarded_call_success:
  assumes "guarded_call (recording B) (record_call c f) transition s j = (Print_success, j')"
  shows "\<exists>b. job_backend j' = Some (b, snd s @ [(c, True)]) \<and>
    job_transaction j' = snd (transition (job_transaction j))"
  using assms
  by (auto simp: guarded_call_def record_call_def PrintJob_Fail_def Let_def split: prod.splits if_splits)

lemma recording_simps [simp]:
  "Backend_StartDocument (recording B) t = record_call (Spool_Start t) (Backend_StartDocument B t)"
  "Backend_StartPage (recording B) = record_call Spool_StartPage (Backend_StartPage B)"
  "Backend_EndPage (recording B) = record_call Spool_EndPage (Backend_EndPage B)"
  "Backend_EndDocument (recording B) = record_call Spool_End (Backend_EndDocument B)"
  "Backend_AbortDocument (recording B) = record_call Spool_Abort (Backend_AbortDocument B)"
  by (simp_all add: recording_def)

lemma Fail_not_success [simp]: "PrintJob_Fail B e j \<noteq> (Print_success, j')"
  by (simp add: PrintJob_Fail_def Let_def)

lemma job_success:
  assumes "job_backend j = Some s"
  shows Begin_success: "PrintJob_Begin (recording B) title j = (Print_success, j1) \<Longrightarrow>
      \<exists>b. job_backend j1 = Some (b, snd s @ [(Spool_Start title, True)]) \<and>
        job_transaction j1 = (job_transaction j)\<lparr>transaction_state := Print_document\<rparr>"
    and BeginPage_success: "PrintJob_BeginPage (recording B) j = (Print_success, j1) \<Longrightarrow>
      \<exists>b. job_backend j1 = Some (b, snd s @ [(Spool_StartPage, True)]) \<and>
        job_transaction j1 = (job_transaction j)\<lparr>transaction_state := Print_page\<rparr>"
    and EndPage_success: "PrintJob_EndPage (recording B) j = (Print_success, j1) \<Longrightarrow>
      \<exists>b. job_backend j1 = Some (b, snd s @ [(Spool_EndPage, True)]) \<and>
        job_transaction j1 = (job_transaction j)\<lparr>completed_pages :=
          completed_pages (job_transaction j) + 1, transaction_state := Print_document\<rparr>"
    and Complete_success: "PrintJob_Complete (recording B) j = (Print_success, j1) \<Longrightarrow>
      \<exists>b. job_backend j1 = Some (b, snd s @ [(Spool_End, True)]) \<and>
        job_transaction j1 = (job_transaction j)\<lparr>transaction_state := Print_completed\<rparr>"
  using assms
  by (simp_all add: PrintJob_Begin_def PrintJob_BeginPage_def PrintJob_EndPage_def
      PrintJob_Complete_def split: if_splits)
    (drule guarded_call_success, simp add: transaction_defs)+

lemma watched_result:
  "watched render dc page a = (result, a') \<Longrightarrow> snd a' = snd a @ [page]"
  by (auto simp: watched_def split: prod.splits)

lemma unwatched_result:
  "ask_cancel (map_option unwatched check) page a = (result, a') \<Longrightarrow> snd a' = snd a"
  by (auto simp: ask_cancel_def unwatched_def split: option.splits prod.splits)

lemma print_each_success:
  "print_each (recording B) (watched render) (map_option unwatched check) pages j a =
      (Print_success, j', a') \<Longrightarrow> job_backend j = Some s \<Longrightarrow>
    \<exists>b. job_backend j' =
        Some (b, snd s @ concat (replicate (length pages) page_sent) @ [(Spool_End, True)]) \<and>
      job_state j' = Print_completed \<and>
      completed_pages (job_transaction j') =
        completed_pages (job_transaction j) + of_nat (length pages) \<and>
      snd a' = snd a @ pages"
proof (induction pages arbitrary: j a s)
  case Nil
  then show ?case using Complete_success [of j s B j'] by (auto split: prod.splits)
next
  case (Cons page pages)
  from Cons.prems(1) obtain a1 j1 a2 j2 where
    ask: "ask_cancel (map_option unwatched check) page a = (Returns False, a1)" and
    start: "PrintJob_BeginPage (recording B) j = (Print_success, j1)" and
    draw: "watched render (PrintJob_DeviceContext (recording B) j1) page a1 = (Returns True, a2)" and
    finish: "PrintJob_EndPage (recording B) j1 = (Print_success, j2)" and
    rest: "print_each (recording B) (watched render) (map_option unwatched check) pages j2 a2 =
      (Print_success, j', a')"
    by (auto split: prod.splits outcome.splits bool.splits if_splits)
  from BeginPage_success [OF Cons.prems(2) start] obtain b1 where
    1: "job_backend j1 = Some (b1, snd s @ [(Spool_StartPage, True)])"
    "completed_pages (job_transaction j1) = completed_pages (job_transaction j)" by auto
  from EndPage_success [OF 1(1) finish] obtain b2 where
    2: "job_backend j2 = Some (b2, snd s @ page_sent)"
    "completed_pages (job_transaction j2) = completed_pages (job_transaction j) + 1"
    using 1(2) by (auto simp: page_sent_def)
  have "snd a2 = snd a @ [page]" using unwatched_result [OF ask] watched_result [OF draw] by simp
  with Cons.IH [OF rest 2(1)] 2(2) show ?case by (auto simp: algebra_simps)
qed

text \<open>Without success the document does not complete.\<close>

lemma Fail_terminal:
  "PrintJob_Fail B e j = (status, j') \<Longrightarrow> job_state j \<in> {Print_idle, Print_document, Print_page} \<Longrightarrow>
    job_state j' = Print_failed"
  by (auto simp: PrintJob_Fail_def Let_def Transaction_Fail_def abort_backend_def
      split: if_splits option.splits)

lemma guarded_call_failed:
  "guarded_call B call transition b j = (status, j') \<Longrightarrow> status \<noteq> Print_success \<Longrightarrow>
    job_state j \<in> {Print_idle, Print_document, Print_page} \<Longrightarrow> job_state j' = Print_failed"
  by (auto simp: guarded_call_def Let_def split: prod.splits if_splits dest: Fail_terminal)

lemma job_call_failed:
  assumes "job_state j \<in> {Print_idle, Print_document, Print_page}" and "status \<noteq> Print_success"
  shows "PrintJob_Begin B title j = (status, j1) \<Longrightarrow> job_state j1 = Print_failed"
    and "PrintJob_BeginPage B j = (status, j1) \<Longrightarrow> job_state j1 = Print_failed"
    and "PrintJob_EndPage B j = (status, j1) \<Longrightarrow> job_state j1 = Print_failed"
    and "PrintJob_Complete B j = (status, j1) \<Longrightarrow> job_state j1 = Print_failed"
  using assms
  by (auto simp: PrintJob_Begin_def PrintJob_BeginPage_def PrintJob_EndPage_def
      PrintJob_Complete_def split: option.splits if_splits
      intro: Fail_terminal guarded_call_failed)

lemma Cancel_state:
  "job_backend j = Some b \<Longrightarrow> job_state j \<in> {Print_document, Print_page} \<Longrightarrow>
    job_state (snd (PrintJob_Cancel B j)) = Print_aborted"
  by (auto simp: PrintJob_Cancel_def document_open_def Transaction_Abort_def Let_def
      split: prod.splits)

lemma print_each_failed:
  "print_each (recording B) render check pages j a = (status, j', a') \<Longrightarrow>
    status \<noteq> Print_success \<Longrightarrow> job_backend j = Some s \<Longrightarrow> job_state j = Print_document \<Longrightarrow>
    job_state j' \<in> {Print_failed, Print_aborted}"
proof (induction pages arbitrary: j a s)
  case Nil
  then show ?case by (auto split: prod.splits dest: job_call_failed(4) [rotated 2])
next
  case (Cons page pages)
  obtain answer a1 where ask: "ask_cancel check page a = (answer, a1)" by fastforce
  obtain st1 j1 where start: "PrintJob_BeginPage (recording B) j = (st1, j1)" by fastforce
  obtain result a2 where draw:
    "render (PrintJob_DeviceContext (recording B) j1) page a1 = (result, a2)" by fastforce
  obtain st2 j2 where finish: "PrintJob_EndPage (recording B) j1 = (st2, j2)" by fastforce
  show ?case
  proof (cases "answer = Returns False")
    case False
    with ask Cons.prems show ?thesis
      by (auto split: prod.splits outcome.splits bool.splits simp: Cancel_state)
  next
    case going: True
    show ?thesis
    proof (cases "st1 = Print_success")
      case False
      with ask going start Cons.prems show ?thesis by (auto dest: job_call_failed(2) [rotated 2])
    next
      case True
      with BeginPage_success [OF Cons.prems(3), of B j1] start obtain s1 where
        1: "job_backend j1 = Some s1" "job_state j1 = Print_page" by auto
      show ?thesis
      proof (cases "result = Returns True")
        case False
        with ask going start True draw Cons.prems 1 show ?thesis
          by (auto split: outcome.splits bool.splits simp: Cancel_state)
      next
        case drawn: True
        show ?thesis
        proof (cases "st2 = Print_success")
          case False
          with ask going start True draw drawn finish Cons.prems 1 show ?thesis
            by (auto dest: job_call_failed(3) [rotated 2])
        next
          case ended: True
          with EndPage_success [OF 1(1), of B j2] finish obtain s2 where
            2: "job_backend j2 = Some s2" "job_state j2 = Print_document" by auto
          from ask going start True draw drawn finish ended Cons.prems(1)
          have "print_each (recording B) render check pages j2 a2 = (status, j', a')" by simp
          from Cons.IH [OF this Cons.prems(2) 2] show ?thesis .
        qed
      qed
    qed
  qed
qed

lemma job_calls_ok:
  assumes "job_ok j"
  shows "job_ok (snd (PrintJob_Begin (recording B) title j))"
    and "job_ok (snd (PrintJob_BeginPage (recording B) j))"
    and "job_ok (snd (PrintJob_EndPage (recording B) j))"
    and "job_ok (snd (PrintJob_Complete (recording B) j))"
    and "job_ok (snd (PrintJob_Cancel (recording B) j))"
  using job_apply_ok [OF assms, of B "Job_Begin title"] job_apply_ok [OF assms, of B Job_BeginPage]
    job_apply_ok [OF assms, of B Job_EndPage] job_apply_ok [OF assms, of B Job_Complete]
    job_apply_ok [OF assms, of B Job_Cancel]
  by simp_all

lemma print_each_ok:
  "job_ok j \<Longrightarrow> job_ok (fst (snd (print_each (recording B) render check pages j a)))"
proof (induction pages arbitrary: j a)
  case Nil
  then show ?case using job_calls_ok(4) [of j B] by (cases "PrintJob_Complete (recording B) j") simp
next
  case (Cons page pages)
  obtain answer a1 where ask: "ask_cancel check page a = (answer, a1)" by fastforce
  obtain st1 j1 where start: "PrintJob_BeginPage (recording B) j = (st1, j1)" by fastforce
  obtain result a2 where draw:
    "render (PrintJob_DeviceContext (recording B) j1) page a1 = (result, a2)" by fastforce
  obtain st2 j2 where finish: "PrintJob_EndPage (recording B) j1 = (st2, j2)" by fastforce
  have j1: "job_ok j1" using job_calls_ok(2) [OF Cons.prems, of B] start by simp
  have j2: "job_ok j2" using job_calls_ok(3) [OF j1, of B] finish by simp
  note cancelled = job_calls_ok(5) [OF Cons.prems, of B] job_calls_ok(5) [OF j1, of B]
  from ask start draw finish cancelled j1 j2 Cons.IH [OF j2] show ?case
    by (auto split: outcome.splits bool.splits)
qed

lemma PrintPages_ok:
  "job_ok j \<Longrightarrow> job_ok (fst (snd (PrintPages (recording B) title pages render check j a)))"
  using job_calls_ok(1) [of j B title] print_each_ok
  by (fastforce simp: PrintPages_def split: option.splits prod.splits)

lemma print_each_backend:
  "job_backend j = Some s \<Longrightarrow>
    \<exists>s'. job_backend (fst (snd (print_each B render check pages j a))) = Some s'"
proof (induction pages arbitrary: j a s)
  case Nil
  then show ?case using run_backend [of j s B Job_Complete] by (cases "PrintJob_Complete B j") simp
next
  case (Cons page pages)
  obtain answer a1 where ask: "ask_cancel check page a = (answer, a1)" by fastforce
  obtain st1 j1 where start: "PrintJob_BeginPage B j = (st1, j1)" by fastforce
  obtain result a2 where draw: "render (PrintJob_DeviceContext B j1) page a1 = (result, a2)"
    by fastforce
  obtain st2 j2 where finish: "PrintJob_EndPage B j1 = (st2, j2)" by fastforce
  obtain s1 where s1: "job_backend j1 = Some s1"
    using run_backend [OF Cons.prems, of B Job_BeginPage] start by auto
  obtain s2 where s2: "job_backend j2 = Some s2"
    using run_backend [OF s1, of B Job_EndPage] finish by auto
  note cancelled = run_backend [OF Cons.prems, of B Job_Cancel] run_backend [OF s1, of B Job_Cancel]
  from ask start draw finish cancelled s1 s2 Cons.IH [OF s2] show ?case
    by (auto split: outcome.splits bool.splits)
qed

lemma PrintPages_begin:
  assumes "PrintPages (recording B) title pages (Some (watched render)) (map_option unwatched check)
      (PrintJob_new (Some (b, []))) (a, []) = (status, j, a', drawn)" and "pages \<noteq> []"
    and "PrintJob_Begin (recording B) title (PrintJob_new (Some (b, []))) = (st, j1)"
  shows "if st \<noteq> Print_success then status = st \<and> j = j1
    else print_each (recording B) (watched render) (map_option unwatched check) pages j1 (a, []) = (status, j, a', drawn)"
  using assms by (auto simp: PrintPages_def)

lemma new_print_job:
  "job_backend (PrintJob_new (Some (b, []))) = Some (b, [])" "job_state (PrintJob_new x) = Print_idle"
  "completed_pages (job_transaction (PrintJob_new x)) = 0"
  by (simp_all add: PrintJob_new_def PrintTransactionModel_new_def)

lemma PrintPages_failure:
  fixes b :: 'a
  assumes run: "PrintPages (recording B) title pages (Some (watched render)) (map_option unwatched check)
      (PrintJob_new (Some (b, []))) (a, []) = (status, j, a', drawn)" and "pages \<noteq> []" and "status \<noteq> Print_success"
  shows "job_state j \<in> {Print_failed, Print_aborted} \<and>
      (\<exists>b' sent. job_backend j = Some (b', sent) \<and> (Spool_End, True) \<notin> set sent \<and>
        (sent = [] \<or> (\<exists>t. sent = [(Spool_Start t, False)]) \<or> fst (last sent) = Spool_Abort))"
proof -
  let ?new = "PrintJob_new (Some (b, [])) :: ('a \<times> spool_log) PrintJob"
  obtain st j1 where start: "PrintJob_Begin (recording B) title ?new = (st, j1)" by fastforce
  note each = PrintPages_begin [OF assms(1,2) start]
  have failed: "job_state j \<in> {Print_failed, Print_aborted}"
  proof (cases "st = Print_success")
    case True
    from Begin_success [OF new_print_job(1) [of b]] start True obtain s1 where
      "job_backend j1 = Some s1" "job_state j1 = Print_document" by fastforce
    with each True assms(3) show ?thesis using print_each_failed by (metis (full_types))
  next
    case False
    with each start new_print_job(2) show ?thesis by (auto dest: job_call_failed(1) [rotated 2])
  qed
  obtain s1 where s1: "job_backend j1 = Some s1"
    using run_backend [OF new_print_job(1) [of b], of "recording B" "Job_Begin title"] start by auto
  from each s1 print_each_backend [OF s1, of "recording B"] obtain s where s: "job_backend j = Some s"
    by (metis fst_conv snd_conv)
  have "job_ok j" using PrintPages_ok [OF new_job_ok, of B title pages] run by (metis fst_conv snd_conv)
  with s obtain p where p: "spool_reaches (snd s) p" "phase_matches p (job_state j)" using job_okE by blast
  with failed have "p \<in> {Phase_idle, Phase_refused, Phase_aborted}" by auto
  with spool_reaches_shape [OF p(1)] s failed show ?thesis by (cases s) auto
qed

text \<open>C19: \<open>PrintPages\<close> prints everything or ends the document.  On success the backend has received
  exactly one document with one properly bracketed page per supplied page, all calls succeeded, and the
  renderer has drawn exactly the supplied pages in their order.  On any other result the job is failed
  or aborted, the document was never ended successfully, and if it was started at all the last call the
  backend saw is the abort.\<close>

theorem print_pages_all_or_abort:
  assumes "PrintPages (recording B) title pages (Some (watched render)) (map_option unwatched check)
      (PrintJob_new (Some (b, []))) (a, []) = (status, j, a', drawn)"
    and "pages \<noteq> []"
  shows "if status = Print_success
    then (\<exists>b'. job_backend j = Some (b', document_sent title (length pages))) \<and> drawn = pages \<and>
      job_state j = Print_completed \<and> completed_pages (job_transaction j) = of_nat (length pages)
    else job_state j \<in> {Print_failed, Print_aborted} \<and>
      (\<exists>b' sent. job_backend j = Some (b', sent) \<and> (Spool_End, True) \<notin> set sent \<and>
        (sent = [] \<or> (\<exists>t. sent = [(Spool_Start t, False)]) \<or> fst (last sent) = Spool_Abort))"
proof (cases "status = Print_success")
  case True
  obtain st j1 where start: "PrintJob_Begin (recording B) title (PrintJob_new (Some (b, []))) = (st, j1)" by fastforce
  note each = PrintPages_begin [OF assms start]
  with True have st: "st = Print_success" by (auto split: if_splits)
  from Begin_success [OF new_print_job(1) [of b]] start st obtain b1 where
    1: "job_backend j1 = Some (b1, [(Spool_Start title, True)])" "completed_pages (job_transaction j1) = 0"
    using new_print_job(3) by fastforce
  from each st True have "print_each (recording B) (watched render) (map_option unwatched check)
    pages j1 (a, []) = (Print_success, j, a', drawn)" by simp
  from print_each_success [OF this 1(1)] 1(2) True show ?thesis by (auto simp: document_sent_def)
qed (use PrintPages_failure [OF assms] in simp)

theorem print_pages_all_or_abort_witness:
  "\<exists>j a. PrintPages (recording willing_backend) (lit ''a'') [plain_page 15 10 0, plain_page 15 10 1]
      (Some (watched (\<lambda>_ _ u. (Returns True, u)))) (map_option unwatched None)
      (PrintJob_new (Some ((), []))) ((), []) =
    (Print_success, j, a, [plain_page 15 10 0, plain_page 15 10 1]) \<and>
    job_backend j = Some ((), document_sent (lit ''a'') 2)"
proof -
  let ?run = "PrintPages (recording willing_backend) (lit ''a'')
    [plain_page 15 10 0, plain_page 15 10 1] (Some (watched (\<lambda>_ _ u. (Returns True, u))))
    (map_option unwatched None) (PrintJob_new (Some ((), []))) ((), [])"
  obtain st j a drawn where run: "?run = (st, j, a, drawn)" by (metis prod.exhaust)
  have "fst ?run = Print_success"
    by (simp add: PrintPages_def PrintJob_Begin_def PrintJob_BeginPage_def PrintJob_EndPage_def
        PrintJob_Complete_def PrintJob_new_def PrintTransactionModel_new_def guarded_call_def
        record_call_def willing_backend_def transaction_defs ask_cancel_def watched_def)
  with run have "st = Print_success" by simp
  with print_pages_all_or_abort [OF run] run show ?thesis by (simp add: eval_nat_numeral)
qed

lemma guarded_call_proceeds:
  "0 < fst (call b) \<Longrightarrow> guarded_call B call transition b j =
    (Print_success, j\<lparr>job_backend := Some (snd (call b)),
      job_transaction := snd (transition (job_transaction j))\<rparr>)"
  by (auto simp: guarded_call_def split: prod.splits)

text \<open>Printing makes progress.  If the backend accepts every call, the renderer draws every page
  and nobody cancels, then \<open>PrintPages\<close> with a title and at least one page succeeds.\<close>

theorem printing_succeeds:
  assumes "\<And>t b. 0 < fst (Backend_StartDocument B t b)" and "\<And>b. 0 < fst (Backend_StartPage B b)"
    and "\<And>b. 0 < fst (Backend_EndPage B b)" and "\<And>b. 0 < fst (Backend_EndDocument B b)"
    and "\<And>dc p a. fst (render dc p a) = Returns True"
    and "\<And>p a. fst (ask_cancel check p a) = Returns False"
    and "title \<noteq> []" and "pages \<noteq> []"
  shows "fst (PrintPages B title pages (Some render) check (PrintJob_new (Some b)) a) = Print_success"
proof -
  have each: "job_backend j = Some s \<Longrightarrow> job_state j = Print_document \<Longrightarrow>
      fst (print_each B render check pages j a) = Print_success" for pages j s a
  proof (induction pages arbitrary: j s a)
    case Nil
    then show ?case using assms(4) by (simp add: PrintJob_Complete_def guarded_call_proceeds)
  next
    case (Cons page pages)
    obtain a1 where a1: "ask_cancel check page a = (Returns False, a1)"
      using assms(6) [of page a] by (metis prod.collapse)
    obtain j1 s1 where j1: "PrintJob_BeginPage B j = (Print_success, j1)"
      "job_backend j1 = Some s1" "job_state j1 = Print_page"
      using assms(2) Cons.prems
      by (simp add: PrintJob_BeginPage_def guarded_call_proceeds Transaction_BeginPage_def)
    obtain a2 where a2: "render (PrintJob_DeviceContext B j1) page a1 = (Returns True, a2)"
      using assms(5) by (metis prod.collapse)
    obtain j2 s2 where j2: "PrintJob_EndPage B j1 = (Print_success, j2)"
      "job_backend j2 = Some s2" "job_state j2 = Print_document"
      using assms(3) j1(2,3)
      by (simp add: PrintJob_EndPage_def guarded_call_proceeds Transaction_EndPage_def)
    from a1 j1(1) a2 j2(1) Cons.IH [OF j2(2,3)] show ?case by simp
  qed
  obtain j1 s1 where "PrintJob_Begin B title (PrintJob_new (Some b)) = (Print_success, j1)"
    "job_backend j1 = Some s1" "job_state j1 = Print_document"
    using assms(1,7)
    by (simp add: PrintJob_Begin_def PrintJob_new_def PrintTransactionModel_new_def
        guarded_call_proceeds Transaction_BeginDocument_def)
  with each [of j1 s1] assms(8) show ?thesis by (simp add: PrintPages_def)
qed

theorem printing_succeeds_witness:
  "fst (PrintPages willing_backend (lit ''a'') [plain_page 5 10 0] (Some (\<lambda>_ _ u. (Returns True, u)))
     None (PrintJob_new (Some ())) ()) = Print_success"
  by (rule printing_succeeds) (simp_all add: willing_backend_def ask_cancel_def)

end
