(* ===== verification/Printer_Settings.thy ===== *)
theory Printer_Settings
  imports Print_Job
begin

text \<open>
  Printers and their settings (\<open>printing.cpp\<close>, \<open>printing_native.cpp\<close>, \<open>printing_settings.cpp\<close>): the
  printer queries, the movable global-memory blocks that hold a \<open>DEVMODEW\<close> and a \<open>DEVNAMES\<close>, and the
  print dialog.  The calls of the spooler, of GDI, of the memory manager and of the common dialog are
  the parameter \<open>printer_api\<close>.  \<open>OwnedGlobalMemory\<close> is a unique owner, so a block is the value of its
  bytes: \<open>None\<close> is the null handle, and the length of the list is what \<open>GlobalSize\<close> reports.
\<close>

section \<open>Parameters\<close>

record PRINTER_INFO_2W =
  pServerName :: "wstring option"
  pPrinterName :: "wstring option"
  pPortName :: "wstring option"
  pDriverName :: "wstring option"
  Attributes :: u32
  Status :: u32

type_synonym block = "u8 list"

datatype device_cap =
    LOGPIXELSX | LOGPIXELSY | HORZRES | VERTRES | PHYSICALWIDTH | PHYSICALHEIGHT
  | PHYSICALOFFSETX | PHYSICALOFFSETY

record dialog_fields =
  dlg_hr :: int
  dlg_action :: nat
  dlg_mode :: "block option"
  dlg_names :: "block option"
  dlg_flags :: u32
  dlg_copies :: u32

text \<open>
  \<open>GetDefaultPrinterW\<close> takes and returns the buffer and its length; \<open>EnumPrintersW\<close> and \<open>GetPrinterW\<close>
  are asked for the size of their answer first; \<open>DocumentPropertiesW\<close> first reports a size and then
  fills a block.  \<open>GlobalAlloc\<close> yields a block or fails, and \<open>GlobalLock\<close> may fail.
\<close>

record ('w, 'h) printer_api =
  GetDefaultPrinterW :: "wstring option \<Rightarrow> u32 \<Rightarrow> 'w \<Rightarrow> (bool \<times> wstring \<times> u32) \<times> 'w"
  EnumPrintersW_size :: "'w \<Rightarrow> u32 \<times> 'w"
  EnumPrintersW :: "u32 \<Rightarrow> 'w \<Rightarrow> PRINTER_INFO_2W list option \<times> 'w"
  OpenPrinterW :: "wstring \<Rightarrow> 'w \<Rightarrow> bool \<times> 'w"
  DocumentPropertiesW_size :: "wstring \<Rightarrow> 'w \<Rightarrow> int \<times> 'w"
  DocumentPropertiesW :: "wstring \<Rightarrow> block \<Rightarrow> 'w \<Rightarrow> (bool \<times> block) \<times> 'w"
  GetPrinterW_size :: "'w \<Rightarrow> u32 \<times> 'w"
  GetPrinterW :: "u32 \<Rightarrow> 'w \<Rightarrow> PRINTER_INFO_2W option \<times> 'w"
  ClosePrinter :: "'w \<Rightarrow> 'w"
  CreateICW :: "wstring \<Rightarrow> 'w \<Rightarrow> 'h option \<times> 'w"
  CreateDCW :: "wstring \<Rightarrow> block option \<Rightarrow> 'w \<Rightarrow> 'h option \<times> 'w"
  GetDeviceCaps :: "'h \<Rightarrow> device_cap \<Rightarrow> 'w \<Rightarrow> int"
  DeleteDC :: "'h \<Rightarrow> 'w \<Rightarrow> 'w"
  PrintDlgExW :: "block option \<Rightarrow> block option \<Rightarrow> u32 \<Rightarrow> 'w \<Rightarrow> (dialog_fields \<times> 'h option) \<times> 'w"
  GlobalAlloc :: "nat \<Rightarrow> 'w \<Rightarrow> block option \<times> 'w"
  GlobalLock :: "block \<Rightarrow> 'w \<Rightarrow> bool"
  GetLastError :: "'w \<Rightarrow> u32"

section \<open>Printer queries\<close>

datatype PrinterQueryStatus =
    Query_success | Query_no_default_printer | Query_unavailable | Query_invalid_data | Query_failed

definition MapPrinterError :: "dword \<Rightarrow> PrinterQueryStatus" where
  "MapPrinterError e =
    (if e = ERROR_FILE_NOT_FOUND \<or> e = ERROR_INVALID_NAME then Query_no_default_printer
     else if e = ERROR_INVALID_DATA then Query_invalid_data
     else if e = ERROR_ACCESS_DENIED \<or> e = RPC_S_SERVER_UNAVAILABLE then Query_unavailable
     else Query_failed)"

text \<open>\<open>Copy\<close> of a C string pointer.\<close>

definition copy_c_string :: "wstring option \<Rightarrow> wstring" where
  "copy_c_string p = (case p of None \<Rightarrow> [] | Some s \<Rightarrow> c_str s)"

record DefaultPrinterResult =
  default_name :: wstring
  default_status :: PrinterQueryStatus
  default_error :: dword

definition resize :: "nat \<Rightarrow> wstring \<Rightarrow> wstring" where
  "resize n s = take n s @ replicate (n - length s) 0"

definition QueryDefaultPrinter :: "('w, 'h) printer_api \<Rightarrow> 'w \<Rightarrow> DefaultPrinterResult \<times> 'w" where
  "QueryDefaultPrinter A w =
    (case GetDefaultPrinterW A None 0 w of ((_, _, len), w1) \<Rightarrow>
      let error = GetLastError A w1
      in if len = 0
         then (\<lparr>default_name = [], default_status = MapPrinterError error, default_error = error\<rparr>, w1)
         else case GetDefaultPrinterW A (Some (replicate (unat len) 0)) len w1 of
           ((got, buffer, len2), w2) \<Rightarrow>
             if \<not> got
             then (\<lparr>default_name = [], default_status = MapPrinterError (GetLastError A w2),
               default_error = GetLastError A w2\<rparr>, w2)
             else let name = resize (if 0 < len2 then unat len2 - 1 else 0) buffer
               in if name = []
                  then (\<lparr>default_name = [], default_status = Query_invalid_data,
                    default_error = ERROR_INVALID_DATA\<rparr>, w2)
                  else (\<lparr>default_name = name, default_status = Query_success,
                    default_error = ERROR_SUCCESS\<rparr>, w2))"

record PrinterInfo =
  printer_name :: wstring
  printer_server :: wstring
  printer_driver :: wstring
  printer_port :: wstring
  printer_attributes :: u32
  printer_status :: u32
  printer_is_default :: bool

record PrinterListResult =
  list_printers :: "PrinterInfo list"
  list_status :: PrinterQueryStatus
  list_error :: dword

definition printer_entry :: "DefaultPrinterResult \<Rightarrow> PRINTER_INFO_2W \<Rightarrow> PrinterInfo" where
  "printer_entry d e = \<lparr>printer_name = copy_c_string (pPrinterName e),
    printer_server = copy_c_string (pServerName e), printer_driver = copy_c_string (pDriverName e),
    printer_port = copy_c_string (pPortName e), printer_attributes = Attributes e,
    printer_status = Status e,
    printer_is_default = (default_status d = Query_success \<and>
      copy_c_string (pPrinterName e) = default_name d)\<rparr>"

definition EnumerateLocalPrinters :: "('w, 'h) printer_api \<Rightarrow> 'w \<Rightarrow> PrinterListResult \<times> 'w" where
  "EnumerateLocalPrinters A w =
    (case EnumPrintersW_size A w of (bytes, w1) \<Rightarrow>
      let first_error = GetLastError A w1
      in if bytes = 0
         then (if first_error \<noteq> ERROR_INSUFFICIENT_BUFFER \<and> first_error \<noteq> ERROR_SUCCESS
           then (\<lparr>list_printers = [], list_status = MapPrinterError first_error,
             list_error = first_error\<rparr>, w1)
           else (\<lparr>list_printers = [], list_status = Query_success, list_error = ERROR_SUCCESS\<rparr>, w1))
         else case EnumPrintersW A bytes w1 of
             (None, w2) \<Rightarrow> (\<lparr>list_printers = [], list_status = MapPrinterError (GetLastError A w2),
               list_error = GetLastError A w2\<rparr>, w2)
           | (Some entries, w2) \<Rightarrow>
               (case QueryDefaultPrinter A w2 of (d, w3) \<Rightarrow>
                 (\<lparr>list_printers = filter (\<lambda>p. printer_name p \<noteq> []) (map (printer_entry d) entries),
                   list_status = Query_success, list_error = ERROR_SUCCESS\<rparr>, w3)))"

section \<open>Capabilities\<close>

definition PixelsToMicrons :: "int \<Rightarrow> int \<Rightarrow> int option" where
  "PixelsToMicrons pixels dpi =
    (if pixels \<le> 0 \<or> dpi \<le> 0 then Some 0
     else do {
       scaled \<leftarrow> i64 (pixels * 25400);
       total \<leftarrow> i64 (scaled + dpi div 2);
       Some (total div dpi)
     })"

record PrinterCapabilities =
  dpi_x :: int
  dpi_y :: int
  printable_width_pixels :: int
  printable_height_pixels :: int
  physical_width_pixels :: int
  physical_height_pixels :: int
  offset_x_pixels :: int
  offset_y_pixels :: int
  physical_size :: PrintExtentMicrons
  printable_size :: PrintExtentMicrons

definition PrinterCapabilities_IsValid :: "PrinterCapabilities \<Rightarrow> bool" where
  "PrinterCapabilities_IsValid c \<longleftrightarrow> 0 < dpi_x c \<and> 0 < dpi_y c \<and>
    0 < printable_width_pixels c \<and> 0 < printable_height_pixels c \<and>
    0 < physical_width_pixels c \<and> 0 < physical_height_pixels c \<and>
    PrintExtent_IsValid (physical_size c) \<and> PrintExtent_IsValid (printable_size c)"

record PrinterCapabilitiesResult =
  caps_value :: PrinterCapabilities
  caps_status :: PrintOperationStatus
  caps_error :: dword

definition no_extent :: PrintExtentMicrons where
  "no_extent = \<lparr>extent_width = 0, extent_height = 0\<rparr>"

definition no_capabilities :: PrinterCapabilities where
  "no_capabilities = \<lparr>dpi_x = 0, dpi_y = 0, printable_width_pixels = 0,
    printable_height_pixels = 0, physical_width_pixels = 0, physical_height_pixels = 0,
    offset_x_pixels = 0, offset_y_pixels = 0, physical_size = no_extent,
    printable_size = no_extent\<rparr>"

definition read_capabilities :: "(device_cap \<Rightarrow> int) \<Rightarrow> PrinterCapabilities option" where
  "read_capabilities caps = do {
    pw \<leftarrow> PixelsToMicrons (caps PHYSICALWIDTH) (caps LOGPIXELSX);
    ph \<leftarrow> PixelsToMicrons (caps PHYSICALHEIGHT) (caps LOGPIXELSY);
    w \<leftarrow> PixelsToMicrons (caps HORZRES) (caps LOGPIXELSX);
    h \<leftarrow> PixelsToMicrons (caps VERTRES) (caps LOGPIXELSY);
    Some \<lparr>dpi_x = caps LOGPIXELSX, dpi_y = caps LOGPIXELSY,
      printable_width_pixels = caps HORZRES, printable_height_pixels = caps VERTRES,
      physical_width_pixels = caps PHYSICALWIDTH, physical_height_pixels = caps PHYSICALHEIGHT,
      offset_x_pixels = caps PHYSICALOFFSETX, offset_y_pixels = caps PHYSICALOFFSETY,
      physical_size = \<lparr>extent_width = pw, extent_height = ph\<rparr>,
      printable_size = \<lparr>extent_width = w, extent_height = h\<rparr>\<rparr>
  }"

definition or_general_failure :: "dword \<Rightarrow> dword" where
  "or_general_failure e = (if e = ERROR_SUCCESS then ERROR_GEN_FAILURE else e)"

definition QueryPrinterCapabilities ::
  "('w, 'h) printer_api \<Rightarrow> wstring \<Rightarrow> 'w \<Rightarrow> (PrinterCapabilitiesResult \<times> 'w) option" where
  "QueryPrinterCapabilities A name w =
    (if name = []
     then Some (\<lparr>caps_value = no_capabilities, caps_status = Print_invalid_settings,
       caps_error = ERROR_INVALID_PARAMETER\<rparr>, w)
     else case CreateICW A (c_str name) w of
         (None, w1) \<Rightarrow>
           let e = or_general_failure (GetLastError A w1)
           in Some (\<lparr>caps_value = no_capabilities, caps_status = MapError e, caps_error = e\<rparr>, w1)
       | (Some dc, w1) \<Rightarrow> do {
           caps \<leftarrow> read_capabilities (\<lambda>c. GetDeviceCaps A dc c w1);
           let w2 = DeleteDC A dc w1;
           Some (if \<not> PrinterCapabilities_IsValid caps
             then (\<lparr>caps_value = caps, caps_status = Print_invalid_settings,
               caps_error = ERROR_INVALID_DATA\<rparr>, w2)
             else (\<lparr>caps_value = caps, caps_status = Print_success, caps_error = ERROR_SUCCESS\<rparr>, w2))
         })"

record 'h PrintBackendResult =
  backend_dc :: "'h option"
  backend_status :: PrintOperationStatus
  backend_error :: dword

text \<open>The backend of a result is an \<open>HdcPrintBackend\<close>, given by its device context.\<close>

definition AdoptPrinterDeviceContext :: "'h option \<Rightarrow> 'h PrintBackendResult" where
  "AdoptPrinterDeviceContext dc =
    (case dc of
       None \<Rightarrow> \<lparr>backend_dc = None, backend_status = Print_native_failure,
         backend_error = ERROR_INVALID_HANDLE\<rparr>
     | Some h \<Rightarrow> \<lparr>backend_dc = Some h, backend_status = Print_success,
         backend_error = ERROR_SUCCESS\<rparr>)"

definition CreatePrinterBackend_named ::
  "('w, 'h) printer_api \<Rightarrow> wstring \<Rightarrow> 'w \<Rightarrow> 'h PrintBackendResult \<times> 'w" where
  "CreatePrinterBackend_named A name w =
    (if name = []
     then (\<lparr>backend_dc = None, backend_status = Print_invalid_settings,
       backend_error = ERROR_INVALID_PARAMETER\<rparr>, w)
     else case CreateDCW A (c_str name) None w of
         (None, w1) \<Rightarrow>
           let e = or_general_failure (GetLastError A w1)
           in (\<lparr>backend_dc = None, backend_status = MapError e, backend_error = e\<rparr>, w1)
       | (Some dc, w1) \<Rightarrow> (AdoptPrinterDeviceContext (Some dc), w1))"

section \<open>Global memory\<close>

definition Global_Size :: "block option \<Rightarrow> nat" where
  "Global_Size m = (case m of None \<Rightarrow> 0 | Some b \<Rightarrow> length b)"

definition Global_Lock :: "('w, 'h) printer_api \<Rightarrow> block option \<Rightarrow> 'w \<Rightarrow> block option" where
  "Global_Lock A m w =
    (case m of None \<Rightarrow> None | Some b \<Rightarrow> if GlobalLock A b w then Some b else None)"

definition Global_Allocate :: "('w, 'h) printer_api \<Rightarrow> nat \<Rightarrow> 'w \<Rightarrow> block option \<times> 'w" where
  "Global_Allocate A bytes w = (if bytes = 0 then (None, w) else GlobalAlloc A bytes w)"

definition Global_Clone :: "('w, 'h) printer_api \<Rightarrow> block option \<Rightarrow> 'w \<Rightarrow> block option \<times> 'w" where
  "Global_Clone A m w =
    (if m = None \<or> Global_Size m = 0 then (None, w)
     else case Global_Allocate A (Global_Size m) w of (clone, w1) \<Rightarrow>
       (case (Global_Lock A m w1, Global_Lock A clone w1) of
          (Some source, Some destination) \<Rightarrow> (Some (source @ drop (length source) destination), w1)
        | _ \<Rightarrow> (None, w1)))"

text \<open>A block read and written as \<open>WORD\<close>s and \<open>wchar_t\<close>s, little-endian.\<close>

definition word_at :: "block \<Rightarrow> nat \<Rightarrow> 16 word" where
  "word_at b i = ucast (b ! (2 * i)) + 256 * ucast (b ! (2 * i + 1))"

definition block_words :: "block \<Rightarrow> 16 word list" where
  "block_words b = map (word_at b) [0 ..< length b div 2]"

definition bytes_of_word :: "16 word \<Rightarrow> u8 list" where
  "bytes_of_word c = [ucast c, ucast (drop_bit 8 c)]"

definition put_words :: "nat \<Rightarrow> 16 word list \<Rightarrow> block \<Rightarrow> block" where
  "put_words i ws b =
    take (2 * i) b @ concat (map bytes_of_word ws) @ drop (2 * (i + length ws)) b"

text \<open>\<open>sizeof(DEVNAMES)\<close> and \<open>sizeof(DEVMODEW)\<close>, the words of a \<open>DEVNAMES\<close> and the offsets of
  \<open>dmSize\<close> and \<open>dmDriverExtra\<close> in words.\<close>

definition sizeof_DEVNAMES :: nat where "sizeof_DEVNAMES = 8"
definition sizeof_DEVMODEW :: nat where "sizeof_DEVMODEW = 220"
definition devnames_chars :: nat where "devnames_chars = 4"
definition wDriverOffset :: "block \<Rightarrow> nat" where "wDriverOffset b = unat (word_at b 0)"
definition wDeviceOffset :: "block \<Rightarrow> nat" where "wDeviceOffset b = unat (word_at b 1)"
definition wOutputOffset :: "block \<Rightarrow> nat" where "wOutputOffset b = unat (word_at b 2)"
definition dmSize :: "block \<Rightarrow> nat" where "dmSize b = unat (word_at b 34)"
definition dmDriverExtra :: "block \<Rightarrow> nat" where "dmDriverExtra b = unat (word_at b 35)"

lemmas devnames_fields = sizeof_DEVNAMES_def devnames_chars_def wDriverOffset_def
  wDeviceOffset_def wOutputOffset_def

section \<open>DEVNAMES blocks\<close>

definition fill_devnames :: "wstring \<Rightarrow> wstring \<Rightarrow> wstring \<Rightarrow> bool \<Rightarrow> block \<Rightarrow> block" where
  "fill_devnames driver device output is_default b =
    (let o1 = devnames_chars;
         b1 = put_words o1 (driver @ [0]) (put_words 0 [of_nat o1] b);
         o2 = o1 + length driver + 1;
         b2 = put_words o2 (device @ [0]) (put_words 1 [of_nat o2] b1);
         o3 = o2 + length device + 1;
         b3 = put_words o3 (output @ [0]) (put_words 2 [of_nat o3] b2)
     in put_words 3 [if is_default then 1 else 0] b3)"

definition CreateDevNames ::
  "('w, 'h) printer_api \<Rightarrow> PRINTER_INFO_2W \<Rightarrow> bool \<Rightarrow> 'w \<Rightarrow> block option \<times> 'w" where
  "CreateDevNames A info is_default w =
    (let driver = copy_c_string (pDriverName info);
         device = copy_c_string (pPrinterName info);
         output = copy_c_string (pPortName info);
         total = devnames_chars + length driver + 1 + length device + 1 + length output + 1
     in if 65535 < total then (None, w)
        else case Global_Allocate A (total * 2) w of (memory, w1) \<Rightarrow>
          (case Global_Lock A memory w1 of
             None \<Rightarrow> (None, w1)
           | Some b \<Rightarrow> (Some (fill_devnames driver device output is_default b), w1)))"

definition terminated_from :: "16 word list \<Rightarrow> nat \<Rightarrow> bool" where
  "terminated_from chars offset \<longleftrightarrow> 0 \<in> set (drop offset chars)"

definition PrinterNameFromDevNames :: "('w, 'h) printer_api \<Rightarrow> block option \<Rightarrow> 'w \<Rightarrow> wstring" where
  "PrinterNameFromDevNames A memory w =
    (case Global_Lock A memory w of
       None \<Rightarrow> []
     | Some b \<Rightarrow>
         if length b < sizeof_DEVNAMES then []
         else let chars = block_words b
           in if length chars \<le> wDeviceOffset b then []
              else if terminated_from chars (wDeviceOffset b)
                then takeWhile (\<lambda>c. c \<noteq> 0) (drop (wDeviceOffset b) chars) else [])"

section \<open>Settings\<close>

record PrinterSettings =
  settings_name :: wstring
  settings_mode :: "block option"
  settings_names :: "block option"

definition no_settings :: PrinterSettings where
  "no_settings = \<lparr>settings_name = [], settings_mode = None, settings_names = None\<rparr>"

definition dev_mode_ok :: "block \<Rightarrow> bool" where
  "dev_mode_ok b \<longleftrightarrow> sizeof_DEVMODEW \<le> dmSize b \<and> dmSize b \<le> length b \<and>
    dmDriverExtra b \<le> length b - dmSize b"

definition dev_names_ok :: "block \<Rightarrow> bool" where
  "dev_names_ok b \<longleftrightarrow>
    list_all (\<lambda>offset. devnames_chars \<le> offset \<and> offset < length (block_words b) \<and>
        terminated_from (block_words b) offset)
      [wDriverOffset b, wDeviceOffset b, wOutputOffset b]"

definition PrinterSettings_IsValid :: "('w, 'h) printer_api \<Rightarrow> PrinterSettings \<Rightarrow> 'w \<Rightarrow> bool" where
  "PrinterSettings_IsValid A s w \<longleftrightarrow>
    \<not> (settings_name s = [] \<or> Global_Size (settings_mode s) < sizeof_DEVMODEW \<or>
       Global_Size (settings_names s) < sizeof_DEVNAMES) \<and>
    (case (Global_Lock A (settings_mode s) w, Global_Lock A (settings_names s) w) of
       (Some mode, Some names) \<Rightarrow> dev_mode_ok mode \<and> dev_names_ok names
     | _ \<Rightarrow> False)"

definition PrinterSettings_Clone ::
  "('w, 'h) printer_api \<Rightarrow> PrinterSettings \<Rightarrow> 'w \<Rightarrow> PrinterSettings \<times> 'w" where
  "PrinterSettings_Clone A s w =
    (if \<not> PrinterSettings_IsValid A s w then (no_settings, w)
     else case Global_Clone A (settings_mode s) w of (mode, w1) \<Rightarrow>
       (case Global_Clone A (settings_names s) w1 of (names, w2) \<Rightarrow>
         if mode = None \<or> names = None then (no_settings, w2)
         else (\<lparr>settings_name = settings_name s, settings_mode = mode, settings_names = names\<rparr>, w2)))"

record PrinterSettingsResult =
  loaded_settings :: PrinterSettings
  loaded_status :: PrintOperationStatus
  loaded_error :: dword

definition load_failed :: "PrintOperationStatus \<Rightarrow> dword \<Rightarrow> PrinterSettingsResult" where
  "load_failed status error =
    \<lparr>loaded_settings = no_settings, loaded_status = status, loaded_error = error\<rparr>"

text \<open>The part of \<open>LoadPrinterSettings\<close> after the \<open>DEVMODEW\<close> has been read, and the whole; the
  \<open>PrinterHandle\<close> closes the printer on every path on which it was opened.\<close>

definition load_names ::
  "('w, 'h) printer_api \<Rightarrow> wstring \<Rightarrow> block \<Rightarrow> 'w \<Rightarrow> PrinterSettingsResult \<times> 'w" where
  "load_names A name mode w =
    (case GetPrinterW_size A w of (bytes, w1) \<Rightarrow>
      if bytes = 0 then (load_failed Print_native_failure (GetLastError A w1), w1)
      else case GetPrinterW A bytes w1 of
          (None, w2) \<Rightarrow> (load_failed Print_native_failure (GetLastError A w2), w2)
        | (Some info, w2) \<Rightarrow>
            (case QueryDefaultPrinter A w2 of (d, w3) \<Rightarrow>
              (case CreateDevNames A info
                  (default_status d = Query_success \<and> default_name d = name) w3 of
                 (None, w4) \<Rightarrow> (load_failed Print_invalid_settings ERROR_INVALID_DATA, w4)
               | (Some names, w4) \<Rightarrow>
                   (\<lparr>loaded_settings = \<lparr>settings_name = name, settings_mode = Some mode,
                       settings_names = Some names\<rparr>,
                     loaded_status = Print_success, loaded_error = ERROR_SUCCESS\<rparr>, w4))))"

definition load_mode ::
  "('w, 'h) printer_api \<Rightarrow> wstring \<Rightarrow> 'w \<Rightarrow> PrinterSettingsResult \<times> 'w" where
  "load_mode A name w =
    (case DocumentPropertiesW_size A (c_str name) w of (mode_bytes, w1) \<Rightarrow>
      if mode_bytes < int sizeof_DEVMODEW
      then (load_failed Print_invalid_settings
        (if mode_bytes < 0 then GetLastError A w1 else ERROR_INVALID_DATA), w1)
      else case Global_Allocate A (nat mode_bytes) w1 of (mode, w2) \<Rightarrow>
        (case Global_Lock A mode w2 of
           None \<Rightarrow> (load_failed Print_native_failure ERROR_OUTOFMEMORY, w2)
         | Some b \<Rightarrow>
             (case DocumentPropertiesW A (c_str name) b w2 of ((filled, b'), w3) \<Rightarrow>
               if \<not> filled
               then let e = GetLastError A w3
                 in (load_failed Print_invalid_settings
                   (if e = ERROR_SUCCESS then ERROR_INVALID_DATA else e), w3)
               else load_names A name b' w3)))"

definition LoadPrinterSettings ::
  "('w, 'h) printer_api \<Rightarrow> wstring \<Rightarrow> 'w \<Rightarrow> PrinterSettingsResult \<times> 'w" where
  "LoadPrinterSettings A name w =
    (if name = [] then (load_failed Print_invalid_settings ERROR_INVALID_PARAMETER, w)
     else case OpenPrinterW A (c_str name) w of (opened, w1) \<Rightarrow>
       if \<not> opened
       then let e = GetLastError A w1
         in (load_failed (if e = ERROR_INVALID_PRINTER_NAME then Print_no_printer
           else Print_native_failure) e, w1)
       else case load_mode A name w1 of (result, w2) \<Rightarrow> (result, ClosePrinter A w2))"

definition CreatePrinterBackend ::
  "('w, 'h) printer_api \<Rightarrow> PrinterSettings \<Rightarrow> 'w \<Rightarrow> 'h PrintBackendResult \<times> 'w" where
  "CreatePrinterBackend A s w =
    (if \<not> PrinterSettings_IsValid A s w
     then (\<lparr>backend_dc = None, backend_status = Print_invalid_settings,
       backend_error = ERROR_INVALID_DATA\<rparr>, w)
     else case Global_Lock A (settings_mode s) w of
         None \<Rightarrow> (\<lparr>backend_dc = None, backend_status = Print_invalid_settings,
           backend_error = ERROR_INVALID_HANDLE\<rparr>, w)
       | Some mode \<Rightarrow>
           (case CreateDCW A (c_str (settings_name s)) (Some mode) w of
              (None, w1) \<Rightarrow> (\<lparr>backend_dc = None, backend_status = Print_native_failure,
                backend_error = or_general_failure (GetLastError A w1)\<rparr>, w1)
            | (Some dc, w1) \<Rightarrow> (AdoptPrinterDeviceContext (Some dc), w1)))"

datatype PrintDialogAction = Dialog_accepted | Dialog_cancelled | Dialog_failed

record PrintDialogResult =
  dialog_settings :: PrinterSettings
  dialog_action :: PrintDialogAction
  dialog_error :: dword
  dialog_flags :: u32
  dialog_copies :: u32

text \<open>\<open>PD_RETURNDC | PD_USEDEVMODECOPIESANDCOLLATE | PD_NOCURRENTPAGE\<close>, \<open>PD_RESULT_CANCEL\<close> and
  \<open>PD_RESULT_PRINT\<close>.\<close>

definition dialog_flag_bits :: u32 where "dialog_flag_bits = 0x840100"
definition PD_RESULT_CANCEL :: nat where "PD_RESULT_CANCEL = 0"
definition PD_RESULT_PRINT :: nat where "PD_RESULT_PRINT = 1"

definition ShowPrintDialog ::
  "('w, 'h) printer_api \<Rightarrow> PrinterSettings \<Rightarrow> u32 \<Rightarrow> 'w \<Rightarrow> PrintDialogResult \<times> 'w" where
  "ShowPrintDialog A s flags w =
    (case PrintDlgExW A (settings_mode s) (settings_names s) (flags OR dialog_flag_bits) w of
       ((d, dc), w1) \<Rightarrow>
         let new = \<lparr>settings_name = PrinterNameFromDevNames A (dlg_names d) w1,
               settings_mode = dlg_mode d, settings_names = dlg_names d\<rparr>;
             w2 = (case dc of None \<Rightarrow> w1 | Some h \<Rightarrow> DeleteDC A h w1);
             (action, error) =
               (if dlg_hr d < 0 then (Dialog_failed, of_int (dlg_hr d))
                else if dlg_action d = PD_RESULT_CANCEL then (Dialog_cancelled, ERROR_CANCELLED)
                else if dlg_action d = PD_RESULT_PRINT \<and> PrinterSettings_IsValid A new w2
                then (Dialog_accepted, ERROR_SUCCESS)
                else (Dialog_failed, ERROR_INVALID_DATA))
         in (\<lparr>dialog_settings = new, dialog_action = action, dialog_error = error,
           dialog_flags = dlg_flags d, dialog_copies = dlg_copies d\<rparr>, w2))"

end
