(* ===== verification/Printer_Blocks.thy ===== *)
theory Printer_Blocks
  imports Printer_Settings
begin

text \<open>
  What the \<open>DEVNAMES\<close> blocks hold: the fields of a block as words, the block \<open>CreateDevNames\<close> builds,
  and what \<open>IsValid\<close> and \<open>PrinterNameFromDevNames\<close> make of it.
\<close>

section \<open>Blocks as words\<close>

lemma word_bytes: "(ucast (ucast (c :: 16 word) :: u8) + 256 * ucast (ucast (drop_bit 8 c) :: u8) :: 16 word) = c"
proof -
  have arith: "(x mod 256 + 256 * (x div 256 mod 256) mod 65536) mod 65536 = x"
    if "0 \<le> x" "x < 65536" for x :: int 
  proof -
    have d: "x div 256 < 256" "0 \<le> x div 256" using that by simp_all
    then have "x div 256 mod 256 = x div 256" by simp
    moreover have "256 * (x div 256) mod 65536 = 256 * (x div 256)" using d by simp
    moreover have "x mod 256 + 256 * (x div 256) = x" by simp
    ultimately show ?thesis using that by simp
  qed
  have "uint c < 65536" using uint_lt2p [of c] by simp
  then have "uint (ucast (ucast c :: u8) + 256 * ucast (ucast (drop_bit 8 c) :: u8) :: 16 word) = uint c"
    using arith [of "uint c"]
    by (simp add: uint_word_ariths unsigned_ucast_eq unsigned_drop_bit_eq take_bit_eq_mod
        drop_bit_eq_div uint_mod uint_div)
  then show ?thesis by (rule word_uint_eqI)
qed

lemma length_bytes [simp]: "length (concat (map bytes_of_word ws)) = 2 * length ws"
  by (induction ws) (simp_all add: bytes_of_word_def)

lemma nth_bytes: "j < length ws \<Longrightarrow> concat (map bytes_of_word ws) ! (2 * j) = ucast (ws ! j)"
   "j < length ws \<Longrightarrow> concat (map bytes_of_word ws) ! (2 * j + 1) = ucast (drop_bit 8 (ws ! j))"
proof (induction ws arbitrary: j)
  { case (Cons w ws) case 1 with Cons show ?case by (cases j) (simp_all add: bytes_of_word_def) }
  { case (Cons w ws) case 2 with Cons show ?case by (cases j) (simp_all add: bytes_of_word_def) }
qed simp_all

lemma word_at_put:
  assumes "2 * (i + length ws) \<le> length b" and "2 * k + 1 < length b"
  shows "word_at (put_words i ws b) k = (if i \<le> k \<and> k < i + length ws then ws ! (k - i) else word_at b k)"
proof (cases "i \<le> k \<and> k < i + length ws")
  case True
  then have e: "2 * k - 2 * i = 2 * (k - i)" "2 * k + 1 - 2 * i = 2 * (k - i) + 1" "k - i < length ws" by auto
  with True assms have "put_words i ws b ! (2 * k) = ucast (ws ! (k - i))"
    "put_words i ws b ! (2 * k + 1) = ucast (drop_bit 8 (ws ! (k - i)))"
    using nth_bytes [OF e(3)] by (simp_all add: put_words_def nth_append min_absorb2)
  with True show ?thesis by (simp add: word_at_def word_bytes)
next
  case False
  then have "put_words i ws b ! (2 * k) = b ! (2 * k)" "put_words i ws b ! (2 * k + 1) = b ! (2 * k + 1)"
    using assms by (auto simp: put_words_def nth_append min_absorb2)
  with False show ?thesis by (auto simp: word_at_def)
qed

lemma length_put [simp]: "2 * (i + length ws) \<le> length b \<Longrightarrow> length (put_words i ws b) = length b"
  by (simp add: put_words_def)

lemma block_words_put:
  assumes "2 * (i + length ws) \<le> length b"
  shows "block_words (put_words i ws b) =
    take i (block_words b) @ ws @ drop (i + length ws) (block_words b)"
proof (rule nth_equalityI)
  show "length (block_words (put_words i ws b)) =
    length (take i (block_words b) @ ws @ drop (i + length ws) (block_words b))"
    using assms by (simp add: block_words_def)
next
  fix k assume "k < length (block_words (put_words i ws b))"
  then have k: "k < length b div 2" "2 * k + 1 < length b" using assms by (simp_all add: block_words_def)
  with assms show "block_words (put_words i ws b) ! k =
      (take i (block_words b) @ ws @ drop (i + length ws) (block_words b)) ! k"
    by (auto simp: block_words_def word_at_put nth_append min_def)
qed

lemma length_block_words [simp]: "length (block_words b) = length b div 2"
  by (simp add: block_words_def)

lemma word_at_block: "2 * k + 1 < length b \<Longrightarrow> word_at b k = block_words b ! k"
  by (simp add: block_words_def)
  
text \<open>The blocks \<open>CreateDevNames\<close> builds, as words.\<close>

definition devnames_words :: "wstring \<Rightarrow> wstring \<Rightarrow> wstring \<Rightarrow> bool \<Rightarrow> 16 word list" where
  "devnames_words driver device output is_default =
    [4, of_nat (5 + length driver), of_nat (6 + length driver + length device),
      if is_default then 1 else 0] @ driver @ [0] @ device @ [0] @ output @ [0]"

lemma fill_devnames_words:
  assumes "2 * length (devnames_words driver device output d) \<le> length b"
  shows "\<exists>tail. block_words (fill_devnames driver device output d b) =
    devnames_words driver device output d @ tail"
proof
  show "block_words (fill_devnames driver device output d b) =
    devnames_words driver device output d @
    drop (length (devnames_words driver device output d)) (block_words b)"
    using assms by (simp add: fill_devnames_def devnames_chars_def Let_def devnames_words_def
        block_words_put drop_Cons' take_Cons')
      (rule arg_cong2 [where f = drop]; simp)
qed

lemma copied_no_nul: "0 \<notin> set (copy_c_string p)"
  by (auto simp: copy_c_string_def c_str_def dest: set_takeWhileD split: option.splits)

lemma CreateDevNames_words:
  assumes "CreateDevNames A info is_default w = (Some m, w')"
    and "\<And>n w b w'. GlobalAlloc A n w = (Some b, w') \<Longrightarrow> n \<le> length b"
  defines "names \<equiv> devnames_words (copy_c_string (pDriverName info))
    (copy_c_string (pPrinterName info)) (copy_c_string (pPortName info)) is_default"
  shows "(\<exists>tail. block_words m = names @ tail) \<and> length names \<le> 65535"
proof -
  have total: "length names = 4 + length (copy_c_string (pDriverName info)) + 1 +
      length (copy_c_string (pPrinterName info)) + 1 + length (copy_c_string (pPortName info)) + 1"
    by (simp add: names_def devnames_words_def)
  obtain memory w1 where alloc: "Global_Allocate A (length names * 2) w = (memory, w1)" by fastforce
  with assms(1) obtain b where b: "length names \<le> 65535" "memory = Some b"
    "m = fill_devnames (copy_c_string (pDriverName info)) (copy_c_string (pPrinterName info))
      (copy_c_string (pPortName info)) is_default b"
    unfolding CreateDevNames_def Let_def devnames_chars_def total [symmetric]
    by (auto simp: Global_Lock_def split: if_splits option.splits)
  have "length names * 2 \<le> length b"
    using alloc b(2) assms(2) by (auto simp: Global_Allocate_def split: if_splits)
  with fill_devnames_words b(1,3) show ?thesis by (auto simp: names_def mult.commute)
qed

lemma block_word_fields:
  assumes "block_words m = devnames_words driver device output d @ tail"
    and "length (devnames_words driver device output d) \<le> 65535"
  shows "wDriverOffset m = 4" and "wDeviceOffset m = 5 + length driver"
    and "wOutputOffset m = 6 + length driver + length device" and "8 \<le> length m"
proof -
  have "length (block_words m) \<ge> 4" using assms(1) by (simp add: devnames_words_def)
  then show len: "8 \<le> length m" by simp
  have small: "unat (of_nat n :: 16 word) = n" if "n \<le> 65535" for n
    using that by (intro of_nat_inverse [OF refl]) simp
  show "wDriverOffset m = 4" "wDeviceOffset m = 5 + length driver"
    "wOutputOffset m = 6 + length driver + length device"
    using len assms small [of "5 + length driver"] small [of "6 + length driver + length device"]
    by (simp_all add: wDriverOffset_def wDeviceOffset_def wOutputOffset_def word_at_block
        devnames_words_def)
qed

lemma devnames_ok:
  assumes "block_words m = devnames_words driver device output d @ tail"
    and "length (devnames_words driver device output d) \<le> 65535"
  shows "dev_names_ok m"
  using assms
  by (simp add: dev_names_ok_def block_word_fields [OF assms] terminated_from_def
      devnames_words_def devnames_chars_def drop_Cons' del: length_block_words)

text \<open>The \<open>DEVNAMES\<close> round trip.  When allocation hands out at least the bytes asked for, every
  block \<open>CreateDevNames\<close> builds passes the validity check of \<open>PrinterSettings\<close>, and the printer name
  read back from it is the name it was built from.\<close>

theorem devnames_round_trip:
  assumes "CreateDevNames A info is_default w = (Some m, w')"
    and "\<And>n w b w'. GlobalAlloc A n w = (Some b, w') \<Longrightarrow> n \<le> length b"
    and "GlobalLock A m w''"
  shows "dev_names_ok m \<and>
    PrinterNameFromDevNames A (Some m) w'' = copy_c_string (pPrinterName info)"
proof -
  let ?driver = "copy_c_string (pDriverName info)" and ?device = "copy_c_string (pPrinterName info)"
  obtain tail where m: "block_words m = devnames_words ?driver ?device
      (copy_c_string (pPortName info)) is_default @ tail"
    "length (devnames_words ?driver ?device (copy_c_string (pPortName info)) is_default) \<le> 65535"
    using CreateDevNames_words [OF assms(1)] assms(2) by (metis (no_types, lifting))
  have "takeWhile (\<lambda>c. c \<noteq> 0) (?device @ 0 # rest) = ?device" for rest
    using copied_no_nul [of "pPrinterName info"] by (subst takeWhile_append2) auto
  moreover have "drop (5 + length ?driver) (block_words m) =
      ?device @ 0 # copy_c_string (pPortName info) @ 0 # tail"
    by (simp add: m(1) devnames_words_def drop_Cons')
  ultimately show ?thesis using devnames_ok [OF m] block_word_fields [OF m] assms(3) m(1)
    by (auto simp: PrinterNameFromDevNames_def Global_Lock_def sizeof_DEVNAMES_def
        terminated_from_def devnames_words_def Let_def simp del: length_block_words)
qed

definition example_printers :: "(unit, unit) printer_api" where
  "example_printers = \<lparr>GetDefaultPrinterW = \<lambda>_ _ w. ((False, [], 0), w),
    EnumPrintersW_size = \<lambda>w. (0, w), EnumPrintersW = \<lambda>_ w. (None, w),
    OpenPrinterW = \<lambda>_ w. (False, w), DocumentPropertiesW_size = \<lambda>_ w. (0, w),
    DocumentPropertiesW = \<lambda>_ b w. ((False, b), w), GetPrinterW_size = \<lambda>w. (0, w),
    GetPrinterW = \<lambda>_ w. (None, w), ClosePrinter = id, CreateICW = \<lambda>_ w. (None, w),
    CreateDCW = \<lambda>_ _ w. (None, w), GetDeviceCaps = \<lambda>_ _ _. 0, DeleteDC = \<lambda>_. id,
    PrintDlgExW = \<lambda>m n f w. ((\<lparr>dlg_hr = 0, dlg_action = 0, dlg_mode = m, dlg_names = n,
      dlg_flags = f, dlg_copies = 1\<rparr>, None), w),
    GlobalAlloc = \<lambda>n w. (Some (replicate n 0), w), GlobalLock = \<lambda>_ _. True,
    GetLastError = \<lambda>_. 0\<rparr>"

definition example_printer :: PRINTER_INFO_2W where
  "example_printer = \<lparr>pServerName = None, pPrinterName = Some (lit ''p''), pPortName = Some (lit ''o''),
    pDriverName = Some (lit ''d''), Attributes = 0, Status = 0\<rparr>"

theorem devnames_round_trip_witness:
  "PrinterNameFromDevNames example_printers
     (Some (fill_devnames (lit ''d'') (lit ''p'') (lit ''o'') True (replicate 20 0))) () = lit ''p''"
proof -
  have created: "CreateDevNames example_printers example_printer True () =
      (Some (fill_devnames (lit ''d'') (lit ''p'') (lit ''o'') True (replicate 20 0)), ())"
    by (simp add: CreateDevNames_def example_printers_def example_printer_def copy_c_string_def
        c_str_def Global_Allocate_def Global_Lock_def devnames_chars_def Let_def)
  have "dev_names_ok (fill_devnames (lit ''d'') (lit ''p'') (lit ''o'') True (replicate 20 0)) \<and>
    PrinterNameFromDevNames example_printers
      (Some (fill_devnames (lit ''d'') (lit ''p'') (lit ''o'') True (replicate 20 0))) () =
    copy_c_string (pPrinterName example_printer)"
    by (rule devnames_round_trip [OF created]) (auto simp: example_printers_def)
  then show ?thesis by (simp add: example_printer_def copy_c_string_def c_str_def)
qed

end
