(* ===== verification/Foundation.thy ===== *)
theory Foundation
  imports Windows_Errors
begin

text \<open>
  The vocabulary of \<open>core.h\<close>: errors with their domain, results, deadlines, and the outcome of an
  operation that can also time out, be cancelled or lose its peer.  A \<open>Result\<close> is a sum, with the
  error on the left.  Times are nanoseconds of the steady clock.
\<close>

datatype ErrorDomain =
    Domain_Win32 | Domain_HResult | Domain_Application | Domain_Protocol | Domain_Policy
  | Domain_InvalidUsage

record SystemError =
  err_domain :: ErrorDomain
  err_code :: dword
  err_operation :: wstring
  err_detail :: wstring

type_synonym 'a result = "SystemError + 'a"

definition SystemError_FromWin32 :: "dword \<Rightarrow> SystemError" where
  "SystemError_FromWin32 v = \<lparr>err_domain = Domain_Win32,
    err_code = (if v = ERROR_SUCCESS then ERROR_GEN_FAILURE else v),
    err_operation = [], err_detail = []\<rparr>"

definition SystemError_FromHResult :: "dword \<Rightarrow> SystemError" where
  "SystemError_FromHResult v = \<lparr>err_domain = Domain_HResult, err_code = v,
    err_operation = [], err_detail = []\<rparr>"

definition SystemError_in_domain :: "ErrorDomain \<Rightarrow> dword \<Rightarrow> wstring \<Rightarrow> SystemError" where
  "SystemError_in_domain d code detail = \<lparr>err_domain = d, err_code = code,
    err_operation = [], err_detail = detail\<rparr>"

definition SystemError_WithOperation :: "string \<Rightarrow> SystemError \<Rightarrow> SystemError" where
  "SystemError_WithOperation operation e = e\<lparr>err_operation := lit operation\<rparr>"

text \<open>The usual error of a failed call: its code and the operation.\<close>

definition failed_call :: "string \<Rightarrow> dword \<Rightarrow> SystemError" where
  "failed_call operation e = SystemError_WithOperation operation (SystemError_FromWin32 e)"

definition SystemError_IsSuccess :: "SystemError \<Rightarrow> bool" where
  "SystemError_IsSuccess e \<longleftrightarrow> err_code e = 0"

text \<open>\<open>FormatMessageW\<close> is the parameter \<open>format\<close>.\<close>

definition trim_message :: "wstring \<Rightarrow> wstring" where
  "trim_message m = rev (dropWhile (\<lambda>c. c = 0x0D \<or> c = 0x0A \<or> c = 0x20) (rev m))"

definition FormatSystemMessage :: "(dword \<Rightarrow> wstring option) \<Rightarrow> dword \<Rightarrow> wstring" where
  "FormatSystemMessage format code =
    (case format code of
       Some m \<Rightarrow> if m = [] then lit ''Windows error '' @ to_wstring (unat code) else trim_message m
     | None \<Rightarrow> lit ''Windows error '' @ to_wstring (unat code))"

definition SystemError_Message :: "(dword \<Rightarrow> wstring option) \<Rightarrow> SystemError \<Rightarrow> wstring" where
  "SystemError_Message format e =
    (let message = (if err_domain e = Domain_Win32 \<or> err_domain e = Domain_HResult
           then FormatSystemMessage format (err_code e)
           else lit ''MWFL error '' @ to_wstring (unat (err_code e)));
         message = (if err_detail e \<noteq> [] then message @ lit '': '' @ err_detail e else message)
     in if err_operation e = [] then message else err_operation e @ lit '': '' @ message)"

text \<open>What a call that takes a C string sees of a \<open>std::wstring\<close>.\<close>

definition until_nul :: "wstring \<Rightarrow> wstring" where
  "until_nul s = takeWhile (\<lambda>c. c \<noteq> 0) s"

lemma until_nul_id: "0 \<notin> set s \<Longrightarrow> until_nul s = s"
  by (auto simp: until_nul_def takeWhile_eq_all_conv)

text \<open>Sequencing of steps that may fail, on the state of the system.\<close>

definition and_then ::
  "('w \<Rightarrow> 'a result \<times> 'w) \<Rightarrow> ('a \<Rightarrow> 'w \<Rightarrow> 'b result \<times> 'w) \<Rightarrow> 'w \<Rightarrow> 'b result \<times> 'w" where
  "and_then m f w = (case m w of (Inl e, w1) \<Rightarrow> (Inl e, w1) | (Inr x, w1) \<Rightarrow> f x w1)"

definition succeed :: "'a \<Rightarrow> 'w \<Rightarrow> 'a result \<times> 'w" where
  "succeed x w = (Inr x, w)"

definition call_or_fail :: "string \<Rightarrow> ('w \<Rightarrow> (dword + 'a) \<times> 'w) \<Rightarrow> 'w \<Rightarrow> 'a result \<times> 'w" where
  "call_or_fail operation m w =
    (case m w of (Inl e, w1) \<Rightarrow> (Inl (failed_call operation e), w1) | (Inr x, w1) \<Rightarrow> (Inr x, w1))"

lemma and_then_Inr:
  "and_then m f w = (Inr y, w') \<longleftrightarrow> (\<exists>x w1. m w = (Inr x, w1) \<and> f x w1 = (Inr y, w'))"
  by (auto simp: and_then_def split: prod.splits sum.splits)

lemma succeed_Inr [simp]: "succeed x w = (Inr y, w') \<longleftrightarrow> y = x \<and> w' = w"
  by (auto simp: succeed_def)

lemma call_or_fail_Inr: "call_or_fail operation m w = (Inr x, w') \<longleftrightarrow> m w = (Inr x, w')"
  by (auto simp: call_or_fail_def split: prod.splits sum.splits)

section \<open>Deadlines\<close>

record Deadline =
  deadline_end :: int
  deadline_infinite :: bool

definition Deadline_Infinite :: Deadline where
  "Deadline_Infinite = \<lparr>deadline_end = 0, deadline_infinite = True\<rparr>"

definition Deadline_After :: "int \<Rightarrow> int \<Rightarrow> Deadline" where
  "Deadline_After now milliseconds =
    (if milliseconds < 0 then Deadline_Infinite
     else \<lparr>deadline_end = now + milliseconds * 1000000, deadline_infinite = False\<rparr>)"

definition Deadline_Expired :: "int \<Rightarrow> Deadline \<Rightarrow> bool" where
  "Deadline_Expired now d \<longleftrightarrow> \<not> deadline_infinite d \<and> deadline_end d \<le> now"

text \<open>\<open>ceil\<close> to milliseconds.\<close>

definition Deadline_Remaining :: "int \<Rightarrow> Deadline \<Rightarrow> int" where
  "Deadline_Remaining now d =
    (if deadline_infinite d then - 1
     else if deadline_end d \<le> now then 0
     else (deadline_end d - now + 999999) div 1000000)"

definition INFINITE_timeout :: dword where
  "INFINITE_timeout = 0xFFFFFFFF"

definition BoundedTimeout :: "int \<Rightarrow> Deadline \<Rightarrow> dword" where
  "BoundedTimeout now d =
    (let remaining = Deadline_Remaining now d
     in if remaining < 0 then INFINITE_timeout else of_int (min remaining 0xFFFFFFFE))"

section \<open>Outcomes\<close>

datatype CompletionStatus = Completed | TimedOut | Cancelled | Disconnected

record 'a OperationOutcome =
  outcome_status :: CompletionStatus
  outcome_value :: "'a option"

definition Outcome_Completed :: "'a \<Rightarrow> 'a OperationOutcome" where
  "Outcome_Completed v = \<lparr>outcome_status = Completed, outcome_value = Some v\<rparr>"

definition Outcome_Control :: "CompletionStatus \<Rightarrow> 'a OperationOutcome" where
  "Outcome_Control s = \<lparr>outcome_status = s, outcome_value = None\<rparr>"

datatype WaitObservation = Wait_Signaled | Wait_Abandoned

text \<open>
  The calls of \<open>WaitForHandle\<close>: whether a stop was requested, creation of the cancellation event, the
  wait for the handle or the event with a timeout, and the last error.  \<open>None\<close> is a handle that is
  null or invalid.
\<close>

record ('w, 'h) wait_api =
  stop_requested :: "'w \<Rightarrow> bool"
  create_event :: "'w \<Rightarrow> bool \<times> 'w"
  wait_two :: "'h \<Rightarrow> dword \<Rightarrow> 'w \<Rightarrow> dword \<times> 'w"
  wait_now :: "'w \<Rightarrow> int"
  wait_last_error :: "'w \<Rightarrow> dword"

definition WAIT_TIMEOUT :: dword where "WAIT_TIMEOUT = 258"

definition WaitForHandle ::
  "('w, 'h, 'z) wait_api_scheme \<Rightarrow> 'h option \<Rightarrow> Deadline \<Rightarrow> 'w \<Rightarrow> WaitObservation OperationOutcome result \<times> 'w" where
  "WaitForHandle A handle deadline w =
    (case handle of
       None \<Rightarrow> (Inl (SystemError_FromWin32 ERROR_INVALID_HANDLE), w)
     | Some h \<Rightarrow>
         if stop_requested A w then (Inr (Outcome_Control Cancelled), w)
         else case create_event A w of (created, w1) \<Rightarrow>
           if \<not> created then (Inl (SystemError_FromWin32 (wait_last_error A w1)), w1)
           else case wait_two A h (BoundedTimeout (wait_now A w1) deadline) w1 of (r, w2) \<Rightarrow>
             (if r = 0 then Inr (Outcome_Completed Wait_Signaled)
              else if r = 1 then Inr (Outcome_Control Cancelled)
              else if r = WAIT_TIMEOUT then Inr (Outcome_Control TimedOut)
              else if 0x80 \<le> r \<and> r < 0x82 then Inr (Outcome_Completed Wait_Abandoned)
              else Inl (SystemError_FromWin32 (wait_last_error A w2)), w2))"

text \<open>
  \<open>WaitForDelay\<close> (\<open>detail/foundation_wait.h\<close>): the retry delay of at least a millisecond, not past the
  deadline.  Creating the timer yields the handle or an error; the second call is the fallback without
  high resolution.
\<close>

record ('w, 'h) timer_api = "('w, 'h) wait_api" +
  create_precise_timer :: "'w \<Rightarrow> (dword + 'h) \<times> 'w"
  create_timer :: "'w \<Rightarrow> (dword + 'h) \<times> 'w"
  set_timer :: "'h \<Rightarrow> int \<Rightarrow> 'w \<Rightarrow> bool \<times> 'w"

definition retry_timer :: "('w, 'h, 'z) timer_api_scheme \<Rightarrow> 'w \<Rightarrow> (dword + 'h) \<times> 'w" where
  "retry_timer A w =
    (case create_precise_timer A w of
       (Inl e, w1) \<Rightarrow> if e = ERROR_INVALID_PARAMETER then create_timer A w1 else (Inl e, w1)
     | (Inr h, w1) \<Rightarrow> (Inr h, w1))"

definition retry_delay :: "int \<Rightarrow> Deadline \<Rightarrow> int \<Rightarrow> int" where
  "retry_delay now deadline delay =
    max (if deadline_infinite deadline then delay
         else min delay (Deadline_Remaining now deadline)) 1"

definition WaitForDelay ::
  "('w, 'h, 'z) timer_api_scheme \<Rightarrow> Deadline \<Rightarrow> int \<Rightarrow> 'w \<Rightarrow> CompletionStatus result \<times> 'w" where
  "WaitForDelay A deadline delay w =
    (if stop_requested A w then (Inr Cancelled, w)
     else if Deadline_Expired (wait_now A w) deadline then (Inr TimedOut, w)
     else case retry_timer A w of
       (Inl e, w1) \<Rightarrow> (Inl (SystemError_WithOperation ''Create retry timer'' (SystemError_FromWin32 e)), w1)
     | (Inr timer, w1) \<Rightarrow>
         (case set_timer A timer (- retry_delay (wait_now A w) deadline delay * 10000) w1 of
            (False, w2) \<Rightarrow>
              (Inl (SystemError_WithOperation ''Set retry timer''
                (SystemError_FromWin32 (wait_last_error A w2))), w2)
          | (True, w2) \<Rightarrow>
              (case WaitForHandle A (Some timer) deadline w2 of
                 (Inl e, w3) \<Rightarrow> (Inl e, w3)
               | (Inr r, w3) \<Rightarrow> (Inr (outcome_status r), w3))))"

lemma remaining_not_early:
  assumes "\<not> deadline_infinite d" and "now < deadline_end d"
  shows "deadline_end d \<le> now + Deadline_Remaining now d * 1000000"
    and "now + Deadline_Remaining now d * 1000000 < deadline_end d + 1000000"
proof -
  let ?n = "deadline_end d - now + 999999"
  have "?n = ?n div 1000000 * 1000000 + ?n mod 1000000" by (rule div_mult_mod_eq [symmetric])
  moreover have "0 \<le> ?n mod 1000000" "?n mod 1000000 < 1000000" by simp_all
  ultimately show "deadline_end d \<le> now + Deadline_Remaining now d * 1000000"
    "now + Deadline_Remaining now d * 1000000 < deadline_end d + 1000000"
    using assms by (auto simp: Deadline_Remaining_def)
qed

section \<open>Waiting takes time\<close>

text \<open>The steady clock never goes back, and waiting for a handle takes time.\<close>

definition waits_ok :: "('w, 'h, 'z) timer_api_scheme \<Rightarrow> bool" where
  "waits_ok A \<longleftrightarrow>
    (\<forall>w r w'. create_precise_timer A w = (r, w') \<longrightarrow> wait_now A w \<le> wait_now A w') \<and>
    (\<forall>w r w'. create_timer A w = (r, w') \<longrightarrow> wait_now A w \<le> wait_now A w') \<and>
    (\<forall>h due w r w'. set_timer A h due w = (r, w') \<longrightarrow> wait_now A w \<le> wait_now A w') \<and>
    (\<forall>w r w'. create_event A w = (r, w') \<longrightarrow> wait_now A w \<le> wait_now A w') \<and>
    (\<forall>h t w r w'. wait_two A h t w = (r, w') \<longrightarrow> wait_now A w < wait_now A w')"

lemma retry_timer_clock:
  assumes "waits_ok A" and "retry_timer A w = (r, w')"
  shows "wait_now A w \<le> wait_now A w'"
proof -
  obtain r1 w1 where precise: "create_precise_timer A w = (r1, w1)" by fastforce
  obtain r2 w2 where plain: "create_timer A w1 = (r2, w2)" by fastforce
  have "wait_now A w \<le> wait_now A w1" "wait_now A w1 \<le> wait_now A w2"
    using assms(1) precise plain unfolding waits_ok_def by blast+
  with assms(2) precise plain show ?thesis
    by (auto simp: retry_timer_def split: sum.splits if_splits)
qed

lemma WaitForHandle_clock:
  assumes "waits_ok A" and "WaitForHandle A (Some h) d w = (Inr r, w')" and "outcome_status r = Completed"
  shows "wait_now A w < wait_now A w'"
proof -
  obtain c w1 where event: "create_event A w = (c, w1)" by fastforce
  obtain x w2 where wait: "wait_two A h (BoundedTimeout (wait_now A w1) d) w1 = (x, w2)" by fastforce
  have "wait_now A w \<le> wait_now A w1" "wait_now A w1 < wait_now A w2"
    using assms(1) event wait unfolding waits_ok_def by blast+
  moreover have "w' = w2"
    using assms(2,3) event wait by (auto simp: WaitForHandle_def Outcome_Control_def split: if_splits)
  ultimately show ?thesis by simp
qed

text \<open>A retry delay that completes has taken time, and began before the deadline.\<close>

lemma WaitForDelay_clock:
  assumes "waits_ok A" and "WaitForDelay A d delay w = (Inr Completed, w')"
  shows "wait_now A w < wait_now A w'" and "\<not> Deadline_Expired (wait_now A w) d"
proof -
  from assms(2) obtain timer w1 where timer: "retry_timer A w = (Inr timer, w1)"
    by (auto simp: WaitForDelay_def split: if_splits prod.splits sum.splits)
  let ?due = "- retry_delay (wait_now A w) d delay * 10000"
  from assms(2) timer obtain w2 where set: "set_timer A timer ?due w1 = (True, w2)"
    by (auto simp: WaitForDelay_def split: if_splits prod.splits bool.splits)
  from assms(2) timer set obtain r where wait: "WaitForHandle A (Some timer) d w2 = (Inr r, w')"
    "outcome_status r = Completed"
    by (auto simp: WaitForDelay_def split: if_splits prod.splits sum.splits)
  have "wait_now A w1 \<le> wait_now A w2" using assms(1) set unfolding waits_ok_def by blast
  with retry_timer_clock [OF assms(1) timer] WaitForHandle_clock [OF assms(1) wait]
  show "wait_now A w < wait_now A w'" by simp
  show "\<not> Deadline_Expired (wait_now A w) d" using assms(2) by (auto simp: WaitForDelay_def split: if_splits)
qed

end
