(* ===== verification/Command_Line.thy ===== *)
theory Command_Line
  imports Foundation
begin

text \<open>
  Command lines (\<open>QuoteWindowsArgument\<close> in \<open>process.cpp\<close> and its copies in \<open>scheduler.cpp\<close> and
  \<open>deployment.cpp\<close>) and their documented reading: the rules by which Windows programs split a command
  line into arguments, in both variants (with and without the doubled quote inside quotes).
\<close>

abbreviation backslash :: wchar where "backslash \<equiv> 0x5C"
abbreviation dquote :: wchar where "dquote \<equiv> 0x22"

definition is_blank :: "wchar \<Rightarrow> bool" where
  "is_blank c \<longleftrightarrow> c = 0x20 \<or> c = 0x09"

definition needs_quotes :: "wstring \<Rightarrow> bool" where
  "needs_quotes a \<longleftrightarrow> a = [] \<or> list_ex (\<lambda>c. is_blank c \<or> c = dquote) a"

fun quote_from :: "nat \<Rightarrow> wstring \<Rightarrow> wstring" where
  "quote_from slashes [] = replicate (slashes * 2) backslash @ [dquote]"
| "quote_from slashes (c # cs) =
    (if c = backslash then quote_from (slashes + 1) cs
     else if c = dquote then replicate (slashes * 2 + 1) backslash @ dquote # quote_from 0 cs
     else replicate slashes backslash @ c # quote_from 0 cs)"

definition QuoteWindowsArgument :: "wstring \<Rightarrow> wstring" where
  "QuoteWindowsArgument a = (if \<not> needs_quotes a then a else dquote # quote_from 0 a)"

text \<open>The scheduler and the deployment code have a copy of the function each.\<close>

definition Scheduler_Quote :: "wstring \<Rightarrow> wstring" where
  "Scheduler_Quote a = (if \<not> needs_quotes a then a else dquote # quote_from 0 a)"

definition Deployment_Quote :: "wstring \<Rightarrow> wstring" where
  "Deployment_Quote a = (if \<not> needs_quotes a then a else dquote # quote_from 0 a)"

text \<open>\<open>Arguments\<close> of a scheduled task.\<close>

definition Scheduler_Arguments :: "wstring list \<Rightarrow> wstring" where
  "Scheduler_Arguments values =
    foldl (\<lambda>result a. (if result \<noteq> [] then result @ [0x20] else result) @ Scheduler_Quote a) [] values"

text \<open>The command line of a process and of a restarted application.\<close>

definition process_command :: "wstring \<Rightarrow> wstring list \<Rightarrow> wstring" where
  "process_command executable arguments =
    foldl (\<lambda>command a. command @ [0x20] @ QuoteWindowsArgument a)
      (QuoteWindowsArgument executable) arguments"

definition restart_command :: "wstring \<Rightarrow> wstring list \<Rightarrow> wstring" where
  "restart_command executable arguments =
    foldl (\<lambda>command a. command @ [0x20] @ Deployment_Quote a)
      (Deployment_Quote executable) arguments"

section \<open>The documented reading\<close>

text \<open>
  \<open>scan_argument d quoted n s\<close> reads one argument: \<open>n\<close> backslashes have just been read.  Backslashes
  count as themselves unless they end at a quotation mark: then each pair is one backslash, and an odd
  one makes the mark a character of the argument.  Any other mark begins or ends a quoted part; with
  \<open>d\<close>, two marks inside a quoted part are one mark.
\<close>

function scan_argument :: "bool \<Rightarrow> bool \<Rightarrow> nat \<Rightarrow> wstring \<Rightarrow> wstring \<times> wstring" where
  "scan_argument d quoted n [] = (replicate n backslash, [])"
| "scan_argument d quoted n (c # cs) =
    (if c = backslash then scan_argument d quoted (n + 1) cs
     else if c = dquote \<and> odd n then
       apfst ((@) (replicate (n div 2) backslash @ [dquote])) (scan_argument d quoted 0 cs)
     else if c = dquote \<and> quoted \<and> d \<and> cs \<noteq> [] \<and> hd cs = dquote then
       apfst ((@) (replicate (n div 2) backslash @ [dquote])) (scan_argument d quoted 0 (tl cs))
     else if c = dquote then
       apfst ((@) (replicate (n div 2) backslash)) (scan_argument d (\<not> quoted) 0 cs)
     else if \<not> quoted \<and> is_blank c then (replicate n backslash, c # cs)
     else apfst ((@) (replicate n backslash @ [c])) (scan_argument d quoted 0 cs))"
  by pat_completeness auto
termination
  by (relation "measure (\<lambda>(d, q, n, s). length s)") auto

lemma scan_shorter: "length (snd (scan_argument d q n s)) \<le> length s"
  by (induction d q n s rule: scan_argument.induct) auto

lemma scan_progress: "s \<noteq> [] \<Longrightarrow> \<not> is_blank (hd s) \<Longrightarrow>
    length (snd (scan_argument d False n s)) < length s"
  by (cases s) (auto simp: less_Suc_eq_le intro: scan_shorter order_trans [OF scan_shorter])

function split_arguments :: "bool \<Rightarrow> wstring \<Rightarrow> wstring list" where
  "split_arguments d s =
    (case dropWhile is_blank s of
       [] \<Rightarrow> []
     | c # cs \<Rightarrow>
         (case scan_argument d False 0 (c # cs) of (a, rest) \<Rightarrow> a # split_arguments d rest))"
  by pat_completeness auto
termination
proof (relation "measure (\<lambda>(d, s). length s)", goal_cases)
  case 1
  show ?case by simp
next
  case (2 d s c cs a rest)
  have "\<not> is_blank c" using 2(1) by (metis hd_dropWhile list.distinct(1) list.sel(1))
  then have "length rest < length (c # cs)"
    using 2(2) scan_progress [of "c # cs" d 0]
    by (metis list.distinct(1) list.sel(1) snd_conv)
  also have "length (c # cs) \<le> length s" by (metis 2(1) length_dropWhile_le)
  finally show ?case by simp
qed

declare split_arguments.simps [simp del]

section \<open>Quoted arguments are read back\<close>

definition argument_end :: "wstring \<Rightarrow> bool" where
  "argument_end s \<longleftrightarrow> s = [] \<or> is_blank (hd s)"

lemma blank_simps [simp]: "\<not> is_blank backslash" "\<not> is_blank dquote" "is_blank 0x20"
  by (simp_all add: is_blank_def)

lemma scan_backslashes:
  "scan_argument d q n (replicate k backslash @ s) = scan_argument d q (n + k) s"
  by (induction k arbitrary: n) simp_all

lemma scan_end: "argument_end s \<Longrightarrow> scan_argument d False n s = (replicate n backslash, s)"
  by (cases s) (auto simp: argument_end_def)

lemma end_not_quote: "argument_end s \<Longrightarrow> s \<noteq> [] \<Longrightarrow> hd s \<noteq> dquote"
  by (auto simp: argument_end_def)

lemma scan_quoted:
  "argument_end s \<Longrightarrow> scan_argument d True 0 (quote_from n a @ s) = (replicate n backslash @ a, s)"
proof (induction n a rule: quote_from.induct)
  case (1 n)
  have "scan_argument d True 0 (quote_from n [] @ s) = scan_argument d True (n * 2) (dquote # s)"
    by (simp add: scan_backslashes)
  also have "\<dots> = (replicate n backslash, s)"
    using 1 end_not_quote [OF 1] by (auto simp: scan_end)
  finally show ?case by simp
next
  case (2 n c cs)
  consider (slash) "c = backslash" | (mark) "c = dquote" | (other) "c \<noteq> backslash" "c \<noteq> dquote"
    by blast
  then show ?case
  proof cases
    case slash
    with 2 show ?thesis by (simp add: replicate_append_same)
  next
    case mark
    have "scan_argument d True 0 (quote_from n (c # cs) @ s) =
        scan_argument d True (n * 2 + 1) (dquote # quote_from 0 cs @ s)"
      using mark by (simp del: replicate_Suc scan_argument.simps add: scan_backslashes)
    also have "\<dots> = apfst ((@) (replicate n backslash @ [dquote]))
        (scan_argument d True 0 (quote_from 0 cs @ s))" by simp
    finally show ?thesis using 2 mark by simp
  next
    case other
    have "scan_argument d True 0 (quote_from n (c # cs) @ s) =
        scan_argument d True n (c # quote_from 0 cs @ s)"
      using other by (simp del: scan_argument.simps add: scan_backslashes)
    also have "\<dots> = apfst ((@) (replicate n backslash @ [c]))
        (scan_argument d True 0 (quote_from 0 cs @ s))" using other by simp
    finally show ?thesis using 2 other by simp
  qed
qed

lemma scan_plain:
  "argument_end s \<Longrightarrow> list_all (\<lambda>c. \<not> is_blank c \<and> c \<noteq> dquote) a \<Longrightarrow>
    scan_argument d False n (a @ s) = (replicate n backslash @ a, s)"
proof (induction a arbitrary: n)
  case Nil
  then show ?case by (simp add: scan_end)
next
  case (Cons c a)
  then show ?case
    by (cases "c = backslash") (simp_all add: replicate_append_same flip: append_assoc)
qed

lemma scan_argument_quoted:
  assumes "argument_end s"
  shows "scan_argument d False 0 (QuoteWindowsArgument a @ s) = (a, s)"
proof (cases "needs_quotes a")
  case True
  with assms show ?thesis by (simp add: QuoteWindowsArgument_def scan_quoted)
next
  case False
  with assms show ?thesis
    by (simp add: QuoteWindowsArgument_def needs_quotes_def scan_plain list_ex_iff list_all_iff)
qed

lemma quoted_start: "\<exists>c cs. QuoteWindowsArgument a = c # cs \<and> \<not> is_blank c"
  by (cases a) (auto simp: QuoteWindowsArgument_def needs_quotes_def)

fun spaced :: "wstring list \<Rightarrow> wstring" where
  "spaced [] = []"
| "spaced (a # as) = 0x20 # QuoteWindowsArgument a @ spaced as"

lemma argument_end_spaced [simp]: "argument_end (spaced as)"
  by (cases as) (simp_all add: argument_end_def)

lemma split_quoted:
  "argument_end s \<Longrightarrow>
    split_arguments d (QuoteWindowsArgument a @ s) = a # split_arguments d s"
  using quoted_start [of a] scan_argument_quoted [of s d a]
  by (subst split_arguments.simps) auto

lemma split_blank: "is_blank c \<Longrightarrow> split_arguments d (c # s) = split_arguments d s"
  by (subst (1 2) split_arguments.simps) simp

lemma split_spaced: "split_arguments d (spaced as) = as"
proof (induction as)
  case Nil
  then show ?case by (subst split_arguments.simps) simp
next
  case (Cons a as)
  then show ?case by (simp add: split_blank split_quoted)
qed

lemma command_spaced:
  "foldl (\<lambda>command a. command @ [0x20] @ QuoteWindowsArgument a) s as = s @ spaced as"
  by (induction as arbitrary: s) simp_all

lemma same_quotes: "Scheduler_Quote = QuoteWindowsArgument" "Deployment_Quote = QuoteWindowsArgument"
  by (rule ext; simp add: Scheduler_Quote_def Deployment_Quote_def QuoteWindowsArgument_def)+

lemma task_arguments_spaced:
  "Scheduler_Arguments (a # as) = QuoteWindowsArgument a @ spaced as"
proof -
  have "s \<noteq> [] \<Longrightarrow> foldl (\<lambda>r a. (if r \<noteq> [] then r @ [0x20] else r) @ Scheduler_Quote a) s as =
      s @ spaced as" for s
    by (induction as arbitrary: s) (simp_all add: same_quotes)
  then show ?thesis using quoted_start [of a]
    by (auto simp: Scheduler_Arguments_def same_quotes)
qed

lemma command_lines_split:
  "split_arguments d (process_command exe as) = exe # as"
  "split_arguments d (restart_command exe as) = exe # as"
  "split_arguments d (Scheduler_Arguments as) = as"
proof -
  show "split_arguments d (process_command exe as) = exe # as"
    "split_arguments d (restart_command exe as) = exe # as"
    by (simp_all add: process_command_def restart_command_def same_quotes
        command_spaced [simplified] split_quoted split_spaced)
  show "split_arguments d (Scheduler_Arguments as) = as"
  proof (cases as)
    case Nil
    then show ?thesis using split_spaced [of d "[]"] by (simp add: Scheduler_Arguments_def)
  next
    case (Cons a as')
    then show ?thesis by (simp add: task_arguments_spaced split_quoted split_spaced)
  qed
qed

lemma quote_from_units: "set (quote_from n a) \<subseteq> set a \<union> {backslash, dquote}"
  by (induction n a rule: quote_from.induct) auto

lemma quoted_units: "set (QuoteWindowsArgument a) \<subseteq> set a \<union> {backslash, dquote}"
  using quote_from_units [of 0 a] by (auto simp: QuoteWindowsArgument_def)

lemma command_units:
  "0 \<notin> set command \<Longrightarrow> \<forall>a \<in> set arguments. 0 \<notin> set a \<Longrightarrow>
    0 \<notin> set (foldl (\<lambda>command a. command @ [0x20] @ QuoteWindowsArgument a) command arguments)"
proof (induction arguments arbitrary: command)
  case Nil
  then show ?case by simp
next
  case (Cons a arguments)
  have "0 \<notin> set (QuoteWindowsArgument a)" using quoted_units [of a] Cons.prems(2) by auto
  with Cons show ?case by simp
qed

lemma process_command_units:
  assumes "\<forall>a \<in> set (executable # arguments). 0 \<notin> set a"
  shows "until_nul (process_command executable arguments) = process_command executable arguments"
proof -
  have "0 \<notin> set (QuoteWindowsArgument executable)" using quoted_units [of executable] assms by auto
  with assms have "0 \<notin> set (process_command executable arguments)"
    unfolding process_command_def by (intro command_units) auto
  then show ?thesis by (auto simp: until_nul_def takeWhile_eq_all_conv)
qed

text \<open>C20: Command lines are read back exactly.  Whatever the arguments contain (blanks, quotation
  marks, runs of backslashes, nothing at all), splitting the command line that the process, deployment
  and scheduler code builds gives the executable and the arguments again, under both variants of the
  documented rules for arguments (the name of the program itself reaches \<open>CreateProcessW\<close> separately).\<close>

theorem command_line_round_trip:
  "split_arguments d (process_command executable arguments) = executable # arguments \<and>
   split_arguments d (restart_command executable arguments) = executable # arguments \<and>
   split_arguments d (Scheduler_Arguments arguments) = arguments"
  by (simp add: command_lines_split)

end
