(* ===== verification/Little_Endian.thy ===== *)
theory Little_Endian
  imports Prelude
begin

text \<open>Machine words as bytes, least significant first, as the code stores and sends them.\<close>

fun le_bytes :: "nat \<Rightarrow> 'a::len word \<Rightarrow> u8 list" where
  "le_bytes 0 w = []"
| "le_bytes (Suc n) w = ucast w # le_bytes n (drop_bit 8 w)"

fun le_word :: "u8 list \<Rightarrow> 'a::len word" where
  "le_word [] = 0"
| "le_word (b # bs) = ucast b OR push_bit 8 (le_word bs)"

lemma length_le_bytes [simp]: "length (le_bytes n w) = n"
  by (induction n w rule: le_bytes.induct) simp_all

lemma le_word_bytes: "le_word (le_bytes n w) = take_bit (8 * n) w"
proof (induction n w rule: le_bytes.induct)
  case (1 w)
  then show ?case by simp
next
  case (2 n w)
  show ?case
    by (rule bit_eqI) (auto simp: 2 bit_simps)
qed

lemma le_round_trip:
  "LENGTH('a) = 8 * n \<Longrightarrow> le_word (le_bytes n (w :: 'a::len word)) = w"
  by (simp add: le_word_bytes take_bit_word_eq_self)

text \<open>Wide strings as bytes.\<close>

fun wide_bytes :: "wstring \<Rightarrow> u8 list" where
  "wide_bytes [] = []"
| "wide_bytes (c # cs) = le_bytes 2 c @ wide_bytes cs"

fun wide_of_bytes :: "u8 list \<Rightarrow> wstring" where
  "wide_of_bytes (a # b # rest) = le_word [a, b] # wide_of_bytes rest"
| "wide_of_bytes _ = []"

lemma length_wide_bytes [simp]: "length (wide_bytes s) = 2 * length s"
  by (induction s) simp_all

lemma wide_bytes_append: "wide_bytes (s @ t) = wide_bytes s @ wide_bytes t"
  by (induction s) simp_all

lemma wide_round_trip [simp]: "wide_of_bytes (wide_bytes s) = s"
proof (induction s)
  case Nil
  then show ?case by simp
next
  case (Cons c s)
  have "le_bytes 2 c = [le_bytes 2 c ! 0, le_bytes 2 c ! 1]"
    by (simp add: numeral_2_eq_2)
  moreover have "le_word (le_bytes 2 c) = c" by (rule le_round_trip) simp
  ultimately have "wide_of_bytes (le_bytes 2 c @ r) = c # wide_of_bytes r" for r
    by (metis append_Cons append_Nil wide_of_bytes.simps(1))
  with Cons show ?case by simp
qed

end
