(* ===== verification/Registry.thy ===== *)
theory Registry
  imports Little_Endian Windows_Errors
begin

text \<open>
  The registry calls of the settings code, as functions of the state \<open>'w\<close> of the system, and the
  contract the properties rest on.  A key handle is a \<open>'k\<close>; the root is fixed in the parameter.  The
  registry compares value names without regard to case: \<open>fold_name\<close> stands for that folding.  The
  contract speaks of what a key holds; reading reports it, writing changes one value or fails and
  changes nothing.  No other process writes meanwhile.
\<close>

record ('k, 'w) registry_api =
  RegCreateKeyExW :: "wstring \<Rightarrow> 'w \<Rightarrow> (dword \<times> 'k) \<times> 'w"
  RegOpenKeyExW :: "wstring \<Rightarrow> 'w \<Rightarrow> (dword \<times> 'k) \<times> 'w"
  RegSetValueExW :: "'k \<Rightarrow> wstring \<Rightarrow> dword \<Rightarrow> u8 list \<Rightarrow> 'w \<Rightarrow> dword \<times> 'w"
  RegQueryValueExW :: "'k \<Rightarrow> wstring \<Rightarrow> 'w \<Rightarrow> dword \<times> dword \<times> u8 list"
  RegDeleteValueW :: "'k \<Rightarrow> wstring \<Rightarrow> 'w \<Rightarrow> dword \<times> 'w"
  RegQueryInfoKeyW :: "'k \<Rightarrow> 'w \<Rightarrow> dword \<times> nat \<times> nat"
  RegDeleteKeyW :: "wstring \<Rightarrow> 'w \<Rightarrow> dword \<times> 'w"
  RegCloseKey :: "'k \<Rightarrow> 'w \<Rightarrow> 'w"

definition REG_SZ :: dword where "REG_SZ = 1"
definition REG_BINARY :: dword where "REG_BINARY = 3"
definition REG_DWORD :: dword where "REG_DWORD = 4"
definition REG_MULTI_SZ :: dword where "REG_MULTI_SZ = 7"
definition REG_QWORD :: dword where "REG_QWORD = 11"

lemmas reg_types = REG_SZ_def REG_BINARY_def REG_DWORD_def REG_MULTI_SZ_def REG_QWORD_def

type_synonym reg_values = "wstring \<Rightarrow> (dword \<times> u8 list) option"

definition registry_ok ::
  "('k, 'w) registry_api \<Rightarrow> (wstring \<Rightarrow> wstring) \<Rightarrow> ('w \<Rightarrow> wstring \<Rightarrow> reg_values) \<Rightarrow> ('k \<Rightarrow> wstring) \<Rightarrow>
    bool" where
  "registry_ok R fold_name contents key_of \<longleftrightarrow>
    (\<forall>path w e k w'. RegCreateKeyExW R path w = ((e, k), w') \<longrightarrow>
      contents w' = contents w \<and> (e = 0 \<longrightarrow> key_of k = path)) \<and>
    (\<forall>path w e k w'. RegOpenKeyExW R path w = ((e, k), w') \<longrightarrow>
      contents w' = contents w \<and> (e = 0 \<longrightarrow> key_of k = path)) \<and>
    (\<forall>k w. contents (RegCloseKey R k w) = contents w) \<and>
    (\<forall>k name type data w e w'. RegSetValueExW R k name type data w = (e, w') \<longrightarrow>
      contents w' = (if e = 0
        then (contents w)(key_of k := (contents w (key_of k))(fold_name name := Some (type, data)))
        else contents w)) \<and>
    (\<forall>k name w e w'. RegDeleteValueW R k name w = (e, w') \<longrightarrow>
      contents w' = (if e = 0
        then (contents w)(key_of k := (contents w (key_of k))(fold_name name := None))
        else contents w) \<and>
      (e = ERROR_FILE_NOT_FOUND \<longrightarrow> contents w (key_of k) (fold_name name) = None)) \<and>
    (\<forall>k name w. RegQueryValueExW R k name w =
      (case contents w (key_of k) (fold_name name) of
         Some (type, data) \<Rightarrow> (0, type, data) | None \<Rightarrow> (ERROR_FILE_NOT_FOUND, 0, [])))"

lemma registry_create:
  assumes "registry_ok R f contents key_of" and "RegCreateKeyExW R path w = ((e, k), w')"
  shows "contents w' = contents w" and "e = 0 \<Longrightarrow> key_of k = path"
  using assms unfolding registry_ok_def by metis+

lemma registry_open:
  assumes "registry_ok R f contents key_of" and "RegOpenKeyExW R path w = ((e, k), w')"
  shows "contents w' = contents w" and "e = 0 \<Longrightarrow> key_of k = path"
  using assms unfolding registry_ok_def by metis+

lemma registry_close [simp]:
  "registry_ok R f contents key_of \<Longrightarrow> contents (RegCloseKey R k w) = contents w"
  unfolding registry_ok_def by blast

lemma registry_set:
  assumes "registry_ok R f contents key_of" and "RegSetValueExW R k name type data w = (e, w')"
  shows "contents w' = (if e = 0
    then (contents w)(key_of k := (contents w (key_of k))(f name := Some (type, data)))
    else contents w)"
  using assms unfolding registry_ok_def by metis

lemma registry_delete:
  assumes "registry_ok R f contents key_of" and "RegDeleteValueW R k name w = (e, w')"
  shows "contents w' = (if e = 0
      then (contents w)(key_of k := (contents w (key_of k))(f name := None)) else contents w)"
    and "e = ERROR_FILE_NOT_FOUND \<Longrightarrow> contents w (key_of k) (f name) = None"
  using assms unfolding registry_ok_def by metis+

lemma registry_query:
  assumes "registry_ok R f contents key_of"
  shows "RegQueryValueExW R k name w =
    (case contents w (key_of k) (f name) of
       Some (type, data) \<Rightarrow> (0, type, data) | None \<Rightarrow> (ERROR_FILE_NOT_FOUND, 0, []))"
  using assms unfolding registry_ok_def by metis

lemma registry_deleted:
  assumes "registry_ok R f contents key_of" and "RegDeleteValueW R k name w = (e, w')"
    and "e = 0 \<or> e = ERROR_FILE_NOT_FOUND"
  shows "contents w' = (contents w)(key_of k := (contents w (key_of k))(f name := None))"
  using registry_delete [OF assms(1,2)] assms(3) by (auto simp: win_errors fun_eq_iff)

section \<open>A registry in memory\<close>

text \<open>
  An instance for the examples: the state maps paths to values, a handle is
  its path, names are folded by \<open>fold_ascii\<close>, and every call succeeds.
\<close>

definition fold_ascii :: "wstring \<Rightarrow> wstring" where
  "fold_ascii = map (\<lambda>c. if 0x61 \<le> c \<and> c \<le> 0x7A then c - 0x20 else c)"

definition memory_registry :: "(wstring, wstring \<Rightarrow> reg_values) registry_api" where
  "memory_registry = \<lparr>
    RegCreateKeyExW = \<lambda>path w. ((0, path), w),
    RegOpenKeyExW = \<lambda>path w. ((0, path), w),
    RegSetValueExW = \<lambda>k name type data w.
      (0, w(k := (w k)(fold_ascii name := Some (type, data)))),
    RegQueryValueExW = \<lambda>k name w. (case w k (fold_ascii name) of
      Some (type, data) \<Rightarrow> (0, type, data) | None \<Rightarrow> (ERROR_FILE_NOT_FOUND, 0, [])),
    RegDeleteValueW = \<lambda>k name w.
      (case w k (fold_ascii name) of
         None \<Rightarrow> (ERROR_FILE_NOT_FOUND, w)
       | Some _ \<Rightarrow> (0, w(k := (w k)(fold_ascii name := None)))),
    RegQueryInfoKeyW = \<lambda>k w. (0, 0, 0),
    RegDeleteKeyW = \<lambda>path w. (0, w(path := (\<lambda>_. None))),
    RegCloseKey = \<lambda>k w. w\<rparr>"

lemma memory_registry_ok: "registry_ok memory_registry fold_ascii (\<lambda>w. w) (\<lambda>k. k)"
  unfolding registry_ok_def
  by (auto simp: memory_registry_def ERROR_FILE_NOT_FOUND_def split: option.splits)

end
