(* ===== verification/Settings_Store.thy ===== *)
theory Settings_Store
  imports Registry
begin

text \<open>
  The versioned settings store (\<open>settings_store.h\<close>, \<open>settings_store.cpp\<close>): values of four types under
  one registry key, with \<open>SchemaVersion\<close> as the commit marker that \<open>Save\<close> removes first and writes last.
\<close>

datatype SettingType = Setting_dword | Setting_qword | Setting_string | Setting_binary

datatype VersionedSettingsStatus =
    Settings_success | Settings_not_found | Settings_version_mismatch | Settings_malformed
  | Settings_access_denied | Settings_invalid_argument | Settings_failed

datatype SettingData =
    Data_dword u32 | Data_qword u64 | Data_string wstring | Data_binary "u8 list"

record SettingValue =
  sv_name :: wstring
  sv_data :: SettingData

record SettingDefinition =
  sd_name :: wstring
  sd_type :: SettingType
  sd_maximum_bytes :: nat
  sd_required :: bool

record SettingsResult =
  sr_values :: "SettingValue list"
  sr_status :: VersionedSettingsStatus
  sr_error :: dword

record VersionedSettingsStore =
  store_root_set :: bool
  store_subkey :: wstring
  store_schema_version :: u32

definition MapSettingsError :: "dword \<Rightarrow> VersionedSettingsStatus" where
  "MapSettingsError e =
    (if e = ERROR_SUCCESS then Settings_success
     else if e = ERROR_FILE_NOT_FOUND \<or> e = ERROR_PATH_NOT_FOUND then Settings_not_found
     else if e = ERROR_ACCESS_DENIED then Settings_access_denied
     else if e = ERROR_INVALID_DATA \<or> e = ERROR_DATATYPE_MISMATCH then Settings_malformed
     else if e = ERROR_INVALID_PARAMETER then Settings_invalid_argument
     else Settings_failed)"

definition ValidName :: "wstring \<Rightarrow> bool" where
  "ValidName s \<longleftrightarrow> s \<noteq> [] \<and> 0 \<notin> set s"

fun NativeType :: "SettingType \<Rightarrow> dword" where
  "NativeType Setting_dword = REG_DWORD"
| "NativeType Setting_qword = REG_QWORD"
| "NativeType Setting_string = REG_SZ"
| "NativeType Setting_binary = REG_BINARY"

fun GetSettingType :: "SettingData \<Rightarrow> SettingType" where
  "GetSettingType (Data_dword d) = Setting_dword"
| "GetSettingType (Data_qword q) = Setting_qword"
| "GetSettingType (Data_string s) = Setting_string"
| "GetSettingType (Data_binary b) = Setting_binary"

definition FindSetting :: "SettingValue list \<Rightarrow> wstring \<Rightarrow> SettingValue option" where
  "FindSetting vs name = find (\<lambda>v. sv_name v = name) vs"

definition schema_version_name :: wstring where
  "schema_version_name = lit ''SchemaVersion''"

definition invalid_write :: "VersionedSettingsStatus \<times> dword" where
  "invalid_write = (Settings_invalid_argument, ERROR_INVALID_PARAMETER)"

text \<open>The pass over the names: valid, not the marker, and different from each earlier one.\<close>

fun names_ok :: "wstring list \<Rightarrow> wstring list \<Rightarrow> bool" where
  "names_ok earlier [] = True"
| "names_ok earlier (n # ns) =
    (ValidName n \<and> n \<noteq> schema_version_name \<and> n \<notin> set earlier \<and> names_ok (n # earlier) ns)"

text \<open>The bytes of one value; \<open>None\<close> is the early return for a string with a NUL or too much data.\<close>

definition maximum_dword :: nat where
  "maximum_dword = 2 ^ 32 - 1"

fun setting_bytes :: "SettingData \<Rightarrow> u8 list option" where
  "setting_bytes (Data_dword d) = Some (le_bytes 4 d)"
| "setting_bytes (Data_qword q) = Some (le_bytes 8 q)"
| "setting_bytes (Data_string s) =
    (if 0 \<in> set s \<or> maximum_dword div 2 - 1 < length s then None else Some (wide_bytes (s @ [0])))"
| "setting_bytes (Data_binary b) = (if maximum_dword < length b then None else Some b)"

fun write_values ::
  "('k, 'w) registry_api \<Rightarrow> 'k \<Rightarrow> SettingValue list \<Rightarrow> 'w \<Rightarrow>
    (VersionedSettingsStatus \<times> dword) option \<times> 'w" where
  "write_values R key [] w = (None, w)"
| "write_values R key (v # vs) w =
    (case setting_bytes (sv_data v) of
       None \<Rightarrow> (Some invalid_write, w)
     | Some bytes \<Rightarrow>
         (case RegSetValueExW R key (sv_name v) (NativeType (GetSettingType (sv_data v))) bytes w of
            (error, w1) \<Rightarrow>
              if error \<noteq> ERROR_SUCCESS then (Some (MapSettingsError error, error), w1)
              else write_values R key vs w1))"

definition VersionedSettingsStore_Save ::
  "('k, 'w) registry_api \<Rightarrow> VersionedSettingsStore \<Rightarrow> SettingValue list \<Rightarrow> 'w \<Rightarrow>
    (VersionedSettingsStatus \<times> dword) \<times> 'w" where
  "VersionedSettingsStore_Save R store vs w =
    (if \<not> store_root_set store \<or> \<not> ValidName (store_subkey store) \<or> store_schema_version store = 0
     then (invalid_write, w)
     else if \<not> names_ok [] (map sv_name vs) then (invalid_write, w)
     else case RegCreateKeyExW R (store_subkey store) w of ((error, key), w1) \<Rightarrow>
       if error \<noteq> ERROR_SUCCESS then ((MapSettingsError error, error), w1)
       else case RegDeleteValueW R key schema_version_name w1 of (error, w2) \<Rightarrow>
         if error \<noteq> ERROR_SUCCESS \<and> error \<noteq> ERROR_FILE_NOT_FOUND
         then ((MapSettingsError error, error), RegCloseKey R key w2)
         else case write_values R key vs w2 of
             (Some failure, w3) \<Rightarrow> (failure, RegCloseKey R key w3)
           | (None, w3) \<Rightarrow>
               (case RegSetValueExW R key schema_version_name REG_DWORD
                   (le_bytes 4 (store_schema_version store)) w3 of
                  (error, w4) \<Rightarrow> ((MapSettingsError error, error), RegCloseKey R key w4)))"

section \<open>Loading\<close>

fun definitions_ok :: "wstring list \<Rightarrow> SettingDefinition list \<Rightarrow> bool" where
  "definitions_ok earlier [] = True"
| "definitions_ok earlier (d # ds) =
    (ValidName (sd_name d) \<and> sd_maximum_bytes d \<noteq> 0 \<and> sd_name d \<notin> set earlier \<and>
     definitions_ok (sd_name d # earlier) ds)"

definition type_fits :: "SettingDefinition \<Rightarrow> dword \<Rightarrow> nat \<Rightarrow> bool" where
  "type_fits d native_type bytes \<longleftrightarrow>
    \<not> (native_type \<noteq> NativeType (sd_type d) \<or> sd_maximum_bytes d < bytes \<or>
       (sd_type d = Setting_dword \<and> bytes \<noteq> 4) \<or> (sd_type d = Setting_qword \<and> bytes \<noteq> 8) \<or>
       (sd_type d = Setting_string \<and> (bytes < 2 \<or> bytes mod 2 \<noteq> 0)))"

fun setting_of_bytes :: "SettingType \<Rightarrow> u8 list \<Rightarrow> SettingData option" where
  "setting_of_bytes Setting_dword b = Some (Data_dword (le_word b))"
| "setting_of_bytes Setting_qword b = Some (Data_qword (le_word b))"
| "setting_of_bytes Setting_string b =
    (let s = wide_of_bytes b
     in if last s \<noteq> 0 \<or> 0 \<in> set (butlast s) then None else Some (Data_string (butlast s)))"
| "setting_of_bytes Setting_binary b = Some (Data_binary b)"

text \<open>One definition: \<open>Inl\<close> ends the load, \<open>Inr None\<close> skips an optional value.\<close>

definition read_value ::
  "('k, 'w) registry_api \<Rightarrow> 'k \<Rightarrow> SettingDefinition \<Rightarrow> 'w \<Rightarrow>
    (VersionedSettingsStatus \<times> dword) + SettingValue option" where
  "read_value R key d w =
    (case RegQueryValueExW R key (sd_name d) w of (error, native_type, data) \<Rightarrow>
      if error = ERROR_FILE_NOT_FOUND \<and> \<not> sd_required d then Inr None
      else if error \<noteq> ERROR_SUCCESS then Inl (MapSettingsError error, error)
      else if \<not> type_fits d native_type (length data) then Inl (Settings_malformed, ERROR_INVALID_DATA)
      else case setting_of_bytes (sd_type d) data of
          None \<Rightarrow> Inl (Settings_malformed, ERROR_INVALID_DATA)
        | Some item \<Rightarrow> Inr (Some \<lparr>sv_name = sd_name d, sv_data = item\<rparr>))"

fun read_values ::
  "('k, 'w) registry_api \<Rightarrow> 'k \<Rightarrow> SettingDefinition list \<Rightarrow> SettingValue list \<Rightarrow> 'w \<Rightarrow>
    SettingsResult" where
  "read_values R key [] acc w =
    \<lparr>sr_values = acc, sr_status = Settings_success, sr_error = ERROR_SUCCESS\<rparr>"
| "read_values R key (d # ds) acc w =
    (case read_value R key d w of
       Inl (status, error) \<Rightarrow> \<lparr>sr_values = acc, sr_status = status, sr_error = error\<rparr>
     | Inr None \<Rightarrow> read_values R key ds acc w
     | Inr (Some v) \<Rightarrow> read_values R key ds (acc @ [v]) w)"

definition load_stopped :: "VersionedSettingsStatus \<Rightarrow> dword \<Rightarrow> SettingsResult" where
  "load_stopped status error = \<lparr>sr_values = [], sr_status = status, sr_error = error\<rparr>"

text \<open>
  \<open>RegGetValueW\<close> with \<open>RRF_RT_REG_DWORD\<close> is the query of the value with a check of its type; a value
  of another type is \<open>ERROR_UNSUPPORTED_TYPE\<close>.
\<close>

definition ERROR_UNSUPPORTED_TYPE :: dword where "ERROR_UNSUPPORTED_TYPE = 1630"

definition get_dword :: "('k, 'w) registry_api \<Rightarrow> 'k \<Rightarrow> wstring \<Rightarrow> 'w \<Rightarrow> dword \<times> u8 list" where
  "get_dword R key name w =
    (case RegQueryValueExW R key name w of (error, type, data) \<Rightarrow>
      if error = ERROR_SUCCESS \<and> type \<noteq> REG_DWORD then (ERROR_UNSUPPORTED_TYPE, [])
      else (error, data))"

definition VersionedSettingsStore_Load ::
  "('k, 'w) registry_api \<Rightarrow> VersionedSettingsStore \<Rightarrow> SettingDefinition list \<Rightarrow> 'w \<Rightarrow>
    SettingsResult \<times> 'w" where
  "VersionedSettingsStore_Load R store schema w =
    (if \<not> store_root_set store \<or> \<not> ValidName (store_subkey store) \<or> store_schema_version store = 0
     then (load_stopped Settings_invalid_argument ERROR_INVALID_PARAMETER, w)
     else if \<not> definitions_ok [] schema
     then (load_stopped Settings_invalid_argument ERROR_INVALID_PARAMETER, w)
     else case RegOpenKeyExW R (store_subkey store) w of ((error, key), w1) \<Rightarrow>
       if error \<noteq> ERROR_SUCCESS then (load_stopped (MapSettingsError error) error, w1)
       else case get_dword R key schema_version_name w1 of (error, data) \<Rightarrow>
         (if error \<noteq> ERROR_SUCCESS \<or> length data \<noteq> 4
          then load_stopped
            (if error = ERROR_FILE_NOT_FOUND then Settings_malformed else MapSettingsError error)
            (if error = ERROR_SUCCESS then ERROR_INVALID_DATA else error)
          else if le_word data \<noteq> store_schema_version store
          then load_stopped Settings_version_mismatch ERROR_REVISION_MISMATCH
          else read_values R key schema [] w1,
          RegCloseKey R key w1))"

section \<open>Removing\<close>

fun delete_values ::
  "('k, 'w) registry_api \<Rightarrow> 'k \<Rightarrow> wstring list \<Rightarrow> 'w \<Rightarrow>
    (VersionedSettingsStatus \<times> dword) option \<times> 'w" where
  "delete_values R key [] w = (None, w)"
| "delete_values R key (n # ns) w =
    (case RegDeleteValueW R key n w of (error, w1) \<Rightarrow>
      if error \<noteq> ERROR_SUCCESS \<and> error \<noteq> ERROR_FILE_NOT_FOUND
      then (Some (MapSettingsError error, error), w1)
      else delete_values R key ns w1)"

definition VersionedSettingsStore_RemoveOwned ::
  "('k, 'w) registry_api \<Rightarrow> VersionedSettingsStore \<Rightarrow> wstring list \<Rightarrow> 'w \<Rightarrow>
    (VersionedSettingsStatus \<times> dword) \<times> 'w" where
  "VersionedSettingsStore_RemoveOwned R store owned w =
    (if \<not> store_root_set store \<or> \<not> ValidName (store_subkey store) then (invalid_write, w)
     else if \<not> names_ok [] owned then (invalid_write, w)
     else case RegOpenKeyExW R (store_subkey store) w of ((error, key), w1) \<Rightarrow>
       if error = ERROR_FILE_NOT_FOUND then ((Settings_not_found, error), w1)
       else if error \<noteq> ERROR_SUCCESS then ((MapSettingsError error, error), w1)
       else case delete_values R key (owned @ [schema_version_name]) w1 of
           (Some failure, w2) \<Rightarrow> (failure, RegCloseKey R key w2)
         | (None, w2) \<Rightarrow>
             (case RegQueryInfoKeyW R key w2 of (error, subkeys, remaining) \<Rightarrow>
               let w3 = RegCloseKey R key w2
               in if error \<noteq> ERROR_SUCCESS then ((MapSettingsError error, error), w3)
                  else if subkeys \<noteq> 0 \<or> remaining \<noteq> 0
                  then ((Settings_success, ERROR_SUCCESS), w3)
                  else case RegDeleteKeyW R (store_subkey store) w3 of (error, w4) \<Rightarrow>
                    if error = ERROR_SUCCESS \<or> error = ERROR_FILE_NOT_FOUND
                    then ((Settings_success, ERROR_SUCCESS), w4)
                    else ((MapSettingsError error, error), w4)))"

end
