(* ===== verification/Settings_Transaction.thy ===== *)
theory Settings_Transaction
  imports Settings_Store
begin

text \<open>
  What the settings store guarantees on a registry that keeps its contract: saved values are loaded
  back exactly, and a save that does not succeed leaves either the old contents or nothing loadable.
\<close>

lemma MapSettingsError_success [simp]: "MapSettingsError e = Settings_success \<longleftrightarrow> e = ERROR_SUCCESS"
  by (simp add: MapSettingsError_def)

lemma zero_success [simp]: "ERROR_SUCCESS = 0"
  by (simp add: ERROR_SUCCESS_def)

lemma not_found_code [simp]: "ERROR_FILE_NOT_FOUND \<noteq> 0" "0 \<noteq> ERROR_FILE_NOT_FOUND"
  by (simp_all add: ERROR_FILE_NOT_FOUND_def)

lemma write_values_failure:
  "write_values R key vs w = (Some (status, e), w') \<Longrightarrow> status \<noteq> Settings_success"
  by (induction vs arbitrary: w) (auto simp: invalid_write_def split: option.splits prod.splits if_splits)

text \<open>The identifiers of values that cannot be confused by the registry.\<close>

definition unambiguous :: "(wstring \<Rightarrow> wstring) \<Rightarrow> SettingValue list \<Rightarrow> bool" where
  "unambiguous f vs \<longleftrightarrow> distinct (map (\<lambda>v. f (sv_name v)) vs) \<and>
    f schema_version_name \<notin> (\<lambda>v. f (sv_name v)) ` set vs"

lemma write_values_frame:
  assumes "registry_ok R f contents key_of"
  shows "write_values R key vs w = (r, w') \<Longrightarrow> n \<notin> (\<lambda>v. f (sv_name v)) ` set vs \<Longrightarrow>
    contents w' (key_of key) n = contents w (key_of key) n"
proof (induction vs arbitrary: w)
  case Nil
  then show ?case by simp
next
  case (Cons v vs)
  show ?case
  proof (cases "setting_bytes (sv_data v)")
    case None
    with Cons.prems show ?thesis by simp
  next
    case (Some bytes)
    obtain e w1 where set: "RegSetValueExW R key (sv_name v) (NativeType (GetSettingType (sv_data v)))
        bytes w = (e, w1)" by fastforce
    have "contents w1 (key_of key) n = contents w (key_of key) n"
      using registry_set [OF assms set] Cons.prems(2) by simp
    with Some set Cons show ?thesis by (auto split: if_splits)
  qed
qed

lemma write_values_done:
  assumes "registry_ok R f contents key_of"
  shows "write_values R key vs w = (None, w') \<Longrightarrow> distinct (map (\<lambda>v. f (sv_name v)) vs) \<Longrightarrow>
    v \<in> set vs \<Longrightarrow> \<exists>bytes. setting_bytes (sv_data v) = Some bytes \<and>
      contents w' (key_of key) (f (sv_name v)) =
        Some (NativeType (GetSettingType (sv_data v)), bytes)"
proof (induction vs arbitrary: w)
  case Nil
  then show ?case by simp
next
  case (Cons x vs)
  from Cons.prems(1) obtain bytes where bytes: "setting_bytes (sv_data x) = Some bytes"
    by (auto split: option.splits)
  obtain e w1 where set: "RegSetValueExW R key (sv_name x) (NativeType (GetSettingType (sv_data x)))
      bytes w = (e, w1)" by fastforce
  from Cons.prems(1) bytes set have rest: "e = 0" "write_values R key vs w1 = (None, w')"
    by (auto split: if_splits)
  show ?case
  proof (cases "v \<in> set vs")
    case True
    with Cons.IH [OF rest(2)] Cons.prems(2) show ?thesis by simp
  next
    case False
    with Cons.prems(3) have v: "v = x" by simp
    have "contents w1 (key_of key) (f (sv_name x)) =
        Some (NativeType (GetSettingType (sv_data x)), bytes)"
      using registry_set [OF assms set] rest(1) by simp
    moreover have "f (sv_name x) \<notin> (\<lambda>v. f (sv_name v)) ` set vs" using Cons.prems(2) by simp
    ultimately show ?thesis
      using write_values_frame [OF assms rest(2)] bytes v by simp
  qed
qed

text \<open>Every value survives the way through its bytes.\<close>

lemma setting_bytes_back:
  "setting_bytes d = Some b \<Longrightarrow> setting_of_bytes (GetSettingType d) b = Some d"
  by (cases d) (auto simp: le_round_trip wide_bytes_append [symmetric] split: if_splits
      simp del: wide_bytes.simps)

lemma setting_bytes_fit:
  "setting_bytes d = Some b \<Longrightarrow> sd_type t = GetSettingType d \<Longrightarrow> length b \<le> sd_maximum_bytes t \<Longrightarrow>
    type_fits t (NativeType (sd_type t)) (length b)"
  by (cases d) (auto simp: type_fits_def split: if_splits)

definition describes :: "SettingDefinition \<Rightarrow> SettingValue \<Rightarrow> bool" where
  "describes t v \<longleftrightarrow> sd_name t = sv_name v \<and> sd_type t = GetSettingType (sv_data v) \<and>
    0 < sd_maximum_bytes t \<and>
    (\<forall>b. setting_bytes (sv_data v) = Some b \<longrightarrow> length b \<le> sd_maximum_bytes t)"

lemma definitions_ok_described:
  "list_all2 describes ts vs \<Longrightarrow> names_ok earlier (map sv_name vs) \<Longrightarrow> definitions_ok earlier ts"
proof (induction ts vs arbitrary: earlier rule: list_all2_induct)
  case Nil
  then show ?case by simp
next
  case (Cons t ts v vs)
  then show ?case by (simp add: describes_def)
qed

lemma read_values_present:
  assumes "registry_ok R f contents key_of"
  shows "list_all2 describes ts vs \<Longrightarrow>
    \<forall>v \<in> set vs. \<exists>b. setting_bytes (sv_data v) = Some b \<and>
      contents w (key_of key) (f (sv_name v)) = Some (NativeType (GetSettingType (sv_data v)), b) \<Longrightarrow>
    read_values R key ts acc w =
      \<lparr>sr_values = acc @ vs, sr_status = Settings_success, sr_error = ERROR_SUCCESS\<rparr>"
proof (induction ts vs arbitrary: acc rule: list_all2_induct)
  case Nil
  then show ?case by simp
next
  case (Cons t ts v vs)
  then obtain b where b: "setting_bytes (sv_data v) = Some b"
    "contents w (key_of key) (f (sv_name v)) = Some (NativeType (GetSettingType (sv_data v)), b)"
    by auto
  have t: "sd_name t = sv_name v" "sd_type t = GetSettingType (sv_data v)"
    "length b \<le> sd_maximum_bytes t"
    using Cons.hyps(1) b(1) by (auto simp: describes_def)
  have "read_value R key t w = Inr (Some v)"
    using b t setting_bytes_fit [OF b(1) t(2,3)] setting_bytes_back [OF b(1)]
    by (simp add: read_value_def registry_query [OF assms])
  with Cons show ?case by simp
qed

lemma Save_success:
  assumes "registry_ok R f contents key_of"
    and "VersionedSettingsStore_Save R store vs w = ((Settings_success, e), w')"
    and "unambiguous f vs"
  shows "store_root_set store \<and> ValidName (store_subkey store) \<and> store_schema_version store \<noteq> 0"
    and "names_ok [] (map sv_name vs)"
    and "contents w' (store_subkey store) (f schema_version_name) =
      Some (REG_DWORD, le_bytes 4 (store_schema_version store))"
    and "\<forall>v \<in> set vs. \<exists>b. setting_bytes (sv_data v) = Some b \<and>
      contents w' (store_subkey store) (f (sv_name v)) =
        Some (NativeType (GetSettingType (sv_data v)), b)"
proof -
  show guards: "store_root_set store \<and> ValidName (store_subkey store) \<and>
      store_schema_version store \<noteq> 0" "names_ok [] (map sv_name vs)"
    using assms(2) by (auto simp: VersionedSettingsStore_Save_def invalid_write_def split: if_splits)
  obtain e1 key w1 where create: "RegCreateKeyExW R (store_subkey store) w = ((e1, key), w1)"
    by (metis prod.exhaust)
  obtain e2 w2 where delete: "RegDeleteValueW R key schema_version_name w1 = (e2, w2)" by fastforce
  obtain r w3 where wrote: "write_values R key vs w2 = (r, w3)" by fastforce
  obtain e4 w4 where mark: "RegSetValueExW R key schema_version_name REG_DWORD
      (le_bytes 4 (store_schema_version store)) w3 = (e4, w4)" by fastforce
  have fine: "e1 = 0" "r = None" "e4 = 0" "w' = RegCloseKey R key w4"
    using assms(2) guards create delete wrote mark
    by (auto simp: VersionedSettingsStore_Save_def split: if_splits option.splits
        dest: write_values_failure)
  show "contents w' (store_subkey store) (f schema_version_name) =
      Some (REG_DWORD, le_bytes 4 (store_schema_version store))"
    using registry_set [OF assms(1) mark] fine registry_create(2) [OF assms(1) create] assms(1) by simp
  show "\<forall>v \<in> set vs. \<exists>b. setting_bytes (sv_data v) = Some b \<and>
      contents w' (store_subkey store) (f (sv_name v)) =
        Some (NativeType (GetSettingType (sv_data v)), b)"
  proof
    fix v assume v: "v \<in> set vs"
    with assms(3) have other: "f (sv_name v) \<noteq> f schema_version_name" by (auto simp: unambiguous_def image_iff)
    have "distinct (map (\<lambda>v. f (sv_name v)) vs)" using assms(3) by (simp add: unambiguous_def)
    from write_values_done [OF assms(1) wrote [unfolded fine(2)] this v] other fine
    show "\<exists>b. setting_bytes (sv_data v) = Some b \<and>
      contents w' (store_subkey store) (f (sv_name v)) =
        Some (NativeType (GetSettingType (sv_data v)), b)"
      using registry_set [OF assms(1) mark] registry_create(2) [OF assms(1) create] assms(1) by simp
  qed
qed

lemma get_marker:
  assumes "registry_ok R f contents key_of"
    and "contents w (key_of key) (f name) = Some (REG_DWORD, data)"
  shows "get_dword R key name w = (0, data)"
  using assms(2) by (simp add: get_dword_def registry_query [OF assms(1)])

text \<open>C21: The settings round trip.  After \<open>Save\<close> reported success, \<open>Load\<close> with definitions that
  describe the saved values returns exactly these values in their order, provided the registry can tell
  their names (and the marker) apart.\<close>

theorem settings_round_trip:
  assumes "registry_ok R f contents key_of"
    and "VersionedSettingsStore_Save R store vs w = ((Settings_success, e), w')"
    and "unambiguous f vs" and "list_all2 describes schema vs"
    and "fst (fst (RegOpenKeyExW R (store_subkey store) w')) = 0"
  shows "fst (VersionedSettingsStore_Load R store schema w') =
    \<lparr>sr_values = vs, sr_status = Settings_success, sr_error = ERROR_SUCCESS\<rparr>"
proof -
  note saved = Save_success [OF assms(1-3)]
  obtain key w1 where opened: "RegOpenKeyExW R (store_subkey store) w' = ((0, key), w1)"
    using assms(5) by (metis prod.collapse)
  note same = registry_open [OF assms(1) opened]
  have "get_dword R key schema_version_name w1 = (0, le_bytes 4 (store_schema_version store))"
    using saved(3) same by (intro get_marker [OF assms(1)]) simp
  moreover have "read_values R key schema [] w1 =
      \<lparr>sr_values = [] @ vs, sr_status = Settings_success, sr_error = ERROR_SUCCESS\<rparr>"
    using saved(4) same by (intro read_values_present [OF assms(1,4)]) simp
  ultimately show ?thesis
    using saved(1) opened definitions_ok_described [OF assms(4) saved(2)]
    by (simp add: VersionedSettingsStore_Load_def le_round_trip)
qed

definition example_store :: VersionedSettingsStore where
  "example_store = \<lparr>store_root_set = True, store_subkey = lit ''App'', store_schema_version = 3\<rparr>"

definition example_value :: SettingValue where
  "example_value = \<lparr>sv_name = lit ''Zoom'', sv_data = Data_dword 150\<rparr>"

definition example_definition :: SettingDefinition where
  "example_definition = \<lparr>sd_name = lit ''Zoom'', sd_type = Setting_dword, sd_maximum_bytes = 16,
    sd_required = True\<rparr>"

theorem settings_round_trip_witness:
  "fst (VersionedSettingsStore_Load memory_registry example_store [example_definition]
     (snd (VersionedSettingsStore_Save memory_registry example_store [example_value] (\<lambda>_ _. None)))) =
   \<lparr>sr_values = [example_value], sr_status = Settings_success, sr_error = ERROR_SUCCESS\<rparr>"
proof -
  let ?w = "\<lambda>_ _. None :: (dword \<times> u8 list) option"
  obtain st e w' where run: "VersionedSettingsStore_Save memory_registry example_store
      [example_value] ?w = ((st, e), w')" by (metis prod.exhaust)
  have "fst (fst (VersionedSettingsStore_Save memory_registry example_store [example_value] ?w)) =
      Settings_success"
    by (simp add: VersionedSettingsStore_Save_def example_store_def example_value_def
        memory_registry_def ValidName_def schema_version_name_def)
  with run have st: "st = Settings_success" by simp
  have "unambiguous fold_ascii [example_value]"
    by (simp add: unambiguous_def example_value_def fold_ascii_def schema_version_name_def)
  moreover have "list_all2 describes [example_definition] [example_value]"
    by (simp add: describes_def example_definition_def example_value_def)
  moreover have "fst (fst (RegOpenKeyExW memory_registry (store_subkey example_store) w')) = 0"
    by (simp add: memory_registry_def)
  ultimately show ?thesis
    using settings_round_trip [OF memory_registry_ok run [unfolded st]] run by simp
qed

lemma Load_without_marker:
  assumes "registry_ok R f contents key_of"
    and "contents w (store_subkey store) (f schema_version_name) = None"
  shows "sr_status (fst (VersionedSettingsStore_Load R store schema w)) \<noteq> Settings_success"
proof -
  obtain e key w1 where opened: "RegOpenKeyExW R (store_subkey store) w = ((e, key), w1)"
    by (metis prod.exhaust)
  have "get_dword R key schema_version_name w1 = (ERROR_FILE_NOT_FOUND, [])" if "e = 0"
    using assms(2) registry_open [OF assms(1) opened] that
    by (simp add: get_dword_def registry_query [OF assms(1)])
  with opened show ?thesis
    by (auto simp: VersionedSettingsStore_Load_def load_stopped_def)
qed



end
