(* ===== verification/Multi_Strings.thy ===== *)
theory Multi_Strings
  imports Prelude
begin

text \<open>
  Sequences of strings that each end with NUL, closed by an empty one: the form of a \<open>REG_MULTI_SZ\<close> value and
  of an environment block.
\<close>

text \<open>Splitting the units (the loop of \<open>LoadRecentFilesFromRegistry\<close>) into strings up to the empty one; \<open>None\<close> is a string that does not end.\<close>

function parse_multi :: "wstring \<Rightarrow> wstring list option" where
  "parse_multi units =
    (if length units \<le> 1 \<or> hd units = 0 then Some []
     else if 0 \<notin> set units then None
     else let s = takeWhile (\<lambda>c. c \<noteq> 0) units
       in map_option ((#) s) (parse_multi (drop (length s + 1) units)))"
  by pat_completeness auto
termination by (relation "measure length") auto

declare parse_multi.simps [simp del]

lemma parse_multi_nonempty:
  assumes "s \<noteq> []" and "0 \<notin> set s" and "rest \<noteq> []"
  shows "parse_multi (s @ 0 # rest) = map_option ((#) s) (parse_multi rest)"
proof -
  have taken: "takeWhile (\<lambda>c. c \<noteq> 0) (s @ 0 # rest) = s"
    using assms(2) by (induction s) auto
  have "hd (s @ 0 # rest) \<noteq> 0" using assms(1,2) by (cases s) auto
  moreover have "1 < length (s @ 0 # rest)" using assms(1) by (cases s) auto
  ultimately show ?thesis
    using assms(3) by (subst parse_multi.simps) (auto simp: Let_def taken)
qed

lemma parse_multi_end: "parse_multi [0] = Some []" "parse_multi [0, 0] = Some []"
  by (simp_all add: parse_multi.simps)

lemma parse_multi_units:
  "\<forall>p \<in> set ps. p \<noteq> [] \<and> 0 \<notin> set p \<Longrightarrow>
    parse_multi (concat (map (\<lambda>p. p @ [0]) ps) @ [0]) = Some ps"
  by (induction ps) (simp_all add: parse_multi_end parse_multi_nonempty)

end
