(* ===== verification/Recent_Files.thy ===== *)
theory Recent_Files
  imports Registry Multi_Strings
begin

text \<open>
  The recent-file list and its registry form (\<open>recent_files.h\<close>, \<open>recent_files.cpp\<close>): a bounded list,
  most recent first, with each path once up to case, stored as a \<open>REG_MULTI_SZ\<close>.
  \<open>CompareStringOrdinal\<close> with case ignored compares the units after upper-casing each of them: the
  table is the parameter \<open>upcase\<close>.
\<close>

record RecentFileList =
  rf_paths :: "wstring list"
  rf_maximum :: nat

definition INT_MAX :: nat where
  "INT_MAX = 2 ^ 31 - 1"

definition EqualPath :: "(wchar \<Rightarrow> wchar) \<Rightarrow> wstring \<Rightarrow> wstring \<Rightarrow> bool" where
  "EqualPath upcase a b \<longleftrightarrow>
    \<not> (INT_MAX < length a \<or> INT_MAX < length b) \<and> map upcase a = map upcase b"

text \<open>The constructor throws for capacity 0.\<close>

definition RecentFileList_new :: "nat \<Rightarrow> RecentFileList option" where
  "RecentFileList_new maximum =
    (if maximum = 0 then None else Some \<lparr>rf_paths = [], rf_maximum = maximum\<rparr>)"

definition RecentFileList_Add ::
  "(wchar \<Rightarrow> wchar) \<Rightarrow> wstring \<Rightarrow> RecentFileList \<Rightarrow> bool \<times> RecentFileList" where
  "RecentFileList_Add upcase path l =
    (if path = [] \<or> 0 \<in> set path then (False, l)
     else let existing = find_index (\<lambda>c. EqualPath upcase c path) (rf_paths l);
              paths = (case existing of None \<Rightarrow> rf_paths l | Some i \<Rightarrow> erase_at i (rf_paths l));
              paths = path # paths;
              paths = (if rf_maximum l < length paths then take (rf_maximum l) paths else paths)
       in (existing \<noteq> Some 0, l\<lparr>rf_paths := paths\<rparr>))"

definition RecentFileList_Remove ::
  "(wchar \<Rightarrow> wchar) \<Rightarrow> wstring \<Rightarrow> RecentFileList \<Rightarrow> bool \<times> RecentFileList" where
  "RecentFileList_Remove upcase path l =
    (let paths = filter (\<lambda>c. \<not> EqualPath upcase c path) (rf_paths l)
     in (length paths \<noteq> length (rf_paths l), l\<lparr>rf_paths := paths\<rparr>))"

definition RecentFileList_Clear :: "RecentFileList \<Rightarrow> RecentFileList" where
  "RecentFileList_Clear l = l\<lparr>rf_paths := []\<rparr>"

section \<open>Registry form\<close>

datatype SettingsStatus =
    Recent_success | Recent_not_found | Recent_access_denied | Recent_invalid_data | Recent_io_error

definition StatusFromRegistryError :: "dword \<Rightarrow> SettingsStatus" where
  "StatusFromRegistryError e =
    (if e = ERROR_FILE_NOT_FOUND \<or> e = ERROR_PATH_NOT_FOUND then Recent_not_found
     else if e = ERROR_ACCESS_DENIED then Recent_access_denied else Recent_io_error)"

record RecentFilesLoadResult =
  load_value :: "RecentFileList option"
  load_status :: SettingsStatus
  load_error :: dword

definition schema_name :: wstring where "schema_name = lit ''SchemaVersion''"
definition recent_files_name :: wstring where "recent_files_name = lit ''RecentFiles''"
definition kSchemaVersion :: dword where "kSchemaVersion = 1"

definition recent_stopped :: "SettingsStatus \<Rightarrow> dword \<Rightarrow> RecentFilesLoadResult" where
  "recent_stopped status error = \<lparr>load_value = None, load_status = status, load_error = error\<rparr>"

definition recent_of_data ::
  "(wchar \<Rightarrow> wchar) \<Rightarrow> RecentFileList \<Rightarrow> wstring \<Rightarrow> RecentFilesLoadResult" where
  "recent_of_data upcase empty_list units =
    (if length units < 2 \<or> last units \<noteq> 0 \<or> units ! (length units - 2) \<noteq> 0
     then recent_stopped Recent_invalid_data ERROR_INVALID_DATA
     else case parse_multi units of
         None \<Rightarrow> recent_stopped Recent_invalid_data ERROR_INVALID_DATA
       | Some parsed \<Rightarrow>
           \<lparr>load_value = Some (foldl (\<lambda>l p. snd (RecentFileList_Add upcase p l)) empty_list (rev parsed)),
            load_status = Recent_success, load_error = ERROR_SUCCESS\<rparr>)"

text \<open>\<open>None\<close> is the exception of the constructor for capacity 0.\<close>

definition LoadRecentFilesFromRegistry ::
  "('k, 'w) registry_api \<Rightarrow> (wchar \<Rightarrow> wchar) \<Rightarrow> wstring \<Rightarrow> nat \<Rightarrow> 'w \<Rightarrow>
    (RecentFilesLoadResult \<times> 'w) option" where
  "LoadRecentFilesFromRegistry R upcase subkey maximum w =
    (case RecentFileList_new maximum of
       None \<Rightarrow> None
     | Some empty_list \<Rightarrow> Some
         (case RegOpenKeyExW R subkey w of ((error, key), w1) \<Rightarrow>
           if error \<noteq> ERROR_SUCCESS then (recent_stopped (StatusFromRegistryError error) error, w1)
           else
             (case RegQueryValueExW R key schema_name w1 of (error, type, data) \<Rightarrow>
               if error \<noteq> ERROR_SUCCESS then recent_stopped (StatusFromRegistryError error) error
               else if type \<noteq> REG_DWORD \<or> length data \<noteq> 4 \<or> le_word data \<noteq> kSchemaVersion
               then recent_stopped Recent_invalid_data ERROR_INVALID_DATA
               else case RegQueryValueExW R key recent_files_name w1 of (error, type, data) \<Rightarrow>
                 if error \<noteq> ERROR_SUCCESS then recent_stopped (StatusFromRegistryError error) error
                 else if type \<noteq> REG_MULTI_SZ \<or> length data < 4 \<or> odd (length data)
                 then recent_stopped Recent_invalid_data ERROR_INVALID_DATA
                 else recent_of_data upcase empty_list (wide_of_bytes data),
              RegCloseKey R key w1)))"

definition multi_units :: "wstring list \<Rightarrow> wstring" where
  "multi_units paths = concat (map (\<lambda>p. p @ [0]) paths) @ [0] @ (if paths = [] then [0] else [])"

definition SaveRecentFilesToRegistry ::
  "('k, 'w) registry_api \<Rightarrow> wstring \<Rightarrow> RecentFileList \<Rightarrow> 'w \<Rightarrow> (SettingsStatus \<times> dword) \<times> 'w" where
  "SaveRecentFilesToRegistry R subkey files w =
    (case RegCreateKeyExW R subkey w of ((error, key), w1) \<Rightarrow>
      if error \<noteq> ERROR_SUCCESS then ((StatusFromRegistryError error, error), w1)
      else case RegSetValueExW R key schema_name REG_DWORD (le_bytes 4 kSchemaVersion) w1 of
        (error, w2) \<Rightarrow>
          if error \<noteq> ERROR_SUCCESS
          then ((StatusFromRegistryError error, error), RegCloseKey R key w2)
          else let units = multi_units (rf_paths files)
            in if (2 ^ 32 - 1) div 2 < length units
               then ((Recent_io_error, ERROR_BUFFER_OVERFLOW), RegCloseKey R key w2)
               else case RegSetValueExW R key recent_files_name REG_MULTI_SZ (wide_bytes units) w2 of
                 (error, w3) \<Rightarrow>
                   (if error = ERROR_SUCCESS then (Recent_success, ERROR_SUCCESS)
                    else (StatusFromRegistryError error, error), RegCloseKey R key w3))"

section \<open>The list\<close>

definition recent_wf :: "(wchar \<Rightarrow> wchar) \<Rightarrow> RecentFileList \<Rightarrow> bool" where
  "recent_wf upcase l \<longleftrightarrow> 0 < rf_maximum l \<and> length (rf_paths l) \<le> rf_maximum l \<and>
    (\<forall>p \<in> set (rf_paths l). p \<noteq> [] \<and> 0 \<notin> set p) \<and>
    distinct (map (map upcase) (rf_paths l))"

text \<open>Paths of representable size; a longer one is never equal to anything.\<close>

definition short_paths :: "RecentFileList \<Rightarrow> bool" where
  "short_paths l \<longleftrightarrow> (\<forall>p \<in> set (rf_paths l). length p \<le> INT_MAX)"

definition recent_ok :: "(wchar \<Rightarrow> wchar) \<Rightarrow> RecentFileList \<Rightarrow> bool" where
  "recent_ok upcase l \<longleftrightarrow> recent_wf upcase l \<and> short_paths l"

datatype recent_call = Recent_Add wstring | Recent_Remove wstring | Recent_Clear

fun recent_step ::
  "(wchar \<Rightarrow> wchar) \<Rightarrow> RecentFileList \<Rightarrow> recent_call \<Rightarrow> bool \<times> RecentFileList" where
  "recent_step upcase l (Recent_Add p) =
    (if length p \<le> INT_MAX then RecentFileList_Add upcase p l else (False, l))"
| "recent_step upcase l (Recent_Remove p) = RecentFileList_Remove upcase p l"
| "recent_step upcase l Recent_Clear = (True, RecentFileList_Clear l)"

lemma find_equal:
  assumes "\<forall>p \<in> set ps. length p \<le> INT_MAX" and "length path \<le> INT_MAX"
  shows "find_index (\<lambda>c. EqualPath upcase c path) ps = find_index (\<lambda>c. map upcase c = map upcase path) ps"
  using assms by (induction ps) (auto simp: EqualPath_def)

lemma Add_paths:
  assumes "recent_ok upcase l" and "path \<noteq> []" and "0 \<notin> set path" and "length path \<le> INT_MAX"
  shows "rf_paths (snd (RecentFileList_Add upcase path l)) =
    take (rf_maximum l) (path # filter (\<lambda>c. map upcase c \<noteq> map upcase path) (rf_paths l))"
proof -
  have found: "find_index (\<lambda>c. EqualPath upcase c path) (rf_paths l) =
      find_index (\<lambda>c. map upcase c = map upcase path) (rf_paths l)"
    using assms by (intro find_equal) (auto simp: recent_ok_def short_paths_def)
  have d: "distinct (map (map upcase) (rf_paths l))"
    using assms(1) by (simp add: recent_ok_def recent_wf_def)
  have "(case find_index (\<lambda>c. map upcase c = map upcase path) (rf_paths l) of
        None \<Rightarrow> rf_paths l | Some i \<Rightarrow> erase_at i (rf_paths l)) =
      filter (\<lambda>c. map upcase c \<noteq> map upcase path) (rf_paths l)"
  proof (cases "find_index (\<lambda>c. map upcase c = map upcase path) (rf_paths l)")
    case None
    moreover from None have "\<forall>c \<in> set (rf_paths l). map upcase c \<noteq> map upcase path"
      by (simp add: find_index_None)
    ultimately show ?thesis by (simp add: filter_id_conv)
  next
    case (Some i)
    note i = find_indexD [OF Some]
    with erase_at_filter [OF d i(1)] show ?thesis by (simp add: Some)
  qed
  with assms(2,3) found show ?thesis
    by (simp add: RecentFileList_Add_def Let_def)
qed

lemma Add_ok:
  assumes "recent_ok upcase l" and "length path \<le> INT_MAX"
  shows "recent_ok upcase (snd (RecentFileList_Add upcase path l))"
proof (cases "path = [] \<or> 0 \<in> set path")
  case True
  with assms show ?thesis by (simp add: RecentFileList_Add_def)
next
  case False
  let ?all = "path # filter (\<lambda>c. map upcase c \<noteq> map upcase path) (rf_paths l)"
  have "distinct (map (map upcase) ?all)"
    using assms(1) by (auto simp: recent_ok_def recent_wf_def distinct_map_filter)
  then have "distinct (map (map upcase) (take (rf_maximum l) ?all))"
    by (simp only: take_map [symmetric] distinct_take)
  moreover have "rf_maximum (snd (RecentFileList_Add upcase path l)) = rf_maximum l"
    by (simp add: RecentFileList_Add_def Let_def)
  moreover have "set (take (rf_maximum l) ?all) \<subseteq> insert path (set (rf_paths l))"
    by (auto dest: in_set_takeD)
  moreover have "rf_paths (snd (RecentFileList_Add upcase path l)) = take (rf_maximum l) ?all"
    using Add_paths [OF assms(1) _ _ assms(2)] False by simp
  ultimately show ?thesis
    using False assms unfolding recent_ok_def recent_wf_def short_paths_def by auto
qed

lemma recent_step_ok:
  assumes "recent_ok upcase l"
  shows "recent_ok upcase (snd (recent_step upcase l x))"
proof (cases x)
  case (Recent_Add p)
  with assms Add_ok show ?thesis by simp
qed (use assms in \<open>auto simp: RecentFileList_Remove_def RecentFileList_Clear_def Let_def
      recent_ok_def recent_wf_def short_paths_def distinct_map_filter
      intro: order_trans [OF length_filter_le]\<close>)

interpretation recent_files: machine "recent_step upcase" "recent_ok upcase" for upcase
  by unfold_locales (rule recent_step_ok)

section \<open>Saving and loading\<close>

lemma parse_written_paths:
  "\<forall>p \<in> set ps. p \<noteq> [] \<and> 0 \<notin> set p \<Longrightarrow> parse_multi (multi_units ps) = Some ps"
  using parse_multi_units [of ps] by (simp add: multi_units_def parse_multi_end)

lemma written_ends:
  "2 \<le> length (multi_units ps) \<and> last (multi_units ps) = 0 \<and>
    multi_units ps ! (length (multi_units ps) - 2) = 0"
proof (cases ps rule: rev_cases)
  case Nil
  then show ?thesis by (simp add: multi_units_def)
next
  case (snoc qs p)
  then show ?thesis by (simp add: multi_units_def nth_append)
qed

lemma add_unknown:
  assumes "p \<noteq> []" and "0 \<notin> set p" and "map upcase p \<notin> map upcase ` set ps"
  shows "snd (RecentFileList_Add upcase p \<lparr>rf_paths = ps, rf_maximum = n\<rparr>) =
    \<lparr>rf_paths = take n (p # ps), rf_maximum = n\<rparr>"
proof -
  have "find_index (\<lambda>c. EqualPath upcase c p) ps = None"
    using assms(3) by (auto simp: find_index_None EqualPath_def image_iff)
  with assms show ?thesis by (simp add: RecentFileList_Add_def Let_def)
qed

lemma adding_back:
  assumes "\<forall>p \<in> set ps. p \<noteq> [] \<and> 0 \<notin> set p" and "distinct (map (map upcase) ps)"
  shows "foldl (\<lambda>l p. snd (RecentFileList_Add upcase p l)) \<lparr>rf_paths = [], rf_maximum = n\<rparr> (rev ps) =
    \<lparr>rf_paths = take n ps, rf_maximum = n\<rparr>"
  using assms
proof (induction ps)
  case Nil
  then show ?case by simp
next
  case (Cons p ps)
  then have "map upcase p \<notin> map upcase ` set (take n ps)"
    by (auto dest: in_set_takeD)
  with Cons show ?case by (cases n) (simp_all add: add_unknown)
qed

lemma recent_of_written:
  assumes "recent_wf upcase l"
  shows "recent_of_data upcase \<lparr>rf_paths = [], rf_maximum = n\<rparr> (multi_units (rf_paths l)) =
    \<lparr>load_value = Some \<lparr>rf_paths = take n (rf_paths l), rf_maximum = n\<rparr>,
     load_status = Recent_success, load_error = ERROR_SUCCESS\<rparr>"
  using assms written_ends [of "rf_paths l"] adding_back [of "rf_paths l" upcase n]
  by (auto simp: recent_of_data_def recent_wf_def parse_written_paths)

lemma Save_recent_success:
  assumes "registry_ok R f contents key_of" and "f schema_name \<noteq> f recent_files_name"
    and "SaveRecentFilesToRegistry R subkey l w = ((Recent_success, e), w')"
  shows "contents w' subkey (f schema_name) = Some (REG_DWORD, le_bytes 4 kSchemaVersion)"
    and "contents w' subkey (f recent_files_name) =
      Some (REG_MULTI_SZ, wide_bytes (multi_units (rf_paths l)))"
proof -
  obtain e1 key w1 where create: "RegCreateKeyExW R subkey w = ((e1, key), w1)"
    by (metis prod.exhaust)
  obtain e2 w2 where schema: "RegSetValueExW R key schema_name REG_DWORD
      (le_bytes 4 kSchemaVersion) w1 = (e2, w2)" by fastforce
  obtain e3 w3 where paths: "RegSetValueExW R key recent_files_name REG_MULTI_SZ
      (wide_bytes (multi_units (rf_paths l))) w2 = (e3, w3)" by fastforce
  have fine: "e1 = 0" "e2 = 0" "e3 = 0" "w' = RegCloseKey R key w3"
    using assms(3) create schema paths
    by (auto simp: SaveRecentFilesToRegistry_def StatusFromRegistryError_def ERROR_SUCCESS_def
        Let_def split: if_splits)
  then have key: "key_of key = subkey" using registry_create [OF assms(1) create] by simp
  show "contents w' subkey (f schema_name) = Some (REG_DWORD, le_bytes 4 kSchemaVersion)"
    using registry_set [OF assms(1) schema] registry_set [OF assms(1) paths] fine key assms(1,2) by simp
  show "contents w' subkey (f recent_files_name) =
      Some (REG_MULTI_SZ, wide_bytes (multi_units (rf_paths l)))"
    using registry_set [OF assms(1) paths] fine key assms(1) by simp
qed

text \<open>The recent files survive a restart.  Take the list that any calls to Add, Remove and Clear
  lead to from an empty list; when \<open>SaveRecentFilesToRegistry\<close> reported success, loading with capacity
  \<open>n\<close> returns exactly its \<open>n\<close> most recent paths, in order.\<close>

theorem recent_files_round_trip:
  assumes "registry_ok R f contents key_of" and "f schema_name \<noteq> f recent_files_name"
    and "RecentFileList_new maximum = Some empty_list"
    and "SaveRecentFilesToRegistry R subkey (run_ops (recent_step upcase) empty_list calls) w =
      ((Recent_success, e), w')"
    and "fst (fst (RegOpenKeyExW R subkey w')) = 0" and "0 < n"
  shows "map_option fst (LoadRecentFilesFromRegistry R upcase subkey n w') =
    Some \<lparr>load_value = Some \<lparr>rf_paths =
        take n (rf_paths (run_ops (recent_step upcase) empty_list calls)), rf_maximum = n\<rparr>,
      load_status = Recent_success, load_error = ERROR_SUCCESS\<rparr>"
proof -
  let ?l = "run_ops (recent_step upcase) empty_list calls"
  have "recent_ok upcase empty_list"
    using assms(3) by (auto simp: RecentFileList_new_def recent_ok_def recent_wf_def short_paths_def
        split: if_splits)
  then have wf: "recent_wf upcase ?l"
    using recent_files.run_inv [of upcase empty_list calls] by (simp add: recent_ok_def)
  note saved = Save_recent_success [OF assms(1,2,4)]
  obtain key w1 where opened: "RegOpenKeyExW R subkey w' = ((0, key), w1)"
    using assms(5) by (metis prod.collapse)
  note same = registry_open [OF assms(1) opened]
  have "RegQueryValueExW R key schema_name w1 = (0, REG_DWORD, le_bytes 4 kSchemaVersion)"
    "RegQueryValueExW R key recent_files_name w1 =
      (0, REG_MULTI_SZ, wide_bytes (multi_units (rf_paths ?l)))"
    using saved same by (simp_all add: registry_query [OF assms(1)])
  then show ?thesis
    using opened written_ends [of "rf_paths ?l"] assms(6)
    by (simp add: LoadRecentFilesFromRegistry_def RecentFileList_new_def ERROR_SUCCESS_def
        le_round_trip recent_of_written [OF wf])
qed

definition example_recent_calls :: "recent_call list" where
  "example_recent_calls = [Recent_Add (lit ''a''), Recent_Add (lit ''b''), Recent_Add (lit ''A'')]"

definition fold_letter :: "wchar \<Rightarrow> wchar" where
  "fold_letter c = (if 0x61 \<le> c \<and> c \<le> 0x7A then c - 0x20 else c)"

theorem recent_files_round_trip_witness:
  "map_option fst (LoadRecentFilesFromRegistry memory_registry fold_letter (lit ''App'') 5
     (snd (SaveRecentFilesToRegistry memory_registry (lit ''App'')
       (run_ops (recent_step fold_letter) \<lparr>rf_paths = [], rf_maximum = 3\<rparr> example_recent_calls)
       (\<lambda>_ _. None)))) =
   Some \<lparr>load_value = Some \<lparr>rf_paths = [lit ''A'', lit ''b''], rf_maximum = 5\<rparr>,
     load_status = Recent_success, load_error = ERROR_SUCCESS\<rparr>"
proof -
  let ?l = "run_ops (recent_step fold_letter) \<lparr>rf_paths = [], rf_maximum = 3\<rparr> example_recent_calls"
  have l: "rf_paths ?l = [lit ''A'', lit ''b'']"
    by (simp add: example_recent_calls_def RecentFileList_Add_def EqualPath_def INT_MAX_def
        fold_letter_def erase_at_def)
  obtain e w' where run: "SaveRecentFilesToRegistry memory_registry (lit ''App'') ?l (\<lambda>_ _. None) =
      ((Recent_success, e), w')"
    using l by (simp add: SaveRecentFilesToRegistry_def memory_registry_def multi_units_def
        ERROR_SUCCESS_def del: lit_Cons)
  have names: "fold_ascii schema_name \<noteq> fold_ascii recent_files_name"
    by (simp add: fold_ascii_def schema_name_def recent_files_name_def)
  have new: "RecentFileList_new 3 = Some \<lparr>rf_paths = [], rf_maximum = 3\<rparr>"
    by (simp add: RecentFileList_new_def)
  have opened: "fst (fst (RegOpenKeyExW memory_registry (lit ''App'') w')) = 0"
    by (simp add: memory_registry_def)
  show ?thesis
    using recent_files_round_trip [OF memory_registry_ok names new run opened, of 5] run l by simp
qed

end
