(* ===== verification/Ipc.thy ===== *)
theory Ipc
  imports Foundation Little_Endian
begin

text \<open>
  Frames over named pipes (\<open>ipc.h\<close>, \<open>ipc.cpp\<close>): a frame is its length in four bytes and the payload,
  moved by overlapped reads and writes of any granularity, each bounded by a deadline and a stop token.
  The calls of the system are the parameter \<open>pipe_api\<close>, functions of its state.
\<close>

definition MaximumPipeFrameSize :: nat where
  "MaximumPipeFrameSize = 64 * 1024 * 1024"

datatype PipeAccessPolicyKind = Access_CurrentUser | Access_CurrentUserAndLocalSystem | Access_ExplicitSids

record PipeAccessPolicy =
  access_kind :: PipeAccessPolicyKind
  access_allowed_sids :: "wstring list"

record PipeEndpoint =
  endpoint_name :: wstring
  endpoint_maximum_frame_size :: u32
  endpoint_access :: PipeAccessPolicy

definition Valid_endpoint :: "PipeEndpoint \<Rightarrow> bool" where
  "Valid_endpoint e \<longleftrightarrow>
    (let prefix = lit [CHR 0x5C, CHR 0x5C, CHR ''.'', CHR 0x5C, CHR ''p'', CHR ''i'', CHR ''p'', CHR ''e'', CHR 0x5C]
     in take (length prefix) (endpoint_name e) = prefix) \<and>
    0 < endpoint_maximum_frame_size e \<and>
    unat (endpoint_maximum_frame_size e) \<le> MaximumPipeFrameSize \<and>
    (access_kind (endpoint_access e) \<noteq> Access_ExplicitSids \<or>
     access_allowed_sids (endpoint_access e) \<noteq> [])"

definition RemainingMilliseconds :: "int \<Rightarrow> Deadline \<Rightarrow> dword" where
  "RemainingMilliseconds now d =
    (let remaining = Deadline_Remaining now d
     in if remaining < 0 then INFINITE_timeout else of_int (min remaining 0xFFFFFFFE))"

section \<open>Moving bytes\<close>

text \<open>
  A started operation yields 0 (it has completed or is pending with success) or the error that
  \<open>GetLastError\<close> reports.  \<open>operation_result\<close> is \<open>GetOverlappedResult\<close> without waiting: an error, or 0 and the bytes that
  were transferred; \<open>drain_operation\<close> is the one that waits for a cancelled operation.
\<close>

record ('w, 'h) pipe_api = "('w, 'h) timer_api" +
  start_write :: "'h \<Rightarrow> u8 list \<Rightarrow> 'w \<Rightarrow> dword \<times> 'w"
  start_read :: "'h \<Rightarrow> nat \<Rightarrow> 'w \<Rightarrow> dword \<times> 'w"
  wait_operation :: "dword \<Rightarrow> 'w \<Rightarrow> dword \<times> 'w"
  cancel_operation :: "'h \<Rightarrow> 'w \<Rightarrow> 'w"
  drain_operation :: "'h \<Rightarrow> 'w \<Rightarrow> 'w"
  operation_result :: "'h \<Rightarrow> 'w \<Rightarrow> (dword \<times> u8 list) \<times> 'w"

definition AwaitOverlapped ::
  "('w, 'h, 'z) pipe_api_scheme \<Rightarrow> 'h \<Rightarrow> Deadline \<Rightarrow> 'w \<Rightarrow> CompletionStatus result \<times> 'w" where
  "AwaitOverlapped A pipe deadline w =
    (if stop_requested A w then (Inr Cancelled, cancel_operation A pipe w)
     else case create_event A w of (created, w1) \<Rightarrow>
       if \<not> created then (Inl (SystemError_FromWin32 (wait_last_error A w1)), w1)
       else case wait_operation A (RemainingMilliseconds (wait_now A w1) deadline) w1 of (waited, w2) \<Rightarrow>
         if waited = 0 then (Inr Completed, w2)
         else let w3 = drain_operation A pipe (cancel_operation A pipe w2)
           in (if waited = 1 then Inr Cancelled
               else if waited = WAIT_TIMEOUT then Inr TimedOut
               else Inl (SystemError_WithOperation ''Wait for pipe I/O''
                 (SystemError_FromWin32 (wait_last_error A w3))), w3))"

definition start_failure :: "bool \<Rightarrow> dword \<Rightarrow> CompletionStatus result" where
  "start_failure writing error =
    (if error = ERROR_BROKEN_PIPE \<or> error = ERROR_PIPE_NOT_CONNECTED \<or> error = ERROR_NO_DATA
     then Inr Disconnected
     else Inl (SystemError_WithOperation (if writing then ''WriteFile pipe'' else ''ReadFile pipe'')
       (SystemError_FromWin32 error)))"

definition result_failure :: "bool \<Rightarrow> dword \<Rightarrow> CompletionStatus result" where
  "result_failure stopped error =
    (if error = ERROR_BROKEN_PIPE \<or> error = ERROR_PIPE_NOT_CONNECTED \<or> error = ERROR_OPERATION_ABORTED
     then Inr (if error = ERROR_OPERATION_ABORTED \<and> stopped then Cancelled else Disconnected)
     else Inl (SystemError_FromWin32 error))"

text \<open>
  One turn of the loop of \<open>Transfer\<close>: either it ends the transfer, or it yields the bytes moved, at
  least one.  \<open>data\<close> is what a write still has to send; a read asks for \<open>remaining\<close> bytes.
\<close>

definition transfer_chunk ::
  "('w, 'h, 'z) pipe_api_scheme \<Rightarrow> 'h \<Rightarrow> u8 list option \<Rightarrow> nat \<Rightarrow> Deadline \<Rightarrow> 'w \<Rightarrow>
    (CompletionStatus result + u8 list) \<times> 'w" where
  "transfer_chunk A pipe data remaining deadline w =
    (case create_event A w of (created, w1) \<Rightarrow>
      if \<not> created then (Inl (Inl (SystemError_FromWin32 (wait_last_error A w1))), w1)
      else case (case data of Some bytes \<Rightarrow> start_write A pipe bytes w1
                            | None \<Rightarrow> start_read A pipe remaining w1) of (started, w2) \<Rightarrow>
        if started \<noteq> 0 \<and> started \<noteq> ERROR_IO_PENDING
        then (Inl (start_failure (data \<noteq> None) started), w2)
        else case AwaitOverlapped A pipe deadline w2 of (awaited, w3) \<Rightarrow>
          if awaited \<noteq> Inr Completed then (Inl awaited, w3)
          else case operation_result A pipe w3 of ((error, moved), w4) \<Rightarrow>
            if error \<noteq> 0 then (Inl (result_failure (stop_requested A w4) error), w4)
            else if moved = [] then (Inl (Inr Disconnected), w4)
            else (Inr moved, w4))"

lemma transfer_chunk_progress:
  "transfer_chunk A pipe data remaining deadline w = (Inr moved, w') \<Longrightarrow> moved \<noteq> []"
  by (auto simp: transfer_chunk_def split: prod.splits if_splits)

text \<open>
  \<open>Transfer\<close> for writing, on the bytes still to send, and for reading, on the number of bytes still
  missing.  A system never moves more bytes than it was asked to, so the counter does not wrap.
\<close>

function Transfer_write ::
  "('w, 'h, 'z) pipe_api_scheme \<Rightarrow> 'h \<Rightarrow> u8 list \<Rightarrow> Deadline \<Rightarrow> 'w \<Rightarrow> CompletionStatus result \<times> 'w" where
  "Transfer_write A pipe data deadline w =
    (if data = [] then (Inr Completed, w)
     else case transfer_chunk A pipe (Some data) (length data) deadline w of
       (Inl ended, w1) \<Rightarrow> (ended, w1)
     | (Inr moved, w1) \<Rightarrow> Transfer_write A pipe (drop (length moved) data) deadline w1)"
  by pat_completeness auto
termination
  by (relation "measure (\<lambda>(A, p, data, d, w). length data)") (auto dest: transfer_chunk_progress [OF sym])

function Transfer_read ::
  "('w, 'h, 'z) pipe_api_scheme \<Rightarrow> 'h \<Rightarrow> nat \<Rightarrow> Deadline \<Rightarrow> 'w \<Rightarrow>
    (CompletionStatus result \<times> u8 list) \<times> 'w" where
  "Transfer_read A pipe remaining deadline w =
    (if remaining = 0 then ((Inr Completed, []), w)
     else case transfer_chunk A pipe None remaining deadline w of
       (Inl ended, w1) \<Rightarrow> ((ended, []), w1)
     | (Inr moved, w1) \<Rightarrow>
         apfst (apsnd ((@) moved)) (Transfer_read A pipe (remaining - length moved) deadline w1))"
  by pat_completeness auto
termination
  by (relation "measure (\<lambda>(A, p, n, d, w). n)") (auto dest: transfer_chunk_progress [OF sym])

declare Transfer_write.simps [simp del] Transfer_read.simps [simp del]

section \<open>Connections\<close>

text \<open>The flags tell that another thread is inside a read or a write.\<close>

record 'h PipeConnection =
  conn_pipe :: "'h option"
  conn_maximum_frame_size :: u32
  conn_server_end :: bool
  conn_reading :: bool
  conn_writing :: bool

definition PipeConnection_new :: "'h option \<Rightarrow> u32 \<Rightarrow> bool \<Rightarrow> 'h PipeConnection" where
  "PipeConnection_new pipe maximum server = \<lparr>conn_pipe = pipe, conn_maximum_frame_size = maximum,
    conn_server_end = server, conn_reading = False, conn_writing = False\<rparr>"

text \<open>Moving: the target, and what is left in the source.\<close>

definition PipeConnection_move :: "'h PipeConnection \<Rightarrow> 'h PipeConnection \<times> 'h PipeConnection" where
  "PipeConnection_move other =
    (PipeConnection_new (conn_pipe other) (conn_maximum_frame_size other) (conn_server_end other),
     other\<lparr>conn_pipe := None\<rparr>)"

definition too_large :: "'h PipeConnection \<Rightarrow> nat \<Rightarrow> bool" where
  "too_large c n \<longleftrightarrow> unat (conn_maximum_frame_size c) < n \<or> MaximumPipeFrameSize < n"

definition PipeConnection_WriteFrame ::
  "('w, 'h, 'z) pipe_api_scheme \<Rightarrow> 'h PipeConnection \<Rightarrow> u8 list \<Rightarrow> Deadline \<Rightarrow> 'w \<Rightarrow>
    unit OperationOutcome result \<times> 'w" where
  "PipeConnection_WriteFrame A c payload deadline w =
    (if conn_writing c
     then (Inl (SystemError_WithOperation ''Concurrent pipe write'' (SystemError_FromWin32 ERROR_BUSY)), w)
     else case conn_pipe c of
       None \<Rightarrow> (Inl (SystemError_FromWin32 ERROR_INVALID_DATA), w)
     | Some pipe \<Rightarrow>
         if too_large c (length payload) then (Inl (SystemError_FromWin32 ERROR_INVALID_DATA), w)
         else let header = le_bytes 4 (of_nat (length payload) :: u32)
           in case Transfer_write A pipe header deadline w of
             (Inl e, w1) \<Rightarrow> (Inl e, w1)
           | (Inr s, w1) \<Rightarrow>
               if s \<noteq> Completed then (Inr (Outcome_Control s), w1)
               else if payload = [] then (Inr (Outcome_Completed ()), w1)
               else case Transfer_write A pipe payload deadline w1 of
                 (Inl e, w2) \<Rightarrow> (Inl e, w2)
               | (Inr s, w2) \<Rightarrow>
                   (Inr (if s = Completed then Outcome_Completed () else Outcome_Control s), w2))"

definition PipeConnection_ReadFrame ::
  "('w, 'h, 'z) pipe_api_scheme \<Rightarrow> 'h PipeConnection \<Rightarrow> Deadline \<Rightarrow> 'w \<Rightarrow>
    u8 list OperationOutcome result \<times> 'w" where
  "PipeConnection_ReadFrame A c deadline w =
    (if conn_reading c
     then (Inl (SystemError_WithOperation ''Concurrent pipe read'' (SystemError_FromWin32 ERROR_BUSY)), w)
     else case conn_pipe c of
       None \<Rightarrow> (Inl (SystemError_FromWin32 ERROR_INVALID_HANDLE), w)
     | Some pipe \<Rightarrow>
         (case Transfer_read A pipe 4 deadline w of
            ((Inl e, _), w1) \<Rightarrow> (Inl e, w1)
          | ((Inr s, header), w1) \<Rightarrow>
              if s \<noteq> Completed then (Inr (Outcome_Control s), w1)
              else let frame_size = unat (le_word header :: u32)
                in if too_large c frame_size
                   then (Inl (SystemError_WithOperation ''Pipe frame length''
                     (SystemError_FromWin32 ERROR_BUFFER_OVERFLOW)), w1)
                   else if frame_size = 0 then (Inr (Outcome_Completed []), w1)
                   else case Transfer_read A pipe frame_size deadline w1 of
                     ((Inl e, _), w2) \<Rightarrow> (Inl e, w2)
                   | ((Inr s, payload), w2) \<Rightarrow>
                       (Inr (if s = Completed then Outcome_Completed payload
                             else Outcome_Control s), w2)))"

text \<open>The two halves of a split connection share it; a default-constructed half has none.\<close>

definition PipeConnection_Split ::
  "'h PipeConnection \<Rightarrow> 'h PipeConnection option \<times> 'h PipeConnection option" where
  "PipeConnection_Split c = (let shared = fst (PipeConnection_move c) in (Some shared, Some shared))"

definition PipeReader_ReadFrame ::
  "('w, 'h, 'z) pipe_api_scheme \<Rightarrow> 'h PipeConnection option \<Rightarrow> Deadline \<Rightarrow> 'w \<Rightarrow>
    u8 list OperationOutcome result \<times> 'w" where
  "PipeReader_ReadFrame A reader deadline w =
    (case reader of
       None \<Rightarrow> (Inl (SystemError_FromWin32 ERROR_INVALID_HANDLE), w)
     | Some c \<Rightarrow> PipeConnection_ReadFrame A c deadline w)"

definition PipeWriter_WriteFrame ::
  "('w, 'h, 'z) pipe_api_scheme \<Rightarrow> 'h PipeConnection option \<Rightarrow> u8 list \<Rightarrow> Deadline \<Rightarrow> 'w \<Rightarrow>
    unit OperationOutcome result \<times> 'w" where
  "PipeWriter_WriteFrame A writer payload deadline w =
    (case writer of
       None \<Rightarrow> (Inl (SystemError_FromWin32 ERROR_INVALID_HANDLE), w)
     | Some c \<Rightarrow> PipeConnection_WriteFrame A c payload deadline w)"

end
