(* ===== verification/Ipc_Listener.thy ===== *)
theory Ipc_Listener
  imports Ipc
begin

text \<open>
  Listening, connecting and the identity of peers (\<open>ipc.cpp\<close>).  The calls on tokens, security
  identifiers and named pipes extend the parameter of theory Ipc; a call that fails yields the error it
  sets.  A security identifier is a \<open>'s\<close>.
\<close>

record ('w, 'h, 's) listener_api = "('w, 'h) pipe_api" +
  own_token :: "'w \<Rightarrow> dword + 'h"
  open_process :: "dword \<Rightarrow> 'w \<Rightarrow> dword + 'h"
  process_token :: "'h \<Rightarrow> 'w \<Rightarrow> dword + 'h"
  token_size :: "'h \<Rightarrow> 'w \<Rightarrow> dword \<times> dword"
  token_user :: "'h \<Rightarrow> dword \<Rightarrow> 'w \<Rightarrow> dword + 's"
  sid_text :: "'s \<Rightarrow> dword + wstring"
  text_sid :: "wstring \<Rightarrow> dword + 's"
  process_session :: "dword \<Rightarrow> 'w \<Rightarrow> dword + dword"
  client_process :: "'h \<Rightarrow> 'w \<Rightarrow> dword + dword"
  server_process :: "'h \<Rightarrow> 'w \<Rightarrow> dword + dword"
  descriptor_error :: "wstring \<Rightarrow> dword"
  create_named_pipe :: "wstring \<Rightarrow> wstring \<Rightarrow> u32 \<Rightarrow> 'w \<Rightarrow> (dword + 'h) \<times> 'w"
  connect_named_pipe :: "'h \<Rightarrow> 'w \<Rightarrow> dword \<times> 'w"
  signal_operation :: "'w \<Rightarrow> 'w"
  open_pipe :: "wstring \<Rightarrow> 'w \<Rightarrow> (dword + 'h) \<times> 'w"
  impersonate_client :: "'h \<Rightarrow> 'w \<Rightarrow> dword \<times> 'w"
  revert_to_self :: "'w \<Rightarrow> 'w"

section \<open>Identities\<close>

definition CurrentUserSid :: "('w, 'h, 's, 'z) listener_api_scheme \<Rightarrow> 'w \<Rightarrow> wstring result" where
  "CurrentUserSid A w =
    (case own_token A w of
       Inl e \<Rightarrow> Inl (failed_call ''OpenProcessToken'' e)
     | Inr token \<Rightarrow>
         (case token_size A token w of (e, bytes) \<Rightarrow>
           if e \<noteq> ERROR_INSUFFICIENT_BUFFER then Inl (failed_call ''GetTokenInformation'' e)
           else case token_user A token bytes w of
             Inl e \<Rightarrow> Inl (failed_call ''GetTokenInformation'' e)
           | Inr sid \<Rightarrow>
               (case sid_text A sid of
                  Inl e \<Rightarrow> Inl (failed_call ''ConvertSidToStringSidW'' e)
                | Inr t \<Rightarrow> Inr t)))"

definition CanonicalSid :: "('w, 'h, 's, 'z) listener_api_scheme \<Rightarrow> wstring \<Rightarrow> wstring result" where
  "CanonicalSid A v =
    (case text_sid A (until_nul v) of
       Inl e \<Rightarrow> Inl (failed_call ''ConvertStringSidToSidW'' e)
     | Inr sid \<Rightarrow>
         (case sid_text A sid of
            Inl e \<Rightarrow> Inl (failed_call ''ConvertSidToStringSidW'' e)
          | Inr t \<Rightarrow> Inr t))"

record PipePeer =
  peer_process_id :: dword
  peer_session_id :: dword
  peer_user_sid :: wstring

definition IdentityForProcess :: "('w, 'h, 's, 'z) listener_api_scheme \<Rightarrow> dword \<Rightarrow> 'w \<Rightarrow> PipePeer result" where
  "IdentityForProcess A pid w =
    (case open_process A pid w of
       Inl e \<Rightarrow> Inl (failed_call ''Open peer process'' e)
     | Inr process \<Rightarrow>
         (case process_token A process w of
            Inl e \<Rightarrow> Inl (failed_call ''Open peer token'' e)
          | Inr token \<Rightarrow>
              (case token_user A token (snd (token_size A token w)) w of
                 Inl e \<Rightarrow> Inl (SystemError_FromWin32 e)
               | Inr sid \<Rightarrow>
                   (case sid_text A sid of
                      Inl e \<Rightarrow> Inl (SystemError_FromWin32 e)
                    | Inr t \<Rightarrow>
                        (case process_session A pid w of
                           Inl e \<Rightarrow> Inl (SystemError_FromWin32 e)
                         | Inr session \<Rightarrow> Inr \<lparr>peer_process_id = pid, peer_session_id = session,
                             peer_user_sid = t\<rparr>)))))"

definition PipeConnection_QueryPeer ::
  "('w, 'h, 's, 'z) listener_api_scheme \<Rightarrow> 'h PipeConnection \<Rightarrow> 'w \<Rightarrow> PipePeer result" where
  "PipeConnection_QueryPeer A c w =
    (case conn_pipe c of
       None \<Rightarrow> Inl (SystemError_FromWin32 ERROR_INVALID_HANDLE)
     | Some pipe \<Rightarrow>
         (case (if conn_server_end c then client_process A pipe w else server_process A pipe w) of
            Inl e \<Rightarrow> Inl (failed_call ''Query pipe peer process'' e)
          | Inr pid \<Rightarrow> IdentityForProcess A pid w))"

section \<open>Listening\<close>

fun canonical_sids :: "('w, 'h, 's, 'z) listener_api_scheme \<Rightarrow> wstring list \<Rightarrow> wstring list result" where
  "canonical_sids A [] = Inr []"
| "canonical_sids A (v # vs) =
    (case CanonicalSid A v of
       Inl e \<Rightarrow> Inl e
     | Inr sid \<Rightarrow> map_sum id ((#) sid) (canonical_sids A vs))"

definition allowed_sids :: "('w, 'h, 's, 'z) listener_api_scheme \<Rightarrow> PipeAccessPolicy \<Rightarrow> wstring \<Rightarrow>
    wstring list result" where
  "allowed_sids A access user =
    (case access_kind access of
       Access_CurrentUser \<Rightarrow> Inr [user]
     | Access_CurrentUserAndLocalSystem \<Rightarrow> Inr [user, lit ''S-1-5-18'']
     | Access_ExplicitSids \<Rightarrow> canonical_sids A (access_allowed_sids access))"

definition listener_sddl :: "wstring list \<Rightarrow> wstring" where
  "listener_sddl sids = lit ''D:P'' @ concat (map (\<lambda>sid. lit ''(A;;GA;;;'' @ sid @ lit '')'') sids)"

definition CreateListener ::
  "('w, 'h, 's, 'z) listener_api_scheme \<Rightarrow> PipeEndpoint \<Rightarrow> 'w \<Rightarrow> 'h result \<times> 'w" where
  "CreateListener A options w =
    (case CurrentUserSid A w of
       Inl e \<Rightarrow> (Inl e, w)
     | Inr user \<Rightarrow>
         (case allowed_sids A (endpoint_access options) user of
            Inl e \<Rightarrow> (Inl e, w)
          | Inr sids \<Rightarrow>
              let e = descriptor_error A (listener_sddl sids)
              in if e \<noteq> 0 then (Inl (failed_call ''Pipe security descriptor'' e), w)
                 else case create_named_pipe A (until_nul (endpoint_name options)) (listener_sddl sids)
                     (endpoint_maximum_frame_size options + 4) w of
                   (Inl e, w1) \<Rightarrow> (Inl (failed_call ''CreateNamedPipeW'' e), w1)
                 | (Inr h, w1) \<Rightarrow> (Inr h, w1)))"

record 'h PipeListener =
  listener_endpoint :: PipeEndpoint
  listener_handle :: "'h option"

definition PipeListener_Create ::
  "('w, 'h, 's, 'z) listener_api_scheme \<Rightarrow> PipeEndpoint \<Rightarrow> 'w \<Rightarrow> 'h PipeListener result \<times> 'w" where
  "PipeListener_Create A options w =
    (if \<not> Valid_endpoint options then (Inl (SystemError_FromWin32 ERROR_INVALID_PARAMETER), w)
     else case CreateListener A options w of
       (Inl e, w1) \<Rightarrow> (Inl e, w1)
     | (Inr h, w1) \<Rightarrow> (Inr \<lparr>listener_endpoint = options, listener_handle = Some h\<rparr>, w1))"

definition PipeListener_Accept ::
  "('w, 'h, 's, 'z) listener_api_scheme \<Rightarrow> Deadline \<Rightarrow> 'h PipeListener \<Rightarrow> 'w \<Rightarrow>
    'h PipeConnection OperationOutcome result \<times> 'h PipeListener \<times> 'w" where
  "PipeListener_Accept A deadline l w =
    (case listener_handle l of
       None \<Rightarrow> (Inl (SystemError_FromWin32 ERROR_INVALID_STATE), l, w)
     | Some h \<Rightarrow>
         (case create_event A w of (created, w1) \<Rightarrow>
           if \<not> created then (Inl (SystemError_FromWin32 (wait_last_error A w1)), l, w1)
           else case connect_named_pipe A h w1 of (e, w2) \<Rightarrow>
             if e \<noteq> 0 \<and> e \<noteq> ERROR_PIPE_CONNECTED \<and> e \<noteq> ERROR_IO_PENDING
             then (Inl (failed_call ''ConnectNamedPipe'' e), l, w2)
             else case AwaitOverlapped A h deadline
                 (if e = ERROR_PIPE_CONNECTED then signal_operation A w2 else w2) of
               (Inl e, w3) \<Rightarrow> (Inl e, l, w3)
             | (Inr s, w3) \<Rightarrow>
                 if s \<noteq> Completed then (Inr (Outcome_Control s), l, w3)
                 else case CreateListener A (listener_endpoint l) w3 of
                   (Inl e, w4) \<Rightarrow> (Inl (SystemError_WithOperation ''Create next pipe listener'' e), l, w4)
                 | (Inr next, w4) \<Rightarrow>
                     (Inr (Outcome_Completed (PipeConnection_new (Some h)
                        (endpoint_maximum_frame_size (listener_endpoint l)) True)),
                      l\<lparr>listener_handle := Some next\<rparr>, w4)))"

section \<open>Connecting\<close>

text \<open>The loop of \<open>ConnectPipe\<close>; \<open>None\<close> would be a call that does not return.\<close>

partial_function (option) connect_loop ::
  "('w, 'h, 's, 'z) listener_api_scheme \<Rightarrow> PipeEndpoint \<Rightarrow> Deadline \<Rightarrow> 'w \<Rightarrow>
    ('h PipeConnection OperationOutcome result \<times> 'w) option" where
  "connect_loop A endpoint deadline w =
    (if stop_requested A w then Some (Inr (Outcome_Control Cancelled), w)
     else case open_pipe A (until_nul (endpoint_name endpoint)) w of
       (Inr h, w1) \<Rightarrow>
         Some (Inr (Outcome_Completed
           (PipeConnection_new (Some h) (endpoint_maximum_frame_size endpoint) False)), w1)
     | (Inl e, w1) \<Rightarrow>
         if e \<noteq> ERROR_PIPE_BUSY \<and> e \<noteq> ERROR_FILE_NOT_FOUND
         then Some (Inl (failed_call ''CreateFileW pipe'' e), w1)
         else if RemainingMilliseconds (wait_now A w1) deadline = 0
         then Some (Inr (Outcome_Control TimedOut), w1)
         else case WaitForDelay A deadline 10 w1 of
           (Inl e, w2) \<Rightarrow> Some (Inl (SystemError_WithOperation ''Wait to retry pipe connection'' e), w2)
         | (Inr s, w2) \<Rightarrow>
             if s \<noteq> Completed then Some (Inr (Outcome_Control s), w2)
             else connect_loop A endpoint deadline w2)"

definition ConnectPipe ::
  "('w, 'h, 's, 'z) listener_api_scheme \<Rightarrow> PipeEndpoint \<Rightarrow> Deadline \<Rightarrow> 'w \<Rightarrow>
    ('h PipeConnection OperationOutcome result \<times> 'w) option" where
  "ConnectPipe A endpoint deadline w =
    (if \<not> Valid_endpoint endpoint then Some (Inl (SystemError_FromWin32 ERROR_INVALID_PARAMETER), w)
     else connect_loop A endpoint deadline w)"

section \<open>Impersonation\<close>

text \<open>The object's \<open>active\<close> flag; destroying it reverts, moving hands the flag on.\<close>

definition ScopedPipeImpersonation_Create ::
  "('w, 'h, 's, 'z) listener_api_scheme \<Rightarrow> 'h PipeConnection \<Rightarrow> 'w \<Rightarrow> bool result \<times> 'w" where
  "ScopedPipeImpersonation_Create A c w =
    (case conn_pipe c of
       None \<Rightarrow> (Inl (SystemError_FromWin32 ERROR_INVALID_STATE), w)
     | Some pipe \<Rightarrow>
         if \<not> conn_server_end c then (Inl (SystemError_FromWin32 ERROR_INVALID_STATE), w)
         else case impersonate_client A pipe w of (e, w1) \<Rightarrow>
           (if e \<noteq> 0 then Inl (failed_call ''ImpersonateNamedPipeClient'' e) else Inr True, w1))"

definition ScopedPipeImpersonation_destroy ::
  "('w, 'h, 's, 'z) listener_api_scheme \<Rightarrow> bool \<Rightarrow> 'w \<Rightarrow> 'w" where
  "ScopedPipeImpersonation_destroy A active w = (if active then revert_to_self A w else w)"

text \<open>Assigning \<open>other\<close>: the flag of the target, the flag left in \<open>other\<close>.\<close>

definition ScopedPipeImpersonation_assign ::
  "('w, 'h, 's, 'z) listener_api_scheme \<Rightarrow> bool \<Rightarrow> bool \<Rightarrow> 'w \<Rightarrow> (bool \<times> bool) \<times> 'w" where
  "ScopedPipeImpersonation_assign A active other w =
    ((other, False), if active then revert_to_self A w else w)"

section \<open>Who may connect\<close>

text \<open>
  The access entries of a descriptor string \<open>D:P(...)(...)\<close>: a protected list that grants what its
  entries say and nothing else.
\<close>

function access_entries :: "wstring \<Rightarrow> wstring list option" where
  "access_entries s =
    (case s of
       [] \<Rightarrow> Some []
     | c # cs \<Rightarrow>
         if c \<noteq> 0x28 \<or> 0x29 \<notin> set cs then None
         else let entry = takeWhile (\<lambda>c. c \<noteq> 0x29) cs
           in map_option ((#) entry) (access_entries (drop (length entry + 1) cs)))"
  by pat_completeness auto
termination by (relation "measure length") auto

declare access_entries.simps [simp del]

definition protected_dacl :: "wstring \<Rightarrow> wstring list option" where
  "protected_dacl s = (if take 3 s = lit ''D:P'' then access_entries (drop 3 s) else None)"

definition full_access :: "wstring \<Rightarrow> wstring" where
  "full_access sid = lit ''A;;GA;;;'' @ sid"

lemma access_entries_grant:
  assumes "0x29 \<notin> set entry"
  shows "access_entries (0x28 # entry @ 0x29 # rest) = map_option ((#) entry) (access_entries rest)"
proof -
  have "takeWhile (\<lambda>c. c \<noteq> 0x29) (entry @ 0x29 # rest) = entry"
    using assms by (induction entry) auto
  then show ?thesis by (subst access_entries.simps) (simp add: Let_def)
qed

lemma sddl_entries:
  "\<forall>sid \<in> set sids. 0x29 \<notin> set sid \<Longrightarrow>
    access_entries (concat (map (\<lambda>sid. lit ''(A;;GA;;;'' @ sid @ lit '')'') sids)) =
      Some (map full_access sids)"
proof (induction sids)
  case Nil
  then show ?case by (simp add: access_entries.simps)
next
  case (Cons sid sids)
  have "0x29 \<notin> set (full_access sid)" using Cons.prems by (simp add: full_access_def)
  note access_entries_grant [OF this]
  with Cons show ?case by (simp add: full_access_def)
qed

lemma sddl_dacl:
  "\<forall>sid \<in> set sids. 0x29 \<notin> set sid \<Longrightarrow>
    protected_dacl (listener_sddl sids) = Some (map full_access sids)"
  using sddl_entries [of sids] by (simp add: protected_dacl_def listener_sddl_def)

definition sid_texts_ok :: "('w, 'h, 's, 'z) listener_api_scheme \<Rightarrow> bool" where
  "sid_texts_ok A \<longleftrightarrow> (\<forall>s t. sid_text A s = Inr t \<longrightarrow> 0x29 \<notin> set t)"

definition permitted ::
  "('w, 'h, 's, 'z) listener_api_scheme \<Rightarrow> PipeAccessPolicy \<Rightarrow> 'w \<Rightarrow> wstring \<Rightarrow> bool" where
  "permitted A access w sid =
    (case access_kind access of
       Access_CurrentUser \<Rightarrow> CurrentUserSid A w = Inr sid
     | Access_CurrentUserAndLocalSystem \<Rightarrow> CurrentUserSid A w = Inr sid \<or> sid = lit ''S-1-5-18''
     | Access_ExplicitSids \<Rightarrow> list_ex (\<lambda>v. CanonicalSid A v = Inr sid) (access_allowed_sids access))"

lemma CurrentUserSid_text:
  "CurrentUserSid A w = Inr t \<Longrightarrow> \<exists>s. sid_text A s = Inr t"
  by (auto simp: CurrentUserSid_def split: sum.splits prod.splits if_splits)

lemma CanonicalSid_text: "CanonicalSid A v = Inr t \<Longrightarrow> \<exists>s. sid_text A s = Inr t"
  by (auto simp: CanonicalSid_def split: sum.splits)

lemma canonical_sids_from:
  "canonical_sids A vs = Inr sids \<Longrightarrow> sid \<in> set sids \<Longrightarrow> \<exists>v \<in> set vs. CanonicalSid A v = Inr sid"
proof (induction vs arbitrary: sids)
  case Nil
  then show ?case by simp
next
  case (Cons v vs)
  then obtain s rest where "CanonicalSid A v = Inr s" "canonical_sids A vs = Inr rest" "sids = s # rest"
    by (cases "canonical_sids A vs") (auto split: sum.splits)
  with Cons show ?case by auto
qed

lemma allowed_sids_permitted:
  assumes "CurrentUserSid A w = Inr user" and "allowed_sids A access user = Inr sids"
    and "sid_texts_ok A"
  shows "\<forall>sid \<in> set sids. permitted A access w sid \<and> 0x29 \<notin> set sid"
proof
  fix sid assume sid: "sid \<in> set sids"
  have user: "0x29 \<notin> set user"
    using CurrentUserSid_text [OF assms(1)] assms(3) by (auto simp: sid_texts_ok_def)
  show "permitted A access w sid \<and> 0x29 \<notin> set sid"
  proof (cases "access_kind access")
    case Access_ExplicitSids
    with assms(2) sid obtain v where "v \<in> set (access_allowed_sids access)" "CanonicalSid A v = Inr sid"
      by (auto simp: allowed_sids_def dest: canonical_sids_from)
    with Access_ExplicitSids assms(3) CanonicalSid_text [of A v sid] show ?thesis
      by (auto simp: permitted_def list_ex_iff sid_texts_ok_def)
  qed (use assms(1,2) sid user in \<open>auto simp: allowed_sids_def permitted_def\<close>)
qed


section \<open>Connecting returns\<close>

text \<open>The steady clock never goes back, and waiting for the timer takes time.\<close>

definition clock_ok :: "('w, 'h, 's, 'z) listener_api_scheme \<Rightarrow> bool" where
  "clock_ok A \<longleftrightarrow> waits_ok A \<and> (\<forall>name w r w'. open_pipe A name w = (r, w') \<longrightarrow> wait_now A w \<le> wait_now A w')"

lemma connect_loop_returns:
  assumes "clock_ok A" and "\<not> deadline_infinite d"
  shows "connect_loop A endpoint d w \<noteq> None"
proof (induction "nat (deadline_end d - wait_now A w)" arbitrary: w rule: less_induct)
  case less
  obtain r w1 where opened: "open_pipe A (until_nul (endpoint_name endpoint)) w = (r, w1)" by fastforce
  obtain t w2 where waited: "WaitForDelay A d 10 w1 = (t, w2)" by fastforce
  show ?case
  proof (cases "\<exists>e. r = Inl e \<and> (e = ERROR_PIPE_BUSY \<or> e = ERROR_FILE_NOT_FOUND) \<and> t = Inr Completed")
    case True
    then have t: "t = Inr Completed" by blast
    have ok: "waits_ok A" and "wait_now A w \<le> wait_now A w1" using assms(1) opened unfolding clock_ok_def by metis+
    with WaitForDelay_clock [OF ok waited [unfolded t]] assms(2)
    have "nat (deadline_end d - wait_now A w2) < nat (deadline_end d - wait_now A w)"
      by (simp add: Deadline_Expired_def)
    from less [OF this] show ?thesis
      using opened waited t by (subst connect_loop.simps) (auto split: sum.splits)
  next
    case False
    with opened waited show ?thesis
      by (subst connect_loop.simps) (auto split: sum.splits)
  qed
qed

text \<open>Connecting always returns.  With a deadline that is not infinite, \<open>ConnectPipe\<close> ends, however
  long the server stays busy or absent: it connects, reports an error, or reports that it was cancelled
  or has timed out.\<close>

theorem connect_returns:
  assumes "clock_ok A" and "\<not> deadline_infinite d"
  shows "\<exists>r w'. ConnectPipe A endpoint d w = Some (r, w')"
  using connect_loop_returns [OF assms] by (simp add: ConnectPipe_def)

section \<open>Examples\<close>

text \<open>A system whose pipe stays busy; its state is the time, and a wait takes five milliseconds.\<close>

definition busy_system :: "(int, unit, wstring) listener_api" where
  "busy_system = \<lparr>stop_requested = \<lambda>w. False, create_event = \<lambda>w. (True, w),
    wait_two = \<lambda>h t w. (0, w + 5000000), wait_now = \<lambda>w. w, wait_last_error = \<lambda>w. 0,
    create_precise_timer = \<lambda>w. (Inl ERROR_INVALID_PARAMETER, w), create_timer = \<lambda>w. (Inr (), w),
    set_timer = \<lambda>h due w. (True, w),
    start_write = \<lambda>h data w. (0, w), start_read = \<lambda>h n w. (0, w),
    wait_operation = \<lambda>t w. (0, w), cancel_operation = \<lambda>h w. w, drain_operation = \<lambda>h w. w,
    operation_result = \<lambda>h w. ((0, []), w),
    own_token = \<lambda>w. Inr (), open_process = \<lambda>p w. Inr (), process_token = \<lambda>h w. Inr (),
    token_size = \<lambda>h w. (ERROR_INSUFFICIENT_BUFFER, 64), token_user = \<lambda>h n w. Inr (lit ''S-1-5-21''),
    sid_text = (\<lambda>s. if 0x29 \<in> set s then Inl ERROR_INVALID_PARAMETER else Inr s),
    text_sid = Inr, process_session = \<lambda>p w. Inr 1, client_process = \<lambda>h w. Inr 1,
    server_process = \<lambda>h w. Inr 1, descriptor_error = \<lambda>s. 0,
    create_named_pipe = \<lambda>n s b w. (Inr (), w), connect_named_pipe = \<lambda>h w. (ERROR_IO_PENDING, w),
    signal_operation = \<lambda>w. w, open_pipe = \<lambda>n w. (Inl ERROR_PIPE_BUSY, w + 1),
    impersonate_client = \<lambda>h w. (0, w), revert_to_self = \<lambda>w. w\<rparr>"

definition example_endpoint :: PipeEndpoint where
  "example_endpoint = \<lparr>endpoint_name = map of_nat [92, 92, 46, 92, 112, 105, 112, 101, 92, 65],
    endpoint_maximum_frame_size = 1024,
    endpoint_access = \<lparr>access_kind = Access_CurrentUserAndLocalSystem, access_allowed_sids = []\<rparr>\<rparr>"

lemma example_endpoint_valid: "Valid_endpoint example_endpoint"
  by (simp add: Valid_endpoint_def example_endpoint_def MaximumPipeFrameSize_def Let_def)

theorem connect_returns_witness:
  "\<exists>r w'. ConnectPipe busy_system example_endpoint (Deadline_After 0 12) 0 = Some (r, w')"
  by (rule connect_returns) (auto simp: clock_ok_def waits_ok_def busy_system_def Deadline_After_def)


end
