(* ===== verification/Deployment.thy ===== *)
theory Deployment
  imports Command_Line
begin

text \<open>
  Updates of the installed program (\<open>deployment.h\<close>, \<open>deployment.cpp\<close>): verifying a candidate, staging a
  copy beside the target, replacing the target with roll-back, and restarting.  Paths are strings without NUL.  The
  calls of the system are the parameter \<open>deploy_api\<close>; those on files yield whether they succeeded, and
  \<open>wait_last_error\<close> is \<open>GetLastError\<close>.
\<close>

section \<open>Versions\<close>

datatype Version =
  Version (ver_major: "16 word") (ver_minor: "16 word") (ver_build: "16 word") (ver_revision: "16 word")

instantiation Version :: linorder
begin

fun less_eq_Version :: "Version \<Rightarrow> Version \<Rightarrow> bool" where
  "less_eq_Version (Version a b c d) (Version a' b' c' d') \<longleftrightarrow>
    a < a' \<or> a = a' \<and> (b < b' \<or> b = b' \<and> (c < c' \<or> c = c' \<and> d \<le> d'))"

definition less_Version :: "Version \<Rightarrow> Version \<Rightarrow> bool" where
  "less_Version v w \<longleftrightarrow> v \<le> w \<and> \<not> w \<le> v"

instance
proof
  fix u v w :: Version
  show "v \<le> v" by (cases v) simp
  show "u \<le> v \<Longrightarrow> v \<le> w \<Longrightarrow> u \<le> w"
    by (cases u; cases v; cases w) (auto intro: less_trans)
  show "v \<le> w \<Longrightarrow> w \<le> v \<Longrightarrow> v = w" by (cases v; cases w) auto
  show "v \<le> w \<or> w \<le> v" by (cases v; cases w) auto
  show "v < w \<longleftrightarrow> v \<le> w \<and> \<not> w \<le> v" by (rule less_Version_def)
qed

end

definition MinimumSpecified :: "Version \<Rightarrow> bool" where
  "MinimumSpecified v \<longleftrightarrow>
    ver_major v \<noteq> 0 \<or> ver_minor v \<noteq> 0 \<or> ver_build v \<noteq> 0 \<or> ver_revision v \<noteq> 0"

section \<open>The calls\<close>

record ('w, 'h) deploy_api = "('w, 'h) wait_api" +
  open_waitable :: "dword \<Rightarrow> 'w \<Rightarrow> 'h option \<times> 'w"
  is_regular_file :: "wstring \<Rightarrow> 'w \<Rightarrow> bool"
  path_exists :: "wstring \<Rightarrow> 'w \<Rightarrow> bool"
  volume_path :: "wstring \<Rightarrow> 'w \<Rightarrow> dword + wstring"
  absolute_path :: "wstring \<Rightarrow> 'w \<Rightarrow> wstring"
  same_volume :: "wstring \<Rightarrow> wstring \<Rightarrow> bool"
  verify_trust :: "wstring \<Rightarrow> dword \<Rightarrow> dword \<Rightarrow> 'w \<Rightarrow> dword"
  version_info :: "wstring \<Rightarrow> 'w \<Rightarrow> SystemError + (dword \<times> dword) option"
  copy_new_file :: "wstring \<Rightarrow> wstring \<Rightarrow> 'w \<Rightarrow> bool \<times> 'w"
  move_file :: "wstring \<Rightarrow> wstring \<Rightarrow> bool \<Rightarrow> 'w \<Rightarrow> bool \<times> 'w"
  delete_file :: "wstring \<Rightarrow> 'w \<Rightarrow> bool \<times> 'w"
  start_process :: "wstring \<Rightarrow> wstring \<Rightarrow> 'w \<Rightarrow> bool \<times> 'w"

abbreviation last_error :: "('w, 'h, 'z) deploy_api_scheme \<Rightarrow> 'w \<Rightarrow> SystemError" where
  "last_error A w \<equiv> SystemError_FromWin32 (wait_last_error A w)"

section \<open>Verification\<close>

datatype SignatureStatus =
  Signature_Valid | Signature_Unsigned | Signature_Untrusted | Signature_Invalid
| Signature_RevocationUnavailable

datatype RevocationPolicy = Revocation_Offline | Revocation_Online

text \<open>Flags and status codes of \<open>WinVerifyTrust\<close>.\<close>

definition WTD_REVOKE_NONE :: dword where "WTD_REVOKE_NONE = 0"
definition WTD_REVOKE_WHOLECHAIN :: dword where "WTD_REVOKE_WHOLECHAIN = 1"
definition WTD_REVOCATION_CHECK_CHAIN :: dword where "WTD_REVOCATION_CHECK_CHAIN = 0x40"
definition WTD_CACHE_ONLY_URL_RETRIEVAL :: dword where "WTD_CACHE_ONLY_URL_RETRIEVAL = 0x1000"
definition TRUST_E_PROVIDER_UNKNOWN :: dword where "TRUST_E_PROVIDER_UNKNOWN = 0x800B0001"
definition TRUST_E_SUBJECT_FORM_UNKNOWN :: dword where "TRUST_E_SUBJECT_FORM_UNKNOWN = 0x800B0003"
definition TRUST_E_SUBJECT_NOT_TRUSTED :: dword where "TRUST_E_SUBJECT_NOT_TRUSTED = 0x800B0004"
definition TRUST_E_NOSIGNATURE :: dword where "TRUST_E_NOSIGNATURE = 0x800B0100"
definition CERT_E_UNTRUSTEDROOT :: dword where "CERT_E_UNTRUSTEDROOT = 0x800B0109"
definition CERT_E_REVOCATION_FAILURE :: dword where "CERT_E_REVOCATION_FAILURE = 0x800B010E"
definition TRUST_E_EXPLICIT_DISTRUST :: dword where "TRUST_E_EXPLICIT_DISTRUST = 0x800B0111"
definition CRYPT_E_REVOCATION_OFFLINE :: dword where "CRYPT_E_REVOCATION_OFFLINE = 0x80092013"
definition ERROR_RESOURCE_DATA_NOT_FOUND :: dword where "ERROR_RESOURCE_DATA_NOT_FOUND = 1812"

definition signature_status :: "dword \<Rightarrow> SignatureStatus" where
  "signature_status status =
    (if status = ERROR_SUCCESS then Signature_Valid
     else if status = TRUST_E_NOSIGNATURE \<or> status = TRUST_E_SUBJECT_FORM_UNKNOWN
       \<or> status = TRUST_E_PROVIDER_UNKNOWN then Signature_Unsigned
     else if status = CERT_E_UNTRUSTEDROOT \<or> status = TRUST_E_EXPLICIT_DISTRUST
     then Signature_Untrusted
     else if status = CERT_E_REVOCATION_FAILURE \<or> status = CRYPT_E_REVOCATION_OFFLINE
     then Signature_RevocationUnavailable
     else Signature_Invalid)"

definition VerifyAuthenticode ::
  "('w, 'h, 'z) deploy_api_scheme \<Rightarrow> wstring \<Rightarrow> RevocationPolicy \<Rightarrow> 'w \<Rightarrow>
    (SignatureStatus \<times> dword) result" where
  "VerifyAuthenticode A path policy w =
    (if \<not> is_regular_file A path w then Inl (SystemError_FromWin32 ERROR_FILE_NOT_FOUND)
     else let status = verify_trust A path
         (if policy = Revocation_Online then WTD_REVOKE_WHOLECHAIN else WTD_REVOKE_NONE)
         (if policy = Revocation_Offline then WTD_CACHE_ONLY_URL_RETRIEVAL
          else WTD_REVOCATION_CHECK_CHAIN) w
       in Inr (signature_status status, status))"

definition HIWORD :: "dword \<Rightarrow> 16 word" where "HIWORD d = ucast (drop_bit 16 d)"
definition LOWORD :: "dword \<Rightarrow> 16 word" where "LOWORD d = ucast d"

definition QueryFileVersion ::
  "('w, 'h, 'z) deploy_api_scheme \<Rightarrow> wstring \<Rightarrow> 'w \<Rightarrow> Version result" where
  "QueryFileVersion A path w =
    (case version_info A path w of
       Inl e \<Rightarrow> Inl e
     | Inr None \<Rightarrow> Inl (SystemError_FromWin32 ERROR_RESOURCE_DATA_NOT_FOUND)
     | Inr (Some (ms, ls)) \<Rightarrow> Inr (Version (HIWORD ms) (LOWORD ms) (HIWORD ls) (LOWORD ls)))"

record UpdateVerificationPolicy =
  uvp_require_valid_signature :: bool
  uvp_revocation :: RevocationPolicy
  uvp_minimum_version :: Version

record VerifiedUpdate =
  vu_candidate :: wstring
  vu_target :: wstring
  vu_backup :: wstring
  vu_restart_executable :: wstring
  vu_restart_arguments :: "wstring list"
  vu_policy :: UpdateVerificationPolicy

text \<open>The two checks that verification and staging share; \<open>None\<close> lets the update pass.\<close>

definition signature_refusal ::
  "('w, 'h, 'z) deploy_api_scheme \<Rightarrow> UpdateVerificationPolicy \<Rightarrow> string \<Rightarrow> wstring \<Rightarrow> 'w \<Rightarrow>
    SystemError option" where
  "signature_refusal A policy operation path w =
    (if \<not> uvp_require_valid_signature policy then None
     else case VerifyAuthenticode A path (uvp_revocation policy) w of
       Inl e \<Rightarrow> Some e
     | Inr (status, _) \<Rightarrow>
         if status \<noteq> Signature_Valid
         then Some (SystemError_WithOperation operation
           (SystemError_FromHResult TRUST_E_SUBJECT_NOT_TRUSTED))
         else None)"

definition version_refusal ::
  "('w, 'h, 'z) deploy_api_scheme \<Rightarrow> UpdateVerificationPolicy \<Rightarrow> wstring \<Rightarrow> 'w \<Rightarrow> SystemError option" where
  "version_refusal A policy path w =
    (if \<not> MinimumSpecified (uvp_minimum_version policy) then None
     else case QueryFileVersion A path w of
       Inl e \<Rightarrow> Some e
     | Inr version \<Rightarrow>
         if version < uvp_minimum_version policy
         then Some (SystemError_FromWin32 ERROR_PRODUCT_VERSION) else None)"

definition VerifyUpdate ::
  "('w, 'h, 'z) deploy_api_scheme \<Rightarrow> wstring \<Rightarrow> wstring \<Rightarrow> wstring \<Rightarrow> wstring \<Rightarrow> wstring list \<Rightarrow>
    UpdateVerificationPolicy \<Rightarrow> 'w \<Rightarrow> VerifiedUpdate result" where
  "VerifyUpdate A candidate target backup restart arguments policy w =
    (if \<not> is_regular_file A candidate w \<or> \<not> is_regular_file A target w \<or> target = [] \<or> backup = []
       \<or> restart = [] \<or> target = backup \<or> candidate = target
     then Inl (SystemError_FromWin32 ERROR_INVALID_PARAMETER)
     else case volume_path A target w of
       Inl e \<Rightarrow> Inl (SystemError_FromWin32 e)
     | Inr target_volume \<Rightarrow>
         if (case volume_path A backup w of
               Inl _ \<Rightarrow> True | Inr backup_volume \<Rightarrow> \<not> same_volume A target_volume backup_volume)
         then Inl (SystemError_FromWin32 ERROR_NOT_SAME_DEVICE)
         else case signature_refusal A policy ''Update candidate signature'' candidate w of
           Some e \<Rightarrow> Inl e
         | None \<Rightarrow>
             (case version_refusal A policy candidate w of
                Some e \<Rightarrow> Inl e
              | None \<Rightarrow> Inr \<lparr>vu_candidate = absolute_path A candidate w,
                  vu_target = absolute_path A target w, vu_backup = absolute_path A backup w,
                  vu_restart_executable = absolute_path A restart w,
                  vu_restart_arguments = arguments, vu_policy = policy\<rparr>))"

section \<open>Staging\<close>

record StagedUpdate =
  su_verified :: VerifiedUpdate
  su_staging :: wstring
  su_active :: bool

definition StagedUpdate_destroy ::
  "('w, 'h, 'z) deploy_api_scheme \<Rightarrow> StagedUpdate \<Rightarrow> 'w \<Rightarrow> 'w" where
  "StagedUpdate_destroy A s w =
    (if su_active s \<and> su_staging s \<noteq> [] then snd (delete_file A (su_staging s) w) else w)"

text \<open>Moving out of \<open>other\<close>: the new object, and what is left in \<open>other\<close>.\<close>

definition StagedUpdate_move :: "StagedUpdate \<Rightarrow> StagedUpdate \<times> StagedUpdate" where
  "StagedUpdate_move other = (other, other\<lparr>su_staging := [], su_active := False\<rparr>)"

definition StageUpdate ::
  "('w, 'h, 'z) deploy_api_scheme \<Rightarrow> VerifiedUpdate \<Rightarrow> 'w \<Rightarrow> StagedUpdate result \<times> 'w" where
  "StageUpdate A plan w =
    (case signature_refusal A (vu_policy plan) ''Update candidate signature changed'' (vu_candidate plan) w of
       Some e \<Rightarrow> (Inl e, w)
     | None \<Rightarrow>
         (case version_refusal A (vu_policy plan) (vu_candidate plan) w of
            Some e \<Rightarrow> (Inl e, w)
          | None \<Rightarrow>
              let staging = vu_target plan @ lit ''.mwfl-stage''
              in case copy_new_file A (vu_candidate plan) staging w of (copied, w1) \<Rightarrow>
                if \<not> copied
                then (Inl (SystemError_WithOperation ''Stage update'' (last_error A w1)), w1)
                else case signature_refusal A (vu_policy plan) ''Staged update signature'' staging w1 of
                  Some e \<Rightarrow> (Inl e, snd (delete_file A staging w1))
                | None \<Rightarrow> (Inr \<lparr>su_verified = plan, su_staging = staging, su_active = True\<rparr>, w1)))"

section \<open>Applying\<close>

definition wait_for_exit ::
  "('w, 'h, 'z) deploy_api_scheme \<Rightarrow> dword \<Rightarrow> Deadline \<Rightarrow> 'w \<Rightarrow> CompletionStatus result \<times> 'w" where
  "wait_for_exit A pid deadline w =
    (if pid = 0 then (Inr Completed, w)
     else case open_waitable A pid w of
       (None, w1) \<Rightarrow> (Inl (last_error A w1), w1)
     | (Some process, w1) \<Rightarrow>
         (case WaitForHandle A (Some process) deadline w1 of
            (Inl e, w2) \<Rightarrow> (Inl e, w2)
          | (Inr r, w2) \<Rightarrow> (Inr (outcome_status r), w2)))"

text \<open>Moving the target to the backup and the staged file to the target; an error has been rolled back.\<close>

definition replace_target ::
  "('w, 'h, 'z) deploy_api_scheme \<Rightarrow> wstring \<Rightarrow> wstring \<Rightarrow> wstring \<Rightarrow> 'w \<Rightarrow> SystemError option \<times> 'w" where
  "replace_target A target backup staging w =
    (let w1 = snd (delete_file A backup w)
     in case (if path_exists A target w1 then move_file A target backup True w1 else (True, w1)) of
       (False, w2) \<Rightarrow>
         let w3 = snd (delete_file A staging w2)
         in (Some (SystemError_WithOperation ''Backup update target'' (last_error A w3)), w3)
     | (True, w2) \<Rightarrow>
         (case move_file A staging target True w2 of
            (True, w3) \<Rightarrow> (None, w3)
          | (False, w3) \<Rightarrow>
              (Some (SystemError_WithOperation ''Commit update'' (last_error A w3)),
               snd (delete_file A staging (snd (move_file A backup target True w3))))))"

definition restart_updated ::
  "('w, 'h, 'z) deploy_api_scheme \<Rightarrow> VerifiedUpdate \<Rightarrow> wstring \<Rightarrow> 'w \<Rightarrow> SystemError option \<times> 'w" where
  "restart_updated A plan staging w =
    (case start_process A (vu_restart_executable plan)
        (restart_command (vu_restart_executable plan) (vu_restart_arguments plan)) w of
       (True, w1) \<Rightarrow> (None, w1)
     | (False, w1) \<Rightarrow>
         (Some (SystemError_WithOperation ''Restart updated application'' (last_error A w1)),
          let w2 = snd (move_file A (vu_target plan) staging False w1);
              w3 = snd (move_file A (vu_backup plan) (vu_target plan) True w2)
          in snd (delete_file A staging w3)))"

text \<open>The staged update is passed by value: whatever stays active is destroyed on return.\<close>

definition ApplyUpdate ::
  "('w, 'h, 'z) deploy_api_scheme \<Rightarrow> StagedUpdate \<Rightarrow> dword \<Rightarrow> Deadline \<Rightarrow> 'w \<Rightarrow>
    (wstring \<times> wstring) OperationOutcome result \<times> 'w" where
  "ApplyUpdate A staged pid deadline w =
    (let plan = su_verified staged; staging = su_staging staged
     in case wait_for_exit A pid deadline w of
       (Inl e, w1) \<Rightarrow> (Inl e, StagedUpdate_destroy A staged w1)
     | (Inr s, w1) \<Rightarrow>
         if s \<noteq> Completed then (Inr (Outcome_Control s), StagedUpdate_destroy A staged w1)
         else case replace_target A (vu_target plan) (vu_backup plan) staging w1 of
           (Some e, w2) \<Rightarrow> (Inl e, StagedUpdate_destroy A staged w2)
         | (None, w2) \<Rightarrow>
             (case restart_updated A plan staging w2 of
                (Some e, w3) \<Rightarrow> (Inl e, StagedUpdate_destroy A staged w3)
              | (None, w3) \<Rightarrow>
                  (Inr (Outcome_Completed (vu_target plan, vu_backup plan)),
                   StagedUpdate_destroy A (staged\<lparr>su_active := False\<rparr>) w3)))"

end
