(* ===== verification/Deployment_Rollback.thy ===== *)
theory Deployment_Rollback
  imports Deployment Registry
begin

text \<open>
  What applying an update guarantees on a file system that keeps its contract, and where the checks on the
  paths are too weak.  \<open>disk\<close> says what a file holds; two spellings may name the same file: \<open>file_of\<close>
  is the file that a path names.  No other process touches the files meanwhile.
\<close>

definition deploy_ok ::
  "('w, 'h, 'z) deploy_api_scheme \<Rightarrow> ('w \<Rightarrow> 'f \<Rightarrow> 'c option) \<Rightarrow> (wstring \<Rightarrow> 'f) \<Rightarrow> bool" where
  "deploy_ok A disk file_of \<longleftrightarrow>
    (\<forall>a b through w ok w'. move_file A a b through w = (ok, w') \<longrightarrow>
      disk w' = (if ok then (disk w)(file_of a := None, file_of b := disk w (file_of a)) else disk w) \<and>
      (ok \<longrightarrow> disk w (file_of a) \<noteq> None)) \<and>
    (\<forall>a w ok w'. delete_file A a w = (ok, w') \<longrightarrow>
      disk w' = (if ok then (disk w)(file_of a := None) else disk w)) \<and>
    (\<forall>a b w ok w'. copy_new_file A a b w = (ok, w') \<longrightarrow>
      disk w' = (if ok then (disk w)(file_of b := disk w (file_of a)) else disk w) \<and>
      (ok \<longrightarrow> disk w (file_of a) \<noteq> None \<and> disk w (file_of b) = None)) \<and>
    (\<forall>a w. path_exists A a w \<longleftrightarrow> disk w (file_of a) \<noteq> None) \<and>
    (\<forall>w c w'. create_event A w = (c, w') \<longrightarrow> disk w' = disk w) \<and>
    (\<forall>h t w c w'. wait_two A h t w = (c, w') \<longrightarrow> disk w' = disk w) \<and>
    (\<forall>p w c w'. open_waitable A p w = (c, w') \<longrightarrow> disk w' = disk w) \<and>
    (\<forall>e c w ok w'. start_process A e c w = (ok, w') \<longrightarrow> disk w' = disk w)"

lemma disk_move:
  assumes "deploy_ok A disk file_of" and "move_file A a b through w = (ok, w')"
  shows "disk w' = (if ok then (disk w)(file_of a := None, file_of b := disk w (file_of a)) else disk w)"
  using assms unfolding deploy_ok_def by metis

lemma disk_delete:
  assumes "deploy_ok A disk file_of"
  shows "disk (snd (delete_file A a w)) = disk w \<or>
    disk (snd (delete_file A a w)) = (disk w)(file_of a := None)"
  using assms unfolding deploy_ok_def by (metis prod.collapse)

lemma disk_delete_other:
  assumes "deploy_ok A disk file_of" and "f \<noteq> file_of a"
  shows "disk (snd (delete_file A a w)) f = disk w f"
  using disk_delete [OF assms(1), of a w] assms(2) by auto

lemma disk_copy:
  assumes "deploy_ok A disk file_of" and "copy_new_file A a b w = (True, w')"
  shows "disk w' = (disk w)(file_of b := disk w (file_of a))" and "disk w (file_of a) \<noteq> None"
  using assms unfolding deploy_ok_def by metis+

lemma disk_exists:
  assumes "deploy_ok A disk file_of"
  shows "path_exists A a w \<longleftrightarrow> disk w (file_of a) \<noteq> None"
  using assms unfolding deploy_ok_def by metis

lemma disk_start:
  assumes "deploy_ok A disk file_of" and "start_process A e c w = (ok, w')"
  shows "disk w' = disk w"
  using assms unfolding deploy_ok_def by metis

lemma disk_wait:
  assumes "deploy_ok A disk file_of" and "WaitForHandle A h d w = (r, w')"
  shows "disk w' = disk w"
proof (cases h)
  case None
  with assms(2) show ?thesis by (simp add: WaitForHandle_def)
next
  case (Some x)
  obtain c w1 where event: "create_event A w = (c, w1)" by fastforce
  obtain y w2 where wait: "wait_two A x (BoundedTimeout (wait_now A w1) d) w1 = (y, w2)" by fastforce
  have "disk w1 = disk w" "disk w2 = disk w1"
    using assms(1) event wait unfolding deploy_ok_def by metis+
  with assms(2) Some event wait show ?thesis by (auto simp: WaitForHandle_def split: if_splits)
qed

lemma disk_wait_for_exit:
  assumes "deploy_ok A disk file_of" and "wait_for_exit A pid d w = (r, w')"
  shows "disk w' = disk w"
proof (cases "pid = 0")
  case True
  with assms(2) show ?thesis by (simp add: wait_for_exit_def)
next
  case False
  obtain p w1 where opened: "open_waitable A pid w = (p, w1)" by fastforce
  have same: "disk w1 = disk w" using assms(1) opened unfolding deploy_ok_def by metis
  show ?thesis
  proof (cases p)
    case None
    with assms(2) False opened same show ?thesis by (simp add: wait_for_exit_def)
  next
    case (Some h)
    obtain r2 w2 where waited: "WaitForHandle A (Some h) d w1 = (r2, w2)" by fastforce
    have "w' = w2" using assms(2) False opened Some waited
      by (auto simp: wait_for_exit_def split: sum.splits)
    with disk_wait [OF assms(1) waited] same show ?thesis by simp
  qed
qed

lemma disk_destroy:
  assumes "deploy_ok A disk file_of" and "f \<noteq> file_of (su_staging s)"
  shows "disk (StagedUpdate_destroy A s w) f = disk w f"
  using disk_delete_other [OF assms] by (simp add: StagedUpdate_destroy_def)

section \<open>Replacing and rolling back\<close>

text \<open>The old program is at its place, or it is in the backup because moving it back failed.\<close>

definition old_program_kept ::
  "('w, 'h, 'z) deploy_api_scheme \<Rightarrow> ('w \<Rightarrow> 'f \<Rightarrow> 'c option) \<Rightarrow> (wstring \<Rightarrow> 'f) \<Rightarrow> wstring \<Rightarrow> wstring \<Rightarrow> 'c \<Rightarrow>
    'w \<Rightarrow> bool" where
  "old_program_kept A disk file_of target backup old w \<longleftrightarrow>
    disk w (file_of target) = Some old \<or>
    disk w (file_of backup) = Some old \<and>
      (\<exists>w1. disk w1 (file_of backup) = Some old \<and> \<not> fst (move_file A backup target True w1))"

lemma move_back:
  assumes "deploy_ok A disk file_of" and "file_of target \<noteq> file_of backup"
    and "disk w (file_of backup) = Some old"
  shows "old_program_kept A disk file_of target backup old (snd (move_file A backup target True w))"
proof -
  obtain ok w' where move: "move_file A backup target True w = (ok, w')" by fastforce
  show ?thesis
  proof (cases ok)
    case True
    with disk_move [OF assms(1) move] assms(3) move show ?thesis by (simp add: old_program_kept_def)
  next
    case False
    with disk_move [OF assms(1) move] assms(3) move show ?thesis
      by (auto simp: old_program_kept_def intro!: exI [of _ w])
  qed
qed

lemma old_program_kept_unaffected:
  assumes "old_program_kept A disk file_of target backup old w"
    and "disk w' (file_of target) = disk w (file_of target)"
    and "disk w' (file_of backup) = disk w (file_of backup)"
  shows "old_program_kept A disk file_of target backup old w'"
  using assms by (simp add: old_program_kept_def)

lemma replace_target_result:
  assumes "deploy_ok A disk file_of"
    and "distinct [file_of target, file_of backup, file_of staging]"
    and "disk w (file_of target) = Some old" and "disk w (file_of staging) = Some new"
    and "replace_target A target backup staging w = (r, w')"
  shows "r = None \<and> disk w' (file_of target) = Some new \<and> disk w' (file_of backup) = Some old \<or>
    r \<noteq> None \<and> old_program_kept A disk file_of target backup old w'"
proof -
  let ?w1 = "snd (delete_file A backup w)"
  have w1: "disk ?w1 (file_of target) = Some old" "disk ?w1 (file_of staging) = Some new"
    using assms(2-4) disk_delete_other [OF assms(1)] by auto
  then have there: "path_exists A target ?w1" using disk_exists [OF assms(1)] by simp
  obtain ok2 w2 where away: "move_file A target backup True ?w1 = (ok2, w2)" by fastforce
  note disk2 = disk_move [OF assms(1) away]
  obtain ok3 w3 where commit: "move_file A staging target True w2 = (ok3, w3)" by fastforce
  note disk3 = disk_move [OF assms(1) commit]
  consider "\<not> ok2" | "ok2" "ok3" | "ok2" "\<not> ok3" by blast
  then show ?thesis
  proof cases
    case 1
    with assms(2) w1 disk2 have "disk (snd (delete_file A staging w2)) (file_of target) = Some old"
      using disk_delete_other [OF assms(1)] by auto
    with 1 assms(5) there away show ?thesis
      by (auto simp: replace_target_def Let_def old_program_kept_def)
  next
    case 2
    with assms(2,5) there away commit w1 disk2 disk3 show ?thesis
      by (auto simp: replace_target_def Let_def)
  next
    case 3
    let ?w4 = "snd (move_file A backup target True w3)"
    have "disk w3 (file_of backup) = Some old" using 3 assms(2) w1 disk2 disk3 by simp
    with move_back [OF assms(1)] assms(2)
    have "old_program_kept A disk file_of target backup old ?w4" by simp
    then have "old_program_kept A disk file_of target backup old (snd (delete_file A staging ?w4))"
      by (rule old_program_kept_unaffected) (use assms(2) disk_delete_other [OF assms(1)] in auto)
    with 3 assms(5) there away commit show ?thesis
      by (auto simp: replace_target_def Let_def)
  qed
qed

lemma restart_updated_result:
  assumes "deploy_ok A disk file_of"
    and "distinct [file_of (vu_target plan), file_of (vu_backup plan), file_of staging]"
    and "disk w (file_of (vu_target plan)) = Some new" and "disk w (file_of (vu_backup plan)) = Some old"
    and "restart_updated A plan staging w = (r, w')"
  shows "r = None \<and> disk w' = disk w \<or>
    r \<noteq> None \<and> old_program_kept A disk file_of (vu_target plan) (vu_backup plan) old w'"
proof -
  obtain ok w1 where start: "start_process A (vu_restart_executable plan)
      (restart_command (vu_restart_executable plan) (vu_restart_arguments plan)) w = (ok, w1)"
    by fastforce
  note disk1 = disk_start [OF assms(1) start]
  show ?thesis
  proof (cases ok)
    case True
    with assms(5) start disk1 show ?thesis by (simp add: restart_updated_def)
  next
    case False
    obtain ok2 w2 where undone: "move_file A (vu_target plan) staging False w1 = (ok2, w2)" by fastforce
    have moved: "disk w2 (file_of (vu_backup plan)) = Some old"
      using disk_move [OF assms(1) undone] disk1 assms(2,4) by auto
    let ?w3 = "snd (move_file A (vu_backup plan) (vu_target plan) True w2)"
    have "old_program_kept A disk file_of (vu_target plan) (vu_backup plan) old ?w3"
      by (rule move_back [OF assms(1)]) (use assms(2) moved in auto)
    then have "old_program_kept A disk file_of (vu_target plan) (vu_backup plan) old
        (snd (delete_file A staging ?w3))"
      by (rule old_program_kept_unaffected) (use assms(2) disk_delete_other [OF assms(1)] in auto)
    with False assms(5) start undone show ?thesis by (auto simp: restart_updated_def Let_def)
  qed
qed

lemma ApplyUpdate_result:
  assumes "deploy_ok A disk file_of"
    and "distinct [file_of (vu_target plan), file_of (vu_backup plan), file_of staging]"
    and "disk w (file_of (vu_target plan)) = Some old" and "disk w (file_of staging) = Some new"
    and "ApplyUpdate A \<lparr>su_verified = plan, su_staging = staging, su_active = True\<rparr> pid d w = (r, w')"
  shows "r = Inr (Outcome_Completed (vu_target plan, vu_backup plan)) \<and>
      disk w' (file_of (vu_target plan)) = Some new \<and> disk w' (file_of (vu_backup plan)) = Some old \<or>
    (\<forall>v. r \<noteq> Inr (Outcome_Completed v)) \<and>
      old_program_kept A disk file_of (vu_target plan) (vu_backup plan) old w'"
proof -
  let ?s = "\<lparr>su_verified = plan, su_staging = staging, su_active = True\<rparr>"
  let ?kept = "old_program_kept A disk file_of (vu_target plan) (vu_backup plan) old"
  have destroyed: "?kept (StagedUpdate_destroy A ?s v)" if "?kept v" for v
    using that by (rule old_program_kept_unaffected)
      (use assms(2) disk_destroy [OF assms(1), of _ ?s] in auto)
  obtain x w1 where exited: "wait_for_exit A pid d w = (x, w1)" by fastforce
  have disk1: "disk w1 = disk w" by (rule disk_wait_for_exit [OF assms(1) exited])
  then have kept1: "?kept w1" using assms(3) by (simp add: old_program_kept_def)
  obtain y w2 where replaced: "replace_target A (vu_target plan) (vu_backup plan) staging w1 = (y, w2)"
    by fastforce
  note result2 = replace_target_result [OF assms(1,2) _ _ replaced, of old new]
  obtain z w3 where restarted: "restart_updated A plan staging w2 = (z, w3)" by fastforce
  note result3 = restart_updated_result [OF assms(1,2) _ _ restarted, of new old]
  show ?thesis
  proof (cases "x = Inr Completed")
    case False
    with assms(5) exited destroyed [OF kept1] show ?thesis
      by (auto simp: ApplyUpdate_def Outcome_Control_def Outcome_Completed_def Let_def
          split: sum.splits)
  next
    case True
    with assms(3-5) exited replaced restarted disk1 result2 result3 destroyed show ?thesis
      by (auto simp: ApplyUpdate_def Let_def StagedUpdate_destroy_def Outcome_Completed_def
          split: option.splits)
  qed
qed

text \<open>C26: Applying an update is all or nothing.  Let the target, the backup and the staged file be three
  different files.  If \<open>ApplyUpdate\<close> completes, the target is the staged program and the backup the old
  one.  Otherwise (the wait timed out or was cancelled, a move failed, the new program did not start) the
  old program is in its place again, or moving it back failed and it is still in the backup.\<close>

theorem update_is_all_or_nothing:
  assumes "deploy_ok A disk file_of"
    and "distinct [file_of (vu_target plan), file_of (vu_backup plan), file_of staging]"
    and "disk w (file_of (vu_target plan)) = Some old" and "disk w (file_of staging) = Some new"
    and "ApplyUpdate A \<lparr>su_verified = plan, su_staging = staging, su_active = True\<rparr> pid d w = (r, w')"
  shows "r = Inr (Outcome_Completed (vu_target plan, vu_backup plan)) \<and>
      disk w' (file_of (vu_target plan)) = Some new \<and> disk w' (file_of (vu_backup plan)) = Some old \<or>
    (\<forall>v. r \<noteq> Inr (Outcome_Completed v)) \<and>
      old_program_kept A disk file_of (vu_target plan) (vu_backup plan) old w'"
  using ApplyUpdate_result [OF assms] .

section \<open>From the candidate to the target\<close>

lemma signature_passes:
  "signature_refusal A policy operation path w = None \<Longrightarrow> uvp_require_valid_signature policy \<Longrightarrow>
    \<exists>status. VerifyAuthenticode A path (uvp_revocation policy) w = Inr (Signature_Valid, status)"
  by (auto simp: signature_refusal_def split: sum.splits if_splits)

lemma version_passes:
  "version_refusal A policy path w = None \<Longrightarrow> MinimumSpecified (uvp_minimum_version policy) \<Longrightarrow>
    \<exists>v. QueryFileVersion A path w = Inr v \<and> uvp_minimum_version policy \<le> v"
  by (auto simp: version_refusal_def not_less split: sum.splits if_splits)

lemma StageUpdate_staged:
  assumes "StageUpdate A plan w = (Inr staged, w1)"
  shows "staged = \<lparr>su_verified = plan, su_staging = vu_target plan @ lit ''.mwfl-stage'', su_active = True\<rparr>"
    and "copy_new_file A (vu_candidate plan) (vu_target plan @ lit ''.mwfl-stage'') w = (True, w1)"
    and "signature_refusal A (vu_policy plan) ''Staged update signature''
      (vu_target plan @ lit ''.mwfl-stage'') w1 = None"
    and "version_refusal A (vu_policy plan) (vu_candidate plan) w = None"
  using assms by (auto simp: StageUpdate_def Let_def split: option.splits prod.splits if_splits)

text \<open>Only a verified program is installed.  When \<open>StageUpdate\<close> and then \<open>ApplyUpdate\<close> succeed
  under a policy, the target holds what the candidate held; the signature of the staged copy was
  valid after it was written, and the version of the candidate was at least the policy's minimum.\<close>

theorem installed_update_was_verified:
  assumes "deploy_ok A disk file_of"
    and "StageUpdate A plan w = (Inr staged, w1)"
    and "ApplyUpdate A staged pid d w1 = (Inr (Outcome_Completed v), w2)"
    and "distinct [file_of (vu_target plan), file_of (vu_backup plan), file_of (su_staging staged)]"
    and "disk w (file_of (vu_target plan)) \<noteq> None"
  shows "disk w2 (file_of (vu_target plan)) = disk w (file_of (vu_candidate plan)) \<and>
    (uvp_require_valid_signature (vu_policy plan) \<longrightarrow>
      (\<exists>status. VerifyAuthenticode A (su_staging staged) (uvp_revocation (vu_policy plan)) w1 =
        Inr (Signature_Valid, status))) \<and>
    (MinimumSpecified (uvp_minimum_version (vu_policy plan)) \<longrightarrow>
      (\<exists>version. QueryFileVersion A (vu_candidate plan) w = Inr version \<and>
        uvp_minimum_version (vu_policy plan) \<le> version))"
proof -
  note staged = StageUpdate_staged [OF assms(2)]
  note copied = disk_copy [OF assms(1) staged(2)]
  obtain old new where files: "disk w1 (file_of (vu_target plan)) = Some old"
    "disk w1 (file_of (su_staging staged)) = Some new"
    using copied assms(4,5) staged(1) by auto
  note applied = ApplyUpdate_result [OF assms(1) _ files(1) _ assms(3) [unfolded staged(1)], of new]
  have "disk w2 (file_of (vu_target plan)) = Some new"
    using applied assms(4) files(2) staged(1) by (cases v) auto
  moreover have "disk w (file_of (vu_candidate plan)) = Some new"
    using copied(1) files(2) staged(1) by simp
  ultimately show ?thesis
    using signature_passes [OF staged(3)] version_passes [OF staged(4)] staged(1) by simp
qed

section \<open>Examples\<close>

text \<open>
  A disk in memory on which paths are compared without regard to case; \<open>started\<close> says whether
  programs start.
\<close>

definition memory_deploy :: "bool \<Rightarrow> (wstring \<Rightarrow> nat option, unit) deploy_api" where
  "memory_deploy started = \<lparr>stop_requested = \<lambda>w. False, create_event = \<lambda>w. (True, w),
    wait_two = \<lambda>h t w. (0, w), wait_now = \<lambda>w. 0, wait_last_error = \<lambda>w. 0,
    open_waitable = \<lambda>p w. (Some (), w),
    is_regular_file = \<lambda>p w. w (fold_ascii p) \<noteq> None, path_exists = \<lambda>p w. w (fold_ascii p) \<noteq> None,
    volume_path = \<lambda>p w. Inr [], absolute_path = \<lambda>p w. p, same_volume = (=),
    verify_trust = \<lambda>p r f w. 0, version_info = \<lambda>p w. Inr (Some (0x10000, 0)),
    copy_new_file = \<lambda>a b w. if w (fold_ascii a) \<noteq> None \<and> w (fold_ascii b) = None
      then (True, w(fold_ascii b := w (fold_ascii a))) else (False, w),
    move_file = \<lambda>a b through w. if w (fold_ascii a) \<noteq> None
      then (True, w(fold_ascii a := None, fold_ascii b := w (fold_ascii a))) else (False, w),
    delete_file = \<lambda>a w. (w (fold_ascii a) \<noteq> None, w(fold_ascii a := None)),
    start_process = \<lambda>e c w. (started, w)\<rparr>"

lemma memory_deploy_ok: "deploy_ok (memory_deploy started) (\<lambda>w. w) fold_ascii"
  unfolding deploy_ok_def by (auto simp: memory_deploy_def)

definition example_policy :: UpdateVerificationPolicy where
  "example_policy = \<lparr>uvp_require_valid_signature = True, uvp_revocation = Revocation_Offline,
    uvp_minimum_version = Version 1 0 0 0\<rparr>"

definition example_update :: "wstring \<Rightarrow> VerifiedUpdate" where
  "example_update backup = \<lparr>vu_candidate = lit ''N'', vu_target = lit ''T'', vu_backup = backup,
    vu_restart_executable = lit ''T'', vu_restart_arguments = [], vu_policy = example_policy\<rparr>"

definition example_disk :: "wstring \<Rightarrow> nat option" where
  "example_disk = [lit ''T'' \<mapsto> 1, lit ''N'' \<mapsto> 2, lit ''S'' \<mapsto> 2]"

theorem update_is_all_or_nothing_witness:
  "\<forall>started. \<exists>r w'. ApplyUpdate (memory_deploy started)
      \<lparr>su_verified = example_update (lit ''B''), su_staging = lit ''S'', su_active = True\<rparr> 7
      Deadline_Infinite example_disk = (r, w') \<and>
    (r = Inr (Outcome_Completed (lit ''T'', lit ''B'')) \<and> w' (lit ''T'') = Some 2 \<and> w' (lit ''B'') = Some 1 \<or>
     (\<forall>v. r \<noteq> Inr (Outcome_Completed v)) \<and>
       old_program_kept (memory_deploy started) (\<lambda>w. w) fold_ascii (lit ''T'') (lit ''B'') 1 w')"
proof
  fix started
  let ?s = "\<lparr>su_verified = example_update (lit ''B''), su_staging = lit ''S'', su_active = True\<rparr>"
  obtain r w' where run: "ApplyUpdate (memory_deploy started) ?s 7 Deadline_Infinite example_disk = (r, w')"
    by fastforce
  have files: "distinct [fold_ascii (vu_target (example_update (lit ''B''))),
      fold_ascii (vu_backup (example_update (lit ''B''))), fold_ascii (lit ''S'')]"
    "example_disk (fold_ascii (vu_target (example_update (lit ''B'')))) = Some 1"
    "example_disk (fold_ascii (lit ''S'')) = Some 2"
    by (simp_all add: example_update_def fold_ascii_def example_disk_def)
  from update_is_all_or_nothing [OF memory_deploy_ok files run] run show "\<exists>r w'.
      ApplyUpdate (memory_deploy started) ?s 7 Deadline_Infinite example_disk = (r, w') \<and>
      (r = Inr (Outcome_Completed (lit ''T'', lit ''B'')) \<and> w' (lit ''T'') = Some 2 \<and> w' (lit ''B'') = Some 1 \<or>
       (\<forall>v. r \<noteq> Inr (Outcome_Completed v)) \<and>
         old_program_kept (memory_deploy started) (\<lambda>w. w) fold_ascii (lit ''T'') (lit ''B'') 1 w')"
    by (intro exI [of _ r] exI [of _ w']) (simp add: example_update_def fold_ascii_def)
qed

section \<open>Paths that the checks let pass\<close>

text \<open>
  \<open>VerifyUpdate\<close> compares the paths as written.  A backup that names the target in another spelling
  passes, and then clearing the backup deletes the program; a program that does not start is lost.
\<close>

definition small_disk :: "wstring \<Rightarrow> nat option" where
  "small_disk = [lit ''T'' \<mapsto> 1, lit ''N'' \<mapsto> 2]"

lemmas deployment_simps = VerifyUpdate_def StageUpdate_def ApplyUpdate_def wait_for_exit_def replace_target_def
  restart_updated_def StagedUpdate_destroy_def signature_refusal_def version_refusal_def
  VerifyAuthenticode_def QueryFileVersion_def MinimumSpecified_def signature_status_def ERROR_SUCCESS_def
  memory_deploy_def example_policy_def example_update_def small_disk_def fold_ascii_def Let_def
  WaitForHandle_def Outcome_Completed_def HIWORD_def LOWORD_def less_Version_def

lemma same_file_backup_loses_program:
  "\<exists>plan staged w1 e w2.
    VerifyUpdate (memory_deploy False) (lit ''N'') (lit ''T'') (lit ''t'') (lit ''T'') [] example_policy
      small_disk = Inr plan \<and>
    StageUpdate (memory_deploy False) plan small_disk = (Inr staged, w1) \<and>
    ApplyUpdate (memory_deploy False) staged 0 Deadline_Infinite w1 = (Inl e, w2) \<and>
    w2 (lit ''T'') = None"
  by (simp add: deployment_simps)

text \<open>A backup with the name of the staged file passes too: the update reports success and changes nothing.\<close>

lemma staged_file_backup_skips_update:
  "\<exists>plan staged w1 v w2.
    VerifyUpdate (memory_deploy True) (lit ''N'') (lit ''T'') (lit ''T.mwfl-stage'') (lit ''T'') []
      example_policy small_disk = Inr plan \<and>
    StageUpdate (memory_deploy True) plan small_disk = (Inr staged, w1) \<and>
    ApplyUpdate (memory_deploy True) staged 0 Deadline_Infinite w1 = (Inr (Outcome_Completed v), w2) \<and>
    w2 (lit ''T'') = Some 1"
  by (simp add: deployment_simps)

theorem installed_update_was_verified_witness:
  "\<exists>staged w1 v w2.
    StageUpdate (memory_deploy True) (example_update (lit ''B'')) small_disk = (Inr staged, w1) \<and>
    ApplyUpdate (memory_deploy True) staged 0 Deadline_Infinite w1 = (Inr (Outcome_Completed v), w2) \<and>
    w2 (lit ''T'') = Some 2"
proof -
  let ?staging = "lit ''T'' @ lit ''.mwfl-stage''"
  let ?w1 = "small_disk(fold_ascii ?staging := Some 2)"
  have staged: "StageUpdate (memory_deploy True) (example_update (lit ''B'')) small_disk =
      (Inr \<lparr>su_verified = example_update (lit ''B''), su_staging = ?staging, su_active = True\<rparr>, ?w1)"
    by (simp add: deployment_simps)
  obtain w2 where applied: "ApplyUpdate (memory_deploy True)
      \<lparr>su_verified = example_update (lit ''B''), su_staging = ?staging, su_active = True\<rparr> 0
      Deadline_Infinite ?w1 = (Inr (Outcome_Completed (lit ''T'', lit ''B'')), w2)"
    by (simp add: deployment_simps)
  have "w2 (fold_ascii (lit ''T'')) = small_disk (fold_ascii (lit ''N''))"
    using installed_update_was_verified [OF memory_deploy_ok staged applied]
    by (simp add: example_update_def small_disk_def fold_ascii_def)
  then have "w2 (lit ''T'') = Some 2" by (simp add: small_disk_def fold_ascii_def)
  with staged applied show ?thesis by blast
qed

end
