(* ===== verification/Process_Environment.thy ===== *)
theory Process_Environment
  imports Foundation Multi_Strings "HOL-Library.List_Lexorder"
begin

text \<open>
  The environment of a new process (\<open>BuildEnvironment\<close> in \<open>process.cpp\<close>): a \<open>std::map\<close> ordered by
  \<open>_wcsicmp\<close>, here a list sorted by the folded names; \<open>lower\<close> is the folding of one unit.
\<close>

type_synonym environment = "(wstring \<times> wstring) list"

definition env_key :: "(wchar \<Rightarrow> wchar) \<Rightarrow> wstring \<Rightarrow> wstring" where
  "env_key lower name = map lower (until_nul name)"

definition CaseInsensitiveLess :: "(wchar \<Rightarrow> wchar) \<Rightarrow> wstring \<Rightarrow> wstring \<Rightarrow> bool" where
  "CaseInsensitiveLess lower a b \<longleftrightarrow> env_key lower a < env_key lower b"

text \<open>\<open>emplace\<close> keeps a value that is there; assigning through \<open>values[name]\<close> keeps the spelling.\<close>

fun env_emplace :: "(wchar \<Rightarrow> wchar) \<Rightarrow> wstring \<Rightarrow> wstring \<Rightarrow> environment \<Rightarrow> environment" where
  "env_emplace lower n v [] = [(n, v)]"
| "env_emplace lower n v ((m, u) # rest) =
    (if CaseInsensitiveLess lower n m then (n, v) # (m, u) # rest
     else if CaseInsensitiveLess lower m n then (m, u) # env_emplace lower n v rest
     else (m, u) # rest)"

fun env_assign :: "(wchar \<Rightarrow> wchar) \<Rightarrow> wstring \<Rightarrow> wstring \<Rightarrow> environment \<Rightarrow> environment" where
  "env_assign lower n v [] = [(n, v)]"
| "env_assign lower n v ((m, u) # rest) =
    (if CaseInsensitiveLess lower n m then (n, v) # (m, u) # rest
     else if CaseInsensitiveLess lower m n then (m, u) # env_assign lower n v rest
     else (m, v) # rest)"

definition env_erase :: "(wchar \<Rightarrow> wchar) \<Rightarrow> wstring \<Rightarrow> environment \<Rightarrow> environment" where
  "env_erase lower n env =
    filter (\<lambda>(m, _). CaseInsensitiveLess lower n m \<or> CaseInsensitiveLess lower m n) env"

abbreviation equals_sign :: wchar where "equals_sign \<equiv> 0x3D"

text \<open>An entry \<open>name=value\<close>; the names of the current directories of drives begin with the sign.\<close>

definition split_entry :: "wstring \<Rightarrow> (wstring \<times> wstring) option" where
  "split_entry entry =
    (let start = (if entry \<noteq> [] \<and> hd entry = equals_sign then 1 else 0)
     in map_option (\<lambda>i. (take (start + i) entry, drop (start + i + 1) entry))
          (find_index (\<lambda>c. c = equals_sign) (drop start entry)))"

fun inherit_entries :: "(wchar \<Rightarrow> wchar) \<Rightarrow> wstring list \<Rightarrow> environment \<Rightarrow> environment" where
  "inherit_entries lower [] env = env"
| "inherit_entries lower (entry # entries) env =
    inherit_entries lower entries
      (case split_entry entry of None \<Rightarrow> env | Some (n, v) \<Rightarrow> env_emplace lower n v env)"

type_synonym env_change = "wstring \<times> wstring option"

fun apply_changes :: "(wchar \<Rightarrow> wchar) \<Rightarrow> env_change list \<Rightarrow> environment \<Rightarrow> environment result" where
  "apply_changes lower [] env = Inr env"
| "apply_changes lower ((n, v) # changes) env =
    (if n = [] \<or> equals_sign \<in> set n
     then Inl (SystemError_WithOperation ''Process environment''
       (SystemError_FromWin32 ERROR_INVALID_PARAMETER))
     else apply_changes lower changes
       (case v of Some v \<Rightarrow> env_assign lower n v env | None \<Rightarrow> env_erase lower n env))"

definition environment_block :: "environment \<Rightarrow> wstring" where
  "environment_block env = concat (map (\<lambda>(n, v). n @ [equals_sign] @ v @ [0]) env) @ [0]"

text \<open>
  \<open>strings\<close> are the entries of \<open>GetEnvironmentStringsW\<close> up to the empty one, or the error of the call.
\<close>

definition BuildEnvironment ::
  "(wchar \<Rightarrow> wchar) \<Rightarrow> dword + wstring list \<Rightarrow> bool \<Rightarrow> env_change list \<Rightarrow> wstring result" where
  "BuildEnvironment lower strings inherit changes =
    (case (if inherit then strings else Inr []) of
       Inl e \<Rightarrow> Inl (SystemError_WithOperation ''GetEnvironmentStringsW'' (SystemError_FromWin32 e))
     | Inr entries \<Rightarrow>
         map_sum id environment_block (apply_changes lower changes (inherit_entries lower entries [])))"

section \<open>The map it implements\<close>

definition env_sorted :: "(wchar \<Rightarrow> wchar) \<Rightarrow> environment \<Rightarrow> bool" where
  "env_sorted lower env \<longleftrightarrow> sorted_wrt (\<lambda>a b. env_key lower (fst a) < env_key lower (fst b)) env"

definition env_map :: "(wchar \<Rightarrow> wchar) \<Rightarrow> environment \<Rightarrow> wstring \<rightharpoonup> wstring" where
  "env_map lower env = map_of (map (apfst (env_key lower)) env)"

lemma env_map_simps [simp]:
  "env_map lower [] = Map.empty"
  "env_map lower ((n, v) # env) = (env_map lower env)(env_key lower n \<mapsto> v)"
  by (simp_all add: env_map_def)

lemma env_sorted_simps [simp]:
  "env_sorted lower []"
  "env_sorted lower ((n, v) # env) \<longleftrightarrow>
    (\<forall>x \<in> set env. env_key lower n < env_key lower (fst x)) \<and> env_sorted lower env"
  by (simp_all add: env_sorted_def)

lemma env_map_above:
  "\<forall>x \<in> set env. k < env_key lower (fst x) \<Longrightarrow> env_map lower env k = None"
  by (auto simp: env_map_def map_of_eq_None_iff)

lemma env_emplace_set: "set (env_emplace lower n v env) \<subseteq> insert (n, v) (set env)"
  by (induction lower n v env rule: env_emplace.induct) auto

lemma env_assign_names: "x \<in> set (env_assign lower n v env) \<Longrightarrow>
    fst x \<in> insert n (fst ` set env)"
  by (induction lower n v env rule: env_assign.induct) (auto split: if_splits)

lemma env_assign_values: "x \<in> set (env_assign lower n v env) \<Longrightarrow>
    snd x \<in> insert v (snd ` set env)"
  by (induction lower n v env rule: env_assign.induct) (auto split: if_splits)

lemma env_emplace_map:
  "env_sorted lower env \<Longrightarrow> env_sorted lower (env_emplace lower n v env) \<and>
    env_map lower (env_emplace lower n v env) =
      (if env_key lower n \<in> dom (env_map lower env) then env_map lower env
       else (env_map lower env)(env_key lower n \<mapsto> v))"
proof (induction lower n v env rule: env_emplace.induct)
  case (1 lower n v)
  then show ?case by simp
next
  case (2 lower n v m u rest)
  consider "env_key lower n < env_key lower m" | "env_key lower m < env_key lower n"
    | "env_key lower n = env_key lower m" by (metis less_linear)
  then show ?case
  proof cases
    case 1
    with "2.prems" have "env_map lower rest (env_key lower n) = None"
      by (intro env_map_above) (auto intro: less_trans)
    moreover have "env_key lower n \<noteq> env_key lower m" using 1 by auto
    ultimately show ?thesis using 1 "2.prems"
      by (auto simp: CaseInsensitiveLess_def intro: less_trans)
  next
    case 2
    then have "\<not> env_key lower n < env_key lower m" by auto
    with 2 "2.IH" "2.prems" show ?thesis
      using env_emplace_set [of lower n v rest]
      by (auto simp: CaseInsensitiveLess_def fun_upd_twist dom_def)
  next
    case 3
    with "2.prems" show ?thesis by (auto simp: CaseInsensitiveLess_def fun_eq_iff)
  qed
qed

lemma env_assign_map:
  "env_sorted lower env \<Longrightarrow> env_sorted lower (env_assign lower n v env) \<and>
    env_map lower (env_assign lower n v env) = (env_map lower env)(env_key lower n \<mapsto> v)"
proof (induction lower n v env rule: env_assign.induct)
  case (1 lower n v)
  then show ?case by simp
next
  case (2 lower n v m u rest)
  consider "env_key lower n < env_key lower m" | "env_key lower m < env_key lower n"
    | "env_key lower n = env_key lower m" by (metis less_linear)
  then show ?case
  proof cases
    case 1
    with "2.prems" show ?thesis
      by (auto simp: CaseInsensitiveLess_def intro: less_trans)
  next
    case 2
    then have "\<not> env_key lower n < env_key lower m" by auto
    moreover have "\<forall>x \<in> set (env_assign lower n v rest). env_key lower m < env_key lower (fst x)"
      using 2 "2.prems" by (auto dest!: env_assign_names)
    ultimately show ?thesis using 2 "2.IH" "2.prems"
      by (auto simp: CaseInsensitiveLess_def fun_eq_iff)
  next
    case 3
    with "2.prems" show ?thesis by (auto simp: CaseInsensitiveLess_def fun_eq_iff)
  qed
qed

lemma env_erase_map:
  assumes "env_sorted lower env"
  shows "env_sorted lower (env_erase lower n env)"
    and "env_map lower (env_erase lower n env) = (env_map lower env)(env_key lower n := None)"
proof -
  have erase: "env_erase lower n env = filter (\<lambda>x. env_key lower (fst x) \<noteq> env_key lower n) env"
    unfolding env_erase_def CaseInsensitiveLess_def
    by (rule filter_cong [OF refl]) (auto simp: neq_iff)
  show "env_sorted lower (env_erase lower n env)"
    using assms by (simp add: erase env_sorted_def sorted_wrt_filter)
  show "env_map lower (env_erase lower n env) = (env_map lower env)(env_key lower n := None)"
    unfolding erase by (induction env) (auto simp: fun_eq_iff)
qed

text \<open>The specification: a map from folded names to values.\<close>

fun spec_inherit :: "(wchar \<Rightarrow> wchar) \<Rightarrow> wstring list \<Rightarrow> (wstring \<rightharpoonup> wstring) \<Rightarrow> (wstring \<rightharpoonup> wstring)" where
  "spec_inherit lower [] m = m"
| "spec_inherit lower (entry # entries) m =
    spec_inherit lower entries
      (case split_entry entry of
         None \<Rightarrow> m
       | Some (n, v) \<Rightarrow> if env_key lower n \<in> dom m then m else m(env_key lower n \<mapsto> v))"

definition spec_change :: "(wchar \<Rightarrow> wchar) \<Rightarrow> (wstring \<rightharpoonup> wstring) \<Rightarrow> env_change \<Rightarrow> (wstring \<rightharpoonup> wstring)" where
  "spec_change lower m c = m(env_key lower (fst c) := snd c)"

lemma inherit_map:
  "env_sorted lower env \<Longrightarrow> env_sorted lower (inherit_entries lower entries env) \<and>
    env_map lower (inherit_entries lower entries env) = spec_inherit lower entries (env_map lower env)"
  by (induction lower entries env rule: inherit_entries.induct)
    (auto simp: env_emplace_map split: option.splits)

lemma changes_map:
  "env_sorted lower env \<Longrightarrow> apply_changes lower changes env = Inr env' \<Longrightarrow>
    env_sorted lower env' \<and> env_map lower env' = foldl (spec_change lower) (env_map lower env) changes"
  by (induction lower changes env rule: apply_changes.induct)
    (auto simp: env_assign_map env_erase_map spec_change_def split: if_splits option.splits)

section \<open>Reading the block back\<close>

definition clean_entry :: "wstring \<times> wstring \<Rightarrow> bool" where
  "clean_entry x \<longleftrightarrow> fst x \<noteq> [] \<and> equals_sign \<notin> set (tl (fst x)) \<and> 0 \<notin> set (fst x) \<and> 0 \<notin> set (snd x)"

definition clean_change :: "env_change \<Rightarrow> bool" where
  "clean_change c \<longleftrightarrow> 0 \<notin> set (fst c) \<and> (\<forall>v. snd c = Some v \<longrightarrow> 0 \<notin> set v)"

lemma find_equals: "equals_sign \<notin> set a \<Longrightarrow> find_index (\<lambda>c. c = equals_sign) (a @ equals_sign # b) = Some (length a)"
  by (induction a) auto

lemma split_joined:
  assumes "n \<noteq> []" and "equals_sign \<notin> set (tl n)"
  shows "split_entry (n @ equals_sign # v) = Some (n, v)"
proof (cases n)
  case Nil
  with assms show ?thesis by simp
next
  case (Cons c cs)
  with assms(2) find_equals [of cs v] show ?thesis
    by (simp add: split_entry_def Let_def)
qed

lemma before_found: "find_index P xs = Some i \<Longrightarrow> x \<in> set (take i xs) \<Longrightarrow> \<not> P x"
  by (auto simp: find_index_Some in_set_conv_nth)

lemma split_clean:
  assumes "split_entry entry = Some (n, v)" and "0 \<notin> set entry"
  shows "clean_entry (n, v)"
proof (cases entry)
  case Nil
  with assms(1) show ?thesis by (simp add: split_entry_def)
next
  case (Cons c cs)
  have nul: "0 \<notin> set n" "0 \<notin> set v"
    using assms by (auto simp: split_entry_def Let_def dest: in_set_takeD in_set_dropD)
  show ?thesis
  proof (cases "c = equals_sign")
    case True
    with assms(1) Cons obtain i where i: "find_index (\<lambda>c. c = equals_sign) cs = Some i" "n = c # take i cs"
      by (auto simp: split_entry_def Let_def)
    with nul before_found [OF i(1)] show ?thesis by (auto simp: clean_entry_def)
  next
    case False
    with assms(1) Cons obtain i where i: "find_index (\<lambda>c. c = equals_sign) cs = Some i" "n = c # take i cs"
      by (auto simp: split_entry_def Let_def)
    with nul before_found [OF i(1)] show ?thesis by (auto simp: clean_entry_def)
  qed
qed

lemma emplace_clean: "\<forall>x \<in> set env. clean_entry x \<Longrightarrow> clean_entry (n, v) \<Longrightarrow>
    \<forall>x \<in> set (env_emplace lower n v env). clean_entry x"
  using env_emplace_set [of lower n v env] by blast

lemma assign_clean: "\<forall>x \<in> set env. clean_entry x \<Longrightarrow> clean_entry (n, v) \<Longrightarrow>
    \<forall>x \<in> set (env_assign lower n v env). clean_entry x"
  by (induction lower n v env rule: env_assign.induct) (auto simp: clean_entry_def)

lemma inherit_clean:
  "\<forall>entry \<in> set entries. 0 \<notin> set entry \<Longrightarrow> \<forall>x \<in> set env. clean_entry x \<Longrightarrow>
    \<forall>x \<in> set (inherit_entries lower entries env). clean_entry x"
proof (induction lower entries env rule: inherit_entries.induct)
  case (1 lower env)
  then show ?case by simp
next
  case (2 lower entry entries env)
  show ?case
  proof (cases "split_entry entry")
    case None
    with 2 show ?thesis by simp
  next
    case (Some nv)
    obtain n v where nv: "nv = (n, v)" by fastforce
    with Some "2.prems" have "clean_entry (n, v)" by (intro split_clean) auto
    with "2.prems"(2) have "\<forall>x \<in> set (env_emplace lower n v env). clean_entry x"
      by (intro emplace_clean)
    with Some nv "2.prems"(1) "2.IH" show ?thesis by simp
  qed
qed

lemma changes_clean:
  "\<forall>c \<in> set changes. clean_change c \<Longrightarrow> \<forall>x \<in> set env. clean_entry x \<Longrightarrow>
    apply_changes lower changes env = Inr env' \<Longrightarrow> \<forall>x \<in> set env'. clean_entry x"
proof (induction lower changes env rule: apply_changes.induct)
  case (1 lower env)
  then show ?case by simp
next
  case (2 lower n v changes env)
  then have ok: "n \<noteq> []" "equals_sign \<notin> set n" by (auto split: if_splits)
  let ?env = "case v of Some v \<Rightarrow> env_assign lower n v env | None \<Rightarrow> env_erase lower n env"
  have "\<forall>x \<in> set ?env. clean_entry x"
  proof (cases v)
    case None
    with "2.prems"(2) show ?thesis by (auto simp: env_erase_def)
  next
    case (Some u)
    have "clean_entry (n, u)"
      using ok Some "2.prems"(1) by (cases n) (auto simp: clean_entry_def clean_change_def)
    with "2.prems"(2) have "\<forall>x \<in> set (env_assign lower n u env). clean_entry x"
      by (intro assign_clean)
    with Some show ?thesis by simp
  qed
  with 2 ok show ?case by simp
qed

lemma block_strings:
  assumes "\<forall>x \<in> set env. clean_entry x"
  shows "parse_multi (environment_block env) = Some (map (\<lambda>(n, v). n @ equals_sign # v) env)"
proof -
  have "environment_block env =
      concat (map (\<lambda>p. p @ [0]) (map (\<lambda>(n, v). n @ equals_sign # v) env)) @ [0]"
    by (simp add: environment_block_def comp_def split_def)
  moreover have "\<forall>p \<in> set (map (\<lambda>(n, v). n @ equals_sign # v) env). p \<noteq> [] \<and> 0 \<notin> set p"
    using assms by (auto simp: clean_entry_def)
  ultimately show ?thesis by (metis parse_multi_units)
qed

text \<open>C27: The environment of a child is the one that was described.  Provided no text holds NUL, reading
  the built block as the system does gives entries whose names are pairwise different up to case and
  whose values are exactly: the last change of each changed variable (nothing, when it was removed), and
  for the others the inherited value.\<close>

theorem environment_block_is_exact:
  assumes "BuildEnvironment lower strings inherit changes = Inr block"
    and "\<forall>c \<in> set changes. clean_change c"
    and "\<forall>entries. strings = Inr entries \<longrightarrow> (\<forall>entry \<in> set entries. 0 \<notin> set entry)"
  shows "\<exists>env. map_option (map split_entry) (parse_multi block) = Some (map Some env) \<and>
    distinct (map (env_key lower \<circ> fst) env) \<and>
    env_map lower env = foldl (spec_change lower)
      (spec_inherit lower (if inherit then projr strings else []) Map.empty) changes"
proof -
  from assms(1) obtain entries env where env: "(if inherit then strings else Inr []) = Inr entries"
    "apply_changes lower changes (inherit_entries lower entries []) = Inr env"
    "block = environment_block env"
    by (cases "if inherit then strings else Inr []"; cases "apply_changes lower changes
        (inherit_entries lower (projr (if inherit then strings else Inr [])) [])")
      (auto simp: BuildEnvironment_def)
  have inherited: "entries = (if inherit then projr strings else [])" using env(1) by (auto split: if_splits)
  have "\<forall>entry \<in> set entries. 0 \<notin> set entry" using env(1) assms(3) by (auto split: if_splits)
  then have clean: "\<forall>x \<in> set env. clean_entry x"
    by (intro changes_clean [OF assms(2) _ env(2)] inherit_clean) simp_all
  have maps: "env_sorted lower env \<and> env_map lower env =
      foldl (spec_change lower) (spec_inherit lower entries Map.empty) changes"
    using changes_map [OF _ env(2)] inherit_map [of lower "[]" entries] by simp
  then have "distinct (map (env_key lower \<circ> fst) env)"
    by (simp add: env_sorted_def distinct_conv_nth sorted_wrt_iff_nth_less) (metis nat_neq_iff order_less_irrefl)
  moreover have "map split_entry (map (\<lambda>(n, v). n @ equals_sign # v) env) = map Some env"
    using clean by (auto simp: clean_entry_def split_joined)
  ultimately show ?thesis
    using maps block_strings [OF clean] env(3) inherited by (intro exI [of _ env]) simp
qed

text \<open>
  The premise is not checked by the code: a value with a NUL is written as it is and becomes a second
  variable.
\<close>

lemma nul_in_value_adds_variable:
  "map_option (map split_entry) (parse_multi (projr (BuildEnvironment id (Inr []) False
     [(lit ''A'', Some (lit ''1'' @ [0] @ lit ''B=2''))]))) =
   Some [Some (lit ''A'', lit ''1''), Some (lit ''B'', lit ''2'')]"
  by (simp add: BuildEnvironment_def environment_block_def parse_multi.simps split_entry_def)

definition example_changes :: "env_change list" where
  "example_changes = [(lit ''b'', Some (lit ''2'')), (lit ''A'', None)]"

theorem environment_block_is_exact_witness:
  "\<exists>env. map_option (map split_entry)
      (parse_multi (projr (BuildEnvironment id (Inr [lit ''A=1'', lit ''C=3'']) True example_changes))) =
        Some (map Some env) \<and>
    env_map id env = [lit ''b'' \<mapsto> lit ''2'', lit ''C'' \<mapsto> lit ''3'']"
proof -
  have "\<exists>block. BuildEnvironment id (Inr [lit ''A=1'', lit ''C=3'']) True example_changes = Inr block"
    by (simp add: BuildEnvironment_def example_changes_def split_entry_def CaseInsensitiveLess_def
        env_key_def until_nul_def env_erase_def)
  then obtain block where block:
    "BuildEnvironment id (Inr [lit ''A=1'', lit ''C=3'']) True example_changes = Inr block" by blast
  have "\<forall>c \<in> set example_changes. clean_change c"
    by (simp add: example_changes_def clean_change_def)
  from environment_block_is_exact [OF block this] obtain env where
    "map_option (map split_entry) (parse_multi block) = Some (map Some env)"
    "env_map id env = foldl (spec_change id) (spec_inherit id [lit ''A=1'', lit ''C=3''] Map.empty)
      example_changes"
    by auto
  with block show ?thesis
    by (intro exI [of _ env]) (simp add: example_changes_def spec_change_def split_entry_def env_key_def
        until_nul_def fun_eq_iff)
qed

end
