(* ===== verification/Process_Launch.thy ===== *)
theory Process_Launch
  imports Ipc Command_Line Process_Environment
begin

text \<open>
  Starting and supervising processes (\<open>process.h\<close>, \<open>process.cpp\<close>).  \<open>process_api\<close> extends the calls on
  pipes; a handle that is null is \<open>None\<close>.  Handles are closed by their owners, which is not part of the model.
\<close>

text \<open>The kinds of standard streams, and what \<open>CreateProcessW\<close> is given.\<close>

datatype std_stream = Std_input | Std_output | Std_error

record 'h launch =
  launch_executable :: wstring
  launch_command :: wstring
  launch_inherited :: "'h list"
  launch_flags :: dword
  launch_environment :: wstring
  launch_directory :: "wstring option"
  launch_use_std_handles :: bool
  launch_input :: "'h option"
  launch_output :: "'h option"
  launch_error :: "'h option"

record ProcessJobOptions =
  job_kill_on_close :: bool
  job_active_process_limit :: "dword option"
  job_process_memory_limit :: "nat option"
  job_job_memory_limit :: "nat option"
  job_cpu_rate_hard_cap :: "dword option"

text \<open>The limits of \<open>JOBOBJECT_EXTENDED_LIMIT_INFORMATION\<close> that the code sets.\<close>

record job_limits =
  limit_flags :: dword
  limit_active_processes :: dword
  limit_process_memory :: nat
  limit_job_memory :: nat

record ('w, 'h) process_api = "('w, 'h) pipe_api" +
  create_io_event :: "'w \<Rightarrow> (dword + 'h) \<times> 'w"
  current_process_id :: dword
  next_pipe_number :: "'w \<Rightarrow> nat \<times> 'w"
  create_redirect_pipe :: "wstring \<Rightarrow> bool \<Rightarrow> 'w \<Rightarrow> (dword + 'h) \<times> 'w"
  open_redirect_pipe :: "wstring \<Rightarrow> bool \<Rightarrow> 'w \<Rightarrow> (dword + 'h) \<times> 'w"
  std_handle :: "std_stream \<Rightarrow> 'h option"
  open_null_device :: "bool \<Rightarrow> 'w \<Rightarrow> (dword + 'h) \<times> 'w"
  duplicate_handle :: "'h \<Rightarrow> 'w \<Rightarrow> (dword + 'h) \<times> 'w"
  environment_strings :: "'w \<Rightarrow> dword + wstring list"
  create_job_object :: "'w \<Rightarrow> (dword + 'h) \<times> 'w"
  set_job_limits :: "'h \<Rightarrow> job_limits \<Rightarrow> 'w \<Rightarrow> (dword + unit) \<times> 'w"
  set_job_cpu_rate :: "'h \<Rightarrow> dword \<Rightarrow> 'w \<Rightarrow> (dword + unit) \<times> 'w"
  init_attribute_list :: "'w \<Rightarrow> (dword + unit) \<times> 'w"
  set_handle_list :: "'h list \<Rightarrow> 'w \<Rightarrow> (dword + unit) \<times> 'w"
  create_process :: "'h launch \<Rightarrow> 'w \<Rightarrow> (dword + 'h \<times> 'h \<times> dword) \<times> 'w"
  assign_to_job :: "'h \<Rightarrow> 'h \<Rightarrow> 'w \<Rightarrow> (dword + unit) \<times> 'w"
  resume_thread :: "'h \<Rightarrow> 'w \<Rightarrow> (dword + unit) \<times> 'w"
  terminate_process :: "'h \<Rightarrow> 'w \<Rightarrow> 'w"
  terminate_job :: "'h \<Rightarrow> dword \<Rightarrow> 'w \<Rightarrow> (dword + unit) \<times> 'w"
  exit_code_of :: "'h \<Rightarrow> 'w \<Rightarrow> dword + dword"
  send_ctrl_break :: "dword \<Rightarrow> 'w \<Rightarrow> (dword + unit) \<times> 'w"

section \<open>Pipes and jobs\<close>

definition JOB_OBJECT_LIMIT_ACTIVE_PROCESS :: dword where "JOB_OBJECT_LIMIT_ACTIVE_PROCESS = 0x8"
definition JOB_OBJECT_LIMIT_PROCESS_MEMORY :: dword where "JOB_OBJECT_LIMIT_PROCESS_MEMORY = 0x100"
definition JOB_OBJECT_LIMIT_JOB_MEMORY :: dword where "JOB_OBJECT_LIMIT_JOB_MEMORY = 0x200"
definition JOB_OBJECT_LIMIT_KILL_ON_JOB_CLOSE :: dword where "JOB_OBJECT_LIMIT_KILL_ON_JOB_CLOSE = 0x2000"

definition limits_of :: "ProcessJobOptions \<Rightarrow> job_limits" where
  "limits_of options = \<lparr>
    limit_flags =
      (if job_kill_on_close options then JOB_OBJECT_LIMIT_KILL_ON_JOB_CLOSE else 0) OR
      (if job_active_process_limit options \<noteq> None then JOB_OBJECT_LIMIT_ACTIVE_PROCESS else 0) OR
      (if job_process_memory_limit options \<noteq> None then JOB_OBJECT_LIMIT_PROCESS_MEMORY else 0) OR
      (if job_job_memory_limit options \<noteq> None then JOB_OBJECT_LIMIT_JOB_MEMORY else 0),
    limit_active_processes = (case job_active_process_limit options of Some n \<Rightarrow> n | None \<Rightarrow> 0),
    limit_process_memory = (case job_process_memory_limit options of Some n \<Rightarrow> n | None \<Rightarrow> 0),
    limit_job_memory = (case job_job_memory_limit options of Some n \<Rightarrow> n | None \<Rightarrow> 0)\<rparr>"

definition CreateJob ::
  "('w, 'h, 'z) process_api_scheme \<Rightarrow> ProcessJobOptions \<Rightarrow> 'w \<Rightarrow> 'h result \<times> 'w" where
  "CreateJob A options =
    and_then (call_or_fail ''CreateJobObjectW'' (create_job_object A)) (\<lambda>job.
    and_then (call_or_fail ''SetInformationJobObject'' (set_job_limits A job (limits_of options))) (\<lambda>_.
      case job_cpu_rate_hard_cap options of
        None \<Rightarrow> succeed job
      | Some rate \<Rightarrow>
          if rate < 1 \<or> 10000 < rate
          then (\<lambda>w. (Inl (SystemError_WithOperation ''Create process job''
            (SystemError_in_domain Domain_InvalidUsage ERROR_INVALID_PARAMETER
              (lit ''CPU rate must be 1..10000''))), w))
          else and_then (call_or_fail ''Set job CPU rate'' (set_job_cpu_rate A job rate))
            (\<lambda>_. succeed job)))"

definition redirect_pipe_name :: "dword \<Rightarrow> nat \<Rightarrow> wstring" where
  "redirect_pipe_name pid n =
    lit [CHR 0x5C, CHR 0x5C, CHR ''.'', CHR 0x5C] @ lit ''pipe'' @ lit [CHR 0x5C] @ lit ''mwfl.process.'' @
    to_wstring (unat pid) @ lit ''.'' @ to_wstring n"

text \<open>The reading end and the writing end.\<close>

definition CreateRedirectPipe ::
  "('w, 'h, 'z) process_api_scheme \<Rightarrow> bool \<Rightarrow> 'w \<Rightarrow> ('h \<times> 'h) result \<times> 'w" where
  "CreateRedirectPipe A parent_reads w =
    (case next_pipe_number A w of (n, w0) \<Rightarrow>
      let name = redirect_pipe_name (current_process_id A) n
      in and_then (call_or_fail ''Create process redirect pipe'' (create_redirect_pipe A name parent_reads))
          (\<lambda>parent. and_then (call_or_fail ''Open process redirect pipe'' (open_redirect_pipe A name parent_reads))
            (\<lambda>child. succeed (if parent_reads then (parent, child) else (child, parent)))) w0)"

definition DuplicateInheritable ::
  "('w, 'h, 'z) process_api_scheme \<Rightarrow> std_stream \<Rightarrow> string \<Rightarrow> 'w \<Rightarrow> 'h result \<times> 'w" where
  "DuplicateInheritable A stream operation =
    call_or_fail operation
      (case std_handle A stream of
         None \<Rightarrow> open_null_device A (stream = Std_input)
       | Some source \<Rightarrow> duplicate_handle A source)"

section \<open>The builder\<close>

record ProcessBuilder =
  pb_executable :: wstring
  pb_working_directory :: wstring
  pb_arguments :: "wstring list"
  pb_environment :: "env_change list"
  pb_job_options :: "ProcessJobOptions option"
  pb_inherit_environment :: bool
  pb_redirect_stdout :: bool
  pb_redirect_stderr :: bool
  pb_redirect_stdin :: bool
  pb_no_window :: bool
  pb_new_process_group :: bool
  pb_merge_stderr :: bool

definition ProcessBuilder_new :: ProcessBuilder where
  "ProcessBuilder_new = \<lparr>pb_executable = [], pb_working_directory = [], pb_arguments = [],
    pb_environment = [], pb_job_options = None, pb_inherit_environment = True,
    pb_redirect_stdout = False, pb_redirect_stderr = False, pb_redirect_stdin = False,
    pb_no_window = False, pb_new_process_group = False, pb_merge_stderr = False\<rparr>"

datatype builder_call =
  Build_Executable wstring | Build_Argument wstring | Build_WorkingDirectory wstring
| Build_InheritEnvironment bool | Build_Environment wstring wstring | Build_RemoveEnvironment wstring
| Build_RedirectStdout bool | Build_RedirectStderr bool | Build_MergeStderrIntoStdout bool
| Build_RedirectStdin bool | Build_NoWindow bool | Build_NewProcessGroup bool

fun builder_apply :: "builder_call \<Rightarrow> ProcessBuilder \<Rightarrow> ProcessBuilder" where
  "builder_apply (Build_Executable v) b = b\<lparr>pb_executable := v\<rparr>"
| "builder_apply (Build_Argument v) b = b\<lparr>pb_arguments := pb_arguments b @ [v]\<rparr>"
| "builder_apply (Build_WorkingDirectory v) b = b\<lparr>pb_working_directory := v\<rparr>"
| "builder_apply (Build_InheritEnvironment v) b = b\<lparr>pb_inherit_environment := v\<rparr>"
| "builder_apply (Build_Environment n v) b = b\<lparr>pb_environment := pb_environment b @ [(n, Some v)]\<rparr>"
| "builder_apply (Build_RemoveEnvironment n) b = b\<lparr>pb_environment := pb_environment b @ [(n, None)]\<rparr>"
| "builder_apply (Build_RedirectStdout v) b = b\<lparr>pb_redirect_stdout := v\<rparr>"
| "builder_apply (Build_RedirectStderr v) b = b\<lparr>pb_redirect_stderr := v\<rparr>"
| "builder_apply (Build_MergeStderrIntoStdout v) b =
    (let b = b\<lparr>pb_merge_stderr := v\<rparr> in if v then b\<lparr>pb_redirect_stdout := True\<rparr> else b)"
| "builder_apply (Build_RedirectStdin v) b = b\<lparr>pb_redirect_stdin := v\<rparr>"
| "builder_apply (Build_NoWindow v) b = b\<lparr>pb_no_window := v\<rparr>"
| "builder_apply (Build_NewProcessGroup v) b = b\<lparr>pb_new_process_group := v\<rparr>"

section \<open>Launching\<close>

record 'h Process =
  proc_process :: 'h
  proc_thread :: 'h
  proc_job :: "'h option"
  proc_stdin_write :: "'h option"
  proc_stdout_read :: "'h option"
  proc_stderr_read :: "'h option"
  proc_id :: dword
  proc_new_process_group :: bool

definition CREATE_SUSPENDED :: dword where "CREATE_SUSPENDED = 0x4"
definition CREATE_NEW_PROCESS_GROUP :: dword where "CREATE_NEW_PROCESS_GROUP = 0x200"
definition CREATE_UNICODE_ENVIRONMENT :: dword where "CREATE_UNICODE_ENVIRONMENT = 0x400"
definition EXTENDED_STARTUPINFO_PRESENT :: dword where "EXTENDED_STARTUPINFO_PRESENT = 0x80000"
definition CREATE_NO_WINDOW :: dword where "CREATE_NO_WINDOW = 0x8000000"
definition ERROR_PROCESS_ABORTED :: dword where "ERROR_PROCESS_ABORTED = 1067"

text \<open>A step that is taken only under a condition.\<close>

definition optional_step :: "bool \<Rightarrow> ('w \<Rightarrow> 'a result \<times> 'w) \<Rightarrow> 'w \<Rightarrow> 'a option result \<times> 'w" where
  "optional_step c m = (if c then and_then m (\<lambda>x. succeed (Some x)) else succeed None)"

definition redirects :: "ProcessBuilder \<Rightarrow> bool" where
  "redirects b \<longleftrightarrow> pb_redirect_stdin b \<or> pb_redirect_stdout b \<or> pb_redirect_stderr b \<or> pb_merge_stderr b"

definition creation_flags :: "ProcessBuilder \<Rightarrow> dword" where
  "creation_flags b =
    CREATE_UNICODE_ENVIRONMENT OR EXTENDED_STARTUPINFO_PRESENT OR
    (if pb_job_options b \<noteq> None then CREATE_SUSPENDED else 0) OR
    (if pb_new_process_group b then CREATE_NEW_PROCESS_GROUP else 0) OR
    (if pb_no_window b then CREATE_NO_WINDOW else 0)"

text \<open>The handles of the child: its ends of the pipes and the duplicates of the parent's streams.\<close>

record 'h child_handles =
  ch_in_pipe :: "('h \<times> 'h) option"
  ch_out_pipe :: "('h \<times> 'h) option"
  ch_err_pipe :: "('h \<times> 'h) option"
  ch_input :: "'h option"
  ch_output :: "'h option"
  ch_error :: "'h option"

definition open_child_handles ::
  "('w, 'h, 'z) process_api_scheme \<Rightarrow> ProcessBuilder \<Rightarrow> 'w \<Rightarrow> 'h child_handles result \<times> 'w" where
  "open_child_handles A b =
    and_then (optional_step (pb_redirect_stdin b) (CreateRedirectPipe A False)) (\<lambda>inp.
    and_then (optional_step (pb_redirect_stdout b) (CreateRedirectPipe A True)) (\<lambda>outp.
    and_then (optional_step (pb_redirect_stderr b \<and> \<not> pb_merge_stderr b) (CreateRedirectPipe A True)) (\<lambda>errp.
    and_then (optional_step (redirects b \<and> \<not> pb_redirect_stdin b)
      (DuplicateInheritable A Std_input ''Duplicate stdin'')) (\<lambda>dup_in.
    and_then (optional_step (redirects b \<and> \<not> pb_redirect_stdout b)
      (DuplicateInheritable A Std_output ''Duplicate stdout'')) (\<lambda>dup_out.
    and_then (optional_step (redirects b \<and> \<not> pb_redirect_stderr b \<and> \<not> pb_merge_stderr b)
      (DuplicateInheritable A Std_error ''Duplicate stderr'')) (\<lambda>dup_err.
    succeed \<lparr>ch_in_pipe = inp, ch_out_pipe = outp, ch_err_pipe = errp,
      ch_input = dup_in, ch_output = dup_out, ch_error = dup_err\<rparr>))))))"

definition inherited_handles :: "'h child_handles \<Rightarrow> 'h list" where
  "inherited_handles h = List.map_filter id
    [map_option snd (ch_out_pipe h), map_option snd (ch_err_pipe h), map_option fst (ch_in_pipe h),
     ch_input h, ch_output h, ch_error h]"

definition launch_of :: "ProcessBuilder \<Rightarrow> wstring \<Rightarrow> 'h child_handles \<Rightarrow> 'h launch" where
  "launch_of b environment h = \<lparr>
    launch_executable = until_nul (pb_executable b),
    launch_command = until_nul (process_command (pb_executable b) (pb_arguments b)),
    launch_inherited = inherited_handles h,
    launch_flags = creation_flags b,
    launch_environment = environment,
    launch_directory = (if pb_working_directory b = [] then None else Some (until_nul (pb_working_directory b))),
    launch_use_std_handles = redirects b,
    launch_input = (if pb_redirect_stdin b then map_option fst (ch_in_pipe h) else ch_input h),
    launch_output = (if pb_redirect_stdout b then map_option snd (ch_out_pipe h) else ch_output h),
    launch_error = (if pb_merge_stderr b then map_option snd (ch_out_pipe h)
      else if pb_redirect_stderr b then map_option snd (ch_err_pipe h) else ch_error h)\<rparr>"

text \<open>
  Assigning the suspended process to its job, then letting it run.  The code reads the error after it has
  terminated the process.
\<close>

definition start_in_job ::
  "('w, 'h, 'z) process_api_scheme \<Rightarrow> 'h \<Rightarrow> 'h \<Rightarrow> 'h \<Rightarrow> 'w \<Rightarrow> unit result \<times> 'w" where
  "start_in_job A job process thread w =
    (case assign_to_job A job process w of
       (Inl _, w1) \<Rightarrow>
         let w2 = terminate_process A process w1
         in (Inl (failed_call ''AssignProcessToJobObject'' (wait_last_error A w2)), w2)
     | (Inr _, w1) \<Rightarrow>
         (case resume_thread A thread w1 of
            (Inl _, w2) \<Rightarrow>
              let w3 = snd (terminate_job A job ERROR_PROCESS_ABORTED w2)
              in (Inl (failed_call ''ResumeThread'' (wait_last_error A w3)), w3)
          | (Inr _, w2) \<Rightarrow> (Inr (), w2)))"

definition LaunchConfigured ::
  "(wchar \<Rightarrow> wchar) \<Rightarrow> ('w, 'h, 'z) process_api_scheme \<Rightarrow> ProcessBuilder \<Rightarrow> 'w \<Rightarrow> 'h Process result \<times> 'w" where
  "LaunchConfigured lower A b w =
    (if pb_executable b = []
     then (Inl (failed_call ''Process executable'' ERROR_INVALID_PARAMETER), w)
     else case BuildEnvironment lower (environment_strings A w) (pb_inherit_environment b) (pb_environment b) of
       Inl e \<Rightarrow> (Inl e, w)
     | Inr environment \<Rightarrow>
         and_then (open_child_handles A b) (\<lambda>h.
         and_then (if inherited_handles h = [] then succeed ()
           else and_then (call_or_fail ''InitializeProcThreadAttributeList'' (init_attribute_list A))
             (\<lambda>_. call_or_fail ''UpdateProcThreadAttribute'' (set_handle_list A (inherited_handles h)))) (\<lambda>_.
         and_then (case pb_job_options b of
             None \<Rightarrow> succeed None | Some options \<Rightarrow> optional_step True (CreateJob A options)) (\<lambda>job.
         and_then (call_or_fail ''CreateProcessW'' (create_process A (launch_of b environment h)))
           (\<lambda>(process, thread, pid).
         and_then (case job of None \<Rightarrow> succeed () | Some j \<Rightarrow> start_in_job A j process thread) (\<lambda>_.
         succeed \<lparr>proc_process = process, proc_thread = thread, proc_job = job,
           proc_stdin_write = map_option snd (ch_in_pipe h),
           proc_stdout_read = map_option fst (ch_out_pipe h),
           proc_stderr_read = map_option fst (ch_err_pipe h),
           proc_id = pid, proc_new_process_group = pb_new_process_group b\<rparr>))))) w)"

definition Launch ::
  "(wchar \<Rightarrow> wchar) \<Rightarrow> ('w, 'h, 'z) process_api_scheme \<Rightarrow> ProcessBuilder \<Rightarrow> 'w \<Rightarrow> 'h Process result \<times> 'w" where
  "Launch lower A b = LaunchConfigured lower A (b\<lparr>pb_job_options := None\<rparr>)"

definition LaunchSupervised ::
  "(wchar \<Rightarrow> wchar) \<Rightarrow> ('w, 'h, 'z) process_api_scheme \<Rightarrow> ProcessJobOptions \<Rightarrow> ProcessBuilder \<Rightarrow> 'w \<Rightarrow>
    'h Process result \<times> 'w" where
  "LaunchSupervised lower A options b = LaunchConfigured lower A (b\<lparr>pb_job_options := Some options\<rparr>)"

section \<open>What the child gets\<close>

definition child_ends_ok :: "ProcessBuilder \<Rightarrow> 'h child_handles \<Rightarrow> bool" where
  "child_ends_ok b h \<longleftrightarrow>
    (ch_in_pipe h = None \<longleftrightarrow> \<not> pb_redirect_stdin b) \<and> (ch_out_pipe h = None \<longleftrightarrow> \<not> pb_redirect_stdout b) \<and>
    (ch_err_pipe h = None \<longleftrightarrow> \<not> (pb_redirect_stderr b \<and> \<not> pb_merge_stderr b)) \<and>
    (ch_input h = None \<longleftrightarrow> \<not> (redirects b \<and> \<not> pb_redirect_stdin b)) \<and>
    (ch_output h = None \<longleftrightarrow> \<not> (redirects b \<and> \<not> pb_redirect_stdout b)) \<and>
    (ch_error h = None \<longleftrightarrow> \<not> (redirects b \<and> \<not> pb_redirect_stderr b \<and> \<not> pb_merge_stderr b))"

lemma optional_step_Inr:
  "optional_step c m w = (Inr x, w') \<Longrightarrow> x = None \<longleftrightarrow> \<not> c"
  by (auto simp: optional_step_def and_then_Inr split: if_splits)

lemma opened_handles_ok: "open_child_handles A b w = (Inr h, w') \<Longrightarrow> child_ends_ok b h"
  unfolding open_child_handles_def and_then_Inr succeed_Inr
  by (elim exE conjE, (drule optional_step_Inr)+, simp add: child_ends_ok_def)

lemma map_filter_id_set: "set (List.map_filter id xs) = {x. Some x \<in> set xs}"
  by (force simp: List.map_filter_def)

lemma inherited_are_std:
  assumes "child_ends_ok b h"
  shows "set (inherited_handles h) =
    {x. Some x \<in> {launch_input (launch_of b e h), launch_output (launch_of b e h),
      launch_error (launch_of b e h)}}"
proof -
  have "set (inherited_handles h) = {x. Some x \<in> {map_option snd (ch_out_pipe h),
      map_option snd (ch_err_pipe h), map_option fst (ch_in_pipe h), ch_input h, ch_output h, ch_error h}}"
    unfolding inherited_handles_def map_filter_id_set by simp
  also have "\<dots> = {x. Some x \<in> {launch_input (launch_of b e h), launch_output (launch_of b e h),
      launch_error (launch_of b e h)}}"
    using assms unfolding child_ends_ok_def
    by (cases "pb_redirect_stdin b"; cases "pb_redirect_stdout b"; cases "pb_redirect_stderr b";
        cases "pb_merge_stderr b") (auto simp: launch_of_def redirects_def)
  finally show ?thesis .
qed

lemma LaunchConfigured_launched:
  assumes "LaunchConfigured lower A b w = (Inr p, w')"
  shows "\<exists>environment h w1 w2 w3. child_ends_ok b h \<and>
    BuildEnvironment lower (environment_strings A w) (pb_inherit_environment b) (pb_environment b) =
      Inr environment \<and>
    create_process A (launch_of b environment h) w1 = (Inr (proc_process p, proc_thread p, proc_id p), w2) \<and>
    (pb_job_options b = None \<longleftrightarrow> proc_job p = None) \<and>
    (\<forall>j. proc_job p = Some j \<longrightarrow> assign_to_job A j (proc_process p) w2 = (Inr (), w3) \<and>
      resume_thread A (proc_thread p) w3 = (Inr (), w'))"
proof -
  from assms obtain environment where exe: "pb_executable b \<noteq> []"
    "BuildEnvironment lower (environment_strings A w) (pb_inherit_environment b) (pb_environment b) =
      Inr environment"
    by (auto simp: LaunchConfigured_def split: if_splits sum.splits)
  with assms obtain h v1 v2 job v3 process thread pid v4 v5 where steps:
    "open_child_handles A b w = (Inr h, v1)"
    "(case pb_job_options b of None \<Rightarrow> succeed None | Some options \<Rightarrow> optional_step True (CreateJob A options)) v2 =
      (Inr job, v3)"
    "create_process A (launch_of b environment h) v3 = (Inr (process, thread, pid), v4)"
    "(case job of None \<Rightarrow> succeed () | Some j \<Rightarrow> start_in_job A j process thread) v4 = (Inr (), v5)"
    "p = \<lparr>proc_process = process, proc_thread = thread, proc_job = job,
      proc_stdin_write = map_option snd (ch_in_pipe h),
      proc_stdout_read = map_option fst (ch_out_pipe h),
      proc_stderr_read = map_option fst (ch_err_pipe h),
      proc_id = pid, proc_new_process_group = pb_new_process_group b\<rparr>" "w' = v5"
    by (auto simp: LaunchConfigured_def and_then_Inr call_or_fail_Inr)
  have job: "pb_job_options b = None \<longleftrightarrow> job = None"
    using steps(2) by (auto split: option.splits dest: optional_step_Inr)
  have started: "assign_to_job A j process v4 = (Inr (), snd (assign_to_job A j process v4)) \<and>
      resume_thread A thread (snd (assign_to_job A j process v4)) = (Inr (), v5)" if "job = Some j" for j
    using steps(4) that by (auto simp: start_in_job_def Let_def split: prod.splits sum.splits)
  show ?thesis
    by (rule exI [of _ environment], rule exI [of _ h], rule exI [of _ v3], rule exI [of _ v4],
        rule exI [of _ "snd (assign_to_job A (the job) process v4)"])
      (use exe steps job started opened_handles_ok [OF steps(1)] in auto)
qed

lemma suspended_flag: "creation_flags b AND CREATE_SUSPENDED =
    (if pb_job_options b = None then 0 else CREATE_SUSPENDED)"
  by (simp add: creation_flags_def CREATE_SUSPENDED_def CREATE_UNICODE_ENVIRONMENT_def
      EXTENDED_STARTUPINFO_PRESENT_def CREATE_NEW_PROCESS_GROUP_def CREATE_NO_WINDOW_def)

text \<open>A child starts exactly as it was described.  When launching succeeds, one process was created:
  its command line splits into the executable and the arguments; the handles it inherits are its three
  standard streams and no others; and under a job it was created suspended, put into the job, and only
  then allowed to run.\<close>

theorem child_starts_as_described:
  assumes "LaunchConfigured lower A b w = (Inr p, w')"
    and "\<forall>a \<in> set (pb_executable b # pb_arguments b). 0 \<notin> set a"
  shows "\<exists>l w1 w2 w3. create_process A l w1 = (Inr (proc_process p, proc_thread p, proc_id p), w2) \<and>
    split_arguments d (launch_command l) = pb_executable b # pb_arguments b \<and>
    set (launch_inherited l) = {h. Some h \<in> {launch_input l, launch_output l, launch_error l}} \<and>
    (launch_flags l AND CREATE_SUSPENDED = 0 \<longleftrightarrow> proc_job p = None) \<and>
    (\<forall>j. proc_job p = Some j \<longrightarrow> assign_to_job A j (proc_process p) w2 = (Inr (), w3) \<and>
      resume_thread A (proc_thread p) w3 = (Inr (), w'))"
proof -
  from LaunchConfigured_launched [OF assms(1)] obtain environment h w1 w2 w3 where launched:
    "child_ends_ok b h"
    "create_process A (launch_of b environment h) w1 = (Inr (proc_process p, proc_thread p, proc_id p), w2)"
    "pb_job_options b = None \<longleftrightarrow> proc_job p = None"
    "\<forall>j. proc_job p = Some j \<longrightarrow> assign_to_job A j (proc_process p) w2 = (Inr (), w3) \<and>
      resume_thread A (proc_thread p) w3 = (Inr (), w')" by (elim exE conjE) (rule that)
  let ?l = "launch_of b environment h"
  have split: "split_arguments d (launch_command ?l) = pb_executable b # pb_arguments b"
    using assms(2) by (simp add: launch_of_def process_command_units command_lines_split)
  have suspended: "launch_flags ?l AND CREATE_SUSPENDED = 0 \<longleftrightarrow> proc_job p = None"
    using suspended_flag [of b] launched(3) by (simp add: launch_of_def CREATE_SUSPENDED_def)
  have streams: "set (launch_inherited ?l) =
      {h. Some h \<in> {launch_input ?l, launch_output ?l, launch_error ?l}}"
    using inherited_are_std [OF launched(1)] by (simp add: launch_of_def)
  show ?thesis
    by (rule exI [of _ ?l], rule exI [of _ w1], rule exI [of _ w2], rule exI [of _ w3], intro conjI)
      (fact launched split suspended streams)+
qed

section \<open>Example\<close>

text \<open>A system in which every call succeeds; its state is the number of the next handle.\<close>

definition willing_system :: "(nat, nat) process_api" where
  "willing_system = \<lparr>stop_requested = \<lambda>w. False, create_event = \<lambda>w. (True, w),
    wait_two = \<lambda>h t w. (0, w), wait_now = \<lambda>w. 0, wait_last_error = \<lambda>w. 0,
    create_precise_timer = \<lambda>w. (Inr w, w + 1), create_timer = \<lambda>w. (Inr w, w + 1),
    set_timer = \<lambda>h due w. (True, w),
    start_write = \<lambda>h data w. (0, w), start_read = \<lambda>h n w. (0, w),
    wait_operation = \<lambda>t w. (0, w), cancel_operation = \<lambda>h w. w, drain_operation = \<lambda>h w. w,
    operation_result = \<lambda>h w. ((0, []), w),
    create_io_event = \<lambda>w. (Inr w, w + 1), current_process_id = 1, next_pipe_number = \<lambda>w. (w, w + 1),
    create_redirect_pipe = \<lambda>n r w. (Inr w, w + 1), open_redirect_pipe = \<lambda>n r w. (Inr w, w + 1),
    std_handle = \<lambda>s. None, open_null_device = \<lambda>r w. (Inr w, w + 1),
    duplicate_handle = \<lambda>h w. (Inr w, w + 1), environment_strings = \<lambda>w. Inr [],
    create_job_object = \<lambda>w. (Inr w, w + 1), set_job_limits = \<lambda>j l w. (Inr (), w),
    set_job_cpu_rate = \<lambda>j r w. (Inr (), w), init_attribute_list = \<lambda>w. (Inr (), w),
    set_handle_list = \<lambda>hs w. (Inr (), w), create_process = \<lambda>l w. (Inr (w, w + 1, 7), w + 2),
    assign_to_job = \<lambda>j p w. (Inr (), w), resume_thread = \<lambda>t w. (Inr (), w),
    terminate_process = \<lambda>p w. w, terminate_job = \<lambda>j c w. (Inr (), w),
    exit_code_of = \<lambda>p w. Inr 0, send_ctrl_break = \<lambda>p w. (Inr (), w)\<rparr>"

definition example_builder :: ProcessBuilder where
  "example_builder = foldr builder_apply
    [Build_Executable (lit ''a b''), Build_Argument (lit ''x''), Build_RedirectStdout True]
    (ProcessBuilder_new\<lparr>pb_job_options := Some \<lparr>job_kill_on_close = True, job_active_process_limit = Some 4,
      job_process_memory_limit = None, job_job_memory_limit = None, job_cpu_rate_hard_cap = Some 50\<rparr>\<rparr>)"

lemma example_launch:
  "\<exists>p w'. LaunchConfigured id willing_system example_builder 10 = (Inr p, w') \<and> proc_job p \<noteq> None"
  by (simp add: LaunchConfigured_def example_builder_def ProcessBuilder_new_def willing_system_def
      BuildEnvironment_def open_child_handles_def optional_step_def redirects_def and_then_def
      succeed_def call_or_fail_def CreateRedirectPipe_def DuplicateInheritable_def CreateJob_def
      start_in_job_def Let_def)

theorem child_starts_as_described_witness:
  "\<exists>(p :: nat Process) (l :: nat launch).
    split_arguments True (launch_command l) = [lit ''a b'', lit ''x''] \<and>
    set (launch_inherited l) = {h. Some h \<in> {launch_input l, launch_output l, launch_error l}} \<and>
    launch_flags l AND CREATE_SUSPENDED \<noteq> 0 \<and> proc_job p \<noteq> None"
proof -
  obtain p w' where p: "LaunchConfigured id willing_system example_builder 10 = (Inr p, w')"
    "proc_job p \<noteq> None" using example_launch by blast
  have built: "pb_executable example_builder = lit ''a b''" "pb_arguments example_builder = [lit ''x'']"
    by (simp_all add: example_builder_def ProcessBuilder_new_def)
  have "\<forall>a \<in> set (pb_executable example_builder # pb_arguments example_builder). 0 \<notin> set a"
    by (simp add: built)
  from child_starts_as_described [OF p(1) this, of True] obtain l :: "nat launch" where
    "split_arguments True (launch_command l) = [lit ''a b'', lit ''x'']"
    "set (launch_inherited l) = {h. Some h \<in> {launch_input l, launch_output l, launch_error l}}"
    "launch_flags l AND CREATE_SUSPENDED = 0 \<longleftrightarrow> proc_job p = None"
    unfolding built by (elim exE conjE) (rule that)
  with p(2) show ?thesis by (intro exI [of _ p] exI [of _ l]) simp
qed

end
