(* ===== verification/Ipc_Frames.thy ===== *)
theory Ipc_Frames
  imports Ipc
begin

text \<open>
  What a byte pipe guarantees, and that frames written on one end are read at the other, in order and
  unchanged, in whatever pieces the system moves the bytes.  Ghost functions of the state describe the
  pipe: \<open>sent\<close> is what this end has written, \<open>incoming\<close> what the peer sends from now on, and \<open>request\<close>
  the operation in flight: the bytes to write or the number of bytes to read.
\<close>

definition pipe_ok ::
  "('w, 'h, 'z) pipe_api_scheme \<Rightarrow> ('w \<Rightarrow> u8 list) \<Rightarrow> ('w \<Rightarrow> u8 list) \<Rightarrow> ('w \<Rightarrow> u8 list + nat) \<Rightarrow> bool" where
  "pipe_ok A sent incoming request \<longleftrightarrow>
    (\<forall>w c w'. create_event A w = (c, w') \<longrightarrow>
      sent w' = sent w \<and> incoming w' = incoming w \<and> request w' = request w) \<and>
    (\<forall>t w c w'. wait_operation A t w = (c, w') \<longrightarrow>
      sent w' = sent w \<and> incoming w' = incoming w \<and> request w' = request w) \<and>
    (\<forall>h data w e w'. start_write A h data w = (e, w') \<longrightarrow>
      sent w' = sent w \<and> incoming w' = incoming w \<and> request w' = Inl data) \<and>
    (\<forall>h n w e w'. start_read A h n w = (e, w') \<longrightarrow>
      sent w' = sent w \<and> incoming w' = incoming w \<and> request w' = Inr n) \<and>
    (\<forall>h w moved w' data. operation_result A h w = ((0, moved), w') \<longrightarrow> request w = Inl data \<longrightarrow>
      data = moved @ drop (length moved) data \<and> sent w' = sent w @ moved) \<and>
    (\<forall>h w moved w' n. operation_result A h w = ((0, moved), w') \<longrightarrow> request w = Inr n \<longrightarrow>
      length moved \<le> n \<and> incoming w = moved @ incoming w')"

lemma pipe_create:
  assumes "pipe_ok A sent incoming request" and "create_event A w = (c, w')"
  shows "sent w' = sent w" and "incoming w' = incoming w" and "request w' = request w"
  using assms unfolding pipe_ok_def by metis+

lemma pipe_wait:
  assumes "pipe_ok A sent incoming request" and "wait_operation A t w = (c, w')"
  shows "sent w' = sent w" and "incoming w' = incoming w" and "request w' = request w"
  using assms unfolding pipe_ok_def by metis+

lemma pipe_start_write:
  assumes "pipe_ok A sent incoming request" and "start_write A h data w = (e, w')"
  shows "sent w' = sent w" and "request w' = Inl data"
  using assms unfolding pipe_ok_def by metis+

lemma pipe_start_read:
  assumes "pipe_ok A sent incoming request" and "start_read A h n w = (e, w')"
  shows "incoming w' = incoming w" and "request w' = Inr n"
  using assms unfolding pipe_ok_def by metis+

lemma pipe_wrote:
  assumes "pipe_ok A sent incoming request" and "operation_result A h w = ((0, moved), w')"
    and "request w = Inl data"
  shows "data = moved @ drop (length moved) data" and "sent w' = sent w @ moved"
  using assms unfolding pipe_ok_def by metis+

lemma pipe_read:
  assumes "pipe_ok A sent incoming request" and "operation_result A h w = ((0, moved), w')"
    and "request w = Inr n"
  shows "length moved \<le> n" and "incoming w = moved @ incoming w'"
  using assms unfolding pipe_ok_def by metis+

lemma AwaitOverlapped_completed:
  assumes "pipe_ok A sent incoming request" and "AwaitOverlapped A h d w = (Inr Completed, w')"
  shows "sent w' = sent w" and "incoming w' = incoming w" and "request w' = request w"
proof -
  obtain c w1 where event: "create_event A w = (c, w1)" by fastforce
  obtain r w2 where wait: "wait_operation A (RemainingMilliseconds (wait_now A w1) d) w1 = (r, w2)"
    by fastforce
  have "w' = w2"
    using assms(2) event wait by (auto simp: AwaitOverlapped_def Let_def split: if_splits)
  with pipe_create [OF assms(1) event] pipe_wait [OF assms(1) wait]
  show "sent w' = sent w" "incoming w' = incoming w" "request w' = request w" by simp_all
qed

lemma chunk_written:
  assumes "pipe_ok A sent incoming request"
    and "transfer_chunk A h (Some data) n d w = (Inr moved, w')"
  shows "data = moved @ drop (length moved) data" and "sent w' = sent w @ moved"
proof -
  obtain c w1 where event: "create_event A w = (c, w1)" by fastforce
  obtain e w2 where start: "start_write A h data w1 = (e, w2)" by fastforce
  obtain a w3 where await: "AwaitOverlapped A h d w2 = (a, w3)" by fastforce
  obtain r m w4 where result: "operation_result A h w3 = ((r, m), w4)" by (metis prod.exhaust)
  have fine: "a = Inr Completed" "r = 0" "m = moved" "w' = w4"
    using assms(2) event start await result by (auto simp: transfer_chunk_def split: if_splits)
  note waited = AwaitOverlapped_completed [OF assms(1) await [unfolded fine(1)]]
  note started = pipe_start_write [OF assms(1) start]
  from pipe_wrote [OF assms(1) result [unfolded fine(2,3)]] waited started
    pipe_create [OF assms(1) event] fine
  show "data = moved @ drop (length moved) data" "sent w' = sent w @ moved" by simp_all
qed

lemma chunk_read:
  assumes "pipe_ok A sent incoming request"
    and "transfer_chunk A h None n d w = (Inr moved, w')"
  shows "length moved \<le> n" and "incoming w = moved @ incoming w'"
proof -
  obtain c w1 where event: "create_event A w = (c, w1)" by fastforce
  obtain e w2 where start: "start_read A h n w1 = (e, w2)" by fastforce
  obtain a w3 where await: "AwaitOverlapped A h d w2 = (a, w3)" by fastforce
  obtain r m w4 where result: "operation_result A h w3 = ((r, m), w4)" by (metis prod.exhaust)
  have fine: "a = Inr Completed" "r = 0" "m = moved" "w' = w4"
    using assms(2) event start await result by (auto simp: transfer_chunk_def split: if_splits)
  note waited = AwaitOverlapped_completed [OF assms(1) await [unfolded fine(1)]]
  note started = pipe_start_read [OF assms(1) start]
  from pipe_read [OF assms(1) result [unfolded fine(2,3)]] waited started
    pipe_create [OF assms(1) event] fine
  show "length moved \<le> n" "incoming w = moved @ incoming w'" by simp_all
qed

section \<open>Transfers and frames\<close>

lemma chunk_not_completed [simp]: "transfer_chunk A h data n d w \<noteq> (Inl (Inr Completed), w')"
  by (auto simp: transfer_chunk_def start_failure_def result_failure_def split: prod.splits if_splits)

lemma Transfer_write_completed:
  "pipe_ok A sent incoming request \<Longrightarrow> Transfer_write A h data d w = (Inr Completed, w') \<Longrightarrow>
    sent w' = sent w @ data"
proof (induction A h data d w rule: Transfer_write.induct)
  case (1 A h data d w)
  obtain r w1 where chunk: "transfer_chunk A h (Some data) (length data) d w = (r, w1)" by fastforce
  show ?case
  proof (cases "data = []")
    case True
    with "1.prems" show ?thesis by (simp add: Transfer_write.simps)
  next
    case False
    from "1.prems"(2) chunk False obtain moved where r: "r = Inr moved"
      by (cases r) (auto simp: Transfer_write.simps [of A h data d w])
    note step = chunk_written [OF "1.prems"(1) chunk [unfolded r]]
    have "sent w' = sent w1 @ drop (length moved) data"
      using "1.IH" [OF False chunk [symmetric]] "1.prems" False chunk r
      by (simp add: Transfer_write.simps [of A h data d w])
    with step show ?thesis by simp
  qed
qed

lemma Transfer_read_completed:
  "pipe_ok A sent incoming request \<Longrightarrow> Transfer_read A h n d w = ((Inr Completed, bytes), w') \<Longrightarrow>
    length bytes = n \<and> incoming w = bytes @ incoming w'"
proof (induction A h n d w arbitrary: bytes rule: Transfer_read.induct)
  case (1 A h n d w)
  obtain r w1 where chunk: "transfer_chunk A h None n d w = (r, w1)" by fastforce
  show ?case
  proof (cases "n = 0")
    case True
    with "1.prems" show ?thesis by (simp add: Transfer_read.simps)
  next
    case False
    from "1.prems"(2) chunk False obtain moved where r: "r = Inr moved"
      by (cases r) (auto simp: Transfer_read.simps [of A h n d w])
    note step = chunk_read [OF "1.prems"(1) chunk [unfolded r]]
    obtain s tail w2 where rest: "Transfer_read A h (n - length moved) d w1 = ((s, tail), w2)"
      by (metis prod.exhaust)
    with "1.prems"(2) False chunk r have "s = Inr Completed" "w2 = w'" "bytes = moved @ tail"
      by (simp_all add: Transfer_read.simps [of A h n d w])
    with "1.IH" [OF False chunk [symmetric] r _ , of tail] "1.prems"(1) rest step show ?thesis by simp
  qed
qed

definition frame :: "u8 list \<Rightarrow> u8 list" where
  "frame payload = le_bytes 4 (of_nat (length payload) :: u32) @ payload"

lemma WriteFrame_completed:
  assumes "pipe_ok A sent incoming request"
    and "PipeConnection_WriteFrame A c payload d w = (Inr r, w')" and "outcome_status r = Completed"
  shows "sent w' = sent w @ frame payload" and "length payload \<le> MaximumPipeFrameSize"
proof -
  from assms(2,3) obtain pipe where c: "conn_pipe c = Some pipe" "\<not> too_large c (length payload)"
    by (auto simp: PipeConnection_WriteFrame_def split: if_splits option.splits)
  let ?header = "le_bytes 4 (of_nat (length payload) :: u32)"
  obtain s1 w1 where header: "Transfer_write A pipe ?header d w = (s1, w1)" by fastforce
  from assms(2,3) c header have s1: "s1 = Inr Completed"
    by (auto simp: PipeConnection_WriteFrame_def Let_def Outcome_Control_def
        split: if_splits sum.splits)
  note sent_header = Transfer_write_completed [OF assms(1) header [unfolded s1]]
  obtain s2 w2 where body: "Transfer_write A pipe payload d w1 = (s2, w2)" by fastforce
  have "sent w' = sent w1 @ payload"
  proof (cases "payload = []")
    case True
    with assms(2) c header s1 show ?thesis
      by (auto simp: PipeConnection_WriteFrame_def Let_def split: if_splits)
  next
    case False
    with assms(2,3) c header s1 body have "s2 = Inr Completed" "w' = w2"
      by (auto simp: PipeConnection_WriteFrame_def Let_def Outcome_Control_def
          split: if_splits sum.splits)
    with Transfer_write_completed [OF assms(1)] body show ?thesis by blast
  qed
  with sent_header show "sent w' = sent w @ frame payload" by (simp add: frame_def)
  show "length payload \<le> MaximumPipeFrameSize" using c(2) by (simp add: too_large_def)
qed

lemma ReadFrame_completed:
  assumes "pipe_ok A sent incoming request"
    and "PipeConnection_ReadFrame A c d w = (Inr r, w')" and "outcome_status r = Completed"
  shows "\<exists>header payload. outcome_value r = Some payload \<and> length header = 4 \<and>
    incoming w = header @ payload @ incoming w' \<and> length payload = unat (le_word header :: u32) \<and>
    \<not> too_large c (length payload)"
proof -
  from assms(2,3) obtain pipe where c: "conn_pipe c = Some pipe"
    by (auto simp: PipeConnection_ReadFrame_def split: if_splits option.splits)
  obtain s1 header w1 where head: "Transfer_read A pipe 4 d w = ((s1, header), w1)"
    by (metis prod.exhaust)
  from assms(2,3) c head have s1: "s1 = Inr Completed"
    by (auto simp: PipeConnection_ReadFrame_def Let_def Outcome_Control_def
        split: if_splits sum.splits)
  note got_header = Transfer_read_completed [OF assms(1) head [unfolded s1]]
  let ?n = "unat (le_word header :: u32)"
  obtain s2 payload w2 where body: "Transfer_read A pipe ?n d w1 = ((s2, payload), w2)"
    by (metis prod.exhaust)
  show ?thesis
  proof (cases "?n = 0")
    case True
    with assms(2) c head s1 got_header show ?thesis
      by (intro exI [of _ header] exI [of _ "[]"])
        (auto simp: PipeConnection_ReadFrame_def Let_def Outcome_Completed_def split: if_splits)
  next
    case False
    with assms(2,3) c head s1 body have fine: "s2 = Inr Completed" "w' = w2" "\<not> too_large c ?n"
      "outcome_value r = Some payload"
      by (auto simp: PipeConnection_ReadFrame_def Let_def Outcome_Control_def Outcome_Completed_def
          split: if_splits sum.splits)
    with Transfer_read_completed [OF assms(1) body [unfolded fine(1)]] got_header show ?thesis
      by (intro exI [of _ header] exI [of _ payload]) auto
  qed
qed

lemma frame_header:
  "length p \<le> MaximumPipeFrameSize \<Longrightarrow>
    unat (le_word (le_bytes 4 (of_nat (length p) :: u32)) :: u32) = length p"
  by (simp add: le_round_trip MaximumPipeFrameSize_def unat_of_nat)

lemma received_frame:
  assumes "pipe_ok A sent incoming request"
    and "PipeConnection_ReadFrame A c d w = (Inr r, w')" and "outcome_status r = Completed"
    and "incoming w = frame p @ rest" and "length p \<le> MaximumPipeFrameSize"
  shows "outcome_value r = Some p" and "incoming w' = rest"
proof -
  from ReadFrame_completed [OF assms(1-3)] obtain header payload where
    read: "outcome_value r = Some payload" "length header = 4"
      "incoming w = header @ payload @ incoming w'" "length payload = unat (le_word header :: u32)"
    by blast
  from read(2,3) assms(4) have header: "header = le_bytes 4 (of_nat (length p) :: u32)"
    and body: "payload @ incoming w' = p @ rest"
    by (simp_all add: frame_def append_eq_append_conv)
  with read(4) frame_header [OF assms(5)] have "length payload = length p" by simp
  with body read(1) show "outcome_value r = Some p" "incoming w' = rest" by simp_all
qed

section \<open>Sequences of frames\<close>

text \<open>A client that writes frames until one does not complete, and one that reads \<open>n\<close> of them.\<close>

fun send_frames ::
  "('w, 'h, 'z) pipe_api_scheme \<Rightarrow> 'h PipeConnection option \<Rightarrow> Deadline \<Rightarrow> u8 list list \<Rightarrow> 'w \<Rightarrow> bool \<times> 'w" where
  "send_frames A writer d [] w = (True, w)"
| "send_frames A writer d (p # ps) w =
    (case PipeWriter_WriteFrame A writer p d w of
       (Inl e, w1) \<Rightarrow> (False, w1)
     | (Inr r, w1) \<Rightarrow> if outcome_status r = Completed then send_frames A writer d ps w1 else (False, w1))"

fun receive_frames ::
  "('w, 'h, 'z) pipe_api_scheme \<Rightarrow> 'h PipeConnection option \<Rightarrow> Deadline \<Rightarrow> nat \<Rightarrow> 'w \<Rightarrow>
    u8 list list option \<times> 'w" where
  "receive_frames A reader d 0 w = (Some [], w)"
| "receive_frames A reader d (Suc n) w =
    (case PipeReader_ReadFrame A reader d w of
       (Inl e, w1) \<Rightarrow> (None, w1)
     | (Inr r, w1) \<Rightarrow>
         if outcome_status r = Completed
         then apfst (map_option ((#) (the (outcome_value r)))) (receive_frames A reader d n w1)
         else (None, w1))"

lemma send_frames_completed:
  assumes "pipe_ok A sent incoming request"
  shows "send_frames A writer d ps w = (True, w') \<Longrightarrow>
    sent w' = sent w @ concat (map frame ps) \<and> (\<forall>p \<in> set ps. length p \<le> MaximumPipeFrameSize)"
proof (induction ps arbitrary: w)
  case Nil
  then show ?case by simp
next
  case (Cons p ps)
  obtain s w1 where one: "PipeWriter_WriteFrame A writer p d w = (s, w1)" by fastforce
  with Cons.prems obtain r where r: "s = Inr r" "outcome_status r = Completed"
    "send_frames A writer d ps w1 = (True, w')"
    by (auto split: sum.splits if_splits)
  with one obtain c where "PipeConnection_WriteFrame A c p d w = (Inr r, w1)"
    by (auto simp: PipeWriter_WriteFrame_def split: option.splits)
  from WriteFrame_completed [OF assms this r(2)] Cons.IH [OF r(3)] show ?case by simp
qed

lemma receive_frames_completed:
  assumes "pipe_ok A sent incoming request"
  shows "receive_frames A reader d (length ps) w = (Some qs, w') \<Longrightarrow>
    incoming w = concat (map frame ps) @ rest \<Longrightarrow>
    \<forall>p \<in> set ps. length p \<le> MaximumPipeFrameSize \<Longrightarrow> qs = ps \<and> incoming w' = rest"
proof (induction ps arbitrary: w qs)
  case Nil
  then show ?case by simp
next
  case (Cons p ps)
  obtain s w1 where one: "PipeReader_ReadFrame A reader d w = (s, w1)" by fastforce
  obtain ys w2 where more: "receive_frames A reader d (length ps) w1 = (ys, w2)" by fastforce
  with Cons.prems(1) one obtain r qs' where r: "s = Inr r" "outcome_status r = Completed"
    "ys = Some qs'" "qs = the (outcome_value r) # qs'" "w2 = w'"
    by (auto split: sum.splits if_splits)
  with one obtain c where "PipeConnection_ReadFrame A c d w = (Inr r, w1)"
    by (auto simp: PipeReader_ReadFrame_def split: option.splits)
  note got = received_frame [OF assms this r(2), of p "concat (map frame ps) @ rest"]
  with Cons.prems(2,3) Cons.IH [of w1 qs'] more r show ?case by simp
qed

text \<open>C23: Frames arrive in order and unchanged.  However the system cuts the bytes into pieces, if every
  one of the written frames completed and the peer reads as many frames from a pipe that delivers the
  written bytes first, then what it reads are the payloads, one by one, and the bytes behind the last
  frame are left for later reads.\<close>

theorem frames_arrive_in_order:
  assumes "pipe_ok A sent incoming request" and "pipe_ok B sent_back arriving asked"
    and "send_frames A writer d payloads w = (True, w')"
    and "receive_frames B reader e (length payloads) v = (Some received, v')"
    and "sent w @ arriving v = sent w' @ rest"
  shows "received = payloads \<and> arriving v' = rest"
proof -
  note wrote = send_frames_completed [OF assms(1,3)]
  with assms(5) have "arriving v = concat (map frame payloads) @ rest" by simp
  from receive_frames_completed [OF assms(2,4) this] wrote show ?thesis by simp
qed

text \<open>C24: A peer cannot make the reader take more than its limit.  Whatever bytes arrive, a completed
  \<open>ReadFrame\<close> has consumed a four-byte header and exactly the payload that the header announces, and the
  payload is no longer than the connection's limit and the global one.\<close>

theorem received_frame_is_bounded:
  assumes "pipe_ok A sent incoming request"
    and "PipeReader_ReadFrame A (Some c) d w = (Inr r, w')" and "outcome_status r = Completed"
  shows "\<exists>header payload. outcome_value r = Some payload \<and> length header = 4 \<and>
    incoming w = header @ payload @ incoming w' \<and> length payload = unat (le_word header :: u32) \<and>
    length payload \<le> unat (conn_maximum_frame_size c) \<and> length payload \<le> MaximumPipeFrameSize"
  using ReadFrame_completed [OF assms(1) _ assms(3), of c d w w'] assms(2)
  by (auto simp: PipeReader_ReadFrame_def too_large_def not_less)

text \<open>A pipe in memory that moves at most three bytes at a time.\<close>

record memory_pipe =
  mp_sent :: "u8 list"
  mp_incoming :: "u8 list"
  mp_request :: "u8 list + nat"

definition small_pipe :: "(memory_pipe, unit) pipe_api" where
  "small_pipe = \<lparr>stop_requested = \<lambda>w. False, create_event = \<lambda>w. (True, w),
    wait_two = \<lambda>h t w. (0, w), wait_now = \<lambda>w. 0, wait_last_error = \<lambda>w. 0,
    create_precise_timer = \<lambda>w. (Inr (), w), create_timer = \<lambda>w. (Inr (), w),
    set_timer = \<lambda>h due w. (True, w),
    start_write = \<lambda>h data w. (ERROR_IO_PENDING, w\<lparr>mp_request := Inl data\<rparr>),
    start_read = \<lambda>h n w. (0, w\<lparr>mp_request := Inr n\<rparr>),
    wait_operation = \<lambda>t w. (0, w), cancel_operation = \<lambda>h w. w, drain_operation = \<lambda>h w. w,
    operation_result = \<lambda>h w. (case mp_request w of
      Inl data \<Rightarrow> ((0, take 3 data), w\<lparr>mp_sent := mp_sent w @ take 3 data\<rparr>)
    | Inr n \<Rightarrow> ((0, take (min n 3) (mp_incoming w)),
        w\<lparr>mp_incoming := drop (min n 3) (mp_incoming w)\<rparr>))\<rparr>"

lemma small_pipe_ok: "pipe_ok small_pipe mp_sent mp_incoming mp_request"
  unfolding pipe_ok_def by (auto simp: small_pipe_def min_def split: sum.splits)

definition example_end :: "unit PipeConnection option" where
  "example_end = fst (PipeConnection_Split (PipeConnection_new (Some ()) 8 True))"

definition example_payloads :: "u8 list list" where
  "example_payloads = [[1, 2, 3, 4, 5], [], [6]]"

lemma small_write:
  "data \<noteq> [] \<Longrightarrow> transfer_chunk small_pipe h (Some data) n Deadline_Infinite w =
    (Inr (take 3 data), w\<lparr>mp_request := Inl data, mp_sent := mp_sent w @ take 3 data\<rparr>)"
  by (simp add: transfer_chunk_def AwaitOverlapped_def small_pipe_def)

lemma small_read:
  "0 < n \<Longrightarrow> mp_incoming w \<noteq> [] \<Longrightarrow> transfer_chunk small_pipe h None n Deadline_Infinite w =
    (Inr (take (min n 3) (mp_incoming w)),
     w\<lparr>mp_request := Inr n, mp_incoming := drop (min n 3) (mp_incoming w)\<rparr>)"
  by (simp add: transfer_chunk_def AwaitOverlapped_def small_pipe_def)

lemmas pipe_example_simps = example_end_def example_payloads_def PipeConnection_Split_def PipeConnection_move_def
  PipeConnection_new_def PipeWriter_WriteFrame_def PipeReader_ReadFrame_def
  PipeConnection_WriteFrame_def PipeConnection_ReadFrame_def too_large_def MaximumPipeFrameSize_def
  Outcome_Completed_def Transfer_write.simps Transfer_read.simps small_write small_read Let_def

lemma le_bytes_4:
  "le_bytes 4 w = [ucast w, ucast (drop_bit 8 w), ucast (drop_bit 16 w), ucast (drop_bit 24 w)]"
  by (simp add: numeral_eq_Suc)

lemma example_frames:
  "send_frames small_pipe example_end Deadline_Infinite example_payloads
     \<lparr>mp_sent = [], mp_incoming = [], mp_request = Inr 0\<rparr> =
   (True, \<lparr>mp_sent = [5, 0, 0, 0, 1, 2, 3, 4, 5, 0, 0, 0, 0, 1, 0, 0, 0, 6], mp_incoming = [],
     mp_request = Inl [6]\<rparr>)"
  by (simp add: pipe_example_simps le_bytes_4)

lemma example_received:
  "receive_frames small_pipe example_end Deadline_Infinite 3
     \<lparr>mp_sent = [], mp_incoming = [5, 0, 0, 0, 1, 2, 3, 4, 5, 0, 0, 0, 0, 1, 0, 0, 0, 6, 9],
      mp_request = Inr 0\<rparr> =
   (Some example_payloads, \<lparr>mp_sent = [], mp_incoming = [9], mp_request = Inr 1\<rparr>)"
  by (simp add: pipe_example_simps numeral_3_eq_3)

theorem frames_arrive_in_order_witness:
  "fst (receive_frames small_pipe example_end Deadline_Infinite 3
     \<lparr>mp_sent = [], mp_incoming = mp_sent (snd (send_frames small_pipe example_end Deadline_Infinite
        example_payloads \<lparr>mp_sent = [], mp_incoming = [], mp_request = Inr 0\<rparr>)) @ [9],
      mp_request = Inr 0\<rparr>) = Some example_payloads"
proof -
  have three: "length example_payloads = 3" by (simp add: example_payloads_def)
  have received: "receive_frames small_pipe example_end Deadline_Infinite (length example_payloads)
      \<lparr>mp_sent = [], mp_incoming = [5, 0, 0, 0, 1, 2, 3, 4, 5, 0, 0, 0, 0, 1, 0, 0, 0, 6, 9],
       mp_request = Inr 0\<rparr> =
    (Some example_payloads, \<lparr>mp_sent = [], mp_incoming = [9], mp_request = Inr 1\<rparr>)"
    unfolding three by (rule example_received)
  have "example_payloads = example_payloads \<and>
      mp_incoming \<lparr>mp_sent = [], mp_incoming = [9], mp_request = Inr 1\<rparr> = [9]"
    by (rule frames_arrive_in_order [OF small_pipe_ok small_pipe_ok example_frames received]) simp
  with example_frames example_received show ?thesis by simp
qed

theorem received_frame_is_bounded_witness:
  "\<exists>header payload. payload = [1, 2, 3, 4, 5 :: u8] \<and> length header = 4 \<and>
    [5, 0, 0, 0, 1, 2, 3, 4, 5, 7] = header @ payload @ [7] \<and>
    length payload = unat (le_word header :: u32) \<and> length payload \<le> 8"
proof -
  let ?c = "PipeConnection_new (Some ()) 8 True"
  let ?w = "\<lparr>mp_sent = [], mp_incoming = [5, 0, 0, 0, 1, 2, 3, 4, 5, 7], mp_request = Inr 0\<rparr>"
  have "PipeReader_ReadFrame small_pipe (Some ?c) Deadline_Infinite ?w =
      (Inr (Outcome_Completed [1, 2, 3, 4, 5]),
       \<lparr>mp_sent = [], mp_incoming = [7], mp_request = Inr 2\<rparr>)"
    by (simp add: pipe_example_simps)
  from received_frame_is_bounded [OF small_pipe_ok this] show ?thesis
    by (simp add: Outcome_Completed_def PipeConnection_new_def)
qed

end
