(* ===== verification/Process_Io.thy ===== *)
theory Process_Io
  imports Process_Launch Ipc_Frames
begin

text \<open>
  Running processes (\<open>process.cpp\<close>): waiting, stopping, feeding and draining their pipes.  The threads of
  \<open>CollectOutput\<close> work on different pipes; each drain is a run of its own, and the model of
  \<open>CollectOutput\<close> is what the code makes of the results.
\<close>

section \<open>One transfer\<close>

definition disconnected_error :: "dword \<Rightarrow> bool" where
  "disconnected_error e \<longleftrightarrow>
    e = ERROR_BROKEN_PIPE \<or> e = ERROR_NO_DATA \<or> e = ERROR_PIPE_NOT_CONNECTED"

definition pipe_failure :: "string \<Rightarrow> dword \<Rightarrow> 'a OperationOutcome result" where
  "pipe_failure operation e =
    (if disconnected_error e then Inr (Outcome_Control Disconnected) else Inl (failed_call operation e))"

text \<open>\<open>data\<close> is what to write, or \<open>None\<close> to read up to \<open>n\<close> bytes; the outcome carries the bytes moved.\<close>

definition TransferProcessPipe ::
  "('w, 'h, 'z) process_api_scheme \<Rightarrow> 'h \<Rightarrow> u8 list option \<Rightarrow> nat \<Rightarrow> Deadline \<Rightarrow> string \<Rightarrow> 'w \<Rightarrow>
    u8 list OperationOutcome result \<times> 'w" where
  "TransferProcessPipe A pipe data n deadline operation w =
    (case create_io_event A w of
       (Inl e, w1) \<Rightarrow> (Inl (failed_call operation e), w1)
     | (Inr event, w1) \<Rightarrow>
         (case (case data of Some bytes \<Rightarrow> start_write A pipe bytes w1
                           | None \<Rightarrow> start_read A pipe n w1) of (started, w2) \<Rightarrow>
           if started \<noteq> 0 \<and> started \<noteq> ERROR_IO_PENDING then (pipe_failure operation started, w2)
           else case WaitForHandle A (Some event) deadline w2 of
             (Inl e, w3) \<Rightarrow>
               (Inl (SystemError_WithOperation operation e), drain_operation A pipe (cancel_operation A pipe w3))
           | (Inr r, w3) \<Rightarrow>
               if outcome_status r \<noteq> Completed
               then (Inr (Outcome_Control (outcome_status r)),
                 drain_operation A pipe (cancel_operation A pipe w3))
               else case operation_result A pipe w3 of ((e, moved), w4) \<Rightarrow>
                 (if e \<noteq> 0 then pipe_failure operation e
                  else if data = None \<and> moved = [] then Inr (Outcome_Control Disconnected)
                  else Inr (Outcome_Completed moved), w4)))"

definition MAXDWORD :: nat where "MAXDWORD = 2 ^ 32 - 1"

definition Process_WriteInput ::
  "('w, 'h, 'z) process_api_scheme \<Rightarrow> 'h Process \<Rightarrow> u8 list \<Rightarrow> Deadline \<Rightarrow> 'w \<Rightarrow>
    u8 list OperationOutcome result \<times> 'w" where
  "Process_WriteInput A p input deadline w =
    (case proc_stdin_write p of
       None \<Rightarrow> (Inl (SystemError_FromWin32 ERROR_INVALID_HANDLE), w)
     | Some pipe \<Rightarrow>
         if input = [] then (Inr (Outcome_Completed []), w)
         else if MAXDWORD < length input then (Inl (SystemError_FromWin32 ERROR_FILE_TOO_LARGE), w)
         else TransferProcessPipe A pipe (Some input) (length input) deadline ''Write process stdin'' w)"

definition ReadProcessPipe ::
  "('w, 'h, 'z) process_api_scheme \<Rightarrow> 'h option \<Rightarrow> nat \<Rightarrow> Deadline \<Rightarrow> string \<Rightarrow> 'w \<Rightarrow>
    u8 list OperationOutcome result \<times> 'w" where
  "ReadProcessPipe A pipe n deadline operation w =
    (case pipe of
       None \<Rightarrow> (Inl (failed_call operation ERROR_INVALID_HANDLE), w)
     | Some pipe \<Rightarrow>
         if n = 0 then (Inr (Outcome_Completed []), w)
         else if MAXDWORD < n then (Inl (SystemError_FromWin32 ERROR_FILE_TOO_LARGE), w)
         else TransferProcessPipe A pipe None n deadline operation w)"

definition Process_ReadStdout ::
  "('w, 'h, 'z) process_api_scheme \<Rightarrow> 'h Process \<Rightarrow> nat \<Rightarrow> Deadline \<Rightarrow> 'w \<Rightarrow>
    u8 list OperationOutcome result \<times> 'w" where
  "Process_ReadStdout A p n deadline =
    ReadProcessPipe A (proc_stdout_read p) n deadline ''Read process stdout''"

definition Process_ReadStderr ::
  "('w, 'h, 'z) process_api_scheme \<Rightarrow> 'h Process \<Rightarrow> nat \<Rightarrow> Deadline \<Rightarrow> 'w \<Rightarrow>
    u8 list OperationOutcome result \<times> 'w" where
  "Process_ReadStderr A p n deadline =
    ReadProcessPipe A (proc_stderr_read p) n deadline ''Read process stderr''"

section \<open>Draining\<close>

record DrainResult =
  drain_status :: CompletionStatus
  drain_error :: "SystemError option"

type_synonym 'w drained = "(DrainResult \<times> u8 list \<times> bool) \<times> 'w"

text \<open>The loop of \<open>DrainPipe\<close>; \<open>None\<close> would be a drain that never ends.\<close>

partial_function (option) drain_loop ::
  "('w, 'h, 'z) process_api_scheme \<Rightarrow> 'h \<Rightarrow> nat \<Rightarrow> u8 list \<Rightarrow> bool \<Rightarrow> Deadline \<Rightarrow> 'w \<Rightarrow> 'w drained option" where
  "drain_loop A pipe maximum output truncated deadline w =
    (case TransferProcessPipe A pipe None 4096 deadline ''Drain process output'' w of
       (Inl e, w1) \<Rightarrow> Some ((\<lparr>drain_status = Completed, drain_error = Some e\<rparr>, output, truncated), w1)
     | (Inr r, w1) \<Rightarrow>
         if outcome_status r = Disconnected
         then Some ((\<lparr>drain_status = Completed, drain_error = None\<rparr>, output, truncated), w1)
         else if outcome_status r \<noteq> Completed
         then Some ((\<lparr>drain_status = outcome_status r, drain_error = None\<rparr>, output, truncated), w1)
         else let moved = the (outcome_value r);
                  keep = min (length moved) (if length output < maximum then maximum - length output else 0)
           in drain_loop A pipe maximum (output @ take keep moved)
                (truncated \<or> keep \<noteq> length moved) deadline w1)"

definition DrainPipe ::
  "('w, 'h, 'z) process_api_scheme \<Rightarrow> 'h \<Rightarrow> nat \<Rightarrow> Deadline \<Rightarrow> 'w \<Rightarrow> 'w drained option" where
  "DrainPipe A pipe maximum deadline w = drain_loop A pipe maximum [] False deadline w"

section \<open>Waiting and stopping\<close>

definition Process_Wait ::
  "('w, 'h, 'z) process_api_scheme \<Rightarrow> 'h Process \<Rightarrow> Deadline \<Rightarrow> 'w \<Rightarrow> dword OperationOutcome result \<times> 'w" where
  "Process_Wait A p deadline w =
    (case WaitForHandle A (Some (proc_process p)) deadline w of
       (Inl e, w1) \<Rightarrow> (Inl (SystemError_WithOperation ''Wait for process'' e), w1)
     | (Inr r, w1) \<Rightarrow>
         if outcome_status r \<noteq> Completed then (Inr (Outcome_Control (outcome_status r)), w1)
         else case exit_code_of A (proc_process p) w1 of
           Inl e \<Rightarrow> (Inl (failed_call ''GetExitCodeProcess'' e), w1)
         | Inr code \<Rightarrow> (Inr (Outcome_Completed code), w1))"

definition Process_RequestConsoleStop ::
  "('w, 'h, 'z) process_api_scheme \<Rightarrow> 'h Process \<Rightarrow> 'w \<Rightarrow> unit result \<times> 'w" where
  "Process_RequestConsoleStop A p w =
    (if \<not> proc_new_process_group p \<or> proc_id p = 0
     then (Inl (failed_call ''RequestConsoleStop'' ERROR_INVALID_STATE), w)
     else call_or_fail ''GenerateConsoleCtrlEvent'' (send_ctrl_break A (proc_id p)) w)"

definition Process_TerminateTree ::
  "('w, 'h, 'z) process_api_scheme \<Rightarrow> 'h Process \<Rightarrow> dword \<Rightarrow> 'w \<Rightarrow> unit result \<times> 'w" where
  "Process_TerminateTree A p code w =
    (case proc_job p of
       None \<Rightarrow> (Inl (failed_call ''TerminateTree'' ERROR_INVALID_STATE), w)
     | Some job \<Rightarrow> call_or_fail ''TerminateJobObject'' (terminate_job A job code) w)"

record ProcessOutput =
  po_exit_code :: dword
  po_stdout :: "u8 list"
  po_stderr :: "u8 list"
  po_stdout_truncated :: bool
  po_stderr_truncated :: bool

text \<open>A stream that is not redirected has the initial result.\<close>

definition no_drain :: "DrainResult \<times> u8 list \<times> bool" where
  "no_drain = (\<lparr>drain_status = Completed, drain_error = None\<rparr>, [], False)"

definition Process_CollectOutput ::
  "dword OperationOutcome result \<Rightarrow> DrainResult \<times> u8 list \<times> bool \<Rightarrow> DrainResult \<times> u8 list \<times> bool \<Rightarrow>
    ProcessOutput OperationOutcome result" where
  "Process_CollectOutput waited out err =
    (case waited of
       Inl e \<Rightarrow> Inl e
     | Inr r \<Rightarrow>
         if outcome_status r \<noteq> Completed then Inr (Outcome_Control (outcome_status r))
         else case (out, err) of ((out_result, out_bytes, out_truncated), (err_result, err_bytes, err_truncated)) \<Rightarrow>
           (case (drain_error out_result, drain_error err_result) of
              (Some e, _) \<Rightarrow> Inl e
            | (None, Some e) \<Rightarrow> Inl e
            | (None, None) \<Rightarrow>
                if drain_status out_result \<noteq> Completed then Inr (Outcome_Control (drain_status out_result))
                else if drain_status err_result \<noteq> Completed
                then Inr (Outcome_Control (drain_status err_result))
                else Inr (Outcome_Completed \<lparr>po_exit_code = the (outcome_value r), po_stdout = out_bytes,
                  po_stderr = err_bytes, po_stdout_truncated = out_truncated,
                  po_stderr_truncated = err_truncated\<rparr>)))"

section \<open>What is collected\<close>

text \<open>The contract of the pipes, for the calls that these transfers use.\<close>

definition process_pipe_ok ::
  "('w, 'h, 'z) process_api_scheme \<Rightarrow> ('w \<Rightarrow> u8 list) \<Rightarrow> ('w \<Rightarrow> u8 list) \<Rightarrow> ('w \<Rightarrow> u8 list + nat) \<Rightarrow> bool" where
  "process_pipe_ok A sent incoming request \<longleftrightarrow> pipe_ok A sent incoming request \<and>
    (\<forall>w c w'. create_io_event A w = (c, w') \<longrightarrow> incoming w' = incoming w \<and> request w' = request w) \<and>
    (\<forall>h t w c w'. wait_two A h t w = (c, w') \<longrightarrow> incoming w' = incoming w \<and> request w' = request w)"

lemma process_wait:
  assumes "process_pipe_ok A sent incoming request" and "WaitForHandle A (Some h) d w = (Inr r, w')"
  shows "incoming w' = incoming w" and "request w' = request w"
proof -
  have pipe: "pipe_ok A sent incoming request" using assms(1) unfolding process_pipe_ok_def by blast
  obtain c w1 where event: "create_event A w = (c, w1)" by fastforce
  obtain y w2 where wait: "wait_two A h (BoundedTimeout (wait_now A w1) d) w1 = (y, w2)" by fastforce
  have "incoming w2 = incoming w1" "request w2 = request w1"
    using assms(1) wait unfolding process_pipe_ok_def by metis+
  with pipe_create [OF pipe event] have "incoming w2 = incoming w" "request w2 = request w" by simp_all
  moreover have "w' = w \<or> w' = w2"
    using assms(2) event wait by (auto simp: WaitForHandle_def split: if_splits)
  ultimately show "incoming w' = incoming w" "request w' = request w" by auto
qed

lemma transfer_read:
  assumes "process_pipe_ok A sent incoming request"
    and "TransferProcessPipe A pipe None n d operation w = (Inr r, w')" and "outcome_status r = Completed"
  shows "\<exists>moved. outcome_value r = Some moved \<and> moved \<noteq> [] \<and> incoming w = moved @ incoming w'"
proof -
  have pipe: "pipe_ok A sent incoming request" using assms(1) unfolding process_pipe_ok_def by blast
  obtain c w1 where event: "create_io_event A w = (c, w1)" by fastforce
  obtain e w2 where start: "start_read A pipe n w1 = (e, w2)" by fastforce
  from assms(2,3) event start obtain h where h: "c = Inr h"
    by (auto simp: TransferProcessPipe_def split: sum.splits)
  obtain x w3 where wait: "WaitForHandle A (Some h) d w2 = (x, w3)" by fastforce
  obtain y m w4 where result: "operation_result A pipe w3 = ((y, m), w4)" by (metis prod.exhaust)
  have fine: "\<exists>v. x = Inr v" "y = 0" "m \<noteq> []" "w' = w4" "outcome_value r = Some m"
    using assms(2,3) event start h wait result
    by (auto simp: TransferProcessPipe_def pipe_failure_def Outcome_Control_def Outcome_Completed_def
        split: sum.splits if_splits)
  then obtain v where v: "x = Inr v" by blast
  have "incoming w1 = incoming w" using assms(1) event unfolding process_pipe_ok_def by metis
  with pipe_start_read [OF pipe start] process_wait [OF assms(1) wait [unfolded v]]
    pipe_read [OF pipe result [unfolded fine(2)]] fine
  show ?thesis by simp
qed

lemma keep_prefix:
  assumes "collected = take maximum seen" and "truncated \<longleftrightarrow> maximum < length seen" and "moved \<noteq> []"
    and "keep = min (length moved) (if length collected < maximum then maximum - length collected else 0)"
  shows "collected @ take keep moved = take maximum (seen @ moved)"
    and "(truncated \<or> keep \<noteq> length moved) \<longleftrightarrow> maximum < length (seen @ moved)"
proof -
  have "0 < length moved" using assms(3) by simp
  then show "(truncated \<or> keep \<noteq> length moved) \<longleftrightarrow> maximum < length (seen @ moved)"
    using assms by (auto simp: min_def split: if_splits)
  have "take (min (length moved) k) moved = take k moved" for k by (simp add: min_def)
  then show "collected @ take keep moved = take maximum (seen @ moved)"
    using assms by (auto simp: min_def split: if_splits)
qed

lemma drain_loop_result:
  assumes "process_pipe_ok A sent incoming request"
  shows "collected = take maximum seen \<Longrightarrow> (truncated \<longleftrightarrow> maximum < length seen) \<Longrightarrow>
    \<exists>result collected' truncated' w' bytes rest.
      drain_loop A pipe maximum collected truncated d w = Some ((result, collected', truncated'), w') \<and>
      incoming w = bytes @ rest \<and> collected' = take maximum (seen @ bytes) \<and>
      (truncated' \<longleftrightarrow> maximum < length (seen @ bytes))"
proof (induction "length (incoming w)" arbitrary: w collected truncated seen rule: less_induct)
  case less
  obtain t w1 where step: "TransferProcessPipe A pipe None 4096 d ''Drain process output'' w = (t, w1)"
    by fastforce
  show ?case
  proof (cases "\<exists>r. t = Inr r \<and> outcome_status r = Completed")
    case False
    with step have "\<exists>result w'. drain_loop A pipe maximum collected truncated d w =
        Some ((result, collected, truncated), w')"
      by (subst drain_loop.simps) (auto split: sum.splits)
    then obtain result w' where ended: "drain_loop A pipe maximum collected truncated d w =
        Some ((result, collected, truncated), w')" by blast
    show ?thesis
      by (rule exI [of _ result], rule exI [of _ collected], rule exI [of _ truncated],
          rule exI [of _ w'], rule exI [of _ "[]"], rule exI [of _ "incoming w"])
        (use ended less.prems in simp)
  next
    case True
    then obtain r where r: "t = Inr r" "outcome_status r = Completed" by blast
    from transfer_read [OF assms step [unfolded r(1)] r(2)] obtain moved where moved:
      "outcome_value r = Some moved" "moved \<noteq> []" "incoming w = moved @ incoming w1" by blast
    let ?keep = "min (length moved) (if length collected < maximum then maximum - length collected else 0)"
    note kept = keep_prefix [OF less.prems moved(2) refl]
    have "length (incoming w1) < length (incoming w)" using moved(2,3) by simp
    from less.hyps [OF this kept(1) kept(2)] obtain result collected' truncated' w' bytes rest where rest:
      "drain_loop A pipe maximum (collected @ take ?keep moved) (truncated \<or> ?keep \<noteq> length moved) d w1 =
        Some ((result, collected', truncated'), w')"
      "incoming w1 = bytes @ rest" "collected' = take maximum ((seen @ moved) @ bytes)"
      "truncated' \<longleftrightarrow> maximum < length ((seen @ moved) @ bytes)" by blast
    have "drain_loop A pipe maximum collected truncated d w = Some ((result, collected', truncated'), w')"
      using step r moved(1) rest(1) by (subst drain_loop.simps) (simp add: Let_def)
    with rest(2-4) moved(3) show ?thesis
      by (intro exI [of _ result] exI [of _ collected'] exI [of _ truncated'] exI [of _ w']
          exI [of _ "moved @ bytes"] exI [of _ rest]) simp
  qed
qed

text \<open>Captured output is the beginning of what the child wrote.  However the bytes arrive, draining a
  pipe ends once the writer's side is closed (or the wait for it ends), and what it keeps are the first
  \<open>maximum\<close> bytes that were read, with the truncation flag set exactly when bytes were dropped.\<close>

theorem drain_keeps_prefix:
  assumes "process_pipe_ok A sent incoming request"
  shows "\<exists>result collected truncated w' bytes rest.
    DrainPipe A pipe maximum d w = Some ((result, collected, truncated), w') \<and>
    incoming w = bytes @ rest \<and> collected = take maximum bytes \<and> (truncated \<longleftrightarrow> maximum < length bytes)"
  using drain_loop_result [OF assms, of "[]" maximum "[]" False] by (simp add: DrainPipe_def)

section \<open>Example\<close>

text \<open>The pipe in memory of theory Ipc_Frames, for a system in which launching does not matter.\<close>

definition small_process :: "(memory_pipe, unit) process_api" where
  "small_process = \<lparr>stop_requested = \<lambda>w. False, create_event = \<lambda>w. (True, w),
    wait_two = \<lambda>h t w. (0, w), wait_now = \<lambda>w. 0, wait_last_error = \<lambda>w. 0,
    create_precise_timer = \<lambda>w. (Inr (), w), create_timer = \<lambda>w. (Inr (), w),
    set_timer = \<lambda>h due w. (True, w),
    start_write = start_write small_pipe, start_read = start_read small_pipe,
    wait_operation = \<lambda>t w. (0, w), cancel_operation = \<lambda>h w. w, drain_operation = \<lambda>h w. w,
    operation_result = operation_result small_pipe,
    create_io_event = \<lambda>w. (Inr (), w), current_process_id = 1, next_pipe_number = \<lambda>w. (0, w),
    create_redirect_pipe = \<lambda>n r w. (Inr (), w), open_redirect_pipe = \<lambda>n r w. (Inr (), w),
    std_handle = \<lambda>s. None, open_null_device = \<lambda>r w. (Inr (), w),
    duplicate_handle = \<lambda>h w. (Inr (), w), environment_strings = \<lambda>w. Inr [],
    create_job_object = \<lambda>w. (Inr (), w), set_job_limits = \<lambda>j l w. (Inr (), w),
    set_job_cpu_rate = \<lambda>j r w. (Inr (), w), init_attribute_list = \<lambda>w. (Inr (), w),
    set_handle_list = \<lambda>hs w. (Inr (), w), create_process = \<lambda>l w. (Inr ((), (), 7), w),
    assign_to_job = \<lambda>j p w. (Inr (), w), resume_thread = \<lambda>t w. (Inr (), w),
    terminate_process = \<lambda>p w. w, terminate_job = \<lambda>j c w. (Inr (), w),
    exit_code_of = \<lambda>p w. Inr 0, send_ctrl_break = \<lambda>p w. (Inr (), w)\<rparr>"

lemma small_process_ok: "process_pipe_ok small_process mp_sent mp_incoming mp_request"
  unfolding process_pipe_ok_def pipe_ok_def
  by (auto simp: small_process_def small_pipe_def min_def split: sum.splits)

theorem drain_keeps_prefix_witness:
  "\<exists>result collected truncated w' bytes rest.
    DrainPipe small_process () 4 Deadline_Infinite
      \<lparr>mp_sent = [], mp_incoming = [1, 2, 3, 4, 5, 6, 7], mp_request = Inr 0\<rparr> =
      Some ((result, collected, truncated), w') \<and>
    [1, 2, 3, 4, 5, 6, 7] = bytes @ rest \<and> collected = take 4 bytes \<and> (truncated \<longleftrightarrow> 4 < length bytes)"
  using drain_keeps_prefix [OF small_process_ok, of "()" 4 Deadline_Infinite
    "\<lparr>mp_sent = [], mp_incoming = [1, 2, 3, 4, 5, 6, 7], mp_request = Inr 0\<rparr>"] by simp

end
