(* ===== verification/Update_Checker.thy ===== *)
theory Update_Checker
  imports Registry
begin

text \<open>
  The update checker (\<open>app_support_version.cpp\<close>, \<open>app_support_update_checker.cpp\<close>): comparing versions,
  reading the release metadata, fetching it with a bounded body, and the schedule kept in the registry.
  The dialogs and menus of the component are not modelled; what they are shown and what they open is.
\<close>

section \<open>Versions\<close>

text \<open>
  \<open>iswdigit\<close> accepts the ten ASCII digits.  \<open>version_number\<close> is the inner loop: the value so far and the
  rest of the text.  On the Windows targets an \<open>unsigned long\<close> has 32 bits, which the bound keeps it
  below.
\<close>

definition is_digit :: "wchar \<Rightarrow> bool" where
  "is_digit c \<longleftrightarrow> 0x30 \<le> c \<and> c \<le> 0x39"

fun version_number :: "nat \<Rightarrow> wstring \<Rightarrow> nat \<times> wstring" where
  "version_number value [] = (value, [])"
| "version_number value (c # cs) =
    (if is_digit c
     then version_number (if 100000000 < value then 1000000000 else value * 10 + unat (c - 0x30)) cs
     else (value, c # cs))"

fun version_parts :: "nat \<Rightarrow> wstring \<Rightarrow> nat list" where
  "version_parts 0 s = []"
| "version_parts (Suc n) s =
    (if s = [] \<or> \<not> is_digit (hd s) then replicate (Suc n) 0
     else case version_number 0 s of (value, rest) \<Rightarrow>
       value # (if rest = [] \<or> hd rest \<noteq> 0x2E then replicate n 0 else version_parts n (tl rest)))"

definition VersionParts :: "wstring \<Rightarrow> nat list" where
  "VersionParts version =
    version_parts 4 (if version \<noteq> [] \<and> (hd version = 0x76 \<or> hd version = 0x56) then tl version else version)"

text \<open>The comparison of arrays: the first difference decides.\<close>

fun array_greater :: "nat list \<Rightarrow> nat list \<Rightarrow> bool" where
  "array_greater (a # as) (b # bs) \<longleftrightarrow> b < a \<or> a = b \<and> array_greater as bs"
| "array_greater _ _ \<longleftrightarrow> False"

definition IsVersionNewer :: "wstring \<Rightarrow> wstring \<Rightarrow> bool" where
  "IsVersionNewer latest current \<longleftrightarrow> array_greater (VersionParts latest) (VersionParts current)"

section \<open>Release metadata\<close>

text \<open>Positions behind the first occurrence of a text, as the calls of \<open>find\<close> that the code chains.\<close>

fun after_first :: "'a list \<Rightarrow> 'a list \<Rightarrow> 'a list option" where
  "after_first needle [] = (if needle = [] then Some [] else None)"
| "after_first needle (x # xs) =
    (if take (length needle) (x # xs) = needle then Some (drop (length needle) (x # xs))
     else after_first needle xs)"

type_synonym bytes = "u8 list"

definition ascii :: "string \<Rightarrow> bytes" where
  "ascii s = map of_char s"

definition json_escape :: "u8 \<Rightarrow> u8 option" where
  "json_escape c =
    (if c = 0x22 \<or> c = 0x5C \<or> c = 0x2F then Some c
     else if c = 0x62 then Some 0x08 else if c = 0x66 then Some 0x0C else if c = 0x6E then Some 0x0A
     else if c = 0x72 then Some 0x0D else if c = 0x74 then Some 0x09 else None)"

fun json_value :: "bytes \<Rightarrow> bytes \<Rightarrow> bytes option" where
  "json_value acc [] = None"
| "json_value acc (c # cs) =
    (if c = 0x22 then Some acc
     else if c \<noteq> 0x5C then json_value (acc @ [c]) cs
     else case cs of
       [] \<Rightarrow> None
     | e # rest \<Rightarrow>
         (case json_escape e of None \<Rightarrow> None | Some b \<Rightarrow> json_value (acc @ [b]) rest))"

definition JsonString :: "bytes \<Rightarrow> string \<Rightarrow> bytes option" where
  "JsonString json field =
    (case after_first (0x22 # ascii field @ [0x22]) json of
       None \<Rightarrow> None
     | Some rest \<Rightarrow>
         (case after_first [0x3A] rest of
            None \<Rightarrow> None
          | Some rest \<Rightarrow>
              (case after_first [0x22] rest of None \<Rightarrow> None | Some rest \<Rightarrow> json_value [] rest)))"

section \<open>Fetching\<close>

record ReleaseInfo =
  release_version :: wstring
  release_url :: wstring

record CheckResult =
  check_release :: "ReleaseInfo option"
  check_error :: string
  check_manual :: bool

record UpdateCheckerOptions =
  application_name :: wstring
  repository :: wstring
  current_version :: wstring
  settings_key :: wstring

text \<open>
  The calls of WinHTTP, on the state of the system: opening a session for an agent, a connection and a
  request for a path, sending and receiving, the status code, and the body, chunk by chunk: how many
  bytes are available, and reading that many.  \<open>utf8\<close> is \<open>MultiByteToWideChar\<close>, \<open>None\<close> its failure.
\<close>

record 'w http_api =
  http_open :: "wstring \<Rightarrow> 'w \<Rightarrow> bool \<times> 'w"
  http_connect :: "'w \<Rightarrow> bool \<times> 'w"
  http_request :: "wstring \<Rightarrow> 'w \<Rightarrow> bool \<times> 'w"
  http_exchange :: "'w \<Rightarrow> bool \<times> 'w"
  http_status :: "'w \<Rightarrow> bool \<times> dword"
  http_available :: "'w \<Rightarrow> (bool \<times> dword) \<times> 'w"
  http_read :: "nat \<Rightarrow> 'w \<Rightarrow> (bool \<times> bytes) \<times> 'w"
  utf8 :: "bytes \<Rightarrow> wstring option"

definition body_limit :: nat where
  "body_limit = 256 * 1024"

text \<open>The loop over the body; \<open>None\<close> would be a response that never ends.\<close>

partial_function (option) fetch_body ::
  "('w, 'z) http_api_scheme \<Rightarrow> bytes \<Rightarrow> 'w \<Rightarrow> ((string + bytes) \<times> 'w) option" where
  "fetch_body A body w =
    (case http_available A w of ((ok, available), w1) \<Rightarrow>
      if \<not> ok then Some (Inl ''The release response was interrupted.'', w1)
      else if available = 0 then Some (Inr body, w1)
      else if body_limit < length body + unat available
      then Some (Inl ''The release response was unexpectedly large.'', w1)
      else case http_read A (unat available) w1 of ((ok, bytes), w2) \<Rightarrow>
        if \<not> ok then Some (Inl ''The release response could not be read.'', w2)
        else fetch_body A (body @ take (unat available) bytes) w2)"

definition Utf8ToWide :: "('w, 'z) http_api_scheme \<Rightarrow> bytes \<Rightarrow> wstring" where
  "Utf8ToWide A text_bytes =
    (if text_bytes = [] then [] else case utf8 A text_bytes of None \<Rightarrow> [] | Some t \<Rightarrow> t)"

definition release_prefix :: wstring where
  "release_prefix = lit ''https://github.com/mwfl/''"

definition release_of_body :: "('w, 'z) http_api_scheme \<Rightarrow> bytes \<Rightarrow> string + ReleaseInfo" where
  "release_of_body A body =
    (case (JsonString body ''tag_name'', JsonString body ''html_url'') of
       (Some tag, Some url) \<Rightarrow>
         (let release = \<lparr>release_version = Utf8ToWide A tag, release_url = Utf8ToWide A url\<rparr>
          in if release_version release = [] \<or>
               take (length release_prefix) (release_url release) \<noteq> release_prefix
             then Inl ''GitHub returned invalid release metadata.'' else Inr release)
     | _ \<Rightarrow> Inl ''GitHub returned an unrecognized release response.'')"

definition failed_check :: "bool \<Rightarrow> string \<Rightarrow> CheckResult" where
  "failed_check manual error = \<lparr>check_release = None, check_error = error, check_manual = manual\<rparr>"

definition FetchLatest ::
  "('w, 'z) http_api_scheme \<Rightarrow> UpdateCheckerOptions \<Rightarrow> bool \<Rightarrow> 'w \<Rightarrow> (CheckResult \<times> 'w) option" where
  "FetchLatest A options manual w =
    (case http_open A (application_name options @ lit ''/'' @ current_version options) w of (ok, w1) \<Rightarrow>
      if \<not> ok then Some (failed_check manual ''Windows could not start the HTTPS request.'', w1)
      else case http_connect A w1 of (ok, w2) \<Rightarrow>
        if \<not> ok then Some (failed_check manual ''GitHub could not be reached.'', w2)
        else case http_request A (lit ''/repos/mwfl/'' @ repository options @ lit ''/releases/latest'') w2 of
          (ok, w3) \<Rightarrow>
            if \<not> ok then Some (failed_check manual ''The release request could not be created.'', w3)
            else case http_exchange A w3 of (ok, w4) \<Rightarrow>
              if \<not> ok then Some (failed_check manual ''GitHub did not return a release response.'', w4)
              else case http_status A w4 of (ok, status) \<Rightarrow>
                if \<not> ok \<or> status \<noteq> 200
                then Some (failed_check manual (if status = 403
                  then ''GitHub's anonymous request limit was reached. Try again later.''
                  else ''No stable GitHub Release is available yet.''), w4)
                else case fetch_body A [] w4 of
                  None \<Rightarrow> None
                | Some (Inl e, w5) \<Rightarrow> Some (failed_check manual e, w5)
                | Some (Inr body, w5) \<Rightarrow>
                    (case release_of_body A body of
                       Inl e \<Rightarrow> Some (failed_check manual e, w5)
                     | Inr release \<Rightarrow> Some (\<lparr>check_release = Some release, check_error = [],
                         check_manual = manual\<rparr>, w5)))"

section \<open>The schedule\<close>

definition kSecondsPerDay :: u64 where "kSecondsPerDay = 24 * 60 * 60"

definition enabled_value :: wstring where "enabled_value = lit ''AutomaticUpdateChecks''"
definition last_check_value :: wstring where "last_check_value = lit ''UpdateLastCheckUtc''"
definition remind_after_value :: wstring where "remind_after_value = lit ''UpdateRemindAfterUtc''"

text \<open>\<open>RegGetValueW\<close> on a key: open, query, check the type and the size.\<close>

definition reg_get ::
  "('k, 'w) registry_api \<Rightarrow> wstring \<Rightarrow> wstring \<Rightarrow> dword \<Rightarrow> nat \<Rightarrow> 'w \<Rightarrow> bytes option" where
  "reg_get R key name type bytes w =
    (case RegOpenKeyExW R key w of ((e, k), w1) \<Rightarrow>
      if e \<noteq> 0 then None
      else case RegQueryValueExW R k name w1 of (e, t, data) \<Rightarrow>
        if e = 0 \<and> t = type \<and> length data = bytes then Some data else None)"

definition ReadQword :: "('k, 'w) registry_api \<Rightarrow> wstring \<Rightarrow> wstring \<Rightarrow> 'w \<Rightarrow> u64 option" where
  "ReadQword R key name w = map_option le_word (reg_get R key name REG_QWORD 8 w)"

definition ReadEnabled :: "('k, 'w) registry_api \<Rightarrow> wstring \<Rightarrow> 'w \<Rightarrow> bool" where
  "ReadEnabled R key w \<longleftrightarrow>
    (case reg_get R key enabled_value REG_DWORD 4 w of None \<Rightarrow> True | Some d \<Rightarrow> le_word d \<noteq> (0 :: dword))"

definition write_reg ::
  "('k, 'w) registry_api \<Rightarrow> wstring \<Rightarrow> wstring \<Rightarrow> dword \<Rightarrow> bytes \<Rightarrow> 'w \<Rightarrow> 'w" where
  "write_reg R key name type data w =
    (case RegCreateKeyExW R key w of ((e, k), w1) \<Rightarrow>
      if e \<noteq> 0 then w1 else RegCloseKey R k (snd (RegSetValueExW R k name type data w1)))"

definition WriteQword :: "('k, 'w) registry_api \<Rightarrow> wstring \<Rightarrow> wstring \<Rightarrow> u64 \<Rightarrow> 'w \<Rightarrow> 'w" where
  "WriteQword R key name v = write_reg R key name REG_QWORD (le_bytes 8 v)"

definition WriteEnabled :: "('k, 'w) registry_api \<Rightarrow> wstring \<Rightarrow> bool \<Rightarrow> 'w \<Rightarrow> 'w" where
  "WriteEnabled R key enabled =
    write_reg R key enabled_value REG_DWORD (le_bytes 4 (if enabled then 1 else 0 :: dword))"

definition IsDue :: "('k, 'w) registry_api \<Rightarrow> wstring \<Rightarrow> u64 \<Rightarrow> 'w \<Rightarrow> bool" where
  "IsDue R key now w =
    (if \<not> ReadEnabled R key w then False
     else let last = (case ReadQword R key last_check_value w of Some v \<Rightarrow> v | None \<Rightarrow> 0);
              remind = (case ReadQword R key remind_after_value w of Some v \<Rightarrow> v | None \<Rightarrow> 0)
       in remind \<le> now \<and> (last = 0 \<or> last + kSecondsPerDay \<le> now))"

definition Defer :: "('k, 'w) registry_api \<Rightarrow> wstring \<Rightarrow> u64 \<Rightarrow> u32 \<Rightarrow> 'w \<Rightarrow> 'w" where
  "Defer R key now days = WriteQword R key remind_after_value (now + ucast days * kSecondsPerDay)"

section \<open>Checks in progress\<close>

text \<open>
  The state under the mutex.  \<open>Start\<close> begins a check unless one runs; the worker's last steps record the
  time and hand over the result, unless the checker was asked to stop.
\<close>

record checker_state =
  checker_pending :: "CheckResult option"
  checker_running :: bool

definition Checker_Start :: "checker_state \<Rightarrow> bool \<times> checker_state" where
  "Checker_Start s = (if checker_running s then (False, s) else (True, s\<lparr>checker_running := True\<rparr>))"

definition Checker_finish ::
  "('k, 'w) registry_api \<Rightarrow> wstring \<Rightarrow> u64 \<Rightarrow> bool \<Rightarrow> CheckResult \<Rightarrow> checker_state \<Rightarrow> 'w \<Rightarrow> checker_state \<times> 'w" where
  "Checker_finish R key now stop result s w =
    (if stop then (s, w)
     else (s\<lparr>checker_pending := Some result, checker_running := False\<rparr>,
           WriteQword R key last_check_value now w))"

text \<open>
  What \<open>Present\<close> shows for a result that was taken out of \<open>pending\<close>, and what follows the answer to the
  dialog: the chosen button (100 to 102, or another for closing), and whether the box is ticked.
\<close>

datatype presentation =
  Show_nothing | Show_error string | Show_up_to_date | Offer_release ReleaseInfo

definition Checker_take :: "checker_state \<Rightarrow> CheckResult option \<times> checker_state" where
  "Checker_take s = (checker_pending s, s\<lparr>checker_pending := None\<rparr>)"

definition presentation_of :: "UpdateCheckerOptions \<Rightarrow> CheckResult option \<Rightarrow> presentation" where
  "presentation_of options result =
    (case result of
       None \<Rightarrow> Show_nothing
     | Some r \<Rightarrow>
         if check_error r \<noteq> [] then (if check_manual r then Show_error (check_error r) else Show_nothing)
         else case check_release r of
           None \<Rightarrow> if check_manual r then Show_up_to_date else Show_nothing
         | Some release \<Rightarrow>
             if IsVersionNewer (release_version release) (current_version options)
             then Offer_release release
             else if check_manual r then Show_up_to_date else Show_nothing)"

text \<open>The address that is opened, if any, and the new state of the registry.\<close>

definition answer_offer ::
  "('k, 'w) registry_api \<Rightarrow> wstring \<Rightarrow> u64 \<Rightarrow> ReleaseInfo \<Rightarrow> nat \<Rightarrow> bool \<Rightarrow> 'w \<Rightarrow> wstring option \<times> 'w" where
  "answer_offer R key now release selected verification w =
    (let w = WriteEnabled R key verification w
     in if selected = 100 then (Some (release_url release), Defer R key now 7 w)
        else if selected = 101 then (None, Defer R key now 3 w)
        else if selected = 102 then (None, Defer R key now 7 w)
        else (None, Defer R key now 1 w))"

text \<open>The switch of the menu; switching on starts a check.\<close>

definition ToggleAutomaticChecks ::
  "('k, 'w) registry_api \<Rightarrow> wstring \<Rightarrow> checker_state \<Rightarrow> 'w \<Rightarrow> (bool \<times> checker_state) \<times> 'w" where
  "ToggleAutomaticChecks R key s w =
    (let enabled = \<not> ReadEnabled R key w;
         w = WriteEnabled R key enabled w
     in (if enabled then Checker_Start s else (False, s), w))"

end
