(* ===== verification/Update_Safety.thy ===== *)
theory Update_Safety
  imports Update_Checker
begin

text \<open>
  What the update checker guarantees: versions are compared as numbers, metadata is read back, fetching
  is bounded, only pages of the project are opened, and the schedule is kept.
\<close>

section \<open>Versions as numbers\<close>

fun dotted :: "nat list \<Rightarrow> wstring" where
  "dotted [] = []"
| "dotted [a] = to_wstring a"
| "dotted (a # as) = to_wstring a @ 0x2E # dotted as"

lemma digit_unit:
  assumes "d < 10"
  shows "is_digit (of_char CHR ''0'' + of_nat d)" and "unat (of_char CHR ''0'' + of_nat d - (0x30 :: wchar)) = d"
proof -
  have "d \<in> {0, 1, 2, 3, 4, 5, 6, 7, 8, 9}" using assms by auto
  then show "is_digit (of_char CHR ''0'' + of_nat d)"
    "unat (of_char CHR ''0'' + of_nat d - (0x30 :: wchar)) = d"
    by (auto simp: is_digit_def)
qed

lemma version_number_printed:
  "n < 1000000000 \<Longrightarrow> version_number 0 (to_wstring n @ rest) = version_number n rest"
proof (induction n arbitrary: rest rule: less_induct)
  case (less n)
  show ?case
  proof (cases "n < 10")
    case True
    with digit_unit [OF True] show ?thesis by (simp add: to_wstring_def digits_of.simps)
  next
    case False
    let ?d = "n mod 10"
    have "version_number 0 (to_wstring n @ rest) =
        version_number 0 (to_wstring (n div 10) @ (of_char CHR ''0'' + of_nat ?d) # rest)"
      using False by (simp add: to_wstring_def digits_of.simps [of n])
    also have "\<dots> = version_number (n div 10) ((of_char CHR ''0'' + of_nat ?d) # rest)"
      using less False by simp
    also have "\<dots> = version_number n rest"
    proof -
      have "\<not> 100000000 < n div 10" using less.prems by linarith
      then show ?thesis using digit_unit [of ?d] by simp
    qed
    finally show ?thesis .
  qed
qed

lemma to_wstring_digit: "to_wstring n \<noteq> [] \<and> is_digit (hd (to_wstring n))"
proof (induction n rule: less_induct)
  case (less n)
  show ?case
  proof (cases "n < 10")
    case True
    with digit_unit [OF True] show ?thesis by (simp add: to_wstring_def digits_of.simps)
  next
    case False
    then have "to_wstring n = to_wstring (n div 10) @ [of_char CHR ''0'' + of_nat (n mod 10)]"
      by (simp add: to_wstring_def digits_of.simps [of n])
    with less [of "n div 10"] False show ?thesis by simp
  qed
qed

text \<open>What may follow a version: nothing, or a text that begins with neither a digit nor a point.\<close>

definition version_suffix :: "wstring \<Rightarrow> bool" where
  "version_suffix s \<longleftrightarrow> s = [] \<or> \<not> is_digit (hd s) \<and> hd s \<noteq> 0x2E"

lemma version_number_stops:
  "s = [] \<or> \<not> is_digit (hd s) \<Longrightarrow> version_number v s = (v, s)"
  by (cases s) auto

lemma version_parts_dotted:
  "\<forall>a \<in> set as. a < 1000000000 \<Longrightarrow> as \<noteq> [] \<Longrightarrow> length as \<le> n \<Longrightarrow> version_suffix s \<Longrightarrow>
    version_parts n (dotted as @ s) = as @ replicate (n - length as) 0"
proof (induction as arbitrary: n rule: dotted.induct)
  case 1
  then show ?case by simp
next
  case (2 a)
  then obtain m where n: "n = Suc m" by (cases n) auto
  have "version_number 0 (to_wstring a @ s) = (a, s)"
    using version_number_printed [of a s] version_number_stops [of s a] 2 by (auto simp: version_suffix_def)
  with n to_wstring_digit [of a] 2 show ?case by (auto simp: version_suffix_def)
next
  case (3 a b as)
  then obtain m where n: "n = Suc m" by (cases n) auto
  have "version_number 0 (to_wstring a @ 0x2E # dotted (b # as) @ s) = (a, 0x2E # dotted (b # as) @ s)"
    using version_number_printed [of a "0x2E # dotted (b # as) @ s"] 3
      version_number_stops [of "0x2E # dotted (b # as) @ s" a] by (auto simp: is_digit_def)
  with n to_wstring_digit [of a] 3 show ?case by auto
qed

text \<open>The version that a list of numbers stands for.\<close>

definition padded :: "nat list \<Rightarrow> nat list" where
  "padded as = as @ replicate (4 - length as) 0"

definition version_ok :: "nat list \<Rightarrow> bool" where
  "version_ok as \<longleftrightarrow> as \<noteq> [] \<and> length as \<le> 4 \<and> (\<forall>a \<in> set as. a < 1000000000)"

lemma VersionParts_dotted:
  assumes "version_ok as" and "version_suffix s"
  shows "VersionParts (dotted as @ s) = padded as" and "VersionParts (0x76 # dotted as @ s) = padded as"
proof -
  have "dotted as \<noteq> []" "is_digit (hd (dotted as))"
    using assms(1) to_wstring_digit by (cases as rule: dotted.cases; simp add: version_ok_def)+
  then have "\<not> (hd (dotted as @ s) = 0x76 \<or> hd (dotted as @ s) = 0x56)" by (auto simp: is_digit_def)
  with assms version_parts_dotted [of as 4 s]
  show "VersionParts (dotted as @ s) = padded as" "VersionParts (0x76 # dotted as @ s) = padded as"
    by (auto simp: VersionParts_def version_ok_def padded_def)
qed

lemma array_greater_lex:
  "length xs = length ys \<Longrightarrow> array_greater xs ys \<longleftrightarrow> (ys, xs) \<in> lex {(x, y). x < y}"
  by (induction xs ys rule: list_induct2) auto

text \<open>Versions are compared as numbers.  For versions written with up to four numbers below a
  billion, with or without the letter v in front and whatever suffix behind, the check reports "newer" exactly
  when the numbers are greater at the first difference, missing ones counting as 0: 1.10 is newer than 1.9.\<close>

theorem version_newer_is_numeric:
  assumes "version_ok as" and "version_ok bs" and "version_suffix s" and "version_suffix t"
  shows "IsVersionNewer (0x76 # dotted as @ s) (dotted bs @ t) \<longleftrightarrow>
    (padded bs, padded as) \<in> lex {(x, y). x < y}"
proof -
  have "length (padded as) = length (padded bs)" using assms(1,2) by (simp add: version_ok_def padded_def)
  with VersionParts_dotted [OF assms(1,3)] VersionParts_dotted [OF assms(2,4)] array_greater_lex
  show ?thesis by (simp add: IsVersionNewer_def)
qed

theorem version_newer_is_numeric_witness:
  "IsVersionNewer (lit ''v1.10-beta'') (lit ''1.9.7'')"
proof -
  have texts: "lit ''v1.10-beta'' = 0x76 # dotted [1, 10] @ lit ''-beta''"
    "lit ''1.9.7'' = dotted [1, 9, 7] @ []"
    by (simp_all add: to_wstring_def digits_of.simps)
  have ok: "version_ok [1, 10]" "version_ok [1, 9, 7]" "version_suffix (lit ''-beta'')" "version_suffix []"
    by (simp_all add: version_ok_def version_suffix_def is_digit_def)
  show ?thesis
    unfolding texts version_newer_is_numeric [OF ok] by (simp add: padded_def numeral_eq_Suc)
qed

section \<open>Metadata\<close>

definition json_escaped :: "u8 \<Rightarrow> bytes" where
  "json_escaped c =
    (if c = 0x22 \<or> c = 0x5C then [0x5C, c] else if c = 0x0A then [0x5C, 0x6E]
     else if c = 0x0D then [0x5C, 0x72] else if c = 0x09 then [0x5C, 0x74] else [c])"

lemma json_value_escaped:
  "json_value acc (concat (map json_escaped s) @ 0x22 # rest) = Some (acc @ s)"
proof (induction s arbitrary: acc)
  case Nil
  then show ?case by simp
next
  case (Cons c s)
  then show ?case by (auto simp: json_escaped_def json_escape_def)
qed

section \<open>Fetching\<close>

definition reads_progress :: "('w, 'z) http_api_scheme \<Rightarrow> bool" where
  "reads_progress A \<longleftrightarrow>
    (\<forall>n w bytes w'. http_read A n w = ((True, bytes), w') \<longrightarrow> 0 < n \<longrightarrow> bytes \<noteq> [])"

lemma fetch_body_bounded:
  assumes "reads_progress A"
  shows "length body \<le> body_limit \<Longrightarrow> \<exists>r w'. fetch_body A body w = Some (r, w') \<and>
    (\<forall>b. r = Inr b \<longrightarrow> length b \<le> body_limit)"
proof (induction "body_limit - length body" arbitrary: body w rule: less_induct)
  case less
  obtain ok n w1 where available: "http_available A w = ((ok, n), w1)" by (metis prod.exhaust)
  obtain ok2 bytes w2 where read: "http_read A (unat n) w1 = ((ok2, bytes), w2)" by (metis prod.exhaust)
  let ?body = "body @ take (unat n) bytes"
  show ?case
  proof (cases "ok \<and> n \<noteq> 0 \<and> length body + unat n \<le> body_limit \<and> ok2")
    case True
    then have "0 < unat n" by (simp add: unat_gt_0)
    with assms read True have some: "0 < length (take (unat n) bytes)" by (auto simp: reads_progress_def)
    have most: "length (take (unat n) bytes) \<le> unat n" by simp
    have "length body + unat n \<le> body_limit" using True by simp
    with some most have "body_limit - length ?body < body_limit - length body" "length ?body \<le> body_limit"
      unfolding length_append by linarith+
    from less.hyps [OF this] show ?thesis
      using True available read by (subst fetch_body.simps) (simp add: not_less)
  next
    case False
    with available read less.prems show ?thesis
      by (subst fetch_body.simps) (auto simp: not_le)
  qed
qed

text \<open>A check of the server ends with a bounded response.  If reading available bytes yields at least
  one, \<open>FetchLatest\<close> returns, and a body that it accepts has at most 256 KiB.\<close>

theorem fetch_is_bounded:
  assumes "reads_progress A"
  shows "(\<exists>result w'. FetchLatest A options manual w = Some (result, w')) \<and>
    (\<forall>v body w'. fetch_body A [] v = Some (Inr body, w') \<longrightarrow> length body \<le> body_limit)"
proof -
  have body: "\<exists>r w'. fetch_body A [] v = Some (r, w') \<and> (\<forall>b. r = Inr b \<longrightarrow> length b \<le> body_limit)" for v
    using fetch_body_bounded [OF assms, where body = "[]" and w = v] by simp
  then have none: "fetch_body A [] v = None \<Longrightarrow> False" for v by (metis option.distinct(1))
  have "FetchLatest A options manual w \<noteq> None"
    by (auto simp: FetchLatest_def split: prod.splits option.splits sum.splits dest: none)
  moreover have "length b \<le> body_limit" if "fetch_body A [] v = Some (Inr b, w')" for v b w'
    using body [of v] that by auto
  ultimately show ?thesis by auto
qed

section \<open>What is opened\<close>

text \<open>Only pages of the project are opened.  Whatever the server answers, an address is opened only when
  the user chose the download in an offer, the offered version is newer than the running one, and the address
  begins with the project's own prefix.\<close>

theorem only_project_pages_open:
  assumes "FetchLatest A options manual w = Some (result, w')"
    and "presentation_of options (Some result) = Offer_release release"
    and "answer_offer R key now release selected verification v = (Some url, v')"
  shows "take (length release_prefix) url = release_prefix \<and> selected = 100 \<and>
    IsVersionNewer (release_version release) (current_version options)"
proof -
  have offered: "check_release result = Some release"
    "IsVersionNewer (release_version release) (current_version options)"
    using assms(2) by (auto simp: presentation_of_def split: option.splits if_splits)
  then obtain body where "release_of_body A body = Inr release"
    using assms(1) by (auto simp: FetchLatest_def failed_check_def
        split: prod.splits option.splits sum.splits if_splits)
  then have "take (length release_prefix) (release_url release) = release_prefix"
    by (auto simp: release_of_body_def Let_def split: option.splits if_splits)
  moreover have "url = release_url release \<and> selected = 100"
    using assms(3) by (auto simp: answer_offer_def Let_def split: if_splits)
  ultimately show ?thesis using offered(2) by simp
qed

section \<open>The schedule\<close>

definition registry_works :: "('k, 'w) registry_api \<Rightarrow> bool" where
  "registry_works R \<longleftrightarrow> (\<forall>p w. fst (fst (RegCreateKeyExW R p w)) = 0) \<and>
    (\<forall>p w. fst (fst (RegOpenKeyExW R p w)) = 0) \<and>
    (\<forall>k n t d w. fst (RegSetValueExW R k n t d w) = 0)"

lemma write_reg_contents:
  assumes "registry_ok R f contents key_of" and "registry_works R"
  shows "contents (write_reg R key name type data w) =
    (contents w)(key := (contents w key)(f name := Some (type, data)))"
proof -
  obtain k w1 where create: "RegCreateKeyExW R key w = ((0, k), w1)"
    using assms(2) unfolding registry_works_def by (metis prod.collapse)
  obtain w2 where set: "RegSetValueExW R k name type data w1 = (0, w2)"
    using assms(2) unfolding registry_works_def by (metis prod.collapse)
  from registry_create [OF assms(1) create] registry_set [OF assms(1) set] create set assms(1)
  show ?thesis by (simp add: write_reg_def fun_upd_def)
qed

lemma reg_get_contents:
  assumes "registry_ok R f contents key_of" and "registry_works R"
  shows "reg_get R key name type n w =
    (case contents w key (f name) of
       Some (t, d) \<Rightarrow> if t = type \<and> length d = n then Some d else None | None \<Rightarrow> None)"
proof -
  obtain k w1 where opened: "RegOpenKeyExW R key w = ((0, k), w1)"
    using assms(2) unfolding registry_works_def by (metis prod.collapse)
  from registry_open [OF assms(1) opened] opened show ?thesis
    by (simp add: reg_get_def registry_query [OF assms(1)] ERROR_FILE_NOT_FOUND_def split: option.splits)
qed

lemma ReadQword_written:
  assumes "registry_ok R f contents key_of" and "registry_works R"
  shows "ReadQword R key name (WriteQword R key name v w) = Some v"
  using reg_get_contents [OF assms] write_reg_contents [OF assms]
  by (simp add: ReadQword_def WriteQword_def le_round_trip)

lemma later_time:
  assumes "unat now + unat days * 86400 < 2 ^ 64"
  shows "unat (now + ucast (days :: u32) * kSecondsPerDay) = unat now + unat days * 86400"
proof -
  have "unat (ucast days :: u64) = unat days"
    using unsigned_less [of days, where 'a = nat] by (simp add: unsigned_ucast_eq take_bit_nat_eq_self)
  with assms show ?thesis by (simp add: unat_word_ariths kSecondsPerDay_def)
qed

text \<open>Checks wait for their time.  With a registry that works, after the user deferred a reminder by some
  days, or a check has been recorded, no automatic check is due before these days, or one day, have passed
  (in seconds, as long as the sum fits the counter).\<close>

theorem checks_wait_their_turn:
  assumes "registry_ok R f contents key_of" and "registry_works R"
    and "unat now + unat days * 86400 < 2 ^ 64" and "unat now + 86400 < 2 ^ 64" and "0 < unat now"
  shows "(unat t < unat now + unat days * 86400 \<longrightarrow> \<not> IsDue R key t (Defer R key now days w)) \<and>
    (unat t < unat now + 86400 \<longrightarrow>
      \<not> IsDue R key t (snd (Checker_finish R key now False result s w)))"
proof -
  have "now \<noteq> 0" using assms(5) by auto
  then have "\<not> IsDue R key t (WriteQword R key last_check_value now w)" if "t < now + kSecondsPerDay"
    using that by (simp add: IsDue_def ReadQword_written [OF assms(1,2)] Let_def not_le)
  moreover have "\<not> IsDue R key t (WriteQword R key remind_after_value v w)" if "t < v" for v
    using that by (simp add: IsDue_def ReadQword_written [OF assms(1,2)] Let_def not_le)
  moreover have "unat (now + kSecondsPerDay) = unat now + 86400"
    using later_time [of now 1] assms(4) by simp
  ultimately show ?thesis
    using later_time [OF assms(3)] by (simp add: Defer_def Checker_finish_def word_less_nat_alt)
qed

section \<open>Examples\<close>

text \<open>A server that answers with the body in its state.\<close>

definition example_server :: "bytes http_api" where
  "example_server = \<lparr>http_open = \<lambda>a w. (True, w), http_connect = \<lambda>w. (True, w),
    http_request = \<lambda>p w. (True, w), http_exchange = \<lambda>w. (True, w), http_status = \<lambda>w. (True, 200),
    http_available = \<lambda>w. ((True, of_nat (length w)), w),
    http_read = \<lambda>n w. if w = [] then ((False, []), w) else ((True, take n w), drop n w),
    utf8 = \<lambda>b. Some (map ucast b)\<rparr>"

definition example_options :: UpdateCheckerOptions where
  "example_options = \<lparr>application_name = lit ''App'', repository = lit ''app'',
    current_version = lit ''1.0'', settings_key = lit ''App''\<rparr>"

lemma example_reads: "reads_progress example_server"
  by (auto simp: reads_progress_def example_server_def split: if_splits)

lemma VersionParts_unfold: "VersionParts v = version_parts (Suc (Suc (Suc (Suc 0))))
    (if v \<noteq> [] \<and> (hd v = 0x76 \<or> hd v = 0x56) then tl v else v)"
  by (simp add: VersionParts_def numeral_eq_Suc)

lemma example_fetch_body:
  assumes "w \<noteq> []" and "length w \<le> body_limit"
  shows "fetch_body example_server [] w = Some (Inr w, [])"
proof -
  have "unat (of_nat (length w) :: dword) = length w"
    using assms(2) by (simp add: unat_of_nat body_limit_def)
  moreover from this assms(1) have "(of_nat (length w) :: dword) \<noteq> 0" by auto
  moreover have "fetch_body example_server w [] = Some (Inr w, [])"
    by (subst fetch_body.simps) (simp add: example_server_def)
  ultimately show ?thesis
    using assms by (subst fetch_body.simps) (simp add: example_server_def)
qed

theorem fetch_is_bounded_witness:
  "\<exists>result w'. FetchLatest example_server example_options True (ascii ''no metadata'') = Some (result, w')"
  using fetch_is_bounded [OF example_reads] by blast

definition example_release :: ReleaseInfo where
  "example_release = \<lparr>release_version = lit ''v1.10'', release_url = lit ''https://github.com/mwfl/a''\<rparr>"

definition example_body :: bytes where
  "example_body = 0x22 # ascii ''tag_name'' @ [0x22, 0x3A, 0x22] @ ascii ''v1.10'' @ [0x22, 0x22] @
    ascii ''html_url'' @ [0x22, 0x3A, 0x22] @ ascii ''https://github.com/mwfl/a'' @ [0x22]"

lemma example_metadata: "release_of_body example_server example_body = Inr example_release"
  by (simp add: release_of_body_def JsonString_def example_body_def ascii_def Utf8ToWide_def
      example_server_def example_release_def release_prefix_def)

theorem only_project_pages_open_witness:
  "\<exists>url. answer_offer memory_registry (lit ''App'') 5 example_release 100 True (\<lambda>_ _. None) =
      (Some url, snd (answer_offer memory_registry (lit ''App'') 5 example_release 100 True (\<lambda>_ _. None))) \<and>
    take (length release_prefix) url = release_prefix"
proof -
  let ?result = "\<lparr>check_release = Some example_release, check_error = [], check_manual = False\<rparr>"
  have "fetch_body example_server [] example_body = Some (Inr example_body, [])"
    by (rule example_fetch_body) (simp_all add: example_body_def ascii_def body_limit_def)
  then have fetched: "FetchLatest example_server example_options False example_body = Some (?result, [])"
    using example_metadata by (simp add: FetchLatest_def example_server_def)
  have "IsVersionNewer (release_version example_release) (current_version example_options)"
    by (simp add: IsVersionNewer_def VersionParts_unfold example_release_def example_options_def
        is_digit_def)
  then have offered: "presentation_of example_options (Some ?result) = Offer_release example_release"
    by (simp add: presentation_of_def)
  obtain v' where answered: "answer_offer memory_registry (lit ''App'') 5 example_release 100 True (\<lambda>_ _. None) =
      (Some (release_url example_release), v')"
    by (simp add: answer_offer_def Let_def)
  from only_project_pages_open [OF fetched offered answered] answered show ?thesis by simp
qed

theorem checks_wait_their_turn_witness:
  "\<not> IsDue memory_registry (lit ''App'') 200000
    (Defer memory_registry (lit ''App'') 100000 3 (\<lambda>_ _. None))"
proof -
  have "registry_works memory_registry" by (simp add: registry_works_def memory_registry_def)
  from checks_wait_their_turn [OF memory_registry_ok this, of 100000 3 200000] show ?thesis by simp
qed

end
