(* ===== verification/Scheduler.thy ===== *)
theory Scheduler
  imports Command_Line Foundation
begin

text \<open>
  Scheduled tasks (\<open>scheduler.h\<close>, \<open>scheduler.cpp\<close>): validation of a definition, the snapshot of a
  registered task, and the operations that query, plan, apply, run, stop and remove it.  The Task
  Scheduler service is the parameter \<open>scheduler_api\<close>, whose calls yield an \<open>HRESULT\<close> or a value; a
  task definition is the data the service stores.  Initialising and leaving COM keeps no state here.
\<close>

section \<open>Time boundaries\<close>

text \<open>
  \<open>Boundary\<close>: a time in ticks of 100 ns since 1970 is cut to seconds, split as \<open>gmtime_s\<close> does and
  written by \<open>put_time\<close>.  \<open>gmtime_s\<close> fails before 1970 and after the year 3000.
\<close>

definition leap_year :: "nat \<Rightarrow> bool" where
  "leap_year y \<longleftrightarrow> 4 dvd y \<and> \<not> 100 dvd y \<or> 400 dvd y"

definition year_length :: "nat \<Rightarrow> nat" where
  "year_length y = (if leap_year y then 366 else 365)"

definition month_lengths :: "nat \<Rightarrow> nat list" where
  "month_lengths y = [31, if leap_year y then 29 else 28, 31, 30, 31, 30, 31, 31, 30, 31, 30, 31]"

lemma year_length_pos [simp]: "0 < year_length y"
  by (simp add: year_length_def)

function year_of :: "nat \<Rightarrow> nat \<Rightarrow> nat \<times> nat" where
  "year_of y days = (if days < year_length y then (y, days) else year_of (Suc y) (days - year_length y))"
  by pat_completeness auto
termination
  by (relation "measure snd") (auto simp: not_less intro: diff_less less_le_trans [OF year_length_pos])

declare year_of.simps [simp del]

fun month_of :: "nat \<Rightarrow> nat list \<Rightarrow> nat \<Rightarrow> nat \<times> nat" where
  "month_of m [] days = (m, days)"
| "month_of m (n # ns) days = (if days < n then (m, days) else month_of (Suc m) ns (days - n))"

record calendar_time =
  cal_year :: nat
  cal_month :: nat
  cal_day :: nat
  cal_hour :: nat
  cal_minute :: nat
  cal_second :: nat

definition gmtime :: "nat \<Rightarrow> calendar_time" where
  "gmtime seconds =
    (let (y, days) = year_of 1970 (seconds div 86400);
         (m, d) = month_of 1 (month_lengths y) days;
         s = seconds mod 86400
     in \<lparr>cal_year = y, cal_month = m, cal_day = Suc d, cal_hour = s div 3600,
         cal_minute = s mod 3600 div 60, cal_second = s mod 60\<rparr>)"

definition two_digits :: "nat \<Rightarrow> wstring" where
  "two_digits n = to_wstring (n div 10) @ to_wstring (n mod 10)"

definition boundary_text :: "calendar_time \<Rightarrow> wstring" where
  "boundary_text c =
    to_wstring (cal_year c) @ lit ''-'' @ two_digits (cal_month c) @ lit ''-'' @ two_digits (cal_day c) @
    lit ''T'' @ two_digits (cal_hour c) @ lit '':'' @ two_digits (cal_minute c) @ lit '':'' @
    two_digits (cal_second c) @ lit ''Z''"

definition last_gmtime :: int where
  "last_gmtime = 32535215999"

definition Boundary :: "wstring \<Rightarrow> int \<Rightarrow> wstring" where
  "Boundary unrepresentable ticks =
    (let raw = (if 0 \<le> ticks then ticks div 10000000 else - (- ticks div 10000000))
     in if 0 \<le> raw \<and> raw \<le> last_gmtime then boundary_text (gmtime (nat raw)) else unrepresentable)"

section \<open>Definitions and snapshots\<close>

datatype ScheduledTaskTrigger = Trigger_OnDemand | Trigger_CurrentUserLogon | Trigger_Once

record TaskDefinition =
  td_folder :: wstring
  td_name :: wstring
  td_description :: wstring
  td_executable :: wstring
  td_arguments :: "wstring list"
  td_trigger :: ScheduledTaskTrigger
  td_start_time :: int

record ScheduledTaskSnapshot =
  snap_exists :: bool
  snap_folder :: wstring
  snap_name :: wstring
  snap_state :: int
  snap_enabled :: bool
  snap_description :: wstring
  snap_executable :: wstring
  snap_arguments :: wstring
  snap_trigger :: ScheduledTaskTrigger
  snap_start_boundary :: wstring

definition no_task :: ScheduledTaskSnapshot where
  "no_task = \<lparr>snap_exists = False, snap_folder = [], snap_name = [], snap_state = 0,
    snap_enabled = False, snap_description = [], snap_executable = [], snap_arguments = [],
    snap_trigger = Trigger_OnDemand, snap_start_boundary = []\<rparr>"

record TaskApplyResult =
  applied_created :: bool
  applied_changed :: bool
  applied_snapshot :: ScheduledTaskSnapshot

record TaskChangePlan =
  plan_desired :: TaskDefinition
  plan_current :: ScheduledTaskSnapshot
  plan_required :: bool
  plan_creates :: bool

fun contains_dots :: "wstring \<Rightarrow> bool" where
  "contains_dots (a # b # s) \<longleftrightarrow> a = 0x2E \<and> b = 0x2E \<or> contains_dots (b # s)"
| "contains_dots _ \<longleftrightarrow> False"

definition ValidateScheduledTask :: "TaskDefinition \<Rightarrow> unit result" where
  "ValidateScheduledTask spec =
    (if td_folder spec = [] \<or> td_folder spec = [0x5C] \<or> hd (td_folder spec) \<noteq> 0x5C
       \<or> 0x2F \<in> set (td_folder spec) \<or> contains_dots (td_folder spec) \<or> td_name spec = []
       \<or> 0x5C \<in> set (td_name spec) \<or> 0x2F \<in> set (td_name spec) \<or> td_executable spec = []
     then Inl (failed_call ''Scheduled task definition'' ERROR_INVALID_PARAMETER)
     else if td_trigger spec = Trigger_Once \<and> td_start_time spec = 0
     then Inl (SystemError_FromWin32 ERROR_INVALID_TIME)
     else Inr ())"

definition Equivalent :: "wstring \<Rightarrow> ScheduledTaskSnapshot \<Rightarrow> TaskDefinition \<Rightarrow> bool" where
  "Equivalent unrepresentable current desired \<longleftrightarrow>
    (if \<not> snap_exists current \<or> \<not> snap_enabled current \<or> snap_description current \<noteq> td_description desired
       \<or> snap_executable current \<noteq> td_executable desired
       \<or> snap_arguments current \<noteq> Scheduler_Arguments (td_arguments desired)
       \<or> snap_trigger current \<noteq> td_trigger desired
     then False
     else td_trigger desired \<noteq> Trigger_Once
       \<or> snap_start_boundary current = Boundary unrepresentable (td_start_time desired))"

section \<open>The service\<close>

text \<open>
  What the service keeps of a task.  A getter that fails, a null string and an item that cannot be
  fetched are \<open>None\<close>.
\<close>

datatype task_action = Action_exec (exec_path: "wstring option") (exec_arguments: "wstring option") | Action_other

datatype task_trigger = On_logon | At_time (boundary: "wstring option") | On_other_event

record task_data =
  data_description :: "wstring option"
  data_enabled :: bool
  data_start_when_available :: bool
  data_actions :: "task_action option list"
  data_triggers :: "task_trigger option list"

record ('w, 's, 'f, 't) scheduler_api =
  com_usable :: "'w \<Rightarrow> (dword + unit) \<times> 'w"
  create_service :: "'w \<Rightarrow> (dword + 's) \<times> 'w"
  connect_service :: "'s \<Rightarrow> 'w \<Rightarrow> (dword + unit) \<times> 'w"
  get_folder :: "'s \<Rightarrow> wstring \<Rightarrow> 'w \<Rightarrow> (dword + 'f) \<times> 'w"
  create_folder :: "'f \<Rightarrow> wstring \<Rightarrow> 'w \<Rightarrow> (dword + 'f) \<times> 'w"
  get_task :: "'f \<Rightarrow> wstring \<Rightarrow> 'w \<Rightarrow> (dword + 't) \<times> 'w"
  task_state :: "'t \<Rightarrow> 'w \<Rightarrow> int"
  task_enabled :: "'t \<Rightarrow> 'w \<Rightarrow> bool"
  task_definition :: "'t \<Rightarrow> 'w \<Rightarrow> task_data option"
  new_task :: "'s \<Rightarrow> 'w \<Rightarrow> (dword + task_data) \<times> 'w"
  create_trigger :: "task_trigger \<Rightarrow> task_data \<Rightarrow> 'w \<Rightarrow> (dword + unit) \<times> 'w"
  create_exec_action :: "task_data \<Rightarrow> 'w \<Rightarrow> (dword + unit) \<times> 'w"
  register_task :: "'f \<Rightarrow> wstring \<Rightarrow> task_data \<Rightarrow> 'w \<Rightarrow> (dword + unit) \<times> 'w"
  run_task :: "'t \<Rightarrow> 'w \<Rightarrow> (dword + unit) \<times> 'w"
  stop_task :: "'t \<Rightarrow> 'w \<Rightarrow> (dword + unit) \<times> 'w"
  delete_task :: "'f \<Rightarrow> wstring \<Rightarrow> 'w \<Rightarrow> (dword + unit) \<times> 'w"
  unrepresentable_time :: wstring

definition HRESULT_FILE_NOT_FOUND :: dword where
  "HRESULT_FILE_NOT_FOUND = 0x80070002"

definition E_FAIL :: dword where
  "E_FAIL = 0x80004005"

text \<open>A call whose failure is the error of its \<open>HRESULT\<close>.\<close>

definition hcall :: "('w \<Rightarrow> (dword + 'a) \<times> 'w) \<Rightarrow> 'w \<Rightarrow> 'a result \<times> 'w" where
  "hcall m w =
    (case m w of (Inl e, w1) \<Rightarrow> (Inl (SystemError_FromHResult e), w1) | (Inr x, w1) \<Rightarrow> (Inr x, w1))"

definition hcall_named :: "string \<Rightarrow> ('w \<Rightarrow> (dword + 'a) \<times> 'w) \<Rightarrow> 'w \<Rightarrow> 'a result \<times> 'w" where
  "hcall_named operation m w =
    (case m w of
       (Inl e, w1) \<Rightarrow> (Inl (SystemError_WithOperation operation (SystemError_FromHResult e)), w1)
     | (Inr x, w1) \<Rightarrow> (Inr x, w1))"

definition Scheduler_Connect :: "('w, 's, 'f, 't) scheduler_api \<Rightarrow> 'w \<Rightarrow> 's result \<times> 'w" where
  "Scheduler_Connect A =
    and_then (hcall_named ''CoCreateInstance TaskScheduler'' (create_service A))
      (\<lambda>service. and_then (hcall_named ''ITaskService::Connect'' (connect_service A service))
        (\<lambda>_. succeed service))"

definition OpenFolder ::
  "('w, 's, 'f, 't) scheduler_api \<Rightarrow> 's \<Rightarrow> wstring \<Rightarrow> bool \<Rightarrow> 'w \<Rightarrow> 'f result \<times> 'w" where
  "OpenFolder A service folder create w =
    (case get_folder A service (until_nul folder) w of
       (Inr f, w1) \<Rightarrow> (Inr f, w1)
     | (Inl e, w1) \<Rightarrow>
         if \<not> create then (Inl (SystemError_FromHResult e), w1)
         else and_then (hcall (get_folder A service [0x5C]))
           (\<lambda>root. hcall_named ''Create Task Scheduler folder''
             (create_folder A root (until_nul
               (if folder \<noteq> [] \<and> hd folder = 0x5C then tl folder else folder)))) w1)"

definition TakeBstr :: "wstring option \<Rightarrow> wstring" where
  "TakeBstr v = (case v of None \<Rightarrow> [] | Some s \<Rightarrow> until_nul s)"

definition snapshot_action :: "task_data \<Rightarrow> ScheduledTaskSnapshot \<Rightarrow> ScheduledTaskSnapshot" where
  "snapshot_action d s =
    (case data_actions d of
       [Some (Action_exec path arguments)] \<Rightarrow>
         s\<lparr>snap_executable := TakeBstr path, snap_arguments := TakeBstr arguments\<rparr>
     | _ \<Rightarrow> s)"

definition snapshot_trigger :: "task_data \<Rightarrow> ScheduledTaskSnapshot \<Rightarrow> ScheduledTaskSnapshot" where
  "snapshot_trigger d s =
    (case data_triggers d of
       [Some On_logon] \<Rightarrow> s\<lparr>snap_trigger := Trigger_CurrentUserLogon\<rparr>
     | [Some (At_time t)] \<Rightarrow> s\<lparr>snap_trigger := Trigger_Once, snap_start_boundary := TakeBstr t\<rparr>
     | [Some On_other_event] \<Rightarrow> s\<lparr>snap_trigger := Trigger_Once\<rparr>
     | _ \<Rightarrow> s)"

definition snapshot_of :: "wstring \<Rightarrow> wstring \<Rightarrow> int \<Rightarrow> bool \<Rightarrow> task_data \<Rightarrow> ScheduledTaskSnapshot" where
  "snapshot_of folder name state enabled d =
    snapshot_trigger d (snapshot_action d
      (no_task\<lparr>snap_exists := True, snap_folder := folder, snap_name := name, snap_state := state,
        snap_enabled := enabled, snap_description := TakeBstr (data_description d)\<rparr>))"

definition Scheduler_Snapshot ::
  "('w, 's, 'f, 't) scheduler_api \<Rightarrow> 'f \<Rightarrow> wstring \<Rightarrow> wstring \<Rightarrow> 'w \<Rightarrow> ScheduledTaskSnapshot result \<times> 'w" where
  "Scheduler_Snapshot A folder folder_name name w =
    (case get_task A folder (until_nul name) w of
       (Inl e, w1) \<Rightarrow>
         if e = HRESULT_FILE_NOT_FOUND then (Inr no_task, w1) else (Inl (SystemError_FromHResult e), w1)
     | (Inr task, w1) \<Rightarrow>
         (case task_definition A task w1 of
            None \<Rightarrow> (Inl (SystemError_FromHResult E_FAIL), w1)
          | Some d \<Rightarrow> (Inr (snapshot_of folder_name name (task_state A task w1) (task_enabled A task w1) d), w1)))"

section \<open>Operations\<close>

definition with_service ::
  "('w, 's, 'f, 't) scheduler_api \<Rightarrow> ('s \<Rightarrow> 'w \<Rightarrow> 'a result \<times> 'w) \<Rightarrow> 'w \<Rightarrow> 'a result \<times> 'w" where
  "with_service A f = and_then (hcall (com_usable A)) (\<lambda>_. and_then (Scheduler_Connect A) f)"

definition TaskScheduler_Query ::
  "('w, 's, 'f, 't) scheduler_api \<Rightarrow> wstring \<Rightarrow> wstring \<Rightarrow> 'w \<Rightarrow> ScheduledTaskSnapshot result \<times> 'w" where
  "TaskScheduler_Query A folder name = with_service A (\<lambda>service w.
    case OpenFolder A service folder False w of
      (Inl e, w1) \<Rightarrow>
        if err_code e = HRESULT_FILE_NOT_FOUND then (Inr no_task, w1) else (Inl e, w1)
    | (Inr opened, w1) \<Rightarrow> Scheduler_Snapshot A opened folder name w1)"

definition TaskScheduler_Plan ::
  "('w, 's, 'f, 't) scheduler_api \<Rightarrow> TaskDefinition \<Rightarrow> 'w \<Rightarrow> TaskChangePlan result \<times> 'w" where
  "TaskScheduler_Plan A spec w =
    (case ValidateScheduledTask spec of
       Inl e \<Rightarrow> (Inl e, w)
     | Inr _ \<Rightarrow> and_then (TaskScheduler_Query A (td_folder spec) (td_name spec))
         (\<lambda>before. succeed \<lparr>plan_desired = spec, plan_current = before,
            plan_required = \<not> Equivalent (unrepresentable_time A) before spec,
            plan_creates = \<not> snap_exists before\<rparr>) w)"

definition described :: "TaskDefinition \<Rightarrow> task_data \<Rightarrow> task_data" where
  "described spec d = d\<lparr>data_description := Some (until_nul (td_description spec)), data_enabled := True,
    data_start_when_available := True\<rparr>"

definition add_trigger ::
  "('w, 's, 'f, 't) scheduler_api \<Rightarrow> TaskDefinition \<Rightarrow> task_data \<Rightarrow> 'w \<Rightarrow> task_data result \<times> 'w" where
  "add_trigger A spec d =
    (case td_trigger spec of
       Trigger_OnDemand \<Rightarrow> succeed d
     | Trigger_CurrentUserLogon \<Rightarrow>
         and_then (hcall (create_trigger A On_logon d))
           (\<lambda>_. succeed (d\<lparr>data_triggers := data_triggers d @ [Some On_logon]\<rparr>))
     | Trigger_Once \<Rightarrow>
         and_then (hcall (create_trigger A (At_time None) d))
           (\<lambda>_. succeed (d\<lparr>data_triggers := data_triggers d @
             [Some (At_time (Some (until_nul (Boundary (unrepresentable_time A) (td_start_time spec)))))]\<rparr>)))"

definition add_action ::
  "('w, 's, 'f, 't) scheduler_api \<Rightarrow> TaskDefinition \<Rightarrow> task_data \<Rightarrow> 'w \<Rightarrow> task_data result \<times> 'w" where
  "add_action A spec d =
    and_then (hcall (create_exec_action A d))
      (\<lambda>_. succeed (d\<lparr>data_actions := data_actions d @
        [Some (Action_exec (Some (until_nul (td_executable spec)))
          (Some (until_nul (Scheduler_Arguments (td_arguments spec)))))]\<rparr>))"

definition register_definition ::
  "('w, 's, 'f, 't) scheduler_api \<Rightarrow> TaskDefinition \<Rightarrow> bool \<Rightarrow> 's \<Rightarrow> 'w \<Rightarrow> TaskApplyResult result \<times> 'w" where
  "register_definition A spec existed service =
    and_then (OpenFolder A service (td_folder spec) True) (\<lambda>folder.
    and_then (hcall (new_task A service)) (\<lambda>d.
    and_then (add_trigger A spec (described spec d)) (\<lambda>d.
    and_then (add_action A spec d) (\<lambda>d.
    and_then (hcall_named ''RegisterTaskDefinition'' (register_task A folder (until_nul (td_name spec)) d)) (\<lambda>_.
    and_then (Scheduler_Snapshot A folder (td_folder spec) (td_name spec)) (\<lambda>after.
    succeed \<lparr>applied_created = \<not> existed, applied_changed = True, applied_snapshot = after\<rparr>))))))"

definition TaskScheduler_Apply ::
  "('w, 's, 'f, 't) scheduler_api \<Rightarrow> TaskChangePlan \<Rightarrow> 'w \<Rightarrow> TaskApplyResult result \<times> 'w" where
  "TaskScheduler_Apply A plan =
    and_then (TaskScheduler_Plan A (plan_desired plan)) (\<lambda>replanned.
      if \<not> plan_required replanned
      then succeed \<lparr>applied_created = False, applied_changed = False, applied_snapshot = plan_current replanned\<rparr>
      else with_service A (register_definition A (plan_desired replanned) (snap_exists (plan_current replanned))))"

definition open_task ::
  "('w, 's, 'f, 't) scheduler_api \<Rightarrow> wstring \<Rightarrow> wstring \<Rightarrow> ('t \<Rightarrow> 'w \<Rightarrow> (dword + unit) \<times> 'w) \<Rightarrow> 'w
    \<Rightarrow> unit result \<times> 'w" where
  "open_task A folder name f = with_service A (\<lambda>service.
    and_then (OpenFolder A service folder False) (\<lambda>opened.
    and_then (hcall (get_task A opened (until_nul name))) (\<lambda>task. hcall (f task))))"

definition TaskScheduler_Run ::
  "('w, 's, 'f, 't) scheduler_api \<Rightarrow> wstring \<Rightarrow> wstring \<Rightarrow> 'w \<Rightarrow> unit result \<times> 'w" where
  "TaskScheduler_Run A folder name = open_task A folder name (run_task A)"

definition TaskScheduler_Stop ::
  "('w, 's, 'f, 't) scheduler_api \<Rightarrow> wstring \<Rightarrow> wstring \<Rightarrow> 'w \<Rightarrow> unit result \<times> 'w" where
  "TaskScheduler_Stop A folder name = open_task A folder name (stop_task A)"

definition TaskScheduler_Remove ::
  "('w, 's, 'f, 't) scheduler_api \<Rightarrow> wstring \<Rightarrow> wstring \<Rightarrow> 'w \<Rightarrow> bool result \<times> 'w" where
  "TaskScheduler_Remove A folder name =
    and_then (TaskScheduler_Query A folder name) (\<lambda>current.
      if \<not> snap_exists current then succeed False
      else with_service A (\<lambda>service.
        and_then (OpenFolder A service folder False) (\<lambda>opened.
        and_then (hcall (delete_task A opened (until_nul name))) (\<lambda>_. succeed True))))"

end
