(* ===== verification/Scheduler_Convergence.thy ===== *)
theory Scheduler_Convergence
  imports Scheduler Wide_Stream
begin

text \<open>
  Planning tells task definitions apart and applying a plan reaches its definition: a later plan of
  the same definition finds nothing to do.
\<close>

section \<open>Boundaries determine the second\<close>

lemma year_of_days:
  "year_of y days = (y', d) \<Longrightarrow> y \<le> y' \<and> days = sum_list (map year_length [y..<y']) + d \<and> d < year_length y'"
proof (induction y days arbitrary: y' d rule: year_of.induct)
  case (1 y days)
  show ?case
  proof (cases "days < year_length y")
    case True
    with 1(2) show ?thesis by (simp add: year_of.simps [of y])
  next
    case False
    with 1(2) have "year_of (Suc y) (days - year_length y) = (y', d)" by (simp add: year_of.simps [of y])
    from 1(1) [OF False this] False show ?thesis by (auto simp: upt_conv_Cons)
  qed
qed

lemma month_of_days:
  "month_of m ns days = (m', d) \<Longrightarrow> m \<le> m' \<and> m' \<le> m + length ns \<and> days = sum_list (take (m' - m) ns) + d
    \<and> (m' < m + length ns \<longrightarrow> d < ns ! (m' - m))"
proof (induction m ns days arbitrary: m' d rule: month_of.induct)
  case (2 m n ns days)
  show ?case
  proof (cases "days < n")
    case False
    with 2 have "Suc m \<le> m'" "m' \<le> Suc m + length ns" "days - n = sum_list (take (m' - Suc m) ns) + d"
      "m' < Suc m + length ns \<longrightarrow> d < ns ! (m' - Suc m)" by auto
    moreover have "m' - m = Suc (m' - Suc m)" using \<open>Suc m \<le> m'\<close> by simp
    ultimately show ?thesis using False by auto
  qed (use 2 in simp)
qed simp

lemma gmtime_injective:
  assumes "gmtime s = gmtime t"
  shows "s = t"
proof -
  obtain ys ds where s: "year_of 1970 (s div 86400) = (ys, ds)" by fastforce
  obtain yt dt where t: "year_of 1970 (t div 86400) = (yt, dt)" by fastforce
  obtain ms es where ms: "month_of 1 (month_lengths ys) ds = (ms, es)" by fastforce
  obtain mt et where mt: "month_of 1 (month_lengths yt) dt = (mt, et)" by fastforce
  have eq: "ys = yt" "ms = mt" "es = et" "s mod 86400 div 3600 = t mod 86400 div 3600"
    "s mod 86400 mod 3600 div 60 = t mod 86400 mod 3600 div 60" "s mod 86400 mod 60 = t mod 86400 mod 60"
    using assms unfolding gmtime_def s t Let_def prod.case ms mt by simp_all
  have "ds = dt" using month_of_days [OF ms] month_of_days [OF mt] eq by simp
  then have days: "s div 86400 = t div 86400"
    using year_of_days [OF s] year_of_days [OF t] eq(1) by simp
  have split: "n = n div 3600 * 3600 + n mod 3600 div 60 * 60 + n mod 60" for n :: nat
  proof -
    have "n mod 3600 mod 60 = n mod 60" by (rule mod_mod_cancel) simp
    then show ?thesis using div_mult_mod_eq [of "n mod 3600" 60] div_mult_mod_eq [of n 3600] by linarith
  qed
  have "s mod 86400 = t mod 86400" using split [of "s mod 86400"] split [of "t mod 86400"] eq by simp
  with days show ?thesis by (metis div_mult_mod_eq)
qed

lemma to_wstring_short: "k < 10 \<Longrightarrow> length (to_wstring k) = 1"
  by (simp add: to_wstring_def digits_of.simps)

lemma length_two_digits: "n < 100 \<Longrightarrow> length (two_digits n) = 2"
  by (simp add: two_digits_def to_wstring_short)

lemma two_digits_injective:
  assumes "two_digits m = two_digits n" and "m < 100" "n < 100"
  shows "m = n"
proof -
  have "decimal_value (two_digits k) = k" if "k < 100" for k
    using that by (simp add: two_digits_def decimal_value_append to_wstring_short)
  with assms show ?thesis by metis
qed

lemma year_text_ends:
  assumes "to_wstring a @ lit ''-'' @ s = to_wstring b @ lit ''-'' @ t"
  shows "a = b \<and> s = t"
proof -
  have span: "takeWhile is_wdigit (to_wstring k @ lit ''-'' @ u) = to_wstring k" for k u
    by (subst takeWhile_append2) (auto dest: to_wstring_digits simp: is_wdigit_def)
  have eq: "to_wstring a = to_wstring b" using assms span by metis
  then have "decimal_value (to_wstring a) = decimal_value (to_wstring b)" by (rule arg_cong)
  then show ?thesis using assms by simp
qed

definition calendar_small :: "calendar_time \<Rightarrow> bool" where
  "calendar_small c \<longleftrightarrow> cal_month c < 100 \<and> cal_day c < 100 \<and> cal_hour c < 100 \<and> cal_minute c < 100
    \<and> cal_second c < 100"

lemma field_ends:
  assumes "two_digits a @ s = two_digits b @ t" and "a < 100" "b < 100"
  shows "a = b \<and> s = t"
proof -
  have "length (two_digits a) = length (two_digits b)" using assms(2,3) by (simp add: length_two_digits)
  then have "two_digits a = two_digits b \<and> s = t" using assms(1) by simp
  then show ?thesis using two_digits_injective assms(2,3) by blast
qed

lemma boundary_text_injective:
  assumes eq: "boundary_text c = boundary_text c'" and small: "calendar_small c" "calendar_small c'"
  shows "c = c'"
proof -
  have bounds: "cal_month c < 100" "cal_month c' < 100" "cal_day c < 100" "cal_day c' < 100"
    "cal_hour c < 100" "cal_hour c' < 100" "cal_minute c < 100" "cal_minute c' < 100"
    "cal_second c < 100" "cal_second c' < 100"
    using small by (simp_all add: calendar_small_def)
  note year = year_text_ends [OF eq [unfolded boundary_text_def]]
  note month = field_ends [OF conjunct2 [OF year] bounds(1,2)]
  have day: "cal_day c = cal_day c' \<and> lit ''T'' @ two_digits (cal_hour c) @ lit '':'' @
      two_digits (cal_minute c) @ lit '':'' @ two_digits (cal_second c) @ lit ''Z'' =
      lit ''T'' @ two_digits (cal_hour c') @ lit '':'' @
      two_digits (cal_minute c') @ lit '':'' @ two_digits (cal_second c') @ lit ''Z''"
    using month by (intro field_ends bounds) (simp add: lit_def)
  have hour: "cal_hour c = cal_hour c' \<and> lit '':'' @
      two_digits (cal_minute c) @ lit '':'' @ two_digits (cal_second c) @ lit ''Z'' = lit '':'' @
      two_digits (cal_minute c') @ lit '':'' @ two_digits (cal_second c') @ lit ''Z''"
    using day by (intro field_ends bounds) (simp add: lit_def)
  have minute: "cal_minute c = cal_minute c' \<and> lit '':'' @ two_digits (cal_second c) @ lit ''Z'' =
      lit '':'' @ two_digits (cal_second c') @ lit ''Z''"
    using hour by (intro field_ends bounds) (simp add: lit_def)
  have "cal_second c = cal_second c' \<and> lit ''Z'' = lit ''Z''"
    using minute by (intro field_ends bounds) (simp add: lit_def)
  with year month day hour minute show ?thesis by (intro calendar_time.equality) simp_all
qed

lemma month_lengths_total: "sum_list (month_lengths y) = year_length y"
  by (simp add: month_lengths_def year_length_def)

lemma gmtime_small: "calendar_small (gmtime t)"
proof -
  obtain y days where y: "year_of 1970 (t div 86400) = (y, days)" by fastforce
  obtain m d where m: "month_of 1 (month_lengths y) days = (m, d)" by fastforce
  have len: "length (month_lengths y) = 12" by (simp add: month_lengths_def)
  have md: "m \<le> 13" "days = sum_list (take (m - 1) (month_lengths y)) + d"
    "m < 13 \<Longrightarrow> d < month_lengths y ! (m - 1)" "1 \<le> m"
    using month_of_days [OF m] len by auto
  have "d < 99"
  proof (cases "m < 13")
    case True
    have "\<forall>n \<in> set (month_lengths y). n \<le> 31" by (simp add: month_lengths_def)
    moreover have "month_lengths y ! (m - 1) \<in> set (month_lengths y)" using True len by (intro nth_mem) simp
    ultimately have "month_lengths y ! (m - 1) \<le> 31" by (rule bspec)
    then show ?thesis using md(3) [OF True] by simp
  next
    case False
    then have "days = sum_list (month_lengths y) + d" using md len by simp
    then show ?thesis using year_of_days [OF y] by (simp add: month_lengths_total)
  qed
  moreover have "t mod 86400 div 3600 < 100" by (simp add: less_mult_imp_div_less)
  moreover have "t mod 86400 mod 3600 div 60 < 100" by (simp add: less_mult_imp_div_less)
  moreover have "t mod 86400 mod 60 < 100" by (rule less_trans [of _ 60]) simp_all
  ultimately show ?thesis using md(1) m by (simp add: calendar_small_def gmtime_def y Let_def)
qed

definition representable_time :: "int \<Rightarrow> bool" where
  "representable_time ticks \<longleftrightarrow> 0 \<le> ticks \<and> ticks div 10000000 \<le> last_gmtime"

lemma Boundary_representable:
  "representable_time t \<Longrightarrow> Boundary u t = boundary_text (gmtime (nat (t div 10000000)))"
  by (simp add: Boundary_def representable_time_def Let_def pos_imp_zdiv_nonneg_iff)

lemma Boundary_injective:
  assumes "Boundary u s = Boundary u t" and "representable_time s" "representable_time t"
  shows "s div 10000000 = t div 10000000"
proof -
  have "gmtime (nat (s div 10000000)) = gmtime (nat (t div 10000000))"
    using assms by (intro boundary_text_injective gmtime_small) (simp add: Boundary_representable)
  then have "nat (s div 10000000) = nat (t div 10000000)" by (rule gmtime_injective)
  then show ?thesis using assms(2,3) by (simp add: representable_time_def eq_nat_nat_iff pos_imp_zdiv_nonneg_iff)
qed

text \<open>A task matches at most one definition, up to the fraction of a second of its start.  If the
  snapshot of a task is found equivalent to two definitions, they have the same description, program,
  argument vector, trigger and start second, so planning never mistakes a changed definition for the
  registered one.  Start times are ones \<open>gmtime_s\<close> can split.\<close>

theorem plan_tells_definitions_apart:
  assumes "Equivalent u current a" and "Equivalent u current b"
    and "td_trigger a = Trigger_Once \<longrightarrow> representable_time (td_start_time a) \<and> representable_time (td_start_time b)"
  shows "td_description a = td_description b \<and> td_executable a = td_executable b
    \<and> td_arguments a = td_arguments b \<and> td_trigger a = td_trigger b
    \<and> (td_trigger a = Trigger_Once \<longrightarrow> td_start_time a div 10000000 = td_start_time b div 10000000)"
proof -
  have "Scheduler_Arguments (td_arguments a) = Scheduler_Arguments (td_arguments b)"
    using assms by (auto simp: Equivalent_def split: if_splits)
  then have "td_arguments a = td_arguments b" by (metis command_lines_split(3))
  moreover have "td_trigger a = Trigger_Once \<Longrightarrow> td_start_time a div 10000000 = td_start_time b div 10000000"
    using assms by (intro Boundary_injective [of u]) (auto simp: Equivalent_def split: if_splits)
  ultimately show ?thesis using assms by (auto simp: Equivalent_def split: if_splits)
qed

section \<open>The service the operations rely on\<close>

text \<open>
  What the Task Scheduler documents: the tasks it keeps, by folder and name, change only by registering
  and deleting; a folder or task is reported missing only when there is none; a new definition is
  empty; a task has the definition it was registered with.
\<close>

definition keeps_tasks :: "('w \<Rightarrow> 'k \<Rightarrow> task_data option) \<Rightarrow> ('w \<Rightarrow> 'r \<times> 'w) \<Rightarrow> bool" where
  "keeps_tasks stored m \<longleftrightarrow> (\<forall>w r w'. m w = (r, w') \<longrightarrow> stored w' = stored w)"

definition scheduler_ok ::
  "('w, 's, 'f, 't) scheduler_api \<Rightarrow> ('f \<Rightarrow> wstring) \<Rightarrow> ('w \<Rightarrow> wstring \<times> wstring \<Rightarrow> task_data option) \<Rightarrow> bool" where
  "scheduler_ok A path stored \<longleftrightarrow>
    keeps_tasks stored (com_usable A) \<and> keeps_tasks stored (create_service A) \<and>
    (\<forall>s. keeps_tasks stored (connect_service A s)) \<and> (\<forall>s p. keeps_tasks stored (get_folder A s p)) \<and>
    (\<forall>f p. keeps_tasks stored (create_folder A f p)) \<and> (\<forall>f n. keeps_tasks stored (get_task A f n)) \<and>
    (\<forall>s. keeps_tasks stored (new_task A s)) \<and> (\<forall>t d. keeps_tasks stored (create_trigger A t d)) \<and>
    (\<forall>d. keeps_tasks stored (create_exec_action A d)) \<and>
    (\<forall>s p w f w'. get_folder A s p w = (Inr f, w') \<longrightarrow> path f = p) \<and>
    (\<forall>s p w w'. get_folder A s p w = (Inl HRESULT_FILE_NOT_FOUND, w') \<longrightarrow> (\<forall>n. stored w (p, n) = None)) \<and>
    (\<forall>f p w g w'. create_folder A f p w = (Inr g, w') \<and> path f = [0x5C] \<longrightarrow> path g = 0x5C # p) \<and>
    (\<forall>f n w t w'. get_task A f n w = (Inr t, w') \<longrightarrow>
      (\<exists>d. stored w (path f, n) = Some d \<and> task_enabled A t w' = data_enabled d
        \<and> (task_definition A t w' = None \<or> task_definition A t w' = Some d))) \<and>
    (\<forall>f n w w'. get_task A f n w = (Inl HRESULT_FILE_NOT_FOUND, w') \<longrightarrow> stored w (path f, n) = None) \<and>
    (\<forall>s w d w'. new_task A s w = (Inr d, w') \<longrightarrow> data_actions d = [] \<and> data_triggers d = []) \<and>
    (\<forall>f n d w w'. register_task A f n d w = (Inr (), w') \<longrightarrow> stored w' = (stored w)((path f, n) \<mapsto> d))"

lemma scheduler_keeps:
  assumes "scheduler_ok A path stored"
  shows "com_usable A w = (r1, w') \<Longrightarrow> stored w' = stored w"
    and "create_service A w = (r2, w') \<Longrightarrow> stored w' = stored w"
    and "connect_service A s w = (r3, w') \<Longrightarrow> stored w' = stored w"
    and "get_folder A s p w = (r4, w') \<Longrightarrow> stored w' = stored w"
    and "create_folder A f p w = (r5, w') \<Longrightarrow> stored w' = stored w"
    and "get_task A f p w = (r6, w') \<Longrightarrow> stored w' = stored w"
    and "new_task A s w = (r7, w') \<Longrightarrow> stored w' = stored w"
    and "create_trigger A t d w = (r8, w') \<Longrightarrow> stored w' = stored w"
    and "create_exec_action A d w = (r9, w') \<Longrightarrow> stored w' = stored w"
  using assms unfolding scheduler_ok_def keeps_tasks_def by metis+

lemma scheduler_folder: "scheduler_ok A path stored \<Longrightarrow> get_folder A s p w = (Inr f, w') \<Longrightarrow> path f = p"
  unfolding scheduler_ok_def by metis

lemma scheduler_no_folder:
  "scheduler_ok A path stored \<Longrightarrow> get_folder A s p w = (Inl HRESULT_FILE_NOT_FOUND, w') \<Longrightarrow> stored w (p, n) = None"
  unfolding scheduler_ok_def by metis

lemma scheduler_new_folder:
  "scheduler_ok A path stored \<Longrightarrow> create_folder A f p w = (Inr g, w') \<Longrightarrow> path f = [0x5C] \<Longrightarrow> path g = 0x5C # p"
  unfolding scheduler_ok_def by metis

lemma scheduler_task:
  "scheduler_ok A path stored \<Longrightarrow> get_task A f n w = (Inr t, w') \<Longrightarrow> task_definition A t w' = Some d
    \<Longrightarrow> stored w (path f, n) = Some d \<and> task_enabled A t w' = data_enabled d"
  unfolding scheduler_ok_def by (metis option.distinct(1) option.inject)

lemma scheduler_no_task:
  "scheduler_ok A path stored \<Longrightarrow> get_task A f n w = (Inl HRESULT_FILE_NOT_FOUND, w') \<Longrightarrow> stored w (path f, n) = None"
  unfolding scheduler_ok_def by metis

lemma scheduler_new_definition:
  "scheduler_ok A path stored \<Longrightarrow> new_task A s w = (Inr d, w') \<Longrightarrow> data_actions d = [] \<and> data_triggers d = []"
  unfolding scheduler_ok_def by metis

lemma scheduler_register:
  "scheduler_ok A path stored \<Longrightarrow> register_task A f n d w = (Inr (), w') \<Longrightarrow> stored w' = (stored w)((path f, n) \<mapsto> d)"
  unfolding scheduler_ok_def by metis

lemma hcall_result:
  "hcall m w = (Inr x, w') \<longleftrightarrow> m w = (Inr x, w')"
  "hcall_named operation m w = (Inr x, w') \<longleftrightarrow> m w = (Inr x, w')"
  by (auto simp: hcall_def hcall_named_def split: prod.splits sum.splits)

section \<open>Snapshots and queries\<close>

definition shows_task :: "task_data option \<Rightarrow> wstring \<Rightarrow> wstring \<Rightarrow> ScheduledTaskSnapshot \<Rightarrow> bool" where
  "shows_task d folder name s \<longleftrightarrow>
    (case d of None \<Rightarrow> s = no_task
     | Some d \<Rightarrow> \<exists>state. s = snapshot_of folder name state (data_enabled d) d)"

lemma snapshot_shows:
  assumes A: "scheduler_ok A path stored" and s: "Scheduler_Snapshot A f folder name w = (Inr s, w')"
  shows "stored w' = stored w \<and> shows_task (stored w (path f, until_nul name)) folder name s"
proof -
  obtain r w1 where r: "get_task A f (until_nul name) w = (r, w1)" by fastforce
  have kept: "stored w1 = stored w" using scheduler_keeps(6) [OF A r] .
  show ?thesis
  proof (cases r)
    case (Inl e)
    with s r have "e = HRESULT_FILE_NOT_FOUND" "s = no_task" "w' = w1"
      by (auto simp: Scheduler_Snapshot_def split: if_splits)
    with scheduler_no_task [OF A] r Inl kept show ?thesis by (simp add: shows_task_def)
  next
    case (Inr t)
    with s r obtain d where d: "task_definition A t w1 = Some d" "w' = w1"
      "s = snapshot_of folder name (task_state A t w1) (task_enabled A t w1) d"
      by (auto simp: Scheduler_Snapshot_def split: option.splits)
    with scheduler_task [OF A r [unfolded Inr] d(1)] kept show ?thesis by (auto simp: shows_task_def)
  qed
qed

lemma with_service_result:
  assumes A: "scheduler_ok A path stored" and r: "with_service A f w = (Inr x, w')"
  shows "\<exists>service w1. stored w1 = stored w \<and> f service w1 = (Inr x, w')"
  using r scheduler_keeps(1-3) [OF A]
  by (auto simp: with_service_def Scheduler_Connect_def and_then_Inr hcall_result) metis

lemma query_shows:
  assumes A: "scheduler_ok A path stored" and q: "TaskScheduler_Query A folder name w = (Inr s, w')"
  shows "stored w' = stored w \<and> shows_task (stored w (until_nul folder, until_nul name)) folder name s"
proof -
  obtain service w1 where w1: "stored w1 = stored w" and
    f: "(case OpenFolder A service folder False w1 of
      (Inl e, w2) \<Rightarrow> if err_code e = HRESULT_FILE_NOT_FOUND then (Inr no_task, w2) else (Inl e, w2)
    | (Inr opened, w2) \<Rightarrow> Scheduler_Snapshot A opened folder name w2) = (Inr s, w')"
    using with_service_result [OF A q [unfolded TaskScheduler_Query_def]] by blast
  obtain r w2 where r: "get_folder A service (until_nul folder) w1 = (r, w2)" by fastforce
  have w2: "stored w2 = stored w" using scheduler_keeps(4) [OF A r] w1 by simp
  show ?thesis
  proof (cases r)
    case (Inl e)
    with f r have "e = HRESULT_FILE_NOT_FOUND" "s = no_task" "w' = w2"
      by (auto simp: OpenFolder_def SystemError_FromHResult_def split: if_splits)
    with scheduler_no_folder [OF A] r Inl w1 w2 show ?thesis by (fastforce simp: shows_task_def)
  next
    case (Inr g)
    with f r have "Scheduler_Snapshot A g folder name w2 = (Inr s, w')" by (simp add: OpenFolder_def)
    from snapshot_shows [OF A this] scheduler_folder [OF A r [unfolded Inr]] w2 show ?thesis by simp
  qed
qed

section \<open>Applying a plan\<close>

text \<open>What registration stores for a definition.\<close>

definition describes_task :: "wstring \<Rightarrow> TaskDefinition \<Rightarrow> task_data \<Rightarrow> bool" where
  "describes_task u spec d \<longleftrightarrow>
    data_description d = Some (until_nul (td_description spec)) \<and> data_enabled d \<and>
    data_actions d = [Some (Action_exec (Some (until_nul (td_executable spec)))
      (Some (until_nul (Scheduler_Arguments (td_arguments spec)))))] \<and>
    data_triggers d = (case td_trigger spec of
       Trigger_OnDemand \<Rightarrow> []
     | Trigger_CurrentUserLogon \<Rightarrow> [Some On_logon]
     | Trigger_Once \<Rightarrow> [Some (At_time (Some (until_nul (Boundary u (td_start_time spec)))))])"

lemma open_folder_path:
  assumes A: "scheduler_ok A path stored" and f: "OpenFolder A service folder create w = (Inr f, w')"
    and absolute: "folder \<noteq> [] \<and> hd folder = 0x5C"
  shows "stored w' = stored w \<and> path f = until_nul folder"
proof -
  obtain r w1 where r: "get_folder A service (until_nul folder) w = (r, w1)" by fastforce
  have w1: "stored w1 = stored w" using scheduler_keeps(4) [OF A r] .
  show ?thesis
  proof (cases r)
    case (Inr g)
    with f r have "g = f" "w' = w1" by (simp_all add: OpenFolder_def)
    with w1 scheduler_folder [OF A r [unfolded Inr]] show ?thesis by simp
  next
    case (Inl e)
    with f r absolute obtain root w2 where root: "get_folder A service [0x5C] w1 = (Inr root, w2)"
      and made: "create_folder A root (until_nul (tl folder)) w2 = (Inr f, w')"
      by (auto simp: OpenFolder_def and_then_Inr hcall_result split: if_splits)
    have "until_nul folder = 0x5C # until_nul (tl folder)"
      using absolute by (cases folder) (auto simp: until_nul_def)
    with scheduler_new_folder [OF A made scheduler_folder [OF A root]]
      scheduler_keeps(4) [OF A root] scheduler_keeps(5) [OF A made] w1 show ?thesis by simp
  qed
qed

lemma add_trigger_result:
  assumes A: "scheduler_ok A path stored" and r: "add_trigger A spec d w = (Inr d', w')"
  shows "stored w' = stored w \<and> d' = d\<lparr>data_triggers := data_triggers d @ (case td_trigger spec of
       Trigger_OnDemand \<Rightarrow> []
     | Trigger_CurrentUserLogon \<Rightarrow> [Some On_logon]
     | Trigger_Once \<Rightarrow> [Some (At_time (Some (until_nul
         (Boundary (unrepresentable_time A) (td_start_time spec)))))])\<rparr>"
  using r scheduler_keeps(8) [OF A]
  by (cases "td_trigger spec") (auto simp: add_trigger_def and_then_Inr hcall_result)

lemma add_action_result:
  assumes A: "scheduler_ok A path stored" and r: "add_action A spec d w = (Inr d', w')"
  shows "stored w' = stored w \<and> d' = d\<lparr>data_actions := data_actions d @
        [Some (Action_exec (Some (until_nul (td_executable spec)))
          (Some (until_nul (Scheduler_Arguments (td_arguments spec)))))]\<rparr>"
  using r scheduler_keeps(9) [OF A] by (auto simp: add_action_def and_then_Inr hcall_result)

lemma register_definition_result:
  assumes A: "scheduler_ok A path stored"
    and absolute: "td_folder spec \<noteq> [] \<and> hd (td_folder spec) = 0x5C"
    and r: "register_definition A spec existed service w = (Inr r, w')"
  shows "\<exists>d. describes_task (unrepresentable_time A) spec d \<and>
    stored w' = (stored w)((until_nul (td_folder spec), until_nul (td_name spec)) \<mapsto> d) \<and>
    shows_task (Some d) (td_folder spec) (td_name spec) (applied_snapshot r) \<and> applied_changed r"
proof -
  from r obtain f w1 d w2 d1 w3 d2 w4 w5 s
    where f: "OpenFolder A service (td_folder spec) True w = (Inr f, w1)"
      and d: "new_task A service w1 = (Inr d, w2)"
      and d1: "add_trigger A spec (described spec d) w2 = (Inr d1, w3)"
      and d2: "add_action A spec d1 w3 = (Inr d2, w4)"
      and reg: "register_task A f (until_nul (td_name spec)) d2 w4 = (Inr (), w5)"
      and s: "Scheduler_Snapshot A f (td_folder spec) (td_name spec) w5 = (Inr s, w')"
      and r': "r = \<lparr>applied_created = \<not> existed, applied_changed = True, applied_snapshot = s\<rparr>"
    by (auto simp: register_definition_def and_then_Inr hcall_result)
  note F = open_folder_path [OF A f absolute]
  have "stored w4 = stored w"
    using F scheduler_keeps(7) [OF A d] add_trigger_result [OF A d1] add_action_result [OF A d2] by simp
  with scheduler_register [OF A reg] F
  have w5: "stored w5 = (stored w)((until_nul (td_folder spec), until_nul (td_name spec)) \<mapsto> d2)" by simp
  have "describes_task (unrepresentable_time A) spec d2"
    using scheduler_new_definition [OF A d] add_trigger_result [OF A d1] add_action_result [OF A d2]
    by (auto simp: describes_task_def described_def split: ScheduledTaskTrigger.splits)
  with snapshot_shows [OF A s] F w5 show ?thesis by (auto simp: r')
qed

text \<open>The texts the service keeps are C strings.\<close>

definition texts_without_nul :: "TaskDefinition \<Rightarrow> bool" where
  "texts_without_nul spec \<longleftrightarrow> 0 \<notin> set (td_description spec) \<and> 0 \<notin> set (td_executable spec)
    \<and> (\<forall>a \<in> set (td_arguments spec). 0 \<notin> set a)"

lemma spaced_units: "\<forall>a \<in> set as. 0 \<notin> set a \<Longrightarrow> 0 \<notin> set (spaced as)"
proof (induction as)
  case (Cons a as)
  then show ?case using quoted_units [of a] by auto
qed simp

lemma task_arguments_units:
  assumes "\<forall>a \<in> set as. 0 \<notin> set a"
  shows "0 \<notin> set (Scheduler_Arguments as)"
proof (cases as)
  case Nil
  then show ?thesis by (simp add: Scheduler_Arguments_def)
next
  case (Cons a bs)
  with assms spaced_units [of bs] quoted_units [of a] show ?thesis
    by (auto simp: task_arguments_spaced)
qed

lemma boundary_units:
  assumes "representable_time t"
  shows "0 \<notin> set (Boundary u t)"
proof -
  have "0 \<notin> set (to_wstring n)" for n using to_wstring_digits [of 0 n] by (auto simp: is_wdigit_def)
  then show ?thesis
    by (simp add: Boundary_representable [OF assms] boundary_text_def two_digits_def)
qed

lemma described_task_equivalent:
  assumes "describes_task u spec d" and "texts_without_nul spec"
    and "td_trigger spec = Trigger_Once \<longrightarrow> representable_time (td_start_time spec)"
    and "shows_task (Some d) folder name s"
  shows "Equivalent u s spec"
  using assms boundary_units [of "td_start_time spec" u] task_arguments_units [of "td_arguments spec"]
  by (auto simp: describes_task_def shows_task_def texts_without_nul_def Equivalent_def snapshot_of_def
      snapshot_action_def snapshot_trigger_def no_task_def TakeBstr_def until_nul_id
      split: ScheduledTaskTrigger.splits)

text \<open>Equivalence does not look at the state of the task.\<close>

lemma snapshot_placed:
  "snapshot_action d (s\<lparr>snap_folder := f, snap_name := n, snap_state := st\<rparr>) =
    (snapshot_action d s)\<lparr>snap_folder := f, snap_name := n, snap_state := st\<rparr>"
  "snapshot_trigger d (s\<lparr>snap_folder := f, snap_name := n, snap_state := st\<rparr>) =
    (snapshot_trigger d s)\<lparr>snap_folder := f, snap_name := n, snap_state := st\<rparr>"
  by (simp_all add: snapshot_action_def snapshot_trigger_def
      split: list.split option.split task_action.split task_trigger.split)

lemma equivalent_placed:
  "Equivalent u (s\<lparr>snap_folder := f, snap_name := n, snap_state := st\<rparr>) spec = Equivalent u s spec"
  by (simp add: Equivalent_def)

lemma snapshot_of_placed:
  "snapshot_of f n st e d = (snapshot_of f' n' st' e d)\<lparr>snap_folder := f, snap_name := n, snap_state := st\<rparr>"
  by (simp only: snapshot_of_def snapshot_placed [symmetric]) (simp add: no_task_def)

lemma equivalent_any_snapshot:
  assumes "shows_task d folder name s" "shows_task d folder' name' t"
  shows "Equivalent u s spec = Equivalent u t spec"
proof (cases d)
  case None
  with assms show ?thesis by (simp add: shows_task_def)
next
  case (Some x)
  with assms obtain st st' where "s = snapshot_of folder name st (data_enabled x) x"
    and t: "t = snapshot_of folder' name' st' (data_enabled x) x" by (auto simp: shows_task_def)
  then have "s = t\<lparr>snap_folder := folder, snap_name := name, snap_state := st\<rparr>"
    by (simp only: snapshot_of_placed [of folder name st _ _ folder' name' st'])
  then show ?thesis by (simp only: equivalent_placed)
qed

lemma plan_result:
  assumes A: "scheduler_ok A path stored" and p: "TaskScheduler_Plan A spec w = (Inr p, w')"
  shows "plan_desired p = spec \<and> stored w' = stored w \<and> td_folder spec \<noteq> [] \<and> hd (td_folder spec) = 0x5C \<and>
    shows_task (stored w (until_nul (td_folder spec), until_nul (td_name spec))) (td_folder spec) (td_name spec)
      (plan_current p) \<and>
    plan_required p = (\<not> Equivalent (unrepresentable_time A) (plan_current p) spec)"
  using p query_shows [OF A]
  by (auto simp: TaskScheduler_Plan_def ValidateScheduledTask_def and_then_Inr split: sum.splits if_splits)

text \<open>C28: Applying a plan reaches its definition and touches no other task.  When \<open>Apply\<close> succeeds, the
  snapshot it returns is equivalent to the desired definition, every later plan of that definition finds
  nothing to do, every other registered task is as before, and when it reports no change the desired
  task is as before too.  The definition's texts hold no NUL and its start time, if it has one, is one
  \<open>gmtime_s\<close> can split.\<close>

theorem applying_reaches_definition:
  assumes A: "scheduler_ok A path stored"
    and r: "TaskScheduler_Apply A plan w = (Inr r, w')"
    and texts: "texts_without_nul (plan_desired plan)"
    and time: "td_trigger (plan_desired plan) = Trigger_Once \<longrightarrow>
      representable_time (td_start_time (plan_desired plan))"
  shows "Equivalent (unrepresentable_time A) (applied_snapshot r) (plan_desired plan) \<and>
    (\<forall>p w''. TaskScheduler_Plan A (plan_desired plan) w' = (Inr p, w'') \<longrightarrow> \<not> plan_required p) \<and>
    (\<forall>k. k \<noteq> (until_nul (td_folder (plan_desired plan)), until_nul (td_name (plan_desired plan))) \<longrightarrow>
      stored w' k = stored w k) \<and>
    (\<not> applied_changed r \<longrightarrow> stored w' = stored w)"
proof -
  let ?spec = "plan_desired plan" and ?u = "unrepresentable_time A"
  let ?k = "(until_nul (td_folder ?spec), until_nul (td_name ?spec))"
  obtain p w1 where p: "TaskScheduler_Plan A ?spec w = (Inr p, w1)"
    and rest: "(if \<not> plan_required p
      then succeed \<lparr>applied_created = False, applied_changed = False, applied_snapshot = plan_current p\<rparr>
      else with_service A (register_definition A (plan_desired p) (snap_exists (plan_current p)))) w1 = (Inr r, w')"
    using r by (auto simp: TaskScheduler_Apply_def and_then_Inr)
  note P = plan_result [OF A p]
  have "Equivalent ?u (applied_snapshot r) ?spec \<and> (\<forall>k. k \<noteq> ?k \<longrightarrow> stored w' k = stored w k) \<and>
    (\<not> applied_changed r \<longrightarrow> stored w' = stored w) \<and>
    shows_task (stored w' ?k) (td_folder ?spec) (td_name ?spec) (applied_snapshot r)"
  proof (cases "plan_required p")
    case False
    with rest P show ?thesis by auto
  next
    case True
    with rest P have "with_service A (register_definition A ?spec (snap_exists (plan_current p))) w1 = (Inr r, w')"
      by simp
    from with_service_result [OF A this] obtain service w2 where w2: "stored w2 = stored w1"
      and a: "register_definition A ?spec (snap_exists (plan_current p)) service w2 = (Inr r, w')" by blast
    obtain d where "describes_task ?u ?spec d" "stored w' = (stored w2)(?k \<mapsto> d)"
      "shows_task (Some d) (td_folder ?spec) (td_name ?spec) (applied_snapshot r)" "applied_changed r"
      using register_definition_result [OF A _ a] P by blast
    with described_task_equivalent [OF _ texts time] P w2 show ?thesis by auto
  qed
  moreover have "\<not> plan_required q" if "TaskScheduler_Plan A ?spec w' = (Inr q, w'')" for q w''
    using plan_result [OF A that] equivalent_any_snapshot calculation by blast
  ultimately show ?thesis by blast
qed

text \<open>A service that keeps its tasks in memory, all folders being present.\<close>

definition memory_scheduler ::
  "(wstring \<times> wstring \<Rightarrow> task_data option, unit, wstring, wstring \<times> wstring) scheduler_api" where
  "memory_scheduler = \<lparr>
    com_usable = (\<lambda>w. (Inr (), w)), create_service = (\<lambda>w. (Inr (), w)), connect_service = (\<lambda>_ w. (Inr (), w)),
    get_folder = (\<lambda>_ p w. (Inr p, w)), create_folder = (\<lambda>_ p w. (Inr (0x5C # p), w)),
    get_task = (\<lambda>f n w. if w (f, n) = None then (Inl HRESULT_FILE_NOT_FOUND, w) else (Inr (f, n), w)),
    task_state = (\<lambda>_ _. 3), task_enabled = (\<lambda>t w. case w t of None \<Rightarrow> False | Some d \<Rightarrow> data_enabled d),
    task_definition = (\<lambda>t w. w t),
    new_task = (\<lambda>_ w. (Inr \<lparr>data_description = None, data_enabled = True, data_start_when_available = False,
      data_actions = [], data_triggers = []\<rparr>, w)),
    create_trigger = (\<lambda>_ _ w. (Inr (), w)), create_exec_action = (\<lambda>_ w. (Inr (), w)),
    register_task = (\<lambda>f n d w. (Inr (), w((f, n) \<mapsto> d))),
    run_task = (\<lambda>_ w. (Inr (), w)), stop_task = (\<lambda>_ w. (Inr (), w)),
    delete_task = (\<lambda>f n w. (Inr (), w((f, n) := None))), unrepresentable_time = []\<rparr>"

lemma memory_scheduler_ok: "scheduler_ok memory_scheduler (\<lambda>f. f) (\<lambda>w. w)"
  by (auto simp: scheduler_ok_def keeps_tasks_def memory_scheduler_def)

definition example_task :: TaskDefinition where
  "example_task = \<lparr>td_folder = [0x5C] @ lit ''mwfl'', td_name = lit ''Backup'', td_description = lit ''Nightly'',
    td_executable = lit ''backup.exe'', td_arguments = [lit ''my files''], td_trigger = Trigger_Once,
    td_start_time = 17000000000000000\<rparr>"

definition example_change :: TaskChangePlan where
  "example_change = \<lparr>plan_desired = example_task, plan_current = no_task, plan_required = True, plan_creates = True\<rparr>"

lemma example_applied:
  "\<exists>r w. TaskScheduler_Apply memory_scheduler example_change Map.empty = (Inr r, w) \<and> applied_changed r"
  by (simp add: TaskScheduler_Apply_def TaskScheduler_Plan_def TaskScheduler_Query_def with_service_def
      Scheduler_Connect_def OpenFolder_def Scheduler_Snapshot_def register_definition_def add_trigger_def
      add_action_def and_then_def succeed_def hcall_def hcall_named_def memory_scheduler_def example_change_def
      example_task_def ValidateScheduledTask_def Equivalent_def no_task_def until_nul_def)

theorem applying_reaches_definition_witness:
  "\<exists>r w. TaskScheduler_Apply memory_scheduler example_change Map.empty = (Inr r, w) \<and> applied_changed r \<and>
    Equivalent [] (applied_snapshot r) example_task"
proof -
  obtain r w where r: "TaskScheduler_Apply memory_scheduler example_change Map.empty = (Inr r, w)"
    "applied_changed r"
    using example_applied by blast
  have "texts_without_nul (plan_desired example_change)"
    "td_trigger (plan_desired example_change) = Trigger_Once \<longrightarrow>
      representable_time (td_start_time (plan_desired example_change))"
    by (simp_all add: texts_without_nul_def example_change_def example_task_def representable_time_def
        last_gmtime_def)
  from applying_reaches_definition [OF memory_scheduler_ok r(1) this] r show ?thesis
    by (auto simp: memory_scheduler_def example_change_def)
qed

theorem plan_tells_definitions_apart_witness:
  "td_arguments example_task = [lit ''my files''] \<and>
    \<not> Equivalent [] (snapshot_of [] [] 3 True \<lparr>data_description = Some (lit ''Nightly''), data_enabled = True,
      data_start_when_available = True,
      data_actions = [Some (Action_exec (Some (lit ''backup.exe'')) (Some (Scheduler_Arguments [lit ''my files''])))],
      data_triggers = [Some (At_time (Some (Boundary [] 17000000000000000)))]\<rparr>)
      (example_task\<lparr>td_start_time := 17000000010000000\<rparr>)"
  (is "_ \<and> \<not> Equivalent [] ?s ?other")
proof -
  have texts: "until_nul (Scheduler_Arguments [lit ''my files'']) = Scheduler_Arguments [lit ''my files'']"
    by (rule until_nul_id, rule task_arguments_units) simp
  have time: "representable_time 17000000000000000" "representable_time 17000000010000000"
    by (simp_all add: representable_time_def last_gmtime_def)
  have "until_nul (Boundary [] 17000000000000000) = Boundary [] 17000000000000000"
    by (rule until_nul_id, rule boundary_units, rule time)
  with texts have matches: "Equivalent [] ?s example_task"
    by (simp add: Equivalent_def snapshot_of_def snapshot_action_def snapshot_trigger_def no_task_def TakeBstr_def
        example_task_def until_nul_def)
  show ?thesis using plan_tells_definitions_apart [OF matches, of ?other] time
    by (auto simp: example_task_def)
qed

end
