(* ===== verification/Dpi.thy ===== *)
theory Dpi
  imports Floating
begin

text \<open>
  Device independent lengths (\<open>dpi.h\<close>, \<open>dpi.cpp\<close>): a \<open>Dip\<close> is a \<open>float\<close>, pixels are \<open>int\<close>s, and a
  \<open>DpiContext\<close> is its positive number of dots per inch.
\<close>

type_synonym Dip = fp

record PointDip =
  pt_x :: Dip
  pt_y :: Dip

record SizeDip =
  sz_width :: Dip
  sz_height :: Dip

record RectDip =
  rc_origin :: PointDip
  rc_size :: SizeDip

record Thickness =
  th_left :: Dip
  th_top :: Dip
  th_right :: Dip
  th_bottom :: Dip

definition make_size :: "Dip \<Rightarrow> Dip \<Rightarrow> SizeDip" where
  "make_size w h = \<lparr>sz_width = w, sz_height = h\<rparr>"

definition make_rect :: "Dip \<Rightarrow> Dip \<Rightarrow> Dip \<Rightarrow> Dip \<Rightarrow> RectDip" where
  "make_rect x y w h = \<lparr>rc_origin = \<lparr>pt_x = x, pt_y = y\<rparr>, rc_size = make_size w h\<rparr>"

record POINT =
  px :: int
  py :: int

record SIZE =
  cx :: int
  cy :: int

record RECT =
  r_left :: int
  r_top :: int
  r_right :: int
  r_bottom :: int

definition int_min :: int where
  "int_min = - 2147483648"

definition int_max :: int where
  "int_max = 2147483647"

definition lround :: "rat \<Rightarrow> int" where
  "lround q = (if 0 \<le> q then \<lfloor>q + 1 / 2\<rfloor> else - \<lfloor>- q + 1 / 2\<rfloor>)"

definition RoundAndClamp :: "fp \<Rightarrow> int" where
  "RoundAndClamp value =
    (if value = NaN then 0
     else if fp_leq value (Fin (of_int int_min)) then int_min
     else if fp_leq (Fin (of_int int_max)) value then int_max
     else case value of Fin q \<Rightarrow> lround q | _ \<Rightarrow> 0)"

definition AddAndClamp :: "int \<Rightarrow> int \<Rightarrow> int" where
  "AddAndClamp left right =
    (if left + right \<le> int_min then int_min else if int_max \<le> left + right then int_max else left + right)"

definition kDefaultDpi :: nat where
  "kDefaultDpi = 96"

definition DpiContext :: "nat \<Rightarrow> nat" where
  "DpiContext dpi = (if dpi = 0 then kDefaultDpi else dpi)"

definition ToPixels :: "nat \<Rightarrow> Dip \<Rightarrow> int" where
  "ToPixels dpi value = RoundAndClamp (dbl_div_by (dbl_mul value (Fin (of_nat dpi))) (of_nat kDefaultDpi))"

definition FromPixels :: "nat \<Rightarrow> int \<Rightarrow> Dip" where
  "FromPixels dpi value =
    flt_div_pos (flt_mul (flt (of_int value)) (flt (of_nat kDefaultDpi))) (flt (of_nat dpi))"

definition ToPixels_point :: "nat \<Rightarrow> PointDip \<Rightarrow> POINT" where
  "ToPixels_point dpi p = \<lparr>px = ToPixels dpi (pt_x p), py = ToPixels dpi (pt_y p)\<rparr>"

definition ToPixels_size :: "nat \<Rightarrow> SizeDip \<Rightarrow> SIZE" where
  "ToPixels_size dpi s = \<lparr>cx = ToPixels dpi (sz_width s), cy = ToPixels dpi (sz_height s)\<rparr>"

definition ToPixels_rect :: "nat \<Rightarrow> RectDip \<Rightarrow> RECT" where
  "ToPixels_rect dpi r =
    (let origin = ToPixels_point dpi (rc_origin r); size = ToPixels_size dpi (rc_size r)
     in \<lparr>r_left = px origin, r_top = py origin, r_right = AddAndClamp (px origin) (cx size),
         r_bottom = AddAndClamp (py origin) (cy size)\<rparr>)"

section \<open>Pixels are integers of 32 bits and follow the order of lengths\<close>

definition in_int :: "int \<Rightarrow> bool" where
  "in_int n \<longleftrightarrow> int_min \<le> n \<and> n \<le> int_max"

lemma lround_mono: "p \<le> q \<Longrightarrow> lround p \<le> lround q"
proof -
  assume le: "p \<le> q"
  show ?thesis
  proof (cases "0 \<le> p \<or> q < 0")
    case True
    with le show ?thesis by (auto simp: lround_def intro: floor_mono)
  next
    case False
    then have "0 \<le> \<lfloor>q + 1 / 2\<rfloor>" "0 \<le> \<lfloor>- p + 1 / 2\<rfloor>" by (simp_all add: le_floor_iff)
    moreover have "lround q = \<lfloor>q + 1 / 2\<rfloor>" "lround p = - \<lfloor>- p + 1 / 2\<rfloor>"
      using False by (simp_all add: lround_def)
    ultimately show ?thesis by linarith
  qed
qed

lemma lround_near:
  assumes "\<bar>q - of_int n\<bar> < 1 / 2"
  shows "lround q = n"
proof (cases "0 \<le> q")
  case True
  have "\<lfloor>q + 1 / 2\<rfloor> = n" unfolding floor_eq_iff using assms by linarith
  with True show ?thesis by (simp add: lround_def)
next
  case False
  have "\<lfloor>- q + 1 / 2\<rfloor> = - n" unfolding floor_eq_iff of_int_minus using assms by linarith
  with False show ?thesis unfolding lround_def by simp
qed

lemma lround_of_int [simp]: "lround (of_int n) = n"
  by (rule lround_near) simp

lemma RoundAndClamp_in_int: "in_int (RoundAndClamp a)"
proof (cases a)
  case (Fin q)
  have "lround (of_int int_min) \<le> lround q" if "of_int int_min \<le> q" using lround_mono [OF that] .
  moreover have "lround q \<le> lround (of_int int_max)" if "q \<le> of_int int_max" using lround_mono [OF that] .
  ultimately show ?thesis using Fin
    by (auto simp: RoundAndClamp_def in_int_def) (simp_all add: int_min_def int_max_def)
qed (auto simp: RoundAndClamp_def in_int_def int_min_def int_max_def fp_leq_def)

lemma RoundAndClamp_mono:
  assumes "fp_leq a b"
  shows "RoundAndClamp a \<le> RoundAndClamp b"
proof (cases "a = NaN \<or> b = NaN")
  case True
  with assms show ?thesis by (cases a; cases b) (auto simp: fp_leq_def)
next
  case False
  have a: "RoundAndClamp a = int_min" if "fp_leq a (Fin (of_int int_min))" using that False by (simp add: RoundAndClamp_def)
  have b: "RoundAndClamp b = int_max" if "fp_leq (Fin (of_int int_max)) b" "\<not> fp_leq b (Fin (of_int int_min))"
    using that False by (simp add: RoundAndClamp_def)
  show ?thesis using assms RoundAndClamp_in_int [of a] RoundAndClamp_in_int [of b] a b False
    by (cases a; cases b) (auto simp: RoundAndClamp_def in_int_def fp_leq_def lround_mono int_min_def int_max_def
        split: if_splits)
qed

lemma AddAndClamp_in_int: "in_int (AddAndClamp a b)"
  by (auto simp: AddAndClamp_def in_int_def int_min_def int_max_def)

section \<open>Pixel positions survive conversion to lengths\<close>

text \<open>The relative error of one rounding in the normal range.\<close>

context binary_format
begin

lemma close: "\<bar>val q - q\<bar> \<le> pow2 (exponent q) / 2"
proof (cases "q = 0")
  case True
  then show ?thesis by (simp add: fp_value_def less_imp_le)
next
  case False
  have "\<bar>of_int (round_half_even (q / pow2 (exponent q))) - q / pow2 (exponent q)\<bar> * pow2 (exponent q)
      \<le> 1 / 2 * pow2 (exponent q)"
    using round_half_even_close by (intro mult_right_mono) (auto simp: less_imp_le)
  moreover have "val q - q = (of_int (round_half_even (q / pow2 (exponent q))) - q / pow2 (exponent q)) * pow2 (exponent q)"
    using False by (simp add: fp_value_def left_diff_distrib)
  ultimately show ?thesis using abs_of_pos [OF pow2_pos [of "exponent q"]] by (simp only: abs_mult)
qed

lemma normal_error:
  assumes "pow2 (lowest + precision) \<le> \<bar>q\<bar>"
  shows "\<bar>val q - q\<bar> \<le> \<bar>q\<bar> / 2 ^ nat precision"
proof -
  have pos: "0 < \<bar>q\<bar>" using assms pow2_pos [of "lowest + precision"] by linarith
  have "pow2 (lowest + precision) < pow2 (rat_exponent \<bar>q\<bar> + 1)"
    using assms rat_exponent_gt [OF pos] by linarith
  then have e: "exponent q = rat_exponent \<bar>q\<bar> - (precision - 1)"
    using pow2_less by (fastforce simp: fp_exponent_def)
  have "pow2 (rat_exponent \<bar>q\<bar>) = pow2 (exponent q) * 2 ^ nat (precision - 1)"
    using pow2_add [of "exponent q" "nat (precision - 1)"] precision by (simp add: e)
  moreover have "(2 :: rat) ^ nat precision = 2 * 2 ^ nat (precision - 1)"
    using precision by (metis Suc_nat_eq_nat_zadd1 diff_ge_0_iff_ge diff_add_cancel add.commute power_Suc)
  ultimately have "pow2 (exponent q) / 2 = pow2 (rat_exponent \<bar>q\<bar>) / 2 ^ nat precision" by simp
  also have "\<dots> \<le> \<bar>q\<bar> / 2 ^ nat precision" using rat_exponent_le [OF pos] by (simp add: divide_right_mono)
  finally show ?thesis using close [of q] by linarith
qed

lemma rounds_near:
  assumes "pow2 (lowest + precision) \<le> \<bar>q\<bar>" "\<bar>q\<bar> < pow2 (highest - 1)"
  shows "\<exists>r. rnd q = Fin r \<and> \<bar>r - q\<bar> \<le> \<bar>q\<bar> / 2 ^ nat precision"
proof -
  note err = normal_error [OF assms(1)]
  have "\<bar>q\<bar> / 2 ^ nat precision \<le> \<bar>q\<bar> / 1" by (rule divide_left_mono) simp_all
  then have "\<bar>val q\<bar> \<le> 2 * \<bar>q\<bar>" using err by linarith
  also have "\<dots> < pow2 highest" using assms(2) pow2_Suc [of "highest - 1"] by simp
  finally have "rnd q = Fin (val q)" by (simp add: by_value abs_less_iff)
  with err show ?thesis by blast
qed

end

lemma rounds_back:
  assumes "\<bar>v\<bar> \<le> 100000" "1 \<le> dpi" "dpi \<le> 100000"
  shows "\<exists>x. FromPixels dpi v = Fin x \<and> \<bar>x * of_nat dpi / 96 - of_int v\<bar> \<le> 1 / 100"
proof -
  have fi: "flt (of_int n) = Fin (of_int n)" if "\<bar>n\<bar> < 2 ^ 24" for n
  proof -
    have "\<bar>of_int n :: rat\<bar> < 2 ^ 24" using that by (metis of_int_abs of_int_less_iff of_int_numeral of_int_power)
    also have "\<dots> = pow2 24" by (simp add: pow2_def)
    also have "\<dots> \<le> pow2 128" by (rule pow2_mono) simp
    finally show ?thesis using binary32.exact [of n 0] that by simp
  qed
  have "flt (of_int v * 96) = Fin (of_int v * 96)" using fi [of "v * 96"] assms(1) by simp
  then have conv: "FromPixels dpi v = flt (of_int v * 96 / of_nat dpi)"
    using fi [of v] fi [of 96] fi [of "int dpi"] assms
    by (simp add: FromPixels_def kDefaultDpi_def flt_mul_def flt_div_pos_def)
  show ?thesis
  proof (cases "v = 0")
    case True
    then show ?thesis using conv by simp
  next
    case False
    let ?q = "of_int v * 96 / of_nat dpi :: rat"
    have v: "1 \<le> \<bar>of_int v :: rat\<bar>" "\<bar>of_int v :: rat\<bar> \<le> 100000"
      using False assms(1) by (metis of_int_1_le_iff of_int_abs zero_less_abs_iff zero_less_iff_neq_zero int_one_le_iff_zero_less)
        (metis assms(1) of_int_abs of_int_le_iff of_int_numeral)
    have d: "1 \<le> (of_nat dpi :: rat)" "(of_nat dpi :: rat) \<le> 100000" using assms by simp_all
    have q: "\<bar>?q\<bar> = \<bar>of_int v\<bar> * 96 / of_nat dpi" by (simp add: abs_mult)
    have "1 * 96 / 100000 \<le> \<bar>?q\<bar>" unfolding q using v d by (intro frac_le mult_right_mono) simp_all
    moreover have "\<bar>?q\<bar> \<le> 100000 * 96 / 1" unfolding q using v d by (intro frac_le mult_right_mono) simp_all
    moreover have "pow2 (- 149 + 24) \<le> 1 * 96 / 100000" "100000 * 96 / 1 < pow2 (128 - 1)"
      by (simp_all add: pow2_def)
    ultimately have "pow2 (- 149 + 24) \<le> \<bar>?q\<bar>" "\<bar>?q\<bar> < pow2 (128 - 1)" by linarith+
    from binary32.rounds_near [OF this]
    obtain x where x: "flt ?q = Fin x" "\<bar>x - ?q\<bar> \<le> \<bar>?q\<bar> / 2 ^ nat 24" by blast
    have "x * of_nat dpi / 96 - of_int v = (x - ?q) * (of_nat dpi / 96)" using d by (simp add: field_simps)
    then have "\<bar>x * of_nat dpi / 96 - of_int v\<bar> = \<bar>x - ?q\<bar> * (of_nat dpi / 96)" by (simp only: abs_mult abs_divide abs_of_nat abs_numeral)
    also have "\<dots> \<le> \<bar>?q\<bar> / 2 ^ nat 24 * (of_nat dpi / 96)" using x(2) d by (intro mult_right_mono) simp_all
    also have "\<dots> = \<bar>of_int v\<bar> / 2 ^ 24" unfolding q using d by simp
    also have "\<dots> \<le> 1 / 100" using v by simp
    finally show ?thesis using x(1) conv by (intro exI [of _ x]) simp
  qed
qed

text \<open>C29: Converting pixels to lengths and back is exact.  For every resolution up to 100000 dots per inch
  and every position of at most 100000 pixels either way, the rounded conversions of \<open>FromPixels\<close> and
  \<open>ToPixels\<close> give the same pixel again, although almost no length involved is exact.\<close>

theorem pixels_survive_conversion:
  assumes "\<bar>v\<bar> \<le> 100000" "1 \<le> dpi" "dpi \<le> 100000"
  shows "ToPixels dpi (FromPixels dpi v) = v"
proof -
  obtain x where x: "FromPixels dpi v = Fin x" "\<bar>x * of_nat dpi / 96 - of_int v\<bar> \<le> 1 / 100"
    using rounds_back [OF assms] by blast
  have v: "\<bar>of_int v :: rat\<bar> \<le> 100000" by (metis assms(1) of_int_abs of_int_le_iff of_int_numeral)
  let ?t = "x * of_nat dpi"
  have rounds: "\<exists>r. dbl q = Fin r \<and> \<bar>r - q\<bar> \<le> 1 / 100" if "\<bar>q\<bar> \<le> 10000000" for q
  proof (cases "pow2 (- 1074 + 53) \<le> \<bar>q\<bar>")
    case True
    have "\<bar>q\<bar> < pow2 (1024 - 1)"
      using that pow2_mono [of 24 1023] by (simp add: pow2_def [of 24])
    then obtain r where r: "dbl q = Fin r" "\<bar>r - q\<bar> \<le> \<bar>q\<bar> / 2 ^ nat 53"
      using binary64.rounds_near [OF True] by auto
    moreover have "\<bar>q\<bar> / 2 ^ nat 53 \<le> 1 / 100" using that by simp
    ultimately show ?thesis by force
  next
    case False
    have small: "pow2 (- 1074 + 53) \<le> 1 / 1024" using pow2_mono [of "- 1074 + 53" "- 10"] by (simp add: pow2_def [of "- 10"])
    have "dbl (1 / 1024) = Fin (1 / 1024)" "dbl (- 1 / 1024) = Fin (- 1 / 1024)"
      using dbl_exact [of 1 "- 10"] dbl_exact [of "- 1" "- 10"] pow2_mono [of 0 1024]
      by (simp_all add: pow2_def [of "- 10"])
    moreover have "- 1 / 1024 \<le> q" "q \<le> 1 / 1024" using False small by linarith+
    ultimately obtain r where "dbl q = Fin r" "- 1 / 1024 \<le> r" "r \<le> 1 / 1024"
      using binary64.between [of "- 1 / 1024" "1 / 1024" q] by blast
    moreover have "\<bar>r - q\<bar> \<le> 1 / 100" using calculation False small by linarith
    ultimately show ?thesis by blast
  qed
  have "\<bar>?t / 96\<bar> \<le> 100001" using x(2) v by linarith
  then have t: "\<bar>?t\<bar> \<le> 10000000" by simp
  obtain y where y: "dbl ?t = Fin y" "\<bar>y - ?t\<bar> \<le> 1 / 100" using rounds [OF t] by blast
  have "\<bar>y / 96 - ?t / 96\<bar> = \<bar>y - ?t\<bar> / 96" by (simp only: diff_divide_distrib [symmetric] abs_divide abs_numeral)
  then have near: "\<bar>y / 96 - ?t / 96\<bar> \<le> 1 / 100" using y(2) by linarith
  then have "\<bar>y / 96\<bar> \<le> 10000000" using x(2) v by linarith
  then obtain z where z: "dbl (y / 96) = Fin z" "\<bar>z - y / 96\<bar> \<le> 1 / 100" using rounds by blast
  have zv: "\<bar>z - of_int v\<bar> < 1 / 2" using z(2) near x(2) by linarith
  have "ToPixels dpi (FromPixels dpi v) = RoundAndClamp (Fin z)"
    by (simp add: ToPixels_def x(1) y(1) z(1) dbl_div_by_def kDefaultDpi_def)
  also have "\<dots> = lround z" using zv v by (auto simp: RoundAndClamp_def int_min_def int_max_def)
  finally show ?thesis using lround_near [OF zv] by simp
qed

theorem pixels_survive_conversion_witness: "ToPixels 144 (FromPixels 144 1919) = 1919"
  by (rule pixels_survive_conversion) simp_all

end
