(* ===== verification/Splitter.thy ===== *)
theory Splitter
  imports Dpi
begin

text \<open>
  The two-pane splitter (\<open>splitter.h\<close>, \<open>splitter.cpp\<close>): the model that holds position and constraints
  and arranges two panes and the bar between them, in \<open>float\<close> arithmetic.  The window around it is not modelled.
\<close>

section \<open>The model\<close>

datatype SplitterOrientation = Splitter_vertical | Splitter_horizontal

record SplitterConstraints =
  minimum_first :: Dip
  minimum_second :: Dip
  bar_thickness :: Dip

record SplitterLayout =
  lay_first :: RectDip
  lay_bar :: RectDip
  lay_second :: RectDip
  constraints_satisfied :: bool

record SplitterModel =
  sm_orientation :: SplitterOrientation
  sm_constraints :: SplitterConstraints
  sm_position :: Dip

definition Clean :: "fp \<Rightarrow> fp" where
  "Clean v = (if isfinite v then fp_max v (Fin 0) else Fin 0)"

definition SplitterModel_SetConstraints :: "SplitterConstraints \<Rightarrow> SplitterModel \<Rightarrow> SplitterModel" where
  "SplitterModel_SetConstraints c m = m\<lparr>sm_constraints :=
    \<lparr>minimum_first = Clean (minimum_first c), minimum_second = Clean (minimum_second c),
     bar_thickness = Clean (bar_thickness c)\<rparr>\<rparr>"

definition SplitterModel_new :: "SplitterOrientation \<Rightarrow> SplitterConstraints \<Rightarrow> SplitterModel" where
  "SplitterModel_new orientation c = SplitterModel_SetConstraints c
    \<lparr>sm_orientation = orientation, sm_constraints = c, sm_position = Fin 160\<rparr>"

definition SplitterModel_SetOrientation :: "SplitterOrientation \<Rightarrow> SplitterModel \<Rightarrow> SplitterModel" where
  "SplitterModel_SetOrientation orientation m = m\<lparr>sm_orientation := orientation\<rparr>"

definition SplitterModel_SetPosition :: "Dip \<Rightarrow> SplitterModel \<Rightarrow> SplitterModel" where
  "SplitterModel_SetPosition position m = m\<lparr>sm_position := Clean position\<rparr>"

definition SplitterModel_Adjust :: "Dip \<Rightarrow> SplitterModel \<Rightarrow> SplitterModel" where
  "SplitterModel_Adjust delta m =
    SplitterModel_SetPosition (flt_add (sm_position m) (if isfinite delta then delta else Fin 0)) m"

text \<open>\<open>std::clamp\<close> is undefined when its bounds are out of order.\<close>

definition clamp_checked :: "fp \<Rightarrow> fp \<Rightarrow> fp \<Rightarrow> fp option" where
  "clamp_checked v lo hi = (if fp_less hi lo then None else Some (fp_clamp v lo hi))"

definition SplitterModel_SetRatio :: "fp \<Rightarrow> SizeDip \<Rightarrow> SplitterModel \<Rightarrow> SplitterModel" where
  "SplitterModel_SetRatio ratio extent m =
    (let main_extent = (if sm_orientation m = Splitter_vertical then Clean (sz_width extent)
           else Clean (sz_height extent));
         bar = fp_min (Clean (bar_thickness (sm_constraints m))) main_extent;
         bounded_ratio = (if isfinite ratio then fp_clamp ratio (Fin 0) (Fin 1) else Fin (1 / 2))
     in SplitterModel_SetPosition (flt_mul (flt_sub main_extent bar) bounded_ratio) m)"

definition split_unsatisfied :: "fp \<Rightarrow> fp \<Rightarrow> fp \<Rightarrow> fp" where
  "split_unsatisfied available first second =
    (let minimum_sum = flt_add first second
     in if fp_less (Fin 0) minimum_sum then flt_div_pos (flt_mul available first) minimum_sum
        else flt_mul available (Fin (1 / 2)))"

definition SplitterModel_Arrange :: "SizeDip \<Rightarrow> SplitterModel \<Rightarrow> (SplitterLayout \<times> SplitterModel) option" where
  "SplitterModel_Arrange extent m =
    (let width = Clean (sz_width extent); height = Clean (sz_height extent);
         vertical = sm_orientation m = Splitter_vertical;
         main_extent = (if vertical then width else height);
         bar = fp_min (bar_thickness (sm_constraints m)) main_extent;
         available = flt_sub main_extent bar;
         m1 = minimum_first (sm_constraints m); m2 = minimum_second (sm_constraints m);
         satisfied = fp_leq (flt_add m1 m2) available
     in case (if satisfied then clamp_checked (sm_position m) m1 (flt_sub available m2)
              else Some (split_unsatisfied available m1 m2)) of
          None \<Rightarrow> None
        | Some p \<Rightarrow>
            let second = flt_sub available p
            in Some (if vertical
                 then \<lparr>lay_first = make_rect (Fin 0) (Fin 0) p height, lay_bar = make_rect p (Fin 0) bar height,
                   lay_second = make_rect (flt_add p bar) (Fin 0) second height, constraints_satisfied = satisfied\<rparr>
                 else \<lparr>lay_first = make_rect (Fin 0) (Fin 0) width p, lay_bar = make_rect (Fin 0) p width bar,
                   lay_second = make_rect (Fin 0) (flt_add p bar) width second, constraints_satisfied = satisfied\<rparr>,
                 m\<lparr>sm_position := p\<rparr>))"

section \<open>What the model keeps and how it arranges\<close>

text \<open>Lengths that are \<open>float\<close>s; the moderate ones cannot overflow.\<close>

definition float_length :: "fp \<Rightarrow> bool" where
  "float_length v \<longleftrightarrow> (\<exists>q. v = Fin q \<and> flt q = Fin q \<and> 0 \<le> q)"

definition moderate_length :: "fp \<Rightarrow> bool" where
  "moderate_length v \<longleftrightarrow> (\<exists>q. v = Fin q \<and> flt q = Fin q \<and> 0 \<le> q \<and> q \<le> 2 ^ 60)"

definition splitter_wf :: "SplitterModel \<Rightarrow> bool" where
  "splitter_wf m \<longleftrightarrow> float_length (sm_position m) \<and> moderate_length (minimum_first (sm_constraints m))
    \<and> moderate_length (minimum_second (sm_constraints m)) \<and> moderate_length (bar_thickness (sm_constraints m))"

lemma moderate_float: "moderate_length v \<Longrightarrow> float_length v"
  by (auto simp: moderate_length_def float_length_def)

lemma Clean_length: "float_value v \<Longrightarrow> float_length (Clean v)"
  by (cases v) (auto simp: Clean_def float_length_def float_value_def fp_max_def)

lemma Clean_id: "float_length v \<Longrightarrow> Clean v = v"
  by (auto simp: Clean_def float_length_def fp_max_def)

lemma fp_min_lengths:
  assumes "moderate_length a" "moderate_length b"
  shows "moderate_length (fp_min a b) \<and> fp_leq (fp_min a b) b"
  using assms by (auto simp: fp_min_def moderate_length_def)

lemma sub_lengths:
  assumes "moderate_length a" "moderate_length b" "fp_leq b a"
  shows "moderate_length (flt_sub a b) \<and> fp_leq (flt_sub a b) a"
proof -
  obtain p q where pq: "a = Fin p" "flt p = Fin p" "b = Fin q" "flt q = Fin q" "0 \<le> q" "q \<le> p" "p \<le> 2 ^ 60"
    using assms by (auto simp: moderate_length_def)
  obtain r where r: "flt (p - q) = Fin r" "0 \<le> r" "r \<le> p"
    using binary32.between [of 0 p "p - q"] pq by auto
  with pq binary32.idempotent [OF r(1)] show ?thesis
    by (simp add: flt_sub_def flt_add_def moderate_length_def)
qed

lemma rounded_at_most: "0 \<le> q \<Longrightarrow> fp_value 24 (- 149) q \<le> 2 * q + pow2 (- 149)"
proof (cases "q = 0")
  case False
  assume "0 \<le> q"
  with False have q: "0 < q" by simp
  have "pow2 (fp_exponent 24 (- 149) q) \<le> max q (pow2 (- 149))"
  proof (cases "rat_exponent q - 23 \<le> - 149")
    case True
    then show ?thesis using q by (simp add: fp_exponent_def max_def)
  next
    case False
    then have "fp_exponent 24 (- 149) q = rat_exponent q - 23" using q by (simp add: fp_exponent_def)
    then have "pow2 (fp_exponent 24 (- 149) q) \<le> pow2 (rat_exponent q)" by (auto intro: pow2_mono)
    then show ?thesis using rat_exponent_le [OF q] by simp
  qed
  then have "pow2 (fp_exponent 24 (- 149) q) \<le> q + pow2 (- 149)" using q pow2_pos [of "- 149"] by linarith
  then show ?thesis using binary32.close [of q] q pow2_pos [of "- 149"] by linarith
qed (simp add: fp_value_def less_imp_le)

lemma unsatisfied_length:
  assumes "moderate_length available" "moderate_length m1" "moderate_length m2"
  shows "float_length (split_unsatisfied available m1 m2)"
proof -
  obtain a p q where a: "available = Fin a" "0 \<le> a" "a \<le> 2 ^ 60"
    and p: "m1 = Fin p" "flt p = Fin p" "0 \<le> p" "p \<le> 2 ^ 60"
    and q: "m2 = Fin q" "flt q = Fin q" "0 \<le> q" "q \<le> 2 ^ 60"
    using assms by (auto simp: moderate_length_def)
  have big: "pow2 k = 2 ^ nat k" if "0 \<le> k" for k using that by (simp add: pow2_def)
  have finite: "\<exists>r. flt v = Fin r \<and> flt r = Fin r \<and> 0 \<le> r \<and> r = fp_value 24 (- 149) v" if v: "0 \<le> v" "v \<le> 2 ^ 121" for v
  proof -
    have "fp_value 24 (- 149) v \<le> 2 * v + pow2 (- 149)" using rounded_at_most [OF v(1)] .
    moreover have "pow2 (- 149) \<le> 1" using pow2_mono [of "- 149" 0] by simp
    moreover have "(2 :: rat) ^ 121 * 2 + 1 < 2 ^ 128" by simp
    ultimately have "fp_value 24 (- 149) v < pow2 128" using v(2) by (simp only: big) (simp; linarith)
    moreover have nn: "0 \<le> fp_value 24 (- 149) v" using v(1) by (rule binary32.value_nonneg)
    ultimately have "flt v = Fin (fp_value 24 (- 149) v)"
      using pow2_pos [of 128] by (simp add: binary32.by_value)
    with binary32.idempotent [OF this] nn show ?thesis by blast
  qed
  have sum: "0 \<le> p + q" "p + q \<le> 2 ^ 121" using p q by simp_all
  obtain s where s: "flt (p + q) = Fin s" "flt s = Fin s" "0 \<le> s" using finite [OF sum] by blast
  have ps: "p \<le> s" using binary32.mono [of p "p + q"] p(2) s(1) q(3) by simp
  show ?thesis
  proof (cases "0 < s")
    case False
    have "a * (1 / 2) \<le> 2 ^ 121" using a by simp
    then obtain r where "flt (a * (1 / 2)) = Fin r" "flt r = Fin r" "0 \<le> r" using finite [of "a * (1 / 2)"] a by auto
    with False show ?thesis
      by (simp add: split_unsatisfied_def a p q flt_add_def s flt_mul_def float_length_def)
  next
    case True
    have "a * p \<le> 2 ^ 60 * 2 ^ 60" using a p by (intro mult_mono) simp_all
    then have ap: "0 \<le> a * p" "a * p \<le> 2 ^ 121" using a p by simp_all
    obtain x where x: "flt (a * p) = Fin x" "0 \<le> x" "x \<le> 2 * (a * p) + pow2 (- 149)"
      using finite [OF ap] rounded_at_most [OF ap(1)] by auto
    have "x / s \<le> (2 * (a * s) + s) / s"
    proof (rule divide_right_mono)
      have "a * p \<le> a * s" using ps a by (intro mult_left_mono)
      then show "x \<le> 2 * (a * s) + s" using x(3) least_float [OF s(2) True] by linarith
    qed (use s in simp)
    also have "\<dots> = 2 * a + 1" using True by (simp add: add_divide_distrib)
    also have "\<dots> \<le> 2 ^ 121" using a by simp
    finally have "x / s \<le> 2 ^ 121" .
    moreover have "0 \<le> x / s" using x s by simp
    ultimately obtain r where "flt (x / s) = Fin r" "flt r = Fin r" "0 \<le> r" using finite [of "x / s"] by blast
    with True show ?thesis
      by (simp add: split_unsatisfied_def a p q flt_add_def s flt_mul_def x flt_div_pos_def float_length_def)
  qed
qed

section \<open>The model stays well formed\<close>

text \<open>Inputs that are \<open>float\<close>s; for constraints and extents, ones below \<open>2 ^ 60\<close>.\<close>

definition sane_length :: "fp \<Rightarrow> bool" where
  "sane_length v \<longleftrightarrow> float_value v \<and> (case v of Fin q \<Rightarrow> q \<le> 2 ^ 60 | _ \<Rightarrow> True)"

lemma Clean_sane: "sane_length v \<Longrightarrow> moderate_length (Clean v)"
  by (cases v) (auto simp: sane_length_def Clean_def moderate_length_def float_value_def fp_max_def)

definition sane_size :: "SizeDip \<Rightarrow> bool" where
  "sane_size e \<longleftrightarrow> sane_length (sz_width e) \<and> sane_length (sz_height e)"

definition extent_along :: "SplitterModel \<Rightarrow> SizeDip \<Rightarrow> Dip" where
  "extent_along m e = (if sm_orientation m = Splitter_vertical then Clean (sz_width e) else Clean (sz_height e))"

definition bar_in :: "SplitterModel \<Rightarrow> SizeDip \<Rightarrow> Dip" where
  "bar_in m e = fp_min (bar_thickness (sm_constraints m)) (extent_along m e)"

definition available_in :: "SplitterModel \<Rightarrow> SizeDip \<Rightarrow> Dip" where
  "available_in m e = flt_sub (extent_along m e) (bar_in m e)"

definition satisfied_in :: "SplitterModel \<Rightarrow> SizeDip \<Rightarrow> bool" where
  "satisfied_in m e \<longleftrightarrow>
    fp_leq (flt_add (minimum_first (sm_constraints m)) (minimum_second (sm_constraints m))) (available_in m e)"

definition place_along :: "SplitterModel \<Rightarrow> SizeDip \<Rightarrow> Dip \<Rightarrow> SplitterLayout" where
  "place_along m e p =
    (let second = flt_sub (available_in m e) p; bar = bar_in m e; width = Clean (sz_width e); height = Clean (sz_height e)
     in if sm_orientation m = Splitter_vertical
        then \<lparr>lay_first = make_rect (Fin 0) (Fin 0) p height, lay_bar = make_rect p (Fin 0) bar height,
          lay_second = make_rect (flt_add p bar) (Fin 0) second height, constraints_satisfied = satisfied_in m e\<rparr>
        else \<lparr>lay_first = make_rect (Fin 0) (Fin 0) width p, lay_bar = make_rect (Fin 0) p width bar,
          lay_second = make_rect (Fin 0) (flt_add p bar) width second, constraints_satisfied = satisfied_in m e\<rparr>)"

lemma Arrange_placed:
  "SplitterModel_Arrange e m = map_option (\<lambda>p. (place_along m e p, m\<lparr>sm_position := p\<rparr>))
    (if satisfied_in m e
     then clamp_checked (sm_position m) (minimum_first (sm_constraints m))
       (flt_sub (available_in m e) (minimum_second (sm_constraints m)))
     else Some (split_unsatisfied (available_in m e) (minimum_first (sm_constraints m))
       (minimum_second (sm_constraints m))))"
  by (simp add: SplitterModel_Arrange_def place_along_def satisfied_in_def available_in_def bar_in_def
      extent_along_def Let_def split: option.split)

lemma available_length:
  assumes "splitter_wf m" "sane_size e"
  shows "moderate_length (available_in m e)" "moderate_length (bar_in m e)"
proof -
  have e: "moderate_length (extent_along m e)"
    using assms Clean_sane by (auto simp: sane_size_def extent_along_def)
  with assms fp_min_lengths [OF _ e] have bar: "moderate_length (bar_in m e) \<and> fp_leq (bar_in m e) (extent_along m e)"
    by (simp add: splitter_wf_def bar_in_def)
  then show "moderate_length (bar_in m e)" ..
  show "moderate_length (available_in m e)" using sub_lengths [OF e] bar by (simp add: available_in_def)
qed

lemma clamp_length:
  assumes "clamp_checked v lo hi = Some p" "float_length v" "float_length lo" "float_length hi"
  shows "float_length p \<and> fp_leq lo p \<and> fp_leq p hi \<and> clamp_checked p lo hi = Some p"
proof -
  obtain a b c where abc: "v = Fin a" "lo = Fin b" "hi = Fin c"
    using assms(2-4) unfolding float_length_def by blast
  have "p = v \<or> p = lo \<or> p = hi"
    using assms(1) by (auto simp: clamp_checked_def fp_clamp_def split: if_splits)
  then have "float_length p" using assms(2-4) by auto
  with assms(1) show ?thesis unfolding abc by (auto simp: clamp_checked_def fp_clamp_def split: if_splits)
qed

lemma minimum_second_fits:
  assumes "splitter_wf m" "sane_size e" "satisfied_in m e"
  shows "moderate_length (flt_sub (available_in m e) (minimum_second (sm_constraints m))) \<and>
    fp_leq (flt_sub (available_in m e) (minimum_second (sm_constraints m))) (available_in m e)"
proof (rule sub_lengths)
  show "moderate_length (available_in m e)" using available_length [OF assms(1,2)] by simp
  show "moderate_length (minimum_second (sm_constraints m))" using assms(1) by (simp add: splitter_wf_def)
  obtain p q a where pq: "minimum_first (sm_constraints m) = Fin p" "0 \<le> p"
    "minimum_second (sm_constraints m) = Fin q" "flt q = Fin q" "available_in m e = Fin a"
    using assms(1) available_length(1) [OF assms(1,2)] by (auto simp: splitter_wf_def moderate_length_def)
  have "fp_leq (flt q) (flt (p + q))" using pq by (intro binary32.mono) simp
  with assms(3) pq show "fp_leq (minimum_second (sm_constraints m)) (available_in m e)"
    by (cases "flt (p + q)") (auto simp: satisfied_in_def flt_add_def fp_leq_def)
qed

lemma Arrange_position:
  assumes "splitter_wf m" "sane_size e" "SplitterModel_Arrange e m = Some (l, m')"
  shows "l = place_along m e (sm_position m') \<and> m' = m\<lparr>sm_position := sm_position m'\<rparr> \<and>
    float_length (sm_position m') \<and>
    (if satisfied_in m e
     then fp_leq (minimum_first (sm_constraints m)) (sm_position m') \<and>
       fp_leq (sm_position m') (flt_sub (available_in m e) (minimum_second (sm_constraints m))) \<and>
       clamp_checked (sm_position m') (minimum_first (sm_constraints m))
         (flt_sub (available_in m e) (minimum_second (sm_constraints m))) = Some (sm_position m')
     else sm_position m' = split_unsatisfied (available_in m e) (minimum_first (sm_constraints m))
       (minimum_second (sm_constraints m)))"
proof (cases "satisfied_in m e")
  case True
  obtain p where p: "clamp_checked (sm_position m) (minimum_first (sm_constraints m))
      (flt_sub (available_in m e) (minimum_second (sm_constraints m))) = Some p"
    "l = place_along m e p" "m' = m\<lparr>sm_position := p\<rparr>"
    using assms(3) True by (auto simp: Arrange_placed)
  have "float_length (sm_position m)" "float_length (minimum_first (sm_constraints m))"
    using assms(1) by (simp_all add: splitter_wf_def moderate_float)
  from clamp_length [OF p(1) this] minimum_second_fits [OF assms(1,2) True] p True show ?thesis
    by (auto simp: moderate_float)
next
  case False
  let ?p = "split_unsatisfied (available_in m e) (minimum_first (sm_constraints m)) (minimum_second (sm_constraints m))"
  have "float_length ?p"
    using assms(1) available_length [OF assms(1,2)] by (intro unsatisfied_length) (simp_all add: splitter_wf_def)
  with assms(3) False show ?thesis by (auto simp: Arrange_placed)
qed

datatype splitter_op =
    Set_orientation SplitterOrientation
  | Set_constraints SplitterConstraints
  | Set_position Dip
  | Adjust_by Dip
  | Set_ratio fp SizeDip
  | Arrange_in SizeDip

definition sane_op :: "splitter_op \<Rightarrow> bool" where
  "sane_op x \<longleftrightarrow> (case x of
      Set_constraints c \<Rightarrow> sane_length (minimum_first c) \<and> sane_length (minimum_second c) \<and> sane_length (bar_thickness c)
    | Set_position p \<Rightarrow> float_value p
    | Arrange_in e \<Rightarrow> sane_size e
    | _ \<Rightarrow> True)"

text \<open>The model under sane inputs; an arrangement that is not defined is not a step.\<close>

definition splitter_step :: "SplitterModel \<Rightarrow> splitter_op \<Rightarrow> SplitterLayout option \<times> SplitterModel" where
  "splitter_step m x = (if \<not> sane_op x then (None, m) else case x of
      Set_orientation orientation \<Rightarrow> (None, SplitterModel_SetOrientation orientation m)
    | Set_constraints c \<Rightarrow> (None, SplitterModel_SetConstraints c m)
    | Set_position p \<Rightarrow> (None, SplitterModel_SetPosition p m)
    | Adjust_by d \<Rightarrow> (None, SplitterModel_Adjust d m)
    | Set_ratio r e \<Rightarrow> (None, SplitterModel_SetRatio r e m)
    | Arrange_in e \<Rightarrow> (case SplitterModel_Arrange e m of None \<Rightarrow> (None, m) | Some (l, m') \<Rightarrow> (Some l, m')))"

lemma splitter_wf_position: "splitter_wf m \<Longrightarrow> float_length p \<Longrightarrow> splitter_wf (m\<lparr>sm_position := p\<rparr>)"
  by (simp add: splitter_wf_def)

lemma splitter_wf_arrange:
  "splitter_wf m \<Longrightarrow> sane_size e \<Longrightarrow> SplitterModel_Arrange e m = Some (l, m') \<Longrightarrow> splitter_wf m'"
  using Arrange_position [of m e l m'] splitter_wf_position by metis

lemma splitter_wf_step: "splitter_wf m \<Longrightarrow> splitter_wf (snd (splitter_step m x))"
proof (cases x)
  case (Arrange_in e)
  assume "splitter_wf m"
  then show ?thesis using Arrange_in splitter_wf_arrange
    by (auto simp: splitter_step_def sane_op_def split: option.split prod.split)
next
  case (Set_ratio r e)
  assume "splitter_wf m"
  then show ?thesis using Set_ratio
    by (auto simp: splitter_step_def SplitterModel_SetRatio_def SplitterModel_SetPosition_def Let_def
        intro!: splitter_wf_position Clean_length flt_mul_float)
qed (auto simp: splitter_step_def sane_op_def SplitterModel_SetOrientation_def SplitterModel_SetConstraints_def
    SplitterModel_SetPosition_def SplitterModel_Adjust_def splitter_wf_def intro!: Clean_length Clean_sane flt_add_float)

lemma splitter_new_wf:
  "sane_length (minimum_first c) \<Longrightarrow> sane_length (minimum_second c) \<Longrightarrow> sane_length (bar_thickness c)
    \<Longrightarrow> splitter_wf (SplitterModel_new orientation c)"
proof -
  have "flt 160 = Fin 160"
    using binary32.exact [of 160 0] pow2_mono [of 8 128] by (simp add: pow2_def [of 8])
  moreover assume "sane_length (minimum_first c)" "sane_length (minimum_second c)" "sane_length (bar_thickness c)"
  ultimately show ?thesis
    by (simp add: splitter_wf_def SplitterModel_new_def SplitterModel_SetConstraints_def Clean_sane float_length_def)
qed

interpretation splitter_machine: machine splitter_step splitter_wf
  by unfold_locales (rule splitter_wf_step)

section \<open>Arranging\<close>

definition length_along :: "SplitterModel \<Rightarrow> RectDip \<Rightarrow> Dip" where
  "length_along m r = (if sm_orientation m = Splitter_vertical then sz_width (rc_size r) else sz_height (rc_size r))"

definition start_along :: "SplitterModel \<Rightarrow> RectDip \<Rightarrow> Dip" where
  "start_along m r = (if sm_orientation m = Splitter_vertical then pt_x (rc_origin r) else pt_y (rc_origin r))"

text \<open>Arranging a splitter respects its minimums and is stable.  A model driven through its operations
  with \<open>float\<close> inputs (constraints and extents below \<open>2 ^ 60\<close>), arranged in an extent, has the first pane at
  the origin and the bar behind it; when the constraints are reported satisfied the first pane has at
  least its minimum and leaves the minimum of the second, whose length is not negative; and arranging
  the result again changes nothing.\<close>

theorem splitter_arrangement_is_stable:
  assumes "sane_length (minimum_first c)" "sane_length (minimum_second c)" "sane_length (bar_thickness c)"
    and "m = run_ops splitter_step (SplitterModel_new orientation c) xs"
    and "sane_size e" and "SplitterModel_Arrange e m = Some (l, m')"
  shows "SplitterModel_Arrange e m' = Some (l, m') \<and>
    start_along m (lay_first l) = Fin 0 \<and> length_along m (lay_first l) = sm_position m' \<and>
    start_along m (lay_bar l) = sm_position m' \<and>
    (constraints_satisfied l \<longrightarrow>
      fp_leq (minimum_first (sm_constraints m)) (length_along m (lay_first l)) \<and>
      fp_leq (length_along m (lay_first l)) (flt_sub (available_in m e) (minimum_second (sm_constraints m))) \<and>
      fp_leq (Fin 0) (length_along m (lay_second l)))"
proof -
  have wf: "splitter_wf m"
    using splitter_machine.run_inv [OF splitter_new_wf [OF assms(1-3)]] assms(4) by simp
  note P = Arrange_position [OF wf assms(5,6)]
  have same: "available_in m' e = available_in m e" "satisfied_in m' e = satisfied_in m e"
    "place_along m' e = place_along m e" "sm_constraints m' = sm_constraints m"
  proof -
    obtain p where "m' = m\<lparr>sm_position := p\<rparr>" using P by blast
    then show "available_in m' e = available_in m e" "satisfied_in m' e = satisfied_in m e"
      "place_along m' e = place_along m e" "sm_constraints m' = sm_constraints m"
      by (simp_all add: available_in_def bar_in_def extent_along_def satisfied_in_def place_along_def fun_eq_iff Let_def)
  qed
  have again: "SplitterModel_Arrange e m' = Some (l, m')"
    using P unfolding Arrange_placed same by (auto split: if_splits)
  have second: "fp_leq (Fin 0) (flt_sub (available_in m e) (sm_position m'))" if sat: "satisfied_in m e"
  proof -
    note fits = minimum_second_fits [OF wf assms(5) sat]
    have "moderate_length (sm_position m')" "fp_leq (sm_position m') (available_in m e)"
      using P fits available_length(1) [OF wf assms(5)] sat
      by (auto simp: float_length_def moderate_length_def)
    from sub_lengths [OF available_length(1) [OF wf assms(5)] this] show ?thesis
      by (auto simp: moderate_length_def)
  qed
  show ?thesis using P again second
    by (auto simp: place_along_def start_along_def length_along_def make_rect_def make_size_def Let_def split: if_splits)
qed

text \<open>
  \<open>std::clamp\<close> can be called out of contract: with minimums 100.4 and 200.6 (as \<open>float\<close>s) and 301 units
  left beside the bar the minimums round to a sum that fits, but what they leave of the extent is less
  than the first minimum.
\<close>

lemma fitting_minimums_can_be_undefined:
  "SplitterModel_Arrange (make_size (Fin 307) (Fin 100))
    (SplitterModel_new Splitter_vertical \<lparr>minimum_first = Fin (13159629 / 131072),
      minimum_second = Fin (13146522 / 65536), bar_thickness = Fin 6\<rparr>) = None"
  by code_simp

definition example_constraints :: SplitterConstraints where
  "example_constraints = \<lparr>minimum_first = Fin 80, minimum_second = Fin 80, bar_thickness = Fin 6\<rparr>"

theorem splitter_arrangement_is_stable_witness:
  "\<exists>l m'. SplitterModel_Arrange (make_size (Fin 400) (Fin 300)) (SplitterModel_new Splitter_vertical example_constraints) = Some (l, m')
    \<and> constraints_satisfied l \<and> SplitterModel_Arrange (make_size (Fin 400) (Fin 300)) m' = Some (l, m')"
proof -
  let ?m = "SplitterModel_new Splitter_vertical example_constraints" and ?e = "make_size (Fin 400) (Fin 300)"
  have sane: "sane_length (minimum_first example_constraints)" "sane_length (minimum_second example_constraints)"
    "sane_length (bar_thickness example_constraints)" "sane_size ?e"
    by (simp_all add: sane_size_def sane_length_def float_value_def example_constraints_def make_size_def)
  have run: "?m = run_ops splitter_step ?m []" by simp
  obtain l m' where l: "SplitterModel_Arrange ?e ?m = Some (l, m')" "constraints_satisfied l"
    by (simp add: SplitterModel_Arrange_def SplitterModel_new_def SplitterModel_SetConstraints_def Clean_def fp_max_def
        fp_min_def example_constraints_def make_size_def flt_sub_def flt_add_def clamp_checked_def fp_clamp_def Let_def)
  from splitter_arrangement_is_stable [OF sane(1-3) run sane(4) l(1)] l show ?thesis by blast
qed

end
