(* ===== verification/Layout.thy ===== *)
theory Layout
  imports Dpi
begin

text \<open>
  The layout engine (\<open>layout.h\<close>, \<open>layout.cpp\<close>): trees of rows, columns and overlays, their measured
  size, the placement of their windows in a rectangle, and the host that moves the windows.  Lengths are
  \<open>float\<close>s.  The size of a window and what its control measures are parameters; a window is a value of
  type \<open>'h\<close>.
\<close>

section \<open>Layout trees\<close>

datatype LayoutDirection = Layout_row | Layout_column | Layout_overlay

datatype CrossAlignment = Align_stretch | Align_start | Align_center | Align_end

datatype LayoutLengthKind = Length_auto | Length_fixed | Length_stretch

record LayoutLength =
  ll_kind :: LayoutLengthKind
  ll_value :: Dip
  ll_minimum :: Dip
  ll_maximum :: Dip
  ll_weight :: fp

definition LayoutLength_Auto :: "Dip \<Rightarrow> Dip \<Rightarrow> LayoutLength" where
  "LayoutLength_Auto mn mx = \<lparr>ll_kind = Length_auto, ll_value = Fin 0, ll_minimum = mn, ll_maximum = mx,
    ll_weight = Fin 0\<rparr>"

definition LayoutLength_Fixed :: "Dip \<Rightarrow> LayoutLength" where
  "LayoutLength_Fixed v = \<lparr>ll_kind = Length_fixed, ll_value = v, ll_minimum = v, ll_maximum = v,
    ll_weight = Fin 0\<rparr>"

definition LayoutLength_Stretch :: "fp \<Rightarrow> Dip \<Rightarrow> Dip \<Rightarrow> LayoutLength" where
  "LayoutLength_Stretch weight mn mx = \<lparr>ll_kind = Length_stretch, ll_value = Fin 0, ll_minimum = mn,
    ll_maximum = mx, ll_weight = weight\<rparr>"

record LayoutItemOptions =
  lo_alignment :: CrossAlignment
  lo_minimum_cross :: Dip
  lo_maximum_cross :: Dip
  lo_preferred_size :: "SizeDip option"
  lo_native_size :: "SizeDip option"

datatype 'h LayoutNode = LayoutNode LayoutDirection Dip Thickness "'h LayoutChild list"
  and 'h LayoutChild =
    Window_child 'h LayoutLength LayoutItemOptions "(nat \<Rightarrow> SizeDip) option"
  | Node_child "'h LayoutNode" LayoutLength LayoutItemOptions

fun child_length :: "'h LayoutChild \<Rightarrow> LayoutLength" where
  "child_length (Window_child h l opts m) = l"
| "child_length (Node_child n l opts) = l"

fun child_options :: "'h LayoutChild \<Rightarrow> LayoutItemOptions" where
  "child_options (Window_child h l opts m) = opts"
| "child_options (Node_child n l opts) = opts"

definition LayoutNode_new :: "LayoutDirection \<Rightarrow> 'h LayoutNode" where
  "LayoutNode_new direction = LayoutNode direction (Fin 0)
    \<lparr>th_left = Fin 0, th_top = Fin 0, th_right = Fin 0, th_bottom = Fin 0\<rparr> []"

definition nonnegative :: "Dip \<Rightarrow> Dip" where
  "nonnegative v = fp_max (Fin 0) v"

fun LayoutNode_Gap :: "Dip \<Rightarrow> 'h LayoutNode \<Rightarrow> 'h LayoutNode" where
  "LayoutNode_Gap v (LayoutNode d gap margin cs) = LayoutNode d (nonnegative v) margin cs"

fun LayoutNode_Margin :: "Thickness \<Rightarrow> 'h LayoutNode \<Rightarrow> 'h LayoutNode" where
  "LayoutNode_Margin t (LayoutNode d gap margin cs) = LayoutNode d gap
    \<lparr>th_left = nonnegative (th_left t), th_top = nonnegative (th_top t),
     th_right = nonnegative (th_right t), th_bottom = nonnegative (th_bottom t)\<rparr> cs"

definition LayoutNode_Margin_uniform :: "Dip \<Rightarrow> 'h LayoutNode \<Rightarrow> 'h LayoutNode" where
  "LayoutNode_Margin_uniform v =
    (let v = nonnegative v in LayoutNode_Margin \<lparr>th_left = v, th_top = v, th_right = v, th_bottom = v\<rparr>)"

text \<open>Adding a null window throws.\<close>

fun append_child :: "'h LayoutChild \<Rightarrow> 'h LayoutNode \<Rightarrow> 'h LayoutNode" where
  "append_child c (LayoutNode d gap margin cs) = LayoutNode d gap margin (cs @ [c])"

definition LayoutNode_Add_window ::
  "'h option \<Rightarrow> LayoutLength \<Rightarrow> LayoutItemOptions \<Rightarrow> 'h LayoutNode \<Rightarrow> 'h LayoutNode option" where
  "LayoutNode_Add_window window l opts n =
    (case window of None \<Rightarrow> None | Some h \<Rightarrow> Some (append_child (Window_child h l opts None) n))"

definition LayoutNode_AddMeasured ::
  "'h option \<Rightarrow> (nat \<Rightarrow> SizeDip) \<Rightarrow> LayoutLength \<Rightarrow> LayoutItemOptions \<Rightarrow> 'h LayoutNode \<Rightarrow> 'h LayoutNode option" where
  "LayoutNode_AddMeasured window m l opts n =
    (case window of None \<Rightarrow> None | Some h \<Rightarrow> Some (append_child (Window_child h l opts (Some m)) n))"

definition LayoutNode_Add_node ::
  "'h LayoutNode \<Rightarrow> LayoutLength \<Rightarrow> LayoutItemOptions \<Rightarrow> 'h LayoutNode \<Rightarrow> 'h LayoutNode" where
  "LayoutNode_Add_node child l opts n = append_child (Node_child child l opts) n"

section \<open>Measuring\<close>

definition ClampFinite :: "fp \<Rightarrow> fp \<Rightarrow> fp \<Rightarrow> fp" where
  "ClampFinite v minimum maximum =
    (let minimum = fp_max (Fin 0) minimum; maximum = fp_max minimum maximum
     in fp_clamp v minimum maximum)"

definition Main_of :: "SizeDip \<Rightarrow> LayoutDirection \<Rightarrow> fp" where
  "Main_of s direction = (if direction = Layout_row then sz_width s else sz_height s)"

definition Cross_of :: "SizeDip \<Rightarrow> LayoutDirection \<Rightarrow> fp" where
  "Cross_of s direction = (if direction = Layout_row then sz_height s else sz_width s)"

definition MakeSize :: "fp \<Rightarrow> fp \<Rightarrow> LayoutDirection \<Rightarrow> SizeDip" where
  "MakeSize m c direction = (if direction = Layout_row then make_size m c else make_size c m)"

text \<open>What the engine reads of a child: its length, its options and its measured size.\<close>

record layout_item =
  it_length :: LayoutLength
  it_options :: LayoutItemOptions
  it_measured :: SizeDip

definition measured_main :: "LayoutDirection \<Rightarrow> layout_item \<Rightarrow> fp" where
  "measured_main direction i =
    (let l = it_length i; natural = Main_of (it_measured i) direction;
         v = (case ll_kind l of Length_fixed \<Rightarrow> ll_value l | Length_stretch \<Rightarrow> fp_max natural (ll_minimum l)
                | Length_auto \<Rightarrow> natural)
     in ClampFinite v (ll_minimum l) (ll_maximum l))"

definition measured_cross :: "LayoutDirection \<Rightarrow> layout_item \<Rightarrow> fp" where
  "measured_cross direction i =
    ClampFinite (Cross_of (it_measured i) direction) (lo_minimum_cross (it_options i)) (lo_maximum_cross (it_options i))"

definition gaps_of :: "Dip \<Rightarrow> 'a list \<Rightarrow> fp" where
  "gaps_of gap cs = flt_mul gap (flt (of_nat (length cs - 1)))"

definition measure_items :: "LayoutDirection \<Rightarrow> Dip \<Rightarrow> Thickness \<Rightarrow> layout_item list \<Rightarrow> SizeDip" where
  "measure_items direction gap margin items =
    (if direction = Layout_overlay
     then
       (let width = foldl (\<lambda>w i. fp_max w (sz_width (it_measured i))) (Fin 0) items;
            height = foldl (\<lambda>h i. fp_max h (sz_height (it_measured i))) (Fin 0) items
        in make_size (flt_add (flt_add width (th_left margin)) (th_right margin))
             (flt_add (flt_add height (th_top margin)) (th_bottom margin)))
     else
       (let horizontal = flt_add (th_left margin) (th_right margin);
            vertical = flt_add (th_top margin) (th_bottom margin);
            margin_main = (if direction = Layout_row then horizontal else vertical);
            margin_cross = (if direction = Layout_row then vertical else horizontal);
            main = foldl (\<lambda>m i. flt_add m (measured_main direction i)) margin_main items;
            cross = foldl (\<lambda>c i. fp_max c (measured_cross direction i)) (Fin 0) items;
            main = (if 1 < length items then flt_add main (gaps_of gap items) else main)
        in MakeSize main (flt_add cross margin_cross) direction))"

fun Measure :: "('h \<Rightarrow> SizeDip) \<Rightarrow> nat \<Rightarrow> 'h LayoutNode \<Rightarrow> SizeDip"
  and child_size :: "('h \<Rightarrow> SizeDip) \<Rightarrow> nat \<Rightarrow> 'h LayoutChild \<Rightarrow> SizeDip" where
  "Measure W dpi (LayoutNode direction gap margin cs) = measure_items direction gap margin
    (map (\<lambda>c. \<lparr>it_length = child_length c, it_options = child_options c, it_measured = child_size W dpi c\<rparr>) cs)"
| "child_size W dpi (Window_child h l opts m) =
    (case lo_preferred_size opts of Some s \<Rightarrow> s
     | None \<Rightarrow> (case m of Some f \<Rightarrow> f dpi | None \<Rightarrow> W h))"
| "child_size W dpi (Node_child n l opts) =
    (case lo_preferred_size opts of Some s \<Rightarrow> s | None \<Rightarrow> Measure W dpi n)"

definition item_of :: "('h \<Rightarrow> SizeDip) \<Rightarrow> nat \<Rightarrow> 'h LayoutChild \<Rightarrow> layout_item" where
  "item_of W dpi c = \<lparr>it_length = child_length c, it_options = child_options c, it_measured = child_size W dpi c\<rparr>"

section \<open>Allocating the main axis\<close>

text \<open>The literal \<open>0.0001f\<close>.\<close>

definition kEpsilon :: fp where
  "kEpsilon = Fin (13743895 / 137438953472)"

text \<open>A child during allocation: its length, what it was given, and whether it can still grow.\<close>

type_synonym allocation = "LayoutLength \<times> fp \<times> bool"

definition initial_length :: "LayoutDirection \<Rightarrow> layout_item \<Rightarrow> fp" where
  "initial_length direction i =
    (let l = it_length i;
         v = (case ll_kind l of Length_fixed \<Rightarrow> ll_value l | Length_stretch \<Rightarrow> ll_minimum l
                | Length_auto \<Rightarrow> Main_of (it_measured i) direction)
     in ClampFinite v (ll_minimum l) (ll_maximum l))"

definition grows :: "allocation \<Rightarrow> bool" where
  "grows a = (case a of (l, _, is_open) \<Rightarrow> is_open \<and> ll_kind l = Length_stretch)"

definition weight_of :: "LayoutLength \<Rightarrow> fp" where
  "weight_of l = fp_max (Fin 0) (ll_weight l)"

definition open_weight :: "allocation list \<Rightarrow> fp" where
  "open_weight as = foldl (\<lambda>w a. if grows a then flt_add w (weight_of (fst a)) else w) (Fin 0) as"

definition added_to :: "fp \<Rightarrow> fp \<Rightarrow> LayoutLength \<Rightarrow> fp \<Rightarrow> fp" where
  "added_to remaining weight l allocated =
    fp_max (Fin 0) (fp_min (flt_mul remaining (flt_div_pos (weight_of l) weight))
      (flt_sub (ll_maximum l) allocated))"

fun distribute :: "fp \<Rightarrow> fp \<Rightarrow> allocation list \<Rightarrow> fp \<Rightarrow> allocation list \<times> fp" where
  "distribute remaining weight [] distributed = ([], distributed)"
| "distribute remaining weight ((l, allocated, is_open) # as) distributed =
    (if \<not> grows (l, allocated, is_open)
     then (case distribute remaining weight as distributed of (bs, d) \<Rightarrow> ((l, allocated, is_open) # bs, d))
     else
       (let added = added_to remaining weight l allocated; allocated' = flt_add allocated added
        in case distribute remaining weight as (flt_add distributed added) of
             (bs, d) \<Rightarrow> ((l, allocated', \<not> fp_leq (ll_maximum l) (flt_add allocated' kEpsilon)) # bs, d)))"

partial_function (option) stretch_loop :: "allocation list \<Rightarrow> fp \<Rightarrow> allocation list option" where
  "stretch_loop as remaining =
    (if \<not> fp_less kEpsilon remaining then Some as
     else if fp_leq (open_weight as) kEpsilon then Some as
     else case distribute remaining (open_weight as) as (Fin 0) of
       (bs, d) \<Rightarrow> if fp_leq d kEpsilon then Some bs else stretch_loop bs (flt_sub remaining d))"

definition shrink :: "fp \<Rightarrow> allocation list \<Rightarrow> allocation list" where
  "shrink remaining as =
    (let deficit = fp_neg remaining;
         shrinkable = foldl (\<lambda>s (l, allocated, _). if ll_kind l = Length_auto
           then flt_add s (flt_sub allocated (ll_minimum l)) else s) (Fin 0) as
     in if fp_less kEpsilon shrinkable
        then (let ratio = fp_min (Fin 1) (flt_div_pos deficit shrinkable)
              in map (\<lambda>(l, allocated, is_open). (l, if ll_kind l = Length_auto
                   then flt_sub allocated (flt_mul (flt_sub allocated (ll_minimum l)) ratio) else allocated, is_open)) as)
        else as)"

definition allocate :: "LayoutDirection \<Rightarrow> fp \<Rightarrow> fp \<Rightarrow> layout_item list \<Rightarrow> fp list option" where
  "allocate direction available_main gaps items =
    (let as = map (\<lambda>i. (it_length i, initial_length direction i, True)) items;
         total = foldl (\<lambda>t (l, allocated, _). flt_add t allocated) gaps as;
         stretch_weight = foldl (\<lambda>w (l, _). if ll_kind l = Length_stretch then flt_add w (weight_of l) else w) (Fin 0) as;
         remaining = flt_sub available_main total
     in map_option (map (\<lambda>(l, allocated, _). allocated))
          (if fp_less kEpsilon remaining \<and> fp_less kEpsilon stretch_weight then stretch_loop as remaining
           else if fp_less remaining (fp_neg kEpsilon) then Some (shrink remaining as)
           else Some as))"

section \<open>Placing\<close>

definition cross_place :: "LayoutDirection \<Rightarrow> fp \<Rightarrow> layout_item \<Rightarrow> fp \<times> fp" where
  "cross_place direction available_cross i =
    (let opts = it_options i;
         size = ClampFinite (if lo_alignment opts = Align_stretch then available_cross
           else Cross_of (it_measured i) direction) (lo_minimum_cross opts) (lo_maximum_cross opts);
         offset = (case lo_alignment opts of
             Align_center \<Rightarrow> flt_div_pos (flt_sub available_cross size) (Fin 2)
           | Align_end \<Rightarrow> flt_sub available_cross size
           | _ \<Rightarrow> Fin 0)
     in (fp_max (Fin 0) offset, size))"

fun place_items ::
  "LayoutDirection \<Rightarrow> Dip \<Rightarrow> fp \<Rightarrow> fp \<Rightarrow> fp \<Rightarrow> fp \<Rightarrow> (layout_item \<times> fp) list \<Rightarrow> RectDip list" where
  "place_items direction gap left upper available_cross cursor [] = []"
| "place_items direction gap left upper available_cross cursor ((i, allocated) # is) =
    (let (offset, size) = cross_place direction available_cross i
     in (if direction = Layout_row then make_rect cursor (flt_add upper offset) allocated size
         else make_rect (flt_add left offset) cursor size allocated)
        # place_items direction gap left upper available_cross (flt_add cursor (flt_add allocated gap)) is)"

definition child_bounds ::
  "LayoutDirection \<Rightarrow> Dip \<Rightarrow> Thickness \<Rightarrow> layout_item list \<Rightarrow> RectDip \<Rightarrow> RectDip list option" where
  "child_bounds direction gap margin items bounds =
    (let left = flt_add (pt_x (rc_origin bounds)) (th_left margin);
         upper = flt_add (pt_y (rc_origin bounds)) (th_top margin);
         inner_width = fp_max (Fin 0)
           (flt_sub (flt_sub (sz_width (rc_size bounds)) (th_left margin)) (th_right margin));
         inner_height = fp_max (Fin 0)
           (flt_sub (flt_sub (sz_height (rc_size bounds)) (th_top margin)) (th_bottom margin))
     in if direction = Layout_overlay then Some (map (\<lambda>_. make_rect left upper inner_width inner_height) items)
        else
          (let horizontal = direction = Layout_row;
               gaps = (if 1 < length items then gaps_of gap items else Fin 0)
           in map_option (\<lambda>allocated. place_items direction gap left upper
                  (if horizontal then inner_height else inner_width) (if horizontal then left else upper) (zip items allocated))
                (allocate direction (if horizontal then inner_width else inner_height) gaps items)))"

definition native_bounds :: "LayoutItemOptions \<Rightarrow> RectDip \<Rightarrow> RectDip" where
  "native_bounds opts r =
    (case lo_native_size opts of
       None \<Rightarrow> r
     | Some s \<Rightarrow> r\<lparr>rc_size := make_size
         (if fp_less (Fin 0) (sz_width s) then sz_width s else sz_width (rc_size r))
         (if fp_less (Fin 0) (sz_height s) then sz_height s else sz_height (rc_size r))\<rparr>)"

fun concat_options :: "'a list option list \<Rightarrow> 'a list option" where
  "concat_options [] = Some []"
| "concat_options (x # xs) = (case (x, concat_options xs) of (Some a, Some as) \<Rightarrow> Some (a @ as) | _ \<Rightarrow> None)"

text \<open>The native extent applies in rows and columns only.\<close>

function (sequential) CollectPlacements ::
    "('h \<Rightarrow> SizeDip) \<Rightarrow> nat \<Rightarrow> 'h LayoutNode \<Rightarrow> RectDip \<Rightarrow> ('h \<times> RectDip) list option"
  and collect_child :: "('h \<Rightarrow> SizeDip) \<Rightarrow> nat \<Rightarrow> bool \<Rightarrow> 'h LayoutChild \<Rightarrow> RectDip \<Rightarrow> ('h \<times> RectDip) list option" where
  "CollectPlacements W dpi (LayoutNode direction gap margin cs) bounds =
    (case child_bounds direction gap margin (map (item_of W dpi) cs) bounds of
       None \<Rightarrow> None
     | Some rs \<Rightarrow> concat_options
         (map (\<lambda>(c, r). collect_child W dpi (direction = Layout_overlay) c r) (zip cs rs)))"
| "collect_child W dpi overlay (Window_child h l opts m) r =
    Some [(h, if overlay then r else native_bounds opts r)]"
| "collect_child W dpi overlay (Node_child n l opts) r = CollectPlacements W dpi n r"
  by pat_completeness auto
termination
  by (relation "measure (\<lambda>x. case x of Inl (_, _, n, _) \<Rightarrow> size n | Inr (_, _, _, c, _) \<Rightarrow> size c)")
    (auto dest!: set_zip_leftD simp: less_Suc_eq_le intro: size_list_estimation')

fun CountWindows :: "'h LayoutNode \<Rightarrow> nat" and count_child :: "'h LayoutChild \<Rightarrow> nat" where
  "CountWindows (LayoutNode direction gap margin cs) = sum_list (map count_child cs)"
| "count_child (Window_child h l opts m) = 1"
| "count_child (Node_child n l opts) = CountWindows n"

fun node_windows :: "'h LayoutNode \<Rightarrow> 'h list" and child_windows :: "'h LayoutChild \<Rightarrow> 'h list" where
  "node_windows (LayoutNode direction gap margin cs) = concat (map child_windows cs)"
| "child_windows (Window_child h l opts m) = [h]"
| "child_windows (Node_child n l opts) = node_windows n"

end
