(* ===== verification/Layout_Termination.thy ===== *)
theory Layout_Termination
  imports Layout
begin

text \<open>
  The loop that distributes what is left of a row or column ends, in \<open>float\<close> arithmetic: in every round
  a child closes, a child's length grows to a larger \<open>float\<close>, or what remains shrinks to a smaller one,
  and there are finitely many \<open>float\<close>s.
\<close>

section \<open>The finitely many floats\<close>

text \<open>The number of least positive \<open>float\<close>s in a value.\<close>

definition float_index :: "fp \<Rightarrow> nat" where
  "float_index v = (case v of Fin q \<Rightarrow> nat \<lfloor>q * 2 ^ 149\<rfloor> | PosInf \<Rightarrow> 2 ^ 277 | _ \<Rightarrow> 0)"

definition float_nonneg :: "fp \<Rightarrow> bool" where
  "float_nonneg v \<longleftrightarrow> v = PosInf \<or> (\<exists>q. v = Fin q \<and> flt q = Fin q \<and> 0 \<le> q)"

lemma flt_grid:
  assumes "flt q = Fin q"
  shows "\<exists>k. q = of_int k * pow2 (fp_exponent 24 (- 149) q)"
proof -
  have "q = fp_value 24 (- 149) q" using binary32.rounded_value [OF assms] by simp
  then show ?thesis unfolding fp_value_def by (metis mult_zero_left of_int_0)
qed

lemma exponent_mono: "0 < a \<Longrightarrow> a \<le> b \<Longrightarrow> fp_exponent 24 (- 149) a \<le> fp_exponent 24 (- 149) b"
proof -
  assume a: "0 < a" "a \<le> b"
  then have "pow2 (rat_exponent a) < pow2 (rat_exponent b + 1)"
    using rat_exponent_le [of a] rat_exponent_gt [of b] by linarith
  then have "rat_exponent a \<le> rat_exponent b" using pow2_less by fastforce
  with a show ?thesis by (simp add: fp_exponent_def)
qed

text \<open>A float is an integral multiple of every power of two up to its unit.\<close>

lemma flt_multiple:
  assumes "flt q = Fin q" "e \<le> fp_exponent 24 (- 149) q"
  shows "\<exists>k. q = of_int k * pow2 e"
proof -
  obtain k where k: "q = of_int k * pow2 (fp_exponent 24 (- 149) q)" using flt_grid [OF assms(1)] by blast
  have "fp_exponent 24 (- 149) q = e + int (nat (fp_exponent 24 (- 149) q - e))" using assms(2) by simp
  then have "pow2 (fp_exponent 24 (- 149) q) = pow2 e * 2 ^ nat (fp_exponent 24 (- 149) q - e)"
    by (metis pow2_add)
  with k have "q = of_int (k * 2 ^ nat (fp_exponent 24 (- 149) q - e)) * pow2 e"
    by (simp only: of_int_mult of_int_power of_int_numeral mult_ac)
  then show ?thesis by blast
qed

lemma float_index_exact:
  assumes "flt q = Fin q" "0 \<le> q"
  shows "of_nat (float_index (Fin q)) = q * 2 ^ 149"
proof -
  obtain k where "q = of_int k * pow2 (- 149)"
    using flt_multiple [OF assms(1), of "- 149"] by (auto simp: fp_exponent_def)
  then have q: "q * 2 ^ 149 = of_int k" by (simp add: pow2_def)
  then have "0 \<le> (of_int k :: rat)" using assms(2) by (metis mult_nonneg_nonneg zero_le_numeral zero_le_power)
  then show ?thesis unfolding float_index_def fp.case q by simp
qed

lemma float_index_bound: "flt q = Fin q \<Longrightarrow> 0 \<le> q \<Longrightarrow> float_index (Fin q) < 2 ^ 277"
proof -
  assume q: "flt q = Fin q" "0 \<le> q"
  then have "q < 2 ^ 128" using binary32.rounded_value [OF q(1)] by (simp add: pow2_def)
  then have "q * 2 ^ 149 < 2 ^ 128 * 2 ^ 149" by (intro mult_strict_right_mono) simp_all
  then have "(of_nat (float_index (Fin q)) :: rat) < of_nat (2 ^ 277)" using float_index_exact [OF q] by simp
  then show ?thesis by (simp only: of_nat_less_iff)
qed

lemma float_index_mono:
  assumes "float_nonneg a" "float_nonneg b"
  shows "fp_less a b \<Longrightarrow> float_index a < float_index b" "fp_leq a b \<Longrightarrow> float_index a \<le> float_index b"
    "float_index a \<le> 2 ^ 277"
proof -
  have less: "float_index a < float_index b" if "fp_less a b"
  proof (cases b)
    case (Fin q)
    with assms that obtain p where p: "a = Fin p" "flt p = Fin p" "0 \<le> p" "flt q = Fin q" "0 \<le> q" "p < q"
      by (auto simp: float_nonneg_def)
    have "(of_nat (float_index (Fin p)) :: rat) < of_nat (float_index (Fin q))"
      using p by (simp only: float_index_exact) simp
    then show ?thesis using p Fin by (simp only: of_nat_less_iff)
  next
    case PosInf
    with assms that show ?thesis using float_index_bound by (auto simp: float_nonneg_def float_index_def [of PosInf])
  qed (use assms that in \<open>auto simp: float_nonneg_def\<close>)
  show "fp_less a b \<Longrightarrow> float_index a < float_index b" by (rule less)
  show "fp_leq a b \<Longrightarrow> float_index a \<le> float_index b"
    using less assms by (auto simp: fp_leq_def float_nonneg_def)
  show "float_index a \<le> 2 ^ 277"
    using assms(1) float_index_bound by (auto simp: float_nonneg_def float_index_def [of PosInf] less_imp_le)
qed

section \<open>Steps between neighbouring floats\<close>

text \<open>A positive float plus its own unit is a larger float, and minus it a smaller one.\<close>

lemma pow2_24: "pow2 (e + 24) = 2 ^ 24 * pow2 e" and pow2_23: "pow2 (e + 23) = 2 ^ 23 * pow2 e"
  using pow2_add [of e 24] pow2_add [of e 23] by (simp_all add: mult.commute)

lemma unit_bounds:
  assumes "flt a = Fin a" "0 < a"
  shows "\<exists>k. a = of_int k * pow2 (fp_exponent 24 (- 149) a) \<and> 1 \<le> k \<and> k < 2 ^ 24"
proof -
  let ?e = "fp_exponent 24 (- 149) a"
  obtain k where k: "a = of_int k * pow2 ?e" using flt_grid [OF assms(1)] by blast
  have "0 < k" using k assms(2) pow2_pos [of ?e] by (metis of_int_0_less_iff zero_less_mult_pos2)
  moreover have "a < pow2 (?e + 24)"
  proof -
    have "a < pow2 (rat_exponent a + 1)" using rat_exponent_gt [OF assms(2)] .
    also have "\<dots> \<le> pow2 (?e + 24)" by (rule pow2_mono) (use assms in \<open>simp add: fp_exponent_def\<close>)
    finally show ?thesis .
  qed
  then have "of_int k * pow2 ?e < of_int (2 ^ 24) * pow2 ?e" using k by (simp add: pow2_24)
  then have "k < 2 ^ 24" using pow2_pos [of ?e] by (metis mult_less_cancel_right_pos of_int_less_iff)
  ultimately show ?thesis using k by auto
qed

lemma multiple_float: "\<bar>k\<bar> \<le> 2 ^ 24 \<Longrightarrow> - 149 \<le> e \<Longrightarrow> fp_value 24 (- 149) (of_int k * pow2 e) = of_int k * pow2 e"
proof (cases "\<bar>k\<bar> < 2 ^ 24")
  case True
  assume "- 149 \<le> e"
  with True show ?thesis by (intro binary32.value_exact) simp_all
next
  case False
  assume k: "\<bar>k\<bar> \<le> 2 ^ 24" and e: "- 149 \<le> e"
  define s :: int where "s = (if 0 \<le> k then 1 else - 1)"
  have "k = s * 2 ^ 24" using False k by (auto simp: s_def)
  then have "of_int k * pow2 e = of_int s * pow2 (e + 24)" by (simp add: pow2_24)
  moreover have "\<bar>s\<bar> < 2 ^ nat 24" by (simp add: s_def)
  ultimately show ?thesis using binary32.value_exact [of s "e + 24"] e by simp
qed

text \<open>Adding what is missing to a larger float makes progress.\<close>

lemma value_mono32: "x \<le> y \<Longrightarrow> fp_value 24 (- 149) x \<le> fp_value 24 (- 149) y"
  by (rule binary32.value_mono)

lemma value_of_float: "flt q = Fin q \<Longrightarrow> fp_value 24 (- 149) q = q"
  using binary32.rounded_value by metis

lemma growth:
  assumes a: "flt a = Fin a" "0 \<le> a" and m: "flt m = Fin m" "a < m"
  shows "a < fp_value 24 (- 149) (a + fp_value 24 (- 149) (m - a))"
proof (cases "a = 0")
  case True
  then show ?thesis using m value_of_float [OF m(1)] by simp
next
  case False
  with a have pos: "0 < a" by simp
  let ?e = "fp_exponent 24 (- 149) a"
  have e: "- 149 \<le> ?e" by (simp add: fp_exponent_def)
  obtain k where k: "a = of_int k * pow2 ?e" "1 \<le> k" "k < 2 ^ 24" using unit_bounds [OF a(1) pos] by blast
  obtain j where j: "m = of_int j * pow2 ?e"
    using flt_multiple [OF m(1) exponent_mono [OF pos]] m(2) by fastforce
  have "k < j" using m(2) k(1) j pow2_pos [of ?e] by (metis mult_less_cancel_right_pos of_int_less_iff)
  then have "1 \<le> (of_int (j - k) :: rat)" by simp
  then have "pow2 ?e \<le> of_int (j - k) * pow2 ?e" using pow2_pos [of ?e] by simp
  also have "\<dots> = m - a" using j k(1) by (simp add: left_diff_distrib)
  finally have "fp_value 24 (- 149) (of_int 1 * pow2 ?e) \<le> fp_value 24 (- 149) (m - a)"
    by (intro value_mono32) simp
  then have d: "pow2 ?e \<le> fp_value 24 (- 149) (m - a)" using multiple_float [of 1, OF _ e] by simp
  have succ: "of_int (k + 1) * pow2 ?e = a + pow2 ?e"
  proof -
    have "of_int (k + 1) * pow2 ?e = of_int k * pow2 ?e + pow2 ?e" by (simp add: distrib_right)
    then show ?thesis using k(1) by simp
  qed
  have "a < a + pow2 ?e" by simp
  also have "\<dots> = fp_value 24 (- 149) (of_int (k + 1) * pow2 ?e)"
    using multiple_float [of "k + 1", OF _ e] k succ by simp
  also have "\<dots> \<le> fp_value 24 (- 149) (a + fp_value 24 (- 149) (m - a))"
    unfolding succ using d by (intro value_mono32) simp
  finally show ?thesis .
qed

text \<open>Taking away at least the \<open>2 ^ 23\<close>rd part of a float that is not tiny makes progress.\<close>

lemma reduction:
  assumes r: "flt r = Fin r" "pow2 (- 100) \<le> r" and d: "fp_value 24 (- 149) (r / 2 ^ 23) \<le> d"
  shows "fp_value 24 (- 149) (r - d) < r"
proof -
  let ?e = "fp_exponent 24 (- 149) r"
  have pos: "0 < r" using r(2) pow2_pos [of "- 100"] by linarith
  have e: "- 149 \<le> ?e" by (simp add: fp_exponent_def)
  obtain k where k: "r = of_int k * pow2 ?e" "1 \<le> k" "k < 2 ^ 24" using unit_bounds [OF r(1) pos] by blast
  have "pow2 (- 100) < pow2 (rat_exponent r + 1)" using r(2) rat_exponent_gt [OF pos] by linarith
  then have exact: "?e = rat_exponent r - 23" using pow2_less pos by (fastforce simp: fp_exponent_def)
  have "pow2 ?e * 2 ^ 23 = pow2 (rat_exponent r)" using pow2_23 [of ?e] by (simp add: exact)
  also have "\<dots> \<le> r" by (rule rat_exponent_le [OF pos])
  finally have "pow2 ?e \<le> r / 2 ^ 23" by simp
  then have "fp_value 24 (- 149) (of_int 1 * pow2 ?e) \<le> fp_value 24 (- 149) (r / 2 ^ 23)"
    by (intro value_mono32) simp
  then have "pow2 ?e \<le> d" using multiple_float [of 1, OF _ e] d by simp
  then have "fp_value 24 (- 149) (r - d) \<le> fp_value 24 (- 149) (of_int (k - 1) * pow2 ?e)"
  proof (intro value_mono32)
    assume "pow2 ?e \<le> d"
    moreover have "of_int (k - 1) * pow2 ?e = r - pow2 ?e"
    proof -
      have "of_int (k - 1) * pow2 ?e = of_int k * pow2 ?e - pow2 ?e" by (simp add: left_diff_distrib)
      then show ?thesis using k(1) by simp
    qed
    ultimately show "r - d \<le> of_int (k - 1) * pow2 ?e" by simp
  qed
  also have "\<dots> = of_int (k - 1) * pow2 ?e" using multiple_float [of "k - 1", OF _ e] k by simp
  also have "\<dots> < of_int k * pow2 ?e" by simp
  finally show ?thesis using k(1) by simp
qed

section \<open>A round of the loop\<close>

definition alloc_ok :: "allocation \<Rightarrow> bool" where
  "alloc_ok a \<longleftrightarrow> (case a of (l, allocated, _) \<Rightarrow>
    float_nonneg allocated \<and> float_value (ll_maximum l) \<and> float_value (ll_weight l))"

text \<open>How far a child is from being closed at the largest length.\<close>

definition alloc_left :: "allocation \<Rightarrow> nat" where
  "alloc_left a = (case a of (_, allocated, is_open) \<Rightarrow>
    2 ^ 277 - float_index allocated + (if is_open then 1 else 0))"

definition total_left :: "allocation list \<Rightarrow> nat" where
  "total_left as = sum_list (map alloc_left as)"

definition grown :: "fp \<Rightarrow> fp \<Rightarrow> LayoutLength \<Rightarrow> fp \<Rightarrow> allocation" where
  "grown remaining weight l allocated =
    (let allocated' = flt_add allocated (added_to remaining weight l allocated)
     in (l, allocated', \<not> fp_leq (ll_maximum l) (flt_add allocated' kEpsilon)))"

lemma float_nonneg_max: "float_value v \<Longrightarrow> float_nonneg (fp_max (Fin 0) v)"
  by (cases v) (auto simp: float_value_def float_nonneg_def fp_max_def)

lemma float_min: "float_value a \<Longrightarrow> float_value b \<Longrightarrow> float_value (fp_min a b)"
  by (simp add: fp_min_def)

lemma added_nonneg: "float_nonneg (added_to remaining weight l allocated)"
  unfolding added_to_def by (intro float_nonneg_max float_min flt_mul_float flt_sub_float)

lemma add_nonneg:
  assumes "float_nonneg a" "float_nonneg b"
  shows "float_nonneg (flt_add a b)" "fp_leq a (flt_add a b)" "fp_leq b (flt_add a b)"
proof -
  have "float_nonneg (flt_add a b) \<and> fp_leq a (flt_add a b) \<and> fp_leq b (flt_add a b)"
  proof (cases "a = PosInf \<or> b = PosInf")
    case True
    with assms show ?thesis by (auto simp: float_nonneg_def flt_add_def fp_leq_def)
  next
    case False
    with assms obtain p q where pq: "a = Fin p" "flt p = Fin p" "0 \<le> p" "b = Fin q" "flt q = Fin q" "0 \<le> q"
      by (auto simp: float_nonneg_def)
    have le: "fp_leq (Fin p) (flt (p + q))" "fp_leq (Fin q) (flt (p + q))"
      using binary32.mono [of p "p + q"] binary32.mono [of q "p + q"] pq by simp_all
    show ?thesis
    proof (cases "flt (p + q)")
      case (Fin r)
      with le pq binary32.idempotent [OF Fin] show ?thesis by (simp add: flt_add_def float_nonneg_def)
    qed (use le pq in \<open>auto simp: flt_add_def float_nonneg_def fp_leq_def\<close>)
  qed
  then show "float_nonneg (flt_add a b)" "fp_leq a (flt_add a b)" "fp_leq b (flt_add a b)" by auto
qed

lemma fp_leq_trans: "fp_leq a b \<Longrightarrow> fp_leq b c \<Longrightarrow> fp_leq a c"
  by (cases a; cases b; cases c) (auto simp: fp_leq_def)

lemma grown_ok:
  assumes "alloc_ok (l, allocated, True)"
  shows "alloc_ok (grown remaining weight l allocated)"
    and "alloc_left (grown remaining weight l allocated) \<le> alloc_left (l, allocated, True)"
proof -
  let ?a = "flt_add allocated (added_to remaining weight l allocated)"
  have a: "float_nonneg allocated" using assms by (simp add: alloc_ok_def)
  note add = add_nonneg [OF a added_nonneg]
  show "alloc_ok (grown remaining weight l allocated)"
    using assms add(1) by (simp add: alloc_ok_def grown_def Let_def)
  have "float_index allocated \<le> float_index ?a" using float_index_mono(2) [OF a add(1) add(2)] .
  then show "alloc_left (grown remaining weight l allocated) \<le> alloc_left (l, allocated, True)"
    by (auto simp: alloc_left_def grown_def Let_def)
qed

lemma distribute_result:
  assumes "distribute remaining weight as d0 = (bs, d)" "\<forall>a \<in> set as. alloc_ok a" "float_nonneg d0"
  shows "(\<forall>b \<in> set bs. alloc_ok b) \<and> length bs = length as \<and> float_nonneg d \<and> fp_leq d0 d \<and>
    total_left bs \<le> total_left as \<and>
    (\<forall>l a. (l, a, True) \<in> set as \<and> ll_kind l = Length_stretch \<longrightarrow>
      fp_leq (added_to remaining weight l a) d \<and>
      (alloc_left (grown remaining weight l a) < alloc_left (l, a, True) \<longrightarrow> total_left bs < total_left as))"
  using assms
proof (induction as arbitrary: d0 bs d)
  case Nil
  then show ?case by (auto simp: total_left_def float_nonneg_def fp_leq_def)
next
  case (Cons x as)
  obtain l a o' where x: "x = (l, a, o')" by (cases x)
  show ?case
  proof (cases "grows x")
    case False
    with Cons.prems x obtain bs' where bs: "bs = x # bs'" "distribute remaining weight as d0 = (bs', d)"
      by (auto split: prod.splits)
    from Cons.IH [OF bs(2)] Cons.prems have ih: "(\<forall>b \<in> set bs'. alloc_ok b) \<and> length bs' = length as \<and>
      float_nonneg d \<and> fp_leq d0 d \<and> total_left bs' \<le> total_left as \<and>
      (\<forall>l a. (l, a, True) \<in> set as \<and> ll_kind l = Length_stretch \<longrightarrow>
        fp_leq (added_to remaining weight l a) d \<and>
        (alloc_left (grown remaining weight l a) < alloc_left (l, a, True) \<longrightarrow> total_left bs' < total_left as))"
      by simp
    with False Cons.prems x bs(1) show ?thesis by (auto simp: total_left_def grows_def)
  next
    case True
    then have o': "o'" "ll_kind l = Length_stretch" using x by (simp_all add: grows_def)
    let ?v = "added_to remaining weight l a"
    obtain bs' where bs: "bs = grown remaining weight l a # bs'"
      "distribute remaining weight as (flt_add d0 ?v) = (bs', d)"
      using Cons.prems(1) True x by (auto simp: grown_def Let_def split: prod.splits)
    have ok: "alloc_ok (l, a, True)" using Cons.prems(2) x o'(1) by simp
    note add = add_nonneg [OF Cons.prems(3) added_nonneg [of remaining weight l a]]
    from Cons.IH [OF bs(2)] Cons.prems add(1) have ih: "(\<forall>b \<in> set bs'. alloc_ok b) \<and> length bs' = length as \<and>
      float_nonneg d \<and> fp_leq (flt_add d0 ?v) d \<and> total_left bs' \<le> total_left as \<and>
      (\<forall>l a. (l, a, True) \<in> set as \<and> ll_kind l = Length_stretch \<longrightarrow>
        fp_leq (added_to remaining weight l a) d \<and>
        (alloc_left (grown remaining weight l a) < alloc_left (l, a, True) \<longrightarrow> total_left bs' < total_left as))"
      by simp
    have d: "fp_leq d0 d" "fp_leq ?v d" using add(2,3) ih fp_leq_trans by blast+
    show ?thesis using ih d grown_ok [OF ok] x o' bs(1) by (auto simp: total_left_def add_le_less_mono add_less_le_mono add_mono)
  qed
qed

section \<open>The child with the largest weight\<close>

lemma flt_pow2: "- 149 \<le> e \<Longrightarrow> e < 128 \<Longrightarrow> flt (pow2 e) = Fin (pow2 e)"
proof -
  assume e: "- 149 \<le> e" "e < 128"
  have "pow2 e \<le> pow2 127" using e by (intro pow2_mono) simp
  moreover have "pow2 128 = 2 * pow2 127" using pow2_Suc [of 127] by simp
  ultimately have "pow2 e < pow2 128" using pow2_pos [of 127] by linarith
  then show ?thesis using binary32.exact [of 1 e] e abs_of_pos [OF pow2_pos [of e]] by simp
qed

lemma open_weight_snoc:
  "open_weight (as @ [a]) = (if grows a then flt_add (open_weight as) (weight_of (fst a)) else open_weight as)"
  by (simp add: open_weight_def)

lemma weight_nonneg: "float_value (ll_weight l) \<Longrightarrow> float_nonneg (weight_of l)"
  unfolding weight_of_def by (rule float_nonneg_max)

lemma ok_weight: "alloc_ok a \<Longrightarrow> float_nonneg (weight_of (fst a))"
  by (cases a) (simp add: alloc_ok_def weight_nonneg)

lemma open_weight_nonneg: "\<forall>a \<in> set as. alloc_ok a \<Longrightarrow> float_nonneg (open_weight as) \<and>
    (\<forall>a \<in> set as. grows a \<longrightarrow> fp_leq (weight_of (fst a)) (open_weight as))"
proof (induction as rule: rev_induct)
  case Nil
  then show ?case by (simp add: open_weight_def float_nonneg_def)
next
  case (snoc a as)
  then have w: "float_nonneg (open_weight as)" "\<forall>a \<in> set as. grows a \<longrightarrow> fp_leq (weight_of (fst a)) (open_weight as)"
    and a: "float_nonneg (weight_of (fst a))"
    by (auto intro: ok_weight)
  note add = add_nonneg [OF w(1) a]
  show ?case using w add fp_leq_trans by (auto simp: open_weight_snoc)
qed

text \<open>The sum of \<open>n\<close> weights of at most \<open>2 ^ e\<close> is at most \<open>n 2 ^ e\<close>, rounding included.\<close>

lemma open_weight_bound:
  assumes "\<forall>a \<in> set as. alloc_ok a" "\<forall>a \<in> set as. grows a \<longrightarrow> fp_leq (weight_of (fst a)) (Fin (pow2 e))"
    and "- 149 \<le> e" "length as \<le> 2 ^ 22" "open_weight as = Fin s"
  shows "s \<le> of_nat (length as) * pow2 e"
  using assms
proof (induction as arbitrary: s rule: rev_induct)
  case Nil
  then show ?case by (simp add: open_weight_def)
next
  case (snoc a as)
  show ?case
  proof (cases "grows a")
    case False
    with snoc.prems snoc.IH [of s] have "s \<le> of_nat (length as) * pow2 e" by (simp add: open_weight_snoc)
    then show ?thesis using pow2_pos [of e] by (simp add: distrib_right add_increasing less_imp_le)
  next
    case True
    have ok: "float_nonneg (open_weight as)" "float_nonneg (weight_of (fst a))"
      using open_weight_nonneg [of as] snoc.prems(1) by (auto intro: ok_weight)
    have sum: "flt_add (open_weight as) (weight_of (fst a)) = Fin s" using snoc.prems(5) True by (simp add: open_weight_snoc)
    then obtain t v where tv: "open_weight as = Fin t" "weight_of (fst a) = Fin v"
      using ok by (auto simp: float_nonneg_def flt_add_def)
    have "t \<le> of_nat (length as) * pow2 e" using snoc.IH [OF _ _ _ _ tv(1)] snoc.prems by simp
    moreover have "v \<le> pow2 e" using snoc.prems(2) True tv(2) by simp
    ultimately have "t + v \<le> of_int (int (length as) + 1) * pow2 e" by (simp add: distrib_right)
    then have "fp_value 24 (- 149) (t + v) \<le> fp_value 24 (- 149) (of_int (int (length as) + 1) * pow2 e)"
      by (rule value_mono32)
    moreover have "s = fp_value 24 (- 149) (t + v)"
      using sum binary32.rounded_value [of "t + v" s] by (simp add: tv flt_add_def)
    moreover have "fp_value 24 (- 149) (of_int (int (length as) + 1) * pow2 e) = of_int (int (length as) + 1) * pow2 e"
      using snoc.prems(3,4) by (intro multiple_float) simp_all
    ultimately show ?thesis by (simp add: add.commute)
  qed
qed

lemma largest_weight:
  assumes ok: "\<forall>a \<in> set as. alloc_ok a" and n: "length as \<le> 2 ^ 22"
    and s: "open_weight as = Fin s" "flt s = Fin s" "fp_less kEpsilon (Fin s)"
  shows "\<exists>l a m. (l, a, True) \<in> set as \<and> ll_kind l = Length_stretch \<and> weight_of l = Fin m \<and>
    m \<le> s \<and> s \<le> 2 ^ 23 * m"
proof -
  let ?S = "{a \<in> set as. grows a}"
  let ?w = "\<lambda>a :: allocation. case weight_of (fst a) of Fin v \<Rightarrow> v | _ \<Rightarrow> 0"
  have fin: "weight_of (fst a) = Fin (?w a) \<and> flt (?w a) = Fin (?w a) \<and> 0 \<le> ?w a \<and> ?w a \<le> s" if "a \<in> ?S" for a
  proof -
    have le: "fp_leq (weight_of (fst a)) (Fin s)" using open_weight_nonneg [OF ok] that s(1) by auto
    moreover have "float_nonneg (weight_of (fst a))" using ok that by (auto intro: ok_weight)
    ultimately show ?thesis by (auto simp: float_nonneg_def fp_leq_def)
  qed
  have big: "1 / 16384 < s" using s(3) by (simp add: kEpsilon_def)
  have bound: "s \<le> 2 ^ 22 * pow2 e" if e: "- 149 \<le> e" and le: "\<And>a. a \<in> ?S \<Longrightarrow> ?w a \<le> pow2 e" for e
  proof -
    have "\<forall>a \<in> set as. grows a \<longrightarrow> fp_leq (weight_of (fst a)) (Fin (pow2 e))"
    proof (intro ballI impI)
      fix a assume "a \<in> set as" "grows a"
      then have a: "a \<in> ?S" by simp
      show "fp_leq (weight_of (fst a)) (Fin (pow2 e))" using fin [OF a] le [OF a] by (metis fp_leq_Fin)
    qed
    from open_weight_bound [OF ok this e n s(1)] have "s \<le> of_nat (length as) * pow2 e" .
    also have "\<dots> \<le> 2 ^ 22 * pow2 e"
    proof (rule mult_right_mono)
      have "(of_nat (length as) :: rat) \<le> of_nat (2 ^ 22)" using n by (simp only: of_nat_le_iff)
      then show "(of_nat (length as) :: rat) \<le> 2 ^ 22" by simp
    qed (simp add: less_imp_le)
    finally show ?thesis .
  qed
  have tiny: "2 ^ 22 * pow2 (- 149) < 1 / 16384" by (simp add: pow2_def)
  have "?S \<noteq> {}" using bound [of "- 149"] tiny big by fastforce
  then have "Max (?w ` ?S) \<in> ?w ` ?S" by (intro Max_in) simp_all
  then obtain a where a: "a \<in> ?S" "?w a = Max (?w ` ?S)" by auto
  have max: "?w b \<le> ?w a" if "b \<in> ?S" for b using that unfolding a(2) by (intro Max_ge) simp_all
  have pos: "0 < ?w a"
  proof (rule ccontr)
    assume "\<not> 0 < ?w a"
    then have "?w b \<le> pow2 (- 149)" if "b \<in> ?S" for b
      using max [OF that] pow2_pos [of "- 149"] by linarith
    then have "s \<le> 2 ^ 22 * pow2 (- 149)" by (intro bound) simp_all
    with tiny big show False by linarith
  qed
  have least: "pow2 (- 149) \<le> ?w a" using least_float [of "?w a"] fin [OF a(1)] pos by simp
  let ?e = "rat_exponent (?w a) + 1"
  have "pow2 (- 149) < pow2 ?e" using least rat_exponent_gt [OF pos] by linarith
  then have "- 149 < ?e" by (rule pow2_less)
  moreover have "?w b \<le> pow2 ?e" if "b \<in> ?S" for b
    using max [OF that] rat_exponent_gt [OF pos] by linarith
  ultimately have "s \<le> 2 ^ 22 * pow2 ?e" by (intro bound) simp_all
  also have "\<dots> \<le> 2 ^ 22 * (2 * ?w a)" using rat_exponent_le [OF pos] by (simp add: pow2_Suc)
  finally have sm: "s \<le> 2 ^ 23 * ?w a" by simp
  obtain l al where "a = (l, al, True)" "ll_kind l = Length_stretch"
    using a(1) by (cases a) (auto simp: grows_def)
  with a(1) fin [OF a(1)] sm show ?thesis by fastforce
qed

section \<open>Progress\<close>

lemma left_less: "i < j \<Longrightarrow> j \<le> n \<Longrightarrow> n - j + (if b then 1 else 0) < n - i + (1 :: nat)"
  by auto

text \<open>A child that is held back by its maximum closes or grows.\<close>

lemma capped_progress:
  assumes ok: "alloc_ok (l, a, True)"
    and capped: "fp_less (flt_sub (ll_maximum l) a) (flt_mul remaining (flt_div_pos (weight_of l) weight))"
  shows "alloc_left (grown remaining weight l a) < alloc_left (l, a, True)"
proof -
  let ?m = "ll_maximum l" and ?v = "added_to remaining weight l a"
  let ?a = "flt_add a ?v"
  have a: "float_nonneg a" and m: "float_value ?m" using ok by (simp_all add: alloc_ok_def)
  have v: "?v = fp_max (Fin 0) (flt_sub ?m a)" using capped by (simp add: added_to_def fp_min_def)
  note add = add_nonneg [OF a added_nonneg [of remaining weight l a]]
  have eps: "float_nonneg kEpsilon"
  proof -
    have "flt (of_int 13743895 * pow2 (- 37)) = Fin (of_int 13743895 * pow2 (- 37))"
      using pow2_mono [of 0 128] by (intro binary32.exact) (simp_all add: pow2_def [of "- 37"])
    then have "flt (13743895 / 137438953472) = Fin (13743895 / 137438953472)" by (simp add: pow2_def)
    then show ?thesis unfolding kEpsilon_def float_nonneg_def
      by (intro disjI2 exI [of _ "13743895 / 137438953472"] conjI refl) simp_all
  qed
  have closes: ?thesis if "fp_leq ?m a"
  proof -
    have "fp_leq ?m (flt_add ?a kEpsilon)" using that add(2) add_nonneg(2) [OF add(1) eps] fp_leq_trans by blast
    moreover have "float_index a \<le> float_index ?a" using float_index_mono(2) [OF a add(1) add(2)] .
    ultimately show ?thesis by (simp add: alloc_left_def grown_def Let_def)
  qed
  show ?thesis
  proof (cases "fp_leq ?m a")
    case True
    then show ?thesis by (rule closes)
  next
    case False
    obtain q p where q: "a = Fin q" "flt q = Fin q" "0 \<le> q" and p: "?m = Fin p" "flt p = Fin p" "q < p"
    proof (cases ?m)
      case (Fin p)
      with False a m that show ?thesis by (auto simp: float_nonneg_def float_value_def fp_leq_def)
    next
      case PosInf
      with capped a show ?thesis by (auto simp: flt_sub_def flt_add_def float_nonneg_def)
    next
      case NegInf
      with False a show ?thesis by (auto simp: fp_leq_def float_nonneg_def)
    next
      case NaN
      with capped show ?thesis by (simp add: flt_sub_def flt_add_def)
    qed
    have "0 \<le> p - q" "p - q \<le> p" using q(3) p(3) by simp_all
    then obtain d where d: "flt (p - q) = Fin d" "0 \<le> d"
      using binary32.between [OF binary32.zero p(2)] by blast
    have dv: "d = fp_value 24 (- 149) (p - q)" using binary32.rounded_value [OF d(1)] by simp
    have "flt_sub ?m a = Fin d" unfolding p(1) q(1) using d(1) by (simp add: flt_sub_def flt_add_def)
    then have "?v = Fin d" unfolding v using d(2) by (simp add: fp_max_def)
    then have sum: "?a = flt (q + d)" by (simp add: q flt_add_def)
    have "q < fp_value 24 (- 149) (q + d)" using growth [OF q(2,3) p(2,3)] dv by simp
    then have "fp_less (Fin q) (flt (q + d))"
      unfolding binary32.by_value [of "q + d"] using q(3) pow2_pos [of 128] by simp
    then have "fp_less a ?a" using q(1) sum by simp
    then have "float_index a < float_index ?a" using float_index_mono(1) [OF a add(1)] by simp
    moreover have "float_index ?a \<le> 2 ^ 277" using float_index_mono(3) [OF add(1) add(1)] .
    ultimately show ?thesis unfolding alloc_left_def grown_def Let_def prod.case if_True by (rule left_less)
  qed
qed

text \<open>A child with the largest weight that is not held back takes a good part of what remains.\<close>

lemma share_of_largest:
  assumes r: "remaining = Fin r" "flt r = Fin r" "pow2 (- 100) \<le> r"
    and m: "weight_of l = Fin m" "m \<le> s" "s \<le> 2 ^ 23 * m" "0 < s"
  shows "\<exists>v. flt_mul remaining (flt_div_pos (weight_of l) (Fin s)) = Fin v \<and> fp_value 24 (- 149) (r / 2 ^ 23) \<le> v \<and> 0 \<le> v"
proof -
  have r0: "0 < r" using r(3) pow2_pos [of "- 100"] by linarith
  have ms: "1 / 2 ^ 23 \<le> m / s" "m / s \<le> 1" using m by (simp_all add: field_simps)
  have low: "flt (1 / 2 ^ 23) = Fin (1 / 2 ^ 23)" using flt_pow2 [of "- 23"] by (simp add: pow2_def)
  obtain t where t: "flt (m / s) = Fin t" "1 / 2 ^ 23 \<le> t" "t \<le> 1"
    using binary32.between [OF low flt_int(4) ms] by blast
  have "r * (1 / 2 ^ 23) \<le> r * t" using t(2) r0 by (intro mult_left_mono) simp_all
  then have rt: "r / 2 ^ 23 \<le> r * t" by simp
  have "r * t \<le> r * 1" using t(3) r0 by (intro mult_left_mono) simp_all
  then have "0 \<le> r * t" "r * t \<le> r" using rt r0 by (simp_all add: order_trans [OF _ rt])
  then obtain v where v: "flt (r * t) = Fin v" "0 \<le> v"
    using binary32.between [OF binary32.zero r(2)] by blast
  have "v = fp_value 24 (- 149) (r * t)" using binary32.rounded_value [OF v(1)] by simp
  then have "fp_value 24 (- 149) (r / 2 ^ 23) \<le> v" using value_mono32 [OF rt] by simp
  with v show ?thesis by (simp add: m(1) r(1) flt_div_pos_def flt_mul_def t(1))
qed

text \<open>What the loop condition compares: the value left to distribute is a \<open>float\<close> above the threshold.\<close>

lemma above_threshold:
  assumes "float_value v" "fp_less kEpsilon v"
  shows "float_nonneg v \<and> (v = PosInf \<or> (\<exists>r. v = Fin r \<and> flt r = Fin r \<and> pow2 (- 100) \<le> r))"
proof (cases v)
  case (Fin r)
  have "pow2 (- 100) \<le> pow2 (- 14)" by (rule pow2_mono) simp
  also have "\<dots> \<le> 13743895 / 137438953472" by (simp add: pow2_def)
  finally have "pow2 (- 100) \<le> r" using assms(2) Fin by (simp add: kEpsilon_def)
  moreover have "0 \<le> r" using calculation pow2_pos [of "- 100"] by linarith
  ultimately show ?thesis using assms(1) Fin by (simp add: float_value_def float_nonneg_def)
qed (use assms in \<open>auto simp: kEpsilon_def float_nonneg_def\<close>)

text \<open>A round with an infinite total weight distributes nothing.\<close>

lemma infinite_weight:
  assumes "fp_less (Fin 0) remaining"
  shows "float_value (ll_weight l) \<Longrightarrow> added_to remaining PosInf l a = Fin 0"
proof -
  assume "float_value (ll_weight l)"
  then have "float_nonneg (weight_of l)" by (rule weight_nonneg)
  then have "flt_div_pos (weight_of l) PosInf = Fin 0 \<or> flt_div_pos (weight_of l) PosInf = NaN"
    by (auto simp: float_nonneg_def flt_div_pos_def)
  then have "flt_mul remaining (flt_div_pos (weight_of l) PosInf) = Fin 0
      \<or> flt_mul remaining (flt_div_pos (weight_of l) PosInf) = NaN"
    using assms by (cases remaining) (auto simp: flt_mul_def)
  then show ?thesis
    by (cases "flt_sub (ll_maximum l) a") (auto simp: added_to_def fp_min_def fp_max_def)
qed

lemma distribute_nothing:
  assumes "\<forall>a \<in> set as. alloc_ok a" "fp_less (Fin 0) remaining"
  shows "snd (distribute remaining PosInf as (Fin 0)) = Fin 0"
  using assms(1)
proof (induction as)
  case (Cons x as)
  obtain l a o' where x: "x = (l, a, o')" by (cases x)
  have "added_to remaining PosInf l a = Fin 0" using infinite_weight [OF assms(2)] Cons.prems x by (simp add: alloc_ok_def)
  with Cons x show ?case by (auto simp: flt_add_def Let_def split: prod.splits)
qed simp

text \<open>A round that continues makes progress.\<close>

definition loop_left :: "allocation list \<Rightarrow> fp \<Rightarrow> nat" where
  "loop_left as remaining = total_left as + float_index remaining"

lemma round_progress:
  assumes ok: "\<forall>a \<in> set as. alloc_ok a" and n: "length as \<le> 2 ^ 22"
    and rem: "float_value remaining" "fp_less kEpsilon remaining"
    and s: "open_weight as = Fin s" "fp_less kEpsilon (Fin s)"
    and round: "distribute remaining (Fin s) as (Fin 0) = (bs, d)"
    and again: "fp_less kEpsilon (flt_sub remaining d)"
  shows "loop_left bs (flt_sub remaining d) < loop_left as remaining"
proof -
  have zero: "float_nonneg (Fin 0)" by (simp add: float_nonneg_def)
  note D = distribute_result [OF round ok zero]
  have sf: "flt s = Fin s" using open_weight_nonneg [OF ok] s(1) by (auto simp: float_nonneg_def)
  obtain l a m where big: "(l, a, True) \<in> set as" "ll_kind l = Length_stretch" "weight_of l = Fin m"
    "m \<le> s" "s \<le> 2 ^ 23 * m"
    using largest_weight [OF ok n s(1) sf s(2)] by blast
  have s0: "0 < s" using s(2) by (simp add: kEpsilon_def)
  have vd: "fp_leq (added_to remaining (Fin s) l a) d" using D big(1,2) by blast
  note R = above_threshold [OF rem]
  have again': "float_nonneg (flt_sub remaining d)" using above_threshold [OF flt_sub_float again] by blast
  have down: "fp_leq (flt_sub remaining d) remaining"
  proof (cases remaining)
    case (Fin r)
    with R have r: "flt r = Fin r" by auto
    have d: "float_nonneg d" using D by blast
    show ?thesis
    proof (cases d)
      case (Fin e)
      with d have "0 \<le> e" by (auto simp: float_nonneg_def)
      then have "fp_leq (flt (r - e)) (flt r)" by (intro binary32.mono) simp
      then show ?thesis using r Fin \<open>remaining = Fin r\<close> by (simp add: flt_sub_def flt_add_def)
    qed (use d Fin in \<open>auto simp: float_nonneg_def flt_sub_def flt_add_def fp_leq_def\<close>)
  next
    case PosInf
    then show ?thesis using again' by (auto simp: float_nonneg_def fp_leq_def)
  qed (use R in auto)
  have idx: "float_index (flt_sub remaining d) \<le> float_index remaining"
    using float_index_mono(2) [OF again' _ down] R by blast
  show ?thesis
  proof (cases "fp_less (flt_sub (ll_maximum l) a) (flt_mul remaining (flt_div_pos (weight_of l) (Fin s)))")
    case True
    have "alloc_left (grown remaining (Fin s) l a) < alloc_left (l, a, True)"
      using ok big(1) by (intro capped_progress True) blast
    then have "total_left bs < total_left as" using D big(1,2) by blast
    with idx show ?thesis by (simp add: loop_left_def)
  next
    case False
    let ?share = "flt_mul remaining (flt_div_pos (weight_of l) (Fin s))"
    have v: "added_to remaining (Fin s) l a = fp_max (Fin 0) ?share"
      using False by (simp add: added_to_def fp_min_def)
    have "remaining \<noteq> PosInf"
    proof
      assume inf: "remaining = PosInf"
      have m0: "0 < m" using big(5) s0 by (rule_tac ccontr) simp
      have low: "flt (1 / 2 ^ 23) = Fin (1 / 2 ^ 23)" using flt_pow2 [of "- 23"] by (simp add: pow2_def)
      have "1 / 2 ^ 23 \<le> m / s" "m / s \<le> 1" using big(4,5) s0 by (simp_all add: field_simps)
      then obtain t where "flt (m / s) = Fin t" "1 / 2 ^ 23 \<le> t"
        using binary32.between [OF low flt_int(4)] by blast
      then have "?share = PosInf" by (simp add: inf big(3) flt_div_pos_def flt_mul_def fp_inf_def)
      then have "d = PosInf" using vd v by (cases d) (auto simp: fp_max_def fp_leq_def)
      then show False using again inf by (simp add: flt_sub_def flt_add_def kEpsilon_def)
    qed
    with R obtain r where r: "remaining = Fin r" "flt r = Fin r" "pow2 (- 100) \<le> r" by blast
    obtain v where share: "?share = Fin v" "fp_value 24 (- 149) (r / 2 ^ 23) \<le> v" "0 \<le> v"
      using share_of_largest [OF r big(3-5) s0] by blast
    obtain e where e: "d = Fin e" "v \<le> e"
    proof (cases d)
      case (Fin e)
      with vd v share that show ?thesis by (auto simp: fp_max_def split: if_splits)
    next
      case PosInf
      with again r(1) show ?thesis by (simp add: flt_sub_def flt_add_def kEpsilon_def)
    qed (use D in \<open>auto simp: float_nonneg_def\<close>)
    obtain x where x: "flt (r - e) = Fin x" using again r(1) e(1) down
      by (cases "flt (r - e)") (auto simp: flt_sub_def flt_add_def fp_leq_def kEpsilon_def)
    have "x < r" using reduction [OF r(2,3), of e] share(2) e(2) binary32.rounded_value [OF x] by simp
    then have "fp_less (flt_sub remaining d) remaining" using x by (simp add: r(1) e(1) flt_sub_def flt_add_def)
    then have "float_index (flt_sub remaining d) < float_index remaining"
      using float_index_mono(1) [OF again'] R by blast
    with D show ?thesis by (simp add: loop_left_def)
  qed
qed

section \<open>The loop ends\<close>

lemma stretch_loop_ends:
  assumes "\<forall>a \<in> set as. alloc_ok a" "length as \<le> 2 ^ 22" "float_value remaining"
  shows "\<exists>bs. stretch_loop as remaining = Some bs \<and> length bs = length as"
  using assms
proof (induction "loop_left as remaining" arbitrary: as remaining rule: less_induct)
  case less
  obtain bs d where round: "distribute remaining (open_weight as) as (Fin 0) = (bs, d)" by fastforce
  have unfold: "stretch_loop as remaining = (if \<not> fp_less kEpsilon remaining then Some as
     else if fp_leq (open_weight as) kEpsilon then Some as
     else if fp_leq d kEpsilon then Some bs else stretch_loop bs (flt_sub remaining d))"
    by (subst stretch_loop.simps) (simp add: round)
  show ?case
  proof (cases "\<not> fp_less kEpsilon remaining \<or> fp_leq (open_weight as) kEpsilon")
    case True
    then show ?thesis by (auto simp: unfold)
  next
    case False
    then have go: "fp_less kEpsilon remaining" "\<not> fp_leq (open_weight as) kEpsilon" by simp_all
    have zero: "float_nonneg (Fin 0)" by (simp add: float_nonneg_def)
    note D = distribute_result [OF round less.prems(1) zero]
    show ?thesis
    proof (cases "fp_leq d kEpsilon")
      case True
      with go D show ?thesis by (auto simp: unfold)
    next
      case more: False
      have "open_weight as \<noteq> PosInf"
      proof
        assume "open_weight as = PosInf"
        moreover have "fp_less (Fin 0) remaining" using go(1) by (cases remaining) (auto simp: kEpsilon_def)
        ultimately have "d = Fin 0" using distribute_nothing [OF less.prems(1)] round by (metis snd_conv)
        with more show False by (simp add: kEpsilon_def)
      qed
      then obtain s where s: "open_weight as = Fin s"
        using open_weight_nonneg [OF less.prems(1)] by (auto simp: float_nonneg_def)
      have s': "fp_less kEpsilon (Fin s)" using go(2) s by (simp add: kEpsilon_def)
      have "\<exists>cs. stretch_loop bs (flt_sub remaining d) = Some cs \<and> length cs = length bs"
      proof (cases "fp_less kEpsilon (flt_sub remaining d)")
        case False
        then show ?thesis by (subst stretch_loop.simps) simp
      next
        case True
        from round_progress [OF less.prems(1,2,3) go(1) s s' round [unfolded s] True]
        show ?thesis using D less.prems(2) by (intro less.hyps flt_sub_float) simp_all
      qed
      with D more go show ?thesis by (auto simp: unfold)
    qed
  qed
qed

end
