(* ===== verification/Layout_Host.thy ===== *)
theory Layout_Host
  imports Layout_Termination
begin

text \<open>
  What placing a layout tree gives: it always returns, with one rectangle for every window of the tree in
  order.  Then the host, which checks the windows and moves them in one batch or one by one.
\<close>

section \<open>Placing returns\<close>

definition size_floats :: "SizeDip \<Rightarrow> bool" where
  "size_floats s \<longleftrightarrow> float_value (sz_width s) \<and> float_value (sz_height s)"

definition length_floats :: "LayoutLength \<Rightarrow> bool" where
  "length_floats l \<longleftrightarrow> float_value (ll_value l) \<and> float_value (ll_minimum l) \<and> float_value (ll_maximum l)
    \<and> float_value (ll_weight l)"

text \<open>Trees of \<open>float\<close>s with at most \<open>2 ^ 22\<close> children at each node.\<close>

fun node_floats :: "('h \<Rightarrow> SizeDip) \<Rightarrow> nat \<Rightarrow> 'h LayoutNode \<Rightarrow> bool"
  and child_floats :: "('h \<Rightarrow> SizeDip) \<Rightarrow> nat \<Rightarrow> 'h LayoutChild \<Rightarrow> bool" where
  "node_floats W dpi (LayoutNode direction gap margin cs) \<longleftrightarrow>
    length cs \<le> 2 ^ 22 \<and> (\<forall>c \<in> set cs. child_floats W dpi c)"
| "child_floats W dpi (Window_child h l opts m) \<longleftrightarrow>
    length_floats l \<and> size_floats (child_size W dpi (Window_child h l opts m))"
| "child_floats W dpi (Node_child n l opts) \<longleftrightarrow>
    length_floats l \<and> size_floats (child_size W dpi (Node_child n l opts)) \<and> node_floats W dpi n"

lemma fp_max_float: "float_value a \<Longrightarrow> float_value b \<Longrightarrow> float_value (fp_max a b)"
  by (simp add: fp_max_def)

lemma clamped:
  assumes "float_value v" "float_value mn" "float_value mx"
  shows "ClampFinite v mn mx = NaN \<or> float_nonneg (ClampFinite v mn mx)"
proof -
  have zero: "float_value (Fin 0)" by (simp add: float_value_def)
  let ?lo = "fp_max (Fin 0) mn"
  let ?hi = "fp_max ?lo mx"
  have lo: "float_nonneg ?lo" using assms(2) by (rule float_nonneg_max)
  have hi: "float_nonneg ?hi"
    using lo assms(3) by (cases mx; cases ?lo) (auto simp: fp_max_def float_nonneg_def float_value_def)
  show ?thesis
  proof (cases v)
    case (Fin q)
    have "0 \<le> q" if "\<not> fp_less v ?lo" using that lo Fin by (auto simp: float_nonneg_def not_less)
    with lo hi assms(1) Fin show ?thesis
      by (auto simp: ClampFinite_def Let_def fp_clamp_def float_nonneg_def float_value_def)
  qed (use lo hi in \<open>auto simp: ClampFinite_def Let_def fp_clamp_def float_nonneg_def\<close>)
qed

lemma initial_length_floats:
  assumes "length_floats (it_length i)" "size_floats (it_measured i)"
  shows "initial_length direction i = NaN \<or> float_nonneg (initial_length direction i)"
  using assms unfolding initial_length_def Let_def
  by (intro clamped) (auto simp: length_floats_def size_floats_def Main_of_def split: LayoutLengthKind.split)

lemma add_not_nan: "flt_add a b \<noteq> NaN \<Longrightarrow> a \<noteq> NaN \<and> b \<noteq> NaN"
  by (cases a; cases b) (simp_all add: flt_add_def)

lemma total_nan:
  "foldl (\<lambda>t (l, allocated, _). flt_add t allocated) t as \<noteq> NaN \<Longrightarrow>
    t \<noteq> NaN \<and> (\<forall>a \<in> set as. fst (snd a) \<noteq> NaN)"
proof (induction as arbitrary: t)
  case (Cons a as)
  obtain l b o' where a: "a = (l, b, o')" by (cases a)
  with Cons.prems have "foldl (\<lambda>t (l, allocated, _). flt_add t allocated) (flt_add t b) as \<noteq> NaN" by simp
  from Cons.IH [OF this] add_not_nan [of t b] a show ?case by simp
qed simp

lemma allocate_returns:
  assumes "\<forall>i \<in> set items. length_floats (it_length i) \<and> size_floats (it_measured i)" "length items \<le> 2 ^ 22"
  shows "\<exists>as. allocate direction available gaps items = Some as \<and> length as = length items"
proof -
  let ?as = "map (\<lambda>i. (it_length i, initial_length direction i, True)) items"
  let ?total = "foldl (\<lambda>t (l, allocated, _). flt_add t allocated) gaps ?as"
  let ?rem = "flt_sub available ?total"
  have "\<exists>bs. stretch_loop ?as ?rem = Some bs \<and> length bs = length ?as" if go: "fp_less kEpsilon ?rem"
  proof (rule stretch_loop_ends)
    have "?total \<noteq> NaN" using go by (cases available) (auto simp: flt_sub_def flt_add_def kEpsilon_def)
    from total_nan [OF this] have "initial_length direction i \<noteq> NaN" if "i \<in> set items" for i
      using that by auto
    then show "\<forall>a \<in> set ?as. alloc_ok a"
      using assms(1) initial_length_floats by (auto simp: alloc_ok_def length_floats_def)
  qed (use assms(2) flt_sub_float in auto)
  then show ?thesis by (fastforce simp: allocate_def Let_def shrink_def)
qed

lemma length_place_items: "length (place_items direction gap left upper available cursor is) = length is"
proof (induction "is" arbitrary: cursor)
  case (Cons a "is")
  then show ?case by (cases a) (simp add: split_def Let_def)
qed simp

lemma child_bounds_returns:
  assumes "\<forall>i \<in> set items. length_floats (it_length i) \<and> size_floats (it_measured i)" "length items \<le> 2 ^ 22"
  shows "\<exists>rs. child_bounds direction gap margin items bounds = Some rs \<and> length rs = length items"
proof (cases "direction = Layout_overlay")
  case True
  then show ?thesis by (simp add: child_bounds_def Let_def)
next
  case False
  have placed: "\<exists>rs. map_option (\<lambda>allocated. place_items d g l u c s (zip items allocated)) (allocate d m gs items) = Some rs
      \<and> length rs = length items" for d g l u c s m gs
    using allocate_returns [OF assms, of d m gs] by (auto simp: length_place_items)
  from False show ?thesis by (simp only: child_bounds_def Let_def if_False placed)
qed

lemma concat_options_Some:
  assumes "length rs = length cs" "\<And>c r. (c, r) \<in> set (zip cs rs) \<Longrightarrow> \<exists>ps. f (c, r) = Some ps \<and> map fst ps = g c"
  shows "\<exists>ps. concat_options (map f (zip cs rs)) = Some ps \<and> map fst ps = concat (map g cs)"
  using assms
proof (induction cs arbitrary: rs)
  case (Cons c cs)
  then obtain r rs' where rs: "rs = r # rs'" "length rs' = length cs" by (cases rs) auto
  obtain ps where "concat_options (map f (zip cs rs')) = Some ps" "map fst ps = concat (map g cs)"
    using Cons.IH [OF rs(2)] Cons.prems(2) rs(1) by auto
  moreover obtain qs where "f (c, r) = Some qs" "map fst qs = g c" using Cons.prems(2) rs(1) by auto
  ultimately show ?case using rs(1) by simp
qed simp

lemma child_item_floats: "child_floats W dpi c \<Longrightarrow>
    length_floats (it_length (item_of W dpi c)) \<and> size_floats (it_measured (item_of W dpi c))"
  by (cases c) (simp_all add: item_of_def)

lemma placements_exist:
  "node_floats W dpi n \<Longrightarrow> \<exists>ps. CollectPlacements W dpi n bounds = Some ps \<and> map fst ps = node_windows n"
  "child_floats W dpi c \<Longrightarrow> \<exists>ps. collect_child W dpi overlay c bounds = Some ps \<and> map fst ps = child_windows c"
proof (induction W dpi n bounds and W dpi overlay c bounds rule: CollectPlacements_collect_child.induct)
  case (1 W dpi direction gap margin cs bounds)
  have "\<forall>i \<in> set (map (item_of W dpi) cs). length_floats (it_length i) \<and> size_floats (it_measured i)"
    using 1(2) child_item_floats by fastforce
  then obtain rs where rs: "child_bounds direction gap margin (map (item_of W dpi) cs) bounds = Some rs"
    "length rs = length cs"
    using child_bounds_returns [of "map (item_of W dpi) cs" direction gap margin bounds] 1(2) by auto
  let ?f = "\<lambda>(c, r). collect_child W dpi (direction = Layout_overlay) c r"
  have each: "\<exists>ps. ?f (c, r) = Some ps \<and> map fst ps = child_windows c"
    if "(c, r) \<in> set (zip cs rs)" for c r
    using 1(1) [OF rs(1) that refl] 1(2) set_zip_leftD [OF that] by simp
  have "\<exists>ps. concat_options (map ?f (zip cs rs)) = Some ps \<and> map fst ps = concat (map child_windows cs)"
    by (rule concat_options_Some [OF rs(2)]) (rule each)
  with rs(1) show ?case by simp
qed simp_all

lemma count_windows:
  "CountWindows (n :: 'h LayoutNode) = length (node_windows n)"
  "count_child (c :: 'h LayoutChild) = length (child_windows c)"
  by (induction n and c rule: CountWindows_count_child.induct)
    (simp_all add: length_concat comp_def cong: map_cong)

text \<open>C30: Laying out always ends and places every window once.  For every tree of \<open>float\<close> lengths, sizes
  and weights (infinities and NaN included) with at most \<open>2 ^ 22\<close> children at a node, the loop that
  distributes the free space ends in spite of rounding, and the result has one rectangle for each window
  of the tree, in tree order, as many as \<open>CountWindows\<close> reserves.\<close>

theorem layout_returns:
  assumes "node_floats W dpi n"
  shows "\<exists>ps. CollectPlacements W dpi n bounds = Some ps \<and> map fst ps = node_windows n \<and> length ps = CountWindows n"
proof -
  obtain ps where ps: "CollectPlacements W dpi n bounds = Some ps" "map fst ps = node_windows n"
    using placements_exist(1) [OF assms] by blast
  then have "length ps = CountWindows n" by (metis length_map count_windows(1))
  with ps show ?thesis by blast
qed

definition example_options :: LayoutItemOptions where
  "example_options = \<lparr>lo_alignment = Align_stretch, lo_minimum_cross = Fin 0, lo_maximum_cross = PosInf,
    lo_preferred_size = None, lo_native_size = None\<rparr>"

definition example_row :: "nat LayoutNode" where
  "example_row = LayoutNode Layout_row (Fin 8) \<lparr>th_left = Fin 4, th_top = Fin 4, th_right = Fin 4, th_bottom = Fin 4\<rparr>
    [Window_child 1 (LayoutLength_Stretch (Fin 1) (Fin 0) (Fin 100)) example_options None,
     Window_child 2 (LayoutLength_Stretch (Fin 3) (Fin 0) PosInf) example_options None]"

theorem layout_returns_witness:
  "\<exists>ps. CollectPlacements (\<lambda>_. make_size (Fin 0) NaN) 96 example_row (make_rect (Fin 0) (Fin 0) (Fin 640) (Fin 480)) = Some ps
    \<and> map fst ps = [1, 2] \<and> length ps = 2"
proof -
  have "node_floats (\<lambda>_. make_size (Fin 0) NaN) 96 example_row"
    by (simp add: example_row_def length_floats_def size_floats_def float_value_def LayoutLength_Stretch_def
        example_options_def make_size_def)
  moreover have "node_windows example_row = [1, 2]" "CountWindows example_row = 2"
    by (simp_all add: example_row_def)
  ultimately show ?thesis by (metis layout_returns)
qed

section \<open>The host\<close>

text \<open>
  The calls of the host.  The batch of \<open>BeginDeferWindowPos\<close> belongs to the state; positions are left, upper
  edge, width and height.
\<close>

record ('w, 'h) layout_api =
  la_is_window :: "'h \<Rightarrow> 'w \<Rightarrow> bool"
  la_is_child :: "'h \<Rightarrow> 'h \<Rightarrow> 'w \<Rightarrow> bool"
  la_client_rect :: "'h \<Rightarrow> 'w \<Rightarrow> RECT option"
  la_window_rect :: "'h \<Rightarrow> 'w \<Rightarrow> RECT option"
  la_dpi :: "'h \<Rightarrow> 'w \<Rightarrow> nat"
  la_parent :: "'h \<Rightarrow> 'w \<Rightarrow> 'h"
  la_map_point :: "'h \<Rightarrow> 'h \<Rightarrow> POINT \<Rightarrow> 'w \<Rightarrow> POINT"
  la_begin_defer :: "nat \<Rightarrow> 'w \<Rightarrow> bool \<times> 'w"
  la_defer :: "'h \<Rightarrow> int \<times> int \<times> int \<times> int \<Rightarrow> 'w \<Rightarrow> bool \<times> 'w"
  la_end_defer :: "'w \<Rightarrow> bool \<times> 'w"
  la_set_pos :: "'h \<Rightarrow> int \<times> int \<times> int \<times> int \<Rightarrow> 'w \<Rightarrow> bool \<times> 'w"

definition DpiContext_FromWindow :: "('w, 'h, 'z) layout_api_scheme \<Rightarrow> 'h option \<Rightarrow> 'w \<Rightarrow> nat" where
  "DpiContext_FromWindow A window w =
    (case window of None \<Rightarrow> kDefaultDpi
     | Some h \<Rightarrow> if la_is_window A h w then DpiContext (la_dpi A h w) else kDefaultDpi)"

definition MeasureWindow :: "('w, 'h, 'z) layout_api_scheme \<Rightarrow> nat \<Rightarrow> 'w \<Rightarrow> 'h \<Rightarrow> SizeDip" where
  "MeasureWindow A dpi w h =
    (case la_window_rect A h w of
       None \<Rightarrow> make_size (Fin 0) (Fin 0)
     | Some r \<Rightarrow> make_size (FromPixels dpi (r_right r - r_left r)) (FromPixels dpi (r_bottom r - r_top r)))"

definition LayoutHost_GetPreferredSize ::
  "('w, 'h, 'z) layout_api_scheme \<Rightarrow> 'h LayoutNode option \<Rightarrow> 'h option \<Rightarrow> 'w \<Rightarrow> SizeDip" where
  "LayoutHost_GetPreferredSize A tree parent w =
    (case tree of None \<Rightarrow> make_size (Fin 0) (Fin 0)
     | Some n \<Rightarrow> let dpi = DpiContext_FromWindow A parent w in Measure (MeasureWindow A dpi w) dpi n)"

fun check_windows :: "('w, 'h, 'z) layout_api_scheme \<Rightarrow> 'h \<Rightarrow> 'h set \<Rightarrow> 'h list \<Rightarrow> 'w \<Rightarrow> bool" where
  "check_windows A parent unique [] w = True"
| "check_windows A parent unique (h # hs) w =
    (if \<not> la_is_window A h w \<or> \<not> la_is_child A parent h w \<or> h \<in> unique then False
     else check_windows A parent (insert h unique) hs w)"

definition native_position ::
  "('w, 'h, 'z) layout_api_scheme \<Rightarrow> nat \<Rightarrow> 'h \<Rightarrow> 'h \<times> RectDip \<Rightarrow> 'w \<Rightarrow> int \<times> int \<times> int \<times> int" where
  "native_position A dpi parent p w =
    (let pixels = ToPixels_rect dpi (snd p); native_parent = la_parent A (fst p) w;
         width = r_right pixels - r_left pixels; height = r_bottom pixels - r_top pixels
     in if native_parent \<noteq> parent
        then (let origin = la_map_point A parent native_parent \<lparr>px = r_left pixels, py = r_top pixels\<rparr> w
              in (px origin, py origin, width, height))
        else (r_left pixels, r_top pixels, width, height))"

fun defer_all ::
  "('w, 'h, 'z) layout_api_scheme \<Rightarrow> nat \<Rightarrow> 'h \<Rightarrow> ('h \<times> RectDip) list \<Rightarrow> 'w \<Rightarrow> bool \<times> 'w" where
  "defer_all A dpi parent [] w = (True, w)"
| "defer_all A dpi parent (p # ps) w =
    (case la_defer A (fst p) (native_position A dpi parent p w) w of
       (False, w1) \<Rightarrow> (False, w1)
     | (True, w1) \<Rightarrow> defer_all A dpi parent ps w1)"

fun set_all ::
  "('w, 'h, 'z) layout_api_scheme \<Rightarrow> nat \<Rightarrow> 'h \<Rightarrow> ('h \<times> RectDip) list \<Rightarrow> bool \<Rightarrow> 'w \<Rightarrow> bool \<times> 'w" where
  "set_all A dpi parent [] succeeded w = (succeeded, w)"
| "set_all A dpi parent (p # ps) succeeded w =
    (case la_set_pos A (fst p) (native_position A dpi parent p w) w of
       (moved, w1) \<Rightarrow> set_all A dpi parent ps (succeeded \<and> moved) w1)"

definition move_windows ::
  "('w, 'h, 'z) layout_api_scheme \<Rightarrow> nat \<Rightarrow> 'h \<Rightarrow> ('h \<times> RectDip) list \<Rightarrow> 'w \<Rightarrow> bool \<times> 'w" where
  "move_windows A dpi parent ps w =
    (let (deferred, w2) =
       (case la_begin_defer A (length ps) w of
          (False, w1) \<Rightarrow> (False, w1)
        | (True, w1) \<Rightarrow>
            (case defer_all A dpi parent ps w1 of
               (False, w2) \<Rightarrow> (False, w2)
             | (True, w2) \<Rightarrow> la_end_defer A w2))
     in if deferred then (True, w2) else set_all A dpi parent ps True w2)"

text \<open>\<open>None\<close> would be an arrangement that does not return.\<close>

definition LayoutHost_Arrange ::
  "('w, 'h, 'z) layout_api_scheme \<Rightarrow> 'h LayoutNode option \<Rightarrow> 'h option \<Rightarrow> 'w \<Rightarrow> bool option \<times> 'w" where
  "LayoutHost_Arrange A tree parent w =
    (case (tree, parent) of
       (Some n, Some parent) \<Rightarrow>
         if \<not> la_is_window A parent w then (Some False, w)
         else (case la_client_rect A parent w of
           None \<Rightarrow> (Some False, w)
         | Some client \<Rightarrow>
             (let dpi = DpiContext_FromWindow A (Some parent) w;
                  bounds = make_rect (Fin 0) (Fin 0) (FromPixels dpi (r_right client - r_left client))
                    (FromPixels dpi (r_bottom client - r_top client))
              in case CollectPlacements (MeasureWindow A dpi w) dpi n bounds of
                   None \<Rightarrow> (None, w)
                 | Some ps \<Rightarrow>
                     if \<not> check_windows A parent {} (map fst ps) w then (Some False, w)
                     else if ps = [] then (Some True, w)
                     else if int_max < int (length ps) then (Some False, w)
                     else (case move_windows A dpi parent ps w of (moved, w1) \<Rightarrow> (Some moved, w1))))
     | _ \<Rightarrow> (Some False, w))"

lemma check_windows_iff:
  "check_windows A parent unique hs w \<longleftrightarrow> distinct hs \<and> set hs \<inter> unique = {} \<and>
    (\<forall>h \<in> set hs. la_is_window A h w \<and> la_is_child A parent h w)"
  by (induction hs arbitrary: unique) auto

text \<open>A host touches no window unless all are its own.  If arranging changes anything, or reports
  success, then the windows of the tree are pairwise distinct live descendants of the parent.\<close>

theorem arrange_moves_only_own_windows:
  assumes "LayoutHost_Arrange A (Some n) (Some parent) w = (r, w')" and "w' \<noteq> w \<or> r = Some True"
    and "node_floats (MeasureWindow A (DpiContext_FromWindow A (Some parent) w) w)
      (DpiContext_FromWindow A (Some parent) w) n"
  shows "distinct (node_windows n) \<and> (\<forall>h \<in> set (node_windows n). la_is_window A h w \<and> la_is_child A parent h w)"
proof -
  let ?dpi = "DpiContext_FromWindow A (Some parent) w"
  obtain client where client: "la_client_rect A parent w = Some client"
    using assms(1,2) by (auto simp: LayoutHost_Arrange_def split: if_splits option.splits)
  let ?bounds = "make_rect (Fin 0) (Fin 0) (FromPixels ?dpi (r_right client - r_left client))
    (FromPixels ?dpi (r_bottom client - r_top client))"
  obtain ps where ps: "CollectPlacements (MeasureWindow A ?dpi w) ?dpi n ?bounds = Some ps"
    "map fst ps = node_windows n"
    using placements_exist(1) [OF assms(3), of ?bounds] by blast
  have "check_windows A parent {} (map fst ps) w"
    using assms(1,2) client ps(1) by (auto simp: LayoutHost_Arrange_def Let_def split: if_splits)
  then show ?thesis by (simp add: check_windows_iff ps(2))
qed

end
