(* ===== verification/Service.thy ===== *)
theory Service
  imports Command_Line Foundation
begin

text \<open>
  The service host (\<open>service.h\<close>, first half of \<open>service.cpp\<close>): the state machine, the state a running
  service shares with the control handler, the reports to the Service Control Manager, and the two ways
  of running a service.  The controls that arrive while the host waits for its worker are an explicit
  sequence.  Exceptions of a callback are values.
\<close>

section \<open>States\<close>

datatype ServiceState =
    Service_Stopped | Service_StartPending | Service_Running | Service_PausePending | Service_Paused
  | Service_ContinuePending | Service_StopPending

fun Allowed :: "ServiceState \<Rightarrow> ServiceState \<Rightarrow> bool" where
  "Allowed Service_Stopped next \<longleftrightarrow> next = Service_StartPending"
| "Allowed Service_StartPending next \<longleftrightarrow> next = Service_Running \<or> next = Service_StopPending"
| "Allowed Service_Running next \<longleftrightarrow> next = Service_PausePending \<or> next = Service_StopPending"
| "Allowed Service_PausePending next \<longleftrightarrow> next = Service_Paused \<or> next = Service_StopPending"
| "Allowed Service_Paused next \<longleftrightarrow> next = Service_ContinuePending \<or> next = Service_StopPending"
| "Allowed Service_ContinuePending next \<longleftrightarrow> next = Service_Running \<or> next = Service_StopPending"
| "Allowed Service_StopPending next \<longleftrightarrow> next = Service_Stopped"

definition ServiceStateMachine_Transition :: "ServiceState \<Rightarrow> ServiceState \<Rightarrow> bool \<times> ServiceState" where
  "ServiceStateMachine_Transition next state = (if \<not> Allowed state next then (False, state) else (True, next))"

fun NativeState :: "ServiceState \<Rightarrow> dword" where
  "NativeState Service_StartPending = 2"
| "NativeState Service_Running = 4"
| "NativeState Service_PausePending = 6"
| "NativeState Service_Paused = 7"
| "NativeState Service_ContinuePending = 5"
| "NativeState Service_StopPending = 3"
| "NativeState Service_Stopped = 1"

section \<open>The host\<close>

record ServiceExit =
  win32_code :: dword
  service_specific_code :: dword

record ServiceDefinition =
  svc_name :: wstring
  svc_display_name :: wstring
  svc_stop_timeout :: int
  svc_supports_pause :: bool

datatype ServiceControlKind =
  Control_Stop | Control_Shutdown | Control_Pause | Control_Continue | Control_Power | Control_Session
| Control_Custom

record ServiceControlEvent =
  ev_kind :: ServiceControlKind
  ev_native_control :: dword
  ev_event_type :: dword

datatype 'r callback_result = Returned 'r | Threw

text \<open>The callbacks; \<open>'a\<close> is the application's own state.\<close>

record 'a ServiceCallbacks =
  cb_control :: "(ServiceControlEvent \<Rightarrow> 'a \<Rightarrow> unit result callback_result \<times> 'a) option"
  cb_state_changed :: "(ServiceState \<Rightarrow> 'a \<Rightarrow> 'a) option"

record ServiceRuntimeState =
  rt_stop :: bool
  rt_paused :: bool

record SERVICE_STATUS =
  dwCurrentState :: dword
  dwControlsAccepted :: dword
  dwWin32ExitCode :: dword
  dwServiceSpecificExitCode :: dword
  dwCheckPoint :: dword
  dwWaitHint :: dword

text \<open>The globals of the host, with what it has reported to the manager and the application's state.\<close>

record 'a service_host =
  active_state :: "ServiceRuntimeState option"
  active_definition :: "ServiceDefinition option"
  active_callbacks :: "'a ServiceCallbacks option"
  status_registered :: bool
  active_status :: SERVICE_STATUS
  reported :: "SERVICE_STATUS list"
  application :: 'a

definition ERROR_SERVICE_SPECIFIC_ERROR :: dword where "ERROR_SERVICE_SPECIFIC_ERROR = 1066"
definition ERROR_EXCEPTION_IN_SERVICE :: dword where "ERROR_EXCEPTION_IN_SERVICE = 1064"
definition ERROR_SERVICE_REQUEST_TIMEOUT :: dword where "ERROR_SERVICE_REQUEST_TIMEOUT = 1053"
definition ERROR_CALL_NOT_IMPLEMENTED :: dword where "ERROR_CALL_NOT_IMPLEMENTED = 120"
definition ERROR_UNHANDLED_EXCEPTION :: dword where "ERROR_UNHANDLED_EXCEPTION = 574"
definition SERVICE_ACCEPT_STOP :: dword where "SERVICE_ACCEPT_STOP = 1"
definition SERVICE_ACCEPT_PAUSE_CONTINUE :: dword where "SERVICE_ACCEPT_PAUSE_CONTINUE = 2"
definition SERVICE_ACCEPT_SHUTDOWN :: dword where "SERVICE_ACCEPT_SHUTDOWN = 4"
definition SERVICE_ACCEPT_POWEREVENT :: dword where "SERVICE_ACCEPT_POWEREVENT = 0x40"
definition SERVICE_ACCEPT_SESSIONCHANGE :: dword where "SERVICE_ACCEPT_SESSIONCHANGE = 0x80"

definition controls_accepted :: "ServiceState \<Rightarrow> bool \<Rightarrow> dword" where
  "controls_accepted state pausable =
    (if state = Service_Running
     then SERVICE_ACCEPT_STOP OR SERVICE_ACCEPT_SHUTDOWN OR (if pausable then SERVICE_ACCEPT_PAUSE_CONTINUE else 0)
       OR SERVICE_ACCEPT_POWEREVENT OR SERVICE_ACCEPT_SESSIONCHANGE
     else 0)"

definition pausable :: "'a service_host \<Rightarrow> bool" where
  "pausable h \<longleftrightarrow> (case active_definition h of None \<Rightarrow> False | Some d \<Rightarrow> svc_supports_pause d)"

definition notify_application :: "ServiceState \<Rightarrow> 'a service_host \<Rightarrow> 'a service_host" where
  "notify_application state h =
    (case active_callbacks h of
       None \<Rightarrow> h
     | Some c \<Rightarrow> (case cb_state_changed c of None \<Rightarrow> h | Some f \<Rightarrow> h\<lparr>application := f state (application h)\<rparr>))"

definition NotifyState :: "ServiceState \<Rightarrow> dword \<Rightarrow> dword \<Rightarrow> dword \<Rightarrow> dword \<Rightarrow> 'a service_host \<Rightarrow> 'a service_host" where
  "NotifyState state win32 specific checkpoint hint h =
    (let h = notify_application state h
     in if \<not> status_registered h then h
        else (let status = \<lparr>dwCurrentState = NativeState state, dwControlsAccepted = controls_accepted state (pausable h),
                dwWin32ExitCode = (if specific \<noteq> 0 then ERROR_SERVICE_SPECIFIC_ERROR else win32),
                dwServiceSpecificExitCode = specific, dwCheckPoint = checkpoint, dwWaitHint = hint\<rparr>
              in h\<lparr>active_status := status, reported := reported h @ [status]\<rparr>))"

text \<open>The handler of console controls: Ctrl-C, Ctrl-Break, close and shutdown.\<close>

definition request_stop :: "'a service_host \<Rightarrow> 'a service_host" where
  "request_stop h = h\<lparr>active_state := map_option (\<lambda>s. s\<lparr>rt_stop := True\<rparr>) (active_state h)\<rparr>"

definition set_paused :: "bool \<Rightarrow> 'a service_host \<Rightarrow> 'a service_host" where
  "set_paused b h = h\<lparr>active_state := map_option (\<lambda>s. s\<lparr>rt_paused := b\<rparr>) (active_state h)\<rparr>"

definition ConsoleHandler :: "dword \<Rightarrow> 'a service_host \<Rightarrow> bool \<times> 'a service_host" where
  "ConsoleHandler control h =
    (if control \<notin> {0, 1, 2, 6} then (False, h) else (True, request_stop h))"

section \<open>Controls\<close>

definition control_kind :: "dword \<Rightarrow> ServiceControlKind option" where
  "control_kind control =
    (if control = 1 then Some Control_Stop
     else if control = 5 then Some Control_Shutdown
     else if control = 2 then Some Control_Pause
     else if control = 3 then Some Control_Continue
     else if control = 13 then Some Control_Power
     else if control = 14 then Some Control_Session
     else if 128 \<le> control then Some Control_Custom
     else None)"

definition stop_hint :: "'a service_host \<Rightarrow> dword" where
  "stop_hint h = (case active_definition h of None \<Rightarrow> 30000 | Some d \<Rightarrow> of_int (min (svc_stop_timeout d) 120000))"

definition obey :: "ServiceControlKind \<Rightarrow> 'a service_host \<Rightarrow> 'a service_host" where
  "obey kind h =
    (if kind = Control_Stop \<or> kind = Control_Shutdown
     then request_stop (NotifyState Service_StopPending 0 0 1 (stop_hint h) h)
     else if kind = Control_Pause \<and> pausable h
     then NotifyState Service_Paused 0 0 0 0 (set_paused True (NotifyState Service_PausePending 0 0 1 5000 h))
     else if kind = Control_Continue \<and> pausable h
     then NotifyState Service_Running 0 0 0 0 (set_paused False (NotifyState Service_ContinuePending 0 0 1 5000 h))
     else h)"

definition ask_application ::
  "ServiceControlEvent \<Rightarrow> 'a service_host \<Rightarrow> unit result callback_result \<times> 'a service_host" where
  "ask_application e h =
    (case active_callbacks h of
       None \<Rightarrow> (Returned (Inr ()), h)
     | Some c \<Rightarrow> (case cb_control c of
         None \<Rightarrow> (Returned (Inr ()), h)
       | Some f \<Rightarrow> (case f e (application h) of (r, a) \<Rightarrow> (r, h\<lparr>application := a\<rparr>))))"

definition ServiceControl :: "dword \<Rightarrow> dword \<Rightarrow> 'a service_host \<Rightarrow> dword \<times> 'a service_host" where
  "ServiceControl control event_type h =
    (if active_state h = None then (ERROR_SUCCESS, h)
     else case control_kind control of
       None \<Rightarrow>
         if control = 4
         then (ERROR_SUCCESS, if status_registered h then h\<lparr>reported := reported h @ [active_status h]\<rparr> else h)
         else (ERROR_CALL_NOT_IMPLEMENTED, h)
     | Some kind \<Rightarrow>
         (case ask_application \<lparr>ev_kind = kind, ev_native_control = control, ev_event_type = event_type\<rparr> h of
            (Threw, h1) \<Rightarrow> (ERROR_EXCEPTION_IN_SERVICE, h1)
          | (Returned (Inl e), h1) \<Rightarrow> (err_code e, h1)
          | (Returned (Inr _), h1) \<Rightarrow> (ERROR_SUCCESS, obey kind h1)))"

text \<open>What a running service asks of its context; a context without state is cancelled.  \<open>woken\<close> is whether
  the wait on the condition variable ended by its predicate.\<close>

definition ServiceContext_IsPaused :: "ServiceRuntimeState option \<Rightarrow> bool" where
  "ServiceContext_IsPaused s = (case s of None \<Rightarrow> False | Some s \<Rightarrow> rt_paused s)"

definition ServiceContext_WaitWhilePaused ::
  "ServiceRuntimeState option \<Rightarrow> (ServiceRuntimeState \<Rightarrow> bool \<times> ServiceRuntimeState) \<Rightarrow> unit OperationOutcome" where
  "ServiceContext_WaitWhilePaused s wait =
    (case s of
       None \<Rightarrow> Outcome_Control Cancelled
     | Some s \<Rightarrow>
         if \<not> rt_paused s then Outcome_Completed ()
         else (case wait s of (ready, s') \<Rightarrow>
           if rt_stop s' then Outcome_Control Cancelled
           else if ready then Outcome_Completed () else Outcome_Control TimedOut))"

section \<open>Running a service\<close>

text \<open>
  The calls of the service entry: registering the handler, starting the worker, one wait of a second for
  it, with the controls that were delivered meanwhile, the clock in nanoseconds, and the result of the
  run callback, \<open>Threw\<close> for an exception.
\<close>

record 'w service_api =
  register_handler :: "wstring \<Rightarrow> 'w \<Rightarrow> bool \<times> 'w"
  start_worker :: "'w \<Rightarrow> bool \<times> 'w"
  wait_worker :: "'w \<Rightarrow> bool \<times> (dword \<times> dword) list \<times> 'w"
  service_clock :: "'w \<Rightarrow> int"
  worker_result :: "'w \<Rightarrow> ServiceExit result callback_result"
  dispatch :: "'w \<Rightarrow> bool \<times> 'w"
  set_console_handler :: "bool \<Rightarrow> 'w \<Rightarrow> bool \<times> 'w"
  service_last_error :: "'w \<Rightarrow> dword"

definition Service_Invoke :: "ServiceExit result callback_result \<Rightarrow> ServiceExit result" where
  "Service_Invoke r =
    (case r of Returned x \<Rightarrow> x
     | Threw \<Rightarrow> Inl \<lparr>err_domain = Domain_Application, err_code = ERROR_UNHANDLED_EXCEPTION,
         err_operation = lit ''Service run callback'', err_detail = []\<rparr>)"

definition deliver :: "(dword \<times> dword) list \<Rightarrow> 'a service_host \<Rightarrow> 'a service_host" where
  "deliver controls h = foldl (\<lambda>h (control, event_type). snd (ServiceControl control event_type h)) h controls"

definition stop_requested_in :: "'a service_host \<Rightarrow> bool" where
  "stop_requested_in h \<longleftrightarrow> (case active_state h of None \<Rightarrow> False | Some s \<Rightarrow> rt_stop s)"

definition allowed_stop :: "'a service_host \<Rightarrow> int" where
  "allowed_stop h = (case active_definition h of None \<Rightarrow> 30000 | Some d \<Rightarrow> svc_stop_timeout d)"

text \<open>The wait for the worker; the result is the host and whether the stop timed out.\<close>

partial_function (option) entry_loop ::
  "'w service_api \<Rightarrow> dword \<Rightarrow> int option \<Rightarrow> bool \<Rightarrow> 'a service_host \<Rightarrow> 'w \<Rightarrow> ('a service_host \<times> bool \<times> 'w) option" where
  "entry_loop A checkpoint stop_started timed_out h w =
    (case wait_worker A w of (finished, controls, w1) \<Rightarrow>
      let h = deliver controls h
      in if finished then Some (h, timed_out, w1)
         else if \<not> stop_requested_in h then entry_loop A checkpoint stop_started timed_out h w1
         else
           (let started = (case stop_started of None \<Rightarrow> service_clock A w1 | Some t \<Rightarrow> t)
            in if \<not> timed_out \<and> allowed_stop h * 1000000 \<le> service_clock A w1 - started
               then entry_loop A (checkpoint + 1) (Some started) True
                 (NotifyState Service_StopPending ERROR_SERVICE_REQUEST_TIMEOUT 0 (checkpoint + 1) 1000 h) w1
               else entry_loop A (checkpoint + 1) (Some started) timed_out
                 (NotifyState Service_StopPending (if timed_out then ERROR_SERVICE_REQUEST_TIMEOUT else 0) 0
                   (checkpoint + 1) (if timed_out then 1000 else of_int (allowed_stop h)) h) w1))"

definition exit_of :: "bool \<Rightarrow> ServiceExit result \<Rightarrow> ServiceExit" where
  "exit_of timed_out r =
    (let exit = (case r of Inr e \<Rightarrow> e | Inl e \<Rightarrow> \<lparr>win32_code = err_code e, service_specific_code = 0\<rparr>)
     in if timed_out \<and> win32_code exit = ERROR_SUCCESS then exit\<lparr>win32_code := ERROR_SERVICE_REQUEST_TIMEOUT\<rparr> else exit)"

definition finish_entry :: "ServiceExit \<Rightarrow> 'a service_host \<Rightarrow> 'a service_host" where
  "finish_entry exit h =
    (NotifyState Service_Stopped (win32_code exit) (service_specific_code exit) 0 0 h)\<lparr>status_registered := False\<rparr>"

definition ServiceEntry :: "'w service_api \<Rightarrow> 'a service_host \<Rightarrow> 'w \<Rightarrow> ('a service_host \<times> 'w) option" where
  "ServiceEntry A h w =
    (case active_definition h of
       None \<Rightarrow> None
     | Some d \<Rightarrow>
       (case register_handler A (until_nul (svc_name d)) w of
          (False, w1) \<Rightarrow> Some (h\<lparr>status_registered := False\<rparr>, w1)
        | (True, w1) \<Rightarrow>
           (let h = NotifyState Service_StartPending 0 0 1 10000 (h\<lparr>status_registered := True\<rparr>);
                h = NotifyState Service_Running 0 0 0 0 (h\<lparr>active_state := Some \<lparr>rt_stop = False, rt_paused = False\<rparr>\<rparr>)
            in case start_worker A w1 of
                 (False, w2) \<Rightarrow> Some (finish_entry \<lparr>win32_code = ERROR_EXCEPTION_IN_SERVICE, service_specific_code = 0\<rparr> h, w2)
               | (True, w2) \<Rightarrow>
                   (case entry_loop A 1 None False h w2 of
                      None \<Rightarrow> None
                    | Some (h, timed_out, w3) \<Rightarrow>
                        Some (finish_entry (exit_of timed_out (Service_Invoke (worker_result A w3)))
                          (h\<lparr>active_state := None\<rparr>), w3)))))"

text \<open>
  \<open>RunWindowsService\<close>: the dispatcher calls the entry; \<open>dispatch\<close> says whether it could.  In
  \<open>RunServiceConsole\<close> the run callback is called directly; a failure to install the handler returns with
  the globals still set.
\<close>

definition RunWindowsService ::
  "'w service_api \<Rightarrow> ServiceDefinition \<Rightarrow> bool \<Rightarrow> 'a ServiceCallbacks \<Rightarrow> 'a service_host \<Rightarrow> 'w
    \<Rightarrow> (dword \<times> 'a service_host \<times> 'w) option" where
  "RunWindowsService A d has_run callbacks h w =
    (if svc_name d = [] \<or> \<not> has_run then Some (ERROR_INVALID_PARAMETER, h, w)
     else
       (let h = h\<lparr>active_definition := Some d, active_callbacks := Some callbacks\<rparr>
        in case dispatch A w of
             (False, w1) \<Rightarrow> Some (service_last_error A w1, h\<lparr>active_definition := None, active_callbacks := None\<rparr>, w1)
           | (True, w1) \<Rightarrow>
               map_option (\<lambda>(h, w2). (ERROR_SUCCESS, h\<lparr>active_definition := None, active_callbacks := None\<rparr>, w2))
                 (ServiceEntry A h w1)))"

definition console_result :: "ServiceExit result \<Rightarrow> dword" where
  "console_result r =
    (case r of Inl e \<Rightarrow> err_code e
     | Inr e \<Rightarrow> if service_specific_code e \<noteq> 0 then ERROR_SERVICE_SPECIFIC_ERROR else win32_code e)"

definition RunServiceConsole ::
  "'w service_api \<Rightarrow> ServiceDefinition \<Rightarrow> bool \<Rightarrow> 'a ServiceCallbacks \<Rightarrow> 'a service_host \<Rightarrow> 'w
    \<Rightarrow> dword \<times> 'a service_host \<times> 'w" where
  "RunServiceConsole A d has_run callbacks h w =
    (if svc_name d = [] \<or> \<not> has_run then (ERROR_INVALID_PARAMETER, h, w)
     else
       (let h = h\<lparr>active_state := Some \<lparr>rt_stop = False, rt_paused = False\<rparr>, active_definition := Some d,
              active_callbacks := Some callbacks\<rparr>
        in case set_console_handler A True w of
             (False, w1) \<Rightarrow> (service_last_error A w1, h, w1)
           | (True, w1) \<Rightarrow>
               (let h = notify_application Service_Running h
                in case set_console_handler A False w1 of
                     (_, w2) \<Rightarrow> (console_result (Service_Invoke (worker_result A w1)),
                       h\<lparr>active_state := None, active_definition := None, active_callbacks := None\<rparr>, w2))))"

section \<open>Controls, one by one\<close>

lemma NotifyState_keeps [simp]:
  "active_state (NotifyState s e x c t h) = active_state h"
  "active_definition (NotifyState s e x c t h) = active_definition h"
  "active_callbacks (NotifyState s e x c t h) = active_callbacks h"
  "status_registered (NotifyState s e x c t h) = status_registered h"
  by (simp_all add: NotifyState_def notify_application_def Let_def split: option.splits)

lemma NotifyState_reports:
  assumes "status_registered h"
  shows "\<exists>st. reported (NotifyState s e x c t h) = reported h @ [st] \<and> active_status (NotifyState s e x c t h) = st
    \<and> dwCurrentState st = NativeState s \<and> dwControlsAccepted st = controls_accepted s (pausable h)
    \<and> dwWin32ExitCode st = (if x \<noteq> 0 then ERROR_SERVICE_SPECIFIC_ERROR else e)"
  using assms by (auto simp: NotifyState_def notify_application_def Let_def pausable_def split: option.splits)

lemma requests_keep [simp]:
  "reported (request_stop h) = reported h" "active_status (request_stop h) = active_status h"
  "status_registered (request_stop h) = status_registered h" "active_definition (request_stop h) = active_definition h"
  "pausable (request_stop h) = pausable h"
  "reported (set_paused b h) = reported h" "active_status (set_paused b h) = active_status h"
  "status_registered (set_paused b h) = status_registered h" "active_definition (set_paused b h) = active_definition h"
  "pausable (set_paused b h) = pausable h"
  by (simp_all add: request_stop_def set_paused_def pausable_def)

lemma pausable_NotifyState [simp]: "pausable (NotifyState s e x c t h) = pausable h"
  by (simp add: pausable_def)

text \<open>Asking the application touches nothing but its own state.\<close>

lemma own_state: "\<exists>a. h = h\<lparr>application := a\<rparr>"
  by (rule exI [of _ "application h"]) simp

lemma ask_application_frame: "ask_application e h = (r, h1) \<Longrightarrow> \<exists>a. h1 = h\<lparr>application := a\<rparr>"
  using own_state [of h] by (auto simp: ask_application_def split: option.splits prod.splits)

lemma refused_control_changes_nothing:
  assumes "ServiceControl control event_type h = (code, h')" and "code \<noteq> ERROR_SUCCESS"
  shows "\<exists>a. h' = h\<lparr>application := a\<rparr>"
  using assms own_state [of h]
  by (auto simp: ServiceControl_def split: if_splits option.splits prod.splits callback_result.splits sum.splits
      dest: ask_application_frame)

text \<open>The code of a stop or shutdown that the application does not refuse.\<close>

lemma accepted_stop_is_requested:
  assumes "ServiceControl control event_type h = (ERROR_SUCCESS, h')" and "active_state h = Some s"
    and "control = 1 \<or> control = 5" and "\<And>e a r a'. ask_application e h = (Returned (Inl r), a') \<Longrightarrow> err_code r \<noteq> 0"
  shows "stop_requested_in h'"
proof -
  obtain kind where kind: "control_kind control = Some kind" "kind = Control_Stop \<or> kind = Control_Shutdown"
    using assms(3) by (auto simp: control_kind_def)
  obtain r h1 where ask: "ask_application \<lparr>ev_kind = kind, ev_native_control = control, ev_event_type = event_type\<rparr> h = (r, h1)"
    by fastforce
  obtain a where h1: "h1 = h\<lparr>application := a\<rparr>" using ask_application_frame [OF ask] by blast
  have "r = Returned (Inr ())"
    using assms(1,2,4) kind(1) ask
    by (auto simp: ServiceControl_def ERROR_SUCCESS_def ERROR_EXCEPTION_IN_SERVICE_def
        split: callback_result.splits sum.splits)
  then have "h' = obey kind h1" using assms(1,2) kind(1) ask by (simp add: ServiceControl_def)
  moreover have "active_state h1 = Some s" using h1 assms(2) by simp
  ultimately show ?thesis using kind(2)
    by (auto simp: obey_def stop_requested_in_def request_stop_def)
qed

section \<open>The life of a service\<close>

text \<open>What one delivered control may do to the reports of a running service.\<close>

definition live_code :: "SERVICE_STATUS \<Rightarrow> bool" where
  "live_code st \<longleftrightarrow> dwCurrentState st \<in> {3, 4, 5, 6, 7}"

definition life :: "'a service_host \<Rightarrow> bool \<Rightarrow> 'a service_host \<Rightarrow> bool" where
  "life h0 timed_out h \<longleftrightarrow> status_registered h \<and> active_definition h = active_definition h0 \<and>
    (\<exists>mid. reported h = reported h0 @ mid \<and>
      (\<forall>st \<in> set (active_status h # mid). live_code st \<and> (dwWin32ExitCode st \<noteq> 0 \<longrightarrow> timed_out)))"

lemma life_notify:
  assumes "life h0 timed_out h" and "s \<noteq> Service_Stopped" "s \<noteq> Service_StartPending"
    and "e \<noteq> 0 \<longrightarrow> late" "timed_out \<longrightarrow> late"
  shows "life h0 late (NotifyState s e 0 c t h)"
proof -
  obtain st where st: "reported (NotifyState s e 0 c t h) = reported h @ [st]"
    "active_status (NotifyState s e 0 c t h) = st" "dwCurrentState st = NativeState s" "dwWin32ExitCode st = e"
    using NotifyState_reports [of h s e 0 c t] assms(1) by (auto simp: life_def)
  have "live_code st" using st(3) assms(2,3) by (cases s) (auto simp: live_code_def)
  then show ?thesis using st assms(1,4,5) by (auto simp: life_def)
qed

lemma life_frame:
  "life h0 t h \<Longrightarrow> life h0 t (h\<lparr>application := a\<rparr>)"
  "life h0 t h \<Longrightarrow> life h0 t (request_stop h)"
  "life h0 t h \<Longrightarrow> life h0 t (set_paused b h)"
  "life h0 t h \<Longrightarrow> life h0 t (h\<lparr>reported := reported h @ [active_status h]\<rparr>)"
  by (auto simp: life_def)

lemma life_step:
  "life h0 t h \<Longrightarrow> s \<noteq> Service_Stopped \<Longrightarrow> s \<noteq> Service_StartPending \<Longrightarrow> life h0 t (NotifyState s 0 0 c x h)"
  using life_notify [of h0 t h s 0 t c x] by simp

lemma life_obey: "life h0 t h \<Longrightarrow> life h0 t (obey kind h)"
  unfolding obey_def by (auto intro!: life_step life_frame(2,3))

lemma life_control:
  assumes "life h0 t h" and "ServiceControl c e h = (r, h')"
  shows "life h0 t h'"
proof (cases "control_kind c")
  case None
  with assms show ?thesis by (auto simp: ServiceControl_def life_frame split: if_splits)
next
  case (Some kind)
  obtain x h1 where ask: "ask_application \<lparr>ev_kind = kind, ev_native_control = c, ev_event_type = e\<rparr> h = (x, h1)"
    by fastforce
  obtain a where "h1 = h\<lparr>application := a\<rparr>" using ask_application_frame [OF ask] by blast
  with assms(1) have "life h0 t h1" by (simp add: life_frame)
  moreover have "h' \<in> {h, h1, obey kind h1}"
    using assms(2) Some ask by (auto simp: ServiceControl_def split: if_splits callback_result.splits sum.splits)
  ultimately show ?thesis using assms(1) life_obey by blast
qed

lemma life_deliver: "life h0 t h \<Longrightarrow> life h0 t (deliver controls h)"
proof (induction controls arbitrary: h)
  case (Cons c cs)
  obtain control event where c: "c = (control, event)" by (cases c)
  obtain r h' where "ServiceControl control event h = (r, h')" by fastforce
  with Cons life_control c show ?case by (fastforce simp: deliver_def)
qed (simp add: deliver_def)

text \<open>The state after a number of waits, and the end of the wait.\<close>

fun waits :: "('w, 'z) service_api_scheme \<Rightarrow> nat \<Rightarrow> 'w \<Rightarrow> 'w" where
  "waits A 0 w = w"
| "waits A (Suc n) w = waits A n (snd (snd (wait_worker A w)))"

lemma entry_loop_life:
  assumes "fst (wait_worker A (waits A n w))" and "life h0 t h"
  shows "\<exists>h' t' w'. entry_loop A checkpoint started t h w = Some (h', t', w') \<and> life h0 t' h'"
  using assms
proof (induction n arbitrary: w h t checkpoint started)
  case 0
  then obtain controls w1 where "wait_worker A w = (True, controls, w1)"
    by (cases "wait_worker A w") auto
  then show ?case using life_deliver [OF 0(2)] by (subst entry_loop.simps) simp
next
  case (Suc n)
  obtain finished controls w1 where wait: "wait_worker A w = (finished, controls, w1)"
    by (cases "wait_worker A w") auto
  let ?h = "deliver controls h"
  have alive: "life h0 t ?h" by (rule life_deliver [OF Suc.prems(2)])
  have again: "\<exists>h' t' w'. entry_loop A checkpoint started t h w1 = Some (h', t', w') \<and> life h0 t' h'"
    if "life h0 t h" for checkpoint started t h
    using Suc.IH [of w1 t h] Suc.prems(1) wait that by simp
  show ?case
  proof (cases finished)
    case True
    then show ?thesis using wait alive by (subst entry_loop.simps) simp
  next
    case False
    have late: "life h0 True (NotifyState Service_StopPending ERROR_SERVICE_REQUEST_TIMEOUT 0 c x ?h)" for c x
      by (rule life_notify [OF alive]) simp_all
    have on_time: "life h0 t (NotifyState Service_StopPending (if t then ERROR_SERVICE_REQUEST_TIMEOUT else 0) 0 c x ?h)"
      for c x by (rule life_notify [OF alive]) simp_all
    show ?thesis using wait False again [OF alive] again [OF late] again [OF on_time]
      by (subst entry_loop.simps) (auto simp: Let_def)
  qed
qed


text \<open>A service whose worker ends at the fourth wait; a stop is delivered during the first.\<close>

definition example_service :: "(nat, unit) service_api_scheme" where
  "example_service = \<lparr>register_handler = \<lambda>name w. (True, w), start_worker = \<lambda>w. (True, w),
    wait_worker = \<lambda>w. (3 \<le> w, if w = 0 then [(1, 0)] else [], Suc w), service_clock = \<lambda>w. int w * 1000000000,
    worker_result = \<lambda>w. Returned (Inr \<lparr>win32_code = 0, service_specific_code = 0\<rparr>), dispatch = \<lambda>w. (True, w),
    set_console_handler = \<lambda>b w. (True, w), service_last_error = \<lambda>w. 0, \<dots> = ()\<rparr>"

definition example_definition :: ServiceDefinition where
  "example_definition = \<lparr>svc_name = lit ''spool'', svc_display_name = lit ''Spooler'', svc_stop_timeout = 30000,
    svc_supports_pause = True\<rparr>"

definition example_host :: "unit service_host" where
  "example_host = \<lparr>active_state = None, active_definition = Some example_definition,
    active_callbacks = Some \<lparr>cb_control = None, cb_state_changed = None\<rparr>, status_registered = False,
    active_status = \<lparr>dwCurrentState = 0, dwControlsAccepted = 0, dwWin32ExitCode = 0, dwServiceSpecificExitCode = 0,
      dwCheckPoint = 0, dwWaitHint = 0\<rparr>, reported = [], application = ()\<rparr>"


section \<open>A paused service\<close>

text \<open>
  The controls the Service Control Manager passes on to a service with the given last report: interrogation
  and the user-defined controls always, the others when the report accepts them.
\<close>

definition deliverable :: "SERVICE_STATUS \<Rightarrow> dword \<Rightarrow> bool" where
  "deliverable st control \<longleftrightarrow> control = 4 \<or> 128 \<le> control
    \<or> control = 1 \<and> dwControlsAccepted st AND SERVICE_ACCEPT_STOP \<noteq> 0
    \<or> (control = 2 \<or> control = 3) \<and> dwControlsAccepted st AND SERVICE_ACCEPT_PAUSE_CONTINUE \<noteq> 0
    \<or> control = 5 \<and> dwControlsAccepted st AND SERVICE_ACCEPT_SHUTDOWN \<noteq> 0
    \<or> control = 13 \<and> dwControlsAccepted st AND SERVICE_ACCEPT_POWEREVENT \<noteq> 0
    \<or> control = 14 \<and> dwControlsAccepted st AND SERVICE_ACCEPT_SESSIONCHANGE \<noteq> 0"

fun deliver_accepted :: "(dword \<times> dword) list \<Rightarrow> 'a service_host \<Rightarrow> 'a service_host" where
  "deliver_accepted [] h = h"
| "deliver_accepted ((control, event_type) # cs) h =
    deliver_accepted cs (if deliverable (active_status h) control then snd (ServiceControl control event_type h) else h)"

definition parked :: "ServiceRuntimeState \<Rightarrow> 'a service_host \<Rightarrow> bool" where
  "parked s h \<longleftrightarrow> active_state h = Some s \<and> dwCurrentState (active_status h) = 7 \<and> dwControlsAccepted (active_status h) = 0"

lemma parked_application [simp]: "parked s (h\<lparr>application := a\<rparr>) \<longleftrightarrow> parked s h"
  by (simp add: parked_def)

lemma parked_stays:
  assumes "parked s h" and "deliverable (active_status h) control"
  shows "parked s (snd (ServiceControl control event_type h))"
proof (cases "control = 4")
  case True
  with assms(1) show ?thesis by (auto simp: ServiceControl_def control_kind_def parked_def)
next
  case False
  with assms have big: "128 \<le> control" by (simp add: deliverable_def parked_def)
  then have "control \<notin> {1, 5, 2, 3, 13, 14}" by (auto simp: word_le_nat_alt)
  with big have kind: "control_kind control = Some Control_Custom" by (simp add: control_kind_def)
  obtain x h1 where ask: "ask_application \<lparr>ev_kind = Control_Custom, ev_native_control = control, ev_event_type = event_type\<rparr> h = (x, h1)"
    by fastforce
  obtain a where "h1 = h\<lparr>application := a\<rparr>" using ask_application_frame [OF ask] by blast
  then show ?thesis using assms(1) kind ask
    by (auto simp: ServiceControl_def obey_def split: callback_result.splits sum.splits)
qed

lemma parked_forever: "parked s h \<Longrightarrow> parked s (deliver_accepted controls h)"
  by (induction controls h rule: deliver_accepted.induct) (simp_all add: parked_stays)

text \<open>A paused service can be neither continued nor stopped.  Once a pause is obeyed, the report of the
  paused state accepts no control, so the manager passes on none that ends the pause: whatever sequence
  of controls is requested, the service stays paused and no stop request reaches it.\<close>

theorem paused_service_accepts_no_control:
  assumes "active_state h = Some s" and "status_registered h" and "pausable h"
    and "ask_application \<lparr>ev_kind = Control_Pause, ev_native_control = 2, ev_event_type = e\<rparr> h = (Returned (Inr ()), h1)"
  shows "\<exists>h2. ServiceControl 2 e h = (ERROR_SUCCESS, h2)
    \<and> (\<forall>controls. active_state (deliver_accepted controls h2) = Some (s\<lparr>rt_paused := True\<rparr>)
      \<and> dwCurrentState (active_status (deliver_accepted controls h2)) = 7)"
proof -
  obtain a where h1: "h1 = h\<lparr>application := a\<rparr>" using ask_application_frame [OF assms(4)] by blast
  have pause: "pausable h1" "status_registered h1" using h1 assms(2,3) by (simp_all add: pausable_def)
  let ?h2 = "NotifyState Service_Paused 0 0 0 0 (set_paused True (NotifyState Service_PausePending 0 0 1 5000 h1))"
  have control: "ServiceControl 2 e h = (ERROR_SUCCESS, ?h2)"
    using assms(1,4) pause(1) by (simp add: ServiceControl_def control_kind_def obey_def)
  have "active_state ?h2 = Some (s\<lparr>rt_paused := True\<rparr>)" using h1 assms(1) by (simp add: set_paused_def)
  moreover have "dwCurrentState (active_status ?h2) = 7 \<and> dwControlsAccepted (active_status ?h2) = 0"
    using NotifyState_reports [of "set_paused True (NotifyState Service_PausePending 0 0 1 5000 h1)" Service_Paused 0 0 0 0]
      pause(2) by (auto simp: controls_accepted_def)
  ultimately have "parked (s\<lparr>rt_paused := True\<rparr>) ?h2" by (simp add: parked_def)
  then have "\<And>controls. parked (s\<lparr>rt_paused := True\<rparr>) (deliver_accepted controls ?h2)" by (rule parked_forever)
  then show ?thesis using control by (auto simp: parked_def)
qed

definition running_host :: "unit service_host" where
  "running_host = example_host\<lparr>active_state := Some \<lparr>rt_stop = False, rt_paused = False\<rparr>, status_registered := True\<rparr>"

theorem paused_service_accepts_no_control_witness:
  "\<exists>h2. ServiceControl 2 0 running_host = (ERROR_SUCCESS, h2)
    \<and> active_state (deliver_accepted [(1, 0), (3, 0)] h2) = Some \<lparr>rt_stop = False, rt_paused = True\<rparr>"
proof -
  have "active_state running_host = Some \<lparr>rt_stop = False, rt_paused = False\<rparr>" "status_registered running_host"
    "pausable running_host"
    "ask_application \<lparr>ev_kind = Control_Pause, ev_native_control = 2, ev_event_type = 0\<rparr> running_host
      = (Returned (Inr ()), running_host)"
    by (simp_all add: running_host_def example_host_def example_definition_def pausable_def ask_application_def)
  from paused_service_accepts_no_control [OF this] show ?thesis by (auto simp del: deliver_accepted.simps)
qed

end
