(* ===== verification/Service_Manager.thy ===== *)
theory Service_Manager
  imports Command_Line
begin

text \<open>
  The client of the Service Control Manager (\<open>service.h\<close>, second half of \<open>service.cpp\<close>): querying a
  service, planning and applying its installation, starting, stopping and controlling it.  The calls of
  the manager are a parameter; a call that fails yields the error it sets, and closing a handle keeps no
  state here.  \<open>lower\<close> is the folding \<open>_wcsicmp\<close> uses.
\<close>

datatype ServiceAccount = Account_LocalSystem | Account_LocalService | Account_NetworkService

record ServiceInstallSpec =
  spec_name :: wstring
  spec_display_name :: wstring
  spec_executable :: wstring
  spec_arguments :: "wstring list"
  spec_account :: ServiceAccount
  spec_start_type :: dword

record ServiceSnapshot =
  ssnap_name :: wstring
  ssnap_display_name :: wstring
  ssnap_binary_path :: wstring
  ssnap_account_name :: wstring
  ssnap_start_type :: dword
  ssnap_state :: dword
  ssnap_process_id :: dword
  ssnap_win32_exit_code :: dword
  ssnap_service_specific_exit_code :: dword

definition no_service :: ServiceSnapshot where
  "no_service = \<lparr>ssnap_name = [], ssnap_display_name = [], ssnap_binary_path = [], ssnap_account_name = [],
    ssnap_start_type = 3, ssnap_state = 1, ssnap_process_id = 0, ssnap_win32_exit_code = 0,
    ssnap_service_specific_exit_code = 0\<rparr>"

datatype ServiceQueryStatus = Query_Found | Query_NotFound

record ServiceQueryResult =
  query_status :: ServiceQueryStatus
  query_snapshot :: ServiceSnapshot

record ServiceMutationResult =
  mut_created :: bool
  mut_changed :: bool
  mut_changed_fields :: "wstring list"
  mut_snapshot :: ServiceSnapshot

record ServiceChangePlan =
  splan_desired :: ServiceInstallSpec
  splan_current :: ServiceQueryResult
  splan_required :: bool
  splan_creates :: bool
  splan_changed_fields :: "wstring list"

text \<open>What the manager stores of a service and what it reports of its process; a null string is \<open>None\<close>.\<close>

record service_config =
  cfg_display :: "wstring option"
  cfg_command :: "wstring option"
  cfg_account :: "wstring option"
  cfg_start :: dword

record process_status =
  ps_state :: dword
  ps_process :: dword
  ps_exit :: dword
  ps_specific :: dword

record ('w, 'h) manager_api = "('w, 'h) timer_api" +
  sc_open_manager :: "dword \<Rightarrow> 'w \<Rightarrow> (dword + 'h) \<times> 'w"
  sc_open :: "'h option \<Rightarrow> wstring \<Rightarrow> dword \<Rightarrow> 'w \<Rightarrow> (dword + 'h) \<times> 'w"
  sc_config_size :: "'h \<Rightarrow> 'w \<Rightarrow> dword"
  sc_config :: "'h \<Rightarrow> dword \<Rightarrow> 'w \<Rightarrow> dword + service_config"
  sc_status :: "'h \<Rightarrow> 'w \<Rightarrow> dword + process_status"
  sc_create :: "'h option \<Rightarrow> wstring \<Rightarrow> wstring \<Rightarrow> dword \<Rightarrow> dword \<Rightarrow> wstring \<Rightarrow> wstring \<Rightarrow> 'w \<Rightarrow> (dword + 'h) \<times> 'w"
  sc_change :: "'h \<Rightarrow> dword \<Rightarrow> wstring \<Rightarrow> wstring \<Rightarrow> wstring \<Rightarrow> 'w \<Rightarrow> dword \<times> 'w"
  sc_start :: "'h \<Rightarrow> 'w \<Rightarrow> dword \<times> 'w"
  sc_control :: "'h \<Rightarrow> dword \<Rightarrow> 'w \<Rightarrow> dword \<times> 'w"
  sc_delete :: "'h \<Rightarrow> 'w \<Rightarrow> dword \<times> 'w"

definition ERROR_SERVICE_DOES_NOT_EXIST :: dword where "ERROR_SERVICE_DOES_NOT_EXIST = 1060"
definition ERROR_SERVICE_ALREADY_RUNNING :: dword where "ERROR_SERVICE_ALREADY_RUNNING = 1056"
definition ERROR_SERVICE_NOT_ACTIVE :: dword where "ERROR_SERVICE_NOT_ACTIVE = 1062"
definition ERROR_SERVICE_MARKED_FOR_DELETE :: dword where "ERROR_SERVICE_MARKED_FOR_DELETE = 1072"

definition access_query :: dword where "access_query = 0x5"
definition access_change :: dword where "access_change = 0x7"
definition access_start :: dword where "access_start = 0x15"
definition access_stop :: dword where "access_stop = 0x25"
definition access_control :: dword where "access_control = 0x145"
definition access_delete :: dword where "access_delete = 0x10000"

fun AccountName :: "ServiceAccount \<Rightarrow> wstring" where
  "AccountName Account_LocalService = lit ''NT AUTHORITY'' @ [0x5C] @ lit ''LocalService''"
| "AccountName Account_NetworkService = lit ''NT AUTHORITY'' @ [0x5C] @ lit ''NetworkService''"
| "AccountName Account_LocalSystem = lit ''LocalSystem''"

definition Service_Quote :: "wstring \<Rightarrow> wstring" where
  "Service_Quote a = (if \<not> needs_quotes a then a else dquote # quote_from 0 a)"

definition BinaryCommand :: "ServiceInstallSpec \<Rightarrow> wstring" where
  "BinaryCommand spec =
    foldl (\<lambda>v a. v @ [0x20] @ Service_Quote a) (Service_Quote (spec_executable spec)) (spec_arguments spec)"

definition Service_Snapshot ::
  "('w, 'h, 'z) manager_api_scheme \<Rightarrow> 'h \<Rightarrow> wstring \<Rightarrow> 'w \<Rightarrow> ServiceSnapshot result" where
  "Service_Snapshot A service name w =
    (case sc_config A service (sc_config_size A service w) w of
       Inl e \<Rightarrow> Inl (SystemError_FromWin32 e)
     | Inr c \<Rightarrow>
         (case sc_status A service w of
            Inl e \<Rightarrow> Inl (SystemError_FromWin32 e)
          | Inr s \<Rightarrow> Inr \<lparr>ssnap_name = name, ssnap_display_name = case_option [] id (cfg_display c),
              ssnap_binary_path = case_option [] id (cfg_command c),
              ssnap_account_name = case_option [] id (cfg_account c), ssnap_start_type = cfg_start c,
              ssnap_state = ps_state s, ssnap_process_id = ps_process s, ssnap_win32_exit_code = ps_exit s,
              ssnap_service_specific_exit_code = ps_specific s\<rparr>))"

text \<open>The loop of \<open>WaitState\<close>; \<open>None\<close> would be a call that does not return.\<close>

partial_function (option) WaitState ::
  "('w, 'h, 'z) manager_api_scheme \<Rightarrow> 'h \<Rightarrow> wstring \<Rightarrow> dword \<Rightarrow> Deadline \<Rightarrow> 'w
    \<Rightarrow> (ServiceSnapshot OperationOutcome result \<times> 'w) option" where
  "WaitState A service name desired deadline w =
    (case Service_Snapshot A service name w of
       Inl e \<Rightarrow> Some (Inl e, w)
     | Inr s \<Rightarrow>
         if ssnap_state s = desired then Some (Inr (Outcome_Completed s), w)
         else if stop_requested A w then Some (Inr (Outcome_Control Cancelled), w)
         else if Deadline_Expired (wait_now A w) deadline then Some (Inr (Outcome_Control TimedOut), w)
         else case WaitForDelay A deadline 50 w of
           (Inl e, w1) \<Rightarrow> Some (Inl (SystemError_WithOperation ''Wait for service status change'' e), w1)
         | (Inr r, w1) \<Rightarrow>
             if r \<noteq> Completed then Some (Inr (Outcome_Control r), w1)
             else WaitState A service name desired deadline w1)"

section \<open>The manager\<close>

datatype ServiceManager_Access = Manager_Query | Manager_Manage

record 'h ServiceManager =
  sm_manager :: "'h option"
  sm_access :: ServiceManager_Access

definition ServiceManager_new :: "'h ServiceManager" where
  "ServiceManager_new = \<lparr>sm_manager = None, sm_access = Manager_Query\<rparr>"

text \<open>Moving hands the handle on.\<close>

definition ServiceManager_move :: "'h ServiceManager \<Rightarrow> 'h ServiceManager \<times> 'h ServiceManager" where
  "ServiceManager_move m = (m, m\<lparr>sm_manager := None\<rparr>)"

definition ServiceManager_Open ::
  "('w, 'h, 'z) manager_api_scheme \<Rightarrow> ServiceManager_Access \<Rightarrow> 'w \<Rightarrow> 'h ServiceManager result \<times> 'w" where
  "ServiceManager_Open A access w =
    (case sc_open_manager A (1 OR (if access = Manager_Manage then 2 else 0)) w of
       (Inl e, w1) \<Rightarrow> (Inl (failed_call ''OpenSCManagerW'' e), w1)
     | (Inr h, w1) \<Rightarrow> (Inr \<lparr>sm_manager = Some h, sm_access = access\<rparr>, w1))"

definition ServiceManager_Query ::
  "('w, 'h, 'z) manager_api_scheme \<Rightarrow> 'h ServiceManager \<Rightarrow> wstring \<Rightarrow> 'w \<Rightarrow> ServiceQueryResult result \<times> 'w" where
  "ServiceManager_Query A m name w =
    (case sc_open A (sm_manager m) (until_nul name) access_query w of
       (Inl e, w1) \<Rightarrow>
         (if e = ERROR_SERVICE_DOES_NOT_EXIST then Inr \<lparr>query_status = Query_NotFound, query_snapshot = no_service\<rparr>
          else Inl (SystemError_FromWin32 e), w1)
     | (Inr service, w1) \<Rightarrow>
         (map_sum id (\<lambda>s. \<lparr>query_status = Query_Found, query_snapshot = s\<rparr>) (Service_Snapshot A service name w1), w1))"

text \<open>\<open>_wcsicmp\<close> reads up to the terminator.\<close>

definition same_name :: "(wchar \<Rightarrow> wchar) \<Rightarrow> wstring \<Rightarrow> wstring \<Rightarrow> bool" where
  "same_name lower a b \<longleftrightarrow> map lower (until_nul a) = map lower (until_nul b)"

definition changed_fields :: "(wchar \<Rightarrow> wchar) \<Rightarrow> ServiceSnapshot \<Rightarrow> ServiceInstallSpec \<Rightarrow> wstring list" where
  "changed_fields lower s spec =
    (if ssnap_display_name s \<noteq> spec_display_name spec then [lit ''display_name''] else []) @
    (if ssnap_binary_path s \<noteq> BinaryCommand spec then [lit ''binary_path''] else []) @
    (if ssnap_start_type s \<noteq> spec_start_type spec then [lit ''start_type''] else []) @
    (if \<not> same_name lower (ssnap_account_name s) (AccountName (spec_account spec)) then [lit ''account''] else [])"

definition ServiceManager_Plan ::
  "('w, 'h, 'z) manager_api_scheme \<Rightarrow> (wchar \<Rightarrow> wchar) \<Rightarrow> 'h ServiceManager \<Rightarrow> ServiceInstallSpec \<Rightarrow> 'w
    \<Rightarrow> ServiceChangePlan result \<times> 'w" where
  "ServiceManager_Plan A lower m spec w =
    (if spec_name spec = [] \<or> spec_executable spec = [] then (Inl (SystemError_FromWin32 ERROR_INVALID_PARAMETER), w)
     else case ServiceManager_Query A m (spec_name spec) w of
       (Inl e, w1) \<Rightarrow> (Inl e, w1)
     | (Inr current, w1) \<Rightarrow>
         (let creates = query_status current = Query_NotFound;
              changes = (if creates then [] else changed_fields lower (query_snapshot current) spec)
          in (Inr \<lparr>splan_desired = spec, splan_current = current, splan_required = creates \<or> changes \<noteq> [],
                splan_creates = creates, splan_changed_fields = changes\<rparr>, w1)))"

text \<open>\<open>Apply\<close>: the change of an existing service, and the whole operation.\<close>

definition change_service ::
  "('w, 'h, 'z) manager_api_scheme \<Rightarrow> (wchar \<Rightarrow> wchar) \<Rightarrow> ServiceInstallSpec \<Rightarrow> 'h \<Rightarrow> 'w
    \<Rightarrow> wstring list result \<times> 'w" where
  "change_service A lower spec service w =
    (case Service_Snapshot A service (spec_name spec) w of
       Inl e \<Rightarrow> (Inl e, w)
     | Inr before \<Rightarrow>
         (let changes = changed_fields lower before spec
          in if changes = [] then (Inr changes, w)
             else case sc_change A service (spec_start_type spec) (until_nul (BinaryCommand spec))
                 (AccountName (spec_account spec)) (until_nul (spec_display_name spec)) w of
               (e, w1) \<Rightarrow> (if e \<noteq> 0 then Inl (SystemError_FromWin32 e) else Inr changes, w1)))"

definition finish_apply ::
  "('w, 'h, 'z) manager_api_scheme \<Rightarrow> wstring \<Rightarrow> 'h \<Rightarrow> bool \<Rightarrow> bool \<Rightarrow> wstring list \<Rightarrow> 'w
    \<Rightarrow> ServiceMutationResult result" where
  "finish_apply A name service created changed changes w =
    map_sum id (\<lambda>s. \<lparr>mut_created = created, mut_changed = changed, mut_changed_fields = changes, mut_snapshot = s\<rparr>)
      (Service_Snapshot A service name w)"

definition install_service ::
  "('w, 'h, 'z) manager_api_scheme \<Rightarrow> (wchar \<Rightarrow> wchar) \<Rightarrow> 'h ServiceManager \<Rightarrow> ServiceInstallSpec \<Rightarrow> 'w
    \<Rightarrow> ServiceMutationResult result \<times> 'w" where
  "install_service A lower m spec w =
    (case sc_open A (sm_manager m) (until_nul (spec_name spec)) access_change w of
       (Inr service, w1) \<Rightarrow>
         (case change_service A lower spec service w1 of
            (Inl e, w2) \<Rightarrow> (Inl e, w2)
          | (Inr changes, w2) \<Rightarrow> (finish_apply A (spec_name spec) service False (changes \<noteq> []) changes w2, w2))
     | (Inl e, w1) \<Rightarrow>
         if e \<noteq> ERROR_SERVICE_DOES_NOT_EXIST then (Inl (SystemError_FromWin32 e), w1)
         else case sc_create A (sm_manager m) (until_nul (spec_name spec)) (until_nul (spec_display_name spec))
             access_change (spec_start_type spec) (until_nul (BinaryCommand spec)) (AccountName (spec_account spec)) w1 of
           (Inl e, w2) \<Rightarrow> (Inl (SystemError_FromWin32 e), w2)
         | (Inr service, w2) \<Rightarrow> (finish_apply A (spec_name spec) service True True [] w2, w2))"

definition ServiceManager_Apply ::
  "('w, 'h, 'z) manager_api_scheme \<Rightarrow> (wchar \<Rightarrow> wchar) \<Rightarrow> 'h ServiceManager \<Rightarrow> ServiceChangePlan \<Rightarrow> 'w
    \<Rightarrow> ServiceMutationResult result \<times> 'w" where
  "ServiceManager_Apply A lower m plan w =
    (if sm_access m \<noteq> Manager_Manage then (Inl (failed_call ''ServiceManager opened for query'' ERROR_ACCESS_DENIED), w)
     else case ServiceManager_Plan A lower m (splan_desired plan) w of
       (Inl e, w1) \<Rightarrow> (Inl e, w1)
     | (Inr p, w1) \<Rightarrow>
         if \<not> splan_required p
         then (Inr \<lparr>mut_created = False, mut_changed = False, mut_changed_fields = [],
             mut_snapshot = query_snapshot (splan_current p)\<rparr>, w1)
         else install_service A lower m (splan_desired p) w1)"

definition ServiceManager_Start ::
  "('w, 'h, 'z) manager_api_scheme \<Rightarrow> 'h ServiceManager \<Rightarrow> wstring \<Rightarrow> Deadline \<Rightarrow> 'w
    \<Rightarrow> (ServiceSnapshot OperationOutcome result \<times> 'w) option" where
  "ServiceManager_Start A m name deadline w =
    (case sc_open A (sm_manager m) (until_nul name) access_start w of
       (Inl e, w1) \<Rightarrow> Some (Inl (SystemError_FromWin32 e), w1)
     | (Inr service, w1) \<Rightarrow>
         (case sc_start A service w1 of (e, w2) \<Rightarrow>
           if e \<noteq> 0 \<and> e \<noteq> ERROR_SERVICE_ALREADY_RUNNING then Some (Inl (SystemError_FromWin32 e), w2)
           else WaitState A service name 4 deadline w2))"

definition ServiceManager_Stop ::
  "('w, 'h, 'z) manager_api_scheme \<Rightarrow> 'h ServiceManager \<Rightarrow> wstring \<Rightarrow> Deadline \<Rightarrow> 'w
    \<Rightarrow> (ServiceSnapshot OperationOutcome result \<times> 'w) option" where
  "ServiceManager_Stop A m name deadline w =
    (case sc_open A (sm_manager m) (until_nul name) access_stop w of
       (Inl e, w1) \<Rightarrow> Some (Inl (SystemError_FromWin32 e), w1)
     | (Inr service, w1) \<Rightarrow>
         (case sc_control A service 1 w1 of (e, w2) \<Rightarrow>
           if e \<noteq> 0 \<and> e \<noteq> ERROR_SERVICE_NOT_ACTIVE then Some (Inl (SystemError_FromWin32 e), w2)
           else WaitState A service name 1 deadline w2))"

definition ServiceManager_SendControl ::
  "('w, 'h, 'z) manager_api_scheme \<Rightarrow> 'h ServiceManager \<Rightarrow> wstring \<Rightarrow> dword \<Rightarrow> 'w
    \<Rightarrow> ServiceSnapshot result \<times> 'w" where
  "ServiceManager_SendControl A m name control w =
    (case sc_open A (sm_manager m) (until_nul name) access_control w of
       (Inl e, w1) \<Rightarrow> (Inl (SystemError_FromWin32 e), w1)
     | (Inr service, w1) \<Rightarrow>
         (case sc_control A service control w1 of (e, w2) \<Rightarrow>
           (if e \<noteq> 0 then Inl (SystemError_FromWin32 e) else Service_Snapshot A service name w2, w2)))"

definition ServiceManager_Remove ::
  "('w, 'h, 'z) manager_api_scheme \<Rightarrow> 'h ServiceManager \<Rightarrow> wstring \<Rightarrow> 'w \<Rightarrow> bool result \<times> 'w" where
  "ServiceManager_Remove A m name w =
    (case sc_open A (sm_manager m) (until_nul name) access_delete w of
       (Inl e, w1) \<Rightarrow>
         (if e = ERROR_SERVICE_DOES_NOT_EXIST then Inr False else Inl (SystemError_FromWin32 e), w1)
     | (Inr service, w1) \<Rightarrow>
         (case sc_delete A service w1 of (e, w2) \<Rightarrow>
           (if e \<noteq> 0 \<and> e \<noteq> ERROR_SERVICE_MARKED_FOR_DELETE then Inl (SystemError_FromWin32 e) else Inr True, w2)))"

section \<open>The command line of a service\<close>

lemma BinaryCommand_is_command: "BinaryCommand spec = process_command (spec_executable spec) (spec_arguments spec)"
  by (simp add: BinaryCommand_def process_command_def Service_Quote_def [abs_def] QuoteWindowsArgument_def [abs_def])

definition spec_without_nul :: "ServiceInstallSpec \<Rightarrow> bool" where
  "spec_without_nul spec \<longleftrightarrow> 0 \<notin> set (spec_display_name spec) \<and> 0 \<notin> set (spec_executable spec)
    \<and> (\<forall>a \<in> set (spec_arguments spec). 0 \<notin> set a)"

lemma command_without_nul: "spec_without_nul spec \<Longrightarrow> until_nul (BinaryCommand spec) = BinaryCommand spec"
  by (simp add: BinaryCommand_is_command process_command_units spec_without_nul_def)

section \<open>The manager the operations rely on\<close>

text \<open>
  What the Service Control Manager documents: the configurations it keeps change only by creating,
  changing and deleting; a service is opened only if there is one and reported missing only if there is
  none; the configuration read is the one stored, and a created or changed service has the given one.
  \<open>key\<close> is what tells names of services apart.
\<close>

definition services_ok ::
  "('w, 'h, 'z) manager_api_scheme \<Rightarrow> (wstring \<Rightarrow> wstring) \<Rightarrow> ('h \<Rightarrow> wstring)
    \<Rightarrow> ('w \<Rightarrow> wstring \<Rightarrow> service_config option) \<Rightarrow> bool" where
  "services_ok A key opened stored \<longleftrightarrow>
    (\<forall>m n a w h w'. sc_open A m n a w = (Inr h, w') \<longrightarrow>
      stored w' = stored w \<and> opened h = key n \<and> stored w (key n) \<noteq> None) \<and>
    (\<forall>m n a w e w'. sc_open A m n a w = (Inl e, w') \<longrightarrow>
      stored w' = stored w \<and> (e = ERROR_SERVICE_DOES_NOT_EXIST \<longrightarrow> stored w (key n) = None)) \<and>
    (\<forall>m n d a s c u w h w'. sc_create A m n d a s c u w = (Inr h, w') \<longrightarrow> opened h = key n \<and>
      stored w' = (stored w)(key n \<mapsto> \<lparr>cfg_display = Some d, cfg_command = Some c, cfg_account = Some u, cfg_start = s\<rparr>)) \<and>
    (\<forall>h s c u d w w'. sc_change A h s c u d w = (0, w') \<longrightarrow>
      stored w' = (stored w)(opened h \<mapsto> \<lparr>cfg_display = Some d, cfg_command = Some c, cfg_account = Some u, cfg_start = s\<rparr>)) \<and>
    (\<forall>h b w c. sc_config A h b w = Inr c \<longrightarrow> stored w (opened h) = Some c)"

lemma services_opened:
  "services_ok A key opened stored \<Longrightarrow> sc_open A m n a w = (Inr h, w') \<Longrightarrow>
    stored w' = stored w \<and> opened h = key n \<and> stored w (key n) \<noteq> None"
  unfolding services_ok_def by metis

lemma services_not_opened:
  "services_ok A key opened stored \<Longrightarrow> sc_open A m n a w = (Inl e, w') \<Longrightarrow>
    stored w' = stored w \<and> (e = ERROR_SERVICE_DOES_NOT_EXIST \<longrightarrow> stored w (key n) = None)"
  unfolding services_ok_def by metis

lemma services_created:
  "services_ok A key opened stored \<Longrightarrow> sc_create A m n d a s c u w = (Inr h, w') \<Longrightarrow> opened h = key n \<and>
    stored w' = (stored w)(key n \<mapsto> \<lparr>cfg_display = Some d, cfg_command = Some c, cfg_account = Some u, cfg_start = s\<rparr>)"
  unfolding services_ok_def by metis

lemma services_changed:
  "services_ok A key opened stored \<Longrightarrow> sc_change A h s c u d w = (0, w') \<Longrightarrow>
    stored w' = (stored w)(opened h \<mapsto> \<lparr>cfg_display = Some d, cfg_command = Some c, cfg_account = Some u, cfg_start = s\<rparr>)"
  unfolding services_ok_def by metis

lemma services_config:
  "services_ok A key opened stored \<Longrightarrow> sc_config A h b w = Inr c \<Longrightarrow> stored w (opened h) = Some c"
  unfolding services_ok_def by metis

text \<open>The configuration a plan asks for, up to the case of the account.\<close>

definition config_matches :: "(wchar \<Rightarrow> wchar) \<Rightarrow> ServiceInstallSpec \<Rightarrow> service_config \<Rightarrow> bool" where
  "config_matches lower spec c \<longleftrightarrow> case_option [] id (cfg_display c) = spec_display_name spec
    \<and> case_option [] id (cfg_command c) = BinaryCommand spec \<and> cfg_start c = spec_start_type spec
    \<and> same_name lower (case_option [] id (cfg_account c)) (AccountName (spec_account spec))"

lemma snapshot_config:
  assumes "services_ok A key opened stored" and "Service_Snapshot A h name w = Inr s"
  obtains c where "stored w (opened h) = Some c" "changed_fields lower s spec = [] \<longleftrightarrow> config_matches lower spec c"
proof -
  obtain c where c: "sc_config A h (sc_config_size A h w) w = Inr c"
    "ssnap_display_name s = case_option [] id (cfg_display c)" "ssnap_binary_path s = case_option [] id (cfg_command c)"
    "ssnap_account_name s = case_option [] id (cfg_account c)" "ssnap_start_type s = cfg_start c"
    using assms(2) by (auto simp: Service_Snapshot_def split: sum.splits)
  have "changed_fields lower s spec = [] \<longleftrightarrow> config_matches lower spec c"
    using c by (auto simp: changed_fields_def config_matches_def)
  with services_config [OF assms(1) c(1)] show ?thesis by (rule that)
qed

lemma plan_query:
  assumes "services_ok A key opened stored" and "ServiceManager_Plan A lower m spec w = (Inr p, w')"
  shows "stored w' = stored w" and "splan_desired p = spec"
    and "splan_creates p \<longleftrightarrow> stored w (key (until_nul (spec_name spec))) = None"
    and "splan_required p \<longleftrightarrow> \<not> (\<exists>c. stored w (key (until_nul (spec_name spec))) = Some c \<and> config_matches lower spec c)"
    and "\<not> splan_required p \<Longrightarrow> splan_changed_fields p = [] \<and> changed_fields lower (query_snapshot (splan_current p)) spec = []"
proof -
  let ?key = "key (until_nul (spec_name spec))"
  obtain current where query: "ServiceManager_Query A m (spec_name spec) w = (Inr current, w')"
    and p: "splan_desired p = spec" "splan_current p = current"
    "splan_creates p \<longleftrightarrow> query_status current = Query_NotFound"
    "splan_changed_fields p = (if splan_creates p then [] else changed_fields lower (query_snapshot current) spec)"
    "splan_required p \<longleftrightarrow> splan_creates p \<or> splan_changed_fields p \<noteq> []"
    using assms(2) by (auto simp: ServiceManager_Plan_def Let_def split: if_splits prod.splits sum.splits)
  obtain r w1 where op: "sc_open A (sm_manager m) (until_nul (spec_name spec)) access_query w = (r, w1)" by fastforce
  show "splan_desired p = spec" by (rule p)
  show "\<not> splan_required p \<Longrightarrow> splan_changed_fields p = [] \<and> changed_fields lower (query_snapshot (splan_current p)) spec = []"
    using p by auto
  have "stored w' = stored w \<and> (splan_creates p \<longleftrightarrow> stored w ?key = None) \<and>
    (splan_required p \<longleftrightarrow> \<not> (\<exists>c. stored w ?key = Some c \<and> config_matches lower spec c))"
  proof (cases r)
    case (Inl e)
    with query op have "e = ERROR_SERVICE_DOES_NOT_EXIST" "query_status current = Query_NotFound" "w' = w1"
      by (auto simp: ServiceManager_Query_def split: if_splits)
    then show ?thesis using p services_not_opened [OF assms(1)] op Inl by simp
  next
    case (Inr service)
    with query op obtain s where s: "Service_Snapshot A service (spec_name spec) w1 = Inr s" "w' = w1"
      "query_status current = Query_Found" "query_snapshot current = s"
      by (cases "Service_Snapshot A service (spec_name spec) w1") (auto simp: ServiceManager_Query_def)
    have opened: "stored w1 = stored w" "opened service = ?key"
      using services_opened [OF assms(1)] op Inr by blast+
    obtain c where "stored w1 (opened service) = Some c" "changed_fields lower s spec = [] \<longleftrightarrow> config_matches lower spec c"
      using snapshot_config [OF assms(1) s(1)] by blast
    with opened s p show ?thesis by simp
  qed
  then show "stored w' = stored w" "splan_creates p \<longleftrightarrow> stored w ?key = None"
    "splan_required p \<longleftrightarrow> \<not> (\<exists>c. stored w ?key = Some c \<and> config_matches lower spec c)" by blast+
qed

lemma spec_config_matches:
  "config_matches lower spec \<lparr>cfg_display = Some (spec_display_name spec), cfg_command = Some (BinaryCommand spec),
    cfg_account = Some (AccountName (spec_account spec)), cfg_start = spec_start_type spec\<rparr>"
  by (simp add: config_matches_def same_name_def)

text \<open>What applying leaves behind: a service with the configuration, reported as such.\<close>

lemma install_service_matches:
  assumes "services_ok A key opened stored" and "install_service A lower m spec w = (Inr r, w')" and "spec_without_nul spec"
  shows "(\<exists>c. stored w' (key (until_nul (spec_name spec))) = Some c \<and> config_matches lower spec c)
    \<and> changed_fields lower (mut_snapshot r) spec = []
    \<and> (mut_created r \<longleftrightarrow> stored w (key (until_nul (spec_name spec))) = None)
    \<and> (\<not> mut_changed r \<longrightarrow> stored w' = stored w)"
proof -
  let ?key = "key (until_nul (spec_name spec))"
  note texts = command_without_nul [OF assms(3)]
  have display: "until_nul (spec_display_name spec) = spec_display_name spec"
    using assms(3) by (simp add: spec_without_nul_def until_nul_id)
  obtain x w1 where op: "sc_open A (sm_manager m) (until_nul (spec_name spec)) access_change w = (x, w1)" by fastforce
  have finish: ?thesis if last: "finish_apply A (spec_name spec) service created changed changes w' = Inr r"
    "opened service = ?key" "stored w' ?key = Some c" "config_matches lower spec c"
    "created \<longleftrightarrow> stored w ?key = None" "\<not> changed \<longrightarrow> stored w' = stored w" for service created changed changes c
  proof -
    obtain s where s: "Service_Snapshot A service (spec_name spec) w' = Inr s" "mut_snapshot r = s"
      "mut_created r = created" "mut_changed r = changed"
      using last(1) by (cases "Service_Snapshot A service (spec_name spec) w'") (auto simp: finish_apply_def)
    obtain c' where "stored w' (opened service) = Some c'" "changed_fields lower s spec = [] \<longleftrightarrow> config_matches lower spec c'"
      using snapshot_config [OF assms(1) s(1)] by blast
    then show ?thesis using last s by auto
  qed
  show ?thesis
  proof (cases x)
    case (Inl e)
    with assms(2) op texts display obtain service where created: "e = ERROR_SERVICE_DOES_NOT_EXIST"
      "sc_create A (sm_manager m) (until_nul (spec_name spec)) (spec_display_name spec) access_change (spec_start_type spec)
        (BinaryCommand spec) (AccountName (spec_account spec)) w1 = (Inr service, w')"
      "finish_apply A (spec_name spec) service True True [] w' = Inr r"
      by (auto simp: install_service_def split: if_splits prod.splits sum.splits)
    have "stored w ?key = None" using services_not_opened [OF assms(1)] op Inl created(1) by blast
    with created(3) show ?thesis using services_created [OF assms(1) created(2)] spec_config_matches
      by (intro finish [of service True True "[]"]) auto
  next
    case (Inr service)
    have opened: "stored w1 = stored w" "opened service = ?key" "stored w ?key \<noteq> None"
      using services_opened [OF assms(1)] op Inr by blast+
    from Inr assms(2) op obtain changes where change: "change_service A lower spec service w1 = (Inr changes, w')"
      "finish_apply A (spec_name spec) service False (changes \<noteq> []) changes w' = Inr r"
      by (auto simp: install_service_def split: prod.splits sum.splits)
    then obtain before where before: "Service_Snapshot A service (spec_name spec) w1 = Inr before"
      "changes = changed_fields lower before spec"
      by (auto simp: change_service_def Let_def split: if_splits prod.splits sum.splits)
    obtain c where c: "stored w1 (opened service) = Some c" "changes = [] \<longleftrightarrow> config_matches lower spec c"
      using snapshot_config [OF assms(1) before(1)] before(2) by blast
    show ?thesis
    proof (cases "changes = []")
      case True
      then have "w' = w1" using change(1) before by (auto simp: change_service_def Let_def)
      with True change(2) opened c show ?thesis by (intro finish [of service False False "[]" c]) auto
    next
      case False
      with change(1) before texts display have "sc_change A service (spec_start_type spec) (BinaryCommand spec)
          (AccountName (spec_account spec)) (spec_display_name spec) w1 = (0, w')"
        by (auto simp: change_service_def Let_def split: prod.splits if_splits)
      from services_changed [OF assms(1) this] change(2) opened False spec_config_matches
      show ?thesis by (intro finish [of service False True changes]) auto
    qed
  qed
qed


section \<open>Waiting for a state\<close>

text \<open>Starting and stopping a service always returns.  With a deadline that is not infinite, and a clock
  that does not go back, both operations end whatever states the service reports; a completed outcome is
  a snapshot of the wanted state.\<close>

lemma WaitState_returns:
  assumes "waits_ok A" and "\<not> deadline_infinite d"
  shows "\<exists>r w'. WaitState A service name desired d w = Some (r, w')
    \<and> (\<forall>s. r = Inr (Outcome_Completed s) \<longrightarrow> ssnap_state s = desired)"
proof (induction "nat (deadline_end d - wait_now A w)" arbitrary: w rule: less_induct)
  case less
  obtain t w1 where waited: "WaitForDelay A d 50 w = (t, w1)" by fastforce
  have control: "Outcome_Control c \<noteq> Outcome_Completed s" for c and s :: ServiceSnapshot
    by (simp add: Outcome_Control_def Outcome_Completed_def)
  have completed: "s = s'" if "Outcome_Completed s = Outcome_Completed s'" for s s' :: ServiceSnapshot
    using that by (simp add: Outcome_Completed_def)
  show ?case
  proof (cases "t = Inr Completed \<and> \<not> Deadline_Expired (wait_now A w) d")
    case True
    with WaitForDelay_clock [OF assms(1)] waited assms(2)
    have "nat (deadline_end d - wait_now A w1) < nat (deadline_end d - wait_now A w)"
      by (auto simp: Deadline_Expired_def)
    from less [OF this] waited True show ?thesis
      by (subst WaitState.simps) (auto simp: control dest: completed split: sum.splits)
  next
    case False
    with waited show ?thesis
      by (subst WaitState.simps) (auto simp: control dest: completed split: sum.splits)
  qed
qed

lemma service_operations_return:
  assumes "waits_ok A" and "\<not> deadline_infinite d"
  shows "ServiceManager_Start A m name d w \<noteq> None" and "ServiceManager_Stop A m name d w \<noteq> None"
proof -
  have returns: "WaitState A service name desired d w' \<noteq> None" for service desired w'
    using WaitState_returns [OF assms, of service name desired w'] by blast
  show "ServiceManager_Start A m name d w \<noteq> None"
    using returns unfolding ServiceManager_Start_def by (simp split: prod.splits sum.splits)
  show "ServiceManager_Stop A m name d w \<noteq> None"
    using returns unfolding ServiceManager_Stop_def by (simp split: prod.splits sum.splits)
qed

section \<open>Examples\<close>

text \<open>A manager in memory: its state is the services by name, and a handle is a name.\<close>

definition memory_manager :: "(wstring \<Rightarrow> service_config option, wstring) manager_api" where
  "memory_manager = \<lparr>stop_requested = \<lambda>w. False, create_event = \<lambda>w. (True, w), wait_two = \<lambda>h t w. (0, w),
    wait_now = \<lambda>w. 0, wait_last_error = \<lambda>w. 0, create_precise_timer = \<lambda>w. (Inr [], w),
    create_timer = \<lambda>w. (Inr [], w), set_timer = \<lambda>h due w. (True, w),
    sc_open_manager = \<lambda>a w. (Inr [], w),
    sc_open = \<lambda>m n a w. (if w n = None then Inl ERROR_SERVICE_DOES_NOT_EXIST else Inr n, w),
    sc_config_size = \<lambda>h w. 0,
    sc_config = \<lambda>h b w. (case w h of None \<Rightarrow> Inl ERROR_SERVICE_DOES_NOT_EXIST | Some c \<Rightarrow> Inr c),
    sc_status = \<lambda>h w. Inr \<lparr>ps_state = 1, ps_process = 0, ps_exit = 0, ps_specific = 0\<rparr>,
    sc_create = \<lambda>m n d a s c u w. (Inr n, w(n \<mapsto>
      \<lparr>cfg_display = Some d, cfg_command = Some c, cfg_account = Some u, cfg_start = s\<rparr>)),
    sc_change = \<lambda>h s c u d w. (0, w(h \<mapsto>
      \<lparr>cfg_display = Some d, cfg_command = Some c, cfg_account = Some u, cfg_start = s\<rparr>)),
    sc_start = \<lambda>h w. (0, w), sc_control = \<lambda>h c w. (0, w), sc_delete = \<lambda>h w. (0, w(h := None))\<rparr>"

lemma memory_manager_ok: "services_ok memory_manager (\<lambda>n. n) (\<lambda>h. h) (\<lambda>w. w)"
  by (auto simp: services_ok_def memory_manager_def split: if_splits option.splits)

definition example_spec :: ServiceInstallSpec where
  "example_spec = \<lparr>spec_name = lit ''spool'', spec_display_name = lit ''Spooler'',
    spec_executable = lit ''my spooler.exe'', spec_arguments = [lit ''--service''],
    spec_account = Account_LocalService, spec_start_type = 3\<rparr>"

definition example_service_plan :: ServiceChangePlan where
  "example_service_plan = \<lparr>splan_desired = example_spec,
    splan_current = \<lparr>query_status = Query_NotFound, query_snapshot = no_service\<rparr>, splan_required = True,
    splan_creates = True, splan_changed_fields = []\<rparr>"

definition example_manager :: "wstring ServiceManager" where
  "example_manager = \<lparr>sm_manager = Some [], sm_access = Manager_Manage\<rparr>"

lemma example_service_created:
  "\<exists>r w. ServiceManager_Apply memory_manager id example_manager example_service_plan Map.empty = (Inr r, w)"
  by (simp add: ServiceManager_Apply_def ServiceManager_Plan_def ServiceManager_Query_def install_service_def
      finish_apply_def Service_Snapshot_def memory_manager_def example_manager_def example_service_plan_def
      example_spec_def Let_def)


end
