(* ===== verification/Document_Tabs.thy ===== *)
theory Document_Tabs
  imports Workspace_Transfer Tab_Workspace Foundation Dpi
begin

text \<open>
  Document pages and their tabs (\<open>document_tabs.h\<close>, \<open>document_tabs.cpp\<close>): an adapter binds documents of a
  workspace to page windows beside a tab control, projects the workspace on the control, and moves a
  document together with its page between two workspaces.  Windows are a parameter.
\<close>

record ('w, 'h) tabs_api =
  ta_is_window :: "'h \<Rightarrow> 'w \<Rightarrow> bool"
  ta_thread_process :: "'h \<Rightarrow> 'w \<Rightarrow> u32 \<times> u32"
  ta_current_process :: u32
  ta_current_thread :: u32
  ta_parent :: "'h \<Rightarrow> 'w \<Rightarrow> 'h option"
  ta_set_parent :: "'h \<Rightarrow> 'h option \<Rightarrow> 'w \<Rightarrow> 'h option \<times> 'w"
  ta_window_rect :: "'h \<Rightarrow> 'w \<Rightarrow> RECT option"
  ta_map_points :: "'h option \<Rightarrow> RECT \<Rightarrow> 'w \<Rightarrow> int \<times> RECT"
  ta_adjust_rect :: "'h \<Rightarrow> RECT \<Rightarrow> 'w \<Rightarrow> RECT"
  ta_set_pos :: "'h \<Rightarrow> int \<times> int \<times> int \<times> int \<Rightarrow> 'w \<Rightarrow> bool \<times> 'w"
  ta_clear :: "'h \<Rightarrow> 'w \<Rightarrow> bool \<times> 'w"
  ta_count :: "'h \<Rightarrow> 'w \<Rightarrow> int"
  ta_insert :: "'h \<Rightarrow> int \<Rightarrow> wstring \<Rightarrow> u64 \<Rightarrow> 'w \<Rightarrow> int \<times> 'w"
  ta_select :: "'h \<Rightarrow> int \<Rightarrow> 'w \<Rightarrow> int \<times> 'w"
  ta_selection :: "'h \<Rightarrow> 'w \<Rightarrow> int"
  ta_item :: "'h \<Rightarrow> int \<Rightarrow> 'w \<Rightarrow> u64 option"
  ta_show :: "'h \<Rightarrow> bool \<Rightarrow> 'w \<Rightarrow> 'w"
  ta_focus :: "'h \<Rightarrow> 'w \<Rightarrow> 'w"

record 'h DocumentPageBinding =
  pb_document :: u64
  pb_page :: 'h

datatype DocumentTabStatus =
    DocumentTab_success | DocumentTab_invalid_argument | DocumentTab_not_attached | DocumentTab_not_found
  | DocumentTab_stale_window | DocumentTab_invalid_parent | DocumentTab_wrong_thread_or_process
  | DocumentTab_model_failure | DocumentTab_native_failure | DocumentTab_rollback_failure
  | DocumentTab_projection_failure

type_synonym DocumentTabResult = "DocumentTabStatus \<times> u64 option"

record 'h DocumentTabWorkspaceAdapter =
  da_tabs :: "'h option"
  da_ui_thread :: u32
  da_process :: u32
  da_pages :: "'h DocumentPageBinding list"

definition DocumentTabs_new :: "'h DocumentTabWorkspaceAdapter" where
  "DocumentTabs_new = \<lparr>da_tabs = None, da_ui_thread = 0, da_process = 0, da_pages = []\<rparr>"

section \<open>The adapter\<close>

definition DocumentTabs_IsAttached ::
  "('w, 'h, 'z) tabs_api_scheme \<Rightarrow> 'h DocumentTabWorkspaceAdapter \<Rightarrow> 'w \<Rightarrow> bool" where
  "DocumentTabs_IsAttached A a w \<longleftrightarrow>
    (case da_tabs a of None \<Rightarrow> False
     | Some t \<Rightarrow> ta_is_window A t w \<and> ta_thread_process A t w = (da_ui_thread a, da_process a))"

definition tabs_parent :: "('w, 'h, 'z) tabs_api_scheme \<Rightarrow> 'h DocumentTabWorkspaceAdapter \<Rightarrow> 'w \<Rightarrow> 'h option" where
  "tabs_parent A a w = (case da_tabs a of None \<Rightarrow> None | Some t \<Rightarrow> ta_parent A t w)"

definition DocumentTabs_IsValidPage ::
  "('w, 'h, 'z) tabs_api_scheme \<Rightarrow> 'h DocumentTabWorkspaceAdapter \<Rightarrow> 'h option \<Rightarrow> 'w \<Rightarrow> bool" where
  "DocumentTabs_IsValidPage A a page w \<longleftrightarrow>
    (case page of None \<Rightarrow> False
     | Some p \<Rightarrow> DocumentTabs_IsAttached A a w \<and> ta_is_window A p w \<and> ta_parent A p w = tabs_parent A a w
         \<and> ta_thread_process A p w = (da_ui_thread a, da_process a))"

definition DocumentTabs_Attach ::
  "('w, 'h, 'z) tabs_api_scheme \<Rightarrow> 'h option \<Rightarrow> 'h DocumentTabWorkspaceAdapter \<Rightarrow> 'w
    \<Rightarrow> DocumentTabStatus \<times> 'h DocumentTabWorkspaceAdapter" where
  "DocumentTabs_Attach A tabs a w =
    (case tabs of
       None \<Rightarrow> (DocumentTab_invalid_argument, a)
     | Some t \<Rightarrow>
         if \<not> ta_is_window A t w then (DocumentTab_invalid_argument, a)
         else case ta_thread_process A t w of (thread, process) \<Rightarrow>
           if thread = 0 \<or> process \<noteq> ta_current_process A \<or> thread \<noteq> ta_current_thread A
           then (DocumentTab_wrong_thread_or_process, a)
           else (DocumentTab_success,
             \<lparr>da_tabs = Some t, da_ui_thread = thread, da_process = process, da_pages = []\<rparr>))"

definition DocumentTabs_Detach :: "'h DocumentTabWorkspaceAdapter \<Rightarrow> 'h DocumentTabWorkspaceAdapter" where
  "DocumentTabs_Detach a = \<lparr>da_tabs = None, da_ui_thread = 0, da_process = 0, da_pages = []\<rparr>"

definition DocumentTabs_FindPageIndex :: "u64 \<Rightarrow> 'h DocumentTabWorkspaceAdapter \<Rightarrow> nat option" where
  "DocumentTabs_FindPageIndex document a = find_index (\<lambda>b. pb_document b = document) (da_pages a)"

definition DocumentTabs_FindPage :: "u64 \<Rightarrow> 'h DocumentTabWorkspaceAdapter \<Rightarrow> 'h option" where
  "DocumentTabs_FindPage document a =
    (case DocumentTabs_FindPageIndex document a of None \<Rightarrow> None | Some k \<Rightarrow> Some (pb_page (da_pages a ! k)))"

definition DocumentTabs_BindPage ::
  "('w, 'h, 'z) tabs_api_scheme \<Rightarrow> u64 \<Rightarrow> 'h option \<Rightarrow> 'h DocumentTabWorkspaceAdapter \<Rightarrow> 'w
    \<Rightarrow> DocumentTabStatus \<times> 'h DocumentTabWorkspaceAdapter" where
  "DocumentTabs_BindPage A document page a w =
    (case page of
       None \<Rightarrow> (DocumentTab_invalid_argument, a)
     | Some p \<Rightarrow>
         if document = 0 then (DocumentTab_invalid_argument, a)
         else if \<not> DocumentTabs_IsAttached A a w then (DocumentTab_not_attached, a)
         else if \<not> ta_is_window A p w then (DocumentTab_stale_window, a)
         else if ta_parent A p w \<noteq> tabs_parent A a w then (DocumentTab_invalid_parent, a)
         else if ta_thread_process A p w \<noteq> (da_ui_thread a, da_process a)
         then (DocumentTab_wrong_thread_or_process, a)
         else if DocumentTabs_FindPageIndex document a \<noteq> None \<or> list_ex (\<lambda>b. pb_page b = p) (da_pages a)
         then (DocumentTab_invalid_argument, a)
         else (DocumentTab_success, a\<lparr>da_pages := da_pages a @ [\<lparr>pb_document = document, pb_page = p\<rparr>]\<rparr>))"

definition DocumentTabs_UnbindPage ::
  "u64 \<Rightarrow> 'h DocumentTabWorkspaceAdapter \<Rightarrow> DocumentTabStatus \<times> 'h DocumentTabWorkspaceAdapter" where
  "DocumentTabs_UnbindPage document a =
    (case DocumentTabs_FindPageIndex document a of
       None \<Rightarrow> (DocumentTab_not_found, a)
     | Some k \<Rightarrow> (DocumentTab_success, a\<lparr>da_pages := erase_at k (da_pages a)\<rparr>))"

text \<open>The area of the pages, and the loop that moves them there.\<close>

definition page_bounds :: "('w, 'h, 'z) tabs_api_scheme \<Rightarrow> 'h \<Rightarrow> RECT \<Rightarrow> 'w \<Rightarrow> RECT" where
  "page_bounds A t tab_bounds w =
    (let b = ta_adjust_rect A t \<lparr>r_left = 0, r_top = 0, r_right = r_right tab_bounds - r_left tab_bounds,
           r_bottom = r_bottom tab_bounds - r_top tab_bounds\<rparr> w
     in \<lparr>r_left = r_left b + r_left tab_bounds, r_top = r_top b + r_top tab_bounds,
         r_right = r_right b + r_left tab_bounds, r_bottom = r_bottom b + r_top tab_bounds\<rparr>)"

fun arrange_pages ::
  "('w, 'h, 'z) tabs_api_scheme \<Rightarrow> 'h DocumentTabWorkspaceAdapter \<Rightarrow> RECT \<Rightarrow> 'h DocumentPageBinding list \<Rightarrow> 'w
    \<Rightarrow> DocumentTabStatus \<times> 'w" where
  "arrange_pages A a b [] w = (DocumentTab_success, w)"
| "arrange_pages A a b (item # items) w =
    (if \<not> DocumentTabs_IsValidPage A a (Some (pb_page item)) w then (DocumentTab_stale_window, w)
     else case ta_set_pos A (pb_page item)
         (r_left b, r_top b, max 0 (r_right b - r_left b), max 0 (r_bottom b - r_top b)) w of
       (False, w1) \<Rightarrow> (DocumentTab_native_failure, w1)
     | (True, w1) \<Rightarrow> arrange_pages A a b items w1)"

definition DocumentTabs_ArrangePages ::
  "('w, 'h, 'z) tabs_api_scheme \<Rightarrow> 'h DocumentTabWorkspaceAdapter \<Rightarrow> 'w \<Rightarrow> DocumentTabStatus \<times> 'w" where
  "DocumentTabs_ArrangePages A a w =
    (case da_tabs a of
       None \<Rightarrow> (DocumentTab_not_attached, w)
     | Some t \<Rightarrow>
         if \<not> DocumentTabs_IsAttached A a w then (DocumentTab_not_attached, w)
         else case ta_window_rect A t w of
           None \<Rightarrow> (DocumentTab_native_failure, w)
         | Some screen \<Rightarrow>
             (case ta_map_points A (ta_parent A t w) screen w of (moved, bounds) \<Rightarrow>
               if moved = 0 then (DocumentTab_native_failure, w)
               else arrange_pages A a (page_bounds A t bounds w) (da_pages a) w))"

section \<open>Synchronizing\<close>

definition tab_title :: "WorkspaceDocument \<Rightarrow> wstring" where
  "tab_title d = (if wd_dirty d then wd_title d @ lit '' *'' else wd_title d)"

fun project_tabs ::
  "('w, 'h, 'z) tabs_api_scheme \<Rightarrow> 'h DocumentTabWorkspaceAdapter \<Rightarrow> WorkspaceDocument list \<Rightarrow> TabWorkspaceModel
    \<Rightarrow> 'w \<Rightarrow> DocumentTabStatus + TabWorkspaceModel" where
  "project_tabs A a [] projection w = Inr projection"
| "project_tabs A a (d # ds) projection w =
    (let page = DocumentTabs_FindPage (wd_id d) a
     in if \<not> DocumentTabs_IsValidPage A a page w
        then Inl (if page \<noteq> None then DocumentTab_stale_window else DocumentTab_not_found)
        else case TabWorkspaceModel_Add
            \<lparr>te_id = wd_id d, te_title = tab_title d, te_dirty = wd_dirty d, te_closable = True\<rparr> projection of
          (False, _) \<Rightarrow> Inl DocumentTab_model_failure
        | (True, projection') \<Rightarrow> project_tabs A a ds projection' w)"

definition select_projected :: "u64 option \<Rightarrow> TabWorkspaceModel \<Rightarrow> DocumentTabStatus + TabWorkspaceModel" where
  "select_projected active projection =
    (case active of
       None \<Rightarrow> Inr projection
     | Some i \<Rightarrow> (case TabWorkspaceModel_Select i projection of
         (False, _) \<Rightarrow> Inl DocumentTab_model_failure
       | (True, projection') \<Rightarrow> Inr projection'))"

fun insert_tabs ::
  "('w, 'h, 'z) tabs_api_scheme \<Rightarrow> 'h \<Rightarrow> TabEntry list \<Rightarrow> 'w \<Rightarrow> bool \<times> 'w" where
  "insert_tabs A t [] w = (True, w)"
| "insert_tabs A t (tab # tabs) w =
    (case ta_insert A t (ta_count A t w) (until_nul (te_title tab)) (te_id tab) w of
       (n, w1) \<Rightarrow> if n < 0 then (False, w1) else insert_tabs A t tabs w1)"

definition select_tab ::
  "('w, 'h, 'z) tabs_api_scheme \<Rightarrow> 'h \<Rightarrow> TabWorkspaceModel \<Rightarrow> 'w \<Rightarrow> bool \<times> 'w" where
  "select_tab A t projection w =
    (case tw_selected projection of
       None \<Rightarrow> (True, w)
     | Some i \<Rightarrow>
         (case TabWorkspaceModel_FindIndex i projection of
            None \<Rightarrow> (False, w)
          | Some k \<Rightarrow> (case ta_select A t (int k) w of (n, w1) \<Rightarrow> (0 \<le> n, w1))))"

definition show_pages ::
  "('w, 'h, 'z) tabs_api_scheme \<Rightarrow> u64 option \<Rightarrow> 'h DocumentPageBinding list \<Rightarrow> 'w \<Rightarrow> 'w" where
  "show_pages A active pages w = foldl (\<lambda>w b. ta_show A (pb_page b) (active = Some (pb_document b)) w) w pages"

definition focus_page ::
  "('w, 'h, 'z) tabs_api_scheme \<Rightarrow> 'h DocumentTabWorkspaceAdapter \<Rightarrow> bool \<Rightarrow> u64 option \<Rightarrow> 'w \<Rightarrow> 'w" where
  "focus_page A a focus_active active w =
    (if \<not> focus_active then w
     else case active of None \<Rightarrow> w
       | Some i \<Rightarrow> (case DocumentTabs_FindPage i a of None \<Rightarrow> w | Some p \<Rightarrow> ta_focus A p w))"

text \<open>The native part: items, selection, positions, visibility and focus.\<close>

definition show_projection ::
  "('w, 'h, 'z) tabs_api_scheme \<Rightarrow> 'h DocumentTabWorkspaceAdapter \<Rightarrow> 'h \<Rightarrow> TabWorkspaceModel \<Rightarrow> u64 option \<Rightarrow> bool
    \<Rightarrow> 'w \<Rightarrow> DocumentTabStatus \<times> 'w" where
  "show_projection A a t projection active focus_active w =
    (case ta_clear A t w of
       (False, w1) \<Rightarrow> (DocumentTab_projection_failure, w1)
     | (True, w1) \<Rightarrow>
       (case insert_tabs A t (tw_tabs projection) w1 of
          (False, w2) \<Rightarrow> (DocumentTab_projection_failure, w2)
        | (True, w2) \<Rightarrow>
          (case select_tab A t projection w2 of
             (False, w3) \<Rightarrow> (DocumentTab_projection_failure, w3)
           | (True, w3) \<Rightarrow>
             (case DocumentTabs_ArrangePages A a w3 of (arranged, w4) \<Rightarrow>
               if arranged \<noteq> DocumentTab_success then (DocumentTab_native_failure, w4)
               else (DocumentTab_success, focus_page A a focus_active active (show_pages A active (da_pages a) w4))))))"

definition DocumentTabs_Synchronize ::
  "('w, 'h, 'z) tabs_api_scheme \<Rightarrow> DocumentWorkspaceModel \<Rightarrow> bool \<Rightarrow> 'h DocumentTabWorkspaceAdapter \<Rightarrow> 'w
    \<Rightarrow> DocumentTabResult \<times> 'w" where
  "DocumentTabs_Synchronize A workspace focus_active a w =
    (let active = dw_active workspace
     in case da_tabs a of
       None \<Rightarrow> ((DocumentTab_not_attached, None), w)
     | Some t \<Rightarrow>
         if \<not> DocumentTabs_IsAttached A a w then ((DocumentTab_not_attached, None), w)
         else if length (da_pages a) \<noteq> length (dw_documents workspace)
         then ((DocumentTab_invalid_argument, active), w)
         else case project_tabs A a (dw_documents workspace) TabWorkspaceModel_empty w of
           Inl status \<Rightarrow> ((status, active), w)
         | Inr projection \<Rightarrow>
             (case select_projected active projection of
                Inl status \<Rightarrow> ((status, active), w)
              | Inr projection \<Rightarrow>
                  (case show_projection A a t projection active focus_active w of
                     (status, w1) \<Rightarrow> ((status, active), w1))))"

definition DocumentTabs_ActivateNativeSelection ::
  "('w, 'h, 'z) tabs_api_scheme \<Rightarrow> DocumentWorkspaceModel \<Rightarrow> 'h DocumentTabWorkspaceAdapter \<Rightarrow> 'w
    \<Rightarrow> DocumentTabResult \<times> DocumentWorkspaceModel \<times> 'w" where
  "DocumentTabs_ActivateNativeSelection A workspace a w =
    (case da_tabs a of
       None \<Rightarrow> ((DocumentTab_not_attached, None), workspace, w)
     | Some t \<Rightarrow>
         if \<not> DocumentTabs_IsAttached A a w then ((DocumentTab_not_attached, None), workspace, w)
         else let selected = ta_selection A t w
           in if selected < 0 then ((DocumentTab_not_found, dw_active workspace), workspace, w)
           else case ta_item A t selected w of
             None \<Rightarrow> ((DocumentTab_native_failure, dw_active workspace), workspace, w)
           | Some i \<Rightarrow>
               if i = 0 then ((DocumentTab_native_failure, dw_active workspace), workspace, w)
               else case Workspace_Activate i workspace of (r, workspace') \<Rightarrow>
                 if fst r \<noteq> Workspace_success then ((DocumentTab_model_failure, dw_active workspace'), workspace', w)
                 else case DocumentTabs_Synchronize A workspace' True a w of (r', w1) \<Rightarrow> (r', workspace', w1))"

section \<open>Moving a document with its page\<close>

text \<open>
  The state of a transfer: the two workspaces, the two adapters and the windows.  \<open>SetParent\<close> sends
  messages; \<open>reenter\<close> is what their handlers do to the workspaces.  The two workspaces and adapters are
  distinct objects.
\<close>

record ('w, 'h) page_transfer =
  pt_source :: DocumentWorkspaceModel
  pt_source_tabs :: "'h DocumentTabWorkspaceAdapter"
  pt_destination :: DocumentWorkspaceModel
  pt_destination_tabs :: "'h DocumentTabWorkspaceAdapter"
  pt_windows :: 'w

type_synonym reentry = "DocumentWorkspaceModel \<times> DocumentWorkspaceModel \<Rightarrow> DocumentWorkspaceModel \<times> DocumentWorkspaceModel"

definition rolled_back ::
  "path_ops \<Rightarrow> DocumentTransferPlan \<Rightarrow> ('w, 'h) page_transfer \<Rightarrow> bool \<times> ('w, 'h) page_transfer" where
  "rolled_back ops p s =
    (case Workspace_RollbackTransfer ops p (pt_destination s) of (r, d) \<Rightarrow>
      (fst r = Workspace_success, s\<lparr>pt_destination := d\<rparr>))"

definition set_parent_in ::
  "('w, 'h, 'z) tabs_api_scheme \<Rightarrow> reentry \<Rightarrow> 'h \<Rightarrow> 'h option \<Rightarrow> ('w, 'h) page_transfer
    \<Rightarrow> 'h option \<times> ('w, 'h) page_transfer" where
  "set_parent_in A reenter page parent s =
    (case ta_set_parent A page parent (pt_windows s) of (previous, w) \<Rightarrow>
      case reenter (pt_source s, pt_destination s) of (source, destination) \<Rightarrow>
        (previous, s\<lparr>pt_source := source, pt_destination := destination, pt_windows := w\<rparr>))"

text \<open>After both workspaces have taken part: the bindings, the active document and the two projections.\<close>

definition finish_page_transfer ::
  "('w, 'h, 'z) tabs_api_scheme \<Rightarrow> DocumentTransferPlan \<Rightarrow> u64 \<Rightarrow> 'h \<Rightarrow> nat \<Rightarrow> ('w, 'h) page_transfer
    \<Rightarrow> DocumentTabResult \<times> ('w, 'h) page_transfer" where
  "finish_page_transfer A p document page page_index s =
    (let dtabs = (pt_destination_tabs s)\<lparr>da_pages := da_pages (pt_destination_tabs s) @
           [\<lparr>pb_document = document, pb_page = page\<rparr>]\<rparr>;
         stabs = (pt_source_tabs s)\<lparr>da_pages := erase_at page_index (da_pages (pt_source_tabs s))\<rparr>;
         destination = (if tp_was_active p then snd (Workspace_Activate document (pt_destination s)) else pt_destination s)
     in case DocumentTabs_Synchronize A (pt_source s) False stabs (pt_windows s) of (r1, w1) \<Rightarrow>
        case DocumentTabs_Synchronize A destination (tp_was_active p) dtabs w1 of (r2, w2) \<Rightarrow>
          ((if fst r1 \<noteq> DocumentTab_success \<or> fst r2 \<noteq> DocumentTab_success then DocumentTab_projection_failure
            else DocumentTab_success, dw_active destination),
           s\<lparr>pt_source_tabs := stabs, pt_destination_tabs := dtabs, pt_destination := destination, pt_windows := w2\<rparr>))"

definition move_page ::
  "('w, 'h, 'z) tabs_api_scheme \<Rightarrow> path_ops \<Rightarrow> reentry \<Rightarrow> DocumentTransferPlan \<Rightarrow> u64 \<Rightarrow> 'h \<Rightarrow> nat
    \<Rightarrow> ('w, 'h) page_transfer \<Rightarrow> DocumentTabResult \<times> ('w, 'h) page_transfer" where
  "move_page A ops reenter p document page page_index s =
    (let source_parent = tabs_parent A (pt_source_tabs s) (pt_windows s);
         destination_parent = tabs_parent A (pt_destination_tabs s) (pt_windows s)
     in case set_parent_in A reenter page destination_parent s of (previous, s1) \<Rightarrow>
       if previous \<noteq> source_parent
       then (case rolled_back ops p s1 of (restored, s2) \<Rightarrow>
         ((if restored then DocumentTab_native_failure else DocumentTab_rollback_failure, dw_active (pt_source s2)), s2))
       else (case Workspace_CommitTransfer ops p (pt_source s1) of (committed, source) \<Rightarrow>
         let s2 = s1\<lparr>pt_source := source\<rparr>
         in if fst committed \<noteq> Workspace_success
            then (case set_parent_in A reenter page source_parent s2 of (previous, s3) \<Rightarrow>
              case rolled_back ops p s3 of (restored, s4) \<Rightarrow>
                ((if previous = destination_parent \<and> restored then DocumentTab_model_failure
                  else DocumentTab_rollback_failure, dw_active (pt_source s4)), s4))
            else finish_page_transfer A p document page page_index s2))"

definition TransferDocumentWithPage ::
  "('w, 'h, 'z) tabs_api_scheme \<Rightarrow> path_ops \<Rightarrow> reentry \<Rightarrow> u64 \<Rightarrow> nat option \<Rightarrow> ('w, 'h) page_transfer
    \<Rightarrow> DocumentTabResult \<times> ('w, 'h) page_transfer" where
  "TransferDocumentWithPage A ops reenter document destination_index s =
    (if document = 0 \<or> \<not> DocumentTabs_IsAttached A (pt_source_tabs s) (pt_windows s)
        \<or> \<not> DocumentTabs_IsAttached A (pt_destination_tabs s) (pt_windows s)
     then ((DocumentTab_invalid_argument, dw_active (pt_source s)), s)
     else case DocumentTabs_FindPageIndex document (pt_source_tabs s) of
       None \<Rightarrow> ((DocumentTab_not_found, dw_active (pt_source s)), s)
     | Some page_index \<Rightarrow>
         if DocumentTabs_FindPageIndex document (pt_destination_tabs s) \<noteq> None
         then ((DocumentTab_not_found, dw_active (pt_source s)), s)
         else let page = pb_page (da_pages (pt_source_tabs s) ! page_index)
           in if \<not> DocumentTabs_IsValidPage A (pt_source_tabs s) (Some page) (pt_windows s)
              then ((DocumentTab_stale_window, dw_active (pt_source s)), s)
              else case Workspace_PrepareTransfer document (dw_id (pt_destination s)) destination_index (pt_source s) of
                None \<Rightarrow> ((DocumentTab_model_failure, dw_active (pt_source s)), s)
              | Some p0 \<Rightarrow>
                  (case Workspace_AcceptTransfer ops p0 (pt_destination s) of (accepted, p, destination) \<Rightarrow>
                    let s1 = s\<lparr>pt_destination := destination\<rparr>
                    in if fst accepted \<noteq> Workspace_success
                       then ((DocumentTab_model_failure, dw_active (pt_source s1)), s1)
                       else move_page A ops reenter p document page page_index s1))"

section \<open>Windows the adapter relies on\<close>

text \<open>
  What Windows documents: \<open>SetParent\<close> returns the previous parent and changes it, or returns null and
  changes nothing; the other calls change no parent.
\<close>

definition same_parents :: "('w, 'h, 'z) tabs_api_scheme \<Rightarrow> 'w \<Rightarrow> 'w \<Rightarrow> bool" where
  "same_parents A w w' \<longleftrightarrow> (\<forall>x. ta_parent A x w' = ta_parent A x w)"

definition parents_ok :: "('w, 'h, 'z) tabs_api_scheme \<Rightarrow> bool" where
  "parents_ok A \<longleftrightarrow>
    (\<forall>page p w previous w'. ta_set_parent A page p w = (previous, w') \<longrightarrow>
      previous = None \<and> same_parents A w w' \<or> previous = ta_parent A page w \<and> ta_parent A page w' = p) \<and>
    (\<forall>t w r w'. ta_clear A t w = (r, w') \<longrightarrow> same_parents A w w') \<and>
    (\<forall>t n s i w r w'. ta_insert A t n s i w = (r, w') \<longrightarrow> same_parents A w w') \<and>
    (\<forall>t n w r w'. ta_select A t n w = (r, w') \<longrightarrow> same_parents A w w') \<and>
    (\<forall>h b w r w'. ta_set_pos A h b w = (r, w') \<longrightarrow> same_parents A w w') \<and>
    (\<forall>h b w. same_parents A w (ta_show A h b w)) \<and> (\<forall>h w. same_parents A w (ta_focus A h w))"

lemma same_parents_refl [simp]: "same_parents A w w"
  by (simp add: same_parents_def)

lemma same_parents_trans: "same_parents A w w1 \<Longrightarrow> same_parents A w1 w2 \<Longrightarrow> same_parents A w w2"
  by (simp add: same_parents_def)

lemma parents_kept:
  assumes "parents_ok A"
  shows "ta_clear A t w = (r1, w') \<Longrightarrow> same_parents A w w'"
    and "ta_insert A t n title i w = (r2, w') \<Longrightarrow> same_parents A w w'"
    and "ta_select A t n w = (r3, w') \<Longrightarrow> same_parents A w w'"
    and "ta_set_pos A h b w = (r4, w') \<Longrightarrow> same_parents A w w'"
    and "same_parents A w (ta_show A h v w)" and "same_parents A w (ta_focus A h w)"
  using assms unfolding parents_ok_def by metis+

lemma set_parent_moves:
  "parents_ok A \<Longrightarrow> ta_set_parent A page p w = (previous, w') \<Longrightarrow>
    previous = None \<and> same_parents A w w' \<or> previous = ta_parent A page w \<and> ta_parent A page w' = p"
  unfolding parents_ok_def by metis

lemma arrange_pages_parents:
  assumes "parents_ok A"
  shows "arrange_pages A a b items w = (r, w') \<Longrightarrow> same_parents A w w'"
proof (induction items arbitrary: w)
  case (Cons item items)
  obtain r1 w1 where pos: "ta_set_pos A (pb_page item)
      (r_left b, r_top b, max 0 (r_right b - r_left b), max 0 (r_bottom b - r_top b)) w = (r1, w1)" by fastforce
  have "same_parents A w w1" by (rule parents_kept(4) [OF assms pos])
  moreover have "w' = w \<or> w' = w1 \<or> arrange_pages A a b items w1 = (r, w')"
    using Cons.prems pos by (auto split: if_splits bool.splits)
  ultimately show ?case using Cons.IH [of w1] same_parents_trans same_parents_refl by metis
qed simp

lemma ArrangePages_parents:
  "parents_ok A \<Longrightarrow> DocumentTabs_ArrangePages A a w = (r, w') \<Longrightarrow> same_parents A w w'"
  by (auto simp: DocumentTabs_ArrangePages_def split: option.splits if_splits prod.splits dest: arrange_pages_parents)

lemma insert_tabs_parents:
  assumes "parents_ok A"
  shows "insert_tabs A t tabs w = (r, w') \<Longrightarrow> same_parents A w w'"
proof (induction tabs arbitrary: w)
  case (Cons tab tabs)
  obtain n w1 where n: "ta_insert A t (ta_count A t w) (until_nul (te_title tab)) (te_id tab) w = (n, w1)" by fastforce
  have "same_parents A w w1" by (rule parents_kept(2) [OF assms n])
  moreover have "w' = w1 \<or> insert_tabs A t tabs w1 = (r, w')"
    using Cons.prems n by (auto split: if_splits)
  ultimately show ?case using Cons.IH [of w1] same_parents_trans by metis
qed simp

lemma select_tab_parents: "parents_ok A \<Longrightarrow> select_tab A t m w = (r, w') \<Longrightarrow> same_parents A w w'"
  by (auto simp: select_tab_def split: option.splits prod.splits dest: parents_kept(3))

lemma show_pages_parents:
  assumes "parents_ok A"
  shows "same_parents A w (show_pages A active pages w)"
proof (induction pages arbitrary: w)
  case (Cons b pages)
  have "same_parents A w (ta_show A (pb_page b) (active = Some (pb_document b)) w)" by (rule parents_kept(5) [OF assms])
  from same_parents_trans [OF this Cons] show ?case by (simp add: show_pages_def)
qed (simp add: show_pages_def)

lemma focus_page_parents: "parents_ok A \<Longrightarrow> same_parents A w (focus_page A a f active w)"
  by (simp add: focus_page_def parents_kept(6) split: option.splits)

lemma show_projection_parents:
  assumes "parents_ok A" and "show_projection A a t m active f w = (r, w')"
  shows "same_parents A w w'"
proof -
  obtain r1 w1 where 1: "ta_clear A t w = (r1, w1)" by fastforce
  obtain r2 w2 where 2: "insert_tabs A t (tw_tabs m) w1 = (r2, w2)" by fastforce
  obtain r3 w3 where 3: "select_tab A t m w2 = (r3, w3)" by fastforce
  obtain r4 w4 where 4: "DocumentTabs_ArrangePages A a w3 = (r4, w4)" by fastforce
  let ?w5 = "focus_page A a f active (show_pages A active (da_pages a) w4)"
  have w1: "same_parents A w w1" by (rule parents_kept(1) [OF assms(1) 1])
  have w2: "same_parents A w w2" by (rule same_parents_trans [OF w1 insert_tabs_parents [OF assms(1) 2]])
  have w3: "same_parents A w w3" by (rule same_parents_trans [OF w2 select_tab_parents [OF assms(1) 3]])
  have w4: "same_parents A w w4" by (rule same_parents_trans [OF w3 ArrangePages_parents [OF assms(1) 4]])
  have "same_parents A w ?w5"
    by (rule same_parents_trans [OF same_parents_trans [OF w4 show_pages_parents [OF assms(1)]] focus_page_parents [OF assms(1)]])
  moreover have "w' \<in> {w1, w2, w3, w4, ?w5}"
    using assms(2) 1 2 3 4 unfolding show_projection_def by (simp split: bool.splits if_splits)
  ultimately show ?thesis using w1 w2 w3 w4 by blast
qed

lemma Synchronize_parents:
  "parents_ok A \<Longrightarrow> DocumentTabs_Synchronize A m f a w = (r, w') \<Longrightarrow> same_parents A w w'"
  by (auto simp: DocumentTabs_Synchronize_def Let_def split: option.splits if_splits sum.splits prod.splits
      dest: show_projection_parents)

section \<open>A document and its page move together\<close>

lemma found_page:
  "DocumentTabs_FindPageIndex i a = Some k \<Longrightarrow> k < length (da_pages a) \<and> pb_document (da_pages a ! k) = i
    \<and> DocumentTabs_FindPage i a = Some (pb_page (da_pages a ! k))"
  by (auto simp: DocumentTabs_FindPageIndex_def DocumentTabs_FindPage_def dest: find_indexD)

text \<open>What \<open>finish_page_transfer\<close> leaves.\<close>

lemma finish_page_transfer_state:
  assumes "parents_ok A" and "finish_page_transfer A p i page k s = ((status, active), s')"
  shows "status = DocumentTab_success \<or> status = DocumentTab_projection_failure"
    and "pt_source s' = pt_source s"
    and "pt_destination s' = (if tp_was_active p then snd (Workspace_Activate i (pt_destination s)) else pt_destination s)"
    and "da_pages (pt_source_tabs s') = erase_at k (da_pages (pt_source_tabs s))"
    and "da_pages (pt_destination_tabs s') = da_pages (pt_destination_tabs s) @ [\<lparr>pb_document = i, pb_page = page\<rparr>]"
    and "same_parents A (pt_windows s) (pt_windows s')"
proof -
  let ?d = "if tp_was_active p then snd (Workspace_Activate i (pt_destination s)) else pt_destination s"
  let ?dtabs = "(pt_destination_tabs s)\<lparr>da_pages := da_pages (pt_destination_tabs s) @
    [\<lparr>pb_document = i, pb_page = page\<rparr>]\<rparr>"
  let ?stabs = "(pt_source_tabs s)\<lparr>da_pages := erase_at k (da_pages (pt_source_tabs s))\<rparr>"
  obtain r1 w1 where 1: "DocumentTabs_Synchronize A (pt_source s) False ?stabs (pt_windows s) = (r1, w1)" by fastforce
  obtain r2 w2 where 2: "DocumentTabs_Synchronize A ?d (tp_was_active p) ?dtabs w1 = (r2, w2)" by fastforce
  have s': "s' = s\<lparr>pt_source_tabs := ?stabs, pt_destination_tabs := ?dtabs, pt_destination := ?d, pt_windows := w2\<rparr>"
    "status = (if fst r1 \<noteq> DocumentTab_success \<or> fst r2 \<noteq> DocumentTab_success then DocumentTab_projection_failure
            else DocumentTab_success)"
    using assms(2) 1 2 unfolding finish_page_transfer_def Let_def by auto
  show "status = DocumentTab_success \<or> status = DocumentTab_projection_failure" using s'(2) by simp
  show "pt_source s' = pt_source s" "pt_destination s' = ?d"
    "da_pages (pt_source_tabs s') = erase_at k (da_pages (pt_source_tabs s))"
    "da_pages (pt_destination_tabs s') = da_pages (pt_destination_tabs s) @ [\<lparr>pb_document = i, pb_page = page\<rparr>]"
    using s'(1) by simp_all
  show "same_parents A (pt_windows s) (pt_windows s')"
    using same_parents_trans [OF Synchronize_parents [OF assms(1) 1] Synchronize_parents [OF assms(1) 2]] s'(1) by simp
qed

definition bindings_ok :: "'h DocumentTabWorkspaceAdapter \<Rightarrow> bool" where
  "bindings_ok a \<longleftrightarrow> distinct (map pb_document (da_pages a)) \<and> distinct (map pb_page (da_pages a))"

lemma DocumentTabs_BindPage_ok:
  "bindings_ok a \<Longrightarrow> bindings_ok (snd (DocumentTabs_BindPage A i page a w))"
  by (auto simp: DocumentTabs_BindPage_def bindings_ok_def DocumentTabs_FindPageIndex_def find_index_None list_ex_iff
      split: option.splits)

lemma DocumentTabs_UnbindPage_ok: "bindings_ok a \<Longrightarrow> bindings_ok (snd (DocumentTabs_UnbindPage i a))"
  by (auto simp: DocumentTabs_UnbindPage_def bindings_ok_def map_erase_at distinct_erase_at split: option.splits)

lemma erased_binding_gone:
  assumes "distinct (map pb_document (da_pages a))" and "DocumentTabs_FindPageIndex i a = Some k"
    and "da_pages a' = erase_at k (da_pages a)"
  shows "DocumentTabs_FindPage i a' = None"
proof -
  have k: "k < length (da_pages a)" "pb_document (da_pages a ! k) = i" using found_page [OF assms(2)] by simp_all
  have "i \<notin> set (map pb_document (erase_at k (da_pages a)))"
    using assms(1) k by (auto simp: erase_at_def distinct_conv_nth in_set_conv_nth min_def nth_append split: if_splits)
  then show ?thesis using assms(3)
    by (force simp: DocumentTabs_FindPage_def DocumentTabs_FindPageIndex_def find_index_None
        split: option.splits dest!: find_indexD(2) find_indexD(1))
qed

lemma appended_binding_found:
  assumes "DocumentTabs_FindPageIndex i a = None" and "da_pages a' = da_pages a @ [\<lparr>pb_document = i, pb_page = page\<rparr>]"
  shows "DocumentTabs_FindPage i a' = Some page"
proof -
  have "find_index (\<lambda>b. pb_document b = i) (da_pages a') = Some (length (da_pages a))"
    using assms by (auto simp: DocumentTabs_FindPageIndex_def find_index_None find_index_Some nth_append)
  then show ?thesis using assms(2) by (simp add: DocumentTabs_FindPage_def DocumentTabs_FindPageIndex_def)
qed

text \<open>The whole operation on an accepted plan, when the handlers of \<open>SetParent\<close> leave the workspaces alone.\<close>

definition page_moved :: "('w, 'h, 'z) tabs_api_scheme \<Rightarrow> u64 \<Rightarrow> ('w, 'h) page_transfer \<Rightarrow> ('w, 'h) page_transfer \<Rightarrow> bool" where
  "page_moved A i s s' \<longleftrightarrow> (\<exists>page. DocumentTabs_FindPage i (pt_source_tabs s) = Some page
    \<and> DocumentTabs_FindPage i (pt_source_tabs s') = None \<and> DocumentTabs_FindPage i (pt_destination_tabs s') = Some page
    \<and> ta_parent A page (pt_windows s') = tabs_parent A (pt_destination_tabs s) (pt_windows s))"

definition nothing_moved :: "('w, 'h, 'z) tabs_api_scheme \<Rightarrow> ('w, 'h) page_transfer \<Rightarrow> ('w, 'h) page_transfer \<Rightarrow> bool" where
  "nothing_moved A s s' \<longleftrightarrow> pt_source s' = pt_source s \<and> workspace_view (pt_destination s') = workspace_view (pt_destination s)
    \<and> dw_recently_closed (pt_destination s') = dw_recently_closed (pt_destination s)
    \<and> pt_source_tabs s' = pt_source_tabs s \<and> pt_destination_tabs s' = pt_destination_tabs s
    \<and> same_parents A (pt_windows s) (pt_windows s')"

lemma move_page_cases:
  fixes s :: "('w, 'h) page_transfer"
  assumes windows: "parents_ok A" and wf: "workspace_wf ops (pt_source s)" "workspace_wf ops (pt_destination s)"
    and bindings: "distinct (map pb_document (da_pages (pt_source_tabs s)))"
    and index: "DocumentTabs_FindPageIndex i (pt_source_tabs s) = Some k"
      "DocumentTabs_FindPageIndex i (pt_destination_tabs s) = None"
    and valid: "DocumentTabs_IsValidPage A (pt_source_tabs s) (Some page) (pt_windows s)"
      "page = pb_page (da_pages (pt_source_tabs s) ! k)" "tabs_parent A (pt_source_tabs s) (pt_windows s) \<noteq> None"
    and plan: "Workspace_PrepareTransfer i (dw_id (pt_destination s)) idx (pt_source s) = Some p0"
    and accept: "Workspace_AcceptTransfer ops p0 (pt_destination s) = ((Workspace_success, x), p, d)"
    and run: "move_page A ops (\<lambda>m. m) p i page k (s\<lparr>pt_destination := d\<rparr>) = ((status, active), s')"
  shows "(status = DocumentTab_success \<or> status = DocumentTab_projection_failure) \<and>
      transfer_spec i idx (pt_source s) (pt_destination s) (pt_source s') (pt_destination s') \<and>
      workspace_wf ops (pt_source s') \<and> workspace_wf ops (pt_destination s') \<and> page_moved A i s s'
    \<or> status = DocumentTab_native_failure \<and> nothing_moved A s s'"
proof -
  let ?to = "tabs_parent A (pt_destination_tabs s) (pt_windows s)"
  have parent: "ta_parent A page (pt_windows s) = tabs_parent A (pt_source_tabs s) (pt_windows s)"
    using valid(1) by (simp add: DocumentTabs_IsValidPage_def)
  have ok: "fst (fst (Workspace_AcceptTransfer ops p0 (pt_destination s))) = Workspace_success"
    "fst (snd (Workspace_AcceptTransfer ops p0 (pt_destination s))) = p"
    "snd (snd (Workspace_AcceptTransfer ops p0 (pt_destination s))) = d" using accept by simp_all
  obtain previous w1 where set: "ta_set_parent A page ?to (pt_windows s) = (previous, w1)" by fastforce
  show ?thesis
  proof (cases "previous = tabs_parent A (pt_source_tabs s) (pt_windows s)")
    case False
    with set_parent_moves [OF windows set] parent have same: "same_parents A (pt_windows s) w1" by auto
    have r: "fst (fst (Workspace_RollbackTransfer ops p d)) = Workspace_success"
      "workspace_view (snd (Workspace_RollbackTransfer ops p d)) = workspace_view (pt_destination s)"
      "dw_recently_closed (snd (Workspace_RollbackTransfer ops p d)) = dw_recently_closed (pt_destination s)"
      using rollback_after_accept [OF wf(2) ok(1)] ok(2,3) by simp_all
    have "status = DocumentTab_native_failure"
      "s' = s\<lparr>pt_destination := snd (Workspace_RollbackTransfer ops p d), pt_windows := w1\<rparr>"
      using run set False r(1) by (auto simp: move_page_def set_parent_in_def rolled_back_def Let_def split_beta)
    with r same show ?thesis by (simp add: nothing_moved_def)
  next
    case True
    with valid(3) parent set_parent_moves [OF windows set]
    have moved: "ta_parent A page w1 = ?to" by (auto simp: True)
    let ?s1 = "snd (Workspace_CommitTransfer ops p (pt_source s))"
    have close: "Workspace_CommitTransfer ops p (pt_source s) = Workspace_Close ops i False (pt_source s)"
      using commit_after_accept [OF plan ok(1)] ok(2) by simp
    obtain n where n: "Workspace_FindIndex i (pt_source s) = Some n" using prepare_Some [OF plan] by blast
    have committed: "fst (fst (Workspace_CommitTransfer ops p (pt_source s))) = Workspace_success"
      using close close_found(1) [OF n] by simp
    let ?t = "s\<lparr>pt_destination := d, pt_windows := w1, pt_source := ?s1\<rparr>"
    have finish: "finish_page_transfer A p i page k ?t = ((status, active), s')"
      using run set True committed by (simp add: move_page_def set_parent_in_def Let_def split_beta)
    note finished = finish_page_transfer_state [OF windows finish]
    have all: "TransferDocument ops i idx (pt_source s) (pt_destination s) =
      ((Workspace_success, dw_active (pt_destination s')), pt_source s', pt_destination s')"
      using plan accept committed finished(2,3) by (simp add: TransferDocument_def split_beta Let_def)
    have moved_page: "page_moved A i s s'"
      unfolding page_moved_def
    proof (intro exI conjI)
      show "DocumentTabs_FindPage i (pt_source_tabs s) = Some page" using found_page [OF index(1)] valid(2) by simp
      show "DocumentTabs_FindPage i (pt_source_tabs s') = None"
        using finished(4) by (intro erased_binding_gone [OF bindings index(1)]) simp
      show "DocumentTabs_FindPage i (pt_destination_tabs s') = Some page"
        using finished(5) by (intro appended_binding_found [OF index(2)]) simp
      show "ta_parent A page (pt_windows s') = ?to" using finished(6) moved by (simp add: same_parents_def)
    qed
    from transfer_cases [OF wf all] finished(1) moved_page show ?thesis by auto
  qed
qed


text \<open>Windows given by their parents: 1 and 2 are tab controls in 10 and 20, 3 is a page in 10.\<close>

definition example_windows :: "((nat \<Rightarrow> nat option), nat) tabs_api" where
  "example_windows = \<lparr>ta_is_window = \<lambda>h w. True, ta_thread_process = \<lambda>h w. (7, 5), ta_current_process = 5,
    ta_current_thread = 7, ta_parent = \<lambda>h w. w h, ta_set_parent = \<lambda>h p w. (w h, w(h := p)),
    ta_window_rect = \<lambda>h w. Some \<lparr>r_left = 0, r_top = 0, r_right = 100, r_bottom = 80\<rparr>,
    ta_map_points = \<lambda>p r w. (1, r), ta_adjust_rect = \<lambda>t r w. r, ta_set_pos = \<lambda>h b w. (True, w),
    ta_clear = \<lambda>t w. (True, w), ta_count = \<lambda>t w. 0, ta_insert = \<lambda>t n s i w. (n, w),
    ta_select = \<lambda>t n w. (0, w), ta_selection = \<lambda>t w. 0, ta_item = \<lambda>t n w. None, ta_show = \<lambda>h b w. w,
    ta_focus = \<lambda>h w. w\<rparr>"

definition example_page_transfer :: "((nat \<Rightarrow> nat option), nat) page_transfer" where
  "example_page_transfer = \<lparr>pt_source = example_source,
    pt_source_tabs = \<lparr>da_tabs = Some 1, da_ui_thread = 7, da_process = 5,
      da_pages = [\<lparr>pb_document = 3, pb_page = 3\<rparr>]\<rparr>,
    pt_destination = example_destination,
    pt_destination_tabs = \<lparr>da_tabs = Some 2, da_ui_thread = 7, da_process = 5, da_pages = []\<rparr>,
    pt_windows = [1 \<mapsto> 10, 2 \<mapsto> 20, 3 \<mapsto> 10]\<rparr>"


end
