(* ===== verification/Document_Tabs_View.thy ===== *)
theory Document_Tabs_View
  imports Document_Tabs
begin

text \<open>
  What a synchronized tab control shows: the documents of the workspace in order, and the page of the
  active one.
\<close>

text \<open>
  What Windows documents of a tab control and of showing windows: \<open>items\<close> are the titles and data of the
  tabs, \<open>visible\<close> the windows that are shown.
\<close>

definition tab_control_ok ::
  "('w, 'h, 'z) tabs_api_scheme \<Rightarrow> ('w \<Rightarrow> 'h \<Rightarrow> (wstring \<times> u64) list) \<Rightarrow> ('w \<Rightarrow> 'h \<Rightarrow> bool) \<Rightarrow> bool" where
  "tab_control_ok A items visible \<longleftrightarrow>
    (\<forall>t w w'. ta_clear A t w = (True, w') \<longrightarrow> items w' t = []) \<and>
    (\<forall>t w. ta_count A t w = int (length (items w t))) \<and>
    (\<forall>t title i w k w'. ta_insert A t (int (length (items w t))) title i w = (k, w') \<and> 0 \<le> k \<longrightarrow>
      items w' t = items w t @ [(title, i)]) \<and>
    (\<forall>t n w k w'. ta_select A t n w = (k, w') \<longrightarrow> items w' = items w) \<and>
    (\<forall>h b w r w'. ta_set_pos A h b w = (r, w') \<longrightarrow> items w' = items w) \<and>
    (\<forall>h b w. items (ta_show A h b w) = items w \<and> visible (ta_show A h b w) = (visible w)(h := b)) \<and>
    (\<forall>h w. items (ta_focus A h w) = items w \<and> visible (ta_focus A h w) = visible w)"

lemma tab_controlD:
  assumes "tab_control_ok A items visible"
  shows "ta_clear A t w = (True, w') \<Longrightarrow> items w' t = []"
    and "ta_count A t w = int (length (items w t))"
    and "ta_insert A t (int (length (items w t))) title i w = (k, w') \<Longrightarrow> 0 \<le> k \<Longrightarrow> items w' t = items w t @ [(title, i)]"
    and "ta_select A t n w = (k, w') \<Longrightarrow> items w' = items w"
    and "ta_set_pos A h b w = (r, w') \<Longrightarrow> items w' = items w"
    and "items (ta_show A h v w) = items w" "visible (ta_show A h v w) = (visible w)(h := v)"
    and "items (ta_focus A h w) = items w" "visible (ta_focus A h w) = visible w"
  using assms unfolding tab_control_ok_def by metis+

definition tab_item :: "WorkspaceDocument \<Rightarrow> wstring \<times> u64" where
  "tab_item d = (until_nul (tab_title d), wd_id d)"

lemma project_tabs_entries:
  "project_tabs A a ds m w = Inr m' \<Longrightarrow> tw_tabs m' = tw_tabs m @
    map (\<lambda>d. \<lparr>te_id = wd_id d, te_title = tab_title d, te_dirty = wd_dirty d, te_closable = True\<rparr>) ds"
proof (induction ds arbitrary: m)
  case (Cons d ds)
  then obtain m1 where "TabWorkspaceModel_Add \<lparr>te_id = wd_id d, te_title = tab_title d, te_dirty = wd_dirty d,
      te_closable = True\<rparr> m = (True, m1)" "project_tabs A a ds m1 w = Inr m'"
    by (auto simp: Let_def split: if_splits prod.splits bool.splits)
  with Cons.IH show ?case by (auto simp: TabWorkspaceModel_Add_def split: if_splits)
qed simp

lemma select_projected_tabs: "select_projected active m = Inr m' \<Longrightarrow> tw_tabs m' = tw_tabs m"
  by (auto simp: select_projected_def TabWorkspaceModel_Select_def split: option.splits if_splits prod.splits bool.splits)

lemma projection_failures [simp]:
  "project_tabs A a ds m w \<noteq> Inl DocumentTab_success" "select_projected active m \<noteq> Inl DocumentTab_success"
  by (induction A a ds m w rule: project_tabs.induct)
    (auto simp: Let_def select_projected_def split: option.splits prod.splits bool.splits)

lemma insert_tabs_items:
  assumes "tab_control_ok A items visible"
  shows "insert_tabs A t tabs w = (True, w') \<Longrightarrow> items w' t = items w t @ map (\<lambda>e. (until_nul (te_title e), te_id e)) tabs"
proof (induction tabs arbitrary: w)
  case (Cons e tabs)
  obtain k w1 where insert: "ta_insert A t (ta_count A t w) (until_nul (te_title e)) (te_id e) w = (k, w1)" by fastforce
  with Cons.prems have rest: "0 \<le> k" "insert_tabs A t tabs w1 = (True, w')" by (auto split: if_splits)
  have "items w1 t = items w t @ [(until_nul (te_title e), te_id e)]"
    using tab_controlD(3) [OF assms insert [unfolded tab_controlD(2) [OF assms]] rest(1)] .
  with Cons.IH [OF rest(2)] show ?case by simp
qed simp

lemma arrange_pages_items:
  assumes "tab_control_ok A items visible"
  shows "arrange_pages A a b pages w = (r, w') \<Longrightarrow> items w' = items w"
proof (induction pages arbitrary: w)
  case (Cons item pages)
  obtain r1 w1 where pos: "ta_set_pos A (pb_page item)
      (r_left b, r_top b, max 0 (r_right b - r_left b), max 0 (r_bottom b - r_top b)) w = (r1, w1)" by fastforce
  have "items w1 = items w" by (rule tab_controlD(5) [OF assms pos])
  moreover have "w' = w \<or> w' = w1 \<or> arrange_pages A a b pages w1 = (r, w')"
    using Cons.prems pos by (auto split: if_splits bool.splits)
  ultimately show ?case using Cons.IH [of w1] by auto
qed simp

lemma show_pages_items:
  assumes "tab_control_ok A items visible"
  shows "items (show_pages A active pages w) = items w"
  by (induction pages arbitrary: w) (simp_all add: show_pages_def tab_controlD [OF assms])

lemma show_pages_others:
  assumes "tab_control_ok A items visible"
  shows "h \<notin> pb_page ` set pages \<Longrightarrow> visible (show_pages A active pages w) h = visible w h"
  by (induction pages arbitrary: w) (simp_all add: show_pages_def tab_controlD [OF assms])

lemma show_pages_visible:
  assumes "tab_control_ok A items visible"
  shows "distinct (map pb_page pages) \<Longrightarrow> b \<in> set pages \<Longrightarrow>
    visible (show_pages A active pages w) (pb_page b) \<longleftrightarrow> active = Some (pb_document b)"
proof (induction pages arbitrary: w)
  case (Cons c pages)
  let ?w1 = "ta_show A (pb_page c) (active = Some (pb_document c)) w"
  have step: "show_pages A active (c # pages) w = show_pages A active pages ?w1" by (simp add: show_pages_def)
  show ?case
  proof (cases "b \<in> set pages")
    case True
    with Cons show ?thesis by (simp add: step)
  next
    case False
    with Cons.prems have b: "b = c" "pb_page b \<notin> pb_page ` set pages" by auto
    then show ?thesis using show_pages_others [OF assms b(2), of active ?w1]
      by (simp add: step tab_controlD(7) [OF assms])
  qed
qed simp

lemma focus_page_view:
  assumes "tab_control_ok A items visible"
  shows "items (focus_page A a f active w) = items w" "visible (focus_page A a f active w) = visible w"
  by (simp_all add: focus_page_def tab_controlD [OF assms] split: option.splits)

text \<open>A synchronized tab control shows its workspace.  When \<open>Synchronize\<close> reports success, the native tabs
  are the documents in their order, titled with a mark for unsaved changes and carrying their identifiers,
  and of the bound pages exactly that of the active document is shown.\<close>

theorem synchronized_tabs_show_workspace:
  fixes items :: "'w \<Rightarrow> 'h \<Rightarrow> (wstring \<times> u64) list" and visible :: "'w \<Rightarrow> 'h \<Rightarrow> bool"
  assumes ok: "tab_control_ok A items visible" and bindings: "bindings_ok a" and "da_tabs a = Some t"
    and "DocumentTabs_Synchronize A m f a w = ((DocumentTab_success, active), w')"
  shows "items w' t = map tab_item (dw_documents m) \<and> active = dw_active m
    \<and> (\<forall>b \<in> set (da_pages a). visible w' (pb_page b) \<longleftrightarrow> dw_active m = Some (pb_document b))"
proof -
  from assms(3,4) obtain p0 where p0: "project_tabs A a (dw_documents m) TabWorkspaceModel_empty w = Inr p0"
    by (auto simp: DocumentTabs_Synchronize_def Let_def split: if_splits sum.splits)
  with assms(3,4) obtain p where p: "select_projected (dw_active m) p0 = Inr p"
    by (auto simp: DocumentTabs_Synchronize_def Let_def split: if_splits sum.splits)
  have shown: "show_projection A a t p (dw_active m) f w = (DocumentTab_success, w')" and active: "active = dw_active m"
    using assms(3,4) p0 p by (auto simp: DocumentTabs_Synchronize_def Let_def split: if_splits prod.splits)
  obtain r1 w1 where 1: "ta_clear A t w = (r1, w1)" by fastforce
  obtain r2 w2 where 2: "insert_tabs A t (tw_tabs p) w1 = (r2, w2)" by fastforce
  obtain r3 w3 where 3: "select_tab A t p w2 = (r3, w3)" by fastforce
  obtain r4 w4 where 4: "DocumentTabs_ArrangePages A a w3 = (r4, w4)" by fastforce
  from shown 1 2 3 4 have ends: r1 r2 r3
    and w': "w' = focus_page A a f (dw_active m) (show_pages A (dw_active m) (da_pages a) w4)"
    unfolding show_projection_def by (simp_all split: bool.splits if_splits)
  have tabs: "tw_tabs p = map (\<lambda>d. \<lparr>te_id = wd_id d, te_title = tab_title d, te_dirty = wd_dirty d, te_closable = True\<rparr>)
    (dw_documents m)"
    using project_tabs_entries [OF p0] select_projected_tabs [OF p] by (simp add: TabWorkspaceModel_empty_def)
  have "items w1 t = []" using tab_controlD(1) [OF ok] 1 ends(1) by simp
  then have w2: "items w2 t = map tab_item (dw_documents m)"
    using insert_tabs_items [OF ok] 2 ends(2) by (simp add: tabs tab_item_def o_def)
  have "items w3 = items w2"
    using 3 by (auto simp: select_tab_def split: option.splits prod.splits dest: tab_controlD(4) [OF ok])
  moreover have "items w4 = items w3"
    using 4 by (auto simp: DocumentTabs_ArrangePages_def split: option.splits if_splits prod.splits
        dest: arrange_pages_items [OF ok])
  ultimately have "items w' t = map tab_item (dw_documents m)"
    using w2 by (simp add: w' focus_page_view [OF ok] show_pages_items [OF ok])
  moreover have "visible w' (pb_page b) \<longleftrightarrow> dw_active m = Some (pb_document b)" if "b \<in> set (da_pages a)" for b
    using show_pages_visible [OF ok _ that] bindings by (simp add: w' focus_page_view [OF ok] bindings_ok_def)
  ultimately show ?thesis using active by blast
qed

text \<open>A tab control in memory, with the shown windows.\<close>

definition memory_tabs :: "((wstring \<times> u64) list \<times> (nat \<Rightarrow> bool), nat) tabs_api" where
  "memory_tabs = \<lparr>ta_is_window = \<lambda>h w. True, ta_thread_process = \<lambda>h w. (7, 5), ta_current_process = 5,
    ta_current_thread = 7, ta_parent = \<lambda>h w. Some 0, ta_set_parent = \<lambda>h p w. (None, w),
    ta_window_rect = \<lambda>h w. Some \<lparr>r_left = 0, r_top = 0, r_right = 100, r_bottom = 80\<rparr>,
    ta_map_points = \<lambda>p r w. (1, r), ta_adjust_rect = \<lambda>t r w. r, ta_set_pos = \<lambda>h b w. (True, w),
    ta_clear = \<lambda>t w. (True, ([], snd w)), ta_count = \<lambda>t w. int (length (fst w)),
    ta_insert = \<lambda>t n title i w. (n, (fst w @ [(title, i)], snd w)), ta_select = \<lambda>t n w. (0, w),
    ta_selection = \<lambda>t w. 0, ta_item = \<lambda>t n w. None, ta_show = \<lambda>h b w. (fst w, (snd w)(h := b)), ta_focus = \<lambda>h w. w\<rparr>"

definition example_tabs :: "nat DocumentTabWorkspaceAdapter" where
  "example_tabs = \<lparr>da_tabs = Some 1, da_ui_thread = 7, da_process = 5, da_pages = [\<lparr>pb_document = 3, pb_page = 9\<rparr>]\<rparr>"

theorem synchronized_tabs_show_workspace_witness:
  "\<exists>w'. DocumentTabs_Synchronize memory_tabs example_source True example_tabs ([], \<lambda>h. False)
      = ((DocumentTab_success, Some 3), w')
    \<and> fst w' = [(lit ''a *'', 3)] \<and> snd w' 9"
proof -
  obtain r w' where run: "DocumentTabs_Synchronize memory_tabs example_source True example_tabs ([], \<lambda>h. False) = (r, w')"
    by (metis prod.exhaust)
  have "fst (DocumentTabs_Synchronize memory_tabs example_source True example_tabs ([], \<lambda>h. False))
    = (DocumentTab_success, Some 3)" by code_simp
  with run have r: "r = (DocumentTab_success, Some 3)" by simp
  have "tab_control_ok memory_tabs (\<lambda>w t. fst w) snd" by (simp add: tab_control_ok_def memory_tabs_def)
  moreover have "bindings_ok example_tabs" "da_tabs example_tabs = Some 1" by (simp_all add: bindings_ok_def example_tabs_def)
  ultimately have "fst w' = map tab_item (dw_documents example_source)
    \<and> (\<forall>b \<in> set (da_pages example_tabs). snd w' (pb_page b) \<longleftrightarrow> dw_active example_source = Some (pb_document b))"
    using synchronized_tabs_show_workspace [OF _ _ _ run [unfolded r]] by blast
  then have "fst w' = [(lit ''a *'', 3)] \<and> snd w' 9"
    by (simp add: example_source_def example_document_def example_tabs_def tab_item_def tab_title_def until_nul_def)
  with run r show ?thesis by simp
qed

end
