(* ===== verification/Single_Instance.thy ===== *)
theory Single_Instance
  imports Foundation
begin

text \<open>
  One instance of an application (\<open>single_instance.h\<close>, \<open>single_instance.cpp\<close>): the primary instance holds a
  named mutex and marks its window with a property, a later one forwards its activation to that window as
  a \<open>WM_COPYDATA\<close> message.  The calls of the system are a parameter.
\<close>

definition kMaximumPayloadCharacters :: nat where
  "kMaximumPayloadCharacters = 32767"

definition Instance_Hash :: "wstring \<Rightarrow> u64" where
  "Instance_Hash v = foldl (\<lambda>hash c. (hash XOR ucast c) * 1099511628211) 14695981039346656037 v"

datatype ActivationStatus =
    Activation_delivered | Activation_receiver_not_found | Activation_timed_out | Activation_access_denied
  | Activation_io_error

record ActivationResult =
  ar_status :: ActivationStatus
  ar_native_error :: dword

text \<open>
  The message's data: a tag, the number of bytes, and the units at its address; the system copies as many
  bytes as the sender states, so a message that arrives has that many.
\<close>

record COPYDATASTRUCT =
  cd_tag :: u64
  cd_bytes :: dword
  cd_units :: "wstring option"

record ('w, 'h) instance_api =
  ia_create_mutex :: "wstring \<Rightarrow> 'w \<Rightarrow> (dword + bool) \<times> 'w"
  ia_close_mutex :: "wstring \<Rightarrow> 'w \<Rightarrow> 'w"
  ia_is_window :: "'h \<Rightarrow> 'w \<Rightarrow> bool"
  ia_set_prop :: "'h \<Rightarrow> wstring \<Rightarrow> u64 \<Rightarrow> 'w \<Rightarrow> bool \<times> 'w"
  ia_remove_prop :: "'h \<Rightarrow> wstring \<Rightarrow> 'w \<Rightarrow> 'w"
  ia_prop :: "'h \<Rightarrow> wstring \<Rightarrow> 'w \<Rightarrow> u64"
  ia_windows :: "'w \<Rightarrow> 'h list"
  ia_send :: "'h \<Rightarrow> COPYDATASTRUCT \<Rightarrow> dword \<Rightarrow> 'w \<Rightarrow> (dword + u64) \<times> 'w"
  ia_now :: "'w \<Rightarrow> int"
  ia_sleep :: "int \<Rightarrow> 'w \<Rightarrow> 'w"

record 'h SingleInstance =
  si_mutex :: wstring
  si_window :: "'h option"
  si_property :: wstring
  si_tag :: u64
  si_primary :: bool

text \<open>The exceptions of the constructor.\<close>

datatype instance_error = Instance_invalid_argument | Instance_system_error dword

text \<open>\<open>ia_create_mutex\<close> yields the error, or whether the mutex already existed.\<close>

definition payload_tag :: "wstring \<Rightarrow> u64" where
  "payload_tag application_id = (let hash = Instance_Hash application_id in if hash = 0 then 1 else hash)"

definition property_name :: "wstring \<Rightarrow> wstring" where
  "property_name application_id = lit ''mwfl.SingleInstance.Window.'' @ to_wstring (unat (Instance_Hash application_id))"

definition mutex_name :: "wstring \<Rightarrow> wstring" where
  "mutex_name application_id = lit ''Local'' @ [0x5C] @ lit ''mwfl.SingleInstance.Mutex.'' @
    to_wstring (unat (Instance_Hash application_id))"

definition SingleInstance_new ::
  "('w, 'h, 'z) instance_api_scheme \<Rightarrow> wstring \<Rightarrow> 'w \<Rightarrow> (instance_error + 'h SingleInstance) \<times> 'w" where
  "SingleInstance_new A application_id w =
    (if application_id = [] then (Inl Instance_invalid_argument, w)
     else case ia_create_mutex A (mutex_name application_id) w of
       (Inl e, w1) \<Rightarrow> (Inl (Instance_system_error e), w1)
     | (Inr existed, w1) \<Rightarrow>
         (Inr \<lparr>si_mutex = mutex_name application_id, si_window = None, si_property = property_name application_id,
           si_tag = payload_tag application_id, si_primary = (\<not> existed)\<rparr>, w1))"

definition SingleInstance_UnregisterWindow ::
  "('w, 'h, 'z) instance_api_scheme \<Rightarrow> 'h SingleInstance \<Rightarrow> 'w \<Rightarrow> 'h SingleInstance \<times> 'w" where
  "SingleInstance_UnregisterWindow A s w =
    (s\<lparr>si_window := None\<rparr>,
     case si_window s of None \<Rightarrow> w
     | Some h \<Rightarrow> if ia_is_window A h w then ia_remove_prop A h (si_property s) w else w)"

definition SingleInstance_RegisterWindow ::
  "('w, 'h, 'z) instance_api_scheme \<Rightarrow> 'h \<Rightarrow> 'h SingleInstance \<Rightarrow> 'w \<Rightarrow> bool \<times> 'h SingleInstance \<times> 'w" where
  "SingleInstance_RegisterWindow A window s w =
    (if \<not> si_primary s \<or> \<not> ia_is_window A window w then (False, s, w)
     else case SingleInstance_UnregisterWindow A s w of (s1, w1) \<Rightarrow>
       (case ia_set_prop A window (si_property s1) (si_tag s1) w1 of
          (False, w2) \<Rightarrow> (False, s1, w2)
        | (True, w2) \<Rightarrow> (True, s1\<lparr>si_window := Some window\<rparr>, w2)))"

definition SingleInstance_destroy ::
  "('w, 'h, 'z) instance_api_scheme \<Rightarrow> 'h SingleInstance \<Rightarrow> 'w \<Rightarrow> 'w" where
  "SingleInstance_destroy A s w =
    ia_close_mutex A (si_mutex s) (snd (SingleInstance_UnregisterWindow A s w))"

section \<open>Forwarding\<close>

definition FindRegisteredWindow ::
  "('w, 'h, 'z) instance_api_scheme \<Rightarrow> wstring \<Rightarrow> 'w \<Rightarrow> 'h option" where
  "FindRegisteredWindow A property w = find (\<lambda>h. ia_prop A h property w \<noteq> 0) (ia_windows A w)"

definition activation_data :: "'h SingleInstance \<Rightarrow> wstring \<Rightarrow> COPYDATASTRUCT" where
  "activation_data s payload =
    \<lparr>cd_tag = si_tag s, cd_bytes = of_nat ((length payload + 1) * 2), cd_units = Some (payload @ [0])\<rparr>"

definition ERROR_TIMEOUT :: dword where "ERROR_TIMEOUT = 1460"

definition send_activation ::
  "('w, 'h, 'z) instance_api_scheme \<Rightarrow> 'h SingleInstance \<Rightarrow> wstring \<Rightarrow> int \<Rightarrow> 'h \<Rightarrow> 'w \<Rightarrow> ActivationResult \<times> 'w" where
  "send_activation A s payload timeout window w =
    (case ia_send A window (activation_data s payload) (of_int (max timeout 1)) w of
       (Inr answer, w1) \<Rightarrow>
         (if answer \<noteq> 0 then \<lparr>ar_status = Activation_delivered, ar_native_error = ERROR_SUCCESS\<rparr>
          else \<lparr>ar_status = Activation_io_error, ar_native_error = ERROR_INVALID_DATA\<rparr>, w1)
     | (Inl e, w1) \<Rightarrow>
         (\<lparr>ar_status = (if e = ERROR_TIMEOUT then Activation_timed_out
             else if e = ERROR_ACCESS_DENIED then Activation_access_denied else Activation_io_error),
           ar_native_error = e\<rparr>, w1))"

text \<open>The search with its naps of 25 milliseconds; times are in nanoseconds.  \<open>None\<close> would be a call that does not return.\<close>

partial_function (option) forward_loop ::
  "('w, 'h, 'z) instance_api_scheme \<Rightarrow> 'h SingleInstance \<Rightarrow> wstring \<Rightarrow> int \<Rightarrow> int \<Rightarrow> 'w \<Rightarrow> (ActivationResult \<times> 'w) option" where
  "forward_loop A s payload timeout deadline w =
    (case FindRegisteredWindow A (si_property s) w of
       Some window \<Rightarrow> Some (send_activation A s payload timeout window w)
     | None \<Rightarrow>
         if deadline \<le> ia_now A w
         then Some (\<lparr>ar_status = Activation_receiver_not_found, ar_native_error = ERROR_NOT_FOUND\<rparr>, w)
         else forward_loop A s payload timeout deadline (ia_sleep A 25000000 w))"

definition SingleInstance_ForwardActivation ::
  "('w, 'h, 'z) instance_api_scheme \<Rightarrow> wstring \<Rightarrow> int \<Rightarrow> 'h SingleInstance \<Rightarrow> 'w \<Rightarrow> (ActivationResult \<times> 'w) option" where
  "SingleInstance_ForwardActivation A payload timeout s w =
    (if si_primary s \<or> kMaximumPayloadCharacters < length payload
     then Some (\<lparr>ar_status = Activation_io_error, ar_native_error = ERROR_INVALID_PARAMETER\<rparr>, w)
     else forward_loop A s payload timeout (ia_now A w + max timeout 0 * 1000000) w)"

definition WM_COPYDATA :: dword where "WM_COPYDATA = 0x4A"

definition SingleInstance_DecodeActivation ::
  "dword \<Rightarrow> COPYDATASTRUCT option \<Rightarrow> 'h SingleInstance \<Rightarrow> wstring option" where
  "SingleInstance_DecodeActivation message lparam s =
    (if \<not> si_primary s \<or> message \<noteq> WM_COPYDATA then None
     else case lparam of
       None \<Rightarrow> None
     | Some data \<Rightarrow>
         (case cd_units data of
            None \<Rightarrow> None
          | Some units \<Rightarrow>
              if cd_tag data \<noteq> si_tag s \<or> unat (cd_bytes data) < 2 \<or> unat (cd_bytes data) mod 2 \<noteq> 0
                 \<or> (kMaximumPayloadCharacters + 1) * 2 < unat (cd_bytes data) then None
              else let n = unat (cd_bytes data) div 2
                in if units ! (n - 1) \<noteq> 0 then None else Some (take (n - 1) units)))"

section \<open>Activations arrive\<close>

lemma activation_decoded:
  assumes "si_primary p" and "si_tag p = si_tag s" and "length payload \<le> kMaximumPayloadCharacters"
  shows "SingleInstance_DecodeActivation WM_COPYDATA (Some (activation_data s payload)) p = Some payload"
proof -
  let ?n = "(length payload + 1) * 2"
  have "?n < 2 ^ 32" using assms(3) by (simp add: kMaximumPayloadCharacters_def)
  then have "unat (of_nat ?n :: dword) = ?n" by (simp only: unat_of_nat len_bit0 len_num1) (rule mod_less, simp)
  then have bytes: "unat (cd_bytes (activation_data s payload)) = ?n" by (simp only: activation_data_def COPYDATASTRUCT.simps)
  have bound: "?n \<le> (kMaximumPayloadCharacters + 1) * 2" using assms(3) by simp
  show ?thesis using assms bytes bound
    by (simp add: SingleInstance_DecodeActivation_def activation_data_def Let_def)
qed

text \<open>What windows answer: every window with the property of an application belongs to its primary instance, and
  answers with a nonzero value only when it has decoded the message.  \<open>received\<close> are the decoded payloads.\<close>

definition receivers_ok ::
  "('w, 'h, 'z) instance_api_scheme \<Rightarrow> 'h SingleInstance \<Rightarrow> ('w \<Rightarrow> wstring list) \<Rightarrow> bool" where
  "receivers_ok A p received \<longleftrightarrow>
    (\<forall>h data t w answer w'. ia_prop A h (si_property p) w \<noteq> 0 \<and> ia_send A h data t w = (Inr answer, w') \<and> answer \<noteq> 0 \<longrightarrow>
      (\<exists>payload. SingleInstance_DecodeActivation WM_COPYDATA (Some data) p = Some payload
        \<and> received w' = received w @ [payload])) \<and>
    (\<forall>ms w. received (ia_sleep A ms w) = received w \<and> ia_now A w < ia_now A (ia_sleep A ms w))"

lemma receivers_answer:
  "receivers_ok A p received \<Longrightarrow> ia_prop A h (si_property p) w \<noteq> 0 \<Longrightarrow> ia_send A h data t w = (Inr answer, w') \<Longrightarrow>
    answer \<noteq> 0 \<Longrightarrow> \<exists>payload. SingleInstance_DecodeActivation WM_COPYDATA (Some data) p = Some payload
      \<and> received w' = received w @ [payload]"
  unfolding receivers_ok_def by metis

lemma receivers_sleep:
  "receivers_ok A p received \<Longrightarrow> received (ia_sleep A ms w) = received w \<and> ia_now A w < ia_now A (ia_sleep A ms w)"
  unfolding receivers_ok_def by metis

definition same_application :: "'h SingleInstance \<Rightarrow> 'h SingleInstance \<Rightarrow> bool" where
  "same_application s p \<longleftrightarrow> si_property s = si_property p \<and> si_tag s = si_tag p"

lemma new_same_application:
  "SingleInstance_new A i w = (Inr s, w1) \<Longrightarrow> SingleInstance_new A i w2 = (Inr p, w3) \<Longrightarrow> same_application s p"
  by (auto simp: SingleInstance_new_def same_application_def split: if_splits prod.splits sum.splits)

lemma forward_loop_result:
  assumes ok: "receivers_ok A p received" and same: "same_application s p" and "si_primary p"
    and size: "length payload \<le> kMaximumPayloadCharacters"
  shows "\<exists>r w'. forward_loop A s payload timeout deadline w = Some (r, w')
    \<and> (ar_status r = Activation_delivered \<longrightarrow> received w' = received w @ [payload])"
proof (induction "nat (deadline - ia_now A w)" arbitrary: w rule: less_induct)
  case less
  show ?case
  proof (cases "FindRegisteredWindow A (si_property s) w")
    case (Some h)
    then have marked: "ia_prop A h (si_property p) w \<noteq> 0"
      using same by (auto simp: FindRegisteredWindow_def same_application_def find_Some_iff)
    obtain x w1 where send: "ia_send A h (activation_data s payload) (of_int (max timeout 1)) w = (x, w1)" by fastforce
    have "received w1 = received w @ [payload]" if "x = Inr answer" "answer \<noteq> 0" for answer
    proof -
      have "SingleInstance_DecodeActivation WM_COPYDATA (Some (activation_data s payload)) p = Some payload"
        using assms(3) same size by (intro activation_decoded) (simp_all add: same_application_def)
      then show ?thesis using receivers_answer [OF ok marked send [unfolded that(1)] that(2)] by auto
    qed
    with Some send show ?thesis
      by (subst forward_loop.simps) (auto simp: send_activation_def split: sum.splits)
  next
    case None
    show ?thesis
    proof (cases "deadline \<le> ia_now A w")
      case True
      with None show ?thesis by (subst forward_loop.simps) simp
    next
      case False
      let ?w1 = "ia_sleep A 25000000 w"
      have rest: "received ?w1 = received w" "ia_now A w < ia_now A ?w1" using receivers_sleep [OF ok] by blast+
      then have "nat (deadline - ia_now A ?w1) < nat (deadline - ia_now A w)" using False by simp
      from less [OF this] None False rest(1) show ?thesis by (subst forward_loop.simps) simp
    qed
  qed
qed

text \<open>C34: Activations arrive.  Forwarding from a later instance of the same application always returns, however
  long no window is registered, and when it reports a delivery, the primary instance has decoded exactly
  the payload that was sent, with whatever characters it contains.\<close>

theorem forwarded_activation_arrives:
  assumes "SingleInstance_new A i w1 = (Inr p, w2)" and "si_primary p"
    and "SingleInstance_new A i w3 = (Inr s, w4)" and "receivers_ok A p received"
  shows "\<exists>r w'. SingleInstance_ForwardActivation A payload timeout s w = Some (r, w')
    \<and> (ar_status r = Activation_delivered \<longrightarrow> received w' = received w @ [payload])"
proof (cases "si_primary s \<or> kMaximumPayloadCharacters < length payload")
  case False
  have "same_application s p" by (rule new_same_application [OF assms(3,1)])
  from forward_loop_result [OF assms(4) this assms(2)] False show ?thesis
    by (simp add: SingleInstance_ForwardActivation_def)
qed (simp add: SingleInstance_ForwardActivation_def)

text \<open>A system with one window of the primary instance of \<open>demo\<close>; its state is the mutex, the received payloads and the time.\<close>

definition example_primary :: "nat SingleInstance" where
  "example_primary = \<lparr>si_mutex = mutex_name (lit ''demo''), si_window = None, si_property = property_name (lit ''demo''),
    si_tag = payload_tag (lit ''demo''), si_primary = True\<rparr>"

definition demo_system :: "(bool \<times> wstring list \<times> int, nat) instance_api" where
  "demo_system = \<lparr>ia_create_mutex = \<lambda>n w. (Inr (fst w), (True, snd w)), ia_close_mutex = \<lambda>n w. w,
    ia_is_window = \<lambda>h w. h = 4, ia_set_prop = \<lambda>h n t w. (True, w), ia_remove_prop = \<lambda>h n w. w,
    ia_prop = \<lambda>h n w. (if h = 4 then 1 else 0), ia_windows = \<lambda>w. [2, 4],
    ia_send = \<lambda>h data t w. (case SingleInstance_DecodeActivation WM_COPYDATA (Some data) example_primary of
      None \<Rightarrow> (Inr 0, w) | Some payload \<Rightarrow> (Inr 1, (fst w, fst (snd w) @ [payload], snd (snd w)))),
    ia_now = \<lambda>w. snd (snd w), ia_sleep = \<lambda>ms w. (fst w, fst (snd w), snd (snd w) + 1)\<rparr>"

theorem forwarded_activation_arrives_witness:
  "\<exists>r w'. SingleInstance_ForwardActivation demo_system (lit ''a b'') 100 (example_primary\<lparr>si_primary := False\<rparr>) (True, [], 0)
      = Some (r, w') \<and> (ar_status r = Activation_delivered \<longrightarrow> fst (snd w') = [lit ''a b''])"
proof -
  have "SingleInstance_new demo_system (lit ''demo'') (False, [], 0) = (Inr example_primary, (True, [], 0))"
    "SingleInstance_new demo_system (lit ''demo'') (True, [], 0) = (Inr (example_primary\<lparr>si_primary := False\<rparr>), (True, [], 0))"
    "si_primary example_primary"
    by (simp_all add: SingleInstance_new_def demo_system_def example_primary_def)
  moreover have "receivers_ok demo_system example_primary (fst \<circ> snd)"
    by (auto simp: receivers_ok_def demo_system_def split: option.splits)
  ultimately show ?thesis using forwarded_activation_arrives [of demo_system "lit ''demo''" "(False, [], 0)" example_primary
      "(True, [], 0)" "(True, [], 0)" "example_primary\<lparr>si_primary := False\<rparr>" "(True, [], 0)" "fst \<circ> snd" "lit ''a b''" 100 "(True, [], 0)"]
    by simp
qed

end
