(* ===== verification/File_Association.thy ===== *)
theory File_Association
  imports Foundation "HOL-Library.Sublist"
begin

text \<open>
  Associations of file types (\<open>file_association.h\<close>, \<open>file_association.cpp\<close>): the plan of registry values,
  registering and removing it below a subkey of the classes.  The registry calls are a parameter with the
  root fixed in it; closing a key keeps no state here.  Exceptions of the allocator are not modelled.
\<close>

datatype FileAssociationStatus =
    Assoc_success | Assoc_not_found | Assoc_conflict | Assoc_access_denied | Assoc_invalid_argument | Assoc_failed

record FileAssociationVerb =
  verb_id :: wstring
  verb_display_name :: wstring
  verb_arguments :: wstring

record FileAssociationSpec =
  fs_extension :: wstring
  fs_prog_id :: wstring
  fs_owner_id :: wstring
  fs_display_name :: wstring
  fs_executable :: wstring
  fs_icon :: wstring
  fs_verbs :: "FileAssociationVerb list"

record FileAssociationRegistryValue =
  rv_key :: wstring
  rv_name :: wstring
  rv_data :: wstring

record FileAssociationPlan =
  fp_values :: "FileAssociationRegistryValue list"
  fp_extension_key :: wstring
  fp_prog_id_key :: wstring
  fp_valid :: bool

record FileAssociationResult =
  fr_status :: FileAssociationStatus
  fr_error :: dword

text \<open>
  Registry calls by path and handle, the shell notification, \<open>is_absolute\<close> of a path and \<open>iswalnum\<close>.
  \<open>as_get\<close> is \<open>RegGetValueW\<close> for strings with a buffer of so many bytes: error, bytes needed, units read.
\<close>

record ('k, 'w) assoc_api =
  as_get :: "wstring \<Rightarrow> wstring \<Rightarrow> nat \<Rightarrow> 'w \<Rightarrow> dword \<times> nat \<times> wstring"
  as_create :: "wstring \<Rightarrow> 'w \<Rightarrow> (dword + 'k) \<times> 'w"
  as_open :: "wstring \<Rightarrow> 'w \<Rightarrow> dword + 'k"
  as_set :: "'k \<Rightarrow> wstring \<Rightarrow> wstring \<Rightarrow> 'w \<Rightarrow> dword \<times> 'w"
  as_delete_value :: "'k \<Rightarrow> wstring \<Rightarrow> 'w \<Rightarrow> dword \<times> 'w"
  as_info :: "'k \<Rightarrow> 'w \<Rightarrow> dword \<times> nat \<times> nat"
  as_delete_key :: "wstring \<Rightarrow> 'w \<Rightarrow> dword \<times> 'w"
  as_delete_tree :: "wstring \<Rightarrow> 'w \<Rightarrow> dword \<times> 'w"
  as_notify :: "'w \<Rightarrow> 'w"
  as_absolute :: "wstring \<Rightarrow> bool"
  as_alnum :: "wchar \<Rightarrow> bool"

definition ERROR_NOT_OWNER :: dword where "ERROR_NOT_OWNER = 288"
definition ERROR_INVALID_OWNER :: dword where "ERROR_INVALID_OWNER = 1307"

definition kOwnerValue :: wstring where
  "kOwnerValue = lit ''mwfl.OwnerId''"

definition Assoc_Clean :: "wstring \<Rightarrow> bool" where
  "Assoc_Clean v \<longleftrightarrow> v \<noteq> [] \<and> 0 \<notin> set v"

definition ValidComponent :: "wstring \<Rightarrow> bool" where
  "ValidComponent v \<longleftrightarrow> Assoc_Clean v \<and> 0x5C \<notin> set v \<and> 0x2F \<notin> set v"

definition ValidVerb :: "('k, 'w, 'z) assoc_api_scheme \<Rightarrow> wstring \<Rightarrow> bool" where
  "ValidVerb A v \<longleftrightarrow> ValidComponent v \<and> list_all (\<lambda>c. as_alnum A c \<or> c = 0x5F \<or> c = 0x2D) v"

definition Assoc_Join :: "wstring \<Rightarrow> wstring \<Rightarrow> wstring" where
  "Assoc_Join left right = (if left \<noteq> [] \<and> last left \<noteq> 0x5C then left @ [0x5C] else left) @ right"

definition Assoc_Quote :: "wstring \<Rightarrow> wstring" where
  "Assoc_Quote v = [0x22] @ v @ [0x22]"

definition Assoc_MapError :: "dword \<Rightarrow> FileAssociationStatus" where
  "Assoc_MapError e =
    (if e = ERROR_SUCCESS then Assoc_success
     else if e = ERROR_FILE_NOT_FOUND \<or> e = ERROR_PATH_NOT_FOUND then Assoc_not_found
     else if e = ERROR_ACCESS_DENIED then Assoc_access_denied
     else if e = ERROR_INVALID_PARAMETER then Assoc_invalid_argument
     else Assoc_failed)"

section \<open>Reading and writing strings\<close>

text \<open>The string read, or the error.\<close>

definition Assoc_ReadString :: "('k, 'w, 'z) assoc_api_scheme \<Rightarrow> wstring \<Rightarrow> wstring \<Rightarrow> 'w \<Rightarrow> dword + wstring" where
  "Assoc_ReadString A path name w =
    (case as_get A (until_nul path) name 0 w of (e, bytes, _) \<Rightarrow>
      if e \<noteq> 0 then Inl e
      else if bytes < 2 \<or> bytes mod 2 \<noteq> 0 then Inl ERROR_INVALID_DATA
      else case as_get A (until_nul path) name bytes w of (e, _, units) \<Rightarrow>
        if e \<noteq> 0 then Inl e
        else let buffer = take (bytes div 2) (units @ replicate (bytes div 2) 0);
                 text = takeWhile (\<lambda>c. c \<noteq> 0) buffer
          in if length text = length buffer \<or> list_ex (\<lambda>c. c \<noteq> 0) (drop (length text) buffer)
             then Inl ERROR_INVALID_DATA else Inr text)"

definition Assoc_WriteString ::
  "('k, 'w, 'z) assoc_api_scheme \<Rightarrow> wstring \<Rightarrow> wstring \<Rightarrow> wstring \<Rightarrow> 'w \<Rightarrow> dword \<times> 'w" where
  "Assoc_WriteString A path name data w =
    (if 0x7FFFFFFE < length data then (ERROR_INVALID_PARAMETER, w)
     else case as_create A (until_nul path) w of
       (Inl e, w1) \<Rightarrow> (e, w1)
     | (Inr k, w1) \<Rightarrow> as_set A k (until_nul name) (data @ [0]) w1)"

definition Assoc_KeyExists :: "('k, 'w, 'z) assoc_api_scheme \<Rightarrow> wstring \<Rightarrow> 'w \<Rightarrow> bool" where
  "Assoc_KeyExists A path w \<longleftrightarrow> (case as_open A (until_nul path) w of Inl _ \<Rightarrow> False | Inr _ \<Rightarrow> True)"

definition DeleteKeyIfEmpty :: "('k, 'w, 'z) assoc_api_scheme \<Rightarrow> wstring \<Rightarrow> 'w \<Rightarrow> 'w" where
  "DeleteKeyIfEmpty A path w =
    (case as_open A (until_nul path) w of
       Inl _ \<Rightarrow> w
     | Inr k \<Rightarrow> (case as_info A k w of (e, subkeys, n) \<Rightarrow>
         if e \<noteq> 0 \<or> subkeys \<noteq> 0 \<or> n \<noteq> 0 then w else snd (as_delete_key A (until_nul path) w)))"

definition NotifyShell :: "('k, 'w, 'z) assoc_api_scheme \<Rightarrow> bool \<Rightarrow> 'w \<Rightarrow> 'w" where
  "NotifyShell A enabled w = (if enabled then as_notify A w else w)"

section \<open>The plan\<close>

definition verb_command :: "FileAssociationSpec \<Rightarrow> FileAssociationVerb \<Rightarrow> wstring" where
  "verb_command spec verb = Assoc_Quote (fs_executable spec) @
    (if verb_arguments verb \<noteq> [] then lit '' '' @ verb_arguments verb else []) @ lit '' '' @ [0x22] @ lit ''%1'' @ [0x22]"

definition verb_values :: "FileAssociationSpec \<Rightarrow> FileAssociationVerb \<Rightarrow> FileAssociationRegistryValue list" where
  "verb_values spec verb =
    (let key = Assoc_Join (Assoc_Join (fs_prog_id spec) (lit ''shell'')) (verb_id verb)
     in (if verb_display_name verb \<noteq> [] then [\<lparr>rv_key = key, rv_name = [], rv_data = verb_display_name verb\<rparr>] else []) @
        [\<lparr>rv_key = Assoc_Join key (lit ''command''), rv_name = [], rv_data = verb_command spec verb\<rparr>])"

definition prog_id_values :: "FileAssociationSpec \<Rightarrow> FileAssociationRegistryValue list" where
  "prog_id_values spec =
    [\<lparr>rv_key = fs_prog_id spec, rv_name = [], rv_data = fs_display_name spec\<rparr>,
     \<lparr>rv_key = fs_prog_id spec, rv_name = kOwnerValue, rv_data = fs_owner_id spec\<rparr>] @
    (if fs_icon spec \<noteq> [] then [\<lparr>rv_key = Assoc_Join (fs_prog_id spec) (lit ''DefaultIcon''), rv_name = [],
       rv_data = Assoc_Quote (fs_icon spec)\<rparr>] else []) @
    concat (map (verb_values spec) (fs_verbs spec))"

definition extension_values :: "FileAssociationSpec \<Rightarrow> FileAssociationRegistryValue list" where
  "extension_values spec =
    [\<lparr>rv_key = fs_extension spec, rv_name = kOwnerValue, rv_data = fs_owner_id spec\<rparr>,
     \<lparr>rv_key = fs_extension spec, rv_name = [], rv_data = fs_prog_id spec\<rparr>]"

definition contains_argument :: "wstring \<Rightarrow> bool" where
  "contains_argument v \<longleftrightarrow> sublist (lit ''%1'') v"

definition valid_spec :: "('k, 'w, 'z) assoc_api_scheme \<Rightarrow> FileAssociationSpec \<Rightarrow> bool" where
  "valid_spec A spec \<longleftrightarrow> 2 \<le> length (fs_extension spec) \<and> hd (fs_extension spec) = 0x2E
    \<and> ValidComponent (fs_extension spec) \<and> ValidComponent (fs_prog_id spec) \<and> ValidComponent (fs_owner_id spec)
    \<and> Assoc_Clean (fs_display_name spec) \<and> fs_executable spec \<noteq> [] \<and> as_absolute A (fs_executable spec)
    \<and> (fs_icon spec = [] \<or> as_absolute A (fs_icon spec)) \<and> fs_verbs spec \<noteq> []
    \<and> 0x22 \<notin> set (fs_executable spec) \<and> 0x22 \<notin> set (fs_icon spec)
    \<and> list_all (\<lambda>v. ValidVerb A (verb_id v) \<and> 0 \<notin> set (verb_arguments v) \<and> \<not> contains_argument (verb_arguments v))
        (fs_verbs spec)"

definition BuildFileAssociationPlan :: "('k, 'w, 'z) assoc_api_scheme \<Rightarrow> FileAssociationSpec \<Rightarrow> FileAssociationPlan" where
  "BuildFileAssociationPlan A spec =
    (if \<not> valid_spec A spec then \<lparr>fp_values = [], fp_extension_key = [], fp_prog_id_key = [], fp_valid = False\<rparr>
     else \<lparr>fp_values = prog_id_values spec @ extension_values spec, fp_extension_key = fs_extension spec,
       fp_prog_id_key = fs_prog_id spec, fp_valid = True\<rparr>)"

section \<open>Registering\<close>

fun write_plan ::
  "('k, 'w, 'z) assoc_api_scheme \<Rightarrow> wstring \<Rightarrow> FileAssociationRegistryValue list \<Rightarrow> 'w \<Rightarrow> dword \<times> 'w" where
  "write_plan A classes [] w = (ERROR_SUCCESS, w)"
| "write_plan A classes (v # vs) w =
    (case Assoc_WriteString A (Assoc_Join classes (rv_key v)) (rv_name v) (rv_data v) w of
       (e, w1) \<Rightarrow> if e \<noteq> ERROR_SUCCESS then (e, w1) else write_plan A classes vs w1)"

definition assoc_result :: "FileAssociationStatus \<Rightarrow> dword \<Rightarrow> FileAssociationResult" where
  "assoc_result s e = \<lparr>fr_status = s, fr_error = e\<rparr>"

text \<open>The conflicts found before anything is written.\<close>

definition registration_conflict ::
  "('k, 'w, 'z) assoc_api_scheme \<Rightarrow> wstring \<Rightarrow> FileAssociationSpec \<Rightarrow> 'w \<Rightarrow> dword option" where
  "registration_conflict A classes spec w =
    (let extension_key = Assoc_Join classes (fs_extension spec);
         prog_id_key = Assoc_Join classes (fs_prog_id spec);
         prog_owner = Assoc_ReadString A prog_id_key kOwnerValue w;
         extension = Assoc_ReadString A extension_key [] w;
         extension_owner = Assoc_ReadString A extension_key kOwnerValue w
     in if Assoc_KeyExists A prog_id_key w \<and> prog_owner \<noteq> Inr (fs_owner_id spec) then Some ERROR_ALREADY_EXISTS
        else if (case extension of Inl _ \<Rightarrow> False | Inr v \<Rightarrow> v \<noteq> fs_prog_id spec \<or> extension_owner \<noteq> Inr (fs_owner_id spec))
        then Some ERROR_ALREADY_EXISTS
        else if Assoc_KeyExists A extension_key w
          \<and> (case extension_owner of Inl _ \<Rightarrow> False | Inr v \<Rightarrow> v \<noteq> fs_owner_id spec)
        then Some ERROR_NOT_OWNER else None)"

definition RegisterFileAssociation ::
  "('k, 'w, 'z) assoc_api_scheme \<Rightarrow> bool \<Rightarrow> wstring \<Rightarrow> FileAssociationSpec \<Rightarrow> bool \<Rightarrow> 'w \<Rightarrow> FileAssociationResult \<times> 'w" where
  "RegisterFileAssociation A has_root classes spec notify w =
    (let plan = BuildFileAssociationPlan A spec
     in if \<not> has_root \<or> \<not> Assoc_Clean classes \<or> \<not> fp_valid plan
        then (assoc_result Assoc_invalid_argument ERROR_INVALID_PARAMETER, w)
        else case registration_conflict A classes spec w of
          Some e \<Rightarrow> (assoc_result Assoc_conflict e, w)
        | None \<Rightarrow> (case write_plan A classes (fp_values plan) w of (e, w1) \<Rightarrow>
            if e \<noteq> ERROR_SUCCESS then (assoc_result (Assoc_MapError e) e, w1)
            else (assoc_result Assoc_success ERROR_SUCCESS, NotifyShell A notify w1)))"

section \<open>Removing\<close>

definition removal_refused ::
  "('k, 'w, 'z) assoc_api_scheme \<Rightarrow> wstring \<Rightarrow> FileAssociationSpec \<Rightarrow> 'w \<Rightarrow> FileAssociationResult option" where
  "removal_refused A classes spec w =
    (let extension_key = Assoc_Join classes (fs_extension spec);
         prog_id_key = Assoc_Join classes (fs_prog_id spec)
     in case Assoc_ReadString A prog_id_key kOwnerValue w of
       Inl e \<Rightarrow>
         if Assoc_KeyExists A prog_id_key w \<or> Assoc_KeyExists A extension_key w
         then Some (assoc_result Assoc_conflict ERROR_NOT_OWNER) else Some (assoc_result Assoc_not_found e)
     | Inr v \<Rightarrow>
         if v \<noteq> fs_owner_id spec then Some (assoc_result Assoc_conflict ERROR_NOT_OWNER)
         else case Assoc_ReadString A extension_key kOwnerValue w of
           Inl _ \<Rightarrow> Some (assoc_result Assoc_conflict ERROR_NOT_OWNER)
         | Inr v \<Rightarrow>
             if v \<noteq> fs_owner_id spec then Some (assoc_result Assoc_conflict ERROR_INVALID_OWNER)
             else if Assoc_ReadString A extension_key [] w \<noteq> Inr (fs_prog_id spec)
             then Some (assoc_result Assoc_conflict ERROR_NOT_OWNER) else None)"

definition deletion_failed :: "dword \<Rightarrow> bool" where
  "deletion_failed e \<longleftrightarrow> e \<noteq> ERROR_SUCCESS \<and> e \<noteq> ERROR_FILE_NOT_FOUND"

definition remove_extension ::
  "('k, 'w, 'z) assoc_api_scheme \<Rightarrow> wstring \<Rightarrow> 'w \<Rightarrow> dword option \<times> 'w" where
  "remove_extension A extension_key w =
    (case as_open A (until_nul extension_key) w of
       Inl e \<Rightarrow> (if e \<noteq> ERROR_FILE_NOT_FOUND then Some e else None, w)
     | Inr k \<Rightarrow>
         (case as_delete_value A k [] w of (first, w1) \<Rightarrow>
           case as_delete_value A k kOwnerValue w1 of (second, w2) \<Rightarrow>
             (if deletion_failed first \<or> deletion_failed second
              then Some (if first \<noteq> ERROR_SUCCESS then first else second) else None, w2)))"

definition RemoveFileAssociation ::
  "('k, 'w, 'z) assoc_api_scheme \<Rightarrow> bool \<Rightarrow> wstring \<Rightarrow> FileAssociationSpec \<Rightarrow> bool \<Rightarrow> 'w \<Rightarrow> FileAssociationResult \<times> 'w" where
  "RemoveFileAssociation A has_root classes spec notify w =
    (let extension_key = Assoc_Join classes (fs_extension spec)
     in if \<not> has_root \<or> \<not> Assoc_Clean classes \<or> \<not> fp_valid (BuildFileAssociationPlan A spec)
        then (assoc_result Assoc_invalid_argument ERROR_INVALID_PARAMETER, w)
        else case removal_refused A classes spec w of
          Some r \<Rightarrow> (r, w)
        | None \<Rightarrow>
            (case as_delete_tree A (until_nul (Assoc_Join classes (fs_prog_id spec))) w of (e, w1) \<Rightarrow>
              if deletion_failed e then (assoc_result (Assoc_MapError e) e, w1)
              else case remove_extension A extension_key w1 of
                (Some e, w2) \<Rightarrow> (assoc_result (Assoc_MapError e) e, w2)
              | (None, w2) \<Rightarrow>
                  (assoc_result Assoc_success ERROR_SUCCESS, NotifyShell A notify (DeleteKeyIfEmpty A extension_key w2))))"

definition classes_key :: wstring where
  "classes_key = lit ''Software'' @ [0x5C] @ lit ''Classes''"

definition RegisterPerUserFileAssociation ::
  "('k, 'w, 'z) assoc_api_scheme \<Rightarrow> FileAssociationSpec \<Rightarrow> 'w \<Rightarrow> FileAssociationResult \<times> 'w" where
  "RegisterPerUserFileAssociation A spec = RegisterFileAssociation A True classes_key spec True"

definition RemovePerUserFileAssociation ::
  "('k, 'w, 'z) assoc_api_scheme \<Rightarrow> FileAssociationSpec \<Rightarrow> 'w \<Rightarrow> FileAssociationResult \<times> 'w" where
  "RemovePerUserFileAssociation A spec = RemoveFileAssociation A True classes_key spec True"

end
