(* ===== verification/File_Association_Safety.thy ===== *)
theory File_Association_Safety
  imports File_Association
begin

text \<open>
  What registering and removing an association do to the registry: the extension is claimed last, keys of
  others stay untouched, and removing undoes registering.
\<close>

section \<open>The registry the operations rely on\<close>

text \<open>
  The registry keeps a string (with its terminator) or nothing for each key and value name, regardless of
  case: \<open>lower\<close> folds a character.  Writing and deleting a value change that value or fail and change
  nothing, deleting a tree empties it, and opening a key that has values succeeds.
\<close>

type_synonym assoc_values = "wstring \<Rightarrow> wstring \<Rightarrow> wstring option"

definition below :: "wstring \<Rightarrow> wstring \<Rightarrow> bool" where
  "below key p \<longleftrightarrow> p = key \<or> prefix (key @ [0x5C]) p"

definition assoc_ok ::
  "('k, 'w, 'z) assoc_api_scheme \<Rightarrow> (wchar \<Rightarrow> wchar) \<Rightarrow> ('w \<Rightarrow> assoc_values) \<Rightarrow> ('k \<Rightarrow> wstring) \<Rightarrow> bool" where
  "assoc_ok A lower contents key_of \<longleftrightarrow>
    (\<forall>path w r w'. as_create A path w = (r, w') \<longrightarrow>
      contents w' = contents w \<and> r \<noteq> Inl ERROR_SUCCESS \<and> (\<forall>k. r = Inr k \<longrightarrow> key_of k = map lower path)) \<and>
    (\<forall>path w k. as_open A path w = Inr k \<longrightarrow> key_of k = map lower path) \<and>
    (\<forall>path w e. as_open A path w = Inl e \<longrightarrow> e \<noteq> ERROR_SUCCESS \<and> contents w (map lower path) = (\<lambda>_. None)) \<and>
    (\<forall>k name units w e w'. as_set A k name units w = (e, w') \<longrightarrow> contents w' = (if e = ERROR_SUCCESS
      then (contents w)(key_of k := (contents w (key_of k))(map lower name := Some units)) else contents w)) \<and>
    (\<forall>k name w e w'. as_delete_value A k name w = (e, w') \<and> \<not> deletion_failed e \<longrightarrow>
      contents w' = (contents w)(key_of k := (contents w (key_of k))(map lower name := None))) \<and>
    (\<forall>path w e w'. as_delete_tree A path w = (e, w') \<and> \<not> deletion_failed e \<longrightarrow>
      contents w' = (\<lambda>p. if below (map lower path) p then (\<lambda>_. None) else contents w p)) \<and>
    (\<forall>k w s. as_info A k w = (ERROR_SUCCESS, s, 0) \<longrightarrow> contents w (key_of k) = (\<lambda>_. None)) \<and>
    (\<forall>path w. contents (snd (as_delete_key A path w)) = contents w
      \<or> contents (snd (as_delete_key A path w)) = (contents w)(map lower path := (\<lambda>_. None))) \<and>
    (\<forall>w. contents (as_notify A w) = contents w) \<and>
    (\<forall>path name w n. as_get A path name n w = (case contents w (map lower path) (map lower name) of
      None \<Rightarrow> (ERROR_FILE_NOT_FOUND, 0, [])
    | Some units \<Rightarrow> (ERROR_SUCCESS, length units * 2, if n = 0 then [] else units)))"

lemma assoc_okD:
  assumes "assoc_ok A lower contents key_of"
  shows "\<forall>path w r w'. as_create A path w = (r, w') \<longrightarrow>
       contents w' = contents w \<and> r \<noteq> Inl ERROR_SUCCESS \<and> (\<forall>k. r = Inr k \<longrightarrow> key_of k = map lower path)"
    and "\<forall>path w k. as_open A path w = Inr k \<longrightarrow> key_of k = map lower path"
    and "\<forall>path w e. as_open A path w = Inl e \<longrightarrow> e \<noteq> ERROR_SUCCESS \<and> contents w (map lower path) = (\<lambda>_. None)"
    and "\<forall>k name units w e w'. as_set A k name units w = (e, w') \<longrightarrow> contents w' = (if e = ERROR_SUCCESS
       then (contents w)(key_of k := (contents w (key_of k))(map lower name := Some units)) else contents w)"
    and "\<forall>k name w e w'. as_delete_value A k name w = (e, w') \<and> \<not> deletion_failed e \<longrightarrow>
       contents w' = (contents w)(key_of k := (contents w (key_of k))(map lower name := None))"
    and "\<forall>path w e w'. as_delete_tree A path w = (e, w') \<and> \<not> deletion_failed e \<longrightarrow>
       contents w' = (\<lambda>p. if below (map lower path) p then (\<lambda>_. None) else contents w p)"
    and "\<forall>k w s. as_info A k w = (ERROR_SUCCESS, s, 0) \<longrightarrow> contents w (key_of k) = (\<lambda>_. None)"
    and "\<forall>path w. contents (snd (as_delete_key A path w)) = contents w
       \<or> contents (snd (as_delete_key A path w)) = (contents w)(map lower path := (\<lambda>_. None))"
    and "\<forall>w. contents (as_notify A w) = contents w"
    and "\<forall>path name w n. as_get A path name n w = (case contents w (map lower path) (map lower name) of
       None \<Rightarrow> (ERROR_FILE_NOT_FOUND, 0, [])
     | Some units \<Rightarrow> (ERROR_SUCCESS, length units * 2, if n = 0 then [] else units))"
  using assms unfolding assoc_ok_def by - (elim conjE, assumption)+

lemmas assoc_create = assoc_okD(1) [rule_format]
lemmas assoc_open = assoc_okD(2) [rule_format]
lemmas assoc_not_opened = assoc_okD(3) [rule_format]
lemmas assoc_set = assoc_okD(4) [rule_format]
lemmas assoc_delete_value = assoc_okD(5) [rule_format]
lemmas assoc_delete_tree = assoc_okD(6) [rule_format]
lemmas assoc_empty = assoc_okD(7) [rule_format]
lemmas assoc_delete_key = assoc_okD(8) [rule_format]
lemmas assoc_notify = assoc_okD(9) [rule_format]
lemmas assoc_get = assoc_okD(10) [rule_format]

section \<open>Writing a plan\<close>

definition value_path :: "(wchar \<Rightarrow> wchar) \<Rightarrow> wstring \<Rightarrow> FileAssociationRegistryValue \<Rightarrow> wstring" where
  "value_path lower classes v = map lower (until_nul (Assoc_Join classes (rv_key v)))"

definition put_value ::
  "(wchar \<Rightarrow> wchar) \<Rightarrow> wstring \<Rightarrow> FileAssociationRegistryValue \<Rightarrow> assoc_values \<Rightarrow> assoc_values" where
  "put_value lower classes v c = c(value_path lower classes v :=
    (c (value_path lower classes v))(map lower (until_nul (rv_name v)) := Some (rv_data v @ [0])))"

definition put_values ::
  "(wchar \<Rightarrow> wchar) \<Rightarrow> wstring \<Rightarrow> FileAssociationRegistryValue list \<Rightarrow> assoc_values \<Rightarrow> assoc_values" where
  "put_values lower classes vs c = fold (put_value lower classes) vs c"

lemma WriteString_contents:
  assumes "assoc_ok A lower contents key_of" and "Assoc_WriteString A (Assoc_Join classes (rv_key v)) (rv_name v) (rv_data v) w = (e, w')"
  shows "contents w' = (if e = ERROR_SUCCESS then put_value lower classes v (contents w) else contents w)"
proof (cases "0x7FFFFFFE < length (rv_data v)")
  case True
  with assms(2) show ?thesis by (auto simp: Assoc_WriteString_def win_errors)
next
  case False
  obtain r w1 where create: "as_create A (until_nul (Assoc_Join classes (rv_key v))) w = (r, w1)" by fastforce
  note made = assoc_create [OF assms(1) create]
  show ?thesis
  proof (cases r)
    case (Inl e1)
    with False create assms(2) made show ?thesis by (auto simp: Assoc_WriteString_def)
  next
    case (Inr k)
    with False create assms(2) have "as_set A k (until_nul (rv_name v)) (rv_data v @ [0]) w1 = (e, w')"
      by (simp add: Assoc_WriteString_def)
    from assoc_set [OF assms(1) this] made Inr show ?thesis by (simp add: put_value_def value_path_def)
  qed
qed

lemma write_plan_contents:
  assumes "assoc_ok A lower contents key_of" and "write_plan A classes vs w = (e, w')"
  shows "\<exists>n \<le> length vs. contents w' = put_values lower classes (take n vs) (contents w) \<and> (e = ERROR_SUCCESS \<longleftrightarrow> n = length vs)"
  using assms(2)
proof (induction vs arbitrary: w)
  case (Cons v vs)
  obtain e1 w1 where put: "Assoc_WriteString A (Assoc_Join classes (rv_key v)) (rv_name v) (rv_data v) w = (e1, w1)"
    by fastforce
  note written = WriteString_contents [OF assms(1) put]
  show ?case
  proof (cases "e1 = ERROR_SUCCESS")
    case True
    with Cons.prems put have "write_plan A classes vs w1 = (e, w')" by simp
    from Cons.IH [OF this] obtain n where "n \<le> length vs" "contents w' = put_values lower classes (take n vs) (contents w1)"
      "e = ERROR_SUCCESS \<longleftrightarrow> n = length vs" by blast
    with True written show ?thesis by (intro exI [of _ "Suc n"]) (simp add: put_values_def)
  next
    case False
    with Cons.prems put written show ?thesis by (intro exI [of _ 0]) (simp add: put_values_def)
  qed
qed (simp add: put_values_def)

lemma put_value_other:
  "p \<noteq> value_path lower classes v \<or> n \<noteq> map lower (until_nul (rv_name v)) \<Longrightarrow> put_value lower classes v c p n = c p n"
  by (auto simp: put_value_def)

lemma put_values_other:
  "\<forall>v \<in> set vs. p \<noteq> value_path lower classes v \<or> n \<noteq> map lower (until_nul (rv_name v)) \<Longrightarrow>
    put_values lower classes vs c p n = c p n"
  by (induction vs arbitrary: c) (simp_all add: put_values_def put_value_other)

section \<open>The keys of a plan\<close>

lemma component_facts:
  assumes "ValidComponent v"
  shows "v \<noteq> []" "0 \<notin> set v" "0x5C \<notin> set v" "last v \<noteq> 0x5C"
  using assms by (auto simp: ValidComponent_def Assoc_Clean_def dest: last_in_set)

definition prog_key :: "(wchar \<Rightarrow> wchar) \<Rightarrow> wstring \<Rightarrow> FileAssociationSpec \<Rightarrow> wstring" where
  "prog_key lower classes spec = map lower (Assoc_Join classes (fs_prog_id spec))"

definition ext_key :: "(wchar \<Rightarrow> wchar) \<Rightarrow> wstring \<Rightarrow> FileAssociationSpec \<Rightarrow> wstring" where
  "ext_key lower classes spec = map lower (Assoc_Join classes (fs_extension spec))"

text \<open>Folding keeps apart what separates keys.\<close>

definition separates :: "(wchar \<Rightarrow> wchar) \<Rightarrow> bool" where
  "separates lower \<longleftrightarrow> (\<forall>c. lower c = 0x5C \<longleftrightarrow> c = 0x5C)"

lemma join_without_nul: "Assoc_Clean classes \<Longrightarrow> 0 \<notin> set r \<Longrightarrow> 0 \<notin> set (Assoc_Join classes r)"
  by (auto simp: Assoc_Join_def Assoc_Clean_def)

lemma join_append: "Assoc_Join classes (r @ s) = Assoc_Join classes r @ s"
  by (simp add: Assoc_Join_def)

lemma join_component: "ValidComponent v \<Longrightarrow> Assoc_Join v s = v @ [0x5C] @ s"
  using component_facts [of v] by (simp add: Assoc_Join_def)

text \<open>Every value of the plan below the program identifier is at or below its key, without a null character.\<close>

lemma prog_id_value_keys:
  assumes "ValidComponent (fs_prog_id spec)" and "\<forall>v \<in> set (fs_verbs spec). ValidComponent (verb_id v)"
    and "v \<in> set (prog_id_values spec)"
  shows "0 \<notin> set (rv_key v) \<and> (rv_key v = fs_prog_id spec \<or> (\<exists>r. rv_key v = fs_prog_id spec @ [0x5C] @ r))"
proof -
  have verb: "0 \<notin> set (rv_key v) \<and> (\<exists>r. rv_key v = fs_prog_id spec @ [0x5C] @ r)"
    if "x \<in> set (fs_verbs spec)" "v \<in> set (verb_values spec x)" for x
  proof -
    note x = assms(2) [rule_format, OF that(1)]
    from that(2) show ?thesis using component_facts [OF assms(1)] component_facts [OF x]
      by (auto simp: verb_values_def Let_def Assoc_Join_def split: if_splits)
  qed
  from assms(3) consider "rv_key v = fs_prog_id spec" | "rv_key v = Assoc_Join (fs_prog_id spec) (lit ''DefaultIcon'')"
    | x where "x \<in> set (fs_verbs spec)" "v \<in> set (verb_values spec x)"
    by (auto simp: prog_id_values_def split: if_splits)
  then show ?thesis
  proof cases
    case 3
    then show ?thesis using verb by blast
  qed (use component_facts [OF assms(1)] in \<open>auto simp: join_component [OF assms(1)]\<close>)
qed

lemma join_prefix: "Assoc_Join classes r = Assoc_Join classes [] @ r"
  by (simp add: Assoc_Join_def)

lemma key_cut: "Assoc_Clean classes \<Longrightarrow> 0 \<notin> set r \<Longrightarrow> until_nul (Assoc_Join classes r) = Assoc_Join classes r"
  by (rule until_nul_id [OF join_without_nul])

lemma prog_values_below:
  assumes "valid_spec A spec" and "Assoc_Clean classes" and "separates lower" and "v \<in> set (prog_id_values spec)"
  shows "below (prog_key lower classes spec) (value_path lower classes v)"
proof -
  have "ValidComponent (fs_prog_id spec)" "\<forall>x \<in> set (fs_verbs spec). ValidComponent (verb_id x)"
    using assms(1) by (auto simp: valid_spec_def list_all_iff ValidVerb_def)
  note key = prog_id_value_keys [OF this assms(4)]
  have path: "value_path lower classes v = map lower (Assoc_Join classes (rv_key v))"
    using key by (simp add: value_path_def key_cut [OF assms(2)])
  have "lower 0x5C = 0x5C" using assms(3) by (simp add: separates_def)
  with key show ?thesis
    by (auto simp: path below_def prog_key_def join_prefix [of classes "rv_key v"] join_prefix [of classes "fs_prog_id spec"]
        prefix_def)
qed

lemma ext_values_path:
  assumes "valid_spec A spec" and "Assoc_Clean classes" and "v \<in> set (extension_values spec)"
  shows "value_path lower classes v = ext_key lower classes spec"
proof -
  have "0 \<notin> set (fs_extension spec)" using assms(1) component_facts(2) [of "fs_extension spec"] by (simp add: valid_spec_def)
  with assms(3) show ?thesis by (auto simp: extension_values_def value_path_def ext_key_def key_cut [OF assms(2)])
qed

lemma ext_not_below:
  assumes "valid_spec A spec" and "separates lower" and "map lower (fs_extension spec) \<noteq> map lower (fs_prog_id spec)"
  shows "\<not> below (prog_key lower classes spec) (ext_key lower classes spec)"
proof -
  have "0x5C \<notin> set (fs_extension spec)" using assms(1) component_facts(3) [of "fs_extension spec"] by (simp add: valid_spec_def)
  then have "0x5C \<notin> set (map lower (fs_extension spec))" using assms(2) by (auto simp: separates_def)
  moreover have "set (map lower (fs_prog_id spec) @ 0x5C # zs) = set (map lower (fs_extension spec)) \<Longrightarrow>
    0x5C \<in> set (map lower (fs_extension spec))" for zs by (metis in_set_conv_decomp)
  ultimately have "map lower (fs_extension spec) \<noteq> map lower (fs_prog_id spec) @ 0x5C # zs" for zs by metis
  with assms(3) show ?thesis
    by (auto simp: below_def prog_key_def ext_key_def join_prefix [of classes "fs_extension spec"]
        join_prefix [of classes "fs_prog_id spec"] prefix_def)
qed

lemma owner_name: "map lower (until_nul kOwnerValue) \<noteq> []"
  by (simp add: kOwnerValue_def until_nul_def)

text \<open>What a registration does, whatever its result: it writes a beginning of the plan, all of it on success.\<close>

lemma registration_contents:
  assumes "assoc_ok A lower contents key_of"
    and "RegisterFileAssociation A has_root classes spec notify w = (r, w')"
  shows "contents w' = contents w \<and> fr_status r \<noteq> Assoc_success \<or>
    valid_spec A spec \<and> Assoc_Clean classes \<and> registration_conflict A classes spec w = None \<and>
    (\<exists>n \<le> length (prog_id_values spec @ extension_values spec).
      contents w' = put_values lower classes (take n (prog_id_values spec @ extension_values spec)) (contents w)
      \<and> (fr_status r = Assoc_success \<longleftrightarrow> n = length (prog_id_values spec @ extension_values spec)))"
proof (cases "has_root \<and> Assoc_Clean classes \<and> valid_spec A spec \<and> registration_conflict A classes spec w = None")
  case True
  let ?vs = "prog_id_values spec @ extension_values spec"
  obtain e w1 where run: "write_plan A classes ?vs w = (e, w1)" by fastforce
  from write_plan_contents [OF assms(1) run] obtain n where n: "n \<le> length ?vs"
    "contents w1 = put_values lower classes (take n ?vs) (contents w)" "e = ERROR_SUCCESS \<longleftrightarrow> n = length ?vs" by blast
  have "contents w' = contents w1 \<and> (fr_status r = Assoc_success \<longleftrightarrow> e = ERROR_SUCCESS)"
    using assms(2) True run assoc_notify [OF assms(1)]
    by (auto simp: RegisterFileAssociation_def BuildFileAssociationPlan_def Let_def assoc_result_def Assoc_MapError_def
        NotifyShell_def split: if_splits)
  with n True show ?thesis by auto
next
  case False
  with assms(2) show ?thesis
    by (auto simp: RegisterFileAssociation_def BuildFileAssociationPlan_def Let_def assoc_result_def split: if_splits option.splits)
qed


section \<open>Keys of others\<close>

definition holds_text :: "wstring option \<Rightarrow> wstring \<Rightarrow> bool" where
  "holds_text v s \<longleftrightarrow> (\<exists>k. v = Some (s @ replicate (Suc k) 0))"

lemma ReadString_stored:
  assumes "assoc_ok A lower contents key_of" and "Assoc_ReadString A path name w = Inr s"
  shows "holds_text (contents w (map lower (until_nul path)) (map lower name)) s"
proof (cases "contents w (map lower (until_nul path)) (map lower name)")
  case None
  with assms(2) show ?thesis by (simp add: Assoc_ReadString_def assoc_get [OF assms(1)] win_errors)
next
  case (Some units)
  let ?text = "takeWhile (\<lambda>c. c \<noteq> 0) units"
  from Some assms(2) have s: "s = ?text" "length ?text \<noteq> length units" "\<not> list_ex (\<lambda>c. c \<noteq> 0) (drop (length ?text) units)"
    by (auto simp: Assoc_ReadString_def assoc_get [OF assms(1)] Let_def win_errors split: if_splits)
  have rest: "drop (length ?text) units = dropWhile (\<lambda>c. c \<noteq> 0) units" by (simp add: dropWhile_eq_drop)
  have "drop (length ?text) units = replicate (length (drop (length ?text) units)) 0"
    using s(3) unfolding list_ex_iff by (intro replicate_eqI) blast+
  moreover have "length ?text < length units" using s(2) length_takeWhile_le [of "\<lambda>c. c \<noteq> 0" units] by linarith
  then have "drop (length ?text) units \<noteq> []" by simp
  ultimately obtain k where "drop (length ?text) units = replicate (Suc k) 0" by (metis length_0_conv not0_implies_Suc)
  then have "units = s @ replicate (Suc k) 0" unfolding s(1) rest by (metis takeWhile_dropWhile_id)
  with Some show ?thesis by (auto simp: holds_text_def)
qed

text \<open>A program identifier or an extension that belongs to someone else is left alone: the registration
  reports a conflict and writes nothing.\<close>

theorem foreign_association_is_untouched:
  assumes "assoc_ok A lower contents key_of" and "valid_spec A spec" and "Assoc_Clean classes" and "has_root"
    and foreign: "contents w (prog_key lower classes spec) \<noteq> (\<lambda>_. None)
      \<and> \<not> holds_text (contents w (prog_key lower classes spec) (map lower kOwnerValue)) (fs_owner_id spec)"
    and "RegisterFileAssociation A has_root classes spec notify w = (r, w')"
  shows "fr_status r = Assoc_conflict \<and> w' = w"
proof -
  have "0 \<notin> set (fs_prog_id spec)" using assms(2) component_facts(2) [of "fs_prog_id spec"] by (simp add: valid_spec_def)
  then have key: "map lower (until_nul (Assoc_Join classes (fs_prog_id spec))) = prog_key lower classes spec"
    using key_cut [OF assms(3)] by (simp add: prog_key_def)
  have "Assoc_KeyExists A (Assoc_Join classes (fs_prog_id spec)) w"
    using assoc_not_opened [OF assms(1), of "until_nul (Assoc_Join classes (fs_prog_id spec))" w] key foreign
    by (auto simp: Assoc_KeyExists_def split: sum.splits)
  moreover have "Assoc_ReadString A (Assoc_Join classes (fs_prog_id spec)) kOwnerValue w \<noteq> Inr (fs_owner_id spec)"
    using ReadString_stored [OF assms(1)] key foreign by metis
  ultimately have "registration_conflict A classes spec w = Some ERROR_ALREADY_EXISTS"
    by (simp add: registration_conflict_def)
  with assms(2-4,6) show ?thesis
    by (auto simp: RegisterFileAssociation_def BuildFileAssociationPlan_def assoc_result_def)
qed

section \<open>Removing undoes registering\<close>

lemma DeleteKeyIfEmpty_contents:
  assumes "assoc_ok A lower contents key_of"
  shows "contents (DeleteKeyIfEmpty A path w) = contents w"
proof (cases "as_open A (until_nul path) w")
  case (Inr k)
  obtain e s n where info: "as_info A k w = (e, s, n)" by (metis prod.exhaust)
  show ?thesis
  proof (cases "e = ERROR_SUCCESS \<and> s = 0 \<and> n = 0")
    case True
    with info have "contents w (key_of k) = (\<lambda>_. None)" by (intro assoc_empty [OF assms]) auto
    then have "(contents w)(map lower (until_nul path) := (\<lambda>_. None)) = contents w"
      using assoc_open [OF assms Inr] by (metis fun_upd_triv)
    moreover have "DeleteKeyIfEmpty A path w = snd (as_delete_key A (until_nul path) w)"
      using True Inr info by (simp add: DeleteKeyIfEmpty_def win_errors)
    ultimately show ?thesis using assoc_delete_key [OF assms, of "until_nul path" w] by metis
  next
    case False
    with Inr info show ?thesis by (auto simp: DeleteKeyIfEmpty_def win_errors)
  qed
qed (simp add: DeleteKeyIfEmpty_def)

lemma remove_extension_contents:
  assumes "assoc_ok A lower contents key_of" and "remove_extension A path w = (None, w')"
  shows "contents w' = (contents w)(map lower (until_nul path) :=
    (contents w (map lower (until_nul path)))([] := None, map lower kOwnerValue := None))"
proof (cases "as_open A (until_nul path) w")
  case (Inl e)
  with assms(2) have "w' = w" by (simp add: remove_extension_def)
  with assoc_not_opened [OF assms(1) Inl] show ?thesis by (auto simp: fun_eq_iff)
next
  case (Inr k)
  obtain e1 w1 where 1: "as_delete_value A k [] w = (e1, w1)" by fastforce
  obtain e2 w2 where 2: "as_delete_value A k kOwnerValue w1 = (e2, w2)" by fastforce
  have ok: "\<not> deletion_failed e1" "\<not> deletion_failed e2" "w' = w2"
    using assms(2) Inr 1 2 by (auto simp: remove_extension_def split: if_splits)
  from assoc_delete_value [OF assms(1) conjI [OF 1 ok(1)]] assoc_delete_value [OF assms(1) conjI [OF 2 ok(2)]] ok(3)
    assoc_open [OF assms(1) Inr]
  show ?thesis by simp
qed

lemma removal_contents:
  assumes "assoc_ok A lower contents key_of" and spec: "valid_spec A spec" "Assoc_Clean classes"
    and "RemoveFileAssociation A has_root classes spec notify w1 = (r2, w2)" and "fr_status r2 = Assoc_success"
  shows "contents w2 = (\<lambda>p. if below (prog_key lower classes spec) p then (\<lambda>_. None) else contents w1 p)
    (ext_key lower classes spec := ((\<lambda>p. if below (prog_key lower classes spec) p then (\<lambda>_. None) else contents w1 p)
      (ext_key lower classes spec))([] := None, map lower kOwnerValue := None))"
proof -
  let ?ext = "ext_key lower classes spec" and ?prog = "prog_key lower classes spec"
  have cut: "until_nul (Assoc_Join classes (fs_prog_id spec)) = Assoc_Join classes (fs_prog_id spec)"
    "until_nul (Assoc_Join classes (fs_extension spec)) = Assoc_Join classes (fs_extension spec)"
    using spec(1) component_facts(2) by (auto simp: valid_spec_def intro!: key_cut [OF spec(2)])
  obtain e w3 where tree: "as_delete_tree A (Assoc_Join classes (fs_prog_id spec)) w1 = (e, w3)" by fastforce
  obtain x w4 where ext: "remove_extension A (Assoc_Join classes (fs_extension spec)) w3 = (x, w4)" by fastforce
  have failing: "Assoc_MapError e' \<noteq> Assoc_success" if "deletion_failed e'" for e'
    using that by (auto simp: deletion_failed_def Assoc_MapError_def)
  have refused: "fr_status q \<noteq> Assoc_success" if "removal_refused A classes spec w1 = Some q" for q
    using that by (auto simp: removal_refused_def Let_def assoc_result_def split: sum.splits if_splits)
  have removed: "removal_refused A classes spec w1 = None"
    using assms(4,5) refused by (auto simp: RemoveFileAssociation_def Let_def assoc_result_def split: if_splits option.splits)
  have deleted: "\<not> deletion_failed e"
  proof
    assume "deletion_failed e"
    with removed tree assms(4,5) failing show False
      by (auto simp: RemoveFileAssociation_def Let_def assoc_result_def cut split: if_splits)
  qed
  have x: "x = None \<and> contents w2 = contents w4"
  proof (cases x)
    case None
    with removed tree deleted ext assms(4,5) show ?thesis
      by (auto simp: RemoveFileAssociation_def Let_def assoc_result_def cut NotifyShell_def assoc_notify [OF assms(1)]
          DeleteKeyIfEmpty_contents [OF assms(1)] split: if_splits)
  next
    case (Some e')
    have "e' \<noteq> ERROR_SUCCESS" using ext Some
      by (auto simp: remove_extension_def deletion_failed_def dest: assoc_not_opened [OF assms(1)]
          split: sum.splits prod.splits if_splits)
    then have "Assoc_MapError e' \<noteq> Assoc_success" by (simp add: Assoc_MapError_def)
    with Some removed tree deleted ext assms(4,5) show ?thesis
      by (auto simp: RemoveFileAssociation_def Let_def assoc_result_def cut split: if_splits)
  qed
  have w3: "contents w3 = (\<lambda>p. if below ?prog p then (\<lambda>_. None) else contents w1 p)"
    using assoc_delete_tree [OF assms(1) conjI [OF tree deleted]] by (simp add: prog_key_def)
  have w4: "contents w4 = (contents w3)(?ext := (contents w3 ?ext)([] := None, map lower kOwnerValue := None))"
    using remove_extension_contents [OF assms(1)] ext x by (simp add: ext_key_def cut)
  from x w3 w4 show ?thesis by simp
qed


section \<open>Examples\<close>

text \<open>A registry in memory: its state is the strings with their keys and names.\<close>

type_synonym assoc_list = "((wstring \<times> wstring) \<times> wstring) list"

definition memory_assoc :: "(wstring, assoc_list) assoc_api" where
  "memory_assoc = \<lparr>
    as_get = \<lambda>path name n w. (case map_of w (path, name) of None \<Rightarrow> (ERROR_FILE_NOT_FOUND, 0, [])
      | Some units \<Rightarrow> (ERROR_SUCCESS, length units * 2, if n = 0 then [] else units)),
    as_create = \<lambda>path w. (Inr path, w),
    as_open = \<lambda>path w. if list_ex (\<lambda>e. fst (fst e) = path) w then Inr path else Inl ERROR_FILE_NOT_FOUND,
    as_set = \<lambda>k name units w. (ERROR_SUCCESS, ((k, name), units) # w),
    as_delete_value = \<lambda>k name w. (ERROR_SUCCESS, filter (\<lambda>e. fst e \<noteq> (k, name)) w),
    as_info = \<lambda>k w. (ERROR_SUCCESS, 0, length (filter (\<lambda>e. fst (fst e) = k) w)),
    as_delete_key = \<lambda>path w. (ERROR_SUCCESS, filter (\<lambda>e. fst (fst e) \<noteq> path) w),
    as_delete_tree = \<lambda>path w. (ERROR_SUCCESS, filter (\<lambda>e. \<not> below path (fst (fst e))) w),
    as_notify = \<lambda>w. w, as_absolute = \<lambda>p. True, as_alnum = \<lambda>c. True\<rparr>"

definition memory_contents :: "assoc_list \<Rightarrow> assoc_values" where
  "memory_contents w key name = map_of w (key, name)"

lemma map_of_filtered: "map_of (filter (\<lambda>e. P (fst e)) w) k = (if P k then map_of w k else None)"
  by (induction w) auto

lemma memory_assoc_ok: "assoc_ok memory_assoc id memory_contents (\<lambda>k. k)"
proof -
  have none: "map_of w (p, n) = None" if "\<not> list_ex (\<lambda>e. fst (fst e) = p) w" for w :: assoc_list and p n
    using that by (induction w) auto
  have empty: "map_of w (p, n) = None" if "filter (\<lambda>e. fst (fst e) = p) w = []" for w :: assoc_list and p n
    using that by (induction w) (auto split: if_splits)
  show ?thesis
    unfolding assoc_ok_def memory_assoc_def
    by (auto simp: win_errors memory_contents_def fun_eq_iff none empty map_of_filtered [where P = "\<lambda>k. k \<noteq> _"]
        map_of_filtered [where P = "\<lambda>k. fst k \<noteq> _"] map_of_filtered [where P = "\<lambda>k. \<not> below _ (fst k)"] split: if_splits)
qed

definition example_assoc :: FileAssociationSpec where
  "example_assoc = \<lparr>fs_extension = lit ''.note'', fs_prog_id = lit ''Demo.Note'', fs_owner_id = lit ''demo'',
    fs_display_name = lit ''Note'', fs_executable = lit ''demo.exe'', fs_icon = [],
    fs_verbs = [\<lparr>verb_id = lit ''open'', verb_display_name = [], verb_arguments = []\<rparr>]\<rparr>"

definition example_classes :: wstring where
  "example_classes = lit ''Classes''"



end
