(* ===== verification/Async.thy ===== *)
theory Async
  imports Prelude
begin

text \<open>
  Asynchronous completion (\<open>async.h\<close>): subscriptions that are revoked once, and the coordination of one
  restartable initialization on its owner's thread by tickets.  A callback that runs inside \<open>Dispatch\<close> is
  the operations it calls on the same object and whether it throws; the lock is not held meanwhile, and
  operations of other threads change nothing, so a sequence of operations is all there is.
\<close>

section \<open>Subscriptions\<close>

text \<open>\<open>sb_revoke\<close> is the action, from the state \<open>'w\<close> of the system to whether it throws and the new state.\<close>

record 'w UniqueSubscription =
  sb_revoke :: "('w \<Rightarrow> bool \<times> 'w) option"
  sb_exception :: bool

definition UniqueSubscription_empty :: "'w UniqueSubscription" where
  "UniqueSubscription_empty = \<lparr>sb_revoke = None, sb_exception = False\<rparr>"

definition UniqueSubscription_new :: "('w \<Rightarrow> bool \<times> 'w) \<Rightarrow> 'w UniqueSubscription" where
  "UniqueSubscription_new revoke = \<lparr>sb_revoke = Some revoke, sb_exception = False\<rparr>"

definition UniqueSubscription_IsActive :: "'w UniqueSubscription \<Rightarrow> bool" where
  "UniqueSubscription_IsActive s \<longleftrightarrow> sb_revoke s \<noteq> None"

definition UniqueSubscription_Revoke :: "'w UniqueSubscription \<Rightarrow> 'w \<Rightarrow> bool \<times> 'w UniqueSubscription \<times> 'w" where
  "UniqueSubscription_Revoke s w =
    (case sb_revoke s of
       None \<Rightarrow> (\<not> sb_exception s, s, w)
     | Some revoke \<Rightarrow>
         (case revoke w of (threw, w1) \<Rightarrow>
           let s1 = \<lparr>sb_revoke = None, sb_exception = threw \<or> sb_exception s\<rparr>
           in (\<not> sb_exception s1, s1, w1)))"

text \<open>Moving construction and assignment to another object: the new object, what is left, and the state.\<close>

definition UniqueSubscription_move :: "'w UniqueSubscription \<Rightarrow> 'w UniqueSubscription \<times> 'w UniqueSubscription" where
  "UniqueSubscription_move other = (other, UniqueSubscription_empty)"

definition UniqueSubscription_assign ::
  "'w UniqueSubscription \<Rightarrow> 'w UniqueSubscription \<Rightarrow> 'w \<Rightarrow> 'w UniqueSubscription \<times> 'w UniqueSubscription \<times> 'w" where
  "UniqueSubscription_assign s other w =
    (case UniqueSubscription_Revoke s w of (_, _, w1) \<Rightarrow> (other, UniqueSubscription_empty, w1))"

lemma revoked_once:
  "UniqueSubscription_Revoke s w = (b, s1, w1) \<Longrightarrow>
    \<not> UniqueSubscription_IsActive s1 \<and> UniqueSubscription_Revoke s1 w2 = (b, s1, w2)"
  by (auto simp: UniqueSubscription_Revoke_def UniqueSubscription_IsActive_def Let_def split: option.splits prod.splits)

section \<open>Initialization\<close>

datatype AsyncInitializationState =
  Async_idle | Async_pending | Async_succeeded | Async_failed | Async_cancelled | Async_closed

datatype AsyncDispatchStatus = Dispatch_delivered | Dispatch_inactive | Dispatch_wrong_thread

record AsyncInitializationResult =
  ai_state :: AsyncInitializationState
  ai_error :: u32
  ai_exception :: bool

record AsyncSharedState =
  sh_owner :: u32
  sh_generation :: u64
  sh_result :: AsyncInitializationResult
  sh_dispatching :: bool

definition async_result :: "AsyncInitializationState \<Rightarrow> u32 \<Rightarrow> bool \<Rightarrow> AsyncInitializationResult" where
  "async_result s e x = \<lparr>ai_state = s, ai_error = e, ai_exception = x\<rparr>"

definition S_OK :: u32 where "S_OK = 0"
definition HRESULT_CANCELLED :: u32 where "HRESULT_CANCELLED = 0x800704C7"
definition HRESULT_FAIL :: u32 where "HRESULT_FAIL = 0x80004005"
definition HRESULT_UNEXPECTED :: u32 where "HRESULT_UNEXPECTED = 0x8000FFFF"

definition AsyncInitialization_new :: "u32 \<Rightarrow> AsyncSharedState" where
  "AsyncInitialization_new thread =
    \<lparr>sh_owner = thread, sh_generation = 0, sh_result = async_result Async_idle S_OK False, sh_dispatching = False\<rparr>"

text \<open>\<open>None\<close> is the empty ticket; the tickets of one object carry its generation.\<close>

definition AsyncInitialization_Begin :: "u32 \<Rightarrow> AsyncSharedState \<Rightarrow> u64 option \<times> AsyncSharedState" where
  "AsyncInitialization_Begin thread s =
    (if thread \<noteq> sh_owner s \<or> ai_state (sh_result s) = Async_closed \<or> sh_dispatching s then (None, s)
     else let g = sh_generation s + 1; g = (if g = 0 then g + 1 else g)
       in (Some g, s\<lparr>sh_generation := g, sh_result := async_result Async_pending S_OK False\<rparr>))"

definition FinishOnOwner :: "u32 \<Rightarrow> AsyncInitializationState \<Rightarrow> u32 \<Rightarrow> AsyncSharedState \<Rightarrow> bool \<times> AsyncSharedState" where
  "FinishOnOwner thread finish error s =
    (if thread \<noteq> sh_owner s \<or> ai_state (sh_result s) \<noteq> Async_pending then (False, s)
     else (True, s\<lparr>sh_generation := sh_generation s + 1, sh_result := async_result finish error False\<rparr>))"

definition AsyncInitialization_Cancel :: "u32 \<Rightarrow> AsyncSharedState \<Rightarrow> bool \<times> AsyncSharedState" where
  "AsyncInitialization_Cancel thread = FinishOnOwner thread Async_cancelled HRESULT_CANCELLED"

definition AsyncInitialization_Fail :: "u32 \<Rightarrow> u64 option \<Rightarrow> u32 \<Rightarrow> AsyncSharedState \<Rightarrow> bool \<times> AsyncSharedState" where
  "AsyncInitialization_Fail thread ticket error s =
    (if ticket = None \<or> thread \<noteq> sh_owner s \<or> sh_dispatching s \<or> ticket \<noteq> Some (sh_generation s)
        \<or> ai_state (sh_result s) \<noteq> Async_pending then (False, s)
     else (True, s\<lparr>sh_result := async_result Async_failed (if sint error < 0 then error else HRESULT_FAIL) False\<rparr>))"

definition AsyncInitialization_Close :: "u32 \<Rightarrow> AsyncSharedState \<Rightarrow> AsyncSharedState" where
  "AsyncInitialization_Close thread s =
    (if thread \<noteq> sh_owner s then s
     else s\<lparr>sh_generation := sh_generation s + 1, sh_result := async_result Async_closed HRESULT_CANCELLED False\<rparr>)"

text \<open>\<open>Dispatch\<close> before and after its callback: what it answers when the callback is not run, and the end.\<close>

definition dispatch_enter :: "u32 \<Rightarrow> u64 option \<Rightarrow> AsyncSharedState \<Rightarrow> AsyncDispatchStatus option" where
  "dispatch_enter thread ticket s =
    (if ticket = None then Some Dispatch_inactive
     else if thread \<noteq> sh_owner s then Some Dispatch_wrong_thread
     else if ticket \<noteq> Some (sh_generation s) \<or> ai_state (sh_result s) \<noteq> Async_pending \<or> sh_dispatching s
     then Some Dispatch_inactive else None)"

definition dispatch_leave :: "u64 option \<Rightarrow> bool \<Rightarrow> AsyncSharedState \<Rightarrow> AsyncDispatchStatus \<times> AsyncSharedState" where
  "dispatch_leave ticket threw s =
    (let s = s\<lparr>sh_dispatching := False\<rparr>
     in if ticket \<noteq> Some (sh_generation s) \<or> ai_state (sh_result s) \<noteq> Async_pending then (Dispatch_inactive, s)
        else (Dispatch_delivered, s\<lparr>sh_result :=
          (if threw then async_result Async_failed HRESULT_UNEXPECTED True else async_result Async_succeeded S_OK False)\<rparr>))"

section \<open>Sequences of operations\<close>

text \<open>
  The operations with the thread that calls them.  The callback of a dispatch is the operations it calls
  and whether it throws.  A run yields the generations whose callback was run, in order.
\<close>

datatype async_op =
    Do_Begin u32 | Do_Cancel u32 | Do_Fail u32 "u64 option" u32 | Do_Close u32
  | Do_Dispatch u32 "u64 option" "async_op list" bool

fun async_step :: "async_op \<Rightarrow> AsyncSharedState \<Rightarrow> u64 list \<times> AsyncSharedState"
and async_run :: "async_op list \<Rightarrow> AsyncSharedState \<Rightarrow> u64 list \<times> AsyncSharedState" where
  "async_step (Do_Begin t) s = ([], snd (AsyncInitialization_Begin t s))"
| "async_step (Do_Cancel t) s = ([], snd (AsyncInitialization_Cancel t s))"
| "async_step (Do_Fail t k e) s = ([], snd (AsyncInitialization_Fail t k e s))"
| "async_step (Do_Close t) s = ([], AsyncInitialization_Close t s)"
| "async_step (Do_Dispatch t k callback threw) s =
    (if dispatch_enter t k s \<noteq> None then ([], s)
     else case async_run callback (s\<lparr>sh_dispatching := True\<rparr>) of (gs, s1) \<Rightarrow>
       (the k # gs, snd (dispatch_leave k threw s1)))"
| "async_run [] s = ([], s)"
| "async_run (op # ops) s =
    (case async_step op s of (gs, s1) \<Rightarrow> case async_run ops s1 of (hs, s2) \<Rightarrow> (gs @ hs, s2))"

fun op_size :: "async_op \<Rightarrow> nat" and ops_size :: "async_op list \<Rightarrow> nat" where
  "op_size (Do_Dispatch t k callback threw) = Suc (ops_size callback)"
| "op_size (Do_Begin t) = 1"
| "op_size (Do_Cancel t) = 1"
| "op_size (Do_Fail t k e) = 1"
| "op_size (Do_Close t) = 1"
| "ops_size [] = 0"
| "ops_size (op # ops) = op_size op + ops_size ops"

section \<open>Generations\<close>

lemma next_generation:
  assumes "unat (g :: u64) + 1 < 2 ^ 64"
  shows "unat (g + 1) = Suc (unat g)" and "g + 1 \<noteq> 0"
proof -
  show "unat (g + 1) = Suc (unat g)" using assms by (simp add: unat_word_ariths)
  then show "g + 1 \<noteq> 0" by auto
qed

text \<open>A step that is not a dispatch: the generation stays or is the next one, and \<open>pending\<close> only begins with a new one.\<close>

definition plain_step :: "AsyncSharedState \<Rightarrow> AsyncSharedState \<Rightarrow> bool" where
  "plain_step s s' \<longleftrightarrow> sh_owner s' = sh_owner s \<and> sh_dispatching s' = sh_dispatching s
    \<and> (sh_generation s' = sh_generation s \<and> (ai_state (sh_result s') = Async_pending \<longrightarrow> ai_state (sh_result s) = Async_pending)
       \<or> unat (sh_generation s') = Suc (unat (sh_generation s)))"

lemma plain_steps:
  assumes "unat (sh_generation s) + 1 < 2 ^ 64"
  shows "plain_step s (snd (AsyncInitialization_Begin t s))" "plain_step s (snd (AsyncInitialization_Cancel t s))"
    "plain_step s (snd (AsyncInitialization_Fail t k e s))" "plain_step s (AsyncInitialization_Close t s)"
  using next_generation [OF assms]
  by (auto simp: plain_step_def AsyncInitialization_Begin_def AsyncInitialization_Cancel_def FinishOnOwner_def
      AsyncInitialization_Fail_def AsyncInitialization_Close_def async_result_def Let_def)

text \<open>Inside a callback no other callback runs.\<close>

lemma nested_operations:
  "async_step op s = (gs, s') \<Longrightarrow> sh_dispatching s \<Longrightarrow> unat (sh_generation s) + op_size op < 2 ^ 64 \<Longrightarrow>
    gs = [] \<and> sh_dispatching s' \<and> unat (sh_generation s) \<le> unat (sh_generation s')
    \<and> unat (sh_generation s') \<le> unat (sh_generation s) + op_size op"
  "async_run ops s = (gs, s') \<Longrightarrow> sh_dispatching s \<Longrightarrow> unat (sh_generation s) + ops_size ops < 2 ^ 64 \<Longrightarrow>
    gs = [] \<and> sh_dispatching s' \<and> unat (sh_generation s) \<le> unat (sh_generation s')
    \<and> unat (sh_generation s') \<le> unat (sh_generation s) + ops_size ops"
proof (induction op s and ops s arbitrary: gs s' and gs s' rule: async_step_async_run.induct)
  case (1 t s)
  with plain_steps(1) [of s t] show ?case by (auto simp: plain_step_def)
next
  case (2 t s)
  with plain_steps(2) [of s t] show ?case by (auto simp: plain_step_def)
next
  case (3 t k e s)
  with plain_steps(3) [of s t k e] show ?case by (auto simp: plain_step_def)
next
  case (4 t s)
  with plain_steps(4) [of s t] show ?case by (auto simp: plain_step_def)
next
  case (5 t k callback threw s)
  have "dispatch_enter t k s \<noteq> None" using 5(3) by (simp add: dispatch_enter_def)
  with 5(2) show ?case using 5(3) by simp
next
  case (7 op ops s)
  obtain gs1 s1 where first: "async_step op s = (gs1, s1)" by fastforce
  obtain gs2 s2 where rest: "async_run ops s1 = (gs2, s2)" by fastforce
  have 1: "gs1 = [] \<and> sh_dispatching s1 \<and> unat (sh_generation s) \<le> unat (sh_generation s1)
    \<and> unat (sh_generation s1) \<le> unat (sh_generation s) + op_size op"
    using 7(1) [OF first 7(4)] 7(5) by simp
  then have "gs2 = [] \<and> sh_dispatching s2 \<and> unat (sh_generation s1) \<le> unat (sh_generation s2)
    \<and> unat (sh_generation s2) \<le> unat (sh_generation s1) + ops_size ops"
    using 7(2) [OF first [symmetric] rest] 7(5) by simp
  with 1 7(3) first rest show ?case by auto
qed auto

text \<open>The invariant of a run: \<open>gens\<close> are the generations whose callback has been run.\<close>

definition tickets_ok :: "u64 list \<Rightarrow> AsyncSharedState \<Rightarrow> bool" where
  "tickets_ok gens s \<longleftrightarrow> distinct gens \<and> (\<forall>g \<in> set gens. unat g \<le> unat (sh_generation s)) \<and> \<not> sh_dispatching s
    \<and> (sh_generation s \<in> set gens \<longrightarrow> ai_state (sh_result s) \<noteq> Async_pending)"

lemma tickets_plain:
  assumes "tickets_ok gens s" and "plain_step s s'"
  shows "tickets_ok gens s'"
  using assms by (force simp: tickets_ok_def plain_step_def)

lemma tickets_dispatch:
  assumes ok: "tickets_ok gens s" and "dispatch_enter t k s = None"
    and run: "async_run callback (s\<lparr>sh_dispatching := True\<rparr>) = (gs, s1)"
    and size: "unat (sh_generation s) + ops_size callback < 2 ^ 64"
  shows "gs = [] \<and> k = Some (sh_generation s) \<and> tickets_ok (gens @ [sh_generation s]) (snd (dispatch_leave k threw s1))
    \<and> unat (sh_generation (snd (dispatch_leave k threw s1))) \<le> unat (sh_generation s) + ops_size callback"
proof -
  have k: "k = Some (sh_generation s)" "ai_state (sh_result s) = Async_pending"
    using assms(2) by (auto simp: dispatch_enter_def split: if_splits)
  then have new: "sh_generation s \<notin> set gens" using ok by (auto simp: tickets_ok_def)
  have inner: "gs = [] \<and> unat (sh_generation s) \<le> unat (sh_generation s1)
    \<and> unat (sh_generation s1) \<le> unat (sh_generation s) + ops_size callback"
    using nested_operations(2) [OF run] size by simp
  have gen: "sh_generation (snd (dispatch_leave k threw s1)) = sh_generation s1"
    "\<not> sh_dispatching (snd (dispatch_leave k threw s1))"
    by (auto simp: dispatch_leave_def Let_def)
  have "ai_state (sh_result (snd (dispatch_leave k threw s1))) \<noteq> Async_pending" if "sh_generation s1 = sh_generation s"
    using that k(1) by (auto simp: dispatch_leave_def Let_def async_result_def)
  moreover have "sh_generation s1 \<notin> set gens" if "sh_generation s1 \<noteq> sh_generation s"
  proof
    assume "sh_generation s1 \<in> set gens"
    then have "unat (sh_generation s1) \<le> unat (sh_generation s)" using ok by (auto simp: tickets_ok_def)
    with inner that show False by (metis le_antisym word_unat_eq_iff)
  qed
  ultimately have "tickets_ok (gens @ [sh_generation s]) (snd (dispatch_leave k threw s1))"
    using ok new inner gen by (auto simp: tickets_ok_def)
  then show ?thesis using k inner gen by simp
qed

lemma tickets_step:
  assumes "tickets_ok gens s" and "async_step op s = (gs, s')" and "unat (sh_generation s) + op_size op < 2 ^ 64"
  shows "tickets_ok (gens @ gs) s' \<and> unat (sh_generation s') \<le> unat (sh_generation s) + op_size op"
proof (cases op)
  case (Do_Dispatch t k callback threw)
  show ?thesis
  proof (cases "dispatch_enter t k s")
    case None
    obtain gs1 s1 where run: "async_run callback (s\<lparr>sh_dispatching := True\<rparr>) = (gs1, s1)" by fastforce
    have "unat (sh_generation s) + ops_size callback < 2 ^ 64" using assms(3) Do_Dispatch by simp
    from tickets_dispatch [OF assms(1) None run this, of threw] assms(2) Do_Dispatch None run show ?thesis by auto
  qed (use assms Do_Dispatch in auto)
next
  case (Do_Begin t)
  with assms plain_steps(1) [of s t] tickets_plain [OF assms(1)] show ?thesis by (fastforce simp: plain_step_def)
next
  case (Do_Cancel t)
  with assms plain_steps(2) [of s t] tickets_plain [OF assms(1)] show ?thesis by (fastforce simp: plain_step_def)
next
  case (Do_Fail t k e)
  with assms plain_steps(3) [of s t k e] tickets_plain [OF assms(1)] show ?thesis by (fastforce simp: plain_step_def)
next
  case (Do_Close t)
  with assms plain_steps(4) [of s t] tickets_plain [OF assms(1)] show ?thesis by (fastforce simp: plain_step_def)
qed

lemma tickets_run:
  "tickets_ok gens s \<Longrightarrow> async_run ops s = (gs, s') \<Longrightarrow> unat (sh_generation s) + ops_size ops < 2 ^ 64 \<Longrightarrow>
    tickets_ok (gens @ gs) s'"
proof (induction ops arbitrary: gens s gs s')
  case (Cons op ops)
  obtain gs1 s1 where first: "async_step op s = (gs1, s1)" by fastforce
  obtain gs2 s2 where rest: "async_run ops s1 = (gs2, s2)" by fastforce
  from tickets_step [OF Cons.prems(1) first] Cons.prems(3)
  have "tickets_ok (gens @ gs1) s1" "unat (sh_generation s1) + ops_size ops < 2 ^ 64" by auto
  from Cons.IH [OF this(1) rest this(2)] Cons.prems(2) first rest show ?case by auto
qed simp

text \<open>C37: A completion is delivered at most once.  In any sequence of fewer than \<open>2 ^ 64\<close> operations, from any
  threads and with callbacks that themselves begin, cancel, fail, close or dispatch, no two callbacks run
  for one ticket, none runs for a ticket newer than the current one, the coordination is not left inside a
  callback, and a ticket whose callback has run is no longer pending.\<close>

theorem completion_runs_once:
  assumes "async_run ops (AsyncInitialization_new thread) = (gens, s)" and "ops_size ops < 2 ^ 64"
  shows "distinct gens \<and> (\<forall>g \<in> set gens. unat g \<le> unat (sh_generation s)) \<and> \<not> sh_dispatching s
    \<and> (sh_generation s \<in> set gens \<longrightarrow> ai_state (sh_result s) \<noteq> Async_pending)"
proof -
  have "tickets_ok [] (AsyncInitialization_new thread)" by (simp add: tickets_ok_def AsyncInitialization_new_def)
  from tickets_run [OF this assms(1)] assms(2) show ?thesis by (simp add: tickets_ok_def AsyncInitialization_new_def)
qed

theorem completion_runs_once_witness:
  "fst (async_run [Do_Begin 7, Do_Begin 7, Do_Dispatch 7 (Some 1) [] False,
      Do_Dispatch 7 (Some 2) [Do_Dispatch 7 (Some 2) [] False, Do_Cancel 7] False, Do_Dispatch 7 (Some 2) [] False]
    (AsyncInitialization_new 7)) = [2] \<and> distinct [2 :: u64]"
proof -
  let ?ops = "[Do_Begin 7, Do_Begin 7, Do_Dispatch 7 (Some 1) [] False,
    Do_Dispatch 7 (Some 2) [Do_Dispatch 7 (Some 2) [] False, Do_Cancel 7] False, Do_Dispatch 7 (Some 2) [] False]"
  obtain gens s where run: "async_run ?ops (AsyncInitialization_new 7) = (gens, s)" by fastforce
  have "fst (async_run ?ops (AsyncInitialization_new 7)) = [2]" by code_simp
  with run have "gens = [2]" by simp
  with completion_runs_once [OF run] run show ?thesis by simp
qed

end
