(* ===== verification/Message_Loop.thy ===== *)
theory Message_Loop
  imports Foundation "HOL-Library.Sublist"
begin

text \<open>
  The message loop (\<open>message_pump.h\<close>, \<open>message_pump.cpp\<close>) and timers (\<open>timer.cpp\<close>): the chain of filters that see
  a message before it is dispatched, the loops of a thread, the two pumps, and timers of a window.
  Filters, windows and handles are values; what a filter does to the chain and to the state \<open>'a\<close> of the
  application, the message included, is a parameter.
\<close>

section \<open>The chain of filters\<close>

text \<open>\<open>None\<close> is the null pointer; the failure of an allocation is not modelled.\<close>

definition MessageLoop_AddFilter :: "'f option \<Rightarrow> 'f list \<Rightarrow> bool \<times> 'f list" where
  "MessageLoop_AddFilter f fs =
    (case f of None \<Rightarrow> (False, fs) | Some f \<Rightarrow> if f \<in> set fs then (True, fs) else (True, fs @ [f]))"

definition MessageLoop_RemoveFilter :: "'f \<Rightarrow> 'f list \<Rightarrow> 'f list" where
  "MessageLoop_RemoveFilter f fs = filter (\<lambda>g. g \<noteq> f) fs"

text \<open>What one call of a filter does: whether it consumes the message, and the chain and the state afterwards.\<close>

type_synonym ('f, 'a) filter_call = "'f \<Rightarrow> 'f list \<Rightarrow> 'a \<Rightarrow> bool \<times> 'f list \<times> 'a"

partial_function (option) pretranslate_from ::
  "('f, 'a) filter_call \<Rightarrow> nat \<Rightarrow> 'f list \<Rightarrow> 'a \<Rightarrow> (bool \<times> 'f list \<times> 'a) option" where
  "pretranslate_from call index fs a =
    (if index = 0 then Some (False, fs, a)
     else if length fs \<le> index - 1 then pretranslate_from call (length fs) fs a
     else case call (fs ! (index - 1)) fs a of (consumed, fs', a') \<Rightarrow>
       if consumed then Some (True, fs', a')
       else pretranslate_from call
         (case find_index (\<lambda>g. g = fs ! (index - 1)) fs' of None \<Rightarrow> index - 1 | Some k \<Rightarrow> k) fs' a')"

definition MessageLoop_PreTranslate :: "('f, 'a) filter_call \<Rightarrow> 'f list \<Rightarrow> 'a \<Rightarrow> (bool \<times> 'f list \<times> 'a) option" where
  "MessageLoop_PreTranslate call fs a = pretranslate_from call (length fs) fs a"

section \<open>The loops of a thread\<close>

record 'l MessageLoop =
  loop_previous :: "'l option"
  loop_active :: bool

record 'l loop_thread =
  thread_current :: "'l option"
  thread_loops :: "'l \<Rightarrow> 'l MessageLoop"

definition MessageLoop_Activate :: "'l \<Rightarrow> 'l loop_thread \<Rightarrow> 'l loop_thread" where
  "MessageLoop_Activate l s =
    (if loop_active (thread_loops s l) then s
     else s\<lparr>thread_current := Some l,
       thread_loops := (thread_loops s)(l := \<lparr>loop_previous = thread_current s, loop_active = True\<rparr>)\<rparr>)"

definition MessageLoop_Deactivate :: "'l \<Rightarrow> 'l loop_thread \<Rightarrow> 'l loop_thread" where
  "MessageLoop_Deactivate l s =
    (if \<not> loop_active (thread_loops s l) \<or> thread_current s \<noteq> Some l then s
     else s\<lparr>thread_current := loop_previous (thread_loops s l),
       thread_loops := (thread_loops s)(l := \<lparr>loop_previous = None, loop_active = False\<rparr>)\<rparr>)"

definition MessageLoop_Current :: "'l loop_thread \<Rightarrow> 'l option" where
  "MessageLoop_Current s = thread_current s"

section \<open>Pumps\<close>

text \<open>
  The calls of the pumps.  \<open>pa_get\<close> is \<open>GetMessageW\<close> (0 for \<open>WM_QUIT\<close>, -1 for an error) and \<open>pa_peek\<close>
  \<open>PeekMessageW\<close>; the message they fetch is part of the state.  Optional callbacks are \<open>None\<close>; the first
  component of a callback is whether it throws.
\<close>

record ('f, 'a) pump_api =
  pa_call :: "('f, 'a) filter_call"
  pa_get :: "'a \<Rightarrow> int \<times> 'a"
  pa_peek :: "'a \<Rightarrow> bool \<times> 'a"
  pa_quit :: "'a \<Rightarrow> bool"
  pa_wparam :: "'a \<Rightarrow> u64"
  pa_dispatch :: "'f list \<Rightarrow> 'a \<Rightarrow> 'f list \<times> 'a"
  pa_wait :: "nat \<Rightarrow> u32 \<Rightarrow> 'a \<Rightarrow> u32 \<times> 'a"
  pa_report :: "'a \<Rightarrow> 'a"
  pa_after_dispatch :: "('a \<Rightarrow> bool \<times> 'a) option"
  pa_idle :: "('a \<Rightarrow> bool \<times> 'a) option"
  pa_signal :: "(nat \<Rightarrow> 'a \<Rightarrow> bool \<times> 'a) option"
  pa_next_interval :: "('a \<Rightarrow> (bool + int) \<times> 'a) option"

definition exit_code :: "u64 \<Rightarrow> int" where
  "exit_code w = sint (ucast w :: 32 word)"

definition EXIT_FAILURE :: int where "EXIT_FAILURE = 1"

text \<open>\<open>None\<close> is a loop that does not return, because of the chain or because no message ends it.\<close>

partial_function (option) MessageLoop_Run :: "('f, 'a, 'z) pump_api_scheme \<Rightarrow> 'f list \<Rightarrow> 'a \<Rightarrow> (int \<times> 'f list \<times> 'a) option" where
  "MessageLoop_Run A fs a =
    (case pa_get A a of (result, a1) \<Rightarrow>
      if result = 0 then Some (exit_code (pa_wparam A a1), fs, a1)
      else if result = - 1 then MessageLoop_Run A fs a1
      else case MessageLoop_PreTranslate (pa_call A) fs a1 of
        None \<Rightarrow> None
      | Some (consumed, fs1, a2) \<Rightarrow>
          if consumed then MessageLoop_Run A fs1 a2
          else case pa_dispatch A fs1 a2 of (fs2, a3) \<Rightarrow> MessageLoop_Run A fs2 a3)"

definition INFINITE_wait :: u32 where "INFINITE_wait = 0xFFFFFFFF"
definition milliseconds_max :: int where "milliseconds_max = 0x7FFFFFFFFFFFFFFF"

definition ToNativeTimeout :: "int \<Rightarrow> u32" where
  "ToNativeTimeout v =
    (if v = milliseconds_max then INFINITE_wait
     else let count = max 0 v in if 0xFFFFFFFF \<le> count then INFINITE_wait - 1 else of_int count)"

definition run_callback :: "('a \<Rightarrow> bool \<times> 'a) option \<Rightarrow> 'a \<Rightarrow> bool \<times> 'a" where
  "run_callback c a = (case c of None \<Rightarrow> (False, a) | Some f \<Rightarrow> f a)"

text \<open>The messages at hand: the exit code, an exception (\<open>Inl False\<close>), or none left.\<close>

datatype 'x drained = Drain_quit int 'x | Drain_threw 'x | Drain_empty 'x

partial_function (option) drain_messages ::
  "('f, 'a, 'z) pump_api_scheme \<Rightarrow> 'f list \<Rightarrow> 'a \<Rightarrow> ('f list \<times> 'a) drained option" where
  "drain_messages A fs a =
    (case pa_peek A a of (present, a1) \<Rightarrow>
      if \<not> present then Some (Drain_empty (fs, a1))
      else if pa_quit A a1 then Some (Drain_quit (exit_code (pa_wparam A a1)) (fs, a1))
      else case MessageLoop_PreTranslate (pa_call A) fs a1 of
        None \<Rightarrow> None
      | Some (consumed, fs1, a2) \<Rightarrow>
          (case (if consumed then (fs1, a2) else pa_dispatch A fs1 a2) of (fs2, a3) \<Rightarrow>
            case run_callback (pa_after_dispatch A) a3 of (threw, a4) \<Rightarrow>
              if threw then Some (Drain_threw (fs2, a4)) else drain_messages A fs2 a4))"

definition pump_timeout :: "('f, 'a, 'z) pump_api_scheme \<Rightarrow> int \<Rightarrow> 'a \<Rightarrow> u32 option \<times> 'a" where
  "pump_timeout A idle_interval a =
    (case pa_next_interval A of
       None \<Rightarrow> (Some (ToNativeTimeout idle_interval), a)
     | Some next \<Rightarrow> (case next a of
         (Inl _, a1) \<Rightarrow> (None, a1)
       | (Inr t, a1) \<Rightarrow> (Some (min (ToNativeTimeout idle_interval) (ToNativeTimeout t)), a1)))"

definition WAIT_FAILED :: u32 where "WAIT_FAILED = 0xFFFFFFFF"

text \<open>One wait: \<open>Inl\<close> when the pump ends with a failure.\<close>

definition pump_wait :: "('f, 'a, 'z) pump_api_scheme \<Rightarrow> nat \<Rightarrow> int \<Rightarrow> 'a \<Rightarrow> 'a + 'a" where
  "pump_wait A handles idle_interval a =
    (case pump_timeout A idle_interval a of
       (None, a1) \<Rightarrow> Inl (pa_report A a1)
     | (Some timeout, a1) \<Rightarrow>
         (case pa_wait A handles timeout a1 of (result, a2) \<Rightarrow>
           if result = WAIT_FAILED then Inl (pa_report A a2)
           else if result = WAIT_TIMEOUT
           then (case run_callback (pa_idle A) a2 of (threw, a3) \<Rightarrow> if threw then Inl (pa_report A a3) else Inr a3)
           else if unat result < handles
           then (case run_callback (map_option (\<lambda>f. f (unat result)) (pa_signal A)) a2 of (threw, a3) \<Rightarrow>
             if threw then Inl (pa_report A a3) else Inr a3)
           else if unat result \<noteq> handles then Inl (pa_report A a2)
           else Inr a2))"

definition MAXIMUM_WAIT_OBJECTS :: nat where "MAXIMUM_WAIT_OBJECTS = 64"

partial_function (option) pump_loop ::
  "('f, 'a, 'z) pump_api_scheme \<Rightarrow> nat \<Rightarrow> int \<Rightarrow> 'f list \<Rightarrow> 'a \<Rightarrow> (int \<times> 'f list \<times> 'a) option" where
  "pump_loop A handles idle_interval fs a =
    (case drain_messages A fs a of
       None \<Rightarrow> None
     | Some (Drain_quit code (fs1, a1)) \<Rightarrow> Some (code, fs1, a1)
     | Some (Drain_threw (fs1, a1)) \<Rightarrow> Some (EXIT_FAILURE, fs1, pa_report A a1)
     | Some (Drain_empty (fs1, a1)) \<Rightarrow>
         (case pump_wait A handles idle_interval a1 of
            Inl a2 \<Rightarrow> Some (EXIT_FAILURE, fs1, a2)
          | Inr a2 \<Rightarrow> pump_loop A handles idle_interval fs1 a2))"

definition WaitAwareMessagePump_Run ::
  "('f, 'a, 'z) pump_api_scheme \<Rightarrow> nat \<Rightarrow> int \<Rightarrow> 'f list \<Rightarrow> 'a \<Rightarrow> (int \<times> 'f list \<times> 'a) option" where
  "WaitAwareMessagePump_Run A handles idle_interval fs a =
    (if MAXIMUM_WAIT_OBJECTS - 1 < handles then Some (EXIT_FAILURE, fs, pa_report A a)
     else pump_loop A handles idle_interval fs a)"

section \<open>Timers\<close>

record ('w, 'h) timer_window_api =
  tw_is_window :: "'h \<Rightarrow> 'w \<Rightarrow> bool"
  tw_set_timer :: "'h \<Rightarrow> u64 \<Rightarrow> u32 \<Rightarrow> 'w \<Rightarrow> bool \<times> 'w"
  tw_kill_timer :: "'h \<Rightarrow> u64 \<Rightarrow> 'w \<Rightarrow> 'w"

record 'h UiTimer =
  ut_window :: "'h option"
  ut_id :: u64

definition UiTimer_new :: "'h UiTimer" where
  "UiTimer_new = \<lparr>ut_window = None, ut_id = 0\<rparr>"

definition UiTimer_IsRunning :: "('w, 'h, 'z) timer_window_api_scheme \<Rightarrow> 'h UiTimer \<Rightarrow> 'w \<Rightarrow> bool" where
  "UiTimer_IsRunning A t w \<longleftrightarrow> (case ut_window t of None \<Rightarrow> False | Some h \<Rightarrow> ut_id t \<noteq> 0 \<and> tw_is_window A h w)"

definition UiTimer_Stop :: "('w, 'h, 'z) timer_window_api_scheme \<Rightarrow> 'h UiTimer \<Rightarrow> 'w \<Rightarrow> 'h UiTimer \<times> 'w" where
  "UiTimer_Stop A t w =
    (UiTimer_new,
     case ut_window t of None \<Rightarrow> w
     | Some h \<Rightarrow> if ut_id t \<noteq> 0 \<and> tw_is_window A h w then tw_kill_timer A h (ut_id t) w else w)"

definition UiTimer_Start ::
  "('w, 'h, 'z) timer_window_api_scheme \<Rightarrow> 'h option \<Rightarrow> u64 \<Rightarrow> int \<Rightarrow> 'h UiTimer \<Rightarrow> 'w \<Rightarrow> bool \<times> 'h UiTimer \<times> 'w" where
  "UiTimer_Start A window i interval t w =
    (case UiTimer_Stop A t w of (t1, w1) \<Rightarrow>
      case window of
        None \<Rightarrow> (False, t1, w1)
      | Some h \<Rightarrow>
          if i = 0 \<or> interval \<le> 0 then (False, t1, w1)
          else case tw_set_timer A h i (of_int (min interval 0xFFFFFFFF)) w1 of
            (False, w2) \<Rightarrow> (False, t1, w2)
          | (True, w2) \<Rightarrow> (True, \<lparr>ut_window = Some h, ut_id = i\<rparr>, w2))"

definition UiTimer_move :: "'h UiTimer \<Rightarrow> 'h UiTimer \<times> 'h UiTimer" where
  "UiTimer_move other = (other, UiTimer_new)"

definition UiTimer_assign ::
  "('w, 'h, 'z) timer_window_api_scheme \<Rightarrow> 'h UiTimer \<Rightarrow> 'h UiTimer \<Rightarrow> 'w \<Rightarrow> 'h UiTimer \<times> 'h UiTimer \<times> 'w" where
  "UiTimer_assign A t other w = (case UiTimer_Stop A t w of (_, w1) \<Rightarrow> (other, UiTimer_new, w1))"

end
