(* ===== verification/Message_Loop_Order.thy ===== *)
theory Message_Loop_Order
  imports Message_Loop
begin

text \<open>
  The order in which filters see a message: newest first and each at most once, as long as a filter that
  leaves the chain takes no older one with it and does not come back.
\<close>

section \<open>A log of the calls\<close>

definition logged :: "('f, 'a) filter_call \<Rightarrow> ('f, 'f list \<times> 'a) filter_call" where
  "logged call f fs s = (case call f fs (snd s) of (consumed, fs', a') \<Rightarrow> (consumed, fs', (fst s @ [f], a')))"

text \<open>
  What a filter at a position may do to the chain: if it stays registered, the filters below it are some of
  those that were below it, in their order; if it leaves, those below stay as they were.  Adding filters
  and removing newer ones is always within these bounds.
\<close>

definition gentle :: "('f, 'a) filter_call \<Rightarrow> bool" where
  "gentle call \<longleftrightarrow> (\<forall>fs i a consumed fs' a'. distinct fs \<and> i < length fs \<and> call (fs ! i) fs a = (consumed, fs', a') \<longrightarrow>
    distinct fs' \<and> (case find_index (\<lambda>g. g = fs ! i) fs' of
      None \<Rightarrow> i \<le> length fs' \<and> take i fs' = take i fs
    | Some k \<Rightarrow> subseq (take k fs') (take i fs)))"

lemma gentleD:
  assumes "gentle call" and "distinct fs" and "i < length fs" and "call (fs ! i) fs a = (consumed, fs', a')"
  defines "k \<equiv> case find_index (\<lambda>g. g = fs ! i) fs' of None \<Rightarrow> i | Some k \<Rightarrow> k"
  shows "distinct fs'" and "k \<le> length fs'" and "k \<le> i" and "subseq (take k fs') (take i fs)"
proof -
  have all: "distinct fs' \<and> (case find_index (\<lambda>g. g = fs ! i) fs' of None \<Rightarrow> i \<le> length fs' \<and> take i fs' = take i fs
    | Some k \<Rightarrow> subseq (take k fs') (take i fs))"
    using assms(1-4) unfolding gentle_def by blast
  then show "distinct fs'" by blast
  show k: "k \<le> length fs'" using all unfolding k_def by (auto split: option.splits dest: find_indexD(1))
  show sub: "subseq (take k fs') (take i fs)" using all unfolding k_def by (auto split: option.splits)
  from list_emb_length [OF sub] show "k \<le> i" using k assms(3) by simp
qed

lemma pretranslate_0: "pretranslate_from call 0 fs a = Some (False, fs, a)"
  by (subst pretranslate_from.simps) simp

lemma pretranslate_Suc:
  "i < length fs \<Longrightarrow> pretranslate_from call (Suc i) fs a =
    (case call (fs ! i) fs a of (consumed, fs', a') \<Rightarrow> if consumed then Some (True, fs', a')
      else pretranslate_from call (case find_index (\<lambda>g. g = fs ! i) fs' of None \<Rightarrow> i | Some k \<Rightarrow> k) fs' a')"
  unfolding pretranslate_from.simps [of call "Suc i"] diff_Suc_1 by simp

lemma subseq_reversed: "subseq xs ys \<Longrightarrow> subseq (rev xs) (rev ys)"
  by (induction rule: list_emb.induct) (auto intro: list_emb_append_mono)

lemma subseq_of_distinct: "subseq xs ys \<Longrightarrow> distinct ys \<Longrightarrow> distinct xs"
  by (induction rule: list_emb.induct) (auto dest: list_emb_set)

lemma pretranslate_order:
  assumes "gentle call"
  shows "distinct fs \<Longrightarrow> n \<le> length fs \<Longrightarrow>
    \<exists>consumed fs' a' called. pretranslate_from (logged call) n fs (log, a) = Some (consumed, fs', (log @ called, a'))
      \<and> subseq called (rev (take n fs))"
proof (induction n arbitrary: fs log a rule: less_induct)
  case (less n)
  show ?case
  proof (cases n)
    case 0
    then show ?thesis by (auto simp: pretranslate_0)
  next
    case (Suc i)
    with less.prems have i: "i < length fs" by simp
    obtain consumed fs1 a1 where call: "call (fs ! i) fs a = (consumed, fs1, a1)" by (metis prod.exhaust)
    let ?k = "case find_index (\<lambda>g. g = fs ! i) fs1 of None \<Rightarrow> i | Some k \<Rightarrow> k"
    note after = gentleD [OF assms less.prems(1) i call]
    have step: "pretranslate_from (logged call) n fs (log, a) =
      (if consumed then Some (True, fs1, (log @ [fs ! i], a1))
       else pretranslate_from (logged call) ?k fs1 (log @ [fs ! i], a1))"
      using Suc i call by (simp add: logged_def pretranslate_Suc)
    have newest: "rev (take n fs) = fs ! i # rev (take i fs)" using Suc i by (simp add: take_Suc_conv_app_nth)
    show ?thesis
    proof (cases consumed)
      case True
      with step newest show ?thesis by (intro exI [of _ True] exI [of _ fs1] exI [of _ a1] exI [of _ "[fs ! i]"]) simp
    next
      case False
      have "?k < n" using after(3) Suc by simp
      from less.IH [OF this after(1,2), of "log @ [fs ! i]" a1] obtain c fs' a' called where
        "pretranslate_from (logged call) ?k fs1 (log @ [fs ! i], a1) = Some (c, fs', ((log @ [fs ! i]) @ called, a'))"
        "subseq called (rev (take ?k fs1))" by blast
      moreover have "subseq (rev (take ?k fs1)) (rev (take i fs))" using after(4) by (rule subseq_reversed)
      ultimately show ?thesis using step False newest
        by (intro exI [of _ c] exI [of _ fs'] exI [of _ a'] exI [of _ "fs ! i # called"])
          (auto intro: subseq_order.order_trans)
    qed
  qed
qed

text \<open>C38: Filters see a message newest first, each at most once.  If every filter leaves the chain as a filter may
  (adding filters, removing newer ones, removing older ones while it stays, or just itself), then
  \<open>PreTranslate\<close> returns and the filters it has called are some of those registered at the start, from the
  newest to the oldest, without repetition.\<close>

theorem filters_run_newest_first:
  assumes "gentle call" and "distinct fs"
  shows "\<exists>consumed fs' called a'. MessageLoop_PreTranslate (logged call) fs ([], a) = Some (consumed, fs', (called, a'))
    \<and> subseq called (rev fs) \<and> distinct called"
proof -
  obtain consumed fs' a' called where "MessageLoop_PreTranslate (logged call) fs ([], a) = Some (consumed, fs', ([] @ called, a'))"
    "subseq called (rev (take (length fs) fs))"
    using pretranslate_order [OF assms order_refl, of "[]" a] unfolding MessageLoop_PreTranslate_def by blast
  moreover have "distinct called" using calculation(2) assms(2) subseq_of_distinct by fastforce
  ultimately show ?thesis by auto
qed

text \<open>Removing any filters while staying, or only newer ones and itself, and adding others, is within the bounds.\<close>

lemma adding_and_removing_is_gentle:
  assumes "distinct fs" and "i < length fs" and "fs' = filter P fs @ news" and "distinct fs'" and "fs ! i \<notin> set news"
    and "P (fs ! i) \<or> (\<forall>g \<in> set (take i fs). P g)"
  shows "case find_index (\<lambda>g. g = fs ! i) fs' of None \<Rightarrow> i \<le> length fs' \<and> take i fs' = take i fs
    | Some k \<Rightarrow> subseq (take k fs') (take i fs)"
proof -
  let ?f = "fs ! i"
  have parts: "fs = take i fs @ ?f # drop (Suc i) fs" using assms(2) by (rule id_take_nth_drop)
  then have new: "?f \<notin> set (take i fs)" "?f \<notin> set (drop (Suc i) fs)"
    using assms(1) by (metis distinct_append not_distinct_conv_prefix, metis distinct.simps(2) distinct_append)
  have kept: "filter P fs = filter P (take i fs) @ (if P ?f then [?f] else []) @ filter P (drop (Suc i) fs)"
    by (subst parts) simp
  show ?thesis
  proof (cases "P ?f")
    case True
    let ?k = "length (filter P (take i fs))"
    have "fs' = filter P (take i fs) @ ?f # filter P (drop (Suc i) fs) @ news" using True kept assms(3) by simp
    then have "find_index (\<lambda>g. g = ?f) fs' = Some ?k" "take ?k fs' = filter P (take i fs)"
      using new(1) by (auto simp: find_index_Some nth_append dest: nth_mem)
    then show ?thesis by simp
  next
    case False
    then have "filter P (take i fs) = take i fs" using assms(6) by (simp add: filter_id_conv)
    with False kept assms(3) have "fs' = take i fs @ filter P (drop (Suc i) fs) @ news" by simp
    moreover have "find_index (\<lambda>g. g = ?f) fs' = None" using assms(3,5) False by (auto simp: find_index_None)
    ultimately show ?thesis using assms(2) by simp
  qed
qed

text \<open>Filters 0, 1 and 2; the newest removes the oldest, and 1 unregisters itself.\<close>

definition example_filters :: "(nat, unit) filter_call" where
  "example_filters f fs a = (False, (if f = 2 then MessageLoop_RemoveFilter 0 fs else if f = 1 then MessageLoop_RemoveFilter 1 fs
    else fs), a)"

lemma example_filters_gentle: "gentle example_filters"
  unfolding gentle_def
proof (intro allI impI)
  fix fs :: "nat list" and i a consumed fs' a'
  assume call: "distinct fs \<and> i < length fs \<and> example_filters (fs ! i) fs a = (consumed, fs', a')"
  let ?P = "\<lambda>g. (fs ! i = 2 \<longrightarrow> g \<noteq> 0) \<and> (fs ! i = 1 \<longrightarrow> g \<noteq> 1)"
  have fs': "fs' = filter ?P fs @ []" using call by (auto simp: example_filters_def MessageLoop_RemoveFilter_def)
  have "fs ! i \<notin> set (take i fs)" using call by (auto simp: in_set_conv_nth distinct_conv_nth)
  then have "?P (fs ! i) \<or> (\<forall>g \<in> set (take i fs). ?P g)" by auto
  then show "distinct fs' \<and> (case find_index (\<lambda>g. g = fs ! i) fs' of None \<Rightarrow> i \<le> length fs' \<and> take i fs' = take i fs
    | Some k \<Rightarrow> subseq (take k fs') (take i fs))"
    using call adding_and_removing_is_gentle [of fs i fs' ?P "[]"] fs' by simp
qed

theorem filters_run_newest_first_witness:
  "\<exists>consumed fs' called a'. MessageLoop_PreTranslate (logged example_filters) [0, 1, 2] ([], ()) = Some (consumed, fs', (called, a'))
    \<and> subseq called [2, 1, 0] \<and> distinct called"
  using filters_run_newest_first [OF example_filters_gentle, of "[0, 1, 2]"] by simp

section \<open>Filters that come back\<close>

text \<open>
  A filter that unregisters and registers itself again, as a dialog that is shown anew does, stands at the
  end of the chain, and the search goes on below that end: filters that have seen the message see it again.
\<close>

definition returning_filter :: "(nat, unit) filter_call" where
  "returning_filter f fs a =
    (False, (if f = 1 then snd (MessageLoop_AddFilter (Some 1) (MessageLoop_RemoveFilter 1 fs)) else fs), a)"

lemma returning_filter_repeats_message:
  "MessageLoop_PreTranslate (logged returning_filter) [0, 1, 2] ([], ()) = Some (False, [0, 2, 1], ([2, 1, 2, 0], ()))"
  by (simp add: MessageLoop_PreTranslate_def pretranslate_Suc pretranslate_0 logged_def returning_filter_def
      MessageLoop_AddFilter_def MessageLoop_RemoveFilter_def)

text \<open>With two such filters the search never ends.\<close>

definition returning_filters :: "(nat, unit) filter_call" where
  "returning_filters f fs a =
    (False, (if f = 0 then fs else snd (MessageLoop_AddFilter (Some f) (MessageLoop_RemoveFilter f fs))), a)"

lemma returning_filters_step:
  "fs \<in> {[0, 1, 2], [0, 2, 1]} \<Longrightarrow> \<exists>fs' \<in> {[0, 1, 2], [0, 2, 1]}. \<exists>a'. returning_filters (fs ! 1) fs a = (False, fs', a')
    \<and> find_index (\<lambda>g. g = fs ! 1) fs' = Some 2"
  by (auto simp: returning_filters_def MessageLoop_AddFilter_def MessageLoop_RemoveFilter_def)

lemma returning_filters_loop:
  assumes "pretranslate_from call n fs a = Some r"
  shows "call = returning_filters \<longrightarrow> n = 2 \<longrightarrow> fs \<notin> {[0, 1, 2], [0, 2, 1]}"
proof (rule pretranslate_from.raw_induct [OF _ assms, where P = "\<lambda>call n fs a r. call = returning_filters \<longrightarrow> n = 2 \<longrightarrow> fs \<notin> {[0, 1, 2], [0, 2, 1]}"],
    intro impI notI)
  fix f and call :: "(nat, unit) filter_call" and n fs a r
  assume IH: "\<And>call n fs a r. f call n fs a = Some r \<Longrightarrow> call = returning_filters \<longrightarrow> n = 2 \<longrightarrow> fs \<notin> {[0, 1, 2], [0, 2, 1]}"
    and body: "(if n = 0 then Some (False, fs, a)
     else if length fs \<le> n - 1 then f call (length fs) fs a
     else case call (fs ! (n - 1)) fs a of (consumed, fs', a') \<Rightarrow>
       if consumed then Some (True, fs', a')
       else f call (case find_index (\<lambda>g. g = fs ! (n - 1)) fs' of None \<Rightarrow> n - 1 | Some k \<Rightarrow> k) fs' a') = Some r"
    and call: "call = returning_filters" and n: "n = 2" and fs: "fs \<in> {[0, 1, 2], [0, 2, 1]}"
  obtain fs' a' where after: "returning_filters (fs ! 1) fs a = (False, fs', a')" "fs' \<in> {[0, 1, 2], [0, 2, 1]}"
    "find_index (\<lambda>g. g = fs ! 1) fs' = Some 2" using returning_filters_step [OF fs, of a] by blast
  have "length fs = 3" using fs by auto
  then have "f call 2 fs' a' = Some r" using body after(1,3) call n by simp
  from IH [OF this] after(2) call show False by blast
qed

theorem returning_filters_never_return: "MessageLoop_PreTranslate returning_filters [0, 1, 2] () = None"
proof -
  have "pretranslate_from returning_filters 3 [0, 1, 2] () = pretranslate_from returning_filters 2 [0, 1, 2] ()"
    using pretranslate_Suc [of 2 "[0, 1, 2]" returning_filters "()"]
    by (simp add: returning_filters_def MessageLoop_AddFilter_def MessageLoop_RemoveFilter_def eval_nat_numeral)
  moreover have "pretranslate_from returning_filters 2 [0, 1, 2] () = None"
    using returning_filters_loop [of returning_filters 2 "[0, 1, 2]" "()"] by (cases "pretranslate_from returning_filters 2 [0, 1, 2] ()") auto
  ultimately show ?thesis by (simp add: MessageLoop_PreTranslate_def numeral_3_eq_3)
qed

end
