(* ===== verification/Mdi_Model.thy ===== *)
theory Mdi_Model
  imports Prelude
begin

text \<open>
  The model of a multiple-document interface (\<open>mdi.h\<close>, first half of \<open>mdi.cpp\<close>): the order of the children
  of a workspace, the active one, a revision counter, and the transfer of a child between two workspaces.
  Failing allocations are not modelled.
\<close>

record MdiChildEntry =
  mc_id :: u64
  mc_title :: wstring
  mc_dirty :: bool
  mc_closable :: bool

datatype MdiModelStatus =
    Mdi_success | Mdi_invalid_argument | Mdi_duplicate_id | Mdi_not_found | Mdi_not_closable
  | Mdi_limit_exceeded | Mdi_callback_failed | Mdi_active_child_changed

type_synonym MdiModelResult = "MdiModelStatus \<times> u64 option"

record MdiWorkspaceModel =
  mdi_children :: "MdiChildEntry list"
  mdi_active :: "u64 option"
  mdi_revision :: u64

definition MdiWorkspaceModel_new :: MdiWorkspaceModel where
  "MdiWorkspaceModel_new = \<lparr>mdi_children = [], mdi_active = None, mdi_revision = 0\<rparr>"

definition MaximumChildren :: nat where "MaximumChildren = 1024"

definition Mdi_ValidTitle :: "wstring \<Rightarrow> bool" where
  "Mdi_ValidTitle title \<longleftrightarrow> title \<noteq> [] \<and> length title \<le> 32768"

definition Mdi_index :: "u64 \<Rightarrow> MdiWorkspaceModel \<Rightarrow> nat option" where
  "Mdi_index child m = find_index (\<lambda>e. mc_id e = child) (mdi_children m)"

definition Mdi_Find :: "u64 \<Rightarrow> MdiWorkspaceModel \<Rightarrow> MdiChildEntry option" where
  "Mdi_Find child m = map_option (\<lambda>k. mdi_children m ! k) (Mdi_index child m)"

definition Mdi_Add :: "MdiChildEntry \<Rightarrow> MdiWorkspaceModel \<Rightarrow> MdiModelResult \<times> MdiWorkspaceModel" where
  "Mdi_Add child m =
    (if mc_id child = 0 \<or> \<not> Mdi_ValidTitle (mc_title child) then ((Mdi_invalid_argument, None), m)
     else if Mdi_Find (mc_id child) m \<noteq> None then ((Mdi_duplicate_id, Some (mc_id child)), m)
     else if MaximumChildren \<le> length (mdi_children m) then ((Mdi_limit_exceeded, Some (mc_id child)), m)
     else ((Mdi_success, Some (mc_id child)),
       m\<lparr>mdi_children := mdi_children m @ [child], mdi_active := Some (mc_id child), mdi_revision := mdi_revision m + 1\<rparr>))"

text \<open>The active child once the one at a position has left: its successor, or the last one.\<close>

definition active_after_removal :: "nat \<Rightarrow> MdiChildEntry list \<Rightarrow> u64 option" where
  "active_after_removal k rest =
    (if rest = [] then None else Some (mc_id (rest ! min k (length rest - 1))))"

definition Mdi_Remove :: "u64 \<Rightarrow> bool \<Rightarrow> MdiWorkspaceModel \<Rightarrow> MdiModelResult \<times> MdiWorkspaceModel" where
  "Mdi_Remove child force m =
    (case Mdi_index child m of
       None \<Rightarrow> ((Mdi_not_found, Some child), m)
     | Some k \<Rightarrow>
         if \<not> force \<and> \<not> mc_closable (mdi_children m ! k) then ((Mdi_not_closable, Some child), m)
         else let rest = erase_at k (mdi_children m)
           in ((Mdi_success, Some child),
             m\<lparr>mdi_children := rest,
               mdi_active := (if mdi_active m = Some child then active_after_removal k rest else mdi_active m),
               mdi_revision := mdi_revision m + 1\<rparr>))"

definition Mdi_Activate :: "u64 \<Rightarrow> MdiWorkspaceModel \<Rightarrow> MdiModelResult \<times> MdiWorkspaceModel" where
  "Mdi_Activate child m =
    (if Mdi_Find child m = None then ((Mdi_not_found, Some child), m)
     else ((Mdi_success, Some child),
       if mdi_active m \<noteq> Some child then m\<lparr>mdi_active := Some child, mdi_revision := mdi_revision m + 1\<rparr> else m))"

definition Mdi_Move :: "u64 \<Rightarrow> nat \<Rightarrow> MdiWorkspaceModel \<Rightarrow> MdiModelResult \<times> MdiWorkspaceModel" where
  "Mdi_Move child index m =
    (if length (mdi_children m) \<le> index then ((Mdi_invalid_argument, Some child), m)
     else case Mdi_index child m of
       None \<Rightarrow> ((Mdi_not_found, Some child), m)
     | Some old \<Rightarrow>
         if old = index then ((Mdi_success, Some child), m)
         else ((Mdi_success, Some child),
           m\<lparr>mdi_children := move_item old index (mdi_children m), mdi_revision := mdi_revision m + 1\<rparr>))"

text \<open>The source and the destination are different objects; equal addresses are \<open>Mdi_TransferTo_self\<close>.\<close>

definition Mdi_TransferTo ::
  "u64 \<Rightarrow> nat \<Rightarrow> MdiWorkspaceModel \<Rightarrow> MdiWorkspaceModel \<Rightarrow> MdiModelResult \<times> MdiWorkspaceModel \<times> MdiWorkspaceModel" where
  "Mdi_TransferTo child index source destination =
    (if length (mdi_children destination) < index then ((Mdi_invalid_argument, Some child), source, destination)
     else case Mdi_index child source of
       None \<Rightarrow> ((Mdi_not_found, Some child), source, destination)
     | Some k \<Rightarrow>
         if Mdi_Find child destination \<noteq> None then ((Mdi_duplicate_id, Some child), source, destination)
         else if MaximumChildren \<le> length (mdi_children destination)
         then ((Mdi_limit_exceeded, Some child), source, destination)
         else let rest = erase_at k (mdi_children source)
           in ((Mdi_success, Some child),
             source\<lparr>mdi_children := rest,
               mdi_active := (if mdi_active source = Some child then active_after_removal k rest else mdi_active source),
               mdi_revision := mdi_revision source + 1\<rparr>,
             destination\<lparr>mdi_children := insert_at index (mdi_children source ! k) (mdi_children destination),
               mdi_active := Some child, mdi_revision := mdi_revision destination + 1\<rparr>))"

definition Mdi_TransferTo_self :: "u64 \<Rightarrow> MdiWorkspaceModel \<Rightarrow> MdiModelResult \<times> MdiWorkspaceModel" where
  "Mdi_TransferTo_self child m = ((Mdi_invalid_argument, Some child), m)"

definition Mdi_Rename :: "u64 \<Rightarrow> wstring \<Rightarrow> MdiWorkspaceModel \<Rightarrow> MdiModelResult \<times> MdiWorkspaceModel" where
  "Mdi_Rename child title m =
    (if \<not> Mdi_ValidTitle title then ((Mdi_invalid_argument, Some child), m)
     else case Mdi_index child m of
       None \<Rightarrow> ((Mdi_not_found, Some child), m)
     | Some k \<Rightarrow> ((Mdi_success, Some child),
         m\<lparr>mdi_children := update_at k (\<lambda>e. e\<lparr>mc_title := title\<rparr>) (mdi_children m), mdi_revision := mdi_revision m + 1\<rparr>))"

definition Mdi_SetDirty :: "u64 \<Rightarrow> bool \<Rightarrow> MdiWorkspaceModel \<Rightarrow> MdiModelResult \<times> MdiWorkspaceModel" where
  "Mdi_SetDirty child dirty m =
    (case Mdi_index child m of
       None \<Rightarrow> ((Mdi_not_found, Some child), m)
     | Some k \<Rightarrow> ((Mdi_success, Some child),
         if mc_dirty (mdi_children m ! k) \<noteq> dirty
         then m\<lparr>mdi_children := update_at k (\<lambda>e. e\<lparr>mc_dirty := dirty\<rparr>) (mdi_children m), mdi_revision := mdi_revision m + 1\<rparr>
         else m))"

definition Mdi_SetClosable :: "u64 \<Rightarrow> bool \<Rightarrow> MdiWorkspaceModel \<Rightarrow> MdiModelResult \<times> MdiWorkspaceModel" where
  "Mdi_SetClosable child closable m =
    (case Mdi_index child m of
       None \<Rightarrow> ((Mdi_not_found, Some child), m)
     | Some k \<Rightarrow> ((Mdi_success, Some child),
         if mc_closable (mdi_children m ! k) \<noteq> closable
         then m\<lparr>mdi_children := update_at k (\<lambda>e. e\<lparr>mc_closable := closable\<rparr>) (mdi_children m),
           mdi_revision := mdi_revision m + 1\<rparr>
         else m))"

text \<open>The handler works on the state \<open>'a\<close> of the application, of which the workspace is a part.\<close>

definition RouteMdiActiveChild ::
  "('a \<Rightarrow> MdiWorkspaceModel) \<Rightarrow> (u64 \<Rightarrow> 'a \<Rightarrow> unit outcome \<times> 'a) option \<Rightarrow> 'a \<Rightarrow> MdiModelResult \<times> 'a" where
  "RouteMdiActiveChild workspace handler a =
    (case handler of
       None \<Rightarrow> ((Mdi_invalid_argument, None), a)
     | Some h \<Rightarrow>
         (case mdi_active (workspace a) of
            None \<Rightarrow> ((Mdi_not_found, None), a)
          | Some active \<Rightarrow>
              (case h active a of
                 (Throws, a') \<Rightarrow> ((Mdi_callback_failed, Some active), a')
               | (Returns _, a') \<Rightarrow>
                   if mdi_active (workspace a') \<noteq> Some active then ((Mdi_active_child_changed, Some active), a')
                   else ((Mdi_success, Some active), a'))))"

section \<open>Invariant\<close>

definition mdi_wf :: "MdiWorkspaceModel \<Rightarrow> bool" where
  "mdi_wf m \<longleftrightarrow> distinct (map mc_id (mdi_children m)) \<and> length (mdi_children m) \<le> MaximumChildren
    \<and> (\<forall>e \<in> set (mdi_children m). mc_id e \<noteq> 0 \<and> Mdi_ValidTitle (mc_title e))
    \<and> (case mdi_active m of None \<Rightarrow> mdi_children m = [] | Some i \<Rightarrow> i \<in> mc_id ` set (mdi_children m))"

lemma Mdi_indexD:
  assumes "Mdi_index child m = Some k"
  shows "k < length (mdi_children m)" and "mc_id (mdi_children m ! k) = child"
  using assms by (auto simp: Mdi_index_def dest: find_indexD)

lemma Mdi_Find_None: "Mdi_Find child m = None \<longleftrightarrow> child \<notin> mc_id ` set (mdi_children m)"
  by (auto simp: Mdi_Find_def Mdi_index_def find_index_None)

lemma active_after_removal_in:
  "active_after_removal k rest = Some i \<Longrightarrow> i \<in> mc_id ` set rest"
  by (auto simp: active_after_removal_def min_less_iff_disj split: if_splits intro!: imageI nth_mem)

lemma active_after_removal_None: "active_after_removal k rest = None \<longleftrightarrow> rest = []"
  by (simp add: active_after_removal_def)

text \<open>A workspace that a child has left.\<close>

lemma mdi_wf_erased:
  assumes wf: "mdi_wf m" and k: "Mdi_index child m = Some k"
  shows "mdi_wf (m\<lparr>mdi_children := erase_at k (mdi_children m),
    mdi_active := (if mdi_active m = Some child then active_after_removal k (erase_at k (mdi_children m)) else mdi_active m),
    mdi_revision := r\<rparr>)"
proof -
  let ?rest = "erase_at k (mdi_children m)"
  note K = Mdi_indexD [OF k]
  have d: "distinct (map mc_id (mdi_children m))" using wf by (simp add: mdi_wf_def)
  have ids: "mc_id ` set ?rest = mc_id ` set (mdi_children m) - {child}"
    using set_filter_key_erase [OF d K(1)] K(2) by simp
  have "distinct (map mc_id ?rest)" using d by (simp add: map_erase_at distinct_erase_at)
  moreover have "length ?rest \<le> MaximumChildren" using wf K(1) by (auto simp: mdi_wf_def)
  moreover have "\<forall>e \<in> set ?rest. mc_id e \<noteq> 0 \<and> Mdi_ValidTitle (mc_title e)"
    using wf set_erase_at_subset [of k "mdi_children m"] by (auto simp: mdi_wf_def)
  moreover have "mdi_active m \<noteq> None" using wf K(1) by (auto simp: mdi_wf_def split: option.splits)
  moreover have "i \<in> mc_id ` set ?rest" if "mdi_active m = Some i" "i \<noteq> child" for i
    using wf that ids by (auto simp: mdi_wf_def)
  ultimately show ?thesis
    by (auto simp: mdi_wf_def active_after_removal_None dest: active_after_removal_in split: option.splits)
qed

lemma mdi_wf_entered:
  assumes "mdi_wf m" and "length (mdi_children m) < MaximumChildren" and "mc_id e \<noteq> 0"
    and "Mdi_ValidTitle (mc_title e)" and "Mdi_Find (mc_id e) m = None"
  shows "mdi_wf (m\<lparr>mdi_children := insert_at k e (mdi_children m), mdi_active := Some (mc_id e), mdi_revision := r\<rparr>)"
  using assms by (auto simp: mdi_wf_def Mdi_Find_None map_insert_at)

lemma mdi_wf_add [preserves]: "mdi_wf m \<Longrightarrow> mdi_wf (snd (Mdi_Add e m))"
  using mdi_wf_entered [of m e _ "length (mdi_children m)"] by (auto simp: Mdi_Add_def insert_at_def)

lemma mdi_wf_remove [preserves]: "mdi_wf m \<Longrightarrow> mdi_wf (snd (Mdi_Remove child force m))"
  using mdi_wf_erased by (auto simp: Mdi_Remove_def Let_def split: option.split)

lemma mdi_wf_activate [preserves]: "mdi_wf m \<Longrightarrow> mdi_wf (snd (Mdi_Activate child m))"
  by (cases "Mdi_Find child m = None") (auto simp: Mdi_Activate_def mdi_wf_def Mdi_Find_None)

lemma mdi_wf_move [preserves]: "mdi_wf m \<Longrightarrow> mdi_wf (snd (Mdi_Move child index m))"
  by (auto simp: Mdi_Move_def mdi_wf_def map_move_item distinct_move_item set_move_item length_move_item
      dest: Mdi_indexD split: option.splits)

lemma mdi_wf_update:
  assumes "mdi_wf m" and "\<And>e. mc_id (f e) = mc_id e" and "\<And>e. Mdi_ValidTitle (mc_title e) \<Longrightarrow> Mdi_ValidTitle (mc_title (f e))"
  shows "mdi_wf (m\<lparr>mdi_children := update_at k f (mdi_children m), mdi_revision := r\<rparr>)"
proof -
  let ?cs = "update_at k f (mdi_children m)"
  have ids: "map mc_id ?cs = map mc_id (mdi_children m)" using assms(2) by (rule map_update_at)
  then have "mc_id ` set ?cs = mc_id ` set (mdi_children m)" by (metis set_map)
  moreover have "?cs = [] \<longleftrightarrow> mdi_children m = []" by (metis length_0_conv length_update_at)
  moreover have "\<forall>e \<in> set ?cs. mc_id e \<noteq> 0 \<and> Mdi_ValidTitle (mc_title e)"
    using assms by (auto simp: mdi_wf_def dest!: set_update_atD)
  ultimately show ?thesis using assms(1) ids by (auto simp: mdi_wf_def split: option.splits)
qed

lemma mdi_wf_rename [preserves]: "mdi_wf m \<Longrightarrow> mdi_wf (snd (Mdi_Rename child title m))"
  by (auto simp: Mdi_Rename_def intro!: mdi_wf_update split: option.split)

lemma mdi_wf_set_dirty [preserves]: "mdi_wf m \<Longrightarrow> mdi_wf (snd (Mdi_SetDirty child dirty m))"
  by (auto simp: Mdi_SetDirty_def intro!: mdi_wf_update split: option.split)

lemma mdi_wf_set_closable [preserves]: "mdi_wf m \<Longrightarrow> mdi_wf (snd (Mdi_SetClosable child closable m))"
  by (auto simp: Mdi_SetClosable_def intro!: mdi_wf_update split: option.split)

lemma Mdi_TransferTo_cases:
  obtains (refused) status where "status \<noteq> Mdi_success"
      "Mdi_TransferTo child index source destination = ((status, Some child), source, destination)"
  | (moved) k where "Mdi_index child source = Some k" "Mdi_Find child destination = None"
      "length (mdi_children destination) < MaximumChildren" "index \<le> length (mdi_children destination)"
      "Mdi_TransferTo child index source destination = ((Mdi_success, Some child),
        source\<lparr>mdi_children := erase_at k (mdi_children source),
          mdi_active := (if mdi_active source = Some child then active_after_removal k (erase_at k (mdi_children source))
            else mdi_active source), mdi_revision := mdi_revision source + 1\<rparr>,
        destination\<lparr>mdi_children := insert_at index (mdi_children source ! k) (mdi_children destination),
          mdi_active := Some child, mdi_revision := mdi_revision destination + 1\<rparr>)"
proof (cases "index \<le> length (mdi_children destination)")
  case index: True
  show ?thesis
  proof (cases "Mdi_index child source")
    case (Some k)
    with index show ?thesis using that
      by (cases "Mdi_Find child destination = None"; cases "length (mdi_children destination) < MaximumChildren")
        (simp_all add: Mdi_TransferTo_def Let_def)
  qed (use index refused in \<open>simp add: Mdi_TransferTo_def\<close>)
qed (use refused in \<open>simp add: Mdi_TransferTo_def\<close>)

lemma mdi_wf_transfer:
  assumes "mdi_wf source" and "mdi_wf destination" and "Mdi_TransferTo child index source destination = (r, s', d')"
  shows "mdi_wf s' \<and> mdi_wf d'"
proof (cases rule: Mdi_TransferTo_cases [of child index source destination])
  case (moved k)
  note K = Mdi_indexD [OF moved(1)]
  have "mdi_children source ! k \<in> set (mdi_children source)" using K(1) by simp
  then have "mc_id (mdi_children source ! k) \<noteq> 0" "Mdi_ValidTitle (mc_title (mdi_children source ! k))"
    using assms(1) by (auto simp: mdi_wf_def)
  from mdi_wf_erased [OF assms(1) moved(1)] mdi_wf_entered [OF assms(2) moved(3) this] moved(2,5) K(2) assms(3)
  show ?thesis by force
qed (use assms in simp)

section \<open>Workspaces\<close>

text \<open>Any number of workspaces, named by \<open>'i\<close>.\<close>

datatype 'i mdi_op =
    Mdi_op_Add 'i MdiChildEntry
  | Mdi_op_Remove 'i u64 bool
  | Mdi_op_Activate 'i u64
  | Mdi_op_Move 'i u64 nat
  | Mdi_op_TransferTo 'i 'i u64 nat
  | Mdi_op_Rename 'i u64 wstring
  | Mdi_op_SetDirty 'i u64 bool
  | Mdi_op_SetClosable 'i u64 bool

definition on_model ::
  "'i \<Rightarrow> (MdiWorkspaceModel \<Rightarrow> MdiModelResult \<times> MdiWorkspaceModel) \<Rightarrow> ('i \<Rightarrow> MdiWorkspaceModel)
    \<Rightarrow> MdiModelResult \<times> ('i \<Rightarrow> MdiWorkspaceModel)" where
  "on_model i f ms = (case f (ms i) of (r, m) \<Rightarrow> (r, ms(i := m)))"

fun mdi_step :: "('i \<Rightarrow> MdiWorkspaceModel) \<Rightarrow> 'i mdi_op \<Rightarrow> MdiModelResult \<times> ('i \<Rightarrow> MdiWorkspaceModel)" where
  "mdi_step ms (Mdi_op_Add i e) = on_model i (Mdi_Add e) ms"
| "mdi_step ms (Mdi_op_Remove i c force) = on_model i (Mdi_Remove c force) ms"
| "mdi_step ms (Mdi_op_Activate i c) = on_model i (Mdi_Activate c) ms"
| "mdi_step ms (Mdi_op_Move i c k) = on_model i (Mdi_Move c k) ms"
| "mdi_step ms (Mdi_op_TransferTo i j c k) =
    (if i = j then on_model i (Mdi_TransferTo_self c) ms
     else case Mdi_TransferTo c k (ms i) (ms j) of (r, s, d) \<Rightarrow> (r, ms(i := s, j := d)))"
| "mdi_step ms (Mdi_op_Rename i c t) = on_model i (Mdi_Rename c t) ms"
| "mdi_step ms (Mdi_op_SetDirty i c d) = on_model i (Mdi_SetDirty c d) ms"
| "mdi_step ms (Mdi_op_SetClosable i c d) = on_model i (Mdi_SetClosable c d) ms"

lemma mdi_wf_on_model:
  "(\<And>i. mdi_wf (ms i)) \<Longrightarrow> mdi_wf (snd (f (ms i))) \<Longrightarrow> mdi_wf (snd (on_model i f ms) j)"
  by (cases "f (ms i)") (simp add: on_model_def)

lemma mdi_wf_step:
  assumes "\<forall>i. mdi_wf (ms i)"
  shows "\<forall>i. mdi_wf (snd (mdi_step ms x) i)"
proof (cases x)
  case (Mdi_op_TransferTo i j c k)
  obtain r s d where "Mdi_TransferTo c k (ms i) (ms j) = (r, s, d)" by (metis prod.exhaust)
  with assms mdi_wf_transfer [of "ms i" "ms j" c k r s d] show ?thesis
    by (simp add: Mdi_op_TransferTo on_model_def Mdi_TransferTo_self_def)
qed (use assms in \<open>simp_all only: mdi_step.simps mdi_wf_on_model preserves simp_thms\<close>)

lemma mdi_rev_on_model:
  assumes "snd (f (ms i)) = ms i \<or> mdi_revision (snd (f (ms i))) = mdi_revision (ms i) + 1"
  shows "snd (on_model i f ms) j = ms j \<or> mdi_revision (snd (on_model i f ms) j) = mdi_revision (ms j) + 1"
  using assms by (cases "f (ms i)") (auto simp: on_model_def)

lemma mdi_rev_operations:
  "snd (Mdi_Add e m) = m \<or> mdi_revision (snd (Mdi_Add e m)) = mdi_revision m + 1"
  "snd (Mdi_Remove c force m) = m \<or> mdi_revision (snd (Mdi_Remove c force m)) = mdi_revision m + 1"
  "snd (Mdi_Activate c m) = m \<or> mdi_revision (snd (Mdi_Activate c m)) = mdi_revision m + 1"
  "snd (Mdi_Move c k m) = m \<or> mdi_revision (snd (Mdi_Move c k m)) = mdi_revision m + 1"
  "snd (Mdi_Rename c t m) = m \<or> mdi_revision (snd (Mdi_Rename c t m)) = mdi_revision m + 1"
  "snd (Mdi_SetDirty c d m) = m \<or> mdi_revision (snd (Mdi_SetDirty c d m)) = mdi_revision m + 1"
  "snd (Mdi_SetClosable c d m) = m \<or> mdi_revision (snd (Mdi_SetClosable c d m)) = mdi_revision m + 1"
  by (auto simp: Mdi_Add_def Mdi_Remove_def Mdi_Activate_def Mdi_Move_def Mdi_Rename_def Mdi_SetDirty_def
      Mdi_SetClosable_def Let_def split: option.splits)

lemma mdi_rev_step:
  "snd (mdi_step ms x) j = ms j \<or> mdi_revision (snd (mdi_step ms x) j) = mdi_revision (ms j) + 1"
proof (cases x)
  case (Mdi_op_TransferTo i j' c k)
  then show ?thesis
    by (cases rule: Mdi_TransferTo_cases [of c k "ms i" "ms j'"]) (auto simp: on_model_def Mdi_TransferTo_self_def)
qed (simp_all only: mdi_step.simps mdi_rev_on_model mdi_rev_operations)

interpretation mdi_machine: revisioned mdi_step "\<lambda>ms. \<forall>i. mdi_wf (ms i)" "\<lambda>ms. mdi_revision (ms j)" "\<lambda>ms. ms j" for j
proof (unfold_locales, goal_cases)
  case (1 ms x)
  then show ?case by (rule mdi_wf_step)
next
  case (2 ms x)
  show ?case using mdi_rev_step [of ms x j] by auto
qed

section \<open>Properties\<close>

text \<open>
  After any operations on any number of new workspaces, transfers among them included, the identifiers
  within a workspace are nonzero and distinct, titles are valid, there are at most 1024 children, and the
  active child is one of them, with an active child whenever there is any.
\<close>

theorem mdi_stays_consistent: "mdi_wf (run_ops mdi_step (\<lambda>_. MdiWorkspaceModel_new) xs i)"
  using mdi_machine.run_inv [of "\<lambda>_. MdiWorkspaceModel_new" xs]
  by (simp add: mdi_wf_def MdiWorkspaceModel_new_def)

theorem mdi_revision_detects_changes:
  assumes "\<forall>i. mdi_wf (ms i)" and "length xs < 2 ^ 63"
    and "mdi_revision (run_ops mdi_step ms xs j) = mdi_revision (ms j)"
  shows "run_ops mdi_step ms xs j = ms j"
  by (rule mdi_machine.same_revision_same_view [OF assms])

text \<open>A transfer either changes nothing or moves exactly one child, unchanged and active, to the requested place.\<close>

theorem mdi_transfer_moves_one_child:
  assumes "mdi_wf source"
  shows "case Mdi_TransferTo child index source destination of ((status, c), s, d) \<Rightarrow>
    if status = Mdi_success
    then (\<exists>e \<in> set (mdi_children source). mc_id e = child
      \<and> mdi_children s = filter (\<lambda>x. mc_id x \<noteq> child) (mdi_children source)
      \<and> mdi_children d = insert_at index e (mdi_children destination) \<and> mdi_active d = Some child)
    else s = source \<and> d = destination"
proof (cases rule: Mdi_TransferTo_cases [of child index source destination])
  case (moved k)
  note K = Mdi_indexD [OF moved(1)]
  have "erase_at k (mdi_children source) = filter (\<lambda>x. mc_id x \<noteq> child) (mdi_children source)"
    using erase_at_filter [OF _ K(1), where f = mc_id] assms K(2) by (simp add: mdi_wf_def)
  then show ?thesis using moved(5) K by auto
qed simp

end
