(* ===== verification/Mdi_Host.thy ===== *)
theory Mdi_Host
  imports Mdi_Model Foundation Dpi "HOL-Library.Monad_Syntax"
begin

text \<open>
  The host of native child windows (\<open>MdiHost\<close>, second half of \<open>mdi.cpp\<close>).  A call into the window system may
  send messages to the child procedure before it returns; such a call is a tree of the messages it sends,
  and \<open>run_native\<close> runs the procedure for each of them, nested calls included.  \<open>None\<close> is an access to a
  child state that has been freed, popping an empty vector, or a call that does not return.  Handlers of the
  application may call the window system, but not the host or its model.
\<close>

section \<open>Calls into the window system\<close>

text \<open>A message; \<open>WM_NCCREATE\<close> carries the \<open>lParam\<close> of the creation, here the key of a child state.\<close>

datatype mdi_message = Msg_nccreate "nat option" | Msg_ncdestroy | Msg_other u32 u64 u64

datatype 'h reply = Reply_value u64 | Reply_window "'h option" | Reply_handler "u64 option outcome"

datatype ('w, 'h) native =
    Native_return "'h reply" 'w
  | Native_send 'h mdi_message 'w "u64 \<Rightarrow> 'w \<Rightarrow> ('w, 'h) native"

datatype 'h client_request =
    Client_create wstring u32 nat
  | Client_activate 'h
  | Client_destroy 'h
  | Client_cascade
  | Client_tile_horizontal
  | Client_tile_vertical
  | Client_icon_arrange

record ('w, 'h) mdi_api =
  ma_is_window :: "'h \<Rightarrow> 'w \<Rightarrow> bool"
  ma_thread_process :: "'h \<Rightarrow> 'w \<Rightarrow> u32 \<times> u32"
  ma_current_thread :: u32
  ma_current_process :: u32
  ma_register_class :: "'w \<Rightarrow> bool \<times> dword \<times> 'w"
  ma_create_client :: "'h \<Rightarrow> u32 \<Rightarrow> 'w \<Rightarrow> 'h option \<times> 'w"
  ma_last_error :: "'w \<Rightarrow> dword"
  ma_send :: "'h \<Rightarrow> 'h client_request \<Rightarrow> 'w \<Rightarrow> ('w, 'h) native"
  ma_def_child :: "'h \<Rightarrow> mdi_message \<Rightarrow> 'w \<Rightarrow> ('w, 'h) native"
  ma_def_frame :: "'h option \<Rightarrow> 'h option \<Rightarrow> mdi_message \<Rightarrow> 'w \<Rightarrow> u64 \<times> 'w"
  ma_translate :: "'h \<Rightarrow> 'w \<Rightarrow> bool \<times> 'w"
  ma_move :: "'h \<Rightarrow> int \<times> int \<times> int \<times> int \<Rightarrow> 'w \<Rightarrow> 'w"
  ma_destroy_window :: "'h \<Rightarrow> 'w \<Rightarrow> 'w"

section \<open>The host\<close>

type_synonym ('w, 'h) child_handler = "'h \<Rightarrow> mdi_message \<Rightarrow> 'w \<Rightarrow> ('w, 'h) native"

text \<open>A child state is an object of its own; the key is its address.\<close>

record ('w, 'h) ChildState =
  cs_key :: nat
  cs_id :: u64
  cs_window :: "'h option"
  cs_message :: "('w, 'h) child_handler option"

record ('w, 'h) MdiHost =
  mh_frame :: "'h option"
  mh_client :: "'h option"
  mh_thread :: u32
  mh_children :: "('w, 'h) ChildState list"
  mh_exception :: bool

text \<open>The host, its model, the user data of the child windows, the next unused address, and the system.\<close>

record ('w, 'h) mdi_state =
  ms_host :: "('w, 'h) MdiHost"
  ms_model :: MdiWorkspaceModel
  ms_user :: "'h \<Rightarrow> nat option"
  ms_next :: nat
  ms_world :: 'w

datatype MdiHostStatus =
    MdiHost_success | MdiHost_invalid_argument | MdiHost_invalid_state | MdiHost_wrong_thread
  | MdiHost_native_failure | MdiHost_model_failure | MdiHost_callback_failed

record 'h MdiHostResult =
  mr_status :: MdiHostStatus
  mr_child :: u64
  mr_window :: "'h option"
  mr_error :: dword

definition host_result :: "MdiHostStatus \<Rightarrow> u64 \<Rightarrow> 'h option \<Rightarrow> dword \<Rightarrow> 'h MdiHostResult" where
  "host_result status child window e = \<lparr>mr_status = status, mr_child = child, mr_window = window, mr_error = e\<rparr>"

definition MdiHost_new :: "('w, 'h) MdiHost" where
  "MdiHost_new = \<lparr>mh_frame = None, mh_client = None, mh_thread = 0, mh_children = [], mh_exception = False\<rparr>"

definition MdiHost_CheckThread :: "('w, 'h) mdi_api \<Rightarrow> ('w, 'h) MdiHost \<Rightarrow> 'h MdiHostResult" where
  "MdiHost_CheckThread A host =
    (if mh_client host = None then host_result MdiHost_invalid_state 0 None ERROR_SUCCESS
     else if ma_current_thread A \<noteq> mh_thread host
     then host_result MdiHost_wrong_thread 0 None ERROR_INVALID_THREAD_ID
     else host_result MdiHost_success 0 None ERROR_SUCCESS)"

definition MdiHost_Create ::
  "('w, 'h) mdi_api \<Rightarrow> 'h option \<Rightarrow> MdiWorkspaceModel \<Rightarrow> u32 \<Rightarrow> ('w, 'h) mdi_state
    \<Rightarrow> 'h MdiHostResult \<times> ('w, 'h) mdi_state" where
  "MdiHost_Create A frame model first_child_command s =
    (case frame of
       None \<Rightarrow> (host_result MdiHost_invalid_argument 0 None ERROR_INVALID_PARAMETER, s)
     | Some f \<Rightarrow>
         if mh_client (ms_host s) \<noteq> None \<or> \<not> ma_is_window A f (ms_world s) \<or> first_child_command = 0
         then (host_result MdiHost_invalid_argument 0 None ERROR_INVALID_PARAMETER, s)
         else if ma_thread_process A f (ms_world s) \<noteq> (ma_current_thread A, ma_current_process A)
         then (host_result MdiHost_wrong_thread 0 None ERROR_INVALID_THREAD_ID, s)
         else case ma_register_class A (ms_world s) of (registered, e, w1) \<Rightarrow>
           if \<not> registered then (host_result MdiHost_native_failure 0 None e, s\<lparr>ms_world := w1\<rparr>)
           else case ma_create_client A f first_child_command w1 of
             (None, w2) \<Rightarrow> (host_result MdiHost_native_failure 0 None (ma_last_error A w2), s\<lparr>ms_world := w2\<rparr>)
           | (Some client, w2) \<Rightarrow>
               (host_result MdiHost_success 0 (Some client) ERROR_SUCCESS,
                s\<lparr>ms_world := w2, ms_model := model, ms_host := (ms_host s)\<lparr>mh_frame := Some f, mh_client := Some client,
                  mh_thread := fst (ma_thread_process A f (ms_world s))\<rparr>\<rparr>))"

definition MdiHost_GetChild :: "u64 \<Rightarrow> ('w, 'h) MdiHost \<Rightarrow> 'h option" where
  "MdiHost_GetChild child host =
    (case find (\<lambda>c. cs_id c = child) (mh_children host) of None \<Rightarrow> None | Some c \<Rightarrow> cs_window c)"

text \<open>The argument may be the null handle, which is what a child state holds until its window is created.\<close>

definition MdiHost_GetChildId :: "'h option \<Rightarrow> ('w, 'h) MdiHost \<Rightarrow> u64 option" where
  "MdiHost_GetChildId window host =
    map_option cs_id (find (\<lambda>c. cs_window c = window) (mh_children host))"

definition MdiHost_TakeCallbackException :: "('w, 'h) MdiHost \<Rightarrow> bool \<times> ('w, 'h) MdiHost" where
  "MdiHost_TakeCallbackException host = (mh_exception host, host\<lparr>mh_exception := False\<rparr>)"

section \<open>The child procedure\<close>

definition live_state :: "nat \<Rightarrow> ('w, 'h) mdi_state \<Rightarrow> ('w, 'h) ChildState option" where
  "live_state key s = find (\<lambda>c. cs_key c = key) (mh_children (ms_host s))"

definition set_children :: "(('w, 'h) ChildState list \<Rightarrow> ('w, 'h) ChildState list) \<Rightarrow> ('w, 'h) mdi_state \<Rightarrow> ('w, 'h) mdi_state" where
  "set_children f s = s\<lparr>ms_host := (ms_host s)\<lparr>mh_children := f (mh_children (ms_host s))\<rparr>\<rparr>"

definition set_child_window :: "nat \<Rightarrow> 'h \<Rightarrow> ('w, 'h) mdi_state \<Rightarrow> ('w, 'h) mdi_state" where
  "set_child_window key h = set_children (map (\<lambda>c. if cs_key c = key then c\<lparr>cs_window := Some h\<rparr> else c))"

definition MdiHost_ChildDestroyed :: "nat \<Rightarrow> ('w, 'h) mdi_state \<Rightarrow> ('w, 'h) mdi_state" where
  "MdiHost_ChildDestroyed key s =
    (case find_index (\<lambda>c. cs_key c = key) (mh_children (ms_host s)) of
       None \<Rightarrow> s
     | Some k \<Rightarrow> set_children (erase_at k)
         (s\<lparr>ms_model := snd (Mdi_Remove (cs_id (mh_children (ms_host s) ! k)) True (ms_model s))\<rparr>))"

text \<open>The child state of a message: the user data of the window, or what its creation carries.\<close>

definition enter_message :: "'h \<Rightarrow> mdi_message \<Rightarrow> ('w, 'h) mdi_state \<Rightarrow> (nat option \<times> ('w, 'h) mdi_state) option" where
  "enter_message h m s =
    (case m of
       Msg_nccreate (Some key) \<Rightarrow>
         if live_state key s = None then None
         else let s1 = set_child_window key h s in Some (Some key, s1\<lparr>ms_user := (ms_user s1)(h := Some key)\<rparr>)
     | Msg_nccreate None \<Rightarrow> Some (None, s)
     | _ \<Rightarrow> Some (ms_user s h, s))"

definition state_handler :: "nat option \<Rightarrow> ('w, 'h) mdi_state \<Rightarrow> ('w, 'h) child_handler option option" where
  "state_handler key s = (case key of None \<Rightarrow> Some None | Some k \<Rightarrow> map_option cs_message (live_state k s))"

definition callback_threw :: "nat option \<Rightarrow> ('w, 'h) mdi_state \<Rightarrow> ('w, 'h) mdi_state option" where
  "callback_threw key s =
    (case key of None \<Rightarrow> Some s
     | Some k \<Rightarrow> if live_state k s = None then None else Some (s\<lparr>ms_host := (ms_host s)\<lparr>mh_exception := True\<rparr>\<rparr>))"

definition leave_message :: "'h \<Rightarrow> mdi_message \<Rightarrow> nat option \<Rightarrow> ('w, 'h) mdi_state \<Rightarrow> ('w, 'h) mdi_state option" where
  "leave_message h m key s =
    (case (m, key) of
       (Msg_ncdestroy, Some k) \<Rightarrow>
         let s1 = s\<lparr>ms_user := (ms_user s)(h := None)\<rparr>
         in if live_state k s1 = None then None else Some (MdiHost_ChildDestroyed k s1)
     | _ \<Rightarrow> Some s)"

fun reply_value :: "'h reply \<Rightarrow> u64" where
  "reply_value (Reply_value v) = v"
| "reply_value _ = 0"

fun reply_window :: "'h reply \<Rightarrow> 'h option" where
  "reply_window (Reply_window h) = h"
| "reply_window _ = None"

fun reply_handled :: "'h reply \<Rightarrow> u64 option outcome" where
  "reply_handled (Reply_handler r) = r"
| "reply_handled _ = Returns None"

partial_function (option) run_native ::
  "('w, 'h) mdi_api \<Rightarrow> ('w, 'h) native \<Rightarrow> ('w, 'h) mdi_state \<Rightarrow> ('h reply \<times> ('w, 'h) mdi_state) option" where
  "run_native A t s =
    (case t of
       Native_return r w \<Rightarrow> Some (r, s\<lparr>ms_world := w\<rparr>)
     | Native_send h m w k \<Rightarrow>
         Option.bind (enter_message h m (s\<lparr>ms_world := w\<rparr>)) (\<lambda>(key, s1).
         Option.bind (state_handler key s1) (\<lambda>handler.
         Option.bind
           (case handler of
              None \<Rightarrow> Some (None, s1)
            | Some f \<Rightarrow> Option.bind (run_native A (f h m (ms_world s1)) s1) (\<lambda>(r, s2).
                case reply_handled r of
                  Returns result \<Rightarrow> Some (result, s2)
                | Throws \<Rightarrow> Option.bind (callback_threw key s2) (\<lambda>s3. Some (None, s3))))
           (\<lambda>(handled, s2).
         case handled of
           Some v \<Rightarrow> run_native A (k v (ms_world s2)) s2
         | None \<Rightarrow>
             Option.bind (run_native A (ma_def_child A h m (ms_world s2)) s2) (\<lambda>(r, s3).
             Option.bind (leave_message h m key s3) (\<lambda>s4.
             run_native A (k (reply_value r) (ms_world s4)) s4))))))"

section \<open>Operations\<close>

definition send_client ::
  "('w, 'h) mdi_api \<Rightarrow> 'h \<Rightarrow> 'h client_request \<Rightarrow> ('w, 'h) mdi_state \<Rightarrow> ('h reply \<times> ('w, 'h) mdi_state) option" where
  "send_client A client request s = run_native A (ma_send A client request (ms_world s)) s"

text \<open>What follows the creation message: a failure drops the last child state, whichever that is.\<close>

definition finish_create ::
  "('w, 'h) mdi_api \<Rightarrow> u64 \<Rightarrow> nat \<Rightarrow> 'h option \<Rightarrow> ('w, 'h) mdi_state \<Rightarrow> ('h MdiHostResult \<times> ('w, 'h) mdi_state) option" where
  "finish_create A child key window s =
    (case window of
       None \<Rightarrow>
         if mh_children (ms_host s) = [] then None
         else Some (host_result MdiHost_native_failure child None (ma_last_error A (ms_world s)), set_children butlast s)
     | Some h \<Rightarrow>
         if live_state key s = None then None
         else let s1 = set_child_window key h s
           in Some (host_result MdiHost_success child (Some h) ERROR_SUCCESS,
             s1\<lparr>ms_model := snd (Mdi_Activate child (ms_model s1))\<rparr>))"

definition MdiHost_CreateChild ::
  "('w, 'h) mdi_api \<Rightarrow> u64 \<Rightarrow> u32 \<Rightarrow> ('w, 'h) child_handler option \<Rightarrow> ('w, 'h) mdi_state
    \<Rightarrow> ('h MdiHostResult \<times> ('w, 'h) mdi_state) option" where
  "MdiHost_CreateChild A child style message s =
    (let checked = MdiHost_CheckThread A (ms_host s)
     in if mr_status checked \<noteq> MdiHost_success then Some (checked, s)
     else case (Mdi_Find child (ms_model s), mh_client (ms_host s)) of
       (Some entry, Some client) \<Rightarrow>
         if MdiHost_GetChild child (ms_host s) \<noteq> None
         then Some (host_result MdiHost_invalid_argument child None ERROR_INVALID_PARAMETER, s)
         else let key = ms_next s;
             s1 = set_children (\<lambda>cs. cs @ [\<lparr>cs_key = key, cs_id = child, cs_window = None, cs_message = message\<rparr>])
               (s\<lparr>ms_next := Suc key\<rparr>)
           in Option.bind (send_client A client (Client_create (until_nul (mc_title entry)) style key) s1)
             (\<lambda>(r, s2). finish_create A child key (reply_window r) s2)
     | _ \<Rightarrow> Some (host_result MdiHost_invalid_argument child None ERROR_INVALID_PARAMETER, s))"

definition MdiHost_Activate ::
  "('w, 'h) mdi_api \<Rightarrow> u64 \<Rightarrow> ('w, 'h) mdi_state \<Rightarrow> ('h MdiHostResult \<times> ('w, 'h) mdi_state) option" where
  "MdiHost_Activate A child s =
    (let checked = MdiHost_CheckThread A (ms_host s)
     in if mr_status checked \<noteq> MdiHost_success then Some (checked, s)
     else case (MdiHost_GetChild child (ms_host s), mh_client (ms_host s)) of
       (Some window, Some client) \<Rightarrow>
         (case Mdi_Activate child (ms_model s) of ((status, _), model) \<Rightarrow>
           if status \<noteq> Mdi_success then Some (host_result MdiHost_model_failure child None ERROR_SUCCESS, s)
           else Option.bind (send_client A client (Client_activate window) (s\<lparr>ms_model := model\<rparr>))
             (\<lambda>(_, s1). Some (host_result MdiHost_success child (Some window) ERROR_SUCCESS, s1)))
     | _ \<Rightarrow> Some (host_result MdiHost_invalid_argument child None ERROR_SUCCESS, s))"

definition MdiHost_Close ::
  "('w, 'h) mdi_api \<Rightarrow> u64 \<Rightarrow> bool \<Rightarrow> ('w, 'h) mdi_state \<Rightarrow> ('h MdiHostResult \<times> ('w, 'h) mdi_state) option" where
  "MdiHost_Close A child force s =
    (let checked = MdiHost_CheckThread A (ms_host s)
     in if mr_status checked \<noteq> MdiHost_success then Some (checked, s)
     else case (MdiHost_GetChild child (ms_host s), Mdi_Find child (ms_model s), mh_client (ms_host s)) of
       (Some window, Some entry, Some client) \<Rightarrow>
         if \<not> force \<and> \<not> mc_closable entry
         then Some (host_result MdiHost_model_failure child (Some window) ERROR_ACCESS_DENIED, s)
         else Option.bind (send_client A client (Client_destroy window) s)
           (\<lambda>(_, s1). Some (if ma_is_window A window (ms_world s1)
             then host_result MdiHost_native_failure child (Some window) (ma_last_error A (ms_world s1))
             else host_result MdiHost_success child None ERROR_SUCCESS, s1))
     | _ \<Rightarrow> Some (host_result MdiHost_invalid_argument child None ERROR_SUCCESS, s))"

datatype MdiArrange = Arrange_cascade | Arrange_tile_horizontal | Arrange_tile_vertical | Arrange_icons

fun arrange_request :: "MdiArrange \<Rightarrow> 'h client_request" where
  "arrange_request Arrange_cascade = Client_cascade"
| "arrange_request Arrange_tile_horizontal = Client_tile_horizontal"
| "arrange_request Arrange_tile_vertical = Client_tile_vertical"
| "arrange_request Arrange_icons = Client_icon_arrange"

definition MdiHost_Arrange ::
  "('w, 'h) mdi_api \<Rightarrow> MdiArrange \<Rightarrow> ('w, 'h) mdi_state \<Rightarrow> ('h MdiHostResult \<times> ('w, 'h) mdi_state) option" where
  "MdiHost_Arrange A arrangement s =
    (let checked = MdiHost_CheckThread A (ms_host s)
     in case mh_client (ms_host s) of
       None \<Rightarrow> Some (checked, s)
     | Some client \<Rightarrow>
         if mr_status checked \<noteq> MdiHost_success then Some (checked, s)
         else Option.bind (send_client A client (arrange_request arrangement) s)
           (\<lambda>(_, s1). Some (host_result MdiHost_success 0 None ERROR_SUCCESS, s1)))"

definition MdiHost_Translate :: "('w, 'h) mdi_api \<Rightarrow> ('w, 'h) mdi_state \<Rightarrow> bool \<times> ('w, 'h) mdi_state" where
  "MdiHost_Translate A s =
    (case mh_client (ms_host s) of None \<Rightarrow> (False, s)
     | Some client \<Rightarrow> (case ma_translate A client (ms_world s) of (b, w) \<Rightarrow> (b, s\<lparr>ms_world := w\<rparr>)))"

definition MdiHost_FrameDefault ::
  "('w, 'h) mdi_api \<Rightarrow> mdi_message \<Rightarrow> ('w, 'h) mdi_state \<Rightarrow> u64 \<times> ('w, 'h) mdi_state" where
  "MdiHost_FrameDefault A m s =
    (case ma_def_frame A (mh_frame (ms_host s)) (mh_client (ms_host s)) m (ms_world s) of (r, w) \<Rightarrow> (r, s\<lparr>ms_world := w\<rparr>))"

definition MdiHost_Resize :: "('w, 'h) mdi_api \<Rightarrow> RECT \<Rightarrow> ('w, 'h) mdi_state \<Rightarrow> ('w, 'h) mdi_state" where
  "MdiHost_Resize A b s =
    (case mh_client (ms_host s) of None \<Rightarrow> s
     | Some client \<Rightarrow>
         if ma_current_thread A = mh_thread (ms_host s)
         then s\<lparr>ms_world := ma_move A client (r_left b, r_top b, r_right b - r_left b, r_bottom b - r_top b) (ms_world s)\<rparr>
         else s)"

partial_function (option) destroy_children ::
  "('w, 'h) mdi_api \<Rightarrow> 'h \<Rightarrow> ('w, 'h) mdi_state \<Rightarrow> ('w, 'h) mdi_state option" where
  "destroy_children A client s =
    (if mh_children (ms_host s) = [] then Some s
     else case cs_window (last (mh_children (ms_host s))) of
       None \<Rightarrow> destroy_children A client (set_children butlast s)
     | Some window \<Rightarrow>
         if ma_is_window A window (ms_world s)
         then Option.bind (send_client A client (Client_destroy window) s) (\<lambda>(_, s1). destroy_children A client s1)
         else destroy_children A client (set_children butlast s))"

definition MdiHost_Destroy :: "('w, 'h) mdi_api \<Rightarrow> ('w, 'h) mdi_state \<Rightarrow> ('w, 'h) mdi_state option" where
  "MdiHost_Destroy A s =
    (case mh_client (ms_host s) of
       None \<Rightarrow> Some s
     | Some client \<Rightarrow>
         if ma_current_thread A \<noteq> mh_thread (ms_host s) then Some s
         else Option.bind (destroy_children A client s) (\<lambda>s1.
           Some (s1\<lparr>ms_world := ma_destroy_window A client (ms_world s1), ms_host := MdiHost_new\<rparr>)))"

end
