(* ===== verification/Mdi_Host_Life.thy ===== *)
theory Mdi_Host_Life
  imports Mdi_Host
begin

text \<open>
  The life of native children: closing a child removes it, and only it, from the host and the model;
  and a creation that fails after the window has seen its first message drops another child.
\<close>

section \<open>Consistent hosts\<close>

definition host_wf :: "('w, 'h) mdi_state \<Rightarrow> bool" where
  "host_wf s \<longleftrightarrow> distinct (map cs_key (mh_children (ms_host s))) \<and> distinct (map cs_id (mh_children (ms_host s)))
    \<and> (\<forall>c \<in> set (mh_children (ms_host s)). cs_key c < ms_next s
        \<and> (\<forall>h. cs_window c = Some h \<longrightarrow> ms_user s h = Some (cs_key c)))
    \<and> (\<forall>h k. ms_user s h = Some k \<longrightarrow> (\<exists>c \<in> set (mh_children (ms_host s)). cs_key c = k \<and> cs_window c = Some h))"

text \<open>A handler that returns at once, and neither consumes nor prevents the last message of a window.\<close>

definition quiet_handler :: "('w, 'h) child_handler \<Rightarrow> bool" where
  "quiet_handler f \<longleftrightarrow> (\<forall>h m w. \<exists>r w'. f h m w = Native_return (Reply_handler r) w'
    \<and> (m = Msg_ncdestroy \<longrightarrow> r = Returns None \<or> r = Throws))"

definition handlers_quiet :: "('w, 'h) mdi_state \<Rightarrow> bool" where
  "handlers_quiet s \<longleftrightarrow> (\<forall>c \<in> set (mh_children (ms_host s)). \<forall>f. cs_message c = Some f \<longrightarrow> quiet_handler f)"

definition quiet_default :: "('w, 'h) mdi_api \<Rightarrow> 'h \<Rightarrow> mdi_message \<Rightarrow> bool" where
  "quiet_default A h m \<longleftrightarrow> (\<forall>w. \<exists>v w'. ma_def_child A h m w = Native_return (Reply_value v) w')"

text \<open>
  A call that destroys a window: it may send any messages of its own to any child, sends the last message
  to that window once, and returns when the window is gone.
\<close>

inductive destroys :: "('w, 'h) mdi_api \<Rightarrow> 'h \<Rightarrow> bool \<Rightarrow> ('w, 'h) native \<Rightarrow> bool" for A :: "('w, 'h) mdi_api" and h :: 'h where
  destroys_return: "\<not> ma_is_window A h w \<Longrightarrow> destroys A h False (Native_return r w)"
| destroys_other: "quiet_default A h' (Msg_other i wp lp) \<Longrightarrow> (\<And>v w'. destroys A h b (k v w')) \<Longrightarrow>
    destroys A h b (Native_send h' (Msg_other i wp lp) w k)"
| destroys_last: "quiet_default A h Msg_ncdestroy \<Longrightarrow> (\<And>v w'. destroys A h False (k v w')) \<Longrightarrow>
    destroys A h True (Native_send h Msg_ncdestroy w k)"

inductive_cases destroys_returnE: "destroys A h b (Native_return r w)"

section \<open>Running a call\<close>

lemma run_return: "run_native A (Native_return r w) s = Some (r, s\<lparr>ms_world := w\<rparr>)"
  by (subst run_native.simps) simp

lemma live_state_in:
  assumes "host_wf s" and "c \<in> set (mh_children (ms_host s))"
  shows "live_state (cs_key c) s = Some c"
  using assms find_key_unique [of cs_key "mh_children (ms_host s)" c] by (simp add: host_wf_def live_state_def find_key_def)

lemma host_wf_world [simp]: "host_wf (s\<lparr>ms_world := w\<rparr>) = host_wf s"
  by (simp add: host_wf_def)

lemma host_wf_exception [simp]: "host_wf (s\<lparr>ms_world := w, ms_host := (ms_host s)\<lparr>mh_exception := e\<rparr>\<rparr>) = host_wf s"
  by (simp add: host_wf_def)

lemma live_state_world [simp]: "live_state k (s\<lparr>ms_world := w\<rparr>) = live_state k s"
  by (simp add: live_state_def)

lemma swap_updates: "s\<lparr>ms_host := host, ms_world := w\<rparr> = s\<lparr>ms_world := w, ms_host := host\<rparr>"
  by simp

text \<open>The handler of a message, when it returns at once.\<close>

lemma quiet_send:
  assumes "host_wf s" and "handlers_quiet s" and "quiet_default A h m" and "m = Msg_ncdestroy \<or> (\<exists>i wp lp. m = Msg_other i wp lp)"
  obtains (consumed) v w' where "m \<noteq> Msg_ncdestroy" "run_native A (Native_send h m w k) s = run_native A (k v w') (s\<lparr>ms_world := w'\<rparr>)"
  | (default) v w' e where "run_native A (Native_send h m w k) s =
      Option.bind (leave_message h m (ms_user s h) (s\<lparr>ms_world := w', ms_host := (ms_host s)\<lparr>mh_exception := e\<rparr>\<rparr>))
        (\<lambda>s'. run_native A (k v (ms_world s')) s')"
proof -
  have enter: "enter_message h m (s\<lparr>ms_world := w\<rparr>) = Some (ms_user s h, s\<lparr>ms_world := w\<rparr>)"
    using assms(4) by (auto simp: enter_message_def)
  obtain v w1 where dflt: "ma_def_child A h m w = Native_return (Reply_value v) w1"
    using assms(3) unfolding quiet_default_def by blast
  consider (none) "state_handler (ms_user s h) (s\<lparr>ms_world := w\<rparr>) = Some None"
    | (handler) key f c where "ms_user s h = Some key" "live_state key s = Some c"
      "state_handler (ms_user s h) (s\<lparr>ms_world := w\<rparr>) = Some (Some f)" "quiet_handler f"
  proof (cases "ms_user s h")
    case None
    then show ?thesis using none by (simp add: state_handler_def)
  next
    case (Some key)
    then obtain c where c: "c \<in> set (mh_children (ms_host s))" "cs_key c = key" using assms(1) unfolding host_wf_def by blast
    then have live: "live_state key s = Some c" using live_state_in [OF assms(1)] by blast
    show ?thesis
    proof (cases "cs_message c")
      case None
      then show ?thesis using none Some live by (simp add: state_handler_def)
    next
      case (Some f)
      then have "quiet_handler f" using assms(2) c(1) by (auto simp: handlers_quiet_def)
      then show ?thesis using handler [of key c f] \<open>ms_user s h = Some key\<close> live Some by (simp add: state_handler_def)
    qed
  qed
  then show thesis
  proof cases
    case none
    then have "run_native A (Native_send h m w k) s =
        Option.bind (leave_message h m (ms_user s h) (s\<lparr>ms_world := w1, ms_host := (ms_host s)\<lparr>mh_exception := mh_exception (ms_host s)\<rparr>\<rparr>))
          (\<lambda>s'. run_native A (k v (ms_world s')) s')"
      by (subst run_native.simps) (simp add: enter dflt run_return)
    then show thesis by (rule default)
  next
    case (handler key f c)
    obtain r w2 where f: "f h m w = Native_return (Reply_handler r) w2" "m = Msg_ncdestroy \<longrightarrow> r = Returns None \<or> r = Throws"
      using handler(4) unfolding quiet_handler_def by blast
    obtain v' w3 where dflt: "ma_def_child A h m w2 = Native_return (Reply_value v') w3"
      using assms(3) unfolding quiet_default_def by blast
    show thesis
    proof (cases r)
      case Throws
      then have "run_native A (Native_send h m w k) s =
          Option.bind (leave_message h m (ms_user s h) (s\<lparr>ms_world := w3, ms_host := (ms_host s)\<lparr>mh_exception := True\<rparr>\<rparr>))
            (\<lambda>s'. run_native A (k v' (ms_world s')) s')"
        using handler f(1) by (subst run_native.simps) (simp add: enter dflt run_return callback_threw_def swap_updates)
      then show thesis by (rule default)
    next
      case (Returns result)
      show thesis
      proof (cases result)
        case None
        then have "run_native A (Native_send h m w k) s =
            Option.bind (leave_message h m (ms_user s h) (s\<lparr>ms_world := w3, ms_host := (ms_host s)\<lparr>mh_exception := mh_exception (ms_host s)\<rparr>\<rparr>))
              (\<lambda>s'. run_native A (k v' (ms_world s')) s')"
          using handler f(1) Returns by (subst run_native.simps) (simp add: enter dflt run_return)
        then show thesis by (rule default)
      next
        case (Some v2)
        then have "run_native A (Native_send h m w k) s = run_native A (k v2 w2) (s\<lparr>ms_world := w2\<rparr>)"
          using handler f(1) Returns by (subst run_native.simps) (simp add: enter run_return)
        moreover have "m \<noteq> Msg_ncdestroy" using f(2) Returns Some by auto
        ultimately show thesis by (rule consumed [rotated])
      qed
    qed
  qed
qed

text \<open>Two states that differ in the system and in whether a callback has thrown.\<close>

definition same_host :: "('w, 'h) mdi_state \<Rightarrow> ('w, 'h) mdi_state \<Rightarrow> bool" where
  "same_host s s' \<longleftrightarrow> s' = s\<lparr>ms_world := ms_world s', ms_host := (ms_host s)\<lparr>mh_exception := mh_exception (ms_host s')\<rparr>\<rparr>"

lemma same_hostI: "same_host s (s\<lparr>ms_world := w, ms_host := (ms_host s)\<lparr>mh_exception := e\<rparr>\<rparr>)"
  by (simp add: same_host_def)

lemma same_host_world: "same_host s (s\<lparr>ms_world := w\<rparr>)"
  by (simp add: same_host_def)

lemma same_hostE:
  assumes "same_host s s'"
  obtains w e where "s' = s\<lparr>ms_world := w, ms_host := (ms_host s)\<lparr>mh_exception := e\<rparr>\<rparr>"
  using assms unfolding same_host_def by blast

lemma same_host_trans:
  assumes "same_host s s'" and "same_host s' s''"
  shows "same_host s s''"
proof -
  obtain w e where s': "s' = s\<lparr>ms_world := w, ms_host := (ms_host s)\<lparr>mh_exception := e\<rparr>\<rparr>"
    using assms(1) by (rule same_hostE)
  obtain w' e' where "s'' = s'\<lparr>ms_world := w', ms_host := (ms_host s')\<lparr>mh_exception := e'\<rparr>\<rparr>"
    using assms(2) by (rule same_hostE)
  then have "s'' = s\<lparr>ms_world := w', ms_host := (ms_host s)\<lparr>mh_exception := e'\<rparr>\<rparr>" by (simp add: s')
  then show ?thesis using same_hostI by metis
qed

lemma same_hostD:
  assumes "same_host s s'"
  shows "host_wf s' = host_wf s" and "handlers_quiet s' = handlers_quiet s" and "ms_user s' = ms_user s"
    and "ms_model s' = ms_model s" and "mh_children (ms_host s') = mh_children (ms_host s)"
    and "mh_client (ms_host s') = mh_client (ms_host s)" and "ms_next s' = ms_next s"
proof -
  obtain w e where "s' = s\<lparr>ms_world := w, ms_host := (ms_host s)\<lparr>mh_exception := e\<rparr>\<rparr>"
    using assms unfolding same_host_def by blast
  then show "host_wf s' = host_wf s" and "handlers_quiet s' = handlers_quiet s" and "ms_user s' = ms_user s"
    and "ms_model s' = ms_model s" and "mh_children (ms_host s') = mh_children (ms_host s)"
    and "mh_client (ms_host s') = mh_client (ms_host s)" and "ms_next s' = ms_next s"
    by (simp_all add: host_wf_def handlers_quiet_def)
qed

lemma quiet_other:
  assumes "host_wf s" and "handlers_quiet s" and "quiet_default A h (Msg_other i wp lp)"
  obtains v s' where "run_native A (Native_send h (Msg_other i wp lp) w k) s = run_native A (k v (ms_world s')) s'" "same_host s s'"
proof -
  have "Msg_other i wp lp = Msg_ncdestroy \<or> (\<exists>i' wp' lp'. Msg_other i wp lp = Msg_other i' wp' lp')" by simp
  from assms this show thesis
  proof (cases rule: quiet_send [where w = w and k = k, consumes 4])
    case (consumed v w')
    then show ?thesis using that [of v "s\<lparr>ms_world := w'\<rparr>"] by (simp add: same_host_world)
  next
    case (default v w' e)
    then show ?thesis using that [of v "s\<lparr>ms_world := w', ms_host := (ms_host s)\<lparr>mh_exception := e\<rparr>\<rparr>"]
      by (simp add: leave_message_def same_hostI)
  qed
qed

lemma quiet_last:
  assumes "host_wf s" and "handlers_quiet s" and "quiet_default A h Msg_ncdestroy"
  obtains v w' e where "run_native A (Native_send h Msg_ncdestroy w k) s =
    Option.bind (leave_message h Msg_ncdestroy (ms_user s h) (s\<lparr>ms_world := w', ms_host := (ms_host s)\<lparr>mh_exception := e\<rparr>\<rparr>))
      (\<lambda>s'. run_native A (k v (ms_world s')) s')"
proof -
  have "Msg_ncdestroy = Msg_ncdestroy \<or> (\<exists>i wp lp. Msg_ncdestroy = Msg_other i wp lp)" by simp
  from assms this show thesis by (cases rule: quiet_send [where w = w and k = k, consumes 4]) (simp, rule that)
qed

text \<open>A call that has sent the last message, and one that has not.\<close>

lemma run_calm:
  "destroys A h b t \<Longrightarrow> \<not> b \<Longrightarrow> host_wf s \<Longrightarrow> handlers_quiet s \<Longrightarrow>
    \<exists>r s'. run_native A t s = Some (r, s') \<and> same_host s s' \<and> \<not> ma_is_window A h (ms_world s')"
proof (induction arbitrary: s rule: destroys.induct)
  case (destroys_return w r)
  then show ?case using same_host_world by (auto simp: run_return)
next
  case (destroys_other h' i wp lp b k w)
  obtain v s1 where s1: "run_native A (Native_send h' (Msg_other i wp lp) w k) s = run_native A (k v (ms_world s1)) s1"
    "same_host s s1" using quiet_other [OF destroys_other.prems(2,3) destroys_other.hyps(1)] by metis
  obtain r s2 where "run_native A (k v (ms_world s1)) s1 = Some (r, s2)" "same_host s1 s2" "\<not> ma_is_window A h (ms_world s2)"
    using destroys_other.IH [of s1 v "ms_world s1"] destroys_other.prems s1(2) same_hostD(1,2) [OF s1(2)] by blast
  then show ?case using s1 same_host_trans by metis
qed simp

definition without_child :: "'h \<Rightarrow> nat \<Rightarrow> ('w, 'h) mdi_state \<Rightarrow> ('w, 'h) mdi_state" where
  "without_child h key s = MdiHost_ChildDestroyed key (s\<lparr>ms_user := (ms_user s)(h := None)\<rparr>)"

lemma without_child_same:
  assumes "same_host s s'"
  shows "same_host (without_child h key s) (without_child h key s')"
proof -
  obtain w e where "s' = s\<lparr>ms_world := w, ms_host := (ms_host s)\<lparr>mh_exception := e\<rparr>\<rparr>"
    using assms by (rule same_hostE)
  then show ?thesis
    by (simp add: same_host_def without_child_def MdiHost_ChildDestroyed_def set_children_def split: option.split)
qed

lemma without_child_parts:
  assumes "host_wf s" and "c \<in> set (mh_children (ms_host s))"
  shows "mh_children (ms_host (without_child h (cs_key c) s)) = filter (\<lambda>d. cs_key d \<noteq> cs_key c) (mh_children (ms_host s))"
    and "ms_model (without_child h (cs_key c) s) = snd (Mdi_Remove (cs_id c) True (ms_model s))"
    and "ms_user (without_child h (cs_key c) s) = (ms_user s)(h := None)"
    and "ms_next (without_child h (cs_key c) s) = ms_next s"
    and "mh_client (ms_host (without_child h (cs_key c) s)) = mh_client (ms_host s)"
    and "mh_thread (ms_host (without_child h (cs_key c) s)) = mh_thread (ms_host s)"
proof -
  let ?cs = "mh_children (ms_host s)"
  have d: "distinct (map cs_key ?cs)" using assms(1) by (simp add: host_wf_def)
  obtain k where k: "find_index (\<lambda>d. cs_key d = cs_key c) ?cs = Some k" "k < length ?cs" "?cs ! k = c"
    using assms(2) find_index_key_nth [OF d] by (auto simp: in_set_conv_nth)
  have "erase_at k ?cs = filter (\<lambda>d. cs_key d \<noteq> cs_key c) ?cs" using erase_at_filter [OF d k(2)] k(3) by simp
  then show "mh_children (ms_host (without_child h (cs_key c) s)) = filter (\<lambda>d. cs_key d \<noteq> cs_key c) ?cs"
    and "ms_model (without_child h (cs_key c) s) = snd (Mdi_Remove (cs_id c) True (ms_model s))"
    and "ms_user (without_child h (cs_key c) s) = (ms_user s)(h := None)"
    and "ms_next (without_child h (cs_key c) s) = ms_next s"
    and "mh_client (ms_host (without_child h (cs_key c) s)) = mh_client (ms_host s)"
    and "mh_thread (ms_host (without_child h (cs_key c) s)) = mh_thread (ms_host s)"
    using k by (simp_all add: without_child_def MdiHost_ChildDestroyed_def set_children_def)
qed

lemma without_child_wf:
  assumes "host_wf s" and "c \<in> set (mh_children (ms_host s))" and "cs_window c = Some h"
  shows "host_wf (without_child h (cs_key c) s)"
proof -
  note parts = without_child_parts [OF assms(1,2), of h]
  have other: "d \<noteq> c \<Longrightarrow> cs_key d \<noteq> cs_key c" if "d \<in> set (mh_children (ms_host s))" for d
    using assms(1,2) that by (auto simp: host_wf_def distinct_map inj_on_def)
  have user: "ms_user s h = Some (cs_key c)" using assms by (auto simp: host_wf_def)
  have "ms_user s h' = Some (cs_key d) \<Longrightarrow> h' \<noteq> h" if "d \<in> set (mh_children (ms_host s))" "cs_key d \<noteq> cs_key c" for d h'
    using user that by auto
  moreover have "cs_key d \<noteq> cs_key c" if "d \<in> set (mh_children (ms_host s))" "cs_window d = Some h'" "h' \<noteq> h" for d h'
    by (rule other [OF that(1)]) (use assms(3) that(2,3) in auto)
  moreover have "\<exists>d \<in> set (mh_children (ms_host s)). cs_key d \<noteq> cs_key c \<and> cs_key d = k \<and> cs_window d = Some h'"
    if "ms_user s h' = Some k" "h' \<noteq> h" for h' k
  proof -
    obtain d where "d \<in> set (mh_children (ms_host s))" "cs_key d = k" "cs_window d = Some h'"
      using assms(1) \<open>ms_user s h' = Some k\<close> unfolding host_wf_def by blast
    then show ?thesis using calculation(2) \<open>h' \<noteq> h\<close> by blast
  qed
  moreover have "distinct (map cs_key (mh_children (ms_host s)))" "distinct (map cs_id (mh_children (ms_host s)))"
    "\<And>d. d \<in> set (mh_children (ms_host s)) \<Longrightarrow> cs_key d < ms_next s"
    "\<And>d h'. d \<in> set (mh_children (ms_host s)) \<Longrightarrow> cs_window d = Some h' \<Longrightarrow> ms_user s h' = Some (cs_key d)"
    using assms(1) unfolding host_wf_def by blast+
  ultimately show ?thesis unfolding host_wf_def parts
    by (simp add: distinct_map_filter) (metis (no_types, lifting))
qed

lemma run_destroys:
  "destroys A h b t \<Longrightarrow> b \<Longrightarrow> host_wf s \<Longrightarrow> handlers_quiet s \<Longrightarrow> c \<in> set (mh_children (ms_host s)) \<Longrightarrow> cs_window c = Some h \<Longrightarrow>
    \<exists>r s'. run_native A t s = Some (r, s') \<and> same_host (without_child h (cs_key c) s) s' \<and> \<not> ma_is_window A h (ms_world s')"
proof (induction arbitrary: s rule: destroys.induct)
  case (destroys_other h' i wp lp b k w)
  obtain v s1 where s1: "run_native A (Native_send h' (Msg_other i wp lp) w k) s = run_native A (k v (ms_world s1)) s1"
    "same_host s s1" using quiet_other [OF destroys_other.prems(2,3) destroys_other.hyps(1)] by metis
  note same = same_hostD [OF s1(2)]
  obtain r s2 where s2: "run_native A (k v (ms_world s1)) s1 = Some (r, s2)" "same_host (without_child h (cs_key c) s1) s2"
    "\<not> ma_is_window A h (ms_world s2)"
  proof -
    have "\<exists>r s'. run_native A (k v (ms_world s1)) s1 = Some (r, s') \<and> same_host (without_child h (cs_key c) s1) s'
        \<and> \<not> ma_is_window A h (ms_world s')"
      by (rule destroys_other.IH) (use destroys_other.prems same in simp_all)
    then show thesis using that by blast
  qed
  have "same_host (without_child h (cs_key c) s) (without_child h (cs_key c) s1)"
    using s1(2) by (rule without_child_same)
  then show ?case using s1(1) s2 same_host_trans by metis
next
  case (destroys_last k w)
  have key: "ms_user s h = Some (cs_key c)" using destroys_last.prems by (auto simp: host_wf_def)
  obtain v w' e where run: "run_native A (Native_send h Msg_ncdestroy w k) s =
      Option.bind (leave_message h Msg_ncdestroy (ms_user s h) (s\<lparr>ms_world := w', ms_host := (ms_host s)\<lparr>mh_exception := e\<rparr>\<rparr>))
        (\<lambda>s'. run_native A (k v (ms_world s')) s')"
    using quiet_last [OF destroys_last.prems(2,3) destroys_last.hyps(1)] by blast
  let ?s1 = "s\<lparr>ms_world := w', ms_host := (ms_host s)\<lparr>mh_exception := e\<rparr>\<rparr>"
  have same: "same_host s ?s1" by (rule same_hostI)
  have c1: "c \<in> set (mh_children (ms_host ?s1))" "host_wf ?s1" using destroys_last.prems(2,4) by simp_all
  let ?s2 = "without_child h (cs_key c) ?s1"
  have leave: "leave_message h Msg_ncdestroy (ms_user s h) ?s1 = Some ?s2"
    using live_state_in [OF c1(2,1)] by (simp add: leave_message_def key without_child_def live_state_def)
  have wf: "host_wf ?s2" using without_child_wf [OF c1(2,1)] destroys_last.prems(5) by simp
  have "handlers_quiet ?s2" using destroys_last.prems(3) without_child_parts(1) [OF c1(2,1)] by (auto simp: handlers_quiet_def)
  with run_calm [OF destroys_last.hyps(2), OF _ wf] obtain r s3 where s3:
    "run_native A (k v (ms_world ?s2)) ?s2 = Some (r, s3)" "same_host ?s2 s3" "\<not> ma_is_window A h (ms_world s3)" by blast
  have "same_host (without_child h (cs_key c) s) ?s2"
    using same by (rule without_child_same)
  then show ?case using run leave s3 same_host_trans by fastforce
qed simp

section \<open>Closing a child\<close>

lemma host_child:
  assumes "host_wf s" and "MdiHost_GetChild child (ms_host s) = Some h"
  obtains c where "c \<in> set (mh_children (ms_host s))" "cs_id c = child" "cs_window c = Some h"
    "filter (\<lambda>d. cs_id d \<noteq> child) (mh_children (ms_host s)) = filter (\<lambda>d. cs_key d \<noteq> cs_key c) (mh_children (ms_host s))"
proof -
  obtain c where c: "c \<in> set (mh_children (ms_host s))" "cs_id c = child" "cs_window c = Some h"
    using assms(2) by (auto simp: MdiHost_GetChild_def find_Some_iff split: option.splits dest: nth_mem)
  have "cs_id d = child \<longleftrightarrow> cs_key d = cs_key c" if "d \<in> set (mh_children (ms_host s))" for d
    using assms(1) c that by (auto simp: host_wf_def distinct_map inj_on_def)
  then show thesis using that c by (metis (mono_tags, lifting) filter_cong)
qed


section \<open>An example\<close>

text \<open>
  A system whose state is the list of live windows.  Destroying a window sends one message before the last
  one; creating a child fails after the window has seen its first message, as it does when the procedure
  of the child rejects the creation.
\<close>

definition example_mdi :: "(nat list, nat) mdi_api" where
  "example_mdi = \<lparr>ma_is_window = (\<lambda>h w. h \<in> set w), ma_thread_process = (\<lambda>_ _. (7, 8)), ma_current_thread = 7,
    ma_current_process = 8, ma_register_class = (\<lambda>w. (True, 0, w)), ma_create_client = (\<lambda>_ _ w. (Some 1, w)),
    ma_last_error = (\<lambda>_. 5),
    ma_send = (\<lambda>_ request w. case request of
        Client_create _ _ key \<Rightarrow> Native_send 11 (Msg_nccreate (Some key)) (11 # w) (\<lambda>_ w1.
          Native_send 11 Msg_ncdestroy w1 (\<lambda>_ w2. Native_return (Reply_window None) (removeAll 11 w2)))
      | Client_destroy h \<Rightarrow> Native_send h (Msg_other 2 0 0) w (\<lambda>_ w1.
          Native_send h Msg_ncdestroy w1 (\<lambda>_ w2. Native_return (Reply_value 0) (removeAll h w2)))
      | _ \<Rightarrow> Native_return (Reply_value 0) w),
    ma_def_child = (\<lambda>_ _ w. Native_return (Reply_value 1) w),
    ma_def_frame = (\<lambda>_ _ _ w. (0, w)), ma_translate = (\<lambda>_ w. (False, w)), ma_move = (\<lambda>_ _ w. w),
    ma_destroy_window = (\<lambda>h w. removeAll h w)\<rparr>"

definition example_mdi_state :: "(nat list, nat) mdi_state" where
  "example_mdi_state = \<lparr>ms_host = \<lparr>mh_frame = Some 0, mh_client = Some 1, mh_thread = 7,
      mh_children = [\<lparr>cs_key = 0, cs_id = 21, cs_window = Some 10, cs_message = None\<rparr>], mh_exception = False\<rparr>,
    ms_model = \<lparr>mdi_children = [\<lparr>mc_id = 21, mc_title = lit ''a'', mc_dirty = False, mc_closable = True\<rparr>,
        \<lparr>mc_id = 22, mc_title = lit ''b'', mc_dirty = False, mc_closable = True\<rparr>], mdi_active = Some 22, mdi_revision = 2\<rparr>,
    ms_user = (\<lambda>h. if h = 10 then Some 0 else None), ms_next = 1, ms_world = [0, 1, 10]\<rparr>"

lemma example_mdi_state_ok: "host_wf example_mdi_state \<and> handlers_quiet example_mdi_state"
  by (simp add: host_wf_def handlers_quiet_def example_mdi_state_def)

lemma example_mdi_destroys: "destroys example_mdi h True (ma_send example_mdi c (Client_destroy h) w)"
proof -
  have "quiet_default example_mdi g m" for g m by (simp add: quiet_default_def example_mdi_def)
  then show ?thesis
    by (auto simp: example_mdi_def intro!: destroys.intros)
qed


section \<open>A creation that fails late\<close>

text \<open>
  When the window system destroys the new window again before the creation returns, the child state has been
  removed by the last message, and \<open>pop_back\<close> removes another one: the child 21 is no longer known to the
  host although its window lives, the model has lost the child 22, and the next message to the window of
  child 21 reads a freed object.
\<close>

lemma run_send:
  "run_native A (Native_send h m w k) s =
    Option.bind (enter_message h m (s\<lparr>ms_world := w\<rparr>)) (\<lambda>(key, s1).
    Option.bind (state_handler key s1) (\<lambda>handler.
    Option.bind
      (case handler of
         None \<Rightarrow> Some (None, s1)
       | Some f \<Rightarrow> Option.bind (run_native A (f h m (ms_world s1)) s1) (\<lambda>(r, s2).
           case reply_handled r of
             Returns result \<Rightarrow> Some (result, s2)
           | Throws \<Rightarrow> Option.bind (callback_threw key s2) (\<lambda>s3. Some (None, s3))))
      (\<lambda>(handled, s2).
    case handled of
      Some v \<Rightarrow> run_native A (k v (ms_world s2)) s2
    | None \<Rightarrow>
        Option.bind (run_native A (ma_def_child A h m (ms_world s2)) s2) (\<lambda>(r, s3).
        Option.bind (leave_message h m key s3) (\<lambda>s4.
        run_native A (k (reply_value r) (ms_world s4)) s4)))))"
  by (subst run_native.simps) simp

lemma failed_creation_loses_another_child:
  "\<exists>s'. MdiHost_CreateChild example_mdi 22 0 None example_mdi_state =
      Some (host_result MdiHost_native_failure 22 None 5, s')
    \<and> MdiHost_GetChild 21 (ms_host s') = None \<and> ma_is_window example_mdi 10 (ms_world s')
    \<and> Mdi_Find 22 (ms_model s') = None
    \<and> run_native example_mdi (Native_send 10 (Msg_other 5 0 0) (ms_world s') k) s' = None"
  by (simp add: MdiHost_CreateChild_def MdiHost_CheckThread_def MdiHost_GetChild_def host_result_def Let_def send_client_def
      example_mdi_state_def example_mdi_def Mdi_Find_def Mdi_index_def Mdi_Remove_def erase_at_def set_children_def
      run_send run_return enter_message_def live_state_def set_child_window_def state_handler_def leave_message_def
      MdiHost_ChildDestroyed_def finish_create_def until_nul_def)

end
