(* ===== verification/Docking_Native.thy ===== *)
theory Docking_Native
  imports Docking_Model Foundation
begin

text \<open>
  The native side of docking (\<open>docking_native.h\<close>, \<open>docking_native.cpp\<close>): an adapter binds groups and panels
  of a layout to windows, prepares a plan that moves the panel windows to the hosts of their groups, adopts
  it, and rolls it back.  The window system is a parameter: a call that fails has the first component
  \<open>False\<close>, and visibility as such is the bit \<open>WS_VISIBLE\<close> of the style, while \<open>IsWindowVisible\<close> also looks
  at the ancestors.
\<close>

record ('w, 'h) dock_window_api =
  na_is_window :: "'h \<Rightarrow> 'w \<Rightarrow> bool"
  na_thread_process :: "'h \<Rightarrow> 'w \<Rightarrow> u32 \<times> u32"
  na_current_thread :: u32
  na_current_process :: u32
  na_focus :: "'w \<Rightarrow> 'h option"
  na_parent :: "'h \<Rightarrow> 'w \<Rightarrow> 'h option"
  na_style :: "'h \<Rightarrow> 'w \<Rightarrow> u64"
  na_exstyle :: "'h \<Rightarrow> 'w \<Rightarrow> u64"
  na_visible :: "'h \<Rightarrow> 'w \<Rightarrow> bool"
  na_set_parent :: "'h \<Rightarrow> 'h \<Rightarrow> 'w \<Rightarrow> bool \<times> 'w"
  na_set_style :: "'h \<Rightarrow> u64 \<Rightarrow> 'w \<Rightarrow> bool \<times> 'w"
  na_set_exstyle :: "'h \<Rightarrow> u64 \<Rightarrow> 'w \<Rightarrow> bool \<times> 'w"
  na_set_pos :: "'h \<Rightarrow> bool \<Rightarrow> 'w \<Rightarrow> bool \<times> 'w"
  na_set_focus :: "'h \<Rightarrow> 'w \<Rightarrow> 'w"
  na_last_error :: "'w \<Rightarrow> dword"

datatype DockNativeStatus =
    DockNative_success | DockNative_invalid_argument | DockNative_duplicate_binding | DockNative_not_found
  | DockNative_wrong_thread_or_process | DockNative_stale_window | DockNative_native_failure
  | DockNative_invalid_state

type_synonym DockNativeResult = "DockNativeStatus \<times> dword"

record 'h DockNativePanelMove =
  dm_panel :: u64
  dm_window :: 'h
  dm_original_parent :: 'h
  dm_destination_parent :: 'h
  dm_original_style :: u64
  dm_original_exstyle :: u64
  dm_original_visible :: bool
  dm_destination_visible :: bool

record 'h DockNativeAdoptionPlan =
  ap_moves :: "'h DockNativePanelMove list"
  ap_original_focus :: "'h option"
  ap_destination_focus :: "u64 option"
  ap_adopted :: bool
  ap_committed :: bool

text \<open>Handles of a plan are those of windows, so the null checks of \<open>IsValid\<close> concern the panels only.\<close>

definition AdoptionPlan_IsValid :: "'h DockNativeAdoptionPlan \<Rightarrow> bool" where
  "AdoptionPlan_IsValid p \<longleftrightarrow> ap_moves p \<noteq> [] \<and> \<not> ap_committed p
    \<and> list_all (\<lambda>m. dm_panel m \<noteq> 0) (ap_moves p)
    \<and> distinct (map dm_panel (ap_moves p)) \<and> distinct (map dm_window (ap_moves p))"

record 'h DockNativeWorkspaceAdapter =
  na_parking :: "'h option"
  na_thread :: u32
  na_process :: u32
  na_groups :: "(u64 \<times> 'h) list"
  na_panels :: "(u64 \<times> 'h) list"

definition DockNative_new :: "'h DockNativeWorkspaceAdapter" where
  "DockNative_new = \<lparr>na_parking = None, na_thread = 0, na_process = 0, na_groups = [], na_panels = []\<rparr>"

definition DockNative_Attach ::
  "('w, 'h) dock_window_api \<Rightarrow> 'h option \<Rightarrow> 'h DockNativeWorkspaceAdapter \<Rightarrow> 'w
    \<Rightarrow> DockNativeResult \<times> 'h DockNativeWorkspaceAdapter" where
  "DockNative_Attach A parking a w =
    (case parking of
       None \<Rightarrow> ((DockNative_invalid_argument, ERROR_INVALID_PARAMETER), a)
     | Some p \<Rightarrow>
         if na_parking a \<noteq> None \<or> \<not> na_is_window A p w
         then ((DockNative_invalid_argument, ERROR_INVALID_PARAMETER), a)
         else if na_thread_process A p w \<noteq> (na_current_thread A, na_current_process A)
         then ((DockNative_wrong_thread_or_process, ERROR_INVALID_THREAD_ID), a)
         else ((DockNative_success, ERROR_SUCCESS), a\<lparr>na_parking := Some p,
           na_thread := fst (na_thread_process A p w), na_process := snd (na_thread_process A p w)\<rparr>))"

definition DockNative_Detach :: "'h DockNativeWorkspaceAdapter \<Rightarrow> 'h DockNativeWorkspaceAdapter" where
  "DockNative_Detach a = DockNative_new"

definition IsCompatibleWindow ::
  "('w, 'h) dock_window_api \<Rightarrow> 'h DockNativeWorkspaceAdapter \<Rightarrow> 'h option \<Rightarrow> 'w \<Rightarrow> bool" where
  "IsCompatibleWindow A a window w \<longleftrightarrow>
    (case window of None \<Rightarrow> False
     | Some h \<Rightarrow> na_parking a \<noteq> None \<and> na_is_window A h w \<and> na_thread_process A h w = (na_thread a, na_process a)
         \<and> na_thread a = na_current_thread A)"

definition find_binding :: "u64 \<Rightarrow> (u64 \<times> 'h) list \<Rightarrow> 'h option" where
  "find_binding i bs = map_option snd (find (\<lambda>b. fst b = i) bs)"

definition DockNative_FindPanel :: "u64 \<Rightarrow> 'h DockNativeWorkspaceAdapter \<Rightarrow> 'h option" where
  "DockNative_FindPanel i a = find_binding i (na_panels a)"

definition DockNative_FindGroup :: "u64 \<Rightarrow> 'h DockNativeWorkspaceAdapter \<Rightarrow> 'h option" where
  "DockNative_FindGroup i a = find_binding i (na_groups a)"

definition DockNative_BindGroup ::
  "('w, 'h) dock_window_api \<Rightarrow> u64 \<Rightarrow> 'h \<Rightarrow> 'w \<Rightarrow> 'h DockNativeWorkspaceAdapter
    \<Rightarrow> DockNativeResult \<times> 'h DockNativeWorkspaceAdapter" where
  "DockNative_BindGroup A i host w a =
    (if i = 0 \<or> \<not> IsCompatibleWindow A a (Some host) w
     then ((DockNative_wrong_thread_or_process, ERROR_INVALID_WINDOW_HANDLE), a)
     else if DockNative_FindGroup i a \<noteq> None \<or> list_ex (\<lambda>b. snd b = host) (na_groups a)
     then ((DockNative_duplicate_binding, ERROR_ALREADY_EXISTS), a)
     else ((DockNative_success, ERROR_SUCCESS), a\<lparr>na_groups := na_groups a @ [(i, host)]\<rparr>))"

definition DockNative_BindPanel ::
  "('w, 'h) dock_window_api \<Rightarrow> u64 \<Rightarrow> 'h \<Rightarrow> 'w \<Rightarrow> 'h DockNativeWorkspaceAdapter
    \<Rightarrow> DockNativeResult \<times> 'h DockNativeWorkspaceAdapter" where
  "DockNative_BindPanel A i window w a =
    (if i = 0 \<or> \<not> IsCompatibleWindow A a (Some window) w
     then ((DockNative_wrong_thread_or_process, ERROR_INVALID_WINDOW_HANDLE), a)
     else if DockNative_FindPanel i a \<noteq> None \<or> list_ex (\<lambda>b. snd b = window) (na_panels a)
     then ((DockNative_duplicate_binding, ERROR_ALREADY_EXISTS), a)
     else ((DockNative_success, ERROR_SUCCESS), a\<lparr>na_panels := na_panels a @ [(i, window)]\<rparr>))"

definition DockNative_UnbindGroup ::
  "u64 \<Rightarrow> 'h DockNativeWorkspaceAdapter \<Rightarrow> DockNativeResult \<times> 'h DockNativeWorkspaceAdapter" where
  "DockNative_UnbindGroup i a =
    (case find_index (\<lambda>b. fst b = i) (na_groups a) of
       None \<Rightarrow> ((DockNative_not_found, ERROR_NOT_FOUND), a)
     | Some k \<Rightarrow> ((DockNative_success, ERROR_SUCCESS), a\<lparr>na_groups := erase_at k (na_groups a)\<rparr>))"

definition DockNative_UnbindPanel ::
  "u64 \<Rightarrow> 'h DockNativeWorkspaceAdapter \<Rightarrow> DockNativeResult \<times> 'h DockNativeWorkspaceAdapter" where
  "DockNative_UnbindPanel i a =
    (case find_index (\<lambda>b. fst b = i) (na_panels a) of
       None \<Rightarrow> ((DockNative_not_found, ERROR_NOT_FOUND), a)
     | Some k \<Rightarrow> ((DockNative_success, ERROR_SUCCESS), a\<lparr>na_panels := erase_at k (na_panels a)\<rparr>))"

section \<open>Preparing\<close>

text \<open>Where a panel of the layout goes: its destination, and whether it is shown there.\<close>

definition panel_destination ::
  "('w, 'h) dock_window_api \<Rightarrow> 'h DockNativeWorkspaceAdapter \<Rightarrow> 'h \<Rightarrow> DockLayoutSnapshot \<Rightarrow> u64 \<Rightarrow> 'w
    \<Rightarrow> DockNativeStatus + 'h \<times> bool" where
  "panel_destination A a parking s panel w =
    (case find (\<lambda>g. panel \<in> set (dg_panels g)) (ly_groups s) of
       Some g \<Rightarrow>
         (case DockNative_FindGroup (dg_id g) a of
            None \<Rightarrow> Inl DockNative_not_found
          | Some host \<Rightarrow>
              if \<not> IsCompatibleWindow A a (Some host) w then Inl DockNative_stale_window
              else Inr (host, dg_active g = Some panel))
     | None \<Rightarrow>
         if list_ex (\<lambda>e. ah_panel e = panel) (ly_auto_hide s) then Inr (parking, False)
         else Inl DockNative_invalid_argument)"

definition recorded_move ::
  "('w, 'h) dock_window_api \<Rightarrow> 'h DockNativeWorkspaceAdapter \<Rightarrow> u64 \<Rightarrow> 'h \<Rightarrow> 'h \<times> bool \<Rightarrow> 'w
    \<Rightarrow> DockNativeStatus + 'h DockNativePanelMove" where
  "recorded_move A a panel window destination w =
    (case na_parent A window w of
       None \<Rightarrow> Inl DockNative_stale_window
     | Some parent \<Rightarrow>
         if \<not> IsCompatibleWindow A a (Some parent) w then Inl DockNative_stale_window
         else Inr \<lparr>dm_panel = panel, dm_window = window, dm_original_parent = parent,
           dm_destination_parent = fst destination, dm_original_style = na_style A window w,
           dm_original_exstyle = na_exstyle A window w, dm_original_visible = na_visible A window w,
           dm_destination_visible = snd destination\<rparr>)"

fun layout_moves ::
  "('w, 'h) dock_window_api \<Rightarrow> 'h DockNativeWorkspaceAdapter \<Rightarrow> 'h \<Rightarrow> DockLayoutSnapshot \<Rightarrow> DockPanel list \<Rightarrow> 'w
    \<Rightarrow> DockNativeStatus + 'h DockNativePanelMove list" where
  "layout_moves A a parking s [] w = Inr []"
| "layout_moves A a parking s (p # ps) w =
    (case DockNative_FindPanel (dp_id p) a of
       None \<Rightarrow> Inl DockNative_not_found
     | Some window \<Rightarrow>
         if \<not> IsCompatibleWindow A a (Some window) w then Inl DockNative_stale_window
         else case panel_destination A a parking s (dp_id p) w of
           Inl status \<Rightarrow> Inl status
         | Inr destination \<Rightarrow>
             (case recorded_move A a (dp_id p) window destination w of
                Inl status \<Rightarrow> Inl status
              | Inr m \<Rightarrow> map_sum id (\<lambda>ms. m # ms) (layout_moves A a parking s ps w)))"

text \<open>Bound panels that the layout does not have are parked and hidden.\<close>

fun parked_moves ::
  "('w, 'h) dock_window_api \<Rightarrow> 'h DockNativeWorkspaceAdapter \<Rightarrow> 'h \<Rightarrow> DockLayoutSnapshot \<Rightarrow> (u64 \<times> 'h) list \<Rightarrow> 'w
    \<Rightarrow> DockNativeStatus + 'h DockNativePanelMove list" where
  "parked_moves A a parking s [] w = Inr []"
| "parked_moves A a parking s (b # bs) w =
    (if list_ex (\<lambda>p. dp_id p = fst b) (ly_panels s) then parked_moves A a parking s bs w
     else if \<not> IsCompatibleWindow A a (Some (snd b)) w then Inl DockNative_stale_window
     else case recorded_move A a (fst b) (snd b) (parking, False) w of
       Inl status \<Rightarrow> Inl status
     | Inr m \<Rightarrow> map_sum id (\<lambda>ms. m # ms) (parked_moves A a parking s bs w))"

definition DockNative_Prepare ::
  "('w, 'h) dock_window_api \<Rightarrow> 'h DockNativeWorkspaceAdapter \<Rightarrow> DockLayoutSnapshot \<Rightarrow> 'w
    \<Rightarrow> DockNativeStatus + 'h DockNativeAdoptionPlan" where
  "DockNative_Prepare A a s w =
    (case na_parking a of
       None \<Rightarrow> Inl DockNative_invalid_argument
     | Some parking \<Rightarrow>
         if \<not> IsCompatibleWindow A a (Some parking) w \<or> DockLayoutModel_Validate s \<noteq> Layout_success
         then Inl DockNative_invalid_argument
         else case layout_moves A a parking s (ly_panels s) w of
           Inl status \<Rightarrow> Inl status
         | Inr ms \<Rightarrow>
             (case parked_moves A a parking s (na_panels a) w of
                Inl status \<Rightarrow> Inl status
              | Inr ps \<Rightarrow>
                  let plan = \<lparr>ap_moves = ms @ ps, ap_original_focus = na_focus A w,
                    ap_destination_focus = ly_active_panel s, ap_adopted = False, ap_committed = False\<rparr>
                  in if AdoptionPlan_IsValid plan then Inr plan else Inl DockNative_invalid_argument))"

section \<open>Adopting and rolling back\<close>

definition WS_VISIBLE :: u64 where "WS_VISIBLE = 0x10000000"
definition WS_CHILD :: u64 where "WS_CHILD = 0x40000000"
definition WS_POPUP :: u64 where "WS_POPUP = 0x80000000"

definition child_style :: "u64 \<Rightarrow> u64" where
  "child_style style = (style OR WS_CHILD) AND NOT WS_POPUP"

text \<open>One move: parent, style, frame and visibility, up to the first call that fails.\<close>

definition adopt_move ::
  "('w, 'h) dock_window_api \<Rightarrow> 'h DockNativeWorkspaceAdapter \<Rightarrow> 'h DockNativePanelMove \<Rightarrow> 'w \<Rightarrow> bool \<times> 'w" where
  "adopt_move A a m w =
    (if \<not> IsCompatibleWindow A a (Some (dm_window m)) w \<or> \<not> IsCompatibleWindow A a (Some (dm_destination_parent m)) w
     then (False, w)
     else case na_set_parent A (dm_window m) (dm_destination_parent m) w of
       (False, w1) \<Rightarrow> (False, w1)
     | (True, w1) \<Rightarrow>
         (case na_set_style A (dm_window m) (child_style (dm_original_style m)) w1 of
            (False, w2) \<Rightarrow> (False, w2)
          | (True, w2) \<Rightarrow> na_set_pos A (dm_window m) (dm_destination_visible m) w2))"

fun adopt_moves ::
  "('w, 'h) dock_window_api \<Rightarrow> 'h DockNativeWorkspaceAdapter \<Rightarrow> 'h DockNativePanelMove list \<Rightarrow> 'w \<Rightarrow> bool \<times> 'w" where
  "adopt_moves A a [] w = (True, w)"
| "adopt_moves A a (m # ms) w =
    (case adopt_move A a m w of (False, w1) \<Rightarrow> (False, w1) | (True, w1) \<Rightarrow> adopt_moves A a ms w1)"

definition restore_move ::
  "('w, 'h) dock_window_api \<Rightarrow> 'h DockNativeWorkspaceAdapter \<Rightarrow> 'h DockNativePanelMove \<Rightarrow> bool \<times> 'w \<Rightarrow> bool \<times> 'w" where
  "restore_move A a m = (\<lambda>(succeeded, w).
    if \<not> IsCompatibleWindow A a (Some (dm_window m)) w \<or> \<not> IsCompatibleWindow A a (Some (dm_original_parent m)) w
    then (False, w)
    else case na_set_parent A (dm_window m) (dm_original_parent m) w of
      (parented, w1) \<Rightarrow>
        (case na_set_style A (dm_window m) (dm_original_style m) w1 of (_, w2) \<Rightarrow>
          case na_set_exstyle A (dm_window m) (dm_original_exstyle m) w2 of (_, w3) \<Rightarrow>
            case na_set_pos A (dm_window m) (dm_original_visible m) w3 of (placed, w4) \<Rightarrow>
              (succeeded \<and> parented \<and> placed, w4)))"

definition DockNative_Rollback ::
  "('w, 'h) dock_window_api \<Rightarrow> 'h DockNativeWorkspaceAdapter \<Rightarrow> 'h DockNativeAdoptionPlan \<Rightarrow> 'w
    \<Rightarrow> DockNativeResult \<times> 'h DockNativeAdoptionPlan \<times> 'w" where
  "DockNative_Rollback A a plan w =
    (if \<not> AdoptionPlan_IsValid plan \<or> \<not> ap_adopted plan
     then ((DockNative_invalid_state, ERROR_INVALID_STATE), plan, w)
     else case foldl (\<lambda>r m. restore_move A a m r) (True, w) (rev (ap_moves plan)) of (succeeded, w1) \<Rightarrow>
       let w2 = (case ap_original_focus plan of None \<Rightarrow> w1
           | Some h \<Rightarrow> if IsCompatibleWindow A a (Some h) w1 then na_set_focus A h w1 else w1)
       in (if succeeded then (DockNative_success, ERROR_SUCCESS)
           else (DockNative_native_failure, ERROR_INVALID_WINDOW_HANDLE),
         plan\<lparr>ap_adopted := False\<rparr>, w2))"

definition focus_adopted ::
  "('w, 'h) dock_window_api \<Rightarrow> 'h DockNativeWorkspaceAdapter \<Rightarrow> u64 option \<Rightarrow> 'w \<Rightarrow> 'w" where
  "focus_adopted A a panel w =
    (case panel of None \<Rightarrow> w
     | Some i \<Rightarrow> (case DockNative_FindPanel i a of None \<Rightarrow> w
       | Some h \<Rightarrow> if na_visible A h w then na_set_focus A h w else w))"

definition DockNative_Adopt ::
  "('w, 'h) dock_window_api \<Rightarrow> 'h DockNativeWorkspaceAdapter \<Rightarrow> 'h DockNativeAdoptionPlan \<Rightarrow> 'w
    \<Rightarrow> DockNativeResult \<times> 'h DockNativeAdoptionPlan \<times> 'w" where
  "DockNative_Adopt A a plan w =
    (if \<not> AdoptionPlan_IsValid plan \<or> ap_adopted plan \<or> na_current_thread A \<noteq> na_thread a
     then ((DockNative_invalid_state, ERROR_INVALID_STATE), plan, w)
     else case adopt_moves A a (ap_moves plan) w of
       (False, w1) \<Rightarrow>
         (case DockNative_Rollback A a (plan\<lparr>ap_adopted := True\<rparr>) w1 of (_, plan', w2) \<Rightarrow>
           ((DockNative_native_failure, if na_last_error A w2 = ERROR_SUCCESS then ERROR_INVALID_WINDOW_HANDLE
              else na_last_error A w2), plan', w2))
     | (True, w1) \<Rightarrow>
         ((DockNative_success, ERROR_SUCCESS), plan\<lparr>ap_adopted := True\<rparr>,
          focus_adopted A a (ap_destination_focus plan) w1))"

definition DockNative_Commit ::
  "'h DockNativeAdoptionPlan \<Rightarrow> DockNativeResult \<times> 'h DockNativeAdoptionPlan" where
  "DockNative_Commit plan =
    (if \<not> AdoptionPlan_IsValid plan \<or> \<not> ap_adopted plan then ((DockNative_invalid_state, ERROR_INVALID_STATE), plan)
     else ((DockNative_success, ERROR_SUCCESS), plan\<lparr>ap_committed := True\<rparr>))"

definition DockNative_Synchronize ::
  "('w, 'h) dock_window_api \<Rightarrow> 'h DockNativeWorkspaceAdapter \<Rightarrow> DockLayoutSnapshot \<Rightarrow> 'w \<Rightarrow> DockNativeResult \<times> 'w" where
  "DockNative_Synchronize A a s w =
    (case DockNative_Prepare A a s w of
       Inl status \<Rightarrow> ((status, ERROR_SUCCESS), w)
     | Inr plan \<Rightarrow>
         (case DockNative_Adopt A a plan w of
            (result, plan', w1) \<Rightarrow>
              if fst result \<noteq> DockNative_success then (result, w1) else (fst (DockNative_Commit plan'), w1)))"

end
