(* ===== verification/Docking_Native_Rollback.thy ===== *)
theory Docking_Native_Rollback
  imports Docking_Native
begin

text \<open>
  What the native side of docking guarantees on a window system that keeps its contract: bindings stay
  unique, an adoption that fails or is rolled back leaves every window as it was, and an adoption that
  succeeds puts every panel into the host of its group, shown exactly if it is the active one.
\<close>

section \<open>Windows\<close>

definition look :: "('w, 'h) dock_window_api \<Rightarrow> 'h \<Rightarrow> 'w \<Rightarrow> 'h option \<times> u64 \<times> u64" where
  "look A h w = (na_parent A h w, na_style A h w, na_exstyle A h w)"

definition shown_style :: "u64 \<Rightarrow> bool" where
  "shown_style style \<longleftrightarrow> style AND WS_VISIBLE \<noteq> 0"

definition set_shown :: "bool \<Rightarrow> u64 \<Rightarrow> u64" where
  "set_shown show style = (if show then style OR WS_VISIBLE else style AND NOT WS_VISIBLE)"

text \<open>A call on one window leaves the others and the existence of windows alone.\<close>

definition touches_only :: "('w, 'h) dock_window_api \<Rightarrow> 'h set \<Rightarrow> 'w \<Rightarrow> 'w \<Rightarrow> bool" where
  "touches_only A H w w' \<longleftrightarrow> (\<forall>h. h \<notin> H \<longrightarrow> look A h w' = look A h w)
    \<and> (\<forall>h. na_is_window A h w' = na_is_window A h w \<and> na_thread_process A h w' = na_thread_process A h w)"

definition windows_ok :: "('w, 'h) dock_window_api \<Rightarrow> bool" where
  "windows_ok A \<longleftrightarrow>
    (\<forall>h p w b w'. na_set_parent A h p w = (b, w') \<longrightarrow> touches_only A {h} w w'
      \<and> look A h w' = (if b then (Some p, snd (look A h w)) else look A h w)) \<and>
    (\<forall>h x w b w'. na_set_style A h x w = (b, w') \<longrightarrow> touches_only A {h} w w'
      \<and> look A h w' = (if b then (na_parent A h w, x, na_exstyle A h w) else look A h w)) \<and>
    (\<forall>h x w b w'. na_set_exstyle A h x w = (b, w') \<longrightarrow> touches_only A {h} w w'
      \<and> look A h w' = (if b then (na_parent A h w, na_style A h w, x) else look A h w)) \<and>
    (\<forall>h v w b w'. na_set_pos A h v w = (b, w') \<longrightarrow> touches_only A {h} w w'
      \<and> look A h w' = (if b then (na_parent A h w, set_shown v (na_style A h w), na_exstyle A h w) else look A h w)) \<and>
    (\<forall>h w. touches_only A {} w (na_set_focus A h w))"

lemma windows_ok_parts:
  assumes "windows_ok A"
  shows "\<forall>h p w b w'. na_set_parent A h p w = (b, w') \<longrightarrow> touches_only A {h} w w'
      \<and> look A h w' = (if b then (Some p, snd (look A h w)) else look A h w)"
    and "\<forall>h x w b w'. na_set_style A h x w = (b, w') \<longrightarrow> touches_only A {h} w w'
      \<and> look A h w' = (if b then (na_parent A h w, x, na_exstyle A h w) else look A h w)"
    and "\<forall>h x w b w'. na_set_exstyle A h x w = (b, w') \<longrightarrow> touches_only A {h} w w'
      \<and> look A h w' = (if b then (na_parent A h w, na_style A h w, x) else look A h w)"
    and "\<forall>h v w b w'. na_set_pos A h v w = (b, w') \<longrightarrow> touches_only A {h} w w'
      \<and> look A h w' = (if b then (na_parent A h w, set_shown v (na_style A h w), na_exstyle A h w) else look A h w)"
    and "\<forall>h w. touches_only A {} w (na_set_focus A h w)"
  using assms unfolding windows_ok_def by - (elim conjE, assumption)+

lemmas windows_okD = windows_ok_parts [rule_format]

lemma touches_only_refl [simp]: "touches_only A H w w"
  by (simp add: touches_only_def)

lemma touches_only_trans:
  "touches_only A H w w1 \<Longrightarrow> touches_only A H' w1 w2 \<Longrightarrow> touches_only A (H \<union> H') w w2"
  by (simp add: touches_only_def)

lemma touches_only_mono: "touches_only A H w w' \<Longrightarrow> H \<subseteq> H' \<Longrightarrow> touches_only A H' w w'"
  by (auto simp: touches_only_def)

lemma touches_only_compatible: "touches_only A H w w' \<Longrightarrow> IsCompatibleWindow A a h w' = IsCompatibleWindow A a h w"
  by (simp add: touches_only_def IsCompatibleWindow_def split: option.split)

lemma touches_only_look: "touches_only A H w w' \<Longrightarrow> h \<notin> H \<Longrightarrow> look A h w' = look A h w"
  by (simp add: touches_only_def)

lemma touches_only_step: "touches_only A {h} w w1 \<Longrightarrow> touches_only A {h} w1 w2 \<Longrightarrow> touches_only A {h} w w2"
  using touches_only_trans [of A "{h}" w w1 "{h}" w2] by simp

lemma looks: "look A h w = (p, s, x) \<longleftrightarrow> na_parent A h w = p \<and> na_style A h w = s \<and> na_exstyle A h w = x"
  by (simp add: look_def)

lemma bit_WS_VISIBLE: "bit WS_VISIBLE n \<longleftrightarrow> n = 28"
proof -
  have visible: "WS_VISIBLE = 2 ^ 28" by (simp add: WS_VISIBLE_def)
  show ?thesis unfolding visible bit_exp_iff by auto
qed

lemma shown_style_bit: "shown_style style \<longleftrightarrow> bit style 28"
  unfolding shown_style_def bit_eq_iff [of "style AND WS_VISIBLE" 0] by (simp add: bit_and_iff bit_WS_VISIBLE)

lemma set_shown_same [simp]: "shown_style style = show \<Longrightarrow> set_shown show style = style"
  by (rule bit_word_eqI) (auto simp: set_shown_def shown_style_bit bit_simps bit_WS_VISIBLE)

section \<open>Bindings\<close>

definition adapter_wf :: "'h DockNativeWorkspaceAdapter \<Rightarrow> bool" where
  "adapter_wf a \<longleftrightarrow> distinct (map fst (na_panels a)) \<and> distinct (map snd (na_panels a))
    \<and> distinct (map fst (na_groups a)) \<and> distinct (map snd (na_groups a))
    \<and> (\<forall>b \<in> set (na_panels a) \<union> set (na_groups a). fst b \<noteq> 0)"

lemma find_binding_None: "find_binding i bs = None \<longleftrightarrow> i \<notin> fst ` set bs"
  by (induction bs) (auto simp: find_binding_def)

lemma find_binding_Some: "find_binding i bs = Some h \<Longrightarrow> (i, h) \<in> set bs"
  by (induction bs) (auto simp: find_binding_def split: if_splits)

datatype ('w, 'h) adapter_op =
    Native_Attach "'h option" 'w
  | Native_Detach
  | Native_BindGroup u64 'h 'w
  | Native_BindPanel u64 'h 'w
  | Native_UnbindGroup u64
  | Native_UnbindPanel u64

fun adapter_step ::
  "('w, 'h) dock_window_api \<Rightarrow> 'h DockNativeWorkspaceAdapter \<Rightarrow> ('w, 'h) adapter_op
    \<Rightarrow> DockNativeResult \<times> 'h DockNativeWorkspaceAdapter" where
  "adapter_step A a (Native_Attach p w) = DockNative_Attach A p a w"
| "adapter_step A a Native_Detach = ((DockNative_success, ERROR_SUCCESS), DockNative_Detach a)"
| "adapter_step A a (Native_BindGroup i h w) = DockNative_BindGroup A i h w a"
| "adapter_step A a (Native_BindPanel i h w) = DockNative_BindPanel A i h w a"
| "adapter_step A a (Native_UnbindGroup i) = DockNative_UnbindGroup i a"
| "adapter_step A a (Native_UnbindPanel i) = DockNative_UnbindPanel i a"

lemma adapter_wf_step: "adapter_wf a \<Longrightarrow> adapter_wf (snd (adapter_step A a x))"
proof (cases x)
  case (Native_UnbindGroup i)
  assume "adapter_wf a"
  then show ?thesis using set_erase_at_subset [of _ "na_groups a"]
    by (auto simp: Native_UnbindGroup DockNative_UnbindGroup_def adapter_wf_def map_erase_at distinct_erase_at split: option.split)
next
  case (Native_UnbindPanel i)
  assume "adapter_wf a"
  then show ?thesis using set_erase_at_subset [of _ "na_panels a"]
    by (auto simp: Native_UnbindPanel DockNative_UnbindPanel_def adapter_wf_def map_erase_at distinct_erase_at split: option.split)
qed (auto simp: adapter_wf_def DockNative_Attach_def DockNative_Detach_def DockNative_new_def DockNative_BindGroup_def
    DockNative_BindPanel_def DockNative_FindGroup_def DockNative_FindPanel_def find_binding_None list_ex_iff split: option.splits)

interpretation adapter_machine: machine "adapter_step A" adapter_wf for A
  by unfold_locales (rule adapter_wf_step)

section \<open>Plans\<close>

text \<open>What a plan says of the windows it moves.\<close>

definition records_look :: "('w, 'h) dock_window_api \<Rightarrow> 'h DockNativeWorkspaceAdapter \<Rightarrow> 'w \<Rightarrow> 'h DockNativePanelMove \<Rightarrow> bool" where
  "records_look A a w m \<longleftrightarrow> look A (dm_window m) w = (Some (dm_original_parent m), dm_original_style m, dm_original_exstyle m)
    \<and> dm_original_visible m = na_visible A (dm_window m) w
    \<and> IsCompatibleWindow A a (Some (dm_window m)) w \<and> IsCompatibleWindow A a (Some (dm_original_parent m)) w"

lemma recorded_move_records:
  "recorded_move A a panel window d w = Inr m \<Longrightarrow> IsCompatibleWindow A a (Some window) w \<Longrightarrow> records_look A a w m"
  by (auto simp: recorded_move_def records_look_def look_def split: option.splits if_splits)

lemma map_sum_Inr: "map_sum f g x = Inr y \<longleftrightarrow> (\<exists>z. x = Inr z \<and> y = g z)"
  by (cases x) auto

lemma layout_moves_record:
  "layout_moves A a parking s ps w = Inr ms \<Longrightarrow> list_all (records_look A a w) ms"
proof (induction ps arbitrary: ms)
  case (Cons p ps)
  then obtain window d m ms' where "IsCompatibleWindow A a (Some window) w"
    "recorded_move A a (dp_id p) window d w = Inr m" "layout_moves A a parking s ps w = Inr ms'" "ms = m # ms'"
    by (auto simp: map_sum_Inr split: option.splits if_splits sum.splits)
  with Cons.IH recorded_move_records show ?case by fastforce
qed simp

lemma parked_moves_record:
  "parked_moves A a parking s bs w = Inr ms \<Longrightarrow> list_all (records_look A a w) ms"
proof (induction bs arbitrary: ms)
  case (Cons b bs)
  show ?case
  proof (cases "list_ex (\<lambda>p. dp_id p = fst b) (ly_panels s)")
    case True
    then show ?thesis using Cons by simp
  next
    case False
    then obtain m ms' where "IsCompatibleWindow A a (Some (snd b)) w"
      "recorded_move A a (fst b) (snd b) (parking, False) w = Inr m" "parked_moves A a parking s bs w = Inr ms'" "ms = m # ms'"
      using Cons.prems by (auto simp: map_sum_Inr split: if_splits sum.splits)
    with Cons.IH recorded_move_records show ?thesis by fastforce
  qed
qed simp

lemma prepared_plan:
  assumes "DockNative_Prepare A a s w = Inr plan"
  shows "list_all (records_look A a w) (ap_moves plan)" and "AdoptionPlan_IsValid plan"
    and "\<not> ap_adopted plan" and "ap_destination_focus plan = ly_active_panel s"
    and "\<exists>parking ms ps. na_parking a = Some parking \<and> layout_moves A a parking s (ly_panels s) w = Inr ms
      \<and> parked_moves A a parking s (na_panels a) w = Inr ps \<and> ap_moves plan = ms @ ps"
  using assms layout_moves_record parked_moves_record
  by (fastforce simp: DockNative_Prepare_def Let_def split: option.splits if_splits sum.splits)+

lemma moves_fail:
  "panel_destination A a parking s i w \<noteq> Inl DockNative_success"
  "recorded_move A a i window d w \<noteq> Inl DockNative_success"
  "layout_moves A a parking s ps w \<noteq> Inl DockNative_success"
  "parked_moves A a parking s bs w \<noteq> Inl DockNative_success"
proof -
  show destination: "panel_destination A a parking s i w \<noteq> Inl DockNative_success" for i
    by (simp add: panel_destination_def split: option.split)
  show recorded: "recorded_move A a i window d w \<noteq> Inl DockNative_success" for i window d
    by (simp add: recorded_move_def split: option.split)
  show "layout_moves A a parking s ps w \<noteq> Inl DockNative_success"
    by (induction ps) (auto simp: map_sum_def destination recorded split: option.splits sum.splits)
  show "parked_moves A a parking s bs w \<noteq> Inl DockNative_success"
    by (induction bs) (auto simp: map_sum_def recorded split: sum.splits)
qed

lemma prepare_fails: "DockNative_Prepare A a s w \<noteq> Inl DockNative_success"
  by (auto simp: DockNative_Prepare_def Let_def moves_fail split: option.split sum.split)

section \<open>Rolling back\<close>

lemma adopt_move_touches:
  assumes "windows_ok A" and "adopt_move A a m w = (b, w')"
  shows "touches_only A {dm_window m} w w'"
proof -
  note ok = windows_okD [OF assms(1)]
  show ?thesis using assms(2) unfolding adopt_move_def
    by (auto split: if_splits prod.splits bool.splits dest!: ok(1,2,4) intro: touches_only_step)
qed

lemma adopt_moves_touch:
  assumes "windows_ok A"
  shows "adopt_moves A a ms w = (b, w') \<Longrightarrow> touches_only A (dm_window ` set ms) w w'"
proof (induction ms arbitrary: w)
  case (Cons m ms)
  obtain b1 w1 where m: "adopt_move A a m w = (b1, w1)" by fastforce
  note first = adopt_move_touches [OF assms m]
  show ?case
  proof (cases b1)
    case True
    with Cons m have "touches_only A (dm_window ` set ms) w1 w'" by simp
    with first have "touches_only A ({dm_window m} \<union> dm_window ` set ms) w w'" by (rule touches_only_trans)
    then show ?thesis by simp
  next
    case False
    with Cons.prems m have "w' = w1" by simp
    with first show ?thesis using touches_only_mono by fastforce
  qed
qed simp

text \<open>A window can return: its old parent takes it back, and its styles can be set again.\<close>

definition can_return :: "('w, 'h) dock_window_api \<Rightarrow> 'h DockNativePanelMove \<Rightarrow> bool" where
  "can_return A m \<longleftrightarrow> (\<forall>w. fst (na_set_parent A (dm_window m) (dm_original_parent m) w)
    \<and> fst (na_set_style A (dm_window m) (dm_original_style m) w)
    \<and> fst (na_set_exstyle A (dm_window m) (dm_original_exstyle m) w))"

lemma restore_move_restores:
  assumes "windows_ok A" and "can_return A m" and "restore_move A a m (b, w) = (b', w')"
    and "IsCompatibleWindow A a (Some (dm_window m)) w" and "IsCompatibleWindow A a (Some (dm_original_parent m)) w"
    and "dm_original_visible m = shown_style (dm_original_style m)"
  shows "touches_only A {dm_window m} w w'"
    and "look A (dm_window m) w' = (Some (dm_original_parent m), dm_original_style m, dm_original_exstyle m)"
proof -
  let ?h = "dm_window m"
  obtain w1 where w1: "na_set_parent A ?h (dm_original_parent m) w = (True, w1)"
    using assms(2) unfolding can_return_def by (metis (full_types) prod.collapse)
  obtain w2 where w2: "na_set_style A ?h (dm_original_style m) w1 = (True, w2)"
    using assms(2) unfolding can_return_def by (metis (full_types) prod.collapse)
  obtain w3 where w3: "na_set_exstyle A ?h (dm_original_exstyle m) w2 = (True, w3)"
    using assms(2) unfolding can_return_def by (metis (full_types) prod.collapse)
  obtain placed w4 where w4: "na_set_pos A ?h (dm_original_visible m) w3 = (placed, w4)" by fastforce
  have w': "w' = w4" using assms(3-5) w1 w2 w3 w4 by (simp add: restore_move_def)
  note steps = windows_okD(1) [OF assms(1) w1] windows_okD(2) [OF assms(1) w2] windows_okD(3) [OF assms(1) w3]
    windows_okD(4) [OF assms(1) w4]
  show "touches_only A {?h} w w'" using steps w' touches_only_step by metis
  show "look A ?h w' = (Some (dm_original_parent m), dm_original_style m, dm_original_exstyle m)"
    using steps assms(6) by (auto simp: w' look_def split: if_splits)
qed

lemma restore_all:
  assumes "windows_ok A"
  shows "list_all (can_return A) ms \<Longrightarrow> distinct (map dm_window ms) \<Longrightarrow>
    list_all (\<lambda>m. IsCompatibleWindow A a (Some (dm_window m)) w \<and> IsCompatibleWindow A a (Some (dm_original_parent m)) w
      \<and> dm_original_visible m = shown_style (dm_original_style m)) ms \<Longrightarrow>
    foldl (\<lambda>r m. restore_move A a m r) (b, w) ms = (b', w') \<Longrightarrow>
    touches_only A (dm_window ` set ms) w w'
    \<and> (\<forall>m \<in> set ms. look A (dm_window m) w' = (Some (dm_original_parent m), dm_original_style m, dm_original_exstyle m))"
proof (induction ms arbitrary: b w)
  case (Cons m ms)
  obtain b1 w1 where m: "restore_move A a m (b, w) = (b1, w1)" by fastforce
  have first: "touches_only A {dm_window m} w w1"
    "look A (dm_window m) w1 = (Some (dm_original_parent m), dm_original_style m, dm_original_exstyle m)"
    using restore_move_restores [OF assms _ m] Cons.prems(1,3) by simp_all
  have "list_all (\<lambda>m. IsCompatibleWindow A a (Some (dm_window m)) w1 \<and> IsCompatibleWindow A a (Some (dm_original_parent m)) w1
      \<and> dm_original_visible m = shown_style (dm_original_style m)) ms"
    using Cons.prems(3) by (simp add: touches_only_compatible [OF first(1)])
  then have rest: "touches_only A (dm_window ` set ms) w1 w'"
    "\<forall>m \<in> set ms. look A (dm_window m) w' = (Some (dm_original_parent m), dm_original_style m, dm_original_exstyle m)"
    using Cons.IH [of w1 b1] Cons.prems m by simp_all
  have "dm_window m \<notin> dm_window ` set ms" using Cons.prems(2) by simp
  with rest(1) first(2) have "look A (dm_window m) w' = (Some (dm_original_parent m), dm_original_style m, dm_original_exstyle m)"
    by (simp add: touches_only_look)
  moreover have "touches_only A ({dm_window m} \<union> dm_window ` set ms) w w'" using first(1) rest(1) by (rule touches_only_trans)
  ultimately show ?case using rest(2) by simp
qed simp

lemma rollback_restores:
  assumes "windows_ok A" and plan: "list_all (records_look A a w0) (ap_moves plan)" "AdoptionPlan_IsValid plan"
    and ret: "list_all (\<lambda>m. can_return A m \<and> dm_original_visible m = shown_style (dm_original_style m)) (ap_moves plan)"
    and moved: "touches_only A (dm_window ` set (ap_moves plan)) w0 w" and adopted: "ap_adopted plan"
    and rolled: "DockNative_Rollback A a plan w = (r, plan', w')"
  shows "look A h w' = look A h w0"
proof -
  let ?ms = "rev (ap_moves plan)"
  obtain b w1 where fold: "foldl (\<lambda>r m. restore_move A a m r) (True, w) ?ms = (b, w1)" by fastforce
  have "list_all (can_return A) ?ms" "distinct (map dm_window ?ms)"
    using ret plan(2) by (auto simp: list_all_iff AdoptionPlan_IsValid_def rev_map [symmetric])
  moreover have "list_all (\<lambda>m. IsCompatibleWindow A a (Some (dm_window m)) w \<and> IsCompatibleWindow A a (Some (dm_original_parent m)) w
      \<and> dm_original_visible m = shown_style (dm_original_style m)) ?ms"
    using plan(1) ret by (simp add: touches_only_compatible [OF moved] list_all_iff records_look_def)
  ultimately have restored: "touches_only A (dm_window ` set (ap_moves plan)) w w1"
    "\<forall>m \<in> set (ap_moves plan). look A (dm_window m) w1 = (Some (dm_original_parent m), dm_original_style m, dm_original_exstyle m)"
    using restore_all [OF assms(1) _ _ _ fold] by simp_all
  have "look A h w1 = look A h w0"
  proof (cases "h \<in> dm_window ` set (ap_moves plan)")
    case True
    then show ?thesis using restored(2) plan(1) by (auto simp: list_all_iff records_look_def)
  next
    case False
    then show ?thesis using touches_only_look [OF restored(1)] touches_only_look [OF moved] by simp
  qed
  moreover have "w' = w1 \<or> (\<exists>g. w' = na_set_focus A g w1)"
    using rolled adopted plan(2) fold by (auto simp: DockNative_Rollback_def Let_def split: option.splits if_splits)
  ultimately show ?thesis using touches_only_look [OF windows_okD(5) [OF assms(1)]] by auto
qed

text \<open>C6: A docking adoption is all or nothing.  A plan prepared in some state and adopted there leaves every window of the
  system with the parent and the styles it had, when the adoption reports a failure and also when it
  succeeds and is rolled back.  The windows of the plan must be able to return (their parents take them
  back), and a window must be reported invisible only if it is hidden itself, not because an ancestor is.\<close>

theorem adoption_is_all_or_nothing:
  assumes "windows_ok A" and "DockNative_Prepare A a s w = Inr plan"
    and "list_all (\<lambda>m. can_return A m \<and> dm_original_visible m = shown_style (dm_original_style m)) (ap_moves plan)"
    and "DockNative_Adopt A a plan w = (r, plan1, w1)"
  shows "(fst r \<noteq> DockNative_success \<longrightarrow> (\<forall>h. look A h w1 = look A h w))
    \<and> (fst r = DockNative_success \<longrightarrow>
      (\<forall>r2 plan2 w2 h. DockNative_Rollback A a plan1 w1 = (r2, plan2, w2) \<longrightarrow> look A h w2 = look A h w))"
proof -
  note plan = prepared_plan [OF assms(2)]
  obtain b w' where moves: "adopt_moves A a (ap_moves plan) w = (b, w')" by fastforce
  note moved = adopt_moves_touch [OF assms(1) moves]
  let ?p = "plan\<lparr>ap_adopted := True\<rparr>"
  have valid: "AdoptionPlan_IsValid ?p" using plan(2) by (simp add: AdoptionPlan_IsValid_def)
  show ?thesis
  proof (cases b)
    case True
    then have "r \<noteq> (DockNative_success, ERROR_SUCCESS) \<and> w1 = w \<and> fst r \<noteq> DockNative_success
      \<or> plan1 = ?p \<and> w1 = focus_adopted A a (ap_destination_focus plan) w' \<and> fst r = DockNative_success"
      using assms(4) moves by (auto simp: DockNative_Adopt_def split: if_splits)
    then show ?thesis
    proof (elim disjE conjE)
      assume plan1: "plan1 = ?p" and w1: "w1 = focus_adopted A a (ap_destination_focus plan) w'" and "fst r = DockNative_success"
      have "touches_only A {} w' w1"
        unfolding w1 focus_adopted_def using windows_okD(5) [OF assms(1)] by (simp split: option.split)
      with moved have "touches_only A (dm_window ` set (ap_moves plan)) w w1"
        using touches_only_trans by fastforce
      then have "touches_only A (dm_window ` set (ap_moves ?p)) w w1" by simp
      moreover have "list_all (records_look A a w) (ap_moves ?p)" "ap_adopted ?p"
        "list_all (\<lambda>m. can_return A m \<and> dm_original_visible m = shown_style (dm_original_style m)) (ap_moves ?p)"
        using plan(1) assms(3) by simp_all
      ultimately show ?thesis using rollback_restores [OF assms(1) _ valid] plan1 \<open>fst r = DockNative_success\<close> by blast
    qed simp
  next
    case False
    obtain r2 p2 w2 where rolled: "DockNative_Rollback A a ?p w' = (r2, p2, w2)" by (metis prod.exhaust)
    have "look A h w2 = look A h w" for h
      by (rule rollback_restores [OF assms(1) _ valid _ _ _ rolled]) (use plan(1) assms(3) moved in simp_all)
    moreover have "fst r \<noteq> DockNative_success \<and> (w1 = w \<or> w1 = w2)"
      using assms(4) moves False rolled by (auto simp: DockNative_Adopt_def split: if_splits)
    ultimately show ?thesis by auto
  qed
qed

text \<open>
  Below a hidden ancestor a window with \<open>WS_VISIBLE\<close> is recorded as invisible, and rolling back hides it:
  it stays hidden when the ancestor is shown again.
\<close>

lemma rollback_below_hidden_ancestor_hides:
  assumes "windows_ok A" and "can_return A m" and "restore_move A a m (b, w) = (True, w')" and "\<not> dm_original_visible m"
  shows "\<not> shown_style (na_style A (dm_window m) w')"
proof -
  obtain w3 where w3: "na_set_pos A (dm_window m) False w3 = (True, w')"
    using assms(3,4) by (auto simp: restore_move_def split: if_splits prod.splits)
  show ?thesis using windows_okD(4) [OF assms(1) w3]
    by (auto simp: look_def set_shown_def shown_style_bit bit_simps bit_WS_VISIBLE)
qed

text \<open>A layout without panels, such as that of a new model, cannot be synchronized.\<close>

lemma empty_layout_is_refused:
  "ly_panels s = [] \<Longrightarrow> na_panels a = [] \<Longrightarrow> DockNative_Prepare A a s w = Inl DockNative_invalid_argument"
  by (simp add: DockNative_Prepare_def AdoptionPlan_IsValid_def split: option.split)

section \<open>What is adopted\<close>

lemma adopt_move_places:
  assumes "windows_ok A" and "adopt_move A a m w = (True, w')"
  shows "look A (dm_window m) w' = (Some (dm_destination_parent m),
    set_shown (dm_destination_visible m) (child_style (dm_original_style m)), na_exstyle A (dm_window m) w)"
proof -
  let ?h = "dm_window m"
  obtain w1 w2 where w1: "na_set_parent A ?h (dm_destination_parent m) w = (True, w1)"
    and w2: "na_set_style A ?h (child_style (dm_original_style m)) w1 = (True, w2)"
    and w': "na_set_pos A ?h (dm_destination_visible m) w2 = (True, w')"
    using assms(2) by (auto simp: adopt_move_def split: if_splits prod.splits bool.splits)
  from windows_okD(1) [OF assms(1) w1] windows_okD(2) [OF assms(1) w2] windows_okD(4) [OF assms(1) w']
  show ?thesis by (simp add: look_def)
qed

lemma adopt_moves_place:
  assumes "windows_ok A"
  shows "adopt_moves A a ms w = (True, w') \<Longrightarrow> distinct (map dm_window ms) \<Longrightarrow> m \<in> set ms \<Longrightarrow>
    look A (dm_window m) w' = (Some (dm_destination_parent m),
      set_shown (dm_destination_visible m) (child_style (dm_original_style m)), na_exstyle A (dm_window m) w)"
proof (induction ms arbitrary: w)
  case (Cons x ms)
  obtain w1 where x: "adopt_move A a x w = (True, w1)" "adopt_moves A a ms w1 = (True, w')"
    using Cons.prems(1) by (auto split: prod.splits bool.splits)
  note rest = adopt_moves_touch [OF assms x(2)]
  show ?case
  proof (cases "m = x")
    case True
    have "dm_window x \<notin> dm_window ` set ms" using Cons.prems(2) by simp
    then show ?thesis using touches_only_look [OF rest] adopt_move_places [OF assms x(1)] True by simp
  next
    case False
    then have m: "m \<in> set ms" "dm_window m \<noteq> dm_window x" using Cons.prems(2,3) by (auto simp: rev_image_eqI)
    then have "look A (dm_window m) w1 = look A (dm_window m) w"
      using touches_only_look [OF adopt_move_touches [OF assms x(1)]] by simp
    then show ?thesis using Cons.IH [OF x(2) _ m(1)] Cons.prems(2) by (simp add: look_def)
  qed
qed simp

lemma layout_moves_cover:
  "layout_moves A a parking s ps w = Inr ms \<Longrightarrow> p \<in> set ps \<Longrightarrow>
    \<exists>m \<in> set ms. dm_panel m = dp_id p \<and> DockNative_FindPanel (dp_id p) a = Some (dm_window m)
      \<and> panel_destination A a parking s (dp_id p) w = Inr (dm_destination_parent m, dm_destination_visible m)"
proof (induction ps arbitrary: ms)
  case (Cons q ps)
  then obtain window d m ms' where q: "DockNative_FindPanel (dp_id q) a = Some window"
    "panel_destination A a parking s (dp_id q) w = Inr d" "recorded_move A a (dp_id q) window d w = Inr m"
    "layout_moves A a parking s ps w = Inr ms'" "ms = m # ms'"
    by (auto simp: map_sum_Inr split: option.splits if_splits sum.splits)
  show ?case
  proof (cases "p = q")
    case True
    have "dm_panel m = dp_id q \<and> dm_window m = window \<and> dm_destination_parent m = fst d \<and> dm_destination_visible m = snd d"
      using q(3) by (auto simp: recorded_move_def split: option.splits if_splits)
    with q True show ?thesis by auto
  next
    case False
    then show ?thesis using Cons.IH [OF q(4)] Cons.prems(2) q(5) by auto
  qed
qed simp

text \<open>C40: Synchronizing puts the panels where the layout has them.  When \<open>Synchronize\<close> succeeds, the window of every panel
  of a group stands in the host of that group, visible exactly if the panel is the active one of its
  group, and the window of every auto-hidden panel is parked and hidden.\<close>

theorem synchronized_windows_follow_layout:
  assumes "windows_ok A" and "DockNative_Synchronize A a s w = ((DockNative_success, e), w')" and "p \<in> set (ly_panels s)"
  shows "\<exists>window. DockNative_FindPanel (dp_id p) a = Some window \<and>
    (case find (\<lambda>g. dp_id p \<in> set (dg_panels g)) (ly_groups s) of
       Some g \<Rightarrow> na_parent A window w' = DockNative_FindGroup (dg_id g) a \<and> DockNative_FindGroup (dg_id g) a \<noteq> None
         \<and> shown_style (na_style A window w') = (dg_active g = Some (dp_id p))
     | None \<Rightarrow> na_parent A window w' = na_parking a \<and> \<not> shown_style (na_style A window w'))"
proof -
  obtain plan where plan: "DockNative_Prepare A a s w = Inr plan"
    using assms(2) prepare_fails by (fastforce simp: DockNative_Synchronize_def split: sum.splits)
  note parts = prepared_plan [OF plan]
  obtain w1 where w1: "adopt_moves A a (ap_moves plan) w = (True, w1)" "w' = focus_adopted A a (ap_destination_focus plan) w1"
    using assms(2) plan by (auto simp: DockNative_Synchronize_def DockNative_Adopt_def split: prod.splits if_splits bool.splits)
  have focus: "touches_only A {} w1 w'"
    unfolding w1(2) focus_adopted_def using windows_okD(5) [OF assms(1)] by (simp split: option.split)
  obtain parking ms where ms: "na_parking a = Some parking" "layout_moves A a parking s (ly_panels s) w = Inr ms"
    "set ms \<subseteq> set (ap_moves plan)" using parts(5) by auto
  obtain m where m: "m \<in> set ms" "DockNative_FindPanel (dp_id p) a = Some (dm_window m)"
    "panel_destination A a parking s (dp_id p) w = Inr (dm_destination_parent m, dm_destination_visible m)"
    using layout_moves_cover [OF ms(2) assms(3)] by blast
  have "distinct (map dm_window (ap_moves plan))" using parts(2) by (simp add: AdoptionPlan_IsValid_def)
  from adopt_moves_place [OF assms(1) w1(1) this] m(1) ms(3)
  have "look A (dm_window m) w' = (Some (dm_destination_parent m),
      set_shown (dm_destination_visible m) (child_style (dm_original_style m)), na_exstyle A (dm_window m) w)"
    using touches_only_look [OF focus] by auto
  then have at: "na_parent A (dm_window m) w' = Some (dm_destination_parent m)"
    "shown_style (na_style A (dm_window m) w') = dm_destination_visible m"
    by (auto simp: look_def set_shown_def shown_style_bit bit_simps bit_WS_VISIBLE)
  show ?thesis using m(2,3) at ms(1)
    by (intro exI [of _ "dm_window m"]) (auto simp: panel_destination_def split: option.splits if_splits)
qed

section \<open>An example\<close>

text \<open>
  Windows are numbers; 11 and 12 host the groups of the example layout, 21 and 22 are its panels, 23 is a
  panel it does not have.  Placing window 23 can be made to fail.
\<close>

type_synonym example_windows = "nat \<Rightarrow> nat option \<times> u64 \<times> u64"

definition example_dock :: "bool \<Rightarrow> (example_windows, nat) dock_window_api" where
  "example_dock works = \<lparr>na_is_window = (\<lambda>_ _. True), na_thread_process = (\<lambda>_ _. (7, 8)), na_current_thread = 7,
    na_current_process = 8, na_focus = (\<lambda>_. None), na_parent = (\<lambda>h w. fst (w h)), na_style = (\<lambda>h w. fst (snd (w h))),
    na_exstyle = (\<lambda>h w. snd (snd (w h))), na_visible = (\<lambda>h w. shown_style (fst (snd (w h)))),
    na_set_parent = (\<lambda>h p w. (True, w(h := (Some p, snd (w h))))),
    na_set_style = (\<lambda>h x w. (True, w(h := (fst (w h), x, snd (snd (w h)))))),
    na_set_exstyle = (\<lambda>h x w. (True, w(h := (fst (w h), fst (snd (w h)), x)))),
    na_set_pos = (\<lambda>h v w. if h = 23 \<and> \<not> works then (False, w)
      else (True, w(h := (fst (w h), set_shown v (fst (snd (w h))), snd (snd (w h)))))),
    na_set_focus = (\<lambda>_ w. w), na_last_error = (\<lambda>_. 0)\<rparr>"

definition example_adapter :: "nat DockNativeWorkspaceAdapter" where
  "example_adapter = \<lparr>na_parking = Some 10, na_thread = 7, na_process = 8, na_groups = [(1, 11), (2, 12)],
    na_panels = [(10, 21), (11, 22), (12, 23)]\<rparr>"

definition example_windows :: example_windows where
  "example_windows = (\<lambda>h. (Some 10, WS_VISIBLE, 0))"

definition example_adoption :: "nat DockNativeAdoptionPlan" where
  "example_adoption = \<lparr>ap_moves =
     [\<lparr>dm_panel = 10, dm_window = 21, dm_original_parent = 10, dm_destination_parent = 11,
        dm_original_style = WS_VISIBLE, dm_original_exstyle = 0, dm_original_visible = True, dm_destination_visible = True\<rparr>,
      \<lparr>dm_panel = 11, dm_window = 22, dm_original_parent = 10, dm_destination_parent = 12,
        dm_original_style = WS_VISIBLE, dm_original_exstyle = 0, dm_original_visible = True, dm_destination_visible = True\<rparr>,
      \<lparr>dm_panel = 12, dm_window = 23, dm_original_parent = 10, dm_destination_parent = 10,
        dm_original_style = WS_VISIBLE, dm_original_exstyle = 0, dm_original_visible = True, dm_destination_visible = False\<rparr>],
    ap_original_focus = None, ap_destination_focus = Some 10, ap_adopted = False, ap_committed = False\<rparr>"

lemma example_dock_ok: "windows_ok (example_dock works)"
  by (simp add: windows_ok_def example_dock_def touches_only_def look_def)

lemma shown_WS_VISIBLE: "shown_style WS_VISIBLE"
  by (simp add: shown_style_bit bit_WS_VISIBLE)

lemma example_prepared: "DockNative_Prepare (example_dock works) example_adapter example_layout example_windows = Inr example_adoption"
proof -
  have compatible: "IsCompatibleWindow (example_dock works) example_adapter (Some h) w" for h w
    by (simp add: IsCompatibleWindow_def example_dock_def example_adapter_def)
  have found: "DockNative_FindPanel 10 example_adapter = Some 21" "DockNative_FindPanel 11 example_adapter = Some 22"
    "DockNative_FindGroup 1 example_adapter = Some 11" "DockNative_FindGroup 2 example_adapter = Some 12"
    "na_parking example_adapter = Some 10" "na_panels example_adapter = [(10, 21), (11, 22), (12, 23)]"
    by (simp_all add: DockNative_FindPanel_def DockNative_FindGroup_def find_binding_def example_adapter_def)
  have seen: "na_parent (example_dock works) h example_windows = Some 10" "na_style (example_dock works) h example_windows = WS_VISIBLE"
    "na_exstyle (example_dock works) h example_windows = 0" "na_visible (example_dock works) h example_windows"
    "na_focus (example_dock works) example_windows = None" for h
    by (simp_all add: example_dock_def example_windows_def shown_WS_VISIBLE)
  have layout: "ly_groups example_layout = [\<lparr>dg_id = 1, dg_role = Group_document, dg_panels = [10], dg_active = Some 10\<rparr>,
       \<lparr>dg_id = 2, dg_role = Group_tool, dg_panels = [11], dg_active = Some 11\<rparr>]" "ly_active_panel example_layout = Some 10"
    "map dp_id (ly_panels example_layout) = [10, 11]"
    by (simp_all add: example_layout_def)
  have moves: "layout_moves (example_dock works) example_adapter 10 example_layout (ly_panels example_layout) example_windows
      = Inr (take 2 (ap_moves example_adoption))"
    "parked_moves (example_dock works) example_adapter 10 example_layout (na_panels example_adapter) example_windows
      = Inr (drop 2 (ap_moves example_adoption))"
    by (simp_all add: example_adoption_def compatible found seen panel_destination_def recorded_move_def layout(1))
      (simp_all add: example_layout_def compatible found seen panel_destination_def recorded_move_def)
  show ?thesis
    by (simp add: DockNative_Prepare_def example_layout_valid compatible found(5) moves layout(2) seen(5) AdoptionPlan_IsValid_def)
      (simp add: example_adoption_def)
qed

theorem adoption_is_all_or_nothing_witness:
  "look (example_dock False) 21 (snd (snd (DockNative_Adopt (example_dock False) example_adapter example_adoption example_windows)))
    = (Some 10, WS_VISIBLE, 0)"
proof -
  let ?r = "DockNative_Adopt (example_dock False) example_adapter example_adoption example_windows"
  have "list_all (\<lambda>m. can_return (example_dock False) m \<and> dm_original_visible m = shown_style (dm_original_style m))
      (ap_moves example_adoption)"
    by (simp add: example_adoption_def can_return_def example_dock_def shown_WS_VISIBLE)
  moreover have "fst (fst ?r) \<noteq> DockNative_success"
    by (simp add: DockNative_Adopt_def example_adoption_def AdoptionPlan_IsValid_def adopt_move_def IsCompatibleWindow_def
        example_adapter_def example_dock_def DockNative_Rollback_def split: prod.split)
  ultimately have "look (example_dock False) 21 (snd (snd ?r)) = look (example_dock False) 21 example_windows"
    using adoption_is_all_or_nothing [OF example_dock_ok example_prepared, of False "fst ?r" "fst (snd ?r)" "snd (snd ?r)"] by simp
  then show ?thesis by (simp add: look_def example_dock_def example_windows_def)
qed

theorem synchronized_windows_follow_layout_witness:
  "na_parent (example_dock True) 21 (snd (DockNative_Synchronize (example_dock True) example_adapter example_layout example_windows))
    = Some 11"
proof -
  let ?p = "\<lparr>dp_id = 10, dp_title = lit ''a'', dp_role = Panel_document, dp_closable = True\<rparr>"
  obtain w where adopted: "DockNative_Adopt (example_dock True) example_adapter example_adoption example_windows
      = ((DockNative_success, ERROR_SUCCESS), example_adoption\<lparr>ap_adopted := True\<rparr>, w)"
    by (simp add: DockNative_Adopt_def example_adoption_def AdoptionPlan_IsValid_def
        adopt_move_def IsCompatibleWindow_def example_adapter_def example_dock_def)
  have "DockNative_Commit (example_adoption\<lparr>ap_adopted := True\<rparr>)
      = ((DockNative_success, ERROR_SUCCESS), example_adoption\<lparr>ap_adopted := True, ap_committed := True\<rparr>)"
    by (simp add: DockNative_Commit_def example_adoption_def AdoptionPlan_IsValid_def)
  with adopted have w: "DockNative_Synchronize (example_dock True) example_adapter example_layout example_windows
      = ((DockNative_success, ERROR_SUCCESS), w)"
    by (simp add: DockNative_Synchronize_def example_prepared)
  from synchronized_windows_follow_layout [OF example_dock_ok w, of ?p]
  show ?thesis unfolding w
    by (simp add: example_layout_def DockNative_FindPanel_def DockNative_FindGroup_def find_binding_def example_adapter_def)
qed

end
