(* ===== verification/Tray_Icon.thy ===== *)
theory Tray_Icon
  imports Foundation
begin

text \<open>
  Icons of the notification area (\<open>tray_icon.h\<close>, \<open>tray_icon.cpp\<close>): the state machine of a registration, the
  icon with its options, its recovery after the shell was restarted, and the decoding of its messages.  The
  shell is a parameter; the last error is part of the state.
\<close>

section \<open>The state machine\<close>

datatype TrayIconState = Tray_detached | Tray_added | Tray_recovery_pending

definition Tray_CanAdd :: "TrayIconState \<Rightarrow> bool" where "Tray_CanAdd s \<longleftrightarrow> s = Tray_detached"
definition Tray_CanModify :: "TrayIconState \<Rightarrow> bool" where "Tray_CanModify s \<longleftrightarrow> s = Tray_added"
definition Tray_CanRecreate :: "TrayIconState \<Rightarrow> bool" where "Tray_CanRecreate s \<longleftrightarrow> s \<noteq> Tray_detached"

definition Tray_BeginAdd :: "TrayIconState \<Rightarrow> bool \<times> TrayIconState" where
  "Tray_BeginAdd s = (if s \<noteq> Tray_detached then (False, s) else (True, Tray_recovery_pending))"

definition Tray_BeginRecovery :: "TrayIconState \<Rightarrow> bool \<times> TrayIconState" where
  "Tray_BeginRecovery s = (if s = Tray_detached then (False, s) else (True, Tray_recovery_pending))"

definition Tray_RegistrationSucceeded :: "TrayIconState \<Rightarrow> bool \<times> TrayIconState" where
  "Tray_RegistrationSucceeded s = (if s \<noteq> Tray_recovery_pending then (False, s) else (True, Tray_added))"

definition Tray_InitialRegistrationFailed :: "TrayIconState \<Rightarrow> bool \<times> TrayIconState" where
  "Tray_InitialRegistrationFailed s = (if s \<noteq> Tray_recovery_pending then (False, s) else (True, Tray_detached))"

definition Tray_Detach :: "TrayIconState \<Rightarrow> TrayIconState" where
  "Tray_Detach s = Tray_detached"

section \<open>The icon\<close>

record 'h TrayIconOptions =
  to_owner :: "'h option"
  to_id :: u32
  to_callback_message :: u32
  to_identity :: "128 word"
  to_icon :: "'h option"
  to_tooltip :: wstring
  to_hidden :: bool

record TrayNotification =
  tn_title :: wstring
  tn_text :: wstring
  tn_flags :: u32
  tn_respect_quiet_time :: bool

text \<open>The parts of \<open>NOTIFYICONDATAW\<close> that the code fills; \<open>None\<close> is a part whose flag is not set.\<close>

record 'h NOTIFYICONDATA =
  nd_window :: "'h option"
  nd_id :: u32
  nd_guid :: "128 word"
  nd_message :: "u32 option"
  nd_icon :: "'h option option"
  nd_tip :: "wstring option"
  nd_hidden :: "bool option"
  nd_info :: "(wstring \<times> wstring \<times> u32) option"

datatype notify_operation = NIM_ADD | NIM_MODIFY | NIM_DELETE | NIM_SETVERSION

record ('w, 'h) tray_api =
  tr_is_window :: "'h \<Rightarrow> 'w \<Rightarrow> bool"
  tr_current_thread :: u32
  tr_notify :: "notify_operation \<Rightarrow> 'h NOTIFYICONDATA \<Rightarrow> 'w \<Rightarrow> bool \<times> dword \<times> 'w"
  tr_taskbar_created :: u32

record 'h TrayIcon =
  ti_options :: "'h TrayIconOptions"
  ti_state :: TrayIconState
  ti_owner_thread :: u32

text \<open>The icon, the last error of the thread, and the system.\<close>

record ('w, 'h) tray_state =
  ts_icon :: "'h TrayIcon"
  ts_last_error :: dword
  ts_world :: 'w

definition WM_APP :: u32 where "WM_APP = 0x8000"
definition ERROR_FUNCTION_FAILED :: dword where "ERROR_FUNCTION_FAILED = 1627"

definition TrayIconOptions_new :: "'h TrayIconOptions" where
  "TrayIconOptions_new = \<lparr>to_owner = None, to_id = 1, to_callback_message = WM_APP + 1, to_identity = 0,
    to_icon = None, to_tooltip = [], to_hidden = False\<rparr>"

definition TrayIcon_new :: "'h TrayIcon" where
  "TrayIcon_new = \<lparr>ti_options = TrayIconOptions_new, ti_state = Tray_detached, ti_owner_thread = 0\<rparr>"

text \<open>The sizes of the fixed arrays of \<open>NOTIFYICONDATAW\<close>, terminator included.\<close>

definition tip_size :: nat where "tip_size = 128"
definition info_title_size :: nat where "info_title_size = 64"
definition info_size :: nat where "info_size = 256"

definition set_error :: "dword \<Rightarrow> ('w, 'h) tray_state \<Rightarrow> ('w, 'h) tray_state" where
  "set_error e s = s\<lparr>ts_last_error := e\<rparr>"

definition map_icon :: "('h TrayIcon \<Rightarrow> 'h TrayIcon) \<Rightarrow> ('w, 'h) tray_state \<Rightarrow> ('w, 'h) tray_state" where
  "map_icon f s = s\<lparr>ts_icon := f (ts_icon s)\<rparr>"

definition with_state :: "(TrayIconState \<Rightarrow> bool \<times> TrayIconState) \<Rightarrow> ('w, 'h) tray_state \<Rightarrow> ('w, 'h) tray_state" where
  "with_state f = map_icon (\<lambda>t. t\<lparr>ti_state := snd (f (ti_state t))\<rparr>)"

definition ShellNotify ::
  "('w, 'h) tray_api \<Rightarrow> notify_operation \<Rightarrow> 'h NOTIFYICONDATA \<Rightarrow> ('w, 'h) tray_state \<Rightarrow> bool \<times> ('w, 'h) tray_state" where
  "ShellNotify A op d s =
    (case tr_notify A op d (ts_world s) of (succeeded, e, w) \<Rightarrow>
      (succeeded, s\<lparr>ts_world := w, ts_last_error := (if succeeded \<or> e \<noteq> ERROR_SUCCESS then e else ERROR_FUNCTION_FAILED)\<rparr>))"

definition TrayIcon_IsOwnerThread :: "('w, 'h) tray_api \<Rightarrow> 'h TrayIcon \<Rightarrow> bool" where
  "TrayIcon_IsOwnerThread A t \<longleftrightarrow> ti_owner_thread t = 0 \<or> ti_owner_thread t = tr_current_thread A"

definition TrayIcon_ValidateThread :: "('w, 'h) tray_api \<Rightarrow> ('w, 'h) tray_state \<Rightarrow> bool \<times> ('w, 'h) tray_state" where
  "TrayIcon_ValidateThread A s =
    (if TrayIcon_IsOwnerThread A (ts_icon s) then (True, s) else (False, set_error ERROR_INVALID_THREAD_ID s))"

definition TrayIcon_BaseData :: "'h TrayIcon \<Rightarrow> 'h NOTIFYICONDATA" where
  "TrayIcon_BaseData t = \<lparr>nd_window = to_owner (ti_options t), nd_id = to_id (ti_options t),
    nd_guid = to_identity (ti_options t), nd_message = None, nd_icon = None, nd_tip = None, nd_hidden = None,
    nd_info = None\<rparr>"

definition TrayIcon_AddNative :: "('w, 'h) tray_api \<Rightarrow> ('w, 'h) tray_state \<Rightarrow> bool \<times> ('w, 'h) tray_state" where
  "TrayIcon_AddNative A s =
    (case TrayIcon_ValidateThread A s of
       (False, s1) \<Rightarrow> (False, s1)
     | (True, s1) \<Rightarrow>
         let o1 = ti_options (ts_icon s1);
             d = (TrayIcon_BaseData (ts_icon s1))\<lparr>nd_message := Some (to_callback_message o1), nd_icon := Some (to_icon o1),
               nd_tip := Some (to_tooltip o1), nd_hidden := Some (to_hidden o1)\<rparr>
         in if tip_size \<le> length (to_tooltip o1)
            then (False, with_state Tray_BeginRecovery (set_error ERROR_BUFFER_OVERFLOW s1))
            else case ShellNotify A NIM_ADD d s1 of
              (False, s2) \<Rightarrow> (False, with_state Tray_BeginRecovery s2)
            | (True, s2) \<Rightarrow>
                (case ShellNotify A NIM_SETVERSION d s2 of
                   (False, s3) \<Rightarrow> (False, with_state Tray_BeginRecovery (snd (ShellNotify A NIM_DELETE d s3)))
                 | (True, s3) \<Rightarrow> (True, with_state Tray_RegistrationSucceeded s3)))"

definition valid_options :: "('w, 'h) tray_api \<Rightarrow> 'h TrayIconOptions \<Rightarrow> 'w \<Rightarrow> bool" where
  "valid_options A options w \<longleftrightarrow>
    (case to_owner options of None \<Rightarrow> False | Some h \<Rightarrow> tr_is_window A h w)
    \<and> to_id options \<noteq> 0 \<and> to_id options \<le> 0xFFFF \<and> WM_APP \<le> to_callback_message options \<and> to_callback_message options \<le> 0xBFFF
    \<and> to_identity options \<noteq> 0 \<and> to_icon options \<noteq> None \<and> length (to_tooltip options) < tip_size"

definition TrayIcon_Add ::
  "('w, 'h) tray_api \<Rightarrow> 'h TrayIconOptions \<Rightarrow> ('w, 'h) tray_state \<Rightarrow> bool \<times> ('w, 'h) tray_state" where
  "TrayIcon_Add A options s =
    (if \<not> Tray_CanAdd (ti_state (ts_icon s)) then (False, set_error ERROR_ALREADY_EXISTS s)
     else if \<not> valid_options A options (ts_world s) then (False, set_error ERROR_INVALID_PARAMETER s)
     else let s1 = map_icon (\<lambda>t. t\<lparr>ti_options := options, ti_owner_thread := tr_current_thread A\<rparr>)
               (with_state Tray_BeginAdd s)
       in case TrayIcon_AddNative A s1 of
            (True, s2) \<Rightarrow> (True, s2)
          | (False, s2) \<Rightarrow> (False, map_icon (\<lambda>t. t\<lparr>ti_options := TrayIconOptions_new, ti_owner_thread := 0\<rparr>)
              (with_state Tray_InitialRegistrationFailed s2)))"

definition TrayIcon_Modify ::
  "('w, 'h) tray_api \<Rightarrow> 'h NOTIFYICONDATA \<Rightarrow> ('w, 'h) tray_state \<Rightarrow> bool \<times> ('w, 'h) tray_state" where
  "TrayIcon_Modify A d s =
    (case TrayIcon_ValidateThread A s of (valid, s1) \<Rightarrow>
      if \<not> Tray_CanModify (ti_state (ts_icon s1)) then (False, set_error ERROR_INVALID_STATE s1)
      else if \<not> valid then (False, s1)
      else ShellNotify A NIM_MODIFY d s1)"

text \<open>A change of the registration, recorded in the options once the shell has accepted it.\<close>

definition modify_options ::
  "('w, 'h) tray_api \<Rightarrow> 'h NOTIFYICONDATA \<Rightarrow> ('h TrayIconOptions \<Rightarrow> 'h TrayIconOptions) \<Rightarrow> ('w, 'h) tray_state
    \<Rightarrow> bool \<times> ('w, 'h) tray_state" where
  "modify_options A d f s =
    (case TrayIcon_Modify A d s of
       (False, s1) \<Rightarrow> (False, s1)
     | (True, s1) \<Rightarrow> (True, map_icon (\<lambda>t. t\<lparr>ti_options := f (ti_options t)\<rparr>) s1))"

definition TrayIcon_UpdateTooltip :: "('w, 'h) tray_api \<Rightarrow> wstring \<Rightarrow> ('w, 'h) tray_state \<Rightarrow> bool \<times> ('w, 'h) tray_state" where
  "TrayIcon_UpdateTooltip A tooltip s =
    (if tip_size \<le> length tooltip then (False, set_error ERROR_BUFFER_OVERFLOW s)
     else modify_options A ((TrayIcon_BaseData (ts_icon s))\<lparr>nd_tip := Some tooltip\<rparr>) (\<lambda>opts. opts\<lparr>to_tooltip := tooltip\<rparr>) s)"

definition TrayIcon_UpdateIcon :: "('w, 'h) tray_api \<Rightarrow> 'h option \<Rightarrow> ('w, 'h) tray_state \<Rightarrow> bool \<times> ('w, 'h) tray_state" where
  "TrayIcon_UpdateIcon A icon s =
    (if icon = None then (False, set_error ERROR_INVALID_PARAMETER s)
     else modify_options A ((TrayIcon_BaseData (ts_icon s))\<lparr>nd_icon := Some icon\<rparr>) (\<lambda>opts. opts\<lparr>to_icon := icon\<rparr>) s)"

definition TrayIcon_SetVisible :: "('w, 'h) tray_api \<Rightarrow> bool \<Rightarrow> ('w, 'h) tray_state \<Rightarrow> bool \<times> ('w, 'h) tray_state" where
  "TrayIcon_SetVisible A visible s =
    modify_options A ((TrayIcon_BaseData (ts_icon s))\<lparr>nd_hidden := Some (\<not> visible)\<rparr>) (\<lambda>opts. opts\<lparr>to_hidden := \<not> visible\<rparr>) s"

definition NIIF_RESPECT_QUIET_TIME :: u32 where "NIIF_RESPECT_QUIET_TIME = 0x80"

definition TrayIcon_ShowNotification ::
  "('w, 'h) tray_api \<Rightarrow> TrayNotification \<Rightarrow> ('w, 'h) tray_state \<Rightarrow> bool \<times> ('w, 'h) tray_state" where
  "TrayIcon_ShowNotification A n s =
    (if info_title_size \<le> length (tn_title n) \<or> info_size \<le> length (tn_text n)
     then (False, set_error ERROR_BUFFER_OVERFLOW s)
     else TrayIcon_Modify A ((TrayIcon_BaseData (ts_icon s))\<lparr>nd_info := Some (tn_title n, tn_text n,
       if tn_respect_quiet_time n then tn_flags n OR NIIF_RESPECT_QUIET_TIME else tn_flags n)\<rparr>) s)"

definition TrayIcon_Recreate :: "('w, 'h) tray_api \<Rightarrow> ('w, 'h) tray_state \<Rightarrow> bool \<times> ('w, 'h) tray_state" where
  "TrayIcon_Recreate A s =
    (case TrayIcon_ValidateThread A s of (valid, s1) \<Rightarrow>
      if \<not> Tray_CanRecreate (ti_state (ts_icon s1)) then (False, set_error ERROR_INVALID_STATE s1)
      else if \<not> valid then (False, s1)
      else TrayIcon_AddNative A (with_state Tray_BeginRecovery
        (snd (ShellNotify A NIM_DELETE (TrayIcon_BaseData (ts_icon s1)) s1))))"

definition TrayIcon_Remove :: "('w, 'h) tray_api \<Rightarrow> ('w, 'h) tray_state \<Rightarrow> ('w, 'h) tray_state" where
  "TrayIcon_Remove A s =
    (if \<not> Tray_CanRecreate (ti_state (ts_icon s)) then s
     else map_icon (\<lambda>_. TrayIcon_new) (snd (ShellNotify A NIM_DELETE (TrayIcon_BaseData (ts_icon s)) s)))"

definition TrayIcon_move :: "'h TrayIcon \<Rightarrow> 'h TrayIconOptions \<Rightarrow> 'h TrayIcon \<times> 'h TrayIcon" where
  "TrayIcon_move other moved_from = (other, \<lparr>ti_options = moved_from, ti_state = Tray_detached, ti_owner_thread = 0\<rparr>)"

text \<open>Assignment from another icon, with what the move leaves in the other one; both are of one thread.\<close>

definition TrayIcon_assign ::
  "('w, 'h) tray_api \<Rightarrow> 'h TrayIcon \<Rightarrow> 'h TrayIconOptions \<Rightarrow> ('w, 'h) tray_state \<Rightarrow> 'h TrayIcon \<times> ('w, 'h) tray_state" where
  "TrayIcon_assign A other moved_from s =
    (case TrayIcon_move other moved_from of (moved, rest) \<Rightarrow> (rest, map_icon (\<lambda>_. moved) (TrayIcon_Remove A s)))"

section \<open>Messages\<close>

datatype TrayIconEventKind =
    Tray_primary_activate | Tray_context_menu | Tray_balloon_shown | Tray_balloon_hidden | Tray_balloon_timed_out
  | Tray_balloon_clicked | Tray_popup_opened | Tray_popup_closed | Tray_unknown

record TrayIconEvent =
  te_kind :: TrayIconEventKind
  te_native_code :: u32
  te_x :: int
  te_y :: int
  te_keyboard :: bool

definition NIN_KEYSELECT :: u32 where "NIN_KEYSELECT = 0x401"

definition DecodeKind :: "u32 \<Rightarrow> TrayIconEventKind" where
  "DecodeKind code =
    (if code = 0x400 \<or> code = NIN_KEYSELECT \<or> code = 0x202 \<or> code = 0x203 then Tray_primary_activate
     else if code = 0x7B \<or> code = 0x205 then Tray_context_menu
     else if code = 0x402 then Tray_balloon_shown
     else if code = 0x403 then Tray_balloon_hidden
     else if code = 0x404 then Tray_balloon_timed_out
     else if code = 0x405 then Tray_balloon_clicked
     else if code = 0x406 then Tray_popup_opened
     else if code = 0x407 then Tray_popup_closed
     else Tray_unknown)"

definition low_word :: "u64 \<Rightarrow> 16 word" where "low_word x = ucast x"
definition high_word :: "u64 \<Rightarrow> 16 word" where "high_word x = ucast (drop_bit 16 x)"

definition TrayIcon_IsTaskbarCreated :: "('w, 'h) tray_api \<Rightarrow> u32 \<Rightarrow> bool" where
  "TrayIcon_IsTaskbarCreated A message \<longleftrightarrow> tr_taskbar_created A \<noteq> 0 \<and> message = tr_taskbar_created A"

definition TrayIcon_Decode :: "u32 \<Rightarrow> u64 \<Rightarrow> u64 \<Rightarrow> 'h TrayIcon \<Rightarrow> TrayIconEvent option" where
  "TrayIcon_Decode message wparam lparam t =
    (if \<not> Tray_CanModify (ti_state t) \<or> message \<noteq> to_callback_message (ti_options t) then None
     else if high_word lparam \<noteq> ucast (to_id (ti_options t)) then None
     else let code = ucast (low_word lparam)
       in Some \<lparr>te_kind = DecodeKind code, te_native_code = code, te_x = sint (low_word wparam), te_y = sint (high_word wparam),
         te_keyboard = (code = NIN_KEYSELECT)\<rparr>)"

section \<open>What the shell shows\<close>

text \<open>What the shell shows for an identity: the callback message, the icon, the tooltip, and whether it is hidden.\<close>

type_synonym 'h shown_icon = "u32 \<times> 'h option \<times> wstring \<times> bool"

fun modify_shown :: "'h NOTIFYICONDATA \<Rightarrow> 'h shown_icon \<Rightarrow> 'h shown_icon" where
  "modify_shown d (message, icon, tip, hidden) =
    ((case nd_message d of None \<Rightarrow> message | Some m \<Rightarrow> m), (case nd_icon d of None \<Rightarrow> icon | Some i \<Rightarrow> i),
     (case nd_tip d of None \<Rightarrow> tip | Some t \<Rightarrow> t), (case nd_hidden d of None \<Rightarrow> hidden | Some b \<Rightarrow> b))"

definition shell_ok :: "('w, 'h) tray_api \<Rightarrow> ('w \<Rightarrow> 128 word \<Rightarrow> 'h shown_icon option) \<Rightarrow> bool" where
  "shell_ok A shown \<longleftrightarrow>
    (\<forall>op d w b e w'. tr_notify A op d w = (b, e, w') \<longrightarrow>
      (\<not> b \<longrightarrow> shown w' = shown w) \<and>
      (b \<longrightarrow> (case op of
         NIM_ADD \<Rightarrow> (\<forall>m i t h. nd_message d = Some m \<and> nd_icon d = Some i \<and> nd_tip d = Some t \<and> nd_hidden d = Some h \<longrightarrow>
           shown w' = (shown w)(nd_guid d \<mapsto> (m, i, t, h)))
       | NIM_MODIFY \<Rightarrow> (\<exists>x. shown w (nd_guid d) = Some x \<and> shown w' = (shown w)(nd_guid d \<mapsto> modify_shown d x))
       | NIM_DELETE \<Rightarrow> shown w' = (shown w)(nd_guid d := None)
       | NIM_SETVERSION \<Rightarrow> shown w' = shown w)))"

definition options_shown :: "'h TrayIconOptions \<Rightarrow> 'h shown_icon" where
  "options_shown opts = (to_callback_message opts, to_icon opts, to_tooltip opts, to_hidden opts)"

definition in_sync :: "('w \<Rightarrow> 128 word \<Rightarrow> 'h shown_icon option) \<Rightarrow> ('w, 'h) tray_state \<Rightarrow> bool" where
  "in_sync shown s \<longleftrightarrow> shown (ts_world s) (to_identity (ti_options (ts_icon s))) = Some (options_shown (ti_options (ts_icon s)))"

definition tray_inv :: "('w \<Rightarrow> 128 word \<Rightarrow> 'h shown_icon option) \<Rightarrow> bool \<times> ('w, 'h) tray_state \<Rightarrow> bool" where
  "tray_inv shown = (\<lambda>(fresh, s).
    (fresh \<longrightarrow> ti_state (ts_icon s) = Tray_added \<longrightarrow> in_sync shown s)
    \<and> (ti_state (ts_icon s) \<noteq> Tray_detached \<longrightarrow> length (to_tooltip (ti_options (ts_icon s))) < tip_size))"

text \<open>
  The operations, and a restart of the shell, which may show anything afterwards; the first component is
  whether the icon was registered after the last restart.
\<close>

datatype ('w, 'h) tray_op =
    Tray_op_Add "'h TrayIconOptions"
  | Tray_op_UpdateTooltip wstring
  | Tray_op_UpdateIcon "'h option"
  | Tray_op_SetVisible bool
  | Tray_op_ShowNotification TrayNotification
  | Tray_op_Recreate
  | Tray_op_Remove
  | Tray_op_restart 'w

definition registering :: "bool \<times> ('w, 'h) tray_state \<Rightarrow> bool \<Rightarrow> bool \<times> bool \<times> ('w, 'h) tray_state" where
  "registering r fresh = (fst r, fst r \<or> fresh, snd r)"

fun tray_step :: "('w, 'h) tray_api \<Rightarrow> bool \<times> ('w, 'h) tray_state \<Rightarrow> ('w, 'h) tray_op \<Rightarrow> bool \<times> bool \<times> ('w, 'h) tray_state" where
  "tray_step A (fresh, s) (Tray_op_Add opts) = registering (TrayIcon_Add A opts s) fresh"
| "tray_step A (fresh, s) (Tray_op_UpdateTooltip t) = (case TrayIcon_UpdateTooltip A t s of (r, s') \<Rightarrow> (r, fresh, s'))"
| "tray_step A (fresh, s) (Tray_op_UpdateIcon i) = (case TrayIcon_UpdateIcon A i s of (r, s') \<Rightarrow> (r, fresh, s'))"
| "tray_step A (fresh, s) (Tray_op_SetVisible v) = (case TrayIcon_SetVisible A v s of (r, s') \<Rightarrow> (r, fresh, s'))"
| "tray_step A (fresh, s) (Tray_op_ShowNotification n) = (case TrayIcon_ShowNotification A n s of (r, s') \<Rightarrow> (r, fresh, s'))"
| "tray_step A (fresh, s) Tray_op_Recreate = registering (TrayIcon_Recreate A s) fresh"
| "tray_step A (fresh, s) Tray_op_Remove = (True, fresh, TrayIcon_Remove A s)"
| "tray_step A (fresh, s) (Tray_op_restart w) = (True, False, s\<lparr>ts_world := w\<rparr>)"

named_theorems tray_ops \<open>small definitions of the icon\<close>
lemmas [tray_ops] = set_error_def map_icon_def with_state_def Tray_BeginAdd_def Tray_BeginRecovery_def
  Tray_RegistrationSucceeded_def Tray_InitialRegistrationFailed_def TrayIcon_BaseData_def

lemma shell_okD:
  assumes "shell_ok A shown" and "ShellNotify A op d s = (b, s')"
  shows "ts_icon s' = ts_icon s"
    and "\<not> b \<Longrightarrow> shown (ts_world s') = shown (ts_world s)"
    and "b \<Longrightarrow> op = NIM_ADD \<Longrightarrow> nd_message d = Some m \<Longrightarrow> nd_icon d = Some i \<Longrightarrow> nd_tip d = Some t \<Longrightarrow> nd_hidden d = Some h \<Longrightarrow>
      shown (ts_world s') = (shown (ts_world s))(nd_guid d \<mapsto> (m, i, t, h))"
    and "b \<Longrightarrow> op = NIM_MODIFY \<Longrightarrow> \<exists>x. shown (ts_world s) (nd_guid d) = Some x
      \<and> shown (ts_world s') = (shown (ts_world s))(nd_guid d \<mapsto> modify_shown d x)"
    and "op = NIM_SETVERSION \<Longrightarrow> shown (ts_world s') = shown (ts_world s)"
proof -
  obtain e w where n: "tr_notify A op d (ts_world s) = (b, e, w)"
    using assms(2) by (auto simp: ShellNotify_def split: prod.splits)
  then have s': "ts_icon s' = ts_icon s" "ts_world s' = w" using assms(2) by (auto simp: ShellNotify_def)
  have "(\<not> b \<longrightarrow> shown w = shown (ts_world s)) \<and>
      (b \<longrightarrow> (case op of
         NIM_ADD \<Rightarrow> (\<forall>m i t h. nd_message d = Some m \<and> nd_icon d = Some i \<and> nd_tip d = Some t \<and> nd_hidden d = Some h \<longrightarrow>
           shown w = (shown (ts_world s))(nd_guid d \<mapsto> (m, i, t, h)))
       | NIM_MODIFY \<Rightarrow> (\<exists>x. shown (ts_world s) (nd_guid d) = Some x
           \<and> shown w = (shown (ts_world s))(nd_guid d \<mapsto> modify_shown d x))
       | NIM_DELETE \<Rightarrow> shown w = (shown (ts_world s))(nd_guid d := None)
       | NIM_SETVERSION \<Rightarrow> shown w = shown (ts_world s)))"
    using assms(1) n unfolding shell_ok_def by blast
  then show "ts_icon s' = ts_icon s"
    and "\<not> b \<Longrightarrow> shown (ts_world s') = shown (ts_world s)"
    and "b \<Longrightarrow> op = NIM_ADD \<Longrightarrow> nd_message d = Some m \<Longrightarrow> nd_icon d = Some i \<Longrightarrow> nd_tip d = Some t \<Longrightarrow> nd_hidden d = Some h \<Longrightarrow>
      shown (ts_world s') = (shown (ts_world s))(nd_guid d \<mapsto> (m, i, t, h))"
    and "b \<Longrightarrow> op = NIM_MODIFY \<Longrightarrow> \<exists>x. shown (ts_world s) (nd_guid d) = Some x
      \<and> shown (ts_world s') = (shown (ts_world s))(nd_guid d \<mapsto> modify_shown d x)"
    and "op = NIM_SETVERSION \<Longrightarrow> shown (ts_world s') = shown (ts_world s)"
    using s' by auto
qed

text \<open>Registering: either the shell shows the options and the icon is added, or the recovery stays pending.\<close>

lemma AddNative_cases:
  assumes "shell_ok A shown" and "TrayIcon_AddNative A s = (b, s')" and "ti_state (ts_icon s) = Tray_recovery_pending"
  shows "ti_options (ts_icon s') = ti_options (ts_icon s)"
    and "b \<Longrightarrow> ti_state (ts_icon s') = Tray_added \<and> in_sync shown s'"
    and "\<not> b \<Longrightarrow> ti_state (ts_icon s') = Tray_recovery_pending"
proof -
  let ?o = "ti_options (ts_icon s)"
  let ?d = "(TrayIcon_BaseData (ts_icon s))\<lparr>nd_message := Some (to_callback_message ?o), nd_icon := Some (to_icon ?o),
               nd_tip := Some (to_tooltip ?o), nd_hidden := Some (to_hidden ?o)\<rparr>"
  have "ti_options (ts_icon s') = ?o \<and> (b \<longrightarrow> ti_state (ts_icon s') = Tray_added \<and> in_sync shown s')
    \<and> (\<not> b \<longrightarrow> ti_state (ts_icon s') = Tray_recovery_pending)"
  proof (cases "TrayIcon_IsOwnerThread A (ts_icon s) \<and> length (to_tooltip ?o) < tip_size")
    case False
    then show ?thesis using assms(2,3)
      by (auto simp: TrayIcon_AddNative_def TrayIcon_ValidateThread_def Let_def tray_ops split: if_splits)
  next
    case True
    obtain b1 s1 where s1: "ShellNotify A NIM_ADD ?d s = (b1, s1)" by fastforce
    obtain b2 s2 where s2: "ShellNotify A NIM_SETVERSION ?d s1 = (b2, s2)" by fastforce
    obtain b3 s3 where s3: "ShellNotify A NIM_DELETE ?d s2 = (b3, s3)" by fastforce
    note shell = shell_okD [OF assms(1) s1] shell_okD [OF assms(1) s2] shell_okD(1) [OF assms(1) s3]
    have "b1 \<Longrightarrow> shown (ts_world s2) (to_identity ?o) = Some (options_shown ?o)"
      using shell(3,10) by (simp add: options_shown_def TrayIcon_BaseData_def)
    then show ?thesis using assms(2,3) True s1 s2 s3 shell(1,6,11)
      by (auto simp: TrayIcon_AddNative_def TrayIcon_ValidateThread_def Let_def tray_ops in_sync_def split: if_splits bool.splits)
  qed
  then show "ti_options (ts_icon s') = ti_options (ts_icon s)"
    and "b \<Longrightarrow> ti_state (ts_icon s') = Tray_added \<and> in_sync shown s'"
    and "\<not> b \<Longrightarrow> ti_state (ts_icon s') = Tray_recovery_pending" by auto
qed

lemma tray_inv_add: "shell_ok A shown \<Longrightarrow> tray_inv shown (fresh, s) \<Longrightarrow> tray_inv shown (snd (tray_step A (fresh, s) (Tray_op_Add opts)))"
proof -
  assume ok: "shell_ok A shown" and inv: "tray_inv shown (fresh, s)"
  let ?s1 = "map_icon (\<lambda>t. t\<lparr>ti_options := opts, ti_owner_thread := tr_current_thread A\<rparr>) (with_state Tray_BeginAdd s)"
  obtain b s2 where add: "TrayIcon_AddNative A ?s1 = (b, s2)" by fastforce
  show ?thesis
  proof (cases "ti_state (ts_icon s) = Tray_detached \<and> valid_options A opts (ts_world s)")
    case True
    then have "ti_state (ts_icon ?s1) = Tray_recovery_pending" by (simp add: tray_ops)
    note parts = AddNative_cases [OF ok add this]
    have "ti_options (ts_icon ?s1) = opts" by (simp add: tray_ops)
    then show ?thesis using True add parts
      by (cases b) (auto simp: TrayIcon_Add_def registering_def tray_inv_def Tray_CanAdd_def valid_options_def Let_def tray_ops)
  next
    case False
    then show ?thesis using inv by (auto simp: TrayIcon_Add_def registering_def tray_inv_def Tray_CanAdd_def tray_ops in_sync_def)
  qed
qed

lemma tray_inv_recreate: "shell_ok A shown \<Longrightarrow> tray_inv shown (fresh, s) \<Longrightarrow> tray_inv shown (snd (tray_step A (fresh, s) Tray_op_Recreate))"
proof -
  assume ok: "shell_ok A shown" and inv: "tray_inv shown (fresh, s)"
  obtain b1 s1 where deleted: "ShellNotify A NIM_DELETE (TrayIcon_BaseData (ts_icon s)) s = (b1, s1)" by fastforce
  obtain b s2 where add: "TrayIcon_AddNative A (with_state Tray_BeginRecovery s1) = (b, s2)" by fastforce
  show ?thesis
  proof (cases "ti_state (ts_icon s) \<noteq> Tray_detached \<and> TrayIcon_IsOwnerThread A (ts_icon s)")
    case True
    have same: "ts_icon s1 = ts_icon s" using shell_okD(1) [OF ok deleted] .
    then have "ti_state (ts_icon (with_state Tray_BeginRecovery s1)) = Tray_recovery_pending" using True by (simp add: tray_ops)
    note parts = AddNative_cases [OF ok add this]
    have "ti_options (ts_icon (with_state Tray_BeginRecovery s1)) = ti_options (ts_icon s)" by (simp add: tray_ops same)
    then show ?thesis using True add parts inv deleted
      by (cases b) (auto simp: TrayIcon_Recreate_def TrayIcon_ValidateThread_def registering_def tray_inv_def Tray_CanRecreate_def)
  next
    case False
    then show ?thesis using inv
      by (auto simp: TrayIcon_Recreate_def TrayIcon_ValidateThread_def registering_def tray_inv_def Tray_CanRecreate_def tray_ops in_sync_def)
  qed
qed

lemma TrayIcon_Modify_cases:
  assumes "shell_ok A shown" and "TrayIcon_Modify A d s = (b, s')"
  shows "ts_icon s' = ts_icon s" and "\<not> b \<Longrightarrow> shown (ts_world s') = shown (ts_world s)"
    and "b \<Longrightarrow> \<exists>x. shown (ts_world s) (nd_guid d) = Some x \<and> shown (ts_world s') = (shown (ts_world s))(nd_guid d \<mapsto> modify_shown d x)"
proof -
  have "ts_icon s' = ts_icon s \<and> (\<not> b \<longrightarrow> shown (ts_world s') = shown (ts_world s)) \<and>
    (b \<longrightarrow> (\<exists>x. shown (ts_world s) (nd_guid d) = Some x \<and> shown (ts_world s') = (shown (ts_world s))(nd_guid d \<mapsto> modify_shown d x)))"
  proof (cases "TrayIcon_IsOwnerThread A (ts_icon s) \<and> ti_state (ts_icon s) = Tray_added")
    case True
    then have "ShellNotify A NIM_MODIFY d s = (b, s')"
      using assms(2) by (simp add: TrayIcon_Modify_def TrayIcon_ValidateThread_def Tray_CanModify_def)
    from shell_okD [OF assms(1) this] show ?thesis by auto
  next
    case False
    then show ?thesis using assms(2)
      by (auto simp: TrayIcon_Modify_def TrayIcon_ValidateThread_def Tray_CanModify_def tray_ops split: if_splits)
  qed
  then show "ts_icon s' = ts_icon s" and "\<not> b \<Longrightarrow> shown (ts_world s') = shown (ts_world s)"
    and "b \<Longrightarrow> \<exists>x. shown (ts_world s) (nd_guid d) = Some x \<and> shown (ts_world s') = (shown (ts_world s))(nd_guid d \<mapsto> modify_shown d x)"
    by auto
qed

text \<open>A change that the shell accepts is recorded as the shell records it.\<close>

lemma tray_inv_modify:
  assumes "shell_ok A shown" and "tray_inv shown (fresh, s)" and "modify_options A d f s = (b, s')"
    and "nd_guid d = to_identity (ti_options (ts_icon s))"
    and "\<And>opts. to_identity (f opts) = to_identity opts \<and> options_shown (f opts) = modify_shown d (options_shown opts)"
    and "\<And>opts. length (to_tooltip opts) < tip_size \<Longrightarrow> length (to_tooltip (f opts)) < tip_size"
  shows "tray_inv shown (fresh, s')"
proof -
  obtain s1 where m: "TrayIcon_Modify A d s = (b, s1)"
    "s' = (if b then map_icon (\<lambda>t. t\<lparr>ti_options := f (ti_options t)\<rparr>) s1 else s1)"
    using assms(3) by (auto simp: modify_options_def split: prod.splits bool.splits)
  note parts = TrayIcon_Modify_cases [OF assms(1) m(1)]
  show ?thesis
  proof (cases b)
    case True
    with parts(1,3) m(2) assms(2,4-6) show ?thesis by (auto simp: tray_inv_def in_sync_def map_icon_def)
  next
    case False
    with parts(1,2) m(2) assms(2) show ?thesis by (simp add: tray_inv_def in_sync_def)
  qed
qed

lemma tray_inv_step:
  assumes "shell_ok A shown" and "tray_inv shown (fresh, s)"
  shows "tray_inv shown (snd (tray_step A (fresh, s) x))"
proof (cases x)
  case (Tray_op_UpdateTooltip t)
  obtain b s' where m: "modify_options A ((TrayIcon_BaseData (ts_icon s))\<lparr>nd_tip := Some t\<rparr>) (\<lambda>opts. opts\<lparr>to_tooltip := t\<rparr>) s = (b, s')"
    by fastforce
  have "tray_inv shown (fresh, s')" if "length t < tip_size"
    by (rule tray_inv_modify [OF assms m]) (use that in \<open>simp_all add: TrayIcon_BaseData_def options_shown_def\<close>)
  then show ?thesis using assms(2) m
    by (auto simp: Tray_op_UpdateTooltip TrayIcon_UpdateTooltip_def tray_inv_def in_sync_def set_error_def)
next
  case (Tray_op_UpdateIcon i)
  obtain b s' where m: "modify_options A ((TrayIcon_BaseData (ts_icon s))\<lparr>nd_icon := Some i\<rparr>) (\<lambda>opts. opts\<lparr>to_icon := i\<rparr>) s = (b, s')"
    by fastforce
  have "tray_inv shown (fresh, s')"
    by (rule tray_inv_modify [OF assms m]) (simp_all add: TrayIcon_BaseData_def options_shown_def)
  then show ?thesis using assms(2) m
    by (auto simp: Tray_op_UpdateIcon TrayIcon_UpdateIcon_def tray_inv_def in_sync_def set_error_def)
next
  case (Tray_op_SetVisible v)
  obtain b s' where m: "modify_options A ((TrayIcon_BaseData (ts_icon s))\<lparr>nd_hidden := Some (\<not> v)\<rparr>) (\<lambda>opts. opts\<lparr>to_hidden := \<not> v\<rparr>) s = (b, s')"
    by fastforce
  have "tray_inv shown (fresh, s')"
    by (rule tray_inv_modify [OF assms m]) (simp_all add: TrayIcon_BaseData_def options_shown_def)
  then show ?thesis using m by (simp add: Tray_op_SetVisible TrayIcon_SetVisible_def)
next
  case (Tray_op_ShowNotification n)
  let ?d = "(TrayIcon_BaseData (ts_icon s))\<lparr>nd_info := Some (tn_title n, tn_text n,
    if tn_respect_quiet_time n then tn_flags n OR NIIF_RESPECT_QUIET_TIME else tn_flags n)\<rparr>"
  obtain b s' where m: "TrayIcon_Modify A ?d s = (b, s')" by fastforce
  then have "modify_options A ?d id s = (b, s')" by (simp add: modify_options_def map_icon_def split: bool.split)
  then have "tray_inv shown (fresh, s')"
    by (rule tray_inv_modify [OF assms]) (simp_all add: TrayIcon_BaseData_def options_shown_def)
  then show ?thesis using assms(2) m
    by (auto simp: Tray_op_ShowNotification TrayIcon_ShowNotification_def tray_inv_def in_sync_def set_error_def)
next
  case Tray_op_Remove
  then show ?thesis using assms(2)
    by (auto simp: TrayIcon_Remove_def tray_inv_def TrayIcon_new_def Tray_CanRecreate_def map_icon_def)
next
  case (Tray_op_Add opts)
  then show ?thesis using tray_inv_add [OF assms] by simp
next
  case Tray_op_Recreate
  then show ?thesis using tray_inv_recreate [OF assms] by simp
qed (use assms(2) in \<open>simp add: tray_inv_def\<close>)

interpretation tray_machine: machine "tray_step A" "\<lambda>s. shell_ok A shown \<and> tray_inv shown s" for A shown
  by unfold_locales (use tray_inv_step in \<open>force\<close>)

text \<open>The shell shows what the icon says.  After any sequence of operations on a new icon, with any of them failing and
  with restarts of the shell in between, an icon that counts as added and was registered after the last
  restart is shown with exactly the callback message, image, tooltip and visibility of its options.\<close>

theorem tray_icon_shows_options:
  assumes "shell_ok A shown" and "run_ops (tray_step A) (fresh, \<lparr>ts_icon = TrayIcon_new, ts_last_error = e, ts_world = w\<rparr>) xs = (True, s)"
    and "ti_state (ts_icon s) = Tray_added"
  shows "shown (ts_world s) (to_identity (ti_options (ts_icon s))) =
    Some (to_callback_message (ti_options (ts_icon s)), to_icon (ti_options (ts_icon s)),
      to_tooltip (ti_options (ts_icon s)), to_hidden (ti_options (ts_icon s)))"
proof -
  have "tray_inv shown (fresh, \<lparr>ts_icon = TrayIcon_new, ts_last_error = e, ts_world = w\<rparr>)"
    by (simp add: tray_inv_def TrayIcon_new_def)
  from tray_machine.run_inv [OF conjI [OF assms(1) this], of xs] assms(2,3) show ?thesis
    by (simp add: tray_inv_def in_sync_def options_shown_def)
qed

text \<open>A shell whose state is what it shows.\<close>

definition memory_shell :: "(128 word \<Rightarrow> nat shown_icon option, nat) tray_api" where
  "memory_shell = \<lparr>tr_is_window = (\<lambda>_ _. True), tr_current_thread = 7,
    tr_notify = (\<lambda>op d w. case op of
        NIM_ADD \<Rightarrow> (case (w (nd_guid d), nd_message d, nd_icon d, nd_tip d, nd_hidden d) of
            (None, Some m, Some i, Some t, Some h) \<Rightarrow> (True, 0, w(nd_guid d \<mapsto> (m, i, t, h)))
          | _ \<Rightarrow> (False, 0, w))
      | NIM_MODIFY \<Rightarrow> (case w (nd_guid d) of None \<Rightarrow> (False, 0, w) | Some x \<Rightarrow> (True, 0, w(nd_guid d \<mapsto> modify_shown d x)))
      | NIM_DELETE \<Rightarrow> (w (nd_guid d) \<noteq> None, 0, w(nd_guid d := None))
      | NIM_SETVERSION \<Rightarrow> (True, 0, w)),
    tr_taskbar_created = 0xC001\<rparr>"

lemma memory_shell_ok: "shell_ok memory_shell (\<lambda>w. w)"
proof -
  have "w(g := None) = w" if "w g = None" for w :: "128 word \<Rightarrow> nat shown_icon option" and g using that by auto
  then show ?thesis
    by (auto simp: shell_ok_def memory_shell_def split: notify_operation.splits option.splits)
qed

definition example_icon :: "nat TrayIconOptions" where
  "example_icon = \<lparr>to_owner = Some 3, to_id = 1, to_callback_message = 0x8001, to_identity = 42, to_icon = Some 4,
    to_tooltip = lit ''mwfl'', to_hidden = False\<rparr>"

definition example_tray :: "nat TrayIconOptions \<Rightarrow> TrayIconState \<Rightarrow> u32 \<Rightarrow> (128 word \<Rightarrow> nat shown_icon option)
    \<Rightarrow> (128 word \<Rightarrow> nat shown_icon option, nat) tray_state" where
  "example_tray opts state thread w =
    \<lparr>ts_icon = \<lparr>ti_options = opts, ti_state = state, ti_owner_thread = thread\<rparr>, ts_last_error = 0, ts_world = w\<rparr>"

lemma example_tray_ops [simp]:
  "with_state f (example_tray opts state thread w) = example_tray opts (snd (f state)) thread w"
  "ts_icon (example_tray opts state thread w) = \<lparr>ti_options = opts, ti_state = state, ti_owner_thread = thread\<rparr>"
  "map_icon (\<lambda>t. t\<lparr>ti_options := opts', ti_owner_thread := thread'\<rparr>) (example_tray opts state thread w) =
    example_tray opts' state thread' w"
  "ts_world (example_tray opts state thread w) = w"
  "(example_tray opts state thread w)\<lparr>ts_world := w'\<rparr> = example_tray opts state thread w'"
  "ts_last_error (example_tray opts state thread w) = 0"
  by (simp_all add: example_tray_def with_state_def map_icon_def)

lemma example_notify:
  "ShellNotify memory_shell NIM_SETVERSION d (example_tray opts state thread w) = (True, example_tray opts state thread w)"
  "w (nd_guid d) = None \<Longrightarrow> nd_message d \<noteq> None \<Longrightarrow> nd_icon d \<noteq> None \<Longrightarrow> nd_tip d \<noteq> None \<Longrightarrow> nd_hidden d \<noteq> None \<Longrightarrow>
    ShellNotify memory_shell NIM_ADD d (example_tray opts state thread w) = (True, example_tray opts state thread
      (w(nd_guid d \<mapsto> (the (nd_message d), the (nd_icon d), the (nd_tip d), the (nd_hidden d)))))"
  "w (nd_guid d) = Some x \<Longrightarrow> ShellNotify memory_shell NIM_MODIFY d (example_tray opts state thread w)
      = (True, example_tray opts state thread (w(nd_guid d \<mapsto> modify_shown d x)))"
  by (auto simp: ShellNotify_def memory_shell_def example_tray_def ERROR_SUCCESS_def)

lemma example_add:
  assumes "w 42 = None"
  shows "TrayIcon_AddNative memory_shell (example_tray example_icon Tray_recovery_pending 7 w)
    = (True, example_tray example_icon Tray_added 7 (w(42 \<mapsto> (0x8001, Some 4, lit ''mwfl'', False))))"
proof -
  have "TrayIcon_IsOwnerThread memory_shell \<lparr>ti_options = example_icon, ti_state = Tray_recovery_pending, ti_owner_thread = 7\<rparr>"
    by (simp add: TrayIcon_IsOwnerThread_def memory_shell_def)
  then show ?thesis using assms
    by (simp add: TrayIcon_AddNative_def TrayIcon_ValidateThread_def example_notify Let_def Tray_RegistrationSucceeded_def
        TrayIcon_BaseData_def tip_size_def example_icon_def [THEN arg_cong [where f = to_tooltip]]
        example_icon_def [THEN arg_cong [where f = to_identity]] example_icon_def [THEN arg_cong [where f = to_callback_message]]
        example_icon_def [THEN arg_cong [where f = to_icon]] example_icon_def [THEN arg_cong [where f = to_hidden]])
qed

theorem tray_icon_shows_options_witness:
  "\<exists>s. run_ops (tray_step memory_shell) (False, example_tray TrayIconOptions_new Tray_detached 0 (\<lambda>_. None)) [Tray_op_Add example_icon] = (True, s)
    \<and> ts_world s 42 = Some (0x8001, Some 4, lit ''mwfl'', False)"
proof -
  have "valid_options memory_shell example_icon (\<lambda>_. None)"
    by (simp add: valid_options_def memory_shell_def example_icon_def WM_APP_def tip_size_def)
  moreover have "tr_current_thread memory_shell = 7" by (simp add: memory_shell_def)
  ultimately have "TrayIcon_Add memory_shell example_icon (example_tray TrayIconOptions_new Tray_detached 0 (\<lambda>_. None))
      = (True, example_tray example_icon Tray_added 7 ((\<lambda>_. None)(42 \<mapsto> (0x8001, Some 4, lit ''mwfl'', False))))"
    using example_add [of "\<lambda>_. None"] by (simp add: TrayIcon_Add_def Tray_CanAdd_def Tray_BeginAdd_def Let_def)
  then have run: "run_ops (tray_step memory_shell) (False, \<lparr>ts_icon = TrayIcon_new, ts_last_error = 0, ts_world = (\<lambda>_. None)\<rparr>)
      [Tray_op_Add example_icon] = (True, example_tray example_icon Tray_added 7 ((\<lambda>_. None)(42 \<mapsto> (0x8001, Some 4, lit ''mwfl'', False))))"
    by (simp add: registering_def example_tray_def TrayIcon_new_def)
  from tray_icon_shows_options [OF memory_shell_ok run] run show ?thesis
    by (simp add: example_icon_def example_tray_def TrayIcon_new_def)
qed

text \<open>After a restart of the shell, a registration that the shell accepts brings the icon back as it was.\<close>

lemma recreate_restores_icon:
  assumes "shell_ok A shown" and "tray_inv shown (fresh, s)" and "ti_state (ts_icon s) \<noteq> Tray_detached"
    and "TrayIcon_IsOwnerThread A (ts_icon s)" and "\<And>d w. fst (tr_notify A NIM_ADD d w)" and "\<And>d w. fst (tr_notify A NIM_SETVERSION d w)"
  shows "\<exists>s'. TrayIcon_Recreate A s = (True, s') \<and> ti_options (ts_icon s') = ti_options (ts_icon s) \<and> in_sync shown s'"
proof -
  obtain b1 s1 where deleted: "ShellNotify A NIM_DELETE (TrayIcon_BaseData (ts_icon s)) s = (b1, s1)" by fastforce
  let ?s = "with_state Tray_BeginRecovery s1"
  obtain b s2 where add: "TrayIcon_AddNative A ?s = (b, s2)" by fastforce
  have same: "ts_icon s1 = ts_icon s" using shell_okD(1) [OF assms(1) deleted] .
  then have icon: "ti_state (ts_icon ?s) = Tray_recovery_pending" "ti_options (ts_icon ?s) = ti_options (ts_icon s)"
    "ti_owner_thread (ts_icon ?s) = ti_owner_thread (ts_icon s)" using assms(3) by (simp_all add: tray_ops)
  have "length (to_tooltip (ti_options (ts_icon s))) < tip_size" using assms(2,3) by (simp add: tray_inv_def)
  moreover have "fst (ShellNotify A NIM_ADD d w)" "fst (ShellNotify A NIM_SETVERSION d w)" for d w
    using assms(5,6) by (simp_all add: ShellNotify_def split: prod.split) (metis fst_conv)+
  ultimately have "fst (TrayIcon_AddNative A ?s)"
    using assms(4) icon(2,3) by (simp add: TrayIcon_AddNative_def TrayIcon_ValidateThread_def TrayIcon_IsOwnerThread_def Let_def
        split: prod.split bool.split) (metis fst_conv)
  then have b using add by simp
  moreover have "TrayIcon_Recreate A s = (b, s2)"
    using assms(3,4) deleted add by (simp add: TrayIcon_Recreate_def TrayIcon_ValidateThread_def Tray_CanRecreate_def)
  ultimately show ?thesis using AddNative_cases(1,2) [OF assms(1) add icon(1)] icon(2) by auto
qed

end
