(* ===== verification/Selection.thy ===== *)
theory Selection
  imports Foundation
begin

text \<open>
  Typed values behind the labels of a list control (\<open>selection.h\<close>) and filling controls from ranges
  (\<open>control_batch.h\<close>).  The control is a parameter; indices are \<open>int\<close>s, negative on failure, and the last
  error of the thread is part of the state.  Failing allocations are not modelled.
\<close>

record 'w list_control =
  lc_add :: "wstring \<Rightarrow> 'w \<Rightarrow> int \<times> 'w"
  lc_count :: "'w \<Rightarrow> int"
  lc_selected :: "'w \<Rightarrow> int option"
  lc_select :: "int \<Rightarrow> 'w \<Rightarrow> bool \<times> 'w"
  lc_remove :: "int \<Rightarrow> 'w \<Rightarrow> bool \<times> 'w"
  lc_clear :: "'w \<Rightarrow> bool \<times> 'w"

section \<open>The adapter\<close>

record 'v SelectionEntry =
  se_label :: wstring
  se_value :: 'v

text \<open>The entries of the adapter, the last error, and the system with the control.\<close>

record ('w, 'v) selection_state =
  sa_entries :: "'v SelectionEntry list"
  sa_error :: dword
  sa_world :: 'w

definition ERROR_INVALID_INDEX :: dword where "ERROR_INVALID_INDEX = 1413"

definition Selection_Add ::
  "'w list_control \<Rightarrow> wstring \<Rightarrow> 'v \<Rightarrow> ('w, 'v) selection_state \<Rightarrow> bool \<times> ('w, 'v) selection_state" where
  "Selection_Add C label v s =
    (if lc_count C (sa_world s) \<noteq> int (length (sa_entries s)) then (False, s\<lparr>sa_error := ERROR_INVALID_STATE\<rparr>)
     else case lc_add C label (sa_world s) of (index, w) \<Rightarrow>
       if index < 0 then (False, s\<lparr>sa_world := w\<rparr>)
       else if index \<noteq> int (length (sa_entries s))
       then (False, s\<lparr>sa_error := ERROR_INVALID_DATA, sa_world := snd (lc_remove C index w)\<rparr>)
       else (True, s\<lparr>sa_entries := sa_entries s @ [\<lparr>se_label = label, se_value = v\<rparr>], sa_world := w\<rparr>))"

definition Selection_Remove ::
  "'w list_control \<Rightarrow> nat \<Rightarrow> ('w, 'v) selection_state \<Rightarrow> bool \<times> ('w, 'v) selection_state" where
  "Selection_Remove C index s =
    (if length (sa_entries s) \<le> index then (False, s\<lparr>sa_error := ERROR_INVALID_INDEX\<rparr>)
     else case lc_remove C (int index) (sa_world s) of
       (False, w) \<Rightarrow> (False, s\<lparr>sa_world := w\<rparr>)
     | (True, w) \<Rightarrow> (True, s\<lparr>sa_entries := erase_at index (sa_entries s), sa_world := w\<rparr>))"

definition Selection_Clear :: "'w list_control \<Rightarrow> ('w, 'v) selection_state \<Rightarrow> bool \<times> ('w, 'v) selection_state" where
  "Selection_Clear C s =
    (case lc_clear C (sa_world s) of
       (False, w) \<Rightarrow> (False, s\<lparr>sa_world := w\<rparr>)
     | (True, w) \<Rightarrow> (True, s\<lparr>sa_entries := [], sa_world := w\<rparr>))"

definition Selection_Select ::
  "'w list_control \<Rightarrow> nat \<Rightarrow> ('w, 'v) selection_state \<Rightarrow> bool \<times> ('w, 'v) selection_state" where
  "Selection_Select C index s =
    (if length (sa_entries s) \<le> index then (False, s\<lparr>sa_error := ERROR_INVALID_INDEX\<rparr>)
     else case lc_select C (int index) (sa_world s) of (r, w) \<Rightarrow> (r, s\<lparr>sa_world := w\<rparr>))"

definition Selection_SelectValue ::
  "'w list_control \<Rightarrow> 'v \<Rightarrow> ('w, 'v) selection_state \<Rightarrow> bool \<times> ('w, 'v) selection_state" where
  "Selection_SelectValue C v s =
    (case find_index (\<lambda>e. se_value e = v) (sa_entries s) of
       Some k \<Rightarrow> Selection_Select C k s
     | None \<Rightarrow> (False, s\<lparr>sa_error := ERROR_NOT_FOUND\<rparr>))"

definition Selection_GetSelectedValue :: "'w list_control \<Rightarrow> ('w, 'v) selection_state \<Rightarrow> 'v option" where
  "Selection_GetSelectedValue C s =
    (case lc_selected C (sa_world s) of
       None \<Rightarrow> None
     | Some i \<Rightarrow> if i < 0 \<or> length (sa_entries s) \<le> nat i then None else Some (se_value (sa_entries s ! nat i)))"

definition Selection_Get :: "nat \<Rightarrow> ('w, 'v) selection_state \<Rightarrow> 'v SelectionEntry option" where
  "Selection_Get index s = (if index < length (sa_entries s) then Some (sa_entries s ! index) else None)"

definition Selection_IsSynchronized :: "'w list_control \<Rightarrow> ('w, 'v) selection_state \<Rightarrow> bool" where
  "Selection_IsSynchronized C s \<longleftrightarrow> lc_count C (sa_world s) = int (length (sa_entries s))"

section \<open>Batches\<close>

record BatchResult =
  br_completed :: nat
  br_failed_at :: int
  br_native_result :: int

definition BatchResult_Success :: "nat \<Rightarrow> BatchResult" where
  "BatchResult_Success n = \<lparr>br_completed = n, br_failed_at = - 1, br_native_result = 0\<rparr>"

definition BatchResult_Failure :: "nat \<Rightarrow> int \<Rightarrow> BatchResult" where
  "BatchResult_Failure n r = \<lparr>br_completed = n, br_failed_at = int n, br_native_result = r\<rparr>"

definition BatchResult_Succeeded :: "BatchResult \<Rightarrow> bool" where
  "BatchResult_Succeeded b \<longleftrightarrow> br_failed_at b < 0"

text \<open>A loop over calls that return an index or a negative number.\<close>

fun add_each :: "('x \<Rightarrow> 'w \<Rightarrow> int \<times> 'w) \<Rightarrow> nat \<Rightarrow> 'x list \<Rightarrow> 'w \<Rightarrow> BatchResult \<times> 'w" where
  "add_each f completed [] w = (BatchResult_Success completed, w)"
| "add_each f completed (x # xs) w =
    (case f x w of (result, w1) \<Rightarrow>
      if result < 0 then (BatchResult_Failure completed result, w1) else add_each f (Suc completed) xs w1)"

definition AddItems :: "'w list_control \<Rightarrow> wstring list \<Rightarrow> 'w \<Rightarrow> BatchResult \<times> 'w" where
  "AddItems C items w = add_each (lc_add C) 0 items w"

record ColumnSpec =
  col_text :: wstring
  col_width_pixels :: int
  col_index :: int

definition AddColumns :: "(wstring \<Rightarrow> int \<Rightarrow> int \<Rightarrow> 'w \<Rightarrow> int \<times> 'w) \<Rightarrow> ColumnSpec list \<Rightarrow> 'w \<Rightarrow> BatchResult \<times> 'w" where
  "AddColumns add columns w = add_each (\<lambda>c. add (col_text c) (col_width_pixels c) (col_index c)) 0 columns w"

definition AddTabs :: "(wstring \<Rightarrow> 'w \<Rightarrow> int \<times> 'w) \<Rightarrow> wstring list \<Rightarrow> 'w \<Rightarrow> BatchResult \<times> 'w" where
  "AddTabs add tabs w = add_each add 0 tabs w"

text \<open>A loop over calls that succeed or leave an error; without one the result is -1.\<close>

fun call_each :: "('x \<Rightarrow> 'w \<Rightarrow> bool \<times> dword \<times> 'w) \<Rightarrow> nat \<Rightarrow> 'x list \<Rightarrow> 'w \<Rightarrow> BatchResult \<times> 'w" where
  "call_each f completed [] w = (BatchResult_Success completed, w)"
| "call_each f completed (x # xs) w =
    (case f x w of (succeeded, e, w1) \<Rightarrow>
      if \<not> succeeded then (BatchResult_Failure completed (if e = ERROR_SUCCESS then - 1 else uint e), w1)
      else call_each f (Suc completed) xs w1)"

definition AddButtons :: "(u32 \<Rightarrow> wstring \<Rightarrow> 'w \<Rightarrow> bool \<times> dword \<times> 'w) \<Rightarrow> (u32 \<times> wstring) list \<Rightarrow> 'w \<Rightarrow> BatchResult \<times> 'w" where
  "AddButtons add buttons w = call_each (\<lambda>(command, label). add command label) 0 buttons w"

definition SetPartTexts :: "(int \<Rightarrow> wstring \<Rightarrow> 'w \<Rightarrow> bool \<times> dword \<times> 'w) \<Rightarrow> (int \<times> wstring) list \<Rightarrow> 'w \<Rightarrow> BatchResult \<times> 'w" where
  "SetPartTexts set_text parts w = call_each (\<lambda>(part, label). set_text part label) 0 parts w"

section \<open>Controls that keep their contract\<close>

text \<open>
  A list of labels: adding inserts at the returned place, the end or, in a sorted control, anywhere;
  an item that exists can be removed.
\<close>

definition control_ok :: "'w list_control \<Rightarrow> ('w \<Rightarrow> wstring list) \<Rightarrow> bool" where
  "control_ok C items \<longleftrightarrow>
    (\<forall>w. lc_count C w = int (length (items w))) \<and>
    (\<forall>label w i w'. lc_add C label w = (i, w') \<longrightarrow>
      (if i < 0 then items w' = items w else nat i \<le> length (items w) \<and> items w' = insert_at (nat i) label (items w))) \<and>
    (\<forall>i w b w'. lc_remove C i w = (b, w') \<longrightarrow>
      (if b then 0 \<le> i \<and> nat i < length (items w) \<and> items w' = erase_at (nat i) (items w) else items w' = items w)
      \<and> (0 \<le> i \<and> nat i < length (items w) \<longrightarrow> b)) \<and>
    (\<forall>w b w'. lc_clear C w = (b, w') \<longrightarrow> items w' = (if b then [] else items w)) \<and>
    (\<forall>i w b w'. lc_select C i w = (b, w') \<longrightarrow> items w' = items w \<and> (b \<longrightarrow> lc_selected C w' = Some i))"

lemma control_ok_parts:
  assumes "control_ok C items"
  shows "\<forall>w. lc_count C w = int (length (items w))"
    and "\<forall>label w i w'. lc_add C label w = (i, w') \<longrightarrow>
      (if i < 0 then items w' = items w else nat i \<le> length (items w) \<and> items w' = insert_at (nat i) label (items w))"
    and "\<forall>i w b w'. lc_remove C i w = (b, w') \<longrightarrow>
      (if b then 0 \<le> i \<and> nat i < length (items w) \<and> items w' = erase_at (nat i) (items w) else items w' = items w)
      \<and> (0 \<le> i \<and> nat i < length (items w) \<longrightarrow> b)"
    and "\<forall>w b w'. lc_clear C w = (b, w') \<longrightarrow> items w' = (if b then [] else items w)"
    and "\<forall>i w b w'. lc_select C i w = (b, w') \<longrightarrow> items w' = items w \<and> (b \<longrightarrow> lc_selected C w' = Some i)"
  using assms unfolding control_ok_def by - (elim conjE, assumption)+

lemmas control_okD = control_ok_parts [rule_format]

definition labels_agree :: "('w \<Rightarrow> wstring list) \<Rightarrow> ('w, 'v) selection_state \<Rightarrow> bool" where
  "labels_agree items s \<longleftrightarrow> map se_label (sa_entries s) = items (sa_world s)"

datatype 'v selection_op =
    Sel_Add wstring 'v
  | Sel_Remove nat
  | Sel_Clear
  | Sel_Select nat
  | Sel_SelectValue 'v

fun selection_step ::
  "'w list_control \<Rightarrow> ('w, 'v) selection_state \<Rightarrow> 'v selection_op \<Rightarrow> bool \<times> ('w, 'v) selection_state" where
  "selection_step C s (Sel_Add label v) = Selection_Add C label v s"
| "selection_step C s (Sel_Remove i) = Selection_Remove C i s"
| "selection_step C s Sel_Clear = Selection_Clear C s"
| "selection_step C s (Sel_Select i) = Selection_Select C i s"
| "selection_step C s (Sel_SelectValue v) = Selection_SelectValue C v s"

lemma insert_at_end: "insert_at (length xs) x xs = xs @ [x]"
  by (simp add: insert_at_def)

lemma labels_agree_add:
  assumes "control_ok C items" and "labels_agree items s"
  shows "labels_agree items (snd (Selection_Add C label v s))"
proof -
  note ok = control_okD [OF assms(1)]
  have len: "length (items (sa_world s)) = length (sa_entries s)" using assms(2) by (metis labels_agree_def length_map)
  obtain i w where add: "lc_add C label (sa_world s) = (i, w)" by fastforce
  note added = ok(2) [OF add]
  consider "i < 0" | "i = int (length (sa_entries s))" | "0 \<le> i" "i \<noteq> int (length (sa_entries s))" by linarith
  then show ?thesis
  proof cases
    case 1
    then show ?thesis using assms(2) added by (simp add: Selection_Add_def add labels_agree_def)
  next
    case 2
    then show ?thesis using assms(2) added len [symmetric]
      by (simp add: Selection_Add_def add labels_agree_def insert_at_end)
  next
    case 3
    obtain b w' where removed: "lc_remove C i w = (b, w')" by fastforce
    have "nat i \<le> length (items (sa_world s))" "items w = insert_at (nat i) label (items (sa_world s))" using added 3(1) by simp_all
    with ok(3) [OF removed] 3(1) have "items w' = items (sa_world s)" by (auto split: if_splits)
    then show ?thesis using assms(2) 3 by (simp add: Selection_Add_def add removed labels_agree_def)
  qed
qed

lemma labels_agree_select: "control_ok C items \<Longrightarrow> labels_agree items s \<Longrightarrow> labels_agree items (snd (Selection_Select C i s))"
  using control_okD(5) [of C items "int i" "sa_world s"] by (auto simp: Selection_Select_def labels_agree_def split: prod.split)

lemma labels_agree_step:
  assumes "control_ok C items" and "labels_agree items s"
  shows "labels_agree items (snd (selection_step C s x))"
proof (cases x)
  case (Sel_Remove i)
  then show ?thesis using assms control_okD(3) [OF assms(1), of "int i" "sa_world s"]
    by (auto simp: Selection_Remove_def labels_agree_def map_erase_at split: prod.split bool.split)
next
  case Sel_Clear
  then show ?thesis using assms control_okD(4) [OF assms(1), of "sa_world s"]
    by (auto simp: Selection_Clear_def labels_agree_def split: prod.split bool.split)
next
  case (Sel_SelectValue v)
  then show ?thesis using assms labels_agree_select by (auto simp: Selection_SelectValue_def labels_agree_def split: option.split)
qed (use assms labels_agree_add labels_agree_select in auto)

interpretation selection_machine: machine "selection_step C" "\<lambda>s. control_ok C items \<and> labels_agree items s" for C items
  by unfold_locales (use labels_agree_step in blast)

text \<open>
  The control shows the labels of the adapter's entries after any operations, also when adding fails or a
  sorted control puts the label elsewhere, and selecting a value selects its label and reads the value back.
\<close>

theorem selection_stays_synchronized:
  assumes "control_ok C items" and "items w = []"
  shows "labels_agree items (run_ops (selection_step C) \<lparr>sa_entries = [], sa_error = 0, sa_world = w\<rparr> xs)"
  using selection_machine.run_inv [of C items "\<lparr>sa_entries = [], sa_error = 0, sa_world = w\<rparr>" xs] assms
  by (simp add: labels_agree_def)

theorem selected_value_is_read_back:
  assumes "control_ok C items" and "Selection_SelectValue C v s = (True, s')"
  shows "Selection_GetSelectedValue C s' = Some v"
proof -
  obtain k where k: "find_index (\<lambda>e. se_value e = v) (sa_entries s) = Some k" "Selection_Select C k s = (True, s')"
    using assms(2) by (auto simp: Selection_SelectValue_def split: option.splits)
  note K = find_indexD [OF k(1)]
  obtain w' where w': "lc_select C (int k) (sa_world s) = (True, w')" "s' = s\<lparr>sa_world := w'\<rparr>"
    using k(2) K(1) by (auto simp: Selection_Select_def split: prod.splits if_splits)
  have "lc_selected C w' = Some (int k)" using control_okD(5) [OF assms(1) w'(1)] by simp
  then show ?thesis using K w'(2) by (simp add: Selection_GetSelectedValue_def)
qed

text \<open>A batch stops at the first failure, and the control holds exactly the items that were completed.\<close>

lemma add_each_completes:
  "add_each f n xs w = (b, w') \<Longrightarrow> n \<le> br_completed b \<and> br_completed b - n \<le> length xs
    \<and> (BatchResult_Succeeded b \<longleftrightarrow> br_completed b = n + length xs)
    \<and> (\<not> BatchResult_Succeeded b \<longrightarrow> br_failed_at b = int (br_completed b) \<and> br_native_result b < 0)"
proof (induction xs arbitrary: n w)
  case Nil
  then show ?case by (auto simp: BatchResult_Success_def BatchResult_Succeeded_def)
next
  case (Cons x xs)
  obtain r w1 where x: "f x w = (r, w1)" by fastforce
  show ?case
  proof (cases "r < 0")
    case True
    with Cons.prems x show ?thesis by (auto simp: BatchResult_Failure_def BatchResult_Succeeded_def)
  next
    case False
    with Cons.prems x have "add_each f (Suc n) xs w1 = (b, w')" by simp
    from Cons.IH [OF this] show ?thesis by auto
  qed
qed

theorem batch_adds_prefix:
  assumes "control_ok C items" and "\<And>label w i w'. lc_add C label w = (i, w') \<Longrightarrow> 0 \<le> i \<Longrightarrow> i = int (length (items w))"
  shows "add_each (lc_add C) n xs w = (b, w') \<Longrightarrow> items w' = items w @ take (br_completed b - n) xs"
proof (induction xs arbitrary: n w)
  case Nil
  then show ?case by (auto simp: BatchResult_Success_def)
next
  case (Cons x xs)
  obtain r w1 where x: "lc_add C x w = (r, w1)" by fastforce
  note added = control_okD(2) [OF assms(1) x]
  show ?case
  proof (cases "r < 0")
    case True
    with Cons.prems x added show ?thesis by (auto simp: BatchResult_Failure_def)
  next
    case False
    with Cons.prems x have rest: "add_each (lc_add C) (Suc n) xs w1 = (b, w')" by simp
    have "items w1 = items w @ [x]" using added False assms(2) [OF x] by (simp add: insert_at_end)
    with Cons.IH [OF rest] add_each_completes [OF rest] show ?thesis by (simp add: take_Cons' Suc_diff_le)
  qed
qed

end
