(* ===== verification/Binding.thy ===== *)
theory Binding
  imports Foundation
begin

text \<open>
  Bindings of controls to values (\<open>binding.h\<close>): the gate that suppresses notifications, and the transfer of a
  value in both directions.  Readers, writers and validators are functions of the application; a writer works
  on the whole state, because the control it changes notifies its window, whose handler may read the binding
  again.  Exceptions of these functions are not modelled.
\<close>

record ValidationResult =
  vr_accepted :: bool
  vr_message :: wstring

definition ValidationResult_Accept :: ValidationResult where
  "ValidationResult_Accept = \<lparr>vr_accepted = True, vr_message = []\<rparr>"

definition ValidationResult_Reject :: "wstring \<Rightarrow> ValidationResult" where
  "ValidationResult_Reject message = \<lparr>vr_accepted = False, vr_message = message\<rparr>"

section \<open>The gate\<close>

record ChangeGate =
  gate_depth :: u32

definition ChangeGate_new :: ChangeGate where
  "ChangeGate_new = \<lparr>gate_depth = 0\<rparr>"

definition Token_acquire :: "ChangeGate \<Rightarrow> ChangeGate" where
  "Token_acquire g = g\<lparr>gate_depth := gate_depth g + 1\<rparr>"

definition Token_Release :: "bool \<Rightarrow> ChangeGate \<Rightarrow> bool \<times> ChangeGate" where
  "Token_Release owned g = (False, if owned then g\<lparr>gate_depth := gate_depth g - 1\<rparr> else g)"

definition ChangeGate_IsSuppressed :: "ChangeGate \<Rightarrow> bool" where
  "ChangeGate_IsSuppressed g \<longleftrightarrow> gate_depth g \<noteq> 0"

section \<open>The binding\<close>

text \<open>The control, the value of the application, and the gate.\<close>

record ('c, 'v) binding_state =
  bind_control :: 'c
  bind_model :: 'v
  bind_gate :: ChangeGate

record ('c, 'v) ValueBinding =
  vb_reader :: "'c \<Rightarrow> 'v"
  vb_writer :: "'v \<Rightarrow> ('c, 'v) binding_state \<Rightarrow> bool \<times> ('c, 'v) binding_state"
  vb_validator :: "('v \<Rightarrow> ValidationResult) option"

definition map_gate :: "(ChangeGate \<Rightarrow> ChangeGate) \<Rightarrow> ('c, 'v) binding_state \<Rightarrow> ('c, 'v) binding_state" where
  "map_gate f s = s\<lparr>bind_gate := f (bind_gate s)\<rparr>"

definition ValueBinding_Push :: "('c, 'v) ValueBinding \<Rightarrow> ('c, 'v) binding_state \<Rightarrow> bool \<times> ('c, 'v) binding_state" where
  "ValueBinding_Push B s =
    (case vb_writer B (bind_model s) (map_gate Token_acquire s) of
       (r, s1) \<Rightarrow> (r, map_gate (\<lambda>g. snd (Token_Release True g)) s1))"

definition ValueBinding_Pull :: "('c, 'v) ValueBinding \<Rightarrow> ('c, 'v) binding_state \<Rightarrow> ValidationResult \<times> ('c, 'v) binding_state" where
  "ValueBinding_Pull B s =
    (if ChangeGate_IsSuppressed (bind_gate s) then (ValidationResult_Accept, s)
     else let candidate = vb_reader B (bind_control s);
              result = (case vb_validator B of None \<Rightarrow> ValidationResult_Accept | Some validate \<Rightarrow> validate candidate)
       in (result, if vr_accepted result then s\<lparr>bind_model := candidate\<rparr> else s))"

definition ValueBinding_IsSuppressed :: "('c, 'v) binding_state \<Rightarrow> bool" where
  "ValueBinding_IsSuppressed s \<longleftrightarrow> ChangeGate_IsSuppressed (bind_gate s)"

definition BindText ::
  "('c \<Rightarrow> wstring) \<Rightarrow> (wstring \<Rightarrow> ('c, wstring) binding_state \<Rightarrow> bool \<times> ('c, wstring) binding_state)
    \<Rightarrow> (wstring \<Rightarrow> ValidationResult) option \<Rightarrow> ('c, wstring) ValueBinding" where
  "BindText get_text set_text validator = \<lparr>vb_reader = get_text, vb_writer = set_text, vb_validator = validator\<rparr>"

definition BindChecked ::
  "('c \<Rightarrow> bool) \<Rightarrow> (bool \<Rightarrow> ('c, bool) binding_state \<Rightarrow> ('c, bool) binding_state) \<Rightarrow> ('c, bool) ValueBinding" where
  "BindChecked is_checked set_checked =
    \<lparr>vb_reader = is_checked, vb_writer = (\<lambda>checked s. (True, set_checked checked s)), vb_validator = None\<rparr>"

definition BindSelection ::
  "('c \<Rightarrow> int) \<Rightarrow> (int \<Rightarrow> ('c, int) binding_state \<Rightarrow> bool \<times> ('c, int) binding_state) \<Rightarrow> ('c, int) ValueBinding" where
  "BindSelection get_selection set_selection =
    \<lparr>vb_reader = get_selection, vb_writer = set_selection, vb_validator = None\<rparr>"

section \<open>Writers that notify\<close>

text \<open>What a writer may do: change the control, and let handlers pull or hold the gate for a while.\<close>

datatype 'c writer_action =
    Writer_control 'c
  | Writer_pull
  | Writer_suppress
  | Writer_release

fun writer_step :: "('c, 'v) ValueBinding \<Rightarrow> ('c, 'v) binding_state \<Rightarrow> 'c writer_action \<Rightarrow> ValidationResult \<times> ('c, 'v) binding_state" where
  "writer_step B s (Writer_control c) = (ValidationResult_Accept, s\<lparr>bind_control := c\<rparr>)"
| "writer_step B s Writer_pull = ValueBinding_Pull B s"
| "writer_step B s Writer_suppress = (ValidationResult_Accept, map_gate Token_acquire s)"
| "writer_step B s Writer_release = (ValidationResult_Accept, map_gate (\<lambda>g. snd (Token_Release True g)) s)"

text \<open>Tokens that are taken are given back, none that was not taken: the extra depth along the actions.\<close>

fun tokens_balanced :: "nat \<Rightarrow> 'c writer_action list \<Rightarrow> bool" where
  "tokens_balanced n [] \<longleftrightarrow> n = 0"
| "tokens_balanced n (Writer_suppress # xs) \<longleftrightarrow> n < 1000 \<and> tokens_balanced (Suc n) xs"
| "tokens_balanced n (Writer_release # xs) \<longleftrightarrow> n > 0 \<and> tokens_balanced (n - 1) xs"
| "tokens_balanced n (_ # xs) \<longleftrightarrow> tokens_balanced n xs"

definition writer_ok :: "('c, 'v) ValueBinding \<Rightarrow> bool" where
  "writer_ok B \<longleftrightarrow> (\<forall>v s. \<exists>xs. tokens_balanced 0 xs \<and> snd (vb_writer B v s) = run_ops (writer_step B) s xs)"

lemma depth_not_zero:
  assumes "n \<le> 1000"
  shows "(of_nat (Suc n) :: u32) \<noteq> 0"
proof -
  have "Suc n < 2 ^ 32" using assms by simp
  then have "unat (of_nat (Suc n) :: u32) = Suc n" by (intro of_nat_inverse [OF refl]) simp
  then show ?thesis by auto
qed

lemma gate_suppressed:
  "gate_depth (bind_gate s) = 1 + of_nat n \<Longrightarrow> n \<le> 1000 \<Longrightarrow> ChangeGate_IsSuppressed (bind_gate s)"
  using depth_not_zero [of n] by (simp add: ChangeGate_IsSuppressed_def)

lemma gate_step [simp]:
  "gate_depth (Token_acquire g) = gate_depth g + 1"
  "gate_depth (snd (Token_Release True g)) = gate_depth g - 1"
  by (simp_all add: Token_acquire_def Token_Release_def)

lemma writer_keeps_model:
  assumes "tokens_balanced n xs" and "n \<le> 1000" and "gate_depth (bind_gate s) = of_nat (Suc n)"
  shows "bind_model (run_ops (writer_step B) s xs) = bind_model s
    \<and> gate_depth (bind_gate (run_ops (writer_step B) s xs)) = 1"
  using assms
proof (induction n xs arbitrary: s rule: tokens_balanced.induct)
  case (3 n xs)
  then obtain m where "n = Suc m" by (cases n) auto
  with 3 show ?case by (simp add: map_gate_def)
qed (auto simp: map_gate_def add.commute ValueBinding_Pull_def dest: gate_suppressed)

text \<open>
  Pushing does not change the value of the application although the control notifies its handlers, which
  read the binding, and it leaves the gate open.
\<close>

theorem push_keeps_model:
  assumes "writer_ok B" and "gate_depth (bind_gate s) = 0"
  shows "bind_model (snd (ValueBinding_Push B s)) = bind_model s"
    and "\<not> ValueBinding_IsSuppressed (snd (ValueBinding_Push B s))"
proof -
  obtain r s1 where w: "vb_writer B (bind_model s) (map_gate Token_acquire s) = (r, s1)" by fastforce
  obtain xs where xs: "tokens_balanced 0 xs" "s1 = run_ops (writer_step B) (map_gate Token_acquire s) xs"
    using assms(1) w unfolding writer_ok_def by (metis snd_conv)
  have "bind_model s1 = bind_model s \<and> gate_depth (bind_gate s1) = 1"
    using writer_keeps_model [OF xs(1), of "map_gate Token_acquire s" B] assms(2) unfolding xs(2) by (simp add: map_gate_def)
  with w show "bind_model (snd (ValueBinding_Push B s)) = bind_model s"
    and "\<not> ValueBinding_IsSuppressed (snd (ValueBinding_Push B s))"
    by (simp_all add: ValueBinding_Push_def map_gate_def ValueBinding_IsSuppressed_def ChangeGate_IsSuppressed_def)
qed

text \<open>What was pushed into a control that takes it is pulled back as it was.\<close>

theorem pull_returns_pushed_value:
  assumes "writer_ok B" and "gate_depth (bind_gate s) = 0" and "ValueBinding_Push B s = (True, s')"
    and takes: "\<And>v s s'. vb_writer B v s = (True, s') \<Longrightarrow> vb_reader B (bind_control s') = v"
  shows "bind_model (snd (ValueBinding_Pull B s')) = bind_model s"
proof -
  obtain s1 where w: "vb_writer B (bind_model s) (map_gate Token_acquire s) = (True, s1)"
    "s' = map_gate (\<lambda>g. snd (Token_Release True g)) s1"
    using assms(3) by (auto simp: ValueBinding_Push_def split: prod.splits)
  then have "vb_reader B (bind_control s') = bind_model s" using takes [OF w(1)] by (simp add: map_gate_def)
  moreover have "bind_model s' = bind_model s" using push_keeps_model(1) [OF assms(1,2)] assms(3) by simp
  ultimately show ?thesis by (simp add: ValueBinding_Pull_def Let_def)
qed

text \<open>A value that the validator rejects does not reach the application.\<close>

lemma rejected_pull_keeps_model:
  assumes "ValueBinding_Pull B s = (result, s')" and "\<not> vr_accepted result"
  shows "s' = s"
  using assms by (auto simp: ValueBinding_Pull_def Let_def split: if_splits)

end
