(* ===== verification/Spec2Isabelle.thy ===== *)
theory Spec2Isabelle
  imports Document_State Text_History Text_Search Tab_Workspace Commands
    Document_Coordination Docking_Drag Docking_Keyboard Docking_Auto_Hide Docking_Monitor
    Document_Session_Round_Trip Document_Session_Restore Docking_Session_Round_Trip
    Print_Spooling Printer_Blocks Command_Line Settings_Transaction Recent_Files Ipc_Listener
    Deployment_Rollback Process_Io Update_Safety Scheduler_Convergence Splitter Layout_Host Service Service_Manager Document_Tabs_View
    Single_Instance File_Association_Safety Async Message_Loop_Order Mdi_Host_Life Docking_Native_Rollback
    Tray_Icon Selection Binding
begin

text \<open>
  \<^bold>\<open>mwfl: documents, docking, printing, files, processes and services\<close>

  mwfl is a C++ framework for Windows programs.  This development models the parts with logic of their own:
  models without windows, formats, transactions over the file system and the registry, and the protocols
  with processes, pipes, services and native windows.  Paths below are under \<open>src/\<close>, most of them
  \<open>src/<name>.cpp\<close> with \<open>include/mwfl/<name>.h\<close>.  Theories build on \<open>Prelude\<close> (wide strings, vectors,
  the locales \<open>machine\<close> and \<open>revisioned\<close>), and operations keep the names of the code
  (\<open>Class::Method\<close> is \<open>Class_Method\<close>).

  \<^bold>\<open>Parts and theories\<close>

  \<^item> Documents: \<open>document\<close> (Document_State), \<open>text_history\<close> (Text_History), \<open>text_search\<close>
    (Text_Search), \<open>tab_workspace\<close> (Tab_Workspace), \<open>command\<close> (Commands), \<open>document_workspace\<close>
    (Document_Workspace; Workspace_Invariant, Workspace_Transfer), \<open>document_coordination\<close>
    (Document_Coordination), \<open>document_tabs\<close> (Document_Tabs, Document_Tabs_View), \<open>recent_files\<close>
    (Recent_Files), \<open>mdi\<close> (Mdi_Model, Mdi_Host, Mdi_Host_Life).
  \<^item> Docking: \<open>docking_workspace\<close> (Docking_Layout; Docking_Validity, Docking_Model), \<open>docking_drag\<close>,
    \<open>docking_keyboard\<close>, \<open>docking_auto_hide\<close>, \<open>docking_monitor\<close> (the theories of these names), and
    \<open>docking_native\<close> (Docking_Native, Docking_Native_Rollback).
  \<^item> Formats: \<open>text_file\<close> (Text_File), \<open>document_session\<close> (Document_Session with its round trip and
    restore), \<open>docking_session\<close> (Docking_Session with its round trip), over the stream operations of
    Wide_Stream, Wide_Double and Session_Lines.
  \<^item> Printing: \<open>printing\<close>, \<open>printing_native\<close>, \<open>printing_settings\<close> (Printing, Print_Transaction, Print_Job,
    Print_Spooling, Printer_Settings, Printer_Blocks).
  \<^item> System: \<open>core\<close> (Foundation), command lines (Command_Line), \<open>settings_store\<close> (Registry, Settings_Store,
    Settings_Transaction), \<open>ipc\<close> (Ipc, Ipc_Frames, Ipc_Listener), \<open>process\<close> (Process_Environment,
    Process_Launch, Process_Io), \<open>deployment\<close> (Deployment, Deployment_Rollback),
    \<open>app_support_update_checker\<close> and \<open>app_support_version\<close> (Update_Checker, Update_Safety),
    \<open>scheduler\<close> (Scheduler, Scheduler_Convergence), \<open>service\<close> (Service, Service_Manager),
    \<open>single_instance\<close> (Single_Instance), \<open>file_association\<close> (File_Association, File_Association_Safety),
    \<open>async\<close> (Async), \<open>message_pump\<close> and \<open>timer\<close> (Message_Loop, Message_Loop_Order).
  \<^item> Controls: \<open>tray_icon\<close> (Tray_Icon), \<open>selection\<close> and \<open>control_batch\<close> (Selection), \<open>binding\<close> (Binding).
  \<^item> Geometry: \<open>dpi\<close> (Dpi), \<open>splitter\<close> (Splitter), \<open>layout\<close> (Layout, Layout_Termination, Layout_Host),
    over the binary32 and binary64 values of Floating.

  \<^bold>\<open>How the parts interact\<close>

  A session writes the text format over the text file, which replaces the destination atomically; restoring
  feeds the workspace through the callbacks of the application.  A workspace projects on tabs and commands and
  is closed by the coordination.  Docking sessions (drag, keyboard, auto-hide) commit proposals of the
  layout model, which detects stale ones by its revision.  The environment and the command line of a process
  are those of Process_Environment and Command_Line; the scheduler, the service manager and the restart of an
  update quote with the same function.  Processes and pipes share the waits of Foundation, settings, recent
  files and the update checker the calls of Registry.

  \<^bold>\<open>Modelling\<close>

  \<^item> State is a record, passed explicitly.  Failures are values of a sum or of a status datatype, exceptions
    of callbacks the constructor \<open>Throws\<close>; undefined behaviour that a property meets is \<open>None\<close>.
  \<^item> Words have their width and wrap; a signed overflow of \<open>int64_t\<close> is a partial result (Checked_Int).
    \<open>float\<close> and \<open>double\<close> are rationals with infinities and NaN, rounded after every operation; the sign of
    zero is not recorded.
  \<^item> Windows is a parameter: a record of functions on a state \<open>'w\<close> (\<open>file_api\<close>, \<open>registry_api\<close>,
    \<open>pipe_api\<close>, \<open>process_api\<close>, \<open>deploy_api\<close>, \<open>scheduler_api\<close>, \<open>service_api\<close>, \<open>manager_api\<close>,
    \<open>printer_api\<close>, \<open>layout_api\<close>, \<open>tabs_api\<close>, \<open>instance_api\<close>, \<open>assoc_api\<close>, \<open>pump_api\<close>, \<open>mdi_api\<close>, ...),
    likewise path normalisation, case tables and character classes.  What a property needs of it is a
    named predicate (\<open>files_ok\<close>, \<open>registry_ok\<close>, \<open>pipe_ok\<close>, \<open>deploy_ok\<close>, \<open>clock_ok\<close>,
    \<open>scheduler_ok\<close>, \<open>services_ok\<close>, \<open>tab_control_ok\<close>, \<open>receivers_ok\<close>, \<open>assoc_ok\<close>,
    \<open>destroys\<close>, ...), and the witness of the property discharges it on a concrete small system.
  \<^item> Loops that might not end are \<open>partial_function (option)\<close> (connecting, draining, fetching a body,
    stretching a layout, the service host, forwarding an activation, the message loops, native calls), so
    \<open>None\<close> is a run that does not return; where the code promises to return, that is proved.  The only
    fuel is a literal bound of the code: 2 ^ 22 children in the layout (Layout_Termination).
  \<^item> Re-entrancy is explicit: callbacks are functions of the live state, filters change the chain they are
    called from, and a call into the window system that sends messages is a tree of them (Mdi_Host).
    Interleavings of threads are sequences of operations.

  \<^bold>\<open>What the lemmas show\<close>

  \<^item> Invariants: no sequence of operations leaves the well-formed states of tabs, documents, workspaces, MDI
    models, docking layouts and their sessions, splitters; revision counters tell every change although they
    wrap (interpretations of \<open>machine\<close> and \<open>revisioned\<close>).
  \<^item> Refinement: histories are zippers, layouts are forests of binary trees, environment blocks are maps,
    commits are exact or stale, applying a task or a service reaches its definition.
  \<^item> Round trips: sessions, settings, command lines, pipe frames, file associations, activations, lengths.
  \<^item> All-or-nothing: saving a file, applying an update, printing, dragging, moving a document with its page,
    closing a child; a failed save of settings is never loaded.
  \<^item> Returning: layouts, animations, the service life; ordering of message filters.
  \<^item> Lemmas that show what the code gets wrong are among them, such as
    \<open>failed_creation_loses_another_child\<close>, \<open>paused_service_accepts_no_control\<close> and
    \<open>returning_filter_repeats_message\<close>.

  \<^bold>\<open>Not modelled\<close>

  \<^item> Code that forwards to windows and controls without state of its own: window classes, controls, property
    sheets, dialogs, menus, appearance, graphics and Direct2D/3D hosts, imaging, OLE, WebView2,
    Scintilla, ribbon, shell, help and desktop wrappers, and the windows of splitter, preview and floating
    docking.  Their behaviour is that of the system.
  \<^item> Failing allocations and size limits of containers, closing of handles and reference counts, locks,
    the classic locale of streams, the sign of zero, embedded NULs in paths.
  \<^item> Examples, tests, tools and vendored code.
\<close>

end
